(* ===== verification/Prelude.thy ===== *)
theory Prelude
  imports Main "HOL-Library.AList" "HOL-Library.Sublist"
begin

text \<open>
  Shared material: the exceptions of the Python code as values, the result type of a
  fallible operation, lookups in insertion-ordered dictionaries, and the list facts that
  several components use.
\<close>

section \<open>Results of fallible operations\<close>

named_theorems res_simps \<open>unfolding of result-typed control flow\<close>

text \<open>
  The exceptions the modelled code raises or lets escape.  The text of a message is kept
  where the code chooses it and a caller can see it; a built-in error of the interpreter
  carries none.
\<close>

datatype pyexn =
    AttributeError
  | TypeError
  | ValueError string
  | KeyError string
  | IndexError
  | ZeroDivisionError
  | RuntimeError string
  | JSONDecodeError
  | OSError
  | CalledProcessError int

type_synonym 'a res = "pyexn + 'a"

definition bindr :: "'e + 'a \<Rightarrow> ('a \<Rightarrow> 'e + 'b) \<Rightarrow> 'e + 'b" where
  "bindr m f = (case m of Inl e \<Rightarrow> Inl e | Inr x \<Rightarrow> f x)"

lemma bindr_simps [simp, res_simps]:
  "bindr (Inl e) f = Inl e"
  "bindr (Inr x) f = f x"
  by (simp_all add: bindr_def)

lemma bindr_Inr_iff [res_simps]:
  "bindr m f = Inr y \<longleftrightarrow> (\<exists>x. m = Inr x \<and> f x = Inr y)"
  by (cases m) auto

lemma bindr_Inl_iff [res_simps]:
  "bindr m f = Inl e \<longleftrightarrow> m = Inl e \<or> (\<exists>x. m = Inr x \<and> f x = Inl e)"
  by (cases m) auto

text \<open>A comprehension whose body can raise: the first exception wins.\<close>

fun mapr :: "('a \<Rightarrow> 'e + 'b) \<Rightarrow> 'a list \<Rightarrow> 'e + 'b list" where
  "mapr f [] = Inr []"
| "mapr f (x # xs) = bindr (f x) (\<lambda>y. bindr (mapr f xs) (\<lambda>ys. Inr (y # ys)))"

fun filterr :: "('a \<Rightarrow> 'e + bool) \<Rightarrow> 'a list \<Rightarrow> 'e + 'a list" where
  "filterr p [] = Inr []"
| "filterr p (x # xs) =
     bindr (p x) (\<lambda>b. bindr (filterr p xs) (\<lambda>ys. Inr (if b then x # ys else ys)))"

lemma mapr_total: "(\<And>x. x \<in> set xs \<Longrightarrow> f x = Inr (g x)) \<Longrightarrow> mapr f xs = Inr (map g xs)"
  by (induction xs) auto

lemma mapr_map [simp]: "mapr h (map k xs) = mapr (\<lambda>x. h (k x)) xs"
  by (induction xs) simp_all

lemma filterr_total:
  "(\<And>x. x \<in> set xs \<Longrightarrow> p x = Inr (q x)) \<Longrightarrow> filterr p xs = Inr (filter q xs)"
  by (induction xs) auto

lemma filterr_Inl: "filterr p xs = Inl e \<Longrightarrow> \<exists>x \<in> set xs. p x = Inl e"
  by (induction xs) (auto simp: bindr_Inl_iff)

lemma filterr_raises: "x \<in> set xs \<Longrightarrow> p x = Inl e \<Longrightarrow> \<exists>e'. filterr p xs = Inl e'"
proof (induction xs)
  case Nil
  then show ?case by simp
next
  case (Cons y ys)
  then show ?case by (cases "p y"; cases "filterr p ys") auto
qed

lemma filterr_InrD:
  "filterr p xs = Inr ys \<Longrightarrow> ys = filter (\<lambda>x. p x = Inr True) xs \<and> (\<forall>x \<in> set xs. \<exists>b. p x = Inr b)"
  by (induction xs arbitrary: ys) (auto simp: bindr_Inr_iff split: if_splits)

section \<open>Dictionaries\<close>

text \<open>
  A Python \<open>dict\<close> keeps insertion order: it is an association list with distinct keys,
  read with \<open>map_of\<close>, written with \<open>AList.update\<close> (in place, or at the end for a new
  key) and popped with \<open>AList.delete\<close>.
\<close>

abbreviation dict_ok :: "('k \<times> 'v) list \<Rightarrow> bool" where
  "dict_ok d \<equiv> distinct (map fst d)"

definition dict_of_pairs :: "('k \<times> 'v) list \<Rightarrow> ('k \<times> 'v) list" where
  "dict_of_pairs ps = foldl (\<lambda>d p. AList.update (fst p) (snd p) d) [] ps"

lemma update_new_key: "k \<notin> fst ` set d \<Longrightarrow> AList.update k v d = d @ [(k, v)]"
  by (induction d) auto

lemma foldl_update_distinct:
  "distinct (map fst (d @ ps)) \<Longrightarrow>
     foldl (\<lambda>d p. AList.update (fst p) (snd p) d) d ps = d @ ps"
proof (induction ps arbitrary: d)
  case Nil
  then show ?case by simp
next
  case (Cons p ps)
  then have "fst p \<notin> fst ` set d" by auto
  then have "AList.update (fst p) (snd p) d = d @ [p]"
    by (simp add: update_new_key)
  with Cons show ?case by simp
qed

lemma dict_of_pairs_distinct [simp]: "dict_ok ps \<Longrightarrow> dict_of_pairs ps = ps"
  by (simp add: dict_of_pairs_def foldl_update_distinct)

lemma foldl_update_dict_ok:
  "dict_ok d \<Longrightarrow> dict_ok (foldl (\<lambda>d p. AList.update (fst p) (snd p) d) d ps)"
  by (induction ps arbitrary: d) (auto simp: distinct_update)

lemma dict_of_pairs_ok: "dict_ok (dict_of_pairs ps)"
  by (simp add: dict_of_pairs_def foldl_update_dict_ok)

lemma map_of_delete_same [simp]: "map_of (AList.delete k d) k = None"
  by (simp add: delete_conv')

lemma delete_append: "AList.delete k (d @ e) = AList.delete k d @ AList.delete k e"
  by (induction d) auto

section \<open>Lists\<close>

lemma takeWhile_append_stop:
  "list_all P xs \<Longrightarrow> (\<And>y. ys = y # tl ys \<Longrightarrow> \<not> P y) \<Longrightarrow> takeWhile P (xs @ ys) = xs"
  by (induction xs) (cases ys, auto)+

lemma dropWhile_append_stop:
  "list_all P xs \<Longrightarrow> (\<And>y. ys = y # tl ys \<Longrightarrow> \<not> P y) \<Longrightarrow> dropWhile P (xs @ ys) = ys"
  by (induction xs) (cases ys, auto)+

lemma concat_map_singleton_filter: "concat (map (\<lambda>x. if P x then [x] else []) xs) = filter P xs"
  by (induction xs) auto

lemma map_eq_lift:
  assumes "map f xs = map f ys"
    and "\<And>x y. x \<in> set xs \<Longrightarrow> y \<in> set ys \<Longrightarrow> f x = f y \<Longrightarrow> g x = g y"
  shows "map g xs = map g ys"
  using assms
proof (induction xs arbitrary: ys)
  case (Cons x xs)
  then obtain y zs where ys: "ys = y # zs" "f x = f y" "map f xs = map f zs" by (cases ys) auto
  then have "map g xs = map g zs" by (intro Cons.IH) (auto intro: Cons.prems(2))
  moreover have "g x = g y" by (rule Cons.prems(2)) (simp_all add: ys)
  ultimately show ?case by (simp add: ys(1))
qed simp

section \<open>Division\<close>

lemma pos_div_bounds:
  assumes "0 < (d :: int)"
  shows "d * (x div d) \<le> x" "x < d * (x div d) + d"
proof -
  have "x = d * (x div d) + x mod d" by simp
  then show "d * (x div d) \<le> x" "x < d * (x div d) + d"
    using pos_mod_sign [OF assms, of x] pos_mod_bound [OF assms, of x] by linarith+
qed

lemma ceil_div_le:
  assumes "0 < (d :: int)"
  shows "(x + d - 1) div d \<le> q \<longleftrightarrow> x \<le> d * q"
proof
  assume "(x + d - 1) div d \<le> q"
  then have "d * ((x + d - 1) div d) \<le> d * q" using assms by simp
  then show "x \<le> d * q" using pos_div_bounds(2) [OF assms, of "x + d - 1"] by linarith
next
  assume "x \<le> d * q"
  then have "d * ((x + d - 1) div d) < d * (q + 1)"
    using pos_div_bounds(1) [OF assms, of "x + d - 1"] by (simp add: distrib_left)
  then show "(x + d - 1) div d \<le> q" using assms by simp
qed

text \<open>
  Operations on a state that may raise: a step returns a result or an exception together
  with the state as it is then, so the changes made before an exception are kept.
  Sequencing, the elementary steps, and the rule by which a sequence keeps an invariant.
\<close>

section \<open>Steps\<close>

type_synonym ('a, 's) step = "'s \<Rightarrow> 'a res \<times> 's"

definition ret :: "'a \<Rightarrow> ('a, 's) step" where
  "ret a s = (Inr a, s)"

definition raise :: "pyexn \<Rightarrow> ('a, 's) step" where
  "raise x s = (Inl x, s)"

definition raising :: "'a res \<Rightarrow> ('a, 's) step" where
  "raising r s = (r, s)"

definition modify :: "('s \<Rightarrow> 's) \<Rightarrow> (unit, 's) step" where
  "modify f s = (Inr (), f s)"

definition seq :: "('a, 's) step \<Rightarrow> ('a \<Rightarrow> ('b, 's) step) \<Rightarrow> ('b, 's) step" where
  "seq m k s = (case m s of (Inl x, s') \<Rightarrow> (Inl x, s') | (Inr a, s') \<Rightarrow> k a s')"

lemma seq_Inr: "seq m k s = (Inr y, s') \<longleftrightarrow> (\<exists>x s1. m s = (Inr x, s1) \<and> k x s1 = (Inr y, s'))"
  by (auto simp: seq_def split: prod.splits sum.splits)

lemma seq_step: "m s = (Inr a, s1) \<Longrightarrow> seq m k s = k a s1" "m s = (Inl x, s1) \<Longrightarrow> seq m k s = (Inl x, s1)"
  by (simp_all add: seq_def)

lemma ret_apply [simp]: "ret a s = (Inr a, s)" "raise x s = (Inl x, s)" "raising r s = (r, s)"
  by (simp_all add: ret_def raise_def raising_def)

section \<open>Steps that keep an invariant\<close>

text \<open>\<open>keeps P m Q\<close>: \<open>m\<close> keeps \<open>P\<close> of the state on every outcome, and its result satisfies \<open>Q\<close>.\<close>

definition keeps :: "('s \<Rightarrow> bool) \<Rightarrow> ('a, 's) step \<Rightarrow> ('a \<Rightarrow> bool) \<Rightarrow> bool" where
  "keeps P m Q = (\<forall>s. P s \<longrightarrow> P (snd (m s)) \<and> (\<forall>x. fst (m s) = Inr x \<longrightarrow> Q x))"

named_theorems keep_rules

lemma keeps_ret [keep_rules]: "Q x \<Longrightarrow> keeps P (ret x) Q"
  by (simp add: keeps_def)

lemma keeps_raise [keep_rules]: "keeps P (raise e) Q"
  by (simp add: keeps_def)

lemma keeps_raising: "(\<And>x. r = Inr x \<Longrightarrow> Q x) \<Longrightarrow> keeps P (raising r) Q"
  by (simp add: keeps_def)

lemma keeps_seq:
  assumes "keeps P m Q" and "\<And>x. Q x \<Longrightarrow> keeps P (f x) R"
  shows "keeps P (seq m f) R"
  unfolding keeps_def
proof (intro allI impI)
  fix s assume "P s"
  obtain r s' where m: "m s = (r, s')" by (cases "m s")
  have "P s'" "\<And>x. r = Inr x \<Longrightarrow> Q x" using assms(1) \<open>P s\<close> m by (auto simp: keeps_def dest: spec [of _ s])
  then show "P (snd (seq m f s)) \<and> (\<forall>x. fst (seq m f s) = Inr x \<longrightarrow> R x)"
    using assms(2) m by (cases r) (auto simp: seq_def keeps_def)
qed

lemma keeps_weaken: "keeps P m Q \<Longrightarrow> (\<And>x. Q x \<Longrightarrow> R x) \<Longrightarrow> keeps P m R"
  by (auto simp: keeps_def)

end
