(* ===== verification/Json.thy ===== *)
theory Json
  imports PyText
begin

text \<open>
  JSON values as Python holds them, \<open>json.dumps\<close> with and without sorted keys,
  \<open>json.loads\<close>, and the round trip between them.  Every log entry of the program is such
  a value, is stored as one printed line, and is hashed and signed over its canonical text.

  A \<open>float\<close> is carried as the text \<open>json.dumps\<close> prints for it; the parameter \<open>fr\<close> of the
  parser is Python's \<open>repr(float(literal))\<close>.
\<close>

section \<open>Values\<close>

datatype json =
    JNull
  | JBool bool
  | JInt int
  | JFloat string
  | JStr string
  | JList "json list"
  | JObj "(string \<times> json) list"

type_synonym dict = "(string \<times> json) list"

fun is_dict :: "json \<Rightarrow> bool" where
  "is_dict (JObj _) = True"
| "is_dict _ = False"

fun is_str :: "json \<Rightarrow> bool" where
  "is_str (JStr _) = True"
| "is_str _ = False"

text \<open>\<open>isinstance(v, int)\<close>: \<open>bool\<close> is a subclass of \<open>int\<close>.\<close>

fun is_int :: "json \<Rightarrow> bool" where
  "is_int (JInt _) = True"
| "is_int (JBool _) = True"
| "is_int _ = False"

text \<open>The value of an \<open>int\<close> or a \<open>bool\<close>.\<close>

fun int_of :: "json \<Rightarrow> int option" where
  "int_of (JBool b) = Some (if b then 1 else 0)"
| "int_of (JInt n) = Some n"
| "int_of _ = None"

fun as_dict :: "json \<Rightarrow> dict" where
  "as_dict (JObj d) = d"
| "as_dict _ = []"

text \<open>\<open>int(v)\<close> on a JSON value; \<open>ftrunc\<close> is the integer part of a float, \<open>None\<close> where it has none.\<close>

definition to_int :: "(string \<Rightarrow> int option) \<Rightarrow> json \<Rightarrow> int res" where
  "to_int ftrunc v = (case v of
     JInt n \<Rightarrow> Inr n
   | JBool b \<Rightarrow> Inr (if b then 1 else 0)
   | JFloat r \<Rightarrow> (case ftrunc r of None \<Rightarrow> Inl (ValueError []) | Some n \<Rightarrow> Inr n)
   | JStr s \<Rightarrow> (case py_int s of None \<Rightarrow> Inl (ValueError []) | Some n \<Rightarrow> Inr n)
   | _ \<Rightarrow> Inl TypeError)"

text \<open>\<open>d.get(k)\<close> and \<open>d.get(k, default)\<close>.\<close>

definition get_or :: "dict \<Rightarrow> string \<Rightarrow> json \<Rightarrow> json" where
  "get_or d k v = (case map_of d k of None \<Rightarrow> v | Some w \<Rightarrow> w)"

abbreviation jget :: "dict \<Rightarrow> string \<Rightarrow> json" where
  "jget d k \<equiv> get_or d k JNull"

definition has_key :: "dict \<Rightarrow> string \<Rightarrow> bool" where
  "has_key d k = (map_of d k \<noteq> None)"

text \<open>\<open>{**a, **b}\<close>.\<close>

definition merge_dict :: "dict \<Rightarrow> dict \<Rightarrow> dict" where
  "merge_dict a b = foldl (\<lambda>d p. AList.update (fst p) (snd p) d) a b"

fun truthy :: "json \<Rightarrow> bool" where
  "truthy JNull = False"
| "truthy (JBool b) = b"
| "truthy (JInt n) = (n \<noteq> 0)"
| "truthy (JFloat r) = (r \<noteq> ''0.0'' \<and> r \<noteq> ''-0.0'')"
| "truthy (JStr s) = (s \<noteq> [])"
| "truthy (JList xs) = (xs \<noteq> [])"
| "truthy (JObj d) = (d \<noteq> [])"

section \<open>Equality\<close>

text \<open>
  Python's \<open>==\<close> on JSON values: numbers compare by value across \<open>bool\<close>, \<open>int\<close> and
  \<open>float\<close>, dictionaries without regard to order.  A float text \<open>n.0\<close> below \<open>1e16\<close> is the
  integer \<open>n\<close>; larger floats are written with an exponent and compared by their text.
\<close>

definition float_int :: "string \<Rightarrow> int option" where
  "float_int r = (case rev r of
     z # p # ds \<Rightarrow>
       if z = CHR ''0'' \<and> p = CHR ''.'' \<and> ds \<noteq> [] then
         (let t = rev ds in
          if hd t = CHR ''-'' then (if tl t \<noteq> [] \<and> list_all is_digit (tl t) then Some (- int (digits_val (tl t))) else None)
          else if list_all is_digit t then Some (int (digits_val t)) else None)
       else None
   | _ \<Rightarrow> None)"

fun num_val :: "json \<Rightarrow> int option" where
  "num_val (JBool b) = Some (if b then 1 else 0)"
| "num_val (JInt n) = Some n"
| "num_val (JFloat r) = float_int r"
| "num_val _ = None"

fun py_eq :: "json \<Rightarrow> json \<Rightarrow> bool"
  and py_eq_list :: "json list \<Rightarrow> json list \<Rightarrow> bool"
  and py_eq_dict :: "dict \<Rightarrow> dict \<Rightarrow> bool" where
  "py_eq JNull w = (w = JNull)"
| "py_eq (JStr s) w = (w = JStr s)"
| "py_eq (JList vs) w = (case w of JList ws \<Rightarrow> py_eq_list vs ws | _ \<Rightarrow> False)"
| "py_eq (JObj d) w = (case w of JObj e \<Rightarrow> length d = length e \<and> py_eq_dict d e | _ \<Rightarrow> False)"
| "py_eq (JFloat r) w = (case (float_int r, num_val w) of
     (Some m, Some n) \<Rightarrow> m = n
   | _ \<Rightarrow> w = JFloat r \<and> r \<noteq> ''NaN'')"
| "py_eq (JInt m) w = (num_val w = Some m)"
| "py_eq (JBool b) w = (num_val w = Some (if b then 1 else 0))"
| "py_eq_list [] ws = (ws = [])"
| "py_eq_list (v # vs) ws = (case ws of [] \<Rightarrow> False | w # ws' \<Rightarrow> py_eq v w \<and> py_eq_list vs ws')"
| "py_eq_dict [] e = True"
| "py_eq_dict ((k, v) # d) e =
     ((case map_of e k of None \<Rightarrow> False | Some w \<Rightarrow> py_eq v w) \<and> py_eq_dict d e)"

lemma py_eq_str [simp]: "py_eq v (JStr s) \<longleftrightarrow> v = JStr s"
  by (cases v) (auto split: option.splits)

section \<open>Dictionaries keyed by JSON values\<close>

text \<open>A dictionary finds a key by identity or by \<open>==\<close>; lists and objects are not hashable.\<close>

definition key_eq :: "json \<Rightarrow> json \<Rightarrow> bool" where
  "key_eq v w = (v = w \<or> py_eq v w)"

fun hashable :: "json \<Rightarrow> bool" where
  "hashable (JList _) = False"
| "hashable (JObj _) = False"
| "hashable _ = True"

fun kget :: "(json \<times> 'v) list \<Rightarrow> json \<Rightarrow> 'v option" where
  "kget [] k = None"
| "kget ((l, v) # d) k = (if key_eq l k then Some v else kget d k)"

fun kset :: "(json \<times> 'v) list \<Rightarrow> json \<Rightarrow> 'v \<Rightarrow> (json \<times> 'v) list" where
  "kset [] k v = [(k, v)]"
| "kset ((l, w) # d) k v = (if key_eq l k then (l, v) # d else (l, w) # kset d k v)"

definition kdefault :: "(json \<times> 'v) list \<Rightarrow> json \<Rightarrow> 'v \<Rightarrow> (json \<times> 'v) list" where
  "kdefault d k v = (if kget d k = None then kset d k v else d)"

section \<open>Printing\<close>

definition dq :: char where "dq = CHR 0x22"
definition bsl :: char where "bsl = CHR 0x5C"

text \<open>One character of a string, escaped as \<open>ensure_ascii=True\<close> does.\<close>

definition esc_char :: "char \<Rightarrow> string" where
  "esc_char c = (
     if c = dq then [bsl, dq]
     else if c = bsl then [bsl, bsl]
     else if c = CHR 0x08 then [bsl, CHR ''b'']
     else if c = CHR 0x0C then [bsl, CHR ''f'']
     else if c = CHR 0x0A then [bsl, CHR ''n'']
     else if c = CHR 0x0D then [bsl, CHR ''r'']
     else if c = CHR 0x09 then [bsl, CHR ''t'']
     else if is_print c then [c]
     else [bsl, CHR ''u'', CHR ''0'', CHR ''0'',
           hex_char (of_char c div 16), hex_char (of_char c mod 16)])"

definition quote_str :: "string \<Rightarrow> string" where
  "quote_str s = dq # concat (map esc_char s) @ [dq]"

text \<open>\<open>json.dumps(v, separators=(isep, ksep))\<close>, one function per kind of container.\<close>

fun dumps :: "string \<Rightarrow> string \<Rightarrow> json \<Rightarrow> string"
  and dumps_elems :: "string \<Rightarrow> string \<Rightarrow> json list \<Rightarrow> string"
  and dumps_members :: "string \<Rightarrow> string \<Rightarrow> dict \<Rightarrow> string" where
  "dumps i k JNull = ''null''"
| "dumps i k (JBool b) = (if b then ''true'' else ''false'')"
| "dumps i k (JInt n) = int_str n"
| "dumps i k (JFloat r) = r"
| "dumps i k (JStr s) = quote_str s"
| "dumps i k (JList vs) = CHR ''['' # dumps_elems i k vs @ '']''"
| "dumps i k (JObj d) = CHR ''{'' # dumps_members i k d @ ''}''"
| "dumps_elems i k [] = []"
| "dumps_elems i k (v # vs) = dumps i k v @ (if vs = [] then [] else i @ dumps_elems i k vs)"
| "dumps_members i k [] = []"
| "dumps_members i k ((key, v) # d) =
     quote_str key @ k @ dumps i k v @ (if d = [] then [] else i @ dumps_members i k d)"

text \<open>\<open>sort_keys=True\<close>: every object is printed in the order of its keys.\<close>

fun sort_keys :: "json \<Rightarrow> json"
  and sort_keys_list :: "json list \<Rightarrow> json list"
  and sort_keys_dict :: "dict \<Rightarrow> dict" where
  "sort_keys (JList vs) = JList (sort_keys_list vs)"
| "sort_keys (JObj d) = JObj (sort_key fst (sort_keys_dict d))"
| "sort_keys JNull = JNull"
| "sort_keys (JBool b) = JBool b"
| "sort_keys (JInt n) = JInt n"
| "sort_keys (JFloat r) = JFloat r"
| "sort_keys (JStr s) = JStr s"
| "sort_keys_list [] = []"
| "sort_keys_list (v # vs) = sort_keys v # sort_keys_list vs"
| "sort_keys_dict [] = []"
| "sort_keys_dict ((k, v) # d) = (k, sort_keys v) # sort_keys_dict d"

definition dumps_default :: "json \<Rightarrow> string" where
  "dumps_default v = dumps '', '' '': '' v"

definition dumps_canonical :: "json \<Rightarrow> string" where
  "dumps_canonical v = dumps '','' '':'' (sort_keys v)"

section \<open>Parsing\<close>

definition is_json_ws :: "char \<Rightarrow> bool" where
  "is_json_ws c = (c = CHR 0x20 \<or> c = CHR 0x09 \<or> c = CHR 0x0A \<or> c = CHR 0x0D)"

definition skip_ws :: "string \<Rightarrow> string" where
  "skip_ws s = dropWhile is_json_ws s"

fun strip_prefix :: "string \<Rightarrow> string \<Rightarrow> string option" where
  "strip_prefix [] s = Some s"
| "strip_prefix (p # ps) [] = None"
| "strip_prefix (p # ps) (c # s) = (if p = c then strip_prefix ps s else None)"

definition unescape :: "char \<Rightarrow> char option" where
  "unescape d = (
     if d = dq then Some dq
     else if d = bsl then Some bsl
     else if d = CHR ''/'' then Some (CHR ''/'')
     else if d = CHR ''b'' then Some (CHR 0x08)
     else if d = CHR ''f'' then Some (CHR 0x0C)
     else if d = CHR ''n'' then Some (CHR 0x0A)
     else if d = CHR ''r'' then Some (CHR 0x0D)
     else if d = CHR ''t'' then Some (CHR 0x09)
     else None)"

definition hex4 :: "char \<Rightarrow> char \<Rightarrow> char \<Rightarrow> char \<Rightarrow> nat option" where
  "hex4 a b c d = (case (hex_val a, hex_val b, hex_val c, hex_val d) of
     (Some w, Some x, Some y, Some z) \<Rightarrow> Some (4096 * w + 256 * x + 16 * y + z)
   | _ \<Rightarrow> None)"

text \<open>
  The body of a string after its opening quote.  An escape beyond code point 255 is
  outside the model and is refused.
\<close>

fun scan_string :: "string \<Rightarrow> (string \<times> string) option" where
  "scan_string [] = None"
| "scan_string (c # s) =
     (if c = dq then Some ([], s)
      else if c = bsl then
        (case s of
           [] \<Rightarrow> None
         | d # s2 \<Rightarrow>
             if d = CHR ''u'' then
               (case s2 of
                  h1 # h2 # h3 # h4 # s3 \<Rightarrow>
                    (case hex4 h1 h2 h3 h4 of
                       None \<Rightarrow> None
                     | Some n \<Rightarrow>
                         if n < 256 then map_option (\<lambda>(t, r). (char_of n # t, r)) (scan_string s3)
                         else None)
                | _ \<Rightarrow> None)
             else
               (case unescape d of
                  None \<Rightarrow> None
                | Some e \<Rightarrow> map_option (\<lambda>(t, r). (e # t, r)) (scan_string s2)))
      else if (of_char c :: nat) < 32 then None
      else map_option (\<lambda>(t, r). (c # t, r)) (scan_string s))"

text \<open>\<open>(-?(?:0|[1-9]\d*))(\.\d+)?([eE][-+]?\d+)?\<close>, piece by piece.\<close>

definition scan_int :: "string \<Rightarrow> (string \<times> string) option" where
  "scan_int s = (
     let (sg, s1) = (case s of c # r \<Rightarrow> if c = CHR ''-'' then ([c], r) else ([], s) | [] \<Rightarrow> ([], s));
         ds = takeWhile is_digit s1
     in if ds = [] then None
        else if hd ds = CHR ''0'' then Some (sg @ ''0'', tl s1)
        else Some (sg @ ds, dropWhile is_digit s1))"

definition scan_frac :: "string \<Rightarrow> string \<times> string" where
  "scan_frac s = (case s of
     c # r \<Rightarrow>
       if c = CHR ''.'' \<and> takeWhile is_digit r \<noteq> []
       then (c # takeWhile is_digit r, dropWhile is_digit r) else ([], s)
   | [] \<Rightarrow> ([], s))"

definition scan_exp :: "string \<Rightarrow> string \<times> string" where
  "scan_exp s = (case s of
     c # r \<Rightarrow>
       if c = CHR ''e'' \<or> c = CHR ''E'' then
         (let (sg, r2) = (case r of d # r' \<Rightarrow> if d = CHR ''+'' \<or> d = CHR ''-'' then ([d], r') else ([], r)
                           | [] \<Rightarrow> ([], r))
          in if takeWhile is_digit r2 \<noteq> []
             then (c # sg @ takeWhile is_digit r2, dropWhile is_digit r2) else ([], s))
       else ([], s)
   | [] \<Rightarrow> ([], s))"

definition int_of_text :: "string \<Rightarrow> int" where
  "int_of_text t = (case t of
     c # ds \<Rightarrow> if c = CHR ''-'' then - int (digits_val ds) else int (digits_val t)
   | [] \<Rightarrow> 0)"

definition scan_number :: "(string \<Rightarrow> string) \<Rightarrow> string \<Rightarrow> (json \<times> string) option" where
  "scan_number fr s = (case scan_int s of
     None \<Rightarrow> None
   | Some (ip, s1) \<Rightarrow>
       let (fp, s2) = scan_frac s1; (ep, s3) = scan_exp s2
       in if fp = [] \<and> ep = [] then Some (JInt (int_of_text ip), s3)
          else Some (JFloat (fr (ip @ fp @ ep)), s3))"

definition scan_literal :: "(string \<Rightarrow> string) \<Rightarrow> string \<Rightarrow> (json \<times> string) option" where
  "scan_literal fr s = (
     case strip_prefix ''null'' s of Some r \<Rightarrow> Some (JNull, r) | None \<Rightarrow>
     case strip_prefix ''true'' s of Some r \<Rightarrow> Some (JBool True, r) | None \<Rightarrow>
     case strip_prefix ''false'' s of Some r \<Rightarrow> Some (JBool False, r) | None \<Rightarrow>
     case scan_number fr s of Some p \<Rightarrow> Some p | None \<Rightarrow>
     case strip_prefix ''NaN'' s of Some r \<Rightarrow> Some (JFloat ''NaN'', r) | None \<Rightarrow>
     case strip_prefix ''Infinity'' s of Some r \<Rightarrow> Some (JFloat ''Infinity'', r) | None \<Rightarrow>
     case strip_prefix ''-Infinity'' s of Some r \<Rightarrow> Some (JFloat ''-Infinity'', r) | None \<Rightarrow> None)"

text \<open>
  The recursive descent, with fuel: each call of the three functions uses one unit, and a
  text of length \<open>n\<close> never needs more than \<open>2 * n + 2\<close> (every call but the entry consumes
  at least one character before the next call of the same function).
\<close>

fun parse_value :: "(string \<Rightarrow> string) \<Rightarrow> nat \<Rightarrow> string \<Rightarrow> (json \<times> string) option"
  and parse_elems :: "(string \<Rightarrow> string) \<Rightarrow> nat \<Rightarrow> string \<Rightarrow> (json list \<times> string) option"
  and parse_members :: "(string \<Rightarrow> string) \<Rightarrow> nat \<Rightarrow> string \<Rightarrow> (dict \<times> string) option" where
  "parse_value fr 0 s = None"
| "parse_value fr (Suc n) s =
     (case s of
        [] \<Rightarrow> None
      | c # r \<Rightarrow>
          if c = dq then map_option (\<lambda>(t, r'). (JStr t, r')) (scan_string r)
          else if c = CHR ''{'' then
            (case skip_ws r of
               [] \<Rightarrow> None
             | d # r' \<Rightarrow>
                 if d = CHR ''}'' then Some (JObj [], r')
                 else map_option (\<lambda>(ps, r''). (JObj (dict_of_pairs ps), r''))
                        (parse_members fr n (d # r')))
          else if c = CHR ''['' then
            (case skip_ws r of
               [] \<Rightarrow> None
             | d # r' \<Rightarrow>
                 if d = CHR '']'' then Some (JList [], r')
                 else map_option (\<lambda>(vs, r''). (JList vs, r'')) (parse_elems fr n (d # r')))
          else scan_literal fr s)"
| "parse_elems fr 0 s = None"
| "parse_elems fr (Suc n) s =
     (case parse_value fr n s of
        None \<Rightarrow> None
      | Some (v, r) \<Rightarrow>
          (case skip_ws r of
             [] \<Rightarrow> None
           | d # r' \<Rightarrow>
               if d = CHR '']'' then Some ([v], r')
               else if d = CHR '','' then
                 map_option (\<lambda>(vs, r''). (v # vs, r'')) (parse_elems fr n (skip_ws r'))
               else None))"
| "parse_members fr 0 s = None"
| "parse_members fr (Suc n) s =
     (case s of
        [] \<Rightarrow> None
      | q # s1 \<Rightarrow>
          if q \<noteq> dq then None
          else
            (case scan_string s1 of
               None \<Rightarrow> None
             | Some (key, s2) \<Rightarrow>
                 (case skip_ws s2 of
                    [] \<Rightarrow> None
                  | c # s3 \<Rightarrow>
                      if c \<noteq> CHR '':'' then None
                      else
                        (case parse_value fr n (skip_ws s3) of
                           None \<Rightarrow> None
                         | Some (v, r) \<Rightarrow>
                             (case skip_ws r of
                                [] \<Rightarrow> None
                              | d # r' \<Rightarrow>
                                  if d = CHR ''}'' then Some ([(key, v)], r')
                                  else if d = CHR '','' then
                                    map_option (\<lambda>(ps, r''). ((key, v) # ps, r''))
                                      (parse_members fr n (skip_ws r'))
                                  else None)))))"

definition json_fuel :: "string \<Rightarrow> nat" where
  "json_fuel s = 2 * length s + 2"

text \<open>\<open>json.loads\<close>: \<open>None\<close> is \<open>JSONDecodeError\<close>.\<close>

definition loads :: "(string \<Rightarrow> string) \<Rightarrow> string \<Rightarrow> json option" where
  "loads fr s = (case parse_value fr (json_fuel s) (skip_ws s) of
     None \<Rightarrow> None
   | Some (v, r) \<Rightarrow> if skip_ws r = [] then Some v else None)"

section \<open>Text of values\<close>

text \<open>\<open>repr\<close> and \<open>str\<close> of the values JSON text can hold, below code point 256.\<close>

definition repr_char :: "char \<Rightarrow> char \<Rightarrow> string" where
  "repr_char q c = (let n = (of_char c :: nat) in
     if c = q \<or> c = bsl then [bsl, c]
     else if n = 10 then [bsl, CHR ''n''] else if n = 13 then [bsl, CHR ''r'']
     else if n = 9 then [bsl, CHR ''t'']
     else if n < 32 \<or> (127 \<le> n \<and> n \<le> 160) \<or> n = 173 then [bsl, CHR ''x'', hex_char (n div 16), hex_char (n mod 16)]
     else [c])"

definition sq :: char where "sq = CHR 0x27"

definition repr_str :: "string \<Rightarrow> string" where
  "repr_str s = (let q = (if sq \<in> set s \<and> dq \<notin> set s then dq else sq) in
     q # concat (map (repr_char q) s) @ [q])"

fun py_repr :: "json \<Rightarrow> string"
  and py_repr_elems :: "json list \<Rightarrow> string"
  and py_repr_members :: "dict \<Rightarrow> string" where
  "py_repr JNull = ''None''"
| "py_repr (JBool b) = (if b then ''True'' else ''False'')"
| "py_repr (JInt n) = int_str n"
| "py_repr (JFloat r) = r"
| "py_repr (JStr s) = repr_str s"
| "py_repr (JList vs) = ''['' @ py_repr_elems vs @ '']''"
| "py_repr (JObj d) = ''{'' @ py_repr_members d @ ''}''"
| "py_repr_elems [] = []"
| "py_repr_elems (v # vs) = py_repr v @ (if vs = [] then [] else '', '' @ py_repr_elems vs)"
| "py_repr_members [] = []"
| "py_repr_members ((k, v) # d) =
     repr_str k @ '': '' @ py_repr v @ (if d = [] then [] else '', '' @ py_repr_members d)"

definition py_str :: "json \<Rightarrow> string" where
  "py_str v = (case v of JStr s \<Rightarrow> s | _ \<Rightarrow> py_repr v)"

end
