(* ===== verification/Json_Roundtrip.thy ===== *)
theory Json_Roundtrip
  imports Json "HOL-Library.Multiset"
begin

text \<open>
  \<open>json.loads\<close> reads back what \<open>json.dumps\<close> wrote, for every value with distinct keys and
  canonical float texts, with either pair of separators the program uses.  From it follow
  that canonical text determines a value up to the order of keys, and that a printed value
  is one line of printable characters.  The parser's fuel is shown to be enough.
\<close>

section \<open>Well-formed values\<close>

definition float_text :: "(string \<Rightarrow> string) \<Rightarrow> string \<Rightarrow> bool" where
  "float_text fr r = (list_all is_print r \<and> scan_literal fr r = Some (JFloat r, []))"

fun wf_json :: "(string \<Rightarrow> string) \<Rightarrow> json \<Rightarrow> bool"
  and wf_list :: "(string \<Rightarrow> string) \<Rightarrow> json list \<Rightarrow> bool"
  and wf_members :: "(string \<Rightarrow> string) \<Rightarrow> dict \<Rightarrow> bool" where
  "wf_json fr (JFloat r) = float_text fr r"
| "wf_json fr (JList vs) = wf_list fr vs"
| "wf_json fr (JObj d) = (dict_ok d \<and> wf_members fr d)"
| "wf_json fr _ = True"
| "wf_list fr [] = True"
| "wf_list fr (v # vs) = (wf_json fr v \<and> wf_list fr vs)"
| "wf_members fr [] = True"
| "wf_members fr ((k, v) # d) = (wf_json fr v \<and> wf_members fr d)"

abbreviation wf_dict :: "(string \<Rightarrow> string) \<Rightarrow> dict \<Rightarrow> bool" where
  "wf_dict fr d \<equiv> wf_json fr (JObj d)"

lemma wf_members_iff: "wf_members fr d \<longleftrightarrow> (\<forall>p \<in> set d. wf_json fr (snd p))"
  by (induction d) auto

lemma wf_list_iff: "wf_list fr vs \<longleftrightarrow> (\<forall>v \<in> set vs. wf_json fr v)"
  by (induction vs) auto

lemma wf_members_append [simp]: "wf_members fr (d @ e) \<longleftrightarrow> wf_members fr d \<and> wf_members fr e"
  by (auto simp: wf_members_iff)

lemma wf_dict_delete: "wf_dict fr d \<Longrightarrow> wf_dict fr (AList.delete k d)"
  by (simp add: distinct_delete wf_members_iff) (auto simp: AList.delete_eq)

lemma wf_get: "wf_dict fr d \<Longrightarrow> wf_json fr (get_or d k JNull)"
  by (auto simp: get_or_def wf_members_iff split: option.splits dest: map_of_SomeD)

lemma wf_members_update: "wf_members fr d \<Longrightarrow> wf_json fr v \<Longrightarrow> wf_members fr (AList.update k v d)"
  by (induction d) auto

lemma wf_dict_update: "wf_dict fr d \<Longrightarrow> wf_json fr v \<Longrightarrow> wf_dict fr (AList.update k v d)"
  by (simp add: distinct_update wf_members_update)

lemma wf_merge: "wf_dict fr a \<Longrightarrow> wf_dict fr b \<Longrightarrow> wf_dict fr (merge_dict a b)"
proof -
  have "wf_members fr b \<Longrightarrow> wf_dict fr a \<Longrightarrow> wf_dict fr (merge_dict a b)" for b
    unfolding merge_dict_def
  proof (induction b arbitrary: a)
    case (Cons p b)
    then show ?case by (cases p) (simp add: wf_dict_update del: wf_json.simps)
  qed simp
  then show "wf_dict fr a \<Longrightarrow> wf_dict fr b \<Longrightarrow> wf_dict fr (merge_dict a b)" by simp
qed

lemma wf_get_str: "wf_dict fr d \<Longrightarrow> wf_json fr (get_or d k (JStr s))"
  by (auto simp: get_or_def wf_members_iff split: option.splits dest: map_of_SomeD)

section \<open>Strings\<close>

lemma of_char_less: "(of_char c :: nat) < 256"
  by (metis of_char_of char_of_char mod_less_divisor zero_less_numeral)

lemma esc_char_plain:
  "is_print c \<Longrightarrow> c \<noteq> dq \<Longrightarrow> c \<noteq> bsl \<Longrightarrow> esc_char c = [c] \<and> \<not> (of_char c :: nat) < 32"
  by (auto simp: esc_char_def is_print_def Let_def)

lemma scan_esc_char:
  "scan_string (esc_char c @ r) = map_option (\<lambda>(t, u). (c # t, u)) (scan_string r)"
proof -
  consider (special) "c \<in> {dq, bsl, CHR 0x08, CHR 0x0C, CHR 0x0A, CHR 0x0D, CHR 0x09}"
    | (plain) "c \<notin> {dq, bsl, CHR 0x08, CHR 0x0C, CHR 0x0A, CHR 0x0D, CHR 0x09}" "is_print c"
    | (hex) "c \<notin> {dq, bsl, CHR 0x08, CHR 0x0C, CHR 0x0A, CHR 0x0D, CHR 0x09}" "\<not> is_print c"
    by blast
  then show ?thesis
  proof cases
    case special
    then show ?thesis by (auto simp: esc_char_def unescape_def dq_def bsl_def)
  next
    case plain
    then show ?thesis using esc_char_plain [of c] by auto
  next
    case hex
    let ?n = "of_char c :: nat"
    have h: "hex_val (hex_char (?n div 16)) = Some (?n div 16)"
      using of_char_less [of c] by (simp add: hex_char_val less_mult_imp_div_less)
    have l: "hex_val (hex_char (?n mod 16)) = Some (?n mod 16)" by (simp add: hex_char_val)
    have z: "hex_val (CHR ''0'') = Some 0" by (simp add: hex_val_def)
    have "hex4 (CHR ''0'') (CHR ''0'') (hex_char (?n div 16)) (hex_char (?n mod 16)) = Some ?n"
      by (simp only: hex4_def h l z prod.case option.case) simp
    with hex of_char_less [of c] show ?thesis
      by (simp add: esc_char_def dq_def bsl_def)
  qed
qed

lemma scan_escaped: "scan_string (concat (map esc_char s) @ dq # r) = Some (s, r)"
  by (induction s) (simp_all add: scan_esc_char)

lemma is_print_specials [simp]:
  "is_print dq" "is_print bsl" "is_print (CHR ''b'')" "is_print (CHR ''f'')" "is_print (CHR ''n'')"
  "is_print (CHR ''r'')" "is_print (CHR ''t'')" "is_print (CHR ''u'')" "is_print (CHR ''0'')"
  by (simp_all add: is_print_def dq_def bsl_def)

lemma esc_char_print: "list_all is_print (esc_char c)"
proof -
  have "is_print (hex_char (of_char c div 16))" "is_print (hex_char (of_char c mod 16))"
    using of_char_less [of c] by (simp_all add: hex_char_val less_mult_imp_div_less)
  then show ?thesis by (simp add: esc_char_def)
qed

lemma quote_str_print: "list_all is_print (quote_str s)"
  by (simp add: quote_str_def list_all_iff esc_char_print [unfolded list_all_iff])

section \<open>Numbers\<close>

text \<open>What may follow a printed value: the end, white space, a comma or a closing bracket.\<close>

definition stop :: "string \<Rightarrow> bool" where
  "stop s = (case s of [] \<Rightarrow> True
     | c # _ \<Rightarrow> is_json_ws c \<or> c = CHR '','' \<or> c = CHR '']'' \<or> c = CHR ''}'')"

lemma stop_simps [simp]:
  "stop []" "stop (CHR '','' # s)" "stop (CHR '']'' # s)" "stop (CHR ''}'' # s)" "stop (CHR 0x0A # s)"
  by (simp_all add: stop_def is_json_ws_def)

lemma stop_hd:
  assumes "stop (c # s)"
  shows "\<not> is_digit c" "c \<noteq> CHR ''.''" "c \<noteq> CHR ''e''" "c \<noteq> CHR ''E''" "c \<noteq> CHR ''-''" "c \<noteq> CHR ''+''"
  using assms by (auto simp: stop_def is_json_ws_def is_digit_def)

lemma takeWhile_stop: "stop r \<Longrightarrow> takeWhile is_digit (s @ r) = takeWhile is_digit s"
  by (induction s) (cases r, auto dest: stop_hd)+

lemma dropWhile_stop: "stop r \<Longrightarrow> dropWhile is_digit (s @ r) = dropWhile is_digit s @ r"
  by (induction s) (cases r, auto dest: stop_hd)+

lemma tl_append_digits: "takeWhile is_digit x \<noteq> [] \<Longrightarrow> tl (x @ r) = tl x @ r"
  by (cases x) auto

lemma scan_int_append:
  assumes "scan_int s = Some (a, t)" and "stop r"
  shows "scan_int (s @ r) = Some (a, t @ r)"
proof (cases s)
  case Nil
  with assms show ?thesis by (simp add: scan_int_def)
next
  case (Cons c u)
  note tk = takeWhile_stop [OF assms(2)] and dr = dropWhile_stop [OF assms(2)]
  show ?thesis
  proof (cases "c = CHR ''-''")
    case True
    with Cons assms tk [of u] dr [of u] tl_append_digits [of u r] show ?thesis
      by (auto simp: scan_int_def Let_def split: if_splits)
  next
    case False
    with Cons assms tk [of "c # u"] dr [of "c # u"] show ?thesis
      by (auto simp: scan_int_def Let_def split: if_splits)
  qed
qed

lemma scan_frac_append:
  assumes "scan_frac s = (a, t)" and "stop r"
  shows "scan_frac (s @ r) = (a, t @ r)"
  using assms by (cases s; cases r) (auto simp: scan_frac_def takeWhile_stop dropWhile_stop
      dest: stop_hd split: if_splits)

lemma scan_exp_append:
  assumes "scan_exp s = (a, t)" and "stop r"
  shows "scan_exp (s @ r) = (a, t @ r)"
proof (cases s)
  case Nil
  with assms show ?thesis by (cases r) (auto simp: scan_exp_def dest: stop_hd)
next
  case (Cons c u)
  note tk = takeWhile_stop [OF assms(2)] and dr = dropWhile_stop [OF assms(2)]
  show ?thesis
  proof (cases u)
    case Nil
    with Cons assms show ?thesis
      by (cases r) (auto simp: scan_exp_def dest: stop_hd split: if_splits)
  next
    fix d w assume "u = d # w"
    with Cons assms tk [of w] dr [of w] tk [of "d # w"] dr [of "d # w"] show ?thesis
      by (auto simp: scan_exp_def split: if_splits)
  qed
qed

lemma scan_number_append:
  assumes "scan_number fr s = Some (v, t)" and "stop r"
  shows "scan_number fr (s @ r) = Some (v, t @ r)"
  using assms
  by (auto simp: scan_number_def scan_int_append dest: scan_frac_append scan_exp_append
      split: option.splits prod.splits if_splits)
     (metis scan_frac_append scan_exp_append Pair_inject)+

lemma strip_prefix_append: "strip_prefix p s = Some t \<Longrightarrow> strip_prefix p (s @ r) = Some (t @ r)"
  by (induction p s rule: strip_prefix.induct) (auto split: if_splits)

lemma strip_prefix_eq: "strip_prefix p s = Some t \<longleftrightarrow> s = p @ t"
  by (induction p s rule: strip_prefix.induct) auto

lemma strip_prefix_hd: "s = c # u \<Longrightarrow> p = d # q \<Longrightarrow> c \<noteq> d \<Longrightarrow> strip_prefix p s = None"
  by simp

lemma scan_number_hd:
  "scan_number fr s = Some (v, t) \<Longrightarrow> \<exists>c u. s = c # u \<and> (c = CHR ''-'' \<or> is_digit c)"
  by (cases s)
     (auto simp: scan_number_def scan_int_def Let_def split: if_splits prod.splits option.splits)

lemma scan_literal_number:
  assumes "scan_number fr s = Some (v, t)"
  shows "scan_literal fr s = Some (v, t)"
proof -
  obtain c u where s: "s = c # u" and c: "c = CHR ''-'' \<or> is_digit c"
    using scan_number_hd [OF assms] by blast
  then have "c \<noteq> CHR ''n''" "c \<noteq> CHR ''t''" "c \<noteq> CHR ''f''" by (auto simp: is_digit_def)
  with assms s show ?thesis by (simp add: scan_literal_def)
qed

lemma scan_number_no_float_word:
  assumes "s \<in> {''NaN'', ''Infinity'', ''-Infinity''}" and "stop r"
  shows "scan_literal fr (s @ r) = Some (JFloat s, r)"
  using assms by (auto simp: scan_literal_def scan_number_def scan_int_def is_digit_def)

lemma float_text_cases:
  assumes "float_text fr r"
  shows "scan_number fr r = Some (JFloat r, []) \<or> r \<in> {''NaN'', ''Infinity'', ''-Infinity''}"
  using assms
  by (auto simp: float_text_def scan_literal_def strip_prefix_eq split: option.splits)

lemma scan_float_text:
  assumes "float_text fr t" and "stop r"
  shows "scan_literal fr (t @ r) = Some (JFloat t, r)"
  using float_text_cases [OF assms(1)] scan_number_append [OF _ assms(2), of fr t _ "[]"]
    scan_literal_number scan_number_no_float_word [OF _ assms(2)] by fastforce

lemma float_text_hd:
  assumes "float_text fr t"
  shows "\<exists>c u. t = c # u \<and> c \<noteq> dq \<and> c \<noteq> CHR ''{'' \<and> c \<noteq> CHR ''['' \<and> \<not> is_json_ws c"
  using float_text_cases [OF assms]
proof
  assume "scan_number fr t = Some (JFloat t, [])"
  from scan_number_hd [OF this] show ?thesis by (auto simp: is_digit_def dq_def is_json_ws_def)
qed (auto simp: dq_def is_json_ws_def)

lemma nat_str_scan:
  "takeWhile is_digit (nat_str n) = nat_str n" "dropWhile is_digit (nat_str n) = []"
  using nat_str_digits [of n] by (simp_all add: takeWhile_eq_all_conv list_all_iff)

lemma nat_str_digit_hd: "\<exists>c u. nat_str n = c # u \<and> is_digit c"
  using nat_str_digits [of n] by (cases "nat_str n") auto

lemma nat_str_leading_zero: "hd (nat_str n) = CHR ''0'' \<Longrightarrow> nat_str n = ''0''"
  by (simp add: nat_str_hd nat_str_zero)

lemma scan_int_nat: "scan_int (nat_str n) = Some (nat_str n, [])"
proof -
  obtain c u where s: "nat_str n = c # u" and d: "is_digit c" using nat_str_digit_hd by blast
  then have c: "c \<noteq> CHR ''-''" by (auto simp: is_digit_def)
  have tw: "takeWhile is_digit (c # u) = c # u" "dropWhile is_digit (c # u) = []"
    using nat_str_scan [of n] s by simp_all
  have "scan_int (c # u) = (if c = CHR ''0'' then Some (''0'', u) else Some (c # u, []))"
    by (simp only: scan_int_def tw list.case c if_False Let_def prod.case list.sel)
       (simp add: tw c)
  with s show ?thesis using nat_str_leading_zero [of n] by auto
qed

lemma scan_int_neg: "scan_int (CHR ''-'' # nat_str n) = Some (CHR ''-'' # nat_str n, [])"
proof -
  have "scan_int (CHR ''-'' # nat_str n) =
    (if hd (nat_str n) = CHR ''0'' then Some (''-0'', tl (nat_str n)) else Some (CHR ''-'' # nat_str n, []))"
    unfolding scan_int_def by (simp add: nat_str_scan Let_def)
  then show ?thesis using nat_str_leading_zero [of n] by auto
qed

lemma int_of_nat_str: "int_of_text (nat_str n) = int n"
proof -
  obtain c u where s: "nat_str n = c # u" and "is_digit c" using nat_str_digit_hd by blast
  then have "c \<noteq> CHR ''-''" by (auto simp: is_digit_def)
  then show ?thesis using s digits_val_nat_str [of n] by (simp add: int_of_text_def)
qed

lemma scan_number_int: "scan_number fr (int_str n) = Some (JInt n, [])"
  by (auto simp: scan_number_def int_str_def scan_int_nat scan_int_neg int_of_nat_str
      scan_frac_def scan_exp_def int_of_text_def [of "CHR ''-'' # s" for s])

lemma int_str_hd: "\<exists>c u. int_str n = c # u \<and> (c = CHR ''-'' \<or> is_digit c)"
proof (cases "n < 0")
  case True
  then show ?thesis by (simp add: int_str_def)
next
  case False
  then show ?thesis using nat_str_digit_hd [of "nat n"] by (auto simp: int_str_def)
qed

lemma is_digit_print: "is_digit c \<Longrightarrow> is_print c"
  by (auto simp: is_digit_def is_print_def Let_def)

lemma int_str_print: "list_all is_print (int_str n)"
proof -
  have "list_all is_print (nat_str m)" for m
    using nat_str_digits [of m] by (auto simp: list_all_iff intro: is_digit_print)
  then show ?thesis by (simp add: int_str_def is_print_def)
qed

section \<open>Reading back a printed value\<close>

text \<open>How much fuel the parser uses on a printed value.\<close>

fun need :: "json \<Rightarrow> nat" and need_elems :: "json list \<Rightarrow> nat" and need_members :: "dict \<Rightarrow> nat" where
  "need (JList vs) = Suc (need_elems vs)"
| "need (JObj d) = Suc (need_members d)"
| "need JNull = 1"
| "need (JBool b) = 1"
| "need (JInt j) = 1"
| "need (JFloat t) = 1"
| "need (JStr s) = 1"
| "need_elems [] = 0"
| "need_elems (v # vs) = Suc (need v + need_elems vs)"
| "need_members [] = 0"
| "need_members ((k, v) # d) = Suc (need v + need_members d)"

text \<open>The first character of a printed value: never white space or a closing bracket.\<close>

lemma dumps_hd:
  "wf_json fr v \<Longrightarrow> \<exists>c u. dumps i k v = c # u \<and> \<not> is_json_ws c \<and> c \<noteq> CHR '']'' \<and> c \<noteq> CHR ''}''"
proof (cases v)
  case (JFloat t)
  assume "wf_json fr v"
  with JFloat have f: "float_text fr t" by simp
  from float_text_cases [OF f] have "\<exists>c u. t = c # u \<and> (c = CHR ''-'' \<or> is_digit c \<or> c = CHR ''N'' \<or> c = CHR ''I'')"
    by (auto dest: scan_number_hd)
  with JFloat show ?thesis by (auto simp: is_json_ws_def is_digit_def)
next
  case (JInt n)
  then show ?thesis using int_str_hd [of n] by (auto simp: is_json_ws_def is_digit_def)
qed (auto simp: is_json_ws_def quote_str_def dq_def)

lemma skip_ws_dumps: "wf_json fr v \<Longrightarrow> skip_ws (dumps i k v @ r) = dumps i k v @ r"
  using dumps_hd [of fr v i k] by (auto simp: skip_ws_def)

lemma skip_ws_nonws [simp]: "\<not> is_json_ws c \<Longrightarrow> skip_ws (c # s) = c # s"
  by (simp add: skip_ws_def)

lemma not_ws [simp]:
  "\<not> is_json_ws dq" "\<not> is_json_ws (CHR 0x22)" "\<not> is_json_ws (CHR '','')" "\<not> is_json_ws (CHR '':'')" "\<not> is_json_ws (CHR '']'')"
  "\<not> is_json_ws (CHR ''}'')" "\<not> is_json_ws (CHR ''['')" "\<not> is_json_ws (CHR ''{'')"
  by (simp_all add: is_json_ws_def dq_def)

text \<open>The separators: a comma or colon, then possibly a space.\<close>

definition seps_ok :: "string \<Rightarrow> string \<Rightarrow> bool" where
  "seps_ok i k = ((i = '','' \<or> i = '', '') \<and> (k = '':'' \<or> k = '': ''))"

lemma skip_space [simp]: "skip_ws (CHR 0x20 # s) = skip_ws s"
  by (simp add: skip_ws_def is_json_ws_def)

lemma parse_scalar:
  assumes "scan_literal fr s = Some (v, r)" and "s = c # u" and "c = CHR ''-'' \<or> is_digit c"
  shows "parse_value fr (Suc n) s = Some (v, r)"
  using assms by (auto simp: is_digit_def dq_def)

theorem parse_dumps:
  "seps_ok i k \<Longrightarrow> wf_json fr v \<Longrightarrow> stop r \<Longrightarrow> need v \<le> n \<Longrightarrow>
     parse_value fr n (dumps i k v @ r) = Some (v, r)"
  "seps_ok i k \<Longrightarrow> wf_list fr vs \<Longrightarrow> vs \<noteq> [] \<Longrightarrow> need_elems vs \<le> n \<Longrightarrow>
     parse_elems fr n (dumps_elems i k vs @ CHR '']'' # r) = Some (vs, r)"
  "seps_ok i k \<Longrightarrow> wf_members fr d \<Longrightarrow> d \<noteq> [] \<Longrightarrow> need_members d \<le> n \<Longrightarrow>
     parse_members fr n (dumps_members i k d @ CHR ''}'' # r) = Some (d, r)"
proof (induction v and vs and d arbitrary: r n and r n and r n rule: need_need_elems_need_members.induct)
  case (1 vs)
  then obtain m where n: "n = Suc m" by (cases n) auto
  show ?case
  proof (cases vs)
    case Nil
    with n show ?thesis by (simp add: dq_def)
  next
    case (Cons w ws)
    with 1 obtain c u where hd: "dumps i k w = c # u" "\<not> is_json_ws c" "c \<noteq> CHR '']''"
      using dumps_hd [of fr w i k] by auto
    have "parse_elems fr m (dumps_elems i k vs @ CHR '']'' # r) = Some (vs, r)"
      using 1 n Cons by simp
    with n Cons hd show ?thesis by (simp add: dq_def)
  qed
next
  case (2 d)
  then obtain m where n: "n = Suc m" by (cases n) auto
  show ?case
  proof (cases d)
    case Nil
    with n show ?thesis by (simp add: dq_def)
  next
    case (Cons p ps)
    obtain a w where p: "p = (a, w)" by (cases p)
    have "parse_members fr m (dumps_members i k d @ CHR ''}'' # r) = Some (d, r)"
      using 2 n Cons by simp
    with 2 n Cons p show ?thesis by (simp add: quote_str_def dq_def)
  qed
next
  case 3
  then obtain m where n: "n = Suc m" by (cases n) auto
  then show ?case by (simp add: dq_def scan_literal_def)
next
  case (4 b)
  then obtain m where n: "n = Suc m" by (cases n) auto
  then show ?case by (simp add: dq_def scan_literal_def)
next
  case (5 j)
  then obtain m where n: "n = Suc m" by (cases n) auto
  obtain c u where hd: "int_str j = c # u" "c = CHR ''-'' \<or> is_digit c" using int_str_hd by blast
  have "scan_literal fr (int_str j @ r) = Some (JInt j, r)"
    using scan_number_append [OF scan_number_int 5(3)] by (simp add: scan_literal_number)
  then show ?case using parse_scalar [of fr "int_str j @ r" "JInt j" r c "u @ r" m] hd n by simp
next
  case (6 t)
  then obtain m where n: "n = Suc m" by (cases n) auto
  obtain c u where hd: "t = c # u" "c \<noteq> dq" "c \<noteq> CHR ''{''" "c \<noteq> CHR ''[''"
    using float_text_hd [of fr t] 6 by auto
  then show ?case using scan_float_text [of fr t r] 6 n by simp
next
  case (7 s)
  then obtain m where n: "n = Suc m" by (cases n) auto
  then show ?case by (simp add: quote_str_def scan_escaped)
next
  case 8
  then show ?case by simp
next
  case (9 v vs)
  then obtain m where n: "n = Suc m" by (cases n) auto
  have v: "parse_value fr m (dumps i k v @ t) = Some (v, t)" if "stop t" for t
    using 9 n that by simp
  show ?case
  proof (cases vs)
    case Nil
    with n v [of "CHR '']'' # r"] show ?thesis by simp
  next
    case (Cons w ws)
    have vs: "parse_elems fr m (dumps_elems i k vs @ CHR '']'' # r) = Some (vs, r)"
      using 9 n Cons by simp
    have "skip_ws (dumps_elems i k vs @ CHR '']'' # r) = dumps_elems i k vs @ CHR '']'' # r"
      using 9 Cons skip_ws_dumps [of fr w i k] by simp
    with n v [of "i @ dumps_elems i k vs @ CHR '']'' # r"] vs 9(3) Cons show ?thesis
      by (auto simp: seps_ok_def)
  qed
next
  case 10
  then show ?case by simp
next
  case (11 a v d)
  then obtain m where n: "n = Suc m" by (cases n) auto
  have v: "parse_value fr m (dumps i k v @ t) = Some (v, t)" if "stop t" for t
    using 11 n that by simp
  have key: "scan_string (concat (map esc_char a) @ dq # t) = Some (a, t)" for t
    by (rule scan_escaped)
  have sk: "skip_ws (dumps i k v @ t) = dumps i k v @ t" for t
    using 11 skip_ws_dumps [of fr v i k] by simp
  show ?case
  proof (cases d)
    case Nil
    with n v [of "CHR ''}'' # r"] sk 11(3) show ?thesis
      by (auto simp: quote_str_def key seps_ok_def)
  next
    case (Cons p ps)
    have d: "parse_members fr m (dumps_members i k d @ CHR ''}'' # r) = Some (d, r)"
      using 11 n Cons by simp
    have "skip_ws (dumps_members i k d @ CHR ''}'' # r) = dumps_members i k d @ CHR ''}'' # r"
      using Cons by (cases p) (simp add: quote_str_def)
    with n v [of "i @ dumps_members i k d @ CHR ''}'' # r"] d sk 11(3) Cons show ?thesis
      by (auto simp: quote_str_def key seps_ok_def)
  qed
qed

section \<open>Fuel\<close>

lemma skip_ws_length: "length (skip_ws s) \<le> length s"
  by (simp add: skip_ws_def length_dropWhile_le)

lemma scan_string_length: "scan_string s = Some (t, r) \<Longrightarrow> length r < length s"
proof (induction s arbitrary: t r rule: scan_string.induct)
  case 1
  then show ?case by simp
next
  case (2 c s)
  then show ?case
    by (fastforce split: if_splits list.splits option.splits)
qed

lemma dropWhile_shorter: "length (dropWhile P s) \<le> length s" "length (tl s) \<le> length s"
  by (simp_all add: length_dropWhile_le)

lemma scan_int_length: "scan_int s = Some (x, t) \<Longrightarrow> length t < length s"
proof (cases s)
  case (Cons c u)
  assume a: "scan_int s = Some (x, t)"
  have d: "length (dropWhile is_digit u) \<le> length u" "length (tl u) \<le> length u"
    by (rule dropWhile_shorter)+
  show ?thesis
  proof (cases "c = CHR ''-''")
    case True
    with a Cons d show ?thesis by (auto simp: scan_int_def Let_def split: if_splits)
  next
    case False
    with a Cons d show ?thesis by (auto simp: scan_int_def Let_def split: if_splits)
  qed
qed (simp add: scan_int_def)

lemma scan_frac_length: "scan_frac u = (x, t) \<Longrightarrow> length t \<le> length u"
  using dropWhile_shorter(1) [of is_digit "tl u"]
  by (cases u) (auto simp: scan_frac_def split: if_splits)

lemma scan_exp_length: "scan_exp u = (x, t) \<Longrightarrow> length t \<le> length u"
  using dropWhile_shorter(1) [of is_digit "tl u"] dropWhile_shorter(1) [of is_digit "tl (tl u)"]
  by (cases u; cases "tl u") (auto simp: scan_exp_def split: if_splits)

lemma scan_number_length: "scan_number fr s = Some (v, r) \<Longrightarrow> length r < length s"
  by (auto simp: scan_number_def split: option.splits prod.splits if_splits
      dest!: scan_int_length scan_frac_length scan_exp_length)

lemma scan_literal_length: "scan_literal fr s = Some (v, r) \<Longrightarrow> length r < length s"
  by (auto simp: scan_literal_def strip_prefix_eq dest: scan_number_length split: option.splits)

lemma skip_ws_Cons: "skip_ws t = d # r \<Longrightarrow> length r < length t"
  using skip_ws_length [of t] by simp

lemma parse_length:
  "parse_value fr n s = Some (v, r) \<Longrightarrow> length r < length s"
  "parse_elems fr n s = Some (vs, r) \<Longrightarrow> length r < length s"
  "parse_members fr n s = Some (d, r) \<Longrightarrow> length r < length s"
proof (induction fr n s and fr n s and fr n s arbitrary: v r and vs r and d r
    rule: parse_value_parse_elems_parse_members.induct)
  case (2 fr n s)
  show ?case
  proof (cases s)
    case Nil
    with 2 show ?thesis by simp
  next
    case (Cons c u)
    have w: "length (e # r') \<le> length u" if "skip_ws u = e # r'" for e r'
      using skip_ws_length [of u] that by simp
    consider (str) "c = dq" | (obj) "c = CHR ''{''" | (arr) "c = CHR ''[''"
      | (lit) "c \<noteq> dq" "c \<noteq> CHR ''{''" "c \<noteq> CHR ''[''" by blast
    then show ?thesis
    proof cases
      case str
      with "2.prems" Cons show ?thesis by (auto dest!: scan_string_length)
    next
      case obj
      then have "c \<noteq> dq" by (simp add: dq_def)
      with "2.prems" obj Cons 2(1) [OF Cons] show ?thesis
        by (fastforce split: list.splits if_splits dest: w)
    next
      case arr
      then have "c \<noteq> dq" by (simp add: dq_def)
      with "2.prems" arr Cons 2(2) [OF Cons] show ?thesis
        by (fastforce split: list.splits if_splits dest: w)
    next
      case lit
      with "2.prems" Cons show ?thesis by (auto dest!: scan_literal_length)
    qed
  qed
next
  case (4 fr n s)
  from "4.prems" obtain v1 r1 d r' where p: "parse_value fr n s = Some (v1, r1)"
    and k: "skip_ws r1 = d # r'"
    by (auto split: option.splits list.splits)
  have l: "length r1 < length s" by (rule 4(1) [OF p])
  have l': "length r' < length r1" by (rule skip_ws_Cons [OF k])
  show ?case
  proof (cases "d = CHR '']''")
    case True
    with "4.prems" p k l l' show ?thesis by simp
  next
    case False
    with "4.prems" p k obtain ws where ws: "d = CHR '',''" "parse_elems fr n (skip_ws r') = Some (ws, r)"
      by (auto split: if_splits)
    have "length r < length (skip_ws r')"
      by (rule 4(2) [OF p refl k False ws])
    with l l' skip_ws_length [of r'] show ?thesis by linarith
  qed
next
  case (6 fr n s)
  from "6.prems" obtain s1 key s2 s3 where p: "s = dq # s1" "scan_string s1 = Some (key, s2)"
      "skip_ws s2 = CHR '':'' # s3"
    by (auto split: option.splits list.splits if_splits)
  with "6.prems" obtain v1 r1 d r' where q: "parse_value fr n (skip_ws s3) = Some (v1, r1)"
      "skip_ws r1 = d # r'"
    by (auto split: option.splits list.splits if_splits)
  have l: "length r1 < length (skip_ws s3)"
    using 6(1) [OF p(1) _ p(2) refl p(3) _ q(1)] by simp
  have l': "length r' < length r1" "length s3 < length s2" "length s2 < length s1"
    using skip_ws_Cons q(2) p(3) scan_string_length [OF p(2)] by blast+
  show ?case
  proof (cases "d = CHR ''}''")
    case True
    with "6.prems" p q l l' skip_ws_length [of s3] show ?thesis by simp
  next
    case False
    with "6.prems" p q obtain ws where ws: "d = CHR '',''" "parse_members fr n (skip_ws r') = Some (ws, r)"
      by (auto split: if_splits)
    have "length r < length (skip_ws r')"
      using 6(2) [OF p(1) _ p(2) refl p(3) _ q(1) refl q(2) False ws] by simp
    with p(1) l l' skip_ws_length [of r'] skip_ws_length [of s3] show ?thesis
      by (simp add: dq_def)
  qed
qed simp_all

text \<open>With \<open>2 * length s + 1\<close> units for a value (one more for a sequence) the result no longer depends on the fuel.\<close>

lemma parse_fuel_stable:
  "(2 * length s + 1 \<le> n \<longrightarrow> 2 * length s + 1 \<le> m \<longrightarrow> parse_value fr n s = parse_value fr m s) \<and>
   (2 * length s + 2 \<le> n \<longrightarrow> 2 * length s + 2 \<le> m \<longrightarrow>
      parse_elems fr n s = parse_elems fr m s \<and> parse_members fr n s = parse_members fr m s)"
proof (induction s arbitrary: n m rule: length_induct)
  case (1 s)
  have V: "parse_value fr n t = parse_value fr m t"
    if "length t < length s" "2 * length t + 1 \<le> n" "2 * length t + 1 \<le> m" for t n m
    using 1 that by blast
  have E: "parse_elems fr n t = parse_elems fr m t" "parse_members fr n t = parse_members fr m t"
    if "length t < length s" "2 * length t + 2 \<le> n" "2 * length t + 2 \<le> m" for t n m
    using 1 that by blast+
  have Vs: "parse_value fr n s = parse_value fr m s"
    if nm: "2 * length s + 1 \<le> n" "2 * length s + 1 \<le> m" for n m
  proof -
    obtain n' m' where s: "n = Suc n'" "m = Suc m'" using nm by (cases n; cases m) auto
    show ?thesis
    proof (cases s)
      case (Cons c u)
      have *: "parse_elems fr n' (e # r) = parse_elems fr m' (e # r)"
          "parse_members fr n' (e # r) = parse_members fr m' (e # r)"
        if "skip_ws u = e # r" for e r
        using that skip_ws_length [of u] Cons nm s by (auto intro!: E)
      show ?thesis using Cons s by (simp add: * split: list.splits)
    qed (simp add: s)
  qed
  have Es: "parse_elems fr n s = parse_elems fr m s"
    if nm: "2 * length s + 2 \<le> n" "2 * length s + 2 \<le> m" for n m
  proof -
    obtain n' m' where s: "n = Suc n'" "m = Suc m'" using nm by (cases n; cases m) auto
    have pv: "parse_value fr n' s = parse_value fr m' s" using nm s by (intro Vs) auto
    have *: "parse_elems fr n' (skip_ws r') = parse_elems fr m' (skip_ws r')"
      if "parse_value fr m' s = Some (v, r)" "skip_ws r = e # r'" for v r e r'
      using parse_length(1) [OF that(1)] skip_ws_Cons [OF that(2)] skip_ws_length [of r'] nm s
      by (intro E) auto
    show ?thesis using s pv * by (auto split: option.splits list.splits)
  qed
  have Ms: "parse_members fr n s = parse_members fr m s"
    if nm: "2 * length s + 2 \<le> n" "2 * length s + 2 \<le> m" for n m
  proof -
    obtain n' m' where s: "n = Suc n'" "m = Suc m'" using nm by (cases n; cases m) auto
    show ?thesis
    proof (cases s)
      case (Cons q s1)
      have pv: "parse_value fr n' (skip_ws s3) = parse_value fr m' (skip_ws s3)"
        if "scan_string s1 = Some (key, s2)" "skip_ws s2 = c # s3" for key s2 c s3
        using scan_string_length [OF that(1)] skip_ws_Cons [OF that(2)] skip_ws_length [of s3] nm s Cons
        by (intro V) auto
      have *: "parse_members fr n' (skip_ws r') = parse_members fr m' (skip_ws r')"
        if "scan_string s1 = Some (key, s2)" "skip_ws s2 = c # s3"
          "parse_value fr m' (skip_ws s3) = Some (v, r)" "skip_ws r = e # r'" for key s2 c s3 v r e r'
        using parse_length(1) [OF that(3)] skip_ws_Cons [OF that(4)] skip_ws_length [of r']
          scan_string_length [OF that(1)] skip_ws_Cons [OF that(2)] skip_ws_length [of s3] nm s Cons
        by (intro E) auto
      show ?thesis using Cons s pv * by (auto split: option.splits list.splits)
    qed (simp add: s)
  qed
  show ?case using Vs Es Ms by blast
qed

theorem loads_fuel_enough:
  "json_fuel s \<le> n \<Longrightarrow> parse_value fr n (skip_ws s) = parse_value fr (json_fuel s) (skip_ws s)"
  using parse_fuel_stable [of "skip_ws s" n "json_fuel s" fr] skip_ws_length [of s]
  by (simp add: json_fuel_def)

section \<open>The round trip\<close>

theorem loads_dumps:
  assumes "seps_ok i k" and "wf_json fr v" and "skip_ws r = []" and "stop r"
  shows "loads fr (dumps i k v @ r) = Some v"
proof -
  let ?s = "dumps i k v @ r" and ?n = "need v + json_fuel (dumps i k v @ r)"
  have "parse_value fr ?n ?s = Some (v, r)"
    using parse_dumps(1) [OF assms(1,2,4)] by simp
  moreover have "skip_ws ?s = ?s" by (rule skip_ws_dumps [OF assms(2)])
  ultimately have "parse_value fr (json_fuel ?s) (skip_ws ?s) = Some (v, r)"
    using loads_fuel_enough [of ?s ?n fr] by simp
  with assms(3) show ?thesis by (simp add: loads_def)
qed

corollary loads_dumps_default: "wf_json fr v \<Longrightarrow> loads fr (dumps_default v) = Some v"
  using loads_dumps [of "'', ''" "'': ''" fr v "[]"]
  by (simp add: dumps_default_def seps_ok_def skip_ws_def)

corollary loads_dumps_line: "wf_json fr v \<Longrightarrow> loads fr (dumps_default v @ [CHR 0x0A]) = Some v"
  using loads_dumps [of "'', ''" "'': ''" fr v "[CHR 0x0A]"]
  by (simp add: dumps_default_def seps_ok_def skip_ws_def is_json_ws_def)

section \<open>Canonical text\<close>

lemma sort_keys_dict_map: "sort_keys_dict d = map (\<lambda>p. (fst p, sort_keys (snd p))) d"
  by (induction d) auto

lemma sort_keys_list_map: "sort_keys_list vs = map sort_keys vs"
  by (induction vs) auto

lemma distinct_fst_sort_key: "distinct (map fst (sort_key f d)) \<longleftrightarrow> dict_ok d"
proof -
  have "mset (map fst (sort_key f d)) = mset (map fst d)" by (simp only: mset_map mset_sort)
  then show ?thesis by (rule mset_eq_imp_distinct_iff)
qed

lemma wf_sort_keys:
  "wf_json fr v \<Longrightarrow> wf_json fr (sort_keys v)"
  "wf_list fr vs \<Longrightarrow> wf_list fr (sort_keys_list vs)"
  "wf_members fr d \<Longrightarrow> wf_members fr (sort_keys_dict d)"
proof (induction v and vs and d rule: sort_keys_sort_keys_list_sort_keys_dict.induct)
  case (2 d)
  have "distinct (map fst (sort_key fst (sort_keys_dict d)))
      \<longleftrightarrow> distinct (map fst (sort_keys_dict d))"
    by (rule distinct_fst_sort_key)
  moreover have "map fst (sort_keys_dict d) = map fst d"
    by (simp add: sort_keys_dict_map comp_def)
  ultimately show ?case using 2 by (simp add: wf_members_iff)
qed auto

theorem canonical_inj:
  assumes "wf_json fr v" and "wf_json fr w" and "dumps_canonical v = dumps_canonical w"
  shows "sort_keys v = sort_keys w"
proof -
  have "loads fr (dumps_canonical u) = Some (sort_keys u)" if "wf_json fr u" for u
    using loads_dumps [of "'',''" "'':''" fr "sort_keys u" "[]"] wf_sort_keys(1) [OF that]
    by (simp add: dumps_canonical_def seps_ok_def skip_ws_def)
  with assms show ?thesis by (metis option.inject)
qed

text \<open>Sorting keys loses their order only: an object's lookups are those of the original.\<close>

lemma map_of_sort_key: "dict_ok d \<Longrightarrow> map_of (sort_key fst d) = map_of d"
  by (simp add: map_of_inject_set distinct_fst_sort_key)

section \<open>Printed text is one line of printable characters\<close>

lemma is_print_punctuation [simp]:
  "is_print (CHR '','')" "is_print (CHR '':'')" "is_print (CHR 0x20)" "is_print (CHR ''['')"
  "is_print (CHR '']'')" "is_print (CHR ''{'')" "is_print (CHR ''}'')" "is_print (CHR ''l'')"
  "is_print (CHR ''a'')" "is_print (CHR ''s'')" "is_print (CHR ''e'')"
  by (simp_all add: is_print_def)

lemma seps_print: "seps_ok i k \<Longrightarrow> list_all is_print i \<and> list_all is_print k"
  by (auto simp: seps_ok_def)

lemma dumps_print:
  "seps_ok i k \<Longrightarrow> wf_json fr v \<Longrightarrow> list_all is_print (dumps i k v)"
  "seps_ok i k \<Longrightarrow> wf_list fr vs \<Longrightarrow> list_all is_print (dumps_elems i k vs)"
  "seps_ok i k \<Longrightarrow> wf_members fr d \<Longrightarrow> list_all is_print (dumps_members i k d)"
  by (induction v and vs and d rule: need_need_elems_need_members.induct)
     (simp_all add: int_str_print quote_str_print float_text_def seps_print)

lemma dumps_canonical_print: "wf_json fr v \<Longrightarrow> list_all is_print (dumps_canonical v)"
  unfolding dumps_canonical_def
  by (rule dumps_print(1) [OF _ wf_sort_keys(1)]) (simp_all add: seps_ok_def)

lemma dumps_default_print: "wf_json fr v \<Longrightarrow> list_all is_print (dumps_default v)"
  unfolding dumps_default_def by (rule dumps_print(1)) (simp_all add: seps_ok_def)

end
