(* ===== verification/Text_File.thy ===== *)
theory Text_File
  imports Json_Roundtrip
begin

text \<open>
  Text files as the program reads and appends to them: universal newlines, iteration over
  lines that keep their terminator, and the fact that appending a printed line adds exactly
  one line to a file that ends with a newline.
\<close>

fun universal_newlines :: "string \<Rightarrow> string" where
  "universal_newlines (a # b # s) =
     (if a = cr then (if b = nl then nl # universal_newlines s else nl # universal_newlines (b # s))
      else a # universal_newlines (b # s))"
| "universal_newlines [a] = [if a = cr then nl else a]"
| "universal_newlines [] = []"

fun lines_keep :: "string \<Rightarrow> string list" where
  "lines_keep [] = []"
| "lines_keep (c # s) =
     (if c = nl then [c] # lines_keep s
      else case lines_keep s of [] \<Rightarrow> [[c]] | l # ls \<Rightarrow> (c # l) # ls)"

text \<open>\<open>for line in f\<close>.\<close>

definition text_lines :: "string \<Rightarrow> string list" where
  "text_lines s = lines_keep (universal_newlines s)"

definition ends_nl :: "string \<Rightarrow> bool" where
  "ends_nl s = (s = [] \<or> last s = nl)"

lemma nl_neq_cr [simp]: "nl \<noteq> cr" "cr \<noteq> nl"
  by (simp_all add: nl_def cr_def)

lemma universal_newlines_id: "cr \<notin> set s \<Longrightarrow> universal_newlines s = s"
  by (induction s rule: universal_newlines.induct) auto

lemma universal_newlines_append:
  "f = [] \<or> last f = nl \<Longrightarrow> universal_newlines (f @ g) = universal_newlines f @ universal_newlines g"
proof (induction f rule: universal_newlines.induct)
  case (2 a)
  then show ?case by (cases g) auto
qed (auto split: if_splits)

lemma universal_newlines_ends:
  "f \<noteq> [] \<Longrightarrow> last f = nl \<Longrightarrow> universal_newlines f \<noteq> [] \<and> last (universal_newlines f) = nl"
  by (induction f rule: universal_newlines.induct) (auto split: if_splits)

lemma lines_keep_Nil_iff: "lines_keep s = [] \<longleftrightarrow> s = []"
  by (cases s) (auto split: list.splits)

lemma lines_keep_append:
  "ends_nl f \<Longrightarrow> lines_keep (f @ g) = lines_keep f @ lines_keep g"
proof (induction f)
  case Nil
  then show ?case by simp
next
  case (Cons c f)
  show ?case
  proof (cases "f = []")
    case True
    with Cons show ?thesis by (simp add: ends_nl_def)
  next
    case False
    with Cons have "lines_keep (f @ g) = lines_keep f @ lines_keep g" by (simp add: ends_nl_def)
    moreover obtain l ls where "lines_keep f = l # ls"
      using False lines_keep_Nil_iff [of f] by (cases "lines_keep f") auto
    ultimately show ?thesis by simp
  qed
qed

lemma text_lines_append:
  assumes "ends_nl f"
  shows "text_lines (f @ g) = text_lines f @ text_lines g"
proof -
  have "universal_newlines (f @ g) = universal_newlines f @ universal_newlines g"
    using assms by (auto simp: ends_nl_def universal_newlines_append)
  moreover have "ends_nl (universal_newlines f)"
    using assms universal_newlines_ends [of f] by (cases "f = []") (auto simp: ends_nl_def)
  ultimately show ?thesis by (simp add: text_lines_def lines_keep_append)
qed

lemma lines_keep_single: "nl \<notin> set l \<Longrightarrow> lines_keep (l @ [nl]) = [l @ [nl]]"
  by (induction l) auto

lemma print_no_newline: "list_all is_print l \<Longrightarrow> nl \<notin> set l \<and> cr \<notin> set l"
  by (auto simp: list_all_iff is_print_def nl_def cr_def)

lemma text_lines_single: "list_all is_print l \<Longrightarrow> text_lines (l @ [nl]) = [l @ [nl]]"
  using print_no_newline [of l]
  by (simp add: text_lines_def universal_newlines_id lines_keep_single)

lemma text_lines_snoc:
  "ends_nl f \<Longrightarrow> list_all is_print l \<Longrightarrow> text_lines (f @ l @ [nl]) = text_lines f @ [l @ [nl]]"
  by (simp add: text_lines_append text_lines_single)

lemma ends_nl_snoc [simp]: "ends_nl (f @ l @ [nl])" "ends_nl (l @ [nl])" "ends_nl []"
  by (simp_all add: ends_nl_def)

lemma text_lines_Nil [simp]: "text_lines [] = []"
  by (simp add: text_lines_def)

section \<open>Printed objects as lines\<close>

definition json_line :: "dict \<Rightarrow> string" where
  "json_line e = dumps_default (JObj e) @ [nl]"

lemma json_line_shape: "\<exists>u. json_line e = CHR ''{'' # u"
  by (simp add: json_line_def dumps_default_def)

text \<open>The tests a reader makes before it parses a line.\<close>

definition skipped_line :: "string \<Rightarrow> bool" where
  "skipped_line l = (startswith l ''==='' \<or> strip l = [])"

lemma strip_object:
  "is_print c \<Longrightarrow> \<not> is_space c \<Longrightarrow> is_print d \<Longrightarrow> \<not> is_space d \<Longrightarrow>
     strip (c # u @ [d] @ [nl]) = c # u @ [d]"
  by (simp add: strip_def lstrip_def rstrip_def is_space_def nl_def)

lemma json_line_strip: "strip (json_line e) = dumps_default (JObj e)"
  using strip_object [of "CHR ''{''" "CHR ''}''" "dumps_members '', '' '': '' e"]
  by (simp add: json_line_def dumps_default_def is_print_def is_space_def)

lemma json_line_not_skipped [simp]: "\<not> skipped_line (json_line e)"
  using json_line_shape [of e]
  by (auto simp: skipped_line_def json_line_strip dumps_default_def startswith_def)

lemma loads_json_line:
  assumes "wf_dict fr e"
  shows "loads fr (json_line e) = Some (JObj e)" "loads fr (strip (json_line e)) = Some (JObj e)"
  using loads_dumps_line [OF assms] loads_dumps_default [OF assms]
  by (simp_all add: json_line_strip) (simp add: json_line_def nl_def)

lemma json_lines_text:
  "\<forall>e \<in> set es. wf_dict fr e \<Longrightarrow> text_lines (concat (map json_line es)) = map json_line es"
proof (induction es)
  case Nil
  then show ?case by simp
next
  case (Cons e es)
  have "list_all is_print (dumps_default (JObj e))" using Cons by (intro dumps_default_print [of fr]) simp
  then have "text_lines (json_line e) = [json_line e]" "ends_nl (json_line e)"
    by (simp_all add: json_line_def text_lines_single)
  with Cons show ?case by (simp add: text_lines_append)
qed

end
