(* ===== verification/Crypto_Env.thy ===== *)
theory Crypto_Env
  imports Text_File
begin

text \<open>
  What the program takes from outside its own sources: SHA-256, Ed25519 verification and the
  normal text of a float, as the fields of one record passed to every operation that needs
  them; an OpenClaw identity with its signing function; and the kinds of failure the log
  verifiers report.  A verifier message is a kind with its arguments, tagged with the entry
  number when the code prefixes \<open>entry n:\<close>.
\<close>

datatype verify_outcome = VerifyOk | InvalidSignature | VerifyError string

record env =
  sha256 :: "bytes \<Rightarrow> bytes"
  ed25519_verify :: "bytes \<Rightarrow> bytes \<Rightarrow> bytes \<Rightarrow> verify_outcome"
  float_repr :: "string \<Rightarrow> string"

text \<open>Documented facts about SHA-256: the digest has 32 bytes.\<close>

definition digest_ok :: "env \<Rightarrow> bool" where
  "digest_ok E = (\<forall>b. length (sha256 E b) = 32)"

definition sha256_hex :: "env \<Rightarrow> bytes \<Rightarrow> string" where
  "sha256_hex E b = bytes_hex (sha256 E b)"

definition canonical_bytes :: "json \<Rightarrow> bytes" where
  "canonical_bytes v = utf8_encode (dumps_canonical v)"

definition stable_hash :: "env \<Rightarrow> json \<Rightarrow> string" where
  "stable_hash E v = sha256_hex E (canonical_bytes v)"

section \<open>Identity\<close>

definition upper_char :: "char \<Rightarrow> char" where
  "upper_char c = (if is_lower c then char_of ((of_char c :: nat) - 32) else c)"

definition upper :: "string \<Rightarrow> string" where
  "upper s = map upper_char s"

record identity =
  id_network :: string
  id_public_key :: bytes
  id_sign :: "bytes \<Rightarrow> bytes"
  id_hash :: string

definition binding_hash :: "env \<Rightarrow> bytes \<Rightarrow> string \<Rightarrow> string" where
  "binding_hash E pk net = sha256_hex E (pk @ utf8_encode net)"

text \<open>An identity over an Ed25519 key pair; only ASCII network names are used.\<close>

definition openclaw_identity :: "env \<Rightarrow> string \<Rightarrow> bytes \<Rightarrow> (bytes \<Rightarrow> bytes) \<Rightarrow> identity" where
  "openclaw_identity E net pk sg =
     (let network = upper net in
      \<lparr>id_network = network, id_public_key = pk, id_sign = sg,
       id_hash = bytes_hex (sha256 E (pk @ utf8_encode network))\<rparr>)"

definition identity_hash_for_public_key :: "env \<Rightarrow> bytes \<Rightarrow> string \<Rightarrow> string" where
  "identity_hash_for_public_key E pk net =
     (let tag = utf8_encode (upper net) in bytes_hex (sha256 E (pk @ tag)))"

text \<open>
  What the log relies on: keys and signatures have Ed25519's lengths, and a signature made
  with the identity's key verifies under its public key.
\<close>

definition identity_ok :: "env \<Rightarrow> identity \<Rightarrow> bool" where
  "identity_ok E I = (length (id_public_key I) = 32 \<and>
     id_hash I = binding_hash E (id_public_key I) (id_network I) \<and>
     (\<forall>m. length (id_sign I m) = 64 \<and> ed25519_verify E (id_public_key I) (id_sign I m) m = VerifyOk))"

lemma openclaw_identity_hash:
  "id_hash (openclaw_identity E net pk sg) = binding_hash E pk (upper net)"
  "id_network (openclaw_identity E net pk sg) = upper net"
  by (simp_all add: openclaw_identity_def binding_hash_def sha256_hex_def Let_def)

lemma identity_hash_agrees:
  "identity_hash_for_public_key E pk net = id_hash (openclaw_identity E net pk sg)"
  by (simp add: identity_hash_for_public_key_def openclaw_identity_def Let_def)

section \<open>Failures a verifier reports\<close>

datatype failure =
    LogMissing
  | MalformedLine
  | NotAnObject
  | UnsupportedVersion json
  | PreviousHashMismatch json json
  | EntryHashMismatch
  | MissingField string
  | MalformedHex string
  | WrongLength string nat nat
  | SignatureFailed
  | SignatureError string
  | BindingMismatch string
  | ForbiddenField string
  | UnknownKind json
  | SubjectBindingMismatch string
  | ClaimNotObject
  | ClaimKind json
  | ClaimVersion
  | ClaimNonceMissing
  | ClaimNonceNotHex
  | ClaimNonceLength
  | ClaimTimestamp
  | ClaimSubjectId
  | ClaimAction
  | ClaimDetailsHash
  | SubjectSignatureFailed
  | SubjectSignatureError string
  | EntryNotDict

type_synonym message = "nat option \<times> failure"

abbreviation at_entry :: "nat \<Rightarrow> failure \<Rightarrow> message" where
  "at_entry i f \<equiv> (Some i, f)"

section \<open>Entry fields\<close>

definition pop_hash_and_signature :: "dict \<Rightarrow> dict" where
  "pop_hash_and_signature e = AList.delete ''signature'' (AList.delete ''entry_hash'' e)"

lemma wf_pop: "wf_dict fr e \<Longrightarrow> wf_dict fr (pop_hash_and_signature e)"
  unfolding pop_hash_and_signature_def by (intro wf_dict_delete)

lemma sha256_hex_length: "digest_ok E \<Longrightarrow> length (sha256_hex E b) = 64"
  by (simp add: digest_ok_def sha256_hex_def)

lemma stable_hash_not_genesis: "digest_ok E \<Longrightarrow> stable_hash E v \<noteq> ''GENESIS''"
  using sha256_hex_length [of E "canonical_bytes v"] by (auto simp: stable_hash_def)

lemma stable_hash_eqD: "stable_hash E v = stable_hash E w \<Longrightarrow>
    sha256 E (canonical_bytes v) = sha256 E (canonical_bytes w)"
  by (simp add: stable_hash_def sha256_hex_def bytes_hex_inj)

lemma canonical_bytes_inj:
  assumes "wf_json fr v" and "wf_json fr w" and "canonical_bytes v = canonical_bytes w"
  shows "sort_keys v = sort_keys w"
proof -
  have "dumps_canonical v = dumps_canonical w"
    using assms utf8_encode_inj_print dumps_canonical_print
    by (metis canonical_bytes_def)
  with assms(1,2) show ?thesis by (rule canonical_inj)
qed

end
