(* ===== verification/Signed_Log.thy ===== *)
theory Signed_Log
  imports Crypto_Env
begin

text \<open>
  The signed append-only log (redteam/primitives/signed_log.py): the entry builders, the
  checks on entries, the append operations with their cached head, and the whole-file
  verifier.  A log file is its text with a modification time; an instance holds the cached
  head and the stat signature the head was read under.  \<open>JNull\<close> is Python's \<open>None\<close>.
\<close>

section \<open>The file and an instance\<close>

record log_file =
  content :: "string option"
  mtime_ns :: nat

record log_inst =
  latest_hash_cache :: json
  latest_sig :: "(nat \<times> nat) option"

definition log_header :: string where
  "log_header = ''=== OpenClaw Append-Only Security Log v2 ===''"

definition genesis :: json where
  "genesis = JStr ''GENESIS''"

definition stat_sig :: "log_file \<Rightarrow> (nat \<times> nat) option" where
  "stat_sig f = (case content f of
     None \<Rightarrow> None
   | Some t \<Rightarrow> Some (mtime_ns f, length (utf8_encode t)))"

definition append_text :: "log_file \<Rightarrow> nat \<Rightarrow> string \<Rightarrow> log_file" where
  "append_text f now t =
     f\<lparr>content := Some ((case content f of None \<Rightarrow> [] | Some s \<Rightarrow> s) @ t), mtime_ns := now\<rparr>"

text \<open>\<open>__init__\<close>: the header is written only when the file is absent.\<close>

definition open_log :: "nat \<Rightarrow> log_file \<Rightarrow> log_file \<times> log_inst" where
  "open_log now f =
     ((if content f = None then append_text f now (log_header @ [nl]) else f),
      \<lparr>latest_hash_cache = JNull, latest_sig = None\<rparr>)"

section \<open>Reading\<close>

fun read_lines :: "env \<Rightarrow> string list \<Rightarrow> dict list res" where
  "read_lines E [] = Inr []"
| "read_lines E (line # ls) =
     (if startswith line ''==='' \<or> strip line = [] then read_lines E ls
      else
        (case loads (float_repr E) (strip line) of
           None \<Rightarrow> read_lines E ls
         | Some (JObj e) \<Rightarrow>
             (if py_eq (jget e ''version'') (JInt 2)
              then bindr (read_lines E ls) (\<lambda>es. Inr (e # es))
              else read_lines E ls)
         | Some _ \<Rightarrow> Inl AttributeError))"

definition read_entries :: "env \<Rightarrow> log_file \<Rightarrow> dict list res" where
  "read_entries E f = (case content f of
     None \<Rightarrow> Inr []
   | Some t \<Rightarrow> read_lines E (text_lines t))"

definition chain_head :: "dict list \<Rightarrow> json" where
  "chain_head es = foldl (\<lambda>latest e. get_or e ''entry_hash'' latest) genesis es"

definition base_latest_hash :: "env \<Rightarrow> log_file \<Rightarrow> json res" where
  "base_latest_hash E f = bindr (read_entries E f) (\<lambda>es. Inr (chain_head es))"

text \<open>The cached head lookup: a full scan only when the stat signature has changed.\<close>

definition latest_hash :: "env \<Rightarrow> log_file \<Rightarrow> log_inst \<Rightarrow> (json \<times> log_inst) res" where
  "latest_hash E f inst =
     (let sig = stat_sig f in
      if latest_hash_cache inst \<noteq> JNull \<and> sig = latest_sig inst
      then Inr (latest_hash_cache inst, inst)
      else bindr (base_latest_hash E f) (\<lambda>latest.
             Inr (latest, inst\<lparr>latest_hash_cache := latest, latest_sig := stat_sig f\<rparr>)))"

section \<open>Hashing and signing an entry\<close>

definition entry_hash :: "env \<Rightarrow> dict \<Rightarrow> string" where
  "entry_hash E entry =
     (let hashable = AList.delete ''signature'' (AList.delete ''entry_hash'' entry)
      in stable_hash E (JObj hashable))"

definition signed_payload :: "dict \<Rightarrow> dict" where
  "signed_payload entry = AList.delete ''signature'' (AList.delete ''entry_hash'' entry)"

definition seal_entry :: "env \<Rightarrow> identity \<Rightarrow> dict \<Rightarrow> dict" where
  "seal_entry E I e0 =
     (let e1 = AList.update ''signature'' (JStr (bytes_hex (id_sign I (canonical_bytes (JObj e0))))) e0
      in AList.update ''entry_hash'' (JStr (entry_hash E e1)) e1)"

definition build_entry ::
  "env \<Rightarrow> identity \<Rightarrow> string \<Rightarrow> json \<Rightarrow> string \<Rightarrow> string \<Rightarrow> string \<Rightarrow> dict \<Rightarrow> int \<Rightarrow> dict option \<Rightarrow> dict" where
  "build_entry E I timestamp previous reporter_id subject_id action details severity evidence =
     (let evidence_payload = (case evidence of None \<Rightarrow> [] | Some d \<Rightarrow> d) in
      seal_entry E I
        [(''version'', JInt 2),
         (''kind'', JStr ''self''),
         (''timestamp'', JStr timestamp),
         (''reporter_id'', JStr reporter_id),
         (''subject_id'', JStr subject_id),
         (''action'', JStr action),
         (''severity'', JInt severity),
         (''details'', JObj details),
         (''evidence'', JObj evidence_payload),
         (''details_hash'', JStr (stable_hash E (JObj details))),
         (''evidence_hash'', JStr (stable_hash E (JObj evidence_payload))),
         (''previous_hash'', previous),
         (''reporter_pubkey'', JStr (bytes_hex (id_public_key I)))])"

text \<open>
  Persisting appends one line; the instance's cache then holds the new head and signature.
\<close>

definition persist :: "log_file \<Rightarrow> log_inst \<Rightarrow> nat \<Rightarrow> dict \<Rightarrow> log_file \<times> log_inst" where
  "persist f inst now entry =
     (let f' = append_text f now (dumps_default (JObj entry) @ [nl]) in
      (f', inst\<lparr>latest_hash_cache := get_or entry ''entry_hash'' (latest_hash_cache inst),
               latest_sig := stat_sig f'\<rparr>))"

definition append_event ::
  "env \<Rightarrow> identity \<Rightarrow> log_file \<Rightarrow> log_inst \<Rightarrow> nat \<Rightarrow> string \<Rightarrow> string \<Rightarrow> string \<Rightarrow> string \<Rightarrow> dict \<Rightarrow>
     int \<Rightarrow> dict option \<Rightarrow> (dict \<times> log_file \<times> log_inst) res" where
  "append_event E I f inst now timestamp reporter_id subject_id action details severity evidence =
     bindr (latest_hash E f inst) (\<lambda>(previous, inst1).
       let entry = build_entry E I timestamp previous reporter_id subject_id action details severity evidence;
           (f', inst2) = persist f inst1 now entry
       in Inr (entry, f', inst2))"

section \<open>Checks on one entry\<close>

definition check_chain :: "env \<Rightarrow> nat \<Rightarrow> dict \<Rightarrow> json \<Rightarrow> message list" where
  "check_chain E index entry previous_hash =
     (let actual_prev = jget entry ''previous_hash'' in
      (if \<not> py_eq actual_prev previous_hash
       then [at_entry index (PreviousHashMismatch previous_hash actual_prev)] else [])) @
     (if jget entry ''entry_hash'' \<noteq> JStr (entry_hash E entry)
      then [at_entry index EntryHashMismatch] else [])"

text \<open>Returns the decoded bytes or the one error the field produces.\<close>

definition decode_hex_field :: "dict \<Rightarrow> string \<Rightarrow> nat \<Rightarrow> nat \<Rightarrow> bytes option \<times> message list" where
  "decode_hex_field entry name expected_len index =
     (case jget entry name of
        JStr raw \<Rightarrow>
          if raw = [] then (None, [at_entry index (MissingField name)])
          else
            (case bytes_fromhex raw of
               None \<Rightarrow> (None, [at_entry index (MalformedHex name)])
             | Some decoded \<Rightarrow>
                 if length decoded \<noteq> expected_len
                 then (None, [at_entry index (WrongLength name (length decoded) expected_len)])
                 else (Some decoded, []))
      | _ \<Rightarrow> (None, [at_entry index (MissingField name)]))"

definition decode_pubkey_and_sig :: "nat \<Rightarrow> dict \<Rightarrow> bytes option \<times> bytes option \<times> message list" where
  "decode_pubkey_and_sig index entry =
     (let (pubkey_bytes, errs1) = decode_hex_field entry ''reporter_pubkey'' 32 index;
          (sig_bytes, errs2) = decode_hex_field entry ''signature'' 64 index
      in (pubkey_bytes, sig_bytes, errs1 @ errs2))"

definition check_signature ::
  "env \<Rightarrow> nat \<Rightarrow> dict \<Rightarrow> bytes option \<Rightarrow> bytes option \<Rightarrow> message list" where
  "check_signature E index entry pubkey_bytes sig_bytes =
     (case (pubkey_bytes, sig_bytes) of
        (Some pk, Some sg) \<Rightarrow>
          (case ed25519_verify E pk sg (canonical_bytes (JObj (signed_payload entry))) of
             VerifyOk \<Rightarrow> []
           | InvalidSignature \<Rightarrow> [at_entry index SignatureFailed]
           | VerifyError m \<Rightarrow> [at_entry index (SignatureError m)])
      | _ \<Rightarrow> [])"

definition check_identity_binding ::
  "env \<Rightarrow> nat \<Rightarrow> dict \<Rightarrow> bytes option \<Rightarrow> string \<Rightarrow> message list" where
  "check_identity_binding E index entry pubkey_bytes network =
     (case pubkey_bytes of
        None \<Rightarrow> []
      | Some pk \<Rightarrow>
          let expected_id = sha256_hex E (pk @ utf8_encode network) in
          if jget entry ''reporter_id'' \<noteq> JStr expected_id
          then [at_entry index (BindingMismatch network)] else [])"

definition decode_subject_pubkey_and_sig ::
  "nat \<Rightarrow> dict \<Rightarrow> bytes option \<times> bytes option \<times> message list" where
  "decode_subject_pubkey_and_sig index entry =
     (let (pubkey_bytes, errs1) = decode_hex_field entry ''subject_pubkey'' 32 index;
          (sig_bytes, errs2) = decode_hex_field entry ''subject_signature'' 64 index
      in (pubkey_bytes, sig_bytes, errs1 @ errs2))"

definition check_subject_identity_binding ::
  "env \<Rightarrow> bytes option \<Rightarrow> string \<Rightarrow> json \<Rightarrow> failure list" where
  "check_subject_identity_binding E pubkey_bytes network subject_id =
     (case pubkey_bytes of
        None \<Rightarrow> []
      | Some pk \<Rightarrow>
          let expected = sha256_hex E (pk @ utf8_encode network) in
          if subject_id \<noteq> JStr expected then [SubjectBindingMismatch network] else [])"

definition check_claim_consistency :: "json \<Rightarrow> json \<Rightarrow> json \<Rightarrow> json \<Rightarrow> failure list" where
  "check_claim_consistency subject_claim subject_id action details_hash =
     (case subject_claim of
        JObj c \<Rightarrow>
          (if jget c ''kind'' \<noteq> JStr ''claim'' then [ClaimKind (jget c ''kind'')] else []) @
          (if \<not> is_int (jget c ''version'') then [ClaimVersion] else []) @
          (case jget c ''nonce'' of
             JStr nonce \<Rightarrow>
               (case bytes_fromhex nonce of
                  None \<Rightarrow> [ClaimNonceNotHex]
                | Some nonce_bytes \<Rightarrow> if length nonce_bytes \<noteq> 16 then [ClaimNonceLength] else [])
           | _ \<Rightarrow> [ClaimNonceMissing]) @
          (case jget c ''claim_timestamp'' of
             JStr t \<Rightarrow> if t = [] then [ClaimTimestamp] else []
           | _ \<Rightarrow> [ClaimTimestamp]) @
          (if \<not> py_eq (jget c ''subject_id'') subject_id then [ClaimSubjectId] else []) @
          (if \<not> py_eq (jget c ''action'') action then [ClaimAction] else []) @
          (if \<not> py_eq (jget c ''details_hash'') details_hash then [ClaimDetailsHash] else [])
      | _ \<Rightarrow> [ClaimNotObject])"

definition check_subject_signature ::
  "env \<Rightarrow> bytes option \<Rightarrow> bytes option \<Rightarrow> json \<Rightarrow> failure list" where
  "check_subject_signature E pubkey_bytes sig_bytes subject_claim =
     (case (pubkey_bytes, sig_bytes) of
        (Some pk, Some sg) \<Rightarrow>
          if \<not> is_dict subject_claim then [ClaimNotObject]
          else
            (case ed25519_verify E pk sg (canonical_bytes subject_claim) of
               VerifyOk \<Rightarrow> []
             | InvalidSignature \<Rightarrow> [SubjectSignatureFailed]
             | VerifyError m \<Rightarrow> [SubjectSignatureError m])
      | _ \<Rightarrow> [])"

definition verify_witness_fields :: "env \<Rightarrow> nat \<Rightarrow> dict \<Rightarrow> string \<Rightarrow> message list" where
  "verify_witness_fields E index entry network =
     (let missing =
        (if \<not> has_key entry ''subject_claim'' then [at_entry index (MissingField ''subject_claim'')] else []) @
        (if \<not> has_key entry ''subject_pubkey'' then [at_entry index (MissingField ''subject_pubkey'')] else []) @
        (if \<not> has_key entry ''subject_signature'' then [at_entry index (MissingField ''subject_signature'')] else [])
      in if missing \<noteq> [] then missing
         else
           let (sub_pubkey, sub_sig, decode_errors) = decode_subject_pubkey_and_sig index entry;
               binding_errors = check_subject_identity_binding E sub_pubkey network (jget entry ''subject_id'');
               consistency_errors = check_claim_consistency (jget entry ''subject_claim'')
                 (jget entry ''subject_id'') (jget entry ''action'') (jget entry ''details_hash'');
               sig_errors = check_subject_signature E sub_pubkey sub_sig (jget entry ''subject_claim'')
           in decode_errors @ map (at_entry index) binding_errors @
              map (at_entry index) consistency_errors @ map (at_entry index) sig_errors)"

text \<open>The branch on the entry's kind, with the downgrade defence for self entries.\<close>

definition check_kind :: "env \<Rightarrow> nat \<Rightarrow> dict \<Rightarrow> string \<Rightarrow> message list" where
  "check_kind E index entry network =
     (let kind = jget entry ''kind'' in
      if kind = JStr ''self'' then
        map (\<lambda>forbidden. at_entry index (ForbiddenField forbidden))
          (filter (has_key entry) [''subject_pubkey'', ''subject_claim'', ''subject_signature''])
      else if kind = JStr ''witness'' then verify_witness_fields E index entry network
      else [at_entry index (UnknownKind kind)])"

definition check_entry :: "env \<Rightarrow> nat \<Rightarrow> dict \<Rightarrow> json \<Rightarrow> string \<Rightarrow> message list" where
  "check_entry E index entry previous_hash network =
     (let (pubkey_bytes, sig_bytes, decode_errors) = decode_pubkey_and_sig index entry in
      check_chain E index entry previous_hash @
      decode_errors @
      check_signature E index entry pubkey_bytes sig_bytes @
      check_identity_binding E index entry pubkey_bytes network @
      check_kind E index entry network)"

section \<open>The whole-file verifier\<close>

fun verify_lines :: "env \<Rightarrow> string \<Rightarrow> nat \<Rightarrow> json \<Rightarrow> string list \<Rightarrow> message list" where
  "verify_lines E network index previous_hash [] = []"
| "verify_lines E network index previous_hash (raw # ls) =
     (if startswith raw ''==='' \<or> strip raw = [] then verify_lines E network index previous_hash ls
      else
        (let index' = Suc index in
         case loads (float_repr E) raw of
           None \<Rightarrow> at_entry index' MalformedLine # verify_lines E network index' previous_hash ls
         | Some (JObj entry) \<Rightarrow>
             (let next_hash = get_or entry ''entry_hash'' previous_hash in
              if \<not> py_eq (jget entry ''version'') (JInt 2)
              then at_entry index' (UnsupportedVersion (jget entry ''version''))
                     # verify_lines E network index' next_hash ls
              else check_entry E index' entry previous_hash network
                     @ verify_lines E network index' next_hash ls)
         | Some _ \<Rightarrow> at_entry index' NotAnObject # verify_lines E network index' previous_hash ls))"

definition verify_integrity :: "env \<Rightarrow> string \<Rightarrow> log_file \<Rightarrow> bool \<times> message list" where
  "verify_integrity E network f = (case content f of
     None \<Rightarrow> (False, [(None, LogMissing)])
   | Some t \<Rightarrow>
       (let errors = verify_lines E network 0 genesis (text_lines t) in (errors = [], errors)))"

section \<open>A foreign entry on its own\<close>

definition strip_entry_0 :: "message \<Rightarrow> message" where
  "strip_entry_0 m = (if fst m = Some 0 then (None, snd m) else m)"

definition verify_foreign_entry :: "env \<Rightarrow> json \<Rightarrow> string \<Rightarrow> bool \<times> message list" where
  "verify_foreign_entry E v network = (case v of
     JObj entry \<Rightarrow>
       let version = jget entry ''version'' in
       if \<not> py_eq version (JInt 2) then (False, [(None, UnsupportedVersion version)])
       else
         let hash_errors = (if jget entry ''entry_hash'' \<noteq> JStr (entry_hash E entry)
                            then [(None, EntryHashMismatch)] else []);
             (pubkey_bytes, sig_bytes, decode_errors) = decode_pubkey_and_sig 0 entry;
             errors = hash_errors @ decode_errors @
               check_signature E 0 entry pubkey_bytes sig_bytes @
               check_identity_binding E 0 entry pubkey_bytes network @
               check_kind E 0 entry network;
             cleaned = map strip_entry_0 errors
         in (length cleaned = 0, cleaned)
   | _ \<Rightarrow> (False, [(None, EntryNotDict)]))"

section \<open>Witness entries\<close>

datatype hex_arg = ArgBytes bytes | ArgStr string | ArgOther

datatype log_exn =
    BadArgument failure
  | ChecksFailed "failure list"
  | PyExn pyexn

definition coerce_hex_or_bytes :: "hex_arg \<Rightarrow> string \<Rightarrow> nat \<Rightarrow> log_exn + bytes" where
  "coerce_hex_or_bytes value name expected_len =
     bindr (case value of
              ArgBytes b \<Rightarrow> Inr b
            | ArgStr s \<Rightarrow>
                (case bytes_fromhex s of
                   None \<Rightarrow> Inl (BadArgument (MalformedHex name))
                 | Some b \<Rightarrow> Inr b)
            | ArgOther \<Rightarrow> Inl (BadArgument (MissingField name)))
       (\<lambda>decoded.
          if length decoded \<noteq> expected_len
          then Inl (BadArgument (WrongLength name (length decoded) expected_len))
          else Inr decoded)"

definition decode_subject_pubkey_and_sig_strict ::
  "hex_arg \<Rightarrow> hex_arg \<Rightarrow> log_exn + (bytes \<times> bytes)" where
  "decode_subject_pubkey_and_sig_strict subject_pubkey subject_signature =
     bindr (coerce_hex_or_bytes subject_pubkey ''subject_pubkey'' 32) (\<lambda>pk.
     bindr (coerce_hex_or_bytes subject_signature ''subject_signature'' 64) (\<lambda>sg. Inr (pk, sg)))"

definition raise_if :: "failure list \<Rightarrow> log_exn + unit" where
  "raise_if errs = (if errs \<noteq> [] then Inl (ChecksFailed errs) else Inr ())"

definition build_witness_entry ::
  "env \<Rightarrow> identity \<Rightarrow> string \<Rightarrow> json \<Rightarrow> string \<Rightarrow> string \<Rightarrow> hex_arg \<Rightarrow> json \<Rightarrow> hex_arg \<Rightarrow> string \<Rightarrow>
     dict \<Rightarrow> int \<Rightarrow> dict option \<Rightarrow> log_exn + dict" where
  "build_witness_entry E I timestamp previous reporter_id subject_id subject_pubkey subject_claim
       subject_signature action details severity evidence =
     bindr (decode_subject_pubkey_and_sig_strict subject_pubkey subject_signature) (\<lambda>(pk, sg).
     bindr (raise_if (check_subject_identity_binding E (Some pk) (id_network I) (JStr subject_id))) (\<lambda>_.
     let details_hash = stable_hash E (JObj details) in
     bindr (raise_if (check_claim_consistency subject_claim (JStr subject_id) (JStr action)
                        (JStr details_hash))) (\<lambda>_.
     bindr (raise_if (check_subject_signature E (Some pk) (Some sg) subject_claim)) (\<lambda>_.
     let evidence_payload = (case evidence of None \<Rightarrow> [] | Some d \<Rightarrow> d) in
     Inr (seal_entry E I
        [(''version'', JInt 2),
         (''kind'', JStr ''witness''),
         (''timestamp'', JStr timestamp),
         (''reporter_id'', JStr reporter_id),
         (''subject_id'', JStr subject_id),
         (''action'', JStr action),
         (''severity'', JInt severity),
         (''details'', JObj details),
         (''evidence'', JObj evidence_payload),
         (''details_hash'', JStr details_hash),
         (''evidence_hash'', JStr (stable_hash E (JObj evidence_payload))),
         (''previous_hash'', previous),
         (''reporter_pubkey'', JStr (bytes_hex (id_public_key I))),
         (''subject_pubkey'', JStr (bytes_hex pk)),
         (''subject_claim'', subject_claim),
         (''subject_signature'', JStr (bytes_hex sg))])))))"

text \<open>
  The head is read while the entry is built, after the checks: a refused witness entry
  changes neither the file nor the cache.
\<close>

definition append_witness_event ::
  "env \<Rightarrow> identity \<Rightarrow> log_file \<Rightarrow> log_inst \<Rightarrow> nat \<Rightarrow> string \<Rightarrow> string \<Rightarrow> string \<Rightarrow> hex_arg \<Rightarrow> json \<Rightarrow>
     hex_arg \<Rightarrow> string \<Rightarrow> dict \<Rightarrow> int \<Rightarrow> dict option \<Rightarrow> log_exn + (dict \<times> log_file \<times> log_inst)" where
  "append_witness_event E I f inst now timestamp reporter_id subject_id subject_pubkey subject_claim
       subject_signature action details severity evidence =
     (case latest_hash E f inst of
        Inl e \<Rightarrow>
          bindr (build_witness_entry E I timestamp JNull reporter_id subject_id subject_pubkey subject_claim
                   subject_signature action details severity evidence) (\<lambda>_. Inl (PyExn e))
      | Inr (previous, inst1) \<Rightarrow>
          bindr (build_witness_entry E I timestamp previous reporter_id subject_id subject_pubkey subject_claim
                   subject_signature action details severity evidence) (\<lambda>entry.
          let (f', inst2) = persist f inst1 now entry in Inr (entry, f', inst2)))"

end
