(* ===== verification/Signed_Log_Proofs.thy ===== *)
theory Signed_Log_Proofs
  imports Signed_Log
begin

text \<open>
  Lemmas on the signed log: the file as the list of entries it holds, the verifier on that
  list, the sealed entries the builders produce, and the coherence of the cached head.
\<close>

section \<open>A file and the entries it holds\<close>

definition log_text :: "dict list \<Rightarrow> string" where
  "log_text es = log_header @ [nl] @ concat (map json_line es)"

definition file_holds :: "env \<Rightarrow> log_file \<Rightarrow> dict list \<Rightarrow> bool" where
  "file_holds E f es =
     (content f = Some (log_text es) \<and> (\<forall>e \<in> set es. wf_dict (float_repr E) e))"

definition version2 :: "dict \<Rightarrow> bool" where
  "version2 e = py_eq (jget e ''version'') (JInt 2)"

lemma log_header_line: "list_all is_print log_header" "startswith (log_header @ [nl]) ''===''"
  by (simp_all add: log_header_def startswith_def is_print_def)

lemma ends_nl_json_lines: "ends_nl (concat (map json_line es))"
  by (induction es rule: rev_induct) (simp_all add: json_line_def ends_nl_def)

lemma log_text_lines:
  "\<forall>e \<in> set es. wf_dict fr e \<Longrightarrow>
     text_lines (log_text es) = (log_header @ [nl]) # map json_line es"
  using text_lines_append [of "log_header @ [nl]" "concat (map json_line es)"]
    text_lines_single [OF log_header_line(1)] json_lines_text [of es fr]
  by (simp add: log_text_def)

lemma append_file_holds:
  assumes "file_holds E f es" and "wf_dict (float_repr E) e"
  shows "file_holds E (append_text f now (dumps_default (JObj e) @ [nl])) (es @ [e])"
  using assms by (auto simp: file_holds_def append_text_def log_text_def json_line_def)

text \<open>The verifier on a list of entries.\<close>

fun verify_entries :: "env \<Rightarrow> string \<Rightarrow> nat \<Rightarrow> json \<Rightarrow> dict list \<Rightarrow> message list" where
  "verify_entries E network index prev [] = []"
| "verify_entries E network index prev (e # es) =
     (if version2 e then check_entry E (Suc index) e prev network
      else [at_entry (Suc index) (UnsupportedVersion (jget e ''version''))])
     @ verify_entries E network (Suc index) (get_or e ''entry_hash'' prev) es"

lemma json_line_readable [simp]:
  "\<not> startswith (json_line e) ''==='' \<and> strip (json_line e) \<noteq> []"
  using json_line_not_skipped [of e] by (simp add: skipped_line_def)

lemma verify_lines_entries:
  "\<forall>e \<in> set es. wf_dict (float_repr E) e \<Longrightarrow>
     verify_lines E network index prev (map json_line es) = verify_entries E network index prev es"
proof (induction es arbitrary: index prev)
  case Nil
  then show ?case by simp
next
  case (Cons e es)
  then have "loads (float_repr E) (json_line e) = Some (JObj e)"
    by (intro loads_json_line) simp
  with Cons show ?case by (simp add: version2_def Let_def)
qed

lemma read_lines_entries:
  "\<forall>e \<in> set es. wf_dict (float_repr E) e \<Longrightarrow>
     read_lines E (map json_line es) = Inr (filter version2 es)"
proof (induction es)
  case Nil
  then show ?case by simp
next
  case (Cons e es)
  then have "loads (float_repr E) (strip (json_line e)) = Some (JObj e)"
    by (intro loads_json_line) simp
  with Cons show ?case by (simp add: version2_def)
qed

lemma verify_integrity_holds:
  assumes "file_holds E f es"
  shows "verify_integrity E network f =
    (verify_entries E network 0 genesis es = [], verify_entries E network 0 genesis es)"
proof -
  have wf: "\<forall>e \<in> set es. wf_dict (float_repr E) e" using assms by (simp add: file_holds_def)
  from log_text_lines [OF this] verify_lines_entries [OF this] assms show ?thesis
    by (simp add: verify_integrity_def file_holds_def log_header_line(2) Let_def)
qed

lemma read_entries_holds: "file_holds E f es \<Longrightarrow> read_entries E f = Inr (filter version2 es)"
  using log_text_lines [of es "float_repr E"] read_lines_entries [of es E]
  by (simp add: read_entries_def file_holds_def log_header_line(2))

lemma verify_entries_append:
  "verify_entries E network index prev (es @ fs) =
     verify_entries E network index prev es @
     verify_entries E network (index + length es)
       (foldl (\<lambda>latest e. get_or e ''entry_hash'' latest) prev es) fs"
  by (induction es arbitrary: index prev) simp_all

lemma verified_version2:
  "verify_entries E network index prev es = [] \<Longrightarrow> \<forall>e \<in> set es. version2 e"
  by (induction es arbitrary: index prev) (auto split: if_splits)

lemma base_latest_hash_verified:
  assumes "file_holds E f es" and "verify_entries E network 0 genesis es = []"
  shows "base_latest_hash E f = Inr (chain_head es)"
  using assms verified_version2 [OF assms(2)]
  by (simp add: base_latest_hash_def read_entries_holds filter_id_conv)

section \<open>Sealed entries\<close>

abbreviation unsealed :: "dict \<Rightarrow> bool" where
  "unsealed e \<equiv> ''signature'' \<notin> fst ` set e \<and> ''entry_hash'' \<notin> fst ` set e"

lemma seal_entry_append:
  assumes "unsealed e"
  shows "seal_entry E I e = e @
    [(''signature'', JStr (bytes_hex (id_sign I (canonical_bytes (JObj e))))),
     (''entry_hash'', JStr (stable_hash E (JObj e)))]"
  using assms by (simp add: seal_entry_def update_new_key entry_hash_def delete_append Let_def)

lemma seal_payload:
  assumes "unsealed e"
  shows "signed_payload (seal_entry E I e) = e" "entry_hash E (seal_entry E I e) = stable_hash E (JObj e)"
  using assms by (simp_all add: seal_entry_append signed_payload_def entry_hash_def delete_append)

lemma seal_get:
  assumes "unsealed e"
  shows "jget (seal_entry E I e) ''entry_hash'' = JStr (stable_hash E (JObj e))"
    and "jget (seal_entry E I e) ''signature'' = JStr (bytes_hex (id_sign I (canonical_bytes (JObj e))))"
    and "k \<noteq> ''signature'' \<Longrightarrow> k \<noteq> ''entry_hash'' \<Longrightarrow> map_of (seal_entry E I e) k = map_of e k"
proof -
  have none: "map_of e ''signature'' = None" "map_of e ''entry_hash'' = None"
    using assms by (simp_all add: map_of_eq_None_iff)
  then show "jget (seal_entry E I e) ''entry_hash'' = JStr (stable_hash E (JObj e))"
    and "jget (seal_entry E I e) ''signature'' = JStr (bytes_hex (id_sign I (canonical_bytes (JObj e))))"
    using assms by (simp_all add: seal_entry_append get_or_def map_add_def)
  show "map_of (seal_entry E I e) k = map_of e k" if "k \<noteq> ''signature''" "k \<noteq> ''entry_hash''"
    using that assms by (simp add: seal_entry_append map_add_def split: option.splits)
qed

lemma seal_get_other:
  "unsealed e \<Longrightarrow> k \<noteq> ''signature'' \<Longrightarrow> k \<noteq> ''entry_hash'' \<Longrightarrow>
     get_or (seal_entry E I e) k v = get_or e k v \<and> has_key (seal_entry E I e) k = has_key e k"
  by (simp add: get_or_def has_key_def seal_get(3))

lemma seal_wf: "unsealed e \<Longrightarrow> wf_dict fr e \<Longrightarrow> wf_dict fr (seal_entry E I e)"
  by (auto simp: seal_entry_append)

lemma decode_hex_field_bytes:
  "jget e name = JStr (bytes_hex b) \<Longrightarrow> length b = n \<Longrightarrow> b \<noteq> [] \<Longrightarrow>
     decode_hex_field e name n i = (Some b, [])"
  by (simp add: decode_hex_field_def)

text \<open>Everything but the kind-specific checks passes on a sealed entry of the identity.\<close>

lemma check_sealed:
  assumes "unsealed e" and "identity_ok E I"
    and "jget e ''reporter_pubkey'' = JStr (bytes_hex (id_public_key I))"
    and "jget e ''reporter_id'' = JStr (id_hash I)"
  shows "decode_pubkey_and_sig i (seal_entry E I e) =
      (Some (id_public_key I), Some (id_sign I (canonical_bytes (JObj e))), [])"
    and "check_signature E i (seal_entry E I e) (Some (id_public_key I))
      (Some (id_sign I (canonical_bytes (JObj e)))) = []"
    and "check_identity_binding E i (seal_entry E I e) (Some (id_public_key I)) (id_network I) = []"
proof -
  have pk: "length (id_public_key I) = 32" "length (id_sign I m) = 64" for m
    using assms(2) by (simp_all add: identity_ok_def)
  then have ne: "id_public_key I \<noteq> []" "id_sign I m \<noteq> []" for m
    by (metis list.size(3) zero_neq_numeral)+
  have get: "jget (seal_entry E I e) ''reporter_pubkey'' = JStr (bytes_hex (id_public_key I))"
    using assms seal_get_other [of e "''reporter_pubkey''" E I JNull] by simp
  show "decode_pubkey_and_sig i (seal_entry E I e) =
      (Some (id_public_key I), Some (id_sign I (canonical_bytes (JObj e))), [])"
    using decode_hex_field_bytes [OF get pk(1) ne(1)]
      decode_hex_field_bytes [OF seal_get(2) [OF assms(1)] pk(2) ne(2)]
    by (simp add: decode_pubkey_and_sig_def)
  show "check_signature E i (seal_entry E I e) (Some (id_public_key I))
      (Some (id_sign I (canonical_bytes (JObj e)))) = []"
    using assms by (simp add: check_signature_def seal_payload identity_ok_def)
  show "check_identity_binding E i (seal_entry E I e) (Some (id_public_key I)) (id_network I) = []"
    using assms seal_get_other [of e "''reporter_id''" E I JNull]
    by (simp add: check_identity_binding_def identity_ok_def binding_hash_def)
qed

lemma check_entry_sealed:
  assumes "unsealed e" and "identity_ok E I"
    and "jget e ''reporter_pubkey'' = JStr (bytes_hex (id_public_key I))"
    and "jget e ''reporter_id'' = JStr (id_hash I)"
    and "jget e ''previous_hash'' = JStr p"
  shows "check_entry E i (seal_entry E I e) (JStr p) (id_network I) =
    check_kind E i (seal_entry E I e) (id_network I)"
proof -
  have "jget (seal_entry E I e) ''previous_hash'' = JStr p"
    using assms seal_get_other [of e "''previous_hash''" E I JNull] by simp
  then have "check_chain E i (seal_entry E I e) (JStr p) = []"
    using assms(1) by (simp add: check_chain_def seal_get(1) seal_payload(2))
  with check_sealed [OF assms(1-4)] show ?thesis by (simp add: check_entry_def)
qed

section \<open>The head of a verified chain\<close>

lemma check_entry_head:
  "check_entry E i e prev network = [] \<Longrightarrow> jget e ''entry_hash'' = JStr (entry_hash E e)"
  by (auto simp: check_entry_def check_chain_def split: if_splits prod.splits)

lemma check_entry_prev:
  "check_entry E i e (JStr p) network = [] \<Longrightarrow> jget e ''previous_hash'' = JStr p"
  by (auto simp: check_entry_def check_chain_def Let_def split: if_splits prod.splits)

lemma get_or_str: "jget e k = JStr s \<Longrightarrow> get_or e k v = JStr s"
  by (auto simp: get_or_def split: option.splits)

lemma verified_step:
  assumes "verify_entries E network i (JStr p) (e # es) = []"
  shows "jget e ''previous_hash'' = JStr p" "jget e ''entry_hash'' = JStr (entry_hash E e)"
    "verify_entries E network (Suc i) (JStr (entry_hash E e)) es = []"
    "check_entry E (Suc i) e (JStr p) network = []"
proof -
  have c: "check_entry E (Suc i) e (JStr p) network = []" "version2 e"
    using assms by (simp_all split: if_splits)
  from c(1) show "check_entry E (Suc i) e (JStr p) network = []" .
  show "jget e ''previous_hash'' = JStr p" by (rule check_entry_prev [OF c(1)])
  show h: "jget e ''entry_hash'' = JStr (entry_hash E e)" by (rule check_entry_head [OF c(1)])
  show "verify_entries E network (Suc i) (JStr (entry_hash E e)) es = []"
    using assms get_or_str [OF h] by (simp split: if_splits)
qed

lemma verified_head_str:
  "verify_entries E network i (JStr p) es = [] \<Longrightarrow>
     \<exists>h. foldl (\<lambda>latest e. get_or e ''entry_hash'' latest) (JStr p) es = JStr h"
proof (induction es arbitrary: i p)
  case Nil
  then show ?case by simp
next
  case (Cons e es)
  have "get_or e ''entry_hash'' (JStr p) = JStr (entry_hash E e)"
    by (rule get_or_str [OF verified_step(2) [OF Cons.prems]])
  with Cons.IH [OF verified_step(3) [OF Cons.prems]] show ?case
    by (simp only: foldl_Cons)
qed

lemma chain_head_str: "verify_entries E network 0 genesis es = [] \<Longrightarrow> \<exists>h. chain_head es = JStr h"
  unfolding chain_head_def genesis_def by (rule verified_head_str)

section \<open>The cached head\<close>

definition cache_ok :: "env \<Rightarrow> log_file \<Rightarrow> log_inst \<Rightarrow> bool" where
  "cache_ok E f inst =
     (latest_hash_cache inst \<noteq> JNull \<and> latest_sig inst = stat_sig f \<longrightarrow>
      base_latest_hash E f = Inr (latest_hash_cache inst))"

lemma latest_hash_cache_ok:
  assumes "cache_ok E f inst" and "latest_hash E f inst = Inr (h, inst')"
  shows "base_latest_hash E f = Inr h \<and> cache_ok E f inst'"
  using assms by (auto simp: latest_hash_def cache_ok_def Let_def bindr_Inr_iff split: if_splits)

lemma latest_hash_total:
  "cache_ok E f inst \<Longrightarrow> base_latest_hash E f = Inr h \<Longrightarrow>
     \<exists>inst'. latest_hash E f inst = Inr (h, inst') \<and> cache_ok E f inst'"
  by (auto simp: latest_hash_def cache_ok_def Let_def)

lemma persist_cache_ok:
  assumes "base_latest_hash E (fst (persist f inst now e)) = Inr (jget e ''entry_hash'')"
    and "jget e ''entry_hash'' = JStr h"
  shows "cache_ok E (fst (persist f inst now e)) (snd (persist f inst now e))"
  using assms get_or_str [OF assms(2)] by (simp add: cache_ok_def persist_def Let_def)

section \<open>Appending to a verified log\<close>

lemma persist_verified:
  assumes holds: "file_holds E f es" and ok: "verify_entries E network 0 genesis es = []"
    and wf: "wf_dict (float_repr E) e" and v2: "version2 e"
    and chk: "check_entry E (Suc (length es)) e (chain_head es) network = []"
    and p: "persist f inst now e = (f', inst')"
  shows "file_holds E f' (es @ [e])" "verify_entries E network 0 genesis (es @ [e]) = []"
    "cache_ok E f' inst'" "latest_hash_cache inst' = chain_head (es @ [e])"
proof -
  show holds': "file_holds E f' (es @ [e])"
    using append_file_holds [OF holds wf] p by (auto simp: persist_def Let_def)
  show ok': "verify_entries E network 0 genesis (es @ [e]) = []"
    using ok chk v2 by (simp add: verify_entries_append chain_head_def)
  have h: "jget e ''entry_hash'' = JStr (entry_hash E e)" by (rule check_entry_head [OF chk])
  have b: "base_latest_hash E f' = Inr (jget e ''entry_hash'')"
    using base_latest_hash_verified [OF holds' ok'] get_or_str [OF h] h by (simp add: chain_head_def)
  show "cache_ok E f' inst'"
    using persist_cache_ok [of E f inst now e, OF _ h] b p by simp
  show "latest_hash_cache inst' = chain_head (es @ [e])"
    using p get_or_str [OF h] by (auto simp: persist_def chain_head_def Let_def)
qed

end
