(* ===== verification/Peer_Log.thy ===== *)
theory Peer_Log
  imports Signed_Log_Proofs
begin

text \<open>
  The receiver's cache of foreign entries (redteam/primitives/peer_log.py): one file per
  source, the lazily filled set of known hashes and the tail hash per source, and the accept
  and read operations.  The directory is an association list from source id to file text, in
  the order the files were created.  An optional value of the tail cache distinguishes "no
  entries" from "not read yet", which is an absent key.
\<close>

record peer_log =
  peer_files :: "(string \<times> string) list"
  peer_network :: string
  own_id :: "string option"
  seen :: "string \<rightharpoonup> string set"
  tail_hash :: "string \<rightharpoonup> string option"

datatype peer_error = SameIdentity | Rejected message

definition open_peer_log :: "(string \<times> string) list \<Rightarrow> string \<Rightarrow> string option \<Rightarrow> peer_log" where
  "open_peer_log files network own =
     \<lparr>peer_files = files, peer_network = network, own_id = own, seen = Map.empty, tail_hash = Map.empty\<rparr>"

section \<open>Scanning a source's file\<close>

fun scan_hashes :: "env \<Rightarrow> string set \<Rightarrow> string option \<Rightarrow> string list \<Rightarrow> (string set \<times> string option) res" where
  "scan_hashes E known tl_hash [] = Inr (known, tl_hash)"
| "scan_hashes E known tl_hash (raw # ls) =
     (let line = strip raw in
      if line = [] then scan_hashes E known tl_hash ls
      else
        (case loads (float_repr E) line of
           None \<Rightarrow> scan_hashes E known tl_hash ls
         | Some (JObj existing) \<Rightarrow>
             (case jget existing ''entry_hash'' of
                JStr h \<Rightarrow> scan_hashes E (insert h known) (Some h) ls
              | _ \<Rightarrow> scan_hashes E known tl_hash ls)
         | Some _ \<Rightarrow> Inl AttributeError))"

definition has_entry_hash :: "env \<Rightarrow> peer_log \<Rightarrow> string \<Rightarrow> string \<Rightarrow> (bool \<times> peer_log) res" where
  "has_entry_hash E p source_id h =
     (case seen p source_id of
        Some known \<Rightarrow> Inr (h \<in> known, p)
      | None \<Rightarrow>
          bindr (case map_of (peer_files p) source_id of
                   None \<Rightarrow> Inr ({}, None)
                 | Some t \<Rightarrow> scan_hashes E {} None (text_lines t))
            (\<lambda>(known, tl_hash).
               Inr (h \<in> known,
                 p\<lparr>seen := (seen p)(source_id \<mapsto> known),
                   tail_hash := (tail_hash p)(source_id \<mapsto> tl_hash)\<rparr>)))"

definition latest_hash_for :: "env \<Rightarrow> peer_log \<Rightarrow> string \<Rightarrow> (string option \<times> peer_log) res" where
  "latest_hash_for E p source_id =
     (case tail_hash p source_id of
        Some t \<Rightarrow> Inr (t, p)
      | None \<Rightarrow>
          bindr (has_entry_hash E p source_id [])
            (\<lambda>(_, p'). Inr ((case tail_hash p' source_id of None \<Rightarrow> None | Some t \<Rightarrow> t), p')))"

section \<open>Accepting an entry\<close>

definition append_line :: "dict \<Rightarrow> string option \<Rightarrow> string" where
  "append_line entry old = (case old of None \<Rightarrow> [] | Some t \<Rightarrow> t) @ dumps_default (JObj entry) @ [nl]"

definition write_entry :: "peer_log \<Rightarrow> string \<Rightarrow> string \<Rightarrow> dict \<Rightarrow> peer_log" where
  "write_entry p source_id h entry =
     p\<lparr>peer_files := AList.update source_id (append_line entry (map_of (peer_files p) source_id)) (peer_files p),
       seen := (seen p)(source_id \<mapsto> insert h (case seen p source_id of None \<Rightarrow> {} | Some s \<Rightarrow> s)),
       tail_hash := (tail_hash p)(source_id \<mapsto> Some h)\<rparr>"

text \<open>
  The verdict is \<open>(stored, source_id, errors, duplicate)\<close>.  A verified entry has string
  \<open>reporter_id\<close> and \<open>entry_hash\<close> fields, so the last branch is not taken.
\<close>

type_synonym verdict = "bool \<times> json \<times> peer_error list \<times> bool"

definition accept_entry :: "env \<Rightarrow> peer_log \<Rightarrow> json \<Rightarrow> (verdict \<times> peer_log) res" where
  "accept_entry E p v =
     (let reporter_id = (case v of JObj e \<Rightarrow> jget e ''reporter_id'' | _ \<Rightarrow> JNull) in
      if own_id p \<noteq> None \<and> is_dict v \<and> reporter_id = JStr (the (own_id p))
      then Inr ((False, reporter_id, [SameIdentity], False), p)
      else
        (let (ok, errors) = verify_foreign_entry E v (peer_network p) in
         if \<not> ok then Inr ((False, reporter_id, map Rejected errors, False), p)
         else
           (case (jget (as_dict v) ''reporter_id'', jget (as_dict v) ''entry_hash'') of
              (JStr source_id, JStr h) \<Rightarrow>
                bindr (has_entry_hash E p source_id h) (\<lambda>(known, p1).
                  if known then Inr ((False, JStr source_id, [], True), p1)
                  else Inr ((True, JStr source_id, [], False), write_entry p1 source_id h (as_dict v)))
            | _ \<Rightarrow> Inl (KeyError ''reporter_id''))))"

section \<open>Reading\<close>

fun read_peer_lines :: "env \<Rightarrow> string list \<Rightarrow> dict list" where
  "read_peer_lines E [] = []"
| "read_peer_lines E (raw # ls) =
     (let line = strip raw in
      if line = [] then read_peer_lines E ls
      else
        (case loads (float_repr E) line of
           Some (JObj entry) \<Rightarrow> entry # read_peer_lines E ls
         | _ \<Rightarrow> read_peer_lines E ls))"

definition read_entries_for :: "env \<Rightarrow> peer_log \<Rightarrow> string \<Rightarrow> dict list" where
  "read_entries_for E p source_id =
     (case map_of (peer_files p) source_id of
        None \<Rightarrow> []
      | Some t \<Rightarrow> read_peer_lines E (text_lines t))"

definition list_sources :: "peer_log \<Rightarrow> string list" where
  "list_sources p = map fst (peer_files p)"

section \<open>The store as a map from sources to entries\<close>

definition hash_of :: "dict \<Rightarrow> string" where
  "hash_of e = (case jget e ''entry_hash'' of JStr h \<Rightarrow> h | _ \<Rightarrow> [])"

definition source_of :: "dict \<Rightarrow> string" where
  "source_of e = (case jget e ''reporter_id'' of JStr s \<Rightarrow> s | _ \<Rightarrow> [])"

text \<open>Entries as they are kept: readable, accepted by the verifier, under their own source.\<close>

definition stored_ok :: "env \<Rightarrow> string \<Rightarrow> string \<Rightarrow> dict \<Rightarrow> bool" where
  "stored_ok E network source_id e =
     (wf_dict (float_repr E) e \<and> verify_foreign_entry E (JObj e) network = (True, []) \<and>
      jget e ''reporter_id'' = JStr source_id \<and> (\<exists>h. jget e ''entry_hash'' = JStr h))"

definition tail_of :: "dict list \<Rightarrow> string option" where
  "tail_of es = (if es = [] then None else Some (hash_of (last es)))"

definition source_ok ::
  "env \<Rightarrow> string \<Rightarrow> string \<Rightarrow> string option \<Rightarrow> string set option \<Rightarrow> string option option \<Rightarrow> dict list \<Rightarrow> bool" where
  "source_ok E network s file known tl_hash es =
     ((case file of None \<Rightarrow> es = [] | Some t \<Rightarrow> t = concat (map json_line es)) \<and>
      (\<forall>e \<in> set es. stored_ok E network s e) \<and>
      distinct (map hash_of es) \<and>
      (case known of None \<Rightarrow> True | Some k \<Rightarrow> k = hash_of ` set es \<and> tl_hash = Some (tail_of es)) \<and>
      (case tl_hash of None \<Rightarrow> True | Some t \<Rightarrow> t = tail_of es))"

definition peer_rep :: "env \<Rightarrow> peer_log \<Rightarrow> (string \<Rightarrow> dict list) \<Rightarrow> bool" where
  "peer_rep E p M =
     (dict_ok (peer_files p) \<and>
      (\<forall>s. source_ok E (peer_network p) s (map_of (peer_files p) s) (seen p s) (tail_hash p s) (M s)))"

lemma source_okD:
  assumes "source_ok E network s file known tl_hash es"
  shows "file = None \<Longrightarrow> es = []" "file = Some t \<Longrightarrow> t = concat (map json_line es)"
    "e \<in> set es \<Longrightarrow> stored_ok E network s e" "distinct (map hash_of es)"
    "known = Some k \<Longrightarrow> k = hash_of ` set es \<and> tl_hash = Some (tail_of es)"
    "tl_hash = Some u \<Longrightarrow> u = tail_of es"
  using assms by (simp_all add: source_ok_def)

lemma peer_rep_source:
  "peer_rep E p M \<Longrightarrow> source_ok E (peer_network p) s (map_of (peer_files p) s) (seen p s) (tail_hash p s) (M s)"
  by (simp add: peer_rep_def)

lemmas peer_repD = source_okD [OF peer_rep_source]

lemma stored_ok_wf: "\<forall>e \<in> set es. stored_ok E n s e \<Longrightarrow> \<forall>e \<in> set es. wf_dict (float_repr E) e"
  by (simp add: stored_ok_def)

lemma scan_hashes_entries:
  assumes "\<forall>e \<in> set es. wf_dict (float_repr E) e" and "\<forall>e \<in> set es. \<exists>h. jget e ''entry_hash'' = JStr h"
  shows "scan_hashes E known t (map json_line es) =
    Inr (known \<union> hash_of ` set es, if es = [] then t else tail_of es)"
  using assms
proof (induction es arbitrary: known t)
  case Nil
  then show ?case by simp
next
  case (Cons e es)
  then have "wf_dict (float_repr E) e" by simp
  from loads_json_line(2) [OF this] have line: "strip (json_line e) \<noteq> []"
    "loads (float_repr E) (strip (json_line e)) = Some (JObj e)"
    by (simp_all del: wf_json.simps)
  obtain h where h: "jget e ''entry_hash'' = JStr h" using Cons.prems(2) by auto
  then have "hash_of e = h" by (simp add: hash_of_def)
  with line h Cons.IH [of "insert h known" "Some h"] Cons.prems show ?case
    by (auto simp: tail_of_def simp del: wf_json.simps)
qed

lemma read_peer_entries:
  "\<forall>e \<in> set es. wf_dict (float_repr E) e \<Longrightarrow> read_peer_lines E (map json_line es) = es"
proof (induction es)
  case Nil
  then show ?case by simp
next
  case (Cons e es)
  then have "wf_dict (float_repr E) e" by simp
  from loads_json_line(2) [OF this] Cons show ?case by (simp del: wf_json.simps)
qed

lemma peer_lines:
  assumes "peer_rep E p M" and "map_of (peer_files p) s = Some t"
  shows "text_lines t = map json_line (M s)"
proof -
  have "\<forall>e \<in> set (M s). wf_dict (float_repr E) e"
    using peer_repD(3) [OF assms(1)] by (auto simp: stored_ok_def simp del: wf_json.simps)
  with json_lines_text peer_repD(2) [OF assms] show ?thesis by blast
qed

lemma peer_read: "peer_rep E p M \<Longrightarrow> read_entries_for E p s = M s"
  using peer_lines [of E p M s] peer_repD(1) [of E p M s] peer_repD(3) [of E p M _ s]
    read_peer_entries [of "M s" E]
  by (auto simp: read_entries_for_def stored_ok_def simp del: wf_json.simps split: option.splits)

lemma peer_has_hash:
  assumes "peer_rep E p M"
  obtains p' where "has_entry_hash E p s h = Inr (h \<in> hash_of ` set (M s), p')"
    "peer_rep E p' M" "seen p' s = Some (hash_of ` set (M s))" "peer_files p' = peer_files p"
    "peer_network p' = peer_network p" "own_id p' = own_id p" "tail_hash p' s = Some (tail_of (M s))"
proof (cases "seen p s")
  case (Some known)
  with peer_repD(5) [OF assms Some] assms that [of p] show thesis by (simp add: has_entry_hash_def)
next
  case None
  have st: "\<forall>e \<in> set (M s). stored_ok E (peer_network p) s e" using peer_repD(3) [OF assms] by blast
  define p' where "p' = p\<lparr>seen := (seen p)(s \<mapsto> hash_of ` set (M s)), tail_hash := (tail_hash p)(s \<mapsto> tail_of (M s))\<rparr>"
  have "(case map_of (peer_files p) s of None \<Rightarrow> Inr ({}, None) | Some t \<Rightarrow> scan_hashes E {} None (text_lines t))
      = Inr (hash_of ` set (M s), tail_of (M s))"
  proof (cases "map_of (peer_files p) s")
    case None
    with peer_repD(1) [OF assms None] show ?thesis by (simp add: tail_of_def)
  next
    case (Some t)
    have "scan_hashes E {} None (map json_line (M s)) = Inr ({} \<union> hash_of ` set (M s), if M s = [] then None else tail_of (M s))"
      by (rule scan_hashes_entries) (use st in \<open>auto simp: stored_ok_def simp del: wf_json.simps\<close>)
    with Some peer_lines [OF assms Some] show ?thesis by (simp add: tail_of_def)
  qed
  with None have "has_entry_hash E p s h = Inr (h \<in> hash_of ` set (M s), p')"
    by (simp add: has_entry_hash_def p'_def)
  moreover have "peer_rep E p' M"
    using assms peer_rep_source [OF assms, of s]
    by (simp add: peer_rep_def p'_def) (simp add: source_ok_def)
  ultimately show thesis using that [of p'] by (simp add: p'_def)
qed

end
