(* ===== verification/Server.thy ===== *)
theory Server
  imports Peer_Log
begin

text \<open>
  The HTTP front-end of the log (redteam/integration/server.py): severity policy, loopback
  policy, body-size limit, the read-side index and the route handlers; and the HTTP client
  the peers use against it (redteam/integration/peer_transport.py).  A handler maps the
  server state to a response and a new state; an exception is an unhandled error of the
  framework.  Pydantic's lax conversion of a JSON value to an integer is a parameter.
\<close>

section \<open>Policies\<close>

definition max_body_bytes :: int where
  "max_body_bytes = 64 * 1024"

definition default_severity_fallback :: int where
  "default_severity_fallback = 10"

definition default_severity_weights :: "(string \<times> int) list" where
  "default_severity_weights =
     [(''tool_execution_success'', 0), (''send_message'', 0), (''register_seedbox'', 0),
      (''broadcast_seedbox_donation'', 0), (''log_broadcast'', 0), (''receive_message'', 0),
      (''unauthorized_tool_request'', 5), (''log_spoof_attempt'', 5),
      (''exfiltrate_private_key'', 10)]"

definition resolve_severity :: "string \<Rightarrow> int option \<Rightarrow> int" where
  "resolve_severity action explicit =
     (case explicit of
        Some n \<Rightarrow> n
      | None \<Rightarrow> (case map_of default_severity_weights action of
                   None \<Rightarrow> default_severity_fallback | Some n \<Rightarrow> n))"

definition loopback_hosts :: "string list" where
  "loopback_hosts = [''127.0.0.1'', ''localhost'', ''::1'']"

definition check_loopback_host :: "string \<Rightarrow> unit res" where
  "check_loopback_host host =
     (if host \<in> set loopback_hosts then Inr ()
      else Inl (ValueError (''server must bind loopback; got host='' @ host)))"

definition http_scheme :: "string \<Rightarrow> bool" where
  "http_scheme url = (startswith url ''http://'' \<or> startswith url ''https://'')"

fun check_peer_urls :: "string list \<Rightarrow> unit res" where
  "check_peer_urls [] = Inr ()"
| "check_peer_urls (url # urls) =
     (if http_scheme url then check_peer_urls urls
      else Inl (ValueError (''peer URL must use http:// or https:// scheme: '' @ url)))"

text \<open>The command line's \<open>--peers\<close>: trimmed, empty fragments dropped; \<open>None\<close> disables pulling.\<close>

definition parse_peers :: "string option \<Rightarrow> string list option" where
  "parse_peers arg = (case arg of
     None \<Rightarrow> None
   | Some s \<Rightarrow>
       if s = [] then None
       else Some (filter (\<lambda>p. p \<noteq> []) (map strip (split_on (CHR '','') s))))"

text \<open>The size guard looks at a declared length only; \<open>True\<close> lets the request through.\<close>

definition body_size_ok :: "string option \<Rightarrow> bool" where
  "body_size_ok content_length =
     (case content_length of
        None \<Rightarrow> True
      | Some cl \<Rightarrow> (case py_int cl of None \<Rightarrow> True | Some declared \<Rightarrow> \<not> declared > max_body_bytes))"

section \<open>State\<close>

record entries_cache =
  ec_head :: json
  ec_entries :: "dict list option"
  ec_by_hash :: "string \<rightharpoonup> nat"

record server =
  srv_identity :: identity
  srv_file :: log_file
  srv_log :: log_inst
  srv_peers :: peer_log
  srv_cache :: entries_cache

record response =
  status :: int
  body :: "json option"

definition json_response :: "int \<Rightarrow> json \<Rightarrow> response" where
  "json_response code v = \<lparr>status = code, body = Some v\<rparr>"

definition empty_response :: "int \<Rightarrow> response" where
  "empty_response code = \<lparr>status = code, body = None\<rparr>"

definition build_server ::
  "identity \<Rightarrow> nat \<Rightarrow> log_file \<Rightarrow> (string \<times> string) list \<Rightarrow> string list \<Rightarrow> server res" where
  "build_server I now f peer_dir peer_urls =
     bindr (check_peer_urls peer_urls) (\<lambda>_.
       let (f', inst) = open_log now f in
       Inr \<lparr>srv_identity = I, srv_file = f', srv_log = inst,
            srv_peers = open_peer_log peer_dir (id_network I) (Some (id_hash I)),
            srv_cache = \<lparr>ec_head = JNull, ec_entries = None, ec_by_hash = Map.empty\<rparr>\<rparr>)"

text \<open>A dictionary comprehension from hash to position: the last position of a hash wins.\<close>

fun index_entries :: "nat \<Rightarrow> dict list \<Rightarrow> (string \<rightharpoonup> nat) \<Rightarrow> (string \<rightharpoonup> nat)" where
  "index_entries i [] m = m"
| "index_entries i (e # es) m =
     index_entries (Suc i) es
       (case jget e ''entry_hash'' of JStr h \<Rightarrow> m(h \<mapsto> i) | _ \<Rightarrow> m)"

definition ensure_entries_cache :: "env \<Rightarrow> server \<Rightarrow> (entries_cache \<times> server) res" where
  "ensure_entries_cache E s =
     bindr (latest_hash E (srv_file s) (srv_log s)) (\<lambda>(head, inst).
       let s1 = s\<lparr>srv_log := inst\<rparr>; c = srv_cache s in
       if ec_head c = head \<and> ec_entries c \<noteq> None then Inr (c, s1)
       else bindr (read_entries E (srv_file s)) (\<lambda>entries.
         let c' = \<lparr>ec_head = head, ec_entries = Some entries, ec_by_hash = index_entries 0 entries Map.empty\<rparr>
         in Inr (c', s1\<lparr>srv_cache := c'\<rparr>)))"

section \<open>Route handlers\<close>

definition get_health :: response where
  "get_health = json_response 200 (JObj [(''ok'', JBool True)])"

definition get_identity :: "server \<Rightarrow> response" where
  "get_identity s = json_response 200 (JObj
     [(''identity_hash'', JStr (id_hash (srv_identity s))),
      (''pubkey_hex'', JStr (bytes_hex (id_public_key (srv_identity s)))),
      (''network'', JStr (id_network (srv_identity s)))])"

definition get_head :: "env \<Rightarrow> server \<Rightarrow> (response \<times> server) res" where
  "get_head E s =
     bindr (latest_hash E (srv_file s) (srv_log s)) (\<lambda>(head, inst).
       Inr (json_response 200 (JObj [(''head_hash'', head)]), s\<lparr>srv_log := inst\<rparr>))"

definition get_entries :: "env \<Rightarrow> server \<Rightarrow> string option \<Rightarrow> int \<Rightarrow> (response \<times> server) res" where
  "get_entries E s since limit =
     (if limit < 0
      then Inr (json_response 400 (JObj [(''error'', JStr ''limit must be non-negative'')]), s)
      else
        (let lim = nat (min limit 1000) in
         bindr (ensure_entries_cache E s) (\<lambda>(cache, s1).
           let all_entries = the (ec_entries cache);
               reply = (\<lambda>sliced. json_response 200 (JObj
                 [(''entries'', JList (map JObj (take lim sliced))), (''head_hash'', ec_head cache)]))
           in
           if since = None \<or> since = Some ''GENESIS'' then Inr (reply all_entries, s1)
           else
             (case ec_by_hash cache (the since) of
                None \<Rightarrow> Inr (empty_response 404, s1)
              | Some i \<Rightarrow> Inr (reply (drop (i + 1) all_entries), s1)))))"

definition get_entry_by_hash :: "env \<Rightarrow> server \<Rightarrow> string \<Rightarrow> (response \<times> server) res" where
  "get_entry_by_hash E s h =
     bindr (ensure_entries_cache E s) (\<lambda>(cache, s1).
       case ec_by_hash cache h of
         None \<Rightarrow> Inr (empty_response 404, s1)
       | Some i \<Rightarrow> Inr (json_response 200 (JObj (the (ec_entries cache) ! i)), s1))"

text \<open>The body of \<open>POST /log\<close> after validation; \<open>None\<close> is the 400 response.\<close>

record log_request =
  rq_action :: string
  rq_details :: dict
  rq_subject :: "string option"
  rq_severity :: "int option"
  rq_evidence :: dict

definition request_subject :: "dict \<Rightarrow> string option option" where
  "request_subject b = (case jget b ''subject_id'' of
     JNull \<Rightarrow> Some None
   | JStr s \<Rightarrow> if s = [] then None else Some (Some s)
   | _ \<Rightarrow> None)"

definition request_severity :: "(json \<Rightarrow> int option) \<Rightarrow> dict \<Rightarrow> int option option" where
  "request_severity lax_int b = (case jget b ''severity'' of
     JNull \<Rightarrow> Some None
   | JBool _ \<Rightarrow> None
   | w \<Rightarrow> (case lax_int w of
             None \<Rightarrow> None
           | Some n \<Rightarrow> if 0 \<le> n \<and> n \<le> 10 then Some (Some n) else None))"

definition request_evidence :: "dict \<Rightarrow> dict option" where
  "request_evidence b = (case map_of b ''evidence'' of
     None \<Rightarrow> Some [] | Some (JObj d) \<Rightarrow> Some d | Some _ \<Rightarrow> None)"

definition validate_log_request :: "(json \<Rightarrow> int option) \<Rightarrow> json \<Rightarrow> log_request option" where
  "validate_log_request lax_int v =
     (let b = as_dict v in
      case (jget b ''action'', jget b ''details'') of
        (JStr action, JObj details) \<Rightarrow>
          if action = [] then None
          else
            Option.bind (request_subject b) (\<lambda>sub.
            Option.bind (request_severity lax_int b) (\<lambda>sev.
            Option.bind (request_evidence b) (\<lambda>ev.
            Some \<lparr>rq_action = action, rq_details = details, rq_subject = sub,
                  rq_severity = sev, rq_evidence = ev\<rparr>)))
      | _ \<Rightarrow> None)"

definition validation_response :: response where
  "validation_response = json_response 400 (JObj [(''error'', JStr ''request validation failed'')])"

definition post_log ::
  "env \<Rightarrow> (json \<Rightarrow> int option) \<Rightarrow> server \<Rightarrow> nat \<Rightarrow> string \<Rightarrow> json \<Rightarrow> response \<times> server" where
  "post_log E lax_int s now ts v =
     (case validate_log_request lax_int v of
        None \<Rightarrow> (validation_response, s)
      | Some rq \<Rightarrow>
          let I = srv_identity s;
              reporter_id = id_hash I;
              subject_id = (case rq_subject rq of Some sub \<Rightarrow> sub | None \<Rightarrow> reporter_id);
              severity = resolve_severity (rq_action rq) (rq_severity rq)
          in
          (case append_event E I (srv_file s) (srv_log s) now ts reporter_id subject_id (rq_action rq)
                  (rq_details rq) severity (Some (rq_evidence rq)) of
             Inl _ \<Rightarrow> (json_response 500 (JObj [(''error'', JStr ''failed to append event'')]), s)
           | Inr (entry, f', inst') \<Rightarrow>
               (json_response 200 (JObj [(''entry_hash'', jget entry ''entry_hash'')]),
                s\<lparr>srv_file := f', srv_log := inst'\<rparr>)))"

text \<open>
  \<open>POST /entries\<close>: validation replaces \<open>version\<close> by its integer and puts the two declared
  fields first; everything else passes through.
\<close>

definition validate_peer_entry :: "(json \<Rightarrow> int option) \<Rightarrow> json \<Rightarrow> dict option" where
  "validate_peer_entry lax_int v = (case v of
     JObj b \<Rightarrow>
       (case (map_of b ''version'', map_of b ''kind'') of
          (Some w, Some (JStr kind)) \<Rightarrow>
            (case lax_int w of
               None \<Rightarrow> None
             | Some n \<Rightarrow> Some ((''version'', JInt n) # (''kind'', JStr kind) #
                 AList.delete ''version'' (AList.delete ''kind'' b)))
        | _ \<Rightarrow> None)
   | _ \<Rightarrow> None)"

definition post_entries :: "env \<Rightarrow> (json \<Rightarrow> int option) \<Rightarrow> server \<Rightarrow> json \<Rightarrow> response \<times> server" where
  "post_entries E lax_int s v =
     (case validate_peer_entry lax_int v of
        None \<Rightarrow> (validation_response, s)
      | Some entry \<Rightarrow>
          (case accept_entry E (srv_peers s) (JObj entry) of
             Inl _ \<Rightarrow> (json_response 500 (JObj [(''error'', JStr ''failed to store foreign entry'')]), s)
           | Inr ((stored, source_id, errors, duplicate), p') \<Rightarrow>
               if errors \<noteq> []
               then (json_response 400 (JObj [(''error'', JStr ''foreign entry verification failed'')]),
                     s\<lparr>srv_peers := p'\<rparr>)
               else (json_response 200 (JObj
                       [(''stored'', JBool stored), (''source_id'', source_id),
                        (''duplicate'', JBool duplicate)]), s\<lparr>srv_peers := p'\<rparr>)))"

section \<open>The HTTP client of a peer\<close>

text \<open>What a wire exchange yields: an exception of the HTTP library or a response.\<close>

definition raise_for_status :: "response \<Rightarrow> unit res" where
  "raise_for_status r = (if 200 \<le> status r \<and> status r < 300 then Inr () else Inl (RuntimeError ''HTTPStatusError''))"

definition response_json :: "response \<Rightarrow> json res" where
  "response_json r = (case body r of None \<Rightarrow> Inl JSONDecodeError | Some v \<Rightarrow> Inr v)"

definition index_field :: "json \<Rightarrow> string \<Rightarrow> json res" where
  "index_field v k = (case v of
     JObj d \<Rightarrow> (case map_of d k of None \<Rightarrow> Inl (KeyError k) | Some w \<Rightarrow> Inr w)
   | _ \<Rightarrow> Inl TypeError)"

text \<open>\<open>len(v)\<close> and iteration over \<open>v\<close>: lists, the keys of an object, the characters of a string.\<close>

definition py_iter :: "json \<Rightarrow> json list res" where
  "py_iter v = (case v of
     JList vs \<Rightarrow> Inr vs
   | JObj d \<Rightarrow> Inr (map (\<lambda>p. JStr (fst p)) d)
   | JStr s \<Rightarrow> Inr (map (\<lambda>c. JStr [c]) s)
   | _ \<Rightarrow> Inl TypeError)"

definition http_get_head :: "response res \<Rightarrow> json res" where
  "http_get_head exchange =
     bindr exchange (\<lambda>r. bindr (raise_for_status r) (\<lambda>_. bindr (response_json r) (\<lambda>v.
       index_field v ''head_hash'')))"

definition http_get_entries_since :: "int \<Rightarrow> response res \<Rightarrow> json res" where
  "http_get_entries_since limit exchange =
     bindr exchange (\<lambda>r. bindr (raise_for_status r) (\<lambda>_. bindr (response_json r) (\<lambda>data.
       case data of
         JObj d \<Rightarrow>
           bindr (py_iter (get_or d ''entries'' (JList []))) (\<lambda>served.
             if int (length served) > max limit 1 * 10
             then Inl (ValueError ''refusing oversized batch'')
             else Inr data)
       | _ \<Rightarrow> Inl AttributeError)))"

definition http_get_identity :: "response res \<Rightarrow> json res" where
  "http_get_identity exchange =
     bindr exchange (\<lambda>r. bindr (raise_for_status r) (\<lambda>_. response_json r))"

end
