(* ===== verification/Signed_Log_Appends.thy ===== *)
theory Signed_Log_Appends
  imports Signed_Log_Proofs
begin

text \<open>
  Appending to a verified log: what the two entry builders produce passes every check of the
  verifier, and persisting such an entry keeps the file verified and the cache coherent.  A
  concrete environment, identity and empty log serve as instances.
\<close>

section \<open>A concrete environment\<close>

definition sample_env :: env where
  "sample_env = \<lparr>sha256 = (\<lambda>b. take 32 (b @ replicate 32 0)),
     ed25519_verify = (\<lambda>_ sg _. if sg = replicate 64 0 then VerifyOk else InvalidSignature),
     float_repr = (\<lambda>s. s)\<rparr>"

definition sample_identity :: identity where
  "sample_identity = openclaw_identity sample_env ''mainnet'' (replicate 32 7) (\<lambda>_. replicate 64 0)"

definition empty_log :: log_file where
  "empty_log = fst (open_log 1 \<lparr>content = None, mtime_ns = 0\<rparr>)"

definition fresh_inst :: log_inst where
  "fresh_inst = snd (open_log 1 \<lparr>content = None, mtime_ns = 0\<rparr>)"

lemma sample_digest_ok [simp]: "digest_ok sample_env"
  by (auto simp: digest_ok_def sample_env_def min_def)

lemma sample_identity_ok [simp]: "identity_ok sample_env sample_identity"
  by (simp add: identity_ok_def sample_identity_def sample_env_def openclaw_identity_def
      binding_hash_def sha256_hex_def Let_def)

lemma empty_log_holds [simp]: "file_holds E empty_log []"
  by (simp add: file_holds_def empty_log_def open_log_def append_text_def log_text_def)

lemma fresh_inst_cache [simp]: "cache_ok E f fresh_inst"
  by (simp add: cache_ok_def fresh_inst_def open_log_def)

lemma verify_empty_log [simp]: "verify_integrity E network empty_log = (True, [])"
  by (simp add: verify_integrity_holds [OF empty_log_holds])

section \<open>Entries the builders make\<close>

definition payload_fields ::
  "env \<Rightarrow> identity \<Rightarrow> string \<Rightarrow> string \<Rightarrow> json \<Rightarrow> string \<Rightarrow> string \<Rightarrow> dict \<Rightarrow> int \<Rightarrow> dict option \<Rightarrow> dict" where
  "payload_fields E I kind timestamp previous subject_id action details severity evidence =
     (let ev = (case evidence of None \<Rightarrow> [] | Some d \<Rightarrow> d) in
        [(''version'', JInt 2), (''kind'', JStr kind), (''timestamp'', JStr timestamp),
         (''reporter_id'', JStr (id_hash I)), (''subject_id'', JStr subject_id),
         (''action'', JStr action), (''severity'', JInt severity), (''details'', JObj details),
         (''evidence'', JObj ev), (''details_hash'', JStr (stable_hash E (JObj details))),
         (''evidence_hash'', JStr (stable_hash E (JObj ev))), (''previous_hash'', previous),
         (''reporter_pubkey'', JStr (bytes_hex (id_public_key I)))])"

definition subject_fields :: "bytes \<Rightarrow> json \<Rightarrow> bytes \<Rightarrow> dict" where
  "subject_fields pk subject_claim sg =
     [(''subject_pubkey'', JStr (bytes_hex pk)), (''subject_claim'', subject_claim),
      (''subject_signature'', JStr (bytes_hex sg))]"

lemma build_entry_fields:
  "build_entry E I ts previous (id_hash I) sub act details sev evid =
     seal_entry E I (payload_fields E I ''self'' ts previous sub act details sev evid)"
  by (simp add: build_entry_def payload_fields_def Let_def)

lemma payload_unsealed:
  "unsealed (payload_fields E I kind ts previous sub act details sev evid)"
  "unsealed (payload_fields E I kind ts previous sub act details sev evid @ subject_fields pk c sg)"
  by (simp_all add: payload_fields_def subject_fields_def Let_def)

definition evidence_wf :: "env \<Rightarrow> dict option \<Rightarrow> bool" where
  "evidence_wf E evid = (case evid of None \<Rightarrow> True | Some d \<Rightarrow> wf_dict (float_repr E) d)"

lemma payload_wf:
  assumes "wf_dict (float_repr E) details" and "evidence_wf E evid" and "wf_json (float_repr E) previous"
  shows "wf_dict (float_repr E) (payload_fields E I kind ts previous sub act details sev evid)"
    "wf_json (float_repr E) c \<Longrightarrow>
       wf_dict (float_repr E) (payload_fields E I kind ts previous sub act details sev evid @ subject_fields pk c sg)"
  using assms
  by (simp_all add: payload_fields_def subject_fields_def evidence_wf_def Let_def split: option.splits)

lemma payload_get:
  "jget (payload_fields E I kind ts previous sub act details sev evid @ rst) ''reporter_pubkey''
     = JStr (bytes_hex (id_public_key I))"
  "jget (payload_fields E I kind ts previous sub act details sev evid @ rst) ''reporter_id'' = JStr (id_hash I)"
  "jget (payload_fields E I kind ts previous sub act details sev evid @ rst) ''previous_hash'' = previous"
  "jget (payload_fields E I kind ts previous sub act details sev evid @ rst) ''kind'' = JStr kind"
  "jget (payload_fields E I kind ts previous sub act details sev evid @ rst) ''version'' = JInt 2"
  "jget (payload_fields E I kind ts previous sub act details sev evid @ rst) ''subject_id'' = JStr sub"
  "jget (payload_fields E I kind ts previous sub act details sev evid @ rst) ''action'' = JStr act"
  "jget (payload_fields E I kind ts previous sub act details sev evid @ rst) ''details_hash''
     = JStr (stable_hash E (JObj details))"
  by (simp_all add: payload_fields_def get_or_def Let_def)

lemma payload_no_subject:
  "\<not> has_key (payload_fields E I kind ts previous sub act details sev evid) ''subject_pubkey''"
  "\<not> has_key (payload_fields E I kind ts previous sub act details sev evid) ''subject_claim''"
  "\<not> has_key (payload_fields E I kind ts previous sub act details sev evid) ''subject_signature''"
  by (simp_all add: payload_fields_def has_key_def Let_def)

lemma subject_get:
  "jget (payload_fields E I kind ts previous sub act details sev evid @ subject_fields pk c sg) ''subject_pubkey''
     = JStr (bytes_hex pk)"
  "jget (payload_fields E I kind ts previous sub act details sev evid @ subject_fields pk c sg) ''subject_claim'' = c"
  "jget (payload_fields E I kind ts previous sub act details sev evid @ subject_fields pk c sg) ''subject_signature''
     = JStr (bytes_hex sg)"
  "has_key (payload_fields E I kind ts previous sub act details sev evid @ subject_fields pk c sg) ''subject_pubkey''"
  "has_key (payload_fields E I kind ts previous sub act details sev evid @ subject_fields pk c sg) ''subject_claim''"
  "has_key (payload_fields E I kind ts previous sub act details sev evid @ subject_fields pk c sg) ''subject_signature''"
  by (simp_all add: payload_fields_def subject_fields_def get_or_def has_key_def Let_def)

lemma sealed_checks:
  assumes "identity_ok E I" and "unsealed e0"
    and "e0 = payload_fields E I kind ts (JStr p) sub act details sev evid @ rst"
  shows "version2 (seal_entry E I e0)"
    "check_entry E i (seal_entry E I e0) (JStr p) (id_network I) =
       check_kind E i (seal_entry E I e0) (id_network I)"
proof -
  show "version2 (seal_entry E I e0)"
    using seal_get_other [OF assms(2), of "''version''" E I JNull] payload_get(5) assms(3)
    by (simp add: version2_def)
  show "check_entry E i (seal_entry E I e0) (JStr p) (id_network I) =
       check_kind E i (seal_entry E I e0) (id_network I)"
    by (rule check_entry_sealed [OF assms(2,1)]) (simp_all only: assms(3) payload_get)
qed

lemma self_entry_checks:
  assumes "identity_ok E I" and "wf_dict (float_repr E) details" and "evidence_wf E evid"
    and def: "e = build_entry E I ts (JStr p) (id_hash I) sub act details sev evid"
  shows "wf_dict (float_repr E) e" "version2 e" "check_entry E i e (JStr p) (id_network I) = []"
proof -
  let ?e0 = "payload_fields E I ''self'' ts (JStr p) sub act details sev evid"
  have e: "e = seal_entry E I ?e0" using def by (simp add: build_entry_fields)
  show "wf_dict (float_repr E) e"
    unfolding e by (rule seal_wf [OF payload_unsealed(1) payload_wf(1) [OF assms(2,3)]]) simp
  note chk = sealed_checks [OF assms(1) payload_unsealed(1), where rst = "[]"]
  show "version2 e" unfolding e by (rule chk(1)) simp
  have "jget e ''kind'' = JStr ''self''"
    using seal_get_other [OF payload_unsealed(1), of "''kind''"] payload_get(4) [of E I "''self''" ts _ _ _ _ _ _ "[]"]
    by (simp add: e)
  moreover have "\<not> has_key e k" if "k \<in> {''subject_pubkey'', ''subject_claim'', ''subject_signature''}" for k
  proof -
    have "k \<noteq> ''signature''" "k \<noteq> ''entry_hash''" using that by auto
    from seal_get_other [OF payload_unsealed(1) this] payload_no_subject that show ?thesis
      by (auto simp: e)
  qed
  ultimately have "check_kind E i e (id_network I) = []" by (simp add: check_kind_def)
  moreover have "check_entry E i e (JStr p) (id_network I) = check_kind E i e (id_network I)"
    unfolding e by (rule chk(2)) simp
  ultimately show "check_entry E i e (JStr p) (id_network I) = []" by simp
qed


section \<open>Witness entries the builder makes\<close>

lemma raise_if_Inr [simp]: "raise_if errs = Inr u \<longleftrightarrow> errs = []"
  by (simp add: raise_if_def)

lemma decode_strict_InrD:
  "decode_subject_pubkey_and_sig_strict a b = Inr (pk, sg) \<Longrightarrow> length pk = 32 \<and> length sg = 64"
  by (auto simp: decode_subject_pubkey_and_sig_strict_def coerce_hex_or_bytes_def bindr_Inr_iff
      split: if_splits)

lemma raise_if_Inl: "raise_if errs = Inl x \<Longrightarrow> x = ChecksFailed errs \<and> errs \<noteq> []"
  by (auto simp: raise_if_def split: if_splits)

lemma decode_strict_InlD:
  "decode_subject_pubkey_and_sig_strict a b = Inl x \<Longrightarrow> \<exists>y. x = BadArgument y"
  by (auto simp: decode_subject_pubkey_and_sig_strict_def coerce_hex_or_bytes_def bindr_Inl_iff
      split: if_splits hex_arg.splits option.splits)

lemma build_witness_InlD:
  assumes "build_witness_entry E I ts previous rid sub spk claim ssig act details sev evid = Inl x"
  shows "(\<exists>y. x = BadArgument y) \<or> (\<exists>xs. x = ChecksFailed xs \<and> xs \<noteq> [])"
  using assms unfolding build_witness_entry_def bindr_Inl_iff Let_def
  by (auto dest: raise_if_Inl decode_strict_InlD
      simp: bindr_Inl_iff)

lemma build_witness_InrD:
  assumes "build_witness_entry E I ts previous (id_hash I) sub spk claim ssig act details sev evid = Inr e"
  obtains pk sg where "length pk = 32" "length sg = 64"
    "check_subject_identity_binding E (Some pk) (id_network I) (JStr sub) = []"
    "check_claim_consistency claim (JStr sub) (JStr act) (JStr (stable_hash E (JObj details))) = []"
    "check_subject_signature E (Some pk) (Some sg) claim = []"
    "e = seal_entry E I (payload_fields E I ''witness'' ts previous sub act details sev evid @
           subject_fields pk claim sg)"
proof -
  obtain pk sg where dec: "decode_subject_pubkey_and_sig_strict spk ssig = Inr (pk, sg)"
    using assms by (auto simp: build_witness_entry_def bindr_Inr_iff)
  show thesis
    by (rule that [of pk sg])
      (insert assms dec decode_strict_InrD [OF dec],
        simp_all add: build_witness_entry_def bindr_Inr_iff payload_fields_def subject_fields_def Let_def)
qed

lemma witness_entry_checks:
  assumes "identity_ok E I" and "wf_dict (float_repr E) details" and "evidence_wf E evid"
    and "wf_json (float_repr E) claim"
    and built: "build_witness_entry E I ts (JStr p) (id_hash I) sub spk claim ssig act details sev evid = Inr e"
  shows "wf_dict (float_repr E) e" "version2 e" "check_entry E i e (JStr p) (id_network I) = []"
proof -
  obtain pk sg where len: "length pk = 32" "length sg = 64"
    and ok: "check_subject_identity_binding E (Some pk) (id_network I) (JStr sub) = []"
      "check_claim_consistency claim (JStr sub) (JStr act) (JStr (stable_hash E (JObj details))) = []"
      "check_subject_signature E (Some pk) (Some sg) claim = []"
    and e: "e = seal_entry E I (payload_fields E I ''witness'' ts (JStr p) sub act details sev evid @
           subject_fields pk claim sg)"
    using build_witness_InrD [OF built] by metis
  let ?s = "subject_fields pk claim sg"
  note uns = payload_unsealed(2)
  show "wf_dict (float_repr E) e"
    unfolding e by (rule seal_wf [OF uns payload_wf(2) [OF assms(2,3) _ assms(4)]]) simp
  show "version2 e" unfolding e by (rule sealed_checks(1) [OF assms(1) uns refl])
  have get: "jget e k = jget (payload_fields E I ''witness'' ts (JStr p) sub act details sev evid @ ?s) k"
    and has: "has_key e k = has_key (payload_fields E I ''witness'' ts (JStr p) sub act details sev evid @ ?s) k"
    if "k \<noteq> ''signature''" "k \<noteq> ''entry_hash''" for k
    using seal_get_other [OF uns that] by (simp_all add: e)
  have ne: "pk \<noteq> []" "sg \<noteq> []" using len by auto
  have "decode_subject_pubkey_and_sig i e = (Some pk, Some sg, [])"
    using decode_hex_field_bytes [OF _ len(1) ne(1), of e "''subject_pubkey''" i]
      decode_hex_field_bytes [OF _ len(2) ne(2), of e "''subject_signature''" i]
    by (simp add: decode_subject_pubkey_and_sig_def get subject_get)
  then have "check_kind E i e (id_network I) = []"
    using ok by (simp add: check_kind_def verify_witness_fields_def get has subject_get payload_get)
  moreover have "check_entry E i e (JStr p) (id_network I) = check_kind E i e (id_network I)"
    unfolding e by (rule sealed_checks(2) [OF assms(1) uns refl])
  ultimately show "check_entry E i e (JStr p) (id_network I) = []" by simp
qed

section \<open>One log, its file and its entries\<close>

lemma verified_iff:
  "file_holds E f es \<Longrightarrow>
     verify_integrity E network f = (True, []) \<longleftrightarrow> verify_entries E network 0 genesis es = []"
  by (simp add: verify_integrity_holds)

text \<open>What an append needs of the log and what it leaves: one contract for both kinds of entry.\<close>

definition log_state_ok :: "env \<Rightarrow> string \<Rightarrow> log_file \<Rightarrow> log_inst \<Rightarrow> dict list \<Rightarrow> bool" where
  "log_state_ok E network f inst es =
     (file_holds E f es \<and> verify_integrity E network f = (True, []) \<and> cache_ok E f inst)"

lemma log_state_head:
  assumes "log_state_ok E network f inst es"
  obtains p inst' where "latest_hash E f inst = Inr (JStr p, inst')" "chain_head es = JStr p"
proof -
  have v: "file_holds E f es" "verify_entries E network 0 genesis es = []" "cache_ok E f inst"
    using assms verified_iff by (auto simp: log_state_ok_def)
  obtain p where "chain_head es = JStr p" using chain_head_str [OF v(2)] by blast
  with latest_hash_total [OF v(3) base_latest_hash_verified [OF v(1,2)]] that show thesis by auto
qed

lemma persist_state_ok:
  assumes "log_state_ok E network f inst es" and "chain_head es = JStr p"
    and "wf_dict (float_repr E) e" and "version2 e"
    and "check_entry E (Suc (length es)) e (JStr p) network = []"
    and "persist f inst1 now e = (f', inst')"
  shows "log_state_ok E network f' inst' (es @ [e])"
    "latest_hash E f' inst' = Inr (jget e ''entry_hash'', inst')"
proof -
  have v: "file_holds E f es" "verify_entries E network 0 genesis es = []"
    using assms verified_iff by (auto simp: log_state_ok_def)
  note pv = persist_verified [OF v assms(3,4) assms(5) [folded assms(2)] assms(6)]
  show "log_state_ok E network f' inst' (es @ [e])"
    using pv verified_iff by (simp add: log_state_ok_def)
  have h: "jget e ''entry_hash'' = JStr (entry_hash E e)" by (rule check_entry_head [OF assms(5)])
  then have "latest_hash_cache inst' = jget e ''entry_hash''"
    using pv(4) get_or_str [OF h] by (simp add: chain_head_def)
  moreover note h
  moreover have "latest_sig inst' = stat_sig f'" using assms(6) by (auto simp: persist_def Let_def)
  ultimately show "latest_hash E f' inst' = Inr (jget e ''entry_hash'', inst')"
    by (simp add: latest_hash_def)
qed

text \<open>One append of the log's own identity.\<close>

lemma append_event_ok:
  assumes "log_state_ok E (id_network I) f inst es" and "identity_ok E I"
    and "wf_dict (float_repr E) details" and "evidence_wf E evid"
  obtains p e f' inst' where
    "append_event E I f inst now ts (id_hash I) sub act details sev evid = Inr (e, f', inst')"
    and "e = build_entry E I ts (JStr p) (id_hash I) sub act details sev evid"
    and "chain_head es = JStr p" and "log_state_ok E (id_network I) f' inst' (es @ [e])"
    and "latest_hash E f' inst' = Inr (jget e ''entry_hash'', inst')"
proof -
  obtain p inst1 where head: "latest_hash E f inst = Inr (JStr p, inst1)" "chain_head es = JStr p"
    using log_state_head [OF assms(1)] .
  define e where "e = build_entry E I ts (JStr p) (id_hash I) sub act details sev evid"
  obtain f' inst' where per: "persist f inst1 now e = (f', inst')" by (cases "persist f inst1 now e")
  note chk = self_entry_checks [OF assms(2,3,4) e_def]
  have "append_event E I f inst now ts (id_hash I) sub act details sev evid = Inr (e, f', inst')"
    by (simp add: append_event_def head e_def [symmetric] per)
  from that [OF this e_def head(2) persist_state_ok [OF assms(1) head(2) chk(1,2) chk(3) per]] show thesis .
qed

section \<open>A log of one entry\<close>

definition sample_entry :: dict where
  "sample_entry = build_entry sample_env sample_identity ''t'' (JStr ''GENESIS'')
     (id_hash sample_identity) ''peer'' ''donation'' [] 1 None"

definition sample_log :: log_file where
  "sample_log = fst (persist empty_log fresh_inst 2 sample_entry)"

definition sample_inst :: log_inst where
  "sample_inst = snd (persist empty_log fresh_inst 2 sample_entry)"

lemma sample_log_state:
  "log_state_ok sample_env (id_network sample_identity) sample_log sample_inst [sample_entry]"
proof -
  have "log_state_ok sample_env (id_network sample_identity) empty_log fresh_inst []"
    by (simp add: log_state_ok_def)
  moreover have "chain_head [] = JStr ''GENESIS''" by (simp add: chain_head_def genesis_def)
  moreover have d: "wf_dict (float_repr sample_env) []" "evidence_wf sample_env None"
    by (simp_all add: evidence_wf_def)
  note chk = self_entry_checks [OF sample_identity_ok d sample_entry_def]
  have "persist empty_log fresh_inst 2 sample_entry = (sample_log, sample_inst)"
    by (simp add: sample_log_def sample_inst_def)
  from persist_state_ok(1) [OF calculation chk(1,2) chk(3) this] show ?thesis by simp
qed

lemma sample_log_ok [simp]:
  "file_holds sample_env sample_log [sample_entry]"
  "verify_integrity sample_env (id_network sample_identity) sample_log = (True, [])"
  using sample_log_state by (simp_all add: log_state_ok_def)

end
