(* ===== verification/Hash_Chain.thy ===== *)
theory Hash_Chain
  imports Crypto_Env
begin

text \<open>
  The contract of a hash-chained log as an interface: every entry names the hash of the
  entry before it, the hash covers that name, and no hash equals the start value.  Proved
  once: two chains with the same last hash hold the same contents, as long as the digest
  separates the contents at hand.  The signed log and the unsigned log interpret it.
\<close>

fun chained :: "('e \<Rightarrow> json) \<Rightarrow> ('e \<Rightarrow> string) \<Rightarrow> json \<Rightarrow> 'e list \<Rightarrow> bool" where
  "chained prev dig p [] = True"
| "chained prev dig p (e # es) = (prev e = p \<and> chained prev dig (JStr (dig e)) es)"

definition chain_end :: "('e \<Rightarrow> string) \<Rightarrow> json \<Rightarrow> 'e list \<Rightarrow> json" where
  "chain_end dig p es = (if es = [] then p else JStr (dig (last es)))"

lemma chained_snoc:
  "chained prev dig p (es @ [e]) \<longleftrightarrow> chained prev dig p es \<and> prev e = chain_end dig p es"
  by (induction es arbitrary: p) (auto simp: chain_end_def)

lemma chained_prefix: "chained prev dig p (xs @ ys) \<Longrightarrow> chained prev dig p xs"
  by (induction xs arbitrary: p) auto

lemma chain_end_str: "p = JStr s \<Longrightarrow> \<exists>t. chain_end dig p es = JStr t"
  by (simp add: chain_end_def)

locale hash_chain =
  fixes ok :: "'e \<Rightarrow> bool"
    and prev :: "'e \<Rightarrow> json"
    and dig :: "'e \<Rightarrow> string"
    and payload :: "'e \<Rightarrow> bytes"
    and digest :: "bytes \<Rightarrow> bytes"
    and start :: string
  assumes dig_digest: "ok e \<Longrightarrow> ok e' \<Longrightarrow> dig e = dig e' \<Longrightarrow> digest (payload e) = digest (payload e')"
    and payload_prev: "ok e \<Longrightarrow> ok e' \<Longrightarrow> payload e = payload e' \<Longrightarrow> prev e = JStr s \<Longrightarrow> prev e' = JStr s"
    and start_fresh: "ok e \<Longrightarrow> dig e \<noteq> start"
begin

lemma same_end_same_length:
  assumes "list_all ok es" and "chain_end dig (JStr start) es = JStr start"
  shows "es = []"
proof (rule ccontr)
  assume "es \<noteq> []"
  then have "ok (last es)" using assms(1) by (simp add: list_all_iff)
  with assms(2) \<open>es \<noteq> []\<close> show False by (simp add: chain_end_def start_fresh)
qed

lemma same_end_same_payloads:
  assumes "chained prev dig (JStr start) es" and "chained prev dig (JStr start) fs"
    and "list_all ok es" and "list_all ok fs"
    and "chain_end dig (JStr start) es = chain_end dig (JStr start) fs"
    and "inj_on digest (payload ` (set es \<union> set fs))"
  shows "map payload es = map payload fs"
  using assms
proof (induction es arbitrary: fs rule: rev_induct)
  case Nil
  have "chain_end dig (JStr start) [] = JStr start" by (simp add: chain_end_def)
  with Nil.prems(5) have "chain_end dig (JStr start) fs = JStr start" by simp
  from same_end_same_length [OF Nil.prems(4) this] show ?case by simp
next
  case (snoc e es)
  have "fs \<noteq> []"
  proof
    assume "fs = []"
    then have "chain_end dig (JStr start) fs = JStr start" by (simp add: chain_end_def)
    with snoc.prems(5) have "chain_end dig (JStr start) (es @ [e]) = JStr start" by (rule trans)
    from same_end_same_length [OF snoc.prems(3) this] show False by simp
  qed
  then obtain gs g where fs: "fs = gs @ [g]" by (metis rev_exhaust)
  have ok: "ok e" "ok g" using snoc.prems fs by simp_all
  have "dig e = dig g" using snoc.prems(5) fs by (simp add: chain_end_def)
  then have "digest (payload e) = digest (payload g)" by (rule dig_digest [OF ok])
  then have pay: "payload e = payload g"
    by (rule inj_onD [OF snoc.prems(6)]) (simp_all add: fs)
  have pe: "prev e = chain_end dig (JStr start) es" "prev g = chain_end dig (JStr start) gs"
    using snoc.prems(1,2) fs by (simp_all add: chained_snoc)
  obtain s where s: "chain_end dig (JStr start) es = JStr s" using chain_end_str by blast
  have "prev g = JStr s" using payload_prev [OF ok pay] pe(1) s by simp
  with pe s have "chain_end dig (JStr start) es = chain_end dig (JStr start) gs" by simp
  moreover have "inj_on digest (payload ` (set es \<union> set gs))"
    by (rule inj_on_subset [OF snoc.prems(6)]) (auto simp: fs)
  ultimately have "map payload es = map payload gs"
    using snoc.prems fs by (intro snoc.IH) (simp_all add: chained_snoc)
  with fs pay show ?case by simp
qed

lemma prefix_end_length:
  assumes "chained prev dig (JStr start) es" and "list_all ok es" and "inj_on digest (payload ` set es)"
    and "es = xs @ us" and "es = ys @ vs"
    and "chain_end dig (JStr start) xs = chain_end dig (JStr start) ys"
  shows "length xs = length ys"
proof -
  have ch: "chained prev dig (JStr start) xs" "chained prev dig (JStr start) ys"
    using chained_prefix assms(1,4,5) by metis+
  have ok: "list_all ok xs" "list_all ok ys" using assms(2,4,5) by (metis list_all_append)+
  have "set xs \<subseteq> set es" unfolding assms(4) by simp
  moreover have "set ys \<subseteq> set es" unfolding assms(5) by simp
  ultimately have "payload ` (set xs \<union> set ys) \<subseteq> payload ` set es" by auto
  then have "inj_on digest (payload ` (set xs \<union> set ys))" by (rule inj_on_subset [OF assms(3)])
  from same_end_same_payloads [OF ch ok assms(6) this] have "map payload xs = map payload ys" .
  then show ?thesis by (metis length_map)
qed

lemma digests_distinct:
  assumes "chained prev dig (JStr start) es" and "list_all ok es" and "inj_on digest (payload ` set es)"
  shows "distinct (map dig es)"
proof (unfold distinct_conv_nth, intro allI impI)
  fix i j
  assume ij: "i < length (map dig es)" "j < length (map dig es)" "i \<noteq> j"
  show "map dig es ! i \<noteq> map dig es ! j"
  proof
    assume "map dig es ! i = map dig es ! j"
    then have "chain_end dig (JStr start) (take (Suc i) es) = chain_end dig (JStr start) (take (Suc j) es)"
      using ij by (simp add: chain_end_def take_Suc_conv_app_nth)
    from prefix_end_length [OF assms _ _ this, of "drop (Suc i) es" "drop (Suc j) es"] ij
    show False by simp
  qed
qed

lemma chained_end_unique:
  assumes "chained prev dig (JStr start) (es @ [e])" and "ok e"
  shows "prev e = chain_end dig (JStr start) es" "chain_end dig (JStr start) (es @ [e]) \<noteq> JStr start"
  using assms by (simp_all add: chained_snoc chain_end_def start_fresh)

end

section \<open>Entries as payloads\<close>

text \<open>Canonical bytes of two objects agree only if every string-valued field agrees.\<close>

lemma sort_keys_str: "sort_keys v = JStr s \<longleftrightarrow> v = JStr s"
  by (cases v) auto

lemma map_of_sort_keys_dict: "map_of (sort_keys_dict d) k = map_option sort_keys (map_of d k)"
  by (induction d) auto

lemma dict_ok_sort_keys_dict: "dict_ok (sort_keys_dict d) = dict_ok d"
  by (simp add: sort_keys_dict_map comp_def)

lemma canonical_field:
  assumes "wf_dict fr d" and "wf_dict fr e" and "canonical_bytes (JObj d) = canonical_bytes (JObj e)"
    and "jget d k = JStr s"
  shows "jget e k = JStr s"
proof -
  have "sort_key fst (sort_keys_dict d) = sort_key fst (sort_keys_dict e)"
    using canonical_bytes_inj [OF assms(1-3)] by simp
  then have "map_of (sort_keys_dict d) k = map_of (sort_keys_dict e) k"
    using assms(1,2) map_of_sort_key [of "sort_keys_dict d"] map_of_sort_key [of "sort_keys_dict e"]
    by (simp add: dict_ok_sort_keys_dict)
  then have "map_option sort_keys (map_of d k) = map_option sort_keys (map_of e k)"
    by (simp only: map_of_sort_keys_dict)
  moreover have "map_of d k = Some (JStr s)"
    using assms(4) by (simp add: get_or_def split: option.splits)
  ultimately obtain w where "map_of e k = Some w" "sort_keys w = JStr s"
    by (cases "map_of e k") simp_all
  then show ?thesis by (simp add: get_or_def sort_keys_str)
qed

end
