(* ===== verification/Verify_Cli.thy ===== *)
theory Verify_Cli
  imports Signed_Log
begin

text \<open>
  The standalone verifier (redteam/primitives/verify.py): the same checks written a second
  time, without sharing code with the producer, and the command-line scan over a file with
  its exit codes.  The probe of the path is a parameter: what the file system answers.
\<close>

section \<open>Canonical bytes\<close>

definition cli_canonical_bytes :: "dict \<Rightarrow> bytes" where
  "cli_canonical_bytes entry =
     (let hashable = AList.delete ''signature'' (AList.delete ''entry_hash'' entry)
      in utf8_encode (dumps_canonical (JObj hashable)))"

definition cli_canonical_payload_bytes :: "json \<Rightarrow> bytes" where
  "cli_canonical_payload_bytes payload = utf8_encode (dumps_canonical payload)"

definition recompute_entry_hash :: "env \<Rightarrow> dict \<Rightarrow> string" where
  "recompute_entry_hash E entry = bytes_hex (sha256 E (cli_canonical_bytes entry))"

section \<open>Checks\<close>

definition cli_check_chain :: "env \<Rightarrow> nat \<Rightarrow> dict \<Rightarrow> json \<Rightarrow> message list" where
  "cli_check_chain E index entry prev_hash =
     (let actual_prev = jget entry ''previous_hash'' in
      (if \<not> py_eq actual_prev prev_hash
       then [at_entry index (PreviousHashMismatch prev_hash actual_prev)] else [])) @
     (let expected_hash = recompute_entry_hash E entry; stored_hash = jget entry ''entry_hash'' in
      if stored_hash \<noteq> JStr expected_hash then [at_entry index EntryHashMismatch] else [])"

definition cli_check_signature ::
  "env \<Rightarrow> nat \<Rightarrow> dict \<Rightarrow> bytes option \<Rightarrow> bytes option \<Rightarrow> message list" where
  "cli_check_signature E index entry pubkey_bytes sig_bytes =
     (if pubkey_bytes = None \<or> sig_bytes = None then []
      else
        (case ed25519_verify E (the pubkey_bytes) (the sig_bytes) (cli_canonical_bytes entry) of
           VerifyOk \<Rightarrow> []
         | InvalidSignature \<Rightarrow> [at_entry index SignatureFailed]
         | VerifyError m \<Rightarrow> [at_entry index (SignatureError m)]))"

definition cli_check_identity_binding ::
  "env \<Rightarrow> nat \<Rightarrow> dict \<Rightarrow> bytes option \<Rightarrow> string \<Rightarrow> message list" where
  "cli_check_identity_binding E index entry pubkey_bytes network =
     (if pubkey_bytes = None then []
      else
        (let expected_id = bytes_hex (sha256 E (the pubkey_bytes @ utf8_encode network));
             actual_id = jget entry ''reporter_id''
         in if actual_id \<noteq> JStr expected_id then [at_entry index (BindingMismatch network)] else []))"

definition cli_decode_hex_field :: "dict \<Rightarrow> string \<Rightarrow> nat \<Rightarrow> nat \<Rightarrow> bytes option \<times> message list" where
  "cli_decode_hex_field entry name expected_len index =
     (case jget entry name of
        JStr raw \<Rightarrow>
          if raw = [] then (None, [at_entry index (MissingField name)])
          else
            (case bytes_fromhex raw of
               None \<Rightarrow> (None, [at_entry index (MalformedHex name)])
             | Some decoded \<Rightarrow>
                 if length decoded \<noteq> expected_len
                 then (None, [at_entry index (WrongLength name (length decoded) expected_len)])
                 else (Some decoded, []))
      | _ \<Rightarrow> (None, [at_entry index (MissingField name)]))"

definition cli_decode_pubkey_and_sig :: "nat \<Rightarrow> dict \<Rightarrow> bytes option \<times> bytes option \<times> message list" where
  "cli_decode_pubkey_and_sig index entry =
     (let (pubkey_bytes, errs1) = cli_decode_hex_field entry ''reporter_pubkey'' 32 index;
          (sig_bytes, errs2) = cli_decode_hex_field entry ''signature'' 64 index
      in (pubkey_bytes, sig_bytes, errs1 @ errs2))"

definition cli_decode_subject_pubkey_and_sig ::
  "nat \<Rightarrow> dict \<Rightarrow> bytes option \<times> bytes option \<times> message list" where
  "cli_decode_subject_pubkey_and_sig index entry =
     (let (pubkey_bytes, errs1) = cli_decode_hex_field entry ''subject_pubkey'' 32 index;
          (sig_bytes, errs2) = cli_decode_hex_field entry ''subject_signature'' 64 index
      in (pubkey_bytes, sig_bytes, errs1 @ errs2))"

definition cli_check_subject_identity_binding ::
  "env \<Rightarrow> bytes option \<Rightarrow> string \<Rightarrow> json \<Rightarrow> failure list" where
  "cli_check_subject_identity_binding E pubkey_bytes network subject_id =
     (if pubkey_bytes = None then []
      else
        (let expected = bytes_hex (sha256 E (the pubkey_bytes @ utf8_encode network))
         in if subject_id \<noteq> JStr expected then [SubjectBindingMismatch network] else []))"

definition cli_check_claim_consistency :: "json \<Rightarrow> json \<Rightarrow> json \<Rightarrow> json \<Rightarrow> failure list" where
  "cli_check_claim_consistency subject_claim subject_id action details_hash =
     (case subject_claim of
        JObj c \<Rightarrow>
          (if jget c ''kind'' \<noteq> JStr ''claim'' then [ClaimKind (jget c ''kind'')] else []) @
          (if \<not> is_int (jget c ''version'') then [ClaimVersion] else []) @
          (case jget c ''nonce'' of
             JStr nonce \<Rightarrow>
               (case bytes_fromhex nonce of
                  None \<Rightarrow> [ClaimNonceNotHex]
                | Some nonce_bytes \<Rightarrow> if length nonce_bytes \<noteq> 16 then [ClaimNonceLength] else [])
           | _ \<Rightarrow> [ClaimNonceMissing]) @
          (case jget c ''claim_timestamp'' of
             JStr t \<Rightarrow> if t = [] then [ClaimTimestamp] else []
           | _ \<Rightarrow> [ClaimTimestamp]) @
          (if \<not> py_eq (jget c ''subject_id'') subject_id then [ClaimSubjectId] else []) @
          (if \<not> py_eq (jget c ''action'') action then [ClaimAction] else []) @
          (if \<not> py_eq (jget c ''details_hash'') details_hash then [ClaimDetailsHash] else [])
      | _ \<Rightarrow> [ClaimNotObject])"

definition cli_check_subject_signature ::
  "env \<Rightarrow> bytes option \<Rightarrow> bytes option \<Rightarrow> json \<Rightarrow> failure list" where
  "cli_check_subject_signature E pubkey_bytes sig_bytes subject_claim =
     (if pubkey_bytes = None \<or> sig_bytes = None then []
      else if \<not> is_dict subject_claim then [ClaimNotObject]
      else
        (case ed25519_verify E (the pubkey_bytes) (the sig_bytes) (cli_canonical_payload_bytes subject_claim) of
           VerifyOk \<Rightarrow> []
         | InvalidSignature \<Rightarrow> [SubjectSignatureFailed]
         | VerifyError m \<Rightarrow> [SubjectSignatureError m]))"

definition cli_verify_witness_fields :: "env \<Rightarrow> nat \<Rightarrow> dict \<Rightarrow> string \<Rightarrow> message list" where
  "cli_verify_witness_fields E index entry network =
     (let missing =
        (if \<not> has_key entry ''subject_claim'' then [at_entry index (MissingField ''subject_claim'')] else []) @
        (if \<not> has_key entry ''subject_pubkey'' then [at_entry index (MissingField ''subject_pubkey'')] else []) @
        (if \<not> has_key entry ''subject_signature'' then [at_entry index (MissingField ''subject_signature'')] else [])
      in if missing \<noteq> [] then missing
         else
           let (sub_pk, sub_sig, decode_errors) = cli_decode_subject_pubkey_and_sig index entry
           in decode_errors @
              map (at_entry index)
                (cli_check_subject_identity_binding E sub_pk network (jget entry ''subject_id'')) @
              map (at_entry index)
                (cli_check_claim_consistency (jget entry ''subject_claim'') (jget entry ''subject_id'')
                   (jget entry ''action'') (jget entry ''details_hash'')) @
              map (at_entry index)
                (cli_check_subject_signature E sub_pk sub_sig (jget entry ''subject_claim'')))"

definition cli_verify_entry :: "env \<Rightarrow> nat \<Rightarrow> dict \<Rightarrow> json \<Rightarrow> string \<Rightarrow> message list" where
  "cli_verify_entry E index entry prev_hash network =
     (let (pubkey_bytes, sig_bytes, decode_errors) = cli_decode_pubkey_and_sig index entry;
          kind = jget entry ''kind''
      in cli_check_chain E index entry prev_hash @
         decode_errors @
         cli_check_signature E index entry pubkey_bytes sig_bytes @
         cli_check_identity_binding E index entry pubkey_bytes network @
         (if kind = JStr ''self'' then
            map (\<lambda>forbidden. at_entry index (ForbiddenField forbidden))
              (filter (has_key entry) [''subject_pubkey'', ''subject_claim'', ''subject_signature''])
          else if kind = JStr ''witness'' then cli_verify_witness_fields E index entry network
          else [at_entry index (UnknownKind kind)]))"

section \<open>The command\<close>

text \<open>The line without its terminator: \<open>\r\n\<close> or \<open>\n\<close>.\<close>

definition chop_terminator :: "string \<Rightarrow> string" where
  "chop_terminator raw =
     (if length raw \<ge> 2 \<and> drop (length raw - 2) raw = [cr, nl] then take (length raw - 2) raw
      else if raw \<noteq> [] \<and> last raw = nl then butlast raw
      else raw)"

text \<open>The scan: errors, the number of entries seen and the line it stopped at, if malformed.\<close>

fun cli_scan ::
  "env \<Rightarrow> string \<Rightarrow> nat \<Rightarrow> nat \<Rightarrow> json \<Rightarrow> string list \<Rightarrow> message list \<times> nat \<times> nat option" where
  "cli_scan E network line_no index prev_hash [] = ([], index, None)"
| "cli_scan E network line_no index prev_hash (raw # ls) =
     (let line = chop_terminator raw in
      if startswith line ''==='' \<or> strip line = []
      then cli_scan E network (Suc line_no) index prev_hash ls
      else
        (let index' = Suc index in
         case loads (float_repr E) line of
           None \<Rightarrow> ([at_entry index' MalformedLine], index', Some line_no)
         | Some (JObj entry) \<Rightarrow>
             (let (errors, n, stopped) =
                cli_scan E network (Suc line_no) index' (JStr (recompute_entry_hash E entry)) ls
              in (cli_verify_entry E index' entry prev_hash network @ errors, n, stopped))
         | Some _ \<Rightarrow> ([at_entry index' NotAnObject], index', Some line_no)))"

definition strip_newlines :: "string \<Rightarrow> string" where
  "strip_newlines raw = rev (dropWhile (\<lambda>c. c = cr \<or> c = nl) (rev raw))"

definition count_unverified :: "nat \<Rightarrow> string list \<Rightarrow> nat" where
  "count_unverified malformed_at_line ls =
     length (filter (\<lambda>raw. \<not> (startswith (strip_newlines raw) ''==='' \<or> strip (strip_newlines raw) = []))
       (drop malformed_at_line ls))"

datatype path_probe = NotFound | IsDirectory | NotUtf8 | CannotRead | Readable string

datatype cli_output =
    StderrNotFound
  | StderrIsDirectory
  | StderrNotUtf8
  | StderrCannotRead
  | PrintFailure message
  | PrintStopped nat nat
  | PrintVerified nat

definition verify_main :: "env \<Rightarrow> string \<Rightarrow> path_probe \<Rightarrow> int \<times> cli_output list" where
  "verify_main E network probe = (case probe of
     NotFound \<Rightarrow> (2, [StderrNotFound])
   | IsDirectory \<Rightarrow> (2, [StderrIsDirectory])
   | NotUtf8 \<Rightarrow> (2, [StderrNotUtf8])
   | CannotRead \<Rightarrow> (2, [StderrCannotRead])
   | Readable t \<Rightarrow>
       (let (errors, index, malformed_at_line) = cli_scan E network 1 0 genesis (text_lines t) in
        if errors \<noteq> [] then
          (1, map PrintFailure errors @
              (case malformed_at_line of
                 None \<Rightarrow> []
               | Some n \<Rightarrow> [PrintStopped n (count_unverified n (text_lines t))]))
        else (0, [PrintVerified index])))"

section \<open>The two implementations agree entry by entry\<close>

lemma cli_helpers_agree:
  "cli_canonical_bytes e = canonical_bytes (JObj (signed_payload e))"
  "cli_canonical_payload_bytes v = canonical_bytes v"
  "recompute_entry_hash E e = entry_hash E e"
  "cli_decode_hex_field e name n i = decode_hex_field e name n i"
  "cli_decode_pubkey_and_sig i e = decode_pubkey_and_sig i e"
  "cli_decode_subject_pubkey_and_sig i e = decode_subject_pubkey_and_sig i e"
  "cli_check_claim_consistency c s a d = check_claim_consistency c s a d"
  by (simp_all add: cli_canonical_bytes_def cli_canonical_payload_bytes_def canonical_bytes_def
      signed_payload_def recompute_entry_hash_def entry_hash_def stable_hash_def sha256_hex_def
      cli_decode_hex_field_def decode_hex_field_def cli_decode_pubkey_and_sig_def
      decode_pubkey_and_sig_def cli_decode_subject_pubkey_and_sig_def
      decode_subject_pubkey_and_sig_def cli_check_claim_consistency_def check_claim_consistency_def
      Let_def)

lemma cli_checks_agree:
  "cli_check_chain E i e p = check_chain E i e p"
  "cli_check_signature E i e pk sg = check_signature E i e pk sg"
  "cli_check_identity_binding E i e pk network = check_identity_binding E i e pk network"
  "cli_check_subject_identity_binding E pk network s = check_subject_identity_binding E pk network s"
  "cli_check_subject_signature E pk sg c = check_subject_signature E pk sg c"
  by (auto simp: cli_check_chain_def check_chain_def cli_check_signature_def check_signature_def
      cli_check_identity_binding_def check_identity_binding_def cli_check_subject_identity_binding_def
      check_subject_identity_binding_def cli_check_subject_signature_def check_subject_signature_def
      cli_helpers_agree sha256_hex_def Let_def split: option.splits)

lemma cli_verify_entry_agrees: "cli_verify_entry E i e p network = check_entry E i e p network"
  by (simp add: cli_verify_entry_def check_entry_def check_kind_def cli_verify_witness_fields_def
      verify_witness_fields_def cli_checks_agree cli_helpers_agree Let_def split: prod.splits)

end
