(* ===== verification/Signed_Log_Spec.thy ===== *)
theory Signed_Log_Spec
  imports Signed_Log_Appends Hash_Chain Verify_Cli
begin

text \<open>
  What the signed log promises: appends keep a verified log verified and leave nothing
  behind when they are refused, cached heads agree with the file under interleaved writers,
  the head hash fixes the contents of the log (through the hash-chain interface), and the
  in-process verifier, the foreign-entry verifier and the command agree.
\<close>

section \<open>Appends\<close>

text \<open>
  C1: Appending an event of the log's own identity to a verified log succeeds; the file then
  holds the old entries and the new one, verifies without errors, and the instance's next
  head lookup returns the new entry's hash.
\<close>

theorem append_event_keeps_verified:
  assumes "log_state_ok E (id_network I) f inst es" and "identity_ok E I"
    and "wf_dict (float_repr E) details" and "evidence_wf E evid"
  shows "\<exists>e f' inst'.
    append_event E I f inst now ts (id_hash I) sub act details sev evid = Inr (e, f', inst') \<and>
    log_state_ok E (id_network I) f' inst' (es @ [e]) \<and>
    jget e ''previous_hash'' = chain_head es \<and>
    latest_hash E f' inst' = Inr (jget e ''entry_hash'', inst')"
proof -
  obtain p e f' inst' where
    step: "append_event E I f inst now ts (id_hash I) sub act details sev evid = Inr (e, f', inst')"
      "log_state_ok E (id_network I) f' inst' (es @ [e])"
      "latest_hash E f' inst' = Inr (jget e ''entry_hash'', inst')"
    and e: "e = build_entry E I ts (JStr p) (id_hash I) sub act details sev evid" "chain_head es = JStr p"
    using append_event_ok [OF assms] by metis
  with check_entry_prev [OF self_entry_checks(3) [OF assms(2,3,4) e(1)]] show ?thesis by auto
qed

lemma append_event_keeps_verified_witness:
  "\<exists>e f' inst'.
    append_event sample_env sample_identity empty_log fresh_inst 2 ''t'' (id_hash sample_identity) ''peer''
      ''donation'' [] 1 None = Inr (e, f', inst') \<and>
    log_state_ok sample_env (id_network sample_identity) f' inst' ([] @ [e]) \<and>
    jget e ''previous_hash'' = chain_head [] \<and>
    latest_hash sample_env f' inst' = Inr (jget e ''entry_hash'', inst')"
  by (rule append_event_keeps_verified) (simp_all add: log_state_ok_def evidence_wf_def)

text \<open>
  C2: A witness append on a verified log either is refused with the failed check, or it
  succeeds and the new entry, which carries the co-signed claim, extends the verified log.
  Nothing is written when it is refused.
\<close>

theorem append_witness_keeps_verified:
  assumes "log_state_ok E (id_network I) f inst es" and "identity_ok E I"
    and "wf_dict (float_repr E) details" and "evidence_wf E evid" and "wf_json (float_repr E) claim"
  shows "case append_witness_event E I f inst now ts (id_hash I) sub spk claim ssig act details sev evid of
      Inl err \<Rightarrow> (\<exists>x. err = BadArgument x) \<or> (\<exists>xs. err = ChecksFailed xs \<and> xs \<noteq> [])
    | Inr (e, f', inst') \<Rightarrow>
        log_state_ok E (id_network I) f' inst' (es @ [e]) \<and>
        jget e ''kind'' = JStr ''witness'' \<and> jget e ''subject_claim'' = claim \<and>
        jget e ''previous_hash'' = chain_head es \<and>
        latest_hash E f' inst' = Inr (jget e ''entry_hash'', inst')"
proof -
  obtain p inst1 where head: "latest_hash E f inst = Inr (JStr p, inst1)" "chain_head es = JStr p"
    using log_state_head [OF assms(1)] .
  show ?thesis
  proof (cases "build_witness_entry E I ts (JStr p) (id_hash I) sub spk claim ssig act details sev evid")
    case (Inl err)
    then have "(\<exists>x. err = BadArgument x) \<or> (\<exists>xs. err = ChecksFailed xs \<and> xs \<noteq> [])"
      by (rule build_witness_InlD)
    with Inl head show ?thesis by (simp add: append_witness_event_def)
  next
    case (Inr e)
    obtain f' inst' where per: "persist f inst1 now e = (f', inst')" by (cases "persist f inst1 now e")
    note chk = witness_entry_checks [OF assms(2-5) Inr]
    have "jget e ''kind'' = JStr ''witness'' \<and> jget e ''subject_claim'' = claim"
    proof (rule build_witness_InrD [OF Inr])
      fix pk sg
      assume e: "e = seal_entry E I (payload_fields E I ''witness'' ts (JStr p) sub act details sev evid @
           subject_fields pk claim sg)"
      show ?thesis
        using seal_get_other [OF payload_unsealed(2), of "''kind''"]
          seal_get_other [OF payload_unsealed(2), of "''subject_claim''"]
        by (simp add: e payload_get subject_get)
    qed
    with Inr head per persist_state_ok [OF assms(1) head(2) chk(1,2) chk(3) per] check_entry_prev [OF chk(3)]
    show ?thesis by (simp add: append_witness_event_def)
  qed
qed

definition sample_claim :: json where
  "sample_claim = JObj [(''kind'', JStr ''claim''), (''version'', JInt 1),
     (''nonce'', JStr (bytes_hex (replicate 16 3))), (''claim_timestamp'', JStr ''t''),
     (''subject_id'', JStr (id_hash sample_identity)), (''action'', JStr ''donation''),
     (''details_hash'', JStr (stable_hash sample_env (JObj [])))]"

lemma append_witness_keeps_verified_witness:
  "case append_witness_event sample_env sample_identity empty_log fresh_inst 2 ''t'' (id_hash sample_identity)
      (id_hash sample_identity) (ArgBytes (replicate 32 7)) sample_claim (ArgBytes (replicate 64 0))
      ''donation'' [] 1 None of
      Inl err \<Rightarrow> (\<exists>x. err = BadArgument x) \<or> (\<exists>xs. err = ChecksFailed xs \<and> xs \<noteq> [])
    | Inr (e, f', inst') \<Rightarrow>
        log_state_ok sample_env (id_network sample_identity) f' inst' ([] @ [e]) \<and>
        jget e ''kind'' = JStr ''witness'' \<and> jget e ''subject_claim'' = sample_claim \<and>
        jget e ''previous_hash'' = chain_head [] \<and>
        latest_hash sample_env f' inst' = Inr (jget e ''entry_hash'', inst')"
  by (rule append_witness_keeps_verified)
    (simp_all add: log_state_ok_def evidence_wf_def sample_claim_def)

section \<open>The head hash fixes the contents\<close>

abbreviation entry_payload :: "dict \<Rightarrow> bytes" where
  "entry_payload e \<equiv> canonical_bytes (JObj (signed_payload e))"

lemma entry_hash_payload: "entry_hash E e = sha256_hex E (entry_payload e)"
  by (simp add: entry_hash_def signed_payload_def stable_hash_def)

lemma signed_payload_get:
  "k \<noteq> ''signature'' \<Longrightarrow> k \<noteq> ''entry_hash'' \<Longrightarrow> jget (signed_payload e) k = jget e k"
  by (simp add: signed_payload_def get_or_def delete_conv')

lemma signed_payload_wf: "wf_dict fr e \<Longrightarrow> wf_dict fr (signed_payload e)"
  unfolding signed_payload_def by (intro wf_dict_delete)

interpretation signed_chain: hash_chain
  "\<lambda>e. digest_ok E \<and> wf_dict (float_repr E) e" "\<lambda>e. jget e ''previous_hash''" "entry_hash E"
  entry_payload "sha256 E" "''GENESIS''" for E :: env
proof unfold_locales
  fix e e' :: dict
  assume "entry_hash E e = entry_hash E e'"
  then show "sha256 E (entry_payload e) = sha256 E (entry_payload e')"
    by (simp add: entry_hash_payload sha256_hex_def bytes_hex_inj)
next
  fix e e' :: dict and s
  assume "digest_ok E \<and> wf_dict (float_repr E) e" and "digest_ok E \<and> wf_dict (float_repr E) e'"
    and pay: "entry_payload e = entry_payload e'" and prev: "jget e ''previous_hash'' = JStr s"
  then have "wf_dict (float_repr E) (signed_payload e)" "wf_dict (float_repr E) (signed_payload e')"
    using signed_payload_wf by blast+
  from canonical_field [OF this pay, of "''previous_hash''" s] prev
  show "jget e' ''previous_hash'' = JStr s" by (simp add: signed_payload_get)
next
  fix e :: dict
  assume "digest_ok E \<and> wf_dict (float_repr E) e"
  then show "entry_hash E e \<noteq> ''GENESIS''"
    using stable_hash_not_genesis by (simp add: entry_hash_def)
qed

lemma verified_chained:
  "verify_entries E network i (JStr p) es = [] \<Longrightarrow>
     chained (\<lambda>e. jget e ''previous_hash'') (entry_hash E) (JStr p) es"
proof (induction es arbitrary: i p)
  case Nil
  then show ?case by simp
next
  case (Cons e es)
  from verified_step [OF Cons.prems] Cons.IH show ?case by simp
qed

lemma verified_chain_end:
  assumes "verify_entries E network 0 genesis es = []"
  shows "chain_head es = chain_end (entry_hash E) genesis es"
proof (cases es rule: rev_cases)
  case Nil
  then show ?thesis by (simp add: chain_head_def chain_end_def)
next
  case (snoc fs e)
  have "verify_entries E network (length fs) (chain_head fs) [e] = []"
    using assms by (simp add: snoc verify_entries_append chain_head_def)
  moreover obtain p where "chain_head fs = JStr p"
    using chain_head_str [of E network fs] assms by (auto simp: snoc verify_entries_append)
  ultimately have "jget e ''entry_hash'' = JStr (entry_hash E e)"
    using verified_step(2) by metis
  from get_or_str [OF this] show ?thesis by (simp add: snoc chain_head_def chain_end_def)
qed

text \<open>
  C4: Two verified logs with the same head hash hold the same entries in the same order, in
  every field except the reporter's signature, provided SHA-256 does not collide on the
  canonical bytes of the entries at hand.
\<close>

theorem head_hash_fixes_entries:
  assumes "digest_ok E"
    and "file_holds E f es" and "verify_integrity E network f = (True, [])"
    and "file_holds E g fs" and "verify_integrity E network' g = (True, [])"
    and "base_latest_hash E f = base_latest_hash E g"
    and "inj_on (sha256 E) ((\<lambda>e. canonical_bytes (JObj (signed_payload e))) ` (set es \<union> set fs))"
  shows "map (\<lambda>e. sort_keys (JObj (signed_payload e))) es = map (\<lambda>e. sort_keys (JObj (signed_payload e))) fs"
proof -
  have v: "verify_entries E network 0 genesis es = []" "verify_entries E network' 0 genesis fs = []"
    using assms(2-5) verified_iff by auto
  have "chain_head es = chain_head fs"
    using base_latest_hash_verified [OF assms(2) v(1)] base_latest_hash_verified [OF assms(4) v(2)] assms(6)
    by simp
  then have ends: "chain_end (entry_hash E) (JStr ''GENESIS'') es = chain_end (entry_hash E) (JStr ''GENESIS'') fs"
    using verified_chain_end [OF v(1)] verified_chain_end [OF v(2)] by (simp add: genesis_def)
  have wf: "\<forall>e \<in> set es. wf_dict (float_repr E) e" "\<forall>e \<in> set fs. wf_dict (float_repr E) e"
    using assms(2,4) by (simp_all add: file_holds_def)
  have ok: "list_all (\<lambda>e. digest_ok E \<and> wf_dict (float_repr E) e) es"
    "list_all (\<lambda>e. digest_ok E \<and> wf_dict (float_repr E) e) fs"
    using wf assms(1) by (simp_all add: list_all_iff)
  note ch = v [unfolded genesis_def, THEN verified_chained]
  have eq: "map entry_payload es = map entry_payload fs"
    by (rule signed_chain.same_end_same_payloads [OF ch ok ends assms(7)])
  show ?thesis
  proof (rule map_eq_lift [OF eq])
    fix x y assume "x \<in> set es" "y \<in> set fs" and pay: "entry_payload x = entry_payload y"
    then have "wf_dict (float_repr E) x" "wf_dict (float_repr E) y" using wf by blast+
    from this [THEN signed_payload_wf] pay
    show "sort_keys (JObj (signed_payload x)) = sort_keys (JObj (signed_payload y))"
      by (rule canonical_bytes_inj)
  qed
qed

lemma head_hash_fixes_entries_witness:
  "map (\<lambda>e. sort_keys (JObj (signed_payload e))) [sample_entry]
     = map (\<lambda>e. sort_keys (JObj (signed_payload e))) [sample_entry]"
  by (rule head_hash_fixes_entries [OF sample_digest_ok sample_log_ok sample_log_ok refl]) simp

section \<open>What the chain hash does not cover\<close>

abbreviation resigned :: "bytes \<Rightarrow> dict \<Rightarrow> dict" where
  "resigned sg e \<equiv> AList.update ''signature'' (JStr (bytes_hex sg)) e"

lemma delete_update_other: "k \<noteq> l \<Longrightarrow> AList.delete k (AList.update l v d) = AList.update l v (AList.delete k d)"
  by (induction d) auto

lemma delete_update_key: "AList.delete k (AList.update k v d) = AList.delete k d"
  by (induction d) auto

lemma resigned_payload:
  "signed_payload (resigned sg e) = signed_payload e" "entry_hash E (resigned sg e) = entry_hash E e"
  by (simp_all add: signed_payload_def entry_hash_def delete_update_other delete_update_key)

lemma resigned_get:
  "k \<noteq> ''signature'' \<Longrightarrow> get_or (resigned sg e) k v = get_or e k v"
  "k \<noteq> ''signature'' \<Longrightarrow> has_key (resigned sg e) k = has_key e k"
  "jget (resigned sg e) ''signature'' = JStr (bytes_hex sg)"
  by (simp_all add: get_or_def has_key_def update_conv')

lemma resigned_decode: "nm \<noteq> ''signature'' \<Longrightarrow> decode_hex_field (resigned sg e) nm n i = decode_hex_field e nm n i"
  by (simp add: decode_hex_field_def resigned_get(1))

lemma resigned_witness: "verify_witness_fields E i (resigned sg e) network = verify_witness_fields E i e network"
  by (simp add: verify_witness_fields_def decode_subject_pubkey_and_sig_def resigned_decode resigned_get(1,2))

lemma resigned_kind: "check_kind E i (resigned sg e) network = check_kind E i e network"
  by (simp add: check_kind_def resigned_witness resigned_get(1,2) Let_def)

lemma resigned_check:
  assumes "check_entry E i e prev network = []" and "length sg = 64"
  shows "check_entry E i (resigned sg e) prev network =
    (case ed25519_verify E (the (fst (decode_pubkey_and_sig i e))) sg (canonical_bytes (JObj (signed_payload e))) of
       VerifyOk \<Rightarrow> [] | InvalidSignature \<Rightarrow> [at_entry i SignatureFailed]
     | VerifyError m \<Rightarrow> [at_entry i (SignatureError m)])"
proof -
  obtain pk dsg errs where dec: "decode_pubkey_and_sig i e = (pk, dsg, errs)" by (metis prod_cases3)
  have parts: "check_chain E i e prev = []" "errs = []" "check_identity_binding E i e pk network = []"
    "check_kind E i e network = []"
    using assms(1) by (simp_all add: check_entry_def dec)
  have fld: "decode_hex_field e ''reporter_pubkey'' 32 i = (pk, [])"
    using dec parts(2) by (auto simp: decode_pubkey_and_sig_def split: prod.splits)
  then obtain k where pk: "pk = Some k"
    by (cases pk) (auto simp: decode_hex_field_def split: json.splits if_splits option.splits)
  have ne: "sg \<noteq> []" using assms(2) by auto
  have "decode_pubkey_and_sig i (resigned sg e) = (Some k, Some sg, [])"
    using fld pk decode_hex_field_bytes [OF resigned_get(3) assms(2) ne, of e i]
    by (simp add: decode_pubkey_and_sig_def decode_hex_field_def resigned_get)
  moreover have "check_chain E i (resigned sg e) prev = []"
    using parts(1) by (simp add: check_chain_def resigned_get resigned_payload)
  moreover have "check_identity_binding E i (resigned sg e) (Some k) network = []"
    using parts(3) pk by (simp add: check_identity_binding_def resigned_get)
  moreover have "check_kind E i (resigned sg e) network = []"
    using parts(4) by (simp add: resigned_kind)
  ultimately show ?thesis
    by (simp add: check_entry_def check_signature_def resigned_payload dec pk split: verify_outcome.splits)
qed

lemma resigned_version2: "version2 (resigned sg e) = version2 e"
  by (simp add: version2_def resigned_get)

lemma resigned_head:
  "get_or (resigned sg e) ''entry_hash'' v = get_or e ''entry_hash'' v"
  by (simp add: resigned_get)

text \<open>
  Replacing the reporter signature inside a verified log leaves every chain hash as it
  was: the verifier reports at most the signature check of that one entry, and nothing at
  all when the other signature verifies under the same key.
\<close>

lemma signature_outside_chain:
  assumes "verify_entries E network 0 genesis (es @ e # fs) = []" and "length sg = 64"
  shows "verify_entries E network 0 genesis (es @ AList.update ''signature'' (JStr (bytes_hex sg)) e # fs) =
    (case ed25519_verify E (the (fst (decode_pubkey_and_sig (Suc (length es)) e))) sg
            (canonical_bytes (JObj (signed_payload e))) of
       VerifyOk \<Rightarrow> [] | InvalidSignature \<Rightarrow> [at_entry (Suc (length es)) SignatureFailed]
     | VerifyError m \<Rightarrow> [at_entry (Suc (length es)) (SignatureError m)])"
proof -
  define h where "h = foldl (\<lambda>latest e. get_or e ''entry_hash'' latest) genesis es"
  have "version2 e" "check_entry E (Suc (length es)) e h network = []"
    using assms(1) by (auto simp: verify_entries_append h_def split: if_splits)
  from this(1) resigned_check [OF this(2) assms(2)] show ?thesis
    using assms(1) by (simp add: verify_entries_append resigned_version2 resigned_head h_def)
qed

lemma signature_outside_chain_witness:
  "verify_entries sample_env (id_network sample_identity) 0 genesis
     ([] @ AList.update ''signature'' (JStr (bytes_hex (replicate 64 1))) sample_entry # []) =
    (case ed25519_verify sample_env (the (fst (decode_pubkey_and_sig (Suc (length ([] :: dict list))) sample_entry)))
            (replicate 64 1) (canonical_bytes (JObj (signed_payload sample_entry))) of
       VerifyOk \<Rightarrow> [] | InvalidSignature \<Rightarrow> [at_entry (Suc (length ([] :: dict list))) SignatureFailed]
     | VerifyError m \<Rightarrow> [at_entry (Suc (length ([] :: dict list))) (SignatureError m)])"
proof (rule signature_outside_chain)
  show "verify_entries sample_env (id_network sample_identity) 0 genesis ([] @ sample_entry # []) = []"
    using sample_log_ok(2) verified_iff [OF sample_log_ok(1), of "id_network sample_identity"]
    by (simp del: verify_entries.simps)
qed simp

section \<open>Entries on their own\<close>

text \<open>The index only labels messages.\<close>

definition reindex :: "nat \<Rightarrow> message list \<Rightarrow> message list" where
  "reindex i ms = map (\<lambda>m. (Some i, snd m)) ms"

lemma reindex_simps [simp]:
  "reindex i [] = []" "reindex i (m # ms) = (Some i, snd m) # reindex i ms"
  "reindex i (ms @ ns) = reindex i ms @ reindex i ns" "reindex i ms = [] \<longleftrightarrow> ms = []"
  "reindex i (map (at_entry j) fs) = map (at_entry i) fs"
  by (simp_all add: reindex_def comp_def)

lemma decode_hex_reindex: "decode_hex_field e name n i = map_prod id (reindex i) (decode_hex_field e name n 0)"
  by (simp add: decode_hex_field_def split: json.splits option.splits)

lemma decode_reindex:
  "decode_pubkey_and_sig i e = map_prod id (map_prod id (reindex i)) (decode_pubkey_and_sig 0 e)"
  "decode_subject_pubkey_and_sig i e = map_prod id (map_prod id (reindex i)) (decode_subject_pubkey_and_sig 0 e)"
  unfolding decode_pubkey_and_sig_def decode_subject_pubkey_and_sig_def
  by (subst (1 2) decode_hex_reindex, simp split: prod.splits)+

lemma checks_reindex:
  "check_signature E i e pk sg = reindex i (check_signature E 0 e pk sg)"
  "check_identity_binding E i e pk network = reindex i (check_identity_binding E 0 e pk network)"
  "check_chain E i e prev = reindex i (check_chain E 0 e prev)"
  by (auto simp: check_signature_def check_identity_binding_def check_chain_def Let_def
      split: option.splits verify_outcome.splits)

lemma check_kind_reindex: "check_kind E i e network = reindex i (check_kind E 0 e network)"
  by (simp add: check_kind_def verify_witness_fields_def decode_reindex(2) [of i] Let_def
      split: prod.splits)

lemma check_entry_reindex: "check_entry E i e prev network = reindex i (check_entry E 0 e prev network)"
  unfolding check_entry_def
  by (simp add: decode_reindex(1) [of i] checks_reindex [of E i] check_kind_reindex [of E i]
      split: prod.splits)

lemma foreign_check:
  assumes "jget e ''previous_hash'' = JStr p"
  shows "fst (verify_foreign_entry E (JObj e) network) \<longleftrightarrow>
    version2 e \<and> check_entry E i e (JStr p) network = []"
proof -
  have "check_entry E i e (JStr p) network = [] \<longleftrightarrow> check_entry E 0 e (JStr p) network = []"
    using check_entry_reindex [of E i e "JStr p" network] by simp
  with assms show ?thesis
    by (auto simp: verify_foreign_entry_def version2_def check_entry_def check_chain_def Let_def
        split: prod.splits)
qed

text \<open>
  An entry is accepted on its own exactly when the whole-file verifier accepts it at any
  position whose predecessor has the hash the entry names: dropping the chain link is the
  only difference.
\<close>

lemma foreign_iff_check_entry:
  "case jget e ''previous_hash'' of
      JStr p \<Rightarrow> fst (verify_foreign_entry E (JObj e) network) =
        (version2 e \<and> check_entry E i e (JStr p) network = [])
    | _ \<Rightarrow> True"
  by (simp add: foreign_check split: json.splits)

lemma verified_entry_foreign:
  assumes "verify_entries E network i (JStr p) es = []" and "e \<in> set es"
  shows "verify_foreign_entry E (JObj e) network = (True, [])"
  using assms
proof (induction es arbitrary: i p)
  case Nil
  then show ?case by simp
next
  case (Cons d es)
  show ?case
  proof (cases "e = d")
    case True
    have "version2 e" "check_entry E (Suc i) e (JStr p) network = []" "jget e ''previous_hash'' = JStr p"
      using verified_version2 [OF Cons.prems(1)] verified_step(1,4) [OF Cons.prems(1)] True by auto
    then have "fst (verify_foreign_entry E (JObj e) network)"
      using foreign_check by metis
    then show ?thesis
      by (auto simp: verify_foreign_entry_def Let_def split: if_splits prod.splits)
  next
    case False
    with Cons.prems(2) have "e \<in> set es" by simp
    from Cons.IH [OF verified_step(3) [OF Cons.prems(1)] this] show ?thesis .
  qed
qed

text \<open>Every entry of a verified log is accepted on its own by a peer.\<close>

lemma verified_entries_accepted_by_peers:
  assumes "file_holds E f es" and "verify_integrity E network f = (True, [])" and "e \<in> set es"
  shows "verify_foreign_entry E (JObj e) network = (True, [])"
  using verified_entry_foreign assms verified_iff [OF assms(1)] by (metis genesis_def)

lemma verified_entries_accepted_by_peers_witness:
  "verify_foreign_entry sample_env (JObj sample_entry) (id_network sample_identity) = (True, [])"
  by (rule verified_entries_accepted_by_peers [OF sample_log_ok]) simp

section \<open>The command-line verifier\<close>

lemma chop_json_line:
  assumes "wf_dict fr e"
  shows "chop_terminator (json_line e) = dumps_default (JObj e)"
proof -
  obtain u where u: "dumps_default (JObj e) = u @ [CHR ''}'']"
    by (simp add: dumps_default_def flip: append_Cons)
  show ?thesis by (simp add: chop_terminator_def json_line_def u nl_def cr_def butlast_append)
qed

fun cli_entries :: "env \<Rightarrow> string \<Rightarrow> nat \<Rightarrow> json \<Rightarrow> dict list \<Rightarrow> message list" where
  "cli_entries E network index prev [] = []"
| "cli_entries E network index prev (e # es) =
     check_entry E (Suc index) e prev network @
     cli_entries E network (Suc index) (JStr (entry_hash E e)) es"

lemma cli_scan_entries:
  assumes "\<forall>e \<in> set es. wf_dict (float_repr E) e"
  shows "cli_scan E network k i prev (map json_line es) = (cli_entries E network i prev es, i + length es, None)"
  using assms
proof (induction es arbitrary: k i prev)
  case Nil
  then show ?case by simp
next
  case (Cons e es)
  then have wf: "wf_dict (float_repr E) e" by simp
  have line: "\<not> startswith (dumps_default (JObj e)) ''==='' \<and> strip (dumps_default (JObj e)) \<noteq> []"
    using strip_object [of "CHR ''{''" "CHR ''}''" "dumps_members '', '' '': '' e"]
    by (auto simp: dumps_default_def startswith_def strip_def lstrip_def rstrip_def is_space_def)
  have "cli_scan E network (Suc k) (Suc i) (JStr (entry_hash E e)) (map json_line es)
     = (cli_entries E network (Suc i) (JStr (entry_hash E e)) es, Suc i + length es, None)"
    by (rule Cons.IH) (use Cons.prems in simp)
  with line loads_dumps_default [OF wf] show ?case
    by (simp add: chop_json_line [OF wf] cli_verify_entry_agrees cli_helpers_agree)
qed

lemma header_skipped: "startswith (chop_terminator (log_header @ [nl])) ''==='' "
  by (simp add: chop_terminator_def log_header_def startswith_def nl_def cr_def)

lemma cli_scan_log:
  assumes "\<forall>e \<in> set es. wf_dict (float_repr E) e"
  shows "cli_scan E network (Suc 0) 0 genesis (text_lines (log_text es)) =
    (cli_entries E network 0 genesis es, length es, None)"
  using cli_scan_entries [OF assms, of network 2 0 genesis] header_skipped
  by (simp add: log_text_lines [OF assms] numeral_2_eq_2)

lemma cli_entries_iff:
  "\<forall>e \<in> set es. version2 e \<Longrightarrow>
     cli_entries E network i prev es = [] \<longleftrightarrow> verify_entries E network i prev es = []"
proof (induction es arbitrary: i prev)
  case Nil
  then show ?case by simp
next
  case (Cons e es)
  show ?case
  proof (cases "check_entry E (Suc i) e prev network = []")
    case True
    have "get_or e ''entry_hash'' prev = JStr (entry_hash E e)"
      by (rule get_or_str [OF check_entry_head [OF True]])
    with True Cons show ?thesis by simp
  next
    case False
    with Cons.prems show ?thesis by simp
  qed
qed

text \<open>
  C5: On a log file of entries, the in-process verifier is silent exactly when the command
  exits with 0 and reports every entry verified and all entries are version 2: the version
  test is the one check the command does not make.
\<close>

theorem verify_main_iff_verify_integrity:
  assumes "file_holds E f es"
  shows "verify_integrity E network f = (True, []) \<longleftrightarrow>
    (\<forall>e \<in> set es. version2 e) \<and>
    verify_main E network (Readable (the (content f))) = (0, [PrintVerified (length es)])"
proof -
  have wf: "\<forall>e \<in> set es. wf_dict (float_repr E) e" and c: "content f = Some (log_text es)"
    using assms by (simp_all add: file_holds_def)
  have "verify_main E network (Readable (the (content f))) = (0, [PrintVerified (length es)])
      \<longleftrightarrow> cli_entries E network 0 genesis es = []"
    by (simp add: verify_main_def c cli_scan_log [OF wf])
  then show ?thesis
    using verified_iff [OF assms, of network] verified_version2 cli_entries_iff by blast
qed

lemma verify_main_iff_verify_integrity_witness:
  "verify_main sample_env (id_network sample_identity) (Readable (the (content sample_log)))
     = (0, [PrintVerified (length [sample_entry])])"
  using verify_main_iff_verify_integrity [OF sample_log_ok(1), of "id_network sample_identity"]
    sample_log_ok(2) by blast

text \<open>
  The command verifies a correctly sealed entry of any version number: where the
  in-process verifier rejects a one-entry log for its version, the command exits with 0.
\<close>

lemma verify_main_accepts_any_version:
  assumes "identity_ok E I" and "n \<noteq> 2"
    and "e = seal_entry E I (AList.update ''version'' (JInt n)
      (payload_fields E I ''self'' ts genesis sub act [] sev None))"
    and "f = \<lparr>content = Some (log_header @ [nl] @ dumps_default (JObj e) @ [nl]), mtime_ns = 1\<rparr>"
  shows "verify_main E (id_network I) (Readable (the (content f))) = (0, [PrintVerified 1]) \<and>
    verify_integrity E (id_network I) f = (False, [(Some 1, UnsupportedVersion (JInt n))])"
proof -
  define e0 where "e0 = AList.update ''version'' (JInt n)
      (payload_fields E I ''self'' ts genesis sub act [] sev None)"
  have uns: "unsealed e0" by (simp add: e0_def payload_fields_def)
  have wf: "wf_dict (float_repr E) e"
    unfolding assms(3) e0_def [symmetric]
    by (rule seal_wf [OF uns]) (simp add: e0_def payload_fields_def genesis_def)
  have get: "jget e k = jget e0 k" "has_key e k = has_key e0 k"
    if "k \<noteq> ''signature''" "k \<noteq> ''entry_hash''" for k
    using seal_get_other [OF uns that] by (simp_all add: assms(3) e0_def)
  have ver: "jget e ''version'' = JInt n"
    by (simp add: get) (simp add: e0_def payload_fields_def get_or_def)
  have kind: "check_kind E i e (id_network I) = []" for i
    by (simp add: check_kind_def get Let_def) (simp add: e0_def payload_fields_def get_or_def has_key_def)
  have p: "jget e0 ''reporter_pubkey'' = JStr (bytes_hex (id_public_key I))"
    "jget e0 ''reporter_id'' = JStr (id_hash I)" "jget e0 ''previous_hash'' = JStr ''GENESIS''"
    by (simp_all add: e0_def payload_fields_def get_or_def genesis_def)
  have e: "e = seal_entry E I e0" by (simp add: assms(3) e0_def)
  have chk: "check_entry E i e genesis (id_network I) = []" for i
    using check_entry_sealed [OF uns assms(1) p] kind by (simp add: e genesis_def)
  have holds: "file_holds E f [e]"
    using wf by (simp add: file_holds_def assms(4) log_text_def json_line_def)
  then have "verify_integrity E (id_network I) f = (False, [(Some 1, UnsupportedVersion (JInt n))])"
    using assms(2) by (simp add: verify_integrity_holds version2_def ver)
  moreover have "verify_main E (id_network I) (Readable (the (content f))) = (0, [PrintVerified 1])"
    using cli_scan_log [of "[e]" E "id_network I"] wf chk holds
    by (simp add: verify_main_def file_holds_def)
  ultimately show ?thesis by simp
qed

lemma verify_main_accepts_any_version_witness:
  "\<exists>e f. verify_main sample_env (id_network sample_identity) (Readable (the (content f))) = (0, [PrintVerified 1]) \<and>
    verify_integrity sample_env (id_network sample_identity) f = (False, [(Some 1, UnsupportedVersion (JInt 3))])"
  by (rule exI, rule exI, rule verify_main_accepts_any_version [OF sample_identity_ok _ refl refl]) simp

section \<open>Interleaved writers on one file\<close>

text \<open>
  Any number of instances share one file: an instance may be opened at any time, and any of
  them may look up the head, append an event or append a witness event.  Each keeps its own
  cached head.  One operation ends before the next begins: an instance's lock makes this
  true of its own threads only, and two instances' operations may overlap in the program
  (the last section shows what happens then).
\<close>

inductive log_run :: "env \<Rightarrow> identity \<Rightarrow> log_file \<Rightarrow> (nat \<Rightarrow> log_inst) \<Rightarrow> dict list \<Rightarrow> bool"
  for E :: env and I :: identity where
  created: "open_log now \<lparr>content = None, mtime_ns = 0\<rparr> = (f, inst) \<Longrightarrow> log_run E I f (\<lambda>_. inst) []"
| opened: "log_run E I f insts es \<Longrightarrow> open_log now f = (f', inst) \<Longrightarrow> log_run E I f' (insts(k := inst)) es"
| appended: "log_run E I f insts es \<Longrightarrow> wf_dict (float_repr E) details \<Longrightarrow> evidence_wf E evid \<Longrightarrow>
    append_event E I f (insts k) now ts (id_hash I) sub act details sev evid = Inr (e, f', inst') \<Longrightarrow>
    log_run E I f' (insts(k := inst')) (es @ [e])"
| looked_up: "log_run E I f insts es \<Longrightarrow> latest_hash E f (insts k) = Inr (h, inst') \<Longrightarrow>
    log_run E I f (insts(k := inst')) es"
| witnessed: "log_run E I f insts es \<Longrightarrow> wf_dict (float_repr E) details \<Longrightarrow> evidence_wf E evid \<Longrightarrow>
    wf_json (float_repr E) claim \<Longrightarrow>
    append_witness_event E I f (insts k) now ts (id_hash I) sub spk claim ssig act details sev evid
      = Inr (e, f', inst') \<Longrightarrow>
    log_run E I f' (insts(k := inst')) (es @ [e])"

definition file_size :: "log_file \<Rightarrow> nat" where
  "file_size f = (case content f of None \<Rightarrow> 0 | Some t \<Rightarrow> length (utf8_encode t))"

text \<open>A cached signature never names a size the file has not yet had.\<close>

definition sig_seen :: "log_file \<Rightarrow> log_inst \<Rightarrow> bool" where
  "sig_seen f inst = (\<forall>m n. latest_sig inst = Some (m, n) \<longrightarrow> n \<le> file_size f)"

lemma utf8_encode_append: "utf8_encode (s @ t) = utf8_encode s @ utf8_encode t"
  by (simp add: utf8_encode_def)

lemma utf8_char_nonempty: "utf8_char c \<noteq> []"
  by (simp add: utf8_char_def Let_def)

lemma append_grows: "file_size (append_text f now (t @ [nl])) > file_size f"
  by (simp add: file_size_def append_text_def utf8_encode_append utf8_encode_def utf8_char_nonempty
      split: option.splits)

lemma latest_hash_sig: "sig_seen f inst \<Longrightarrow> latest_hash E f inst = Inr (h, inst') \<Longrightarrow> sig_seen f inst'"
  by (auto simp: latest_hash_def sig_seen_def stat_sig_def file_size_def Let_def bindr_Inr_iff
      split: if_splits option.splits)

lemma persist_sigs:
  assumes "persist f inst1 now e = (f', inst')"
  shows "sig_seen f' inst'" "file_size f < file_size f'" "content f' \<noteq> None"
  using assms append_grows [of f now "dumps_default (JObj e)"]
  by (auto simp: persist_def sig_seen_def stat_sig_def file_size_def append_text_def Let_def
      split: option.splits)

text \<open>Another instance's stale signature cannot match the grown file, so its cache is refreshed.\<close>

lemma other_cache_ok:
  assumes "sig_seen f inst" and "file_size f < file_size f'" and "content f' \<noteq> None"
  shows "cache_ok E f' inst" "sig_seen f' inst"
  using assms by (auto simp: cache_ok_def sig_seen_def stat_sig_def file_size_def split: option.splits)

definition run_ok :: "env \<Rightarrow> string \<Rightarrow> log_file \<Rightarrow> (nat \<Rightarrow> log_inst) \<Rightarrow> dict list \<Rightarrow> bool" where
  "run_ok E network f insts es =
     (file_holds E f es \<and> verify_integrity E network f = (True, []) \<and>
      (\<forall>k. cache_ok E f (insts k) \<and> sig_seen f (insts k)))"

lemma open_existing:
  "content f \<noteq> None \<Longrightarrow> open_log now f = (f', inst) \<Longrightarrow> f' = f \<and> cache_ok E f inst \<and> sig_seen f inst"
  by (auto simp: open_log_def cache_ok_def sig_seen_def)

lemma run_ok_persist:
  assumes ok: "run_ok E network f insts es"
    and lat: "latest_hash E f (insts k) = Inr (p, inst1)" and per: "persist f inst1 now e = (f', inst')"
    and wf: "wf_dict (float_repr E) e" and v: "version2 e"
    and chk: "\<And>i s. p = JStr s \<Longrightarrow> check_entry E i e (JStr s) network = []"
  shows "run_ok E network f' (insts(k := inst')) (es @ [e])"
proof -
  have st: "log_state_ok E network f (insts k) es" using ok by (simp add: run_ok_def log_state_ok_def)
  obtain s where p: "p = JStr s" "chain_head es = JStr s"
    using log_state_head [OF st] lat by (metis Inr_inject prod.inject)
  note fin = persist_state_ok(1) [OF st p(2) wf v chk [OF p(1)] per]
  note sigs = persist_sigs [OF per]
  have "cache_ok E f' (insts l) \<and> sig_seen f' (insts l)" for l
    using other_cache_ok [OF _ sigs(2,3)] ok by (simp add: run_ok_def)
  with fin sigs(1) show ?thesis by (simp add: run_ok_def log_state_ok_def)
qed

lemma run_ok_head:
  assumes "run_ok E network f insts es" and "latest_hash E f (insts k) = Inr (p, inst1)"
  obtains s where "p = JStr s"
  using log_state_head [of E network f "insts k" es] assms by (metis Inr_inject prod.inject run_ok_def log_state_ok_def)

lemma run_ok_append:
  assumes "identity_ok E I" and ok: "run_ok E (id_network I) f insts es"
    and wf: "wf_dict (float_repr E) details" "evidence_wf E evid"
    and app: "append_event E I f (insts k) now ts (id_hash I) sub act details sev evid = Inr (e, f', inst')"
  shows "run_ok E (id_network I) f' (insts(k := inst')) (es @ [e])"
proof -
  from app obtain p inst1 where lat: "latest_hash E f (insts k) = Inr (p, inst1)"
    and e: "e = build_entry E I ts p (id_hash I) sub act details sev evid"
    and per: "persist f inst1 now e = (f', inst')"
    by (auto simp: append_event_def bindr_Inr_iff Let_def split: prod.splits)
  obtain s where p: "p = JStr s" using run_ok_head [OF ok lat] .
  note chk = self_entry_checks [OF assms(1) wf e [unfolded p]]
  show ?thesis by (rule run_ok_persist [OF ok lat per chk(1,2)]) (use chk(3) p in simp)
qed

lemma run_ok_lookup:
  assumes "run_ok E network f insts es" and "latest_hash E f (insts k) = Inr (h, inst')"
  shows "run_ok E network f (insts(k := inst')) es"
proof -
  have "cache_ok E f (insts k)" "sig_seen f (insts k)" using assms(1) by (simp_all add: run_ok_def)
  with latest_hash_cache_ok latest_hash_sig assms(2) have "cache_ok E f inst' \<and> sig_seen f inst'" by blast
  with assms(1) show ?thesis by (simp add: run_ok_def)
qed

lemma log_run_ok:
  assumes "identity_ok E I"
  shows "log_run E I f insts es \<Longrightarrow> run_ok E (id_network I) f insts es"
proof (induction rule: log_run.induct)
  case (created now f inst)
  then have "file_holds E f []" "cache_ok E f inst" "sig_seen f inst"
    by (auto simp: open_log_def file_holds_def append_text_def log_text_def cache_ok_def sig_seen_def)
  then show ?case by (simp add: run_ok_def verify_integrity_holds)
next
  case (opened f insts es now f' inst k)
  have "content f \<noteq> None" using opened.IH by (simp add: run_ok_def file_holds_def)
  from open_existing [OF this opened.hyps(2), of E] opened.IH show ?case by (simp add: run_ok_def)
next
  case (appended f insts es details evid k now ts sub act sev e f' inst')
  show ?case by (rule run_ok_append [OF assms appended.IH appended.hyps(2-4)])
next
  case (looked_up f insts es k h inst')
  show ?case by (rule run_ok_lookup [OF looked_up.IH looked_up.hyps(2)])
next
  case (witnessed f insts es details evid claim k now ts sub spk ssig act sev e f' inst')
  from witnessed.hyps(5) obtain p inst1 where lat: "latest_hash E f (insts k) = Inr (p, inst1)"
    and e: "build_witness_entry E I ts p (id_hash I) sub spk claim ssig act details sev evid = Inr e"
    and per: "persist f inst1 now e = (f', inst')"
    by (auto simp: append_witness_event_def bindr_Inr_iff bindr_Inl_iff Let_def split: prod.splits sum.splits)
  obtain s where p: "p = JStr s" using run_ok_head [OF witnessed.IH lat] .
  note chk = witness_entry_checks [OF assms witnessed.hyps(2,3,4) e [unfolded p]]
  show ?case by (rule run_ok_persist [OF witnessed.IH lat per chk(1,2)]) (use chk(3) p in simp)
qed

lemma head_lookup_exact:
  assumes "run_ok E network f insts es"
  shows "latest_hash E f (insts k) = Inr (chain_head es, \<lparr>latest_hash_cache = chain_head es, latest_sig = stat_sig f\<rparr>)"
proof -
  have v: "file_holds E f es" "verify_entries E network 0 genesis es = []" "cache_ok E f (insts k)"
    using assms verified_iff by (auto simp: run_ok_def)
  note base = base_latest_hash_verified [OF v(1,2)]
  show ?thesis
  proof (cases "latest_hash_cache (insts k) \<noteq> JNull \<and> stat_sig f = latest_sig (insts k)")
    case True
    with v(3) base have "latest_hash_cache (insts k) = chain_head es" by (simp add: cache_ok_def)
    with True show ?thesis by (simp add: latest_hash_def)
  next
    case False
    with base show ?thesis by (auto simp: latest_hash_def Let_def)
  qed
qed

text \<open>
  C3: Let any number of instances open one file, look up its head and append to it, in any
  order, one operation at a time.  In every state so reached the file verifies, reading it
  returns exactly the entries the appends returned, in their order, and a head lookup by any
  instance returns the hash of the last of them and leaves that hash cached under the file's
  present stat signature.
\<close>

theorem interleaved_heads_agree:
  assumes "identity_ok E I" and "log_run E I f insts es"
  shows "verify_integrity E (id_network I) f = (True, []) \<and> read_entries E f = Inr es \<and>
    latest_hash E f (insts k)
      = Inr (chain_head es, \<lparr>latest_hash_cache = chain_head es, latest_sig = stat_sig f\<rparr>)"
proof -
  have ok: "run_ok E (id_network I) f insts es" by (rule log_run_ok [OF assms])
  then have v: "file_holds E f es" "verify_entries E (id_network I) 0 genesis es = []"
    using verified_iff by (auto simp: run_ok_def)
  then have "filter version2 es = es" using verified_version2 [OF v(2)] by (simp add: filter_id_conv)
  with ok read_entries_holds [OF v(1)] head_lookup_exact [OF ok] show ?thesis by (simp add: run_ok_def)
qed

lemma sample_run: "log_run sample_env sample_identity sample_log ((\<lambda>_. fresh_inst)(0 := sample_inst)) ([] @ [sample_entry])"
proof -
  have start: "log_run sample_env sample_identity empty_log (\<lambda>_. fresh_inst) []"
    by (rule log_run.created [of 1]) (simp add: empty_log_def fresh_inst_def)
  have head: "latest_hash sample_env empty_log fresh_inst = Inr (genesis, fresh_inst\<lparr>latest_hash_cache := genesis, latest_sig := stat_sig empty_log\<rparr>)"
    using base_latest_hash_verified [of sample_env empty_log "[]"]
    by (simp add: latest_hash_def fresh_inst_def open_log_def chain_head_def)
  have per: "persist empty_log (fresh_inst\<lparr>latest_hash_cache := genesis, latest_sig := stat_sig empty_log\<rparr>) 2 sample_entry
      = (sample_log, sample_inst)"
  proof -
    have "jget sample_entry ''entry_hash'' = JStr (entry_hash sample_env sample_entry)"
      by (rule check_entry_head [OF self_entry_checks(3) [OF sample_identity_ok _ _ sample_entry_def]])
        (simp_all add: evidence_wf_def)
    from get_or_str [OF this] show ?thesis
      by (simp add: persist_def sample_log_def sample_inst_def Let_def)
  qed
  have "append_event sample_env sample_identity empty_log ((\<lambda>_. fresh_inst) (0 :: nat)) 2 ''t'' (id_hash sample_identity) ''peer''
      ''donation'' [] 1 None = Inr (sample_entry, sample_log, sample_inst)"
    using head per by (simp add: append_event_def sample_entry_def genesis_def)
  from log_run.appended [OF start _ _ this] show ?thesis by (simp add: evidence_wf_def)
qed

lemma interleaved_heads_agree_witness:
  "verify_integrity sample_env (id_network sample_identity) sample_log = (True, []) \<and>
    read_entries sample_env sample_log = Inr ([] @ [sample_entry]) \<and>
    latest_hash sample_env sample_log (((\<lambda>_. fresh_inst)(0 := sample_inst)) (1 :: nat))
      = Inr (chain_head ([] @ [sample_entry]),
          \<lparr>latest_hash_cache = chain_head ([] @ [sample_entry]), latest_sig = stat_sig sample_log\<rparr>)"
  using interleaved_heads_agree [OF sample_identity_ok sample_run, of 1] .

section \<open>Operations that overlap\<close>

lemma persist_holds:
  "file_holds E f es \<Longrightarrow> wf_dict (float_repr E) e \<Longrightarrow> persist f inst now e = (f', inst') \<Longrightarrow>
     file_holds E f' (es @ [e])"
  by (auto simp: file_holds_def persist_def Let_def append_text_def log_text_def json_line_def)

text \<open>
  Two instances whose appends overlap: both read the head, then both write.  The second entry
  names the head the first has replaced, and the file no longer verifies.
\<close>

lemma overlapping_appends_break:
  assumes "identity_ok E I" and "log_run E I f insts es"
    and "wf_dict (float_repr E) d1" "evidence_wf E v1" "wf_dict (float_repr E) d2" "evidence_wf E v2"
    and "latest_hash E f (insts j) = Inr (JStr p, i1)" and "latest_hash E f (insts k) = Inr (JStr p, i2)"
    and e1: "e1 = build_entry E I t1 (JStr p) (id_hash I) s1 a1 d1 n1 v1"
    and e2: "e2 = build_entry E I t2 (JStr p) (id_hash I) s2 a2 d2 n2 v2"
    and "persist f i1 now1 e1 = (f1, i1')" and "persist f1 i2 now2 e2 = (f2, i2')"
    and "entry_hash E e1 \<noteq> p"
  shows "fst (verify_integrity E (id_network I) f2) = False"
proof (rule ccontr)
  note c1 = self_entry_checks [OF assms(1,3,4) e1] and c2 = self_entry_checks [OF assms(1,5,6) e2]
  have "file_holds E f es" using log_run_ok [OF assms(1,2)] by (simp add: run_ok_def)
  from persist_holds [OF persist_holds [OF this c1(1) assms(11)] c2(1) assms(12)]
  have holds: "file_holds E f2 ((es @ [e1]) @ [e2])" .
  assume "fst (verify_integrity E (id_network I) f2) \<noteq> False"
  with verify_integrity_holds [OF holds]
  have "verify_entries E (id_network I) 0 genesis ((es @ [e1]) @ [e2]) = []" by simp
  then have "check_entry E (Suc (Suc (length es))) e2 (chain_head (es @ [e1])) (id_network I) = []"
    using c2(2) unfolding verify_entries_append by (simp add: chain_head_def)
  moreover have "chain_head (es @ [e1]) = JStr (entry_hash E e1)"
    using get_or_str [OF check_entry_head [OF c1(3)]] by (simp add: chain_head_def)
  ultimately have "jget e2 ''previous_hash'' = JStr (entry_hash E e1)" using check_entry_prev by metis
  with check_entry_prev [OF c2(3)] assms(13) show False by simp
qed

text \<open>
  A write that lands between the scan of \<open>latest_hash\<close> and its second look at the file is
  masked: the head scanned from the old file is cached under the new file's signature, and
  every later lookup returns it until the file grows again.
\<close>

lemma late_write_masked:
  assumes "identity_ok E I" and "log_run E I f insts es"
    and "wf_dict (float_repr E) details" and "evidence_wf E evid"
    and app: "append_event E I f (insts j) now ts (id_hash I) sub act details sev evid = Inr (e, f', other)"
    and scan: "base_latest_hash E f = Inr h"
    and inst': "inst' = inst\<lparr>latest_hash_cache := h, latest_sig := stat_sig f'\<rparr>"
  shows "latest_hash E f' inst' = Inr (chain_head es, inst')" "base_latest_hash E f' = Inr (chain_head (es @ [e]))"
proof -
  have v: "file_holds E f es" "verify_entries E (id_network I) 0 genesis es = []"
    using log_run_ok [OF assms(1,2)] verified_iff by (auto simp: run_ok_def)
  have "h = chain_head es" using base_latest_hash_verified [OF v] scan by simp
  with chain_head_str [OF v(2)] show "latest_hash E f' inst' = Inr (chain_head es, inst')"
    by (auto simp: inst' latest_hash_def)
  from log_run_ok [OF assms(1) log_run.appended [OF assms(2,3,4) app]]
  show "base_latest_hash E f' = Inr (chain_head (es @ [e]))"
    using base_latest_hash_verified verified_iff by (auto simp: run_ok_def)
qed

end
