(* ===== verification/Peer_Log_Spec.thy ===== *)
theory Peer_Log_Spec
  imports Peer_Log Signed_Log_Spec
begin

text \<open>
  The peer cache as a store of verified entries: acceptance refines an abstract store (a map
  from source to the list of its entries), is idempotent, and what is read back is what was
  accepted.  The locale \<open>entry_store\<close> is the contract the replication code relies on.
\<close>

section \<open>The abstract store\<close>

definition accept_spec ::
  "env \<Rightarrow> string \<Rightarrow> string option \<Rightarrow> (string \<Rightarrow> dict list) \<Rightarrow> json \<Rightarrow> verdict \<times> (string \<Rightarrow> dict list)" where
  "accept_spec E network own M v =
     (let e = as_dict v; rid = (case v of JObj d \<Rightarrow> jget d ''reporter_id'' | _ \<Rightarrow> JNull) in
      if is_dict v \<and> (\<exists>o1. own = Some o1 \<and> rid = JStr o1) then ((False, rid, [SameIdentity], False), M)
      else if \<not> fst (verify_foreign_entry E v network)
      then ((False, rid, map Rejected (snd (verify_foreign_entry E v network)), False), M)
      else if hash_of e \<in> hash_of ` set (M (source_of e)) then ((False, JStr (source_of e), [], True), M)
      else ((True, JStr (source_of e), [], False), M(source_of e := M (source_of e) @ [e])))"

lemma foreign_errors:
  assumes "verify_foreign_entry E v network = (ok, errs)"
  shows "ok \<longleftrightarrow> errs = []"
  using assms by (cases v) (auto simp: verify_foreign_entry_def Let_def split: if_splits prod.splits)

lemma foreign_fields:
  assumes "fst (verify_foreign_entry E v network)"
  obtains e s h where "v = JObj e" "jget e ''reporter_id'' = JStr s" "jget e ''entry_hash'' = JStr h"
    "source_of e = s" "hash_of e = h"
proof -
  obtain e where v: "v = JObj e" using assms by (cases v) (simp_all add: verify_foreign_entry_def)
  obtain pk sg errs where dec: "decode_pubkey_and_sig 0 e = (pk, sg, errs)" by (metis prod_cases3)
  have parts: "jget e ''entry_hash'' = JStr (entry_hash E e)" "errs = []"
    "check_identity_binding E 0 e pk network = []"
    using assms v dec by (auto simp: verify_foreign_entry_def Let_def split: if_splits)
  have "decode_hex_field e ''reporter_pubkey'' 32 0 = (pk, [])"
    using dec parts(2) by (auto simp: decode_pubkey_and_sig_def split: prod.splits)
  then obtain k where "pk = Some k"
    by (cases pk) (auto simp: decode_hex_field_def split: json.splits if_splits option.splits)
  with parts(3) obtain s where "jget e ''reporter_id'' = JStr s"
    by (auto simp: check_identity_binding_def Let_def split: if_splits)
  with v parts(1) that show thesis by (simp add: source_of_def hash_of_def)
qed

lemma write_entry_rep:
  assumes rep: "peer_rep E p M" and known: "seen p s = Some (hash_of ` set (M s))"
    and st: "stored_ok E (peer_network p) s e" and h: "hash_of e = h" "h \<notin> hash_of ` set (M s)"
  shows "peer_rep E (write_entry p s h e) (M(s := M s @ [e]))"
proof -
  have "peer_network (write_entry p s h e) = peer_network p" by (simp add: write_entry_def)
  moreover have "dict_ok (peer_files (write_entry p s h e))"
    using rep by (simp add: write_entry_def peer_rep_def distinct_update)
  moreover have "append_line e (map_of (peer_files p) s) = concat (map json_line (M s @ [e]))"
    using peer_repD(1,2) [OF rep, of s]
    by (cases "map_of (peer_files p) s") (simp_all add: append_line_def json_line_def)
  moreover have "source_ok E (peer_network p) s (Some (concat (map json_line (M s @ [e]))))
      (Some (insert h (hash_of ` set (M s)))) (Some (Some h)) (M s @ [e])"
    using peer_rep_source [OF rep, of s] st h by (auto simp: source_ok_def tail_of_def)
  ultimately show ?thesis
    using rep known by (simp add: peer_rep_def write_entry_def update_conv')
qed

lemma accept_entry_spec:
  assumes rep: "peer_rep E p M" and wf: "wf_json (float_repr E) v"
    and spec: "accept_spec E (peer_network p) (own_id p) M v = (verdict, M')"
  shows "\<exists>p'. accept_entry E p v = Inr (verdict, p') \<and> peer_rep E p' M' \<and>
    peer_network p' = peer_network p \<and> own_id p' = own_id p"
proof (cases "\<exists>e o1. v = JObj e \<and> own_id p = Some o1 \<and> jget e ''reporter_id'' = JStr o1")
  case True
  with rep spec show ?thesis by (auto simp: accept_entry_def accept_spec_def)
next
  case notown: False
  then have no: "\<not> (own_id p \<noteq> None \<and> is_dict v \<and> (case v of JObj e \<Rightarrow> jget e ''reporter_id'' | _ \<Rightarrow> JNull) = JStr (the (own_id p)))"
    "\<not> (is_dict v \<and> (\<exists>o1. own_id p = Some o1 \<and> (case v of JObj d \<Rightarrow> jget d ''reporter_id'' | _ \<Rightarrow> JNull) = JStr o1))"
    by (cases v; auto)+
  show ?thesis
proof (cases "fst (verify_foreign_entry E v (peer_network p))")
  case False
  then obtain errs where "verify_foreign_entry E v (peer_network p) = (False, errs)" by (metis (full_types) prod.collapse)
  with rep spec no show ?thesis by (auto simp: accept_entry_def accept_spec_def Let_def)
next
  case True
  then obtain e s h where v: "v = JObj e" and f: "jget e ''reporter_id'' = JStr s"
    "jget e ''entry_hash'' = JStr h" "source_of e = s" "hash_of e = h"
    using foreign_fields by metis
  obtain p1 where has: "has_entry_hash E p s h = Inr (h \<in> hash_of ` set (M s), p1)"
    "peer_rep E p1 M" "seen p1 s = Some (hash_of ` set (M s))" "peer_network p1 = peer_network p"
    "own_id p1 = own_id p"
    using peer_has_hash [OF rep, of s h] by metis
  have ver: "verify_foreign_entry E (JObj e) (peer_network p) = (True, [])"
    using True v foreign_errors [of E v "peer_network p"] by (metis fst_conv prod.collapse)
  have st: "stored_ok E (peer_network p1) s e" using wf v ver f has(4) by (simp add: stored_ok_def)
  show ?thesis
  proof (cases "h \<in> hash_of ` set (M s)")
    case True
    with no has v f ver spec show ?thesis by (auto simp: accept_entry_def accept_spec_def Let_def)
  next
    case False
    from write_entry_rep [OF has(2,3) st f(4) False] False no has v f ver spec show ?thesis
      by (auto simp: accept_entry_def accept_spec_def Let_def write_entry_def)
  qed
qed
qed

lemma peer_rep_open: "peer_rep E (open_peer_log [] network own) (\<lambda>_. [])"
  by (simp add: peer_rep_def open_peer_log_def source_ok_def)

section \<open>The contract of a store of entries\<close>

text \<open>
  What replication needs of the store: every readable submission gets a verdict; it is
  exactly one of stored, duplicate and refused; a refused or duplicate one changes nothing,
  a stored one is appended to its source; and a stored or known entry is a duplicate next
  time.
\<close>

fun submit_all :: "('s \<Rightarrow> json \<Rightarrow> ('r \<times> 's) res) \<Rightarrow> 's \<Rightarrow> json list \<Rightarrow> ('r list \<times> 's) res" where
  "submit_all acc s [] = Inr ([], s)"
| "submit_all acc s (v # vs) =
     bindr (acc s v) (\<lambda>(r, s1). bindr (submit_all acc s1 vs) (\<lambda>(rs, s2). Inr (r # rs, s2)))"

locale entry_store =
  fixes acc :: "'s \<Rightarrow> json \<Rightarrow> (verdict \<times> 's) res"
    and inv :: "'s \<Rightarrow> bool"
    and entries :: "'s \<Rightarrow> string \<Rightarrow> dict list"
    and readable :: "json \<Rightarrow> bool"
  assumes acc_total: "inv s \<Longrightarrow> readable v \<Longrightarrow> \<exists>r s'. acc s v = Inr (r, s') \<and> inv s'"
    and acc_cases: "inv s \<Longrightarrow> readable v \<Longrightarrow> acc s v = Inr ((stored, src, errs, dup), s') \<Longrightarrow>
      (stored \<and> errs = [] \<and> \<not> dup \<and> v = JObj (as_dict v) \<and> src = JStr (source_of (as_dict v)) \<and>
         entries s' = (entries s)(source_of (as_dict v) := entries s (source_of (as_dict v)) @ [as_dict v])) \<or>
      (\<not> stored \<and> errs = [] \<and> dup \<and> v = JObj (as_dict v) \<and> entries s' = entries s \<and>
         hash_of (as_dict v) \<in> hash_of ` set (entries s (source_of (as_dict v)))) \<or>
      (\<not> stored \<and> errs \<noteq> [] \<and> \<not> dup \<and> entries s' = entries s)"
    and acc_known: "inv s \<Longrightarrow> readable v \<Longrightarrow> acc s v = Inr ((stored, src, [], dup), s') \<Longrightarrow>
      \<exists>s''. acc s' v = Inr ((False, src, [], True), s'') \<and> entries s'' = entries s'"
begin

lemma submit_total:
  "inv s \<Longrightarrow> list_all readable vs \<Longrightarrow> \<exists>rs s'. submit_all acc s vs = Inr (rs, s') \<and> inv s' \<and> length rs = length vs"
proof (induction vs arbitrary: s)
  case Nil
  then show ?case by simp
next
  case (Cons v vs)
  then obtain r s1 where r: "acc s v = Inr (r, s1)" "inv s1" using acc_total [of s v] by auto
  with Cons.IH [OF r(2)] Cons.prems show ?case by auto
qed

lemma submit_grows:
  "inv s \<Longrightarrow> list_all readable vs \<Longrightarrow> submit_all acc s vs = Inr (rs, s') \<Longrightarrow> \<exists>es. entries s' src = entries s src @ es"
proof (induction vs arbitrary: s rs)
  case Nil
  then show ?case by simp
next
  case (Cons v vs)
  then obtain r s1 where r: "acc s v = Inr (r, s1)" "inv s1" using acc_total [of s v] by auto
  with Cons.prems obtain rs' where sub: "submit_all acc s1 vs = Inr (rs', s')"
    by (auto simp: bindr_Inr_iff)
  obtain st sc er du where "r = (st, sc, er, du)" by (metis prod_cases4)
  from acc_cases [OF Cons.prems(1) _ r(1) [unfolded this]] Cons.prems(2)
  have "\<exists>es. entries s1 src = entries s src @ es" by auto
  with Cons.IH [OF r(2) _ sub] Cons.prems(2) show ?case by auto
qed

end

definition peer_inv :: "env \<Rightarrow> peer_log \<Rightarrow> bool" where
  "peer_inv E p = peer_rep E p (read_entries_for E p)"

lemma peer_inv_rep: "peer_rep E p M \<Longrightarrow> peer_inv E p \<and> read_entries_for E p = M"
  using peer_read [of E p M] by (auto simp: peer_inv_def fun_eq_iff intro: back_subst [of "peer_rep E p"])

lemma accept_entry_inv:
  assumes "peer_inv E p" and "wf_json (float_repr E) v"
    and "accept_spec E (peer_network p) (own_id p) (read_entries_for E p) v = (r, M')"
  obtains p' where "accept_entry E p v = Inr (r, p')" "peer_inv E p'" "read_entries_for E p' = M'"
    "peer_network p' = peer_network p" "own_id p' = own_id p"
  using accept_entry_spec [OF assms(1) [unfolded peer_inv_def] assms(2,3)] peer_inv_rep by metis

lemma accept_spec_cases:
  assumes "accept_spec E network own M v = ((stored, src, errs, dup), M')"
  shows "(stored \<and> errs = [] \<and> \<not> dup \<and> v = JObj (as_dict v) \<and> src = JStr (source_of (as_dict v)) \<and>
         M' = M(source_of (as_dict v) := M (source_of (as_dict v)) @ [as_dict v])) \<or>
      (\<not> stored \<and> errs = [] \<and> dup \<and> v = JObj (as_dict v) \<and> M' = M \<and>
         hash_of (as_dict v) \<in> hash_of ` set (M (source_of (as_dict v)))) \<or>
      (\<not> stored \<and> errs \<noteq> [] \<and> \<not> dup \<and> M' = M)"
proof (cases "fst (verify_foreign_entry E v network)")
  case True
  then obtain e where "v = JObj e" by (rule foreign_fields)
  with True assms show ?thesis by (auto simp: accept_spec_def Let_def split: if_splits)
next
  case False
  then have "snd (verify_foreign_entry E v network) \<noteq> []"
    using foreign_errors by (metis prod.collapse)
  with False assms show ?thesis by (auto simp: accept_spec_def Let_def split: if_splits)
qed

lemma accept_spec_known:
  assumes "accept_spec E network own M v = ((stored, src, [], dup), M')"
  shows "accept_spec E network own M' v = ((False, src, [], True), M')"
proof (cases "fst (verify_foreign_entry E v network)")
  case True
  with assms show ?thesis by (auto simp: accept_spec_def Let_def split: if_splits)
next
  case False
  then have "snd (verify_foreign_entry E v network) \<noteq> []"
    using foreign_errors by (metis prod.collapse)
  with False assms show ?thesis by (auto simp: accept_spec_def Let_def split: if_splits)
qed

interpretation peer_store: entry_store "accept_entry E" "peer_inv E" "read_entries_for E" "wf_json (float_repr E)"
  for E :: env
proof unfold_locales
  fix p v
  assume "peer_inv E p" and "wf_json (float_repr E) v"
  moreover obtain r M' where "accept_spec E (peer_network p) (own_id p) (read_entries_for E p) v = (r, M')"
    by (metis surj_pair)
  ultimately show "\<exists>r s'. accept_entry E p v = Inr (r, s') \<and> peer_inv E s'"
    by (meson accept_entry_inv)
next
  fix p v stored src errs dup p'
  assume inv: "peer_inv E p" "wf_json (float_repr E) v" and acc: "accept_entry E p v = Inr ((stored, src, errs, dup), p')"
  obtain r M' where spec: "accept_spec E (peer_network p) (own_id p) (read_entries_for E p) v = (r, M')"
    by (metis surj_pair)
  from accept_entry_inv [OF inv spec] acc
  have "r = (stored, src, errs, dup)" "read_entries_for E p' = M'" by (metis Inr_inject prod.inject)+
  with accept_spec_cases spec
  show "(stored \<and> errs = [] \<and> \<not> dup \<and> v = JObj (as_dict v) \<and> src = JStr (source_of (as_dict v)) \<and>
         read_entries_for E p' = (read_entries_for E p)(source_of (as_dict v) := read_entries_for E p (source_of (as_dict v)) @ [as_dict v])) \<or>
      (\<not> stored \<and> errs = [] \<and> dup \<and> v = JObj (as_dict v) \<and> read_entries_for E p' = read_entries_for E p \<and>
         hash_of (as_dict v) \<in> hash_of ` set (read_entries_for E p (source_of (as_dict v)))) \<or>
      (\<not> stored \<and> errs \<noteq> [] \<and> \<not> dup \<and> read_entries_for E p' = read_entries_for E p)"
    by metis
next
  fix p v stored src dup p'
  assume inv: "peer_inv E p" "wf_json (float_repr E) v" and acc: "accept_entry E p v = Inr ((stored, src, [], dup), p')"
  obtain r M' where spec: "accept_spec E (peer_network p) (own_id p) (read_entries_for E p) v = (r, M')"
    by (metis surj_pair)
  from accept_entry_inv [OF inv spec] acc
  have r: "r = (stored, src, [], dup)" and p': "peer_inv E p'" "read_entries_for E p' = M'"
      "peer_network p' = peer_network p" "own_id p' = own_id p"
    by (metis Inr_inject prod.inject)+
  from accept_spec_known [OF spec [unfolded r]] p'
  have "accept_spec E (peer_network p') (own_id p') (read_entries_for E p') v = ((False, src, [], True), M')" by simp
  from accept_entry_inv [OF p'(1) inv(2) this] p'(2)
  show "\<exists>s''. accept_entry E p' v = Inr ((False, src, [], True), s'') \<and> read_entries_for E s'' = read_entries_for E p'"
    by metis
qed

section \<open>Files that other instances write too\<close>

text \<open>
  The files of a cache directory hold accepted entries under their reporters.  Nothing is
  said of this instance's caches: another instance may have extended the files since they
  were filled.
\<close>

definition peer_files_rep :: "env \<Rightarrow> peer_log \<Rightarrow> (string \<Rightarrow> dict list) \<Rightarrow> bool" where
  "peer_files_rep E p M =
     (dict_ok (peer_files p) \<and>
      (\<forall>s. (case map_of (peer_files p) s of None \<Rightarrow> M s = [] | Some t \<Rightarrow> t = concat (map json_line (M s))) \<and>
           (\<forall>e \<in> set (M s). stored_ok E (peer_network p) s e)))"

definition peer_files_ok :: "env \<Rightarrow> peer_log \<Rightarrow> bool" where
  "peer_files_ok E p = peer_files_rep E p (read_entries_for E p)"

text \<open>The hashes the duplicate test looks at: those in the cache once it is filled.\<close>

definition known_hashes :: "env \<Rightarrow> peer_log \<Rightarrow> string \<Rightarrow> string set" where
  "known_hashes E p s = (case seen p s of Some k \<Rightarrow> k | None \<Rightarrow> hash_of ` set (read_entries_for E p s))"

definition accept_by ::
  "env \<Rightarrow> string \<Rightarrow> string option \<Rightarrow> (string \<Rightarrow> string set) \<Rightarrow> (string \<Rightarrow> dict list) \<Rightarrow> json \<Rightarrow>
     verdict \<times> (string \<Rightarrow> dict list)" where
  "accept_by E network own known M v =
     (let e = as_dict v; rid = (case v of JObj d \<Rightarrow> jget d ''reporter_id'' | _ \<Rightarrow> JNull) in
      if is_dict v \<and> (\<exists>o1. own = Some o1 \<and> rid = JStr o1) then ((False, rid, [SameIdentity], False), M)
      else if \<not> fst (verify_foreign_entry E v network)
      then ((False, rid, map Rejected (snd (verify_foreign_entry E v network)), False), M)
      else if hash_of e \<in> known (source_of e) then ((False, JStr (source_of e), [], True), M)
      else ((True, JStr (source_of e), [], False), M(source_of e := M (source_of e) @ [e])))"

lemma peer_files_rep_read:
  assumes "peer_files_rep E p M"
  shows "read_entries_for E p = M" "peer_files_ok E p"
proof -
  have wf: "\<forall>e \<in> set (M s). wf_dict (float_repr E) e" for s
    using assms by (auto simp: peer_files_rep_def stored_ok_def simp del: wf_json.simps)
  have "read_entries_for E p s = M s" for s
  proof (cases "map_of (peer_files p) s")
    case (Some t)
    with assms have "t = concat (map json_line (M s))" by (auto simp: peer_files_rep_def dest: spec [of _ s])
    with Some json_lines_text [OF wf] read_peer_entries [OF wf] show ?thesis by (simp add: read_entries_for_def)
  qed (use assms in \<open>auto simp: peer_files_rep_def read_entries_for_def dest: spec [of _ s]\<close>)
  then show "read_entries_for E p = M" by (simp add: fun_eq_iff)
  with assms show "peer_files_ok E p" by (simp add: peer_files_ok_def)
qed

lemma peer_inv_files: "peer_inv E p \<Longrightarrow> peer_files_ok E p"
  by (auto simp: peer_inv_def peer_files_ok_def peer_files_rep_def peer_rep_def source_ok_def split: option.splits)

lemma peer_inv_known: "peer_inv E p \<Longrightarrow> known_hashes E p s = hash_of ` set (read_entries_for E p s)"
  using peer_repD(5) [of E p "read_entries_for E p" s] by (auto simp: peer_inv_def known_hashes_def split: option.split)

lemma accept_by_spec: "accept_by E network own (\<lambda>s. hash_of ` set (M s)) M = accept_spec E network own M"
  by (simp add: fun_eq_iff accept_by_def accept_spec_def)

lemma accept_by_grows: "accept_by E network own known M v = (r, M') \<Longrightarrow> prefix (M s) (M' s)"
  by (auto simp: accept_by_def Let_def split: if_splits)

lemma files_has_hash:
  assumes "peer_files_rep E p M"
  obtains p' where "has_entry_hash E p s h = Inr (h \<in> known_hashes E p s, p')" "peer_files p' = peer_files p"
    "peer_network p' = peer_network p" "own_id p' = own_id p"
proof (cases "seen p s")
  case (Some known)
  with that [of p] show thesis by (simp add: has_entry_hash_def known_hashes_def)
next
  case None
  note read = peer_files_rep_read(1) [OF assms]
  have st: "\<forall>e \<in> set (M s). stored_ok E (peer_network p) s e" using assms by (simp add: peer_files_rep_def)
  have "\<exists>u. (case map_of (peer_files p) s of None \<Rightarrow> Inr ({}, None) | Some t \<Rightarrow> scan_hashes E {} None (text_lines t))
      = Inr (hash_of ` set (M s), u)"
  proof (cases "map_of (peer_files p) s")
    case None
    then have "M s = []" using assms by (auto simp: peer_files_rep_def dest: spec [of _ s])
    with None show ?thesis by simp
  next
    case (Some t)
    then have "t = concat (map json_line (M s))" using assms by (auto simp: peer_files_rep_def dest: spec [of _ s])
    then have "text_lines t = map json_line (M s)" using json_lines_text [OF stored_ok_wf [OF st]] by simp
    moreover have "scan_hashes E {} None (map json_line (M s)) =
        Inr ({} \<union> hash_of ` set (M s), if M s = [] then None else tail_of (M s))"
      by (rule scan_hashes_entries) (use st in \<open>auto simp: stored_ok_def simp del: wf_json.simps\<close>)
    ultimately show ?thesis using Some by simp
  qed
  then obtain u where h: "has_entry_hash E p s h = Inr (h \<in> hash_of ` set (M s),
      p\<lparr>seen := (seen p)(s \<mapsto> hash_of ` set (M s)), tail_hash := (tail_hash p)(s \<mapsto> u)\<rparr>)"
    using None by (auto simp: has_entry_hash_def)
  have "known_hashes E p s = hash_of ` set (M s)" using None read by (simp add: known_hashes_def)
  with h show thesis by (intro that [of "p\<lparr>seen := (seen p)(s \<mapsto> hash_of ` set (M s)), tail_hash := (tail_hash p)(s \<mapsto> u)\<rparr>"]) simp_all
qed

lemma write_entry_files:
  assumes "peer_files_rep E p M" and "stored_ok E (peer_network p) s e"
  shows "peer_files_rep E (write_entry p s h e) (M(s := M s @ [e]))"
proof -
  have "dict_ok (peer_files (write_entry p s h e))" "peer_network (write_entry p s h e) = peer_network p"
    using assms(1) by (simp_all add: write_entry_def peer_files_rep_def distinct_update)
  moreover have "append_line e (map_of (peer_files p) s) = concat (map json_line (M s @ [e]))"
    using assms(1) by (auto simp: peer_files_rep_def append_line_def json_line_def dest: spec [of _ s] split: option.splits)
  moreover have "map_of (peer_files (write_entry p s h e)) u =
      (if u = s then Some (append_line e (map_of (peer_files p) s)) else map_of (peer_files p) u)" for u
    by (simp add: write_entry_def update_conv')
  ultimately show ?thesis using assms by (simp add: peer_files_rep_def cong: option.case_cong)
qed

lemma accept_entry_files:
  assumes rep: "peer_files_rep E p M" and wf: "wf_json (float_repr E) v"
    and acc: "accept_by E (peer_network p) (own_id p) (known_hashes E p) M v = (r, M')"
  obtains p' where "accept_entry E p v = Inr (r, p')" "peer_files_rep E p' M'"
    "peer_network p' = peer_network p" "own_id p' = own_id p"
proof (cases "\<exists>e o1. v = JObj e \<and> own_id p = Some o1 \<and> jget e ''reporter_id'' = JStr o1")
  case True
  with rep acc that [of p] show thesis by (auto simp: accept_entry_def accept_by_def)
next
  case notown: False
  then have no: "\<not> (own_id p \<noteq> None \<and> is_dict v \<and> (case v of JObj e \<Rightarrow> jget e ''reporter_id'' | _ \<Rightarrow> JNull) = JStr (the (own_id p)))"
    "\<not> (is_dict v \<and> (\<exists>o1. own_id p = Some o1 \<and> (case v of JObj d \<Rightarrow> jget d ''reporter_id'' | _ \<Rightarrow> JNull) = JStr o1))"
    by (cases v; auto)+
  show thesis
  proof (cases "fst (verify_foreign_entry E v (peer_network p))")
    case False
    then obtain errs where "verify_foreign_entry E v (peer_network p) = (False, errs)" by (metis (full_types) prod.collapse)
    with rep acc no that [of p] show thesis by (auto simp: accept_entry_def accept_by_def Let_def)
  next
    case True
    then obtain e s h where v: "v = JObj e" and f: "jget e ''reporter_id'' = JStr s"
      "jget e ''entry_hash'' = JStr h" "source_of e = s" "hash_of e = h"
      using foreign_fields by metis
    obtain p1 where has: "has_entry_hash E p s h = Inr (h \<in> known_hashes E p s, p1)" "peer_files p1 = peer_files p"
      "peer_network p1 = peer_network p" "own_id p1 = own_id p"
      using files_has_hash [OF rep] .
    have rep1: "peer_files_rep E p1 M" using rep has(2,3) by (simp add: peer_files_rep_def)
    have ver: "verify_foreign_entry E (JObj e) (peer_network p) = (True, [])"
      using True v foreign_errors [of E v "peer_network p"] by (metis fst_conv prod.collapse)
    have st: "stored_ok E (peer_network p1) s e" using wf v ver f has(3) by (simp add: stored_ok_def)
    show thesis
    proof (cases "h \<in> known_hashes E p s")
      case True
      with no has v f ver acc rep1 that [of p1] show thesis by (auto simp: accept_entry_def accept_by_def Let_def)
    next
      case False
      have "accept_entry E p v = Inr (r, write_entry p1 s h e)" "M' = M(s := M s @ [e])"
        using False no has v f ver acc by (auto simp: accept_entry_def accept_by_def Let_def)
      moreover have "peer_network (write_entry p1 s h e) = peer_network p" "own_id (write_entry p1 s h e) = own_id p"
        using has(3,4) by (simp_all add: write_entry_def)
      ultimately show thesis using write_entry_files [OF rep1 st] by (intro that [of "write_entry p1 s h e"]) simp_all
    qed
  qed
qed

text \<open>
  An instance that has scanned a source does not see what another instance stores there
  afterwards: it stores the same entry again, and its tail lookup keeps the old answer.
\<close>

lemma stale_cache_stores_twice:
  assumes "peer_files_ok E p" and "wf_json (float_repr E) (JObj e)"
    and "verify_foreign_entry E (JObj e) (peer_network p) = (True, [])" and "own_id p \<noteq> Some (source_of e)"
    and "seen p (source_of e) = Some known" and "hash_of e \<notin> known"
    and "e \<in> set (read_entries_for E p (source_of e))"
  shows "\<exists>p'. accept_entry E p (JObj e) = Inr ((True, JStr (source_of e), [], False), p') \<and>
    \<not> distinct (map hash_of (read_entries_for E p' (source_of e)))"
proof -
  obtain s where s: "jget e ''reporter_id'' = JStr s" "source_of e = s"
    using foreign_fields [of E "JObj e" "peer_network p"] assms(3) by (metis fst_conv json.inject(6))
  let ?M = "read_entries_for E p"
  have "known_hashes E p (source_of e) = known" using assms(5) by (simp add: known_hashes_def)
  then have "accept_by E (peer_network p) (own_id p) (known_hashes E p) ?M (JObj e) =
      ((True, JStr (source_of e), [], False), ?M(source_of e := ?M (source_of e) @ [e]))"
    using assms(3,4,6) s by (auto simp: accept_by_def Let_def)
  from accept_entry_files [OF assms(1) [unfolded peer_files_ok_def] assms(2) this]
  obtain p' where "accept_entry E p (JObj e) = Inr ((True, JStr (source_of e), [], False), p')"
    "peer_files_rep E p' (?M(source_of e := ?M (source_of e) @ [e]))" by metis
  moreover from peer_files_rep_read(1) [OF this(2)] assms(7)
  have "\<not> distinct (map hash_of (read_entries_for E p' (source_of e)))" by simp
  ultimately show ?thesis by blast
qed

lemma stale_tail_kept:
  "tail_hash p s = Some t \<Longrightarrow> latest_hash_for E (p\<lparr>peer_files := files\<rparr>) s = Inr (t, p\<lparr>peer_files := files\<rparr>)"
  by (simp add: latest_hash_for_def)

section \<open>Properties\<close>

lemma sample_entry_wf [simp]: "wf_json (float_repr sample_env) (JObj sample_entry)"
  using sample_log_ok(1) by (simp add: file_holds_def del: wf_json.simps)

lemma sample_entry_foreign [simp]:
  "verify_foreign_entry sample_env (JObj sample_entry) (id_network sample_identity) = (True, [])"
  using verified_entry_foreign [of sample_env "id_network sample_identity" 0 "''GENESIS''" "[sample_entry]" sample_entry]
    sample_log_ok verified_iff [OF sample_log_ok(1), of "id_network sample_identity"]
  by (simp add: genesis_def del: verify_entries.simps)

definition sample_peer_log :: peer_log where
  "sample_peer_log = open_peer_log [] (id_network sample_identity) None"

lemma open_peer_log_inv [simp]: "peer_inv E (open_peer_log [] network own)"
  "read_entries_for E (open_peer_log [] network own) = (\<lambda>_. [])"
  using peer_inv_rep [OF peer_rep_open] by auto

lemma sample_peer_spec:
  "accept_spec sample_env (peer_network sample_peer_log) (own_id sample_peer_log)
     (read_entries_for sample_env sample_peer_log) (JObj sample_entry) =
   ((True, JStr (source_of sample_entry), [], False), (\<lambda>_. [])(source_of sample_entry := [sample_entry]))"
proof -
  have "peer_network sample_peer_log = id_network sample_identity" "own_id sample_peer_log = None"
    by (simp_all add: sample_peer_log_def open_peer_log_def)
  then show ?thesis by (simp add: accept_spec_def) (simp add: sample_peer_log_def)
qed

lemma accept_spec_own:
  assumes "accept_spec E network own M v = (r, M')" and "\<forall>s. own = Some s \<longrightarrow> M s = []"
  shows "\<forall>s. own = Some s \<longrightarrow> M' s = []"
proof (cases "fst (verify_foreign_entry E v network)")
  case True
  then obtain e s where "v = JObj e" "jget e ''reporter_id'' = JStr s" "source_of e = s"
    using foreign_fields by metis
  with True assms show ?thesis by (auto simp: accept_spec_def Let_def split: if_splits)
next
  case False
  with assms show ?thesis by (auto simp: accept_spec_def Let_def split: if_splits)
qed

lemma submit_all_peer:
  assumes "peer_inv E p" and "list_all (wf_json (float_repr E)) vs"
    and "\<forall>s. own_id p = Some s \<longrightarrow> read_entries_for E p s = []"
  shows "\<exists>rs p'. submit_all (accept_entry E) p vs = Inr (rs, p') \<and> peer_inv E p' \<and>
    peer_network p' = peer_network p \<and> own_id p' = own_id p \<and>
    (\<forall>s. own_id p = Some s \<longrightarrow> read_entries_for E p' s = [])"
  using assms
proof (induction vs arbitrary: p)
  case Nil
  then show ?case by simp
next
  case (Cons v vs)
  obtain r M' where spec: "accept_spec E (peer_network p) (own_id p) (read_entries_for E p) v = (r, M')"
    by (metis surj_pair)
  have wf: "wf_json (float_repr E) v" "list_all (wf_json (float_repr E)) vs" using Cons.prems(2) by simp_all
  obtain p1 where p1: "accept_entry E p v = Inr (r, p1)" "peer_inv E p1" "read_entries_for E p1 = M'"
    "peer_network p1 = peer_network p" "own_id p1 = own_id p"
    using accept_entry_inv [OF Cons.prems(1) wf(1) spec] .
  have "\<forall>s. own_id p1 = Some s \<longrightarrow> read_entries_for E p1 s = []"
    using accept_spec_own [OF spec Cons.prems(3)] p1 by simp
  from Cons.IH [OF p1(2) wf(2) this] p1 show ?case by auto
qed

text \<open>
  C7: On a directory of accepted entries, whatever this instance's caches hold and whoever
  else has written to the files, accepting an entry returns the verdict of the abstract
  store, and the entries read back afterwards are those of the abstract store, where a hash
  counts as known when the cache knows it or, before the first scan, when the file has it.
  While the filled caches agree with the files, that is the store of the files themselves,
  and the caches agree again afterwards.
\<close>

theorem accept_entry_refines_store:
  assumes "peer_files_ok E p" and "wf_json (float_repr E) v"
    and "accept_by E (peer_network p) (own_id p) (known_hashes E p) (read_entries_for E p) v = (r, M')"
  shows "\<exists>p'. accept_entry E p v = Inr (r, p') \<and> peer_files_ok E p' \<and> read_entries_for E p' = M' \<and>
    (peer_inv E p \<longrightarrow> peer_inv E p' \<and>
       accept_spec E (peer_network p) (own_id p) (read_entries_for E p) v = (r, M'))"
proof -
  obtain p' where p': "accept_entry E p v = Inr (r, p')" "peer_files_rep E p' M'"
    using accept_entry_files [OF assms(1) [unfolded peer_files_ok_def] assms(2,3)] .
  have "peer_inv E p' \<and> accept_spec E (peer_network p) (own_id p) (read_entries_for E p) v = (r, M')"
    if inv: "peer_inv E p"
  proof -
    have spec: "accept_spec E (peer_network p) (own_id p) (read_entries_for E p) v = (r, M')"
      using assms(3) peer_inv_known [OF inv] accept_by_spec [of E _ _ "read_entries_for E p"]
      by (simp add: fun_eq_iff [of "known_hashes E p"] flip: accept_by_spec) (metis ext)
    from accept_entry_inv [OF inv assms(2) spec] p'(1) spec show ?thesis by (metis Inr_inject prod.inject)
  qed
  with p' peer_files_rep_read [OF p'(2)] show ?thesis by blast
qed

text \<open>A filled cache that another instance's write has made stale.\<close>

definition stale_peer_log :: peer_log where
  "stale_peer_log = sample_peer_log\<lparr>seen := [source_of sample_entry \<mapsto> {}],
     peer_files := [(source_of sample_entry, json_line sample_entry)]\<rparr>"

lemma stale_peer_files: "peer_files_rep sample_env stale_peer_log ((\<lambda>_. [])(source_of sample_entry := [sample_entry]))"
proof -
  obtain s h where f: "jget sample_entry ''reporter_id'' = JStr s" "jget sample_entry ''entry_hash'' = JStr h"
    "source_of sample_entry = s"
    using foreign_fields [of sample_env "JObj sample_entry" "id_network sample_identity"] by (auto simp del: wf_json.simps)
  then have "stored_ok sample_env (id_network sample_identity) s sample_entry"
    using sample_entry_wf by (simp add: stored_ok_def)
  with f(3) show ?thesis
    by (simp add: peer_files_rep_def stale_peer_log_def sample_peer_log_def open_peer_log_def)
qed

lemma accept_entry_refines_store_witness:
  "\<exists>p'. accept_entry sample_env stale_peer_log (JObj sample_entry) =
      Inr ((True, JStr (source_of sample_entry), [], False), p') \<and> peer_files_ok sample_env p' \<and>
      read_entries_for sample_env p' = (\<lambda>_. [])(source_of sample_entry := [sample_entry, sample_entry])"
proof -
  have "peer_network stale_peer_log = id_network sample_identity" "own_id stale_peer_log = None"
    "known_hashes sample_env stale_peer_log (source_of sample_entry) = {}"
    by (simp_all add: stale_peer_log_def sample_peer_log_def open_peer_log_def known_hashes_def)
  then have "accept_by sample_env (peer_network stale_peer_log) (own_id stale_peer_log)
      (known_hashes sample_env stale_peer_log) (read_entries_for sample_env stale_peer_log) (JObj sample_entry) =
      ((True, JStr (source_of sample_entry), [], False),
       (\<lambda>_. [])(source_of sample_entry := [sample_entry, sample_entry]))"
    by (simp add: accept_by_def peer_files_rep_read(1) [OF stale_peer_files])
  from accept_entry_refines_store [OF peer_files_rep_read(2) [OF stale_peer_files] sample_entry_wf this]
  show ?thesis by blast
qed

text \<open>
  Acceptance is idempotent: an entry that was stored, or already known, is reported as a
  duplicate when it is submitted again, and nothing is written.
\<close>

lemma accept_entry_idempotent:
  assumes "peer_inv E p" and "wf_json (float_repr E) v"
    and "accept_entry E p v = Inr ((stored, src, [], dup), p')"
  shows "\<exists>p''. accept_entry E p' v = Inr ((False, src, [], True), p'') \<and>
    read_entries_for E p'' = read_entries_for E p'"
  by (rule peer_store.acc_known [OF assms])

lemma accept_entry_idempotent_witness:
  "\<exists>p' p''. accept_entry sample_env sample_peer_log (JObj sample_entry) =
      Inr ((True, JStr (source_of sample_entry), [], False), p') \<and>
    accept_entry sample_env p' (JObj sample_entry) = Inr ((False, JStr (source_of sample_entry), [], True), p'') \<and>
    read_entries_for sample_env p'' = read_entries_for sample_env p'"
proof -
  have inv: "peer_inv sample_env sample_peer_log" by (simp add: sample_peer_log_def)
  obtain p' where "accept_entry sample_env sample_peer_log (JObj sample_entry) =
      Inr ((True, JStr (source_of sample_entry), [], False), p')"
    using accept_entry_inv [OF inv sample_entry_wf sample_peer_spec] .
  from accept_entry_idempotent [OF inv sample_entry_wf this] this show ?thesis by blast
qed

text \<open>
  C8: Whatever is submitted to an empty cache, every entry read back verifies, is filed
  under its own reporter, is not the receiver's own, no hash occurs twice in a source, and
  the tail lookup returns the last hash.
\<close>

theorem peer_cache_sound:
  assumes "list_all (wf_json (float_repr E)) vs"
  shows "\<exists>rs p. submit_all (accept_entry E) (open_peer_log [] network own) vs = Inr (rs, p) \<and>
    (\<forall>s. distinct (map hash_of (read_entries_for E p s)) \<and>
      list_all (\<lambda>e. verify_foreign_entry E (JObj e) network = (True, []) \<and>
        jget e ''reporter_id'' = JStr s \<and> own \<noteq> Some s) (read_entries_for E p s) \<and>
      (\<exists>p'. latest_hash_for E p s = Inr (tail_of (read_entries_for E p s), p')))"
proof -
  let ?p0 = "open_peer_log [] network own"
  have n: "peer_network ?p0 = network" "own_id ?p0 = own" by (simp_all add: open_peer_log_def)
  obtain rs p where sub: "submit_all (accept_entry E) ?p0 vs = Inr (rs, p)" and inv: "peer_inv E p"
    and same: "peer_network p = network" "own_id p = own"
    and own: "\<forall>s. own = Some s \<longrightarrow> read_entries_for E p s = []"
    using submit_all_peer [OF open_peer_log_inv(1) assms, of network own] n by auto
  have rep: "peer_rep E p (read_entries_for E p)" using inv by (simp add: peer_inv_def)
  have "\<exists>p'. latest_hash_for E p s = Inr (tail_of (read_entries_for E p s), p')" for s
  proof (cases "tail_hash p s")
    case None
    obtain p' where "has_entry_hash E p s [] = Inr ([] \<in> hash_of ` set (read_entries_for E p s), p')"
      "tail_hash p' s = Some (tail_of (read_entries_for E p s))"
      using peer_has_hash [OF rep, of s "[]"] by metis
    with None show ?thesis by (simp add: latest_hash_for_def)
  next
    case (Some t)
    with peer_repD(6) [OF rep Some] show ?thesis by (simp add: latest_hash_for_def)
  qed
  moreover have "list_all (\<lambda>e. verify_foreign_entry E (JObj e) network = (True, []) \<and>
        jget e ''reporter_id'' = JStr s \<and> own \<noteq> Some s) (read_entries_for E p s)" for s
    using peer_repD(3) [OF rep, of _ s] own same by (auto simp: list_all_iff stored_ok_def)
  ultimately show ?thesis using sub peer_repD(4) [OF rep] by blast
qed

lemma peer_cache_sound_witness:
  "\<exists>rs p. submit_all (accept_entry sample_env) (open_peer_log [] (id_network sample_identity) None)
      [JObj sample_entry, JNull, JObj sample_entry] = Inr (rs, p) \<and>
    (\<forall>s. distinct (map hash_of (read_entries_for sample_env p s)) \<and>
      list_all (\<lambda>e. verify_foreign_entry sample_env (JObj e) (id_network sample_identity) = (True, []) \<and>
        jget e ''reporter_id'' = JStr s \<and> None \<noteq> Some s) (read_entries_for sample_env p s) \<and>
      (\<exists>p'. latest_hash_for sample_env p s = Inr (tail_of (read_entries_for sample_env p s), p')))"
  by (rule peer_cache_sound) (simp only: list.pred_inject sample_entry_wf wf_json.simps(4) simp_thms)

text \<open>
  A line of a source file that is JSON but not an object makes every later acceptance
  for that source raise, although the read path skips such a line.
\<close>

lemma accept_entry_raises_on_non_object_line:
  assumes "fst (verify_foreign_entry E (JObj e) (peer_network p))"
    and "own_id p = None" and "seen p (source_of e) = None"
    and "map_of (peer_files p) (source_of e) = Some t"
    and "text_lines t = map json_line es @ (l # ls)" and "\<forall>d \<in> set es. wf_dict (float_repr E) d"
    and "strip l \<noteq> []" and "loads (float_repr E) (strip l) = Some w" and "\<not> is_dict w"
  shows "accept_entry E p (JObj e) = Inl AttributeError \<and>
    read_entries_for E p (source_of e) = es @ read_peer_lines E ls"
proof -
  have scan: "scan_hashes E known u (map json_line ds @ (l # ls)) = Inl AttributeError"
    if "\<forall>d \<in> set ds. wf_dict (float_repr E) d" for known u ds
    using that
  proof (induction ds arbitrary: known u)
    case Nil
    with assms(7-9) show ?case by (cases w) simp_all
  next
    case (Cons d ds)
    then have "wf_dict (float_repr E) d" by simp
    from loads_json_line(2) [OF this] Cons show ?case
      by (simp del: wf_json.simps split: json.splits)
  qed
  have read: "read_peer_lines E (map json_line ds @ (l # ls)) = ds @ read_peer_lines E ls"
    if "\<forall>d \<in> set ds. wf_dict (float_repr E) d" for ds
    using that
  proof (induction ds)
    case Nil
    with assms(7-9) show ?case by (cases w) simp_all
  next
    case (Cons d ds)
    then have "wf_dict (float_repr E) d" by simp
    from loads_json_line(2) [OF this] Cons show ?case by (simp del: wf_json.simps)
  qed
  obtain s h where f: "jget e ''reporter_id'' = JStr s" "jget e ''entry_hash'' = JStr h" "source_of e = s"
    using foreign_fields [OF assms(1)] by (metis json.inject(6))
  obtain errs where "verify_foreign_entry E (JObj e) (peer_network p) = (True, errs)"
    using assms(1) by (metis (full_types) prod.collapse)
  with f assms(2-5) scan [OF assms(6)] have "accept_entry E p (JObj e) = Inl AttributeError"
    by (simp add: accept_entry_def has_entry_hash_def Let_def)
  moreover have "read_entries_for E p (source_of e) = es @ read_peer_lines E ls"
    using assms(4,5) read [OF assms(6)] by (simp add: read_entries_for_def)
  ultimately show ?thesis by blast
qed

lemma accept_entry_raises_on_non_object_line_witness:
  "accept_entry sample_env (open_peer_log [(source_of sample_entry, ''1'' @ [nl])] (id_network sample_identity) None)
      (JObj sample_entry) = Inl AttributeError \<and>
    read_entries_for sample_env (open_peer_log [(source_of sample_entry, ''1'' @ [nl])] (id_network sample_identity) None)
      (source_of sample_entry) = [] @ read_peer_lines sample_env []"
proof (rule accept_entry_raises_on_non_object_line)
  show "text_lines (''1'' @ [nl]) = map json_line [] @ ((''1'' @ [nl]) # [])"
    using text_lines_single [of "''1''"] by (simp add: is_print_def)
  show "loads (float_repr sample_env) (strip (''1'' @ [nl])) = Some (JInt 1)" by code_simp
qed (simp_all add: open_peer_log_def strip_def lstrip_def rstrip_def is_space_def nl_def)

end
