(* ===== verification/Pull_Loop.thy ===== *)
theory Pull_Loop
  imports Complex_Main Server Peer_Log_Spec
begin

text \<open>
  Pull-based replication (redteam/integration/pull_loop.py): one pull from a peer, which
  feeds a batch to the peer cache and moves the cursor, and the driver with its per-peer
  cursors and exponential backoff.  The transport is a record of the functions of the
  protocol in redteam/integration/peer_transport.py; its answers are those of the moment of
  the call.  Times and delays are rational numbers of seconds.
\<close>

record transport =
  tr_head :: "string \<Rightarrow> json res"
  tr_entries_since :: "string \<Rightarrow> json \<Rightarrow> int \<Rightarrow> json res"

type_synonym rejection = "json \<times> peer_error list"

section \<open>One pull\<close>

text \<open>
  The loop over a batch: new cursor, appended count and rejections, or the exception; the
  store keeps what was stored before an exception.  \<open>JNull\<close> is the absent cursor.
\<close>

fun pull_entries ::
  "('s \<Rightarrow> json \<Rightarrow> (verdict \<times> 's) res) \<Rightarrow> 's \<Rightarrow> json list \<Rightarrow> json \<Rightarrow> nat \<Rightarrow>
     (json \<times> nat \<times> rejection list) res \<times> 's" where
  "pull_entries acc s [] new_last appended = (Inr (new_last, appended, []), s)"
| "pull_entries acc s (v # vs) new_last appended =
     (case acc s v of
        Inl e \<Rightarrow> (Inl e, s)
      | Inr ((stored, src, errs, duplicate), s1) \<Rightarrow>
          if \<not> stored \<and> errs \<noteq> [] then
            (case v of
               JObj entry \<Rightarrow>
                 (let h = jget entry ''entry_hash'' in
                  (Inr (new_last, appended, [(if truthy h then h else JStr ''<missing>'', errs)]), s1))
             | _ \<Rightarrow> (Inl AttributeError, s1))
          else if stored then pull_entries acc s1 vs (jget (as_dict v) ''entry_hash'') (appended + 1)
          else if duplicate then pull_entries acc s1 vs (jget (as_dict v) ''entry_hash'') appended
          else pull_entries acc s1 vs new_last appended)"

definition pull_once ::
  "('s \<Rightarrow> json \<Rightarrow> (verdict \<times> 's) res) \<Rightarrow> transport \<Rightarrow> string \<Rightarrow> 's \<Rightarrow> json \<Rightarrow> int \<Rightarrow>
     (json \<times> nat \<times> rejection list) res \<times> 's" where
  "pull_once acc T url s last_known batch =
     (case tr_head T url of
        Inl e \<Rightarrow> (Inl e, s)
      | Inr peer_head \<Rightarrow>
          if py_eq peer_head last_known \<and> \<not> py_eq peer_head (JStr ''GENESIS'')
          then (Inr (peer_head, 0, []), s)
          else
            (let since = (if truthy last_known then last_known else JStr ''GENESIS'') in
             case bindr (tr_entries_since T url since batch) (\<lambda>resp. case resp of
                    JObj d \<Rightarrow> bindr (py_iter (get_or d ''entries'' (JList []))) Inr
                  | _ \<Rightarrow> Inl AttributeError) of
               Inl e \<Rightarrow> (Inl e, s)
             | Inr served \<Rightarrow>
                 (case pull_entries acc s served last_known 0 of
                    (Inl e, s') \<Rightarrow> (Inl e, s')
                  | (Inr (new_last, appended, rejections), s') \<Rightarrow>
                      (let final = (if served = [] \<and> new_last = JNull then peer_head else new_last) in
                       (Inr (if truthy final then final else JStr ''GENESIS'', appended, rejections), s')))))"

section \<open>The driver\<close>

definition backoff_max :: rat where
  "backoff_max = 60"

record 's pull_state =
  ps_store :: 's
  ps_cursor :: "string \<rightharpoonup> json"
  ps_backoff :: "string \<rightharpoonup> rat"
  ps_next_attempt :: "string \<rightharpoonup> rat"

definition start_pull_state :: "'s \<Rightarrow> (string \<rightharpoonup> json) \<Rightarrow> 's pull_state" where
  "start_pull_state store cursors =
     \<lparr>ps_store = store, ps_cursor = cursors, ps_backoff = Map.empty, ps_next_attempt = Map.empty\<rparr>"

definition or_else :: "'a option \<Rightarrow> 'a \<Rightarrow> 'a" where
  "or_else x d = (case x of None \<Rightarrow> d | Some y \<Rightarrow> y)"

text \<open>One peer in one cycle: \<open>fail_time\<close> is the clock read after a failed pull.\<close>

definition pull_peer ::
  "('s \<Rightarrow> json \<Rightarrow> (verdict \<times> 's) res) \<Rightarrow> transport \<Rightarrow> rat \<Rightarrow> int \<Rightarrow> rat \<Rightarrow> (string \<Rightarrow> rat) \<Rightarrow>
     string \<Rightarrow> 's pull_state \<Rightarrow> 's pull_state" where
  "pull_peer acc T interval batch now fail_time url st =
     (if or_else (ps_next_attempt st url) 0 > now then st
      else
        (case pull_once acc T url (ps_store st) (or_else (ps_cursor st url) JNull) batch of
           (Inl e, s') \<Rightarrow>
             (let delay = min backoff_max (max interval (or_else (ps_backoff st url) interval * 2)) in
              st\<lparr>ps_store := s', ps_backoff := (ps_backoff st)(url \<mapsto> delay),
                 ps_next_attempt := (ps_next_attempt st)(url \<mapsto> fail_time url + delay)\<rparr>)
         | (Inr (new_last, appended, rejs), s') \<Rightarrow>
             st\<lparr>ps_store := s', ps_backoff := (ps_backoff st)(url := None),
                ps_next_attempt := (ps_next_attempt st)(url := None),
                ps_cursor := (ps_cursor st)(url \<mapsto> new_last)\<rparr>))"

definition pull_cycle ::
  "('s \<Rightarrow> json \<Rightarrow> (verdict \<times> 's) res) \<Rightarrow> transport \<Rightarrow> rat \<Rightarrow> int \<Rightarrow> rat \<Rightarrow> (string \<Rightarrow> rat) \<Rightarrow>
     string list \<Rightarrow> 's pull_state \<Rightarrow> 's pull_state" where
  "pull_cycle acc T interval batch now fail_time urls st =
     foldl (\<lambda>st url. pull_peer acc T interval batch now fail_time url st) st urls"

text \<open>The loop until the stop event: one element per cycle that ran before it was set.\<close>

record cycle =
  cy_transport :: transport
  cy_now :: rat
  cy_fail_time :: "string \<Rightarrow> rat"

fun run_pull_loop ::
  "('s \<Rightarrow> json \<Rightarrow> (verdict \<times> 's) res) \<Rightarrow> string list \<Rightarrow> rat \<Rightarrow> int \<Rightarrow> cycle list \<Rightarrow> 's pull_state \<Rightarrow> 's pull_state" where
  "run_pull_loop acc urls interval batch [] st = st"
| "run_pull_loop acc urls interval batch (c # cs) st =
     run_pull_loop acc urls interval batch cs
       (pull_cycle acc (cy_transport c) interval batch (cy_now c) (cy_fail_time c) urls st)"

section \<open>The transport's contract\<close>

text \<open>
  What an honest peer with a fixed chain answers: the head is the hash of the last entry,
  and \<open>since\<close> a position of the chain gives the entries strictly after it, at most \<open>limit\<close>.
\<close>

definition head_of :: "dict list \<Rightarrow> string" where
  "head_of es = (if es = [] then ''GENESIS'' else hash_of (last es))"

definition serves :: "json res \<Rightarrow> dict list \<Rightarrow> bool" where
  "serves r es = (\<exists>d. r = Inr (JObj d) \<and> get_or d ''entries'' (JList []) = JList (map JObj es))"

locale peer_chain =
  fixes head :: "'p \<Rightarrow> json res"
    and since :: "'p \<Rightarrow> json \<Rightarrow> int \<Rightarrow> json res"
    and holds :: "'p \<Rightarrow> dict list \<Rightarrow> bool"
    and cap :: nat
  assumes head_law: "holds p es \<Longrightarrow> head p = Inr (JStr (head_of es))"
    and since_start: "holds p es \<Longrightarrow> 0 \<le> n \<Longrightarrow> serves (since p (JStr ''GENESIS'') n) (take (min (nat n) cap) es)"
    and since_after: "holds p es \<Longrightarrow> 0 \<le> n \<Longrightarrow> i < length es \<Longrightarrow>
      serves (since p (JStr (hash_of (es ! i))) n) (take (min (nat n) cap) (drop (Suc i) es))"
    and hashes: "holds p es \<Longrightarrow> e \<in> set es \<Longrightarrow>
      jget e ''entry_hash'' = JStr (hash_of e) \<and> hash_of e \<noteq> ''GENESIS'' \<and> hash_of e \<noteq> []"
    and hashes_distinct: "holds p es \<Longrightarrow> distinct (map hash_of es)"
    and cap_pos: "cap > 0"
begin

lemma cursor_head:
  assumes p: "holds p es" and k: "k \<le> length es"
  shows "head_of es = head_of (take k es) \<longleftrightarrow> k = length es"
proof (cases "k = 0 \<or> es = []")
  case True
  with k hashes [OF p, of "last es"] show ?thesis by (auto simp: head_of_def)
next
  case False
  then have ne: "es \<noteq> []" "take k es \<noteq> []" "0 < k" by auto
  have lasts: "last (take k es) = es ! (k - 1)" "last es = es ! (length es - 1)"
    using k ne by (simp_all add: last_conv_nth min_absorb2)
  have "k - 1 < length es" "length es - 1 < length es" using ne k by (cases es, auto)+
  then have "hash_of (es ! (length es - 1)) = hash_of (es ! (k - 1)) \<longleftrightarrow> length es - 1 = k - 1"
    using nth_eq_iff_index_eq [OF hashes_distinct [OF p], of "length es - 1" "k - 1"] by simp
  moreover have "length es - 1 = k - 1 \<longleftrightarrow> k = length es" using ne k by auto
  ultimately show ?thesis by (simp only: head_of_def ne(1,2) if_False lasts)
qed

lemma head_nonempty: "holds p es \<Longrightarrow> head_of (take k es) \<noteq> []"
proof (cases "take k es = []")
  case False
  assume p: "holds p es"
  have "last (take k es) \<in> set es" using False by (metis in_set_takeD last_in_set)
  from hashes [OF p this] show ?thesis by (simp add: head_of_def)
qed (simp add: head_of_def)

lemma since_cursor:
  assumes "holds p es" and "0 \<le> n" and "k \<le> length es"
  shows "serves (since p (JStr (head_of (take k es))) n) (take (min (nat n) cap) (drop k es))"
proof (cases k)
  case 0
  with since_start [OF assms(1,2)] show ?thesis by (simp add: head_of_def)
next
  case (Suc i)
  then have "last (take k es) = es ! i" "take k es \<noteq> []"
    using assms(3) by (auto simp: take_Suc_conv_app_nth)
  with since_after [OF assms(1,2), of i] Suc assms(3) show ?thesis by (simp add: head_of_def)
qed

end

section \<open>Replication\<close>

definition by_source :: "dict list \<Rightarrow> string \<Rightarrow> dict list" where
  "by_source es = (\<lambda>src. filter (\<lambda>e. source_of e = src) es)"

lemma by_source_snoc: "by_source (es @ [e]) = (by_source es)(source_of e := by_source es (source_of e) @ [e])"
  by (auto simp: by_source_def fun_eq_iff)

text \<open>An honest peer, and a store with a reason-free predicate: it refuses no \<open>willing\<close> entry.\<close>

locale replication = peer_chain head since holds cap + entry_store acc inv entries readable
  for head :: "'p \<Rightarrow> json res" and since and holds and cap
    and acc :: "'s \<Rightarrow> json \<Rightarrow> (verdict \<times> 's) res" and inv and entries and readable +
  fixes willing :: "'s \<Rightarrow> dict \<Rightarrow> bool"
  assumes willing_readable: "willing s e \<Longrightarrow> readable (JObj e)"
    and willing_accepted: "inv s \<Longrightarrow> willing s e \<Longrightarrow> acc s (JObj e) = Inr ((stored, sr, errs, dup), s') \<Longrightarrow> errs = []"
    and willing_kept: "inv s \<Longrightarrow> willing s e \<Longrightarrow> readable v \<Longrightarrow> acc s v = Inr (r, s') \<Longrightarrow> willing s' e"
begin

lemma pull_batch:
  assumes "holds p es" and "inv s" and "\<forall>e \<in> set es. willing s e" and "entries s = by_source (take k es)"
    and "k + length fs \<le> length es" and "fs = take (length fs) (drop k es)"
  shows "\<exists>s'. pull_entries acc s (map JObj fs) c n =
      (Inr (if fs = [] then c else JStr (head_of (take (k + length fs) es)), n + length fs, []), s') \<and>
    inv s' \<and> (\<forall>e \<in> set es. willing s' e) \<and> entries s' = by_source (take (k + length fs) es)"
  using assms
proof (induction fs arbitrary: s k c n)
  case Nil
  then show ?case by auto
next
  case (Cons e fs)
  note p = Cons.prems(1)
  have k: "k < length es" using Cons.prems(5) by simp
  then have "drop k es = es ! k # drop (Suc k) es" by (simp add: Cons_nth_drop_Suc)
  then have e: "e = es ! k" and fs: "fs = take (length fs) (drop (Suc k) es)"
    using Cons.prems(6) by simp_all
  have mem: "e \<in> set es" using e k by simp
  have w: "willing s e" using Cons.prems(3) mem by blast
  obtain r s1 where acc: "acc s (JObj e) = Inr (r, s1)" and inv: "inv s1"
    using acc_total [OF Cons.prems(2) willing_readable [OF w]] by auto
  obtain st sr er du where r: "r = (st, sr, er, du)" by (metis prod_cases4)
  have er: "er = []" by (rule willing_accepted [OF Cons.prems(2) w acc [unfolded r]])
  have new: "hash_of e \<notin> hash_of ` set (entries s (source_of e))"
  proof
    assume "hash_of e \<in> hash_of ` set (entries s (source_of e))"
    then have "hash_of e \<in> hash_of ` set (take k es)" by (auto simp: Cons.prems(4) by_source_def)
    then obtain j where j: "j < k" "hash_of (es ! j) = hash_of (es ! k)"
      using k e by (auto simp: in_set_conv_nth)
    then have "j = k" using nth_eq_iff_index_eq [OF hashes_distinct [OF p], of j k] k by simp
    with j show False by simp
  qed
  have "st \<and> \<not> du \<and> entries s1 = by_source (take k es @ [e])"
    using acc_cases [OF Cons.prems(2) willing_readable [OF w] acc [unfolded r]] er new
    unfolding by_source_snoc Cons.prems(4) by simp
  then have st: "st" "\<not> du" "entries s1 = by_source (take (Suc k) es)"
    using k e by (simp_all add: take_Suc_conv_app_nth)
  have cur: "jget e ''entry_hash'' = JStr (head_of (take (Suc k) es))"
    using hashes [OF p mem] e k by (simp add: head_of_def take_Suc_conv_app_nth)
  have w1: "\<forall>d \<in> set es. willing s1 d"
    using willing_kept [OF Cons.prems(2) _ willing_readable [OF w] acc] Cons.prems(3) by blast
  have len: "Suc k + length fs \<le> length es" using Cons.prems(5) by simp
  from Cons.IH [OF p inv w1 st(3) len fs, of "JStr (head_of (take (Suc k) es))" "Suc n"] acc r er st(1,2) cur
  show ?case by (auto split: if_splits)
qed

lemma one_pull:
  assumes T: "tr_head T url = head p" "tr_entries_since T url = since p"
    and p: "holds p es" and s: "inv s" "\<forall>e \<in> set es. willing s e" "entries s = by_source (take k es)"
    and k: "k \<le> length es" and b: "0 < b"
    and cur: "c = JStr (head_of (take k es)) \<or> k = 0 \<and> c = JNull"
    and k': "k' = min (k + min (nat b) cap) (length es)"
  shows "\<exists>n s'. pull_once acc T url s c b = (Inr (JStr (head_of (take k' es)), n, []), s') \<and> inv s' \<and>
    (\<forall>e \<in> set es. willing s' e) \<and> entries s' = by_source (take k' es)"
proof (cases "c = JStr (head_of es) \<and> head_of es \<noteq> ''GENESIS''")
  case True
  then have "head_of es = head_of (take k es)" using cur by auto
  then have "k = length es" using cursor_head [OF p k] by simp
  with True T s k' show ?thesis by (simp add: pull_once_def head_law [OF p])
next
  case False
  define fs where "fs = take (min (nat b) cap) (drop k es)"
  have len: "k + length fs = k'" "k + length fs \<le> length es" using k by (simp_all add: fs_def k')
  have fs: "fs = take (length fs) (drop k es)" unfolding fs_def by (simp add: min.commute take_all_iff min_def)
  have since_c: "(if truthy c then c else JStr ''GENESIS'') = JStr (head_of (take k es))"
    using cur head_nonempty [OF p, of k] by (auto simp: head_of_def)
  obtain d where d: "since p (JStr (head_of (take k es))) b = Inr (JObj d)"
    "get_or d ''entries'' (JList []) = JList (map JObj fs)"
    using since_cursor [OF p less_imp_le [OF b] k] by (auto simp: serves_def fs_def)
  have pull: "bindr (tr_entries_since T url (if truthy c then c else JStr ''GENESIS'') b) (\<lambda>resp. case resp of
        JObj d \<Rightarrow> bindr (py_iter (get_or d ''entries'' (JList []))) Inr
      | _ \<Rightarrow> Inl AttributeError) = Inr (map JObj fs)"
    by (simp add: T since_c d py_iter_def)
  obtain s' where s': "pull_entries acc s (map JObj fs) c 0 =
      (Inr (if fs = [] then c else JStr (head_of (take k' es)), length fs, []), s')" "inv s'"
    "\<forall>e \<in> set es. willing s' e" "entries s' = by_source (take k' es)"
    using pull_batch [OF p s len(2) fs, of c 0] len(1) by auto
  have fin: "(let final = (if map JObj fs = [] \<and> (if fs = [] then c else JStr (head_of (take k' es))) = JNull
        then JStr (head_of es) else if fs = [] then c else JStr (head_of (take k' es)))
      in if truthy final then final else JStr ''GENESIS'') = JStr (head_of (take k' es))"
  proof (cases "fs = []")
    case True
    have "k = length es" using True k b cap_pos by (auto simp: fs_def min_def split: if_splits)
    with True cur head_nonempty [OF p, of k] len(1) show ?thesis by auto
  next
    case False
    with head_nonempty [OF p] show ?thesis by simp
  qed
  show ?thesis
    using False T s' pull fin by (auto simp: pull_once_def head_law [OF p] Let_def)
qed

text \<open>The driver with this one peer: every cycle replicates another batch.\<close>

definition synced :: "'p \<Rightarrow> dict list \<Rightarrow> string \<Rightarrow> nat \<Rightarrow> 's pull_state \<Rightarrow> bool" where
  "synced p es url k st =
     (inv (ps_store st) \<and> (\<forall>e \<in> set es. willing (ps_store st) e) \<and>
      entries (ps_store st) = by_source (take k es) \<and> ps_next_attempt st url = None \<and>
      (ps_cursor st url = Some (JStr (head_of (take k es))) \<or> k = 0 \<and> ps_cursor st url = None))"

lemma one_cycle:
  assumes "tr_head T url = head p" "tr_entries_since T url = since p"
    and p: "holds p es" and st: "synced p es url k st" and k: "k \<le> length es" and b: "0 < b"
    and now: "0 \<le> now" and k': "k' = min (k + min (nat b) cap) (length es)"
  shows "synced p es url k' (pull_cycle acc T interval b now ft [url] st)"
proof -
  let ?c = "or_else (ps_cursor st url) JNull"
  have s: "inv (ps_store st)" "\<forall>e \<in> set es. willing (ps_store st) e"
    "entries (ps_store st) = by_source (take k es)" "ps_next_attempt st url = None"
    using st by (simp_all add: synced_def)
  have "?c = JStr (head_of (take k es)) \<or> k = 0 \<and> ?c = JNull"
    using st by (auto simp: synced_def or_else_def)
  from one_pull [OF assms(1,2) p s(1-3) k b this k'] s(4) now
  show ?thesis by (auto simp: pull_cycle_def pull_peer_def synced_def or_else_def)
qed

lemma min_absorb: "min (min (k + a) l + m) l = min (k + a + m) (l :: nat)"
  by (simp add: min_def)

lemma replicates:
  assumes "\<forall>c \<in> set cs. tr_head (cy_transport c) url = head p \<and>
      tr_entries_since (cy_transport c) url = since p \<and> 0 \<le> cy_now c"
    and "holds p es" and "synced p es url k st" and "k \<le> length es" and "0 < b"
  shows "synced p es url (min (k + length cs * min (nat b) cap) (length es)) (run_pull_loop acc [url] interval b cs st)"
  using assms(1,3,4)
proof (induction cs arbitrary: k st)
  case Nil
  then show ?case by simp
next
  case (Cons c cs)
  define k' where "k' = min (k + min (nat b) cap) (length es)"
  have st: "synced p es url k' (pull_cycle acc (cy_transport c) interval b (cy_now c) (cy_fail_time c) [url] st)"
    using one_cycle [OF _ _ assms(2) Cons.prems(2,3) assms(5) _ k'_def] Cons.prems(1) by simp
  have "min (k' + length cs * min (nat b) cap) (length es) = min (k + length (c # cs) * min (nat b) cap) (length es)"
    using min_absorb [of k "min (nat b) cap" "length es" "length cs * min (nat b) cap"]
    by (simp add: k'_def add.assoc)
  with Cons.IH [OF _ st] Cons.prems(1) show ?case by (simp add: k'_def)
qed

end

end
