(* ===== verification/Server_Spec.thy ===== *)
theory Server_Spec
  imports Server Peer_Log_Spec
begin

text \<open>
  What the server promises: the read-side index always describes the current log, so the
  sync routes answer from the log whatever was cached; incremental reads are slices of the
  chain; every append through the server keeps the log verified and is announced by \<open>/head\<close>;
  refused requests change nothing.
\<close>

section \<open>Hashes along a verified log\<close>

abbreviation collision_free :: "env \<Rightarrow> dict list \<Rightarrow> bool" where
  "collision_free E es \<equiv> inj_on (sha256 E) (entry_payload ` set es)"

lemma hash_of_verified:
  assumes "verify_entries E network i (JStr p) es = []" and "e \<in> set es"
  shows "hash_of e = entry_hash E e \<and> jget e ''entry_hash'' = JStr (hash_of e)"
  using assms
proof (induction es arbitrary: i p)
  case Nil
  then show ?case by simp
next
  case (Cons d es)
  show ?case
  proof (cases "e = d")
    case True
    with verified_step(2) [OF Cons.prems(1)] show ?thesis by (simp add: hash_of_def)
  next
    case False
    with Cons.prems(2) have "e \<in> set es" by simp
    from Cons.IH [OF verified_step(3) [OF Cons.prems(1)] this] show ?thesis .
  qed
qed

definition log_ok :: "env \<Rightarrow> string \<Rightarrow> log_file \<Rightarrow> dict list \<Rightarrow> bool" where
  "log_ok E network f es =
     (file_holds E f es \<and> verify_integrity E network f = (True, []) \<and> digest_ok E \<and> collision_free E es)"

lemma log_okD:
  assumes "log_ok E network f es"
  shows "file_holds E f es" "verify_entries E network 0 genesis es = []"
    "list_all (\<lambda>e. digest_ok E \<and> wf_dict (float_repr E) e) es"
    "chained (\<lambda>e. jget e ''previous_hash'') (entry_hash E) (JStr ''GENESIS'') es"
    "collision_free E es" "digest_ok E"
proof -
  show f: "file_holds E f es" "collision_free E es" "digest_ok E" using assms by (simp_all add: log_ok_def)
  show v: "verify_entries E network 0 genesis es = []" using assms verified_iff by (auto simp: log_ok_def)
  show "list_all (\<lambda>e. digest_ok E \<and> wf_dict (float_repr E) e) es"
    using f by (simp add: file_holds_def list_all_iff)
  show "chained (\<lambda>e. jget e ''previous_hash'') (entry_hash E) (JStr ''GENESIS'') es"
    by (rule verified_chained [OF v [unfolded genesis_def]])
qed

lemma log_hashes:
  assumes "log_ok E network f es"
  shows "map hash_of es = map (entry_hash E) es" "distinct (map hash_of es)"
    "e \<in> set es \<Longrightarrow> jget e ''entry_hash'' = JStr (hash_of e) \<and> hash_of e \<noteq> ''GENESIS'' \<and> hash_of e \<noteq> []"
proof -
  note ok = log_okD [OF assms]
  have h: "hash_of e = entry_hash E e \<and> jget e ''entry_hash'' = JStr (hash_of e)" if "e \<in> set es" for e
    using hash_of_verified [OF ok(2) [unfolded genesis_def] that] .
  then show m: "map hash_of es = map (entry_hash E) es" by simp
  show "distinct (map hash_of es)" unfolding m by (rule signed_chain.digests_distinct [OF ok(4,3,5)])
  show "jget e ''entry_hash'' = JStr (hash_of e) \<and> hash_of e \<noteq> ''GENESIS'' \<and> hash_of e \<noteq> []" if "e \<in> set es"
  proof -
    have "length (hash_of e) = 64"
      using h [OF that] sha256_hex_length [OF ok(6)] by (simp add: entry_hash_payload)
    then have "hash_of e \<noteq> ''GENESIS''" "hash_of e \<noteq> []" by auto
    with h [OF that] show ?thesis by simp
  qed
qed

lemma version2_all: "log_ok E network f es \<Longrightarrow> read_entries E f = Inr es"
  using read_entries_holds [OF log_okD(1)] verified_version2 [OF log_okD(2)] by (simp add: filter_id_conv)

lemma index_keep:
  "hash_of ` set es \<inter> {h} = {} \<Longrightarrow> index_entries k es m h = m h"
  by (induction es arbitrary: k m) (auto simp: hash_of_def split: json.splits)

lemma index_at:
  assumes "distinct (map hash_of es)" and "\<forall>e \<in> set es. jget e ''entry_hash'' = JStr (hash_of e)" and "i < length es"
  shows "index_entries k es m (hash_of (es ! i)) = Some (k + i)"
  using assms
proof (induction es arbitrary: k m i)
  case Nil
  then show ?case by simp
next
  case (Cons e es)
  show ?case
  proof (cases i)
    case 0
    have "hash_of ` set es \<inter> {hash_of e} = {}" using Cons.prems(1) by auto
    from index_keep [OF this] 0 Cons.prems(2) show ?thesis by simp
  next
    case (Suc j)
    with Cons.IH [of j "Suc k"] Cons.prems show ?thesis by (simp del: fun_upd_apply)
  qed
qed

section \<open>The index is never stale\<close>

text \<open>A filled index holds what some prefix of the log held, with that prefix's head.\<close>

definition server_ok :: "env \<Rightarrow> server \<Rightarrow> dict list \<Rightarrow> bool" where
  "server_ok E s es =
     (identity_ok E (srv_identity s) \<and> log_ok E (id_network (srv_identity s)) (srv_file s) es \<and>
      cache_ok E (srv_file s) (srv_log s) \<and>
      (\<forall>cached. ec_entries (srv_cache s) = Some cached \<longrightarrow>
         (\<exists>us. es = cached @ us) \<and> ec_head (srv_cache s) = chain_head cached \<and>
         ec_by_hash (srv_cache s) = index_entries 0 cached Map.empty))"

lemma server_okD:
  assumes "server_ok E s es"
  shows "log_state_ok E (id_network (srv_identity s)) (srv_file s) (srv_log s) es"
  using assms by (simp add: server_ok_def log_ok_def log_state_ok_def)

lemma prefix_verified:
  "verify_entries E network 0 genesis (xs @ us) = [] \<Longrightarrow> verify_entries E network 0 genesis xs = []"
  by (simp add: verify_entries_append)

lemma same_head_same_prefix:
  assumes "log_ok E network f es" and "es = xs @ us" and "es = ys @ vs" and "chain_head xs = chain_head ys"
  shows "xs = ys"
proof -
  note ok = log_okD [OF assms(1)]
  have "verify_entries E network 0 genesis xs = []" "verify_entries E network 0 genesis ys = []"
    using prefix_verified [OF ok(2) [unfolded assms(2)]] prefix_verified [OF ok(2) [unfolded assms(3)]] .
  from this [THEN verified_chain_end] assms(4)
  have "chain_end (entry_hash E) genesis xs = chain_end (entry_hash E) genesis ys" by simp
  from signed_chain.prefix_end_length [OF ok(4,3,5) assms(2,3) this [unfolded genesis_def]]
  have "length xs = length ys" .
  moreover have "xs @ us = ys @ vs" using assms(2,3) by simp
  ultimately show ?thesis by simp
qed

lemma ensure_cache:
  assumes "server_ok E s es"
  obtains c s' where "ensure_entries_cache E s = Inr (c, s')" "ec_entries c = Some es"
    "ec_head c = chain_head es" "ec_by_hash c = index_entries 0 es Map.empty" "server_ok E s' es"
    "srv_file s' = srv_file s" "srv_identity s' = srv_identity s" "srv_peers s' = srv_peers s"
proof -
  have ok: "log_ok E (id_network (srv_identity s)) (srv_file s) es" "cache_ok E (srv_file s) (srv_log s)"
    using assms by (simp_all add: server_ok_def)
  have base: "base_latest_hash E (srv_file s) = Inr (chain_head es)"
    by (rule base_latest_hash_verified [OF log_okD(1,2) [OF ok(1)]])
  obtain inst where lat: "latest_hash E (srv_file s) (srv_log s) = Inr (chain_head es, inst)"
    "cache_ok E (srv_file s) inst"
    using latest_hash_total [OF ok(2) base] by auto
  show thesis
  proof (cases "ec_head (srv_cache s) = chain_head es \<and> ec_entries (srv_cache s) \<noteq> None")
    case True
    then obtain cached us where c: "ec_entries (srv_cache s) = Some cached" "es = cached @ us"
      "chain_head cached = chain_head es" "ec_by_hash (srv_cache s) = index_entries 0 cached Map.empty"
      using assms by (auto simp: server_ok_def)
    have "cached = es" by (rule same_head_same_prefix [OF ok(1) c(2) _ c(3), of "[]"]) simp
    with c(1,4) have c': "ec_entries (srv_cache s) = Some es"
      "ec_by_hash (srv_cache s) = index_entries 0 es Map.empty" by simp_all
    have "ensure_entries_cache E s = Inr (srv_cache s, s\<lparr>srv_log := inst\<rparr>)"
      using True lat(1) by (simp add: ensure_entries_cache_def)
    moreover have "server_ok E (s\<lparr>srv_log := inst\<rparr>) es" using assms lat(2) by (simp add: server_ok_def)
    ultimately show thesis using that c' True by simp
  next
    case False
    let ?c = "\<lparr>ec_head = chain_head es, ec_entries = Some es, ec_by_hash = index_entries 0 es Map.empty\<rparr>"
    have a: "ensure_entries_cache E s = Inr (?c, s\<lparr>srv_log := inst, srv_cache := ?c\<rparr>)"
      using False lat version2_all [OF ok(1)] by (auto simp: ensure_entries_cache_def Let_def)
    have b: "server_ok E (s\<lparr>srv_log := inst, srv_cache := ?c\<rparr>) es"
      using assms lat(2) by (simp add: server_ok_def)
    show thesis by (rule that [OF a _ _ _ b]) simp_all
  qed
qed

section \<open>The sync routes answer from the log\<close>

lemma get_head_reply:
  assumes "server_ok E s es"
  shows "\<exists>s'. get_head E s = Inr (json_response 200 (JObj [(''head_hash'', chain_head es)]), s') \<and> server_ok E s' es"
proof -
  have ok: "log_ok E (id_network (srv_identity s)) (srv_file s) es" "cache_ok E (srv_file s) (srv_log s)"
    using assms by (simp_all add: server_ok_def)
  obtain inst where lat: "latest_hash E (srv_file s) (srv_log s) = Inr (chain_head es, inst)"
    "cache_ok E (srv_file s) inst"
    using latest_hash_total [OF ok(2) base_latest_hash_verified [OF log_okD(1,2) [OF ok(1)]]] by auto
  moreover have "server_ok E (s\<lparr>srv_log := inst\<rparr>) es" using assms lat(2) by (simp add: server_ok_def)
  ultimately show ?thesis by (simp add: get_head_def)
qed

definition entries_reply :: "dict list \<Rightarrow> dict list \<Rightarrow> response" where
  "entries_reply es sliced =
     json_response 200 (JObj [(''entries'', JList (map JObj sliced)), (''head_hash'', chain_head es)])"

lemma get_entries_start:
  assumes "server_ok E s es" and "0 \<le> limit" and "since = None \<or> since = Some ''GENESIS''"
  shows "\<exists>s'. get_entries E s since limit = Inr (entries_reply es (take (nat (min limit 1000)) es), s') \<and> server_ok E s' es"
proof -
  obtain c s' where c: "ensure_entries_cache E s = Inr (c, s')" "ec_entries c = Some es"
    "ec_head c = chain_head es" "server_ok E s' es"
    using ensure_cache [OF assms(1)] by metis
  with assms(2,3) show ?thesis by (auto simp: get_entries_def entries_reply_def Let_def)
qed

lemma get_entries_after:
  assumes "server_ok E s es" and "0 \<le> limit" and "i < length es"
  shows "\<exists>s'. get_entries E s (Some (hash_of (es ! i))) limit =
      Inr (entries_reply es (take (nat (min limit 1000)) (drop (Suc i) es)), s') \<and> server_ok E s' es"
proof -
  obtain c s' where c: "ensure_entries_cache E s = Inr (c, s')" "ec_entries c = Some es"
    "ec_head c = chain_head es" "ec_by_hash c = index_entries 0 es Map.empty" "server_ok E s' es"
    using ensure_cache [OF assms(1)] by metis
  have log: "log_ok E (id_network (srv_identity s)) (srv_file s) es" using assms(1) by (simp add: server_ok_def)
  have "hash_of (es ! i) \<noteq> ''GENESIS''" using log_hashes(3) [OF log nth_mem [OF assms(3)]] by simp
  moreover have "ec_by_hash c (hash_of (es ! i)) = Some i"
    using index_at [OF log_hashes(2) [OF log] _ assms(3), of 0] log_hashes(3) [OF log] c(4) by simp
  ultimately show ?thesis using c assms(2) by (auto simp: get_entries_def entries_reply_def Let_def)
qed

lemma get_entries_unknown:
  assumes "server_ok E s es" and "0 \<le> limit" and "h \<noteq> ''GENESIS''" and "h \<notin> hash_of ` set es"
  shows "\<exists>s'. get_entries E s (Some h) limit = Inr (empty_response 404, s') \<and> server_ok E s' es"
proof -
  obtain c s' where c: "ensure_entries_cache E s = Inr (c, s')"
    "ec_by_hash c = index_entries 0 es Map.empty" "server_ok E s' es"
    using ensure_cache [OF assms(1)] by metis
  have "ec_by_hash c h = None" using index_keep [of es h 0 Map.empty] assms(4) c(2) by simp
  with c assms(2,3) show ?thesis by (auto simp: get_entries_def Let_def)
qed

definition sample_server :: server where
  "sample_server = \<lparr>srv_identity = sample_identity, srv_file = sample_log, srv_log = sample_inst,
     srv_peers = open_peer_log [] (id_network sample_identity) (Some (id_hash sample_identity)),
     srv_cache = \<lparr>ec_head = JNull, ec_entries = None, ec_by_hash = Map.empty\<rparr>\<rparr>"

lemma sample_server_ok [simp]: "server_ok sample_env sample_server [sample_entry]"
  using sample_log_state
  by (simp add: server_ok_def sample_server_def log_ok_def log_state_ok_def)

section \<open>Properties\<close>

text \<open>
  C9: Whatever the index held, \<open>GET /entries\<close> answers from the current log: from the start
  with no cursor, strictly after the cursor's entry when it is in the log, 404 when it is
  not, at most \<open>min limit 1000\<close> entries, with the current head.
\<close>

theorem get_entries_answers_from_log:
  assumes "server_ok E s es" and "0 \<le> limit"
  shows "\<exists>r s'. get_entries E s since limit = Inr (r, s') \<and> server_ok E s' es \<and>
    (since = None \<or> since = Some ''GENESIS'' \<longrightarrow> r = entries_reply es (take (nat (min limit 1000)) es)) \<and>
    (\<forall>i < length es. since = Some (hash_of (es ! i)) \<longrightarrow>
       r = entries_reply es (take (nat (min limit 1000)) (drop (Suc i) es))) \<and>
    (\<forall>h. since = Some h \<and> h \<noteq> ''GENESIS'' \<and> h \<notin> hash_of ` set es \<longrightarrow> r = empty_response 404)"
proof -
  note log = server_ok_def [THEN iffD1, OF assms(1), THEN conjunct2, THEN conjunct1]
  have gen: "hash_of (es ! i) \<noteq> ''GENESIS''" if "i < length es" for i
    using log_hashes(3) [OF log nth_mem [OF that]] by simp
  have inj: "i = j" if "i < length es" "j < length es" "hash_of (es ! i) = hash_of (es ! j)" for i j
    using nth_eq_iff_index_eq [OF log_hashes(2) [OF log], of i j] that by simp
  consider (start) "since = None \<or> since = Some ''GENESIS''"
    | (after) i where "i < length es" "since = Some (hash_of (es ! i))"
    | (unknown) h where "since = Some h" "h \<noteq> ''GENESIS''" "h \<notin> hash_of ` set es"
    by (cases since) (auto simp: image_iff, metis in_set_conv_nth)
  then show ?thesis
  proof cases
    case start
    with get_entries_start [OF assms start] gen show ?thesis by fastforce
  next
    case after
    from get_entries_after [OF assms after(1)] obtain s' where
      "get_entries E s since limit = Inr (entries_reply es (take (nat (min limit 1000)) (drop (Suc i) es)), s')"
      "server_ok E s' es" using after(2) by auto
    moreover have "hash_of (es ! i) \<in> hash_of ` set es" using after(1) by simp
    moreover have "take m (drop (Suc i) es) = take m (drop (Suc j) es)" if "j < length es" "since = Some (hash_of (es ! j))" for j m
      using inj [OF after(1) that(1)] that(2) after(2) by simp
    moreover have "since \<noteq> None" "since \<noteq> Some ''GENESIS''" using after(2) gen [OF after(1)] by auto
    ultimately show ?thesis using after(2)
      by (rule_tac exI [where x = "entries_reply es (take (nat (min limit 1000)) (drop (Suc i) es))"],
          rule_tac exI [where x = s']) auto
  next
    case unknown
    from get_entries_unknown [OF assms unknown(2,3)] obtain s' where
      "get_entries E s since limit = Inr (empty_response 404, s')" "server_ok E s' es" using unknown(1) by auto
    with unknown show ?thesis by fastforce
  qed
qed

lemma get_entries_answers_from_log_witness:
  "\<exists>r s'. get_entries sample_env sample_server (Some ''ff'') 5 = Inr (r, s') \<and> server_ok sample_env s' [sample_entry] \<and>
    (Some ''ff'' = None \<or> Some ''ff'' = Some ''GENESIS'' \<longrightarrow> r = entries_reply [sample_entry] (take (nat (min 5 1000)) [sample_entry])) \<and>
    (\<forall>i < length [sample_entry]. Some ''ff'' = Some (hash_of ([sample_entry] ! i)) \<longrightarrow>
       r = entries_reply [sample_entry] (take (nat (min 5 1000)) (drop (Suc i) [sample_entry]))) \<and>
    (\<forall>h. Some ''ff'' = Some h \<and> h \<noteq> ''GENESIS'' \<and> h \<notin> hash_of ` set [sample_entry] \<longrightarrow> r = empty_response 404)"
  by (rule get_entries_answers_from_log [OF sample_server_ok]) simp

text \<open>The validated body and the entry it becomes.\<close>

lemma resolve_severity_bounds:
  assumes "\<And>n. sev = Some n \<Longrightarrow> 0 \<le> n \<and> n \<le> 10"
  shows "0 \<le> resolve_severity action sev \<and> resolve_severity action sev \<le> 10"
proof (cases sev)
  case None
  have "\<forall>p \<in> set default_severity_weights. 0 \<le> snd p \<and> snd p \<le> 10"
    by (simp add: default_severity_weights_def)
  with None show ?thesis
    by (auto simp: resolve_severity_def default_severity_fallback_def split: option.splits
        dest!: map_of_SomeD bspec)
next
  case (Some n)
  with assms show ?thesis by (simp add: resolve_severity_def)
qed

lemma validate_logD:
  assumes "validate_log_request lax v = Some rq"
  shows "jget (as_dict v) ''details'' = JObj (rq_details rq)"
    "request_severity lax (as_dict v) = Some (rq_severity rq)"
    "request_evidence (as_dict v) = Some (rq_evidence rq)"
  using assms
  by (auto simp: validate_log_request_def bind_eq_Some_conv Let_def split: json.splits if_splits)

lemma validate_log_severity:
  assumes "validate_log_request lax v = Some rq" and "rq_severity rq = Some n"
  shows "0 \<le> n \<and> n \<le> 10"
  using validate_logD(2) [OF assms(1)] assms(2)
  by (auto simp: request_severity_def split: json.splits option.splits if_splits)

lemma get_wf:
  assumes "wf_dict fr b" and "jget b k = w"
  shows "wf_json fr w"
  using wf_get [OF assms(1), of k] assms(2) by simp

lemma validate_log_wf:
  assumes "validate_log_request lax v = Some rq" and "wf_json fr v"
  shows "wf_dict fr (rq_details rq)" "wf_dict fr (rq_evidence rq)"
proof -
  have b: "wf_dict fr (as_dict v)" using assms(2) by (cases v) simp_all
  from get_wf [OF this validate_logD(1) [OF assms(1)]] show "wf_dict fr (rq_details rq)" .
  have "rq_evidence rq = [] \<or> jget (as_dict v) ''evidence'' = JObj (rq_evidence rq)"
    using validate_logD(3) [OF assms(1)]
    by (auto simp: request_evidence_def get_or_def split: option.splits json.splits)
  with get_wf [OF b, of "''evidence''" "JObj (rq_evidence rq)"] show "wf_dict fr (rq_evidence rq)" by auto
qed

lemma build_entry_get:
  "jget (build_entry E I ts (JStr p) (id_hash I) sub act details sev evid) ''severity'' = JInt sev"
  "jget (build_entry E I ts (JStr p) (id_hash I) sub act details sev evid) ''reporter_id'' = JStr (id_hash I)"
  using seal_get_other [OF payload_unsealed(1), of "''severity''"] seal_get_other [OF payload_unsealed(1), of "''reporter_id''"]
  by (simp_all add: build_entry_fields) (simp_all add: payload_fields_def get_or_def Let_def)

text \<open>
  C10: \<open>POST /log\<close> on a coherent server: an invalid body gets 400 and changes nothing; a valid
  one is appended, signed by the server, with a severity between 0 and 10, the log stays
  verified, the reply is the new entry's hash, and \<open>/head\<close> announces it.
\<close>

theorem post_log_appends:
  assumes "server_ok E s es" and "wf_json (float_repr E) v"
  shows "case validate_log_request lax v of
      None \<Rightarrow> post_log E lax s now ts v = (validation_response, s)
    | Some rq \<Rightarrow> \<exists>e s'.
        post_log E lax s now ts v = (json_response 200 (JObj [(''entry_hash'', JStr (hash_of e))]), s') \<and>
        log_state_ok E (id_network (srv_identity s)) (srv_file s') (srv_log s') (es @ [e]) \<and>
        jget e ''reporter_id'' = JStr (id_hash (srv_identity s)) \<and>
        (\<exists>n. jget e ''severity'' = JInt n \<and> 0 \<le> n \<and> n \<le> 10) \<and>
        (\<exists>s''. get_head E s' = Inr (json_response 200 (JObj [(''head_hash'', JStr (hash_of e))]), s''))"
proof (cases "validate_log_request lax v")
  case None
  then show ?thesis by (simp add: post_log_def)
next
  case (Some rq)
  let ?I = "srv_identity s"
  let ?sub = "case rq_subject rq of Some sub \<Rightarrow> sub | None \<Rightarrow> id_hash ?I"
  let ?sev = "resolve_severity (rq_action rq) (rq_severity rq)"
  have idok: "identity_ok E ?I" using assms(1) by (simp add: server_ok_def)
  note st = server_okD [OF assms(1)]
  have wf: "wf_dict (float_repr E) (rq_details rq)" "evidence_wf E (Some (rq_evidence rq))"
    using validate_log_wf [OF Some assms(2)] by (simp_all add: evidence_wf_def)
  obtain p inst1 where head: "latest_hash E (srv_file s) (srv_log s) = Inr (JStr p, inst1)" "chain_head es = JStr p"
    using log_state_head [OF st] .
  define e where "e = build_entry E ?I ts (JStr p) (id_hash ?I) ?sub (rq_action rq) (rq_details rq) ?sev (Some (rq_evidence rq))"
  obtain f' inst' where per: "persist (srv_file s) inst1 now e = (f', inst')"
    by (cases "persist (srv_file s) inst1 now e")
  note chk = self_entry_checks [OF idok wf e_def]
  note fin = persist_state_ok [OF st head(2) chk(1,2) chk(3) per]
  have h: "jget e ''entry_hash'' = JStr (hash_of e)"
    using check_entry_head [OF chk(3)] by (simp add: hash_of_def)
  have "append_event E ?I (srv_file s) (srv_log s) now ts (id_hash ?I) ?sub (rq_action rq) (rq_details rq) ?sev
      (Some (rq_evidence rq)) = Inr (e, f', inst')"
    by (simp add: append_event_def head e_def [symmetric] per)
  then have post: "post_log E lax s now ts v =
      (json_response 200 (JObj [(''entry_hash'', JStr (hash_of e))]), s\<lparr>srv_file := f', srv_log := inst'\<rparr>)"
    by (simp add: post_log_def Some Let_def h del: option.case_eq_if)
  have "0 \<le> ?sev \<and> ?sev \<le> 10" by (rule resolve_severity_bounds) (rule validate_log_severity [OF Some])
  moreover have "jget e ''severity'' = JInt ?sev" "jget e ''reporter_id'' = JStr (id_hash ?I)"
    unfolding e_def by (rule build_entry_get)+
  moreover have "get_head E (s\<lparr>srv_file := f', srv_log := inst'\<rparr>) =
      Inr (json_response 200 (JObj [(''head_hash'', JStr (hash_of e))]), s\<lparr>srv_file := f', srv_log := inst'\<rparr>)"
    using fin(2) h by (simp add: get_head_def)
  ultimately show ?thesis using post fin(1) Some by auto
qed

definition sample_request :: json where
  "sample_request = JObj [(''action'', JStr ''donation''), (''details'', JObj [])]"

lemma post_log_appends_witness:
  "case validate_log_request (\<lambda>_. None) sample_request of
      None \<Rightarrow> False
    | Some rq \<Rightarrow> \<exists>e s'.
        post_log sample_env (\<lambda>_. None) sample_server 3 ''t'' sample_request
          = (json_response 200 (JObj [(''entry_hash'', JStr (hash_of e))]), s') \<and>
        log_state_ok sample_env (id_network (srv_identity sample_server)) (srv_file s') (srv_log s') ([sample_entry] @ [e]) \<and>
        jget e ''reporter_id'' = JStr (id_hash (srv_identity sample_server)) \<and>
        (\<exists>n. jget e ''severity'' = JInt n \<and> 0 \<le> n \<and> n \<le> 10) \<and>
        (\<exists>s''. get_head sample_env s' = Inr (json_response 200 (JObj [(''head_hash'', JStr (hash_of e))]), s''))"
proof -
  have "validate_log_request (\<lambda>_. None) sample_request =
      Some \<lparr>rq_action = ''donation'', rq_details = [], rq_subject = None, rq_severity = None, rq_evidence = []\<rparr>"
    by (simp add: validate_log_request_def sample_request_def request_subject_def request_severity_def
        request_evidence_def get_or_def)
  moreover have "wf_json (float_repr sample_env) sample_request" by (simp add: sample_request_def)
  ultimately show ?thesis
    using post_log_appends [OF sample_server_ok, of sample_request "\<lambda>_. None" 3 "''t''"]
    by (simp del: wf_json.simps)
qed

text \<open>
  \<open>POST /entries\<close>: the reply is 400 for a malformed body or a refused entry, and then no
  stored entry changes; otherwise it is 200 and the cache holds the entry under its
  reporter.  The server never caches an entry of its own identity.
\<close>

lemma post_entries_replies:
  assumes "peer_inv E (srv_peers s)" and "wf_json (float_repr E) v"
    and "post_entries E lax s v = (r, s')"
  shows "peer_inv E (srv_peers s') \<and> srv_file s' = srv_file s \<and>
    (status r = 400 \<and> read_entries_for E (srv_peers s') = read_entries_for E (srv_peers s) \<or>
     status r = 200 \<and> (\<exists>e. validate_peer_entry lax v = Some e \<and>
       own_id (srv_peers s) \<noteq> Some (source_of e) \<and>
       hash_of e \<in> hash_of ` set (read_entries_for E (srv_peers s') (source_of e))))"
proof (cases "validate_peer_entry lax v")
  case None
  with assms show ?thesis by (auto simp: post_entries_def validation_response_def json_response_def)
next
  case (Some e)
  let ?p = "srv_peers s"
  have wf: "wf_json (float_repr E) (JObj e)"
  proof -
    obtain b where b: "v = JObj b" using Some by (cases v) (simp_all add: validate_peer_entry_def)
    obtain n kind where e: "e = (''version'', JInt n) # (''kind'', JStr kind) # AList.delete ''version'' (AList.delete ''kind'' b)"
      using Some by (auto simp: b validate_peer_entry_def split: option.splits json.splits)
    have "wf_dict (float_repr E) (AList.delete ''version'' (AList.delete ''kind'' b))"
      using assms(2) unfolding b by (intro wf_dict_delete)
    moreover have "''version'' \<notin> set (map fst (AList.delete ''version'' (AList.delete ''kind'' b)))"
      "''kind'' \<notin> set (map fst (AList.delete ''version'' (AList.delete ''kind'' b)))"
      by (simp_all only: delete_keys set_removeAll) simp_all
    ultimately show ?thesis by (simp add: e)
  qed
  obtain vd M' where spec: "accept_spec E (peer_network ?p) (own_id ?p) (read_entries_for E ?p) (JObj e) = (vd, M')"
    by (metis surj_pair)
  obtain p' where acc: "accept_entry E ?p (JObj e) = Inr (vd, p')" "peer_inv E p'" "read_entries_for E p' = M'"
    using accept_entry_inv [OF assms(1) wf spec] by metis
  obtain st src errs du where vd: "vd = (st, src, errs, du)" by (metis prod_cases4)
  show ?thesis
  proof (cases "errs = []")
    case False
    with accept_spec_cases [OF spec [unfolded vd]] acc assms(3) Some vd show ?thesis
      by (auto simp: post_entries_def json_response_def)
  next
    case True
    have "own_id ?p \<noteq> Some (source_of e)"
    proof
      assume own: "own_id ?p = Some (source_of e)"
      show False
        using spec vd True own foreign_errors [of E "JObj e" "peer_network ?p"]
          foreign_fields [of E "JObj e" "peer_network ?p"]
        by (cases "verify_foreign_entry E (JObj e) (peer_network ?p)")
          (auto simp: accept_spec_def Let_def split: if_splits)
    qed
    with True accept_spec_cases [OF spec [unfolded vd]] acc assms(3) Some vd show ?thesis
      by (auto simp: post_entries_def json_response_def)
  qed
qed

lemma post_entries_replies_witness:
  "\<exists>r s'. post_entries sample_env (\<lambda>v. case v of JInt n \<Rightarrow> Some n | _ \<Rightarrow> None) sample_server (JObj sample_entry) = (r, s') \<and>
    peer_inv sample_env (srv_peers s') \<and> srv_file s' = srv_file sample_server \<and>
    (status r = 400 \<and> read_entries_for sample_env (srv_peers s') = read_entries_for sample_env (srv_peers sample_server) \<or>
     status r = 200 \<and> (\<exists>e. validate_peer_entry (\<lambda>v. case v of JInt n \<Rightarrow> Some n | _ \<Rightarrow> None) (JObj sample_entry) = Some e \<and>
       own_id (srv_peers sample_server) \<noteq> Some (source_of e) \<and>
       hash_of e \<in> hash_of ` set (read_entries_for sample_env (srv_peers s') (source_of e))))"
proof -
  have "peer_inv sample_env (srv_peers sample_server)" by (simp add: sample_server_def)
  then show ?thesis
    by (rule_tac exI, rule_tac exI, rule_tac conjI [OF surjective_pairing])
      (rule post_entries_replies [OF _ sample_entry_wf surjective_pairing])
qed

end
