(* ===== verification/Pull_Loop_Spec.thy ===== *)
theory Pull_Loop_Spec
  imports Pull_Loop Server_Spec
begin

text \<open>
  Replication end to end: the server model satisfies the transport's contract, the peer
  cache satisfies the store's, so pulling from a server with a verified log copies it; and
  what one pull and the driver do with refused entries, failures and backoff.
\<close>

section \<open>The server over HTTP is an honest peer\<close>

definition wire :: "(response \<times> server) res \<Rightarrow> response res" where
  "wire r = (case r of Inl _ \<Rightarrow> Inr (empty_response 500) | Inr (resp, s') \<Rightarrow> Inr resp)"

definition server_head :: "env \<Rightarrow> server \<Rightarrow> json res" where
  "server_head E s = http_get_head (wire (get_head E s))"

definition server_since :: "env \<Rightarrow> server \<Rightarrow> json \<Rightarrow> int \<Rightarrow> json res" where
  "server_since E s v limit = (case v of
     JStr h \<Rightarrow> http_get_entries_since limit (wire (get_entries E s (Some h) limit))
   | _ \<Rightarrow> Inl TypeError)"

lemma nat_min_1000: "nat (min n 1000) = min (nat n) 1000"
  by (cases "n \<le> 1000") (simp_all add: min_def nat_le_iff)

lemma http_entries_reply:
  assumes "length sliced \<le> nat n"
  shows "serves (http_get_entries_since n (wire (Inr (entries_reply es sliced, s')))) sliced"
proof -
  have "\<not> max n 1 * 10 < int (length sliced)" using assms by (cases "n \<le> 0") (auto simp: max_def)
  then show ?thesis
    by (simp add: serves_def http_get_entries_since_def wire_def entries_reply_def json_response_def
        raise_for_status_def response_json_def py_iter_def get_or_def)
qed

lemma log_head_of:
  assumes "log_ok E network f es"
  shows "chain_head es = JStr (head_of es)"
proof (cases "es = []")
  case False
  have "hash_of (last es) = entry_hash E (last es)"
    using log_hashes(1) [OF assms] False by (simp add: map_eq_conv)
  with verified_chain_end [OF log_okD(2) [OF assms]] False show ?thesis by (simp add: chain_end_def head_of_def)
qed (simp add: head_of_def chain_head_def genesis_def)

lemma server_log: "server_ok E s es \<Longrightarrow> log_ok E (id_network (srv_identity s)) (srv_file s) es"
  by (simp add: server_ok_def)

interpretation server_chain: peer_chain "server_head E" "server_since E" "server_ok E" 1000 for E :: env
proof unfold_locales
  fix s es
  assume s: "server_ok E s es"
  from get_head_reply [OF s] log_head_of [OF server_log [OF s]]
  show "server_head E s = Inr (JStr (head_of es))"
    by (auto simp: server_head_def http_get_head_def wire_def json_response_def raise_for_status_def
        response_json_def index_field_def)
next
  fix s es and n :: int
  assume s: "server_ok E s es" and n: "0 \<le> n"
  obtain s' where "get_entries E s (Some ''GENESIS'') n = Inr (entries_reply es (take (nat (min n 1000)) es), s')"
    using get_entries_start [OF s n, of "Some ''GENESIS''"] by auto
  moreover have "nat (min n 1000) = min (nat n) 1000" by (rule nat_min_1000)
  ultimately show "serves (server_since E s (JStr ''GENESIS'') n) (take (min (nat n) 1000) es)"
    using http_entries_reply [of "take (min (nat n) 1000) es" n] by (simp add: server_since_def)
next
  fix s es i and n :: int
  assume s: "server_ok E s es" and n: "0 \<le> n" and i: "i < length es"
  obtain s' where "get_entries E s (Some (hash_of (es ! i))) n =
      Inr (entries_reply es (take (nat (min n 1000)) (drop (Suc i) es)), s')"
    using get_entries_after [OF s n i] by auto
  moreover have "nat (min n 1000) = min (nat n) 1000" by (rule nat_min_1000)
  ultimately show "serves (server_since E s (JStr (hash_of (es ! i))) n) (take (min (nat n) 1000) (drop (Suc i) es))"
    using http_entries_reply [of "take (min (nat n) 1000) (drop (Suc i) es)" n] by (simp add: server_since_def)
next
  fix s es e
  assume s: "server_ok E s es" and "e \<in> set es"
  then show "jget e ''entry_hash'' = JStr (hash_of e) \<and> hash_of e \<noteq> ''GENESIS'' \<and> hash_of e \<noteq> []"
    using log_hashes(3) [OF server_log [OF s]] by blast
next
  fix s es
  assume "server_ok E s es"
  then show "distinct (map hash_of es)" using log_hashes(2) server_log by blast
qed simp

section \<open>The peer cache accepts what verifies\<close>

definition peer_willing :: "env \<Rightarrow> peer_log \<Rightarrow> dict \<Rightarrow> bool" where
  "peer_willing E p e =
     (wf_dict (float_repr E) e \<and> verify_foreign_entry E (JObj e) (peer_network p) = (True, []) \<and>
      own_id p \<noteq> Some (source_of e))"

lemma accept_entry_same:
  assumes "peer_inv E p" and "wf_json (float_repr E) v" and "accept_entry E p v = Inr (r, p')"
  shows "peer_network p' = peer_network p" "own_id p' = own_id p"
proof -
  obtain r' M' where "accept_spec E (peer_network p) (own_id p) (read_entries_for E p) v = (r', M')"
    by (metis surj_pair)
  from accept_entry_inv [OF assms(1,2) this] assms(3)
  show "peer_network p' = peer_network p" "own_id p' = own_id p" by (metis Inr_inject prod.inject)+
qed

interpretation sync: replication "server_head E" "server_since E" "server_ok E" 1000
  "accept_entry E" "peer_inv E" "read_entries_for E" "wf_json (float_repr E)" "peer_willing E" for E :: env
proof unfold_locales
  fix p e
  assume "peer_willing E p e"
  then show "wf_json (float_repr E) (JObj e)" by (simp add: peer_willing_def)
next
  fix p e st sr errs du p'
  assume inv: "peer_inv E p" and w: "peer_willing E p e" and acc: "accept_entry E p (JObj e) = Inr ((st, sr, errs, du), p')"
  have ver: "verify_foreign_entry E (JObj e) (peer_network p) = (True, [])" and wf: "wf_json (float_repr E) (JObj e)"
    using w by (simp_all add: peer_willing_def)
  from ver obtain s where src: "jget e ''reporter_id'' = JStr s" "source_of e = s"
    using foreign_fields [of E "JObj e" "peer_network p"] by (metis fst_conv json.inject(6))
  obtain r M' where spec: "accept_spec E (peer_network p) (own_id p) (read_entries_for E p) (JObj e) = (r, M')"
    by (metis surj_pair)
  then have "fst (snd (snd r)) = []"
    using ver src w by (auto simp: accept_spec_def peer_willing_def Let_def split: if_splits)
  with accept_entry_inv [OF inv wf spec] acc show "errs = []" by (metis Inr_inject fst_conv prod.inject snd_conv)
next
  fix p e v r p'
  assume "peer_inv E p" "peer_willing E p e" "wf_json (float_repr E) v" "accept_entry E p v = Inr (r, p')"
  then show "peer_willing E p' e" using accept_entry_same by (simp add: peer_willing_def)
qed

section \<open>Properties\<close>

text \<open>
  C6: Replication is live and exact.  A receiver that starts with an empty cache and pulls
  from a server with a verified log, in batches of any positive size, holds after enough
  cycles exactly the server's entries, by source and in order, and its cursor is the
  server's head.
\<close>

theorem replication_completes:
  assumes "server_ok E s es" and "\<forall>e \<in> set es. own \<noteq> Some (source_of e)" and "0 < b"
    and "\<forall>c \<in> set cs. tr_head (cy_transport c) url = server_head E s \<and>
      tr_entries_since (cy_transport c) url = server_since E s \<and> 0 \<le> cy_now c"
    and "length es \<le> length cs * min (nat b) 1000"
    and "st = run_pull_loop (accept_entry E) [url] interval b cs
      (start_pull_state (open_peer_log [] (id_network (srv_identity s)) own) Map.empty)"
  shows "read_entries_for E (ps_store st) = by_source es \<and>
    (es \<noteq> [] \<longrightarrow> ps_cursor st url = Some (chain_head es))"
proof -
  let ?p0 = "open_peer_log [] (id_network (srv_identity s)) own"
  note log = server_log [OF assms(1)]
  have "peer_willing E ?p0 e" if e: "e \<in> set es" for e
  proof -
    have "verify_foreign_entry E (JObj e) (id_network (srv_identity s)) = (True, [])"
      using verified_entry_foreign [OF log_okD(2) [OF log, unfolded genesis_def] e] .
    moreover have "wf_dict (float_repr E) e" using log_okD(1) [OF log] e unfolding file_holds_def by blast
    ultimately show ?thesis using assms(2) e by (simp add: peer_willing_def open_peer_log_def)
  qed
  then have "sync.synced E s es url 0 (start_pull_state ?p0 Map.empty)"
    by (simp add: sync.synced_def start_pull_state_def by_source_def)
  from sync.replicates [OF assms(4,1) this _ assms(3), of interval] assms(5,6)
  have "sync.synced E s es url (length es) st" by (simp add: min_def split: if_splits)
  then show ?thesis using log_head_of [OF log] by (auto simp: sync.synced_def)
qed

lemma replication_completes_witness:
  "\<exists>st :: peer_log pull_state. read_entries_for sample_env (ps_store st) = by_source [sample_entry] \<and>
    ([sample_entry] \<noteq> [] \<longrightarrow> ps_cursor st ''u'' = Some (chain_head [sample_entry]))"
  by (rule exI, rule replication_completes [OF sample_server_ok _ _ _ _ refl, where own = None and b = 1
        and cs = "[\<lparr>cy_transport = \<lparr>tr_head = \<lambda>_. server_head sample_env sample_server,
           tr_entries_since = \<lambda>_. server_since sample_env sample_server\<rparr>, cy_now = 0, cy_fail_time = \<lambda>_. 0\<rparr>]"])
    simp_all

section \<open>Refused entries\<close>

definition accepted :: "verdict \<Rightarrow> bool" where
  "accepted r = (case r of (stored, src, errs, dup) \<Rightarrow> stored \<or> errs = [])"

definition advance :: "json \<Rightarrow> json \<times> verdict \<Rightarrow> json" where
  "advance c vr = (case vr of (v, (stored, src, errs, dup)) \<Rightarrow>
     if stored \<or> dup then jget (as_dict v) ''entry_hash'' else c)"

text \<open>
  A pull processes a batch in order up to the first refused entry and no further: the
  cursor is the hash of the last entry that was stored or known, the count is the number
  stored, at most one rejection is reported, and nothing after it reaches the store.
\<close>

lemma reject_and_stop:
  assumes "pull_entries acc s vs c n = (Inr (c', n', rejs), s')"
  shows "\<exists>pre post rs s1. vs = pre @ post \<and> submit_all acc s pre = Inr (rs, s1) \<and>
    list_all accepted rs \<and> n' = n + length (filter fst rs) \<and> c' = foldl advance c (zip pre rs) \<and>
    (post = [] \<and> rejs = [] \<and> s' = s1 \<or>
     (\<exists>e post' r. post = JObj e # post' \<and> acc s1 (JObj e) = Inr (r, s') \<and> \<not> accepted r \<and> length rejs = 1))"
  using assms
proof (induction vs arbitrary: s c n)
  case Nil
  then show ?case by (auto intro!: exI [of _ "[]"])
next
  case (Cons v vs)
  then obtain r s1 where acc: "acc s v = Inr (r, s1)" by (cases "acc s v") auto
  obtain st sr er du where r: "r = (st, sr, er, du)" by (metis prod_cases4)
  show ?case
  proof (cases "accepted r")
    case False
    then have ref: "\<not> st" "er \<noteq> []" by (simp_all add: r accepted_def)
    with Cons.prems acc r obtain e where "v = JObj e" "length rejs = 1" "c' = c" "n' = n" "s' = s1"
      by (cases v) (auto simp: Let_def)
    with False acc show ?thesis
      by (rule_tac exI [where x = "[]"], rule_tac exI [where x = "v # vs"], rule_tac exI [where x = "[]"],
          rule_tac exI [where x = s]) (cases r, simp)
  next
    case True
    then have "st \<or> er = []" by (simp add: r accepted_def)
    with Cons.prems acc r
    have "pull_entries acc s1 vs (advance c (v, r)) (n + (if st then 1 else 0)) = (Inr (c', n', rejs), s')"
      by (auto simp: advance_def split: if_splits)
    from Cons.IH [OF this] obtain pre post rs s2 where ih: "vs = pre @ post" "submit_all acc s1 pre = Inr (rs, s2)"
      "list_all accepted rs" "n' = n + (if st then 1 else 0) + length (filter fst rs)"
      "c' = foldl advance (advance c (v, r)) (zip pre rs)"
      "post = [] \<and> rejs = [] \<and> s' = s2 \<or>
       (\<exists>e post' r. post = JObj e # post' \<and> acc s2 (JObj e) = Inr (r, s') \<and> \<not> accepted r \<and> length rejs = 1)"
      by blast
    have "submit_all acc s (v # pre) = Inr (r # rs, s2)" using acc ih(2) by simp
    moreover have "n' = n + length (filter fst (r # rs))" using ih(4) r by simp
    ultimately show ?thesis using ih True
      by (intro exI [of _ "v # pre"] exI [of _ post] exI [of _ "r # rs"] exI [of _ s2]) simp
  qed
qed

lemma reject_and_stop_witness:
  "\<exists>pre post rs s1. [JObj []] = pre @ post \<and> submit_all (accept_entry sample_env) sample_peer_log pre = Inr (rs, s1) \<and>
    list_all accepted rs \<and> 0 = 0 + length (filter fst rs) \<and> JNull = foldl advance JNull (zip pre rs) \<and>
    (post = [] \<and> [(JStr ''<missing>'', [Rejected (None, UnsupportedVersion JNull)])] = ([] :: rejection list) \<and> sample_peer_log = s1 \<or>
     (\<exists>e post' r. post = JObj e # post' \<and> accept_entry sample_env s1 (JObj e) = Inr (r, sample_peer_log) \<and>
        \<not> accepted r \<and> length [(JStr ''<missing>'', [Rejected (None, UnsupportedVersion JNull)])] = 1))"
proof (rule reject_and_stop)
  have "jget [] ''reporter_id'' = JNull" "jget [] ''version'' = JNull" "jget [] ''entry_hash'' = JNull"
    by (simp_all add: get_or_def)
  then show "pull_entries (accept_entry sample_env) sample_peer_log [JObj []] JNull 0 =
      (Inr (JNull, 0, [(JStr ''<missing>'', [Rejected (None, UnsupportedVersion JNull)])]), sample_peer_log)"
    by (simp add: accept_entry_def verify_foreign_entry_def sample_peer_log_def open_peer_log_def Let_def)
qed

text \<open>
  An entry in a batch that is not a JSON object is not handled as a rejection: reading
  its hash for the report raises, so the driver treats the peer as failed, keeps the old
  cursor and backs off, although the entries before it have been stored.
\<close>

lemma non_object_entry_raises:
  assumes "submit_all (accept_entry E) p pre = Inr (rs, p1)" and "list_all accepted rs"
    and "\<not> is_dict v" and "or_else (ps_next_attempt st url) 0 \<le> now" and "ps_store st = p"
    and "tr_head T url = Inr h" and "\<not> (py_eq h (or_else (ps_cursor st url) JNull) \<and> \<not> py_eq h (JStr ''GENESIS''))"
    and "\<And>since. tr_entries_since T url since b = Inr (JObj [(''entries'', JList (pre @ v # post))])"
  shows "ps_cursor (pull_peer (accept_entry E) T interval b now ft url st) = ps_cursor st \<and>
    ps_store (pull_peer (accept_entry E) T interval b now ft url st) = p1 \<and>
    ps_backoff (pull_peer (accept_entry E) T interval b now ft url st) url \<noteq> None"
proof -
  have last: "pull_entries (accept_entry E) q (v # post) c n = (Inl AttributeError, q)" for q c n
    using assms(3) by (cases v) (simp_all add: accept_entry_def verify_foreign_entry_def)
  have pull: "pull_entries (accept_entry E) q (vs @ v # post) c n = (Inl AttributeError, q1)"
    if "submit_all (accept_entry E) q vs = Inr (ws, q1)" "list_all accepted ws" for q q1 vs ws c n
    using that
  proof (induction vs arbitrary: q ws c n)
    case Nil
    with last show ?case by simp
  next
    case (Cons w vs)
    then obtain r q2 ws' where r: "accept_entry E q w = Inr (r, q2)" "submit_all (accept_entry E) q2 vs = Inr (ws', q1)"
      "ws = r # ws'" by (auto simp: bindr_Inr_iff)
    obtain st sr er du where q: "r = (st, sr, er, du)" by (metis prod_cases4)
    have "st \<or> er = []" "list_all accepted ws'" using Cons.prems(2) r(3) q by (simp_all, simp add: accepted_def)
    with Cons.IH [OF r(2)] r(1) q show ?case by auto
  qed
  have "pull_once (accept_entry E) T url p (or_else (ps_cursor st url) JNull) b = (Inl AttributeError, p1)"
    using pull [OF assms(1,2)] assms(6-8) by (auto simp: pull_once_def get_or_def py_iter_def Let_def)
  with assms(4,5) show ?thesis by (simp add: pull_peer_def Let_def)
qed

lemma non_object_entry_raises_witness:
  "\<exists>(T :: transport) (st :: peer_log pull_state) p1.
    ps_cursor (pull_peer (accept_entry sample_env) T 1 1 0 (\<lambda>_. 0) ''u'' st) = ps_cursor st \<and>
    ps_store (pull_peer (accept_entry sample_env) T 1 1 0 (\<lambda>_. 0) ''u'' st) = p1 \<and>
    ps_backoff (pull_peer (accept_entry sample_env) T 1 1 0 (\<lambda>_. 0) ''u'' st) ''u'' \<noteq> None"
  by (rule exI, rule exI, rule exI, rule non_object_entry_raises [where pre = "[]" and rs = "[]" and v = JNull and post = "[]"
        and h = "JStr ''GENESIS''" and p = sample_peer_log
        and st = "start_pull_state sample_peer_log Map.empty"
        and T = "\<lparr>tr_head = \<lambda>_. Inr (JStr ''GENESIS''), tr_entries_since = \<lambda>_ _ _. Inr (JObj [(''entries'', JList [JNull])])\<rparr>"])
    (simp_all add: start_pull_state_def or_else_def)

section \<open>Backoff\<close>

text \<open>
  One step of the driver for one peer: a failure after \<open>k\<close> failures in a row sets the
  delay to the doubled one, at most 60 seconds, counted from the clock after the failure,
  and keeps the cursor; a success clears the backoff and moves the cursor; a cooling peer is
  not contacted; other peers' bookkeeping is untouched in every case.
\<close>

lemma backoff_step:
  assumes "0 \<le> interval" and "ps_backoff st url = (if k = 0 then None else Some (min 60 (interval * 2 ^ k)))"
    and "st' = pull_peer acc T interval b now ft url st"
    and "res = pull_once acc T url (ps_store st) (or_else (ps_cursor st url) JNull) b"
  shows "(or_else (ps_next_attempt st url) 0 > now \<longrightarrow> st' = st) \<and>
    (or_else (ps_next_attempt st url) 0 \<le> now \<longrightarrow>
      (case fst res of
         Inl e \<Rightarrow> ps_backoff st' url = Some (min 60 (interval * 2 ^ (k + 1))) \<and>
           ps_next_attempt st' url = Some (ft url + min 60 (interval * 2 ^ (k + 1))) \<and>
           ps_cursor st' url = ps_cursor st url
       | Inr (new_last, appended, rejs) \<Rightarrow> ps_backoff st' url = None \<and> ps_next_attempt st' url = None \<and>
           ps_cursor st' url = Some new_last)) \<and>
    (\<forall>other. other \<noteq> url \<longrightarrow> ps_backoff st' other = ps_backoff st other \<and>
       ps_next_attempt st' other = ps_next_attempt st other \<and> ps_cursor st' other = ps_cursor st other)"
proof -
  have double: "min 60 (max interval (2 * or_else (ps_backoff st url) interval)) = min 60 (interval * 2 ^ (k + 1))"
  proof (cases "k = 0")
    case True
    with assms(1,2) show ?thesis by (simp add: or_else_def max_def mult.commute)
  next
    case False
    have pow: "interval \<le> interval * 2 ^ k" using assms(1) by (simp add: mult_le_cancel_left1)
    have "2 * min 60 (interval * 2 ^ k) = min 120 (interval * 2 ^ (k + 1))"
      by (simp add: min_def mult.assoc mult.left_commute)
    with False pow assms(1,2) show ?thesis by (auto simp: or_else_def min_def max_def)
  qed
  obtain r s' where res: "res = (r, s')" by (cases res)
  show ?thesis
    unfolding assms(3) pull_peer_def using double res assms(4)
    by (cases r) (auto simp: backoff_max_def Let_def mult.commute split: prod.splits)
qed

definition down_transport :: transport where
  "down_transport = \<lparr>tr_head = \<lambda>_. Inl OSError, tr_entries_since = \<lambda>_ _ _. Inl OSError\<rparr>"

lemma backoff_step_witness:
  "ps_backoff (pull_peer (accept_entry sample_env) down_transport 5 1 0 (\<lambda>_. 7) ''u''
      (start_pull_state sample_peer_log Map.empty)) ''u'' = Some 10 \<and>
   ps_next_attempt (pull_peer (accept_entry sample_env) down_transport 5 1 0 (\<lambda>_. 7) ''u''
      (start_pull_state sample_peer_log Map.empty)) ''u'' = Some 17"
  using backoff_step [of 5 "start_pull_state sample_peer_log Map.empty" "''u''" 0 _ "accept_entry sample_env"
      down_transport 1 0 "\<lambda>_. 7", OF _ _ refl refl]
  by (simp add: start_pull_state_def or_else_def pull_once_def down_transport_def)

end
