(* ===== verification/Manifest.thy ===== *)
theory Manifest
  imports PyText
begin

text \<open>
  The network manifest (protocol/manifest.py): the canonical text and the network id, the
  section splitter, the key-value and table readers with their regular expressions written
  as functions, and the validated sections.  SHA-1 is a parameter.  A validation failure is
  a value of \<open>manifest_error\<close>, one constructor per message of the code.
\<close>

section \<open>Canonical text (protocol/compiler.py)\<close>

definition canonical_lines :: "string list \<Rightarrow> string list" where
  "canonical_lines ls = rev (dropWhile ((=) []) (rev (map rstrip ls)))"

definition canonical_text :: "string \<Rightarrow> string" where
  "canonical_text text = join_with [nl] (canonical_lines (split_on nl (replace_crlf text)))"

definition canonicalize_md :: "string \<Rightarrow> bytes" where
  "canonicalize_md text = utf8_encode (canonical_text text)"

definition network_id_from_manifest :: "(bytes \<Rightarrow> bytes) \<Rightarrow> string \<Rightarrow> bytes" where
  "network_id_from_manifest sha1 text = take 20 (sha1 (canonicalize_md text))"

definition community_id_from_md :: "(bytes \<Rightarrow> bytes) \<Rightarrow> string \<Rightarrow> bytes" where
  "community_id_from_md sha1 text = take 20 (sha1 (canonicalize_md text))"

section \<open>Typed model\<close>

record admission_policy =
  gatekeeper_address :: string
  min_sats :: int
  min_confirmations :: int
  bootstrap_cap_sats :: int
  max_agents_per_seedbox :: int
  seedbox_cost_sats :: int

definition effective_bootstrap_cap_sats :: "admission_policy \<Rightarrow> int" where
  "effective_bootstrap_cap_sats a =
     (if bootstrap_cap_sats a > 0 then bootstrap_cap_sats a else 10 * min_sats a)"

definition seedbox_growth_enabled :: "admission_policy \<Rightarrow> bool" where
  "seedbox_growth_enabled a = (max_agents_per_seedbox a > 0 \<and> seedbox_cost_sats a > 0)"

record genesis_peer =
  gp_host :: string
  gp_port :: int
  gp_pubkey_hex :: string

record network_manifest =
  nm_identity :: "(string \<times> string) list"
  admission :: admission_policy
  genesis_peers :: "genesis_peer list"
  default_overlays :: "string list"
  canonical_md_bytes :: bytes
  network_id :: bytes

definition network_id_hex :: "network_manifest \<Rightarrow> string" where
  "network_id_hex m = bytes_hex (network_id m)"

datatype manifest_error =
    MissingSections "string list"
  | SectionOrder "string list"
  | IdentityMissingKey string
  | NameNotSnakeCase string
  | VersionNotSemver string
  | DescriptionEmpty
  | AdmissionMissingKey string
  | AddressNotBech32 string
  | NotAnInteger string string
  | MinSatsTooSmall int
  | ConfirmationsRange int
  | CapBelowMinimum int int
  | ValueNegative string int
  | ValueTooLarge string int
  | NoTableRows
  | TableHeader "string list"
  | RowCells "string list"
  | EmptyHost
  | PortNotInteger string
  | PortRange int
  | PubkeyNotHex string
  | DuplicatePeer string int
  | NoPeers
  | DuplicateOverlay string

section \<open>Sections\<close>

definition required_sections :: "string list" where
  "required_sections = [''Identity'', ''Admission'', ''Genesis Peers'', ''Default Overlays'']"

definition order_key :: string where
  "order_key = ''__order__''"

text \<open>Sections read so far, names in document order, current name and its lines.\<close>

fun split_sections ::
  "(string \<times> string) list \<Rightarrow> string list \<Rightarrow> string option \<Rightarrow> string list \<Rightarrow> string list \<Rightarrow> (string \<times> string) list" where
  "split_sections sections order name lines [] =
     AList.update order_key (join_with [nl] order)
       (case name of None \<Rightarrow> sections | Some n \<Rightarrow> AList.update n (join_with [nl] lines) sections)"
| "split_sections sections order name lines (l # ls) =
     (if startswith l ''# '' \<and> \<not> startswith l ''## ''
      then
        (let sections' = (case name of None \<Rightarrow> sections | Some n \<Rightarrow> AList.update n (join_with [nl] lines) sections);
             new_name = strip (drop 2 l)
         in split_sections sections' (order @ [new_name]) (Some new_name) [] ls)
      else split_sections sections order name (lines @ [l]) ls)"

definition split_top_sections :: "string \<Rightarrow> (string \<times> string) list" where
  "split_top_sections text = split_sections [] [] None [] (split_on nl text)"

definition check_required_sections :: "(string \<times> string) list \<Rightarrow> manifest_error + unit" where
  "check_required_sections sections =
     (let order = split_on nl (case map_of sections order_key of None \<Rightarrow> [] | Some o1 \<Rightarrow> o1);
          relevant = filter (\<lambda>n. n \<in> set required_sections) order
      in if relevant \<noteq> required_sections
         then (let missing = filter (\<lambda>s. map_of sections s = None) required_sections in
               if missing \<noteq> [] then Inl (MissingSections missing) else Inl (SectionOrder relevant))
         else Inr ())"

section \<open>Lines\<close>

definition is_ident_start :: "char \<Rightarrow> bool" where
  "is_ident_start c = (is_lower c \<or> is_upper c \<or> c = CHR ''_'')"

definition is_ident :: "char \<Rightarrow> bool" where
  "is_ident c = (is_ident_start c \<or> is_digit c)"

text \<open>What follows a bullet: leading white space, a dash, white space.\<close>

definition after_bullet :: "string \<Rightarrow> string option" where
  "after_bullet line = (case lstrip line of
     c # r \<Rightarrow> if c = CHR ''-'' then Some (lstrip r) else None
   | [] \<Rightarrow> None)"

definition after_colon :: "string \<Rightarrow> string option" where
  "after_colon s = (case lstrip s of
     c # r \<Rightarrow> if c = CHR '':'' then Some r else None
   | [] \<Rightarrow> None)"

text \<open>
  The value of \<open>key: value\<close>: trimmed; of a value that is only white space the expression
  keeps the last character, and it needs at least one character.
\<close>

definition kv_value :: "string \<Rightarrow> string option" where
  "kv_value r =
     (if r = [] then None else if strip r = [] then Some [last r] else Some (strip r))"

definition match_kv :: "string \<Rightarrow> (string \<times> string) option" where
  "match_kv line =
     Option.bind (after_bullet line) (\<lambda>s.
     let key = takeWhile is_ident s in
     if key = [] \<or> \<not> is_ident_start (hd key) then None
     else
       Option.bind (after_colon (dropWhile is_ident s)) (\<lambda>r.
       Option.bind (kv_value r) (\<lambda>v. Some (key, v))))"

definition parse_kv_list :: "string \<Rightarrow> (string \<times> string) list" where
  "parse_kv_list body =
     foldl (\<lambda>out line. case match_kv line of None \<Rightarrow> out | Some (k, v) \<Rightarrow> AList.update k v out)
       [] (split_on nl body)"

definition is_hex_char :: "char \<Rightarrow> bool" where
  "is_hex_char c = (is_digit c \<or> c \<in> {CHR ''a'', CHR ''b'', CHR ''c'', CHR ''d'', CHR ''e'', CHR ''f''})"

definition match_hex :: "string \<Rightarrow> bool" where
  "match_hex s = (s \<noteq> [] \<and> list_all is_hex_char s)"

definition match_name :: "string \<Rightarrow> bool" where
  "match_name s = (case s of [] \<Rightarrow> False
     | c # cs \<Rightarrow> is_lower c \<and> list_all (\<lambda>d. is_lower d \<or> is_digit d \<or> d = CHR ''_'') cs)"

definition match_semver :: "string \<Rightarrow> bool" where
  "match_semver s = (let parts = split_on (CHR ''.'') s in
     length parts = 3 \<and> list_all (\<lambda>p. p \<noteq> [] \<and> list_all is_digit p) parts)"

definition is_bech32_char :: "char \<Rightarrow> bool" where
  "is_bech32_char c = ((is_digit c \<and> c \<noteq> CHR ''1'') \<or>
     (is_lower c \<and> c \<notin> {CHR ''b'', CHR ''i'', CHR ''o''}))"

definition match_bech32 :: "string \<Rightarrow> bool" where
  "match_bech32 s =
     ((startswith s ''tb1'' \<or> startswith s ''bc1'') \<and> drop 3 s \<noteq> [] \<and> list_all is_bech32_char (drop 3 s) \<or>
      startswith s ''dclaw1'' \<and> drop 6 s \<noteq> [] \<and> list_all is_hex_char (drop 6 s))"

text \<open>Word characters of the regular expressions below code point 256.\<close>

definition is_word_char :: "char \<Rightarrow> bool" where
  "is_word_char c = (let n = (of_char c :: nat) in
     is_ident c \<or> n \<in> {170, 178, 179, 181, 185, 186, 188, 189, 190} \<or> (192 \<le> n \<and> n \<noteq> 215 \<and> n \<noteq> 247))"

definition match_sha1_line :: "string \<Rightarrow> string option" where
  "match_sha1_line line =
     Option.bind (after_bullet line) (\<lambda>s.
     if startswith s ''sha1'' then
       Option.bind (after_colon (drop 4 s)) (\<lambda>r.
       let h = take 40 (lstrip r); rest = drop 40 (lstrip r) in
       if length h = 40 \<and> list_all is_hex_char h \<and> (rest = [] \<or> \<not> is_word_char (hd rest))
       then Some h else None)
     else None)"

section \<open>The sections\<close>

definition parse_identity :: "string \<Rightarrow> manifest_error + (string \<times> string) list" where
  "parse_identity body =
     (let kv = parse_kv_list body;
          missing = filter (\<lambda>k. map_of kv k = None) [''name'', ''version'', ''description'']
      in if missing \<noteq> [] then Inl (IdentityMissingKey (hd missing))
         else
           (let name = the (map_of kv ''name''); version = the (map_of kv ''version'');
                description = the (map_of kv ''description'')
            in if \<not> match_name name then Inl (NameNotSnakeCase name)
               else if \<not> match_semver version then Inl (VersionNotSemver version)
               else if strip description = [] then Inl DescriptionEmpty
               else Inr kv))"

definition parse_int_field :: "string \<Rightarrow> string \<Rightarrow> manifest_error + int" where
  "parse_int_field key raw = (case py_int raw of None \<Rightarrow> Inl (NotAnInteger key raw) | Some n \<Rightarrow> Inr n)"

definition parse_optional_uint :: "(string \<times> string) list \<Rightarrow> string \<Rightarrow> int \<Rightarrow> int \<Rightarrow> manifest_error + int" where
  "parse_optional_uint kv key default_value max_value = (case map_of kv key of
     None \<Rightarrow> Inr default_value
   | Some raw \<Rightarrow>
       bindr (parse_int_field key raw) (\<lambda>value.
         if value < 0 then Inl (ValueNegative key value)
         else if value > max_value then Inl (ValueTooLarge key value)
         else Inr value))"

definition parse_admission :: "string \<Rightarrow> manifest_error + admission_policy" where
  "parse_admission body =
     (let kv = parse_kv_list body;
          missing = filter (\<lambda>k. map_of kv k = None) [''gatekeeper_address'', ''min_sats'', ''min_confirmations'']
      in if missing \<noteq> [] then Inl (AdmissionMissingKey (hd missing))
         else
           (let addr = the (map_of kv ''gatekeeper_address'') in
            if \<not> match_bech32 addr then Inl (AddressNotBech32 addr)
            else
              bindr (parse_int_field ''min_sats'' (the (map_of kv ''min_sats''))) (\<lambda>sats.
              if sats < 1 then Inl (MinSatsTooSmall sats)
              else
                bindr (parse_int_field ''min_confirmations'' (the (map_of kv ''min_confirmations''))) (\<lambda>confs.
                if \<not> (0 \<le> confs \<and> confs \<le> 65535) then Inl (ConfirmationsRange confs)
                else
                  bindr (parse_optional_uint kv ''bootstrap_cap_sats'' 0 (2 ^ 64 - 1)) (\<lambda>cap.
                  if cap \<noteq> 0 \<and> cap < sats then Inl (CapBelowMinimum cap sats)
                  else
                    bindr (parse_optional_uint kv ''max_agents_per_seedbox'' 0 65535) (\<lambda>agents.
                    bindr (parse_optional_uint kv ''seedbox_cost_sats'' 0 (2 ^ 64 - 1)) (\<lambda>cost.
                    Inr \<lparr>gatekeeper_address = addr, min_sats = sats, min_confirmations = confs,
                         bootstrap_cap_sats = cap, max_agents_per_seedbox = agents,
                         seedbox_cost_sats = cost\<rparr>)))))))"

definition table_cells :: "string \<Rightarrow> string list" where
  "table_cells ln = map strip (split_on (CHR ''|'') (strip_char (CHR ''|'') ln))"

definition read_table :: "string \<Rightarrow> string list list" where
  "read_table body =
     filter (\<lambda>cells. \<not> list_all (\<lambda>c. set c \<subseteq> {CHR ''-'', CHR 0x20}) cells)
       (map table_cells (filter (\<lambda>ln. startswith ln ''|'') (map strip (split_on nl body))))"

fun parse_peer_rows ::
  "(string \<times> int) list \<Rightarrow> genesis_peer list \<Rightarrow> string list list \<Rightarrow> manifest_error + genesis_peer list" where
  "parse_peer_rows seen peers [] = (if peers = [] then Inl NoPeers else Inr peers)"
| "parse_peer_rows seen peers (row # rows) =
     (case row of
        [host, port_str, pubkey_cell] \<Rightarrow>
          if host = [] then Inl EmptyHost
          else
            (case py_int port_str of
               None \<Rightarrow> Inl (PortNotInteger port_str)
             | Some port \<Rightarrow>
                 if \<not> (1024 \<le> port \<and> port \<le> 65535) then Inl (PortRange port)
                 else
                   (let pubkey = lower pubkey_cell in
                    if length pubkey = 0 \<or> odd (length pubkey) \<or> \<not> match_hex pubkey
                    then Inl (PubkeyNotHex pubkey)
                    else if (host, port) \<in> set seen then Inl (DuplicatePeer host port)
                    else parse_peer_rows (seen @ [(host, port)])
                           (peers @ [\<lparr>gp_host = host, gp_port = port, gp_pubkey_hex = pubkey\<rparr>]) rows))
      | _ \<Rightarrow> Inl (RowCells row))"

definition parse_genesis_peers :: "string \<Rightarrow> manifest_error + genesis_peer list" where
  "parse_genesis_peers body = (case read_table body of
     [] \<Rightarrow> Inl NoTableRows
   | head # rows \<Rightarrow>
       (let header = map lower head in
        if header \<noteq> [''host'', ''port'', ''pubkey_hex''] then Inl (TableHeader header)
        else parse_peer_rows [] [] rows))"

fun parse_overlay_lines :: "string list \<Rightarrow> string list \<Rightarrow> manifest_error + string list" where
  "parse_overlay_lines hashes [] = Inr hashes"
| "parse_overlay_lines hashes (l # ls) =
     (case match_sha1_line l of
        None \<Rightarrow> parse_overlay_lines hashes ls
      | Some raw \<Rightarrow>
          let h = lower raw in
          if h \<in> set hashes then Inl (DuplicateOverlay h)
          else parse_overlay_lines (hashes @ [h]) ls)"

definition parse_default_overlays :: "string \<Rightarrow> manifest_error + string list" where
  "parse_default_overlays body = parse_overlay_lines [] (split_on nl body)"

section \<open>The manifest\<close>

definition section_of :: "(string \<times> string) list \<Rightarrow> string \<Rightarrow> string" where
  "section_of sections name = (case map_of sections name of None \<Rightarrow> [] | Some b \<Rightarrow> b)"

definition parse_manifest :: "(bytes \<Rightarrow> bytes) \<Rightarrow> string \<Rightarrow> manifest_error + network_manifest" where
  "parse_manifest sha1 text =
     (let sections = split_top_sections text in
      bindr (check_required_sections sections) (\<lambda>_.
      bindr (parse_identity (section_of sections ''Identity'')) (\<lambda>ident.
      bindr (parse_admission (section_of sections ''Admission'')) (\<lambda>adm.
      bindr (parse_genesis_peers (section_of sections ''Genesis Peers'')) (\<lambda>peers.
      bindr (parse_default_overlays (section_of sections ''Default Overlays'')) (\<lambda>overlays.
      let canonical = canonicalize_md text in
      Inr \<lparr>nm_identity = ident, admission = adm, genesis_peers = peers, default_overlays = overlays,
           canonical_md_bytes = canonical, network_id = take 20 (sha1 canonical)\<rparr>))))))"

end
