(* ===== verification/Community_State.thy ===== *)
theory Community_State
  imports Manifest Crypto_Env
begin

text \<open>
  The community view (agent/community_state.py): a fold over signed-log entries that
  computes members, donations, purchases, provisioned seedboxes and the treasury balance.
  Entries are JSON objects; \<open>fless\<close> is Python's order on two numbers of which one is a float.
  Attribute errors on non-object details, unhashable actions and the type errors of a sort
  over keys of different types are results of the fold.
\<close>

section \<open>Records\<close>

record donation_intent =
  di_reporter_id :: string
  di_amount_sats :: int
  di_timestamp :: json
  di_entry_hash :: json

record purchase_intent =
  pi_reporter_id :: string
  pi_cost_sats :: int
  pi_timestamp :: json
  pi_entry_hash :: json

record provisioned_event =
  pe_reporter_id :: string
  pe_intent_hash :: string
  pe_seedbox_url :: string
  pe_pubkey_hex :: string
  pe_timestamp :: json
  pe_entry_hash :: json

record community_state =
  members :: "string list"
  donations :: "donation_intent list"
  purchases :: "purchase_intent list"
  provisioned :: "provisioned_event list"
  balance_sats :: int
  seedbox_count :: int

definition member_count :: "community_state \<Rightarrow> int" where
  "member_count c = int (card (set (members c)))"

definition pending_purchases :: "community_state \<Rightarrow> int" where
  "pending_purchases c = int (length (purchases c)) - int (length (provisioned c))"

definition threshold_active :: "network_manifest \<Rightarrow> community_state \<Rightarrow> bool" where
  "threshold_active m c =
     (if \<not> seedbox_growth_enabled (admission m) then False
      else member_count c > max_agents_per_seedbox (admission m) * seedbox_count c)"

definition empty_community :: community_state where
  "empty_community = \<lparr>members = [], donations = [], purchases = [], provisioned = [],
     balance_sats = 0, seedbox_count = 1\<rparr>"

section \<open>Selecting and ordering entries\<close>

definition community_actions :: "string list" where
  "community_actions = [''donation_intent'', ''seedbox_purchase_intent'', ''seedbox_provisioned'']"

text \<open>Membership in a frozenset hashes the value: a list or an object raises.\<close>

fun in_actions :: "json \<Rightarrow> bool res" where
  "in_actions (JList _) = Inl TypeError"
| "in_actions (JObj _) = Inl TypeError"
| "in_actions (JStr a) = Inr (a \<in> set community_actions)"
| "in_actions _ = Inr False"

text \<open>\<open>v < w\<close> on JSON values, and the order of two tuples by their first unequal component.\<close>

fun is_number :: "json \<Rightarrow> bool" where
  "is_number (JBool _) = True"
| "is_number (JInt _) = True"
| "is_number (JFloat _) = True"
| "is_number _ = False"

function py_less :: "(json \<Rightarrow> json \<Rightarrow> bool) \<Rightarrow> json \<Rightarrow> json \<Rightarrow> bool res"
  and tuple_less :: "(json \<Rightarrow> json \<Rightarrow> bool) \<Rightarrow> json list \<Rightarrow> json list \<Rightarrow> bool res" where
  "py_less fless v w =
     (case (v, w) of
        (JStr s, JStr t) \<Rightarrow> Inr (s < t)
      | (JList vs, JList ws) \<Rightarrow> tuple_less fless vs ws
      | _ \<Rightarrow>
          if is_number v \<and> is_number w then
            (case (int_of v, int_of w) of
               (Some m, Some n) \<Rightarrow> Inr (m < n)
             | _ \<Rightarrow> Inr (fless v w))
          else Inl TypeError)"
| "tuple_less fless [] ws = Inr (ws \<noteq> [])"
| "tuple_less fless (v # vs) [] = Inr False"
| "tuple_less fless (v # vs) (w # ws) =
     (if py_eq v w then tuple_less fless vs ws else py_less fless v w)"
  by pat_completeness auto

termination
  by (relation "measure (\<lambda>x. case x of Inl (_, v, _) \<Rightarrow> size v | Inr (_, vs, _) \<Rightarrow> size_list size vs)") auto

definition sort_key_of :: "dict \<Rightarrow> json list" where
  "sort_key_of e = [get_or e ''timestamp'' (JStr []), get_or e ''reporter_id'' (JStr []),
     get_or e ''entry_hash'' (JStr [])]"

text \<open>
  A stable sort by insertion: an element goes before the first one that is not smaller than it.
  On keys that are pairwise comparable every stable sort gives this list.
\<close>

fun insert_entry :: "(json \<Rightarrow> json \<Rightarrow> bool) \<Rightarrow> dict \<Rightarrow> dict list \<Rightarrow> dict list res" where
  "insert_entry fless e [] = Inr [e]"
| "insert_entry fless e (d # ds) =
     bindr (tuple_less fless (sort_key_of d) (sort_key_of e)) (\<lambda>less.
       if less then bindr (insert_entry fless e ds) (\<lambda>r. Inr (d # r)) else Inr (e # d # ds))"

fun sort_entries :: "(json \<Rightarrow> json \<Rightarrow> bool) \<Rightarrow> dict list \<Rightarrow> dict list res" where
  "sort_entries fless [] = Inr []"
| "sort_entries fless (e # es) = bindr (sort_entries fless es) (insert_entry fless e)"

section \<open>Validators\<close>

text \<open>\<open>entry.get(k, "") or ""\<close>.\<close>

definition get_or_blank :: "dict \<Rightarrow> string \<Rightarrow> json" where
  "get_or_blank e k = (let v = get_or e k (JStr []) in if truthy v then v else JStr [])"

definition validate_donation_intent ::
  "dict \<Rightarrow> dict \<Rightarrow> network_manifest \<Rightarrow> string list \<Rightarrow> donation_intent list \<Rightarrow> donation_intent option" where
  "validate_donation_intent entry details m mem prior =
     (case (jget entry ''reporter_id'', jget details ''amount_sats'') of
        (JStr reporter_id, JInt amount) \<Rightarrow>
          (let cap = (if prior = [] then effective_bootstrap_cap_sats (admission m)
                      else max (min_sats (admission m))
                             (sum_list (map di_amount_sats prior) div int (length prior)))
           in if reporter_id = [] then None
              else if reporter_id \<in> set mem then None
              else if amount < min_sats (admission m) then None
              else if amount > cap then None
              else Some \<lparr>di_reporter_id = reporter_id, di_amount_sats = amount,
                         di_timestamp = get_or_blank entry ''timestamp'',
                         di_entry_hash = get_or_blank entry ''entry_hash''\<rparr>)
      | _ \<Rightarrow> None)"

definition validate_purchase_intent ::
  "dict \<Rightarrow> dict \<Rightarrow> network_manifest \<Rightarrow> string list \<Rightarrow> int \<Rightarrow> int \<Rightarrow> int \<Rightarrow> purchase_intent option" where
  "validate_purchase_intent entry details m mem balance boxes pending =
     (if \<not> seedbox_growth_enabled (admission m) then None
      else
        (case (jget entry ''reporter_id'', jget details ''cost_sats'') of
           (JStr reporter_id, JInt cost) \<Rightarrow>
             if reporter_id \<notin> set mem then None
             else if cost \<noteq> seedbox_cost_sats (admission m) then None
             else if balance < cost then None
             else if int (card (set mem)) \<le> max_agents_per_seedbox (admission m) * boxes then None
             else if pending \<noteq> 0 then None
             else Some \<lparr>pi_reporter_id = reporter_id, pi_cost_sats = cost,
                        pi_timestamp = get_or_blank entry ''timestamp'',
                        pi_entry_hash = get_or_blank entry ''entry_hash''\<rparr>
         | _ \<Rightarrow> None))"

definition validate_provisioned ::
  "dict \<Rightarrow> dict \<Rightarrow> string list \<Rightarrow> purchase_intent list \<Rightarrow> provisioned_event list \<Rightarrow> provisioned_event option" where
  "validate_provisioned entry details mem bought done =
     (case (jget entry ''reporter_id'', jget details ''purchase_intent_hash'') of
        (JStr reporter_id, JStr h) \<Rightarrow>
          if reporter_id \<notin> set mem then None
          else if h = [] then None
          else if \<not> list_ex (\<lambda>p. pi_entry_hash p = JStr h) bought then None
          else if list_ex (\<lambda>v. pe_intent_hash v = h) done then None
          else
            (case (get_or details ''seedbox_url'' (JStr []), get_or details ''seedbox_pubkey_hex'' (JStr [])) of
               (JStr url, JStr pk) \<Rightarrow>
                 if url = [] \<or> pk = [] then None
                 else Some \<lparr>pe_reporter_id = reporter_id, pe_intent_hash = h, pe_seedbox_url = url,
                            pe_pubkey_hex = pk, pe_timestamp = get_or_blank entry ''timestamp'',
                            pe_entry_hash = get_or_blank entry ''entry_hash''\<rparr>
             | _ \<Rightarrow> None)
      | _ \<Rightarrow> None)"

section \<open>Replay\<close>

text \<open>\<open>entry.get("details") or {}\<close>, and the attribute error of \<open>.get\<close> on anything else.\<close>

definition details_of :: "dict \<Rightarrow> dict res" where
  "details_of e = (let v = jget e ''details'' in
     if truthy v then (case v of JObj d \<Rightarrow> Inr d | _ \<Rightarrow> Inl AttributeError) else Inr [])"

definition apply_entry :: "network_manifest \<Rightarrow> community_state \<Rightarrow> dict \<Rightarrow> community_state res" where
  "apply_entry m c e =
     bindr (details_of e) (\<lambda>details.
       let action = jget e ''action'' in
       if jget details ''network_id_hex'' \<noteq> JStr (network_id_hex m) then Inr c
       else if action = JStr ''donation_intent'' then
         (case validate_donation_intent e details m (members c) (donations c) of
            None \<Rightarrow> Inr c
          | Some d \<Rightarrow> Inr (c\<lparr>members := members c @ [di_reporter_id d], donations := donations c @ [d],
                            balance_sats := balance_sats c + di_amount_sats d\<rparr>))
       else if action = JStr ''seedbox_purchase_intent'' then
         (case validate_purchase_intent e details m (members c) (balance_sats c) (seedbox_count c)
                 (int (length (purchases c)) - int (length (provisioned c))) of
            None \<Rightarrow> Inr c
          | Some p \<Rightarrow> Inr (c\<lparr>purchases := purchases c @ [p],
                            balance_sats := balance_sats c - pi_cost_sats p\<rparr>))
       else if action = JStr ''seedbox_provisioned'' then
         (case validate_provisioned e details (members c) (purchases c) (provisioned c) of
            None \<Rightarrow> Inr c
          | Some v \<Rightarrow> Inr (c\<lparr>provisioned := provisioned c @ [v], seedbox_count := seedbox_count c + 1\<rparr>))
       else Inr c)"

fun fold_entries :: "network_manifest \<Rightarrow> community_state \<Rightarrow> dict list \<Rightarrow> community_state res" where
  "fold_entries m c [] = Inr c"
| "fold_entries m c (e # es) = bindr (apply_entry m c e) (\<lambda>c'. fold_entries m c' es)"

definition replay_community ::
  "(json \<Rightarrow> json \<Rightarrow> bool) \<Rightarrow> network_manifest \<Rightarrow> dict list \<Rightarrow> community_state res" where
  "replay_community fless m entries =
     bindr (filterr (\<lambda>e. in_actions (jget e ''action'')) entries) (\<lambda>relevant.
     bindr (sort_entries fless relevant) (\<lambda>ordered.
     fold_entries m empty_community ordered))"

end
