(* ===== verification/Manifest_Spec.thy ===== *)
theory Manifest_Spec
  imports Manifest
begin

text \<open>
  What the manifest parser promises: an accepted manifest satisfies every bound of the
  schema, and the network id depends on the text only up to line terminators, trailing white
  space and trailing blank lines.
\<close>

section \<open>Canonical text\<close>

lemma rstrip_idem [simp]: "rstrip (rstrip s) = rstrip s"
  by (simp add: rstrip_def)

lemma rstrip_last: "rstrip s \<noteq> [] \<Longrightarrow> \<not> is_space (last (rstrip s))"
  by (simp add: rstrip_def last_rev hd_dropWhile)

lemma set_rstrip: "set (rstrip s) \<subseteq> set s"
  by (auto simp: rstrip_def dest: set_dropWhileD)

lemma is_space_cr [simp]: "is_space cr" "is_space nl"
  by (simp_all add: is_space_def cr_def nl_def)

text \<open>Lines as they stand in canonical text.\<close>

definition canonical_form :: "string list \<Rightarrow> bool" where
  "canonical_form ls = ((\<forall>l \<in> set ls. rstrip l = l \<and> nl \<notin> set l) \<and> (ls = [] \<or> last ls \<noteq> []))"

lemma canonical_lines_form:
  assumes "\<forall>l \<in> set ls. nl \<notin> set l"
  shows "canonical_form (canonical_lines ls)"
proof -
  let ?d = "dropWhile ((=) []) (rev (map rstrip ls))"
  have "set ?d \<subseteq> rstrip ` set ls" by (auto dest: set_dropWhileD)
  then have "\<forall>l \<in> set ?d. rstrip l = l \<and> nl \<notin> set l" using assms set_rstrip by fastforce
  moreover have "?d = [] \<or> last (rev ?d) \<noteq> []"
    using hd_dropWhile [of "(=) []" "rev (map rstrip ls)"] by (metis last_rev)
  ultimately show ?thesis unfolding canonical_form_def canonical_lines_def by (simp only: set_rev rev_is_Nil_conv)
qed

lemma canonical_lines_id:
  assumes "canonical_form ls"
  shows "canonical_lines ls = ls"
proof -
  have m: "map rstrip ls = ls" using assms by (simp add: canonical_form_def map_idI)
  show ?thesis
  proof (cases "ls = []")
    case False
    then have "hd (rev ls) \<noteq> []" using assms by (simp add: canonical_form_def hd_rev)
    then have "dropWhile ((=) []) (rev ls) = rev ls" using False by (cases "rev ls") auto
    with m show ?thesis by (simp add: canonical_lines_def)
  qed (simp add: canonical_lines_def)
qed

lemma replace_crlf_id: "(\<And>u v. s = u @ [cr, nl] @ v \<Longrightarrow> False) \<Longrightarrow> replace_crlf s = s"
proof (induction s rule: replace_crlf.induct)
  case (1 a b s)
  have "\<not> (a = cr \<and> b = nl)" using 1(3) [of "[]" s] by auto
  moreover have "replace_crlf (b # s) = b # s"
    by (rule 1(2)) (use calculation 1(3) [of "a # _"] in auto)
  ultimately show ?case by auto
qed simp_all

lemma first_split: "c \<notin> set a \<Longrightarrow> c \<notin> set b \<Longrightarrow> a @ c # r = b @ c # t \<Longrightarrow> a = b \<and> r = t"
proof (induction a arbitrary: b)
  case Nil
  then show ?case by (cases b) auto
next
  case (Cons x a)
  then show ?case by (cases b) auto
qed

lemma join_no_crlf:
  assumes "canonical_form ls" and "join_with [nl] ls = u @ [cr, nl] @ v"
  shows False
  using assms
proof (induction ls arbitrary: u)
  case Nil
  then show ?case by simp
next
  case (Cons l ls)
  have l: "rstrip l = l" "nl \<notin> set l" using Cons.prems(1) by (simp_all add: canonical_form_def)
  show ?case
  proof (cases "ls = []")
    case True
    with Cons.prems(2) l(2) show ?thesis by simp
  next
    case False
    have cf: "canonical_form ls" using Cons.prems(1) False by (simp add: canonical_form_def)
    have j: "l @ nl # join_with [nl] ls = (u @ [cr]) @ nl # v"
      using Cons.prems(2) False by (cases ls) simp_all
    show ?thesis
    proof (cases "nl \<in> set (u @ [cr])")
      case False
      then have "l = u @ [cr]"
        using first_split [OF l(2) _ j] by simp
      moreover from this have "\<not> is_space cr" using rstrip_last [of l] l(1) by simp
      ultimately show False by simp
    next
      case True
      then have "nl \<in> set u" by (simp add: nl_def cr_def)
      then obtain u1 u2 where u: "u = u1 @ nl # u2" "nl \<notin> set u1" by (metis split_list_first)
      have "l @ nl # join_with [nl] ls = u1 @ nl # (u2 @ [cr, nl] @ v)" using j u by simp
      from first_split [OF l(2) u(2) this] have "l = u1 \<and> join_with [nl] ls = u2 @ [cr, nl] @ v" .
      with Cons.IH [OF cf] show False by blast
    qed
  qed
qed

lemma canonical_text_of_form:
  assumes "canonical_form ls"
  shows "canonical_text (join_with [nl] ls) = join_with [nl] ls"
proof (cases "ls = []")
  case True
  then show ?thesis by (simp add: canonical_text_def canonical_lines_def rstrip_def)
next
  case False
  have "replace_crlf (join_with [nl] ls) = join_with [nl] ls"
    by (rule replace_crlf_id) (rule join_no_crlf [OF assms])
  moreover have "split_on nl (join_with [nl] ls) = ls"
    by (rule split_join) (use False assms in \<open>auto simp: canonical_form_def\<close>)
  ultimately show ?thesis by (simp add: canonical_text_def canonical_lines_id [OF assms])
qed

text \<open>A document with every line feed preceded by a carriage return.\<close>

definition with_crlf :: "string \<Rightarrow> string" where
  "with_crlf s = concat (map (\<lambda>c. if c = nl then [cr, nl] else [c]) s)"

lemma replace_with_crlf: "cr \<notin> set s \<Longrightarrow> replace_crlf (with_crlf s) = s"
proof (induction s)
  case Nil
  then show ?case by (simp add: with_crlf_def)
next
  case (Cons c s)
  have IH: "replace_crlf (with_crlf s) = s" using Cons by simp
  show ?case
  proof (cases "c = nl")
    case True
    with IH show ?thesis by (simp add: with_crlf_def)
  next
    case False
    have "c \<noteq> cr" using Cons.prems by auto
    then have "replace_crlf (c # with_crlf s) = c # replace_crlf (with_crlf s)" by (cases "with_crlf s") auto
    with IH False show ?thesis by (simp add: with_crlf_def)
  qed
qed

text \<open>
  The network id does not depend on how the text ends its lines: it is the same for the
  canonical text itself, and for a text whose lines are ended by a carriage return and a
  line feed.
\<close>

lemma network_id_of_canonical_text:
  "network_id_from_manifest sha1 (canonical_text text) = network_id_from_manifest sha1 text \<and>
   (cr \<in> set text \<or> network_id_from_manifest sha1 (with_crlf text) = network_id_from_manifest sha1 text)"
proof
  have "\<forall>l \<in> set (split_on nl (replace_crlf text)). nl \<notin> set l"
    using split_on_parts_free by blast
  from canonical_text_of_form [OF canonical_lines_form [OF this]]
  have "canonical_text (canonical_text text) = canonical_text text" by (simp add: canonical_text_def)
  then show "network_id_from_manifest sha1 (canonical_text text) = network_id_from_manifest sha1 text"
    by (simp add: network_id_from_manifest_def canonicalize_md_def)
  show "cr \<in> set text \<or> network_id_from_manifest sha1 (with_crlf text) = network_id_from_manifest sha1 text"
  proof (cases "cr \<in> set text")
    case False
    then have "replace_crlf text = text" by (intro replace_crlf_id) auto
    with replace_with_crlf [OF False] show ?thesis
      by (simp add: network_id_from_manifest_def canonicalize_md_def canonical_text_def)
  qed simp
qed

section \<open>Accepted manifests\<close>

definition admission_valid :: "admission_policy \<Rightarrow> bool" where
  "admission_valid a =
     (match_bech32 (gatekeeper_address a) \<and> 1 \<le> min_sats a \<and>
      0 \<le> min_confirmations a \<and> min_confirmations a \<le> 65535 \<and>
      0 \<le> bootstrap_cap_sats a \<and> bootstrap_cap_sats a \<le> 2 ^ 64 - 1 \<and>
      min_sats a \<le> effective_bootstrap_cap_sats a \<and>
      0 \<le> max_agents_per_seedbox a \<and> max_agents_per_seedbox a \<le> 65535 \<and>
      0 \<le> seedbox_cost_sats a \<and> seedbox_cost_sats a \<le> 2 ^ 64 - 1)"

definition peer_valid :: "genesis_peer \<Rightarrow> bool" where
  "peer_valid p = (gp_host p \<noteq> [] \<and> 1024 \<le> gp_port p \<and> gp_port p \<le> 65535 \<and>
     even (length (gp_pubkey_hex p)) \<and> match_hex (gp_pubkey_hex p))"

definition identity_valid :: "(string \<times> string) list \<Rightarrow> bool" where
  "identity_valid kv = (\<exists>n v d. map_of kv ''name'' = Some n \<and> match_name n \<and>
     map_of kv ''version'' = Some v \<and> match_semver v \<and>
     map_of kv ''description'' = Some d \<and> strip d \<noteq> [])"

definition manifest_valid :: "network_manifest \<Rightarrow> bool" where
  "manifest_valid m =
     (identity_valid (nm_identity m) \<and> admission_valid (admission m) \<and> genesis_peers m \<noteq> [] \<and>
      list_all peer_valid (genesis_peers m) \<and>
      distinct (map (\<lambda>p. (gp_host p, gp_port p)) (genesis_peers m)) \<and>
      distinct (default_overlays m) \<and>
      list_all (\<lambda>h. length h = 40 \<and> list_all is_hex_char h) (default_overlays m))"

lemma optional_uint_bounds:
  "parse_optional_uint kv key 0 hi = Inr v \<Longrightarrow> 0 \<le> hi \<Longrightarrow> 0 \<le> v \<and> v \<le> hi"
  by (auto simp: parse_optional_uint_def bindr_Inr_iff split: option.splits if_splits)

lemma parse_identity_valid: "parse_identity body = Inr kv \<Longrightarrow> identity_valid kv"
  by (auto simp: parse_identity_def identity_valid_def Let_def split: if_splits)

lemma parse_admission_valid:
  assumes "parse_admission body = Inr a"
  shows "admission_valid a"
proof -
  have sz: "(0 :: int) \<le> 2 ^ 64 - 1" "(0 :: int) \<le> 65535" by simp_all
  obtain sats cap agents cost where a: "min_sats a = sats" "bootstrap_cap_sats a = cap"
    "max_agents_per_seedbox a = agents" "seedbox_cost_sats a = cost"
    and b: "1 \<le> sats" "0 \<le> min_confirmations a" "min_confirmations a \<le> 65535" "cap \<noteq> 0 \<longrightarrow> sats \<le> cap"
      "match_bech32 (gatekeeper_address a)"
    and o1: "parse_optional_uint (parse_kv_list body) ''bootstrap_cap_sats'' 0 (2 ^ 64 - 1) = Inr cap"
    and o2: "parse_optional_uint (parse_kv_list body) ''max_agents_per_seedbox'' 0 65535 = Inr agents"
    and o3: "parse_optional_uint (parse_kv_list body) ''seedbox_cost_sats'' 0 (2 ^ 64 - 1) = Inr cost"
    using assms by (auto simp: parse_admission_def bindr_Inr_iff Let_def split: if_splits)
  from optional_uint_bounds [OF o1 sz(1)] optional_uint_bounds [OF o2 sz(2)] optional_uint_bounds [OF o3 sz(1)] a b
  show ?thesis by (auto simp: admission_valid_def effective_bootstrap_cap_sats_def)
qed

lemma parse_peer_rows_valid:
  assumes "parse_peer_rows seen peers rows = Inr ps" and "seen = map (\<lambda>p. (gp_host p, gp_port p)) peers"
    and "list_all peer_valid peers" and "distinct seen"
  shows "ps \<noteq> [] \<and> list_all peer_valid ps \<and> distinct (map (\<lambda>p. (gp_host p, gp_port p)) ps)"
  using assms
proof (induction rows arbitrary: seen peers)
  case Nil
  then show ?case by (auto split: if_splits)
next
  case (Cons row rows)
  then obtain host port_str cell where row: "row = [host, port_str, cell]"
    by (auto split: list.splits)
  obtain port where port: "py_int port_str = Some port"
    using Cons.prems(1) by (auto simp: row split: if_splits option.splits)
  let ?p = "\<lparr>gp_host = host, gp_port = port, gp_pubkey_hex = lower cell\<rparr>"
  have ok: "peer_valid ?p" "(host, port) \<notin> set seen"
    and rest: "parse_peer_rows (seen @ [(host, port)]) (peers @ [?p]) rows = Inr ps"
    using Cons.prems(1) by (auto simp: row port peer_valid_def Let_def split: if_splits)
  show ?case by (rule Cons.IH [OF rest]) (use ok Cons.prems in auto)
qed

lemma hex_lower: "is_hex_char c \<Longrightarrow> lower_char c = c"
  by (auto simp: is_hex_char_def lower_char_def is_digit_def Let_def)

lemma match_sha1_hex: "match_sha1_line l = Some h \<Longrightarrow> length h = 40 \<and> list_all is_hex_char h \<and> lower h = h"
  by (auto simp: match_sha1_line_def bind_eq_Some_conv Let_def lower_def list_all_iff hex_lower map_idI
      split: if_splits)

lemma parse_overlay_lines_valid:
  assumes "parse_overlay_lines hashes ls = Inr hs" and "distinct hashes"
    and "list_all (\<lambda>h. length h = 40 \<and> list_all is_hex_char h) hashes"
  shows "distinct hs \<and> list_all (\<lambda>h. length h = 40 \<and> list_all is_hex_char h) hs"
  using assms
proof (induction ls arbitrary: hashes)
  case Nil
  then show ?case by simp
next
  case (Cons l ls)
  show ?case
  proof (cases "match_sha1_line l")
    case None
    with Cons show ?thesis by simp
  next
    case (Some h)
    note hex = match_sha1_hex [OF Some]
    then have "h \<notin> set hashes" "parse_overlay_lines (hashes @ [h]) ls = Inr hs"
      using Cons.prems(1) Some by (simp_all add: Let_def split: if_splits)
    from Cons.IH [OF this(2)] this(1) hex Cons.prems(2,3) show ?thesis by simp
  qed
qed

text \<open>The top-level headings of a text, in document order.\<close>

definition headings :: "string list \<Rightarrow> string list" where
  "headings ls = map (\<lambda>l. strip (drop 2 l)) (filter (\<lambda>l. startswith l ''# '') ls)"

lemma split_sections_order:
  "map_of (split_sections sections order name lines ls) order_key = Some (join_with [nl] (order @ headings ls))"
proof (induction ls arbitrary: sections order name lines)
  case Nil
  then show ?case by (simp add: headings_def update_conv')
next
  case (Cons l ls)
  have "startswith l ''# '' \<Longrightarrow> \<exists>r. l = ''# '' @ r" by (metis append_take_drop_id startswith_def)
  then have "startswith l ''# '' \<Longrightarrow> \<not> startswith l ''## ''" by (auto simp: startswith_def)
  with Cons show ?case by (simp add: headings_def Let_def)
qed

lemma strip_subset: "set (strip s) \<subseteq> set s"
  using set_rstrip [of "lstrip s"] by (auto simp: strip_def lstrip_def dest: set_dropWhileD)

lemma required_in_order:
  assumes "check_required_sections (split_top_sections text) = Inr u"
  shows "filter (\<lambda>h. h \<in> set required_sections) (headings (split_on nl text)) = required_sections"
proof -
  let ?hs = "headings (split_on nl text)"
  have free: "\<forall>h \<in> set ?hs. nl \<notin> set h"
    using strip_subset split_on_parts_free by (fastforce simp: headings_def dest: in_set_dropD)
  have "filter (\<lambda>h. h \<in> set required_sections) (split_on nl (join_with [nl] ?hs)) = required_sections"
    using assms split_sections_order [of "[]" "[]" None "[]" "split_on nl text"]
    by (auto simp: check_required_sections_def split_top_sections_def Let_def split: if_splits)
  moreover have "?hs \<noteq> []"
  proof
    assume "?hs = []"
    with calculation show False by (simp add: required_sections_def)
  qed
  ultimately show ?thesis using split_join [of ?hs nl] free by simp
qed

text \<open>
  C13: What the parser checks of a manifest holds of every manifest it returns: the four
  required headings occur once each and in order, among whatever other headings there are; a
  snake-case name, a version of three numbers, a description, a well-formed gatekeeper
  address; at least one satoshi as the minimum donation, the confirmations and the optional
  amounts in their ranges with the bootstrap cap at least the minimum; at least one peer,
  peers with a host, a port in range and a key of hex digits and no endpoint twice; distinct
  40-digit overlay hashes; and the network id is that of the text.  The schema document asks
  for more, which the parser does not check.
\<close>

theorem parse_manifest_valid:
  assumes "parse_manifest sha1 text = Inr m"
  shows "manifest_valid m \<and> network_id m = network_id_from_manifest sha1 text \<and>
    filter (\<lambda>h. h \<in> {''Identity'', ''Admission'', ''Genesis Peers'', ''Default Overlays''}) (headings (split_on nl text))
      = [''Identity'', ''Admission'', ''Genesis Peers'', ''Default Overlays'']"
proof -
  let ?s = "split_top_sections text"
  obtain ident adm peers overlays where p: "parse_identity (section_of ?s ''Identity'') = Inr ident"
    "parse_admission (section_of ?s ''Admission'') = Inr adm"
    "parse_genesis_peers (section_of ?s ''Genesis Peers'') = Inr peers"
    "parse_default_overlays (section_of ?s ''Default Overlays'') = Inr overlays"
    and req: "\<exists>u. check_required_sections ?s = Inr u"
    and m: "m = \<lparr>nm_identity = ident, admission = adm, genesis_peers = peers, default_overlays = overlays,
           canonical_md_bytes = canonicalize_md text, network_id = take 20 (sha1 (canonicalize_md text))\<rparr>"
    using assms by (auto simp: parse_manifest_def bindr_Inr_iff Let_def)
  obtain head rows where "parse_peer_rows [] [] rows = Inr peers"
    using p(3) by (auto simp: parse_genesis_peers_def Let_def split: list.splits if_splits)
  from parse_peer_rows_valid [OF this] parse_identity_valid [OF p(1)] parse_admission_valid [OF p(2)]
    parse_overlay_lines_valid [OF p(4) [unfolded parse_default_overlays_def]]
  have valid: "manifest_valid m" by (simp add: m manifest_valid_def)
  have set: "set required_sections = {''Identity'', ''Admission'', ''Genesis Peers'', ''Default Overlays''}"
    by (simp only: required_sections_def list.set)
  from req obtain u where "check_required_sections ?s = Inr u" ..
  from required_in_order [OF this, unfolded set, unfolded required_sections_def] valid
  show ?thesis by (simp add: m network_id_from_manifest_def)
qed

text \<open>
  Accepted against the schema document: a minimum donation of any size, also above 64 bits, a
  host that is no address, a key in capitals, and another heading between the required ones.
\<close>

lemma min_sats_unbounded:
  assumes "1 \<le> n" and "py_int raw = Some n"
    and "parse_kv_list body = [(''gatekeeper_address'', ''tb1q''), (''min_sats'', raw), (''min_confirmations'', ''1'')]"
  shows "parse_admission body = Inr \<lparr>gatekeeper_address = ''tb1q'', min_sats = n, min_confirmations = 1,
    bootstrap_cap_sats = 0, max_agents_per_seedbox = 0, seedbox_cost_sats = 0\<rparr>"
proof -
  have "py_int ''1'' = Some 1" "match_bech32 ''tb1q''" by code_simp+
  with assms show ?thesis
    by (simp add: parse_admission_def parse_int_field_def parse_optional_uint_def Let_def)
qed

lemma lax_peers_parse:
  "parse_genesis_peers (join_with [nl] [''| host | port | pubkey_hex |'', ''|---|---|---|'', ''| ?! ?! | 2000 | AB |'']) =
   Inr [\<lparr>gp_host = ''?! ?!'', gp_port = 2000, gp_pubkey_hex = ''ab''\<rparr>]"
  by code_simp

lemma lax_headings_accepted:
  "check_required_sections (split_top_sections (join_with [nl]
     [''# Identity'', ''# Notes'', ''# Admission'', ''# Genesis Peers'', ''# Default Overlays''])) = Inr ()"
  by code_simp

definition sample_manifest_text :: string where
  "sample_manifest_text = join_with [nl]
     [''# Identity'', ''- name: demo'', ''- version: 1.0.0'', ''- description: d'',
      ''# Admission'', ''- gatekeeper_address: tb1q'', ''- min_sats: 10'', ''- min_confirmations: 1'',
      ''- bootstrap_cap_sats: 40'', ''- max_agents_per_seedbox: 1'', ''- seedbox_cost_sats: 30'',
      ''# Genesis Peers'', ''| host | port | pubkey_hex |'', ''|---|---|---|'', ''| h | 2000 | AB |'',
      ''# Default Overlays'', ''- sha1: 00112233445566778899aabbccddeeff00112233'']"

definition sample_manifest :: network_manifest where
  "sample_manifest =
     \<lparr>nm_identity = [(''name'', ''demo''), (''version'', ''1.0.0''), (''description'', ''d'')],
      admission = \<lparr>gatekeeper_address = ''tb1q'', min_sats = 10, min_confirmations = 1,
        bootstrap_cap_sats = 40, max_agents_per_seedbox = 1, seedbox_cost_sats = 30\<rparr>,
      genesis_peers = [\<lparr>gp_host = ''h'', gp_port = 2000, gp_pubkey_hex = ''ab''\<rparr>],
      default_overlays = [''00112233445566778899aabbccddeeff00112233''],
      canonical_md_bytes = canonicalize_md sample_manifest_text,
      network_id = take 20 (canonicalize_md sample_manifest_text)\<rparr>"

lemma sample_manifest_parses: "parse_manifest (\<lambda>b. b) sample_manifest_text = Inr sample_manifest"
  by code_simp

lemma parse_manifest_valid_witness:
  "manifest_valid sample_manifest \<and>
   network_id sample_manifest = network_id_from_manifest (\<lambda>b. b) sample_manifest_text \<and>
   filter (\<lambda>h. h \<in> {''Identity'', ''Admission'', ''Genesis Peers'', ''Default Overlays''})
       (headings (split_on nl sample_manifest_text))
     = [''Identity'', ''Admission'', ''Genesis Peers'', ''Default Overlays'']"
  by (rule parse_manifest_valid [OF sample_manifest_parses])

end
