(* ===== verification/Community_State_Spec.thy ===== *)
theory Community_State_Spec
  imports Community_State Manifest_Spec "HOL-Library.Product_Lexorder"
begin

text \<open>
  What the replay promises: the treasury and membership invariants of every reachable state,
  independence of the order and of repetition of the entries, and the entries that make it
  raise.
\<close>

section \<open>Invariants of the fold\<close>

definition community_inv :: "network_manifest \<Rightarrow> community_state \<Rightarrow> bool" where
  "community_inv m c =
     (members c = map di_reporter_id (donations c) \<and> distinct (members c) \<and>
      balance_sats c = sum_list (map di_amount_sats (donations c)) - sum_list (map pi_cost_sats (purchases c)) \<and>
      0 \<le> balance_sats c \<and>
      seedbox_count c = 1 + int (length (provisioned c)) \<and>
      pending_purchases c \<in> {0, 1} \<and>
      (\<forall>d \<in> set (donations c). min_sats (admission m) \<le> di_amount_sats d \<and>
         di_amount_sats d \<le> effective_bootstrap_cap_sats (admission m)) \<and>
      (\<forall>p \<in> set (purchases c). pi_cost_sats p = seedbox_cost_sats (admission m) \<and> pi_reporter_id p \<in> set (members c)) \<and>
      (\<forall>v \<in> set (provisioned c). pe_reporter_id v \<in> set (members c) \<and>
         JStr (pe_intent_hash v) \<in> pi_entry_hash ` set (purchases c)) \<and>
      distinct (map pe_intent_hash (provisioned c)))"

definition policy_ok :: "network_manifest \<Rightarrow> bool" where
  "policy_ok m = (1 \<le> min_sats (admission m) \<and> min_sats (admission m) \<le> effective_bootstrap_cap_sats (admission m))"

lemma donation_acceptedD:
  assumes "validate_donation_intent e details m mem prior = Some d"
  shows "di_reporter_id d \<notin> set mem" "min_sats (admission m) \<le> di_amount_sats d"
    "di_amount_sats d \<le> (if prior = [] then effective_bootstrap_cap_sats (admission m)
       else max (min_sats (admission m)) (sum_list (map di_amount_sats prior) div int (length prior)))"
  using assms by (auto simp: validate_donation_intent_def Let_def split: json.splits if_splits)

lemma purchase_acceptedD:
  assumes "validate_purchase_intent e details m mem bal boxes pending = Some p"
  shows "pi_reporter_id p \<in> set mem" "pi_cost_sats p = seedbox_cost_sats (admission m)" "pi_cost_sats p \<le> bal"
    "pending = 0" "max_agents_per_seedbox (admission m) * boxes < int (card (set mem))"
    "seedbox_growth_enabled (admission m)"
  using assms by (auto simp: validate_purchase_intent_def split: json.splits if_splits)

lemma provisioned_acceptedD:
  assumes "validate_provisioned e details mem bought finished = Some v"
  shows "pe_reporter_id v \<in> set mem" "JStr (pe_intent_hash v) \<in> pi_entry_hash ` set bought"
    "pe_intent_hash v \<notin> pe_intent_hash ` set finished"
  using assms by (auto simp: validate_provisioned_def list_ex_iff image_iff split: json.splits if_splits)
    metis

lemma mean_at_most: "\<forall>x \<in> set xs. f x \<le> (b :: int) \<Longrightarrow> xs \<noteq> [] \<Longrightarrow> sum_list (map f xs) div int (length xs) \<le> b"
proof -
  assume le: "\<forall>x \<in> set xs. f x \<le> b" and ne: "xs \<noteq> []"
  have "sum_list (map f xs) \<le> b * int (length xs)"
    using le by (induction xs) (auto simp: algebra_simps)
  then have "sum_list (map f xs) div int (length xs) \<le> b * int (length xs) div int (length xs)"
    using ne by (intro zdiv_mono1) auto
  with ne show ?thesis by simp
qed

lemma add_donation_inv:
  assumes inv: "community_inv m c" and pol: "policy_ok m"
    and acc: "validate_donation_intent e details m (members c) (donations c) = Some d"
  shows "community_inv m (c\<lparr>members := members c @ [di_reporter_id d], donations := donations c @ [d],
    balance_sats := balance_sats c + di_amount_sats d\<rparr>)"
proof -
  note d = donation_acceptedD [OF acc]
  have "di_amount_sats d \<le> effective_bootstrap_cap_sats (admission m)"
  proof (cases "donations c = []")
    case True
    with d(3) show ?thesis by simp
  next
    case False
    have "sum_list (map di_amount_sats (donations c)) div int (length (donations c)) \<le> effective_bootstrap_cap_sats (admission m)"
      by (rule mean_at_most [OF _ False]) (use inv in \<open>simp add: community_inv_def\<close>)
    with d(3) False pol show ?thesis by (auto simp: policy_ok_def)
  qed
  with inv pol d(1,2) show ?thesis
    by (auto simp: community_inv_def policy_ok_def pending_purchases_def)
qed

lemma add_purchase_inv:
  assumes inv: "community_inv m c"
    and acc: "validate_purchase_intent e details m (members c) (balance_sats c) (seedbox_count c)
      (int (length (purchases c)) - int (length (provisioned c))) = Some p"
  shows "community_inv m (c\<lparr>purchases := purchases c @ [p], balance_sats := balance_sats c - pi_cost_sats p\<rparr>)"
  using inv purchase_acceptedD [OF acc]
  by (auto simp: community_inv_def pending_purchases_def)

lemma subset_length: "distinct xs \<Longrightarrow> set xs \<subseteq> f ` set ys \<Longrightarrow> length xs \<le> length ys"
proof -
  assume "distinct xs" and "set xs \<subseteq> f ` set ys"
  then have "card (set xs) \<le> card (set ys)"
    by (meson List.finite_set card_image_le card_mono finite_imageI order_trans)
  with \<open>distinct xs\<close> show ?thesis by (metis card_length distinct_card order_trans)
qed

lemma add_provisioned_inv:
  assumes inv: "community_inv m c"
    and acc: "validate_provisioned e details (members c) (purchases c) (provisioned c) = Some v"
  shows "community_inv m (c\<lparr>provisioned := provisioned c @ [v], seedbox_count := seedbox_count c + 1\<rparr>)"
proof -
  note v = provisioned_acceptedD [OF acc]
  have d: "distinct (map (\<lambda>x. JStr (pe_intent_hash x)) (provisioned c @ [v]))"
    using inv v(3) by (auto simp: community_inv_def distinct_map inj_on_def)
  have "set (map (\<lambda>x. JStr (pe_intent_hash x)) (provisioned c @ [v])) \<subseteq> pi_entry_hash ` set (purchases c)"
    using inv v(2) by (auto simp: community_inv_def)
  from subset_length [OF d this] have "length (provisioned c) < length (purchases c)" by simp
  with inv v show ?thesis by (auto simp: community_inv_def pending_purchases_def)
qed

lemma apply_entry_inv:
  assumes "community_inv m c" and "policy_ok m" and "apply_entry m c e = Inr c'"
  shows "community_inv m c'"
  using assms(3) add_donation_inv [OF assms(1,2)] add_purchase_inv [OF assms(1)] add_provisioned_inv [OF assms(1)] assms(1)
  by (auto simp: apply_entry_def bindr_Inr_iff Let_def split: if_splits option.splits)

lemma fold_entries_inv:
  "community_inv m c \<Longrightarrow> policy_ok m \<Longrightarrow> fold_entries m c es = Inr c' \<Longrightarrow> community_inv m c'"
  by (induction es arbitrary: c) (auto simp: bindr_Inr_iff dest: apply_entry_inv)

lemma empty_community_inv: "community_inv m empty_community"
  by (simp add: community_inv_def empty_community_def pending_purchases_def)

section \<open>Order and repetition\<close>

text \<open>Entries whose ordering fields are strings, as the append operations write them.\<close>

definition str_keys :: "dict \<Rightarrow> bool" where
  "str_keys e = list_all is_str (sort_key_of e)"

fun str_of :: "json \<Rightarrow> string" where
  "str_of (JStr s) = s"
| "str_of _ = []"

definition entry_key :: "dict \<Rightarrow> string \<times> string \<times> string" where
  "entry_key e = (str_of (get_or e ''timestamp'' (JStr [])), str_of (get_or e ''reporter_id'' (JStr [])),
     str_of (get_or e ''entry_hash'' (JStr [])))"

lemma is_str_conv: "is_str v \<longleftrightarrow> v = JStr (str_of v)"
  by (cases v) simp_all

lemma tuple_less_key:
  assumes "str_keys d" and "str_keys e"
  shows "tuple_less fless (sort_key_of d) (sort_key_of e) = Inr (entry_key d < entry_key e)"
proof -
  obtain a b c where d: "sort_key_of d = [JStr a, JStr b, JStr c]" "entry_key d = (a, b, c)"
    using assms(1) by (auto simp: str_keys_def sort_key_of_def entry_key_def is_str_conv)
  obtain x y z where e: "sort_key_of e = [JStr x, JStr y, JStr z]" "entry_key e = (x, y, z)"
    using assms(2) by (auto simp: str_keys_def sort_key_of_def entry_key_def is_str_conv)
  show ?thesis by (auto simp: d e less_prod_def' simp del: py_less.simps) (auto simp: d e)
qed

lemma insert_entry_insort:
  "str_keys e \<Longrightarrow> \<forall>d \<in> set ds. str_keys d \<Longrightarrow> insert_entry fless e ds = Inr (insort_key entry_key e ds)"
  by (induction ds) (auto simp: tuple_less_key)

lemma sort_entries_sort:
  "\<forall>d \<in> set es. str_keys d \<Longrightarrow> sort_entries fless es = Inr (sort_key entry_key es)"
  by (induction es) (auto simp: insert_entry_insort)

definition is_action :: "dict \<Rightarrow> bool" where
  "is_action e = (in_actions (jget e ''action'') = Inr True)"

definition hashable_action :: "dict \<Rightarrow> bool" where
  "hashable_action e = (in_actions (jget e ''action'') \<noteq> Inl TypeError)"

lemma in_actions_cases: "in_actions v = Inl TypeError \<or> (\<exists>b. in_actions v = Inr b)"
  by (cases v) auto

lemma relevant_entries:
  assumes "\<forall>e \<in> set es. hashable_action e"
  shows "filterr (\<lambda>e. in_actions (jget e ''action'')) es = Inr (filter is_action es)"
proof (rule filterr_total)
  fix e assume "e \<in> set es"
  with assms have "in_actions (jget e ''action'') \<noteq> Inl TypeError" by (simp add: hashable_action_def)
  with in_actions_cases obtain b where "in_actions (jget e ''action'') = Inr b" by blast
  then show "in_actions (jget e ''action'') = Inr (is_action e)" by (simp add: is_action_def)
qed

definition replayable :: "dict list \<Rightarrow> bool" where
  "replayable es = (list_all (\<lambda>e. hashable_action e \<and> (is_action e \<longrightarrow> str_keys e)) es \<and>
     inj_on entry_key (set (filter is_action es)))"

lemma replay_sorted:
  assumes "replayable es"
  shows "replay_community fless m es = fold_entries m empty_community (sort_key entry_key (filter is_action es))"
proof -
  have "\<forall>e \<in> set es. hashable_action e" "\<forall>d \<in> set (filter is_action es). str_keys d"
    using assms by (auto simp: replayable_def list_all_iff)
  then show ?thesis by (simp add: replay_community_def relevant_entries sort_entries_sort)
qed

lemma apply_entry_twice:
  assumes "apply_entry m c e = Inr c'"
  shows "apply_entry m c' e = Inr c'"
proof -
  obtain details where det: "details_of e = Inr details" using assms by (auto simp: apply_entry_def bindr_Inr_iff)
  have d: "validate_donation_intent e details m (members c @ [di_reporter_id d]) ds = None"
    if "validate_donation_intent e details m (members c) (donations c) = Some d" for d ds
    using that by (auto simp: validate_donation_intent_def Let_def split: json.splits if_splits)
  have p: "validate_purchase_intent e details m mem bal boxes pend = None" if "pend \<noteq> 0" for mem bal boxes pend
    using that by (auto simp: validate_purchase_intent_def split: json.splits)
  have v: "validate_provisioned e details mem bought (provisioned c @ [v]) = None"
    if "validate_provisioned e details (members c) (purchases c) (provisioned c) = Some v" for v mem bought
    using that by (auto simp: validate_provisioned_def list_ex_iff split: json.splits if_splits)
  show ?thesis
  proof (cases "jget details ''network_id_hex'' = JStr (network_id_hex m)")
    case False
    with assms det show ?thesis by (simp add: apply_entry_def)
  next
    case True
    consider "jget e ''action'' = JStr ''donation_intent''" | "jget e ''action'' = JStr ''seedbox_purchase_intent''"
      | "jget e ''action'' = JStr ''seedbox_provisioned''"
      | "jget e ''action'' \<notin> {JStr ''donation_intent'', JStr ''seedbox_purchase_intent'', JStr ''seedbox_provisioned''}"
      by blast
    then show ?thesis
    proof cases
      case 1
      with assms det True d show ?thesis
        by (cases "validate_donation_intent e details m (members c) (donations c)") (auto simp: apply_entry_def)
    next
      case 2
      show ?thesis
      proof (cases "validate_purchase_intent e details m (members c) (balance_sats c) (seedbox_count c)
                 (int (length (purchases c)) - int (length (provisioned c)))")
        case None
        with 2 assms det True show ?thesis by (auto simp: apply_entry_def)
      next
        case (Some q)
        with purchase_acceptedD(4) [OF Some] 2 assms det True p show ?thesis by (auto simp: apply_entry_def)
      qed
    next
      case 3
      with assms det True v show ?thesis
        by (cases "validate_provisioned e details (members c) (purchases c) (provisioned c)") (auto simp: apply_entry_def)
    next
      case 4
      with assms det True show ?thesis by (auto simp: apply_entry_def)
    qed
  qed
qed

lemma fold_entries_append:
  "fold_entries m c (xs @ ys) = bindr (fold_entries m c xs) (\<lambda>c'. fold_entries m c' ys)"
  by (induction xs arbitrary: c) (auto simp: bindr_def split: sum.splits)

lemma fold_entries_twice: "fold_entries m c (xs @ e # e # ys) = fold_entries m c (xs @ e # ys)"
proof (cases "fold_entries m c xs")
  case (Inr c1)
  show ?thesis
  proof (cases "apply_entry m c1 e")
    case (Inr c2)
    with apply_entry_twice [OF Inr] \<open>fold_entries m c xs = Inr c1\<close> show ?thesis by (simp add: fold_entries_append)
  qed (use Inr in \<open>simp add: fold_entries_append\<close>)
qed (simp add: fold_entries_append)

lemma insort_repeated:
  "sorted (map f l) \<Longrightarrow> inj_on f (set l) \<Longrightarrow> e \<in> set l \<Longrightarrow>
     \<exists>xs ys. l = xs @ e # ys \<and> insort_key f e l = xs @ e # e # ys"
proof (induction l)
  case Nil
  then show ?case by simp
next
  case (Cons d l)
  show ?case
  proof (cases "f e \<le> f d")
    case True
    have "f d \<le> f e" using Cons.prems(1,3) by auto
    with True have "f d = f e" by simp
    with Cons.prems(2,3) have "e = d" by (auto dest: inj_onD)
    then show ?thesis by (intro exI [of _ "[]"] exI [of _ l]) simp
  next
    case False
    then have "e \<noteq> d" by auto
    with Cons obtain xs ys where "l = xs @ e # ys" "insort_key f e l = xs @ e # e # ys" by auto
    with False show ?thesis by (intro exI [of _ "d # xs"] exI [of _ ys]) simp
  qed
qed

section \<open>Raising\<close>

definition str_time :: "dict \<Rightarrow> bool" where
  "str_time e = is_str (get_or e ''timestamp'' (JStr []))"

lemma tuple_less_mixed:
  assumes "tuple_less fless (sort_key_of d) (sort_key_of e) = Inr b"
  shows "str_time d = str_time e"
proof (rule ccontr)
  assume "str_time d \<noteq> str_time e"
  then have "\<not> py_eq (get_or d ''timestamp'' (JStr [])) (get_or e ''timestamp'' (JStr []))"
    "py_less fless (get_or d ''timestamp'' (JStr [])) (get_or e ''timestamp'' (JStr [])) = Inl TypeError"
    by (cases "get_or d ''timestamp'' (JStr [])"; cases "get_or e ''timestamp'' (JStr [])"; simp add: str_time_def)+
  with assms show False by (simp add: sort_key_of_def del: py_less.simps)
qed

lemma insert_entry_set: "insert_entry fless e ds = Inr r \<Longrightarrow> set r = insert e (set ds)"
  by (induction ds arbitrary: r) (auto simp: bindr_Inr_iff split: if_splits)

lemma insert_entry_time: "insert_entry fless e (d # ds) = Inr r \<Longrightarrow> str_time d = str_time e"
  using tuple_less_mixed by (auto simp: bindr_Inr_iff)

lemma sort_entries_same:
  "sort_entries fless es = Inr r \<Longrightarrow> set r = set es \<and> (\<forall>d \<in> set es. \<forall>e \<in> set es. str_time d = str_time e)"
proof (induction es arbitrary: r)
  case Nil
  then show ?case by simp
next
  case (Cons e es)
  then obtain q where q: "sort_entries fless es = Inr q" "insert_entry fless e q = Inr r"
    by (auto simp: bindr_Inr_iff)
  note IH = Cons.IH [OF q(1)]
  have "str_time d = str_time e" if "d \<in> set es" for d
  proof -
    have "q \<noteq> []" using IH that by (metis empty_iff empty_set)
    then obtain x xs where x: "q = x # xs" by (cases q) auto
    then have "str_time x = str_time e" using insert_entry_time q(2) by metis
    moreover have "x \<in> set es" using IH x by auto
    ultimately show ?thesis using IH that by metis
  qed
  with insert_entry_set [OF q(2)] IH show ?case by simp
qed

lemma fold_entries_raises:
  "e \<in> set es \<Longrightarrow> details_of e = Inl x \<Longrightarrow> \<exists>y. fold_entries m c es = Inl y"
proof (induction es arbitrary: c)
  case Nil
  then show ?case by simp
next
  case (Cons d es)
  show ?case
  proof (cases "apply_entry m c d")
    case (Inr c')
    have "d \<noteq> e" using Inr Cons.prems(2) by (auto simp: apply_entry_def)
    with Cons Inr show ?thesis by auto
  qed simp
qed

section \<open>Properties\<close>

text \<open>
  C11: In every state a replay returns, the balance is donations less purchases and never
  negative, the members are exactly the donors, each once, every donation lies between the
  minimum and the bootstrap cap, every purchase has the declared price and an admitted
  signer, at most one purchase is pending, and the seedbox count is one plus the provisioned
  ones, each closing a different accepted purchase.
\<close>

theorem replay_invariant:
  assumes "1 \<le> min_sats (admission m)"
    and "min_sats (admission m) \<le> effective_bootstrap_cap_sats (admission m)"
    and "replay_community fless m entries = Inr c"
  shows "community_inv m c"
proof -
  obtain ordered where "fold_entries m empty_community ordered = Inr c"
    using assms(3) by (auto simp: replay_community_def bindr_Inr_iff)
  from fold_entries_inv [OF empty_community_inv _ this] assms(1,2) show ?thesis by (simp add: policy_ok_def)
qed

definition small_manifest :: network_manifest where
  "small_manifest =
     \<lparr>nm_identity = [], admission = \<lparr>gatekeeper_address = ''tb1q'', min_sats = 10, min_confirmations = 1,
        bootstrap_cap_sats = 40, max_agents_per_seedbox = 1, seedbox_cost_sats = 30\<rparr>,
      genesis_peers = [], default_overlays = [], canonical_md_bytes = [], network_id = [1, 2]\<rparr>"

definition sample_donation :: "json \<Rightarrow> string \<Rightarrow> int \<Rightarrow> dict" where
  "sample_donation ts who n =
     [(''action'', JStr ''donation_intent''), (''timestamp'', ts), (''reporter_id'', JStr who),
      (''entry_hash'', JStr (''h'' @ who)),
      (''details'', JObj [(''network_id_hex'', JStr ''0102''), (''amount_sats'', JInt n)])]"

definition sample_purchase :: "json \<Rightarrow> string \<Rightarrow> dict" where
  "sample_purchase ts who =
     [(''action'', JStr ''seedbox_purchase_intent''), (''timestamp'', ts), (''reporter_id'', JStr who),
      (''entry_hash'', JStr ''hp''),
      (''details'', JObj [(''network_id_hex'', JStr ''0102''), (''cost_sats'', JInt 30)])]"

definition sample_community :: community_state where
  "sample_community =
     \<lparr>members = [''a'', ''b''],
      donations = [\<lparr>di_reporter_id = ''a'', di_amount_sats = 40, di_timestamp = JStr ''1'', di_entry_hash = JStr ''ha''\<rparr>,
        \<lparr>di_reporter_id = ''b'', di_amount_sats = 20, di_timestamp = JStr ''2'', di_entry_hash = JStr ''hb''\<rparr>],
      purchases = [\<lparr>pi_reporter_id = ''a'', pi_cost_sats = 30, pi_timestamp = JStr ''3'', pi_entry_hash = JStr ''hp''\<rparr>],
      provisioned = [], balance_sats = 30, seedbox_count = 1\<rparr>"

lemma sample_replay:
  "replay_community (\<lambda>_ _. False) small_manifest
     [sample_purchase (JStr ''3'') ''a'', sample_donation (JStr ''2'') ''b'' 20, sample_donation (JStr ''1'') ''a'' 40]
   = Inr sample_community"
  by code_simp

lemma replay_invariant_witness: "community_inv small_manifest sample_community"
  by (rule replay_invariant [OF _ _ sample_replay])
    (simp_all add: small_manifest_def effective_bootstrap_cap_sats_def)

text \<open>
  C12: The replay depends only on the set of entries: with string ordering fields and no two
  different entries with the same fields, any permutation gives the same result, and an
  entry that is present twice counts once.
\<close>

theorem replay_order_independent:
  assumes "replayable es"
  shows "(mset es = mset fs \<longrightarrow> replay_community fless m fs = replay_community fless m es) \<and>
    (e \<in> set es \<longrightarrow> replay_community fless m (e # es) = replay_community fless m es)"
proof
  show "mset es = mset fs \<longrightarrow> replay_community fless m fs = replay_community fless m es"
  proof
    assume perm: "mset es = mset fs"
    then have set: "set es = set fs" by (rule mset_eq_setD)
    have fs: "replayable fs" using assms set by (simp add: replayable_def list_all_iff)
    have "mset (filter is_action es) = mset (filter is_action fs)" using perm by simp
    then have "sort_key entry_key (filter is_action es) = sort_key entry_key (filter is_action fs)"
      using assms by (intro sort_key_inj_key_eq) (simp_all add: replayable_def)
    then show "replay_community fless m fs = replay_community fless m es"
      by (simp add: replay_sorted [OF assms] replay_sorted [OF fs])
  qed
  show "e \<in> set es \<longrightarrow> replay_community fless m (e # es) = replay_community fless m es"
  proof
    assume e: "e \<in> set es"
    then have dup: "replayable (e # es)"
      using assms by (auto simp: replayable_def list_all_iff insert_absorb split: if_splits)
    show "replay_community fless m (e # es) = replay_community fless m es"
    proof (cases "is_action e")
      case False
      then show ?thesis by (simp add: replay_sorted [OF assms] replay_sorted [OF dup])
    next
      case True
      let ?l = "sort_key entry_key (filter is_action es)"
      have "inj_on entry_key (set ?l)" "e \<in> set ?l" using assms e True by (simp_all add: replayable_def)
      then obtain xs ys where "?l = xs @ e # ys" "insort_key entry_key e ?l = xs @ e # e # ys"
        using insort_repeated [of entry_key ?l e] by auto
      with True show ?thesis
        by (simp add: replay_sorted [OF assms] replay_sorted [OF dup] fold_entries_twice)
    qed
  qed
qed

lemma replay_order_independent_witness:
  "replay_community (\<lambda>_ _. False) small_manifest
     [sample_donation (JStr ''1'') ''a'' 40, sample_donation (JStr ''2'') ''b'' 20, sample_purchase (JStr ''3'') ''a'']
   = replay_community (\<lambda>_ _. False) small_manifest
     [sample_purchase (JStr ''3'') ''a'', sample_donation (JStr ''2'') ''b'' 20, sample_donation (JStr ''1'') ''a'' 40]"
proof -
  let ?es = "[sample_purchase (JStr ''3'') ''a'', sample_donation (JStr ''2'') ''b'' 20, sample_donation (JStr ''1'') ''a'' 40]"
  let ?fs = "[sample_donation (JStr ''1'') ''a'' 40, sample_donation (JStr ''2'') ''b'' 20, sample_purchase (JStr ''3'') ''a'']"
  have "replayable ?es"
    by (simp add: replayable_def hashable_action_def is_action_def str_keys_def sort_key_of_def
        sample_donation_def sample_purchase_def get_or_def community_actions_def entry_key_def)
  from replay_order_independent [OF this, of ?fs] show ?thesis by simp
qed

lemma replay_raises_on_mixed_timestamps:
  assumes "d \<in> set es" and "is_action d" and "is_str (get_or d ''timestamp'' (JStr []))"
    and "e \<in> set es" and "is_action e" and "\<not> is_str (get_or e ''timestamp'' (JStr []))"
  shows "\<exists>x. replay_community fless m es = Inl x"
proof (cases "filterr (\<lambda>e. in_actions (jget e ''action'')) es")
  case (Inr relevant)
  have mem: "d \<in> set relevant" "e \<in> set relevant"
    using filterr_InrD [OF Inr] assms by (auto simp: is_action_def)
  have "\<exists>x. sort_entries fless relevant = Inl x"
  proof (cases "sort_entries fless relevant")
    case (Inr r)
    have "str_time d = str_time e" using sort_entries_same [OF Inr] mem by blast
    with assms(3,6) show ?thesis by (simp add: str_time_def)
  qed simp
  with Inr show ?thesis by (auto simp: replay_community_def)
qed (simp add: replay_community_def)

lemma replay_raises_on_non_object_details:
  assumes "e \<in> set es" and "is_action e" and "truthy (jget e ''details'')" and "\<not> is_dict (jget e ''details'')"
  shows "\<exists>x. replay_community fless m es = Inl x"
proof (cases "filterr (\<lambda>e. in_actions (jget e ''action'')) es")
  case (Inr relevant)
  have mem: "e \<in> set relevant" using filterr_InrD [OF Inr] assms by (auto simp: is_action_def)
  have det: "details_of e = Inl AttributeError"
    using assms(3,4) by (cases "jget e ''details''") (auto simp: details_of_def)
  show ?thesis
  proof (cases "sort_entries fless relevant")
    case (Inr r)
    have "e \<in> set r" using sort_entries_same [OF Inr] mem by simp
    then obtain y where "fold_entries m empty_community r = Inl y" using fold_entries_raises [OF _ det] by blast
    with Inr \<open>filterr _ _ = Inr relevant\<close> show ?thesis by (simp add: replay_community_def)
  qed (use Inr in \<open>simp add: replay_community_def\<close>)
qed (simp add: replay_community_def)

text \<open>
  A replay raises as a whole, whatever else it is given, when two recognised entries
  differ in whether their timestamp is a string, or when one recognised entry has details
  that are a non-empty value other than an object.
\<close>

lemma replay_raises:
  assumes "(\<exists>d \<in> set es. \<exists>e \<in> set es. is_action d \<and> is_action e \<and>
      is_str (get_or d ''timestamp'' (JStr [])) \<and> \<not> is_str (get_or e ''timestamp'' (JStr []))) \<or>
    (\<exists>e \<in> set es. is_action e \<and> truthy (jget e ''details'') \<and> \<not> is_dict (jget e ''details''))"
  shows "\<exists>x. replay_community fless m es = Inl x"
  using assms by (auto intro: replay_raises_on_mixed_timestamps replay_raises_on_non_object_details)

lemma replay_raises_witness:
  "(\<exists>x. replay_community (\<lambda>_ _. False) small_manifest
     [sample_donation (JStr ''1'') ''a'' 40, sample_donation (JInt 2) ''b'' 20] = Inl x) \<and>
   (\<exists>x. replay_community (\<lambda>_ _. False) small_manifest
     [sample_donation (JStr ''1'') ''a'' 40, [(''action'', JStr ''donation_intent''), (''details'', JStr ''d'')]] = Inl x)"
proof
  show "\<exists>x. replay_community (\<lambda>_ _. False) small_manifest
     [sample_donation (JStr ''1'') ''a'' 40, sample_donation (JInt 2) ''b'' 20] = Inl x"
    by (rule replay_raises) (simp add: sample_donation_def is_action_def get_or_def community_actions_def)
  show "\<exists>x. replay_community (\<lambda>_ _. False) small_manifest
     [sample_donation (JStr ''1'') ''a'' 40, [(''action'', JStr ''donation_intent''), (''details'', JStr ''d'')]] = Inl x"
    by (rule replay_raises) (simp add: sample_donation_def is_action_def get_or_def community_actions_def)
qed

end
