(* ===== verification/Append_Log.thy ===== *)
theory Append_Log
  imports Signed_Log_Appends Hash_Chain
begin

text \<open>
  The unsigned append-only log (security/subq2_accountability/append_log.py): run metadata,
  appending, and the two-pass integrity check.  Its file and its readers are those of the
  signed log's base class, which is a copy of this code; the hash of an entry leaves out
  only the hash itself.
\<close>

section \<open>Operations\<close>

definition unsigned_hash :: "env \<Rightarrow> dict \<Rightarrow> string" where
  "unsigned_hash E entry = stable_hash E (JObj (AList.delete ''entry_hash'' entry))"

definition unsigned_body ::
  "env \<Rightarrow> dict \<Rightarrow> json \<Rightarrow> string \<Rightarrow> string \<Rightarrow> string \<Rightarrow> string \<Rightarrow> dict \<Rightarrow> int \<Rightarrow> dict \<Rightarrow> dict" where
  "unsigned_body E meta previous timestamp reporter_id subject_id action details severity evidence =
     [(''version'', JInt 2),
      (''timestamp'', JStr timestamp),
      (''run_id'', get_or meta ''run_id'' (JStr [])),
      (''experiment_condition'', get_or meta ''experiment_condition'' (JStr [])),
      (''run_metadata'', JObj meta),
      (''reporter_id'', JStr reporter_id),
      (''subject_id'', JStr subject_id),
      (''action'', JStr action),
      (''severity'', JInt severity),
      (''details'', JObj details),
      (''evidence'', JObj evidence),
      (''details_hash'', JStr (stable_hash E (JObj details))),
      (''evidence_hash'', JStr (stable_hash E (JObj evidence))),
      (''previous_hash'', previous)]"

definition unsigned_append_event ::
  "env \<Rightarrow> dict \<Rightarrow> log_file \<Rightarrow> nat \<Rightarrow> string \<Rightarrow> string \<Rightarrow> string \<Rightarrow> string \<Rightarrow> dict \<Rightarrow> int \<Rightarrow> dict option \<Rightarrow>
     dict option \<Rightarrow> (dict \<times> log_file) res" where
  "unsigned_append_event E run_metadata f now timestamp reporter_id subject_id action details severity
       evidence extra_metadata =
     bindr (base_latest_hash E f) (\<lambda>previous_hash.
       let meta = merge_dict run_metadata (case extra_metadata of None \<Rightarrow> [] | Some d \<Rightarrow> d);
           ev = (case evidence of None \<Rightarrow> [] | Some d \<Rightarrow> d);
           e0 = unsigned_body E meta previous_hash timestamp reporter_id subject_id action details severity ev;
           entry = AList.update ''entry_hash'' (JStr (unsigned_hash E e0)) e0
       in Inr (entry, append_text f now (dumps_default (JObj entry) @ [nl])))"

text \<open>The backward-compatible helper: the reporter is the subject unless another is named.\<close>

definition unsigned_append ::
  "env \<Rightarrow> dict \<Rightarrow> log_file \<Rightarrow> nat \<Rightarrow> string \<Rightarrow> string \<Rightarrow> string \<Rightarrow> dict \<Rightarrow> string option \<Rightarrow> int \<Rightarrow> dict option \<Rightarrow>
     (dict \<times> log_file) res" where
  "unsigned_append E run_metadata f now timestamp agent_id action details subject_id severity evidence =
     unsigned_append_event E run_metadata f now timestamp agent_id
       (case subject_id of None \<Rightarrow> agent_id | Some s \<Rightarrow> if s = [] then agent_id else s)
       action details severity evidence None"

datatype unsigned_error =
    LineMalformed nat
  | LineVersion nat
  | EntryPrevious nat
  | EntryHashWrong nat

fun unsigned_collect :: "env \<Rightarrow> nat \<Rightarrow> string list \<Rightarrow> (unsigned_error list \<times> dict list) res" where
  "unsigned_collect E n [] = Inr ([], [])"
| "unsigned_collect E n (line # ls) =
     (if startswith line ''==='' \<or> strip line = [] then unsigned_collect E (Suc n) ls
      else
        (case loads (float_repr E) (strip line) of
           None \<Rightarrow> bindr (unsigned_collect E (Suc n) ls) (\<lambda>(errs, es). Inr (LineMalformed n # errs, es))
         | Some (JObj e) \<Rightarrow>
             bindr (unsigned_collect E (Suc n) ls) (\<lambda>(errs, es).
               if py_eq (jget e ''version'') (JInt 2) then Inr (errs, e # es) else Inr (LineVersion n # errs, es))
         | Some _ \<Rightarrow> Inl AttributeError))"

fun unsigned_check :: "env \<Rightarrow> nat \<Rightarrow> json \<Rightarrow> dict list \<Rightarrow> unsigned_error list" where
  "unsigned_check E i prev [] = []"
| "unsigned_check E i prev (e # es) =
     (if \<not> py_eq (jget e ''previous_hash'') prev then [EntryPrevious i] else []) @
     (if jget e ''entry_hash'' \<noteq> JStr (unsigned_hash E e) then [EntryHashWrong i] else []) @
     unsigned_check E (Suc i) (get_or e ''entry_hash'' prev) es"

text \<open>\<open>None\<close> as the error list is the missing file.\<close>

definition unsigned_verify :: "env \<Rightarrow> log_file \<Rightarrow> (bool \<times> unsigned_error list option) res" where
  "unsigned_verify E f = (case content f of
     None \<Rightarrow> Inr (False, None)
   | Some t \<Rightarrow>
       bindr (unsigned_collect E 1 (text_lines t)) (\<lambda>(line_errors, entries).
         let errors = line_errors @ unsigned_check E 1 genesis entries
         in Inr (length errors = 0, Some errors)))"

section \<open>The chain\<close>

abbreviation unsigned_payload :: "dict \<Rightarrow> bytes" where
  "unsigned_payload e \<equiv> canonical_bytes (JObj (AList.delete ''entry_hash'' e))"

interpretation unsigned_chain: hash_chain
  "\<lambda>e. digest_ok E \<and> wf_dict (float_repr E) e" "\<lambda>e. jget e ''previous_hash''" "unsigned_hash E"
  unsigned_payload "sha256 E" "''GENESIS''" for E :: env
proof unfold_locales
  fix e e' :: dict
  assume "unsigned_hash E e = unsigned_hash E e'"
  then show "sha256 E (unsigned_payload e) = sha256 E (unsigned_payload e')"
    by (simp add: unsigned_hash_def stable_hash_def sha256_hex_def bytes_hex_inj)
next
  fix e e' :: dict and s
  assume ok: "digest_ok E \<and> wf_dict (float_repr E) e" "digest_ok E \<and> wf_dict (float_repr E) e'"
    and pay: "unsigned_payload e = unsigned_payload e'" and prev: "jget e ''previous_hash'' = JStr s"
  have wf: "wf_dict (float_repr E) (AList.delete ''entry_hash'' e)" "wf_dict (float_repr E) (AList.delete ''entry_hash'' e')"
    using ok wf_dict_delete by blast+
  have get: "jget (AList.delete ''entry_hash'' d) ''previous_hash'' = jget d ''previous_hash''" for d
    by (simp add: get_or_def delete_conv')
  from canonical_field [OF wf pay, of "''previous_hash''" s] prev
  show "jget e' ''previous_hash'' = JStr s" by (simp add: get)
next
  fix e :: dict
  assume "digest_ok E \<and> wf_dict (float_repr E) e"
  then show "unsigned_hash E e \<noteq> ''GENESIS''" using stable_hash_not_genesis by (simp add: unsigned_hash_def)
qed

lemma unsigned_collect_entries:
  assumes "\<forall>e \<in> set es. wf_dict (float_repr E) e \<and> version2 e"
  shows "unsigned_collect E n (map json_line es) = Inr ([], es)"
  using assms
proof (induction es arbitrary: n)
  case Nil
  then show ?case by simp
next
  case (Cons e es)
  then have "wf_dict (float_repr E) e" by simp
  from loads_json_line(2) [OF this] Cons show ?case by (simp add: version2_def del: wf_json.simps)
qed

lemma unsigned_verify_holds:
  assumes "file_holds E f es" and "\<forall>e \<in> set es. version2 e"
  shows "unsigned_verify E f = Inr (unsigned_check E 1 genesis es = [], Some (unsigned_check E 1 genesis es))"
proof -
  have wf: "\<forall>e \<in> set es. wf_dict (float_repr E) e" and c: "content f = Some (log_text es)"
    using assms by (simp_all add: file_holds_def)
  have "startswith (log_header @ [nl]) ''===''" by (rule log_header_line(2))
  then have "unsigned_collect E 1 (text_lines (log_text es)) = Inr ([], es)"
    using unsigned_collect_entries [of es E 2] wf assms(2)
    by (simp add: log_text_lines [OF wf] numeral_2_eq_2 del: wf_json.simps)
  then show ?thesis by (simp add: unsigned_verify_def c)
qed

lemma unsigned_check_append:
  "unsigned_check E i prev (es @ fs) = unsigned_check E i prev es @
     unsigned_check E (i + length es) (foldl (\<lambda>latest e. get_or e ''entry_hash'' latest) prev es) fs"
  by (induction es arbitrary: i prev) simp_all

lemma unsigned_check_chained:
  "unsigned_check E i (JStr p) es = [] \<Longrightarrow>
     chained (\<lambda>e. jget e ''previous_hash'') (unsigned_hash E) (JStr p) es \<and>
     foldl (\<lambda>latest e. get_or e ''entry_hash'' latest) (JStr p) es = chain_end (unsigned_hash E) (JStr p) es \<and>
     (\<forall>e \<in> set es. jget e ''entry_hash'' = JStr (unsigned_hash E e))"
proof (induction es arbitrary: i p)
  case Nil
  then show ?case by (simp add: chain_end_def)
next
  case (Cons e es)
  then have h: "jget e ''previous_hash'' = JStr p" "jget e ''entry_hash'' = JStr (unsigned_hash E e)"
    by (simp_all split: if_splits)
  have end_step: "get_or e ''entry_hash'' (JStr p) = JStr (unsigned_hash E e)"
    by (rule get_or_str [OF h(2)])
  have "unsigned_check E (Suc i) (get_or e ''entry_hash'' (JStr p)) es = []"
    using Cons.prems by (simp only: unsigned_check.simps append_is_Nil_conv)
  then have "unsigned_check E (Suc i) (JStr (unsigned_hash E e)) es = []" by (simp only: end_step)
  note IH = Cons.IH [OF this]
  have "chained (\<lambda>e. jget e ''previous_hash'') (unsigned_hash E) (JStr p) (e # es)"
    using IH h(1) by simp
  moreover have "foldl (\<lambda>latest e. get_or e ''entry_hash'' latest) (JStr p) (e # es) =
      chain_end (unsigned_hash E) (JStr p) (e # es)"
    unfolding foldl_Cons end_step using IH by (simp add: chain_end_def)
  ultimately show ?case using IH h(2) by simp
qed

text \<open>
  What the unsigned append-only log promises: appending to a verified log keeps it
  verified, and two verified logs with the same head hold the same entries.  Anybody may
  recompute the hashes, so nothing here says who wrote an entry.
\<close>

section \<open>Verified logs\<close>

definition unsigned_log_ok :: "env \<Rightarrow> log_file \<Rightarrow> dict list \<Rightarrow> bool" where
  "unsigned_log_ok E f es = (file_holds E f es \<and> unsigned_verify E f = Inr (True, Some []))"

lemma unsigned_collect_versions:
  assumes "\<forall>e \<in> set es. wf_dict (float_repr E) e"
  shows "\<exists>errs. unsigned_collect E n (map json_line es) = Inr (errs, filter version2 es) \<and>
    (errs = [] \<longleftrightarrow> (\<forall>e \<in> set es. version2 e))"
  using assms
proof (induction es arbitrary: n)
  case Nil
  then show ?case by simp
next
  case (Cons e es)
  then obtain errs where IH: "unsigned_collect E (Suc n) (map json_line es) = Inr (errs, filter version2 es)"
    "errs = [] \<longleftrightarrow> (\<forall>e \<in> set es. version2 e)" by force
  have "wf_dict (float_repr E) e" using Cons.prems by simp
  from loads_json_line(2) [OF this] IH show ?case
    by (simp add: version2_def [abs_def] del: wf_json.simps)
qed

lemma unsigned_log_ok_iff:
  "unsigned_log_ok E f es \<longleftrightarrow>
     file_holds E f es \<and> (\<forall>e \<in> set es. version2 e) \<and> unsigned_check E 1 genesis es = []"
proof (cases "file_holds E f es")
  case True
  then have wf: "\<forall>e \<in> set es. wf_dict (float_repr E) e" and c: "content f = Some (log_text es)"
    by (simp_all add: file_holds_def)
  obtain errs where col: "unsigned_collect E 2 (map json_line es) = Inr (errs, filter version2 es)"
    "errs = [] \<longleftrightarrow> (\<forall>e \<in> set es. version2 e)"
    using unsigned_collect_versions [OF wf] by blast
  have "unsigned_verify E f = Inr (errs @ unsigned_check E 1 genesis (filter version2 es) = [],
      Some (errs @ unsigned_check E 1 genesis (filter version2 es)))"
    using col(1) log_header_line(2) log_text_lines [OF wf]
    by (simp add: unsigned_verify_def c Let_def numeral_2_eq_2)
  with True col(2) show ?thesis by (auto simp: unsigned_log_ok_def filter_id_conv)
qed (simp add: unsigned_log_ok_def)

lemma unsigned_log_chain:
  assumes "unsigned_log_ok E f es"
  shows "chained (\<lambda>e. jget e ''previous_hash'') (unsigned_hash E) genesis es"
    and "base_latest_hash E f = Inr (chain_head es)"
    and "chain_head es = chain_end (unsigned_hash E) genesis es"
proof -
  have ok: "file_holds E f es" "\<forall>e \<in> set es. version2 e" "unsigned_check E 1 (JStr ''GENESIS'') es = []"
    using assms by (simp_all add: unsigned_log_ok_iff genesis_def)
  note ch = unsigned_check_chained [OF ok(3)]
  from ch show "chained (\<lambda>e. jget e ''previous_hash'') (unsigned_hash E) genesis es"
    by (simp add: genesis_def)
  from ok(1,2) show "base_latest_hash E f = Inr (chain_head es)"
    by (simp add: base_latest_hash_def read_entries_holds filter_id_conv)
  from ch show "chain_head es = chain_end (unsigned_hash E) genesis es"
    unfolding chain_head_def genesis_def by blast
qed

section \<open>Appending\<close>

definition sealed_body ::
  "env \<Rightarrow> dict \<Rightarrow> json \<Rightarrow> string \<Rightarrow> string \<Rightarrow> string \<Rightarrow> string \<Rightarrow> dict \<Rightarrow> int \<Rightarrow> dict \<Rightarrow> dict" where
  "sealed_body E meta p ts rep sub act details sev ev =
     (let e0 = unsigned_body E meta p ts rep sub act details sev ev
      in AList.update ''entry_hash'' (JStr (unsigned_hash E e0)) e0)"

lemma sealed_body_get:
  "jget (sealed_body E meta p ts rep sub act details sev ev) ''entry_hash'' =
     JStr (unsigned_hash E (sealed_body E meta p ts rep sub act details sev ev))"
  "jget (sealed_body E meta p ts rep sub act details sev ev) ''previous_hash'' = p"
  "version2 (sealed_body E meta p ts rep sub act details sev ev)"
  by (simp_all add: sealed_body_def unsigned_body_def unsigned_hash_def get_or_def version2_def)

lemma sealed_body_wf:
  assumes "wf_dict fr meta" "wf_dict fr details" "wf_dict fr ev"
  shows "wf_dict fr (sealed_body E meta (JStr p) ts rep sub act details sev ev)"
  using assms wf_get_str [OF assms(1)] by (simp add: sealed_body_def unsigned_body_def)

lemma unsigned_append_sealed:
  "unsigned_append_event E run_meta f now ts rep sub act details sev evid extra =
     bindr (base_latest_hash E f) (\<lambda>p.
       let e = sealed_body E (merge_dict run_meta (case extra of None \<Rightarrow> [] | Some d \<Rightarrow> d)) p ts rep sub act
                 details sev (case evid of None \<Rightarrow> [] | Some d \<Rightarrow> d)
       in Inr (e, append_text f now (dumps_default (JObj e) @ [nl])))"
  by (simp add: unsigned_append_event_def sealed_body_def Let_def)

text \<open>
  Appending an event to a verified unsigned log succeeds; the new log is verified, holds
  the old entries and the new one, and its head is the hash of the new entry.
\<close>

lemma unsigned_append_keeps_verified:
  assumes "unsigned_log_ok E f es" and "wf_dict (float_repr E) run_meta"
    and "wf_dict (float_repr E) details" and "evidence_wf E evid" and "evidence_wf E extra"
  shows "\<exists>e f'. unsigned_append_event E run_meta f now ts rep sub act details sev evid extra = Inr (e, f') \<and>
    unsigned_log_ok E f' (es @ [e]) \<and>
    jget e ''previous_hash'' = chain_head es \<and>
    base_latest_hash E f' = Inr (JStr (unsigned_hash E e))"
proof -
  note ch = unsigned_log_chain [OF assms(1)]
  obtain p where p: "chain_head es = JStr p"
    using ch(3) chain_end_str [OF genesis_def] by metis
  define e where "e = sealed_body E (merge_dict run_meta (case extra of None \<Rightarrow> [] | Some d \<Rightarrow> d)) (JStr p) ts
     rep sub act details sev (case evid of None \<Rightarrow> [] | Some d \<Rightarrow> d)"
  let ?f = "append_text f now (dumps_default (JObj e) @ [nl])"
  have run: "unsigned_append_event E run_meta f now ts rep sub act details sev evid extra = Inr (e, ?f)"
    by (simp add: unsigned_append_sealed ch(2) p e_def Let_def)
  have wf: "wf_dict (float_repr E) e"
    unfolding e_def using assms(2-5)
    by (intro sealed_body_wf wf_merge) (auto simp: evidence_wf_def split: option.splits)
  note get = sealed_body_get [of E _ "JStr p" ts rep sub act details sev, folded e_def]
  have e: "jget e ''entry_hash'' = JStr (unsigned_hash E e)" "jget e ''previous_hash'' = JStr p" "version2 e"
    unfolding e_def by (rule sealed_body_get)+
  have old: "file_holds E f es" "\<forall>e \<in> set es. version2 e" "unsigned_check E 1 genesis es = []"
    using assms(1) by (simp_all add: unsigned_log_ok_iff)
  have "unsigned_check E 1 genesis (es @ [e]) = []"
    using old(3) e(1,2) p by (simp add: unsigned_check_append chain_head_def)
  then have ok: "unsigned_log_ok E ?f (es @ [e])"
    using append_file_holds [OF old(1) wf] old(2) e(3) by (simp add: unsigned_log_ok_iff)
  have "base_latest_hash E ?f = Inr (JStr (unsigned_hash E e))"
    using unsigned_log_chain(2,3) [OF ok] by (simp add: chain_end_def)
  with run ok e(2) p show ?thesis by auto
qed

lemma unsigned_append_keeps_verified_witness:
  "\<exists>e f'. unsigned_append_event sample_env [(''run_id'', JStr ''r1'')] empty_log 2 ''t'' ''rep'' ''sub''
      ''donation'' [] 1 None None = Inr (e, f') \<and>
    unsigned_log_ok sample_env f' ([] @ [e]) \<and>
    jget e ''previous_hash'' = chain_head [] \<and>
    base_latest_hash sample_env f' = Inr (JStr (unsigned_hash sample_env e))"
  by (rule unsigned_append_keeps_verified) (simp_all add: unsigned_log_ok_iff evidence_wf_def)

section \<open>The head fixes the log\<close>

text \<open>
  Two verified unsigned logs with the same head hash hold the same entries, up to the
  order of members, as long as the digest separates the entries at hand.
\<close>

lemma unsigned_head_fixes_entries:
  assumes "digest_ok E" and "unsigned_log_ok E f es" and "unsigned_log_ok E g fs"
    and "base_latest_hash E f = base_latest_hash E g"
    and "inj_on (sha256 E) (unsigned_payload ` (set es \<union> set fs))"
  shows "map (\<lambda>e. sort_keys (JObj (AList.delete ''entry_hash'' e))) es =
    map (\<lambda>e. sort_keys (JObj (AList.delete ''entry_hash'' e))) fs"
proof -
  note ch = unsigned_log_chain [OF assms(2)] unsigned_log_chain [OF assms(3)]
  have wf: "\<forall>e \<in> set es. wf_dict (float_repr E) e" "\<forall>e \<in> set fs. wf_dict (float_repr E) e"
    using assms(2,3) by (simp_all add: unsigned_log_ok_def file_holds_def)
  have ok: "list_all (\<lambda>e. digest_ok E \<and> wf_dict (float_repr E) e) es"
    "list_all (\<lambda>e. digest_ok E \<and> wf_dict (float_repr E) e) fs"
    using wf assms(1) by (simp_all add: list_all_iff)
  have ends: "chain_end (unsigned_hash E) (JStr ''GENESIS'') es = chain_end (unsigned_hash E) (JStr ''GENESIS'') fs"
    using ch(2,3,5,6) assms(4) by (simp add: genesis_def)
  have eq: "map unsigned_payload es = map unsigned_payload fs"
    by (rule unsigned_chain.same_end_same_payloads
        [OF ch(1) [unfolded genesis_def] ch(4) [unfolded genesis_def] ok ends assms(5)])
  show ?thesis
  proof (rule map_eq_lift [OF eq])
    fix x y assume "x \<in> set es" "y \<in> set fs" and pay: "unsigned_payload x = unsigned_payload y"
    then have "wf_dict (float_repr E) x" "wf_dict (float_repr E) y" using wf by blast+
    from this [THEN wf_dict_delete] pay
    show "sort_keys (JObj (AList.delete ''entry_hash'' x)) = sort_keys (JObj (AList.delete ''entry_hash'' y))"
      by (rule canonical_bytes_inj)
  qed
qed

definition sample_unsigned_entry :: dict where
  "sample_unsigned_entry = sealed_body sample_env [] genesis ''t'' ''rep'' ''sub'' ''donation'' [] 1 []"

definition sample_unsigned_log :: log_file where
  "sample_unsigned_log = append_text empty_log 2 (dumps_default (JObj sample_unsigned_entry) @ [nl])"

lemma sample_unsigned_ok: "unsigned_log_ok sample_env sample_unsigned_log [sample_unsigned_entry]"
proof -
  have "wf_dict (float_repr sample_env) sample_unsigned_entry"
    unfolding sample_unsigned_entry_def genesis_def by (rule sealed_body_wf) simp_all
  from append_file_holds [OF empty_log_holds this, of 2] show ?thesis
    using sealed_body_get [of sample_env "[]" genesis "''t''" "''rep''" "''sub''" "''donation''" "[]" 1 "[]",
        folded sample_unsigned_entry_def]
    by (simp add: unsigned_log_ok_iff sample_unsigned_log_def genesis_def)
qed

lemma unsigned_head_fixes_entries_witness:
  "map (\<lambda>e. sort_keys (JObj (AList.delete ''entry_hash'' e))) [sample_unsigned_entry] =
    map (\<lambda>e. sort_keys (JObj (AList.delete ''entry_hash'' e))) [sample_unsigned_entry]"
  by (rule unsigned_head_fixes_entries [OF sample_digest_ok sample_unsigned_ok sample_unsigned_ok refl]) simp

end
