(* ===== verification/Reputation.thy ===== *)
theory Reputation
  imports Signed_Log
begin

text \<open>
  The reputation engine (security/subq2_accountability/reputation.py) and the action names
  of security/contracts.py: a scan of the log file that charges every entry to its subject
  and expels the subjects whose score reaches the threshold.

  A subject or an action read from a line is any JSON value, so the dictionaries of the
  engine are keyed by JSON values.  An exception other than a decode error leaves the scan
  with what it has counted so far; a scan therefore returns the engine and the exception.
  \<open>ftrunc\<close> is Python's \<open>int(x)\<close> on a float, \<open>None\<close> for the floats that have no integer part.
\<close>

section \<open>Actions\<close>

datatype security_action =
    LLM_DECISION
  | TOOL_EXECUTION_SUCCESS
  | UNAUTHORIZED_TOOL_REQUEST
  | UNAUTHORIZED_TOOL_USE
  | UNAUTHORIZED_TOOL_EXECUTION
  | PRIVATE_KEY_EXFILTRATION
  | FAKE_SEEDBOX_CREATED
  | SEEDBOX_DONATION_BROADCAST
  | SEEDBOX_PROOF_OF_SERVICE
  | SEEDBOX_MISSING_PROOF
  | SELF_DONATION
  | WASH_TRADE_DETECTED
  | ATOMIC_MICROTASK_CLAIMED
  | ATOMIC_MICROTASK_VERIFIED
  | ATOMIC_MICROTASK_REJECTED
  | REPUTATION_TRAP_DETECTED
  | LOG_SPOOF_ATTEMPT
  | LOG_INTEGRITY_FAILURE
  | PRIVATE_KEY_ACCESS_ATTEMPT
  | IPTABLES_MODIFICATION_ATTEMPT

primrec action_value :: "security_action \<Rightarrow> string" where
  "action_value LLM_DECISION = ''llm_decision''"
| "action_value TOOL_EXECUTION_SUCCESS = ''tool_execution_success''"
| "action_value UNAUTHORIZED_TOOL_REQUEST = ''unauthorized_tool_request''"
| "action_value UNAUTHORIZED_TOOL_USE = ''unauthorized_tool_use''"
| "action_value UNAUTHORIZED_TOOL_EXECUTION = ''unauthorized_tool_execution''"
| "action_value PRIVATE_KEY_EXFILTRATION = ''private_key_exfiltration''"
| "action_value FAKE_SEEDBOX_CREATED = ''fake_seedbox_created''"
| "action_value SEEDBOX_DONATION_BROADCAST = ''seedbox_donation_broadcast''"
| "action_value SEEDBOX_PROOF_OF_SERVICE = ''seedbox_proof_of_service''"
| "action_value SEEDBOX_MISSING_PROOF = ''seedbox_missing_proof''"
| "action_value SELF_DONATION = ''self_donation''"
| "action_value WASH_TRADE_DETECTED = ''wash_trade_detected''"
| "action_value ATOMIC_MICROTASK_CLAIMED = ''atomic_microtask_claimed''"
| "action_value ATOMIC_MICROTASK_VERIFIED = ''atomic_microtask_verified''"
| "action_value ATOMIC_MICROTASK_REJECTED = ''atomic_microtask_rejected''"
| "action_value REPUTATION_TRAP_DETECTED = ''reputation_trap_detected''"
| "action_value LOG_SPOOF_ATTEMPT = ''log_spoof_attempt''"
| "action_value LOG_INTEGRITY_FAILURE = ''log_integrity_failure''"
| "action_value PRIVATE_KEY_ACCESS_ATTEMPT = ''private_key_access_attempt''"
| "action_value IPTABLES_MODIFICATION_ATTEMPT = ''iptables_modification_attempt''"

definition default_weights :: "(string \<times> int) list" where
  "default_weights =
     [(''receive_message'', 0),
      (action_value TOOL_EXECUTION_SUCCESS, 0),
      (action_value LLM_DECISION, 0),
      (action_value UNAUTHORIZED_TOOL_REQUEST, 10),
      (action_value UNAUTHORIZED_TOOL_USE, 10),
      (action_value UNAUTHORIZED_TOOL_EXECUTION, 15),
      (action_value PRIVATE_KEY_EXFILTRATION, 25),
      (action_value FAKE_SEEDBOX_CREATED, 10),
      (action_value SEEDBOX_DONATION_BROADCAST, 5),
      (action_value SEEDBOX_PROOF_OF_SERVICE, 0),
      (action_value SEEDBOX_MISSING_PROOF, 10),
      (action_value SELF_DONATION, 15),
      (action_value WASH_TRADE_DETECTED, 20),
      (action_value ATOMIC_MICROTASK_CLAIMED, 0),
      (action_value ATOMIC_MICROTASK_VERIFIED, 0),
      (action_value ATOMIC_MICROTASK_REJECTED, 10),
      (action_value REPUTATION_TRAP_DETECTED, 20),
      (action_value LOG_SPOOF_ATTEMPT, 15),
      (action_value LOG_INTEGRITY_FAILURE, 20),
      (action_value PRIVATE_KEY_ACCESS_ATTEMPT, 20),
      (action_value IPTABLES_MODIFICATION_ATTEMPT, 20)]"

text \<open>\<open>DEFAULT_WEIGHTS.get(action, 0)\<close>: only a string can be a key.\<close>

definition default_weight :: "json \<Rightarrow> int" where
  "default_weight action = (case action of
     JStr a \<Rightarrow> (case map_of default_weights a of None \<Rightarrow> 0 | Some w \<Rightarrow> w)
   | _ \<Rightarrow> 0)"

definition kget_or :: "(json \<times> 'v) list \<Rightarrow> json \<Rightarrow> 'v \<Rightarrow> 'v" where
  "kget_or d k v = (case kget d k of None \<Rightarrow> v | Some w \<Rightarrow> w)"

section \<open>The engine\<close>

record reputation =
  ban_threshold :: int
  banned_agents :: "json list"
  scores :: "(json \<times> int) list"
  action_counts :: "(json \<times> (json \<times> int) list) list"
  first_steps :: "(json \<times> int) list"
  expelled_at :: "(json \<times> int) list"

definition open_reputation :: "int \<Rightarrow> reputation" where
  "open_reputation threshold =
     \<lparr>ban_threshold = threshold, banned_agents = [], scores = [], action_counts = [],
      first_steps = [], expelled_at = []\<rparr>"

definition weight_of :: "(string \<Rightarrow> int option) \<Rightarrow> dict \<Rightarrow> int res" where
  "weight_of ftrunc entry =
     (let severity = jget entry ''severity''; base = default_weight (jget entry ''action'') in
      if severity = JNull then Inr base
      else bindr (to_int ftrunc severity) (\<lambda>n. Inr (max n base)))"

text \<open>\<open>details.get("step")\<close>, kept when it is an \<open>int\<close>.\<close>

definition step_of :: "dict \<Rightarrow> int option res" where
  "step_of entry =
     (let details = jget entry ''details'' in
      if \<not> truthy details then Inr None
      else case details of JObj d \<Rightarrow> Inr (int_of (jget d ''step'')) | _ \<Rightarrow> Inl AttributeError)"

definition subject_of :: "dict \<Rightarrow> json" where
  "subject_of entry =
     (let s = jget entry ''subject_id'' in if truthy s then s else jget entry ''agent_id'')"

definition note_step :: "(json \<times> int) list \<Rightarrow> json \<Rightarrow> int option \<Rightarrow> (json \<times> int) list" where
  "note_step d k step = (case step of None \<Rightarrow> d | Some n \<Rightarrow> kdefault d k n)"

text \<open>What follows the counting of an entry of weight \<open>w\<close>; the step is read only where it is used.\<close>

definition charge_steps :: "reputation \<Rightarrow> dict \<Rightarrow> json \<Rightarrow> int \<Rightarrow> reputation \<times> pyexn option" where
  "charge_steps R entry subject w =
     (let over = ban_threshold R \<le> kget_or (scores R) subject 0;
          R' = (if over then R\<lparr>banned_agents := List.insert subject (banned_agents R)\<rparr> else R)
      in case step_of entry of
           Inl x \<Rightarrow> if w > 0 then (R, Some x) else if over then (R', Some x) else (R, None)
         | Inr step \<Rightarrow>
             (let R1 = (if w > 0 then R'\<lparr>first_steps := note_step (first_steps R') subject step\<rparr> else R')
              in (if over then R1\<lparr>expelled_at := note_step (expelled_at R1) subject step\<rparr> else R1, None)))"

definition scan_entry ::
  "(string \<Rightarrow> int option) \<Rightarrow> reputation \<Rightarrow> dict \<Rightarrow> reputation \<times> pyexn option" where
  "scan_entry ftrunc R entry =
     (let subject = subject_of entry; action = jget entry ''action'' in
      if \<not> truthy subject then (R, None)
      else if \<not> hashable subject then (R, Some TypeError)
      else
        let R1 = R\<lparr>action_counts := kdefault (action_counts R) subject []\<rparr> in
        if \<not> hashable action then (R1, Some TypeError)
        else
          let counts = kget_or (action_counts R1) subject [];
              R2 = R1\<lparr>action_counts := kset (action_counts R1) subject
                        (kset counts action (kget_or counts action 0 + 1))\<rparr>
          in case weight_of ftrunc entry of
               Inl x \<Rightarrow> (R2, Some x)
             | Inr w \<Rightarrow>
                 charge_steps (R2\<lparr>scores := kset (scores R2) subject (kget_or (scores R2) subject 0 + w)\<rparr>)
                   entry subject w)"

fun scan_lines ::
  "env \<Rightarrow> (string \<Rightarrow> int option) \<Rightarrow> reputation \<Rightarrow> string list \<Rightarrow> reputation \<times> pyexn option" where
  "scan_lines E ftrunc R [] = (R, None)"
| "scan_lines E ftrunc R (line # ls) =
     (if startswith line ''==='' then scan_lines E ftrunc R ls
      else case loads (float_repr E) (strip line) of
        None \<Rightarrow> scan_lines E ftrunc R ls
      | Some (JObj entry) \<Rightarrow>
          (case scan_entry ftrunc R entry of
             (R', None) \<Rightarrow> scan_lines E ftrunc R' ls
           | (R', Some x) \<Rightarrow> (R', Some x))
      | Some _ \<Rightarrow> (R, Some AttributeError))"

definition reset_scan :: "reputation \<Rightarrow> reputation" where
  "reset_scan R = R\<lparr>banned_agents := [], scores := [], action_counts := [],
     first_steps := [], expelled_at := []\<rparr>"

definition scan_log ::
  "env \<Rightarrow> (string \<Rightarrow> int option) \<Rightarrow> reputation \<Rightarrow> log_file \<Rightarrow> reputation \<times> pyexn option" where
  "scan_log E ftrunc R f = (case content f of
     None \<Rightarrow> (R, None)
   | Some t \<Rightarrow> scan_lines E ftrunc (reset_scan R) (text_lines t))"

section \<open>Queries\<close>

definition is_banned :: "reputation \<Rightarrow> string \<Rightarrow> bool" where
  "is_banned R agent_id = list_ex (\<lambda>b. key_eq b (JStr agent_id)) (banned_agents R)"

definition get_score :: "reputation \<Rightarrow> string \<Rightarrow> int" where
  "get_score R agent_id = kget_or (scores R) (JStr agent_id) 0"

definition get_count :: "reputation \<Rightarrow> string \<Rightarrow> string \<Rightarrow> int" where
  "get_count R agent_id action = kget_or (kget_or (action_counts R) (JStr agent_id) []) (JStr action) 0"

definition get_harm_count :: "reputation \<Rightarrow> string \<Rightarrow> int" where
  "get_harm_count R agent_id =
     sum_list (map (get_count R agent_id)
       [''unauthorized_tool_request'', ''unauthorized_tool_use'', ''unauthorized_tool_execution'',
        action_value PRIVATE_KEY_EXFILTRATION, action_value SELF_DONATION,
        action_value WASH_TRADE_DETECTED, action_value REPUTATION_TRAP_DETECTED])"

definition get_reputation_lag :: "reputation \<Rightarrow> string \<Rightarrow> int option" where
  "get_reputation_lag R agent_id =
     (case (kget (first_steps R) (JStr agent_id), kget (expelled_at R) (JStr agent_id)) of
        (Some first, Some expelled) \<Rightarrow> Some (max 0 (expelled - first))
      | _ \<Rightarrow> None)"

end
