(* ===== verification/Seedbox.thy ===== *)
theory Seedbox
  imports Crypto_Env
begin

text \<open>
  The seedbox registry and its ledgers (security/subq2_accountability/seedbox.py), the
  donation anchors (security/subq2_accountability/bitcoin_anchor.py) and the evidence records
  of security/contracts.py.  A ledger reads the registry it was built with, so its operations
  take the registry; a timestamp the code reads from the clock is an argument.
\<close>

section \<open>Anchors\<close>

record bitcoin_anchor =
  ba_txid :: string
  ba_donation_address :: string
  ba_amount_sats :: int
  ba_seedbox_id :: string
  ba_network :: string
  ba_confirmations :: int
  ba_output_index :: "int option"
  ba_verified :: bool
  ba_verification_reason :: string
  ba_anchor_id :: string

definition anchor_dict :: "bitcoin_anchor \<Rightarrow> dict" where
  "anchor_dict a =
     [(''txid'', JStr (ba_txid a)), (''donation_address'', JStr (ba_donation_address a)),
      (''amount_sats'', JInt (ba_amount_sats a)), (''seedbox_id'', JStr (ba_seedbox_id a)),
      (''network'', JStr (ba_network a)), (''confirmations'', JInt (ba_confirmations a)),
      (''output_index'', (case ba_output_index a of None \<Rightarrow> JNull | Some i \<Rightarrow> JInt i)),
      (''verified'', JBool (ba_verified a)),
      (''verification_reason'', JStr (ba_verification_reason a)),
      (''anchor_id'', JStr (ba_anchor_id a))]"

record anchor_verifier =
  av_network :: string
  av_min_confirmations :: int

definition anchor_verifier_for :: "string \<Rightarrow> int \<Rightarrow> anchor_verifier" where
  "anchor_verifier_for network min_confirmations =
     \<lparr>av_network = (let n = lower (strip network) in if n = [] then ''mock'' else n),
      av_min_confirmations = max 0 min_confirmations\<rparr>"

definition is_alnum_ascii :: "char \<Rightarrow> bool" where
  "is_alnum_ascii c = (is_digit c \<or> (CHR ''a'' \<le> c \<and> c \<le> CHR ''z'') \<or> (CHR ''A'' \<le> c \<and> c \<le> CHR ''Z''))"

definition is_hex_any :: "char \<Rightarrow> bool" where
  "is_hex_any c = (is_digit c \<or> (CHR ''a'' \<le> c \<and> c \<le> CHR ''f'') \<or> (CHR ''A'' \<le> c \<and> c \<le> CHR ''F''))"

definition hex_txid :: "string \<Rightarrow> bool" where
  "hex_txid s = (length s = 64 \<and> list_all is_hex_any s)"

definition mock_txid :: "string \<Rightarrow> bool" where
  "mock_txid s = list_ex (\<lambda>p.
     startswith s p \<and>
     (case drop (length p) s of
        c # rest \<Rightarrow> (c = CHR ''-'' \<or> c = CHR ''_'') \<and> rest \<noteq> [] \<and>
          list_all (\<lambda>d. is_alnum_ascii d \<or> d \<in> set ''._:-'') rest
      | [] \<Rightarrow> False)) [''mock'', ''demo'', ''tx'', ''regtest'']"

definition anchor_verify :: "anchor_verifier \<Rightarrow> string \<Rightarrow> string \<Rightarrow> int \<Rightarrow> int \<Rightarrow> bool \<times> string" where
  "anchor_verify V txid donation_address amount_sats confirmations =
     (if donation_address = [] then (False, ''missing donation address'')
      else if amount_sats \<le> 0 then (False, ''amount_sats must be positive'')
      else if confirmations < av_min_confirmations V then (False, ''insufficient confirmations'')
      else if hex_txid txid then (True, ''64-hex transaction id'')
      else if av_network V \<in> {''mock'', ''regtest''} \<and> mock_txid txid
        then (True, av_network V @ '' experiment transaction id'')
      else (False, ''transaction id is not a Bitcoin txid or accepted local experiment id''))"

definition anchor_payload :: "string \<Rightarrow> string \<Rightarrow> int \<Rightarrow> string \<Rightarrow> int option \<Rightarrow> string" where
  "anchor_payload txid donation_address amount_sats seedbox_id output_index =
     join_with ''|'' [txid, donation_address, int_str amount_sats, seedbox_id,
       (case output_index of None \<Rightarrow> [] | Some i \<Rightarrow> int_str i)]"

definition anchor_id :: "env \<Rightarrow> string \<Rightarrow> string \<Rightarrow> int \<Rightarrow> string \<Rightarrow> int option \<Rightarrow> string" where
  "anchor_id E txid donation_address amount_sats seedbox_id output_index =
     sha256_hex E (utf8_encode (anchor_payload txid donation_address amount_sats seedbox_id output_index))"

definition build_anchor ::
  "env \<Rightarrow> anchor_verifier \<Rightarrow> string \<Rightarrow> string \<Rightarrow> int \<Rightarrow> string \<Rightarrow> int \<Rightarrow> int option \<Rightarrow> bitcoin_anchor" where
  "build_anchor E V txid0 address0 amount_sats seedbox_id confirmations output_index =
     (let txid = strip txid0; donation_address = strip address0;
          (verified, reason) = anchor_verify V txid donation_address amount_sats confirmations
      in \<lparr>ba_txid = txid, ba_donation_address = donation_address, ba_amount_sats = amount_sats,
          ba_seedbox_id = seedbox_id, ba_network = av_network V, ba_confirmations = confirmations,
          ba_output_index = output_index, ba_verified = verified, ba_verification_reason = reason,
          ba_anchor_id = anchor_id E txid donation_address amount_sats seedbox_id output_index\<rparr>)"

section \<open>The registry\<close>

record seedbox =
  sb_seedbox_id :: string
  sb_owner_id :: string
  sb_donation_address :: string
  sb_capacity_gb :: int
  sb_created_at :: string
  sb_fake :: bool

type_synonym seedbox_registry = "(string \<times> seedbox) list"

definition register :: "seedbox_registry \<Rightarrow> string \<Rightarrow> string \<Rightarrow> string \<Rightarrow> string \<Rightarrow> int \<Rightarrow> bool \<Rightarrow> seedbox \<times> seedbox_registry" where
  "register G now seedbox_id owner_id donation_address capacity_gb fake =
     (let s = \<lparr>sb_seedbox_id = seedbox_id, sb_owner_id = owner_id, sb_donation_address = donation_address,
               sb_capacity_gb = capacity_gb, sb_created_at = now, sb_fake = fake\<rparr>
      in (s, AList.update seedbox_id s G))"

definition registry_get :: "seedbox_registry \<Rightarrow> string \<Rightarrow> seedbox res" where
  "registry_get G seedbox_id = (case map_of G seedbox_id of
     None \<Rightarrow> Inl (KeyError seedbox_id)
   | Some s \<Rightarrow> Inr s)"

section \<open>Donations\<close>

record donation =
  dn_donation_id :: string
  dn_seedbox_id :: string
  dn_donor_id :: string
  dn_recipient_id :: string
  dn_amount_sats :: int
  dn_txid :: string
  dn_timestamp :: string
  dn_self_donation :: bool
  dn_fake_seedbox :: bool
  dn_stolen :: bool
  dn_anchor :: "bitcoin_anchor option"

record donation_evidence =
  de_donation_id :: string
  de_seedbox_id :: string
  de_donor_id :: string
  de_recipient_id :: string
  de_amount_sats :: int
  de_txid :: "string option"
  de_anchor :: dict
  de_self_donation :: bool
  de_fake_seedbox :: bool
  de_stolen :: bool

definition donation_evidence_of :: "donation \<Rightarrow> donation_evidence" where
  "donation_evidence_of d =
     \<lparr>de_donation_id = dn_donation_id d, de_seedbox_id = dn_seedbox_id d, de_donor_id = dn_donor_id d,
      de_recipient_id = dn_recipient_id d, de_amount_sats = dn_amount_sats d, de_txid = Some (dn_txid d),
      de_anchor = (case dn_anchor d of None \<Rightarrow> [] | Some a \<Rightarrow> anchor_dict a),
      de_self_donation = dn_self_donation d, de_fake_seedbox = dn_fake_seedbox d, de_stolen = dn_stolen d\<rparr>"

definition broadcast_donation ::
  "seedbox_registry \<Rightarrow> donation list \<Rightarrow> string \<Rightarrow> string \<Rightarrow> string \<Rightarrow> string \<Rightarrow> int \<Rightarrow> string \<Rightarrow> bool \<Rightarrow>
     bitcoin_anchor option \<Rightarrow> (donation \<times> donation list) res" where
  "broadcast_donation G ds now donation_id seedbox_id donor_id amount_sats txid stolen anchor =
     bindr (registry_get G seedbox_id) (\<lambda>s.
       let d = \<lparr>dn_donation_id = donation_id, dn_seedbox_id = seedbox_id, dn_donor_id = donor_id,
                dn_recipient_id = sb_owner_id s, dn_amount_sats = amount_sats, dn_txid = txid,
                dn_timestamp = now, dn_self_donation = (donor_id = sb_owner_id s),
                dn_fake_seedbox = sb_fake s, dn_stolen = stolen, dn_anchor = anchor\<rparr>
       in Inr (d, ds @ [d]))"

definition wash_trades_for :: "donation list \<Rightarrow> string \<Rightarrow> donation list" where
  "wash_trades_for ds subject_id = filter (\<lambda>d. dn_recipient_id d = subject_id \<and> dn_self_donation d) ds"

definition fake_donations_for :: "donation list \<Rightarrow> string \<Rightarrow> donation list" where
  "fake_donations_for ds subject_id = filter (\<lambda>d. dn_recipient_id d = subject_id \<and> dn_fake_seedbox d) ds"

section \<open>Service proofs\<close>

record service_proof =
  sp_proof_id :: string
  sp_seedbox_id :: string
  sp_prover_id :: string
  sp_storage_url :: string
  sp_nonce :: string
  sp_timestamp :: string

definition submit_proof ::
  "seedbox_registry \<Rightarrow> service_proof list \<Rightarrow> string \<Rightarrow> string \<Rightarrow> string \<Rightarrow> string \<Rightarrow> string \<Rightarrow> string \<Rightarrow>
     (service_proof \<times> service_proof list) res" where
  "submit_proof G ps now proof_id seedbox_id prover_id storage_url nonce =
     bindr (registry_get G seedbox_id) (\<lambda>_.
       let p = \<lparr>sp_proof_id = proof_id, sp_seedbox_id = seedbox_id, sp_prover_id = prover_id,
                sp_storage_url = storage_url, sp_nonce = nonce, sp_timestamp = now\<rparr>
       in Inr (p, ps @ [p]))"

definition proofs_for_seedbox :: "service_proof list \<Rightarrow> string \<Rightarrow> service_proof list" where
  "proofs_for_seedbox ps seedbox_id = filter (\<lambda>p. sp_seedbox_id p = seedbox_id) ps"

section \<open>Microtasks\<close>

record microtask =
  mt_task_id :: string
  mt_seedbox_id :: string
  mt_prover_id :: string
  mt_task_type :: string
  mt_file_hash :: string
  mt_result_hash :: string
  mt_timestamp :: string
  mt_verified :: bool

text \<open>\<open>AtomicMicrotaskEvidence\<close> has the same fields but the timestamp.\<close>

record microtask_evidence =
  me_task_id :: string
  me_seedbox_id :: string
  me_prover_id :: string
  me_task_type :: string
  me_file_hash :: string
  me_result_hash :: string
  me_verified :: bool

definition microtask_evidence_of :: "microtask \<Rightarrow> microtask_evidence" where
  "microtask_evidence_of t =
     \<lparr>me_task_id = mt_task_id t, me_seedbox_id = mt_seedbox_id t, me_prover_id = mt_prover_id t,
      me_task_type = mt_task_type t, me_file_hash = mt_file_hash t, me_result_hash = mt_result_hash t,
      me_verified = mt_verified t\<rparr>"

definition submit_result ::
  "seedbox_registry \<Rightarrow> microtask list \<Rightarrow> string \<Rightarrow> string \<Rightarrow> string \<Rightarrow> string \<Rightarrow> string \<Rightarrow> string \<Rightarrow> string \<Rightarrow> bool \<Rightarrow>
     (microtask \<times> microtask list) res" where
  "submit_result G ts now task_id seedbox_id prover_id task_type file_hash result_hash verified =
     bindr (registry_get G seedbox_id) (\<lambda>_.
       let t = \<lparr>mt_task_id = task_id, mt_seedbox_id = seedbox_id, mt_prover_id = prover_id,
                mt_task_type = task_type, mt_file_hash = file_hash, mt_result_hash = result_hash,
                mt_timestamp = now, mt_verified = verified\<rparr>
       in Inr (t, ts @ [t]))"

definition tasks_for_seedbox :: "microtask list \<Rightarrow> string \<Rightarrow> microtask list" where
  "tasks_for_seedbox ts seedbox_id = filter (\<lambda>t. mt_seedbox_id t = seedbox_id) ts"

definition microtask_get :: "microtask list \<Rightarrow> string \<Rightarrow> microtask res" where
  "microtask_get ts task_id = (case find (\<lambda>t. mt_task_id t = task_id) (rev ts) of
     None \<Rightarrow> Inl (KeyError task_id)
   | Some t \<Rightarrow> Inr t)"

definition verify_result :: "microtask list \<Rightarrow> string \<Rightarrow> string \<Rightarrow> (microtask \<times> microtask list) res" where
  "verify_result ts task_id expected_result_hash =
     bindr (microtask_get ts task_id) (\<lambda>t.
       if mt_result_hash t \<noteq> expected_result_hash
       then Inl (ValueError (''microtask '' @ task_id @ '' result_hash mismatch: expected '' @
              expected_result_hash @ '', got '' @ mt_result_hash t))
       else let v = t\<lparr>mt_verified := True\<rparr> in Inr (v, ts @ [v]))"

section \<open>The content index\<close>

record indexed_file =
  if_file_id :: string
  if_seedbox_id :: string
  if_name :: string
  if_content_url :: string
  if_sha256 :: string
  if_size_bytes :: int
  if_media_type :: string
  if_tags :: "string list"
  if_indexed_at :: string

definition index_file :: "seedbox_registry \<Rightarrow> indexed_file list \<Rightarrow> indexed_file \<Rightarrow> (indexed_file \<times> indexed_file list) res" where
  "index_file G fs item =
     bindr (registry_get G (if_seedbox_id item)) (\<lambda>_.
       Inr (item, filter (\<lambda>f. if_file_id f \<noteq> if_file_id item) fs @ [item]))"

text \<open>
  \<open>str.casefold\<close> on code points below 256: the lower case, and \<open>ss\<close> for the sharp s.  The
  micro sign folds to the Greek letter, which no other character here folds to.
\<close>

definition casefold :: "string \<Rightarrow> string" where
  "casefold s = concat (map (\<lambda>c. if c = CHR 0xDF then ''ss'' else [lower_char c]) s)"

fun contains :: "string \<Rightarrow> string \<Rightarrow> bool" where
  "contains [] t = (t = [])"
| "contains (c # s) t = (startswith (c # s) t \<or> contains s t)"

definition index_search :: "indexed_file list \<Rightarrow> string \<Rightarrow> indexed_file list" where
  "index_search fs query =
     (let normalized = strip (casefold query) in
      if normalized = [] then fs
      else filter (\<lambda>f. contains (casefold (if_name f)) normalized
               \<or> contains (casefold (if_media_type f)) normalized
               \<or> list_ex (\<lambda>tag. contains (casefold tag) normalized) (if_tags f)) fs)"

text \<open>\<open>pick\<close> is \<open>random.choice\<close>: a position below the length it is given.\<close>

definition random_match :: "(nat \<Rightarrow> nat) \<Rightarrow> indexed_file list \<Rightarrow> string \<Rightarrow> indexed_file res" where
  "random_match pick fs query =
     (let matches = index_search fs query in
      if matches = [] then Inl (KeyError (if query = [] then ''no indexed files'' else query))
      else Inr (matches ! pick (length matches)))"

end
