(* ===== verification/Accountability.thy ===== *)
theory Accountability
  imports Reputation Seedbox
begin

text \<open>
  The accountability monitor and the reputation-trap experiment
  (security/subq2_accountability/accountability.py, the metrics of security/contracts.py) and
  the repeated-game policy that predicts the experiment
  (security/subq2_accountability/game_theory.py).

  The monitor holds the signed log it writes and the engine that scans the same file.  The
  wall clock and the modification times are the stream \<open>clock\<close>, read at \<open>m_tick\<close>.
\<close>

section \<open>The monitor\<close>

type_synonym counter = "(string \<times> int) list"

definition count_of :: "counter \<Rightarrow> string \<Rightarrow> int" where
  "count_of d k = (case map_of d k of None \<Rightarrow> 0 | Some n \<Rightarrow> n)"

definition bump :: "counter \<Rightarrow> string \<Rightarrow> counter" where
  "bump d k = AList.update k (count_of d k + 1) d"

definition setdefault :: "counter \<Rightarrow> string \<Rightarrow> int \<Rightarrow> counter" where
  "setdefault d k n = (if map_of d k = None then AList.update k n d else d)"

record monitor =
  m_file :: log_file
  m_inst :: log_inst
  m_reputation :: reputation
  m_reporter_id :: string
  attempted_actions :: counter
  unauthorized_executions :: counter
  blocked_actions :: counter
  expulsion_steps :: "(json \<times> int) list"
  fake_donations :: counter
  honest_stolen :: counter
  wash_trades :: counter
  microtasks_claimed :: counter
  microtasks_verified :: counter
  microtasks_rejected :: counter
  malicious_steps :: counter
  detection_steps :: "(json \<times> int) list"
  current_step :: int
  m_tick :: nat

definition open_monitor :: "log_file \<Rightarrow> log_inst \<Rightarrow> reputation \<Rightarrow> string \<Rightarrow> nat \<Rightarrow> monitor" where
  "open_monitor f inst R reporter_id t =
     \<lparr>m_file = f, m_inst = inst, m_reputation = R, m_reporter_id = reporter_id,
      attempted_actions = [], unauthorized_executions = [], blocked_actions = [],
      expulsion_steps = [], fake_donations = [], honest_stolen = [], wash_trades = [],
      microtasks_claimed = [], microtasks_verified = [], microtasks_rejected = [],
      malicious_steps = [], detection_steps = [], current_step = 0, m_tick = t\<rparr>"

definition next_step :: "monitor \<Rightarrow> monitor" where
  "next_step M = M\<lparr>current_step := current_step M + 1\<rparr>"

definition should_drop :: "monitor \<Rightarrow> string \<Rightarrow> bool" where
  "should_drop M subject_id = is_banned (m_reputation M) subject_id"

definition record_malicious_step :: "string \<Rightarrow> monitor \<Rightarrow> monitor" where
  "record_malicious_step subject_id M =
     M\<lparr>malicious_steps := setdefault (malicious_steps M) subject_id (current_step M)\<rparr>"

definition attempt :: "string \<Rightarrow> monitor \<Rightarrow> monitor" where
  "attempt subject_id M = M\<lparr>attempted_actions := bump (attempted_actions M) subject_id\<rparr>"

text \<open>One \<open>self.log.append_event\<close> with the default severity of the action.\<close>

definition log_action ::
  "env \<Rightarrow> identity \<Rightarrow> (nat \<Rightarrow> nat \<times> string) \<Rightarrow> string \<Rightarrow> security_action \<Rightarrow> dict \<Rightarrow> dict option \<Rightarrow>
     monitor \<Rightarrow> monitor res" where
  "log_action E I clock subject_id action details evidence M =
     (let (now, timestamp) = clock (m_tick M) in
      bindr (append_event E I (m_file M) (m_inst M) now timestamp (m_reporter_id M) subject_id
               (action_value action) details (default_weight (JStr (action_value action))) evidence)
        (\<lambda>(_, f, inst). Inr (M\<lparr>m_file := f, m_inst := inst, m_tick := Suc (m_tick M)\<rparr>)))"

definition record_blocked_action :: "string \<Rightarrow> monitor \<Rightarrow> monitor" where
  "record_blocked_action subject_id M =
     (attempt subject_id M)\<lparr>blocked_actions := bump (blocked_actions M) subject_id\<rparr>"

definition step_details :: "monitor \<Rightarrow> string \<Rightarrow> dict option \<Rightarrow> dict" where
  "step_details M tool_name details =
     merge_dict [(''step'', JInt (current_step M)), (''tool'', JStr tool_name)]
       (case details of None \<Rightarrow> [] | Some d \<Rightarrow> d)"

definition record_unauthorized_execution ::
  "env \<Rightarrow> identity \<Rightarrow> (nat \<Rightarrow> nat \<times> string) \<Rightarrow> string \<Rightarrow> string \<Rightarrow> dict option \<Rightarrow> dict option \<Rightarrow>
     monitor \<Rightarrow> monitor res" where
  "record_unauthorized_execution E I clock subject_id tool_name details evidence M =
     (let M1 = attempt subject_id M;
          M2 = record_malicious_step subject_id
                 (M1\<lparr>unauthorized_executions := bump (unauthorized_executions M1) subject_id\<rparr>)
      in log_action E I clock subject_id UNAUTHORIZED_TOOL_EXECUTION
           (step_details M2 tool_name details) evidence M2)"

definition record_unauthorized_request ::
  "env \<Rightarrow> identity \<Rightarrow> (nat \<Rightarrow> nat \<times> string) \<Rightarrow> string \<Rightarrow> string \<Rightarrow> dict option \<Rightarrow> dict option \<Rightarrow>
     monitor \<Rightarrow> monitor res" where
  "record_unauthorized_request E I clock subject_id tool_name details evidence M =
     (let M1 = attempt subject_id M
      in log_action E I clock subject_id UNAUTHORIZED_TOOL_REQUEST
           (step_details M1 tool_name details) evidence M1)"

definition record_private_key_exfiltration ::
  "env \<Rightarrow> identity \<Rightarrow> (nat \<Rightarrow> nat \<times> string) \<Rightarrow> string \<Rightarrow> json \<Rightarrow> dict option \<Rightarrow>
     monitor \<Rightarrow> monitor res" where
  "record_private_key_exfiltration E I clock subject_id payload_id evidence M =
     (let M1 = attempt subject_id M;
          M2 = record_malicious_step subject_id
                 (M1\<lparr>unauthorized_executions := bump (unauthorized_executions M1) subject_id\<rparr>)
      in log_action E I clock subject_id PRIVATE_KEY_EXFILTRATION
           [(''step'', JInt (current_step M2)), (''payload_id'', payload_id),
            (''asset'', JStr ''local_private_identity_key'')] evidence M2)"

definition record_fake_seedbox_creation ::
  "env \<Rightarrow> identity \<Rightarrow> (nat \<Rightarrow> nat \<times> string) \<Rightarrow> string \<Rightarrow> string \<Rightarrow> dict option \<Rightarrow> monitor \<Rightarrow> monitor res" where
  "record_fake_seedbox_creation E I clock subject_id seedbox_id evidence M =
     (let M1 = record_malicious_step subject_id M
      in log_action E I clock subject_id FAKE_SEEDBOX_CREATED
           [(''step'', JInt (current_step M1)), (''seedbox_id'', JStr seedbox_id)] evidence M1)"

definition donation_details :: "int \<Rightarrow> donation_evidence \<Rightarrow> bool \<Rightarrow> dict" where
  "donation_details step d stolen =
     [(''step'', JInt step), (''donation_id'', JStr (de_donation_id d)),
      (''seedbox_id'', JStr (de_seedbox_id d)), (''donor_id'', JStr (de_donor_id d)),
      (''recipient_id'', JStr (de_recipient_id d)), (''amount_sats'', JInt (de_amount_sats d)),
      (''txid'', (case de_txid d of None \<Rightarrow> JNull | Some t \<Rightarrow> JStr t)),
      (''bitcoin_anchor'', JObj (de_anchor d)), (''self_donation'', JBool (de_self_donation d)),
      (''fake_seedbox'', JBool (de_fake_seedbox d)), (''stolen_from_honest_agent'', JBool stolen)]"

definition record_seedbox_donation ::
  "env \<Rightarrow> identity \<Rightarrow> (nat \<Rightarrow> nat \<times> string) \<Rightarrow> string \<Rightarrow> donation_evidence \<Rightarrow> bool \<Rightarrow> monitor \<Rightarrow> monitor res" where
  "record_seedbox_donation E I clock subject_id d stolen M =
     (let M1 = attempt subject_id M;
          M2 = (if de_fake_seedbox d \<or> de_self_donation d
                then record_malicious_step subject_id
                       (M1\<lparr>fake_donations := bump (fake_donations M1) subject_id\<rparr>) else M1);
          M3 = (if stolen
                then record_malicious_step subject_id
                       (M2\<lparr>honest_stolen := bump (honest_stolen M2) subject_id\<rparr>) else M2)
      in bindr (log_action E I clock subject_id SEEDBOX_DONATION_BROADCAST
                  (donation_details (current_step M3) d stolen) None M3) (\<lambda>M4.
           if de_self_donation d then
             let M5 = M4\<lparr>wash_trades := bump (wash_trades M4) subject_id\<rparr>
             in log_action E I clock subject_id WASH_TRADE_DETECTED
                  [(''step'', JInt (current_step M5)), (''donation_id'', JStr (de_donation_id d)),
                   (''seedbox_id'', JStr (de_seedbox_id d)), (''donor_id'', JStr (de_donor_id d)),
                   (''recipient_id'', JStr (de_recipient_id d))] None M5
           else Inr M4))"

definition record_atomic_microtask ::
  "env \<Rightarrow> identity \<Rightarrow> (nat \<Rightarrow> nat \<times> string) \<Rightarrow> string \<Rightarrow> microtask_evidence \<Rightarrow> monitor \<Rightarrow> monitor res" where
  "record_atomic_microtask E I clock subject_id t M =
     (let M1 = M\<lparr>microtasks_claimed := bump (microtasks_claimed M) subject_id\<rparr>;
          M2 = (if me_verified t then M1\<lparr>microtasks_verified := bump (microtasks_verified M1) subject_id\<rparr>
                else M1)
      in log_action E I clock subject_id
           (if me_verified t then ATOMIC_MICROTASK_VERIFIED else ATOMIC_MICROTASK_CLAIMED)
           [(''step'', JInt (current_step M2)), (''task_id'', JStr (me_task_id t)),
            (''seedbox_id'', JStr (me_seedbox_id t)), (''prover_id'', JStr (me_prover_id t)),
            (''task_type'', JStr (me_task_type t)), (''file_hash'', JStr (me_file_hash t)),
            (''result_hash'', JStr (me_result_hash t)), (''verified'', JBool (me_verified t))] None M2)"

definition record_rejected_atomic_microtask ::
  "env \<Rightarrow> identity \<Rightarrow> (nat \<Rightarrow> nat \<times> string) \<Rightarrow> string \<Rightarrow> string \<Rightarrow> string \<Rightarrow> string \<Rightarrow> monitor \<Rightarrow> monitor res" where
  "record_rejected_atomic_microtask E I clock subject_id task_id expected_hash actual_hash M =
     (let M1 = record_malicious_step subject_id
                 (M\<lparr>microtasks_rejected := bump (microtasks_rejected M) subject_id\<rparr>)
      in log_action E I clock subject_id ATOMIC_MICROTASK_REJECTED
           [(''step'', JInt (current_step M1)), (''task_id'', JStr task_id),
            (''expected_result_hash'', JStr expected_hash),
            (''actual_result_hash'', JStr actual_hash)] None M1)"

definition default_all :: "(json \<times> int) list \<Rightarrow> json list \<Rightarrow> int \<Rightarrow> (json \<times> int) list" where
  "default_all d ks n = foldl (\<lambda>d k. kdefault d k n) d ks"

definition monitor_scan :: "env \<Rightarrow> (string \<Rightarrow> int option) \<Rightarrow> monitor \<Rightarrow> monitor res" where
  "monitor_scan E ftrunc M =
     (case scan_log E ftrunc (m_reputation M) (m_file M) of
        (_, Some x) \<Rightarrow> Inl x
      | (R, None) \<Rightarrow>
          Inr (M\<lparr>m_reputation := R,
            expulsion_steps := default_all (expulsion_steps M) (banned_agents R) (current_step M),
            detection_steps := default_all (detection_steps M) (banned_agents R) (current_step M)\<rparr>))"

section \<open>Metrics\<close>

record metrics =
  mx_subject_id :: string
  mx_accountability_enabled :: bool
  mx_attempted_actions :: int
  mx_unauthorized_executions :: int
  mx_blocked_actions :: int
  mx_final_score :: int
  mx_expelled :: bool
  mx_expulsion_step :: "int option"
  mx_integrity_ok :: bool
  mx_integrity_errors :: "message list"
  mx_first_malicious_step :: "int option"
  mx_detection_step :: "int option"
  mx_reputation_lag :: "int option"
  mx_accepted_harmful :: int
  mx_fake_donations :: int
  mx_honest_stolen :: int
  mx_wash_trades :: int
  mx_microtasks_claimed :: int

definition fallout_radius :: "metrics \<Rightarrow> int" where
  "fallout_radius m = mx_unauthorized_executions m + mx_fake_donations m + mx_honest_stolen m"

definition blast_radius :: "metrics \<Rightarrow> int" where
  "blast_radius m = fallout_radius m"

text \<open>\<open>detection_steps.get(s) or expulsion_steps.get(s)\<close>: step 0 counts as absent.\<close>

definition detected_at :: "monitor \<Rightarrow> string \<Rightarrow> int option" where
  "detected_at M s = (case kget (detection_steps M) (JStr s) of
     Some n \<Rightarrow> if n \<noteq> 0 then Some n else kget (expulsion_steps M) (JStr s)
   | None \<Rightarrow> kget (expulsion_steps M) (JStr s))"

definition get_metrics :: "env \<Rightarrow> string \<Rightarrow> monitor \<Rightarrow> string \<Rightarrow> bool \<Rightarrow> metrics" where
  "get_metrics E network M s enabled =
     (let (ok, errors) = verify_integrity E network (m_file M);
          first = map_of (malicious_steps M) s; detected = detected_at M s
      in \<lparr>mx_subject_id = s, mx_accountability_enabled = enabled,
          mx_attempted_actions = count_of (attempted_actions M) s,
          mx_unauthorized_executions = count_of (unauthorized_executions M) s,
          mx_blocked_actions = count_of (blocked_actions M) s,
          mx_final_score = get_score (m_reputation M) s, mx_expelled = is_banned (m_reputation M) s,
          mx_expulsion_step = kget (expulsion_steps M) (JStr s),
          mx_integrity_ok = ok, mx_integrity_errors = errors,
          mx_first_malicious_step = first, mx_detection_step = detected,
          mx_reputation_lag = (case (first, detected) of
             (Some a, Some b) \<Rightarrow> Some (max 0 (b - a)) | _ \<Rightarrow> None),
          mx_accepted_harmful = count_of (unauthorized_executions M) s + count_of (fake_donations M) s
            + count_of (honest_stolen M) s,
          mx_fake_donations = count_of (fake_donations M) s,
          mx_honest_stolen = count_of (honest_stolen M) s,
          mx_wash_trades = count_of (wash_trades M) s,
          mx_microtasks_claimed = count_of (microtasks_claimed M) s\<rparr>)"

section \<open>The reputation-trap experiment\<close>

definition trap_donation :: "int \<Rightarrow> string \<Rightarrow> seedbox_registry \<Rightarrow> donation list \<Rightarrow> string \<Rightarrow> (donation \<times> donation list) res" where
  "trap_donation i subject_id G ds now =
     broadcast_donation G ds now (''fake-donation-'' @ int_str i) ''fake-seedbox-1'' subject_id 10000
       (''fake-tx-'' @ int_str i) False None"

definition trap_action ::
  "env \<Rightarrow> (string \<Rightarrow> int option) \<Rightarrow> identity \<Rightarrow> (nat \<Rightarrow> nat \<times> string) \<Rightarrow> seedbox_registry \<Rightarrow> bool \<Rightarrow> int \<Rightarrow> string \<Rightarrow>
     int \<Rightarrow> monitor \<times> donation list \<Rightarrow> (monitor \<times> donation list) res" where
  "trap_action E ftrunc I clock G enabled scan_interval subject_id i = (\<lambda>(M0, ds).
     let M = next_step M0 in
     if enabled \<and> should_drop M subject_id then Inr (record_blocked_action subject_id M, ds)
     else
       bindr (trap_donation i subject_id G ds (snd (clock (m_tick M)))) (\<lambda>(d, ds').
       bindr (if i = 1 then record_fake_seedbox_creation E I clock subject_id ''fake-seedbox-1'' None M
              else Inr M) (\<lambda>M1.
       bindr (record_seedbox_donation E I clock subject_id (donation_evidence_of d) (dn_stolen d) M1) (\<lambda>M2.
         if enabled then
           (if scan_interval = 0 then Inl ZeroDivisionError
            else if i mod scan_interval = 0 then bindr (monitor_scan E ftrunc M2) (\<lambda>M3. Inr (M3, ds'))
            else Inr (M2, ds'))
         else Inr (M2, ds')))))"

fun trap_loop ::
  "env \<Rightarrow> (string \<Rightarrow> int option) \<Rightarrow> identity \<Rightarrow> (nat \<Rightarrow> nat \<times> string) \<Rightarrow> seedbox_registry \<Rightarrow> bool \<Rightarrow> int \<Rightarrow> string \<Rightarrow>
     int list \<Rightarrow> monitor \<times> donation list \<Rightarrow> (monitor \<times> donation list) res" where
  "trap_loop E ftrunc I clock G enabled k s [] st = Inr st"
| "trap_loop E ftrunc I clock G enabled k s (i # is) st =
     bindr (trap_action E ftrunc I clock G enabled k s i st) (trap_loop E ftrunc I clock G enabled k s is)"

definition run_reputation_trap_experiment ::
  "env \<Rightarrow> (string \<Rightarrow> int option) \<Rightarrow> identity \<Rightarrow> (nat \<Rightarrow> nat \<times> string) \<Rightarrow> log_file \<Rightarrow> bool \<Rightarrow> int \<Rightarrow> int \<Rightarrow> int \<Rightarrow>
     string \<Rightarrow> string option \<Rightarrow> metrics res" where
  "run_reputation_trap_experiment E ftrunc I clock f enabled total_malicious_actions threshold
       scan_interval subject_id reporter_id =
     (let (f1, inst) = open_log (fst (clock 0)) f;
          M0 = open_monitor f1 inst (open_reputation threshold)
                 (case reporter_id of None \<Rightarrow> id_hash I | Some r \<Rightarrow> r) 1;
          (_, G) = register [] (snd (clock 0)) ''fake-seedbox-1'' subject_id
                     ''mock-donation-address-fake-seedbox-1'' 10000 True
      in bindr (trap_loop E ftrunc I clock G enabled scan_interval subject_id
                  [1..total_malicious_actions] (M0, [])) (\<lambda>(M, _).
         bindr (if enabled then monitor_scan E ftrunc M else Inr M) (\<lambda>M'.
           Inr (get_metrics E (id_network I) M' subject_id enabled))))"

section \<open>The predicted policy\<close>

record reputation_policy =
  rp_ban_threshold :: int
  rp_scan_interval :: int
  rp_weight :: int
  rp_proof_missing_weight :: int

definition accepted_before_expulsion :: "reputation_policy \<Rightarrow> int" where
  "accepted_before_expulsion p =
     (if rp_weight p \<le> 0 then 10 ^ 9
      else max 1 ((rp_ban_threshold p + rp_weight p - 1) div rp_weight p))"

definition expected_blast_radius :: "reputation_policy \<Rightarrow> int" where
  "expected_blast_radius p =
     (let accepted = accepted_before_expulsion p
      in if rp_scan_interval p \<le> 1 then accepted else accepted + rp_scan_interval p - 1)"

definition expected_fallout_radius :: "reputation_policy \<Rightarrow> int" where
  "expected_fallout_radius p = expected_blast_radius p"

definition expected_reputation_lag :: "reputation_policy \<Rightarrow> int" where
  "expected_reputation_lag p = max 0 (expected_fallout_radius p - 1)"

end
