(* ===== verification/Reputation_Spec.thy ===== *)
theory Reputation_Spec
  imports Reputation Signed_Log_Appends
begin

text \<open>
  What a scan of the log computes: the score of a subject is the sum of the weights of the
  entries that name it, a subject is expelled exactly when it is named and its score reaches
  the threshold, and a line that is JSON but not an object ends the scan early.
\<close>

section \<open>Keys\<close>

lemma key_eq_str [simp]: "key_eq v (JStr s) \<longleftrightarrow> v = JStr s" "key_eq (JStr s) v \<longleftrightarrow> v = JStr s"
  by (auto simp: key_eq_def)

lemma kget_kset_str [simp]:
  "kget (kset d k v) (JStr a) = (if k = JStr a then Some v else kget d (JStr a))"
  by (induction d) auto

lemma kget_or_kset_str [simp]:
  "kget_or (kset d k v) (JStr a) x = (if k = JStr a then v else kget_or d (JStr a) x)"
  by (simp add: kget_or_def)

lemma kget_or_kdefault_str [simp]:
  "kget_or (kdefault d k v) (JStr a) v = kget_or d (JStr a) v"
  by (auto simp: kget_or_def kdefault_def)

section \<open>One entry\<close>

definition entry_weight :: "(string \<Rightarrow> int option) \<Rightarrow> dict \<Rightarrow> int" where
  "entry_weight ftrunc d = (case weight_of ftrunc d of Inl _ \<Rightarrow> 0 | Inr w \<Rightarrow> w)"

lemma default_weight_nonneg: "0 \<le> default_weight v"
proof -
  have "list_all (\<lambda>p. 0 \<le> snd p) default_weights" by (simp add: default_weights_def)
  then have "map_of default_weights a = Some w \<Longrightarrow> 0 \<le> w" for a w
    by (fastforce simp: list_all_iff dest: map_of_SomeD)
  then show ?thesis by (auto simp: default_weight_def split: json.splits option.splits)
qed

lemma weight_of_base: "weight_of ftrunc d = Inr w \<Longrightarrow> default_weight (jget d ''action'') \<le> w"
  by (auto simp: weight_of_def Let_def bindr_Inr_iff split: if_splits)

lemma weight_of_nonneg: "weight_of ftrunc d = Inr w \<Longrightarrow> 0 \<le> w"
  using weight_of_base default_weight_nonneg order_trans by blast

lemma charge_steps_frame:
  assumes "charge_steps R d s w = (R', None)"
  shows "scores R' = scores R" "action_counts R' = action_counts R" "ban_threshold R' = ban_threshold R"
    "banned_agents R' = (if ban_threshold R \<le> kget_or (scores R) s 0
       then List.insert s (banned_agents R) else banned_agents R)"
  using assms by (auto simp: charge_steps_def Let_def split: sum.splits if_splits)

lemma is_banned_iff: "is_banned R a \<longleftrightarrow> JStr a \<in> set (banned_agents R)"
  by (auto simp: is_banned_def list_ex_iff)

lemma scan_entry_step:
  assumes "scan_entry ftrunc R d = (R', None)" and "a \<noteq> []"
  shows "ban_threshold R' = ban_threshold R"
    and "get_score R' a = get_score R a + (if subject_of d = JStr a then entry_weight ftrunc d else 0)"
    and "get_count R' a act = get_count R a act +
      (if subject_of d = JStr a \<and> jget d ''action'' = JStr act then 1 else 0)"
    and "is_banned R' a \<longleftrightarrow> is_banned R a \<or> (subject_of d = JStr a \<and> ban_threshold R \<le> get_score R' a)"
    and "subject_of d = JStr a \<Longrightarrow> weight_of ftrunc d = Inr (entry_weight ftrunc d)"
proof -
  let ?s = "subject_of d" and ?act = "jget d ''action''"
  consider (skip) "\<not> truthy ?s" "R' = R" | (charge) w where "truthy ?s" "weight_of ftrunc d = Inr w"
      "charge_steps (R\<lparr>action_counts :=
           (let ac = kdefault (action_counts R) ?s []; c = kget_or ac ?s []
            in kset ac ?s (kset c ?act (kget_or c ?act 0 + 1))),
         scores := kset (scores R) ?s (kget_or (scores R) ?s 0 + w)\<rparr>) d ?s w = (R', None)"
    using assms(1) by (auto simp: scan_entry_def Let_def split: if_splits sum.splits)
  note cs = this
  have main: "ban_threshold R' = ban_threshold R \<and>
      get_score R' a = get_score R a + (if ?s = JStr a then entry_weight ftrunc d else 0) \<and>
      get_count R' a act = get_count R a act + (if ?s = JStr a \<and> ?act = JStr act then 1 else 0) \<and>
      (is_banned R' a \<longleftrightarrow> is_banned R a \<or> (?s = JStr a \<and> ban_threshold R \<le> get_score R' a)) \<and>
      (?s = JStr a \<longrightarrow> weight_of ftrunc d = Inr (entry_weight ftrunc d))"
    using cs
  proof cases
    case skip
    then have "?s \<noteq> JStr a" using assms(2) by auto
    with skip show ?thesis by simp
  next
    case charge
    note frame = charge_steps_frame [OF charge(3)]
    have w: "entry_weight ftrunc d = w" using charge(2) by (simp add: entry_weight_def)
    show ?thesis
    proof (cases "?s = JStr a")
      case True
      then show ?thesis using frame charge(2)
        by (auto simp: w get_score_def get_count_def is_banned_iff Let_def)
    next
      case False
      then show ?thesis using frame by (auto simp: get_score_def get_count_def is_banned_iff Let_def kget_or_def
            kdefault_def split: if_splits)
    qed
  qed
  from main show "ban_threshold R' = ban_threshold R" by simp
  from main show "get_score R' a = get_score R a + (if ?s = JStr a then entry_weight ftrunc d else 0)" by simp
  from main show "get_count R' a act = get_count R a act + (if ?s = JStr a \<and> ?act = JStr act then 1 else 0)"
    by simp
  from main show "is_banned R' a \<longleftrightarrow> is_banned R a \<or> (?s = JStr a \<and> ban_threshold R \<le> get_score R' a)" by simp
  from main show "?s = JStr a \<Longrightarrow> weight_of ftrunc d = Inr (entry_weight ftrunc d)" by simp
qed

section \<open>The whole file\<close>

fun line_objects :: "env \<Rightarrow> string list \<Rightarrow> dict list" where
  "line_objects E [] = []"
| "line_objects E (line # ls) =
     (if startswith line ''==='' then line_objects E ls
      else case loads (float_repr E) (strip line) of
        Some (JObj d) \<Rightarrow> d # line_objects E ls
      | _ \<Rightarrow> line_objects E ls)"

definition charged :: "string \<Rightarrow> dict list \<Rightarrow> dict list" where
  "charged a = filter (\<lambda>d. subject_of d = JStr a)"

lemma charged_simps [simp]:
  "charged a [] = []"
  "charged a (d # ds) = (if subject_of d = JStr a then d # charged a ds else charged a ds)"
  by (simp_all add: charged_def)

definition tally_of :: "(string \<Rightarrow> int option) \<Rightarrow> string \<Rightarrow> dict list \<Rightarrow> int" where
  "tally_of ftrunc a ds = sum_list (map (entry_weight ftrunc) (charged a ds))"

lemma scan_lines_tally:
  assumes "scan_lines E ftrunc R ls = (R', None)" and "a \<noteq> []"
  shows "ban_threshold R' = ban_threshold R \<and>
    get_score R' a = get_score R a + tally_of ftrunc a (line_objects E ls) \<and>
    get_count R' a act = get_count R a act +
      int (length (filter (\<lambda>d. jget d ''action'' = JStr act) (charged a (line_objects E ls)))) \<and>
    (is_banned R' a \<longleftrightarrow> is_banned R a \<or>
       (charged a (line_objects E ls) \<noteq> [] \<and> ban_threshold R \<le> get_score R' a)) \<and>
    (\<forall>d \<in> set (charged a (line_objects E ls)). weight_of ftrunc d = Inr (entry_weight ftrunc d))"
  using assms(1)
proof (induction ls arbitrary: R)
  case Nil
  then show ?case by (simp add: tally_of_def)
next
  case (Cons line ls)
  show ?case
  proof (cases "startswith line ''===''")
    case True
    with Cons show ?thesis by simp
  next
    case False
    show ?thesis
    proof (cases "loads (float_repr E) (strip line)")
      case None
      with Cons False show ?thesis by simp
    next
      case (Some v)
      with Cons.prems False obtain d R1 where v: "v = JObj d" and e: "scan_entry ftrunc R d = (R1, None)"
        and r: "scan_lines E ftrunc R1 ls = (R', None)"
        by (auto split: json.splits prod.splits option.splits)
      note st = scan_entry_step [OF e assms(2)] and IH = Cons.IH [OF r]
      have o: "line_objects E (line # ls) = d # line_objects E ls" using False Some v by simp
      have nn: "0 \<le> tally_of ftrunc a (line_objects E ls)"
      proof -
        have "\<forall>d \<in> set (charged a (line_objects E ls)). 0 \<le> entry_weight ftrunc d"
          using IH weight_of_nonneg by blast
        then show ?thesis unfolding tally_of_def by (intro sum_list_nonneg) auto
      qed
      show ?thesis
      proof (cases "subject_of d = JStr a")
        case True
        have sc: "get_score R1 a = get_score R a + entry_weight ftrunc d"
          "get_score R' a = get_score R1 a + tally_of ftrunc a (line_objects E ls)"
          using st(2) IH True by simp_all
        have "is_banned R' a \<longleftrightarrow> is_banned R a \<or> ban_threshold R \<le> get_score R' a"
          using IH st(1,4) True sc(2) nn by (auto simp: tally_of_def)
        with IH st(1,3,5) sc True o show ?thesis by (simp add: tally_of_def)
      next
        case other: False
        with st have "get_score R1 a = get_score R a" "get_count R1 a act = get_count R a act"
          "is_banned R1 a \<longleftrightarrow> is_banned R a" "ban_threshold R1 = ban_threshold R" by simp_all
        with IH other o show ?thesis by (simp add: tally_of_def)
      qed
    qed
  qed
qed

lemma reset_scan_simps [simp]:
  "get_score (reset_scan R) a = 0" "get_count (reset_scan R) a act = 0" "\<not> is_banned (reset_scan R) a"
  "ban_threshold (reset_scan R) = ban_threshold R"
  by (simp_all add: reset_scan_def get_score_def get_count_def is_banned_def kget_or_def)

text \<open>
  After a scan that meets no exception, the score of a subject is the sum of the weights
  of the entries that name it and at least the sum of their default weights, its action
  counts are the numbers of such entries, and it is expelled exactly when some entry names
  it and its score reaches the threshold.
\<close>

lemma scan_log_charges:
  assumes "content f = Some t" and "scan_log E ftrunc R f = (R', None)" and "a \<noteq> []"
    and "ds = charged a (line_objects E (text_lines t))"
  shows "get_score R' a = sum_list (map (entry_weight ftrunc) ds) \<and>
    sum_list (map (\<lambda>d. default_weight (jget d ''action'')) ds) \<le> get_score R' a \<and>
    get_count R' a act = int (length (filter (\<lambda>d. jget d ''action'' = JStr act) ds)) \<and>
    (is_banned R' a \<longleftrightarrow> ds \<noteq> [] \<and> ban_threshold R \<le> get_score R' a)"
proof -
  have "scan_lines E ftrunc (reset_scan R) (text_lines t) = (R', None)"
    using assms(1,2) by (simp add: scan_log_def)
  note tally = scan_lines_tally [OF this assms(3), folded assms(4)]
  have "sum_list (map (\<lambda>d. default_weight (jget d ''action'')) ds) \<le> sum_list (map (entry_weight ftrunc) ds)"
    using tally weight_of_base by (intro sum_list_mono) blast
  with tally show ?thesis by (simp add: tally_of_def assms(4))
qed

definition sample_charge :: string where
  "sample_charge = dumps_default (JObj [(''subject_id'', JStr ''mallory''),
     (''action'', JStr (action_value FAKE_SEEDBOX_CREATED)), (''severity'', JInt 3)]) @ [nl]"

definition charge_file :: log_file where
  "charge_file = \<lparr>content = Some sample_charge, mtime_ns = 1\<rparr>"

lemma scan_log_charges_witness:
  "get_score (fst (scan_log sample_env (\<lambda>_. None) (open_reputation 10) charge_file)) ''mallory'' = 10 \<and>
   is_banned (fst (scan_log sample_env (\<lambda>_. None) (open_reputation 10) charge_file)) ''mallory''"
proof -
  let ?r = "scan_log sample_env (\<lambda>_. None) (open_reputation 10) charge_file"
  have run: "?r = (fst ?r, None)" and objs: "charged ''mallory'' (line_objects sample_env (text_lines sample_charge)) =
      [[(''subject_id'', JStr ''mallory''), (''action'', JStr (action_value FAKE_SEEDBOX_CREATED)),
        (''severity'', JInt 3)]]"
    by code_simp+
  have c: "content charge_file = Some sample_charge" by (simp add: charge_file_def)
  from scan_log_charges [OF c run, of "''mallory''"] objs show ?thesis
    by (simp add: entry_weight_def weight_of_def get_or_def to_int_def default_weight_def default_weights_def
        open_reputation_def)
qed

section \<open>A line that ends the scan\<close>

lemma scan_lines_append:
  "scan_lines E ftrunc R (xs @ ys) =
     (case scan_lines E ftrunc R xs of
        (R', None) \<Rightarrow> scan_lines E ftrunc R' ys
      | (R', Some x) \<Rightarrow> (R', Some x))"
  by (induction xs arbitrary: R) (auto split: option.splits json.splits prod.splits)

text \<open>
  Only decode errors are skipped.  A line that is JSON but not an object ends the scan
  with an exception in the state the lines before it gave, and since the scan begins by
  clearing the expelled subjects, a subject that only later lines name is no longer expelled.
\<close>

lemma scan_log_stops_at_non_object:
  assumes "content f = Some t" and "text_lines t = pre @ bad # post"
    and "scan_lines E ftrunc (reset_scan R) pre = (Rp, None)"
    and "\<not> startswith bad ''===''" and "loads (float_repr E) (strip bad) = Some v" and "\<not> is_dict v"
    and "a \<noteq> []" and "charged a (line_objects E pre) = []"
  shows "scan_log E ftrunc R f = (Rp, Some AttributeError) \<and> \<not> is_banned Rp a \<and> get_score Rp a = 0"
proof
  show "scan_log E ftrunc R f = (Rp, Some AttributeError)"
    using assms by (cases v) (simp_all add: scan_log_def scan_lines_append)
  from scan_lines_tally [OF assms(3,7)] assms(8) show "\<not> is_banned Rp a \<and> get_score Rp a = 0"
    by (simp add: tally_of_def)
qed

definition poisoned_file :: log_file where
  "poisoned_file = \<lparr>content = Some (''5'' @ [nl] @ sample_charge), mtime_ns = 2\<rparr>"

lemma scan_log_stops_at_non_object_witness:
  "is_banned (fst (scan_log sample_env (\<lambda>_. None) (open_reputation 10) charge_file)) ''mallory'' \<and>
   snd (scan_log sample_env (\<lambda>_. None)
     (fst (scan_log sample_env (\<lambda>_. None) (open_reputation 10) charge_file)) poisoned_file) = Some AttributeError \<and>
   \<not> is_banned (fst (scan_log sample_env (\<lambda>_. None)
     (fst (scan_log sample_env (\<lambda>_. None) (open_reputation 10) charge_file)) poisoned_file)) ''mallory''"
proof -
  let ?R = "fst (scan_log sample_env (\<lambda>_. None) (open_reputation 10) charge_file)"
  have c: "content poisoned_file = Some (''5'' @ [nl] @ sample_charge)" by (simp add: poisoned_file_def)
  have l: "text_lines (''5'' @ [nl] @ sample_charge) = [] @ [CHR ''5'', nl] # [sample_charge]"
    "\<not> startswith [CHR ''5'', nl] ''===''" "loads (float_repr sample_env) (strip [CHR ''5'', nl]) = Some (JInt 5)"
    and b: "is_banned ?R ''mallory''" by code_simp+
  have s: "scan_lines sample_env (\<lambda>_. None) (reset_scan ?R) [] = (reset_scan ?R, None)" by simp
  from scan_log_stops_at_non_object [OF c l(1) s l(2,3), of "''mallory''"] b show ?thesis by simp
qed

end
