(* ===== verification/Accountability_Spec.thy ===== *)
theory Accountability_Spec
  imports Accountability Reputation_Spec
begin

text \<open>
  Lemmas on the accountability monitor: one logged action extends the verified log by the
  entry it describes and changes nothing else, and a scan of a log of such entries meets no
  exception.
\<close>

section \<open>One logged action\<close>

definition monitor_ok :: "env \<Rightarrow> identity \<Rightarrow> monitor \<Rightarrow> dict list \<Rightarrow> bool" where
  "monitor_ok E I M es =
     (log_state_ok E (id_network I) (m_file M) (m_inst M) es \<and> m_reporter_id M = id_hash I)"

definition records :: "string \<Rightarrow> security_action \<Rightarrow> dict \<Rightarrow> dict \<Rightarrow> bool" where
  "records s a details e =
     (jget e ''subject_id'' = JStr s \<and> jget e ''action'' = JStr (action_value a) \<and>
      jget e ''severity'' = JInt (default_weight (JStr (action_value a))) \<and>
      jget e ''details'' = JObj details)"

lemma build_entry_records:
  "records s a details
     (build_entry E I ts p (id_hash I) s (action_value a) details (default_weight (JStr (action_value a))) evid)"
proof -
  note other = seal_get_other [OF payload_unsealed(1)]
  show ?thesis
    unfolding build_entry_fields records_def
    by (simp add: other) (simp add: payload_fields_def get_or_def Let_def)
qed

definition log_part :: "monitor \<Rightarrow> monitor \<Rightarrow> monitor" where
  "log_part M M' = M\<lparr>m_file := m_file M', m_inst := m_inst M', m_tick := m_tick M'\<rparr>"

lemma log_part_simps [simp]:
  "m_file (log_part M M') = m_file M'" "m_inst (log_part M M') = m_inst M'"
  "m_reputation (log_part M M') = m_reputation M" "m_reporter_id (log_part M M') = m_reporter_id M"
  "attempted_actions (log_part M M') = attempted_actions M"
  "unauthorized_executions (log_part M M') = unauthorized_executions M"
  "blocked_actions (log_part M M') = blocked_actions M"
  "fake_donations (log_part M M') = fake_donations M" "honest_stolen (log_part M M') = honest_stolen M"
  "wash_trades (log_part M M') = wash_trades M" "microtasks_claimed (log_part M M') = microtasks_claimed M"
  "microtasks_verified (log_part M M') = microtasks_verified M"
  "microtasks_rejected (log_part M M') = microtasks_rejected M"
  "current_step (log_part M M') = current_step M"
  by (simp_all add: log_part_def)

lemma log_action_ok:
  assumes "monitor_ok E I M es" and "identity_ok E I"
    and "wf_dict (float_repr E) details" and "evidence_wf E evid"
  obtains M' e where "log_action E I clock s a details evid M = Inr M'" and "M' = log_part M M'"
    and "monitor_ok E I M' (es @ [e])" and "records s a details e"
proof -
  obtain now ts where t: "clock (m_tick M) = (now, ts)" by (cases "clock (m_tick M)")
  have st: "log_state_ok E (id_network I) (m_file M) (m_inst M) es" and r: "m_reporter_id M = id_hash I"
    using assms(1) by (simp_all add: monitor_ok_def)
  obtain p e f inst where
    app: "append_event E I (m_file M) (m_inst M) now ts (id_hash I) s (action_value a) details
        (default_weight (JStr (action_value a))) evid = Inr (e, f, inst)"
    and e: "e = build_entry E I ts (JStr p) (id_hash I) s (action_value a) details
        (default_weight (JStr (action_value a))) evid"
    and ok: "log_state_ok E (id_network I) f inst (es @ [e])"
    using append_event_ok [OF st assms(2-4)] by metis
  let ?M = "M\<lparr>m_file := f, m_inst := inst, m_tick := Suc (m_tick M)\<rparr>"
  show thesis
  proof (rule that)
    show "log_action E I clock s a details evid M = Inr ?M" by (simp add: log_action_def t app r)
    show "?M = log_part M ?M" by (simp add: log_part_def)
    show "monitor_ok E I ?M (es @ [e])" using ok r by (simp add: monitor_ok_def)
    show "records s a details e" unfolding e by (rule build_entry_records)
  qed
qed

section \<open>Scanning a log of recorded actions\<close>

definition recorded :: "dict \<Rightarrow> bool" where
  "recorded e = (\<exists>s a details. s \<noteq> [] \<and> records s a details e)"

lemma records_weight:
  "records s a details e \<Longrightarrow> weight_of ftrunc e = Inr (default_weight (JStr (action_value a)))"
  "records s a details e \<Longrightarrow> entry_weight ftrunc e = default_weight (JStr (action_value a))"
  by (simp_all add: records_def entry_weight_def weight_of_def to_int_def)

lemma records_subject: "records s a details e \<Longrightarrow> s \<noteq> [] \<Longrightarrow> subject_of e = JStr s"
  by (simp add: records_def subject_of_def)

lemma scan_entry_recorded:
  assumes "recorded e"
  shows "\<exists>R'. scan_entry ftrunc R e = (R', None)"
proof -
  obtain s a details where e: "s \<noteq> []" "records s a details e" using assms by (auto simp: recorded_def)
  have st: "\<exists>n. step_of e = Inr n" using e(2) by (auto simp: records_def step_of_def)
  have "jget e ''action'' = JStr (action_value a)" using e(2) by (simp add: records_def)
  with st show ?thesis
    using e records_subject [OF e(2,1)] records_weight(1) [OF e(2)]
    by (auto simp: scan_entry_def charge_steps_def Let_def)
qed

lemma scan_recorded_lines:
  assumes "\<forall>e \<in> set es. wf_dict (float_repr E) e \<and> recorded e"
  shows "(\<exists>R'. scan_lines E ftrunc R (map json_line es) = (R', None)) \<and>
    line_objects E (map json_line es) = es"
  using assms
proof (induction es arbitrary: R)
  case Nil
  then show ?case by simp
next
  case (Cons e es)
  then have wf: "wf_dict (float_repr E) e" and "recorded e" by auto
  then obtain R1 where "scan_entry ftrunc R e = (R1, None)" using scan_entry_recorded by blast
  with Cons.IH [of R1] Cons.prems loads_json_line(2) [OF wf] show ?case by (simp del: wf_json.simps)
qed

lemma scan_log_recorded:
  assumes "file_holds E f es" and "\<forall>e \<in> set es. recorded e"
  obtains R' t where "scan_log E ftrunc R f = (R', None)" and "content f = Some t"
    and "line_objects E (text_lines t) = es"
proof -
  have wf: "\<forall>e \<in> set es. wf_dict (float_repr E) e" and c: "content f = Some (log_text es)"
    using assms(1) by (simp_all add: file_holds_def)
  have l: "text_lines (log_text es) = (log_header @ [nl]) # map json_line es" by (rule log_text_lines [OF wf])
  note sc = scan_recorded_lines [of es E]
  obtain R' where "scan_lines E ftrunc (reset_scan R) (map json_line es) = (R', None)"
    using sc wf assms(2) by blast
  then have "scan_log E ftrunc R f = (R', None)"
    by (simp add: scan_log_def c l log_header_line(2))
  moreover have "line_objects E (text_lines (log_text es)) = es"
    using sc wf assms(2) by (simp add: l log_header_line(2))
  ultimately show thesis using that c by blast
qed

lemma scan_log_tally:
  assumes "file_holds E f es" and "\<forall>e \<in> set es. recorded e" and "s \<noteq> []"
  obtains R' where "scan_log E ftrunc R f = (R', None)"
    and "ban_threshold R' = ban_threshold R"
    and "get_score R' s = tally_of ftrunc s es"
    and "is_banned R' s \<longleftrightarrow> charged s es \<noteq> [] \<and> ban_threshold R \<le> tally_of ftrunc s es"
proof -
  obtain R' t where sc: "scan_log E ftrunc R f = (R', None)" "content f = Some t"
    "line_objects E (text_lines t) = es"
    using scan_log_recorded [OF assms(1,2)] .
  then have "scan_lines E ftrunc (reset_scan R) (text_lines t) = (R', None)" by (simp add: scan_log_def)
  note t = scan_lines_tally [OF this assms(3), unfolded sc(3)]
  show thesis by (rule that [of R']) (use sc(1) t in simp_all)
qed

lemma kget_default_all:
  "kget (default_all d ks n) (JStr s) =
     (if kget d (JStr s) = None \<and> JStr s \<in> set ks then Some n else kget d (JStr s))"
  unfolding default_all_def by (induction ks arbitrary: d) (auto simp: kdefault_def)

lemma monitor_scan_ok:
  assumes "monitor_ok E I M es" and "\<forall>e \<in> set es. recorded e" and "s \<noteq> []"
  obtains R' M' where "monitor_scan E ftrunc M = Inr M'"
    and "M' = M\<lparr>m_reputation := R', expulsion_steps := expulsion_steps M', detection_steps := detection_steps M'\<rparr>"
    and "ban_threshold R' = ban_threshold (m_reputation M)"
    and "get_score R' s = tally_of ftrunc s es"
    and "is_banned R' s \<longleftrightarrow> charged s es \<noteq> [] \<and> ban_threshold (m_reputation M) \<le> tally_of ftrunc s es"
    and "kget (detection_steps M') (JStr s) =
      (if kget (detection_steps M) (JStr s) = None \<and> is_banned R' s then Some (current_step M)
       else kget (detection_steps M) (JStr s))"
    and "kget (expulsion_steps M') (JStr s) =
      (if kget (expulsion_steps M) (JStr s) = None \<and> is_banned R' s then Some (current_step M)
       else kget (expulsion_steps M) (JStr s))"
proof -
  have f: "file_holds E (m_file M) es" using assms(1) by (simp add: monitor_ok_def log_state_ok_def)
  obtain R' where sc: "scan_log E ftrunc (m_reputation M) (m_file M) = (R', None)"
    "ban_threshold R' = ban_threshold (m_reputation M)" "get_score R' s = tally_of ftrunc s es"
    "is_banned R' s \<longleftrightarrow> charged s es \<noteq> [] \<and> ban_threshold (m_reputation M) \<le> tally_of ftrunc s es"
    using scan_log_tally [OF f assms(2,3)] by metis
  let ?M = "M\<lparr>m_reputation := R',
      expulsion_steps := default_all (expulsion_steps M) (banned_agents R') (current_step M),
      detection_steps := default_all (detection_steps M) (banned_agents R') (current_step M)\<rparr>"
  have "monitor_scan E ftrunc M = Inr ?M" by (simp add: monitor_scan_def sc(1))
  then show thesis by (rule that [of ?M R']) (use sc in \<open>simp_all add: kget_default_all is_banned_iff\<close>)
qed

lemma tally_snoc:
  "tally_of ftrunc s (es @ [e]) = tally_of ftrunc s es + (if subject_of e = JStr s then entry_weight ftrunc e else 0)"
  "charged s (es @ [e]) = charged s es @ (if subject_of e = JStr s then [e] else [])"
  by (simp_all add: tally_of_def charged_def)

lemma tally_records:
  "records s a details e \<Longrightarrow> s \<noteq> [] \<Longrightarrow>
     tally_of ftrunc s (es @ [e]) = tally_of ftrunc s es + default_weight (JStr (action_value a))"
  by (simp add: tally_snoc records_subject records_weight(2))

text \<open>
  The reputation-trap experiment against the policy that predicts it: how many harmful
  actions a rug-pull subject gets through before the monitor drops it.
\<close>

section \<open>The action that is the last accepted one\<close>

text \<open>The first action costs 35, every later one 25; the scan runs at multiples of \<open>k\<close>.\<close>

definition trap_stop :: "int \<Rightarrow> int \<Rightarrow> int" where
  "trap_stop threshold k = k * max 1 ((threshold - 10 + 25 * k - 1) div (25 * k))"

lemma trap_stop_ge: "1 \<le> k \<Longrightarrow> k \<le> trap_stop T k"
  using mult_left_mono [of 1 "max 1 ((T - 10 + 25 * k - 1) div (25 * k))" k] by (simp add: trap_stop_def)

lemma trap_stop_at_scan:
  assumes "1 \<le> k" and "1 \<le> j" and "j mod k = 0"
  shows "T \<le> 10 + 25 * j \<longleftrightarrow> trap_stop T k \<le> j"
proof -
  obtain q where q: "j = k * q" using assms(3) by (metis mod_0_imp_dvd dvdE)
  have q1: "1 \<le> q" using assms(1,2) q by (smt (verit) mult_nonneg_nonpos)
  have "trap_stop T k \<le> j \<longleftrightarrow> max 1 ((T - 10 + 25 * k - 1) div (25 * k)) \<le> q"
    using assms(1) by (simp add: trap_stop_def q)
  also have "\<dots> \<longleftrightarrow> (T - 10 + 25 * k - 1) div (25 * k) \<le> q" using q1 by simp
  also have "\<dots> \<longleftrightarrow> T - 10 \<le> 25 * k * q" using assms(1) by (intro ceil_div_le) simp
  finally show ?thesis by (auto simp: q)
qed

lemma trap_stop_mod: "trap_stop T k mod k = 0"
  by (simp add: trap_stop_def)

lemma trap_stop_expected:
  assumes "1 \<le> k"
  shows "trap_stop T k \<le> expected_fallout_radius
    \<lparr>rp_ban_threshold = T, rp_scan_interval = k, rp_weight = 25, rp_proof_missing_weight = w\<rparr>"
proof -
  let ?c = "(T - 10 + 25 * k - 1) div (25 * k)"
  have "25 * k * ?c \<le> T - 10 + 25 * k - 1"
    using assms by (intro pos_div_bounds(1)) simp
  then have "k * ?c \<le> (T + 24) div 25 + k - 1" by linarith
  moreover have "trap_stop T k = max k (k * ?c)"
    using assms by (simp add: trap_stop_def max_mult_distrib_left)
  ultimately have "trap_stop T k \<le> max 1 ((T + 24) div 25) + k - 1" by linarith
  then show ?thesis using assms
    by (cases "k = 1") (simp_all add: expected_fallout_radius_def expected_blast_radius_def
        accepted_before_expulsion_def Let_def add.commute)
qed

section \<open>One action of the subject\<close>

definition trap_registry :: "string \<Rightarrow> string \<Rightarrow> seedbox_registry" where
  "trap_registry now s = snd (register [] now ''fake-seedbox-1'' s ''mock-donation-address-fake-seedbox-1'' 10000 True)"

lemma trap_donation_ok:
  "\<exists>d ds'. trap_donation i s (trap_registry now0 s) ds now = Inr (d, ds') \<and>
     de_fake_seedbox (donation_evidence_of d) \<and> de_self_donation (donation_evidence_of d) \<and> \<not> dn_stolen d \<and>
     de_anchor (donation_evidence_of d) = []"
  by (simp add: trap_donation_def broadcast_donation_def registry_get_def trap_registry_def register_def
      donation_evidence_of_def Let_def)

lemma evidence_none: "evidence_wf E None"
  by (simp add: evidence_wf_def)

lemma donation_details_wf: "de_anchor d = [] \<Longrightarrow> wf_dict fr (donation_details n d b)"
  by (simp add: donation_details_def split: option.splits)

text \<open>The parts of the monitor the donation writes, besides the log.\<close>

definition after_donation :: "string \<Rightarrow> monitor \<Rightarrow> monitor" where
  "after_donation s M =
     (record_malicious_step s ((attempt s M)\<lparr>fake_donations := bump (fake_donations M) s\<rparr>))
       \<lparr>wash_trades := bump (wash_trades M) s\<rparr>"

lemma after_donation_simps [simp]:
  "m_file (after_donation s M) = m_file M" "m_inst (after_donation s M) = m_inst M"
  "m_reporter_id (after_donation s M) = m_reporter_id M" "m_reputation (after_donation s M) = m_reputation M"
  "fake_donations (after_donation s M) = bump (fake_donations M) s"
  "unauthorized_executions (after_donation s M) = unauthorized_executions M"
  "blocked_actions (after_donation s M) = blocked_actions M"
  "honest_stolen (after_donation s M) = honest_stolen M"
  "current_step (after_donation s M) = current_step M"
  "detection_steps (after_donation s M) = detection_steps M"
  "expulsion_steps (after_donation s M) = expulsion_steps M"
  "malicious_steps (after_donation s M) = setdefault (malicious_steps M) s (current_step M)"
  by (simp_all add: after_donation_def record_malicious_step_def attempt_def)

lemma count_bump [simp]: "count_of (bump d k) l = count_of d l + (if k = l then 1 else 0)"
  by (simp add: count_of_def bump_def update_conv')

lemma default_weights_used [simp]:
  "default_weight (JStr ''fake_seedbox_created'') = 10"
  "default_weight (JStr ''seedbox_donation_broadcast'') = 5"
  "default_weight (JStr ''wash_trade_detected'') = 20"
  by (simp_all add: default_weight_def default_weights_def)

lemma log_part_wash:
  "M4 = log_part M3 M4 \<Longrightarrow> log_part (M4\<lparr>wash_trades := bump (wash_trades M4) s\<rparr>) X =
     log_part (M3\<lparr>wash_trades := bump (wash_trades M3) s\<rparr>) X"
  by (cases M3; cases M4) (simp add: log_part_def)

lemma trap_donation_recorded:
  assumes "monitor_ok E I M es" and "identity_ok E I" and "s \<noteq> []" and "\<forall>e \<in> set es. recorded e"
    and "de_fake_seedbox d" and "de_self_donation d" and "de_anchor d = []"
  obtains M' es' where "record_seedbox_donation E I clock s d False M = Inr M'"
    and "M' = log_part (after_donation s M) M'"
    and "monitor_ok E I M' es'" and "\<forall>e \<in> set es'. recorded e"
    and "tally_of ftrunc s es' = tally_of ftrunc s es + 25" and "charged s es' \<noteq> []"
proof -
  define M3 where "M3 = record_malicious_step s ((attempt s M)\<lparr>fake_donations := bump (fake_donations M) s\<rparr>)"
  have m3: "monitor_ok E I M3 es" using assms(1)
    by (simp add: M3_def monitor_ok_def record_malicious_step_def attempt_def)
  obtain M4 e1 where l1: "log_action E I clock s SEEDBOX_DONATION_BROADCAST
        (donation_details (current_step M3) d False) None M3 = Inr M4"
      "M4 = log_part M3 M4" "monitor_ok E I M4 (es @ [e1])"
    and r1: "records s SEEDBOX_DONATION_BROADCAST (donation_details (current_step M3) d False) e1"
    using log_action_ok [OF m3 assms(2) donation_details_wf [OF assms(7)] evidence_none] by metis
  define M5 where "M5 = M4\<lparr>wash_trades := bump (wash_trades M4) s\<rparr>"
  let ?wd = "[(''step'', JInt (current_step M5)), (''donation_id'', JStr (de_donation_id d)),
     (''seedbox_id'', JStr (de_seedbox_id d)), (''donor_id'', JStr (de_donor_id d)),
     (''recipient_id'', JStr (de_recipient_id d))]"
  have m5: "monitor_ok E I M5 (es @ [e1])" using l1(3) by (simp add: M5_def monitor_ok_def)
  have wd: "wf_dict (float_repr E) ?wd" by simp
  obtain M6 e2 where l2: "log_action E I clock s WASH_TRADE_DETECTED ?wd None M5 = Inr M6"
      "M6 = log_part M5 M6" "monitor_ok E I M6 ((es @ [e1]) @ [e2])"
    and r2: "records s WASH_TRADE_DETECTED ?wd e2"
    using log_action_ok [OF m5 assms(2) wd evidence_none] by metis
  show thesis
  proof (rule that)
    show "record_seedbox_donation E I clock s d False M = Inr M6"
      using assms(5,6) l1(1) l2(1)
      by (simp add: record_seedbox_donation_def Let_def M3_def [symmetric] M5_def [symmetric])
        (simp add: M3_def attempt_def M5_def record_malicious_step_def)
    show "M6 = log_part (after_donation s M) M6"
      using l2(2) log_part_wash [OF l1(2)]
      by (simp add: M5_def after_donation_def M3_def record_malicious_step_def attempt_def)
    show "monitor_ok E I M6 ((es @ [e1]) @ [e2])" by (rule l2(3))
    show "\<forall>e \<in> set ((es @ [e1]) @ [e2]). recorded e"
      using assms(3,4) r1 r2 by (auto simp: recorded_def)
    show "tally_of ftrunc s ((es @ [e1]) @ [e2]) = tally_of ftrunc s es + 25"
      unfolding tally_records [OF r2 assms(3)] tally_records [OF r1 assms(3)] by simp
    show "charged s ((es @ [e1]) @ [e2]) \<noteq> []"
      unfolding tally_snoc(2) [of s "es @ [e1]"] using records_subject [OF r2 assms(3)] by simp
  qed
qed

lemma fake_creation_recorded:
  assumes "monitor_ok E I M es" and "identity_ok E I" and "s \<noteq> []" and "\<forall>e \<in> set es. recorded e"
  obtains M' es' where "record_fake_seedbox_creation E I clock s sb None M = Inr M'"
    and "M' = log_part (record_malicious_step s M) M'"
    and "monitor_ok E I M' es'" and "\<forall>e \<in> set es'. recorded e"
    and "tally_of ftrunc s es' = tally_of ftrunc s es + 10"
proof -
  let ?M = "record_malicious_step s M"
  let ?d = "[(''step'', JInt (current_step ?M)), (''seedbox_id'', JStr sb)]"
  have m: "monitor_ok E I ?M es" using assms(1) by (simp add: monitor_ok_def record_malicious_step_def)
  have wd: "wf_dict (float_repr E) ?d" by simp
  obtain M' e where l: "log_action E I clock s FAKE_SEEDBOX_CREATED ?d None ?M = Inr M'"
      "M' = log_part ?M M'" "monitor_ok E I M' (es @ [e])" and r: "records s FAKE_SEEDBOX_CREATED ?d e"
    using log_action_ok [OF m assms(2) wd evidence_none] by metis
  show thesis
  proof (rule that)
    show "record_fake_seedbox_creation E I clock s sb None M = Inr M'"
      using l(1) by (simp add: record_fake_seedbox_creation_def Let_def)
    show "M' = log_part ?M M'" by (rule l(2))
    show "monitor_ok E I M' (es @ [e])" by (rule l(3))
    show "\<forall>e \<in> set (es @ [e]). recorded e" using assms(3,4) r by (auto simp: recorded_def)
    show "tally_of ftrunc s (es @ [e]) = tally_of ftrunc s es + 10"
      unfolding tally_records [OF r assms(3)] by simp
  qed
qed

section \<open>The whole run\<close>

definition trap_inv ::
  "env \<Rightarrow> (string \<Rightarrow> int option) \<Rightarrow> identity \<Rightarrow> int \<Rightarrow> int \<Rightarrow> string \<Rightarrow> int \<Rightarrow> monitor \<Rightarrow> dict list \<Rightarrow> bool" where
  "trap_inv E ftrunc I T k s i M es =
     (monitor_ok E I M es \<and> (\<forall>e \<in> set es. recorded e) \<and>
      tally_of ftrunc s es = (if i = 0 then 0 else 10 + 25 * min i (trap_stop T k)) \<and>
      (0 < i \<longrightarrow> charged s es \<noteq> []) \<and>
      ban_threshold (m_reputation M) = T \<and>
      (is_banned (m_reputation M) s \<longleftrightarrow> trap_stop T k \<le> i) \<and>
      current_step M = i \<and>
      count_of (fake_donations M) s = min i (trap_stop T k) \<and>
      count_of (blocked_actions M) s = i - min i (trap_stop T k) \<and>
      count_of (unauthorized_executions M) s = 0 \<and> count_of (honest_stolen M) s = 0 \<and>
      map_of (malicious_steps M) s = (if i = 0 then None else Some 1) \<and>
      kget (detection_steps M) (JStr s) = (if trap_stop T k \<le> i then Some (trap_stop T k) else None) \<and>
      kget (expulsion_steps M) (JStr s) = (if trap_stop T k \<le> i then Some (trap_stop T k) else None))"

lemma setdefault_first [simp]:
  "map_of (setdefault d k n) k = (case map_of d k of None \<Rightarrow> Some n | Some m \<Rightarrow> Some m)"
  by (simp add: setdefault_def update_conv' split: option.splits)

text \<open>An action that is let through, before the scan.\<close>

lemma trap_accept:
  assumes inv: "trap_inv E ftrunc I T k s i M es" and "identity_ok E I" and "s \<noteq> []"
    and "1 \<le> k" and "0 \<le> i" and "i < trap_stop T k"
  obtains d ds' M1 M2 es' where "trap_donation (i + 1) s (trap_registry now0 s) ds now = Inr (d, ds')"
    and "(if i + 1 = 1 then record_fake_seedbox_creation E I clock s ''fake-seedbox-1'' None (next_step M)
          else Inr (next_step M)) = Inr M1"
    and "record_seedbox_donation E I clock s (donation_evidence_of d) (dn_stolen d) M1 = Inr M2"
    and "monitor_ok E I M2 es'" and "\<forall>e \<in> set es'. recorded e"
    and "tally_of ftrunc s es' = 10 + 25 * (i + 1)" and "charged s es' \<noteq> []"
    and "m_reputation M2 = m_reputation M" and "current_step M2 = i + 1"
    and "count_of (fake_donations M2) s = i + 1" and "count_of (blocked_actions M2) s = 0"
    and "count_of (unauthorized_executions M2) s = 0" and "count_of (honest_stolen M2) s = 0"
    and "map_of (malicious_steps M2) s = Some 1"
    and "detection_steps M2 = detection_steps M" and "expulsion_steps M2 = expulsion_steps M"
proof -
  let ?N = "next_step M"
  obtain d ds' where d: "trap_donation (i + 1) s (trap_registry now0 s) ds now = Inr (d, ds')"
      "de_fake_seedbox (donation_evidence_of d)" "de_self_donation (donation_evidence_of d)"
      "dn_stolen d = False" "de_anchor (donation_evidence_of d) = []"
    using trap_donation_ok [of "i + 1" s now0 ds now] by auto
  have n: "monitor_ok E I ?N es" "\<forall>e \<in> set es. recorded e" using inv
    by (simp_all add: trap_inv_def monitor_ok_def next_step_def)
  have base: "tally_of ftrunc s es = (if i = 0 then 0 else 10 + 25 * i)"
    using inv assms(6) by (simp add: trap_inv_def)
  obtain M1 es1 where c: "(if i + 1 = 1 then record_fake_seedbox_creation E I clock s ''fake-seedbox-1'' None ?N
          else Inr ?N) = Inr M1"
      and m1: "M1 = log_part (if i = 0 then record_malicious_step s ?N else ?N) M1"
      and ok1: "monitor_ok E I M1 es1" "\<forall>e \<in> set es1. recorded e" "tally_of ftrunc s es1 = 10 + 25 * i"
  proof (cases "i = 0")
    case True
    obtain M' es' where "record_fake_seedbox_creation E I clock s ''fake-seedbox-1'' None ?N = Inr M'"
      "M' = log_part (record_malicious_step s ?N) M'" "monitor_ok E I M' es'" "\<forall>e \<in> set es'. recorded e"
      "tally_of ftrunc s es' = tally_of ftrunc s es + 10"
      using fake_creation_recorded [OF n(1) assms(2,3) n(2)] by metis
    with True base that [of M' es'] show thesis by simp
  next
    case False
    have "?N = log_part ?N ?N" by (simp add: log_part_def)
    with False n base assms(5) that [of ?N es] show thesis by simp
  qed
  obtain M2 es2 where r: "record_seedbox_donation E I clock s (donation_evidence_of d) False M1 = Inr M2"
      "M2 = log_part (after_donation s M1) M2" "monitor_ok E I M2 es2" "\<forall>e \<in> set es2. recorded e"
      "tally_of ftrunc s es2 = tally_of ftrunc s es1 + 25" "charged s es2 \<noteq> []"
    using trap_donation_recorded [OF ok1(1) assms(2,3) ok1(2) d(2,3,5)] by metis
  define X where "X = (if i = 0 then record_malicious_step s ?N else ?N)"
  have x: "m_reputation X = m_reputation M" "current_step X = i + 1" "fake_donations X = fake_donations M"
    "blocked_actions X = blocked_actions M" "unauthorized_executions X = unauthorized_executions M"
    "honest_stolen X = honest_stolen M" "detection_steps X = detection_steps M" "expulsion_steps X = expulsion_steps M"
    "map_of (malicious_steps X) s = Some 1"
    using inv assms(5) by (auto simp: X_def record_malicious_step_def next_step_def trap_inv_def)
  define Y where "Y = after_donation s (log_part X M1)"
  have y: "m_reputation Y = m_reputation M" "current_step Y = i + 1" "fake_donations Y = bump (fake_donations M) s"
    "blocked_actions Y = blocked_actions M" "unauthorized_executions Y = unauthorized_executions M"
    "honest_stolen Y = honest_stolen M" "detection_steps Y = detection_steps M" "expulsion_steps Y = expulsion_steps M"
    "map_of (malicious_steps Y) s = Some 1"
    using x by (simp_all add: Y_def log_part_def)
  have m2: "M2 = log_part Y M2" using r(2) m1 by (simp add: X_def [symmetric] Y_def)
  have z: "m_reputation M2 = m_reputation Y" "current_step M2 = current_step Y" "fake_donations M2 = fake_donations Y"
    "blocked_actions M2 = blocked_actions Y" "unauthorized_executions M2 = unauthorized_executions Y"
    "honest_stolen M2 = honest_stolen Y" "detection_steps M2 = detection_steps Y"
    "expulsion_steps M2 = expulsion_steps Y" "malicious_steps M2 = malicious_steps Y"
    by (subst m2, simp add: log_part_def)+
  show thesis
    by (rule that [OF d(1) c _ r(3,4) _ r(6)])
      (use d(4) r(1,5) ok1(3) inv assms(6) in \<open>simp_all add: y z trap_inv_def\<close>)
qed

lemma trap_action_inv:
  assumes inv: "trap_inv E ftrunc I T k s i M es" and "identity_ok E I" and "s \<noteq> []"
    and "1 \<le> k" and "0 \<le> i"
  obtains M' ds' es' where
    "trap_action E ftrunc I clock (trap_registry now0 s) True k s (i + 1) (M, ds) = Inr (M', ds')"
    and "trap_inv E ftrunc I T k s (i + 1) M' es'"
proof (cases "trap_stop T k \<le> i")
  case True
  have "should_drop (next_step M) s" using inv True by (simp add: trap_inv_def should_drop_def next_step_def)
  then have "trap_action E ftrunc I clock (trap_registry now0 s) True k s (i + 1) (M, ds) =
      Inr (record_blocked_action s (next_step M), ds)" by (simp add: trap_action_def Let_def)
  moreover have "trap_inv E ftrunc I T k s (i + 1) (record_blocked_action s (next_step M)) es"
    using inv True assms(4,5) trap_stop_ge [OF assms(4), of T]
    by (auto simp: trap_inv_def record_blocked_action_def next_step_def attempt_def monitor_ok_def)
  ultimately show thesis by (rule that)
next
  case False
  then have lt: "i < trap_stop T k" by simp
  have keep: "\<not> should_drop (next_step M) s"
    using inv False by (simp add: trap_inv_def should_drop_def next_step_def)
  obtain d ds' M1 M2 es' where a: "trap_donation (i + 1) s (trap_registry now0 s) ds (snd (clock (m_tick (next_step M)))) = Inr (d, ds')"
    "(if i + 1 = 1 then record_fake_seedbox_creation E I clock s ''fake-seedbox-1'' None (next_step M)
          else Inr (next_step M)) = Inr M1"
    "record_seedbox_donation E I clock s (donation_evidence_of d) (dn_stolen d) M1 = Inr M2"
    and ok: "monitor_ok E I M2 es'" "\<forall>e \<in> set es'. recorded e"
      "tally_of ftrunc s es' = 10 + 25 * (i + 1)" "charged s es' \<noteq> []"
    and fr: "m_reputation M2 = m_reputation M" "current_step M2 = i + 1"
      "count_of (fake_donations M2) s = i + 1" "count_of (blocked_actions M2) s = 0"
      "count_of (unauthorized_executions M2) s = 0" "count_of (honest_stolen M2) s = 0"
      "map_of (malicious_steps M2) s = Some 1"
      "detection_steps M2 = detection_steps M" "expulsion_steps M2 = expulsion_steps M"
    using trap_accept [OF inv assms(2-5) lt] by metis
  have run: "trap_action E ftrunc I clock (trap_registry now0 s) True k s (i + 1) (M, ds) =
      (if (i + 1) mod k = 0 then bindr (monitor_scan E ftrunc M2) (\<lambda>M3. Inr (M3, ds')) else Inr (M2, ds'))"
    using keep a assms(4) by (simp add: trap_action_def Let_def)
  have old: "ban_threshold (m_reputation M) = T" "\<not> is_banned (m_reputation M) s"
    "kget (detection_steps M) (JStr s) = None" "kget (expulsion_steps M) (JStr s) = None"
    using inv False by (simp_all add: trap_inv_def)
  show thesis
  proof (cases "(i + 1) mod k = 0")
    case True
    obtain R' M' where sc: "monitor_scan E ftrunc M2 = Inr M'"
      "M' = M2\<lparr>m_reputation := R', expulsion_steps := expulsion_steps M', detection_steps := detection_steps M'\<rparr>"
      "ban_threshold R' = ban_threshold (m_reputation M2)" "get_score R' s = tally_of ftrunc s es'"
      "is_banned R' s \<longleftrightarrow> charged s es' \<noteq> [] \<and> ban_threshold (m_reputation M2) \<le> tally_of ftrunc s es'"
      "kget (detection_steps M') (JStr s) =
        (if kget (detection_steps M2) (JStr s) = None \<and> is_banned R' s then Some (current_step M2)
         else kget (detection_steps M2) (JStr s))"
      "kget (expulsion_steps M') (JStr s) =
        (if kget (expulsion_steps M2) (JStr s) = None \<and> is_banned R' s then Some (current_step M2)
         else kget (expulsion_steps M2) (JStr s))"
      by (rule monitor_scan_ok [OF ok(1,2) assms(3)])
    have ban: "is_banned R' s \<longleftrightarrow> trap_stop T k \<le> i + 1"
      using sc(5) ok(3,4) fr(1) old(1) trap_stop_at_scan [OF assms(4) _ True, of T] assms(5) by simp
    define M3 where "M3 = M2\<lparr>m_reputation := R', expulsion_steps := expulsion_steps M', detection_steps := detection_steps M'\<rparr>"
    have m3: "M' = M3" using sc(2) by (simp add: M3_def)
    have "trap_inv E ftrunc I T k s (i + 1) M3 es'"
      using ok fr old ban sc(3,6,7) lt assms(5)
      by (auto simp: trap_inv_def M3_def monitor_ok_def)
    with run True sc(1) m3 that [of M3 ds' es'] show thesis by simp
  next
    case nomod: False
    then have "trap_stop T k \<noteq> i + 1" using trap_stop_mod by metis
    then have "i + 1 < trap_stop T k" using lt by simp
    then have "trap_inv E ftrunc I T k s (i + 1) M2 es'"
      using ok fr old assms(5) by (simp add: trap_inv_def)
    with run nomod that [of M2 ds' es'] show thesis by simp
  qed
qed

lemma trap_loop_inv:
  assumes "trap_inv E ftrunc I T k s i M es" and "identity_ok E I" and "s \<noteq> []"
    and "1 \<le> k" and "0 \<le> i" and "i \<le> n"
  shows "\<exists>M' ds' es'. trap_loop E ftrunc I clock (trap_registry now0 s) True k s [i + 1..n] (M, ds) = Inr (M', ds') \<and>
    trap_inv E ftrunc I T k s n M' es'"
  using assms(1,5,6)
proof (induction "nat (n - i)" arbitrary: i M ds es)
  case 0
  then have "n = i" by simp
  with 0 show ?case by auto
next
  case (Suc m)
  then have less: "i + 1 \<le> n" "0 \<le> i + 1" "m = nat (n - (i + 1))" by linarith+
  obtain M1 ds1 es1 where
    a: "trap_action E ftrunc I clock (trap_registry now0 s) True k s (i + 1) (M, ds) = Inr (M1, ds1)"
    and i1: "trap_inv E ftrunc I T k s (i + 1) M1 es1"
    using trap_action_inv [OF Suc.prems(1) assms(2-4) Suc.prems(2)] by metis
  have "[i + 1..n] = (i + 1) # [i + 1 + 1..n]" using less(1) by (simp add: upto.simps)
  with Suc.hyps(1) [OF less(3) i1 less(2,1)] a show ?case by simp
qed

lemma trap_start:
  assumes "content f = None" and "1 \<le> k" and "s \<noteq> []"
  shows "trap_inv E ftrunc I T k s 0
    (open_monitor (fst (open_log now f)) (snd (open_log now f)) (open_reputation T) (id_hash I) 1) []"
proof -
  have h: "file_holds E (fst (open_log now f)) []"
    using assms(1) by (simp add: file_holds_def open_log_def append_text_def log_text_def)
  have "cache_ok E (fst (open_log now f)) (snd (open_log now f))"
    by (simp add: cache_ok_def open_log_def)
  moreover have "0 < trap_stop T k" using trap_stop_ge [OF assms(2), of T] assms(2) by simp
  ultimately show ?thesis using assms(3) h verify_integrity_holds [OF h]
    by (simp add: trap_inv_def monitor_ok_def log_state_ok_def open_monitor_def open_reputation_def
        count_of_def is_banned_def tally_of_def)
qed

text \<open>The metrics of the experiment, taken after a last scan at step \<open>n\<close>.\<close>

lemma trap_metrics:
  assumes inv: "trap_inv E ftrunc I T k s n M es" and "s \<noteq> []" and "1 \<le> k" and "1 \<le> n"
  obtains M' where "monitor_scan E ftrunc M = Inr M'"
    and "fallout_radius (get_metrics E (id_network I) M' s True) = min n (trap_stop T k)"
    and "mx_blocked_actions (get_metrics E (id_network I) M' s True) = n - min n (trap_stop T k)"
    and "mx_integrity_ok (get_metrics E (id_network I) M' s True)"
    and "mx_final_score (get_metrics E (id_network I) M' s True) = 10 + 25 * min n (trap_stop T k)"
    and "mx_expelled (get_metrics E (id_network I) M' s True) \<longleftrightarrow> T \<le> 10 + 25 * min n (trap_stop T k)"
    and "mx_reputation_lag (get_metrics E (id_network I) M' s True) =
      (if T \<le> 10 + 25 * min n (trap_stop T k) then Some (min n (trap_stop T k) - 1) else None)"
proof -
  have ok: "monitor_ok E I M es" "\<forall>e \<in> set es. recorded e" "charged s es \<noteq> []"
    "tally_of ftrunc s es = 10 + 25 * min n (trap_stop T k)"
    using inv assms(4) by (simp_all add: trap_inv_def)
  obtain R' M' where sc: "monitor_scan E ftrunc M = Inr M'"
    "M' = M\<lparr>m_reputation := R', expulsion_steps := expulsion_steps M', detection_steps := detection_steps M'\<rparr>"
    "ban_threshold R' = ban_threshold (m_reputation M)" "get_score R' s = tally_of ftrunc s es"
    "is_banned R' s \<longleftrightarrow> charged s es \<noteq> [] \<and> ban_threshold (m_reputation M) \<le> tally_of ftrunc s es"
    "kget (detection_steps M') (JStr s) =
      (if kget (detection_steps M) (JStr s) = None \<and> is_banned R' s then Some (current_step M)
       else kget (detection_steps M) (JStr s))"
    "kget (expulsion_steps M') (JStr s) =
      (if kget (expulsion_steps M) (JStr s) = None \<and> is_banned R' s then Some (current_step M)
       else kget (expulsion_steps M) (JStr s))"
    by (rule monitor_scan_ok [OF ok(1,2) assms(2)])
  define M3 where "M3 = M\<lparr>m_reputation := R', expulsion_steps := expulsion_steps M', detection_steps := detection_steps M'\<rparr>"
  let ?mx = "get_metrics E (id_network I) M3 s True"
  have m3: "M' = M3" using sc(2) by (simp add: M3_def)
  have ver: "verify_integrity E (id_network I) (m_file M) = (True, [])"
    using ok(1) by (simp add: monitor_ok_def log_state_ok_def)
  have stop: "1 \<le> trap_stop T k" using trap_stop_ge [OF assms(3), of T] assms(3) by simp
  have ban: "is_banned R' s \<longleftrightarrow> T \<le> 10 + 25 * min n (trap_stop T k)"
    using sc(5) ok(3,4) inv by (simp add: trap_inv_def)
  have stopped: "T \<le> 10 + 25 * trap_stop T k"
    using trap_stop_at_scan [OF assms(3) stop trap_stop_mod, of T] by simp
  have fields: "fallout_radius ?mx = min n (trap_stop T k)" "mx_blocked_actions ?mx = n - min n (trap_stop T k)"
    "mx_integrity_ok ?mx" "mx_final_score ?mx = 10 + 25 * min n (trap_stop T k)"
    "mx_expelled ?mx = is_banned R' s" "mx_first_malicious_step ?mx = Some 1"
    using inv assms(4) sc(4) ok(4)
    by (simp_all add: get_metrics_def ver fallout_radius_def M3_def trap_inv_def Let_def)
  have det: "mx_detection_step ?mx = (if is_banned R' s then Some (min n (trap_stop T k)) else None)"
    using sc(6,7) inv stop ban stopped assms(4)
    by (cases "trap_stop T k \<le> n") (simp_all add: get_metrics_def ver M3_def detected_at_def trap_inv_def Let_def)
  have "mx_reputation_lag ?mx = (case (mx_first_malicious_step ?mx, mx_detection_step ?mx) of
      (Some a, Some b) \<Rightarrow> Some (max 0 (b - a)) | _ \<Rightarrow> None)"
    by (simp add: get_metrics_def split_beta Let_def)
  then have "mx_reputation_lag ?mx = (if is_banned R' s then Some (min n (trap_stop T k) - 1) else None)"
    using det fields(6) stop assms(4) by simp
  with fields ban sc(1) that show ?thesis unfolding m3 by simp
qed

text \<open>
  C14: The reputation-trap experiment with accountability, on a fresh log: the harmful actions
  that get through are the first ones up to the first scan at which the recorded charges
  reach the threshold, never more than the policy of weight 25 predicts; every later action
  is blocked, the log verifies, the score adds up, and an expelled subject was expelled with
  a lag of one less than the fallout, within the predicted lag.
\<close>

theorem trap_fallout_predicted:
  assumes "identity_ok E I" and "content f = None" and "s \<noteq> []" and "1 \<le> k" and "1 \<le> n"
    and "policy = \<lparr>rp_ban_threshold = T, rp_scan_interval = k, rp_weight = 25, rp_proof_missing_weight = w\<rparr>"
  shows "\<exists>mx. run_reputation_trap_experiment E ftrunc I clock f True n T k s None = Inr mx \<and>
    fallout_radius mx = min n (trap_stop T k) \<and>
    fallout_radius mx \<le> expected_fallout_radius policy \<and>
    mx_blocked_actions mx = n - fallout_radius mx \<and>
    mx_integrity_ok mx \<and> mx_final_score mx = 10 + 25 * fallout_radius mx \<and>
    (mx_expelled mx \<longleftrightarrow> T \<le> mx_final_score mx) \<and>
    mx_reputation_lag mx = (if mx_expelled mx then Some (fallout_radius mx - 1) else None) \<and>
    fallout_radius mx - 1 \<le> expected_reputation_lag policy"
proof -
  let ?f1 = "open_log (fst (clock 0)) f"
  let ?M0 = "open_monitor (fst ?f1) (snd ?f1) (open_reputation T) (id_hash I) 1"
  let ?G = "trap_registry (snd (clock 0)) s"
  have start: "trap_inv E ftrunc I T k s 0 ?M0 []" by (rule trap_start [OF assms(2,4,3)])
  have "\<exists>M' ds' es'. trap_loop E ftrunc I clock ?G True k s [0 + 1..n] (?M0, []) = Inr (M', ds') \<and>
      trap_inv E ftrunc I T k s n M' es'"
    by (rule trap_loop_inv [OF start assms(1,3,4)]) (use assms(5) in simp_all)
  then obtain M ds es where loop: "trap_loop E ftrunc I clock ?G True k s [1..n] (?M0, []) = Inr (M, ds)"
    and inv: "trap_inv E ftrunc I T k s n M es" by auto
  obtain M' where m: "monitor_scan E ftrunc M = Inr M'"
    "fallout_radius (get_metrics E (id_network I) M' s True) = min n (trap_stop T k)"
    "mx_blocked_actions (get_metrics E (id_network I) M' s True) = n - min n (trap_stop T k)"
    "mx_integrity_ok (get_metrics E (id_network I) M' s True)"
    "mx_final_score (get_metrics E (id_network I) M' s True) = 10 + 25 * min n (trap_stop T k)"
    "mx_expelled (get_metrics E (id_network I) M' s True) \<longleftrightarrow> T \<le> 10 + 25 * min n (trap_stop T k)"
    "mx_reputation_lag (get_metrics E (id_network I) M' s True) =
      (if T \<le> 10 + 25 * min n (trap_stop T k) then Some (min n (trap_stop T k) - 1) else None)"
    by (rule trap_metrics [OF inv assms(3-5)])
  have run: "run_reputation_trap_experiment E ftrunc I clock f True n T k s None = Inr (get_metrics E (id_network I) M' s True)"
    using loop m(1) by (simp add: run_reputation_trap_experiment_def Let_def split_beta trap_registry_def)
  have pred: "min n (trap_stop T k) \<le> expected_fallout_radius policy"
    using trap_stop_expected [OF assms(4), of T w] by (simp add: assms(6))
  then have "min n (trap_stop T k) - 1 \<le> expected_reputation_lag policy" by (simp add: expected_reputation_lag_def)
  with run m(2-7) pred show ?thesis by (intro exI [of _ "get_metrics E (id_network I) M' s True"]) simp
qed

lemma trap_fallout_predicted_witness:
  "\<exists>mx. run_reputation_trap_experiment sample_env (\<lambda>_. None) sample_identity (\<lambda>n. (n, ''t''))
      \<lparr>content = None, mtime_ns = 0\<rparr> True 100 50 5 ''compromised-agent'' None = Inr mx \<and>
    fallout_radius mx = min 100 (trap_stop 50 5) \<and>
    fallout_radius mx \<le> expected_fallout_radius
      \<lparr>rp_ban_threshold = 50, rp_scan_interval = 5, rp_weight = 25, rp_proof_missing_weight = 10\<rparr> \<and>
    mx_blocked_actions mx = 100 - fallout_radius mx \<and>
    mx_integrity_ok mx \<and> mx_final_score mx = 10 + 25 * fallout_radius mx \<and>
    (mx_expelled mx \<longleftrightarrow> 50 \<le> mx_final_score mx) \<and>
    mx_reputation_lag mx = (if mx_expelled mx then Some (fallout_radius mx - 1) else None) \<and>
    fallout_radius mx - 1 \<le> expected_reputation_lag
      \<lparr>rp_ban_threshold = 50, rp_scan_interval = 5, rp_weight = 25, rp_proof_missing_weight = 10\<rparr>"
  by (rule trap_fallout_predicted) simp_all

end
