(* ===== verification/Community_Store.thy ===== *)
theory Community_Store
  imports Json_Roundtrip
begin

text \<open>
  The state of the community service (claw_community/models.py) and its store
  (claw_community/state.py): records, their JSON form, and the reader that rebuilds them.

  The store's file is represented by the JSON value it holds, written with sorted keys.  The
  reader converts most fields with \<open>str\<close>, \<open>int\<close> and \<open>float\<close>; the treasury is built from the
  stored values as they are, so a treasury whose values have other types than the record's
  is outside the model and read as \<open>None\<close>.
\<close>

section \<open>Records\<close>

record community_member =
  cm_agent_id :: string
  cm_wallet_address :: string
  cm_joined_at :: string
  cm_donation_txid :: string
  cm_donated_sats :: int
  cm_initial_trust :: string
  cm_assigned :: json

record treasury =
  tr_wallet_address :: string
  tr_balance :: int
  tr_incoming :: int
  tr_outgoing :: int

record community_seedbox =
  cs_seedbox_id :: string
  cs_provider :: string
  cs_machine_id :: string
  cs_hostname :: string
  cs_ip :: string
  cs_content_dir :: string
  cs_health_status :: string
  cs_capacity_agents :: int
  cs_logs_path :: string
  cs_created_at :: string

record community_file =
  cf_file_id :: string
  cf_name :: string
  cf_tags :: "string list"
  cf_sha256 :: string
  cf_size_bytes :: int
  cf_seedbox_id :: string
  cf_content_url :: string
  cf_magnet_uri :: string

record community =
  co_community_id :: string
  co_founder_agent_id :: string
  co_treasury :: treasury
  co_join_fee :: int
  co_capacity :: int
  co_threshold :: int
  co_members :: "(string \<times> community_member) list"
  co_seedboxes :: "(string \<times> community_seedbox) list"
  co_files :: "(string \<times> community_file) list"
  co_created_at :: string

type_synonym communities = "(string \<times> community) list"

definition co_member_count :: "community \<Rightarrow> int" where
  "co_member_count c = int (length (co_members c))"

definition co_seedbox_count :: "community \<Rightarrow> int" where
  "co_seedbox_count c = int (length (co_seedboxes c))"

definition required_seedbox_count :: "community \<Rightarrow> int res" where
  "required_seedbox_count c =
     (if co_members c = [] then Inr (if co_seedboxes c = [] then 0 else 1)
      else if co_capacity c = 0 then Inl ZeroDivisionError
      else Inr ((co_member_count c + co_capacity c - 1) div co_capacity c))"

section \<open>The JSON form\<close>

definition member_json :: "community_member \<Rightarrow> json" where
  "member_json m = JObj
     [(''agent_id'', JStr (cm_agent_id m)), (''wallet_address'', JStr (cm_wallet_address m)),
      (''joined_at'', JStr (cm_joined_at m)), (''donation_txid'', JStr (cm_donation_txid m)),
      (''donated_sats'', JInt (cm_donated_sats m)), (''initial_trust'', JFloat (cm_initial_trust m)),
      (''assigned_seedbox_id'', cm_assigned m)]"

definition treasury_json :: "treasury \<Rightarrow> json" where
  "treasury_json t = JObj
     [(''wallet_address'', JStr (tr_wallet_address t)), (''balance_sats'', JInt (tr_balance t)),
      (''incoming_sats'', JInt (tr_incoming t)), (''outgoing_sats'', JInt (tr_outgoing t))]"

definition seedbox_json :: "community_seedbox \<Rightarrow> json" where
  "seedbox_json s = JObj
     [(''seedbox_id'', JStr (cs_seedbox_id s)), (''provider'', JStr (cs_provider s)),
      (''machine_id'', JStr (cs_machine_id s)), (''hostname'', JStr (cs_hostname s)),
      (''ip'', JStr (cs_ip s)), (''content_dir'', JStr (cs_content_dir s)),
      (''health_status'', JStr (cs_health_status s)), (''capacity_agents'', JInt (cs_capacity_agents s)),
      (''logs_path'', JStr (cs_logs_path s)), (''created_at'', JStr (cs_created_at s))]"

definition file_json :: "community_file \<Rightarrow> json" where
  "file_json f = JObj
     [(''file_id'', JStr (cf_file_id f)), (''name'', JStr (cf_name f)),
      (''tags'', JList (map JStr (cf_tags f))), (''sha256'', JStr (cf_sha256 f)),
      (''size_bytes'', JInt (cf_size_bytes f)), (''seedbox_id'', JStr (cf_seedbox_id f)),
      (''content_url'', JStr (cf_content_url f)), (''magnet_uri'', JStr (cf_magnet_uri f))]"

definition dict_json :: "('v \<Rightarrow> json) \<Rightarrow> (string \<times> 'v) list \<Rightarrow> json" where
  "dict_json f d = JObj (map (\<lambda>p. (fst p, f (snd p))) d)"

definition community_json :: "community \<Rightarrow> json" where
  "community_json c = JObj
     [(''community_id'', JStr (co_community_id c)), (''founder_agent_id'', JStr (co_founder_agent_id c)),
      (''treasury'', treasury_json (co_treasury c)), (''join_fee_sats'', JInt (co_join_fee c)),
      (''seedbox_capacity_agents'', JInt (co_capacity c)),
      (''seedbox_purchase_threshold_sats'', JInt (co_threshold c)),
      (''members'', dict_json member_json (co_members c)),
      (''seedboxes'', dict_json seedbox_json (co_seedboxes c)),
      (''files'', dict_json file_json (co_files c)), (''created_at'', JStr (co_created_at c))]"

section \<open>Reading it back\<close>

text \<open>
  \<open>str\<close> and \<open>float\<close> of a value that is not already of that type, and the integer part of a
  float, are Python's.
\<close>

record conv =
  str_of_other :: "json \<Rightarrow> string"
  float_of_other :: "json \<Rightarrow> string res"
  trunc_float :: "string \<Rightarrow> int option"

definition as_str :: "conv \<Rightarrow> json \<Rightarrow> string" where
  "as_str C v = (case v of
     JStr s \<Rightarrow> s
   | JInt n \<Rightarrow> int_str n
   | JBool b \<Rightarrow> (if b then ''True'' else ''False'')
   | JNull \<Rightarrow> ''None''
   | _ \<Rightarrow> str_of_other C v)"

definition as_int :: "conv \<Rightarrow> json \<Rightarrow> int res" where
  "as_int C v = to_int (trunc_float C) v"

definition as_float :: "conv \<Rightarrow> json \<Rightarrow> string res" where
  "as_float C v = (case v of JFloat r \<Rightarrow> Inr r | _ \<Rightarrow> float_of_other C v)"

text \<open>\<open>v[k]\<close>, and \<open>.items()\<close> of \<open>v.get(k, {})\<close>.\<close>

definition item_of :: "json \<Rightarrow> string \<Rightarrow> json res" where
  "item_of v k = (case v of
     JObj d \<Rightarrow> (case map_of d k of None \<Rightarrow> Inl (KeyError k) | Some w \<Rightarrow> Inr w)
   | _ \<Rightarrow> Inl TypeError)"

definition str_item :: "conv \<Rightarrow> json \<Rightarrow> string \<Rightarrow> string res" where
  "str_item C v k = bindr (item_of v k) (\<lambda>w. Inr (as_str C w))"

definition int_item :: "conv \<Rightarrow> json \<Rightarrow> string \<Rightarrow> int res" where
  "int_item C v k = bindr (item_of v k) (as_int C)"

definition items_of :: "json \<Rightarrow> string \<Rightarrow> dict res" where
  "items_of v k = (case v of
     JObj d \<Rightarrow> (case get_or d k (JObj []) of JObj e \<Rightarrow> Inr e | _ \<Rightarrow> Inl AttributeError)
   | _ \<Rightarrow> Inl AttributeError)"

text \<open>A dict comprehension over the items of a section.\<close>

definition read_items :: "(json \<Rightarrow> 'v res) \<Rightarrow> dict \<Rightarrow> (string \<times> 'v) list res" where
  "read_items f d = mapr (\<lambda>p. bindr (f (snd p)) (\<lambda>v. Inr (fst p, v))) d"

definition get_item :: "json \<Rightarrow> string \<Rightarrow> json \<Rightarrow> json res" where
  "get_item v k dflt = (case v of JObj d \<Rightarrow> Inr (get_or d k dflt) | _ \<Rightarrow> Inl AttributeError)"

definition read_member :: "conv \<Rightarrow> json \<Rightarrow> community_member res" where
  "read_member C v =
     bindr (str_item C v ''agent_id'') (\<lambda>agent.
     bindr (str_item C v ''wallet_address'') (\<lambda>wallet.
     bindr (str_item C v ''joined_at'') (\<lambda>joined.
     bindr (str_item C v ''donation_txid'') (\<lambda>txid.
     bindr (int_item C v ''donated_sats'') (\<lambda>donated.
     bindr (bindr (item_of v ''initial_trust'') (as_float C)) (\<lambda>trust.
     bindr (get_item v ''assigned_seedbox_id'' JNull) (\<lambda>assigned.
       Inr \<lparr>cm_agent_id = agent, cm_wallet_address = wallet, cm_joined_at = joined,
            cm_donation_txid = txid, cm_donated_sats = donated, cm_initial_trust = trust,
            cm_assigned = assigned\<rparr>)))))))"

definition read_seedbox :: "conv \<Rightarrow> json \<Rightarrow> community_seedbox res" where
  "read_seedbox C v =
     bindr (str_item C v ''seedbox_id'') (\<lambda>sid.
     bindr (str_item C v ''provider'') (\<lambda>provider.
     bindr (str_item C v ''machine_id'') (\<lambda>machine.
     bindr (str_item C v ''hostname'') (\<lambda>hostname.
     bindr (str_item C v ''ip'') (\<lambda>ip.
     bindr (str_item C v ''content_dir'') (\<lambda>content.
     bindr (str_item C v ''health_status'') (\<lambda>health.
     bindr (int_item C v ''capacity_agents'') (\<lambda>capacity.
     bindr (str_item C v ''logs_path'') (\<lambda>logs.
     bindr (str_item C v ''created_at'') (\<lambda>created.
       Inr \<lparr>cs_seedbox_id = sid, cs_provider = provider, cs_machine_id = machine, cs_hostname = hostname,
            cs_ip = ip, cs_content_dir = content, cs_health_status = health,
            cs_capacity_agents = capacity, cs_logs_path = logs, cs_created_at = created\<rparr>))))))))))"

text \<open>\<open>tuple(str(tag) for tag in v)\<close>: a list gives its elements, a string its characters, an object its keys.\<close>

definition read_tags :: "conv \<Rightarrow> json \<Rightarrow> string list res" where
  "read_tags C v = (case v of
     JList vs \<Rightarrow> Inr (map (as_str C) vs)
   | JStr s \<Rightarrow> Inr (map (\<lambda>c. [c]) s)
   | JObj d \<Rightarrow> Inr (map fst d)
   | _ \<Rightarrow> Inl TypeError)"

definition read_file :: "conv \<Rightarrow> json \<Rightarrow> community_file res" where
  "read_file C v =
     bindr (str_item C v ''file_id'') (\<lambda>fid.
     bindr (str_item C v ''name'') (\<lambda>nm.
     bindr (bindr (get_item v ''tags'' (JList [])) (read_tags C)) (\<lambda>tags.
     bindr (get_item v ''sha256'' (JStr [])) (\<lambda>sha.
     bindr (bindr (get_item v ''size_bytes'' (JInt 0)) (as_int C)) (\<lambda>sz.
     bindr (str_item C v ''seedbox_id'') (\<lambda>sid.
     bindr (str_item C v ''content_url'') (\<lambda>url.
     bindr (get_item v ''magnet_uri'' (JStr [])) (\<lambda>magnet.
       Inr \<lparr>cf_file_id = fid, cf_name = nm, cf_tags = tags, cf_sha256 = as_str C sha,
            cf_size_bytes = sz, cf_seedbox_id = sid, cf_content_url = url,
            cf_magnet_uri = as_str C magnet\<rparr>))))))))"

text \<open>
  \<open>CommunityTreasury(**d)\<close>: an unknown or a missing name raises; \<open>None\<close> is a treasury the
  record cannot hold.
\<close>

definition read_treasury :: "json \<Rightarrow> treasury option res" where
  "read_treasury v = (case v of
     JObj d \<Rightarrow>
       if \<not> list_all (\<lambda>k. k \<in> {''wallet_address'', ''balance_sats'', ''incoming_sats'', ''outgoing_sats''}) (map fst d)
          \<or> map_of d ''wallet_address'' = None
       then Inl TypeError
       else
         (case (jget d ''wallet_address'', get_or d ''balance_sats'' (JInt 0),
                get_or d ''incoming_sats'' (JInt 0), get_or d ''outgoing_sats'' (JInt 0)) of
            (JStr w, JInt b, JInt i, JInt out) \<Rightarrow>
              Inr (Some \<lparr>tr_wallet_address = w, tr_balance = b, tr_incoming = i, tr_outgoing = out\<rparr>)
          | _ \<Rightarrow> Inr None)
   | _ \<Rightarrow> Inl TypeError)"

definition read_community :: "conv \<Rightarrow> json \<Rightarrow> community option res" where
  "read_community C v =
     bindr (bindr (item_of v ''treasury'') read_treasury) (\<lambda>treasury.
     bindr (bindr (items_of v ''members'') (read_items (read_member C))) (\<lambda>members.
     bindr (bindr (items_of v ''seedboxes'') (read_items (read_seedbox C))) (\<lambda>seedboxes.
     bindr (bindr (items_of v ''files'') (read_items (read_file C))) (\<lambda>files.
     bindr (str_item C v ''community_id'') (\<lambda>cid.
     bindr (str_item C v ''founder_agent_id'') (\<lambda>founder.
     bindr (int_item C v ''join_fee_sats'') (\<lambda>fee.
     bindr (int_item C v ''seedbox_capacity_agents'') (\<lambda>capacity.
     bindr (int_item C v ''seedbox_purchase_threshold_sats'') (\<lambda>threshold.
     bindr (str_item C v ''created_at'') (\<lambda>created.
       Inr (map_option (\<lambda>t. \<lparr>co_community_id = cid, co_founder_agent_id = founder, co_treasury = t,
         co_join_fee = fee, co_capacity = capacity, co_threshold = threshold, co_members = members,
         co_seedboxes = seedboxes, co_files = files, co_created_at = created\<rparr>) treasury)))))))))))"

definition load_all :: "conv \<Rightarrow> json option \<Rightarrow> communities option res" where
  "load_all C f = (case f of
     None \<Rightarrow> Inr (Some [])
   | Some v \<Rightarrow>
       bindr (items_of v ''communities'') (\<lambda>d.
       bindr (read_items (read_community C) d) (\<lambda>cs.
         Inr (if list_all (\<lambda>p. snd p \<noteq> None) cs then Some (map (\<lambda>p. (fst p, the (snd p))) cs) else None))))"

definition save_all :: "communities \<Rightarrow> json option" where
  "save_all cs =
     Some (sort_keys (JObj [(''communities'', dict_json community_json (sort_key fst cs))]))"

end
