(* ===== verification/Claw_Service.thy ===== *)
theory Claw_Service
  imports Community_Store Seedbox
begin

text \<open>
  The community service (claw_community/service.py) with the providers it launches seedboxes
  with (claw_community/seedbox_providers.py) and its default ports (claw_community/ports.py).

  Every operation loads the store, works on the records and saves them; an exception leaves
  the store and the audit trail as they are at that point, so an operation returns the result
  and the state.  The clock is a stream, \<open>str(path / name)\<close>, the address of localhost, the
  content of a file and the two float computations of a member's trust are parameters.  What
  a provider writes below its own directory is not part of the state.
\<close>

section \<open>State and operations\<close>

record claw_env =
  ce_env :: env
  ce_conv :: conv
  ce_clock :: "nat \<Rightarrow> string"
  ce_ip :: string
  ce_join :: "string \<Rightarrow> string \<Rightarrow> string"
  ce_founder_trust :: "int \<Rightarrow> int \<Rightarrow> string"
  ce_join_trust :: "int \<Rightarrow> int \<Rightarrow> string"
  ce_read_file :: "string \<Rightarrow> bytes option"

record audit_event =
  ae_actor_id :: string
  ae_subject_id :: string
  ae_action :: string
  ae_details :: dict

record service =
  sv_root :: string
  sv_store :: "json option"
  sv_audit :: "audit_event list"
  sv_messages :: "dict list"
  sv_tick :: nat

type_synonym 'a op = "('a, service) step"

definition now_op :: "claw_env \<Rightarrow> string op" where
  "now_op W = (\<lambda>s. (Inr (ce_clock W (sv_tick s)), s\<lparr>sv_tick := Suc (sv_tick s)\<rparr>))"

text \<open>A stored treasury the records cannot hold is outside the model and stops the operation.\<close>

definition load_op :: "claw_env \<Rightarrow> communities op" where
  "load_op W = (\<lambda>s. case load_all (ce_conv W) (sv_store s) of
     Inl e \<Rightarrow> (Inl e, s)
   | Inr None \<Rightarrow> (Inl (RuntimeError ''treasury outside the model''), s)
   | Inr (Some cs) \<Rightarrow> (Inr cs, s))"

definition save_op :: "communities \<Rightarrow> unit op" where
  "save_op cs = (\<lambda>s. (Inr (), s\<lparr>sv_store := save_all cs\<rparr>))"

definition audit_op :: "string \<Rightarrow> string \<Rightarrow> string \<Rightarrow> dict \<Rightarrow> unit op" where
  "audit_op actor_id subject_id action details =
     (\<lambda>s. (Inr (), s\<lparr>sv_audit := sv_audit s @ [\<lparr>ae_actor_id = actor_id, ae_subject_id = subject_id,
        ae_action = action, ae_details = details\<rparr>]\<rparr>))"

definition require_community :: "communities \<Rightarrow> string \<Rightarrow> community op" where
  "require_community cs cid = (case map_of cs cid of
     None \<Rightarrow> raise (KeyError (''unknown community '' @ cid))
   | Some c \<Rightarrow> ret c)"

text \<open>The community in a reply: its record and the three counts, of which the last divides by the capacity.\<close>

type_synonym payload = "community \<times> int \<times> int \<times> int"

definition community_payload :: "community \<Rightarrow> payload res" where
  "community_payload c =
     bindr (required_seedbox_count c) (\<lambda>required. Inr (c, co_member_count c, co_seedbox_count c, required))"

section \<open>Treasury and members\<close>

definition treasury_wallet :: "env \<Rightarrow> string \<Rightarrow> string" where
  "treasury_wallet E cid =
     ''dclaw-treasury-'' @ take 40 (sha256_hex E (utf8_encode (''community-treasury:'' @ cid)))"

definition fund :: "int \<Rightarrow> community \<Rightarrow> community" where
  "fund amount c =
     (let t = co_treasury c
      in c\<lparr>co_treasury := t\<lparr>tr_balance := tr_balance t + amount, tr_incoming := tr_incoming t + amount\<rparr>\<rparr>)"

text \<open>\<open>xs[i]\<close> with Python's negative indices.\<close>

definition py_nth :: "'a list \<Rightarrow> int \<Rightarrow> 'a res" where
  "py_nth xs i =
     (let j = (if i < 0 then i + int (length xs) else i)
      in if 0 \<le> j \<and> j < int (length xs) then Inr (xs ! nat j) else Inl IndexError)"

fun assign_members ::
  "string list \<Rightarrow> int \<Rightarrow> int \<Rightarrow> (string \<times> community_member) list \<Rightarrow> (string \<times> community_member) list \<Rightarrow>
     (string \<times> community_member) list res" where
  "assign_members ids capacity i [] ms = Inr ms"
| "assign_members ids capacity i ((k, m) # rest) ms =
     (if capacity = 0 then Inl ZeroDivisionError
      else bindr (py_nth ids (min (i div capacity) (int (length ids) - 1))) (\<lambda>sid.
        assign_members ids capacity (i + 1) rest (AList.update k (m\<lparr>cm_assigned := JStr sid\<rparr>) ms)))"

definition seedboxes_by_age :: "community \<Rightarrow> community_seedbox list" where
  "seedboxes_by_age c = sort_key cs_created_at (map snd (co_seedboxes c))"

definition rebalance_members :: "community \<Rightarrow> community res" where
  "rebalance_members c =
     (let ids = map cs_seedbox_id (seedboxes_by_age c)
      in if ids = [] then Inr c
         else bindr (assign_members ids (co_capacity c) 0
                       (sort_key (\<lambda>p. cm_joined_at (snd p)) (co_members c)) (co_members c))
                (\<lambda>ms. Inr (c\<lparr>co_members := ms\<rparr>)))"

section \<open>Creating and funding\<close>

definition create_community ::
  "claw_env \<Rightarrow> string \<Rightarrow> string \<Rightarrow> string \<Rightarrow> int \<Rightarrow> int \<Rightarrow> int \<Rightarrow> int \<Rightarrow> payload op" where
  "create_community W cid founder wallet funding fee capacity threshold =
     seq (load_op W) (\<lambda>cs.
     if map_of cs cid \<noteq> None then raise (ValueError (''community already exists: '' @ cid))
     else seq (now_op W) (\<lambda>created.
       if fee = 0 then raise ZeroDivisionError
       else
         let txid = ''mocktx-'' @ cid @ ''-founder-funding'';
             trust = ce_founder_trust W funding fee;
             tw = treasury_wallet (ce_env W) cid
         in seq (now_op W) (\<lambda>joined.
           let m = \<lparr>cm_agent_id = founder, cm_wallet_address = wallet, cm_joined_at = joined,
                    cm_donation_txid = txid, cm_donated_sats = funding, cm_initial_trust = trust,
                    cm_assigned = JNull\<rparr>;
               c = fund funding \<lparr>co_community_id = cid, co_founder_agent_id = founder,
                    co_treasury = \<lparr>tr_wallet_address = tw, tr_balance = 0, tr_incoming = 0, tr_outgoing = 0\<rparr>,
                    co_join_fee = fee, co_capacity = capacity, co_threshold = threshold,
                    co_members = [], co_seedboxes = [], co_files = [], co_created_at = created\<rparr>;
               c' = c\<lparr>co_members := [(founder, m)]\<rparr>
           in seq (save_op (AList.update cid c' cs)) (\<lambda>_.
              seq (audit_op founder cid ''community_created''
                [(''community_id'', JStr cid), (''treasury_wallet_address'', JStr tw),
                 (''join_fee_sats'', JInt fee), (''seedbox_capacity_agents'', JInt capacity),
                 (''seedbox_purchase_threshold_sats'', JInt threshold),
                 (''initial_funding_sats'', JInt funding), (''founder_agent_id'', JStr founder),
                 (''founder_wallet_address'', JStr wallet), (''founder_donation_txid'', JStr txid),
                 (''founder_initial_trust'', JFloat trust)]) (\<lambda>_.
              raising (community_payload c'))))))"

text \<open>\<open>x or y\<close> for an optional string.\<close>

definition or_text :: "string option \<Rightarrow> string \<Rightarrow> string" where
  "or_text x y = (case x of None \<Rightarrow> y | Some s \<Rightarrow> if s = [] then y else s)"

definition fund_treasury ::
  "claw_env \<Rightarrow> string \<Rightarrow> string \<Rightarrow> string \<Rightarrow> int \<Rightarrow> string option \<Rightarrow> (payload \<times> string) op" where
  "fund_treasury W cid agent wallet amount txid =
     seq (load_op W) (\<lambda>cs.
     seq (require_community cs cid) (\<lambda>c.
       let donation_txid = or_text txid (''mocktx-'' @ cid @ ''-'' @ agent @ ''-'' @
             int_str (tr_incoming (co_treasury c) + amount));
           c' = fund amount c
       in seq (save_op (AList.update cid c' cs)) (\<lambda>_.
          seq (audit_op agent cid ''community_treasury_funded''
            [(''community_id'', JStr cid), (''wallet_address'', JStr wallet), (''amount_sats'', JInt amount),
             (''txid'', JStr donation_txid),
             (''treasury_balance_sats'', JInt (tr_balance (co_treasury c')))]) (\<lambda>_.
          seq (raising (community_payload c')) (\<lambda>r. ret (r, donation_txid))))))"

section \<open>Seedboxes\<close>

datatype provider = MockProvider | LocalProvider | SporeStackProvider

definition provider_name :: "provider \<Rightarrow> string" where
  "provider_name p = (case p of MockProvider \<Rightarrow> ''mock'' | LocalProvider \<Rightarrow> ''local''
     | SporeStackProvider \<Rightarrow> ''sporestack'')"

definition provider_for :: "string \<Rightarrow> provider res" where
  "provider_for nm =
     (let normalized = lower (strip nm) in
      if normalized = ''mock'' then Inr MockProvider
      else if normalized = ''local'' then Inr LocalProvider
      else if normalized = ''sporestack'' then Inr SporeStackProvider
      else Inl (ValueError ''provider must be one of: mock, local, sporestack''))"

record seedbox_metadata =
  sm_provider :: string
  sm_machine_id :: string
  sm_hostname :: string
  sm_ip :: string
  sm_content_dir :: string
  sm_health_status :: string
  sm_logs_path :: string
  sm_created_at :: string

definition machine_id :: "env \<Rightarrow> string \<Rightarrow> string \<Rightarrow> string \<Rightarrow> string" where
  "machine_id E prov hostname content_dir =
     prov @ ''-'' @ take 16 (sha256_hex E (utf8_encode (prov @ '':'' @ hostname @ '':'' @ content_dir)))"

definition build_metadata :: "claw_env \<Rightarrow> string \<Rightarrow> string \<Rightarrow> string \<Rightarrow> string \<Rightarrow> string \<Rightarrow> seedbox_metadata op" where
  "build_metadata W prov hostname ip content_dir logs_path =
     seq (now_op W) (\<lambda>created.
       ret \<lparr>sm_provider = prov, sm_machine_id = machine_id (ce_env W) prov hostname content_dir,
            sm_hostname = hostname, sm_ip = ip, sm_content_dir = content_dir,
            sm_health_status = ''healthy'', sm_logs_path = logs_path, sm_created_at = created\<rparr>)"

definition launch_mock :: "claw_env \<Rightarrow> string \<Rightarrow> string \<Rightarrow> string \<Rightarrow> seedbox_metadata op" where
  "launch_mock W root hostname content_dir =
     build_metadata W (provider_name MockProvider) hostname ''127.0.0.1'' content_dir
       (ce_join W (ce_join W root hostname) ''mock_seedbox.log'')"

definition launch_local :: "claw_env \<Rightarrow> string \<Rightarrow> string \<Rightarrow> string \<Rightarrow> seedbox_metadata op" where
  "launch_local W root hostname content_dir =
     seq (now_op W) (\<lambda>_.
       build_metadata W (provider_name LocalProvider) hostname (ce_ip W) content_dir
         (ce_join W (ce_join W root hostname) ''local_seedbox.log''))"

definition launch_sporestack :: "seedbox_metadata op" where
  "launch_sporestack =
     raise (RuntimeError ''real SporeStack launch is disabled; use --provider mock or --provider local'')"

definition launch :: "claw_env \<Rightarrow> string \<Rightarrow> provider \<Rightarrow> string \<Rightarrow> string \<Rightarrow> seedbox_metadata op" where
  "launch W root p hostname content_dir = (case p of
     MockProvider \<Rightarrow> launch_mock W root hostname content_dir
   | LocalProvider \<Rightarrow> launch_local W root hostname content_dir
   | SporeStackProvider \<Rightarrow> launch_sporestack)"

definition box_of :: "community \<Rightarrow> seedbox_metadata \<Rightarrow> community_seedbox" where
  "box_of c md =
     \<lparr>cs_seedbox_id = co_community_id c @ ''-'' @ sm_machine_id md, cs_provider = sm_provider md,
      cs_machine_id = sm_machine_id md, cs_hostname = sm_hostname md, cs_ip = sm_ip md,
      cs_content_dir = sm_content_dir md, cs_health_status = sm_health_status md,
      cs_capacity_agents = co_capacity c, cs_logs_path = sm_logs_path md,
      cs_created_at = sm_created_at md\<rparr>"

definition bought :: "community \<Rightarrow> int \<Rightarrow> community_seedbox \<Rightarrow> community" where
  "bought c price box =
     (let t = co_treasury c
      in c\<lparr>co_treasury := t\<lparr>tr_balance := tr_balance t - price, tr_outgoing := tr_outgoing t + price\<rparr>,
           co_seedboxes := AList.update (cs_seedbox_id box) box (co_seedboxes c)\<rparr>)"

text \<open>The part of a purchase after the launch.\<close>

definition register_seedbox ::
  "communities \<Rightarrow> string \<Rightarrow> string \<Rightarrow> community \<Rightarrow> int \<Rightarrow> seedbox_metadata \<Rightarrow> (community_seedbox \<times> payload) op" where
  "register_seedbox cs cid actor c price md =
     (let box = box_of c md in
      seq (raising (rebalance_members (bought c price box))) (\<lambda>c2.
      seq (save_op (AList.update cid c2 cs)) (\<lambda>_.
      seq (audit_op actor cid ''seedbox_registered''
        [(''community_id'', JStr cid), (''seedbox'', seedbox_json box), (''cost_sats'', JInt price),
         (''treasury_balance_sats'', JInt (tr_balance (co_treasury c2)))]) (\<lambda>_.
      seq (raising (community_payload c2)) (\<lambda>r. ret (box, r))))))"

definition buy_seedbox ::
  "claw_env \<Rightarrow> string \<Rightarrow> string \<Rightarrow> string \<Rightarrow> string option \<Rightarrow> int option \<Rightarrow> (community_seedbox \<times> payload) op" where
  "buy_seedbox W cid actor prov hostname cost =
     seq (load_op W) (\<lambda>cs.
     seq (require_community cs cid) (\<lambda>c.
       let price = (case cost of None \<Rightarrow> co_threshold c | Some p \<Rightarrow> p) in
       if tr_balance (co_treasury c) < price
       then raise (ValueError ''community treasury does not have enough funds to buy seedbox'')
       else
         let host = or_text hostname (cid @ ''-seedbox-'' @ int_str (co_seedbox_count c + 1))
         in seq (raising (provider_for prov)) (\<lambda>p.
            seq (\<lambda>s. launch W (sv_root s) p host (ce_join W (ce_join W (sv_root s) host) ''content'') s)
              (register_seedbox cs cid actor c price))))"

section \<open>Joining\<close>

datatype expansion =
    CapacityAvailable int
  | InsufficientTreasury int
  | Expanded community_seedbox

definition maybe_expand_seedboxes :: "claw_env \<Rightarrow> community \<Rightarrow> string \<Rightarrow> expansion op" where
  "maybe_expand_seedboxes W c actor =
     seq (raising (required_seedbox_count c)) (\<lambda>required.
       if required \<le> co_seedbox_count c then ret (CapacityAvailable required)
       else
         seq (audit_op actor (co_community_id c) ''seedbox_capacity_reached''
           [(''community_id'', JStr (co_community_id c)), (''member_count'', JInt (co_member_count c)),
            (''current_seedboxes'', JInt (co_seedbox_count c)), (''required_seedboxes'', JInt required),
            (''treasury_balance_sats'', JInt (tr_balance (co_treasury c)))]) (\<lambda>_.
         if tr_balance (co_treasury c) < co_threshold c then ret (InsufficientTreasury required)
         else
           let prov = (case seedboxes_by_age c of [] \<Rightarrow> ''local'' | b # _ \<Rightarrow> cs_provider b)
           in seq (buy_seedbox W (co_community_id c) actor prov None None) (\<lambda>(box, _). ret (Expanded box))))"

text \<open>The part of joining after the members have been rebalanced.\<close>

definition finish_join ::
  "claw_env \<Rightarrow> communities \<Rightarrow> string \<Rightarrow> string \<Rightarrow> int \<Rightarrow> community_member \<Rightarrow> community \<Rightarrow>
     (community_member \<times> expansion \<times> payload) op" where
  "finish_join W cs cid agent amount m c2 =
     seq (audit_op agent agent ''community_member_added''
       [(''community_id'', JStr cid), (''wallet_address'', JStr (cm_wallet_address m)), (''amount_sats'', JInt amount),
        (''txid'', JStr (cm_donation_txid m)), (''initial_trust'', JFloat (cm_initial_trust m)),
        (''assigned_seedbox_id'', (case map_of (co_members c2) agent of
            None \<Rightarrow> JNull | Some m' \<Rightarrow> cm_assigned m'))]) (\<lambda>_.
     seq (save_op (AList.update cid c2 cs)) (\<lambda>_.
     seq (maybe_expand_seedboxes W c2 agent) (\<lambda>ex.
     seq (load_op W) (\<lambda>cs'.
     seq (require_community cs' cid) (\<lambda>c'.
       case map_of (co_members c') agent of
         None \<Rightarrow> raise (KeyError agent)
       | Some m' \<Rightarrow> seq (raising (community_payload c')) (\<lambda>r. ret (m', ex, r)))))))"

definition join_community ::
  "claw_env \<Rightarrow> string \<Rightarrow> string \<Rightarrow> string \<Rightarrow> int \<Rightarrow> string option \<Rightarrow>
     (community_member \<times> expansion \<times> payload) op" where
  "join_community W cid agent wallet amount txid =
     seq (load_op W) (\<lambda>cs.
     seq (require_community cs cid) (\<lambda>c.
       if amount < co_join_fee c then raise (ValueError ''donation below required join fee'')
       else
         let donation_txid = or_text txid (''mocktx-'' @ cid @ ''-'' @ agent @ ''-join'');
             c1 = fund amount c
         in seq (now_op W) (\<lambda>joined.
            if co_join_fee c = 0 then raise ZeroDivisionError
            else
              let m = \<lparr>cm_agent_id = agent, cm_wallet_address = wallet, cm_joined_at = joined,
                       cm_donation_txid = donation_txid, cm_donated_sats = amount,
                       cm_initial_trust = ce_join_trust W amount (co_join_fee c), cm_assigned = JNull\<rparr>
              in seq (raising (rebalance_members (c1\<lparr>co_members := AList.update agent m (co_members c1)\<rparr>)))
                   (finish_join W cs cid agent amount m))))"

section \<open>Files\<close>

text \<open>A row of \<open>csv.DictReader\<close> with a value in every column; reading the text is the library's.\<close>

type_synonym csv_row = "(string \<times> string) list"

definition cell :: "csv_row \<Rightarrow> string \<Rightarrow> string res" where
  "cell row k = (case map_of row k of None \<Rightarrow> Inl (KeyError k) | Some v \<Rightarrow> Inr v)"

definition cell_or :: "csv_row \<Rightarrow> string \<Rightarrow> string" where
  "cell_or row k = (case map_of row k of None \<Rightarrow> [] | Some v \<Rightarrow> v)"

definition file_of_row :: "csv_row \<Rightarrow> community_file res" where
  "file_of_row row =
     bindr (cell row ''file_id'') (\<lambda>fid.
     bindr (cell row ''name'') (\<lambda>nm.
     let tags = filter (\<lambda>t. t \<noteq> []) (map strip (split_on (CHR 0x2C) (cell_or row ''tags'')));
         sz = cell_or row ''size_bytes''
     in bindr (if sz = [] then Inr 0
               else case py_int sz of None \<Rightarrow> Inl (ValueError []) | Some n \<Rightarrow> Inr n) (\<lambda>n.
        bindr (cell row ''seedbox_id'') (\<lambda>sid.
        bindr (cell row ''content_url'') (\<lambda>url.
          Inr \<lparr>cf_file_id = fid, cf_name = nm, cf_tags = tags, cf_sha256 = cell_or row ''sha256'',
               cf_size_bytes = n, cf_seedbox_id = sid, cf_content_url = url,
               cf_magnet_uri = cell_or row ''magnet_uri''\<rparr>)))))"

definition import_file_catalog ::
  "claw_env \<Rightarrow> string \<Rightarrow> string \<Rightarrow> csv_row list \<Rightarrow> (int \<times> payload) op" where
  "import_file_catalog W cid csv_path rows =
     seq (load_op W) (\<lambda>cs.
     seq (require_community cs cid) (\<lambda>c.
     seq (raising (mapr file_of_row rows)) (\<lambda>files.
       let c' = c\<lparr>co_files := foldl (\<lambda>d f. AList.update (cf_file_id f) f d) (co_files c) files\<rparr>;
           n = int (length rows)
       in seq (save_op (AList.update cid c' cs)) (\<lambda>_.
          seq (audit_op (co_founder_agent_id c) cid ''file_catalog_imported''
            [(''community_id'', JStr cid), (''csv_path'', JStr csv_path), (''file_count'', JInt n)]) (\<lambda>_.
          seq (raising (community_payload c')) (\<lambda>r. ret (n, r)))))))"

definition request_file_location :: "string \<Rightarrow> string \<Rightarrow> string \<Rightarrow> dict op" where
  "request_file_location sender cid query =
     (\<lambda>s. let r = [(''todo'', JStr ''replace with teammate communication adapter''),
             (''type'', JStr ''request_file_location''), (''sender_id'', JStr sender),
             (''community_id'', JStr cid), (''query'', JStr query)]
          in (Inr ((''ok'', JBool True) # r), s\<lparr>sv_messages := sv_messages s @ [r]\<rparr>))"

definition file_matches :: "string \<Rightarrow> community_file \<Rightarrow> bool" where
  "file_matches normalized f =
     (contains (casefold (cf_name f)) normalized \<or> contains (casefold (cf_content_url f)) normalized \<or>
      list_ex (\<lambda>tag. contains (casefold tag) normalized) (cf_tags f))"

definition find_file :: "claw_env \<Rightarrow> string \<Rightarrow> string \<Rightarrow> string \<Rightarrow> community_file list op" where
  "find_file W cid requester query =
     seq (load_op W) (\<lambda>cs.
     seq (require_community cs cid) (\<lambda>c.
       let found = filter (file_matches (strip (casefold query))) (map snd (co_files c))
       in seq (request_file_location requester cid query) (\<lambda>comm.
          seq (audit_op requester cid ''file_search_requested''
            [(''community_id'', JStr cid), (''query'', JStr query), (''match_count'', JInt (int (length found))),
             (''communication'', JObj comm)]) (\<lambda>_.
          ret found))))"

definition verify_file_item :: "claw_env \<Rightarrow> community_file \<Rightarrow> bool" where
  "verify_file_item W f =
     (if cf_sha256 f = [] then True
      else case ce_read_file W (cf_content_url f) of
        None \<Rightarrow> False
      | Some b \<Rightarrow> sha256_hex (ce_env W) b = cf_sha256 f)"

definition retrieve_file :: "claw_env \<Rightarrow> string \<Rightarrow> string \<Rightarrow> string \<Rightarrow> (community_file \<times> bool) op" where
  "retrieve_file W cid requester file_id =
     seq (load_op W) (\<lambda>cs.
     seq (require_community cs cid) (\<lambda>c.
       case map_of (co_files c) file_id of
         None \<Rightarrow> raise (KeyError file_id)
       | Some f \<Rightarrow>
           let verified = verify_file_item W f
           in seq (audit_op requester cid (if verified then ''file_retrieval_verified'' else ''file_retrieved'')
             [(''community_id'', JStr cid), (''file'', file_json f), (''verified'', JBool verified),
              (''retrieval_trust_delta'', JInt (if verified then 1 else -2))]) (\<lambda>_.
           ret (f, verified))))"

definition get_status :: "claw_env \<Rightarrow> string \<Rightarrow> payload op" where
  "get_status W cid =
     seq (load_op W) (\<lambda>cs. seq (require_community cs cid) (\<lambda>c. raising (community_payload c)))"

end
