(* ===== verification/Community_Store_Spec.thy ===== *)
theory Community_Store_Spec
  imports Community_Store Hash_Chain
begin

text \<open>
  The round trip of the community store: what is saved is read back, with the dictionaries in
  the order of their keys.
\<close>

section \<open>Sorted dictionaries\<close>

lemma insort_key_map_snd:
  "insort_key fst (h x) (map h d) = map h (insort_key fst x d)" if "\<And>p. fst (h p) = fst p"
  by (induction d) (auto simp: that)

lemma sort_key_map_snd:
  "sort_key fst (map h d) = map h (sort_key fst d)" if "\<And>p. fst (h p) = fst p"
  by (induction d) (auto simp: that insort_key_map_snd)

definition sorted_dict :: "(string \<times> 'v) list \<Rightarrow> (string \<times> 'v) list" where
  "sorted_dict d = sort_key fst d"

lemma sort_keys_dict_json:
  "sort_keys (dict_json f d) = JObj (map (\<lambda>p. (fst p, sort_keys (f (snd p)))) (sorted_dict d))"
  by (simp add: dict_json_def sort_keys_dict_map sorted_dict_def comp_def
      sort_key_map_snd [of "\<lambda>p. (fst p, sort_keys (f (snd p)))"])

lemma set_sorted_dict [simp]: "set (sorted_dict d) = set d"
  by (simp add: sorted_dict_def)

lemma sorted_dict_idem [simp]: "sorted_dict (sorted_dict d) = sorted_dict d"
  by (simp add: sorted_dict_def sort_key_id_if_sorted)

lemma map_of_map_snd: "map_of (map (\<lambda>p. (fst p, f (snd p))) d) k = map_option f (map_of d k)"
  by (induction d) auto

section \<open>Reading what was written\<close>

lemma item_sorted:
  "dict_ok d \<Longrightarrow> item_of (sort_keys (JObj d)) k =
    (case map_of d k of None \<Rightarrow> Inl (KeyError k) | Some v \<Rightarrow> Inr (sort_keys v))"
  using map_of_sort_key [of "sort_keys_dict d"]
  by (simp add: item_of_def map_of_sort_keys_dict dict_ok_sort_keys_dict split: option.splits)

lemma get_item_sorted:
  "dict_ok d \<Longrightarrow> get_item (sort_keys (JObj d)) k v =
    (case map_of d k of None \<Rightarrow> Inr v | Some w \<Rightarrow> Inr (sort_keys w))"
  using map_of_sort_key [of "sort_keys_dict d"]
  by (simp add: get_item_def get_or_def map_of_sort_keys_dict dict_ok_sort_keys_dict split: option.splits)

lemma items_sorted:
  "dict_ok d \<Longrightarrow> map_of d k = Some (dict_json f e) \<Longrightarrow>
     items_of (sort_keys (JObj d)) k = Inr (map (\<lambda>p. (fst p, sort_keys (f (snd p)))) (sorted_dict e))"
  using map_of_sort_key [of "sort_keys_dict d"]
  by (simp add: items_of_def get_or_def map_of_sort_keys_dict dict_ok_sort_keys_dict sort_keys_dict_json)

lemmas read_written = item_sorted get_item_sorted str_item_def int_item_def as_str_def as_int_def
  to_int_def as_float_def

lemma read_items_written:
  assumes "\<forall>p \<in> set d. f (g (snd p)) = Inr (snd p)"
  shows "read_items f (map (\<lambda>p. (fst p, g (snd p))) (sorted_dict d)) = Inr (sorted_dict d)"
proof -
  have "mapr (\<lambda>p. bindr (f (g (snd p))) (\<lambda>v. Inr (fst p, v))) (sorted_dict d) = Inr (map (\<lambda>p. p) (sorted_dict d))"
    by (rule mapr_total) (use assms in simp)
  then show ?thesis by (simp add: read_items_def)
qed

definition member_ok :: "community_member \<Rightarrow> bool" where
  "member_ok m = (sort_keys (cm_assigned m) = cm_assigned m)"

lemma read_member_written:
  "member_ok m \<Longrightarrow> read_member C (sort_keys (member_json m)) = Inr m"
  by (simp add: read_member_def member_json_def read_written member_ok_def del: sort_keys.simps(2))

lemma read_seedbox_written: "read_seedbox C (sort_keys (seedbox_json s)) = Inr s"
  by (simp add: read_seedbox_def seedbox_json_def read_written del: sort_keys.simps(2))

lemma read_tags_written: "read_tags C (sort_keys (JList (map JStr ts))) = Inr ts"
  by (simp add: read_tags_def sort_keys_list_map as_str_def comp_def)

lemma read_file_written: "read_file C (sort_keys (file_json f)) = Inr f"
  by (simp add: read_file_def file_json_def read_written read_tags_written [simplified] del: sort_keys.simps(2))

lemma read_treasury_written: "read_treasury (sort_keys (treasury_json t)) = Inr (Some t)"
  by (simp add: read_treasury_def treasury_json_def get_or_def)

definition community_ok :: "community \<Rightarrow> bool" where
  "community_ok c = (\<forall>p \<in> set (co_members c). member_ok (snd p))"

definition stored_form :: "community \<Rightarrow> community" where
  "stored_form c = c\<lparr>co_members := sorted_dict (co_members c), co_seedboxes := sorted_dict (co_seedboxes c),
     co_files := sorted_dict (co_files c)\<rparr>"

lemma read_community_written:
  assumes "community_ok c"
  shows "read_community C (sort_keys (community_json c)) = Inr (Some (stored_form c))"
proof -
  define d where "d = [(''community_id'', JStr (co_community_id c)), (''founder_agent_id'', JStr (co_founder_agent_id c)),
      (''treasury'', treasury_json (co_treasury c)), (''join_fee_sats'', JInt (co_join_fee c)),
      (''seedbox_capacity_agents'', JInt (co_capacity c)),
      (''seedbox_purchase_threshold_sats'', JInt (co_threshold c)),
      (''members'', dict_json member_json (co_members c)),
      (''seedboxes'', dict_json seedbox_json (co_seedboxes c)),
      (''files'', dict_json file_json (co_files c)), (''created_at'', JStr (co_created_at c))]"
  have j: "community_json c = JObj d" by (simp add: community_json_def d_def)
  have dd: "dict_ok d" by (simp add: d_def)
  have sec: "items_of (sort_keys (JObj d)) ''members'' =
      Inr (map (\<lambda>p. (fst p, sort_keys (member_json (snd p)))) (sorted_dict (co_members c)))"
    "items_of (sort_keys (JObj d)) ''seedboxes'' =
      Inr (map (\<lambda>p. (fst p, sort_keys (seedbox_json (snd p)))) (sorted_dict (co_seedboxes c)))"
    "items_of (sort_keys (JObj d)) ''files'' =
      Inr (map (\<lambda>p. (fst p, sort_keys (file_json (snd p)))) (sorted_dict (co_files c)))"
    by (rule items_sorted [OF dd]; simp add: d_def)+
  have rd: "read_items (read_member C) (map (\<lambda>p. (fst p, sort_keys (member_json (snd p)))) (sorted_dict (co_members c)))
      = Inr (sorted_dict (co_members c))"
    "read_items (read_seedbox C) (map (\<lambda>p. (fst p, sort_keys (seedbox_json (snd p)))) (sorted_dict (co_seedboxes c)))
      = Inr (sorted_dict (co_seedboxes c))"
    "read_items (read_file C) (map (\<lambda>p. (fst p, sort_keys (file_json (snd p)))) (sorted_dict (co_files c)))
      = Inr (sorted_dict (co_files c))"
    using assms by (auto intro!: read_items_written read_member_written read_seedbox_written read_file_written
        simp: community_ok_def)
  have m: "map_of d ''treasury'' = Some (treasury_json (co_treasury c))"
    "map_of d ''community_id'' = Some (JStr (co_community_id c))"
    "map_of d ''founder_agent_id'' = Some (JStr (co_founder_agent_id c))"
    "map_of d ''join_fee_sats'' = Some (JInt (co_join_fee c))"
    "map_of d ''seedbox_capacity_agents'' = Some (JInt (co_capacity c))"
    "map_of d ''seedbox_purchase_threshold_sats'' = Some (JInt (co_threshold c))"
    "map_of d ''created_at'' = Some (JStr (co_created_at c))"
    by (simp_all add: d_def)
  show ?thesis
    unfolding j read_community_def str_item_def int_item_def item_sorted [OF dd] sec
    by (simp add: m rd read_treasury_written as_str_def as_int_def to_int_def stored_form_def)
qed

lemma load_saved:
  assumes "\<forall>p \<in> set cs. community_ok (snd p)" and "dict_ok cs"
  shows "load_all C (save_all cs) = Inr (Some (map (\<lambda>p. (fst p, stored_form (snd p))) (sorted_dict cs)))"
proof -
  have i: "items_of (sort_keys (JObj [(''communities'', dict_json community_json (sorted_dict cs))])) ''communities'' =
      Inr (map (\<lambda>p. (fst p, sort_keys (community_json (snd p)))) (sorted_dict (sorted_dict cs)))"
    by (rule items_sorted) simp_all
  have "mapr (\<lambda>p. bindr (read_community C (sort_keys (community_json (snd p)))) (\<lambda>v. Inr (fst p, v))) (sorted_dict cs)
      = Inr (map (\<lambda>p. (fst p, Some (stored_form (snd p)))) (sorted_dict cs))"
    by (rule mapr_total) (use assms in \<open>simp add: read_community_written\<close>)
  then have "read_items (read_community C)
      (map (\<lambda>p. (fst p, sort_keys (community_json (snd p)))) (sorted_dict cs)) =
      Inr (map (\<lambda>p. (fst p, Some (stored_form (snd p)))) (sorted_dict cs))"
    by (simp add: read_items_def)
  with i show ?thesis
    by (simp add: load_all_def save_all_def sorted_dict_def [symmetric] list_all_iff comp_def del: sort_keys.simps(2))
qed

text \<open>
  C17: The store round trip: after a save, loading succeeds and gives every community with
  its fields unchanged and its members, seedboxes and files in the order of their keys; as
  dictionaries nothing is lost.
\<close>

theorem store_roundtrip:
  assumes "\<forall>p \<in> set cs. community_ok (snd p)" and "dict_ok cs"
  shows "load_all C (save_all cs) = Inr (Some (map (\<lambda>p. (fst p, stored_form (snd p))) (sorted_dict cs))) \<and>
    map_of (map (\<lambda>p. (fst p, stored_form (snd p))) (sorted_dict cs)) k = map_option stored_form (map_of cs k)"
  using load_saved [OF assms] map_of_sort_key [OF assms(2)] by (simp add: map_of_map_snd sorted_dict_def)

definition sample_conv :: conv where
  "sample_conv = \<lparr>str_of_other = (\<lambda>_. []), float_of_other = (\<lambda>_. Inl TypeError), trunc_float = (\<lambda>_. None)\<rparr>"

definition sample_member :: "string \<Rightarrow> string \<Rightarrow> community_member" where
  "sample_member agent joined = \<lparr>cm_agent_id = agent, cm_wallet_address = ''w'', cm_joined_at = joined,
     cm_donation_txid = ''tx'', cm_donated_sats = 1000, cm_initial_trust = ''1.0'', cm_assigned = JNull\<rparr>"

definition sample_community :: community where
  "sample_community = \<lparr>co_community_id = ''c'', co_founder_agent_id = ''b'',
     co_treasury = \<lparr>tr_wallet_address = ''tw'', tr_balance = 2000, tr_incoming = 2000, tr_outgoing = 0\<rparr>,
     co_join_fee = 1000, co_capacity = 3, co_threshold = 3000,
     co_members = [(''b'', sample_member ''b'' ''t1''), (''a'', sample_member ''a'' ''t2'')],
     co_seedboxes = [], co_files = [], co_created_at = ''t0''\<rparr>"

lemma store_roundtrip_witness:
  "load_all sample_conv (save_all [(''c'', sample_community)]) =
     Inr (Some (map (\<lambda>p. (fst p, stored_form (snd p))) (sorted_dict [(''c'', sample_community)]))) \<and>
   map_of (map (\<lambda>p. (fst p, stored_form (snd p))) (sorted_dict [(''c'', sample_community)])) ''c'' =
     map_option stored_form (map_of [(''c'', sample_community)] ''c'')"
  by (rule store_roundtrip)
    (simp_all add: community_ok_def sample_community_def sample_member_def member_ok_def)

end
