(* ===== verification/Claw_Service_Spec.thy ===== *)
theory Claw_Service_Spec
  imports Claw_Service Community_Store_Spec Signed_Log_Appends
begin

text \<open>
  What the community service keeps: the accounting identity of every treasury, the agreement of
  dictionary keys with the records below them, and members assigned only to seedboxes of their
  community; and what rebalancing promises.
\<close>

section \<open>The invariant of the store\<close>

definition assigned_ok :: "(string \<times> community_seedbox) list \<Rightarrow> community_member \<Rightarrow> bool" where
  "assigned_ok boxes m = (cm_assigned m = JNull \<or> (\<exists>sid \<in> fst ` set boxes. cm_assigned m = JStr sid))"

definition community_inv :: "bool \<Rightarrow> community \<Rightarrow> bool" where
  "community_inv b c =
     (tr_balance (co_treasury c) = tr_incoming (co_treasury c) - tr_outgoing (co_treasury c) \<and>
      (b \<longrightarrow> 0 \<le> tr_balance (co_treasury c) \<and> 0 \<le> co_threshold c) \<and>
      dict_ok (co_members c) \<and> dict_ok (co_seedboxes c) \<and> dict_ok (co_files c) \<and>
      (\<forall>p \<in> set (co_members c). cm_agent_id (snd p) = fst p \<and> assigned_ok (co_seedboxes c) (snd p)) \<and>
      (\<forall>p \<in> set (co_seedboxes c). cs_seedbox_id (snd p) = fst p) \<and>
      (\<forall>p \<in> set (co_files c). cf_file_id (snd p) = fst p))"

definition communities_inv :: "bool \<Rightarrow> communities \<Rightarrow> bool" where
  "communities_inv b cs =
     (dict_ok cs \<and> (\<forall>p \<in> set cs. co_community_id (snd p) = fst p \<and> community_inv b (snd p)))"

definition store_inv :: "claw_env \<Rightarrow> bool \<Rightarrow> service \<Rightarrow> bool" where
  "store_inv W b s =
     (\<exists>cs. load_all (ce_conv W) (sv_store s) = Inr (Some cs) \<and> communities_inv b cs)"

lemma assigned_sort: "assigned_ok boxes m \<Longrightarrow> member_ok m"
  by (auto simp: assigned_ok_def member_ok_def)

lemma community_inv_ok: "community_inv b c \<Longrightarrow> community_ok c"
  using assigned_sort by (auto simp: community_inv_def community_ok_def)

lemma dict_ok_sorted [simp]: "dict_ok (sorted_dict d) \<longleftrightarrow> dict_ok d"
  by (simp add: sorted_dict_def distinct_fst_sort_key)

lemma stored_form_simps [simp]:
  "co_community_id (stored_form c) = co_community_id c" "co_treasury (stored_form c) = co_treasury c"
  "co_threshold (stored_form c) = co_threshold c" "co_join_fee (stored_form c) = co_join_fee c"
  "co_capacity (stored_form c) = co_capacity c"
  "co_members (stored_form c) = sorted_dict (co_members c)"
  "co_seedboxes (stored_form c) = sorted_dict (co_seedboxes c)"
  "co_files (stored_form c) = sorted_dict (co_files c)"
  by (simp_all add: stored_form_def)

lemma community_inv_stored: "community_inv b c \<Longrightarrow> community_inv b (stored_form c)"
  by (auto simp: community_inv_def assigned_ok_def)

lemma dict_ok_map_snd: "dict_ok (map (\<lambda>p. (fst p, f (snd p))) d) \<longleftrightarrow> dict_ok d"
  by (simp add: comp_def)

lemma communities_inv_saved:
  assumes "communities_inv b cs"
  shows "\<exists>cs'. load_all C (save_all cs) = Inr (Some cs') \<and> communities_inv b cs'"
proof -
  have ok: "\<forall>p \<in> set cs. community_ok (snd p)" "dict_ok cs"
    using assms community_inv_ok by (auto simp: communities_inv_def)
  have "dict_ok (map (\<lambda>p. (fst p, stored_form (snd p))) (sorted_dict cs))"
    unfolding dict_ok_map_snd using ok(2) by simp
  then have "communities_inv b (map (\<lambda>p. (fst p, stored_form (snd p))) (sorted_dict cs))"
    using assms community_inv_stored by (auto simp: communities_inv_def)
  with load_saved [OF ok] show ?thesis by blast
qed

lemma update_mem: "p \<in> set (AList.update k v d) \<Longrightarrow> p = (k, v) \<or> p \<in> set d"
  by (induction d) (auto split: if_splits)

lemma communities_inv_update:
  assumes "communities_inv b cs" and "community_inv b c" and "co_community_id c = cid"
  shows "communities_inv b (AList.update cid c cs)"
  using assms by (auto simp: communities_inv_def distinct_update dest: update_mem)

lemma keeps_load [keep_rules]: "keeps (store_inv W b) (load_op W) (communities_inv b)"
  by (auto simp: keeps_def load_op_def store_inv_def)

lemma keeps_save: "communities_inv b cs \<Longrightarrow> keeps (store_inv W b) (save_op cs) (\<lambda>_. True)"
  using communities_inv_saved by (auto simp: keeps_def save_op_def store_inv_def)

lemma keeps_audit [keep_rules]: "keeps (store_inv W b) (audit_op a s act d) (\<lambda>_. True)"
  by (simp add: keeps_def audit_op_def store_inv_def)

lemma keeps_now [keep_rules]: "keeps (store_inv W b) (now_op W') (\<lambda>_. True)"
  by (simp add: keeps_def now_op_def store_inv_def)

lemma keeps_request [keep_rules]: "keeps (store_inv W b) (request_file_location a c q) (\<lambda>_. True)"
  by (simp add: keeps_def request_file_location_def store_inv_def Let_def)

lemma keeps_require:
  assumes "communities_inv b cs"
  shows "keeps (store_inv W b) (require_community cs cid)
    (\<lambda>c. community_inv b c \<and> co_community_id c = cid)"
  using assms by (cases "map_of cs cid")
    (force simp: require_community_def communities_inv_def keeps_def raise_def ret_def dest: map_of_SomeD)+

lemma keeps_raising_any: "keeps P (raising r) (\<lambda>_. True)"
  by (rule keeps_raising) simp

lemma keeps_launch: "keeps (store_inv W b) (launch W' root p h d) (\<lambda>_. True)"
  unfolding launch_def launch_mock_def launch_local_def launch_sporestack_def build_metadata_def
  by (cases p) (auto intro!: keeps_seq [OF keeps_now] keep_rules)

lemma keeps_launch_root: "keeps (store_inv W b) (\<lambda>s. launch W' (r s) p h (d s) s) (\<lambda>_. True)"
  using keeps_launch by (auto simp: keeps_def)

section \<open>Rebalancing\<close>

lemma py_nth_mem: "py_nth xs i = Inr x \<Longrightarrow> x \<in> set xs"
  by (auto simp: py_nth_def Let_def split: if_splits)

lemma update_keys_mem: "fst ` set d \<subseteq> fst ` set (AList.update k v d)"
  by (induction d) auto

lemma assign_members_inv:
  assumes "assign_members ids capacity i rest ms = Inr ms'"
    and "dict_ok ms" and "\<forall>p \<in> set ms \<union> set rest. cm_agent_id (snd p) = fst p"
    and "\<forall>p \<in> set ms. assigned_ok boxes (snd p)" and "set ids \<subseteq> fst ` set boxes"
  shows "dict_ok ms' \<and> (\<forall>p \<in> set ms'. cm_agent_id (snd p) = fst p \<and> assigned_ok boxes (snd p))"
  using assms
proof (induction ids capacity i rest ms rule: assign_members.induct)
  case 1
  then show ?case by simp
next
  case (2 ids capacity i k m rest ms)
  from 2(2) obtain sid where cap: "capacity \<noteq> 0"
    and sid: "py_nth ids (min (i div capacity) (int (length ids) - 1)) = Inr sid"
    and rec: "assign_members ids capacity (i + 1) rest (AList.update k (m\<lparr>cm_assigned := JStr sid\<rparr>) ms) = Inr ms'"
    by (auto simp: bindr_Inr_iff split: if_splits)
  have new: "assigned_ok boxes (m\<lparr>cm_assigned := JStr sid\<rparr>)" "cm_agent_id m = k"
    using py_nth_mem [OF sid] 2(4,6) by (auto simp: assigned_ok_def)
  show ?case
    by (rule 2(1) [OF cap rec])
      (use 2(3-6) new in \<open>auto simp: distinct_update dest: update_mem\<close>)
qed

lemma rebalance_frame:
  assumes "rebalance_members c = Inr c'"
  shows "c' = c\<lparr>co_members := co_members c'\<rparr>"
  using assms by (auto simp: rebalance_members_def Let_def bindr_Inr_iff split: if_splits)

lemma rebalance_inv:
  assumes "rebalance_members c = Inr c'" and "community_inv b c"
  shows "community_inv b c'" "co_community_id c' = co_community_id c"
proof -
  have fr: "c' = c\<lparr>co_members := co_members c'\<rparr>" by (rule rebalance_frame [OF assms(1)])
  show "co_community_id c' = co_community_id c" by (subst fr) simp
  have ids: "set (map cs_seedbox_id (seedboxes_by_age c)) \<subseteq> fst ` set (co_seedboxes c)"
    using assms(2) by (force simp: seedboxes_by_age_def community_inv_def)
  have "dict_ok (co_members c') \<and>
      (\<forall>p \<in> set (co_members c'). cm_agent_id (snd p) = fst p \<and> assigned_ok (co_seedboxes c) (snd p))"
  proof (cases "map cs_seedbox_id (seedboxes_by_age c) = []")
    case True
    then show ?thesis using assms by (simp add: rebalance_members_def community_inv_def)
  next
    case False
    then obtain ms where "assign_members (map cs_seedbox_id (seedboxes_by_age c)) (co_capacity c) 0
        (sort_key (\<lambda>p. cm_joined_at (snd p)) (co_members c)) (co_members c) = Inr ms" "co_members c' = ms"
      using assms(1) by (auto simp: rebalance_members_def Let_def bindr_Inr_iff)
    with assign_members_inv [OF this(1), of "co_seedboxes c"] assms(2) ids show ?thesis
      by (simp add: community_inv_def)
  qed
  with assms(2) show "community_inv b c'" by (subst fr) (auto simp: community_inv_def)
qed

section \<open>Every operation keeps the store invariant\<close>

lemma fund_inv:
  "community_inv b c \<Longrightarrow> b \<longrightarrow> 0 \<le> amount \<Longrightarrow>
     community_inv b (fund amount c) \<and> co_community_id (fund amount c) = co_community_id c"
  by (auto simp: community_inv_def fund_def Let_def)

lemma keeps_payload_ret: "keeps P (seq (raising (community_payload c)) (\<lambda>r. ret (f r))) (\<lambda>_. True)"
  by (rule keeps_seq [OF keeps_raising_any]) (simp add: keeps_ret)

lemma keeps_store:
  assumes "communities_inv b cs" and "community_inv b c" and "co_community_id c = cid"
    and "keeps (store_inv W b) (f ()) R"
  shows "keeps (store_inv W b) (seq (save_op (AList.update cid c cs)) f) R"
  by (rule keeps_seq [OF keeps_save]) (use assms communities_inv_update in auto)

lemma keeps_audited:
  "keeps (store_inv W b) (f ()) R \<Longrightarrow> keeps (store_inv W b) (seq (audit_op a s act d) f) R"
  by (rule keeps_seq [OF keeps_audit]) auto

lemma keeps_clocked:
  "(\<And>t. keeps (store_inv W b) (f t) R) \<Longrightarrow> keeps (store_inv W b) (seq (now_op W') f) R"
  by (rule keeps_seq [OF keeps_now]) auto

lemma keeps_loaded:
  assumes "\<And>cs. communities_inv b cs \<Longrightarrow> keeps (store_inv W b) (f cs) R"
  shows "keeps (store_inv W b) (seq (load_op W) f) R"
  by (rule keeps_seq [OF keeps_load]) (rule assms)

lemma keeps_required:
  assumes "communities_inv b cs"
    and "\<And>c. community_inv b c \<Longrightarrow> co_community_id c = cid \<Longrightarrow> keeps (store_inv W b) (f c) R"
  shows "keeps (store_inv W b) (seq (require_community cs cid) f) R"
  by (rule keeps_seq [OF keeps_require [OF assms(1)]]) (use assms(2) in blast)

lemma keeps_create:
  assumes "b \<longrightarrow> 0 \<le> funding \<and> 0 \<le> threshold"
  shows "keeps (store_inv W b) (create_community W cid founder wallet funding fee capacity threshold) (\<lambda>_. True)"
  unfolding create_community_def Let_def
  using assms
  by (auto intro!: keeps_loaded keeps_clocked keeps_store keeps_audited keeps_raising_any keeps_raise
      simp: fund_def community_inv_def assigned_ok_def)

lemma keeps_fund:
  assumes "b \<longrightarrow> 0 \<le> amount"
  shows "keeps (store_inv W b) (fund_treasury W cid agent wallet amount txid) (\<lambda>_. True)"
  unfolding fund_treasury_def Let_def
  using assms fund_inv
  by (auto intro!: keeps_loaded keeps_required keeps_store keeps_audited keeps_payload_ret)

lemma bought_inv:
  assumes "community_inv b c" and "b \<longrightarrow> 0 \<le> price" and "b \<longrightarrow> price \<le> tr_balance (co_treasury c)"
  shows "community_inv b (bought c price box) \<and> co_community_id (bought c price box) = co_community_id c"
proof -
  have "assigned_ok (co_seedboxes c) m \<Longrightarrow> assigned_ok (AList.update (cs_seedbox_id box) box (co_seedboxes c)) m" for m
    using update_keys_mem by (fastforce simp: assigned_ok_def)
  with assms show ?thesis by (auto simp: bought_def Let_def community_inv_def distinct_update dest: update_mem)
qed

lemma keeps_rebalanced:
  assumes "community_inv b c" and "co_community_id c = cid"
    and "\<And>c'. community_inv b c' \<Longrightarrow> co_community_id c' = cid \<Longrightarrow> keeps (store_inv W b) (f c') R"
  shows "keeps (store_inv W b) (seq (raising (rebalance_members c)) f) R"
proof (rule keeps_seq [OF keeps_raising])
  fix c' assume "rebalance_members c = Inr c'"
  from rebalance_inv [OF this assms(1)] assms(2)
  show "community_inv b c' \<and> co_community_id c' = cid" by simp
qed (use assms(3) in blast)

lemma keeps_register:
  assumes "communities_inv b cs" and "community_inv b c" and "co_community_id c = cid"
    and "b \<longrightarrow> 0 \<le> price" and "\<not> tr_balance (co_treasury c) < price"
  shows "keeps (store_inv W b) (register_seedbox cs cid actor c price md) (\<lambda>_. True)"
  unfolding register_seedbox_def Let_def
  using bought_inv [OF assms(2,4)] assms(1,3,5)
  by (auto intro!: keeps_rebalanced keeps_store keeps_audited keeps_payload_ret)

lemma keeps_buy:
  assumes "b \<longrightarrow> (\<forall>p. cost = Some p \<longrightarrow> 0 \<le> p)"
  shows "keeps (store_inv W b) (buy_seedbox W cid actor prov hostname cost) (\<lambda>_. True)"
  unfolding buy_seedbox_def Let_def
proof (intro keeps_loaded keeps_required)
  fix cs c assume cs: "communities_inv b cs" and c: "community_inv b c" "co_community_id c = cid"
  let ?price = "case cost of None \<Rightarrow> co_threshold c | Some p \<Rightarrow> p"
  have price: "b \<longrightarrow> 0 \<le> ?price" using assms c(1) by (auto simp: community_inv_def split: option.splits)
  have reg: "keeps (store_inv W b) (register_seedbox cs cid actor c ?price md) (\<lambda>_. True)"
    if "\<not> tr_balance (co_treasury c) < ?price" for md
    by (rule keeps_register [OF cs c price that])
  show "keeps (store_inv W b)
     (if tr_balance (co_treasury c) < ?price
      then raise (ValueError ''community treasury does not have enough funds to buy seedbox'')
      else seq (raising (provider_for prov)) (\<lambda>p.
        seq (\<lambda>s. launch W (sv_root s) p (or_text hostname (cid @ ''-seedbox-'' @ int_str (co_seedbox_count c + 1)))
              (ce_join W (ce_join W (sv_root s) (or_text hostname (cid @ ''-seedbox-'' @ int_str (co_seedbox_count c + 1)))) ''content'') s)
          (register_seedbox cs cid actor c ?price))) (\<lambda>_. True)"
    using reg by (auto intro!: keeps_raise keeps_seq [OF keeps_raising_any] keeps_seq [OF keeps_launch_root])
qed

lemma keeps_expand:
  "keeps (store_inv W b) (maybe_expand_seedboxes W c actor) (\<lambda>_. True)"
proof -
  have "keeps (store_inv W b) (buy_seedbox W cid actor prov None None) (\<lambda>_. True)" for cid prov
    by (rule keeps_buy) simp
  then have "keeps (store_inv W b) (seq (buy_seedbox W cid actor prov None None) (\<lambda>(box, _). ret (Expanded box)))
      (\<lambda>_. True)" for cid prov
    by (rule keeps_seq) (auto intro: keeps_ret)
  then show ?thesis unfolding maybe_expand_seedboxes_def Let_def
    by (auto intro!: keeps_seq [OF keeps_raising_any] keeps_ret keeps_audited)
qed

lemma keeps_finish_join:
  assumes "communities_inv b cs" and "community_inv b c2" and "co_community_id c2 = cid"
  shows "keeps (store_inv W b) (finish_join W cs cid agent amount m c2) (\<lambda>_. True)"
  unfolding finish_join_def
proof (rule keeps_audited, rule keeps_store [OF assms], rule keeps_seq [OF keeps_expand], intro keeps_loaded keeps_required)
  fix cs' c' assume "communities_inv b cs'"
  then show "communities_inv b cs'" .
next
  fix cs' c'
  show "keeps (store_inv W b)
     (case map_of (co_members c') agent of None \<Rightarrow> raise (KeyError agent)
      | Some m' \<Rightarrow> seq (raising (community_payload c')) (\<lambda>r. ret (m', ex, r))) (\<lambda>_. True)" for ex
    by (cases "map_of (co_members c') agent") (auto intro: keeps_raise keeps_payload_ret)
qed

lemma added_inv:
  assumes "community_inv b c" and "cm_agent_id m = agent" and "cm_assigned m = JNull"
  shows "community_inv b (c\<lparr>co_members := AList.update agent m (co_members c)\<rparr>)"
  using assms by (auto simp: community_inv_def distinct_update assigned_ok_def dest: update_mem)

lemma keeps_join:
  assumes "b \<longrightarrow> 0 \<le> amount"
  shows "keeps (store_inv W b) (join_community W cid agent wallet amount txid) (\<lambda>_. True)"
  unfolding join_community_def Let_def
proof (intro keeps_loaded keeps_required)
  fix cs c assume cs: "communities_inv b cs" and c: "community_inv b c" "co_community_id c = cid"
  have f: "community_inv b (fund amount c)" "co_community_id (fund amount c) = cid"
    using fund_inv [OF c(1) assms] c(2) by simp_all
  have "keeps (store_inv W b) (seq (raising (rebalance_members
      ((fund amount c)\<lparr>co_members := AList.update agent m (co_members (fund amount c))\<rparr>)))
      (finish_join W cs cid agent amount m)) (\<lambda>_. True)"
    if "cm_agent_id m = agent" "cm_assigned m = JNull" for m
    by (rule keeps_rebalanced [OF added_inv [OF f(1) that]]) (use f(2) cs keeps_finish_join in auto)
  then show "keeps (store_inv W b)
     (if amount < co_join_fee c then raise (ValueError ''donation below required join fee'')
      else seq (now_op W) (\<lambda>joined.
        if co_join_fee c = 0 then raise ZeroDivisionError
        else seq (raising (rebalance_members
          ((fund amount c)\<lparr>co_members := AList.update agent
            \<lparr>cm_agent_id = agent, cm_wallet_address = wallet, cm_joined_at = joined,
             cm_donation_txid = or_text txid (''mocktx-'' @ cid @ ''-'' @ agent @ ''-join''),
             cm_donated_sats = amount, cm_initial_trust = ce_join_trust W amount (co_join_fee c),
             cm_assigned = JNull\<rparr> (co_members (fund amount c))\<rparr>)))
          (finish_join W cs cid agent amount
            \<lparr>cm_agent_id = agent, cm_wallet_address = wallet, cm_joined_at = joined,
             cm_donation_txid = or_text txid (''mocktx-'' @ cid @ ''-'' @ agent @ ''-join''),
             cm_donated_sats = amount, cm_initial_trust = ce_join_trust W amount (co_join_fee c),
             cm_assigned = JNull\<rparr>))) (\<lambda>_. True)"
    by (auto intro!: keeps_raise keeps_clocked)
qed

lemma imported_inv:
  assumes "community_inv b c"
  shows "community_inv b (c\<lparr>co_files := foldl (\<lambda>d f. AList.update (cf_file_id f) f d) (co_files c) files\<rparr>)"
  using assms
proof (induction files arbitrary: c)
  case (Cons f files)
  have "community_inv b (c\<lparr>co_files := AList.update (cf_file_id f) f (co_files c)\<rparr>)"
    using Cons.prems by (auto simp: community_inv_def distinct_update dest: update_mem)
  from Cons.IH [OF this] show ?case by simp
qed simp

lemma keeps_import: "keeps (store_inv W b) (import_file_catalog W cid path rows) (\<lambda>_. True)"
  unfolding import_file_catalog_def Let_def
  using imported_inv
  by (auto intro!: keeps_loaded keeps_required keeps_seq [OF keeps_raising_any] keeps_store keeps_audited keeps_payload_ret)

lemma keeps_find: "keeps (store_inv W b) (find_file W cid requester query) (\<lambda>_. True)"
  unfolding find_file_def Let_def
  by (auto intro!: keeps_loaded keeps_required keeps_seq [OF keeps_request] keeps_audited keeps_ret)

lemma keeps_retrieve: "keeps (store_inv W b) (retrieve_file W cid requester fid) (\<lambda>_. True)"
  unfolding retrieve_file_def Let_def
  by (auto intro!: keeps_loaded keeps_required keeps_audited keeps_ret keeps_raise split: option.splits)

lemma keeps_status: "keeps (store_inv W b) (get_status W cid) (\<lambda>_. True)"
  unfolding get_status_def
  by (auto intro!: keeps_loaded keeps_required keeps_raising_any)

section \<open>A sample service\<close>

definition sample_claw :: claw_env where
  "sample_claw = \<lparr>ce_env = sample_env, ce_conv = sample_conv, ce_clock = (\<lambda>n. ''t'' @ nat_str n),
     ce_ip = ''127.0.0.1'', ce_join = (\<lambda>a b. a @ ''/'' @ b), ce_founder_trust = (\<lambda>_ _. ''1.0''),
     ce_join_trust = (\<lambda>_ _. ''1.0''), ce_read_file = (\<lambda>_. None)\<rparr>"

definition sample_service :: service where
  "sample_service = \<lparr>sv_root = ''boxes'', sv_store = None, sv_audit = [], sv_messages = [], sv_tick = 0\<rparr>"

definition created_service :: service where
  "created_service =
     snd (create_community sample_claw ''c'' ''f'' ''w'' 9000 1000 3 3000 sample_service)"

section \<open>Every reachable store\<close>

text \<open>
  The states the service reaches from an empty store by any sequence of operations, whatever
  their outcomes; with \<open>b\<close>, by operations whose amounts and prices are not negative.
\<close>

inductive claw_reachable :: "claw_env \<Rightarrow> bool \<Rightarrow> service \<Rightarrow> bool" for W :: claw_env and b :: bool where
  start: "sv_store s = None \<Longrightarrow> claw_reachable W b s"
| create: "claw_reachable W b s \<Longrightarrow> b \<longrightarrow> 0 \<le> funding \<and> 0 \<le> threshold \<Longrightarrow>
     claw_reachable W b (snd (create_community W cid founder wallet funding fee capacity threshold s))"
| fund: "claw_reachable W b s \<Longrightarrow> b \<longrightarrow> 0 \<le> amount \<Longrightarrow>
     claw_reachable W b (snd (fund_treasury W cid agent wallet amount txid s))"
| buy: "claw_reachable W b s \<Longrightarrow> b \<longrightarrow> (\<forall>p. cost = Some p \<longrightarrow> 0 \<le> p) \<Longrightarrow>
     claw_reachable W b (snd (buy_seedbox W cid actor prov hostname cost s))"
| join: "claw_reachable W b s \<Longrightarrow> b \<longrightarrow> 0 \<le> amount \<Longrightarrow>
     claw_reachable W b (snd (join_community W cid agent wallet amount txid s))"
| import: "claw_reachable W b s \<Longrightarrow> claw_reachable W b (snd (import_file_catalog W cid path rows s))"
| find: "claw_reachable W b s \<Longrightarrow> claw_reachable W b (snd (find_file W cid requester query s))"
| retrieve: "claw_reachable W b s \<Longrightarrow> claw_reachable W b (snd (retrieve_file W cid requester fid s))"
| status: "claw_reachable W b s \<Longrightarrow> claw_reachable W b (snd (get_status W cid s))"

lemma keepsD: "keeps P m Q \<Longrightarrow> P s \<Longrightarrow> P (snd (m s))"
  by (simp add: keeps_def)

lemma claw_reachable_inv: "claw_reachable W b s \<Longrightarrow> store_inv W b s"
proof (induction rule: claw_reachable.induct)
  case (start s)
  then show ?case by (simp add: store_inv_def load_all_def communities_inv_def)
qed (blast intro: keepsD keeps_create keeps_fund keeps_buy keeps_join keeps_import keeps_find keeps_retrieve
    keeps_status)+

text \<open>
  C15: In every state the service reaches the store loads, and in every community of it the
  treasury balance is what came in less what went out, the keys of the dictionaries of members,
  seedboxes and files are unique and the ids of the records below them, and a member is assigned to no seedbox or to one of its community;
  when no amount or price was negative, no balance is negative.
\<close>

theorem claw_store_invariant:
  assumes "claw_reachable W b s"
  shows "\<exists>cs. load_all (ce_conv W) (sv_store s) = Inr (Some cs) \<and>
    (\<forall>cid c. map_of cs cid = Some c \<longrightarrow>
       co_community_id c = cid \<and>
       tr_balance (co_treasury c) = tr_incoming (co_treasury c) - tr_outgoing (co_treasury c) \<and>
       (b \<longrightarrow> 0 \<le> tr_balance (co_treasury c)) \<and>
       dict_ok (co_members c) \<and> dict_ok (co_seedboxes c) \<and> dict_ok (co_files c) \<and>
       (\<forall>fid f. map_of (co_files c) fid = Some f \<longrightarrow> cf_file_id f = fid) \<and>
       (\<forall>sid box. map_of (co_seedboxes c) sid = Some box \<longrightarrow> cs_seedbox_id box = sid) \<and>
       (\<forall>a m. map_of (co_members c) a = Some m \<longrightarrow> cm_agent_id m = a \<and>
          (cm_assigned m = JNull \<or>
           (\<exists>sid box. map_of (co_seedboxes c) sid = Some box \<and> cs_seedbox_id box = sid \<and>
              cm_assigned m = JStr sid))))"
proof -
  obtain cs where cs: "load_all (ce_conv W) (sv_store s) = Inr (Some cs)" "communities_inv b cs"
    using claw_reachable_inv [OF assms] by (auto simp: store_inv_def)
  have boxes: "sid \<in> fst ` set boxes \<Longrightarrow> \<forall>p \<in> set boxes. cs_seedbox_id (snd p) = fst p \<Longrightarrow>
      \<exists>box. map_of boxes sid = Some box \<and> cs_seedbox_id box = sid" for sid boxes
    by (metis fst_conv map_of_SomeD map_of_eq_None_iff not_Some_eq snd_conv)
  show ?thesis
  proof (intro exI conjI allI impI)
    show "load_all (ce_conv W) (sv_store s) = Inr (Some cs)" by (rule cs(1))
    fix cid c assume "map_of cs cid = Some c"
    then have c: "co_community_id c = cid" "community_inv b c"
      using cs(2) by (auto simp: communities_inv_def dest: map_of_SomeD)
    from c show "co_community_id c = cid"
      "tr_balance (co_treasury c) = tr_incoming (co_treasury c) - tr_outgoing (co_treasury c)"
      by (auto simp: community_inv_def)
    from c show "b \<Longrightarrow> 0 \<le> tr_balance (co_treasury c)" by (simp add: community_inv_def)
    from c show "dict_ok (co_members c)" "dict_ok (co_seedboxes c)" "dict_ok (co_files c)"
      by (simp_all add: community_inv_def)
    from c show "map_of (co_files c) fid = Some f \<Longrightarrow> cf_file_id f = fid"
      "map_of (co_seedboxes c) sid = Some box \<Longrightarrow> cs_seedbox_id box = sid" for fid f sid box
      by (auto simp: community_inv_def dest!: map_of_SomeD)
    fix a m assume "map_of (co_members c) a = Some m"
    then have m: "cm_agent_id m = a" "assigned_ok (co_seedboxes c) m"
      using c(2) by (auto simp: community_inv_def dest!: map_of_SomeD)
    then show "cm_agent_id m = a" by simp
    from m(2) show "cm_assigned m = JNull \<or>
        (\<exists>sid box. map_of (co_seedboxes c) sid = Some box \<and> cs_seedbox_id box = sid \<and> cm_assigned m = JStr sid)"
      using boxes c(2) unfolding assigned_ok_def community_inv_def by blast
  qed
qed

lemma created_reachable: "claw_reachable sample_claw b created_service"
  unfolding created_service_def
  by (rule claw_reachable.create [OF claw_reachable.start]) (simp_all add: sample_service_def)

lemma claw_store_invariant_witness:
  "\<exists>cs. load_all (ce_conv sample_claw) (sv_store created_service) = Inr (Some cs) \<and>
    (\<forall>cid c. map_of cs cid = Some c \<longrightarrow>
       co_community_id c = cid \<and>
       tr_balance (co_treasury c) = tr_incoming (co_treasury c) - tr_outgoing (co_treasury c) \<and>
       (True \<longrightarrow> 0 \<le> tr_balance (co_treasury c)) \<and>
       dict_ok (co_members c) \<and> dict_ok (co_seedboxes c) \<and> dict_ok (co_files c) \<and>
       (\<forall>fid f. map_of (co_files c) fid = Some f \<longrightarrow> cf_file_id f = fid) \<and>
       (\<forall>sid box. map_of (co_seedboxes c) sid = Some box \<longrightarrow> cs_seedbox_id box = sid) \<and>
       (\<forall>a m. map_of (co_members c) a = Some m \<longrightarrow> cm_agent_id m = a \<and>
          (cm_assigned m = JNull \<or>
           (\<exists>sid box. map_of (co_seedboxes c) sid = Some box \<and> cs_seedbox_id box = sid \<and>
              cm_assigned m = JStr sid))))"
  by (rule claw_store_invariant [OF created_reachable])

section \<open>Rebalancing respects the capacity\<close>











section \<open>A capacity of zero\<close>

lemma load_after_save:
  assumes "communities_inv b cs" and "map_of cs cid = Some c"
  obtains cs' where "load_all C (save_all cs) = Inr (Some cs')" and "map_of cs' cid = Some (stored_form c)"
    and "communities_inv b cs'"
proof -
  have ok: "\<forall>p \<in> set cs. community_ok (snd p)" "dict_ok cs"
    using assms(1) community_inv_ok by (auto simp: communities_inv_def)
  have "map_of (map (\<lambda>p. (fst p, stored_form (snd p))) (sorted_dict cs)) cid = Some (stored_form c)"
    using map_of_sort_key [OF ok(2)] assms(2) by (simp add: map_of_map_snd sorted_dict_def)
  with load_saved [OF ok] communities_inv_saved [OF assms(1), of C] that show thesis by auto
qed

text \<open>
  The capacity is not checked when a community is created.  With a capacity of zero the
  community is saved and only then the reply raises a division by zero; the id is taken, and
  every later look at the community raises the same.
\<close>

lemma create_zero_capacity:
  assumes "claw_reachable W False s" and "load_all (ce_conv W) (sv_store s) = Inr (Some cs)"
    and "map_of cs cid = None" and "fee \<noteq> 0"
    and "s' = snd (create_community W cid founder wallet funding fee 0 threshold s)"
  shows "fst (create_community W cid founder wallet funding fee 0 threshold s) = Inl ZeroDivisionError \<and>
    fst (create_community W cid founder2 wallet2 funding2 fee2 capacity threshold2 s') =
      Inl (ValueError (''community already exists: '' @ cid)) \<and>
    fst (get_status W cid s') = Inl ZeroDivisionError"
proof -
  have inv: "communities_inv False cs"
    using claw_reachable_inv [OF assms(1)] assms(2) by (auto simp: store_inv_def)
  let ?m = "\<lparr>cm_agent_id = founder, cm_wallet_address = wallet, cm_joined_at = ce_clock W (Suc (sv_tick s)),
      cm_donation_txid = ''mocktx-'' @ cid @ ''-founder-funding'', cm_donated_sats = funding,
      cm_initial_trust = ce_founder_trust W funding fee, cm_assigned = JNull\<rparr>"
  define c where "c = (fund funding \<lparr>co_community_id = cid, co_founder_agent_id = founder,
      co_treasury = \<lparr>tr_wallet_address = treasury_wallet (ce_env W) cid, tr_balance = 0, tr_incoming = 0,
        tr_outgoing = 0\<rparr>,
      co_join_fee = fee, co_capacity = 0, co_threshold = threshold, co_members = [], co_seedboxes = [],
      co_files = [], co_created_at = ce_clock W (sv_tick s)\<rparr>)\<lparr>co_members := [(founder, ?m)]\<rparr>"
  have c: "community_inv False c" "co_community_id c = cid" "co_members c = [(founder, ?m)]" "co_capacity c = 0"
    by (simp_all add: c_def fund_def Let_def community_inv_def assigned_ok_def)
  have req: "required_seedbox_count c = Inl ZeroDivisionError"
    "required_seedbox_count (stored_form c) = Inl ZeroDivisionError"
    using c(3,4) by (simp_all add: required_seedbox_count_def sorted_dict_def)
  have run: "fst (create_community W cid founder wallet funding fee 0 threshold s) = Inl ZeroDivisionError \<and>
      sv_store s' = save_all (AList.update cid c cs)"
    using assms(2-4) req(1)
    by (simp add: assms(5) create_community_def seq_def load_op_def now_op_def save_op_def audit_op_def
        raising_def community_payload_def Let_def c_def)
  have inv2: "communities_inv False (AList.update cid c cs)"
    by (rule communities_inv_update [OF inv c(1,2)])
  obtain cs' where cs': "load_all (ce_conv W) (sv_store s') = Inr (Some cs')" "map_of cs' cid = Some (stored_form c)"
    using load_after_save [OF inv2, of cid c "ce_conv W"] run by (auto simp: update_conv')
  have "fst (get_status W cid s') = Inl ZeroDivisionError"
    using cs' req(2) by (simp add: get_status_def seq_def load_op_def require_community_def ret_def raising_def
        community_payload_def)
  moreover have "fst (create_community W cid founder2 wallet2 funding2 fee2 capacity threshold2 s') =
      Inl (ValueError (''community already exists: '' @ cid))"
    using cs' by (simp add: create_community_def seq_def load_op_def raise_def)
  ultimately show ?thesis using run by blast
qed

lemma create_zero_capacity_witness:
  "fst (create_community sample_claw ''c'' ''f'' ''w'' 9000 1000 0 3000 sample_service) = Inl ZeroDivisionError \<and>
    fst (create_community sample_claw ''c'' ''g'' ''v'' 9000 1000 3 3000
      (snd (create_community sample_claw ''c'' ''f'' ''w'' 9000 1000 0 3000 sample_service))) =
      Inl (ValueError (''community already exists: '' @ ''c'')) \<and>
    fst (get_status sample_claw ''c''
      (snd (create_community sample_claw ''c'' ''f'' ''w'' 9000 1000 0 3000 sample_service))) = Inl ZeroDivisionError"
proof -
  have r: "claw_reachable sample_claw False sample_service"
    by (rule claw_reachable.start) (simp add: sample_service_def)
  have l: "load_all (ce_conv sample_claw) (sv_store sample_service) = Inr (Some [])"
    by (simp add: sample_service_def load_all_def)
  show ?thesis by (rule create_zero_capacity [OF r l _ _ refl]) simp_all
qed

section \<open>Buying the same host twice\<close>

lemma launch_Inr:
  assumes "launch W root p h d s = (Inr md, s')"
  shows "sm_machine_id md = machine_id (ce_env W) (provider_name p) h d" "sv_store s' = sv_store s"
    "sv_root s' = sv_root s"
  using assms by (cases p; auto simp: launch_def launch_mock_def launch_local_def launch_sporestack_def build_metadata_def seq_def now_op_def ret_def raise_def)+

lemma buy_Inr:
  assumes "buy_seedbox W cid actor prov hostname cost s = (Inr (box, pay), s')"
    and "load_all (ce_conv W) (sv_store s) = Inr (Some cs)"
  obtains c p md c2 where "map_of cs cid = Some c" and "provider_for prov = Inr p"
    and "sm_machine_id md = machine_id (ce_env W) (provider_name p)
       (or_text hostname (cid @ ''-seedbox-'' @ int_str (co_seedbox_count c + 1)))
       (ce_join W (ce_join W (sv_root s) (or_text hostname (cid @ ''-seedbox-'' @ int_str (co_seedbox_count c + 1)))) ''content'')"
    and "box = box_of c md"
    and "rebalance_members (bought c (case cost of None \<Rightarrow> co_threshold c | Some p \<Rightarrow> p) box) = Inr c2"
    and "sv_store s' = save_all (AList.update cid c2 cs)" and "sv_root s' = sv_root s" and "fst pay = c2"
proof -
  obtain c where c: "map_of cs cid = Some c"
    using assms by (auto simp: buy_seedbox_def seq_Inr load_op_def require_community_def raise_def split: option.splits)
  let ?h = "or_text hostname (cid @ ''-seedbox-'' @ int_str (co_seedbox_count c + 1))"
  from assms c obtain p md sm where p: "provider_for prov = Inr p"
    and l: "launch W (sv_root s) p ?h (ce_join W (ce_join W (sv_root s) ?h) ''content'') s = (Inr md, sm)"
    and r: "register_seedbox cs cid actor c (case cost of None \<Rightarrow> co_threshold c | Some p \<Rightarrow> p) md sm = (Inr (box, pay), s')"
    by (auto simp: buy_seedbox_def seq_Inr load_op_def require_community_def ret_def raise_def raising_def Let_def
        split: if_splits)
  from r obtain c2 where c2: "box = box_of c md"
    "rebalance_members (bought c (case cost of None \<Rightarrow> co_threshold c | Some p \<Rightarrow> p) box) = Inr c2"
    "sv_store s' = save_all (AList.update cid c2 cs)" "sv_root s' = sv_root sm" "fst pay = c2"
    by (auto simp: register_seedbox_def seq_Inr raising_def save_op_def audit_op_def ret_def community_payload_def
        bindr_Inr_iff Let_def)
  show thesis by (rule that [OF c p _ c2(1-3) _ c2(5)]) (use launch_Inr [OF l] c2(4) in simp_all)
qed

lemma rebalanced_fields:
  assumes "rebalance_members c = Inr c'"
  shows "co_treasury c' = co_treasury c" "co_seedboxes c' = co_seedboxes c" "co_community_id c' = co_community_id c"
    "co_threshold c' = co_threshold c"
  by (subst rebalance_frame [OF assms], simp)+

text \<open>
  A seedbox is filed under an id computed from provider, host name and directory.  Buying
  the same named host a second time succeeds and pays again, but the record of the first
  purchase is replaced: the community has no more seedboxes than before.
\<close>

lemma rebuy_same_host:
  assumes "claw_reachable W False s" and "h \<noteq> []"
    and "buy_seedbox W cid actor prov (Some h) (Some price) s = (Inr (box1, pay1), s1)"
    and "buy_seedbox W cid actor2 prov (Some h) (Some price) s1 = (Inr (box2, pay2), s2)"
  shows "cs_seedbox_id box2 = cs_seedbox_id box1 \<and>
    co_seedbox_count (fst pay2) = co_seedbox_count (fst pay1) \<and>
    tr_balance (co_treasury (fst pay2)) = tr_balance (co_treasury (fst pay1)) - price"
proof -
  obtain cs where cs: "load_all (ce_conv W) (sv_store s) = Inr (Some cs)" "communities_inv False cs"
    using claw_reachable_inv [OF assms(1)] by (auto simp: store_inv_def)
  have host: "or_text (Some h) x = h" for x using assms(2) by (simp add: or_text_def)
  obtain c p md c2 where b1: "map_of cs cid = Some c" "provider_for prov = Inr p"
    "sm_machine_id md = machine_id (ce_env W) (provider_name p) h (ce_join W (ce_join W (sv_root s) h) ''content'')"
    "box1 = box_of c md" "rebalance_members (bought c price box1) = Inr c2"
    "sv_store s1 = save_all (AList.update cid c2 cs)" "sv_root s1 = sv_root s" "fst pay1 = c2"
    by (rule buy_Inr [OF assms(3) cs(1), unfolded host option.case])
  have c: "community_inv False c" "co_community_id c = cid"
    using cs(2) b1(1) by (auto simp: communities_inv_def dest: map_of_SomeD)
  have "community_inv False (bought c price box1)" using bought_inv [OF c(1)] by simp
  note c2 = rebalance_inv [OF b1(5) this] rebalanced_fields [OF b1(5)]
  have id2: "co_community_id c2 = cid" using c2(2) c(2) by (simp add: bought_def Let_def)
  obtain cs1 where l1: "load_all (ce_conv W) (sv_store s1) = Inr (Some cs1)" "map_of cs1 cid = Some (stored_form c2)"
    using load_after_save [OF communities_inv_update [OF cs(2) c2(1) id2], of cid c2 "ce_conv W"] b1(6)
    by (auto simp: update_conv')
  obtain c' p' md2 c3 where c': "map_of cs1 cid = Some c'" and b2: "provider_for prov = Inr p'"
    "sm_machine_id md2 = machine_id (ce_env W) (provider_name p') h (ce_join W (ce_join W (sv_root s1) h) ''content'')"
    "box2 = box_of c' md2" "rebalance_members (bought c' price box2) = Inr c3"
    "sv_store s2 = save_all (AList.update cid c3 cs1)" "sv_root s2 = sv_root s1" "fst pay2 = c3"
    by (rule buy_Inr [OF assms(4) l1(1), unfolded host option.case])
  have st: "c' = stored_form c2" using c' l1(2) by simp
  have same: "cs_seedbox_id box2 = cs_seedbox_id box1"
    using b1(2,3,4,7) b2(1-3) id2 c(2) by (simp add: box_of_def st)
  note c3 = rebalanced_fields [OF b2(4)]
  have "cs_seedbox_id box1 \<in> fst ` set (sorted_dict (co_seedboxes c2))"
    using c2(4) by (simp add: bought_def Let_def update_conv' dom_update flip: dom_map_of_conv_image_fst)
  then have "map fst (AList.update (cs_seedbox_id box2) box2 (sorted_dict (co_seedboxes c2))) =
      map fst (sorted_dict (co_seedboxes c2))"
    using same by (simp add: update_keys)
  then have "length (AList.update (cs_seedbox_id box2) box2 (sorted_dict (co_seedboxes c2))) = length (co_seedboxes c2)"
    by (metis length_map length_sort sorted_dict_def)
  with same c3 b1(8) b2(7) show ?thesis by (simp add: co_seedbox_count_def bought_def Let_def st)
qed

definition first_buy :: "(community_seedbox \<times> payload) res \<times> service" where
  "first_buy = buy_seedbox sample_claw ''c'' ''f'' ''mock'' (Some ''h'') (Some 3000) created_service"

definition second_buy :: "(community_seedbox \<times> payload) res \<times> service" where
  "second_buy = buy_seedbox sample_claw ''c'' ''f'' ''mock'' (Some ''h'') (Some 3000) (snd first_buy)"

lemma rebuy_same_host_witness:
  "\<exists>box1 pay1 box2 pay2. fst first_buy = Inr (box1, pay1) \<and> fst second_buy = Inr (box2, pay2) \<and>
    cs_seedbox_id box2 = cs_seedbox_id box1 \<and>
    co_seedbox_count (fst pay2) = co_seedbox_count (fst pay1) \<and>
    tr_balance (co_treasury (fst pay2)) = tr_balance (co_treasury (fst pay1)) - 3000"
proof -
  have "\<not> isl (fst first_buy)" "\<not> isl (fst second_buy)" by code_simp+
  then obtain box1 pay1 box2 pay2 where r: "fst first_buy = Inr (box1, pay1)" "fst second_buy = Inr (box2, pay2)"
    by (metis prod.collapse sum.collapse(2))
  have h: "''h'' \<noteq> []" by simp
  have b: "buy_seedbox sample_claw ''c'' ''f'' ''mock'' (Some ''h'') (Some 3000) created_service =
      (Inr (box1, pay1), snd first_buy)"
    "buy_seedbox sample_claw ''c'' ''f'' ''mock'' (Some ''h'') (Some 3000) (snd first_buy) =
      (Inr (box2, pay2), snd second_buy)"
    using r by (metis first_buy_def prod.collapse, metis second_buy_def prod.collapse)
  from rebuy_same_host [OF created_reachable h b] r show ?thesis by blast
qed

end
