(* ===== verification/Overlay_Parser.thy ===== *)
theory Overlay_Parser
  imports Manifest Json
begin

text \<open>
  The overlay descriptor parser of protocol/compiler.py: the dataclasses, the section,
  message and table readers with their regular expressions written as functions, and the
  cross-section checks of \<open>validate_schema\<close>.  A \<open>ProtocolCompileError\<close> is a value with
  one constructor per \<open>raise\<close>, grouped by the part of the compiler that raises it; a
  built-in exception that escapes the compiler is \<open>Raised\<close>.  The bullet expression, the canonical text and the snake-case
  test are those of the manifest parser, which has copies of them.
\<close>

section \<open>Descriptors\<close>

record message_field =
  mf_name :: string
  mf_encoding :: string
  mf_description :: string

record message_def =
  md_name :: string
  msg_id :: int
  md_fields :: "message_field list"
  handler_text :: string

record test_vector =
  tv_message :: string
  tv_fields :: json
  tv_bytes_hex :: string

record runtime_state_slot =
  rs_name :: string
  rs_type_str :: string
  rs_base_type :: string
  rs_description :: string

record constant_def =
  cd_name :: string
  cd_type_str :: string
  cd_base_type :: string
  cd_value :: json
  cd_description :: string

record periodic_task_def =
  pt_name :: string
  interval_s :: int
  pt_handler :: string
  pt_description :: string

record parsed_overlay =
  po_identity :: "(string \<times> string) list"
  po_messages :: "message_def list"
  po_errors :: "(string \<times> string) list list"
  po_dependencies :: "string list"
  po_test_vectors :: "test_vector list"
  po_runtime_state :: "runtime_state_slot list"
  po_constants :: "constant_def list"
  po_tasks :: "periodic_task_def list"
  po_lifecycle :: string

section \<open>Failures\<close>

datatype section_failure =
    SectionsMissing "string list"
  | IdentityKeyMissing string
  | LifecycleUnknown string
  | ErrorsHeader "string list"
  | ReplyTargetUnknown string
  | OverlayNameCase string

datatype message_failure =
    NoMessages
  | DuplicateMsgId int
  | MessageNameCase string
  | MsgIdMissing string
  | MsgIdRange string int
  | TableMissing string
  | TableTooShort string
  | MessageHeader string "string list"
  | FieldNameCase string string
  | DuplicateField string string
  | EncodingUnknown string string
  | NoFields string

datatype table_failure =
    RuntimeHeader "string list"
  | SlotNameCase string
  | DuplicateSlot string
  | SlotType string string
  | ConstantsHeader "string list"
  | ConstantNameCase string
  | DuplicateConstant string
  | ConstantType string string
  | ConstantNotJson string string
  | ConstantValue string json
  | TasksHeader "string list"
  | TaskNameCase string
  | DuplicateTask string
  | HandlerNameCase string
  | DuplicateHandler string
  | IntervalNotInt string string
  | IntervalNotPositive string int

datatype vector_failure =
    VectorJson string
  | VectorHex string
  | NoVectors
  | VectorMessageUnknown string
  | PayloadClassMissing string
  | VectorEncode string
  | VectorEncodeMismatch string
  | VectorTrailing string int
  | VectorDecodeMismatch string

datatype contract_failure =
    NotPython
  | SandboxRejected
  | ClassMissing
  | IdMismatch
  | ConstantMissing string
  | ConstantMismatch string
  | SlotsUnassigned "string list"
  | TaskUnregistered string
  | HandlerMissing string
  | NotPeerObserver
  | HookMissing string
  | PassiveObserver

datatype compile_exn =
    Raised pyexn
  | SectionError section_failure
  | MessageError message_failure
  | TableError table_failure
  | VectorError vector_failure
  | ContractError contract_failure

type_synonym 'a comp = "compile_exn + 'a"

text \<open>\<open>ProtocolCompileError\<close>, by the part of the compiler that raises it.\<close>

abbreviation section_error :: "section_failure \<Rightarrow> 'a comp" where
  "section_error f \<equiv> Inl (SectionError f)"

abbreviation message_error :: "message_failure \<Rightarrow> 'a comp" where
  "message_error f \<equiv> Inl (MessageError f)"

abbreviation table_error :: "table_failure \<Rightarrow> 'a comp" where
  "table_error f \<equiv> Inl (TableError f)"

abbreviation vector_error :: "vector_failure \<Rightarrow> 'a comp" where
  "vector_error f \<equiv> Inl (VectorError f)"

abbreviation contract_error :: "contract_failure \<Rightarrow> 'a comp" where
  "contract_error f \<equiv> Inl (ContractError f)"

definition is_compile_error :: "compile_exn \<Rightarrow> bool" where
  "is_compile_error e = (case e of Raised _ \<Rightarrow> False | _ \<Rightarrow> True)"

section \<open>Schema constants\<close>

definition REQUIRED_SECTIONS :: "string list" where
  "REQUIRED_SECTIONS = [''Identity'', ''Messages'', ''Errors'', ''Dependencies'', ''Test Vectors'']"

definition ALLOWED_LIFECYCLES :: "string list" where
  "ALLOWED_LIFECYCLES = [''peer-observer'', ''passive'']"

definition DEFAULT_LIFECYCLE :: string where
  "DEFAULT_LIFECYCLE = ''peer-observer''"

definition runtime_state_zero_value :: "(string \<times> string) list" where
  "runtime_state_zero_value =
     [(''int'', ''0''), (''str'', [dq, dq]), (''bool'', ''False''), (''bytes'', ''b'' @ [dq, dq]),
      (''list'', ''[]''), (''dict'', ''{}''), (''set'', ''set()'')]"

definition ALLOWED_ENCODINGS :: "(string \<times> string) list" where
  "ALLOWED_ENCODINGS =
     [(''uint8'', ''B''), (''uint16-be'', ''H''), (''uint32-be'', ''I''), (''uint64-be'', ''Q''),
      (''bool'', ''?''), (''varlenH'', ''varlenH''), (''varlenH-utf8'', ''varlenH''),
      (''varlenH-msgpack'', ''varlenH''), (''bytes20'', ''20s''), (''bytes32'', ''32s'')]"

text \<open>\<open>isinstance(value, _CONSTANT_PY_TYPES[base])\<close>; \<open>None\<close> where the table has no such base.\<close>

definition constant_py_type :: "string \<Rightarrow> (json \<Rightarrow> bool) option" where
  "constant_py_type base =
     (if base = ''int'' then Some is_int
      else if base = ''float'' then Some (\<lambda>v. is_int v \<or> (case v of JFloat _ \<Rightarrow> True | _ \<Rightarrow> False))
      else if base = ''bool'' then Some (\<lambda>v. case v of JBool _ \<Rightarrow> True | _ \<Rightarrow> False)
      else if base = ''str'' \<or> base = ''bytes'' then Some is_str
      else if base = ''list'' then Some (\<lambda>v. case v of JList _ \<Rightarrow> True | _ \<Rightarrow> False)
      else if base = ''dict'' then Some is_dict
      else None)"

section \<open>Sections\<close>

fun split_overlay_sections ::
  "(string \<times> string) list \<Rightarrow> string option \<Rightarrow> string list \<Rightarrow> string list \<Rightarrow> (string \<times> string) list" where
  "split_overlay_sections sections name lines [] =
     (case name of None \<Rightarrow> sections | Some n \<Rightarrow> AList.update n (join_with [nl] lines) sections)"
| "split_overlay_sections sections name lines (l # ls) =
     (if startswith l ''# '' \<and> \<not> startswith l ''## ''
      then split_overlay_sections
             (case name of None \<Rightarrow> sections | Some n \<Rightarrow> AList.update n (join_with [nl] lines) sections)
             (Some (strip (drop 2 l))) [] ls
      else split_overlay_sections sections name (lines @ [l]) ls)"

definition overlay_sections :: "string \<Rightarrow> (string \<times> string) list" where
  "overlay_sections text = split_overlay_sections [] None [] (split_on nl text)"

definition check_overlay_sections :: "(string \<times> string) list \<Rightarrow> unit comp" where
  "check_overlay_sections sections =
     (let missing = filter (\<lambda>s. map_of sections s = None) REQUIRED_SECTIONS in
      if missing \<noteq> [] then section_error (SectionsMissing missing) else Inr ())"

text \<open>A required section, and an optional one.\<close>

definition section_body :: "(string \<times> string) list \<Rightarrow> string \<Rightarrow> string" where
  "section_body sections name = (case map_of sections name of None \<Rightarrow> [] | Some b \<Rightarrow> b)"

section \<open>Identity\<close>

definition parse_overlay_identity :: "string \<Rightarrow> (string \<times> string) list comp" where
  "parse_overlay_identity body =
     (let kv = parse_kv_list body in
      case filter (\<lambda>k. map_of kv k = None) [''name'', ''version'', ''description''] of
        k # _ \<Rightarrow> section_error (IdentityKeyMissing k)
      | [] \<Rightarrow>
          (case map_of kv ''lifecycle'' of
             Some l \<Rightarrow> if l \<in> set ALLOWED_LIFECYCLES then Inr kv else section_error (LifecycleUnknown l)
           | None \<Rightarrow> Inr kv))"

section \<open>Names, types and rows\<close>

text \<open>\<open>^[A-Z][A-Z0-9_]*$\<close>, and \<open>^_?[a-z][a-z0-9_]*$\<close>.\<close>

definition match_screaming :: "string \<Rightarrow> bool" where
  "match_screaming s = (case s of [] \<Rightarrow> False
     | c # cs \<Rightarrow> is_upper c \<and> list_all (\<lambda>d. is_upper d \<or> is_digit d \<or> d = CHR ''_'') cs)"

definition match_handler_name :: "string \<Rightarrow> bool" where
  "match_handler_name s =
     (match_name s \<or> (case s of c # cs \<Rightarrow> c = CHR ''_'' \<and> match_name cs | [] \<Rightarrow> False))"

text \<open>\<open>^\s*-\s*msg_id\s*:\s*(\d+)\s*$\<close>: the digits.\<close>

definition match_msg_id :: "string \<Rightarrow> string option" where
  "match_msg_id line =
     Option.bind (after_bullet line) (\<lambda>s.
     Option.bind (strip_prefix ''msg_id'' s) (\<lambda>r.
     Option.bind (after_colon r) (\<lambda>t.
     let ds = takeWhile is_digit (lstrip t); rest = dropWhile is_digit (lstrip t) in
     if ds \<noteq> [] \<and> list_all is_space rest then Some ds else None)))"

definition row_cells :: "string \<Rightarrow> string list" where
  "row_cells ln = map strip (split_on (CHR ''|'') (strip_char (CHR ''|'') ln))"

definition separator_row :: "string list \<Rightarrow> bool" where
  "separator_row row = list_all (list_all (\<lambda>c. c = CHR ''-'' \<or> c = CHR '' '')) row"

definition collect_table_rows :: "string \<Rightarrow> string list list" where
  "collect_table_rows body =
     map row_cells (filter (\<lambda>ln. startswith ln ''|'') (map strip (split_on nl body)))"

text \<open>\<open>_base_type\<close>: letters, then nothing or a bracketed part.\<close>

definition base_type :: "string \<Rightarrow> string" where
  "base_type type_str =
     (let s = lstrip type_str; letters = takeWhile is_lower s; rest = strip (dropWhile is_lower s) in
      if letters \<noteq> [] \<and> (rest = [] \<or> hd rest = CHR ''['' \<and> last rest = CHR '']'')
      then letters else strip type_str)"

section \<open>Messages\<close>

fun field_rows ::
  "string \<Rightarrow> string list \<Rightarrow> message_field list \<Rightarrow> string list list \<Rightarrow> message_field list comp" where
  "field_rows msg seen acc [] = Inr acc"
| "field_rows msg seen acc (row # rows) =
     (if separator_row row then field_rows msg seen acc rows
      else
        (let name = row ! 0; enc = row ! 1; desc = row ! 2 in
         if \<not> match_name name then message_error (FieldNameCase msg name)
         else if name \<in> set seen then message_error (DuplicateField msg name)
         else if map_of ALLOWED_ENCODINGS enc = None then message_error (EncodingUnknown msg enc)
         else field_rows msg (name # seen)
                (acc @ [\<lparr>mf_name = name, mf_encoding = enc, mf_description = desc\<rparr>]) rows))"

definition parse_field_table :: "string list \<Rightarrow> string \<Rightarrow> message_field list comp" where
  "parse_field_table table_lines msg =
     (let rows = filter (\<lambda>cells. length cells = 3) (map row_cells table_lines) in
      if length rows < 2 then message_error (TableTooShort msg)
      else
        (let header = map lower (hd rows) in
         if header \<noteq> [''name'', ''encoding'', ''description'']
         then message_error (MessageHeader msg header)
         else
           bindr (field_rows msg [] [] (tl rows)) (\<lambda>fds.
           if fds = [] then message_error (NoFields msg) else Inr fds)))"

text \<open>
  The scan of a message body: message id, handler lines, table lines.  The local
  \<open>in_table\<close> is written and never read, so it has no counterpart.  \<open>int\<close> raises on more
  than 4300 digits.
\<close>

fun scan_message ::
  "int option \<Rightarrow> string list \<Rightarrow> bool \<Rightarrow> string list \<Rightarrow> string list \<Rightarrow>
     (int option \<times> string list \<times> string list) comp" where
  "scan_message mid handler in_handler table [] = Inr (mid, handler, table)"
| "scan_message mid handler in_handler table (l # ls) =
     (if in_handler then scan_message mid (handler @ [l]) True table ls
      else if startswith l ''### Handler'' then scan_message mid handler True table ls
      else case match_msg_id l of
        Some ds \<Rightarrow>
          (case py_int ds of
             None \<Rightarrow> Inl (Raised (ValueError []))
           | Some n \<Rightarrow> scan_message (Some n) handler False table ls)
      | None \<Rightarrow>
          if startswith (lstrip l) ''|'' then scan_message mid handler False (table @ [strip l]) ls
          else scan_message mid handler False table ls)"

definition parse_one_message :: "string \<Rightarrow> string \<Rightarrow> message_def comp" where
  "parse_one_message name body =
     (if \<not> match_screaming name then message_error (MessageNameCase name)
      else
        bindr (scan_message None [] False [] (split_on nl body)) (\<lambda>(mid, handler, table).
        case mid of
          None \<Rightarrow> message_error (MsgIdMissing name)
        | Some n \<Rightarrow>
            if \<not> (0 \<le> n \<and> n \<le> 255) then message_error (MsgIdRange name n)
            else if table = [] then message_error (TableMissing name)
            else
              bindr (parse_field_table table name) (\<lambda>fds.
              Inr \<lparr>md_name = name, msg_id = n, md_fields = fds,
                   handler_text = strip (join_with [nl] handler)\<rparr>)))"

definition flush_message ::
  "message_def list \<Rightarrow> string option \<Rightarrow> string list \<Rightarrow> message_def list comp" where
  "flush_message defs name lines = (case name of
     None \<Rightarrow> Inr defs
   | Some n \<Rightarrow> bindr (parse_one_message n (join_with [nl] lines)) (\<lambda>d. Inr (defs @ [d])))"

fun read_messages ::
  "message_def list \<Rightarrow> string option \<Rightarrow> string list \<Rightarrow> string list \<Rightarrow> message_def list comp" where
  "read_messages defs name lines [] = flush_message defs name lines"
| "read_messages defs name lines (l # ls) =
     (if startswith l ''## '' \<and> \<not> startswith l ''### ''
      then bindr (flush_message defs name lines) (\<lambda>defs'.
             read_messages defs' (Some (strip (drop 3 l))) [] ls)
      else read_messages defs name (lines @ [l]) ls)"

fun check_msg_ids :: "int list \<Rightarrow> message_def list \<Rightarrow> unit comp" where
  "check_msg_ids seen [] = Inr ()"
| "check_msg_ids seen (d # ds) =
     (if msg_id d \<in> set seen then message_error (DuplicateMsgId (msg_id d))
      else check_msg_ids (msg_id d # seen) ds)"

definition parse_messages :: "string \<Rightarrow> message_def list comp" where
  "parse_messages body =
     bindr (read_messages [] None [] (split_on nl body)) (\<lambda>defs.
     if defs = [] then message_error NoMessages
     else bindr (check_msg_ids [] defs) (\<lambda>_. Inr defs))"

section \<open>Optional tables\<close>

text \<open>
  \<open>row[0], row[1], ...\<close>: a row with too few cells raises \<open>IndexError\<close>.
\<close>

definition need_cells :: "nat \<Rightarrow> string list \<Rightarrow> unit comp" where
  "need_cells n row = (if length row < n then Inl (Raised IndexError) else Inr ())"

fun slot_rows ::
  "string list \<Rightarrow> runtime_state_slot list \<Rightarrow> string list list \<Rightarrow> runtime_state_slot list comp" where
  "slot_rows seen slots [] = Inr slots"
| "slot_rows seen slots (row # rows) =
     (if separator_row row then slot_rows seen slots rows
      else
        bindr (need_cells 3 row) (\<lambda>_.
        let name = row ! 0; type_str = row ! 1; base = base_type type_str in
        if \<not> match_name name then table_error (SlotNameCase name)
        else if name \<in> set seen then table_error (DuplicateSlot name)
        else if map_of runtime_state_zero_value base = None then table_error (SlotType name type_str)
        else slot_rows (name # seen)
               (slots @ [\<lparr>rs_name = name, rs_type_str = type_str, rs_base_type = base,
                         rs_description = row ! 2\<rparr>]) rows))"

definition parse_runtime_state :: "string \<Rightarrow> runtime_state_slot list comp" where
  "parse_runtime_state body = (case collect_table_rows body of
     [] \<Rightarrow> Inr []
   | head # rows \<Rightarrow>
       (let header = map lower head in
        if take 3 header \<noteq> [''name'', ''type'', ''description'']
        then table_error (RuntimeHeader header)
        else slot_rows [] [] rows))"

fun constant_rows ::
  "(string \<Rightarrow> string) \<Rightarrow> string list \<Rightarrow> constant_def list \<Rightarrow> string list list \<Rightarrow> constant_def list comp" where
  "constant_rows frepr seen consts [] = Inr consts"
| "constant_rows frepr seen consts (row # rows) =
     (if separator_row row then constant_rows frepr seen consts rows
      else
        bindr (need_cells 4 row) (\<lambda>_.
        let name = row ! 0; type_str = row ! 1; value_str = row ! 2; base = base_type type_str in
        if \<not> match_screaming name then table_error (ConstantNameCase name)
        else if name \<in> set seen then table_error (DuplicateConstant name)
        else case constant_py_type base of
          None \<Rightarrow> table_error (ConstantType name type_str)
        | Some ok \<Rightarrow>
            (case loads frepr value_str of
               None \<Rightarrow> table_error (ConstantNotJson name value_str)
             | Some v \<Rightarrow>
                 if \<not> ok v then table_error (ConstantValue name v)
                 else constant_rows frepr (name # seen)
                        (consts @ [\<lparr>cd_name = name, cd_type_str = type_str, cd_base_type = base,
                                   cd_value = v, cd_description = row ! 3\<rparr>]) rows)))"

definition parse_constants :: "(string \<Rightarrow> string) \<Rightarrow> string \<Rightarrow> constant_def list comp" where
  "parse_constants frepr body = (case collect_table_rows body of
     [] \<Rightarrow> Inr []
   | head # rows \<Rightarrow>
       (let header = map lower head in
        if take 4 header \<noteq> [''name'', ''type'', ''value'', ''description'']
        then table_error (ConstantsHeader header)
        else constant_rows frepr [] [] rows))"

fun task_rows ::
  "string list \<Rightarrow> string list \<Rightarrow> periodic_task_def list \<Rightarrow> string list list \<Rightarrow> periodic_task_def list comp" where
  "task_rows seen_names seen_handlers tasks [] = Inr tasks"
| "task_rows seen_names seen_handlers tasks (row # rows) =
     (if separator_row row then task_rows seen_names seen_handlers tasks rows
      else
        bindr (need_cells 4 row) (\<lambda>_.
        let name = row ! 0; interval_str = row ! 1; handler = row ! 2 in
        if \<not> match_name name then table_error (TaskNameCase name)
        else if name \<in> set seen_names then table_error (DuplicateTask name)
        else if \<not> match_handler_name handler then table_error (HandlerNameCase handler)
        else if handler \<in> set seen_handlers then table_error (DuplicateHandler handler)
        else case py_int interval_str of
          None \<Rightarrow> table_error (IntervalNotInt name interval_str)
        | Some n \<Rightarrow>
            if n \<le> 0 then table_error (IntervalNotPositive name n)
            else task_rows (name # seen_names) (handler # seen_handlers)
                   (tasks @ [\<lparr>pt_name = name, interval_s = n, pt_handler = handler,
                             pt_description = row ! 3\<rparr>]) rows))"

definition parse_tasks :: "string \<Rightarrow> periodic_task_def list comp" where
  "parse_tasks body = (case collect_table_rows body of
     [] \<Rightarrow> Inr []
   | head # rows \<Rightarrow>
       (let header = map lower head in
        if take 4 header \<noteq> [''name'', ''interval_s'', ''handler'', ''description'']
        then table_error (TasksHeader header)
        else task_rows [] [] [] rows))"

section \<open>Errors, dependencies, test vectors\<close>

definition parse_errors :: "string \<Rightarrow> (string \<times> string) list list comp" where
  "parse_errors body =
     (let rows = filter (\<lambda>cells. 3 \<le> length cells \<and> \<not> separator_row cells) (collect_table_rows body) in
      if length rows < 2 then Inr []
      else
        (let header = map lower (hd rows) in
         if take 3 header \<noteq> [''code'', ''name'', ''policy'']
         then section_error (ErrorsHeader header)
         else Inr (map (\<lambda>row. dict_of_pairs (zip header row)) (tl rows))))"

text \<open>\<open>^\s*-\s*sha1\s*:\s*([0-9a-fA-F]+)\<close>, and the test vector lines.\<close>

definition match_dependency :: "string \<Rightarrow> string option" where
  "match_dependency line =
     Option.bind (after_bullet line) (\<lambda>s.
     Option.bind (strip_prefix ''sha1'' s) (\<lambda>r.
     Option.bind (after_colon r) (\<lambda>t.
     let h = takeWhile (\<lambda>c. hex_val c \<noteq> None) (lstrip t) in
     if h = [] then None else Some (lower h))))"

definition parse_dependencies :: "string \<Rightarrow> string list" where
  "parse_dependencies body = List.map_filter match_dependency (split_on nl body)"

definition match_tv_fields :: "string \<Rightarrow> string option" where
  "match_tv_fields line =
     Option.bind (after_bullet line) (\<lambda>s.
     Option.bind (strip_prefix ''fields:'' s) (\<lambda>r.
     let t = strip r in
     if t \<noteq> [] \<and> hd t = CHR ''{'' \<and> last t = CHR ''}'' then Some t else None))"

definition match_tv_bytes :: "string \<Rightarrow> string option" where
  "match_tv_bytes line =
     Option.bind (strip_prefix ''bytes'' (lstrip line)) (\<lambda>r.
     Option.bind (after_colon r) kv_value)"

fun read_vectors ::
  "(string \<Rightarrow> string) \<Rightarrow> string option \<Rightarrow> json option \<Rightarrow> test_vector list \<Rightarrow> string list \<Rightarrow> test_vector list comp" where
  "read_vectors frepr msg pending vectors [] = Inr vectors"
| "read_vectors frepr msg pending vectors (l # ls) =
     (if startswith l ''## '' \<and> \<not> startswith l ''### ''
      then read_vectors frepr (Some (strip (drop 3 l))) None vectors ls
      else case match_tv_fields l of
        Some t \<Rightarrow>
          (case loads frepr t of
             None \<Rightarrow> vector_error (VectorJson (case msg of Some m \<Rightarrow> m | None \<Rightarrow> ''None''))
           | Some v \<Rightarrow> read_vectors frepr msg (Some v) vectors ls)
      | None \<Rightarrow>
          (case (match_tv_bytes l, msg, pending) of
             (Some b, Some m, Some v) \<Rightarrow>
               (let hexstr = lower (filter (\<lambda>c. \<not> is_space c) b) in
                if bytes_fromhex hexstr = None then vector_error (VectorHex m)
                else read_vectors frepr msg None
                       (vectors @ [\<lparr>tv_message = m, tv_fields = v, tv_bytes_hex = hexstr\<rparr>]) ls)
           | _ \<Rightarrow> read_vectors frepr msg pending vectors ls))"

definition parse_test_vectors :: "(string \<Rightarrow> string) \<Rightarrow> string \<Rightarrow> test_vector list comp" where
  "parse_test_vectors frepr body =
     bindr (read_vectors frepr None None [] (split_on nl body)) (\<lambda>vectors.
     if vectors = [] then vector_error NoVectors else Inr vectors)"

section \<open>The descriptor\<close>

definition parse_md :: "(string \<Rightarrow> string) \<Rightarrow> string \<Rightarrow> parsed_overlay comp" where
  "parse_md frepr text =
     (let sections = overlay_sections text in
      bindr (check_overlay_sections sections) (\<lambda>_.
      bindr (parse_overlay_identity (section_body sections ''Identity'')) (\<lambda>ident.
      bindr (parse_messages (section_body sections ''Messages'')) (\<lambda>messages.
      bindr (parse_errors (section_body sections ''Errors'')) (\<lambda>errors.
      bindr (parse_test_vectors frepr (section_body sections ''Test Vectors'')) (\<lambda>vectors.
      bindr (parse_runtime_state (section_body sections ''Runtime State'')) (\<lambda>slots.
      bindr (parse_constants frepr (section_body sections ''Constants'')) (\<lambda>consts.
      bindr (parse_tasks (section_body sections ''Tasks'')) (\<lambda>tasks.
      Inr \<lparr>po_identity = ident, po_messages = messages, po_errors = errors,
           po_dependencies = parse_dependencies (section_body sections ''Dependencies''),
           po_test_vectors = vectors, po_runtime_state = slots, po_constants = consts, po_tasks = tasks,
           po_lifecycle = (case map_of ident ''lifecycle'' of Some l \<Rightarrow> l | None \<Rightarrow> DEFAULT_LIFECYCLE)\<rparr>)))))))))"

section \<open>Cross-section checks\<close>

fun check_vector_messages :: "string list \<Rightarrow> test_vector list \<Rightarrow> unit comp" where
  "check_vector_messages names [] = Inr ()"
| "check_vector_messages names (tv # tvs) =
     (if tv_message tv \<in> set names then check_vector_messages names tvs
      else vector_error (VectorMessageUnknown (tv_message tv)))"

text \<open>\<open>policy.split(":", 1)[1]\<close> of a policy that starts with \<open>reply:\<close>.\<close>

definition reply_target :: "(string \<times> string) list \<Rightarrow> string option" where
  "reply_target err = (case map_of err ''policy'' of
     Some policy \<Rightarrow> strip_prefix ''reply:'' policy
   | None \<Rightarrow> None)"

fun check_reply_targets :: "string list \<Rightarrow> (string \<times> string) list list \<Rightarrow> unit comp" where
  "check_reply_targets names [] = Inr ()"
| "check_reply_targets names (err # errs) =
     (case reply_target err of
        None \<Rightarrow> check_reply_targets names errs
      | Some target \<Rightarrow>
          if target \<in> set names then check_reply_targets names errs
          else section_error (ReplyTargetUnknown target))"

definition validate_schema :: "parsed_overlay \<Rightarrow> unit comp" where
  "validate_schema parsed =
     (let names = map md_name (po_messages parsed) in
      bindr (check_vector_messages names (po_test_vectors parsed)) (\<lambda>_.
      bindr (check_reply_targets names (po_errors parsed)) (\<lambda>_.
      case map_of (po_identity parsed) ''name'' of
        Some n \<Rightarrow> if match_name n then Inr () else section_error (OverlayNameCase n)
      | None \<Rightarrow> Inr ())))"

end
