(* ===== verification/Sandbox.thy ===== *)
theory Sandbox
  imports PyText
begin

text \<open>
  The syntax trees of generated overlay sources and the whitelist of protocol/sandbox.py.
  A tree has one constructor per node class the code looks at and \<open>OtherNode\<close> for the rest,
  with the child nodes in the field order of Python's \<open>ast\<close>; context, operator and alias
  nodes have no children and no field the code reads, so they are left out.  Parsing source
  text and running a module are the interpreter's.
\<close>

section \<open>Syntax trees\<close>

text \<open>The constants the code tells apart: text, a number, anything else.\<close>

datatype const_value =
    ConstStr string
  | ConstInt int
  | ConstBool bool
  | ConstFloat string
  | ConstOther

datatype ast =
    Module "ast list"
  | Import "string list"
  | ImportFrom "string option"
  | ClassDef string "ast list" "ast list" "ast list" "ast list"
  | FunctionDef string ast "ast list" "ast list" "ast list"
  | AsyncFunctionDef string ast "ast list" "ast list" "ast list"
  | With "ast list"
  | AsyncWith "ast list"
  | Global "string list"
  | Nonlocal "string list"
  | Assign "ast list" ast
  | AugAssign ast ast
  | AnnAssign ast ast "ast list"
  | Call ast "ast list" "ast list"
  | Keyword "string option" ast
  | Attribute ast string
  | Name string
  | Constant const_value
  | TupleNode "ast list"
  | ListNode "ast list"
  | OtherNode string "ast list"

text \<open>
  \<open>ast.iter_child_nodes\<close>.  A class has bases, keywords, body and decorators; a function
  its arguments, body, decorators and return annotation; an annotated assignment its
  target, annotation and value, if any.
\<close>

fun child_nodes :: "ast \<Rightarrow> ast list" where
  "child_nodes (Module body) = body"
| "child_nodes (Import _) = []"
| "child_nodes (ImportFrom _) = []"
| "child_nodes (ClassDef _ bases keywords body decorators) = bases @ keywords @ body @ decorators"
| "child_nodes (FunctionDef _ args body decorators returns) = args # body @ decorators @ returns"
| "child_nodes (AsyncFunctionDef _ args body decorators returns) = args # body @ decorators @ returns"
| "child_nodes (With ns) = ns"
| "child_nodes (AsyncWith ns) = ns"
| "child_nodes (Global _) = []"
| "child_nodes (Nonlocal _) = []"
| "child_nodes (Assign targets value) = targets @ [value]"
| "child_nodes (AugAssign target value) = [target, value]"
| "child_nodes (AnnAssign target annotation value) = target # annotation # value"
| "child_nodes (Call func args keywords) = func # args @ keywords"
| "child_nodes (Keyword _ value) = [value]"
| "child_nodes (Attribute value _) = [value]"
| "child_nodes (Name _) = []"
| "child_nodes (Constant _) = []"
| "child_nodes (TupleNode elts) = elts"
| "child_nodes (ListNode elts) = elts"
| "child_nodes (OtherNode _ ns) = ns"

abbreviation weight :: "ast \<Rightarrow> nat" where
  "weight n \<equiv> Suc (2 * size n)"

lemma size_list_weight: "2 * size_list size ns = sum_list (map weight ns) + length ns"
  by (induction ns) auto

lemma child_nodes_weight: "sum_list (map weight (child_nodes n)) < weight n"
proof -
  have "2 * size_list size ns \<ge> sum_list (map weight ns)" for ns :: "ast list"
    by (simp add: size_list_weight)
  from this this this this show ?thesis
    by (cases n) (auto simp: size_list_weight)
qed

lemma child_nodes_weight_visit: "2 * sum_list (map weight (child_nodes n)) < Suc (4 * size n)"
  using child_nodes_weight [of n] by simp

text \<open>\<open>ast.walk\<close>: breadth first, from a queue.\<close>

function walk_queue :: "ast list \<Rightarrow> ast list" where
  "walk_queue [] = []"
| "walk_queue (n # queue) = n # walk_queue (queue @ child_nodes n)"
  by pat_completeness auto
termination
  by (relation "measure (\<lambda>ns. sum_list (map weight ns))") (use child_nodes_weight in auto)

definition ast_walk :: "ast \<Rightarrow> ast list" where
  "ast_walk n = walk_queue [n]"

section \<open>The whitelist\<close>

datatype sandbox_error =
    SyntaxError
  | ForbiddenImport string
  | ForbiddenImportFrom "string option"
  | ForbiddenCall string
  | ForbiddenAttribute string
  | WithForbidden
  | AsyncWithForbidden
  | GlobalForbidden
  | NonlocalForbidden
  | RuntimeImportBlocked string

definition ALLOWED_MODULES :: "string list" where
  "ALLOWED_MODULES =
     [''ipv8.community'', ''ipv8.lazy_community'', ''ipv8.messaging.lazy_payload'', ''ipv8.peer'',
      ''ipv8.peerdiscovery.network'', ''msgpack'', ''struct'']"

definition FORBIDDEN_BUILTINS :: "string list" where
  "FORBIDDEN_BUILTINS =
     [''eval'', ''exec'', ''compile'', ''open'', ''__import__'',
      ''globals'', ''locals'', ''vars'', ''delattr'', ''setattr'',
      ''getattr'', ''input'', ''breakpoint'']"

definition FORBIDDEN_ATTRS :: "string list" where
  "FORBIDDEN_ATTRS =
     [''__class__'', ''__bases__'', ''__subclasses__'', ''__mro__'',
      ''__globals__'', ''__builtins__'', ''__dict__'', ''__init_subclass__'',
      ''__import__'', ''__loader__'', ''__spec__'']"

text \<open>
  What the visitor method of a node raises, if anything, before it visits the children.
  The methods for \<open>with\<close>, \<open>global\<close> and \<open>nonlocal\<close> always raise.
\<close>

fun node_violation :: "ast \<Rightarrow> sandbox_error option" where
  "node_violation (Import names) =
     map_option ForbiddenImport (List.find (\<lambda>a. a \<notin> set ALLOWED_MODULES) names)"
| "node_violation (ImportFrom m) =
     (case m of
        None \<Rightarrow> Some (ForbiddenImportFrom None)
      | Some name \<Rightarrow> if name \<in> set ALLOWED_MODULES then None else Some (ForbiddenImportFrom m))"
| "node_violation (Call func args keywords) =
     (case func of
        Name f \<Rightarrow> if f \<in> set FORBIDDEN_BUILTINS then Some (ForbiddenCall f) else None
      | _ \<Rightarrow> None)"
| "node_violation (Attribute value attr) =
     (if attr \<in> set FORBIDDEN_ATTRS then Some (ForbiddenAttribute attr) else None)"
| "node_violation (With _) = Some WithForbidden"
| "node_violation (AsyncWith _) = Some AsyncWithForbidden"
| "node_violation (Global _) = Some GlobalForbidden"
| "node_violation (Nonlocal _) = Some NonlocalForbidden"
| "node_violation _ = None"

function visit :: "ast \<Rightarrow> sandbox_error + unit" and visit_all :: "ast list \<Rightarrow> sandbox_error + unit" where
  "visit n = (case node_violation n of Some e \<Rightarrow> Inl e | None \<Rightarrow> visit_all (child_nodes n))"
| "visit_all [] = Inr ()"
| "visit_all (n # ns) = bindr (visit n) (\<lambda>_. visit_all ns)"
  by pat_completeness auto
termination
  by (relation "measure (\<lambda>x. case x of Inl n \<Rightarrow> 2 * weight n | Inr ns \<Rightarrow> Suc (2 * sum_list (map weight ns)))")
     (auto simp: child_nodes_weight_visit)

declare visit.simps [simp del]

definition validate_ast :: "(string \<Rightarrow> ast option) \<Rightarrow> string \<Rightarrow> sandbox_error + ast" where
  "validate_ast ast_parse source = (case ast_parse source of
     None \<Rightarrow> Inl SyntaxError
   | Some tree \<Rightarrow> bindr (visit tree) (\<lambda>_. Inr tree))"

section \<open>Execution\<close>

definition SAFE_BUILTIN_NAMES :: "string list" where
  "SAFE_BUILTIN_NAMES =
     [''abs'', ''all'', ''any'', ''bool'', ''bytes'', ''bytearray'', ''callable'',
      ''dict'', ''enumerate'', ''filter'', ''float'', ''frozenset'', ''hash'',
      ''hex'', ''int'', ''isinstance'', ''issubclass'', ''iter'', ''len'', ''list'',
      ''map'', ''max'', ''min'', ''next'', ''ord'', ''chr'', ''pow'', ''print'',
      ''range'', ''repr'', ''reversed'', ''round'', ''set'', ''slice'', ''sorted'',
      ''str'', ''sum'', ''tuple'', ''type'', ''zip'',
      ''Exception'', ''ValueError'', ''TypeError'', ''KeyError'', ''IndexError'',
      ''AttributeError'', ''RuntimeError'', ''NotImplementedError'',
      ''StopIteration'', ''True'', ''False'', ''None'',
      ''object'', ''super'', ''property'', ''staticmethod'', ''classmethod'',
      ''__build_class__'', ''__name__'']"

definition restricted_import :: "string \<Rightarrow> sandbox_error + unit" where
  "restricted_import name =
     (if name \<in> set ALLOWED_MODULES then Inr () else Inl (RuntimeImportBlocked name))"

text \<open>
  \<open>safe_exec\<close>: a module that passes is run by the interpreter with the builtin names above,
  of which it keeps those it has, and the import hook.  Running can raise: a
  \<open>SandboxError\<close> from the hook, or any exception of the module.
\<close>

datatype exec_exn =
    SandboxError sandbox_error
  | ModuleRaised pyexn

definition safe_exec ::
  "(string \<Rightarrow> ast option) \<Rightarrow>
   (string list \<Rightarrow> (string \<Rightarrow> sandbox_error + unit) \<Rightarrow> ast \<Rightarrow> exec_exn + (string \<rightharpoonup> 'o)) \<Rightarrow>
   string \<Rightarrow> exec_exn + (string \<rightharpoonup> 'o)" where
  "safe_exec ast_parse exec_module source = (case validate_ast ast_parse source of
     Inl e \<Rightarrow> Inl (SandboxError e)
   | Inr tree \<Rightarrow> exec_module SAFE_BUILTIN_NAMES restricted_import tree)"

section \<open>Whitelisted trees\<close>

text \<open>
  The specification, written out independently of the lists above: the five modules of ipv8
  that the descriptor schema names and the two the code adds to them; the calls and the
  attributes that are refused.
\<close>

definition overlay_modules :: "string set" where
  "overlay_modules =
     {''ipv8.community'', ''ipv8.lazy_community'', ''ipv8.messaging.lazy_payload'', ''ipv8.peer'',
      ''ipv8.peerdiscovery.network''} \<union> {''msgpack'', ''struct''}"

definition refused_calls :: "string set" where
  "refused_calls =
     {''eval'', ''exec'', ''compile'', ''open'', ''__import__'', ''input'', ''breakpoint''} \<union>
     {''globals'', ''locals'', ''vars'', ''getattr'', ''setattr'', ''delattr''}"

definition refused_attributes :: "string set" where
  "refused_attributes =
     {''__class__'', ''__bases__'', ''__subclasses__'', ''__mro__'', ''__globals__'', ''__builtins__'',
      ''__dict__'', ''__init_subclass__'', ''__import__'', ''__loader__'', ''__spec__''}"

text \<open>
  A node is forbidden if it imports a module outside the list, calls a refused builtin by
  name, reads a refused attribute, or is a with, global or nonlocal statement.  The
  depth-first visitor accepts a tree exactly when the breadth-first walk meets no such node.
\<close>

fun forbidden :: "ast \<Rightarrow> bool" where
  "forbidden (Import names) = (\<not> set names \<subseteq> overlay_modules)"
| "forbidden (ImportFrom m) = (m \<notin> Some ` overlay_modules)"
| "forbidden (Call func args keywords) = (\<exists>f \<in> refused_calls. func = Name f)"
| "forbidden (Attribute value attr) = (attr \<in> refused_attributes)"
| "forbidden (With _) = True"
| "forbidden (AsyncWith _) = True"
| "forbidden (Global _) = True"
| "forbidden (Nonlocal _) = True"
| "forbidden _ = False"

lemma listed:
  "set ALLOWED_MODULES = overlay_modules" "set FORBIDDEN_BUILTINS = refused_calls" "set FORBIDDEN_ATTRS = refused_attributes"
  unfolding ALLOWED_MODULES_def overlay_modules_def FORBIDDEN_BUILTINS_def refused_calls_def
    FORBIDDEN_ATTRS_def refused_attributes_def list.set Un_insert_left Un_empty_left
  by (simp_all only: insert_commute)

lemma node_violation_iff: "node_violation n = None \<longleftrightarrow> \<not> forbidden n"
  by (cases n) (auto simp: find_None_iff listed split: ast.splits option.splits)

text \<open>
  What the schema of descriptors and the module's own description rule out and the whitelist
  lets through: modules outside ipv8, and attributes with leading and trailing underscores
  that are not among the eleven.
\<close>

lemma beyond_schema_accepted:
  "visit (Module [Import [''struct''], ImportFrom (Some ''msgpack''),
     OtherNode ''Expr'' [Attribute (Attribute (Name ''f'') ''__code__'') ''__getattribute__'']]) = Inr ()"
  "restricted_import ''struct'' = Inr ()"
  by code_simp+

inductive_set nodes_of :: "ast \<Rightarrow> ast set" for n where
  itself: "n \<in> nodes_of n"
| child: "m \<in> nodes_of n \<Longrightarrow> c \<in> set (child_nodes m) \<Longrightarrow> c \<in> nodes_of n"

lemma nodes_of_trans: "k \<in> nodes_of m \<Longrightarrow> m \<in> nodes_of n \<Longrightarrow> k \<in> nodes_of n"
  by (induction rule: nodes_of.induct) (auto intro: nodes_of.intros)

lemma nodes_of_unfold: "nodes_of n = insert n (\<Union>c \<in> set (child_nodes n). nodes_of c)"
proof
  show "nodes_of n \<subseteq> insert n (\<Union>c \<in> set (child_nodes n). nodes_of c)"
  proof
    fix m
    assume "m \<in> nodes_of n"
    then show "m \<in> insert n (\<Union>c \<in> set (child_nodes n). nodes_of c)"
      by induction (auto intro: nodes_of.intros)
  qed
next
  show "insert n (\<Union>c \<in> set (child_nodes n). nodes_of c) \<subseteq> nodes_of n"
    by (auto intro: nodes_of.intros nodes_of_trans [OF _ child [OF itself]])
qed

lemma set_walk_queue: "set (walk_queue queue) = (\<Union>n \<in> set queue. nodes_of n)"
proof (induction queue rule: walk_queue.induct)
  case (2 n queue)
  then show ?case using nodes_of_unfold [of n] by auto
qed simp

lemma set_ast_walk: "set (ast_walk n) = nodes_of n"
  by (simp add: ast_walk_def set_walk_queue del: walk_queue.simps)

lemma visit_iff:
  "visit n = Inr () \<longleftrightarrow> (\<forall>m \<in> nodes_of n. \<not> forbidden m)"
  "visit_all ns = Inr () \<longleftrightarrow> (\<forall>n \<in> set ns. \<forall>m \<in> nodes_of n. \<not> forbidden m)"
proof (induction n and ns rule: visit_visit_all.induct)
  case (1 n)
  then show ?case
    by (subst visit.simps, subst nodes_of_unfold)
       (use node_violation_iff [of n] in \<open>auto split: option.splits\<close>)
next
  case (3 n ns)
  then show ?case by (auto simp: bindr_Inr_iff)
qed simp

end
