(* ===== verification/Overlay_Compiler.thy ===== *)
theory Overlay_Compiler
  imports Overlay_Parser Sandbox Crypto_Env
begin

text \<open>
  The compiler of overlay descriptors (protocol/compiler.py): the user prompt, the code
  fence expression, the structural contract over the syntax tree, the test vectors and
  \<open>compile_overlay\<close>.  What the code takes from elsewhere is one record: Python's parser and
  module execution, SHA-1, the language model, the IPv8 serializer, msgpack, the integer
  part of a float literal, the normal text of a float, and the em dash of the prompt, whose
  code point is above those of the model.
\<close>

section \<open>Objects of a generated module\<close>

text \<open>
  An attribute of a class as the checks see it: bytes, a JSON-like value, or any other
  object, callable or not.  The bytes and the values of the wire.
\<close>

datatype attr_value =
    AttrBytes bytes
  | AttrJson json
  | AttrObject bool

datatype wire =
    WireBytes bytes
  | WireValue json

record 'o toolchain =
  ast_parse :: "string \<Rightarrow> ast option"
  exec_module :: "string list \<Rightarrow> (string \<Rightarrow> sandbox_error + unit) \<Rightarrow> ast \<Rightarrow> exec_exn + (string \<rightharpoonup> 'o)"
  attr_of :: "'o \<Rightarrow> string \<rightharpoonup> attr_value"
  sha1 :: "bytes \<Rightarrow> bytes"
  llm_complete :: "string \<Rightarrow> string"
  pack_payload :: "'o \<Rightarrow> wire list \<Rightarrow> bytes option"
  unpack_payload :: "'o \<Rightarrow> bytes \<Rightarrow> pyexn + (wire list \<times> nat)"
  msgpack :: "json \<Rightarrow> bytes"
  tc_ftrunc :: "string \<Rightarrow> int option"
  tc_frepr :: "string \<Rightarrow> string"
  em_dash :: string

section \<open>The user prompt\<close>

definition message_prompt :: "message_def \<Rightarrow> string" where
  "message_prompt m =
     ''  * '' @ md_name m @ '' (msg_id='' @ int_str (msg_id m) @ '')'' @ [nl] @
     ''    fields:'' @ [nl] @
     join_with [nl] (map (\<lambda>f. ''      - '' @ mf_name f @ '': '' @ mf_encoding f @ ''  # '' @ mf_description f)
       (md_fields m)) @ [nl] @
     ''    handler_semantics:'' @ [nl] @ ''      '' @ handler_text m"

definition constant_prompt :: "constant_def \<Rightarrow> string" where
  "constant_prompt c =
     ''  * '' @ cd_name c @ '': '' @ cd_type_str c @ '' = '' @ dumps_default (cd_value c) @ ''  # '' @ cd_description c"

definition slot_prompt :: "string \<Rightarrow> runtime_state_slot \<Rightarrow> string" where
  "slot_prompt dash s =
     ''  * self.'' @ rs_name s @ '' = '' @ section_body runtime_state_zero_value (rs_base_type s) @
     ''  # '' @ rs_type_str s @ '' '' @ dash @ '' '' @ rs_description s"

definition task_prompt :: "periodic_task_def \<Rightarrow> string" where
  "task_prompt t =
     ''  * self.register_task('' @ [dq] @ pt_name t @ [dq] @ '', self.'' @ pt_handler t @
     '', interval='' @ int_str (interval_s t) @ '')  # '' @ pt_description t"

definition build_user_prompt :: "string \<Rightarrow> parsed_overlay \<Rightarrow> bytes \<Rightarrow> string" where
  "build_user_prompt dash parsed cid =
     (let parts =
       [''community_id_hex='' @ bytes_hex cid,
        ''name='' @ section_body (po_identity parsed) ''name'',
        ''version='' @ section_body (po_identity parsed) ''version'',
        ''description='' @ section_body (po_identity parsed) ''description'',
        ''lifecycle='' @ po_lifecycle parsed,
        [],
        ''Messages:'',
        join_with [nl] (map message_prompt (po_messages parsed))] @
       (if po_constants parsed = [] then []
        else [[], ''Constants (declare at class scope):'',
              join_with [nl] (map constant_prompt (po_constants parsed))]) @
       (if po_runtime_state parsed = [] then []
        else [[], ''Runtime state (initialise in __init__ after super().__init__):'',
              join_with [nl] (map (slot_prompt dash) (po_runtime_state parsed))]) @
       (if po_tasks parsed = [] then []
        else [[], ''Periodic tasks (register in __init__; each handler is a method on the class):'',
              join_with [nl] (map task_prompt (po_tasks parsed))])
      in join_with [nl] parts @ [nl])"

section \<open>Code fences\<close>

text \<open>
  \<open>^```(?:python)?\s*\n(.*?)\n```\s*$\<close> with \<open>DOTALL\<close> and \<open>MULTILINE\<close>: the opening fence at
  the start of a line, the shortest text up to a closing fence that ends its line.  The
  white space after the opening fence is taken to its last newline, to an earlier one if
  nothing closes the fence from there.
\<close>

definition fence_end :: "string \<Rightarrow> bool" where
  "fence_end s = (dropWhile is_space s = [] \<or> nl \<in> set (takeWhile is_space s))"

fun find_close :: "string \<Rightarrow> string \<Rightarrow> string option" where
  "find_close acc s =
     (case strip_prefix (nl # ''```'') s of
        Some r \<Rightarrow> if fence_end r then Some acc else (case s of [] \<Rightarrow> None | c # t \<Rightarrow> find_close (acc @ [c]) t)
      | None \<Rightarrow> (case s of [] \<Rightarrow> None | c # t \<Rightarrow> find_close (acc @ [c]) t))"

fun first_some :: "('a \<Rightarrow> 'b option) \<Rightarrow> 'a list \<Rightarrow> 'b option" where
  "first_some f [] = None"
| "first_some f (x # xs) = (case f x of Some y \<Rightarrow> Some y | None \<Rightarrow> first_some f xs)"

definition fence_at :: "string \<Rightarrow> string option" where
  "fence_at s = Option.bind (strip_prefix ''```'' s) (\<lambda>r.
     let r' = (case strip_prefix ''python'' r of Some t \<Rightarrow> t | None \<Rightarrow> r);
         w = takeWhile is_space r';
         starts = filter (\<lambda>i. w ! i = nl) (rev [0..<length w])
     in first_some (\<lambda>i. find_close [] (drop (Suc i) r')) starts)"

fun fence_search :: "bool \<Rightarrow> string \<Rightarrow> string option" where
  "fence_search at_start [] = None"
| "fence_search at_start (c # s) =
     (case (if at_start then fence_at (c # s) else None) of
        Some inner \<Rightarrow> Some inner
      | None \<Rightarrow> fence_search (c = nl) s)"

definition strip_code_fences :: "string \<Rightarrow> string" where
  "strip_code_fences text = (case fence_search True text of Some inner \<Rightarrow> inner | None \<Rightarrow> text)"

section \<open>Structure of the generated class\<close>

fun class_body :: "string \<Rightarrow> ast \<Rightarrow> (ast list \<times> ast list) option" where
  "class_body name (ClassDef n bases keywords body decorators) = (if n = name then Some (bases, body) else None)"
| "class_body name _ = None"

fun function_body :: "string \<Rightarrow> ast \<Rightarrow> ast list option" where
  "function_body name (FunctionDef n args body decorators returns) = (if n = name then Some body else None)"
| "function_body name (AsyncFunctionDef n args body decorators returns) = (if n = name then Some body else None)"
| "function_body name _ = None"

text \<open>The body of \<open>GeneratedCommunity.__init__\<close>, and every node below it.\<close>

definition init_body :: "ast \<Rightarrow> ast list option" where
  "init_body tree =
     Option.bind (first_some (class_body ''GeneratedCommunity'') (ast_walk tree)) (\<lambda>(bases, body).
     first_some (function_body ''__init__'') body)"

definition init_nodes :: "ast \<Rightarrow> ast list" where
  "init_nodes tree = (case init_body tree of None \<Rightarrow> [] | Some body \<Rightarrow> ast_walk (Module body))"

fun record_target :: "ast \<Rightarrow> string list" where
  "record_target (Attribute (Name v) attr) = (if v = ''self'' then [attr] else [])"
| "record_target (TupleNode elts) = concat (map record_target elts)"
| "record_target (ListNode elts) = concat (map record_target elts)"
| "record_target _ = []"

fun stmt_assignments :: "ast \<Rightarrow> string list" where
  "stmt_assignments (Assign targets value) = concat (map record_target targets)"
| "stmt_assignments (AugAssign target value) = record_target target"
| "stmt_assignments (AnnAssign target annotation value) = record_target target"
| "stmt_assignments _ = []"

definition init_self_assignments :: "ast \<Rightarrow> string set" where
  "init_self_assignments tree = set (concat (map stmt_assignments (init_nodes tree)))"

record task_call =
  tk_name :: "string option"
  tk_handler :: "string option"
  tk_interval :: "int option"

fun const_str :: "ast \<Rightarrow> string option" where
  "const_str (Constant (ConstStr s)) = Some s"
| "const_str _ = None"

fun self_attr :: "ast \<Rightarrow> string option" where
  "self_attr (Attribute (Name v) attr) = (if v = ''self'' then Some attr else None)"
| "self_attr _ = None"

text \<open>
  \<open>interval=\<close> with a number literal: the first such keyword, through \<open>int(...)\<close>, which
  raises on an infinite float.
\<close>

fun interval_keyword :: "(string \<Rightarrow> int option) \<Rightarrow> ast \<Rightarrow> (pyexn + int) option" where
  "interval_keyword ftrunc (Keyword (Some k) (Constant (ConstInt n))) = (if k = ''interval'' then Some (Inr n) else None)"
| "interval_keyword ftrunc (Keyword (Some k) (Constant (ConstBool b))) =
     (if k = ''interval'' then Some (Inr (if b then 1 else 0)) else None)"
| "interval_keyword ftrunc (Keyword (Some k) (Constant (ConstFloat r))) =
     (if k = ''interval'' then Some (to_int ftrunc (JFloat r)) else None)"
| "interval_keyword ftrunc _ = None"

fun task_calls :: "(string \<Rightarrow> int option) \<Rightarrow> ast list \<Rightarrow> pyexn + task_call list" where
  "task_calls ftrunc [] = Inr []"
| "task_calls ftrunc (Call func args keywords # ns) =
     (if self_attr func \<noteq> Some ''register_task'' then task_calls ftrunc ns
      else
        (let name = (case args of a # _ \<Rightarrow> const_str a | [] \<Rightarrow> None);
             handler = (case args of _ # b # _ \<Rightarrow> self_attr b | _ \<Rightarrow> None)
         in bindr (case first_some (interval_keyword ftrunc) keywords of
                None \<Rightarrow> Inr None
              | Some r \<Rightarrow> bindr r (\<lambda>n. Inr (Some n))) (\<lambda>interval.
            bindr (task_calls ftrunc ns) (\<lambda>calls.
            Inr (\<lparr>tk_name = name, tk_handler = handler, tk_interval = interval\<rparr> # calls)))))"
| "task_calls ftrunc (_ # ns) = task_calls ftrunc ns"

definition init_register_task_calls :: "(string \<Rightarrow> int option) \<Rightarrow> ast \<Rightarrow> pyexn + task_call list" where
  "init_register_task_calls ftrunc tree = task_calls ftrunc (init_nodes tree)"

fun base_name :: "ast \<Rightarrow> string list" where
  "base_name (Name n) = [n]"
| "base_name (Attribute value attr) = [attr]"
| "base_name _ = []"

definition class_bases :: "ast \<Rightarrow> string set" where
  "class_bases tree = (case first_some (class_body ''GeneratedCommunity'') (ast_walk tree) of
     None \<Rightarrow> {}
   | Some (bases, body) \<Rightarrow> set (concat (map base_name bases)))"

section \<open>The structural contract\<close>

definition callable_attr :: "(string \<rightharpoonup> attr_value) \<Rightarrow> string \<Rightarrow> bool" where
  "callable_attr attrs name = (attrs name = Some (AttrObject True))"

fun check_constants :: "(string \<rightharpoonup> attr_value) \<Rightarrow> constant_def list \<Rightarrow> unit comp" where
  "check_constants attrs [] = Inr ()"
| "check_constants attrs (c # cs) =
     (case attrs (cd_name c) of
        None \<Rightarrow> contract_error (ConstantMissing (cd_name c))
      | Some (AttrJson v) \<Rightarrow>
          if py_eq v (cd_value c) then check_constants attrs cs
          else contract_error (ConstantMismatch (cd_name c))
      | Some _ \<Rightarrow> contract_error (ConstantMismatch (cd_name c)))"

definition check_slots :: "ast \<Rightarrow> runtime_state_slot list \<Rightarrow> unit comp" where
  "check_slots tree slots =
     (let missing = filter (\<lambda>n. n \<notin> init_self_assignments tree) (map rs_name slots) in
      if missing \<noteq> [] then contract_error (SlotsUnassigned missing) else Inr ())"

definition task_matches :: "periodic_task_def \<Rightarrow> task_call \<Rightarrow> bool" where
  "task_matches t r = (tk_name r = Some (pt_name t) \<and> tk_handler r = Some (pt_handler t) \<and>
     tk_interval r = Some (interval_s t))"

fun check_tasks :: "(string \<rightharpoonup> attr_value) \<Rightarrow> task_call list \<Rightarrow> periodic_task_def list \<Rightarrow> unit comp" where
  "check_tasks attrs registered [] = Inr ()"
| "check_tasks attrs registered (t # ts) =
     (if List.find (task_matches t) registered = None then contract_error (TaskUnregistered (pt_name t))
      else if \<not> callable_attr attrs (pt_handler t) then contract_error (HandlerMissing (pt_handler t))
      else check_tasks attrs registered ts)"

definition check_lifecycle :: "(string \<rightharpoonup> attr_value) \<Rightarrow> ast \<Rightarrow> string \<Rightarrow> unit comp" where
  "check_lifecycle attrs tree lifecycle =
     (let bases = class_bases tree in
      if lifecycle = ''peer-observer''
      then
        (if ''PeerObserver'' \<notin> bases then contract_error NotPeerObserver
         else case filter (\<lambda>h. \<not> callable_attr attrs h) [''started'', ''on_peer_added'', ''on_peer_removed''] of
           h # _ \<Rightarrow> contract_error (HookMissing h)
         | [] \<Rightarrow> Inr ())
      else if lifecycle = ''passive'' \<and> ''PeerObserver'' \<in> bases then contract_error PassiveObserver
      else Inr ())"

definition raise_plain :: "pyexn + 'a \<Rightarrow> 'a comp" where
  "raise_plain r = (case r of Inl e \<Rightarrow> Inl (Raised e) | Inr x \<Rightarrow> Inr x)"

definition check_structural_contract ::
  "'o toolchain \<Rightarrow> parsed_overlay \<Rightarrow> 'o \<Rightarrow> string \<Rightarrow> unit comp" where
  "check_structural_contract T parsed cls source = (case ast_parse T source of
     None \<Rightarrow> contract_error NotPython
   | Some tree \<Rightarrow>
       bindr (check_constants (attr_of T cls) (po_constants parsed)) (\<lambda>_.
       bindr (check_slots tree (po_runtime_state parsed)) (\<lambda>_.
       bindr (if po_tasks parsed = [] then Inr ()
              else bindr (raise_plain (init_register_task_calls (tc_ftrunc T) tree)) (\<lambda>registered.
                     check_tasks (attr_of T cls) registered (po_tasks parsed))) (\<lambda>_.
       check_lifecycle (attr_of T cls) tree (po_lifecycle parsed)))))"

section \<open>Test vectors\<close>

text \<open>\<open>p.capitalize()\<close> of a part of an upper-case name: the first character stays.\<close>

definition capitalize :: "string \<Rightarrow> string" where
  "capitalize s = (case s of [] \<Rightarrow> [] | c # cs \<Rightarrow> c # lower cs)"

definition payload_class_name :: "string \<Rightarrow> string" where
  "payload_class_name name = concat (map capitalize (split_on (CHR ''_'') name)) @ ''Payload''"

definition payload_class_for :: "string \<Rightarrow> (string \<rightharpoonup> 'o) \<Rightarrow> 'o comp" where
  "payload_class_for name ns = (case ns (payload_class_name name) of
     None \<Rightarrow> vector_error (PayloadClassMissing (payload_class_name name))
   | Some c \<Rightarrow> Inr c)"

fun coerce_field_value :: "(json \<Rightarrow> bytes) \<Rightarrow> json \<Rightarrow> wire" where
  "coerce_field_value pk (JStr s) = WireBytes (utf8_encode s)"
| "coerce_field_value pk (JList vs) = WireBytes (pk (JList vs))"
| "coerce_field_value pk (JObj d) = WireBytes (pk (JObj d))"
| "coerce_field_value pk v = WireValue v"

fun wire_eq :: "wire \<Rightarrow> wire \<Rightarrow> bool" where
  "wire_eq (WireBytes a) (WireBytes b) = (a = b)"
| "wire_eq (WireValue v) (WireValue w) = py_eq v w"
| "wire_eq _ _ = False"

definition run_test_vector :: "'o toolchain \<Rightarrow> 'o \<Rightarrow> test_vector \<Rightarrow> unit comp" where
  "run_test_vector T cls tv = (case bytes_fromhex (tv_bytes_hex tv) of
     None \<Rightarrow> Inl (Raised (ValueError []))
   | Some expected \<Rightarrow>
       if \<not> is_dict (tv_fields tv) then Inl (Raised AttributeError)
       else
         (let coerced = map (coerce_field_value (msgpack T) \<circ> snd) (as_dict (tv_fields tv)) in
          case pack_payload T cls coerced of
            None \<Rightarrow> vector_error (VectorEncode (tv_message tv))
          | Some actual \<Rightarrow>
              if actual \<noteq> expected then vector_error (VectorEncodeMismatch (tv_message tv))
              else
                bindr (raise_plain (unpack_payload T cls expected)) (\<lambda>(decoded, consumed).
                if consumed \<noteq> length expected
                then vector_error (VectorTrailing (tv_message tv) (int (length expected) - int consumed))
                else if list_all2 wire_eq decoded coerced then Inr ()
                else vector_error (VectorDecodeMismatch (tv_message tv)))))"

section \<open>Compilation\<close>

record 'o compiled_overlay =
  co_community_id :: bytes
  co_parsed :: "parsed_overlay option"
  co_canonical_md :: bytes
  co_class :: 'o
  co_payload_classes :: "(string \<times> 'o) list"
  co_source :: string
  co_origin :: string

fun payload_table :: "(string \<rightharpoonup> 'o) \<Rightarrow> message_def list \<Rightarrow> (string \<times> 'o) list \<Rightarrow> (string \<times> 'o) list comp" where
  "payload_table ns [] table = Inr table"
| "payload_table ns (m # ms) table =
     bindr (payload_class_for (md_name m) ns) (\<lambda>c. payload_table ns ms (AList.update (md_name m) c table))"

fun run_test_vectors :: "'o toolchain \<Rightarrow> (string \<times> 'o) list \<Rightarrow> test_vector list \<Rightarrow> unit comp" where
  "run_test_vectors T table [] = Inr ()"
| "run_test_vectors T table (tv # tvs) =
     (case map_of table (tv_message tv) of
        None \<Rightarrow> Inl (Raised (KeyError (tv_message tv)))
      | Some c \<Rightarrow> bindr (run_test_vector T c tv) (\<lambda>_. run_test_vectors T table tvs))"

text \<open>
  The declared id of the class against the derived one.  The message of a mismatch takes
  \<open>(declared or b"").hex()\<close>, which a true value that is neither bytes nor a float does not
  have.
\<close>

definition check_declared_id :: "bytes \<Rightarrow> attr_value option \<Rightarrow> unit comp" where
  "check_declared_id cid declared = (case declared of
     None \<Rightarrow> contract_error IdMismatch
   | Some (AttrBytes b) \<Rightarrow> if b = cid then Inr () else contract_error IdMismatch
   | Some (AttrJson v) \<Rightarrow>
       if truthy v \<and> (case v of JFloat _ \<Rightarrow> False | _ \<Rightarrow> True) then Inl (Raised AttributeError)
       else contract_error IdMismatch
   | Some (AttrObject _) \<Rightarrow> Inl (Raised AttributeError))"

definition sandboxed :: "exec_exn + 'a \<Rightarrow> 'a comp" where
  "sandboxed r = (case r of
     Inl (SandboxError e) \<Rightarrow> contract_error SandboxRejected
   | Inl (ModuleRaised e) \<Rightarrow> Inl (Raised e)
   | Inr x \<Rightarrow> Inr x)"

definition generated_source :: "'o toolchain \<Rightarrow> parsed_overlay \<Rightarrow> bytes \<Rightarrow> string option \<Rightarrow> string" where
  "generated_source T parsed cid llm_source = (case llm_source of
     None \<Rightarrow> strip (strip_code_fences (llm_complete T (build_user_prompt (em_dash T) parsed cid)))
   | Some s \<Rightarrow> strip (strip_code_fences s))"

definition compile_overlay :: "'o toolchain \<Rightarrow> string \<Rightarrow> string option \<Rightarrow> 'o compiled_overlay comp" where
  "compile_overlay T md_text llm_source =
     bindr (parse_md (tc_frepr T) md_text) (\<lambda>parsed.
     bindr (validate_schema parsed) (\<lambda>_.
     let canonical = canonicalize_md md_text;
         cid = take 20 (sha1 T canonical);
         source = generated_source T parsed cid llm_source
     in
     bindr (sandboxed (safe_exec (ast_parse T) (exec_module T) source)) (\<lambda>ns.
     case ns ''GeneratedCommunity'' of
       None \<Rightarrow> contract_error ClassMissing
     | Some cls \<Rightarrow>
         bindr (check_declared_id cid (attr_of T cls ''community_id'')) (\<lambda>_.
         bindr (check_structural_contract T parsed cls source) (\<lambda>_.
         bindr (payload_table ns (po_messages parsed) []) (\<lambda>table.
         bindr (run_test_vectors T table (po_test_vectors parsed)) (\<lambda>_.
         Inr \<lparr>co_community_id = cid, co_parsed = Some parsed, co_canonical_md = canonical,
              co_class = cls, co_payload_classes = table, co_source = source,
              co_origin = ''markdown''\<rparr>)))))))"

end
