(* ===== verification/Overlay_Registry.thy ===== *)
theory Overlay_Registry
  imports Overlay_Compiler
begin

text \<open>
  The overlay registry (protocol/registry.py): loading a descriptor through the compiler
  and its source cache, registering a hand-written community class, the asynchronous load
  in its two parts around the \<open>await\<close>, and the summary \<open>overlay_to_dict\<close>.  A live
  instance is its class with a serial number, since a second instance of the same class is a
  different object.  Creating an instance, its \<open>started\<close> hook and the members of a module
  are the interpreter's.
\<close>

section \<open>State\<close>

record 'o instance_obj =
  io_serial :: nat
  io_class :: 'o

record 'o payload_member =
  pm_attr_name :: string
  pm_is_payload :: bool
  pm_same_module :: bool
  pm_msg_id :: "int option"
  pm_format_list :: "string list option"
  pm_names :: "string list option"
  pm_message_name :: "string option"
  pm_class :: 'o

text \<open>
  What the registry takes from its surroundings: the toolchain, the model id of the language
  model, whether a class can be instantiated from a template overlay, what \<open>started\<close>
  raises, the members of the module of a class (\<open>None\<close> if it cannot be resolved), the name
  and documentation of a class, and whether the cache directory can be written.
\<close>

record 'o surroundings =
  tools :: "'o toolchain"
  model_id :: string
  create_fails :: "'o \<Rightarrow> 'o instance_obj \<Rightarrow> pyexn option"
  started_fails :: "'o \<Rightarrow> pyexn option"
  module_members :: "'o \<Rightarrow> 'o payload_member list option"
  class_name :: "'o \<Rightarrow> string"
  class_doc :: "'o \<Rightarrow> string"
  cache_writable :: bool

text \<open>
  The overlays of the IPv8 instance, the two tables by community id, the next serial number,
  and the cache directory if there is one: a file that cannot be read is \<open>Some None\<close>.
\<close>

record 'o registry =
  rg_overlays :: "'o instance_obj list"
  rg_compiled :: "(bytes \<times> 'o compiled_overlay) list"
  rg_instances :: "(bytes \<times> 'o instance_obj) list"
  rg_next :: nat
  rg_cache :: "(string \<rightharpoonup> string option) option"

type_synonym ('a, 'o) reg_result = "'a comp \<times> 'o registry"

definition new_registry :: "'o instance_obj list \<Rightarrow> (string \<rightharpoonup> string option) option \<Rightarrow> 'o registry" where
  "new_registry overlays cache =
     \<lparr>rg_overlays = overlays, rg_compiled = [], rg_instances = [],
      rg_next = Suc (Max (insert 0 (set (map io_serial overlays)))), rg_cache = cache\<rparr>"

section \<open>The source cache\<close>

text \<open>\<open>re.sub(r"[^A-Za-z0-9_.\-]+", "_", s)\<close>.\<close>

definition slug_char :: "char \<Rightarrow> bool" where
  "slug_char c = (is_ident c \<or> c = CHR ''.'' \<or> c = CHR ''-'')"

fun slug :: "string \<Rightarrow> string" where
  "slug [] = []"
| "slug (c # s) =
     (if slug_char c then c # slug s
      else if s \<noteq> [] \<and> \<not> slug_char (hd s) then slug s
      else CHR ''_'' # slug s)"

definition cache_path_for :: "'o surroundings \<Rightarrow> string \<Rightarrow> string" where
  "cache_path_for S md_text =
     bytes_hex (sha1 (tools S) (canonicalize_md md_text)) @ ''-'' @ slug (model_id S) @ ''.py''"

text \<open>A cached text is used if it can be read and is not empty; else the result is written.\<close>

definition compile_with_disk_cache ::
  "'o surroundings \<Rightarrow> string \<Rightarrow> (string \<rightharpoonup> string option) option \<Rightarrow>
     'o compiled_overlay comp \<times> (string \<rightharpoonup> string option) option" where
  "compile_with_disk_cache S md_text cache = (case cache of
     None \<Rightarrow> (compile_overlay (tools S) md_text None, None)
   | Some files \<Rightarrow>
       (let path = cache_path_for S md_text;
            cached = (case files path of Some (Some text) \<Rightarrow> text | _ \<Rightarrow> [])
        in if cached \<noteq> [] then (compile_overlay (tools S) md_text (Some cached), cache)
           else (case compile_overlay (tools S) md_text None of
             Inl e \<Rightarrow> (Inl e, cache)
           | Inr compiled \<Rightarrow>
               (Inr compiled,
                if cache_writable S then Some (files(path \<mapsto> Some (co_source compiled))) else cache))))"

section \<open>Registration\<close>

text \<open>
  The common tail of the three entry points: settings from the first overlay, the instance,
  the list of overlays, \<open>started\<close>, the two tables.  When \<open>started\<close> raises, the instance
  is already in the list and in neither table.
\<close>

definition activate ::
  "'o surroundings \<Rightarrow> bytes \<Rightarrow> 'o compiled_overlay \<Rightarrow> 'o registry \<Rightarrow> ('o instance_obj, 'o) reg_result" where
  "activate S cid compiled R = (case rg_overlays R of
     [] \<Rightarrow> (Inl (Raised (RuntimeError ''cannot derive settings'')), R)
   | template # _ \<Rightarrow>
       (let cls = co_class compiled in
        case create_fails S cls template of
          Some e \<Rightarrow> (Inl (Raised e), R)
        | None \<Rightarrow>
            (let inst = \<lparr>io_serial = rg_next R, io_class = cls\<rparr>;
                 R1 = R\<lparr>rg_overlays := rg_overlays R @ [inst], rg_next := Suc (rg_next R)\<rparr>
             in case started_fails S cls of
               Some e \<Rightarrow> (Inl (Raised e), R1)
             | None \<Rightarrow>
                 (Inr inst, R1\<lparr>rg_compiled := AList.update cid compiled (rg_compiled R1),
                              rg_instances := AList.update cid inst (rg_instances R1)\<rparr>))))"

definition load_id :: "'o surroundings \<Rightarrow> string \<Rightarrow> bytes" where
  "load_id S md_text = community_id_from_md (sha1 (tools S)) md_text"

text \<open>What follows the compilation in \<open>load\<close> and in \<open>aload\<close>.\<close>

definition finish_load ::
  "'o surroundings \<Rightarrow> bytes \<Rightarrow> 'o compiled_overlay comp \<Rightarrow> 'o registry \<Rightarrow> ('o instance_obj, 'o) reg_result" where
  "finish_load S cid result R = (case result of
     Inl e \<Rightarrow> (Inl e, R)
   | Inr compiled \<Rightarrow>
       if co_community_id compiled \<noteq> cid then (Inl (Raised (RuntimeError ''community_id drift'')), R)
       else activate S cid compiled R)"

definition load :: "'o surroundings \<Rightarrow> string \<Rightarrow> 'o registry \<Rightarrow> ('o instance_obj, 'o) reg_result" where
  "load S md_text R =
     (let cid = load_id S md_text in
      case map_of (rg_instances R) cid of
        Some inst \<Rightarrow> (Inr inst, R)
      | None \<Rightarrow>
          (let (result, cache) = compile_with_disk_cache S md_text (rg_cache R)
           in finish_load S cid result (R\<lparr>rg_cache := cache\<rparr>)))"

text \<open>
  \<open>aload\<close> up to its \<open>await\<close>: an instance that is there, or the compilation to wait for;
  and from the \<open>await\<close> on.  Other calls can run between the two.
\<close>

definition aload_begin ::
  "'o surroundings \<Rightarrow> string \<Rightarrow> 'o registry \<Rightarrow>
     ('o instance_obj + (bytes \<times> 'o compiled_overlay comp)) \<times> 'o registry" where
  "aload_begin S md_text R =
     (let cid = load_id S md_text in
      case map_of (rg_instances R) cid of
        Some inst \<Rightarrow> (Inl inst, R)
      | None \<Rightarrow>
          (let (result, cache) = compile_with_disk_cache S md_text (rg_cache R)
           in (Inr (cid, result), R\<lparr>rg_cache := cache\<rparr>)))"

definition aload_resume ::
  "'o surroundings \<Rightarrow> 'o instance_obj + (bytes \<times> 'o compiled_overlay comp) \<Rightarrow> 'o registry \<Rightarrow>
     ('o instance_obj, 'o) reg_result" where
  "aload_resume S pending R = (case pending of
     Inl inst \<Rightarrow> (Inr inst, R)
   | Inr (cid, result) \<Rightarrow> finish_load S cid result R)"

section \<open>Hand-written communities\<close>

text \<open>\<open>re.sub(r"(?<!^)(?=[A-Z])", "_", name).upper()\<close>, for ASCII names.\<close>

definition camel_to_screaming_snake :: "string \<Rightarrow> string" where
  "camel_to_screaming_snake name = upper (case name of
     [] \<Rightarrow> []
   | c # cs \<Rightarrow> c # concat (map (\<lambda>d. if is_upper d then [CHR ''_'', d] else [d]) cs))"

definition endswith :: "string \<Rightarrow> string \<Rightarrow> bool" where
  "endswith s ending = startswith (rev s) (rev ending)"

definition member_message_name :: "'o payload_member \<Rightarrow> string" where
  "member_message_name m = (case pm_message_name m of
     Some n \<Rightarrow> n
   | None \<Rightarrow>
       (let attr = pm_attr_name m;
            stem = (if endswith attr ''Payload'' then take (length attr - length ''Payload'') attr else attr)
        in camel_to_screaming_snake stem))"

definition own_payload :: "'o payload_member \<Rightarrow> bool" where
  "own_payload m = (pm_is_payload m \<and> pm_same_module m \<and> pm_msg_id m \<noteq> None \<and>
     pm_format_list m \<noteq> None \<and> pm_names m \<noteq> None)"

fun collect_payloads ::
  "int list \<Rightarrow> (string \<times> 'o) list \<Rightarrow> 'o payload_member list \<Rightarrow> (string \<times> 'o) list res" where
  "collect_payloads ids table [] = Inr table"
| "collect_payloads ids table (m # ms) =
     (if \<not> own_payload m then collect_payloads ids table ms
      else
        (let mid = the (pm_msg_id m); name = member_message_name m in
         if mid \<in> set ids then Inl (ValueError ''duplicate msg_id'')
         else if map_of table name \<noteq> None then Inl (ValueError ''duplicate message name'')
         else collect_payloads (mid # ids) (AList.update name (pm_class m) table) ms))"

definition introspect_payload_classes :: "'o surroundings \<Rightarrow> 'o \<Rightarrow> (string \<times> 'o) list res" where
  "introspect_payload_classes S cls = (case module_members S cls of
     None \<Rightarrow> Inl (ValueError ''cannot resolve module'')
   | Some members \<Rightarrow>
       bindr (collect_payloads [] [] members) (\<lambda>table.
       if table = [] then Inl (ValueError ''no VariablePayload subclasses found'') else Inr table))"

definition register_community :: "'o surroundings \<Rightarrow> 'o \<Rightarrow> 'o registry \<Rightarrow> ('o instance_obj, 'o) reg_result" where
  "register_community S cls R = (case attr_of (tools S) cls ''community_id'' of
     Some (AttrBytes cid) \<Rightarrow>
       if length cid \<noteq> 20 then (Inl (Raised (ValueError ''community_id must be 20 bytes'')), R)
       else (case map_of (rg_instances R) cid of
         Some inst \<Rightarrow> (Inr inst, R)
       | None \<Rightarrow>
           (case introspect_payload_classes S cls of
              Inl e \<Rightarrow> (Inl (Raised e), R)
            | Inr table \<Rightarrow>
                activate S cid
                  \<lparr>co_community_id = cid, co_parsed = None, co_canonical_md = [], co_class = cls,
                   co_payload_classes = table, co_source = [], co_origin = ''python_class''\<rparr> R))
   | _ \<Rightarrow> (Inl (Raised (ValueError ''community_id must be 20 bytes'')), R))"

section \<open>Reading\<close>

definition get_overlay :: "'o registry \<Rightarrow> bytes \<Rightarrow> 'o instance_obj option" where
  "get_overlay R cid = map_of (rg_instances R) cid"

definition list_loaded :: "'o registry \<Rightarrow> bytes list" where
  "list_loaded R = map fst (rg_instances R)"

definition field_dict :: "message_field \<Rightarrow> json" where
  "field_dict f = JObj [(''name'', JStr (mf_name f)), (''encoding'', JStr (mf_encoding f)),
     (''description'', JStr (mf_description f))]"

definition message_dict :: "message_def \<Rightarrow> json" where
  "message_dict m = JObj [(''name'', JStr (md_name m)), (''msg_id'', JInt (msg_id m)),
     (''fields'', JList (map field_dict (md_fields m))), (''handler_text'', JStr (handler_text m))]"

text \<open>The first line of \<open>cls.__doc__\<close>, stripped.\<close>

definition first_doc_line :: "string \<Rightarrow> string" where
  "first_doc_line doc = takeWhile (\<lambda>c. \<not> is_line_break c) (strip doc)"

definition payload_dict :: "(string \<times> 'o payload_member) \<Rightarrow> json" where
  "payload_dict p = JObj
     [(''name'', JStr (fst p)),
      (''msg_id'', case pm_msg_id (snd p) of Some n \<Rightarrow> JInt n | None \<Rightarrow> JNull),
      (''fields'', JList (map (\<lambda>(n, fmt). JObj [(''name'', JStr n), (''encoding'', JStr fmt), (''description'', JStr [])])
         (zip (case pm_names (snd p) of Some ns \<Rightarrow> ns | None \<Rightarrow> [])
              (case pm_format_list (snd p) of Some fs \<Rightarrow> fs | None \<Rightarrow> [])))),
      (''handler_text'', JStr [])]"

text \<open>The attributes of a payload class are read through its member record.\<close>

definition overlay_to_dict ::
  "'o surroundings \<Rightarrow> ('o \<Rightarrow> 'o payload_member) \<Rightarrow> 'o compiled_overlay \<Rightarrow> json" where
  "overlay_to_dict S member_of compiled = (case co_parsed compiled of
     Some parsed \<Rightarrow> JObj
       [(''community_id_hex'', JStr (bytes_hex (co_community_id compiled))),
        (''origin'', JStr (co_origin compiled)),
        (''name'', JStr (section_body (po_identity parsed) ''name'')),
        (''version'', JStr (section_body (po_identity parsed) ''version'')),
        (''description'', JStr (section_body (po_identity parsed) ''description'')),
        (''messages'', JList (map message_dict (po_messages parsed))),
        (''errors'', JList (map (\<lambda>e. JObj (map (\<lambda>(k, v). (k, JStr v)) e)) (po_errors parsed))),
        (''dependencies'', JList (map JStr (po_dependencies parsed)))]
   | None \<Rightarrow> JObj
       [(''community_id_hex'', JStr (bytes_hex (co_community_id compiled))),
        (''origin'', JStr (co_origin compiled)),
        (''name'', JStr (class_name S (co_class compiled))),
        (''version'', JStr []),
        (''description'', JStr (first_doc_line (class_doc S (co_class compiled)))),
        (''messages'', JList (map (\<lambda>(n, c). payload_dict (n, member_of c)) (co_payload_classes compiled))),
        (''errors'', JList []), (''dependencies'', JList [])])"

lemma screaming_snake_of_acronym: "camel_to_screaming_snake ''ECHORequest'' = ''E_C_H_O_REQUEST''"
  by code_simp

end
