(* ===== verification/Overlay_Parser_Spec.thy ===== *)
theory Overlay_Parser_Spec
  imports Overlay_Parser
begin

text \<open>
  What an accepted descriptor satisfies.  Every table loop keeps its list of names seen
  equal to the names collected, so names are distinct; the predicates below are the
  documented shape of a descriptor, section by section.
\<close>

section \<open>Well-formed descriptors\<close>

definition fields_ok :: "message_field list \<Rightarrow> bool" where
  "fields_ok fds = (distinct (map mf_name fds) \<and>
     list_all (\<lambda>f. match_name (mf_name f) \<and> map_of ALLOWED_ENCODINGS (mf_encoding f) \<noteq> None) fds)"

definition message_ok :: "message_def \<Rightarrow> bool" where
  "message_ok d = (match_screaming (md_name d) \<and> 0 \<le> msg_id d \<and> msg_id d \<le> 255 \<and>
     md_fields d \<noteq> [] \<and> fields_ok (md_fields d))"

definition messages_ok :: "message_def list \<Rightarrow> bool" where
  "messages_ok ds = (ds \<noteq> [] \<and> distinct (map msg_id ds) \<and> list_all message_ok ds)"

definition slots_ok :: "runtime_state_slot list \<Rightarrow> bool" where
  "slots_ok slots = (distinct (map rs_name slots) \<and>
     list_all (\<lambda>s. match_name (rs_name s) \<and> rs_base_type s = base_type (rs_type_str s) \<and>
       map_of runtime_state_zero_value (rs_base_type s) \<noteq> None) slots)"

definition constants_ok :: "constant_def list \<Rightarrow> bool" where
  "constants_ok consts = (distinct (map cd_name consts) \<and>
     list_all (\<lambda>c. match_screaming (cd_name c) \<and> cd_base_type c = base_type (cd_type_str c) \<and>
       (\<exists>ok. constant_py_type (cd_base_type c) = Some ok \<and> ok (cd_value c))) consts)"

definition tasks_ok :: "periodic_task_def list \<Rightarrow> bool" where
  "tasks_ok ts = (distinct (map pt_name ts) \<and> distinct (map pt_handler ts) \<and>
     list_all (\<lambda>t. match_name (pt_name t) \<and> match_handler_name (pt_handler t) \<and> 0 < interval_s t) ts)"

definition vectors_ok :: "string list \<Rightarrow> test_vector list \<Rightarrow> bool" where
  "vectors_ok names tvs = (tvs \<noteq> [] \<and>
     list_all (\<lambda>tv. tv_message tv \<in> set names \<and> bytes_fromhex (tv_bytes_hex tv) \<noteq> None) tvs)"

definition overlay_ok :: "parsed_overlay \<Rightarrow> bool" where
  "overlay_ok p = (
     (\<exists>n. map_of (po_identity p) ''name'' = Some n \<and> match_name n) \<and>
     map_of (po_identity p) ''version'' \<noteq> None \<and> map_of (po_identity p) ''description'' \<noteq> None \<and>
     po_lifecycle p \<in> set ALLOWED_LIFECYCLES \<and>
     messages_ok (po_messages p) \<and>
     list_all (\<lambda>err. case reply_target err of
       Some t \<Rightarrow> t \<in> set (map md_name (po_messages p)) | None \<Rightarrow> True) (po_errors p) \<and>
     vectors_ok (map md_name (po_messages p)) (po_test_vectors p) \<and>
     slots_ok (po_runtime_state p) \<and> constants_ok (po_constants p) \<and> tasks_ok (po_tasks p))"

section \<open>The table loops\<close>

lemma field_rows_ok:
  "field_rows msg seen acc rows = Inr fds \<Longrightarrow> set seen = set (map mf_name acc) \<Longrightarrow> fields_ok acc \<Longrightarrow>
     fields_ok fds"
proof (induction msg seen acc rows rule: field_rows.induct)
  case (2 msg seen acc row rows)
  show ?case
  proof (cases "separator_row row")
    case True
    with 2 show ?thesis by simp
  next
    case False
    then show ?thesis
      using 2 by (auto simp: Let_def fields_ok_def split: if_splits)
  qed
qed simp

lemma slot_rows_ok:
  "slot_rows seen acc rows = Inr slots \<Longrightarrow> set seen = set (map rs_name acc) \<Longrightarrow> slots_ok acc \<Longrightarrow>
     slots_ok slots"
proof (induction seen acc rows rule: slot_rows.induct)
  case (2 seen acc row rows)
  show ?case
  proof (cases "separator_row row")
    case True
    with 2 show ?thesis by simp
  next
    case False
    then show ?thesis
      using 2 by (auto simp: Let_def slots_ok_def bindr_Inr_iff split: if_splits)
  qed
qed simp

lemma constant_rows_ok:
  "constant_rows frepr seen acc rows = Inr consts \<Longrightarrow> set seen = set (map cd_name acc) \<Longrightarrow>
     constants_ok acc \<Longrightarrow> constants_ok consts"
proof (induction frepr seen acc rows rule: constant_rows.induct)
  case (2 frepr seen acc row rows)
  show ?case
  proof (cases "separator_row row")
    case True
    with 2 show ?thesis by simp
  next
    case False
    then show ?thesis
      using 2 by (auto simp: Let_def constants_ok_def bindr_Inr_iff split: if_splits option.splits)
  qed
qed simp

lemma task_rows_ok:
  "task_rows seen_names seen_handlers acc rows = Inr ts \<Longrightarrow> set seen_names = set (map pt_name acc) \<Longrightarrow>
     set seen_handlers = set (map pt_handler acc) \<Longrightarrow> tasks_ok acc \<Longrightarrow> tasks_ok ts"
proof (induction seen_names seen_handlers acc rows rule: task_rows.induct)
  case (2 seen_names seen_handlers acc row rows)
  show ?case
  proof (cases "separator_row row")
    case True
    with 2 show ?thesis by simp
  next
    case False
    then show ?thesis
      using 2 by (auto simp: Let_def tasks_ok_def bindr_Inr_iff split: if_splits option.splits)
  qed
qed simp

lemma parse_runtime_state_ok: "parse_runtime_state body = Inr slots \<Longrightarrow> slots_ok slots"
  by (auto simp: parse_runtime_state_def Let_def split: list.splits if_splits
      intro: slot_rows_ok) (auto simp: slots_ok_def dest: slot_rows_ok)

lemma parse_constants_ok: "parse_constants frepr body = Inr consts \<Longrightarrow> constants_ok consts"
  by (auto simp: parse_constants_def Let_def constants_ok_def split: list.splits if_splits
      dest!: constant_rows_ok)

lemma parse_tasks_ok: "parse_tasks body = Inr ts \<Longrightarrow> tasks_ok ts"
  by (auto simp: parse_tasks_def Let_def tasks_ok_def split: list.splits if_splits
      dest!: task_rows_ok)

section \<open>Messages and test vectors\<close>

lemma parse_field_table_ok:
  "parse_field_table table msg = Inr fds \<Longrightarrow> fds \<noteq> [] \<and> fields_ok fds"
  by (auto simp: parse_field_table_def Let_def bindr_Inr_iff split: if_splits
      dest!: field_rows_ok) (simp_all add: fields_ok_def)

lemma parse_one_message_ok:
  assumes "parse_one_message name body = Inr d"
  shows "message_ok d"
proof -
  from assms obtain mid handler table n fds where name: "match_screaming name"
    and scan: "scan_message None [] False [] (split_on nl body) = Inr (mid, handler, table)"
    and n: "mid = Some n" "0 \<le> n" "n \<le> 255"
    and fds: "parse_field_table table name = Inr fds"
    and d: "d = \<lparr>md_name = name, msg_id = n, md_fields = fds, handler_text = strip (join_with [nl] handler)\<rparr>"
    by (auto simp: parse_one_message_def bindr_Inr_iff split: if_splits option.splits)
  show ?thesis using name n parse_field_table_ok [OF fds] by (simp add: d message_ok_def)
qed

lemma flush_message_ok:
  "flush_message defs name lines = Inr ds \<Longrightarrow> list_all message_ok defs \<Longrightarrow> list_all message_ok ds"
  by (auto simp: flush_message_def bindr_Inr_iff parse_one_message_ok split: option.splits)

lemma read_messages_ok:
  "read_messages defs name lines ls = Inr ds \<Longrightarrow> list_all message_ok defs \<Longrightarrow> list_all message_ok ds"
  by (induction defs name lines ls rule: read_messages.induct)
     (auto simp: bindr_Inr_iff flush_message_ok split: if_splits)

lemma check_msg_ids_ok:
  "check_msg_ids seen ds = Inr u \<Longrightarrow> distinct (map msg_id ds) \<and> set (map msg_id ds) \<inter> set seen = {}"
  by (induction seen ds rule: check_msg_ids.induct) (auto split: if_splits)

lemma parse_messages_ok: "parse_messages body = Inr ds \<Longrightarrow> messages_ok ds"
  by (auto simp: parse_messages_def messages_ok_def bindr_Inr_iff split: if_splits
      dest: read_messages_ok check_msg_ids_ok)

lemma read_vectors_ok:
  "read_vectors frepr msg pending acc ls = Inr tvs \<Longrightarrow>
     list_all (\<lambda>tv. bytes_fromhex (tv_bytes_hex tv) \<noteq> None) acc \<Longrightarrow>
     list_all (\<lambda>tv. bytes_fromhex (tv_bytes_hex tv) \<noteq> None) tvs"
  by (induction frepr msg pending acc ls rule: read_vectors.induct)
     (auto simp: Let_def split: if_splits option.splits)

lemma parse_test_vectors_ok:
  "parse_test_vectors frepr body = Inr tvs \<Longrightarrow>
     tvs \<noteq> [] \<and> list_all (\<lambda>tv. bytes_fromhex (tv_bytes_hex tv) \<noteq> None) tvs"
  by (auto simp: parse_test_vectors_def bindr_Inr_iff split: if_splits dest: read_vectors_ok)

lemma check_vector_messages_ok:
  "check_vector_messages names tvs = Inr u \<longleftrightarrow> list_all (\<lambda>tv. tv_message tv \<in> set names) tvs"
  by (induction tvs) auto

lemma check_reply_targets_ok:
  "check_reply_targets names errs = Inr u \<longleftrightarrow>
     list_all (\<lambda>err. case reply_target err of Some t \<Rightarrow> t \<in> set names | None \<Rightarrow> True) errs"
  by (induction errs) (auto split: option.splits)

lemma parse_overlay_identity_ok:
  assumes "parse_overlay_identity body = Inr kv"
  shows "map_of kv ''name'' \<noteq> None" "map_of kv ''version'' \<noteq> None" "map_of kv ''description'' \<noteq> None"
    and "map_of kv ''lifecycle'' = Some l \<Longrightarrow> l \<in> set ALLOWED_LIFECYCLES"
  using assms
  by (auto simp: parse_overlay_identity_def Let_def split: list.splits option.splits if_splits)

section \<open>Accepted descriptors\<close>

lemma accepted_overlay_ok:
  assumes "parse_md frepr text = Inr p" and "validate_schema p = Inr ()"
  shows "overlay_ok p"
proof -
  define sections where "sections = overlay_sections text"
  from assms(1) obtain ident messages errors vectors slots cds ts where
    parts: "parse_overlay_identity (section_body sections ''Identity'') = Inr ident"
      "parse_messages (section_body sections ''Messages'') = Inr messages"
      "parse_test_vectors frepr (section_body sections ''Test Vectors'') = Inr vectors"
      "parse_runtime_state (section_body sections ''Runtime State'') = Inr slots"
      "parse_constants frepr (section_body sections ''Constants'') = Inr cds"
      "parse_tasks (section_body sections ''Tasks'') = Inr ts"
    and p: "p = \<lparr>po_identity = ident, po_messages = messages, po_errors = errors,
        po_dependencies = parse_dependencies (section_body sections ''Dependencies''),
        po_test_vectors = vectors, po_runtime_state = slots, po_constants = cds, po_tasks = ts,
        po_lifecycle = (case map_of ident ''lifecycle'' of Some l \<Rightarrow> l | None \<Rightarrow> DEFAULT_LIFECYCLE)\<rparr>"
    by (auto simp: parse_md_def Let_def bindr_Inr_iff sections_def)
  note ident = parse_overlay_identity_ok [OF parts(1)]
  have life: "po_lifecycle p \<in> set ALLOWED_LIFECYCLES"
    using ident(4) by (auto simp: p ALLOWED_LIFECYCLES_def DEFAULT_LIFECYCLE_def split: option.splits)
  show ?thesis
    using assms(2) ident(1-3) life parse_messages_ok [OF parts(2)] parse_test_vectors_ok [OF parts(3)]
      parse_runtime_state_ok [OF parts(4)] parse_constants_ok [OF parts(5)] parse_tasks_ok [OF parts(6)]
    by (auto simp: overlay_ok_def validate_schema_def Let_def bindr_Inr_iff check_vector_messages_ok
        check_reply_targets_ok vectors_ok_def p list_all_iff split: option.splits if_splits)
qed

section \<open>Properties\<close>

definition sample_descriptor :: "string list \<Rightarrow> string" where
  "sample_descriptor extra = join_with [nl]
     ([''# Identity'', ''- name: echo'', ''- version: 1.0.0'', ''- description: sends text back'',
       ''# Messages'', ''## PING'', ''- msg_id: 1'',
       ''| name | encoding | description |'', ''|---|---|---|'', ''| seq | uint8 | number |''] @ extra @
      [''## PONG'', ''- msg_id: 2'',
       ''| name | encoding | description |'', ''|---|---|---|'', ''| seq | uint8 | number |'',
       ''# Tasks'', ''| name | interval_s | handler | description |'', ''|---|---|---|---|'',
       ''| beat | 30 | _send_beat | says hello |'',
       ''# Errors'', ''# Dependencies'', ''# Test Vectors'',
       ''## PING'', ''- fields: {'' @ [dq] @ ''seq'' @ [dq] @ '': 7}'', ''  bytes: 07'',
       ''## PONG'', ''- fields: {'' @ [dq] @ ''seq'' @ [dq] @ '': 8}'', ''  bytes: 0 8''])"

text \<open>
  C18: Every descriptor the parser and the schema check accept is well formed: the identity
  has a snake-case name, a version, a description and a known lifecycle; messages have
  distinct ids in one byte, upper-case names and at least one field, fields distinct
  snake-case names and an encoding of the allowlist; state slots, constants and tasks have
  distinct well-formed names, a known type, a value of that type and a positive interval;
  error replies and test vectors name declared messages and test vectors are hexadecimal.
\<close>

theorem accepted_descriptor_well_formed:
  assumes "parse_md frepr text = Inr p" and "validate_schema p = Inr ()"
  shows "overlay_ok p"
  using assms by (rule accepted_overlay_ok)

theorem accepted_descriptor_well_formed_witness:
  "\<exists>p. parse_md id (sample_descriptor []) = Inr p \<and> map msg_id (po_messages p) = [1, 2] \<and>
     map interval_s (po_tasks p) = [30] \<and> map tv_bytes_hex (po_test_vectors p) = [''07'', ''08''] \<and> overlay_ok p"
proof -
  define r where "r = parse_md id (sample_descriptor [])"
  have "case r of Inr p \<Rightarrow> map msg_id (po_messages p) = [1, 2] \<and> map interval_s (po_tasks p) = [30] \<and>
      map tv_bytes_hex (po_test_vectors p) = [''07'', ''08''] \<and> validate_schema p = Inr () | Inl _ \<Rightarrow> False"
    unfolding r_def by code_simp
  then obtain p where "r = Inr p" "map msg_id (po_messages p) = [1, 2]" "map interval_s (po_tasks p) = [30]"
      "map tv_bytes_hex (po_test_vectors p) = [''07'', ''08'']" "validate_schema p = Inr ()"
    by (auto split: sum.splits)
  then show ?thesis
    using accepted_descriptor_well_formed [of id "sample_descriptor []" p] by (auto simp: r_def)
qed

definition spaced_descriptor :: "string \<Rightarrow> string" where
  "spaced_descriptor line = join_with [nl]
     [''# Errors'', ''# Dependencies'', ''# Identity'', ''- name: echo'', ''- version: 1.0.0'', ''- description: x'',
      ''# Test Vectors'', ''## PING'', ''- fields: {}'', ''bytes: 07'',
      ''# Messages'', ''## PING'', ''- msg_id: 1'',
      ''| name | encoding | description |'', ''| seq | uint8 | number |'',
      line,
      ''## PONG'', ''- msg_id: 2'',
      ''| name | encoding | description |'', ''| seq | uint8 | number |'']"

text \<open>
  The community id does not fix the meaning of a descriptor: it is derived from the
  canonical text, while the parser reads the text as it came.  Two descriptors that differ
  in one space at the end of a line have the same id under every digest, both are accepted,
  and they declare different messages: after \<open>#\<close> and a space the first reads a new section
  and drops the rest of its messages.
\<close>

lemma same_id_other_messages:
  "\<exists>p q. (\<forall>sha1. community_id_from_md sha1 (spaced_descriptor ''# '') = community_id_from_md sha1 (spaced_descriptor ''#'')) \<and>
     parse_md id (spaced_descriptor ''# '') = Inr p \<and> validate_schema p = Inr () \<and>
     parse_md id (spaced_descriptor ''#'') = Inr q \<and> validate_schema q = Inr () \<and>
     map md_name (po_messages p) = [''PING''] \<and> map md_name (po_messages q) = [''PING'', ''PONG'']"
proof -
  have canon: "canonical_text (spaced_descriptor ''# '') = canonical_text (spaced_descriptor ''#'')"
    by code_simp
  have "case parse_md id (spaced_descriptor ''# '') of Inr p \<Rightarrow>
      validate_schema p = Inr () \<and> map md_name (po_messages p) = [''PING''] | Inl _ \<Rightarrow> False"
    by code_simp
  moreover have "case parse_md id (spaced_descriptor ''#'') of Inr q \<Rightarrow>
      validate_schema q = Inr () \<and> map md_name (po_messages q) = [''PING'', ''PONG''] | Inl _ \<Rightarrow> False"
    by code_simp
  ultimately show ?thesis
    by (auto simp: community_id_from_md_def canonicalize_md_def canon split: sum.splits)
qed

end
