(* ===== verification/Overlay_Compiler_Spec.thy ===== *)
theory Overlay_Compiler_Spec
  imports Overlay_Compiler Overlay_Parser_Spec
begin

text \<open>
  What activation of an overlay promises: the sandbox accepts exactly the whitelisted trees,
  and a compiled overlay is well formed, carries the derived id, keeps the structural
  contract and passes its test vectors both ways, whether the source came from the language
  model or from a cache.
\<close>

section \<open>The structural contract as a specification\<close>

definition registers_task :: "(string \<Rightarrow> int option) \<Rightarrow> ast list \<Rightarrow> periodic_task_def \<Rightarrow> bool" where
  "registers_task ftrunc ns t = (\<exists>args keywords.
     Call (Attribute (Name ''self'') ''register_task'')
       (Constant (ConstStr (pt_name t)) # Attribute (Name ''self'') (pt_handler t) # args) keywords \<in> set ns \<and>
     first_some (interval_keyword ftrunc) keywords = Some (Inr (interval_s t)))"

definition contract_holds ::
  "(string \<Rightarrow> int option) \<Rightarrow> (string \<rightharpoonup> attr_value) \<Rightarrow> ast \<Rightarrow> parsed_overlay \<Rightarrow> bool" where
  "contract_holds ftrunc attrs tree p = (
     (\<forall>c \<in> set (po_constants p). \<exists>v. attrs (cd_name c) = Some (AttrJson v) \<and> py_eq v (cd_value c)) \<and>
     (\<forall>s \<in> set (po_runtime_state p). rs_name s \<in> init_self_assignments tree) \<and>
     (\<forall>t \<in> set (po_tasks p). registers_task ftrunc (init_nodes tree) t \<and> callable_attr attrs (pt_handler t)) \<and>
     (po_lifecycle p = ''peer-observer'' \<longrightarrow> ''PeerObserver'' \<in> class_bases tree \<and>
        (\<forall>h \<in> {''started'', ''on_peer_added'', ''on_peer_removed''}. callable_attr attrs h)) \<and>
     (po_lifecycle p = ''passive'' \<longrightarrow> ''PeerObserver'' \<notin> class_bases tree))"

lemma check_constants_ok:
  "check_constants attrs cs = Inr () \<longleftrightarrow>
     (\<forall>c \<in> set cs. \<exists>v. attrs (cd_name c) = Some (AttrJson v) \<and> py_eq v (cd_value c))"
  by (induction cs) (auto split: option.splits attr_value.splits)

lemma check_slots_ok:
  "check_slots tree slots = Inr () \<longleftrightarrow> (\<forall>s \<in> set slots. rs_name s \<in> init_self_assignments tree)"
  by (auto simp: check_slots_def Let_def filter_empty_conv)

lemma const_str_Some [simp]: "const_str n = Some s \<longleftrightarrow> n = Constant (ConstStr s)"
  by (cases n rule: const_str.cases) auto

lemma self_attr_Some [simp]: "self_attr n = Some a \<longleftrightarrow> n = Attribute (Name ''self'') a"
  by (cases n rule: self_attr.cases) auto

lemma task_calls_registered:
  "task_calls ftrunc ns = Inr calls \<Longrightarrow> r \<in> set calls \<Longrightarrow> task_matches t r \<Longrightarrow> registers_task ftrunc ns t"
proof (induction ftrunc ns arbitrary: calls rule: task_calls.induct)
  case (2 ftrunc func args kws ns)
  show ?case
  proof (cases "self_attr func = Some ''register_task''")
    case False
    with 2 show ?thesis by (auto simp: registers_task_def)
  next
    case True
    define name where "name = (case args of a # _ \<Rightarrow> const_str a | [] \<Rightarrow> None)"
    define handler where "handler = (case args of _ # b # _ \<Rightarrow> self_attr b | _ \<Rightarrow> None)"
    define interval where "interval = (case first_some (interval_keyword ftrunc) kws of
        None \<Rightarrow> Inr None | Some r \<Rightarrow> bindr r (\<lambda>n. Inr (Some n)))"
    from 2(3) True obtain i more where i: "interval = Inr i" and more: "task_calls ftrunc ns = Inr more"
      and calls: "calls = \<lparr>tk_name = name, tk_handler = handler, tk_interval = i\<rparr> # more"
      by (auto simp: name_def handler_def interval_def Let_def bindr_Inr_iff)
    show ?thesis
    proof (cases "r \<in> set more")
      case True
      then show ?thesis using 2(2) [OF _ refl refl more True 2(5)] \<open>self_attr func = _\<close>
        by (auto simp: registers_task_def)
    next
      case False
      then have r: "name = Some (pt_name t)" "handler = Some (pt_handler t)" "i = Some (interval_s t)"
        using 2(4,5) by (auto simp: calls task_matches_def)
      from r(1,2) obtain rest where
        "args = Constant (ConstStr (pt_name t)) # Attribute (Name ''self'') (pt_handler t) # rest"
        by (auto simp: name_def handler_def split: list.splits)
      moreover have "first_some (interval_keyword ftrunc) kws = Some (Inr (interval_s t))"
        using r(3) i by (auto simp: interval_def bindr_Inr_iff split: option.splits)
      ultimately show ?thesis using \<open>self_attr func = _\<close>
        by (auto simp: registers_task_def)
    qed
  qed
qed (auto simp: registers_task_def)

lemma check_tasks_ok:
  "check_tasks attrs registered ts = Inr () \<longleftrightarrow>
     (\<forall>t \<in> set ts. (\<exists>r \<in> set registered. task_matches t r) \<and> callable_attr attrs (pt_handler t))"
  by (induction ts) (auto simp: find_None_iff)

lemma check_lifecycle_ok:
  "check_lifecycle attrs tree l = Inr () \<Longrightarrow>
     (l = ''peer-observer'' \<longrightarrow> ''PeerObserver'' \<in> class_bases tree \<and>
        (\<forall>h \<in> {''started'', ''on_peer_added'', ''on_peer_removed''}. callable_attr attrs h)) \<and>
     (l = ''passive'' \<longrightarrow> ''PeerObserver'' \<notin> class_bases tree)"
  by (auto simp: check_lifecycle_def Let_def split: if_splits list.splits)

lemma raise_plain_Inr [simp]: "raise_plain r = Inr x \<longleftrightarrow> r = Inr x"
  by (cases r) (auto simp: raise_plain_def)

lemma structural_contract_ok:
  assumes "check_structural_contract T p cls source = Inr ()"
  obtains tree where "ast_parse T source = Some tree" "contract_holds (tc_ftrunc T) (attr_of T cls) tree p"
proof -
  from assms obtain tree where tree: "ast_parse T source = Some tree"
    and parts: "check_constants (attr_of T cls) (po_constants p) = Inr ()"
      "check_slots tree (po_runtime_state p) = Inr ()"
      "check_lifecycle (attr_of T cls) tree (po_lifecycle p) = Inr ()"
    and tasks: "po_tasks p \<noteq> [] \<Longrightarrow> \<exists>calls. task_calls (tc_ftrunc T) (init_nodes tree) = Inr calls \<and>
        check_tasks (attr_of T cls) calls (po_tasks p) = Inr ()"
    by (auto simp: check_structural_contract_def bindr_Inr_iff init_register_task_calls_def
        split: option.splits if_splits)
  have "\<forall>t \<in> set (po_tasks p). registers_task (tc_ftrunc T) (init_nodes tree) t \<and>
      callable_attr (attr_of T cls) (pt_handler t)"
  proof (cases "po_tasks p = []")
    case False
    from tasks [OF this] show ?thesis by (auto simp: check_tasks_ok dest: task_calls_registered)
  qed simp
  then have "contract_holds (tc_ftrunc T) (attr_of T cls) tree p"
    using parts check_lifecycle_ok [OF parts(3)]
    unfolding contract_holds_def check_constants_ok check_slots_ok by blast
  with tree show thesis by (rule that)
qed

section \<open>Test vectors\<close>

definition vector_passes :: "'o toolchain \<Rightarrow> (string \<times> 'o) list \<Rightarrow> test_vector \<Rightarrow> bool" where
  "vector_passes T table tv = (\<exists>c d expected decoded.
     map_of table (tv_message tv) = Some c \<and> tv_fields tv = JObj d \<and>
     bytes_fromhex (tv_bytes_hex tv) = Some expected \<and>
     pack_payload T c (map (coerce_field_value (msgpack T) \<circ> snd) d) = Some expected \<and>
     unpack_payload T c expected = Inr (decoded, length expected) \<and>
     list_all2 wire_eq decoded (map (coerce_field_value (msgpack T) \<circ> snd) d))"

lemma run_test_vector_ok:
  assumes "run_test_vector T c tv = Inr ()" and "map_of table (tv_message tv) = Some c"
  shows "vector_passes T table tv"
proof -
  from assms(1) obtain d expected where d: "tv_fields tv = JObj d" "bytes_fromhex (tv_bytes_hex tv) = Some expected"
    by (cases "tv_fields tv") (auto simp: run_test_vector_def split: option.splits if_splits)
  with assms show ?thesis
    by (auto simp: vector_passes_def run_test_vector_def Let_def bindr_Inr_iff
        split: option.splits if_splits prod.splits)
qed

lemma run_test_vectors_ok:
  "run_test_vectors T table tvs = Inr () \<Longrightarrow> tv \<in> set tvs \<Longrightarrow> vector_passes T table tv"
  by (induction tvs) (auto simp: bindr_Inr_iff run_test_vector_ok split: option.splits)

lemma payload_table_keys:
  "payload_table ns ms table = Inr t \<Longrightarrow> set (map fst t) = set (map fst table) \<union> md_name ` set ms"
  by (induction ms arbitrary: table) (auto simp: bindr_Inr_iff update_keys simp del: set_map split: if_splits)

section \<open>Properties\<close>

definition whitelisted :: "ast \<Rightarrow> bool" where
  "whitelisted tree = (\<forall>n \<in> set (ast_walk tree). \<not> forbidden n)"

lemma visit_whitelisted: "visit tree = Inr () \<longleftrightarrow> whitelisted tree"
  by (simp add: whitelisted_def set_ast_walk visit_iff)

lemma validate_ast_iff:
  "validate_ast parse source = Inr tree \<longleftrightarrow> parse source = Some tree \<and> whitelisted tree"
  by (auto simp: validate_ast_def bindr_Inr_iff visit_whitelisted split: option.splits)

text \<open>
  C19: The sandbox accepts a source exactly when it parses and the breadth-first walk of its
  tree meets no forbidden node, that is no import outside five modules of ipv8, msgpack and
  struct, no call by name of one of thirteen builtins (eval, exec, open and getattr among
  them), none of eleven attributes, no with, global or nonlocal statement; and it then returns
  that tree.  Otherwise execution does not start: the reply of \<open>safe_exec\<close> is a sandbox error
  whatever the interpreter would do.  The lists are those of the code, given again in the
  specification; the schema document promises fewer modules and no such attribute at all.
\<close>

theorem sandbox_accepts_whitelisted:
  "(validate_ast parse source = Inr tree \<longleftrightarrow> parse source = Some tree \<and> whitelisted tree) \<and>
   (\<exists>e. safe_exec parse run source =
      (if \<exists>t. parse source = Some t \<and> whitelisted t
       then run SAFE_BUILTIN_NAMES restricted_import (the (parse source)) else Inl (SandboxError e)))"
proof (cases "validate_ast parse source")
  case (Inl e)
  then have "\<nexists>t. parse source = Some t \<and> whitelisted t"
    using validate_ast_iff [of parse source] by (metis Inl_Inr_False)
  then show ?thesis using Inl validate_ast_iff [of parse source tree] by (auto simp: safe_exec_def)
next
  case (Inr t)
  then show ?thesis
    using validate_ast_iff [of parse source t] validate_ast_iff [of parse source tree]
    by (auto simp: safe_exec_def)
qed

text \<open>
  C20: A compiled overlay is safe to activate, whichever way its source was obtained: the
  descriptor is well formed; the id is the truncated digest of the canonical text and the
  class declares it; the source parses to a whitelisted tree that keeps the structural
  contract (constants with the declared values, every state slot assigned and every task
  registered in \<open>__init__\<close> with a callable handler, the hooks and bases of the lifecycle);
  every message has a payload class and every test vector packs to exactly its bytes and
  unpacks to the same values with no byte left.
\<close>

theorem compiled_overlay_safe:
  assumes "compile_overlay T md llm_source = Inr co"
  shows "\<exists>p tree. parse_md (tc_frepr T) md = Inr p \<and> co_parsed co = Some p \<and> overlay_ok p \<and>
    co_community_id co = take 20 (sha1 T (canonicalize_md md)) \<and>
    attr_of T (co_class co) ''community_id'' = Some (AttrBytes (co_community_id co)) \<and>
    ast_parse T (co_source co) = Some tree \<and> whitelisted tree \<and>
    contract_holds (tc_ftrunc T) (attr_of T (co_class co)) tree p \<and>
    set (map fst (co_payload_classes co)) = md_name ` set (po_messages p) \<and>
    (\<forall>tv \<in> set (po_test_vectors p). vector_passes T (co_payload_classes co) tv)"
proof -
  define cid where "cid = take 20 (sha1 T (canonicalize_md md))"
  from assms obtain p ns cls table where p: "parse_md (tc_frepr T) md = Inr p" "validate_schema p = Inr ()"
    and ns: "sandboxed (safe_exec (ast_parse T) (exec_module T) (generated_source T p cid llm_source)) = Inr ns"
    and cls: "check_declared_id cid (attr_of T cls ''community_id'') = Inr ()"
    and contract: "check_structural_contract T p cls (generated_source T p cid llm_source) = Inr ()"
    and table: "payload_table ns (po_messages p) [] = Inr table"
    and vectors: "run_test_vectors T table (po_test_vectors p) = Inr ()"
    and co: "co = \<lparr>co_community_id = cid, co_parsed = Some p, co_canonical_md = canonicalize_md md, co_class = cls,
        co_payload_classes = table, co_source = generated_source T p cid llm_source, co_origin = ''markdown''\<rparr>"
    by (auto simp: compile_overlay_def bindr_Inr_iff Let_def cid_def split: option.splits)
  obtain tree where tree: "ast_parse T (generated_source T p cid llm_source) = Some tree"
    and holds: "contract_holds (tc_ftrunc T) (attr_of T cls) tree p"
    using structural_contract_ok [OF contract] .
  have "whitelisted tree"
    using ns tree by (auto simp: sandboxed_def safe_exec_def validate_ast_def visit_whitelisted bindr_def
        split: sum.splits option.splits exec_exn.splits)
  moreover have "attr_of T cls ''community_id'' = Some (AttrBytes cid)"
    using cls by (auto simp: check_declared_id_def split: option.splits attr_value.splits if_splits)
  ultimately show ?thesis
    using accepted_overlay_ok [OF p] p(1) tree holds payload_table_keys [OF table] run_test_vectors_ok [OF vectors]
    by (auto simp: co cid_def)
qed

definition sample_tree :: ast where
  "sample_tree = Module
     [ImportFrom (Some ''ipv8.community''),
      ClassDef ''GeneratedCommunity'' [Name ''Community'', Name ''PeerObserver''] []
        [FunctionDef ''__init__'' (OtherNode ''arguments'' [])
          [OtherNode ''Expr'' [Call (Attribute (Name ''self'') ''register_task'')
            [Constant (ConstStr ''beat''), Attribute (Name ''self'') ''_send_beat'']
            [Keyword (Some ''interval'') (Constant (ConstInt 30))]]] [] []] []]"

definition sample_toolchain :: "nat toolchain" where
  "sample_toolchain =
     \<lparr>ast_parse = (\<lambda>s. if s = ''pass'' then Some sample_tree else None),
      exec_module = (\<lambda>_ _ _. Inr (map_of [(''GeneratedCommunity'', 0), (''PingPayload'', 1), (''PongPayload'', 1)])),
      attr_of = (\<lambda>c. map_of
        [(''community_id'', AttrBytes (replicate 20 7)), (''_send_beat'', AttrObject True),
         (''started'', AttrObject True), (''on_peer_added'', AttrObject True), (''on_peer_removed'', AttrObject True)]),
      sha1 = (\<lambda>_. replicate 20 7),
      llm_complete = (\<lambda>_. ''```python'' @ [nl] @ ''pass'' @ [nl] @ ''```''),
      pack_payload = (\<lambda>_ vs. case vs of [WireValue (JInt n)] \<Rightarrow> Some [word_of_int n] | _ \<Rightarrow> None),
      unpack_payload = (\<lambda>_ bs. case bs of b # _ \<Rightarrow> Inr ([WireValue (JInt (uint b))], 1) | [] \<Rightarrow> Inl TypeError),
      msgpack = (\<lambda>_. []), tc_ftrunc = (\<lambda>_. None), tc_frepr = id, em_dash = ''-''\<rparr>"

abbreviation sample_classes :: "(string \<times> nat) list" where
  "sample_classes \<equiv> [(''PING'', 1), (''PONG'', 1)]"

lemma sample_parses:
  "\<exists>p. parse_md id (sample_descriptor []) = Inr p \<and> validate_schema p = Inr () \<and>
     check_structural_contract sample_toolchain p 0 ''pass'' = Inr () \<and>
     payload_table (map_of [(''GeneratedCommunity'', 0), (''PingPayload'', 1), (''PongPayload'', 1)]) (po_messages p) [] =
       Inr sample_classes \<and>
     run_test_vectors sample_toolchain sample_classes (po_test_vectors p) = Inr ()"
proof -
  have "case parse_md id (sample_descriptor []) of
      Inr p \<Rightarrow> validate_schema p = Inr () \<and> check_structural_contract sample_toolchain p 0 ''pass'' = Inr () \<and>
        payload_table (map_of [(''GeneratedCommunity'', 0), (''PingPayload'', 1), (''PongPayload'', 1)]) (po_messages p) [] =
          Inr sample_classes \<and>
        run_test_vectors sample_toolchain sample_classes (po_test_vectors p) = Inr ()
    | Inl _ \<Rightarrow> False"
    by code_simp
  then show ?thesis by (auto split: sum.splits)
qed

lemma sample_executes:
  "safe_exec (ast_parse sample_toolchain) (exec_module sample_toolchain) ''pass'' =
     Inr (map_of [(''GeneratedCommunity'', 0), (''PingPayload'', 1), (''PongPayload'', 1)])"
proof -
  have "visit sample_tree = Inr ()" by code_simp
  then show ?thesis by (simp add: safe_exec_def validate_ast_def sample_toolchain_def)
qed

lemma sample_source: "generated_source sample_toolchain p cid None = ''pass''"
proof -
  have "strip (strip_code_fences (''```python'' @ [nl] @ ''pass'' @ [nl] @ ''```'')) = ''pass''"
    by code_simp
  then show ?thesis by (simp add: generated_source_def sample_toolchain_def)
qed

lemma sample_compiles:
  "\<exists>co. compile_overlay sample_toolchain (sample_descriptor []) None = Inr co \<and> co_source co = ''pass'' \<and>
     co_payload_classes co = sample_classes"
proof -
  have tc: "tc_frepr sample_toolchain = id" "take 20 (sha1 sample_toolchain b) = replicate 20 7"
    "attr_of sample_toolchain 0 ''community_id'' = Some (AttrBytes (replicate 20 7))" for b
    by (simp_all add: sample_toolchain_def)
  show ?thesis
    using sample_parses
    by (auto simp: compile_overlay_def Let_def tc sample_source sample_executes sandboxed_def check_declared_id_def)
qed

theorem compiled_overlay_safe_witness:
  "\<exists>co p. compile_overlay sample_toolchain (sample_descriptor []) None = Inr co \<and>
     parse_md id (sample_descriptor []) = Inr p \<and> overlay_ok p \<and>
     map fst (co_payload_classes co) = [''PING'', ''PONG''] \<and> whitelisted sample_tree \<and>
     (\<forall>tv \<in> set (po_test_vectors p). vector_passes sample_toolchain (co_payload_classes co) tv)"
proof -
  obtain co where co: "compile_overlay sample_toolchain (sample_descriptor []) None = Inr co"
    "co_source co = ''pass''" "co_payload_classes co = sample_classes"
    using sample_compiles by blast
  have "tc_frepr sample_toolchain = id" "ast_parse sample_toolchain ''pass'' = Some sample_tree"
    by (simp_all add: sample_toolchain_def)
  then show ?thesis using compiled_overlay_safe [OF co(1)] co by auto
qed

end
