(* ===== verification/Overlay_Registry_Spec.thy ===== *)
theory Overlay_Registry_Spec
  imports Overlay_Registry Overlay_Compiler_Spec
begin

text \<open>
  The registry keeps one instance per community id as long as its operations run one after
  the other and no \<open>started\<close> hook raises; two asynchronous loads that overlap do not.
\<close>

section \<open>Reachable registries\<close>

inductive registry_reach :: "'o surroundings \<Rightarrow> 'o registry \<Rightarrow> 'o registry \<Rightarrow> bool" for S R0 where
  start: "registry_reach S R0 R0"
| load: "registry_reach S R0 R \<Longrightarrow> registry_reach S R0 (snd (load S md R))"
| register: "registry_reach S R0 R \<Longrightarrow> registry_reach S R0 (snd (register_community S cls R))"

text \<open>
  The invariant: both tables have the same distinct keys, a compiled overlay sits under its
  own id with the class of its instance, instances come from the list of overlays, which
  extends the initial list, and all serial numbers are distinct.
\<close>

definition registry_inv :: "'o registry \<Rightarrow> 'o registry \<Rightarrow> bool" where
  "registry_inv R0 R = (
     distinct (map fst (rg_instances R)) \<and>
     map (\<lambda>(k, co). (k, co_class co)) (rg_compiled R) = map (\<lambda>(k, i). (k, io_class i)) (rg_instances R) \<and>
     (\<forall>(k, co) \<in> set (rg_compiled R). co_community_id co = k) \<and>
     prefix (rg_overlays R0) (rg_overlays R) \<and>
     (\<forall>(k, i) \<in> set (rg_instances R). i \<in> set (rg_overlays R)) \<and>
     distinct (map io_serial (rg_overlays R)) \<and> (\<forall>i \<in> set (rg_overlays R). io_serial i < rg_next R))"

lemma compile_overlay_id: "compile_overlay T md src = Inr co \<Longrightarrow> co_community_id co = take 20 (sha1 T (canonicalize_md md))"
  by (auto simp: compile_overlay_def bindr_Inr_iff Let_def split: option.splits)

lemma keys_of_compiled:
  assumes "registry_inv R0 R"
  shows "map fst (rg_compiled R) = map fst (rg_instances R)"
proof -
  from assms have "map fst (map (\<lambda>(k, co). (k, co_class co)) (rg_compiled R)) =
      map fst (map (\<lambda>(k, i). (k, io_class i)) (rg_instances R))"
    by (simp add: registry_inv_def)
  then show ?thesis by (simp add: comp_def case_prod_beta)
qed

lemma update_absent: "map_of xs k = None \<Longrightarrow> AList.update k v xs = xs @ [(k, v)]"
  by (simp add: update_new_key map_of_eq_None_iff)

lemma activate_inv:
  assumes inv: "registry_inv R0 R" and new: "map_of (rg_instances R) cid = None"
    and id: "co_community_id compiled = cid"
  shows "registry_inv R0 (snd (activate S cid compiled R))"
proof -
  have "map_of (rg_compiled R) cid = None"
    using keys_of_compiled [OF inv] new by (metis map_of_eq_None_iff list.set_map)
  with inv new id show ?thesis
    by (auto simp: activate_def Let_def registry_inv_def update_absent map_of_eq_None_iff
        split: list.splits option.splits)
qed

text \<open>
  An induction principle: what the cache does not affect and the activation of an absent id
  keeps holds of every reachable registry.
\<close>

lemma registry_reach_keeps:
  assumes reach: "registry_reach S R0 R" and "P R0"
    and cache: "\<And>R c. P R \<Longrightarrow> P (R\<lparr>rg_cache := c\<rparr>)"
    and activate: "\<And>R cid compiled. P R \<Longrightarrow> map_of (rg_instances R) cid = None \<Longrightarrow>
      co_community_id compiled = cid \<Longrightarrow> P (snd (activate S cid compiled R))"
  shows "P R"
  using reach
proof induction
  case (load R md)
  obtain result c where c: "compile_with_disk_cache S md (rg_cache R) = (result, c)" by fastforce
  show ?case
  proof (cases "map_of (rg_instances R) (load_id S md)")
    case None
    have "P (snd (finish_load S (load_id S md) result (R\<lparr>rg_cache := c\<rparr>)))"
      using cache [OF load.IH, of c] None
      by (auto simp: finish_load_def intro!: activate split: sum.splits)
    then show ?thesis using None by (simp add: load_def Let_def c)
  next
    case (Some inst)
    then show ?thesis using load.IH by (simp add: load_def Let_def)
  qed
next
  case (register R cls)
  then show ?case
    by (auto simp: register_community_def intro!: activate
        split: option.splits attr_value.splits sum.splits)
qed fact

lemma registry_inv_cache [simp]: "registry_inv R0 (R\<lparr>rg_cache := c\<rparr>) = registry_inv R0 R"
  by (simp add: registry_inv_def)

lemma reach_inv: "registry_reach S R0 R \<Longrightarrow> registry_inv R0 R0 \<Longrightarrow> registry_inv R0 R"
  by (erule registry_reach_keeps [where P = "registry_inv R0"]) (simp_all add: activate_inv)

text \<open>When no \<open>started\<close> hook raises, the list of overlays is the initial one and the instances.\<close>

definition no_orphans :: "'o registry \<Rightarrow> 'o registry \<Rightarrow> bool" where
  "no_orphans R0 R = (rg_overlays R = rg_overlays R0 @ map snd (rg_instances R))"

lemma no_orphans_cache [simp]: "no_orphans R0 (R\<lparr>rg_cache := c\<rparr>) = no_orphans R0 R"
  by (simp add: no_orphans_def)

lemma activate_no_orphans:
  "no_orphans R0 R \<Longrightarrow> map_of (rg_instances R) cid = None \<Longrightarrow> \<forall>c. started_fails S c = None \<Longrightarrow>
     no_orphans R0 (snd (activate S cid compiled R))"
  by (auto simp: activate_def Let_def no_orphans_def update_absent split: list.splits option.splits)

lemma reach_no_orphans:
  "registry_reach S R0 R \<Longrightarrow> no_orphans R0 R0 \<Longrightarrow> \<forall>c. started_fails S c = None \<Longrightarrow> no_orphans R0 R"
  by (erule registry_reach_keeps [where P = "no_orphans R0"])
     (simp_all add: activate_no_orphans)

lemma activate_Inr:
  "activate S cid compiled R = (Inr inst, R') \<Longrightarrow> map_of (rg_instances R') cid = Some inst \<and> io_class inst = co_class compiled"
  by (auto simp: activate_def Let_def update_conv' split: list.splits option.splits)

lemma load_again:
  assumes "load S md R = (Inr inst, R')" and "load_id S md' = load_id S md"
  shows "load S md' R' = (Inr inst, R')"
proof -
  have "map_of (rg_instances R') (load_id S md) = Some inst"
    using assms(1) by (auto simp: load_def finish_load_def Let_def
        split: option.splits prod.splits sum.splits if_splits dest: activate_Inr)
  then show ?thesis by (simp add: load_def Let_def assms(2))
qed

section \<open>Properties\<close>

definition fresh_registry :: "'o registry \<Rightarrow> bool" where
  "fresh_registry R = (rg_instances R = [] \<and> rg_compiled R = [] \<and>
     distinct (map io_serial (rg_overlays R)) \<and> (\<forall>i \<in> set (rg_overlays R). io_serial i < rg_next R))"

lemma fresh_registry_inv: "fresh_registry R \<Longrightarrow> registry_inv R R"
  by (simp add: fresh_registry_def registry_inv_def)

text \<open>
  C21: After any sequence of loads and registrations, whatever fails among them, the registry
  is consistent: both tables have the same distinct ids, each compiled overlay under its
  own id with the class of its instance, every instance among the overlays, which only grow
  and never repeat an object; if no \<open>started\<close> hook raises, the overlays are exactly the
  initial ones followed by one instance per id.  Loading is idempotent: a descriptor with
  the same canonical text then gives the same instance and leaves the registry as it is.
\<close>

theorem registry_consistent:
  assumes "fresh_registry R0" and "registry_reach S R0 R"
  shows "registry_inv R0 R \<and>
    ((\<forall>c. started_fails S c = None) \<longrightarrow> rg_overlays R = rg_overlays R0 @ map snd (rg_instances R)) \<and>
    (\<forall>md md' inst R'. load S md R = (Inr inst, R') \<and> canonical_text md' = canonical_text md \<longrightarrow>
       load S md' R' = (Inr inst, R'))"
proof -
  have "registry_inv R0 R" by (rule reach_inv [OF assms(2) fresh_registry_inv [OF assms(1)]])
  moreover have "rg_overlays R = rg_overlays R0 @ map snd (rg_instances R)"
    if "\<forall>c. started_fails S c = None"
    using reach_no_orphans [OF assms(2) _ that] assms(1) by (simp add: no_orphans_def fresh_registry_def)
  moreover have "load S md' R' = (Inr inst, R')"
    if "load S md R = (Inr inst, R')" "canonical_text md' = canonical_text md" for md md' inst R'
    using that(1) by (rule load_again)
      (simp add: load_id_def community_id_from_md_def canonicalize_md_def that(2))
  ultimately show ?thesis by blast
qed

definition sample_surroundings :: "nat surroundings" where
  "sample_surroundings =
     \<lparr>tools = sample_toolchain, model_id = ''m/1'', create_fails = (\<lambda>_ _. None), started_fails = (\<lambda>_. None),
      module_members = (\<lambda>_. None), class_name = (\<lambda>_. ''Sample''), class_doc = (\<lambda>_. []),
      cache_writable = True\<rparr>"

definition sample_registry :: "nat registry" where
  "sample_registry = new_registry [\<lparr>io_serial = 0, io_class = 9\<rparr>] None"

lemma sample_registry_simps [simp]:
  "rg_overlays sample_registry = [\<lparr>io_serial = 0, io_class = 9\<rparr>]" "rg_instances sample_registry = []"
  "rg_compiled sample_registry = []" "rg_next sample_registry = 1" "rg_cache sample_registry = None"
  by (simp_all add: sample_registry_def new_registry_def)

lemma sample_surroundings_simps [simp]:
  "tools sample_surroundings = sample_toolchain" "create_fails sample_surroundings c t = None"
  "started_fails sample_surroundings c = None"
  by (simp_all add: sample_surroundings_def)

lemma sample_load:
  "\<exists>inst R. load sample_surroundings (sample_descriptor []) sample_registry = (Inr inst, R)"
proof -
  obtain co where co: "compile_overlay sample_toolchain (sample_descriptor []) None = Inr co"
    using sample_compiles by blast
  from compile_overlay_id [OF this] show ?thesis
    by (simp add: load_def Let_def compile_with_disk_cache_def co finish_load_def load_id_def
        community_id_from_md_def activate_def)
qed

theorem registry_consistent_witness:
  "\<exists>inst R R'. R = sample_registry \<and> load sample_surroundings (sample_descriptor []) R = (Inr inst, R') \<and>
     load sample_surroundings (sample_descriptor [] @ [nl, nl]) R' = (Inr inst, R') \<and> registry_inv R R'"
proof -
  obtain inst R' where l: "load sample_surroundings (sample_descriptor []) sample_registry = (Inr inst, R')"
    using sample_load by blast
  have fresh: "fresh_registry sample_registry" by (simp add: fresh_registry_def)
  have reach: "registry_reach sample_surroundings sample_registry R'"
    using registry_reach.load [OF registry_reach.start, of sample_surroundings sample_registry "sample_descriptor []"]
    by (simp add: l)
  have canon: "canonical_text (sample_descriptor [] @ [nl, nl]) = canonical_text (sample_descriptor [])"
    by code_simp
  show ?thesis
    using registry_consistent [OF fresh registry_reach.start, of sample_surroundings]
      registry_consistent [OF fresh reach] l canon by blast
qed

text \<open>
  Two asynchronous loads of one descriptor that overlap are not idempotent: when the
  second starts before the first has finished, both succeed with different instances, the
  overlay list has both, and the tables keep the second.
\<close>

lemma overlapping_aloads_duplicate:
  assumes "rg_overlays R \<noteq> []" and "map_of (rg_instances R) (load_id S md) = None" and "rg_cache R = None"
    and compiled: "compile_overlay (tools S) md None = Inr co"
    and "\<And>t. create_fails S (co_class co) t = None" and "started_fails S (co_class co) = None"
  shows "\<exists>p1 R1 p2 R2 a R3 b R4. aload_begin S md R = (p1, R1) \<and> aload_begin S md R1 = (p2, R2) \<and>
    aload_resume S p1 R2 = (Inr a, R3) \<and> aload_resume S p2 R3 = (Inr b, R4) \<and> a \<noteq> b \<and>
    rg_overlays R4 = rg_overlays R @ [a, b] \<and> get_overlay R4 (load_id S md) = Some b"
proof -
  have id: "co_community_id co = load_id S md"
    using compile_overlay_id [OF compiled] by (simp add: load_id_def community_id_from_md_def)
  have R: "R\<lparr>rg_cache := None\<rparr> = R" using assms(3) by simp
  have begun: "aload_begin S md R = (Inr (load_id S md, Inr co), R)"
    using assms(2,3) by (simp add: aload_begin_def Let_def compile_with_disk_cache_def compiled R)
  obtain t ts where t: "rg_overlays R = t # ts" using assms(1) by (cases "rg_overlays R") auto
  let ?a = "\<lparr>io_serial = rg_next R, io_class = co_class co\<rparr>"
  let ?b = "\<lparr>io_serial = Suc (rg_next R), io_class = co_class co\<rparr>"
  have "?a \<noteq> ?b" by simp
  then show ?thesis
    using assms(5,6) t by (auto simp: begun aload_resume_def finish_load_def id activate_def Let_def
        get_overlay_def update_conv')
qed

theorem overlapping_aloads_duplicate_witness:
  "\<exists>p1 R1 p2 R2 a R3 b R4.
     aload_begin sample_surroundings (sample_descriptor []) sample_registry = (p1, R1) \<and>
     aload_begin sample_surroundings (sample_descriptor []) R1 = (p2, R2) \<and>
     aload_resume sample_surroundings p1 R2 = (Inr a, R3) \<and> aload_resume sample_surroundings p2 R3 = (Inr b, R4) \<and>
     a \<noteq> b \<and> rg_overlays R4 = [\<lparr>io_serial = 0, io_class = 9\<rparr>, a, b]"
proof -
  obtain co where co: "compile_overlay sample_toolchain (sample_descriptor []) None = Inr co"
    using sample_compiles by blast
  show ?thesis
    using overlapping_aloads_duplicate [of sample_registry sample_surroundings "sample_descriptor []" co] co
    by fastforce
qed

end
