(* ===== verification/Gateway.thy ===== *)
theory Gateway
  imports Privilege
begin

text \<open>
  The gateway (security/integration/gateway.py): the tools it offers over the seedbox
  registry and its ledgers, the handling of tool calls, security reports and audits, the
  reload of its state from the signed log, and the POST routes.

  The configuration holds what the gateway is given and never changes, with the streams of
  the clock in milliseconds (read at the number of tool calls), of the log's timestamps (the
  monitor's clock) and of the random choice, and the interpreter's text of an exception.
  A handler that raises keeps the changes made before it raised.
\<close>

section \<open>State\<close>

datatype gateway_mode = Defended | Baseline

record gw_conf =
  gc_env :: env
  gc_identity :: identity
  gc_clock :: "nat \<Rightarrow> nat \<times> string"
  gc_ftrunc :: "string \<Rightarrow> int option"
  gc_millis :: "nat \<Rightarrow> int"
  gc_pick :: "nat \<Rightarrow> nat"
  gc_exn_text :: "pyexn \<Rightarrow> string"
  gc_local_agent_id :: string
  gc_mode :: gateway_mode
  gc_max_risk :: int
  gc_verifier :: anchor_verifier

datatype reload_error =
    LogBroken message
  | NotReplayed json string pyexn

record gateway =
  gw_monitor :: monitor
  gw_registry :: seedbox_registry
  gw_donations :: "donation list"
  gw_proofs :: "service_proof list"
  gw_microtasks :: "microtask list"
  gw_files :: "indexed_file list"
  gw_tool_calls :: nat
  gw_blocked :: nat
  gw_executed :: nat
  gw_audits :: "string list"
  gw_reload_errors :: "reload_error list"

definition gw_now :: "gw_conf \<Rightarrow> gateway \<Rightarrow> string" where
  "gw_now C G = snd (gc_clock C (m_tick (gw_monitor G)))"

section \<open>Arguments of a tool\<close>

text \<open>\<open>kwargs[k]\<close>, and the conversions the handlers apply to it.\<close>

definition arg :: "dict \<Rightarrow> string \<Rightarrow> json res" where
  "arg d k = (case map_of d k of None \<Rightarrow> Inl (KeyError k) | Some v \<Rightarrow> Inr v)"

definition str_arg :: "dict \<Rightarrow> string \<Rightarrow> string res" where
  "str_arg d k = bindr (arg d k) (\<lambda>v. Inr (py_str v))"

definition int_arg :: "gw_conf \<Rightarrow> dict \<Rightarrow> string \<Rightarrow> int res" where
  "int_arg C d k = bindr (arg d k) (to_int (gc_ftrunc C))"

definition str_or :: "dict \<Rightarrow> string \<Rightarrow> string \<Rightarrow> string" where
  "str_or d k s = py_str (get_or d k (JStr s))"

definition int_or :: "gw_conf \<Rightarrow> dict \<Rightarrow> string \<Rightarrow> int \<Rightarrow> int res" where
  "int_or C d k n = to_int (gc_ftrunc C) (get_or d k (JInt n))"

definition bool_or :: "dict \<Rightarrow> string \<Rightarrow> bool" where
  "bool_or d k = truthy (get_or d k (JBool False))"

text \<open>\<open>int(v) if v is not None else None\<close>.\<close>

definition opt_int :: "gw_conf \<Rightarrow> json \<Rightarrow> int option res" where
  "opt_int C v = (if v = JNull then Inr None else bindr (to_int (gc_ftrunc C) v) (\<lambda>n. Inr (Some n)))"

text \<open>Tags: a comma-separated text, or the texts of the elements of an iterable.\<close>

definition tags_of :: "json \<Rightarrow> string list res" where
  "tags_of v = (case v of
     JStr s \<Rightarrow> Inr (filter (\<lambda>t. t \<noteq> []) (map strip (split_on (CHR '','') s)))
   | JList vs \<Rightarrow> Inr (map py_str vs)
   | JObj d \<Rightarrow> Inr (map fst d)
   | _ \<Rightarrow> Inl TypeError)"

section \<open>Records as JSON\<close>

definition seedbox_dict :: "seedbox \<Rightarrow> json" where
  "seedbox_dict s = JObj
     [(''seedbox_id'', JStr (sb_seedbox_id s)), (''owner_id'', JStr (sb_owner_id s)),
      (''donation_address'', JStr (sb_donation_address s)),
      (''advertised_capacity_gb'', JInt (sb_capacity_gb s)),
      (''created_at'', JStr (sb_created_at s)), (''fake'', JBool (sb_fake s))]"

definition donation_dict :: "donation \<Rightarrow> json" where
  "donation_dict d = JObj
     [(''donation_id'', JStr (dn_donation_id d)), (''seedbox_id'', JStr (dn_seedbox_id d)),
      (''donor_id'', JStr (dn_donor_id d)), (''recipient_id'', JStr (dn_recipient_id d)),
      (''amount_sats'', JInt (dn_amount_sats d)), (''txid'', JStr (dn_txid d)),
      (''timestamp'', JStr (dn_timestamp d)), (''self_donation'', JBool (dn_self_donation d)),
      (''fake_seedbox'', JBool (dn_fake_seedbox d)), (''stolen_from_honest_agent'', JBool (dn_stolen d)),
      (''bitcoin_anchor'', case dn_anchor d of None \<Rightarrow> JNull | Some a \<Rightarrow> JObj (anchor_dict a))]"

definition donation_evidence_dict :: "donation_evidence \<Rightarrow> json" where
  "donation_evidence_dict e = JObj
     [(''donation_id'', JStr (de_donation_id e)), (''seedbox_id'', JStr (de_seedbox_id e)),
      (''donor_id'', JStr (de_donor_id e)), (''recipient_id'', JStr (de_recipient_id e)),
      (''amount_sats'', JInt (de_amount_sats e)),
      (''txid'', case de_txid e of None \<Rightarrow> JNull | Some t \<Rightarrow> JStr t),
      (''bitcoin_anchor'', JObj (de_anchor e)), (''self_donation'', JBool (de_self_donation e)),
      (''fake_seedbox'', JBool (de_fake_seedbox e)), (''stolen_from_honest_agent'', JBool (de_stolen e))]"

definition proof_dict :: "service_proof \<Rightarrow> json" where
  "proof_dict p = JObj
     [(''proof_id'', JStr (sp_proof_id p)), (''seedbox_id'', JStr (sp_seedbox_id p)),
      (''prover_id'', JStr (sp_prover_id p)), (''storage_url'', JStr (sp_storage_url p)),
      (''nonce'', JStr (sp_nonce p)), (''timestamp'', JStr (sp_timestamp p))]"

definition microtask_dict :: "microtask \<Rightarrow> json" where
  "microtask_dict t = JObj
     [(''task_id'', JStr (mt_task_id t)), (''seedbox_id'', JStr (mt_seedbox_id t)),
      (''prover_id'', JStr (mt_prover_id t)), (''task_type'', JStr (mt_task_type t)),
      (''file_hash'', JStr (mt_file_hash t)), (''result_hash'', JStr (mt_result_hash t)),
      (''timestamp'', JStr (mt_timestamp t)), (''verified'', JBool (mt_verified t))]"

definition microtask_evidence_dict :: "microtask_evidence \<Rightarrow> json" where
  "microtask_evidence_dict t = JObj
     [(''task_id'', JStr (me_task_id t)), (''seedbox_id'', JStr (me_seedbox_id t)),
      (''prover_id'', JStr (me_prover_id t)), (''task_type'', JStr (me_task_type t)),
      (''file_hash'', JStr (me_file_hash t)), (''result_hash'', JStr (me_result_hash t)),
      (''verified'', JBool (me_verified t))]"

definition file_dict :: "indexed_file \<Rightarrow> json" where
  "file_dict f = JObj
     [(''file_id'', JStr (if_file_id f)), (''seedbox_id'', JStr (if_seedbox_id f)),
      (''name'', JStr (if_name f)), (''content_url'', JStr (if_content_url f)),
      (''sha256'', JStr (if_sha256 f)), (''size_bytes'', JInt (if_size_bytes f)),
      (''media_type'', JStr (if_media_type f)), (''tags'', JList (map JStr (if_tags f))),
      (''indexed_at'', JStr (if_indexed_at f))]"

section \<open>The tools\<close>

text \<open>A handler that changes the state only when it returns.\<close>

definition commit :: "gateway \<Rightarrow> (tool_output \<times> gateway) res \<Rightarrow> tool_output res \<times> gateway" where
  "commit G r = (case r of Inl x \<Rightarrow> (Inl x, G) | Inr (out, G') \<Rightarrow> (Inr out, G'))"

definition register_seedbox_tool :: "gw_conf \<Rightarrow> gateway handler" where
  "register_seedbox_tool C kwargs G = commit G (
     bindr (str_arg kwargs ''seedbox_id'') (\<lambda>seedbox_id.
     bindr (str_arg kwargs ''owner_id'') (\<lambda>owner_id.
     bindr (str_arg kwargs ''donation_address'') (\<lambda>address.
     bindr (int_arg C kwargs ''advertised_capacity_gb'') (\<lambda>capacity.
     let (s, registry) = register (gw_registry G) (gw_now C G) seedbox_id owner_id address capacity
                           (bool_or kwargs ''fake'')
     in Inr (plain_output (seedbox_dict s), G\<lparr>gw_registry := registry\<rparr>))))))"

definition default_donation_id :: "gw_conf \<Rightarrow> gateway \<Rightarrow> string" where
  "default_donation_id C G = ''donation-'' @ int_str (gc_millis C (gw_tool_calls G))"

definition broadcast_donation_tool :: "gw_conf \<Rightarrow> gateway handler" where
  "broadcast_donation_tool C kwargs G = commit G (
     bindr (str_arg kwargs ''seedbox_id'') (\<lambda>seedbox_id.
     bindr (registry_get (gw_registry G) seedbox_id) (\<lambda>seedbox.
     bindr (int_or C kwargs ''confirmations'' 0) (\<lambda>confirmations.
     bindr (str_arg kwargs ''txid'') (\<lambda>txid.
     bindr (int_arg C kwargs ''amount_sats'') (\<lambda>amount.
     bindr (opt_int C (jget kwargs ''output_index'')) (\<lambda>output_index.
     let anchor = build_anchor (gc_env C) (gc_verifier C) txid (sb_donation_address seedbox) amount
                    (sb_seedbox_id seedbox) confirmations output_index;
         given = jget kwargs ''donation_id'';
         donation_id = (if truthy given then py_str given else default_donation_id C G)
     in
     bindr (str_arg kwargs ''donor_id'') (\<lambda>donor_id.
     bindr (broadcast_donation (gw_registry G) (gw_donations G) (gw_now C G) donation_id (sb_seedbox_id seedbox)
              donor_id amount txid (bool_or kwargs ''stolen_from_honest_agent'') (Some anchor)) (\<lambda>(d, ds).
     Inr (\<lparr>to_json = JObj [(''donation'', donation_dict d),
                            (''donation_evidence'', donation_evidence_dict (donation_evidence_of d))],
           to_evidence = Some (donation_evidence_of d)\<rparr>,
          G\<lparr>gw_donations := ds\<rparr>))))))))))"

definition submit_proof_tool :: "gw_conf \<Rightarrow> gateway handler" where
  "submit_proof_tool C kwargs G = commit G (
     bindr (str_arg kwargs ''proof_id'') (\<lambda>proof_id.
     bindr (str_arg kwargs ''seedbox_id'') (\<lambda>seedbox_id.
     bindr (str_arg kwargs ''prover_id'') (\<lambda>prover_id.
     bindr (str_arg kwargs ''storage_url'') (\<lambda>storage_url.
     bindr (str_arg kwargs ''nonce'') (\<lambda>nonce.
     bindr (submit_proof (gw_registry G) (gw_proofs G) (gw_now C G) proof_id seedbox_id prover_id
              storage_url nonce) (\<lambda>(p, ps).
     Inr (plain_output (JObj [(''proof'', proof_dict p)]), G\<lparr>gw_proofs := ps\<rparr>))))))))"

definition microtask_output :: "microtask \<Rightarrow> (string \<times> json) list" where
  "microtask_output t = [(''microtask'', microtask_dict t),
     (''microtask_evidence'', microtask_evidence_dict (microtask_evidence_of t))]"

text \<open>The monitor writes its record after the ledger has changed.\<close>

definition note_microtask ::
  "gw_conf \<Rightarrow> string \<Rightarrow> microtask \<Rightarrow> (string \<times> json) list \<Rightarrow> (tool_output, gateway) step" where
  "note_microtask C subject_id t out G =
     (case record_atomic_microtask (gc_env C) (gc_identity C) (gc_clock C) subject_id
             (microtask_evidence_of t) (gw_monitor G) of
        Inl x \<Rightarrow> (Inl x, G)
      | Inr M \<Rightarrow> (Inr (plain_output (JObj out)), G\<lparr>gw_monitor := M\<rparr>))"

definition submit_microtask_tool :: "gw_conf \<Rightarrow> gateway handler" where
  "submit_microtask_tool C kwargs G =
     (case bindr (str_arg kwargs ''task_id'') (\<lambda>task_id.
           bindr (str_arg kwargs ''seedbox_id'') (\<lambda>seedbox_id.
           bindr (str_arg kwargs ''prover_id'') (\<lambda>prover_id.
           bindr (str_arg kwargs ''task_type'') (\<lambda>task_type.
           bindr (str_arg kwargs ''file_hash'') (\<lambda>file_hash.
           bindr (str_arg kwargs ''result_hash'') (\<lambda>result_hash.
           submit_result (gw_registry G) (gw_microtasks G) (gw_now C G) task_id seedbox_id prover_id
             task_type file_hash result_hash False)))))) of
        Inl x \<Rightarrow> (Inl x, G)
      | Inr (t, ts) \<Rightarrow> note_microtask C (mt_prover_id t) t (microtask_output t) (G\<lparr>gw_microtasks := ts\<rparr>))"

definition verify_microtask_tool :: "gw_conf \<Rightarrow> gateway handler" where
  "verify_microtask_tool C kwargs G =
     (case bindr (str_arg kwargs ''task_id'') (\<lambda>task_id.
           bindr (str_arg kwargs ''expected_result_hash'') (\<lambda>expected.
           bindr (microtask_get (gw_microtasks G) task_id) (\<lambda>current. Inr (task_id, expected, current)))) of
        Inl x \<Rightarrow> (Inl x, G)
      | Inr (task_id, expected, current) \<Rightarrow>
          (case verify_result (gw_microtasks G) task_id expected of
             Inl x \<Rightarrow>
               (case record_rejected_atomic_microtask (gc_env C) (gc_identity C) (gc_clock C)
                       (mt_prover_id current) task_id expected (mt_result_hash current) (gw_monitor G) of
                  Inl y \<Rightarrow> (Inl y, G)
                | Inr M \<Rightarrow> (Inl x, G\<lparr>gw_monitor := M\<rparr>))
           | Inr (t, ts) \<Rightarrow>
               note_microtask C (mt_prover_id t) t ((''verified'', JBool True) # microtask_output t)
                 (G\<lparr>gw_microtasks := ts\<rparr>)))"

definition report_event_tool :: "gateway handler" where
  "report_event_tool kwargs G =
     (Inr (plain_output (JObj [(''reported'', JBool True), (''details'', JObj kwargs)])), G)"

definition index_file_tool :: "gw_conf \<Rightarrow> gateway handler" where
  "index_file_tool C kwargs G = commit G (
     bindr (str_arg kwargs ''file_id'') (\<lambda>file_id.
     bindr (str_arg kwargs ''seedbox_id'') (\<lambda>seedbox_id.
     bindr (str_arg kwargs ''name'') (\<lambda>name.
     bindr (str_arg kwargs ''content_url'') (\<lambda>content_url.
     bindr (int_or C kwargs ''size_bytes'' 0) (\<lambda>size.
     bindr (tags_of (get_or kwargs ''tags'' (JList []))) (\<lambda>tags.
     bindr (index_file (gw_registry G) (gw_files G)
              \<lparr>if_file_id = file_id, if_seedbox_id = seedbox_id, if_name = name, if_content_url = content_url,
               if_sha256 = str_or kwargs ''sha256'' [], if_size_bytes = size,
               if_media_type = str_or kwargs ''media_type'' [], if_tags = tags, if_indexed_at = gw_now C G\<rparr>)
       (\<lambda>(f, fs).
     Inr (plain_output (JObj [(''indexed'', JBool True), (''file'', file_dict f)]), G\<lparr>gw_files := fs\<rparr>)))))))))"

definition list_files_tool :: "gateway handler" where
  "list_files_tool kwargs G =
     (Inr (plain_output (JObj [(''count'', JInt (int (length (gw_files G)))),
                               (''files'', JList (map file_dict (gw_files G)))])), G)"

definition search_files_tool :: "gateway handler" where
  "search_files_tool kwargs G =
     (let query = str_or kwargs ''query'' []; files = index_search (gw_files G) query in
      (Inr (plain_output (JObj [(''query'', JStr query), (''count'', JInt (int (length files))),
                                (''files'', JList (map file_dict files))])), G))"

definition pick_file_tool :: "gw_conf \<Rightarrow> gateway handler" where
  "pick_file_tool C kwargs G = commit G (
     let query = str_or kwargs ''query'' [] in
     bindr (random_match (gc_pick C) (gw_files G) query) (\<lambda>f.
     Inr (plain_output (JObj
       [(''query'', JStr query), (''file'', file_dict f),
        (''playback_intent'', JObj
          [(''action'', JStr ''play''), (''url'', JStr (if_content_url f)), (''title'', JStr (if_name f)),
           (''media_type'', JStr (if_media_type f))])]), G)))"

definition policy :: "string \<Rightarrow> gateway handler \<Rightarrow> string list \<Rightarrow> tool_risk \<Rightarrow> gateway tool_policy" where
  "policy name handler required risk =
     \<lparr>tp_name = name, tp_handler = handler, tp_required_args = required, tp_risk = risk, tp_max_risk = 1\<rparr>"

definition gateway_tools :: "gw_conf \<Rightarrow> (string \<times> gateway tool_policy) list" where
  "gateway_tools C = default_tools @
     [(''register_seedbox'', policy ''register_seedbox'' (register_seedbox_tool C)
         [''seedbox_id'', ''donation_address'', ''advertised_capacity_gb'', ''owner_id''] SENSITIVE),
      (''broadcast_seedbox_donation'', policy ''broadcast_seedbox_donation'' (broadcast_donation_tool C)
         [''seedbox_id'', ''donor_id'', ''amount_sats'', ''txid''] SENSITIVE),
      (''submit_seedbox_proof'', policy ''submit_seedbox_proof'' (submit_proof_tool C)
         [''seedbox_id'', ''prover_id'', ''storage_url'', ''nonce'', ''proof_id''] SENSITIVE),
      (''submit_atomic_microtask'', policy ''submit_atomic_microtask'' (submit_microtask_tool C)
         [''task_id'', ''seedbox_id'', ''prover_id'', ''task_type'', ''file_hash'', ''result_hash''] SENSITIVE),
      (''verify_atomic_microtask'', policy ''verify_atomic_microtask'' (verify_microtask_tool C)
         [''task_id'', ''expected_result_hash''] SENSITIVE),
      (''report_security_event'', policy ''report_security_event'' report_event_tool [''subject_id'', ''action''] SENSITIVE),
      (''index_seedbox_file'', policy ''index_seedbox_file'' (index_file_tool C)
         [''file_id'', ''seedbox_id'', ''name'', ''content_url''] SENSITIVE),
      (''list_seedbox_files'', policy ''list_seedbox_files'' list_files_tool [] SAFE),
      (''search_seedbox_files'', policy ''search_seedbox_files'' search_files_tool [''query''] SAFE),
      (''pick_random_seedbox_file'', policy ''pick_random_seedbox_file'' (pick_file_tool C) [] SAFE)]"

definition gateway_hands :: "gw_conf \<Rightarrow> gateway hands" where
  "gateway_hands C = \<lparr>hd_proxy = None, hd_agent_id = gc_local_agent_id C, hd_max_tool_risk = gc_max_risk C,
     hd_allowed_tools = gateway_tools C\<rparr>"

definition gateway_baseline :: "gw_conf \<Rightarrow> gateway baseline" where
  "gateway_baseline C = \<lparr>bl_proxy = None, bl_dangerous_tools = default_dangerous_tools,
     bl_safe_tools = map (\<lambda>(n, p). (n, tp_handler p)) (gateway_tools C)\<rparr>"

end
