(* ===== verification/Gateway_Requests.thy ===== *)
theory Gateway_Requests
  imports Gateway
begin

text \<open>
  The requests of the gateway (security/integration/gateway.py): tool calls, security
  reports, the seedbox audit, the metrics, the POST routes, and the reload of the runtime
  state from the signed log when a gateway starts.
\<close>

section \<open>The log and the reputation engine of a gateway\<close>

text \<open>\<open>self.log.append_event\<close> with an explicit severity, and \<open>self.reputation.scan_log()\<close>.\<close>

definition gw_append ::
  "gw_conf \<Rightarrow> string \<Rightarrow> string \<Rightarrow> int \<Rightarrow> dict \<Rightarrow> dict option \<Rightarrow> (unit, gateway) step" where
  "gw_append C subject_id action severity details evidence G =
     (let M = gw_monitor G; (now, timestamp) = gc_clock C (m_tick M) in
      case append_event (gc_env C) (gc_identity C) (m_file M) (m_inst M) now timestamp
             (id_hash (gc_identity C)) subject_id action details severity evidence of
        Inl x \<Rightarrow> (Inl x, G)
      | Inr (_, f, inst) \<Rightarrow>
          (Inr (), G\<lparr>gw_monitor := M\<lparr>m_file := f, m_inst := inst, m_tick := Suc (m_tick M)\<rparr>\<rparr>))"

definition gw_scan :: "gw_conf \<Rightarrow> (unit, gateway) step" where
  "gw_scan C G =
     (let M = gw_monitor G; (R, x) = scan_log (gc_env C) (gc_ftrunc C) (m_reputation M) (m_file M)
      in (case x of None \<Rightarrow> Inr () | Some e \<Rightarrow> Inl e, G\<lparr>gw_monitor := M\<lparr>m_reputation := R\<rparr>\<rparr>))"

definition gw_record :: "(monitor \<Rightarrow> monitor res) \<Rightarrow> (unit, gateway) step" where
  "gw_record f G = (case f (gw_monitor G) of Inl x \<Rightarrow> (Inl x, G) | Inr M \<Rightarrow> (Inr (), G\<lparr>gw_monitor := M\<rparr>))"

section \<open>Tool calls\<close>

text \<open>
  \<open>dict(v)\<close> of a JSON value: an object, a list of pairs with text keys, or nothing; a list
  of pairs with other keys is outside the model.
\<close>

fun pair_of :: "json \<Rightarrow> (string \<times> json) res" where
  "pair_of (JList vs) = (case vs of [JStr k, v] \<Rightarrow> Inr (k, v) | [_, _] \<Rightarrow> Inl TypeError | _ \<Rightarrow> Inl (ValueError []))"
| "pair_of (JStr s) = (case s of [k, v] \<Rightarrow> Inr ([k], JStr [v]) | _ \<Rightarrow> Inl (ValueError []))"
| "pair_of (JObj d) = (case d of [(k, _), (l, _)] \<Rightarrow> Inr (k, JStr l) | _ \<Rightarrow> Inl (ValueError []))"
| "pair_of _ = Inl TypeError"

definition dict_of :: "json \<Rightarrow> dict res" where
  "dict_of v =
     (if \<not> truthy v then Inr []
      else case v of
        JObj d \<Rightarrow> Inr d
      | JList vs \<Rightarrow> bindr (mapr pair_of vs) (\<lambda>ps. Inr (dict_of_pairs ps))
      | JStr _ \<Rightarrow> Inl (ValueError [])
      | _ \<Rightarrow> Inl TypeError)"

definition set_default :: "string \<Rightarrow> json \<Rightarrow> dict \<Rightarrow> dict" where
  "set_default k v d = (if has_key d k then d else AList.update k v d)"

definition normalize_tool_kwargs :: "gw_conf \<Rightarrow> nat \<Rightarrow> string \<Rightarrow> string \<Rightarrow> dict \<Rightarrow> dict" where
  "normalize_tool_kwargs C n subject_id tool_name kwargs =
     (if tool_name = ''register_seedbox'' then set_default ''owner_id'' (JStr subject_id) kwargs
      else if tool_name = ''broadcast_seedbox_donation''
        then set_default ''txid'' (JStr (''mock-tx-'' @ subject_id @ ''-'' @ int_str (gc_millis C n)))
               (set_default ''donor_id'' (JStr subject_id) kwargs)
      else if tool_name = ''submit_seedbox_proof''
        then set_default ''proof_id'' (JStr (''proof-'' @ subject_id @ ''-'' @ int_str (gc_millis C n)))
               (set_default ''prover_id'' (JStr subject_id) kwargs)
      else if tool_name = ''submit_atomic_microtask''
        then set_default ''task_type'' (JStr ''storage_check'')
               (set_default ''prover_id'' (JStr subject_id) kwargs)
      else kwargs)"

definition reputation_dict :: "gateway \<Rightarrow> string \<Rightarrow> json" where
  "reputation_dict G agent_id =
     (let R = m_reputation (gw_monitor G) in
      JObj [(''agent_id'', JStr agent_id), (''score'', JInt (get_score R agent_id)),
            (''banned'', JBool (is_banned R agent_id)), (''harm_count'', JInt (get_harm_count R agent_id))])"

definition result_dict :: "execution_result \<Rightarrow> json" where
  "result_dict r = JObj
     [(''requested_tool'', JStr (er_requested_tool r)), (''executed'', JBool (er_executed r)),
      (''authorized'', JBool (er_authorized r)), (''attack_success'', JBool (er_attack_success r)),
      (''reason'', JStr (er_reason r)),
      (''output'', case er_output r of None \<Rightarrow> JNull | Some out \<Rightarrow> to_json out),
      (''payload_id'', er_payload_id r), (''sender_id'', er_sender_id r)]"

text \<open>The two executors, each with its own reply to an exception of the tool.\<close>

definition execute_defended :: "gw_conf \<Rightarrow> tool_decision \<Rightarrow> gateway \<Rightarrow> execution_result \<times> gateway" where
  "execute_defended C d G =
     (let (r, G1) = hands_execute (gateway_hands C) d G;
          result = (case r of
             Inr res \<Rightarrow> res
           | Inl x \<Rightarrow> result_for d False False False (''blocked: tool handler failed: '' @ gc_exn_text C x) None)
      in (result, if er_executed result then G1 else G1\<lparr>gw_blocked := Suc (gw_blocked G1)\<rparr>))"

definition execute_baseline :: "gw_conf \<Rightarrow> tool_decision \<Rightarrow> gateway \<Rightarrow> execution_result \<times> gateway" where
  "execute_baseline C d G =
     (let (r, G1) = baseline_execute (gateway_baseline C) d G
      in (case r of
            Inr res \<Rightarrow> res
          | Inl x \<Rightarrow> result_for d False False False (''tool handler failed: '' @ gc_exn_text C x) None, G1))"

definition output_json :: "execution_result \<Rightarrow> json" where
  "output_json r = (case er_output r of None \<Rightarrow> JNull | Some out \<Rightarrow> to_json out)"

definition execution_details :: "tool_decision \<Rightarrow> execution_result \<Rightarrow> dict" where
  "execution_details d r =
     [(''tool'', JStr (td_tool_name d)), (''payload_id'', td_payload_id d), (''output'', output_json r)]"

text \<open>What follows the success entry of an executed tool.\<close>

definition note_execution :: "gw_conf \<Rightarrow> string \<Rightarrow> tool_decision \<Rightarrow> execution_result \<Rightarrow> (unit, gateway) step" where
  "note_execution C subject_id d r =
     (let E = gc_env C; I = gc_identity C; clock = gc_clock C; kwargs = td_tool_kwargs d in
      if td_tool_name d = ''register_seedbox'' \<and> truthy (jget kwargs ''fake'')
      then gw_record (record_fake_seedbox_creation E I clock subject_id (py_str (jget kwargs ''seedbox_id'')) None)
      else if td_tool_name d = ''broadcast_seedbox_donation''
      then (case Option.bind (er_output r) to_evidence of
              None \<Rightarrow> ret ()
            | Some ev \<Rightarrow>
                gw_record (record_seedbox_donation E I clock subject_id ev
                  (truthy (jget kwargs ''stolen_from_honest_agent''))))
      else if td_tool_name d = ''submit_seedbox_proof'' \<and> truthy (output_json r)
      then gw_append C subject_id (action_value SEEDBOX_PROOF_OF_SERVICE) 0 (as_dict (output_json r)) None
      else ret ())"

definition record_result :: "gw_conf \<Rightarrow> string \<Rightarrow> tool_decision \<Rightarrow> execution_result \<Rightarrow> (unit, gateway) step" where
  "record_result C subject_id d r =
     (let E = gc_env C; I = gc_identity C; clock = gc_clock C in
      seq (modify (\<lambda>G. if er_executed r then G\<lparr>gw_executed := Suc (gw_executed G)\<rparr> else G)) (\<lambda>_.
      if er_attack_success r then
        (if td_tool_name d = ''exfiltrate_private_key''
         then gw_record (record_private_key_exfiltration E I clock subject_id (td_payload_id d) None)
         else gw_record (record_unauthorized_execution E I clock subject_id (td_tool_name d)
                (Some [(''payload_id'', td_payload_id d)]) None))
      else if \<not> er_executed r \<and> \<not> er_authorized r
      then gw_record (record_unauthorized_request E I clock subject_id (td_tool_name d)
             (Some [(''payload_id'', td_payload_id d), (''reason'', JStr (er_reason r))]) None)
      else if er_executed r
      then seq (gw_append C subject_id (action_value TOOL_EXECUTION_SUCCESS) 0 (execution_details d r) None) (\<lambda>_.
             note_execution C subject_id d r)
      else ret ()))"

definition tool_decision_for :: "gw_conf \<Rightarrow> nat \<Rightarrow> dict \<Rightarrow> string \<Rightarrow> string \<Rightarrow> dict \<Rightarrow> tool_decision" where
  "tool_decision_for C n payload subject_id tool_name kwargs =
     \<lparr>td_tool_name = tool_name, td_tool_kwargs = normalize_tool_kwargs C n subject_id tool_name kwargs,
      td_reason = ''real OpenClaw tool request via '' @ py_str (get_or payload ''source'' (JStr ''openclaw'')),
      td_source_payload = JStr [], td_payload_id = jget payload ''payload_id'', td_sender_id = JStr subject_id\<rparr>"

definition text_or :: "json \<Rightarrow> string \<Rightarrow> string" where
  "text_or v s = (if truthy v then py_str v else s)"

definition mode_name :: "gateway_mode \<Rightarrow> string" where
  "mode_name m = (case m of Defended \<Rightarrow> ''defended'' | Baseline \<Rightarrow> ''baseline'')"

definition start_call :: "gateway \<Rightarrow> gateway" where
  "start_call G = G\<lparr>gw_tool_calls := Suc (gw_tool_calls G), gw_monitor := next_step (gw_monitor G)\<rparr>"

text \<open>The reply to a banned subject, and the execution of a decision with its reply.\<close>

definition refuse_banned :: "string \<Rightarrow> string \<Rightarrow> (json, gateway) step" where
  "refuse_banned subject_id tool_name G =
     (let G1 = G\<lparr>gw_blocked := Suc (gw_blocked G),
                 gw_monitor := record_blocked_action subject_id (gw_monitor G)\<rparr>
      in (Inr (JObj [(''ok'', JBool False), (''blocked'', JBool True),
                (''reason'', JStr ''blocked: subject is reputation-banned''),
                (''agent_id'', JStr subject_id), (''tool_name'', JStr tool_name),
                (''reputation'', reputation_dict G1 subject_id)]), G1))"

definition run_decision :: "gw_conf \<Rightarrow> string \<Rightarrow> tool_decision \<Rightarrow> (json, gateway) step" where
  "run_decision C subject_id d G =
     (let (result, G1) = (case gc_mode C of
            Baseline \<Rightarrow> execute_baseline C d G | Defended \<Rightarrow> execute_defended C d G)
      in seq (record_result C subject_id d result) (\<lambda>_. seq (gw_scan C) (\<lambda>_ G2.
         (Inr (JObj [(''ok'', JBool (er_executed result \<and> \<not> er_attack_success result)),
                     (''blocked'', JBool (\<not> er_executed result)), (''mode'', JStr (mode_name (gc_mode C))),
                     (''agent_id'', JStr subject_id), (''result'', result_dict result),
                     (''reputation'', reputation_dict G2 subject_id)]), G2))) G1)"

definition handle_tool_call :: "gw_conf \<Rightarrow> dict \<Rightarrow> (json, gateway) step" where
  "handle_tool_call C payload =
     (let subject_id = text_or (jget payload ''agent_id'') (gc_local_agent_id C);
          tool_name = text_or (jget payload ''tool_name'') []
      in seq (modify start_call) (\<lambda>_.
         seq (raising (dict_of (jget payload ''tool_kwargs''))) (\<lambda>kwargs.
         seq (gw_scan C) (\<lambda>_ G.
           if is_banned (m_reputation (gw_monitor G)) subject_id then refuse_banned subject_id tool_name G
           else run_decision C subject_id
                  (tool_decision_for C (gw_tool_calls G) payload subject_id tool_name kwargs) G))))"

section \<open>Security reports and audits\<close>

definition handle_security_report :: "gw_conf \<Rightarrow> dict \<Rightarrow> (json, gateway) step" where
  "handle_security_report C payload =
     (let subject_id = text_or (jget payload ''subject_id'')
                         (text_or (jget payload ''agent_id'') (gc_local_agent_id C));
          action = text_or (jget payload ''action'') (action_value UNAUTHORIZED_TOOL_REQUEST);
          default = (case map_of default_weights action of None \<Rightarrow> 10 | Some w \<Rightarrow> w)
      in seq (modify (\<lambda>G. G\<lparr>gw_monitor := next_step (gw_monitor G)\<rparr>)) (\<lambda>_.
         seq (raising (dict_of (jget payload ''details''))) (\<lambda>details.
         seq (raising (to_int (gc_ftrunc C) (get_or payload ''severity'' (JInt default)))) (\<lambda>severity.
         seq (raising (dict_of (jget payload ''evidence''))) (\<lambda>evidence.
         seq (gw_append C subject_id action severity details (Some evidence)) (\<lambda>_.
         seq (gw_scan C) (\<lambda>_ G.
           (Inr (JObj [(''ok'', JBool True), (''subject_id'', JStr subject_id),
                       (''reputation'', reputation_dict G subject_id)]), G))))))))"

definition audit_details :: "gateway \<Rightarrow> string \<Rightarrow> seedbox \<Rightarrow> dict" where
  "audit_details G seedbox_id s =
     [(''step'', JInt (current_step (gw_monitor G))), (''seedbox_id'', JStr seedbox_id),
      (''owner_id'', JStr (sb_owner_id s)),
      (''donation_count'', JInt (int (length (filter (\<lambda>d. dn_seedbox_id d = seedbox_id) (gw_donations G))))),
      (''proof_count'', JInt (int (length (proofs_for_seedbox (gw_proofs G) seedbox_id))))]"

definition audit_due :: "gateway \<Rightarrow> string \<Rightarrow> bool" where
  "audit_due G seedbox_id =
     ((\<exists>d \<in> set (gw_donations G). dn_seedbox_id d = seedbox_id) \<and>
      proofs_for_seedbox (gw_proofs G) seedbox_id = [] \<and> seedbox_id \<notin> set (gw_audits G))"

fun audit_loop :: "gw_conf \<Rightarrow> dict list \<Rightarrow> seedbox_registry \<Rightarrow> (dict list, gateway) step" where
  "audit_loop C findings [] G = (Inr findings, G)"
| "audit_loop C findings ((seedbox_id, s) # rest) G =
     (if \<not> audit_due G seedbox_id then audit_loop C findings rest G
      else
        (let G1 = G\<lparr>gw_audits := List.insert seedbox_id (gw_audits G)\<rparr>; details = audit_details G1 seedbox_id s
         in seq (gw_append C (sb_owner_id s) (action_value SEEDBOX_MISSING_PROOF)
                   (default_weight (JStr (action_value SEEDBOX_MISSING_PROOF))) details None)
              (\<lambda>_. audit_loop C (findings @ [details]) rest) G1))"

definition audit_seedboxes :: "gw_conf \<Rightarrow> (json, gateway) step" where
  "audit_seedboxes C =
     seq (modify (\<lambda>G. G\<lparr>gw_monitor := next_step (gw_monitor G)\<rparr>)) (\<lambda>_.
     seq (\<lambda>G. audit_loop C [] (gw_registry G) G) (\<lambda>findings.
     seq (gw_scan C) (\<lambda>_.
     ret (JObj [(''ok'', JBool True), (''findings'', JList (map JObj findings)),
                (''finding_count'', JInt (int (length findings)))]))))"

section \<open>Metrics\<close>

record gateway_metrics =
  gm_tool_calls :: nat
  gm_executed :: nat
  gm_blocked :: nat
  gm_integrity_ok :: bool
  gm_integrity_errors :: "message list"
  gm_scores :: "(json \<times> int) list"
  gm_banned :: "json set"
  gm_seedboxes :: nat
  gm_files :: nat
  gm_reload_errors :: "reload_error list"

definition gateway_metrics_of :: "gw_conf \<Rightarrow> (gateway_metrics, gateway) step" where
  "gateway_metrics_of C G0 =
     (let (ok, errors) = verify_integrity (gc_env C) (id_network (gc_identity C)) (m_file (gw_monitor G0)) in
      seq (gw_scan C) (\<lambda>_ G.
        (Inr \<lparr>gm_tool_calls = gw_tool_calls G, gm_executed = gw_executed G, gm_blocked = gw_blocked G,
              gm_integrity_ok = ok, gm_integrity_errors = errors,
              gm_scores = scores (m_reputation (gw_monitor G)),
              gm_banned = set (banned_agents (m_reputation (gw_monitor G))),
              gm_seedboxes = length (gw_registry G), gm_files = length (gw_files G),
              gm_reload_errors = gw_reload_errors G\<rparr>, G)) G0)"

definition reputation_snapshot :: "gw_conf \<Rightarrow> string \<Rightarrow> (json, gateway) step" where
  "reputation_snapshot C agent_id = seq (gw_scan C) (\<lambda>_ G. (Inr (reputation_dict G agent_id), G))"

section \<open>POST routes\<close>

text \<open>
  A reply with its status; no reply at all for a body that is the JSON null, which the code
  takes for one already answered.  The body is the decoded text.
\<close>

definition donation_payload :: "dict \<Rightarrow> dict" where
  "donation_payload payload =
     (let p = AList.update ''tool_name'' (JStr ''broadcast_seedbox_donation'') payload;
          kwargs = jget p ''tool_kwargs''
      in AList.update ''tool_kwargs''
           (if truthy kwargs then kwargs
            else JObj (filter (\<lambda>(k, _). k \<notin> {''agent_id'', ''tool_name'', ''payload_id'', ''source''}) p)) p)"

definition gateway_post :: "gw_conf \<Rightarrow> string \<Rightarrow> string \<Rightarrow> ((nat \<times> json) option, gateway) step" where
  "gateway_post C route body = (case loads (float_repr (gc_env C)) (if body = [] then ''{}'' else body) of
     None \<Rightarrow> ret (Some (400, JObj [(''ok'', JBool False), (''error'', JStr ''invalid json'')]))
   | Some v \<Rightarrow>
       if v = JNull then ret None
       else if route = ''/tool-call'' then
         (case v of JObj p \<Rightarrow> seq (handle_tool_call C p) (\<lambda>r. ret (Some (200, r)))
          | _ \<Rightarrow> seq (modify start_call) (\<lambda>_. raising (Inl AttributeError)))
       else if route = ''/security-report'' then
         (case v of JObj p \<Rightarrow> seq (handle_security_report C p) (\<lambda>r. ret (Some (200, r)))
          | _ \<Rightarrow> seq (modify (\<lambda>G. G\<lparr>gw_monitor := next_step (gw_monitor G)\<rparr>)) (\<lambda>_. raising (Inl AttributeError)))
       else if route = ''/audit/seedboxes'' then seq (audit_seedboxes C) (\<lambda>r. ret (Some (200, r)))
       else if route = ''/donation'' then
         (case v of JObj p \<Rightarrow> seq (handle_tool_call C (donation_payload p)) (\<lambda>r. ret (Some (200, r)))
          | _ \<Rightarrow> raising (Inl TypeError))
       else ret (Some (404, JObj [(''ok'', JBool False), (''error'', JStr (''unknown route '' @ route))])))"

section \<open>Reload\<close>

definition restore_seedbox :: "gw_conf \<Rightarrow> json \<Rightarrow> gateway \<Rightarrow> gateway res" where
  "restore_seedbox C v G = (case v of
     JObj d \<Rightarrow>
       bindr (str_arg d ''seedbox_id'') (\<lambda>seedbox_id.
       bindr (str_arg d ''owner_id'') (\<lambda>owner_id.
       bindr (str_arg d ''donation_address'') (\<lambda>address.
       bindr (int_arg C d ''advertised_capacity_gb'') (\<lambda>capacity.
       Inr (G\<lparr>gw_registry := AList.update seedbox_id
         \<lparr>sb_seedbox_id = seedbox_id, sb_owner_id = owner_id, sb_donation_address = address,
          sb_capacity_gb = capacity, sb_created_at = str_or d ''created_at'' [], sb_fake = bool_or d ''fake''\<rparr>
         (gw_registry G)\<rparr>)))))
   | _ \<Rightarrow> Inr G)"

definition restore_bitcoin_anchor :: "gw_conf \<Rightarrow> json \<Rightarrow> bitcoin_anchor option res" where
  "restore_bitcoin_anchor C v = (case v of
     JObj d \<Rightarrow>
       if d = [] then Inr None
       else
         bindr (str_arg d ''txid'') (\<lambda>txid.
         bindr (str_arg d ''donation_address'') (\<lambda>address.
         bindr (int_arg C d ''amount_sats'') (\<lambda>amount.
         bindr (str_arg d ''seedbox_id'') (\<lambda>seedbox_id.
         bindr (int_or C d ''confirmations'' 0) (\<lambda>confirmations.
         bindr (opt_int C (jget d ''output_index'')) (\<lambda>output_index.
         Inr (Some \<lparr>ba_txid = txid, ba_donation_address = address, ba_amount_sats = amount,
           ba_seedbox_id = seedbox_id, ba_network = str_or d ''network'' ''mock'',
           ba_confirmations = confirmations, ba_output_index = output_index,
           ba_verified = bool_or d ''verified'', ba_verification_reason = str_or d ''verification_reason'' [],
           ba_anchor_id = str_or d ''anchor_id'' []\<rparr>)))))))
   | _ \<Rightarrow> Inr None)"

text \<open>A record of a seedbox that is not registered is an error.\<close>

definition known_seedbox :: "gateway \<Rightarrow> dict \<Rightarrow> string res" where
  "known_seedbox G d = bindr (str_arg d ''seedbox_id'') (\<lambda>seedbox_id.
     if map_of (gw_registry G) seedbox_id = None then Inl (KeyError (''unknown seedbox '' @ seedbox_id))
     else Inr seedbox_id)"

definition restore_donation :: "gw_conf \<Rightarrow> json \<Rightarrow> gateway \<Rightarrow> gateway res" where
  "restore_donation C v G = (case v of
     JObj d \<Rightarrow>
       bindr (known_seedbox G d) (\<lambda>seedbox_id.
       bindr (str_arg d ''donation_id'') (\<lambda>donation_id.
       bindr (str_arg d ''donor_id'') (\<lambda>donor_id.
       bindr (str_arg d ''recipient_id'') (\<lambda>recipient_id.
       bindr (int_arg C d ''amount_sats'') (\<lambda>amount.
       bindr (str_arg d ''txid'') (\<lambda>txid.
       bindr (restore_bitcoin_anchor C (jget d ''bitcoin_anchor'')) (\<lambda>anchor.
       Inr (G\<lparr>gw_donations := filter (\<lambda>x. dn_donation_id x \<noteq> donation_id) (gw_donations G) @
         [\<lparr>dn_donation_id = donation_id, dn_seedbox_id = seedbox_id, dn_donor_id = donor_id,
           dn_recipient_id = recipient_id, dn_amount_sats = amount, dn_txid = txid,
           dn_timestamp = str_or d ''timestamp'' [], dn_self_donation = bool_or d ''self_donation'',
           dn_fake_seedbox = bool_or d ''fake_seedbox'', dn_stolen = bool_or d ''stolen_from_honest_agent'',
           dn_anchor = anchor\<rparr>]\<rparr>))))))))
   | _ \<Rightarrow> Inr G)"

definition restore_service_proof :: "gw_conf \<Rightarrow> json \<Rightarrow> gateway \<Rightarrow> gateway res" where
  "restore_service_proof C v G = (case v of
     JObj d \<Rightarrow>
       bindr (known_seedbox G d) (\<lambda>seedbox_id.
       bindr (str_arg d ''proof_id'') (\<lambda>proof_id.
       bindr (str_arg d ''prover_id'') (\<lambda>prover_id.
       bindr (str_arg d ''storage_url'') (\<lambda>storage_url.
       bindr (str_arg d ''nonce'') (\<lambda>nonce.
       Inr (G\<lparr>gw_proofs := filter (\<lambda>x. sp_proof_id x \<noteq> proof_id) (gw_proofs G) @
         [\<lparr>sp_proof_id = proof_id, sp_seedbox_id = seedbox_id, sp_prover_id = prover_id,
           sp_storage_url = storage_url, sp_nonce = nonce, sp_timestamp = str_or d ''timestamp'' []\<rparr>]\<rparr>))))))
   | _ \<Rightarrow> Inr G)"

definition restore_atomic_microtask :: "gw_conf \<Rightarrow> json \<Rightarrow> gateway \<Rightarrow> gateway res" where
  "restore_atomic_microtask C v G = (case v of
     JObj d \<Rightarrow>
       bindr (known_seedbox G d) (\<lambda>seedbox_id.
       bindr (str_arg d ''task_id'') (\<lambda>task_id.
       bindr (str_arg d ''prover_id'') (\<lambda>prover_id.
       bindr (str_arg d ''task_type'') (\<lambda>task_type.
       bindr (str_arg d ''file_hash'') (\<lambda>file_hash.
       bindr (str_arg d ''result_hash'') (\<lambda>result_hash.
       Inr (G\<lparr>gw_microtasks := gw_microtasks G @
         [\<lparr>mt_task_id = task_id, mt_seedbox_id = seedbox_id, mt_prover_id = prover_id,
           mt_task_type = task_type, mt_file_hash = file_hash, mt_result_hash = result_hash,
           mt_timestamp = str_or d ''timestamp'' [], mt_verified = bool_or d ''verified''\<rparr>]\<rparr>)))))))
   | _ \<Rightarrow> Inr G)"

definition restore_indexed_file :: "gw_conf \<Rightarrow> json \<Rightarrow> gateway \<Rightarrow> gateway res" where
  "restore_indexed_file C v G = (case v of
     JObj d \<Rightarrow>
       bindr (known_seedbox G d) (\<lambda>seedbox_id.
       bindr (str_arg d ''file_id'') (\<lambda>file_id.
       bindr (str_arg d ''name'') (\<lambda>name.
       bindr (str_arg d ''content_url'') (\<lambda>content_url.
       bindr (int_or C d ''size_bytes'' 0) (\<lambda>size.
       bindr (tags_of (get_or d ''tags'' (JList []))) (\<lambda>tags.
       Inr (G\<lparr>gw_files := filter (\<lambda>x. if_file_id x \<noteq> file_id) (gw_files G) @
         [\<lparr>if_file_id = file_id, if_seedbox_id = seedbox_id, if_name = name, if_content_url = content_url,
           if_sha256 = str_or d ''sha256'' [], if_size_bytes = size, if_media_type = str_or d ''media_type'' [],
           if_tags = tags, if_indexed_at = str_or d ''indexed_at'' []\<rparr>]\<rparr>)))))))
   | _ \<Rightarrow> Inr G)"

text \<open>
  The restored record of an executed tool, by the name of the tool; the last comparison but
  one is membership in a set, which raises on a name that cannot be hashed.
\<close>

definition replay_output :: "gw_conf \<Rightarrow> json \<Rightarrow> dict \<Rightarrow> gateway \<Rightarrow> gateway res" where
  "replay_output C tool out G =
     (if tool = JStr ''register_seedbox'' then restore_seedbox C (JObj out) G
      else if tool = JStr ''broadcast_seedbox_donation'' then restore_donation C (jget out ''donation'') G
      else if tool = JStr ''submit_seedbox_proof'' then restore_service_proof C (jget out ''proof'') G
      else if \<not> hashable tool then Inl TypeError
      else if tool = JStr ''submit_atomic_microtask'' \<or> tool = JStr ''verify_atomic_microtask''
      then restore_atomic_microtask C (jget out ''microtask'') G
      else if tool = JStr ''index_seedbox_file'' then restore_indexed_file C (jget out ''file'') G
      else Inr G)"

definition replay_log_entry :: "gw_conf \<Rightarrow> dict \<Rightarrow> gateway \<Rightarrow> gateway res" where
  "replay_log_entry C entry G =
     (let action = jget entry ''action'' in
      case jget entry ''details'' of
        JObj details \<Rightarrow>
          if action = JStr (action_value SEEDBOX_MISSING_PROOF) then
            (let seedbox_id = jget details ''seedbox_id'' in
             Inr (if truthy seedbox_id then G\<lparr>gw_audits := List.insert (py_str seedbox_id) (gw_audits G)\<rparr> else G))
          else if action \<noteq> JStr (action_value TOOL_EXECUTION_SUCCESS) then Inr G
          else (case jget details ''output'' of
             JObj out \<Rightarrow> replay_output C (jget details ''tool'') out G
           | _ \<Rightarrow> Inr G)
      | _ \<Rightarrow> Inr G)"

definition entry_step :: "dict \<Rightarrow> int option" where
  "entry_step entry = (case jget entry ''details'' of
     JObj details \<Rightarrow> (case jget details ''step'' of JInt n \<Rightarrow> Some n | _ \<Rightarrow> None)
   | _ \<Rightarrow> None)"

definition raise_step :: "int option \<Rightarrow> gateway \<Rightarrow> gateway" where
  "raise_step s G = (case s of
     None \<Rightarrow> G
   | Some n \<Rightarrow> G\<lparr>gw_monitor := (gw_monitor G)\<lparr>current_step := max (current_step (gw_monitor G)) n\<rparr>\<rparr>)"

definition reload_entry :: "gw_conf \<Rightarrow> gateway \<Rightarrow> dict \<Rightarrow> gateway" where
  "reload_entry C G0 entry =
     (let G = raise_step (entry_step entry) G0 in
      case replay_log_entry C entry G of
        Inr G' \<Rightarrow> G'
      | Inl x \<Rightarrow>
          G\<lparr>gw_reload_errors := gw_reload_errors G @
            [NotReplayed (get_or entry ''action'' (JStr ''<unknown>''))
              (take 12 (py_str (get_or entry ''entry_hash'' (JStr [])))) x]\<rparr>)"

definition reload_runtime_state :: "gw_conf \<Rightarrow> (unit, gateway) step" where
  "reload_runtime_state C G =
     (let f = m_file (gw_monitor G);
          (ok, errors) = verify_integrity (gc_env C) (id_network (gc_identity C)) f
      in if \<not> ok then (Inr (), G\<lparr>gw_reload_errors := gw_reload_errors G @ map LogBroken errors\<rparr>)
         else (case read_entries (gc_env C) f of
           Inl x \<Rightarrow> (Inl x, G)
         | Inr es \<Rightarrow> (Inr (), foldl (reload_entry C) G es)))"

definition empty_gateway :: "monitor \<Rightarrow> gateway" where
  "empty_gateway M =
     \<lparr>gw_monitor = M, gw_registry = [], gw_donations = [], gw_proofs = [], gw_microtasks = [], gw_files = [],
      gw_tool_calls = 0, gw_blocked = 0, gw_executed = 0, gw_audits = [], gw_reload_errors = []\<rparr>"

text \<open>A gateway starts on a log file: its own instance, engine and monitor, then the reload.\<close>

definition start_gateway :: "gw_conf \<Rightarrow> int \<Rightarrow> log_file \<Rightarrow> unit res \<times> gateway" where
  "start_gateway C threshold f =
     (let (f', inst) = open_log (fst (gc_clock C 0)) f
      in reload_runtime_state C
           (empty_gateway (open_monitor f' inst (open_reputation threshold) (id_hash (gc_identity C)) 1)))"

section \<open>Configuration files\<close>

text \<open>\<open>load_env_file\<close> on the lines of the file, and the boolean reading of a value.\<close>

definition env_line :: "string \<Rightarrow> (string \<times> string) option" where
  "env_line raw =
     (let line = strip raw in
      if line = [] \<or> startswith line ''#'' \<or> CHR ''='' \<notin> set line then None
      else
        (let key = takeWhile (\<lambda>c. c \<noteq> CHR ''='') line;
             value = tl (dropWhile (\<lambda>c. c \<noteq> CHR ''='') line)
         in Some (strip key, strip_char sq (strip_char dq (strip value)))))"

definition load_env_lines :: "string list \<Rightarrow> (string \<times> string) list" where
  "load_env_lines ls =
     foldl (\<lambda>d l. case env_line l of None \<Rightarrow> d | Some (k, v) \<Rightarrow> AList.update k v d) [] ls"

definition env_or :: "(string \<Rightarrow> string option) \<Rightarrow> (string \<times> string) list \<Rightarrow> string \<Rightarrow> string \<Rightarrow> string" where
  "env_or environ config key default_value =
     (case environ key of
        Some v \<Rightarrow> if v \<noteq> [] then v else (case map_of config key of Some w \<Rightarrow> if w \<noteq> [] then w else default_value | None \<Rightarrow> default_value)
      | None \<Rightarrow> (case map_of config key of Some w \<Rightarrow> if w \<noteq> [] then w else default_value | None \<Rightarrow> default_value))"

definition env_bool :: "(string \<Rightarrow> string option) \<Rightarrow> (string \<times> string) list \<Rightarrow> string \<Rightarrow> bool \<Rightarrow> bool" where
  "env_bool environ config key default_value =
     (let v = (case environ key of Some w \<Rightarrow> if w \<noteq> [] then Some w else map_of config key | None \<Rightarrow> map_of config key)
      in case v of None \<Rightarrow> default_value
         | Some t \<Rightarrow> lower (strip t) \<in> {''1'', ''true'', ''yes'', ''on''})"

end
