(* ===== verification/Gateway_Proofs.thy ===== *)
theory Gateway_Proofs
  imports Gateway_Requests Accountability_Spec Privilege_Spec
begin

text \<open>
  Lemmas on the gateway: every operation extends the verified log by entries it knows, the
  ledgers change only through the tools, and replaying the success entry of a tool makes the
  same change to the ledgers as the tool did.
\<close>

section \<open>Entries the gateway writes\<close>

abbreviation fr :: "gw_conf \<Rightarrow> string \<Rightarrow> string" where
  "fr C \<equiv> float_repr (gc_env C)"

definition conf_ok :: "gw_conf \<Rightarrow> bool" where
  "conf_ok C = identity_ok (gc_env C) (gc_identity C)"

abbreviation logs :: "gw_conf \<Rightarrow> monitor \<Rightarrow> dict list \<Rightarrow> bool" where
  "logs C M es \<equiv> monitor_ok (gc_env C) (gc_identity C) M es"

definition entry_of :: "string \<Rightarrow> dict \<Rightarrow> dict \<Rightarrow> bool" where
  "entry_of act details e = (jget e ''action'' = JStr act \<and> jget e ''details'' = JObj details)"

text \<open>An entry the reload passes over.\<close>

definition neutral :: "dict \<Rightarrow> bool" where
  "neutral e = (\<exists>act details. entry_of act details e \<and>
     act \<noteq> action_value TOOL_EXECUTION_SUCCESS \<and> act \<noteq> action_value SEEDBOX_MISSING_PROOF)"

lemma build_entry_of: "entry_of act details (build_entry E I ts p (id_hash I) s act details sev evid)"
proof -
  note other = seal_get_other [OF payload_unsealed(1)]
  show ?thesis
    unfolding build_entry_fields entry_of_def
    by (simp add: other) (simp add: payload_fields_def get_or_def Let_def)
qed

lemma records_entry_of: "records s a details e \<Longrightarrow> entry_of (action_value a) details e"
  by (simp add: records_def entry_of_def)

lemma gw_append_ok:
  assumes "logs C (gw_monitor G) es" and "conf_ok C"
    and "wf_dict (fr C) details" and "evidence_wf (gc_env C) evid"
  obtains M' e where "gw_append C s act sev details evid G = (Inr (), G\<lparr>gw_monitor := M'\<rparr>)"
    and "logs C M' (es @ [e])" and "entry_of act details e"
proof -
  let ?M = "gw_monitor G"
  obtain now ts where t: "gc_clock C (m_tick ?M) = (now, ts)" by (cases "gc_clock C (m_tick ?M)")
  have st: "log_state_ok (gc_env C) (id_network (gc_identity C)) (m_file ?M) (m_inst ?M) es"
    and r: "m_reporter_id ?M = id_hash (gc_identity C)"
    using assms(1) by (simp_all add: monitor_ok_def)
  obtain p e f inst where
    app: "append_event (gc_env C) (gc_identity C) (m_file ?M) (m_inst ?M) now ts (id_hash (gc_identity C)) s act
        details sev evid = Inr (e, f, inst)"
    and e: "e = build_entry (gc_env C) (gc_identity C) ts (JStr p) (id_hash (gc_identity C)) s act details sev evid"
    and ok: "log_state_ok (gc_env C) (id_network (gc_identity C)) f inst (es @ [e])"
    using append_event_ok [OF st assms(2) [unfolded conf_ok_def] assms(3,4)] by metis
  show thesis
  proof (rule that)
    show "gw_append C s act sev details evid G =
        (Inr (), G\<lparr>gw_monitor := ?M\<lparr>m_file := f, m_inst := inst, m_tick := Suc (m_tick ?M)\<rparr>\<rparr>)"
      by (simp add: gw_append_def t app Let_def)
    show "logs C (?M\<lparr>m_file := f, m_inst := inst, m_tick := Suc (m_tick ?M)\<rparr>) (es @ [e])"
      using ok r by (simp add: monitor_ok_def)
    show "entry_of act details e" unfolding e by (rule build_entry_of)
  qed
qed

section \<open>What the monitor writes\<close>

text \<open>An operation of the monitor that only adds neutral entries to a verified log.\<close>

definition adds_neutral :: "gw_conf \<Rightarrow> (monitor \<Rightarrow> monitor res) \<Rightarrow> bool" where
  "adds_neutral C f = (\<forall>M es. logs C M es \<longrightarrow>
     (\<exists>M' ns. f M = Inr M' \<and> logs C M' (es @ ns) \<and> list_all neutral ns))"

lemma adds_neutralE:
  assumes "adds_neutral C f" and "logs C M es"
  obtains M' ns where "f M = Inr M'" "logs C M' (es @ ns)" "list_all neutral ns"
  using assms unfolding adds_neutral_def by blast

lemma log_action_neutral:
  assumes "logs C M es" and "conf_ok C" and "wf_dict (fr C) details" and "evidence_wf (gc_env C) evid"
    and "a \<noteq> TOOL_EXECUTION_SUCCESS" and "a \<noteq> SEEDBOX_MISSING_PROOF"
  obtains M' e where "log_action (gc_env C) (gc_identity C) clock s a details evid M = Inr M'"
    and "logs C M' (es @ [e])" and "neutral e"
proof -
  obtain M' e where m: "log_action (gc_env C) (gc_identity C) clock s a details evid M = Inr M'"
    "logs C M' (es @ [e])" "records s a details e"
    using log_action_ok [OF assms(1) assms(2) [unfolded conf_ok_def] assms(3,4)] by metis
  moreover have "neutral e"
    using records_entry_of [OF m(3)] assms(5,6) by (cases a) (auto simp: neutral_def)
  ultimately show thesis using that by blast
qed

text \<open>One logged action after a change \<open>g\<close> of the counters.\<close>

definition same_log :: "(monitor \<Rightarrow> monitor) \<Rightarrow> bool" where
  "same_log g = (\<forall>M. m_file (g M) = m_file M \<and> m_inst (g M) = m_inst M \<and> m_reporter_id (g M) = m_reporter_id M)"

lemma same_log_ok: "same_log g \<Longrightarrow> monitor_ok E I (g M) es = monitor_ok E I M es"
  by (simp add: same_log_def monitor_ok_def)

lemma adds_neutral_log_action:
  assumes "conf_ok C" and "same_log g"
    and "\<And>M. wf_dict (fr C) (details M)" and "evidence_wf (gc_env C) evid"
    and "a \<noteq> TOOL_EXECUTION_SUCCESS" and "a \<noteq> SEEDBOX_MISSING_PROOF"
  shows "adds_neutral C (\<lambda>M. log_action (gc_env C) (gc_identity C) clock s a (details M) evid (g M))"
  unfolding adds_neutral_def
proof (intro allI impI)
  fix M es
  assume "logs C M es"
  then have "logs C (g M) es" by (simp add: same_log_ok [OF assms(2)])
  from log_action_neutral [OF this assms(1) assms(3) assms(4-6)]
  obtain M' e where "log_action (gc_env C) (gc_identity C) clock s a (details M) evid (g M) = Inr M'"
    "logs C M' (es @ [e])" "neutral e" by metis
  then show "\<exists>M' ns. log_action (gc_env C) (gc_identity C) clock s a (details M) evid (g M) = Inr M' \<and>
      logs C M' (es @ ns) \<and> list_all neutral ns"
    by (intro exI [of _ M'] exI [of _ "[e]"]) simp
qed

lemma evidence_wf_None [simp]: "evidence_wf E None"
  by (simp add: evidence_wf_def)

lemma adds_neutral_bind:
  assumes "adds_neutral C f" and "adds_neutral C g"
  shows "adds_neutral C (\<lambda>M. bindr (f M) g)"
  unfolding adds_neutral_def
proof (intro allI impI)
  fix M es
  assume "logs C M es"
  then obtain M1 ns where 1: "f M = Inr M1" "logs C M1 (es @ ns)" "list_all neutral ns"
    by (rule adds_neutralE [OF assms(1)])
  obtain M2 ms where "g M1 = Inr M2" "logs C M2 ((es @ ns) @ ms)" "list_all neutral ms"
    by (rule adds_neutralE [OF assms(2) 1(2)])
  with 1 show "\<exists>M' ns. bindr (f M) g = Inr M' \<and> logs C M' (es @ ns) \<and> list_all neutral ns"
    by (intro exI [of _ M2] exI [of _ "ns @ ms"]) simp
qed

lemma adds_neutral_Inr: "same_log g \<Longrightarrow> adds_neutral C (\<lambda>M. Inr (g M))"
  by (auto simp: adds_neutral_def same_log_ok intro: exI [of _ "[]"])

lemma step_details_wf: "wf_dict f d \<Longrightarrow> wf_dict f (step_details M tool (Some d))"
  unfolding step_details_def option.case by (rule wf_merge) simp_all

lemmas monitor_counters = attempt_def record_malicious_step_def same_log_def

lemma unauthorized_execution_neutral:
  assumes "conf_ok C" and "wf_dict (fr C) d"
  shows "adds_neutral C (record_unauthorized_execution (gc_env C) (gc_identity C) clock s tool (Some d) None)"
  unfolding record_unauthorized_execution_def Let_def
  by (rule adds_neutral_log_action [OF assms(1)])
    (simp_all add: monitor_counters step_details_wf assms(2) del: wf_json.simps)

lemma unauthorized_request_neutral:
  assumes "conf_ok C" and "wf_dict (fr C) d"
  shows "adds_neutral C (record_unauthorized_request (gc_env C) (gc_identity C) clock s tool (Some d) None)"
  unfolding record_unauthorized_request_def Let_def
  by (rule adds_neutral_log_action [OF assms(1)])
    (simp_all add: monitor_counters step_details_wf assms(2) del: wf_json.simps)

lemma key_exfiltration_neutral:
  assumes "conf_ok C" and "wf_json (fr C) payload_id"
  shows "adds_neutral C (record_private_key_exfiltration (gc_env C) (gc_identity C) clock s payload_id None)"
  unfolding record_private_key_exfiltration_def Let_def
  by (rule adds_neutral_log_action [OF assms(1)]) (simp_all add: monitor_counters assms(2))

lemma fake_seedbox_neutral:
  assumes "conf_ok C"
  shows "adds_neutral C (record_fake_seedbox_creation (gc_env C) (gc_identity C) clock s seedbox_id None)"
  unfolding record_fake_seedbox_creation_def Let_def
  by (rule adds_neutral_log_action [OF assms(1)]) (simp_all add: monitor_counters)

lemma microtask_neutral:
  assumes "conf_ok C"
  shows "adds_neutral C (record_atomic_microtask (gc_env C) (gc_identity C) clock s t)"
  unfolding record_atomic_microtask_def Let_def
  by (rule adds_neutral_log_action [OF assms(1)]) (simp_all add: monitor_counters)

lemma rejected_microtask_neutral:
  assumes "conf_ok C"
  shows "adds_neutral C (record_rejected_atomic_microtask (gc_env C) (gc_identity C) clock s task_id expected actual)"
  unfolding record_rejected_atomic_microtask_def Let_def
  by (rule adds_neutral_log_action [OF assms(1)]) (simp_all add: monitor_counters)

definition count_donation :: "string \<Rightarrow> donation_evidence \<Rightarrow> bool \<Rightarrow> monitor \<Rightarrow> monitor" where
  "count_donation s d stolen M =
     (let M1 = attempt s M;
          M2 = (if de_fake_seedbox d \<or> de_self_donation d
                then record_malicious_step s (M1\<lparr>fake_donations := bump (fake_donations M1) s\<rparr>) else M1)
      in if stolen then record_malicious_step s (M2\<lparr>honest_stolen := bump (honest_stolen M2) s\<rparr>) else M2)"

definition note_wash_trade ::
  "gw_conf \<Rightarrow> (nat \<Rightarrow> nat \<times> string) \<Rightarrow> string \<Rightarrow> donation_evidence \<Rightarrow> monitor \<Rightarrow> monitor res" where
  "note_wash_trade C clock s d M =
     log_action (gc_env C) (gc_identity C) clock s WASH_TRADE_DETECTED
       [(''step'', JInt (current_step M)), (''donation_id'', JStr (de_donation_id d)),
        (''seedbox_id'', JStr (de_seedbox_id d)), (''donor_id'', JStr (de_donor_id d)),
        (''recipient_id'', JStr (de_recipient_id d))] None (M\<lparr>wash_trades := bump (wash_trades M) s\<rparr>)"

lemma record_seedbox_donation_parts:
  "record_seedbox_donation (gc_env C) (gc_identity C) clock s d stolen =
     (\<lambda>M. bindr (log_action (gc_env C) (gc_identity C) clock s SEEDBOX_DONATION_BROADCAST
                  (donation_details (current_step (count_donation s d stolen M)) d stolen) None
                  (count_donation s d stolen M))
            (if de_self_donation d then note_wash_trade C clock s d else (\<lambda>M. Inr M)))"
  by (rule ext) (simp add: record_seedbox_donation_def count_donation_def note_wash_trade_def [abs_def] Let_def)

lemma donation_neutral:
  assumes "conf_ok C" and "wf_dict (fr C) (de_anchor d)"
  shows "adds_neutral C (record_seedbox_donation (gc_env C) (gc_identity C) clock s d stolen)"
  unfolding record_seedbox_donation_parts
proof (rule adds_neutral_bind)
  show "adds_neutral C (\<lambda>M. log_action (gc_env C) (gc_identity C) clock s SEEDBOX_DONATION_BROADCAST
      (donation_details (current_step (count_donation s d stolen M)) d stolen) None (count_donation s d stolen M))"
    by (rule adds_neutral_log_action [OF assms(1)])
      (use assms(2) in \<open>simp_all add: monitor_counters count_donation_def Let_def donation_details_def
         split: option.splits\<close>)
  have "adds_neutral C (note_wash_trade C clock s d)"
    unfolding note_wash_trade_def by (rule adds_neutral_log_action [OF assms(1)]) (simp_all add: monitor_counters)
  moreover have "adds_neutral C (\<lambda>M. Inr M)" by (rule adds_neutral_Inr) (simp add: same_log_def)
  ultimately show "adds_neutral C (if de_self_donation d then note_wash_trade C clock s d else (\<lambda>M. Inr M))" by simp
qed

section \<open>Ledgers and their mirror after a reload\<close>

text \<open>
  The last record of each id, in the order the last records were made: what replacing the
  record of an id leaves.
\<close>

definition latest :: "('a \<Rightarrow> 'b) \<Rightarrow> 'a list \<Rightarrow> 'a list" where
  "latest f xs = foldl (\<lambda>ys x. filter (\<lambda>y. f y \<noteq> f x) ys @ [x]) [] xs"

lemma latest_snoc [simp]: "latest f (xs @ [x]) = filter (\<lambda>y. f y \<noteq> f x) (latest f xs) @ [x]"
  by (simp add: latest_def)

lemma latest_Nil [simp]: "latest f [] = []"
  by (simp add: latest_def)

lemma set_latest: "set (latest f xs) \<subseteq> set xs"
  by (induction xs rule: rev_induct) auto

lemma latest_distinct: "distinct (map f xs) \<Longrightarrow> latest f xs = xs"
proof (induction xs rule: rev_induct)
  case (snoc x xs)
  then have "filter (\<lambda>y. f y \<noteq> f x) xs = xs" by (intro filter_True) (auto simp: rev_image_eqI)
  with snoc show ?case by simp
qed simp

definition mirrors :: "gateway \<Rightarrow> gateway \<Rightarrow> bool" where
  "mirrors H G =
     (gw_registry H = gw_registry G \<and>
      gw_donations H = latest dn_donation_id (gw_donations G) \<and>
      gw_proofs H = latest sp_proof_id (gw_proofs G) \<and>
      gw_microtasks H = gw_microtasks G \<and> gw_files H = gw_files G \<and>
      gw_audits H = filter (\<lambda>s. s \<noteq> []) (gw_audits G) \<and> gw_reload_errors H = [])"

lemma mirrors_raise_step [simp]: "mirrors (raise_step s H) G = mirrors H G"
  by (simp add: raise_step_def mirrors_def split: option.splits)

lemma mirrors_counters [simp]:
  "mirrors H (G\<lparr>gw_monitor := M\<rparr>) = mirrors H G" "mirrors H (G\<lparr>gw_blocked := n\<rparr>) = mirrors H G"
  "mirrors H (G\<lparr>gw_executed := n\<rparr>) = mirrors H G" "mirrors H (G\<lparr>gw_tool_calls := n\<rparr>) = mirrors H G"
  by (simp_all add: mirrors_def)

lemma reload_neutral: "neutral e \<Longrightarrow> mirrors H G \<Longrightarrow> mirrors (reload_entry C H e) G"
  by (auto simp: neutral_def entry_of_def reload_entry_def replay_log_entry_def Let_def)

lemma reload_all_neutral:
  "list_all neutral ns \<Longrightarrow> mirrors H G \<Longrightarrow> mirrors (foldl (reload_entry C) H ns) G"
  by (induction ns arbitrary: H) (simp_all add: reload_neutral)

text \<open>Every record names a registered seedbox, and the registry files a seedbox under its id.\<close>

definition ledgers_ok :: "gateway \<Rightarrow> bool" where
  "ledgers_ok G =
     ((\<forall>(k, s) \<in> set (gw_registry G). sb_seedbox_id s = k) \<and>
      dn_seedbox_id ` set (gw_donations G) \<subseteq> fst ` set (gw_registry G) \<and>
      sp_seedbox_id ` set (gw_proofs G) \<subseteq> fst ` set (gw_registry G) \<and>
      mt_seedbox_id ` set (gw_microtasks G) \<subseteq> fst ` set (gw_registry G) \<and>
      if_seedbox_id ` set (gw_files G) \<subseteq> fst ` set (gw_registry G))"

lemma ledgers_ok_counters [simp]:
  "ledgers_ok (G\<lparr>gw_monitor := M\<rparr>) = ledgers_ok G" "ledgers_ok (G\<lparr>gw_blocked := n\<rparr>) = ledgers_ok G"
  "ledgers_ok (G\<lparr>gw_executed := n\<rparr>) = ledgers_ok G" "ledgers_ok (G\<lparr>gw_tool_calls := n\<rparr>) = ledgers_ok G"
  "ledgers_ok (G\<lparr>gw_audits := a\<rparr>) = ledgers_ok G"
  by (simp_all add: ledgers_ok_def)

section \<open>Steps that a reload follows\<close>

text \<open>
  A change of a gateway is followed when it extends the verified log by entries whose replay
  turns every mirror of the old state into a mirror of the new one.
\<close>

definition advances :: "gw_conf \<Rightarrow> gateway \<Rightarrow> gateway \<Rightarrow> bool" where
  "advances C G G' = (\<forall>es. logs C (gw_monitor G) es \<and> ledgers_ok G \<longrightarrow>
     (\<exists>ns. logs C (gw_monitor G') (es @ ns) \<and> ledgers_ok G' \<and>
       (\<forall>H. mirrors H G \<longrightarrow> mirrors (foldl (reload_entry C) H ns) G')))"

definition followed :: "gw_conf \<Rightarrow> ('a, gateway) step \<Rightarrow> bool" where
  "followed C m = (\<forall>G. advances C G (snd (m G)))"

lemma advances_refl [simp]: "advances C G G"
  by (auto simp: advances_def intro: exI [of _ "[]"])

lemma advances_trans:
  assumes "advances C G1 G2" and "advances C G2 G3"
  shows "advances C G1 G3"
  unfolding advances_def
proof (intro allI impI)
  fix es
  assume "logs C (gw_monitor G1) es \<and> ledgers_ok G1"
  then obtain ns where 1: "logs C (gw_monitor G2) (es @ ns)" "ledgers_ok G2"
    "\<forall>H. mirrors H G1 \<longrightarrow> mirrors (foldl (reload_entry C) H ns) G2"
    using assms(1) unfolding advances_def by blast
  then obtain ms where "logs C (gw_monitor G3) ((es @ ns) @ ms)" "ledgers_ok G3"
    "\<forall>H. mirrors H G2 \<longrightarrow> mirrors (foldl (reload_entry C) H ms) G3"
    using assms(2) unfolding advances_def by blast
  with 1 show "\<exists>ns. logs C (gw_monitor G3) (es @ ns) \<and> ledgers_ok G3 \<and>
      (\<forall>H. mirrors H G1 \<longrightarrow> mirrors (foldl (reload_entry C) H ns) G3)"
    by (intro exI [of _ "ns @ ms"]) simp
qed

lemma advances_counters:
  "advances C G (G\<lparr>gw_blocked := n\<rparr>)" "advances C G (G\<lparr>gw_executed := n\<rparr>)" "advances C G (G\<lparr>gw_tool_calls := n\<rparr>)"
  by (auto simp: advances_def intro: exI [of _ "[]"])

lemma advances_monitor:
  assumes "m_file M = m_file (gw_monitor G)" "m_inst M = m_inst (gw_monitor G)"
    "m_reporter_id M = m_reporter_id (gw_monitor G)"
  shows "advances C G (G\<lparr>gw_monitor := M\<rparr>)"
  using assms by (auto simp: advances_def monitor_ok_def intro!: exI [of _ "[]"])

lemma advances_neutral:
  assumes "\<And>es. logs C (gw_monitor G) es \<Longrightarrow> \<exists>ns. logs C M (es @ ns) \<and> list_all neutral ns"
  shows "advances C G (G\<lparr>gw_monitor := M\<rparr>)"
  unfolding advances_def using assms by (auto dest!: reload_all_neutral) (metis reload_all_neutral)

lemma followed_seq:
  assumes "followed C m" and "\<And>a. followed C (k a)"
  shows "followed C (seq m k)"
  unfolding followed_def
proof
  fix G
  obtain r G1 where m: "m G = (r, G1)" by (cases "m G")
  have 1: "advances C G G1" using assms(1) m unfolding followed_def by (metis snd_conv)
  show "advances C G (snd (seq m k G))"
  proof (cases r)
    case (Inl x)
    then show ?thesis using 1 by (simp add: seq_def m)
  next
    case (Inr a)
    have "advances C G1 (snd (k a G1))" using assms(2) by (simp add: followed_def)
    with 1 Inr show ?thesis by (simp add: seq_def m) (rule advances_trans)
  qed
qed

lemma followed_ret [simp]: "followed C (ret a)" "followed C (raising r)"
  by (simp_all add: followed_def ret_def raising_def)

lemma followed_modify: "(\<And>G. advances C G (f G)) \<Longrightarrow> followed C (modify f)"
  by (simp add: followed_def modify_def)

lemma followed_record:
  assumes "adds_neutral C f"
  shows "followed C (gw_record f)"
  unfolding followed_def
proof
  fix G
  show "advances C G (snd (gw_record f G))"
  proof (cases "f (gw_monitor G)")
    case (Inl x)
    then show ?thesis by (simp add: gw_record_def)
  next
    case (Inr M)
    have "advances C G (G\<lparr>gw_monitor := M\<rparr>)"
      by (rule advances_neutral) (metis Inr adds_neutralE [OF assms] sum.inject(2))
    with Inr show ?thesis by (simp add: gw_record_def)
  qed
qed

lemma followed_scan: "followed C (gw_scan C)"
  unfolding followed_def gw_scan_def Let_def
  by (auto split: prod.splits option.splits intro!: advances_monitor)

lemma followed_append_neutral:
  assumes "conf_ok C" and "wf_dict (fr C) details" and "evidence_wf (gc_env C) evid"
    and "act \<noteq> action_value TOOL_EXECUTION_SUCCESS" and "act \<noteq> action_value SEEDBOX_MISSING_PROOF"
  shows "followed C (gw_append C s act sev details evid)"
  unfolding followed_def advances_def
proof (intro allI impI)
  fix G es
  assume G: "logs C (gw_monitor G) es \<and> ledgers_ok G"
  then obtain M' e where a: "gw_append C s act sev details evid G = (Inr (), G\<lparr>gw_monitor := M'\<rparr>)"
    "logs C M' (es @ [e])" "entry_of act details e"
    using gw_append_ok [OF conjunct1 [OF G] assms(1-3)] by metis
  then have "neutral e" using assms(4,5) by (auto simp: neutral_def)
  with a G show "\<exists>ns. logs C (gw_monitor (snd (gw_append C s act sev details evid G))) (es @ ns) \<and>
      ledgers_ok (snd (gw_append C s act sev details evid G)) \<and>
      (\<forall>H. mirrors H G \<longrightarrow> mirrors (foldl (reload_entry C) H ns) (snd (gw_append C s act sev details evid G)))"
    by (intro exI [of _ "[e]"]) (simp add: reload_neutral)
qed

section \<open>Tools that a reload follows\<close>

text \<open>
  What a tool may do: add neutral entries, and change the ledgers in the way that replaying
  its output does; a call that raises changes no ledger.
\<close>

definition wf_output :: "gw_conf \<Rightarrow> tool_output \<Rightarrow> bool" where
  "wf_output C out = (wf_json (fr C) (to_json out) \<and>
     (\<forall>ev. to_evidence out = Some ev \<longrightarrow> wf_dict (fr C) (de_anchor ev)))"

definition replays :: "gw_conf \<Rightarrow> string \<Rightarrow> tool_output \<Rightarrow> gateway \<Rightarrow> gateway \<Rightarrow> bool" where
  "replays C name out G G' = (\<forall>H. mirrors H G \<longrightarrow>
     (case to_json out of
        JObj d \<Rightarrow> \<exists>H'. replay_output C (JStr name) d H = Inr H' \<and> mirrors H' G'
      | _ \<Rightarrow> mirrors H G'))"

definition tool_ok :: "gw_conf \<Rightarrow> string \<Rightarrow> gateway handler \<Rightarrow> bool" where
  "tool_ok C name handler = (\<forall>kwargs G es. wf_dict (fr C) kwargs \<and> logs C (gw_monitor G) es \<and> ledgers_ok G \<longrightarrow>
     (\<exists>ns. logs C (gw_monitor (snd (handler kwargs G))) (es @ ns) \<and> list_all neutral ns \<and>
       ledgers_ok (snd (handler kwargs G)) \<and>
       (case fst (handler kwargs G) of
          Inl x \<Rightarrow> \<forall>H. mirrors H G \<longrightarrow> mirrors H (snd (handler kwargs G))
        | Inr out \<Rightarrow> wf_output C out \<and> replays C name out G (snd (handler kwargs G)))))"

text \<open>A tool that writes nothing to the log.\<close>

lemma tool_ok_quiet:
  assumes "\<And>kwargs G out G'. wf_dict (fr C) kwargs \<Longrightarrow> handler kwargs G = (Inr out, G') \<Longrightarrow>
      gw_monitor G' = gw_monitor G \<and> wf_output C out \<and> replays C name out G G' \<and>
      (ledgers_ok G \<longrightarrow> ledgers_ok G')"
    and "\<And>kwargs G x G'. handler kwargs G = (Inl x, G') \<Longrightarrow> G' = G"
  shows "tool_ok C name handler"
  unfolding tool_ok_def
proof (intro allI impI)
  fix kwargs G es
  assume a: "wf_dict (fr C) kwargs \<and> logs C (gw_monitor G) es \<and> ledgers_ok G"
  show "\<exists>ns. logs C (gw_monitor (snd (handler kwargs G))) (es @ ns) \<and> list_all neutral ns \<and>
       ledgers_ok (snd (handler kwargs G)) \<and>
       (case fst (handler kwargs G) of
          Inl x \<Rightarrow> \<forall>H. mirrors H G \<longrightarrow> mirrors H (snd (handler kwargs G))
        | Inr out \<Rightarrow> wf_output C out \<and> replays C name out G (snd (handler kwargs G)))"
  proof (cases "handler kwargs G")
    case (Pair r G')
    show ?thesis
    proof (cases r)
      case (Inl x)
      with Pair a assms(2) [of kwargs G x G'] show ?thesis by (intro exI [of _ "[]"]) simp
    next
      case (Inr out)
      with Pair a assms(1) [of kwargs G out G'] show ?thesis by (intro exI [of _ "[]"]) simp
    qed
  qed
qed

lemma replays_read_only:
  assumes "name \<notin> {''register_seedbox'', ''broadcast_seedbox_donation'', ''submit_seedbox_proof'',
      ''submit_atomic_microtask'', ''verify_atomic_microtask'', ''index_seedbox_file''}"
  shows "replays C name out G G"
  using assms by (simp add: replays_def replay_output_def split: json.splits)

lemma commit_cases:
  "commit G r = (Inr out, G') \<longleftrightarrow> r = Inr (out, G')"
  "commit G r = (Inl x, G') \<longleftrightarrow> r = Inl x \<and> G' = G"
  by (auto simp: commit_def split: sum.splits prod.splits)

lemma wf_output_plain [simp]: "wf_output C (plain_output v) = wf_json (fr C) v"
  by (simp add: wf_output_def plain_output_def)

lemma plain_output_json [simp]: "to_json (plain_output v) = v"
  by (simp add: plain_output_def)

end
