(* ===== verification/Gateway_Replay.thy ===== *)
theory Gateway_Replay
  imports Gateway_Proofs
begin

text \<open>
  The replay of a tool's output: reading back the JSON form of a record gives the record, and
  every tool of the gateway is followed by the replay of its success entry.
\<close>

section \<open>Records read back\<close>

lemmas reading = str_arg_def int_arg_def arg_def str_or_def int_or_def bool_or_def opt_int_def
  get_or_def py_str_def to_int_def

lemma restore_seedbox_dict:
  "restore_seedbox C (seedbox_dict s) H =
     Inr (H\<lparr>gw_registry := AList.update (sb_seedbox_id s) s (gw_registry H)\<rparr>)"
  by (cases s) (simp add: restore_seedbox_def seedbox_dict_def reading)

lemma restore_anchor_dict:
  "restore_bitcoin_anchor C (case a of None \<Rightarrow> JNull | Some b \<Rightarrow> JObj (anchor_dict b)) = Inr a"
proof (cases a)
  case None
  then show ?thesis by (simp add: restore_bitcoin_anchor_def)
next
  case (Some b)
  then show ?thesis
    by (cases "ba_output_index b") (simp_all add: restore_bitcoin_anchor_def anchor_dict_def reading)
qed

lemma known_seedbox_member:
  "map_of d ''seedbox_id'' = Some (JStr k) \<Longrightarrow> k \<in> fst ` set (gw_registry H) \<Longrightarrow> known_seedbox H d = Inr k"
  by (simp add: known_seedbox_def str_arg_def arg_def py_str_def map_of_eq_None_iff)

lemma restore_donation_dict:
  assumes "dn_seedbox_id d \<in> fst ` set (gw_registry H)"
  shows "restore_donation C (donation_dict d) H =
     Inr (H\<lparr>gw_donations := filter (\<lambda>x. dn_donation_id x \<noteq> dn_donation_id d) (gw_donations H) @ [d]\<rparr>)"
proof -
  have "jget [(''donation_id'', JStr (dn_donation_id d)), (''seedbox_id'', JStr (dn_seedbox_id d)),
      (''donor_id'', JStr (dn_donor_id d)), (''recipient_id'', JStr (dn_recipient_id d)),
      (''amount_sats'', JInt (dn_amount_sats d)), (''txid'', JStr (dn_txid d)),
      (''timestamp'', JStr (dn_timestamp d)), (''self_donation'', JBool (dn_self_donation d)),
      (''fake_seedbox'', JBool (dn_fake_seedbox d)), (''stolen_from_honest_agent'', JBool (dn_stolen d)),
      (''bitcoin_anchor'', v)] ''bitcoin_anchor'' = v" for v
    by (simp add: get_or_def)
  then show ?thesis
    using assms
    by (simp add: restore_donation_def donation_dict_def known_seedbox_member restore_anchor_dict
        del: get_or_def) (simp add: reading)
qed

lemma restore_proof_dict:
  "sp_seedbox_id p \<in> fst ` set (gw_registry H) \<Longrightarrow>
     restore_service_proof C (proof_dict p) H =
       Inr (H\<lparr>gw_proofs := filter (\<lambda>x. sp_proof_id x \<noteq> sp_proof_id p) (gw_proofs H) @ [p]\<rparr>)"
  by (simp add: restore_service_proof_def proof_dict_def known_seedbox_member) (simp add: reading)

lemma restore_microtask_dict:
  "mt_seedbox_id t \<in> fst ` set (gw_registry H) \<Longrightarrow>
     restore_atomic_microtask C (microtask_dict t) H = Inr (H\<lparr>gw_microtasks := gw_microtasks H @ [t]\<rparr>)"
  by (simp add: restore_atomic_microtask_def microtask_dict_def known_seedbox_member) (simp add: reading)

lemma restore_file_dict:
  "if_seedbox_id f \<in> fst ` set (gw_registry H) \<Longrightarrow>
     restore_indexed_file C (file_dict f) H =
       Inr (H\<lparr>gw_files := filter (\<lambda>x. if_file_id x \<noteq> if_file_id f) (gw_files H) @ [f]\<rparr>)"
  by (simp add: restore_indexed_file_def file_dict_def known_seedbox_member)
    (simp add: reading tags_of_def comp_def)

lemma wf_dicts:
  "wf_json rf (seedbox_dict s)" "wf_json rf (donation_dict d)" "wf_json rf (donation_evidence_dict (donation_evidence_of d))"
  "wf_json rf (proof_dict p)" "wf_json rf (microtask_dict t)" "wf_json rf (microtask_evidence_dict te)"
  "wf_json rf (file_dict f)" "wf_dict rf (anchor_dict a)"
  "wf_dict rf (de_anchor (donation_evidence_of d))"
proof -
  show a: "wf_dict rf (anchor_dict a)" for a by (simp add: anchor_dict_def split: option.splits)
  then have m: "wf_members rf (anchor_dict a)" "dict_ok (anchor_dict a)" for a by simp_all
  show "wf_json rf (donation_dict d)" "wf_json rf (donation_evidence_dict (donation_evidence_of d))"
    "wf_dict rf (de_anchor (donation_evidence_of d))"
    using m by (simp_all add: donation_dict_def donation_evidence_dict_def donation_evidence_of_def split: option.splits)
qed (simp_all add: seedbox_dict_def proof_dict_def microtask_dict_def microtask_evidence_dict_def file_dict_def
    wf_list_iff)

section \<open>Every tool is followed\<close>

lemma registry_get_member: "registry_get R k = Inr s \<Longrightarrow> k \<in> fst ` set R"
  by (auto simp: registry_get_def dest!: map_of_SomeD split: option.splits intro: rev_image_eqI)

lemma keys_update: "fst ` set (AList.update k v d) = insert k (fst ` set d)"
  by (simp add: dom_update [symmetric] flip: dom_map_of_conv_image_fst)
    (simp add: update_conv' dom_map_of_conv_image_fst)

lemma set_update_subset: "set (AList.update k v d) \<subseteq> insert (k, v) (set d)"
  by (induction d) auto

lemma ledger_appends:
  "broadcast_donation R ds now i k donor n tx b a = Inr (d, ds') \<Longrightarrow>
     dn_seedbox_id d \<in> fst ` set R \<and> ds' = ds @ [d]"
  "submit_proof R ps now i k prover url nonce = Inr (p, ps') \<Longrightarrow>
     sp_seedbox_id p \<in> fst ` set R \<and> ps' = ps @ [p]"
  "submit_result R ts now i k prover ty fh rh v = Inr (t, ts') \<Longrightarrow>
     mt_seedbox_id t \<in> fst ` set R \<and> ts' = ts @ [t]"
  "index_file R fs item = Inr (f, fs') \<Longrightarrow>
     if_seedbox_id f \<in> fst ` set R \<and> fs' = filter (\<lambda>x. if_file_id x \<noteq> if_file_id f) fs @ [f]"
  by (auto simp: broadcast_donation_def submit_proof_def submit_result_def index_file_def bindr_Inr_iff Let_def
      dest: registry_get_member)

lemma replaysI:
  "to_json out = JObj d \<Longrightarrow>
     (\<And>H. mirrors H G \<Longrightarrow> \<exists>H'. replay_output C (JStr name) d H = Inr H' \<and> mirrors H' G') \<Longrightarrow>
     replays C name out G G'"
  by (simp add: replays_def)

lemma replays_object:
  assumes "\<And>H. mirrors H G \<Longrightarrow> \<exists>H'. replay_output C (JStr name) d H = Inr H' \<and> mirrors H' G'"
  shows "replays C name (plain_output (JObj d)) G G'" "replays C name \<lparr>to_json = JObj d, to_evidence = ev\<rparr> G G'"
  using assms by (auto intro!: replaysI)

lemma register_seedbox_tool_ok: "tool_ok C ''register_seedbox'' (register_seedbox_tool C)"
proof (rule tool_ok_quiet)
  fix kwargs G out G'
  assume "register_seedbox_tool C kwargs G = (Inr out, G')"
  then obtain s where s: "out = plain_output (seedbox_dict s)"
    "G' = G\<lparr>gw_registry := AList.update (sb_seedbox_id s) s (gw_registry G)\<rparr>"
    by (auto simp: register_seedbox_tool_def commit_cases bindr_Inr_iff register_def Let_def)
  obtain d where d: "seedbox_dict s = JObj d" by (simp add: seedbox_dict_def)
  have "replays C ''register_seedbox'' out G G'"
    by (rule replaysI [of _ d])
      (simp_all add: s d replay_output_def restore_seedbox_dict [of C s, unfolded d] mirrors_def)
  moreover have "ledgers_ok G \<longrightarrow> ledgers_ok G'"
    by (auto simp: s ledgers_ok_def keys_update dest!: set_update_subset [THEN subsetD])
  ultimately show "gw_monitor G' = gw_monitor G \<and> wf_output C out \<and>
      replays C ''register_seedbox'' out G G' \<and> (ledgers_ok G \<longrightarrow> ledgers_ok G')"
    by (simp add: s wf_dicts)
qed (simp add: register_seedbox_tool_def commit_cases)


lemma broadcast_donation_tool_ok: "tool_ok C ''broadcast_seedbox_donation'' (broadcast_donation_tool C)"
proof (rule tool_ok_quiet)
  fix kwargs G out G'
  assume "broadcast_donation_tool C kwargs G = (Inr out, G')"
  then obtain d where d: "dn_seedbox_id d \<in> fst ` set (gw_registry G)"
    "out = \<lparr>to_json = JObj [(''donation'', donation_dict d),
       (''donation_evidence'', donation_evidence_dict (donation_evidence_of d))],
       to_evidence = Some (donation_evidence_of d)\<rparr>"
    "G' = G\<lparr>gw_donations := gw_donations G @ [d]\<rparr>"
    by (auto simp: broadcast_donation_tool_def commit_cases bindr_Inr_iff Let_def
        dest!: ledger_appends)
  have "replays C ''broadcast_seedbox_donation'' out G G'"
    unfolding d(2)
    by (rule replays_object) (use d(1) in \<open>simp add: d(3) replay_output_def get_or_def restore_donation_dict mirrors_def\<close>)
  moreover have "wf_output C out"
    using wf_dicts(9) [of "fr C" d] by (simp add: d(2) wf_output_def wf_dicts)
  ultimately show "gw_monitor G' = gw_monitor G \<and> wf_output C out \<and>
      replays C ''broadcast_seedbox_donation'' out G G' \<and> (ledgers_ok G \<longrightarrow> ledgers_ok G')"
    using d(1) by (auto simp: d(3) ledgers_ok_def)
qed (simp add: broadcast_donation_tool_def commit_cases)

lemma submit_proof_tool_ok: "tool_ok C ''submit_seedbox_proof'' (submit_proof_tool C)"
proof (rule tool_ok_quiet)
  fix kwargs G out G'
  assume "submit_proof_tool C kwargs G = (Inr out, G')"
  then obtain p where p: "sp_seedbox_id p \<in> fst ` set (gw_registry G)"
    "out = plain_output (JObj [(''proof'', proof_dict p)])"
    "G' = G\<lparr>gw_proofs := gw_proofs G @ [p]\<rparr>"
    by (auto simp: submit_proof_tool_def commit_cases bindr_Inr_iff Let_def
        dest!: ledger_appends)
  have "replays C ''submit_seedbox_proof'' out G G'"
    unfolding p(2)
    by (rule replays_object) (use p(1) in \<open>simp add: p(3) replay_output_def get_or_def restore_proof_dict mirrors_def\<close>)
  then show "gw_monitor G' = gw_monitor G \<and> wf_output C out \<and>
      replays C ''submit_seedbox_proof'' out G G' \<and> (ledgers_ok G \<longrightarrow> ledgers_ok G')"
    using p(1) by (auto simp: p(2,3) wf_dicts ledgers_ok_def)
qed (simp add: submit_proof_tool_def commit_cases)

lemma index_file_tool_ok: "tool_ok C ''index_seedbox_file'' (index_file_tool C)"
proof (rule tool_ok_quiet)
  fix kwargs G out G'
  assume "index_file_tool C kwargs G = (Inr out, G')"
  then obtain f where f: "if_seedbox_id f \<in> fst ` set (gw_registry G)"
    "out = plain_output (JObj [(''indexed'', JBool True), (''file'', file_dict f)])"
    "G' = G\<lparr>gw_files := filter (\<lambda>x. if_file_id x \<noteq> if_file_id f) (gw_files G) @ [f]\<rparr>"
    by (auto simp: index_file_tool_def commit_cases bindr_Inr_iff Let_def
        dest!: ledger_appends)
  have "replays C ''index_seedbox_file'' out G G'"
    unfolding f(2)
    by (rule replays_object) (use f(1) in \<open>simp add: f(3) replay_output_def get_or_def restore_file_dict mirrors_def\<close>)
  then show "gw_monitor G' = gw_monitor G \<and> wf_output C out \<and>
      replays C ''index_seedbox_file'' out G G' \<and> (ledgers_ok G \<longrightarrow> ledgers_ok G')"
    using f(1) by (auto simp: f(2,3) wf_dicts ledgers_ok_def)
qed (simp add: index_file_tool_def commit_cases)

text \<open>The tools that only read.\<close>

lemma tool_ok_read_only:
  assumes "name \<notin> {''register_seedbox'', ''broadcast_seedbox_donation'', ''submit_seedbox_proof'',
      ''submit_atomic_microtask'', ''verify_atomic_microtask'', ''index_seedbox_file''}"
    and "\<And>kwargs G r G'. wf_dict (fr C) kwargs \<Longrightarrow> handler kwargs G = (r, G') \<Longrightarrow>
      G' = G \<and> (case r of Inl _ \<Rightarrow> True | Inr out \<Rightarrow> wf_output C out)"
    and "\<And>kwargs G. snd (handler kwargs G) = G"
  shows "tool_ok C name handler"
proof (rule tool_ok_quiet)
  fix kwargs G out G'
  assume "wf_dict (fr C) kwargs" "handler kwargs G = (Inr out, G')"
  from assms(2) [OF this] show "gw_monitor G' = gw_monitor G \<and> wf_output C out \<and>
      replays C name out G G' \<and> (ledgers_ok G \<longrightarrow> ledgers_ok G')"
    using replays_read_only [OF assms(1)] by simp
next
  fix kwargs G x G'
  assume "handler kwargs G = (Inl x, G')"
  then show "G' = G" using assms(3) [of kwargs G] by simp
qed

lemma report_event_tool_ok: "tool_ok C ''report_security_event'' report_event_tool"
  by (rule tool_ok_read_only) (auto simp: report_event_tool_def)

lemma list_files_tool_ok: "tool_ok C ''list_seedbox_files'' list_files_tool"
  by (rule tool_ok_read_only) (auto simp: list_files_tool_def wf_list_iff wf_dicts)

lemma search_files_tool_ok: "tool_ok C ''search_seedbox_files'' search_files_tool"
  by (rule tool_ok_read_only) (auto simp: search_files_tool_def Let_def wf_list_iff wf_dicts)

lemma pick_file_tool_ok: "tool_ok C ''pick_random_seedbox_file'' (pick_file_tool C)"
  by (rule tool_ok_read_only)
    (auto simp: pick_file_tool_def Let_def commit_def wf_dicts bindr_def split: sum.splits)

lemma default_tools_ok: "(name, p) \<in> set default_tools \<Longrightarrow> tool_ok C name (tp_handler p)"
  unfolding default_tools_def
  by (elim set_ConsD [elim_format] disjE) (auto intro!: tool_ok_read_only simp: wf_get)


section \<open>The microtask tools\<close>

lemma note_microtask_ok:
  assumes "conf_ok C" and "logs C (gw_monitor G) es"
  obtains M ns where "note_microtask C s t out G = (Inr (plain_output (JObj out)), G\<lparr>gw_monitor := M\<rparr>)"
    "logs C M (es @ ns)" "list_all neutral ns"
proof -
  obtain M ns where "record_atomic_microtask (gc_env C) (gc_identity C) (gc_clock C) s (microtask_evidence_of t)
      (gw_monitor G) = Inr M" "logs C M (es @ ns)" "list_all neutral ns"
    by (rule adds_neutralE [OF microtask_neutral [OF assms(1)] assms(2)])
  then show thesis by (intro that [of M ns]) (simp_all add: note_microtask_def)
qed

text \<open>A microtask added to the ledger, noted by the monitor and returned.\<close>

lemma microtask_added:
  assumes "conf_ok C" and "logs C (gw_monitor G) es" and "ledgers_ok G"
    and "name \<in> {''submit_atomic_microtask'', ''verify_atomic_microtask''}"
    and "mt_seedbox_id t \<in> fst ` set (gw_registry G)"
    and "jget out ''microtask'' = microtask_dict t" and "wf_dict (fr C) out"
    and "r = note_microtask C s t out (G\<lparr>gw_microtasks := gw_microtasks G @ [t]\<rparr>)"
  shows "\<exists>ns. logs C (gw_monitor (snd r)) (es @ ns) \<and> list_all neutral ns \<and> ledgers_ok (snd r) \<and>
       (case fst r of
          Inl x \<Rightarrow> \<forall>H. mirrors H G \<longrightarrow> mirrors H (snd r)
        | Inr v \<Rightarrow> wf_output C v \<and> replays C name v G (snd r))"
proof -
  let ?G = "G\<lparr>gw_microtasks := gw_microtasks G @ [t]\<rparr>"
  have "logs C (gw_monitor ?G) es" using assms(2) by simp
  then obtain M ns where n: "note_microtask C s t out ?G = (Inr (plain_output (JObj out)), ?G\<lparr>gw_monitor := M\<rparr>)"
    "logs C M (es @ ns)" "list_all neutral ns"
    by (rule note_microtask_ok [OF assms(1)])
  have "replays C name (plain_output (JObj out)) G (?G\<lparr>gw_monitor := M\<rparr>)"
    by (rule replays_object)
      (use assms(4-6) in \<open>elim insertE emptyE; simp add: replay_output_def restore_microtask_dict mirrors_def\<close>)
  moreover have "ledgers_ok ?G" using assms(3,5) by (auto simp: ledgers_ok_def)
  ultimately show ?thesis using n assms(7)
    by (intro exI [of _ ns]) (simp add: assms(8) del: wf_json.simps)
qed

lemma microtask_output_simps:
  "jget (microtask_output t) ''microtask'' = microtask_dict t" "wf_dict rf (microtask_output t)"
  "jget ((''verified'', JBool True) # microtask_output t) ''microtask'' = microtask_dict t"
  "wf_dict rf ((''verified'', JBool True) # microtask_output t)"
  by (simp_all add: microtask_output_def wf_dicts get_or_def)

lemma result_split:
  "X = (case r of Inl x \<Rightarrow> f x | Inr (t, ts) \<Rightarrow> g t ts) \<Longrightarrow>
     (\<exists>x. r = Inl x \<and> X = f x) \<or> (\<exists>t ts. r = Inr (t, ts) \<and> X = g t ts)"
  by (auto split: sum.splits prod.splits)

lemma submit_microtask_tool_ok:
  assumes "conf_ok C"
  shows "tool_ok C ''submit_atomic_microtask'' (submit_microtask_tool C)"
  unfolding tool_ok_def
proof (intro allI impI)
  fix kwargs G es
  assume a: "wf_dict (fr C) kwargs \<and> logs C (gw_monitor G) es \<and> ledgers_ok G"
  consider (raises) x where "submit_microtask_tool C kwargs G = (Inl x, G)"
    | (adds) t s where "submit_microtask_tool C kwargs G =
          note_microtask C s t (microtask_output t) (G\<lparr>gw_microtasks := gw_microtasks G @ [t]\<rparr>)"
        "mt_seedbox_id t \<in> fst ` set (gw_registry G)"
    using result_split [OF submit_microtask_tool_def [of C kwargs G]]
    by (auto simp: bindr_Inr_iff dest!: ledger_appends(3))
  then show "\<exists>ns. logs C (gw_monitor (snd (submit_microtask_tool C kwargs G))) (es @ ns) \<and> list_all neutral ns \<and>
       ledgers_ok (snd (submit_microtask_tool C kwargs G)) \<and>
       (case fst (submit_microtask_tool C kwargs G) of
          Inl x \<Rightarrow> \<forall>H. mirrors H G \<longrightarrow> mirrors H (snd (submit_microtask_tool C kwargs G))
        | Inr out \<Rightarrow> wf_output C out \<and>
            replays C ''submit_atomic_microtask'' out G (snd (submit_microtask_tool C kwargs G)))"
  proof cases
    case raises
    then show ?thesis using a by (intro exI [of _ "[]"]) simp
  next
    case adds
    show ?thesis
      by (rule microtask_added [OF assms _ _ _ adds(2) microtask_output_simps(1,2) adds(1)]) (use a in simp_all)
  qed
qed


lemma verify_result_appends:
  assumes "verify_result ts k h = Inr (t, ts')"
  shows "ts' = ts @ [t]" "mt_seedbox_id t \<in> mt_seedbox_id ` set ts"
proof -
  obtain u where u: "microtask_get ts k = Inr u" "t = u\<lparr>mt_verified := True\<rparr>" "ts' = ts @ [t]"
    using assms by (auto simp: verify_result_def bindr_Inr_iff Let_def split: if_splits)
  then show "ts' = ts @ [t]" by simp
  have "u \<in> set ts"
    using u(1) by (auto simp: microtask_get_def find_Some_iff split: option.splits) (metis nth_mem set_rev length_rev)
  then show "mt_seedbox_id t \<in> mt_seedbox_id ` set ts" by (simp add: u(2))
qed

lemma verify_microtask_tool_cases:
  obtains (raises) x where "verify_microtask_tool C kwargs G = (Inl x, G)"
    | (rejects) x s k h h' where "verify_microtask_tool C kwargs G =
        (case record_rejected_atomic_microtask (gc_env C) (gc_identity C)
          (gc_clock C) s k h h' (gw_monitor G) of Inl y \<Rightarrow> (Inl y, G) | Inr M \<Rightarrow> (Inl x, G\<lparr>gw_monitor := M\<rparr>))"
    | (adds) t s where "verify_microtask_tool C kwargs G =
        note_microtask C s t ((''verified'', JBool True) # microtask_output t)
          (G\<lparr>gw_microtasks := gw_microtasks G @ [t]\<rparr>)"
        "mt_seedbox_id t \<in> mt_seedbox_id ` set (gw_microtasks G)"
proof -
  let ?reject = "\<lambda>x s k h h'. case record_rejected_atomic_microtask (gc_env C) (gc_identity C)
      (gc_clock C) s k h h' (gw_monitor G) of Inl y \<Rightarrow> (Inl y, G) | Inr M \<Rightarrow> (Inl x, G\<lparr>gw_monitor := M\<rparr>)"
  let ?note = "\<lambda>t ts. note_microtask C (mt_prover_id t) t ((''verified'', JBool True) # microtask_output t)
      (G\<lparr>gw_microtasks := ts\<rparr>)"
  from result_split [OF verify_microtask_tool_def [of C kwargs G]] show thesis
  proof (elim disjE exE conjE)
    fix x
    assume "verify_microtask_tool C kwargs G = (Inl x, G)"
    then show thesis by (rule raises)
  next
    fix k p
    assume r: "verify_microtask_tool C kwargs G = (case p of (h, c) \<Rightarrow> (case verify_result (gw_microtasks G) k h of
        Inl x \<Rightarrow> ?reject x (mt_prover_id c) k h (mt_result_hash c) | Inr (t, ts) \<Rightarrow> ?note t ts))"
    obtain h c where "p = (h, c)" by (cases p)
    note r [unfolded this prod.case]
    from result_split [OF this] show thesis
    proof (elim disjE exE conjE)
      fix x
      assume "verify_microtask_tool C kwargs G = ?reject x (mt_prover_id c) k h (mt_result_hash c)"
      then show thesis by (rule rejects)
    next
      fix t ts
      assume v: "verify_result (gw_microtasks G) k h = Inr (t, ts)" and "verify_microtask_tool C kwargs G = ?note t ts"
      then show thesis using adds verify_result_appends [OF v] by simp
    qed
  qed
qed

lemma verify_microtask_tool_ok:
  assumes "conf_ok C"
  shows "tool_ok C ''verify_atomic_microtask'' (verify_microtask_tool C)"
  unfolding tool_ok_def
proof (intro allI impI)
  fix kwargs G es
  assume a: "wf_dict (fr C) kwargs \<and> logs C (gw_monitor G) es \<and> ledgers_ok G"
  let ?r = "verify_microtask_tool C kwargs G"
  show "\<exists>ns. logs C (gw_monitor (snd ?r)) (es @ ns) \<and> list_all neutral ns \<and> ledgers_ok (snd ?r) \<and>
       (case fst ?r of
          Inl x \<Rightarrow> \<forall>H. mirrors H G \<longrightarrow> mirrors H (snd ?r)
        | Inr out \<Rightarrow> wf_output C out \<and> replays C ''verify_atomic_microtask'' out G (snd ?r))"
  proof (cases rule: verify_microtask_tool_cases [of C kwargs G])
    case (raises x)
    then show ?thesis using a by (intro exI [of _ "[]"]) simp
  next
    case (rejects x s k h h')
    obtain M ns where "record_rejected_atomic_microtask (gc_env C) (gc_identity C)
          (gc_clock C) s k h h' (gw_monitor G) = Inr M" "logs C M (es @ ns)" "list_all neutral ns"
      by (rule adds_neutralE [OF rejected_microtask_neutral [OF assms]]) (use a in blast)
    then show ?thesis using a rejects by (intro exI [of _ ns]) simp
  next
    case (adds t s)
    have "mt_seedbox_id t \<in> fst ` set (gw_registry G)" using adds(2) a by (auto simp: ledgers_ok_def)
    from microtask_added [OF assms _ _ _ this microtask_output_simps(3,4) adds(1)] show ?thesis using a by simp
  qed
qed

end
