(* ===== verification/Gateway_Steps.thy ===== *)
theory Gateway_Steps
  imports Gateway_Replay
begin

text \<open>
  The steps of a request: an executed decision and the record of its result, the tool call as
  a whole, the security report and the audit, each followed by a reload.
\<close>

section \<open>Executing a decision\<close>

lemma gateway_tools_ok:
  assumes "conf_ok C" and "map_of (gateway_tools C) name = Some p"
  shows "tool_ok C name (tp_handler p)"
proof -
  have "(name, p) \<in> set (gateway_tools C)" using assms(2) by (rule map_of_SomeD)
  then show ?thesis
    unfolding gateway_tools_def set_append
    by (elim UnE)
      (auto simp: policy_def default_tools_ok register_seedbox_tool_ok broadcast_donation_tool_ok
        submit_proof_tool_ok submit_microtask_tool_ok [OF assms(1)] verify_microtask_tool_ok [OF assms(1)]
        report_event_tool_ok index_file_tool_ok list_files_tool_ok search_files_tool_ok pick_file_tool_ok)
qed

text \<open>
  What an execution leaves for \<open>record_result\<close>: an executed tool that is no attack has
  neutral entries behind it and an output whose replay is still to come, anything else is
  followed already.
\<close>

definition execution_ok :: "gw_conf \<Rightarrow> string \<Rightarrow> gateway \<Rightarrow> execution_result \<Rightarrow> gateway \<Rightarrow> bool" where
  "execution_ok C name G r G' =
     (if er_executed r \<and> \<not> er_attack_success r
      then \<forall>es. logs C (gw_monitor G) es \<and> ledgers_ok G \<longrightarrow>
        (\<exists>ns out. logs C (gw_monitor G') (es @ ns) \<and> list_all neutral ns \<and> ledgers_ok G' \<and>
           er_output r = Some out \<and> wf_output C out \<and> replays C name out G G')
      else advances C G G')"

lemma tool_ok_raises:
  assumes "tool_ok C name handler" and "wf_dict (fr C) kwargs" and "handler kwargs G = (Inl x, G')"
  shows "advances C G G'"
  unfolding advances_def
proof (intro allI impI)
  fix es
  assume "logs C (gw_monitor G) es \<and> ledgers_ok G"
  then obtain ns where "logs C (gw_monitor G') (es @ ns)" "list_all neutral ns" "ledgers_ok G'"
    "\<forall>H. mirrors H G \<longrightarrow> mirrors H G'"
    using assms unfolding tool_ok_def by fastforce
  then show "\<exists>ns. logs C (gw_monitor G') (es @ ns) \<and> ledgers_ok G' \<and>
      (\<forall>H. mirrors H G \<longrightarrow> mirrors (foldl (reload_entry C) H ns) G')"
    by (intro exI [of _ ns]) (simp add: reload_all_neutral)
qed

lemma tool_ok_returns:
  assumes "tool_ok C name handler" and "wf_dict (fr C) kwargs" and "handler kwargs G = (Inr out, G')"
    and "er_output r = Some out" and "er_executed r" and "\<not> er_attack_success r"
  shows "execution_ok C name G r G'"
  using assms unfolding execution_ok_def tool_ok_def by fastforce

lemma execution_ok_refused: "\<not> er_executed r \<Longrightarrow> advances C G G' \<Longrightarrow> execution_ok C name G r G'"
  by (simp add: execution_ok_def)

lemma gateway_hands_simps [simp]:
  "hd_proxy (gateway_hands C) = None" "hd_allowed_tools (gateway_hands C) = gateway_tools C"
  by (simp_all add: gateway_hands_def)

lemma execute_defended_ok:
  assumes "conf_ok C" and "wf_dict (fr C) (td_tool_kwargs d)" and "execute_defended C d G = (r, G')"
  shows "execution_ok C (td_tool_name d) G r G'"
proof (cases "permitted (gateway_hands C) d")
  case False
  then obtain a why where "hands_execute (gateway_hands C) d G = (Inr (result_for d False a False why None), G)"
    by (metis hands_execute_denied log_block_none gateway_hands_simps(1))
  with assms(3) show ?thesis
    by (intro execution_ok_refused) (auto simp: execute_defended_def Let_def advances_counters)
next
  case True
  obtain p where p: "map_of (gateway_tools C) (td_tool_name d) = Some p"
    and x: "hands_execute (gateway_hands C) d G = run_permitted (gateway_hands C) d p G"
    using hands_execute_permitted [OF True] by (metis gateway_hands_simps(2))
  note ok = gateway_tools_ok [OF assms(1) p]
  obtain res G1 where h: "tp_handler p (td_tool_kwargs d) G = (res, G1)"
    by (cases "tp_handler p (td_tool_kwargs d) G")
  show ?thesis
  proof (cases res)
    case (Inl e)
    have "advances C G G1" using tool_ok_raises [OF ok assms(2)] h Inl by blast
    then have "advances C G (G1\<lparr>gw_blocked := Suc (gw_blocked G1)\<rparr>)"
      by (rule advances_trans) (rule advances_counters)
    with assms(3) h Inl x show ?thesis
      by (intro execution_ok_refused) (auto simp: execute_defended_def run_permitted_def Let_def)
  next
    case (Inr out)
    then show ?thesis
      using tool_ok_returns [OF ok assms(2), of G out G1 r] h x assms(3)
      by (auto simp: execute_defended_def run_permitted_def Let_def)
  qed
qed

lemma dangerous_tool_quiet:
  assumes "map_of default_dangerous_tools name = Some h"
  shows "\<exists>out. h kwargs G = (Inr out, G)"
  using assms by (auto simp: dangerous_tool)

lemma gateway_baseline_simps [simp]:
  "bl_proxy (gateway_baseline C) = None" "bl_dangerous_tools (gateway_baseline C) = default_dangerous_tools"
  "map_of (bl_safe_tools (gateway_baseline C)) name = map_option tp_handler (map_of (gateway_tools C) name)"
  by (simp_all add: gateway_baseline_def map_of_map)

lemma execute_baseline_ok:
  assumes "conf_ok C" and "wf_dict (fr C) (td_tool_kwargs d)" and "execute_baseline C d G = (r, G')"
  shows "execution_ok C (td_tool_name d) G r G'"
proof (cases "map_of default_dangerous_tools (td_tool_name d) :: gateway handler option")
  case (Some h)
  obtain out where "h (td_tool_kwargs d) G = (Inr out, G)" using dangerous_tool_quiet [OF Some] by blast
  with Some assms(3) show ?thesis
    by (auto simp: execute_baseline_def baseline_execute_def baseline_tool_def Let_def execution_ok_def)
next
  case None
  show ?thesis
  proof (cases "map_of (gateway_tools C) (td_tool_name d)")
    assume "map_of (gateway_tools C) (td_tool_name d) = None"
    with None assms(3) show ?thesis
      by (auto simp: execute_baseline_def baseline_execute_def baseline_tool_def execution_ok_def)
  next
    fix p
    assume p: "map_of (gateway_tools C) (td_tool_name d) = Some p"
    note ok = gateway_tools_ok [OF assms(1) p]
    obtain res G1 where h: "tp_handler p (td_tool_kwargs d) G = (res, G1)"
      by (cases "tp_handler p (td_tool_kwargs d) G")
    show ?thesis
    proof (cases res)
      case (Inl e)
      have "advances C G G1" using tool_ok_raises [OF ok assms(2)] h Inl by blast
      with assms(3) h Inl p None show ?thesis
        by (intro execution_ok_refused)
          (auto simp: execute_baseline_def baseline_execute_def baseline_tool_def)
    next
      case (Inr out)
      then show ?thesis
        using tool_ok_returns [OF ok assms(2), of G out G1 r] h p None assms(3)
        by (auto simp: execute_baseline_def baseline_execute_def baseline_tool_def Let_def)
    qed
  qed
qed

section \<open>Recording a result\<close>

lemma execution_details_gets:
  "jget (execution_details d r) ''output'' = output_json r"
  "jget (execution_details d r) ''tool'' = JStr (td_tool_name d)"
  by (simp_all add: execution_details_def get_or_def)

lemma reload_success:
  assumes "entry_of (action_value TOOL_EXECUTION_SUCCESS) (execution_details d r) e"
    and "er_output r = Some out" and "replays C (td_tool_name d) out G G'" and "mirrors H G"
  shows "mirrors (reload_entry C H e) G'"
proof -
  let ?H = "raise_step (entry_step e) H"
  have m: "mirrors ?H G" using assms(4) by simp
  have e: "jget e ''action'' = JStr (action_value TOOL_EXECUTION_SUCCESS)"
    "jget e ''details'' = JObj (execution_details d r)"
    using assms(1) by (simp_all add: entry_of_def)
  have o: "output_json r = to_json out" by (simp add: output_json_def assms(2))
  have "replay_log_entry C e ?H =
      (case to_json out of JObj v \<Rightarrow> replay_output C (JStr (td_tool_name d)) v ?H | _ \<Rightarrow> Inr ?H)"
    by (simp add: replay_log_entry_def e execution_details_gets o split: json.splits)
  moreover have "case to_json out of
      JObj v \<Rightarrow> \<exists>H'. replay_output C (JStr (td_tool_name d)) v ?H = Inr H' \<and> mirrors H' G'
    | _ \<Rightarrow> mirrors ?H G'"
    using assms(3) m unfolding replays_def by blast
  ultimately show ?thesis by (auto simp: reload_entry_def Let_def split: json.splits)
qed

lemma execution_details_wf:
  "wf_json (fr C) (td_payload_id d) \<Longrightarrow> er_output r = Some out \<Longrightarrow> wf_output C out \<Longrightarrow>
     wf_dict (fr C) (execution_details d r)"
  by (simp add: execution_details_def output_json_def wf_output_def)

lemma as_dict_wf: "wf_json f v \<Longrightarrow> wf_dict f (as_dict v)"
  by (cases v) simp_all

lemma note_execution_followed:
  assumes "conf_ok C" and "er_output r = Some out" and "wf_output C out"
  shows "followed C (note_execution C s d r)"
proof -
  have ev: "followed C (gw_record (record_seedbox_donation (gc_env C) (gc_identity C) (gc_clock C) s ev b))"
    if "to_evidence out = Some ev" for ev b
    by (rule followed_record, rule donation_neutral [OF assms(1)]) (use assms(3) that in \<open>simp add: wf_output_def\<close>)
  have "wf_dict (fr C) (as_dict (output_json r))"
    using as_dict_wf [of "fr C" "to_json out"] assms(2,3) by (simp add: output_json_def wf_output_def)
  then have ap: "followed C (gw_append C s (action_value SEEDBOX_PROOF_OF_SERVICE) 0 (as_dict (output_json r)) None)"
    by (rule followed_append_neutral [OF assms(1)]) simp_all
  show ?thesis
    unfolding note_execution_def Let_def
    by (simp add: assms(2) ev ap [simplified] followed_record fake_seedbox_neutral [OF assms(1)] split: option.splits)
qed

lemma advances_seq:
  assumes "advances C G (snd (m G1))" and "\<And>a. followed C (k a)"
  shows "advances C G (snd (seq m k G1))"
proof (cases "m G1")
  case (Pair r G2)
  have k: "advances C G2 (snd (k a G2))" for a using assms(2) by (simp add: followed_def)
  have m: "advances C G G2" using assms(1) Pair by simp
  show ?thesis using m Pair advances_trans [OF m k] by (cases r) (simp_all add: seq_def)
qed

lemma record_refused_followed:
  assumes "conf_ok C" and "wf_json (fr C) (td_payload_id d)" and "er_executed r \<longrightarrow> er_attack_success r"
  shows "followed C (record_result C s d r)"
  unfolding record_result_def Let_def
proof (rule followed_seq)
  show "followed C (modify (\<lambda>G. if er_executed r then G\<lparr>gw_executed := Suc (gw_executed G)\<rparr> else G))"
    by (rule followed_modify) (simp add: advances_counters)
  note n = followed_record [OF key_exfiltration_neutral [OF assms(1,2)]]
    followed_record [OF unauthorized_execution_neutral [OF assms(1)]]
    followed_record [OF unauthorized_request_neutral [OF assms(1)]]
  show "followed C
     (if er_attack_success r
      then if td_tool_name d = ''exfiltrate_private_key''
           then gw_record (record_private_key_exfiltration (gc_env C) (gc_identity C) (gc_clock C) s (td_payload_id d) None)
           else gw_record (record_unauthorized_execution (gc_env C) (gc_identity C) (gc_clock C) s (td_tool_name d)
                  (Some [(''payload_id'', td_payload_id d)]) None)
      else if \<not> er_executed r \<and> \<not> er_authorized r
           then gw_record (record_unauthorized_request (gc_env C) (gc_identity C) (gc_clock C) s (td_tool_name d)
                  (Some [(''payload_id'', td_payload_id d), (''reason'', JStr (er_reason r))]) None)
           else if er_executed r
                then seq (gw_append C s (action_value TOOL_EXECUTION_SUCCESS) 0 (execution_details d r) None)
                       (\<lambda>_. note_execution C s d r)
                else ret ())" for u :: unit
    using assms(2,3) by (simp add: n)
qed

lemma record_result_advances:
  assumes "conf_ok C" and "wf_json (fr C) (td_payload_id d)" and "execution_ok C (td_tool_name d) G r G1"
  shows "advances C G (snd (record_result C s d r G1))"
proof (cases "er_executed r \<and> \<not> er_attack_success r")
  case False
  then have "advances C G G1" using assms(3) by (simp add: execution_ok_def)
  moreover have "advances C G1 (snd (record_result C s d r G1))"
    using record_refused_followed [OF assms(1,2)] False by (simp add: followed_def)
  ultimately show ?thesis by (rule advances_trans)
next
  case True
  show ?thesis
    unfolding advances_def
  proof (intro allI impI)
    fix es
    assume G: "logs C (gw_monitor G) es \<and> ledgers_ok G"
    then obtain ns out where o: "logs C (gw_monitor G1) (es @ ns)" "list_all neutral ns" "ledgers_ok G1"
      "er_output r = Some out" "wf_output C out" "replays C (td_tool_name d) out G G1"
      using assms(3) True unfolding execution_ok_def by auto
    let ?G2 = "G1\<lparr>gw_executed := Suc (gw_executed G1)\<rparr>"
    have "logs C (gw_monitor ?G2) (es @ ns)" using o(1) by simp
    then obtain M e where a: "gw_append C s (action_value TOOL_EXECUTION_SUCCESS) 0 (execution_details d r) None ?G2 =
        (Inr (), ?G2\<lparr>gw_monitor := M\<rparr>)" "logs C M ((es @ ns) @ [e])"
        "entry_of (action_value TOOL_EXECUTION_SUCCESS) (execution_details d r) e"
      using gw_append_ok [OF _ assms(1) execution_details_wf [OF assms(2) o(4,5)] evidence_wf_None] by metis
    let ?G3 = "?G2\<lparr>gw_monitor := M\<rparr>"
    have adv: "advances C ?G3 (snd (note_execution C s d r ?G3))"
      using note_execution_followed [OF assms(1) o(4,5)] by (simp add: followed_def)
    have "logs C (gw_monitor ?G3) (es @ ns @ [e]) \<and> ledgers_ok ?G3" using a(2) o(3) by simp
    then obtain ms where n: "logs C (gw_monitor (snd (note_execution C s d r ?G3))) ((es @ ns @ [e]) @ ms)"
      "ledgers_ok (snd (note_execution C s d r ?G3))"
      "\<forall>H. mirrors H ?G3 \<longrightarrow> mirrors (foldl (reload_entry C) H ms) (snd (note_execution C s d r ?G3))"
      using adv unfolding advances_def by blast
    have x: "record_result C s d r G1 = note_execution C s d r ?G3"
      using True a(1) by (simp add: record_result_def seq_def modify_def Let_def)
    have "mirrors (foldl (reload_entry C) H (ns @ [e] @ ms)) (snd (note_execution C s d r ?G3))"
      if "mirrors H G" for H
    proof -
      have "mirrors (foldl (reload_entry C) H ns) G" by (rule reload_all_neutral [OF o(2) that])
      then have "mirrors (reload_entry C (foldl (reload_entry C) H ns) e) G1"
        by (rule reload_success [OF a(3) o(4,6)])
      then show ?thesis using n(3) by simp
    qed
    with n(1,2) show "\<exists>ns. logs C (gw_monitor (snd (record_result C s d r G1))) (es @ ns) \<and>
        ledgers_ok (snd (record_result C s d r G1)) \<and>
        (\<forall>H. mirrors H G \<longrightarrow> mirrors (foldl (reload_entry C) H ns) (snd (record_result C s d r G1)))"
      by (intro exI [of _ "ns @ [e] @ ms"]) (simp add: x)
  qed
qed

section \<open>Requests\<close>

lemma followed_raising:
  assumes "\<And>a. r = Inr a \<Longrightarrow> followed C (k a)"
  shows "followed C (seq (raising r) k)"
  using assms by (cases r) (simp_all add: followed_def seq_def raising_def)

lemma followed_state: "(\<And>G. followed C (k G)) \<Longrightarrow> followed C (\<lambda>G. k G G)"
  by (simp add: followed_def)

lemma run_decision_followed:
  assumes "conf_ok C" and "wf_dict (fr C) (td_tool_kwargs d)" and "wf_json (fr C) (td_payload_id d)"
  shows "followed C (run_decision C s d)"
  unfolding followed_def
proof
  fix G
  obtain r G1 where x: "(case gc_mode C of Baseline \<Rightarrow> execute_baseline C d G | Defended \<Rightarrow> execute_defended C d G) = (r, G1)"
    by (cases "case gc_mode C of Baseline \<Rightarrow> execute_baseline C d G | Defended \<Rightarrow> execute_defended C d G")
  have "execution_ok C (td_tool_name d) G r G1"
    using x execute_baseline_ok [OF assms(1,2)] execute_defended_ok [OF assms(1,2)] by (cases "gc_mode C") auto
  note rec = record_result_advances [OF assms(1,3) this, of s]
  show "advances C G (snd (run_decision C s d G))"
    unfolding run_decision_def x Let_def prod.case
    by (rule advances_seq, rule rec, rule followed_seq [OF followed_scan], simp add: followed_def)
qed

lemma pair_of_wf: "wf_json f v \<Longrightarrow> pair_of v = Inr p \<Longrightarrow> wf_json f (snd p)"
  by (cases v rule: pair_of.cases) (auto split: list.splits json.splits prod.splits simp: wf_members_iff)

lemma dict_of_wf:
  assumes "wf_json f v" and "dict_of v = Inr d"
  shows "wf_dict f d"
proof (cases "\<exists>vs. v = JList vs \<and> truthy v")
  case False
  then show ?thesis using assms by (auto simp: dict_of_def split: if_splits json.splits)
next
  case True
  then obtain vs ps where v: "v = JList vs" "mapr pair_of vs = Inr ps" "d = dict_of_pairs ps"
    using assms(2) by (auto simp: dict_of_def bindr_Inr_iff)
  have "wf_list f vs" using assms(1) v(1) by simp
  then have "wf_members f ps" using v(2)
  proof (induction vs arbitrary: ps)
    case (Cons v vs)
    then obtain k w qs where q: "pair_of v = Inr (k, w)" "mapr pair_of vs = Inr qs" "ps = (k, w) # qs"
      by (auto simp: bindr_Inr_iff)
    with Cons pair_of_wf [of f v "(k, w)"] show ?case by simp
  qed simp
  then have "wf_members f (foldl (\<lambda>d p. AList.update (fst p) (snd p) d) e ps)" if "wf_members f e" for e
    using that
  proof (induction ps arbitrary: e)
    case (Cons p ps)
    then show ?case by (cases p) (simp add: wf_members_update)
  qed simp
  then show ?thesis by (simp add: v(3) dict_of_pairs_ok) (simp add: dict_of_pairs_def)
qed

lemma set_default_wf: "wf_dict f d \<Longrightarrow> wf_json f v \<Longrightarrow> wf_dict f (set_default k v d)"
  unfolding set_default_def by (simp add: wf_dict_update del: wf_json.simps)

lemma normalize_wf: "wf_dict f kwargs \<Longrightarrow> wf_dict f (normalize_tool_kwargs C n s tool kwargs)"
  unfolding normalize_tool_kwargs_def by (simp add: set_default_wf del: wf_json.simps(3))

lemma refuse_banned_followed: "followed C (refuse_banned s tool)"
proof -
  have "advances C G (G\<lparr>gw_blocked := n, gw_monitor := record_blocked_action s (gw_monitor G)\<rparr>)" for G n
    by (rule advances_trans [OF advances_counters(1) [of C G n]], rule advances_monitor)
      (simp_all add: record_blocked_action_def attempt_def)
  then show ?thesis by (simp add: followed_def refuse_banned_def Let_def)
qed

lemma next_step_followed: "followed C (modify (\<lambda>G. G\<lparr>gw_monitor := next_step (gw_monitor G)\<rparr>))"
  by (rule followed_modify, rule advances_monitor) (simp_all add: next_step_def)

lemma start_call_followed: "followed C (modify start_call)"
proof (rule followed_modify)
  fix G
  have "advances C (G\<lparr>gw_tool_calls := Suc (gw_tool_calls G)\<rparr>) (start_call G)"
    unfolding start_call_def
    using advances_monitor [of "next_step (gw_monitor G)" "G\<lparr>gw_tool_calls := Suc (gw_tool_calls G)\<rparr>" C]
    by (simp add: next_step_def)
  then show "advances C G (start_call G)" by (rule advances_trans [OF advances_counters(3)])
qed

lemma handle_tool_call_followed:
  assumes "conf_ok C" and "wf_dict (fr C) payload"
  shows "followed C (handle_tool_call C payload)"
proof -
  have p: "wf_json (fr C) (jget payload k)" for k by (rule wf_get [OF assms(2)])
  have d: "followed C (run_decision C s (tool_decision_for C n payload s tool kwargs))"
    if "dict_of (jget payload ''tool_kwargs'') = Inr kwargs" for s n tool kwargs
    by (rule run_decision_followed [OF assms(1)])
      (use normalize_wf [OF dict_of_wf [OF p that]] p in \<open>simp_all add: tool_decision_for_def\<close>)
  show ?thesis
    unfolding handle_tool_call_def Let_def
    by (rule followed_seq [OF start_call_followed], rule followed_raising, rule followed_seq [OF followed_scan])
      (use d refuse_banned_followed in \<open>simp add: followed_def\<close>)
qed

definition report_action :: "dict \<Rightarrow> string" where
  "report_action payload = text_or (jget payload ''action'') (action_value UNAUTHORIZED_TOOL_REQUEST)"

lemma handle_security_report_followed:
  assumes "conf_ok C" and "wf_dict (fr C) payload"
    and "report_action payload \<noteq> action_value TOOL_EXECUTION_SUCCESS"
    and "report_action payload \<noteq> action_value SEEDBOX_MISSING_PROOF"
  shows "followed C (handle_security_report C payload)"
proof -
  have p: "wf_json (fr C) (jget payload k)" for k by (rule wf_get [OF assms(2)])
  have a: "followed C (gw_append C s (report_action payload) sev details (Some evid))"
    if "dict_of (jget payload ''details'') = Inr details" "dict_of (jget payload ''evidence'') = Inr evid" for s sev details evid
    by (rule followed_append_neutral [OF assms(1) dict_of_wf [OF p that(1)] _ assms(3,4)])
      (use dict_of_wf [OF p that(2)] in \<open>simp add: evidence_wf_def\<close>)
  show ?thesis
    unfolding handle_security_report_def Let_def report_action_def [symmetric]
    by (intro followed_seq followed_raising next_step_followed followed_scan a, assumption, assumption)
      (simp add: followed_def)
qed

section \<open>The audit\<close>

lemma reload_audit:
  assumes "entry_of (action_value SEEDBOX_MISSING_PROOF) details e"
    and "jget details ''seedbox_id'' = JStr k" and "mirrors H G"
  shows "mirrors (reload_entry C H e) (G\<lparr>gw_audits := List.insert k (gw_audits G)\<rparr>)"
proof -
  have "mirrors (raise_step (entry_step e) H) G" using assms(3) by simp
  then show ?thesis
    using assms(1,2)
    by (auto simp: entry_of_def reload_entry_def replay_log_entry_def Let_def py_str_def mirrors_def List.insert_def)
qed

lemma audit_entry_advances:
  assumes "conf_ok C" and "wf_dict (fr C) details" and "jget details ''seedbox_id'' = JStr k"
  shows "advances C G (snd (gw_append C s (action_value SEEDBOX_MISSING_PROOF) sev details None
      (G\<lparr>gw_audits := List.insert k (gw_audits G)\<rparr>)))"
  unfolding advances_def
proof (intro allI impI)
  fix es
  let ?G = "G\<lparr>gw_audits := List.insert k (gw_audits G)\<rparr>"
  assume G: "logs C (gw_monitor G) es \<and> ledgers_ok G"
  then have "logs C (gw_monitor ?G) es" by simp
  then obtain M e where a: "gw_append C s (action_value SEEDBOX_MISSING_PROOF) sev details None ?G =
      (Inr (), ?G\<lparr>gw_monitor := M\<rparr>)" "logs C M (es @ [e])" "entry_of (action_value SEEDBOX_MISSING_PROOF) details e"
    using gw_append_ok [OF _ assms(1,2) evidence_wf_None] by metis
  show "\<exists>ns. logs C (gw_monitor (snd (gw_append C s (action_value SEEDBOX_MISSING_PROOF) sev details None ?G))) (es @ ns) \<and>
      ledgers_ok (snd (gw_append C s (action_value SEEDBOX_MISSING_PROOF) sev details None ?G)) \<and>
      (\<forall>H. mirrors H G \<longrightarrow> mirrors (foldl (reload_entry C) H ns)
         (snd (gw_append C s (action_value SEEDBOX_MISSING_PROOF) sev details None ?G)))"
    using G a reload_audit [OF a(3) assms(3)] by (intro exI [of _ "[e]"]) simp
qed

lemma audit_details_ok:
  "wf_dict f (audit_details G k s)" "jget (audit_details G k s) ''seedbox_id'' = JStr k"
  by (simp_all add: audit_details_def get_or_def)

lemma audit_loop_followed:
  assumes "conf_ok C"
  shows "followed C (audit_loop C found rest)"
proof (induction rest arbitrary: found)
  case Nil
  then show ?case by (simp add: followed_def)
next
  case (Cons p rest)
  obtain k s where p: "p = (k, s)" by (cases p)
  have "advances C G (snd (audit_loop C found (p # rest) G))" for G
  proof (cases "audit_due G k")
    case False
    then show ?thesis using Cons by (simp add: p followed_def)
  next
    case True
    have "advances C G (snd (seq (gw_append C (sb_owner_id s) (action_value SEEDBOX_MISSING_PROOF)
        (default_weight (JStr (action_value SEEDBOX_MISSING_PROOF)))
        (audit_details (G\<lparr>gw_audits := List.insert k (gw_audits G)\<rparr>) k s) None)
        (\<lambda>_. audit_loop C (found @ [audit_details (G\<lparr>gw_audits := List.insert k (gw_audits G)\<rparr>) k s]) rest)
        (G\<lparr>gw_audits := List.insert k (gw_audits G)\<rparr>)))"
      by (rule advances_seq, rule audit_entry_advances [OF assms audit_details_ok], rule Cons)
    then show ?thesis using True by (simp add: p Let_def)
  qed
  then show ?case by (simp add: followed_def)
qed

lemma audit_seedboxes_followed:
  assumes "conf_ok C"
  shows "followed C (audit_seedboxes C)"
proof -
  have "followed C (\<lambda>G. audit_loop C [] (gw_registry G) G)"
    by (rule followed_state) (rule audit_loop_followed [OF assms])
  then show ?thesis
    unfolding audit_seedboxes_def
    by (rule followed_seq [OF next_step_followed followed_seq]) (rule followed_seq [OF followed_scan], simp)
qed

lemma read_only_followed: "followed C (gateway_metrics_of C)" "followed C (reputation_snapshot C a)"
proof -
  show "followed C (reputation_snapshot C a)"
    unfolding reputation_snapshot_def by (rule followed_seq [OF followed_scan]) (simp add: followed_def)
  show "followed C (gateway_metrics_of C)"
    unfolding followed_def gateway_metrics_of_def Let_def split_beta
    by (rule allI, rule advances_seq) (use followed_scan in \<open>simp_all add: followed_def\<close>)
qed

section \<open>Any report\<close>

text \<open>The weaker contract that also a report of any action keeps.\<close>

definition keeps_log :: "gw_conf \<Rightarrow> gateway \<Rightarrow> gateway \<Rightarrow> bool" where
  "keeps_log C G G' = (\<forall>es. logs C (gw_monitor G) es \<and> ledgers_ok G \<longrightarrow>
     (\<exists>ns. logs C (gw_monitor G') (es @ ns) \<and> ledgers_ok G'))"

lemma advances_keeps: "advances C G G' \<Longrightarrow> keeps_log C G G'"
  unfolding advances_def keeps_log_def by blast

lemma keeps_log_trans:
  assumes "keeps_log C G1 G2" and "keeps_log C G2 G3"
  shows "keeps_log C G1 G3"
  using assms unfolding keeps_log_def by (metis append_assoc)

definition kept :: "gw_conf \<Rightarrow> ('a, gateway) step \<Rightarrow> bool" where
  "kept C m = (\<forall>G. keeps_log C G (snd (m G)))"

lemma followed_kept: "followed C m \<Longrightarrow> kept C m"
  by (simp add: followed_def kept_def advances_keeps)

lemma kept_seq:
  assumes "kept C m" and "\<And>a. kept C (k a)"
  shows "kept C (seq m k)"
  unfolding kept_def
proof
  fix G
  obtain r G1 where m: "m G = (r, G1)" by (cases "m G")
  have 1: "keeps_log C G G1" using assms(1) m unfolding kept_def by (metis snd_conv)
  have 2: "keeps_log C G1 (snd (k a G1))" for a using assms(2) by (simp add: kept_def)
  show "keeps_log C G (snd (seq m k G))"
    using 1 m keeps_log_trans [OF 1 2] by (cases r) (simp_all add: seq_def)
qed

lemma kept_raising:
  assumes "\<And>a. r = Inr a \<Longrightarrow> kept C (k a)"
  shows "kept C (seq (raising r) k)"
proof (cases r)
  case (Inl x)
  then show ?thesis using followed_kept [OF followed_ret(2)] by (simp add: kept_def seq_def raising_def)
next
  case (Inr a)
  then show ?thesis using assms by (simp add: kept_def seq_def raising_def)
qed

lemma append_kept:
  assumes "conf_ok C" and "wf_dict (fr C) details" and "evidence_wf (gc_env C) evid"
  shows "kept C (gw_append C s act sev details evid)"
  unfolding kept_def keeps_log_def
proof (intro allI impI)
  fix G es
  assume G: "logs C (gw_monitor G) es \<and> ledgers_ok G"
  then obtain M e where "gw_append C s act sev details evid G = (Inr (), G\<lparr>gw_monitor := M\<rparr>)"
    "logs C M (es @ [e])"
    using gw_append_ok [OF conjunct1 [OF G] assms] by metis
  with G show "\<exists>ns. logs C (gw_monitor (snd (gw_append C s act sev details evid G))) (es @ ns) \<and>
      ledgers_ok (snd (gw_append C s act sev details evid G))"
    by (intro exI [of _ "[e]"]) simp
qed

lemma handle_security_report_kept:
  assumes "conf_ok C" and "wf_dict (fr C) payload"
  shows "kept C (handle_security_report C payload)"
proof -
  have p: "wf_json (fr C) (jget payload k)" for k by (rule wf_get [OF assms(2)])
  have a: "kept C (gw_append C s act sev details (Some evid))"
    if "dict_of (jget payload ''details'') = Inr details" "dict_of (jget payload ''evidence'') = Inr evid"
    for s act sev details evid
    by (rule append_kept [OF assms(1) dict_of_wf [OF p that(1)]])
      (use dict_of_wf [OF p that(2)] in \<open>simp add: evidence_wf_def\<close>)
  show ?thesis
    unfolding handle_security_report_def Let_def
    by (intro kept_seq kept_raising followed_kept [OF next_step_followed] followed_kept [OF followed_scan] a,
        assumption, assumption)
      (simp add: kept_def keeps_log_def, metis append_Nil2)
qed

end
