(* ===== verification/Gateway_Spec.thy ===== *)
theory Gateway_Spec
  imports Gateway_Steps
begin

text \<open>
  What the gateway guarantees: whatever it is asked, its log verifies and its ledgers name
  registered seedboxes; a gateway restarted on its log has the same ledgers, unless a report
  claimed an action that only the gateway itself should write.
\<close>

section \<open>Runs\<close>

datatype gateway_event =
    ToolCall dict
  | SecurityReport dict
  | AuditSeedboxes
  | ReadMetrics
  | ReadReputation string
  | Restart

fun gateway_event_step :: "gw_conf \<Rightarrow> int \<Rightarrow> gateway \<Rightarrow> gateway_event \<Rightarrow> gateway" where
  "gateway_event_step C threshold G (ToolCall p) = snd (handle_tool_call C p G)"
| "gateway_event_step C threshold G (SecurityReport p) = snd (handle_security_report C p G)"
| "gateway_event_step C threshold G AuditSeedboxes = snd (audit_seedboxes C G)"
| "gateway_event_step C threshold G ReadMetrics = snd (gateway_metrics_of C G)"
| "gateway_event_step C threshold G (ReadReputation a) = snd (reputation_snapshot C a G)"
| "gateway_event_step C threshold G Restart = snd (start_gateway C threshold (m_file (gw_monitor G)))"

text \<open>A gateway that starts without a log file and lives through a list of events.\<close>

definition gateway_run :: "gw_conf \<Rightarrow> int \<Rightarrow> gateway_event list \<Rightarrow> gateway" where
  "gateway_run C threshold evs =
     foldl (gateway_event_step C threshold)
       (snd (start_gateway C threshold \<lparr>content = None, mtime_ns = 0\<rparr>)) evs"

fun wf_event :: "gw_conf \<Rightarrow> gateway_event \<Rightarrow> bool" where
  "wf_event C (ToolCall p) = wf_dict (fr C) p"
| "wf_event C (SecurityReport p) = wf_dict (fr C) p"
| "wf_event C _ = True"

text \<open>A report that does not claim an action of the gateway's own.\<close>

fun honest_event :: "gw_conf \<Rightarrow> gateway_event \<Rightarrow> bool" where
  "honest_event C (SecurityReport p) =
     (report_action p \<noteq> action_value TOOL_EXECUTION_SUCCESS \<and> report_action p \<noteq> action_value SEEDBOX_MISSING_PROOF)"
| "honest_event C _ = True"

section \<open>Starting on a verified log\<close>

lemma replay_keeps_monitor: "replay_log_entry C e G = Inr G' \<Longrightarrow> gw_monitor G' = gw_monitor G"
  by (auto simp: replay_log_entry_def replay_output_def restore_seedbox_def restore_donation_def
      restore_service_proof_def restore_atomic_microtask_def restore_indexed_file_def bindr_Inr_iff Let_def
      split: json.splits if_splits)

lemma reload_entry_log:
  "m_file (gw_monitor (reload_entry C H e)) = m_file (gw_monitor H)"
  "m_inst (gw_monitor (reload_entry C H e)) = m_inst (gw_monitor H)"
  "m_reporter_id (gw_monitor (reload_entry C H e)) = m_reporter_id (gw_monitor H)"
proof -
  have r: "m_file (gw_monitor (raise_step s H)) = m_file (gw_monitor H)"
    "m_inst (gw_monitor (raise_step s H)) = m_inst (gw_monitor H)"
    "m_reporter_id (gw_monitor (raise_step s H)) = m_reporter_id (gw_monitor H)" for s
    by (simp_all add: raise_step_def split: option.splits)
  show "m_file (gw_monitor (reload_entry C H e)) = m_file (gw_monitor H)"
    "m_inst (gw_monitor (reload_entry C H e)) = m_inst (gw_monitor H)"
    "m_reporter_id (gw_monitor (reload_entry C H e)) = m_reporter_id (gw_monitor H)"
    by (auto simp: reload_entry_def Let_def r dest!: replay_keeps_monitor split: sum.splits)
qed

lemma reload_all_log: "logs C (gw_monitor (foldl (reload_entry C) H es)) ns = logs C (gw_monitor H) ns"
proof (induction es arbitrary: H)
  case (Cons e es)
  show ?case by (simp add: Cons) (simp add: monitor_ok_def reload_entry_log)
qed simp

lemma known_seedbox_registered: "known_seedbox G d = Inr k \<Longrightarrow> k \<in> fst ` set (gw_registry G)"
  by (auto simp: known_seedbox_def bindr_Inr_iff map_of_eq_None_iff split: if_splits)

lemma ledgers_ok_add:
  assumes "ledgers_ok G"
  shows "dn_seedbox_id d \<in> fst ` set (gw_registry G) \<Longrightarrow>
      ledgers_ok (G\<lparr>gw_donations := filter P (gw_donations G) @ [d]\<rparr>)"
    "sp_seedbox_id p \<in> fst ` set (gw_registry G) \<Longrightarrow>
      ledgers_ok (G\<lparr>gw_proofs := filter Q (gw_proofs G) @ [p]\<rparr>)"
    "mt_seedbox_id t \<in> fst ` set (gw_registry G) \<Longrightarrow> ledgers_ok (G\<lparr>gw_microtasks := gw_microtasks G @ [t]\<rparr>)"
    "if_seedbox_id f \<in> fst ` set (gw_registry G) \<Longrightarrow>
      ledgers_ok (G\<lparr>gw_files := filter R (gw_files G) @ [f]\<rparr>)"
  using assms by (auto simp: ledgers_ok_def)

lemma restore_ledgers_ok:
  assumes "ledgers_ok G"
  shows "restore_seedbox C v G = Inr G' \<Longrightarrow> ledgers_ok G'" "restore_donation C v G = Inr G' \<Longrightarrow> ledgers_ok G'"
    "restore_service_proof C v G = Inr G' \<Longrightarrow> ledgers_ok G'"
    "restore_atomic_microtask C v G = Inr G' \<Longrightarrow> ledgers_ok G'"
    "restore_indexed_file C v G = Inr G' \<Longrightarrow> ledgers_ok G'"
proof -
  note parts = assms [unfolded ledgers_ok_def]
  show "ledgers_ok G'" if r: "restore_seedbox C v G = Inr G'"
  proof (cases v)
    case (JObj d)
    then obtain i a b c t k where "G' = G\<lparr>gw_registry := AList.update i
        \<lparr>sb_seedbox_id = i, sb_owner_id = a, sb_donation_address = b, sb_capacity_gb = c,
         sb_created_at = t, sb_fake = k\<rparr> (gw_registry G)\<rparr>"
      using r by (auto simp: restore_seedbox_def bindr_Inr_iff)
    with parts show ?thesis
      by (auto simp: ledgers_ok_def keys_update dest!: set_update_subset [THEN subsetD])
  qed (use r assms in \<open>simp_all add: restore_seedbox_def\<close>)
  show "ledgers_ok G'" if r: "restore_donation C v G = Inr G'"
  proof (cases v)
    case (JObj d)
    with r show ?thesis
      by (auto simp: restore_donation_def bindr_Inr_iff intro!: ledgers_ok_add assms known_seedbox_registered)
  qed (use r assms in \<open>simp_all add: restore_donation_def\<close>)
  show "ledgers_ok G'" if r: "restore_service_proof C v G = Inr G'"
  proof (cases v)
    case (JObj d)
    with r show ?thesis
      by (auto simp: restore_service_proof_def bindr_Inr_iff intro!: ledgers_ok_add assms known_seedbox_registered)
  qed (use r assms in \<open>simp_all add: restore_service_proof_def\<close>)
  show "ledgers_ok G'" if r: "restore_atomic_microtask C v G = Inr G'"
  proof (cases v)
    case (JObj d)
    with r show ?thesis
      by (auto simp: restore_atomic_microtask_def bindr_Inr_iff intro!: ledgers_ok_add assms known_seedbox_registered)
  qed (use r assms in \<open>simp_all add: restore_atomic_microtask_def\<close>)
  show "ledgers_ok G'" if r: "restore_indexed_file C v G = Inr G'"
  proof (cases v)
    case (JObj d)
    with r show ?thesis
      by (auto simp: restore_indexed_file_def bindr_Inr_iff intro!: ledgers_ok_add assms known_seedbox_registered)
  qed (use r assms in \<open>simp_all add: restore_indexed_file_def\<close>)
qed

lemma replay_ledgers_ok:
  assumes "ledgers_ok G" and "replay_log_entry C e G = Inr G'"
  shows "ledgers_ok G'"
  using assms(2) restore_ledgers_ok [OF assms(1)] assms(1)
  by (auto simp: replay_log_entry_def replay_output_def Let_def split: json.splits if_splits)

lemma reload_ledgers_ok: "ledgers_ok H \<Longrightarrow> ledgers_ok (foldl (reload_entry C) H es)"
proof (induction es arbitrary: H)
  case (Cons e es)
  have "ledgers_ok (raise_step (entry_step e) H)"
    using Cons.prems by (simp add: raise_step_def split: option.splits)
  then have "ledgers_ok (reload_entry C H e)"
    using replay_ledgers_ok [of "raise_step (entry_step e) H" C e]
    by (auto simp: reload_entry_def Let_def ledgers_ok_def split: sum.splits)
  then show ?case by (simp add: Cons.IH)
qed simp

lemma empty_gateway_ok [simp]: "ledgers_ok (empty_gateway M)" "gw_monitor (empty_gateway M) = M"
  "mirrors (empty_gateway M) (empty_gateway N)"
  by (simp_all add: ledgers_ok_def empty_gateway_def mirrors_def)

lemma start_gateway_ok:
  assumes "file_holds (gc_env C) f es" and "verify_integrity (gc_env C) (id_network (gc_identity C)) f = (True, [])"
  obtains M where "start_gateway C threshold f = (Inr (), foldl (reload_entry C) (empty_gateway M) es)"
    and "logs C M es"
proof -
  have c: "content f \<noteq> None" using assms(1) by (simp add: file_holds_def)
  obtain inst where o: "open_log (fst (gc_clock C 0)) f = (f, inst)" "cache_ok (gc_env C) f inst"
    using c by (auto simp: open_log_def cache_ok_def)
  let ?M = "open_monitor f inst (open_reputation threshold) (id_hash (gc_identity C)) 1"
  have f: "m_file ?M = f" "m_inst ?M = inst" "m_reporter_id ?M = id_hash (gc_identity C)"
    by (simp_all add: open_monitor_def)
  have "\<forall>e \<in> set es. version2 e"
    using assms verified_iff [OF assms(1)] verified_version2 by blast
  then have "read_entries (gc_env C) f = Inr es"
    by (simp add: read_entries_holds [OF assms(1)] filter_id_conv)
  then have "start_gateway C threshold f = (Inr (), foldl (reload_entry C) (empty_gateway ?M) es)"
    by (simp add: start_gateway_def o reload_runtime_state_def f [simplified] assms(2) Let_def)
  moreover have "logs C ?M es" using assms o(2) by (simp add: monitor_ok_def log_state_ok_def f [simplified])
  ultimately show thesis using that by blast
qed

lemma fresh_start:
  obtains M where "start_gateway C threshold \<lparr>content = None, mtime_ns = 0\<rparr> = (Inr (), empty_gateway M)"
    and "logs C M []"
proof -
  let ?t = "fst (gc_clock C 0)"
  let ?f = "fst (open_log ?t \<lparr>content = None, mtime_ns = 0\<rparr>)"
  have h: "file_holds (gc_env C) ?f []"
    by (simp add: file_holds_def open_log_def append_text_def log_text_def)
  have v: "verify_integrity (gc_env C) (id_network (gc_identity C)) ?f = (True, [])"
    by (simp add: verify_integrity_holds [OF h])
  obtain M where m: "start_gateway C threshold ?f = (Inr (), foldl (reload_entry C) (empty_gateway M) [])" "logs C M []"
    by (rule start_gateway_ok [OF h v])
  have "start_gateway C threshold \<lparr>content = None, mtime_ns = 0\<rparr> = start_gateway C threshold ?f"
    by (simp add: start_gateway_def open_log_def append_text_def)
  with m that show thesis by simp
qed

section \<open>The invariant\<close>

definition gateway_ok :: "gw_conf \<Rightarrow> gateway \<Rightarrow> bool" where
  "gateway_ok C G = (ledgers_ok G \<and> (\<exists>es. logs C (gw_monitor G) es))"

lemma keeps_gateway_ok: "keeps_log C G G' \<Longrightarrow> gateway_ok C G \<Longrightarrow> gateway_ok C G'"
  unfolding keeps_log_def gateway_ok_def by blast

lemma logs_file:
  assumes "logs C M es"
  shows "file_holds (gc_env C) (m_file M) es"
    "verify_integrity (gc_env C) (id_network (gc_identity C)) (m_file M) = (True, [])"
  using assms by (simp_all add: monitor_ok_def log_state_ok_def)

lemma event_keeps_gateway_ok:
  assumes "conf_ok C" and "wf_event C ev" and "gateway_ok C G"
  shows "gateway_ok C (gateway_event_step C threshold G ev)"
proof (cases ev)
  case (ToolCall p)
  then show ?thesis
    using followed_kept [OF handle_tool_call_followed [OF assms(1), of p]] assms(2,3) keeps_gateway_ok
    by (simp add: kept_def) blast
next
  case (SecurityReport p)
  then show ?thesis
    using handle_security_report_kept [OF assms(1), of p] assms(2,3) keeps_gateway_ok by (simp add: kept_def) blast
next
  case AuditSeedboxes
  then show ?thesis
    using followed_kept [OF audit_seedboxes_followed [OF assms(1)]] assms(3) keeps_gateway_ok
    by (simp add: kept_def) blast
next
  case ReadMetrics
  then show ?thesis
    using followed_kept [OF read_only_followed(1) [of C]] assms(3) keeps_gateway_ok by (simp add: kept_def) blast
next
  case (ReadReputation a)
  then show ?thesis
    using followed_kept [OF read_only_followed(2) [of C a]] assms(3) keeps_gateway_ok by (simp add: kept_def) blast
next
  case Restart
  obtain es where "logs C (gw_monitor G) es" using assms(3) by (auto simp: gateway_ok_def)
  then obtain M where m: "start_gateway C threshold (m_file (gw_monitor G)) =
      (Inr (), foldl (reload_entry C) (empty_gateway M) es)" "logs C M es"
    using start_gateway_ok logs_file by metis
  then show ?thesis using Restart by (auto simp: gateway_ok_def reload_all_log reload_ledgers_ok)
qed

lemma events_keep_gateway_ok:
  assumes "conf_ok C" and "\<forall>ev \<in> set evs. wf_event C ev" and "gateway_ok C G"
  shows "gateway_ok C (foldl (gateway_event_step C threshold) G evs)"
  using assms(2,3)
  by (induction evs arbitrary: G) (simp_all add: event_keeps_gateway_ok [OF assms(1)])

lemma gateway_run_ok:
  assumes "conf_ok C" and "\<forall>ev \<in> set evs. wf_event C ev"
  shows "gateway_ok C (gateway_run C threshold evs)"
proof -
  obtain M where "start_gateway C threshold \<lparr>content = None, mtime_ns = 0\<rparr> = (Inr (), empty_gateway M)" "logs C M []"
    by (rule fresh_start)
  then show ?thesis
    unfolding gateway_run_def by (intro events_keep_gateway_ok [OF assms]) (auto simp: gateway_ok_def)
qed


text \<open>
  C22: Whatever a gateway is asked, over any number of restarts, its log file verifies, and
  every donation, proof, microtask and indexed file it holds names a seedbox of its registry,
  which files each seedbox under its own id.
\<close>

theorem gateway_invariant:
  assumes "conf_ok C" and "\<forall>ev \<in> set evs. wf_event C ev"
  shows "verify_integrity (gc_env C) (id_network (gc_identity C)) (m_file (gw_monitor (gateway_run C threshold evs))) =
      (True, []) \<and> ledgers_ok (gateway_run C threshold evs)"
  using gateway_run_ok [OF assms] logs_file(2) by (auto simp: gateway_ok_def)

definition sample_conf :: gw_conf where
  "sample_conf = \<lparr>gc_env = sample_env, gc_identity = sample_identity, gc_clock = (\<lambda>t. (Suc t, ''t'')),
     gc_ftrunc = (\<lambda>_. None), gc_millis = int, gc_pick = (\<lambda>_. 0), gc_exn_text = (\<lambda>_. ''error''),
     gc_local_agent_id = ''agent'', gc_mode = Defended, gc_max_risk = 1,
     gc_verifier = anchor_verifier_for ''mock'' 0\<rparr>"

lemma sample_conf_ok: "conf_ok sample_conf"
  by (simp add: conf_ok_def sample_conf_def)

definition sample_seedbox :: seedbox where
  "sample_seedbox = \<lparr>sb_seedbox_id = ''s1'', sb_owner_id = ''agent'', sb_donation_address = ''a'',
     sb_capacity_gb = 10, sb_created_at = ''t'', sb_fake = False\<rparr>"

definition sample_events :: "gateway_event list" where
  "sample_events =
     [ToolCall [(''tool_name'', JStr ''register_seedbox''),
        (''tool_kwargs'', JObj [(''seedbox_id'', JStr ''s1''), (''donation_address'', JStr ''a''),
           (''advertised_capacity_gb'', JInt 10)])],
      Restart,
      ToolCall [(''tool_name'', JStr ''broadcast_seedbox_donation''),
        (''tool_kwargs'', JObj [(''seedbox_id'', JStr ''s1''), (''amount_sats'', JInt 5), (''donation_id'', JStr ''d'')])],
      AuditSeedboxes, SecurityReport [(''subject_id'', JStr ''peer'')]]"

lemma sample_events_ok: "\<forall>ev \<in> set sample_events. wf_event C ev \<and> honest_event C ev"
  by (simp add: sample_events_def report_action_def text_or_def get_or_def)

theorem gateway_invariant_witness:
  "verify_integrity sample_env (id_network sample_identity)
     (m_file (gw_monitor (gateway_run sample_conf 30 sample_events))) = (True, []) \<and>
   ledgers_ok (gateway_run sample_conf 30 sample_events)"
  using gateway_invariant [OF sample_conf_ok, of sample_events 30] sample_events_ok [of sample_conf]
  by (simp add: sample_conf_def del: wf_event.simps)

section \<open>Restart\<close>

text \<open>The entries of the log, replayed on any empty gateway, mirror the gateway.\<close>

definition tracked :: "gw_conf \<Rightarrow> gateway \<Rightarrow> dict list \<Rightarrow> bool" where
  "tracked C G es = (logs C (gw_monitor G) es \<and> ledgers_ok G \<and>
     (\<forall>M. mirrors (foldl (reload_entry C) (empty_gateway M) es) G))"

lemma followed_tracked:
  assumes "followed C m" and "tracked C G es"
  obtains ns where "tracked C (snd (m G)) (es @ ns)"
proof -
  have "advances C G (snd (m G))" using assms(1) by (simp add: followed_def)
  then obtain ns where "logs C (gw_monitor (snd (m G))) (es @ ns)" "ledgers_ok (snd (m G))"
    "\<forall>H. mirrors H G \<longrightarrow> mirrors (foldl (reload_entry C) H ns) (snd (m G))"
    using assms(2) unfolding advances_def tracked_def by blast
  then show thesis using assms(2) by (intro that [of ns]) (simp add: tracked_def)
qed

lemma latest_filter: "latest f (filter (\<lambda>y. f y \<noteq> k) xs) = filter (\<lambda>y. f y \<noteq> k) (latest f xs)"
  by (induction xs rule: rev_induct) (auto simp: filter_filter conj_commute)

lemma latest_latest: "latest f (latest f xs) = latest f xs"
  by (induction xs rule: rev_induct) (simp_all add: latest_filter)

lemma mirrors_mirror: "mirrors H G \<Longrightarrow> mirrors X G \<Longrightarrow> mirrors X H"
  by (simp add: mirrors_def latest_latest)

lemma restart_tracked:
  assumes "tracked C G es"
  obtains H where "start_gateway C threshold (m_file (gw_monitor G)) = (Inr (), H)" "mirrors H G" "tracked C H es"
proof -
  have l: "logs C (gw_monitor G) es" and m: "\<And>M. mirrors (foldl (reload_entry C) (empty_gateway M) es) G"
    using assms by (simp_all add: tracked_def)
  obtain M where s: "start_gateway C threshold (m_file (gw_monitor G)) =
      (Inr (), foldl (reload_entry C) (empty_gateway M) es)" "logs C M es"
    using start_gateway_ok [OF logs_file [OF l]] .
  have "tracked C (foldl (reload_entry C) (empty_gateway M) es) es"
    unfolding tracked_def using s(2) by (simp add: reload_all_log reload_ledgers_ok mirrors_mirror [OF m m])
  with s(1) m show thesis by (intro that)
qed

lemma event_tracked:
  assumes "conf_ok C" and "wf_event C ev" and "honest_event C ev" and "tracked C G es"
  shows "\<exists>ns. tracked C (gateway_event_step C threshold G ev) (es @ ns)"
proof (cases ev)
  case (ToolCall p)
  then show ?thesis
    using followed_tracked [OF handle_tool_call_followed [OF assms(1), of p] assms(4)] assms(2) by auto
next
  case (SecurityReport p)
  then show ?thesis
    using followed_tracked [OF handle_security_report_followed [OF assms(1), of p] assms(4)] assms(2,3) by auto
next
  case AuditSeedboxes
  then show ?thesis using followed_tracked [OF audit_seedboxes_followed [OF assms(1)] assms(4)] by auto
next
  case ReadMetrics
  then show ?thesis using followed_tracked [OF read_only_followed(1) assms(4)] by auto
next
  case (ReadReputation a)
  then show ?thesis using followed_tracked [OF read_only_followed(2) assms(4)] by auto
next
  case Restart
  obtain H where "start_gateway C threshold (m_file (gw_monitor G)) = (Inr (), H)" "tracked C H es"
    by (rule restart_tracked [OF assms(4)])
  then show ?thesis using Restart by (auto intro: exI [of _ "[]"])
qed

lemma events_tracked:
  assumes "conf_ok C" and "\<forall>ev \<in> set evs. wf_event C ev \<and> honest_event C ev" and "tracked C G es"
  shows "\<exists>ns. tracked C (foldl (gateway_event_step C threshold) G evs) (es @ ns)"
  using assms(2,3)
proof (induction evs arbitrary: G es)
  case Nil
  then show ?case by (auto intro: exI [of _ "[]"])
next
  case (Cons ev evs)
  obtain ns where "tracked C (gateway_event_step C threshold G ev) (es @ ns)"
    using event_tracked [OF assms(1)] Cons.prems by (meson list.set_intros(1))
  with Cons.IH [OF _ this] Cons.prems show ?case by auto
qed

text \<open>
  C23: A gateway started on the log of another one, which has served any requests and restarts
  but no report that claims a tool execution or an audit, has its registry, its microtasks and
  its files, of each donation id and proof id the latest record (all of them when the ids are
  distinct), its audits except one of the empty id, and no reload error.
\<close>

theorem restart_restores:
  assumes "conf_ok C" and "\<forall>ev \<in> set evs. wf_event C ev \<and> honest_event C ev"
    and "G = gateway_run C threshold evs"
  shows "\<exists>H. start_gateway C threshold (m_file (gw_monitor G)) = (Inr (), H) \<and>
     gw_registry H = gw_registry G \<and> gw_microtasks H = gw_microtasks G \<and> gw_files H = gw_files G \<and>
     gw_donations H = latest dn_donation_id (gw_donations G) \<and>
     gw_proofs H = latest sp_proof_id (gw_proofs G) \<and>
     gw_audits H = filter (\<lambda>s. s \<noteq> []) (gw_audits G) \<and> gw_reload_errors H = [] \<and>
     (distinct (map dn_donation_id (gw_donations G)) \<longrightarrow> gw_donations H = gw_donations G) \<and>
     (distinct (map sp_proof_id (gw_proofs G)) \<longrightarrow> gw_proofs H = gw_proofs G)"
proof -
  obtain M where f: "start_gateway C threshold \<lparr>content = None, mtime_ns = 0\<rparr> = (Inr (), empty_gateway M)" "logs C M []"
    by (rule fresh_start)
  then have "tracked C (empty_gateway M) []" by (simp add: tracked_def)
  then obtain es where "tracked C G es"
    using events_tracked [OF assms(1,2), of "empty_gateway M" "[]" threshold] f(1)
    by (auto simp: assms(3) gateway_run_def)
  then obtain H where "start_gateway C threshold (m_file (gw_monitor G)) = (Inr (), H)" "mirrors H G"
    by (rule restart_tracked)
  then show ?thesis by (auto simp: mirrors_def latest_distinct)
qed

theorem restart_restores_witness:
  "\<exists>H. start_gateway sample_conf 30 (m_file (gw_monitor (gateway_run sample_conf 30 sample_events))) = (Inr (), H) \<and>
     gw_registry H = gw_registry (gateway_run sample_conf 30 sample_events) \<and>
     gw_donations H = latest dn_donation_id (gw_donations (gateway_run sample_conf 30 sample_events)) \<and>
     gw_reload_errors H = []"
  using restart_restores [OF sample_conf_ok sample_events_ok refl, of 30] by blast

section \<open>A forged record\<close>

definition forged_report :: "seedbox \<Rightarrow> dict" where
  "forged_report s = [(''action'', JStr ''tool_execution_success''),
     (''details'', JObj [(''tool'', JStr ''register_seedbox''), (''output'', seedbox_dict s)])]"

lemma forged_report_appends:
  assumes "conf_ok C" and "logs C (gw_monitor G) es"
  obtains M e where "logs C M (es @ [e])"
    and "entry_of (action_value TOOL_EXECUTION_SUCCESS)
      [(''tool'', JStr ''register_seedbox''), (''output'', seedbox_dict s)] e"
    and "m_file (gw_monitor (snd (handle_security_report C (forged_report s) G))) = m_file M"
    and "gw_registry (snd (handle_security_report C (forged_report s) G)) = gw_registry G"
proof -
  let ?d = "[(''tool'', JStr ''register_seedbox''), (''output'', seedbox_dict s)]"
  let ?G = "G\<lparr>gw_monitor := next_step (gw_monitor G)\<rparr>"
  have g: "jget (forged_report s) ''action'' = JStr ''tool_execution_success''"
    "jget (forged_report s) ''details'' = JObj ?d" "jget (forged_report s) ''subject_id'' = JNull"
    "jget (forged_report s) ''agent_id'' = JNull" "jget (forged_report s) ''evidence'' = JNull"
    "get_or (forged_report s) ''severity'' v = v" for v
    by (simp_all add: forged_report_def get_or_def)
  have w: "wf_dict (fr C) ?d" by (simp add: wf_dicts)
  have e: "evidence_wf (gc_env C) (Some [])" by (simp add: evidence_wf_def)
  have "logs C (gw_monitor ?G) es" using assms(2) by (simp add: next_step_def monitor_ok_def)
  then obtain M x where a: "gw_append C (gc_local_agent_id C) ''tool_execution_success''
      (case map_of default_weights ''tool_execution_success'' of None \<Rightarrow> 10 | Some w \<Rightarrow> w) ?d (Some []) ?G =
      (Inr (), ?G\<lparr>gw_monitor := M\<rparr>)" "logs C M (es @ [x])" "entry_of ''tool_execution_success'' ?d x"
    using gw_append_ok [OF _ assms(1) w e] by metis
  have h: "snd (handle_security_report C (forged_report s) G) = snd (gw_scan C (?G\<lparr>gw_monitor := M\<rparr>))"
    using a(1)
    by (simp add: handle_security_report_def g text_or_def dict_of_def py_str_def to_int_def seq_def modify_def
        raising_def Let_def split: prod.splits sum.splits)
  show thesis
    by (rule that [OF a(2)]) (use a(3) in \<open>simp_all add: h gw_scan_def Let_def split: prod.splits\<close>)
qed

text \<open>
  A security report is taken at its word after a restart: a report, from anyone, of a
  tool execution whose details look like a registration leaves the registry as it is, and
  after the next restart the seedbox it describes is registered.
\<close>

lemma report_forges_seedbox:
  assumes "conf_ok C"
  shows "gw_registry (gateway_run C threshold [SecurityReport (forged_report s)]) = [] \<and>
    gw_registry (gateway_run C threshold [SecurityReport (forged_report s), Restart]) = [(sb_seedbox_id s, s)]"
proof -
  obtain M0 where f: "start_gateway C threshold \<lparr>content = None, mtime_ns = 0\<rparr> = (Inr (), empty_gateway M0)" "logs C M0 []"
    by (rule fresh_start)
  have "logs C (gw_monitor (empty_gateway M0)) []" using f(2) by simp
  then obtain M e where a: "logs C M ([] @ [e])"
    "entry_of (action_value TOOL_EXECUTION_SUCCESS) [(''tool'', JStr ''register_seedbox''), (''output'', seedbox_dict s)] e"
    "m_file (gw_monitor (snd (handle_security_report C (forged_report s) (empty_gateway M0)))) = m_file M"
    "gw_registry (snd (handle_security_report C (forged_report s) (empty_gateway M0))) = gw_registry (empty_gateway M0)"
    by (rule forged_report_appends [OF assms])
  obtain N where n: "start_gateway C threshold (m_file M) = (Inr (), foldl (reload_entry C) (empty_gateway N) ([] @ [e]))"
    using start_gateway_ok [OF logs_file [OF a(1)]] by metis
  obtain d where d: "seedbox_dict s = JObj d" by (simp add: seedbox_dict_def)
  have "gw_registry (reload_entry C (empty_gateway N) e) = [(sb_seedbox_id s, s)]"
    using a(2) restore_seedbox_dict [of C s, unfolded d]
    by (simp add: reload_entry_def Let_def replay_log_entry_def entry_of_def get_or_def d replay_output_def
        empty_gateway_def raise_step_def split: option.splits)
  then show ?thesis using f(1) a(3,4) n by (simp add: gateway_run_def empty_gateway_def)
qed

theorem report_forges_seedbox_witness:
  "gw_registry (gateway_run sample_conf 30 [SecurityReport (forged_report sample_seedbox)]) = [] \<and>
   gw_registry (gateway_run sample_conf 30 [SecurityReport (forged_report sample_seedbox), Restart]) =
     [(''s1'', sample_seedbox)]"
  using report_forges_seedbox [OF sample_conf_ok, of 30 sample_seedbox] by (simp add: sample_seedbox_def)

end
