(* ===== verification/Donation_Verifier.thy ===== *)
theory Donation_Verifier
  imports Json
begin

text \<open>
  The donation verifier (admission/donation_verifier.py): does a transaction pay the seedbox
  address enough, with enough confirmations?  The transaction service is a parameter: it
  answers with the text of its failure, with nothing, or with the transaction.  Fields a
  transaction may lack are values of Python, \<open>JNull\<close> where the attribute is absent.
\<close>

record tx_output =
  out_address :: "string option"
  out_addresses :: "string list"
  out_value :: json

record transaction =
  tx_confirmations :: json
  tx_outputs :: "tx_output list"

record donation_verifier =
  dv_seedbox_address :: string
  dv_min_sats :: int
  dv_min_confirmations :: int
  dv_network :: string
  dv_gettransaction :: "string \<Rightarrow> string + transaction option"

record donation_verification =
  ver_accepted :: bool
  ver_reason :: string
  ver_paid_sats :: int
  ver_confirmations :: int

definition is_mock :: "donation_verifier \<Rightarrow> bool" where
  "is_mock V = (lower (strip (dv_network V)) \<in> {''mock'', ''synthetic''})"

text \<open>The address of an output, or the first of its addresses.\<close>

definition extract_address :: "tx_output \<Rightarrow> string option" where
  "extract_address x = (case out_address x of
     Some (c # cs) \<Rightarrow> Some (c # cs)
   | _ \<Rightarrow> (case out_addresses x of [] \<Rightarrow> None | a # _ \<Rightarrow> Some a))"

definition confirmations_of :: "transaction \<Rightarrow> int" where
  "confirmations_of tx = (case int_of (tx_confirmations tx) of Some n \<Rightarrow> n | None \<Rightarrow> 0)"

text \<open>The first output that pays the address decides.\<close>

fun verify_outputs :: "donation_verifier \<Rightarrow> int \<Rightarrow> tx_output list \<Rightarrow> donation_verification" where
  "verify_outputs V confs [] =
     \<lparr>ver_accepted = False, ver_reason = ''no_matching_output'', ver_paid_sats = 0, ver_confirmations = confs\<rparr>"
| "verify_outputs V confs (x # xs) =
     (case int_of (out_value x) of
        None \<Rightarrow> verify_outputs V confs xs
      | Some value \<Rightarrow>
          if extract_address x \<noteq> Some (dv_seedbox_address V) then verify_outputs V confs xs
          else if value < dv_min_sats V then
            \<lparr>ver_accepted = False,
             ver_reason = ''insufficient_amount:'' @ py_str (out_value x) @ ''<'' @ int_str (dv_min_sats V),
             ver_paid_sats = value, ver_confirmations = confs\<rparr>
          else if confs < dv_min_confirmations V then
            \<lparr>ver_accepted = False,
             ver_reason = ''insufficient_confirmations:'' @ int_str confs @ ''<'' @ int_str (dv_min_confirmations V),
             ver_paid_sats = value, ver_confirmations = confs\<rparr>
          else \<lparr>ver_accepted = True, ver_reason = ''ok'', ver_paid_sats = value, ver_confirmations = confs\<rparr>)"

definition verify_donation :: "donation_verifier \<Rightarrow> string \<Rightarrow> donation_verification" where
  "verify_donation V txid =
     (if is_mock V then
        (if txid = []
         then \<lparr>ver_accepted = False, ver_reason = ''empty_txid'', ver_paid_sats = 0, ver_confirmations = 0\<rparr>
         else \<lparr>ver_accepted = True, ver_reason = ''mock_auto_admit'', ver_paid_sats = dv_min_sats V,
               ver_confirmations = max (dv_min_confirmations V) 1\<rparr>)
      else
        (case dv_gettransaction V txid of
           Inl text \<Rightarrow> \<lparr>ver_accepted = False, ver_reason = ''fetch_failed:'' @ text, ver_paid_sats = 0,
                        ver_confirmations = 0\<rparr>
         | Inr None \<Rightarrow> \<lparr>ver_accepted = False, ver_reason = ''tx_not_found'', ver_paid_sats = 0,
                        ver_confirmations = 0\<rparr>
         | Inr (Some tx) \<Rightarrow> verify_outputs V (confirmations_of tx) (tx_outputs tx)))"

section \<open>What acceptance means\<close>

lemma verify_outputs_accepted:
  "ver_accepted (verify_outputs V confs xs) \<Longrightarrow>
     \<exists>x \<in> set xs. extract_address x = Some (dv_seedbox_address V) \<and>
       int_of (out_value x) = Some (ver_paid_sats (verify_outputs V confs xs)) \<and>
       dv_min_sats V \<le> ver_paid_sats (verify_outputs V confs xs) \<and> dv_min_confirmations V \<le> confs"
  by (induction xs) (auto split: option.splits if_splits)

end
