(* ===== verification/Seedbox_Node.thy ===== *)
theory Seedbox_Node
  imports Donation_Verifier Manifest
begin

text \<open>
  The bootstrap community (communication/community.py): admission by donation or by a signed
  log entry, and the exchange of overlay descriptors and network manifests.  A peer is its
  member id.  Sent messages are collected in an outbox; a future is an index into the list of
  futures, each with the request it was created for and its outcome, if it is done.  The
  UTF-8 decoders, msgpack and the text of a decode error are parameters.  The callbacks of
  offers and introductions, which no part of the program sets, and the wire log are left out.
\<close>

section \<open>Messages\<close>

datatype wire_message =
    JoinRequest bytes
  | JoinResponse bool
  | OverlayOffer bytes
  | OverlayRequest bytes
  | OverlayDelivery bytes bytes
  | ManifestOffer bytes
  | ManifestRequest bytes
  | ManifestDelivery bytes bytes
  | PeerIntro bytes bytes
  | CommunityJoinRequest bytes
  | CommunityJoinResponse bool bytes

datatype unpacked = PackedList "bytes option list" | PackedOther

record wire_env =
  we_sha1 :: "bytes \<Rightarrow> bytes"
  we_decode :: "bytes \<Rightarrow> string option"
  we_decode_replace :: "bytes \<Rightarrow> string"
  we_decode_error :: "bytes \<Rightarrow> string"
  we_json_error :: "string \<Rightarrow> string"
  we_float_repr :: "string \<Rightarrow> string"
  we_pack :: "bytes list \<Rightarrow> bytes"
  we_unpack :: "bytes \<Rightarrow> unpacked option"

section \<open>State\<close>

record peer_meta =
  pm_wallet_address :: string
  pm_known_overlays :: "bytes list"

datatype request = JoinOf bytes | OverlayOf bytes | ManifestOf bytes | CommunityJoinOf bytes

datatype outcome = Decision bool | Fetched bytes | CommunityDecision bool string | Cancelled

type_synonym future = "request \<times> outcome option"

record node =
  nd_verifier :: "donation_verifier option"
  nd_wallet_address :: "string option"
  nd_pending_joins :: "(bytes \<times> nat) list"
  nd_pending_community_joins :: "(bytes \<times> nat) list"
  nd_pending_fetches :: "(bytes \<times> nat) list"
  nd_pending_manifest_fetches :: "(bytes \<times> nat) list"
  nd_published :: "(bytes \<times> string) list"
  nd_published_manifests :: "(bytes \<times> string) list"
  nd_known_offers :: "(bytes \<times> bytes list) list"
  nd_known_manifest_offers :: "(bytes \<times> bytes list) list"
  nd_peer_meta :: "(bytes \<times> peer_meta) list"
  nd_verified :: "bytes list"
  nd_futures :: "future list"
  nd_sent :: "(bytes \<times> wire_message) list"

definition new_node :: "donation_verifier option \<Rightarrow> string option \<Rightarrow> node" where
  "new_node verifier wallet =
     \<lparr>nd_verifier = verifier, nd_wallet_address = wallet, nd_pending_joins = [], nd_pending_community_joins = [],
      nd_pending_fetches = [], nd_pending_manifest_fetches = [], nd_published = [], nd_published_manifests = [],
      nd_known_offers = [], nd_known_manifest_offers = [], nd_peer_meta = [], nd_verified = [],
      nd_futures = [], nd_sent = []\<rparr>"

definition max_overlay_bytes :: nat where
  "max_overlay_bytes = 64 * 1024"

text \<open>The local copy of the canonical text is the one of the compiler (\<open>canonicalize_md\<close>).\<close>

definition overlay_id :: "wire_env \<Rightarrow> string \<Rightarrow> bytes" where
  "overlay_id W md_text = take 20 (we_sha1 W (canonicalize_md md_text))"

definition manifest_id :: "wire_env \<Rightarrow> string \<Rightarrow> bytes" where
  "manifest_id W md_text = take 20 (we_sha1 W (canonicalize_md md_text))"

definition send :: "bytes \<Rightarrow> wire_message \<Rightarrow> node \<Rightarrow> node" where
  "send peer m n = n\<lparr>nd_sent := nd_sent n @ [(peer, m)]\<rparr>"

definition create_future :: "request \<Rightarrow> node \<Rightarrow> nat \<times> node" where
  "create_future q n = (length (nd_futures n), n\<lparr>nd_futures := nd_futures n @ [(q, None)]\<rparr>)"

text \<open>\<open>if future is not None and not future.done(): future.set_result(...)\<close>.\<close>

definition resolve :: "nat option \<Rightarrow> outcome \<Rightarrow> node \<Rightarrow> node" where
  "resolve f x n = (case f of
     None \<Rightarrow> n
   | Some i \<Rightarrow>
       if snd (nd_futures n ! i) = None
       then n\<lparr>nd_futures := (nd_futures n)[i := (fst (nd_futures n ! i), Some x)]\<rparr>
       else n)"

text \<open>A waiter that gives up cancels its future.\<close>

definition cancel :: "nat \<Rightarrow> node \<Rightarrow> node" where
  "cancel i n = (if i < length (nd_futures n) then resolve (Some i) Cancelled n else n)"

definition add_verified_peer :: "bytes \<Rightarrow> node \<Rightarrow> node" where
  "add_verified_peer peer n = n\<lparr>nd_verified := List.insert peer (nd_verified n)\<rparr>"

definition send_peer_intro :: "wire_env \<Rightarrow> bytes \<Rightarrow> node \<Rightarrow> node" where
  "send_peer_intro W peer n = (case nd_wallet_address n of
     None \<Rightarrow> n
   | Some a \<Rightarrow> send peer (PeerIntro (utf8_encode a) (we_pack W (sort (map fst (nd_published n))))) n)"

section \<open>Admission by donation\<close>

definition request_join :: "bytes \<Rightarrow> bytes \<Rightarrow> node \<Rightarrow> nat \<times> node" where
  "request_join gatekeeper txid n =
     (let (i, n1) = create_future (JoinOf gatekeeper) n
      in (i, send gatekeeper (JoinRequest txid)
               (n1\<lparr>nd_pending_joins := AList.update gatekeeper i (nd_pending_joins n1)\<rparr>)))"

definition on_join_request :: "wire_env \<Rightarrow> bytes \<Rightarrow> bytes \<Rightarrow> node \<Rightarrow> node" where
  "on_join_request W peer txid n = (case nd_verifier n of
     None \<Rightarrow> send peer (JoinResponse False) n
   | Some V \<Rightarrow>
       (let accepted = ver_accepted (verify_donation V (bytes_hex txid));
            n1 = (if accepted then add_verified_peer peer n else n);
            n2 = send peer (JoinResponse accepted) n1
        in if accepted then send_peer_intro W peer n2 else n2))"

definition on_join_response :: "wire_env \<Rightarrow> bytes \<Rightarrow> bool \<Rightarrow> node \<Rightarrow> node" where
  "on_join_response W peer accepted n =
     (let f = map_of (nd_pending_joins n) peer;
          n1 = resolve f (Decision accepted) (n\<lparr>nd_pending_joins := AList.delete peer (nd_pending_joins n)\<rparr>)
      in if accepted then send_peer_intro W peer n1 else n1)"

section \<open>Admission by a signed entry\<close>

definition request_community_join :: "bytes \<Rightarrow> dict \<Rightarrow> node \<Rightarrow> nat \<times> node" where
  "request_community_join gatekeeper entry n =
     (let (i, n1) = create_future (CommunityJoinOf gatekeeper) n
      in (i, send gatekeeper (CommunityJoinRequest (utf8_encode (dumps_default (JObj entry))))
               (n1\<lparr>nd_pending_community_joins := AList.update gatekeeper i (nd_pending_community_joins n1)\<rparr>)))"

text \<open>The callback decides on the entry; it acts on the state of its owner.\<close>

type_synonym 's join_callback = "bytes \<Rightarrow> dict \<Rightarrow> (bool \<times> string, 's) step"

definition on_node :: "(node \<Rightarrow> node) \<Rightarrow> (unit, node \<times> 's) step" where
  "on_node f = (\<lambda>(n, s). (Inr (), (f n, s)))"

definition join_reply :: "wire_env \<Rightarrow> bytes \<Rightarrow> bool \<Rightarrow> string \<Rightarrow> node \<Rightarrow> node" where
  "join_reply W peer accepted reason n =
     (let n1 = (if accepted then add_verified_peer peer n else n);
          n2 = send peer (CommunityJoinResponse accepted (utf8_encode reason)) n1
      in if accepted then send_peer_intro W peer n2 else n2)"

definition on_community_join_request ::
  "wire_env \<Rightarrow> 's join_callback option \<Rightarrow> bytes \<Rightarrow> bytes \<Rightarrow> (unit, node \<times> 's) step" where
  "on_community_join_request W callback peer signed_entry = (case callback of
     None \<Rightarrow> on_node (join_reply W peer False ''no_community_join_callback'')
   | Some decide \<Rightarrow>
       (case we_decode W signed_entry of
          None \<Rightarrow> on_node (join_reply W peer False (''malformed_entry:'' @ we_decode_error W signed_entry))
        | Some text \<Rightarrow>
            (case loads (we_float_repr W) text of
               None \<Rightarrow> on_node (join_reply W peer False (''malformed_entry:'' @ we_json_error W text))
             | Some (JObj entry) \<Rightarrow>
                 (\<lambda>(n, s). case decide peer entry s of
                    (Inl x, s') \<Rightarrow> (Inl x, (n, s'))
                  | (Inr (accepted, reason), s') \<Rightarrow> (Inr (), (join_reply W peer accepted reason n, s')))
             | Some _ \<Rightarrow> on_node (join_reply W peer False ''entry_not_object''))))"

definition on_community_join_response :: "wire_env \<Rightarrow> bytes \<Rightarrow> bool \<Rightarrow> bytes \<Rightarrow> node \<Rightarrow> node" where
  "on_community_join_response W peer accepted reason n =
     (let f = map_of (nd_pending_community_joins n) peer;
          text = (case we_decode W reason of Some t \<Rightarrow> t | None \<Rightarrow> ''<reason: invalid utf-8>'');
          n1 = resolve f (CommunityDecision accepted text)
                 (n\<lparr>nd_pending_community_joins := AList.delete peer (nd_pending_community_joins n)\<rparr>)
      in if accepted then send_peer_intro W peer n1 else n1)"

section \<open>Overlay descriptors\<close>

text \<open>An id of other than 20 bytes is refused before anything is sent.\<close>

definition id_length :: "bytes \<Rightarrow> unit res" where
  "id_length h = (if length h \<noteq> 20 then Inl (ValueError ''md_hash must be exactly 20 bytes'') else Inr ())"

definition add_offer :: "bytes \<Rightarrow> bytes \<Rightarrow> (bytes \<times> bytes list) list \<Rightarrow> (bytes \<times> bytes list) list" where
  "add_offer h peer offers =
     AList.update h (List.insert peer (case map_of offers h of Some ps \<Rightarrow> ps | None \<Rightarrow> [])) offers"

definition publish_overlay :: "wire_env \<Rightarrow> string \<Rightarrow> node \<Rightarrow> bytes \<times> node" where
  "publish_overlay W md_text n =
     (let h = overlay_id W md_text in (h, n\<lparr>nd_published := AList.update h md_text (nd_published n)\<rparr>))"

definition offer_overlay :: "bytes \<Rightarrow> bytes \<Rightarrow> node \<Rightarrow> node res" where
  "offer_overlay peer h n = bindr (id_length h) (\<lambda>_. Inr (send peer (OverlayOffer h) n))"

definition fetch_overlay :: "bytes \<Rightarrow> bytes \<Rightarrow> node \<Rightarrow> (nat \<times> node) res" where
  "fetch_overlay peer h n = bindr (id_length h) (\<lambda>_.
     let (i, n1) = create_future (OverlayOf h) n
     in Inr (i, send peer (OverlayRequest h) (n1\<lparr>nd_pending_fetches := AList.update h i (nd_pending_fetches n1)\<rparr>)))"

definition on_overlay_offer :: "bytes \<Rightarrow> bytes \<Rightarrow> node \<Rightarrow> node" where
  "on_overlay_offer peer h n = n\<lparr>nd_known_offers := add_offer h peer (nd_known_offers n)\<rparr>"

definition on_overlay_request :: "bytes \<Rightarrow> bytes \<Rightarrow> node \<Rightarrow> node" where
  "on_overlay_request peer h n = (case map_of (nd_published n) h of
     None \<Rightarrow> n
   | Some md_text \<Rightarrow>
       (let body = utf8_encode md_text in
        if length body > max_overlay_bytes then n else send peer (OverlayDelivery h body) n))"

definition on_overlay_delivery :: "wire_env \<Rightarrow> bytes \<Rightarrow> bytes \<Rightarrow> node \<Rightarrow> node" where
  "on_overlay_delivery W h body n =
     (if length body > max_overlay_bytes then n
      else if overlay_id W (we_decode_replace W body) \<noteq> h then n
      else resolve (map_of (nd_pending_fetches n) h) (Fetched body)
             (n\<lparr>nd_pending_fetches := AList.delete h (nd_pending_fetches n)\<rparr>))"

section \<open>Network manifests\<close>

definition publish_manifest :: "wire_env \<Rightarrow> string \<Rightarrow> node \<Rightarrow> bytes \<times> node" where
  "publish_manifest W md_text n =
     (let h = manifest_id W md_text
      in (h, n\<lparr>nd_published_manifests := AList.update h md_text (nd_published_manifests n)\<rparr>))"

definition offer_manifest :: "bytes \<Rightarrow> bytes \<Rightarrow> node \<Rightarrow> node res" where
  "offer_manifest peer h n = bindr (id_length h) (\<lambda>_. Inr (send peer (ManifestOffer h) n))"

definition fetch_manifest :: "bytes \<Rightarrow> bytes \<Rightarrow> node \<Rightarrow> (nat \<times> node) res" where
  "fetch_manifest peer h n = bindr (id_length h) (\<lambda>_.
     let (i, n1) = create_future (ManifestOf h) n
     in Inr (i, send peer (ManifestRequest h)
                  (n1\<lparr>nd_pending_manifest_fetches := AList.update h i (nd_pending_manifest_fetches n1)\<rparr>)))"

definition on_manifest_offer :: "bytes \<Rightarrow> bytes \<Rightarrow> node \<Rightarrow> node" where
  "on_manifest_offer peer h n = n\<lparr>nd_known_manifest_offers := add_offer h peer (nd_known_manifest_offers n)\<rparr>"

definition on_manifest_request :: "bytes \<Rightarrow> bytes \<Rightarrow> node \<Rightarrow> node" where
  "on_manifest_request peer h n = (case map_of (nd_published_manifests n) h of
     None \<Rightarrow> n
   | Some md_text \<Rightarrow>
       (let body = utf8_encode md_text in
        if length body > max_overlay_bytes then n else send peer (ManifestDelivery h body) n))"

definition on_manifest_delivery :: "wire_env \<Rightarrow> bytes \<Rightarrow> bytes \<Rightarrow> node \<Rightarrow> node" where
  "on_manifest_delivery W h body n =
     (if length body > max_overlay_bytes then n
      else if manifest_id W (we_decode_replace W body) \<noteq> h then n
      else resolve (map_of (nd_pending_manifest_fetches n) h) (Fetched body)
             (n\<lparr>nd_pending_manifest_fetches := AList.delete h (nd_pending_manifest_fetches n)\<rparr>))"

section \<open>Introductions\<close>

text \<open>Elements that are not 20 bytes are dropped from the list; anything else malformed drops the message.\<close>

definition overlay_ids :: "bytes option list \<Rightarrow> bytes list" where
  "overlay_ids xs = filter (\<lambda>h. length h = 20) (List.map_filter id xs)"

definition on_peer_intro :: "wire_env \<Rightarrow> bytes \<Rightarrow> bytes \<Rightarrow> bytes \<Rightarrow> node \<Rightarrow> node" where
  "on_peer_intro W peer wallet_address known_overlays n =
     (case (we_decode W wallet_address, we_unpack W known_overlays) of
        (Some addr, Some (PackedList raw)) \<Rightarrow>
          n\<lparr>nd_peer_meta := AList.update peer
              \<lparr>pm_wallet_address = addr, pm_known_overlays = overlay_ids raw\<rparr> (nd_peer_meta n)\<rparr>
      | _ \<Rightarrow> n)"

section \<open>Dispatch\<close>

fun receive :: "wire_env \<Rightarrow> 's join_callback option \<Rightarrow> bytes \<Rightarrow> wire_message \<Rightarrow> (unit, node \<times> 's) step" where
  "receive W cb peer (JoinRequest txid) = on_node (on_join_request W peer txid)"
| "receive W cb peer (JoinResponse accepted) = on_node (on_join_response W peer accepted)"
| "receive W cb peer (OverlayOffer h) = on_node (on_overlay_offer peer h)"
| "receive W cb peer (OverlayRequest h) = on_node (on_overlay_request peer h)"
| "receive W cb peer (OverlayDelivery h body) = on_node (on_overlay_delivery W h body)"
| "receive W cb peer (ManifestOffer h) = on_node (on_manifest_offer peer h)"
| "receive W cb peer (ManifestRequest h) = on_node (on_manifest_request peer h)"
| "receive W cb peer (ManifestDelivery h body) = on_node (on_manifest_delivery W h body)"
| "receive W cb peer (PeerIntro wallet overlays) = on_node (on_peer_intro W peer wallet overlays)"
| "receive W cb peer (CommunityJoinRequest signed_entry) = on_community_join_request W cb peer signed_entry"
| "receive W cb peer (CommunityJoinResponse accepted reason) = on_node (on_community_join_response W peer accepted reason)"

end
