(* ===== verification/Seedbox_Node_Spec.thy ===== *)
theory Seedbox_Node_Spec
  imports Seedbox_Node
begin

text \<open>
  Properties of the bootstrap community: what a resolved future holds, whatever peers send,
  who is admitted, and the waiter that a second fetch of the same document loses.
\<close>

section \<open>Runs\<close>

text \<open>
  The events of a node: calls of its own program, messages of peers and waiters giving up.
  A handler that raises leaves the state it had reached.
\<close>

datatype node_event =
    CallJoin bytes bytes
  | CallCommunityJoin bytes dict
  | CallFetchOverlay bytes bytes
  | CallFetchManifest bytes bytes
  | PublishOverlay string
  | PublishManifest string
  | Receive bytes wire_message
  | Cancel nat

fun call_event :: "wire_env \<Rightarrow> node_event \<Rightarrow> node \<Rightarrow> node" where
  "call_event W (CallJoin g txid) n = snd (request_join g txid n)"
| "call_event W (CallCommunityJoin g entry) n = snd (request_community_join g entry n)"
| "call_event W (CallFetchOverlay p h) n = (case fetch_overlay p h n of Inl x \<Rightarrow> n | Inr (i, n') \<Rightarrow> n')"
| "call_event W (CallFetchManifest p h) n = (case fetch_manifest p h n of Inl x \<Rightarrow> n | Inr (i, n') \<Rightarrow> n')"
| "call_event W (PublishOverlay t) n = snd (publish_overlay W t n)"
| "call_event W (PublishManifest t) n = snd (publish_manifest W t n)"
| "call_event W (Cancel i) n = cancel i n"
| "call_event W (Receive p m) n = n"

definition node_event_step ::
  "wire_env \<Rightarrow> 's join_callback option \<Rightarrow> node \<times> 's \<Rightarrow> node_event \<Rightarrow> node \<times> 's" where
  "node_event_step W cb ns ev = (case ev of
     Receive p m \<Rightarrow> snd (receive W cb p m ns)
   | _ \<Rightarrow> (call_event W ev (fst ns), snd ns))"

definition node_run :: "wire_env \<Rightarrow> 's join_callback option \<Rightarrow> node_event list \<Rightarrow> node \<times> 's \<Rightarrow> node \<times> 's" where
  "node_run W cb evs ns = foldl (node_event_step W cb) ns evs"

text \<open>A message that is not a community join request runs a handler of the node alone.\<close>

fun handler :: "wire_env \<Rightarrow> bytes \<Rightarrow> wire_message \<Rightarrow> node \<Rightarrow> node" where
  "handler W peer (JoinRequest txid) = on_join_request W peer txid"
| "handler W peer (JoinResponse accepted) = on_join_response W peer accepted"
| "handler W peer (OverlayOffer h) = on_overlay_offer peer h"
| "handler W peer (OverlayRequest h) = on_overlay_request peer h"
| "handler W peer (OverlayDelivery h body) = on_overlay_delivery W h body"
| "handler W peer (ManifestOffer h) = on_manifest_offer peer h"
| "handler W peer (ManifestRequest h) = on_manifest_request peer h"
| "handler W peer (ManifestDelivery h body) = on_manifest_delivery W h body"
| "handler W peer (PeerIntro wallet overlays) = on_peer_intro W peer wallet overlays"
| "handler W peer (CommunityJoinRequest signed_entry) = (\<lambda>n. n)"
| "handler W peer (CommunityJoinResponse accepted reason) = on_community_join_response W peer accepted reason"

text \<open>The effect of a message: the handler, or the reply to a join request with the callback's verdict.\<close>

lemma receive_effect:
  obtains "snd (receive W cb p m (n, s)) = (handler W p m n, snd (snd (receive W cb p m (n, s))))"
  | b acc reason where "m = CommunityJoinRequest b"
    and "fst (snd (receive W cb p m (n, s))) = join_reply W p acc reason n"
    and "acc \<longrightarrow> (\<exists>decide t entry. cb = Some decide \<and> we_decode W b = Some t \<and>
           loads (we_float_repr W) t = Some (JObj entry) \<and> fst (decide p entry s) = Inr (True, reason))"
proof (cases "\<exists>b. m = CommunityJoinRequest b")
  case False
  then have "receive W cb p m (n, s) = (Inr (), (handler W p m n, s))"
    by (cases m) (auto simp: on_node_def)
  with that(1) show thesis by simp
next
  case True
  then obtain b where m: "m = CommunityJoinRequest b" by blast
  show thesis
  proof (cases cb)
    case None
    show thesis
      by (rule that(2) [OF m, of False]) (simp_all add: m None on_community_join_request_def on_node_def)
  next
    case (Some decide)
    show thesis
    proof (cases "we_decode W b")
      case None
      show thesis
        by (rule that(2) [OF m, of False]) (simp_all add: m Some None on_community_join_request_def on_node_def)
    next
      case t: (Some t)
      consider (bad) "loads (we_float_repr W) t = None"
        | (obj) e where "loads (we_float_repr W) t = Some (JObj e)"
        | (other) v where "loads (we_float_repr W) t = Some v" "\<forall>e. v \<noteq> JObj e"
        by (cases "loads (we_float_repr W) t") auto
      then show thesis
      proof cases
        case bad
        show thesis
          by (rule that(2) [OF m, of False])
            (simp_all add: m Some t bad on_community_join_request_def on_node_def)
      next
        case other
        show thesis
          by (rule that(2) [OF m, of False "''entry_not_object''"])
            (use other in \<open>auto simp: m Some t on_community_join_request_def on_node_def split: json.splits\<close>)
      next
        case obj
        obtain r s' where d: "decide p e s = (r, s')" by (cases "decide p e s")
        show thesis
        proof (cases r)
          case (Inl x)
          with that(1) show thesis by (simp add: m Some t obj d on_community_join_request_def)
        next
          case (Inr v)
          obtain acc reason where v: "v = (acc, reason)" by (cases v)
          show thesis
            by (rule that(2) [OF m, of acc reason])
              (use Inr v obj d Some t in \<open>auto simp: m on_community_join_request_def\<close>)
        qed
      qed
    qed
  qed
qed

section \<open>Futures\<close>

fun outcome_ok :: "wire_env \<Rightarrow> request \<Rightarrow> outcome \<Rightarrow> bool" where
  "outcome_ok W q Cancelled = True"
| "outcome_ok W (JoinOf g) (Decision b) = True"
| "outcome_ok W (CommunityJoinOf g) (CommunityDecision b r) = True"
| "outcome_ok W (OverlayOf h) (Fetched body) =
     (overlay_id W (we_decode_replace W body) = h \<and> length body \<le> max_overlay_bytes)"
| "outcome_ok W (ManifestOf h) (Fetched body) =
     (manifest_id W (we_decode_replace W body) = h \<and> length body \<le> max_overlay_bytes)"
| "outcome_ok W q x = False"

text \<open>A table of waiters: each names a future that was created for its key.\<close>

definition waiters_ok :: "(bytes \<Rightarrow> request) \<Rightarrow> future list \<Rightarrow> (bytes \<times> nat) list \<Rightarrow> bool" where
  "waiters_ok mk fs ws = (\<forall>(k, i) \<in> set ws. i < length fs \<and> fst (fs ! i) = mk k)"

definition futures_ok :: "wire_env \<Rightarrow> node \<Rightarrow> bool" where
  "futures_ok W n =
     (waiters_ok JoinOf (nd_futures n) (nd_pending_joins n) \<and>
      waiters_ok CommunityJoinOf (nd_futures n) (nd_pending_community_joins n) \<and>
      waiters_ok OverlayOf (nd_futures n) (nd_pending_fetches n) \<and>
      waiters_ok ManifestOf (nd_futures n) (nd_pending_manifest_fetches n) \<and>
      (\<forall>(q, r) \<in> set (nd_futures n). case r of None \<Rightarrow> True | Some x \<Rightarrow> outcome_ok W q x))"

lemma waiters_delete: "waiters_ok mk fs ws \<Longrightarrow> waiters_ok mk fs (AList.delete k ws)"
  by (auto simp: waiters_ok_def AList.delete_eq)

lemma waiters_snoc: "waiters_ok mk fs ws \<Longrightarrow> waiters_ok mk (fs @ [f]) ws"
  by (fastforce simp: waiters_ok_def nth_append)

lemma set_update_cases: "x \<in> set (AList.update k v d) \<Longrightarrow> x = (k, v) \<or> x \<in> set d"
  by (induction d) (auto split: if_splits)

lemma waiters_new: "waiters_ok mk fs ws \<Longrightarrow> waiters_ok mk (fs @ [(mk k, r)]) (AList.update k (length fs) ws)"
  by (fastforce simp: waiters_ok_def nth_append dest!: set_update_cases)

lemma fst_update_same: "fst (fs[i := (fst (fs ! i), r)] ! j) = fst (fs ! j)"
  by (cases "i < length fs") (auto simp: nth_list_update list_update_beyond not_less)

lemma waiters_resolve: "waiters_ok mk fs ws \<Longrightarrow> waiters_ok mk (fs[i := (fst (fs ! i), r)]) ws"
  by (simp add: waiters_ok_def fst_update_same)

lemma resolve_fields [simp]:
  "nd_pending_joins (resolve f x n) = nd_pending_joins n"
  "nd_pending_community_joins (resolve f x n) = nd_pending_community_joins n"
  "nd_pending_fetches (resolve f x n) = nd_pending_fetches n"
  "nd_pending_manifest_fetches (resolve f x n) = nd_pending_manifest_fetches n"
  "nd_verified (resolve f x n) = nd_verified n"
  "nd_verifier (resolve f x n) = nd_verifier n"
  by (simp_all add: resolve_def split: option.split)

lemma futures_resolve:
  assumes "futures_ok W n" and "\<And>i. f = Some i \<Longrightarrow> i < length (nd_futures n) \<and> outcome_ok W (fst (nd_futures n ! i)) x"
  shows "futures_ok W (resolve f x n)"
proof (cases f)
  case None
  with assms show ?thesis by (simp add: resolve_def)
next
  case (Some i)
  have "\<forall>(q, r) \<in> set ((nd_futures n)[i := (fst (nd_futures n ! i), Some x)]).
      case r of None \<Rightarrow> True | Some x \<Rightarrow> outcome_ok W q x"
    using assms(1) assms(2) [OF Some] by (auto simp: futures_ok_def dest!: subsetD [OF set_update_subset_insert])
  with assms(1) Some waiters_resolve show ?thesis
    by (auto simp: futures_ok_def resolve_def)
qed

text \<open>Changes of other fields keep the futures; so do the replies.\<close>

lemma futures_ok_cong:
  "nd_futures n' = nd_futures n \<Longrightarrow> nd_pending_joins n' = nd_pending_joins n \<Longrightarrow>
   nd_pending_community_joins n' = nd_pending_community_joins n \<Longrightarrow>
   nd_pending_fetches n' = nd_pending_fetches n \<Longrightarrow>
   nd_pending_manifest_fetches n' = nd_pending_manifest_fetches n \<Longrightarrow> futures_ok W n' = futures_ok W n"
  by (simp add: futures_ok_def)

lemma reply_fields [simp]:
  "nd_futures (send p m n) = nd_futures n" "nd_pending_joins (send p m n) = nd_pending_joins n"
  "nd_pending_community_joins (send p m n) = nd_pending_community_joins n"
  "nd_pending_fetches (send p m n) = nd_pending_fetches n"
  "nd_pending_manifest_fetches (send p m n) = nd_pending_manifest_fetches n"
  "nd_verified (send p m n) = nd_verified n" "nd_verifier (send p m n) = nd_verifier n"
  "nd_futures (add_verified_peer p n) = nd_futures n" "nd_pending_joins (add_verified_peer p n) = nd_pending_joins n"
  "nd_pending_community_joins (add_verified_peer p n) = nd_pending_community_joins n"
  "nd_pending_fetches (add_verified_peer p n) = nd_pending_fetches n"
  "nd_pending_manifest_fetches (add_verified_peer p n) = nd_pending_manifest_fetches n"
  "nd_verified (add_verified_peer p n) = List.insert p (nd_verified n)"
  "nd_verifier (add_verified_peer p n) = nd_verifier n"
  by (simp_all add: send_def add_verified_peer_def)

lemma intro_fields [simp]:
  "nd_futures (send_peer_intro W p n) = nd_futures n"
  "nd_pending_joins (send_peer_intro W p n) = nd_pending_joins n"
  "nd_pending_community_joins (send_peer_intro W p n) = nd_pending_community_joins n"
  "nd_pending_fetches (send_peer_intro W p n) = nd_pending_fetches n"
  "nd_pending_manifest_fetches (send_peer_intro W p n) = nd_pending_manifest_fetches n"
  "nd_verified (send_peer_intro W p n) = nd_verified n" "nd_verifier (send_peer_intro W p n) = nd_verifier n"
  by (simp_all add: send_peer_intro_def split: option.split)


lemma join_reply_fields [simp]:
  "nd_futures (join_reply W p acc r n) = nd_futures n"
  "nd_pending_joins (join_reply W p acc r n) = nd_pending_joins n"
  "nd_pending_community_joins (join_reply W p acc r n) = nd_pending_community_joins n"
  "nd_pending_fetches (join_reply W p acc r n) = nd_pending_fetches n"
  "nd_pending_manifest_fetches (join_reply W p acc r n) = nd_pending_manifest_fetches n"
  "nd_verified (join_reply W p acc r n) = (if acc then List.insert p (nd_verified n) else nd_verified n)"
  "nd_verifier (join_reply W p acc r n) = nd_verifier n"
  by (simp_all add: join_reply_def Let_def)

lemma futures_ok_reply [simp]:
  "futures_ok W (send p m n) = futures_ok W n" "futures_ok W (send_peer_intro W p n) = futures_ok W n"
  "futures_ok W (add_verified_peer p n) = futures_ok W n" "futures_ok W (join_reply W p acc r n) = futures_ok W n"
  by (rule futures_ok_cong; simp)+

lemma cancel_ok: "futures_ok W n \<Longrightarrow> futures_ok W (cancel i n)"
  by (auto simp: cancel_def intro: futures_resolve)

lemma waiter_found:
  assumes "waiters_ok mk fs ws" and "map_of ws k = Some i"
  shows "i < length fs \<and> fst (fs ! i) = mk k"
  using map_of_SomeD [OF assms(2)] assms(1) by (auto simp: waiters_ok_def)

lemma handler_futures:
  assumes "futures_ok W n"
  shows "futures_ok W (handler W p m n)"
proof -
  note found = waiter_found
  show ?thesis
  proof (cases m)
    case (JoinResponse b)
    let ?n = "n\<lparr>nd_pending_joins := AList.delete p (nd_pending_joins n)\<rparr>"
    have "futures_ok W ?n" using assms waiters_delete by (auto simp: futures_ok_def)
    then have "futures_ok W (resolve (map_of (nd_pending_joins n) p) (Decision b) ?n)"
      using assms by (intro futures_resolve) (auto simp: futures_ok_def dest: found)
    then show ?thesis by (cases b) (simp_all add: JoinResponse on_join_response_def Let_def)
  next
    case (CommunityJoinResponse b r)
    let ?n = "n\<lparr>nd_pending_community_joins := AList.delete p (nd_pending_community_joins n)\<rparr>"
    have "futures_ok W ?n" using assms waiters_delete by (auto simp: futures_ok_def)
    then have "futures_ok W (resolve (map_of (nd_pending_community_joins n) p) (CommunityDecision b t) ?n)" for t
      using assms by (intro futures_resolve) (auto simp: futures_ok_def dest: found)
    then show ?thesis by (cases b) (simp_all add: CommunityJoinResponse on_community_join_response_def Let_def)
  next
    case (OverlayDelivery h body)
    let ?n = "n\<lparr>nd_pending_fetches := AList.delete h (nd_pending_fetches n)\<rparr>"
    have "futures_ok W ?n" using assms waiters_delete by (auto simp: futures_ok_def)
    then show ?thesis
      using assms unfolding OverlayDelivery handler.simps on_overlay_delivery_def
      by (auto intro!: futures_resolve) (auto simp: futures_ok_def dest: found)
  next
    case (ManifestDelivery h body)
    let ?n = "n\<lparr>nd_pending_manifest_fetches := AList.delete h (nd_pending_manifest_fetches n)\<rparr>"
    have "futures_ok W ?n" using assms waiters_delete by (auto simp: futures_ok_def)
    then show ?thesis
      using assms unfolding ManifestDelivery handler.simps on_manifest_delivery_def
      by (auto intro!: futures_resolve) (auto simp: futures_ok_def dest: found)
  qed (use assms in \<open>auto simp: on_join_request_def on_overlay_offer_def on_overlay_request_def on_manifest_offer_def
        on_manifest_request_def on_peer_intro_def Let_def split: option.splits unpacked.splits
        elim!: futures_ok_cong [THEN iffD2, rotated -1]\<close>)
qed

lemma create_future_ok:
  assumes "futures_ok W n" and "create_future q n = (i, n1)"
  shows "i = length (nd_futures n)" "nd_futures n1 = nd_futures n @ [(q, None)]" "futures_ok W n1"
proof -
  show "i = length (nd_futures n)" "nd_futures n1 = nd_futures n @ [(q, None)]"
    using assms(2) by (auto simp: create_future_def)
  show "futures_ok W n1" using assms by (auto simp: create_future_def futures_ok_def intro: waiters_snoc)
qed

lemma call_futures:
  assumes "futures_ok W n"
  shows "futures_ok W (call_event W ev n)"
proof (cases ev)
  case (Cancel i)
  with cancel_ok assms show ?thesis by simp
qed (use assms in \<open>auto simp: request_join_def request_community_join_def fetch_overlay_def fetch_manifest_def
      create_future_def id_length_def publish_overlay_def publish_manifest_def futures_ok_def
      waiters_snoc waiters_new Let_def\<close>)

lemma event_futures:
  assumes "futures_ok W (fst ns)"
  shows "futures_ok W (fst (node_event_step W cb ns ev))"
proof -
  obtain n s where ns: "ns = (n, s)" by (cases ns)
  show ?thesis
  proof (cases "\<exists>p m. ev = Receive p m")
    case True
    then obtain p m where ev: "ev = Receive p m" by blast
    show ?thesis
    proof (rule receive_effect [of W cb p m n s])
      assume "snd (receive W cb p m (n, s)) = (handler W p m n, snd (snd (receive W cb p m (n, s))))"
      then have "fst (snd (receive W cb p m (n, s))) = handler W p m n" by (metis fst_conv)
      with assms ns handler_futures show ?thesis by (simp add: ev node_event_step_def)
    next
      fix b acc reason
      assume "fst (snd (receive W cb p m (n, s))) = join_reply W p acc reason n"
      with assms ns show ?thesis by (simp add: ev node_event_step_def futures_ok_def)
    qed
  next
    case False
    then have "node_event_step W cb ns ev = (call_event W ev n, s)"
      by (cases ev) (simp_all add: node_event_step_def ns)
    with call_futures [of W n ev] assms show ?thesis by (simp add: ns)
  qed
qed

lemma run_futures: "futures_ok W (fst ns) \<Longrightarrow> futures_ok W (fst (node_run W cb evs ns))"
  unfolding node_run_def by (induction evs arbitrary: ns) (simp_all add: event_futures)

lemma new_node_ok [simp]: "futures_ok W (new_node V a)"
  by (simp add: new_node_def futures_ok_def waiters_ok_def)


section \<open>What a fetch resolves to\<close>

text \<open>The two decoders of UTF-8 agree on valid text.\<close>

definition decoders_agree :: "wire_env \<Rightarrow> bool" where
  "decoders_agree W = (\<forall>b t. we_decode W b = Some t \<longrightarrow> we_decode_replace W b = t)"

definition authentic :: "wire_env \<Rightarrow> request \<Rightarrow> bytes \<Rightarrow> bool" where
  "authentic W q body =
     (length body \<le> max_overlay_bytes \<and>
      (case q of
         OverlayOf h \<Rightarrow> (\<forall>t. we_decode W body = Some t \<longrightarrow> community_id_from_md (we_sha1 W) t = h)
       | ManifestOf h \<Rightarrow> (\<forall>t. we_decode W body = Some t \<longrightarrow> network_id_from_manifest (we_sha1 W) t = h)
       | _ \<Rightarrow> False))"

text \<open>
  C30: Whatever peers send and in whatever order, a fetch resolves to a document of the
  requested id within the size limit: the text that is then compiled has the community id
  that was asked for, the manifest that is then parsed the network id, and only fetches of
  documents resolve to documents.
\<close>

theorem fetched_documents_authentic:
  assumes "decoders_agree W" and "node_run W cb evs (new_node V a, s) = (n, s')"
    and "(q, Some (Fetched body)) \<in> set (nd_futures n)"
  shows "authentic W q body"
proof -
  have "futures_ok W n" using run_futures [of W "(new_node V a, s)" cb evs] assms(2) by simp
  with assms(3) have "outcome_ok W q (Fetched body)" by (auto simp: futures_ok_def)
  with assms(1) show ?thesis
    by (cases q) (auto simp: authentic_def decoders_agree_def overlay_id_def manifest_id_def
        community_id_from_md_def network_id_from_manifest_def)
qed

definition sample_wire :: wire_env where
  "sample_wire =
     \<lparr>we_sha1 = (\<lambda>b. replicate 20 0), we_decode = (\<lambda>b. Some ''d''), we_decode_replace = (\<lambda>b. ''d''),
      we_decode_error = (\<lambda>b. []), we_json_error = (\<lambda>s. []), we_float_repr = (\<lambda>s. s), we_pack = concat,
      we_unpack = (\<lambda>b. None)\<rparr>"

definition no_callback :: "unit join_callback option" where
  "no_callback = None"

definition sample_verifier :: donation_verifier where
  "sample_verifier = \<lparr>dv_seedbox_address = ''a'', dv_min_sats = 1, dv_min_confirmations = 0, dv_network = ''mock'',
     dv_gettransaction = (\<lambda>t. Inr None)\<rparr>"

lemma fetched_documents_authentic_witness:
  "authentic sample_wire (OverlayOf (replicate 20 0)) [1]"
proof (rule fetched_documents_authentic)
  show "decoders_agree sample_wire" by (simp add: decoders_agree_def sample_wire_def)
  show "node_run sample_wire no_callback
      [CallFetchOverlay [7] (replicate 20 0), Receive [7] (OverlayDelivery (replicate 20 0) [1])] (new_node None None, ())
    = (\<lparr>nd_verifier = None, nd_wallet_address = None, nd_pending_joins = [], nd_pending_community_joins = [],
        nd_pending_fetches = [], nd_pending_manifest_fetches = [], nd_published = [], nd_published_manifests = [],
        nd_known_offers = [], nd_known_manifest_offers = [], nd_peer_meta = [], nd_verified = [],
        nd_futures = [(OverlayOf (replicate 20 0), Some (Fetched [1]))],
        nd_sent = [([7], OverlayRequest (replicate 20 0))]\<rparr>, ())"
    by (simp add: node_run_def node_event_step_def new_node_def fetch_overlay_def id_length_def create_future_def
        send_def on_node_def on_overlay_delivery_def max_overlay_bytes_def overlay_id_def sample_wire_def resolve_def)
qed simp

section \<open>Who is admitted\<close>

text \<open>The messages of a peer that may admit it.\<close>

definition admitting :: "wire_env \<Rightarrow> 's join_callback option \<Rightarrow> donation_verifier option \<Rightarrow> bytes \<Rightarrow> node_event \<Rightarrow> bool" where
  "admitting W cb V p ev = (case ev of
     Receive q (JoinRequest txid) \<Rightarrow>
       q = p \<and> (\<exists>v. V = Some v \<and> ver_accepted (verify_donation v (bytes_hex txid)))
   | Receive q (CommunityJoinRequest b) \<Rightarrow>
       q = p \<and> (\<exists>decide t entry s reason. cb = Some decide \<and> we_decode W b = Some t \<and>
         loads (we_float_repr W) t = Some (JObj entry) \<and> fst (decide p entry s) = Inr (True, reason))
   | _ \<Rightarrow> False)"

lemma call_verified [simp]:
  "nd_verified (call_event W ev n) = nd_verified n \<and> nd_verifier (call_event W ev n) = nd_verifier n"
  by (cases ev)
    (auto simp: request_join_def request_community_join_def fetch_overlay_def fetch_manifest_def create_future_def
      id_length_def publish_overlay_def publish_manifest_def cancel_def Let_def)

lemma handler_verifier [simp]: "nd_verifier (handler W p m n) = nd_verifier n"
  by (cases m)
    (auto simp: on_join_request_def on_join_response_def on_overlay_offer_def on_overlay_request_def
      on_overlay_delivery_def on_manifest_offer_def on_manifest_request_def on_manifest_delivery_def
      on_peer_intro_def on_community_join_response_def Let_def split: option.splits unpacked.splits)

lemma handler_verified:
  "set (nd_verified (handler W p m n)) \<subseteq> set (nd_verified n) \<union>
     (if \<exists>txid v. m = JoinRequest txid \<and> nd_verifier n = Some v \<and> ver_accepted (verify_donation v (bytes_hex txid))
      then {p} else {})"
  by (cases m)
    (auto simp: on_join_request_def on_join_response_def on_overlay_offer_def on_overlay_request_def
      on_overlay_delivery_def on_manifest_offer_def on_manifest_request_def on_manifest_delivery_def
      on_peer_intro_def on_community_join_response_def Let_def split: option.splits unpacked.splits if_splits)

lemma event_verified:
  assumes "nd_verifier (fst ns) = V"
  shows "nd_verifier (fst (node_event_step W cb ns ev)) = V \<and>
    (\<forall>p \<in> set (nd_verified (fst (node_event_step W cb ns ev))). p \<in> set (nd_verified (fst ns)) \<or> admitting W cb V p ev)"
proof -
  obtain n s where ns: "ns = (n, s)" by (cases ns)
  show ?thesis
  proof (cases "\<exists>p m. ev = Receive p m")
    case False
    then have "node_event_step W cb ns ev = (call_event W ev n, s)"
      by (cases ev) (simp_all add: node_event_step_def ns)
    with assms ns show ?thesis by simp
  next
    case True
    then obtain p m where ev: "ev = Receive p m" by blast
    show ?thesis
    proof (rule receive_effect [of W cb p m n s])
      assume "snd (receive W cb p m (n, s)) = (handler W p m n, snd (snd (receive W cb p m (n, s))))"
      then have "fst (snd (receive W cb p m (n, s))) = handler W p m n" by (metis fst_conv)
      with assms ns handler_verified [of W p m n] show ?thesis
        by (auto simp: ev node_event_step_def admitting_def split: if_splits)
    next
      fix b acc reason
      assume m: "m = CommunityJoinRequest b" and "fst (snd (receive W cb p m (n, s))) = join_reply W p acc reason n"
        and a: "acc \<longrightarrow> (\<exists>decide t entry. cb = Some decide \<and> we_decode W b = Some t \<and>
           loads (we_float_repr W) t = Some (JObj entry) \<and> fst (decide p entry s) = Inr (True, reason))"
      then have "nd_verifier (fst (node_event_step W cb ns ev)) = V"
        "set (nd_verified (fst (node_event_step W cb ns ev))) \<subseteq> set (nd_verified n) \<union> (if acc then {p} else {})"
        using assms ns by (auto simp: ev node_event_step_def split: if_splits)
      moreover have "acc \<longrightarrow> admitting W cb V p ev" using a by (simp add: ev m admitting_def) blast
      ultimately show ?thesis using ns by (auto split: if_splits)
    qed
  qed
qed

text \<open>
  C31: A peer is admitted only by its own message: every verified peer has sent a transaction
  id that the verifier accepts, or an entry that the callback has accepted.
\<close>

theorem verified_peers_admitted:
  assumes "node_run W cb evs (new_node V a, s) = (n, s')" and "p \<in> set (nd_verified n)"
  shows "\<exists>ev \<in> set evs. admitting W cb V p ev"
proof -
  have "(\<forall>p \<in> set (nd_verified (fst (node_run W cb evs ns))). p \<in> set (nd_verified (fst ns)) \<or>
      (\<exists>ev \<in> set evs. admitting W cb V p ev))" if "nd_verifier (fst ns) = V" for ns
    using that unfolding node_run_def
  proof (induction evs arbitrary: ns)
    case Nil
    then show ?case by simp
  next
    case (Cons ev evs)
    note 1 = event_verified [OF Cons.prems, of W cb ev]
    from Cons.IH [OF conjunct1 [OF 1]] conjunct2 [OF 1] show ?case by fastforce
  qed
  from this [of "(new_node V a, s)"] assms show ?thesis by (auto simp: new_node_def)
qed

section \<open>A second fetch of the same document\<close>

text \<open>A future that no table names: the only thing that can still happen to it is to be cancelled.\<close>

definition unnamed :: "nat \<Rightarrow> (bytes \<times> nat) list \<Rightarrow> bool" where
  "unnamed i ws = (i \<notin> snd ` set ws)"

definition orphan :: "nat \<Rightarrow> node \<Rightarrow> bool" where
  "orphan i n = (i < length (nd_futures n) \<and> snd (nd_futures n ! i) \<in> {None, Some Cancelled} \<and>
     unnamed i (nd_pending_joins n) \<and> unnamed i (nd_pending_community_joins n) \<and>
     unnamed i (nd_pending_fetches n) \<and> unnamed i (nd_pending_manifest_fetches n))"

lemma unnamed_delete: "unnamed i ws \<Longrightarrow> unnamed i (AList.delete k ws)"
  by (auto simp: unnamed_def AList.delete_eq)

lemma unnamed_update: "unnamed i ws \<Longrightarrow> j \<noteq> i \<Longrightarrow> unnamed i (AList.update k j ws)"
  by (auto simp: unnamed_def dest!: set_update_cases intro: rev_image_eqI)

lemma unnamed_found: "unnamed i ws \<Longrightarrow> map_of ws k \<noteq> Some i"
  by (auto simp: unnamed_def dest!: map_of_SomeD intro: rev_image_eqI)

lemma orphan_resolve:
  assumes "orphan i n" and "f \<noteq> Some i \<or> x = Cancelled"
  shows "orphan i (resolve f x n)"
proof (cases f)
  case (Some j)
  with assms show ?thesis by (cases "i = j") (simp_all add: orphan_def resolve_def)
qed (use assms in \<open>simp add: resolve_def\<close>)

lemma orphan_reply [simp]:
  "orphan i (send p m n) = orphan i n" "orphan i (send_peer_intro W p n) = orphan i n"
  "orphan i (add_verified_peer p n) = orphan i n" "orphan i (join_reply W p acc r n) = orphan i n"
  by (simp_all add: orphan_def)

lemma handler_orphan:
  assumes "orphan i n"
  shows "orphan i (handler W p m n)"
proof -
  have un: "unnamed i (nd_pending_joins n)" "unnamed i (nd_pending_community_joins n)"
    "unnamed i (nd_pending_fetches n)" "unnamed i (nd_pending_manifest_fetches n)"
    using assms by (simp_all add: orphan_def)
  have del: "orphan i (n\<lparr>nd_pending_joins := AList.delete k (nd_pending_joins n)\<rparr>)"
    "orphan i (n\<lparr>nd_pending_community_joins := AList.delete k (nd_pending_community_joins n)\<rparr>)"
    "orphan i (n\<lparr>nd_pending_fetches := AList.delete k (nd_pending_fetches n)\<rparr>)"
    "orphan i (n\<lparr>nd_pending_manifest_fetches := AList.delete k (nd_pending_manifest_fetches n)\<rparr>)" for k
    using assms by (simp_all add: orphan_def unnamed_delete)
  note found = un [THEN unnamed_found]
  show ?thesis
  proof (cases m)
    case (JoinResponse b)
    then show ?thesis using orphan_resolve [OF del(1)] found(1)
      by (cases b) (simp_all add: on_join_response_def Let_def)
  next
    case (CommunityJoinResponse b r)
    then show ?thesis using orphan_resolve [OF del(2)] found(2)
      by (cases b) (simp_all add: on_community_join_response_def Let_def)
  next
    case (OverlayDelivery h body)
    then show ?thesis using assms orphan_resolve [OF del(3)] found(3) by (simp add: on_overlay_delivery_def)
  next
    case (ManifestDelivery h body)
    then show ?thesis using assms orphan_resolve [OF del(4)] found(4) by (simp add: on_manifest_delivery_def)
  next
    case (JoinRequest txid)
    with assms show ?thesis by (simp add: on_join_request_def Let_def split: option.split)
  next
    case (OverlayRequest h)
    with assms show ?thesis by (simp add: on_overlay_request_def Let_def split: option.split)
  next
    case (ManifestRequest h)
    with assms show ?thesis by (simp add: on_manifest_request_def Let_def split: option.split)
  qed (use assms in \<open>simp_all add: on_overlay_offer_def on_manifest_offer_def on_peer_intro_def orphan_def
        split: option.split unpacked.split\<close>)
qed

lemma call_orphan:
  assumes "orphan i n"
  shows "orphan i (call_event W ev n)"
proof (cases ev)
  case (Cancel j)
  then show ?thesis using assms by (simp add: cancel_def orphan_resolve)
qed (use assms in \<open>simp_all add: request_join_def request_community_join_def fetch_overlay_def fetch_manifest_def
      create_future_def id_length_def publish_overlay_def publish_manifest_def Let_def orphan_def nth_append
      unnamed_update less_not_refl3\<close>)

lemma event_orphan:
  assumes "orphan i (fst ns)"
  shows "orphan i (fst (node_event_step W cb ns ev))"
proof -
  obtain n s where ns: "ns = (n, s)" by (cases ns)
  show ?thesis
  proof (cases "\<exists>p m. ev = Receive p m")
    case True
    then obtain p m where ev: "ev = Receive p m" by blast
    show ?thesis
    proof (rule receive_effect [of W cb p m n s])
      assume "snd (receive W cb p m (n, s)) = (handler W p m n, snd (snd (receive W cb p m (n, s))))"
      then have "fst (snd (receive W cb p m (n, s))) = handler W p m n" by (metis fst_conv)
      with assms ns handler_orphan show ?thesis by (simp add: ev node_event_step_def)
    next
      fix b acc reason
      assume "fst (snd (receive W cb p m (n, s))) = join_reply W p acc reason n"
      with assms ns show ?thesis by (simp add: ev node_event_step_def)
    qed
  next
    case False
    then have "node_event_step W cb ns ev = (call_event W ev n, s)"
      by (cases ev) (simp_all add: node_event_step_def ns)
    with call_orphan assms show ?thesis by (simp add: ns)
  qed
qed

lemma run_orphan: "orphan i (fst ns) \<Longrightarrow> orphan i (fst (node_run W cb evs ns))"
  unfolding node_run_def by (induction evs arbitrary: ns) (simp_all add: event_orphan)


lemma verified_peers_admitted_witness:
  "\<exists>ev \<in> set [Receive [7] (JoinRequest [1])]. admitting sample_wire no_callback (Some sample_verifier) [7] ev"
proof (rule verified_peers_admitted)
  show "node_run sample_wire no_callback [Receive [7] (JoinRequest [1])] (new_node (Some sample_verifier) None, ())
    = ((new_node (Some sample_verifier) None)\<lparr>nd_verified := [[7]], nd_sent := [([7], JoinResponse True)]\<rparr>, ())"
    by (simp add: node_run_def node_event_step_def new_node_def send_def on_node_def on_join_request_def
        send_peer_intro_def add_verified_peer_def verify_donation_def is_mock_def sample_verifier_def Let_def) code_simp
qed simp

text \<open>
  Fetching a document again before it has arrived loses the first waiter: the table keeps
  one future per id, so no message resolves the first one any more, and all that can happen
  to it is that its waiter gives up.
\<close>

lemma refetch_loses_waiter:
  assumes "futures_ok W n" and "fetch_overlay p h n = Inr (i, n1)" and "fetch_overlay p' h n1 = Inr (j, n2)"
    and "node_run W cb evs (n2, s) = (n3, s')"
  shows "snd (nd_futures n3 ! i) = None \<or> snd (nd_futures n3 ! i) = Some Cancelled"
proof -
  have fresh: "unnamed (length (nd_futures n)) ws" if "waiters_ok mk (nd_futures n) ws" for mk ws
    using that by (auto simp: unnamed_def waiters_ok_def)
  from assms(1) have "unnamed (length (nd_futures n)) (nd_pending_joins n)"
    "unnamed (length (nd_futures n)) (nd_pending_community_joins n)"
    "unnamed (length (nd_futures n)) (nd_pending_fetches n)"
    "unnamed (length (nd_futures n)) (nd_pending_manifest_fetches n)"
    by (auto simp: futures_ok_def intro: fresh)
  then have "orphan i n2"
    using assms(2,3)
    by (auto simp: fetch_overlay_def id_length_def create_future_def orphan_def nth_append unnamed_update
        split: if_splits)
  from run_orphan [of i "(n2, s)" W cb evs] this assms(4) show ?thesis by (simp add: orphan_def)
qed


lemma refetch_loses_waiter_witness:
  "\<exists>n1 n2. fetch_overlay [7] (replicate 20 0) (new_node None None) = Inr (0, n1) \<and>
     fetch_overlay [8] (replicate 20 0) n1 = Inr (1, n2) \<and>
     (let f = nd_futures (fst (node_run sample_wire no_callback
                [Receive [8] (OverlayDelivery (replicate 20 0) [1])] (n2, ()))) ! 0
      in snd f = None \<or> snd f = Some Cancelled)"
proof -
  obtain n1 where 1: "fetch_overlay [7] (replicate 20 0) (new_node None None) = Inr (0, n1)"
    by (simp add: fetch_overlay_def id_length_def create_future_def new_node_def)
  then obtain n2 where 2: "fetch_overlay [8] (replicate 20 0) n1 = Inr (1, n2)"
    by (auto simp: fetch_overlay_def id_length_def create_future_def new_node_def send_def)
  obtain n3 where 3: "node_run sample_wire no_callback
      [Receive [8] (OverlayDelivery (replicate 20 0) [1])] (n2, ()) = (n3, ())"
    by (cases "node_run sample_wire no_callback
      [Receive [8] (OverlayDelivery (replicate 20 0) [1])] (n2, ())") auto
  have "snd (nd_futures n3 ! 0) = None \<or> snd (nd_futures n3 ! 0) = Some Cancelled"
    by (rule refetch_loses_waiter [OF new_node_ok 1 2 3])
  with 1 2 3 show ?thesis by (simp add: Let_def)
qed

end
