(* ===== verification/Wallet.thy ===== *)
theory Wallet
  imports Crypto_Env
begin

text \<open>
  The synthetic wallet (identity/wallet.py): an address derived from the public key, a
  balance that only sends reduce, and a transaction id over the sender, the recipient, the
  amount and a counter of the process.  An amount given as a float is outside the model.
  Key derivation (bitcoinlib) and the signing key are left out; the public key is given.
\<close>

record wallet =
  wl_pubkey :: bytes
  wl_initial_balance_sats :: int
  wl_spent_sats :: int

definition wallet_address :: "env \<Rightarrow> wallet \<Rightarrow> string" where
  "wallet_address E w = ''dclaw1'' @ take 40 (sha256_hex E (wl_pubkey w))"

definition balance_error :: "int \<Rightarrow> pyexn" where
  "balance_error n = ValueError (''initial_balance_sats must be >= 0; got '' @ int_str n)"

definition new_wallet :: "bytes \<Rightarrow> int \<Rightarrow> wallet res" where
  "new_wallet pubkey initial =
     (if initial < 0 then Inl (balance_error initial)
      else Inr \<lparr>wl_pubkey = pubkey, wl_initial_balance_sats = initial, wl_spent_sats = 0\<rparr>)"

definition set_initial_balance :: "int \<Rightarrow> wallet \<Rightarrow> wallet res" where
  "set_initial_balance n w =
     (if n < 0 then Inl (balance_error n) else Inr (w\<lparr>wl_initial_balance_sats := n, wl_spent_sats := 0\<rparr>))"

definition wallet_balance :: "wallet \<Rightarrow> int" where
  "wallet_balance w = max 0 (wl_initial_balance_sats w - wl_spent_sats w)"

text \<open>A send with the next value of the counter; the amount and the recipient come from a caller unchecked.\<close>

definition wallet_send :: "env \<Rightarrow> nat \<Rightarrow> json \<Rightarrow> json \<Rightarrow> wallet \<Rightarrow> (string \<times> wallet) res" where
  "wallet_send E nonce to_addr sats w = (case int_of sats of
     None \<Rightarrow> Inl TypeError
   | Some n \<Rightarrow>
       if n < 1 then Inl (ValueError (''sats must be >= 1; got '' @ py_str sats))
       else (case to_addr of
         JStr (c # cs) \<Rightarrow>
           if wl_initial_balance_sats w > 0 \<and> n > wl_initial_balance_sats w - wl_spent_sats w
           then Inl (ValueError (''insufficient funds: have '' @
                  int_str (wl_initial_balance_sats w - wl_spent_sats w) @ '' sats, tried to send '' @ py_str sats))
           else
             (let body = utf8_encode (wallet_address E w @ ''|'' @ c # cs @ ''|'' @ py_str sats @ ''|'' @ nat_str nonce)
              in Inr (sha256_hex E body, w\<lparr>wl_spent_sats := wl_spent_sats w + n\<rparr>))
       | _ \<Rightarrow> Inl (ValueError ''to_address must be a non-empty string'')))"

section \<open>Spending\<close>

definition wallet_ok :: "wallet \<Rightarrow> bool" where
  "wallet_ok w = (0 \<le> wl_initial_balance_sats w \<and> 0 \<le> wl_spent_sats w \<and>
     (0 < wl_initial_balance_sats w \<longrightarrow> wl_spent_sats w \<le> wl_initial_balance_sats w))"

lemma new_wallet_ok: "new_wallet pk n = Inr w \<Longrightarrow> wallet_ok w"
  by (auto simp: new_wallet_def wallet_ok_def split: if_splits)

lemma set_initial_balance_ok: "set_initial_balance n w = Inr w' \<Longrightarrow> wallet_ok w'"
  by (auto simp: set_initial_balance_def wallet_ok_def split: if_splits)

lemma wallet_send_Inr:
  assumes "wallet_send E nonce to_addr sats w = Inr (txid, w')"
  obtains n where "int_of sats = Some n" "1 \<le> n" "w' = w\<lparr>wl_spent_sats := wl_spent_sats w + n\<rparr>"
    "0 < wl_initial_balance_sats w \<Longrightarrow> n \<le> wl_initial_balance_sats w - wl_spent_sats w"
  using assms by (auto simp: wallet_send_def Let_def split: option.splits json.splits list.splits if_splits)

lemma wallet_send_ok:
  assumes "wallet_send E nonce to_addr sats w = Inr (txid, w')" and "wallet_ok w"
  shows "wallet_ok w'" "wl_spent_sats w < wl_spent_sats w'"
  using assms by (auto elim!: wallet_send_Inr simp: wallet_ok_def)

end
