(* ===== verification/Community_Agent.thy ===== *)
theory Community_Agent
  imports Wallet Peer_Log Reputation Community_State Seedbox_Node
begin

text \<open>
  The community layer of an agent: the part of agent/runtime.py that owns the manifest, the
  signed log, the cache of foreign logs and the memoised community state, and the community
  and wallet tools of agent/tools.py.  Both logs are opened when the agent is made; the code
  opens them on first use.  The arguments of a tool come from a language model, so they are
  JSON values; a float is outside the model where an integer is meant.

  Parameters of an agent, next to those of its parts: the clock (modification time and
  timestamp of the next entry), the member id of a serialised public key or the exception it
  raises, and the texts of exceptions, peer-log errors and parse errors.
\<close>

section \<open>State\<close>

record agent_conf =
  ac_env :: env
  ac_identity :: identity
  ac_pubkey_hex :: string
  ac_wire :: wire_env
  ac_fless :: "json \<Rightarrow> json \<Rightarrow> bool"
  ac_ftrunc :: "string \<Rightarrow> int option"
  ac_clock :: "nat \<Rightarrow> nat \<times> string"
  ac_peer_mid :: "string \<Rightarrow> bytes res"
  ac_exn_text :: "pyexn \<Rightarrow> string"
  ac_peer_error_text :: "peer_error \<Rightarrow> string"
  ac_parse_error_text :: "manifest_error \<Rightarrow> string"

type_synonym heads = "json \<times> (string \<times> string option) list"

record agent =
  ag_wallet :: wallet
  ag_send_nonce :: nat
  ag_manifest :: "network_manifest option"
  ag_manifest_md :: "string option"
  ag_file :: log_file
  ag_inst :: log_inst
  ag_peer_log :: peer_log
  ag_state_cache :: "(heads \<times> community_state) option"
  ag_seedbox :: "node option"
  ag_tick :: nat

text \<open>\<open>community_reporter_id\<close>.\<close>

definition reporter_id :: "agent_conf \<Rightarrow> string" where
  "reporter_id C = id_hash (ac_identity C)"

definition new_agent :: "agent_conf \<Rightarrow> wallet \<Rightarrow> log_file \<Rightarrow> (string \<times> string) list \<Rightarrow> agent" where
  "new_agent C w f files =
     (let (f', inst) = open_log (fst (ac_clock C 0)) f
      in \<lparr>ag_wallet = w, ag_send_nonce = 1, ag_manifest = None, ag_manifest_md = None, ag_file = f', ag_inst = inst,
          ag_peer_log = open_peer_log files (id_network (ac_identity C)) (Some (reporter_id C)),
          ag_state_cache = None, ag_seedbox = None, ag_tick = 1\<rparr>)"

text \<open>\<open>start\<close>, as far as the bootstrap community goes; a second start changes nothing.\<close>

definition start_agent :: "agent_conf \<Rightarrow> donation_verifier \<Rightarrow> agent \<Rightarrow> agent" where
  "start_agent C V A = (case ag_seedbox A of
     Some n \<Rightarrow> A
   | None \<Rightarrow> A\<lparr>ag_seedbox := Some (new_node (Some V) (Some (wallet_address (ac_env C) (ag_wallet A))))\<rparr>)"

definition not_started :: pyexn where
  "not_started = RuntimeError ''OpenClawAgent.start() has not been awaited yet''"

definition with_seedbox :: "(node \<Rightarrow> 'a \<times> node) \<Rightarrow> ('a, agent) step" where
  "with_seedbox f A = (case ag_seedbox A of
     None \<Rightarrow> (Inl not_started, A)
   | Some n \<Rightarrow> (let (a, n') = f n in (Inr a, A\<lparr>ag_seedbox := Some n'\<rparr>)))"

section \<open>Peers and manifest\<close>

text \<open>All overlays of an agent share one network, so a peer that is added is a verified peer of the seedbox.\<close>

definition add_peer :: "agent_conf \<Rightarrow> string \<Rightarrow> (bytes, agent) step" where
  "add_peer C pubkey_hex A = (case ac_peer_mid C pubkey_hex of
     Inl x \<Rightarrow> (Inl x, A)
   | Inr mid \<Rightarrow> with_seedbox (\<lambda>n. (mid, add_verified_peer mid n)) A)"

definition known_peers :: "(bytes list, agent) step" where
  "known_peers = with_seedbox (\<lambda>n. (nd_verified n, n))"

text \<open>Every genesis peer but the agent itself is added; a peer that cannot be added is passed over.\<close>

fun add_genesis_peers :: "agent_conf \<Rightarrow> genesis_peer list \<Rightarrow> agent \<Rightarrow> agent" where
  "add_genesis_peers C [] A = A"
| "add_genesis_peers C (g # gs) A =
     add_genesis_peers C gs
       (if lower (gp_pubkey_hex g) = lower (ac_pubkey_hex C) then A else snd (add_peer C (gp_pubkey_hex g) A))"

definition is_genesis :: "agent_conf \<Rightarrow> network_manifest \<Rightarrow> bool" where
  "is_genesis C m = list_ex (\<lambda>g. lower (gp_pubkey_hex g) = lower (ac_pubkey_hex C)) (genesis_peers m)"

text \<open>A new manifest replaces the old one and is served to joiners when the agent is one of its genesis peers.\<close>

definition adopt_manifest :: "agent_conf \<Rightarrow> string \<Rightarrow> network_manifest \<Rightarrow> agent \<Rightarrow> agent" where
  "adopt_manifest C md_text m A =
     (let A1 = (add_genesis_peers C (genesis_peers m) A)\<lparr>ag_manifest := Some m, ag_manifest_md := Some md_text\<rparr>
      in if is_genesis C m then snd (with_seedbox (publish_manifest (ac_wire C) md_text) A1) else A1)"

definition load_manifest :: "agent_conf \<Rightarrow> string \<Rightarrow> agent \<Rightarrow> (manifest_error + network_manifest) \<times> agent" where
  "load_manifest C md_text A = (case parse_manifest (we_sha1 (ac_wire C)) md_text of
     Inl x \<Rightarrow> (Inl x, A)
   | Inr m \<Rightarrow>
       (case ag_manifest A of
          Some old \<Rightarrow> if network_id old = network_id m then (Inr old, A) else (Inr m, adopt_manifest C md_text m A)
        | None \<Rightarrow> (Inr m, adopt_manifest C md_text m A)))"

section \<open>The community log and its replay\<close>

definition own_head :: "agent_conf \<Rightarrow> (json, agent) step" where
  "own_head C A = (case latest_hash (ac_env C) (ag_file A) (ag_inst A) of
     Inl x \<Rightarrow> (Inl x, A)
   | Inr (h, inst) \<Rightarrow> (Inr h, A\<lparr>ag_inst := inst\<rparr>))"

definition peer_head :: "agent_conf \<Rightarrow> string \<Rightarrow> (string option, agent) step" where
  "peer_head C sid A = (case latest_hash_for (ac_env C) (ag_peer_log A) sid of
     Inl x \<Rightarrow> (Inl x, A)
   | Inr (t, p) \<Rightarrow> (Inr t, A\<lparr>ag_peer_log := p\<rparr>))"

fun peer_heads :: "agent_conf \<Rightarrow> string list \<Rightarrow> ((string \<times> string option) list, agent) step" where
  "peer_heads C [] = ret []"
| "peer_heads C (sid # sids) = seq (peer_head C sid) (\<lambda>t. seq (peer_heads C sids) (\<lambda>ts. ret ((sid, t) # ts)))"

text \<open>The key of the memo: the own head and the heads of the sources, sorted by source.\<close>

definition current_heads :: "agent_conf \<Rightarrow> (heads, agent) step" where
  "current_heads C = seq (own_head C) (\<lambda>h A.
     seq (peer_heads C (list_sources (ag_peer_log A))) (\<lambda>ts. ret (h, sort_key fst ts)) A)"

definition foreign_entries :: "agent_conf \<Rightarrow> agent \<Rightarrow> dict list" where
  "foreign_entries C A =
     concat (map (read_entries_for (ac_env C) (ag_peer_log A)) (list_sources (ag_peer_log A)))"

definition all_community_entries :: "agent_conf \<Rightarrow> (dict list, agent) step" where
  "all_community_entries C A =
     (bindr (read_entries (ac_env C) (ag_file A)) (\<lambda>es. Inr (es @ foreign_entries C A)), A)"

definition replay_and_cache :: "agent_conf \<Rightarrow> network_manifest \<Rightarrow> heads \<Rightarrow> (community_state option, agent) step" where
  "replay_and_cache C m key = seq (all_community_entries C) (\<lambda>es.
     seq (raising (replay_community (ac_fless C) m es)) (\<lambda>st.
     seq (modify (ag_state_cache_update (\<lambda>_. Some (key, st)))) (\<lambda>_. ret (Some st))))"

definition community_state_of :: "agent_conf \<Rightarrow> (community_state option, agent) step" where
  "community_state_of C A = (case ag_manifest A of
     None \<Rightarrow> (Inr None, A)
   | Some m \<Rightarrow>
       seq (current_heads C) (\<lambda>key A1.
         case ag_state_cache A1 of
           Some (k, st) \<Rightarrow> if k = key then (Inr (Some st), A1) else replay_and_cache C m key A1
         | None \<Rightarrow> replay_and_cache C m key A1) A)"

text \<open>An event of the agent's own, signed and appended with the default severity and no evidence.\<close>

definition sign_event :: "agent_conf \<Rightarrow> string \<Rightarrow> dict \<Rightarrow> (dict, agent) step" where
  "sign_event C action details A =
     (let (now, timestamp) = ac_clock C (ag_tick A); me = reporter_id C in
      case append_event (ac_env C) (ac_identity C) (ag_file A) (ag_inst A) now timestamp me me action details 0 None of
        Inl x \<Rightarrow> (Inl x, A)
      | Inr (entry, f, inst) \<Rightarrow> (Inr entry, A\<lparr>ag_file := f, ag_inst := inst, ag_tick := Suc (ag_tick A)\<rparr>))"

text \<open>An entry that the pull loop or a joiner delivers.\<close>

definition submit_entry :: "agent_conf \<Rightarrow> json \<Rightarrow> (verdict, agent) step" where
  "submit_entry C v A = (case accept_entry (ac_env C) (ag_peer_log A) v of
     Inl x \<Rightarrow> (Inl x, A)
   | Inr (r, p) \<Rightarrow> (Inr r, A\<lparr>ag_peer_log := p\<rparr>))"

section \<open>Admission, gatekeeper side\<close>

definition join_errors :: "agent_conf \<Rightarrow> peer_error list \<Rightarrow> string" where
  "join_errors C errs =
     (if errs = [] then ''peer_log_rejected'' else join_with ''; '' (map (ac_peer_error_text C) errs))"

definition handle_community_join :: "agent_conf \<Rightarrow> agent join_callback" where
  "handle_community_join C peer entry A =
     (if ag_manifest A = None then (Inr (False, ''no_manifest_loaded''), A)
      else
        (let action = jget entry ''action''; who = jget entry ''reporter_id'' in
         if action \<noteq> JStr ''donation_intent''
         then (Inr (False, ''unsupported_action:'' @ py_str action), A)
         else (case who of
           JStr (c # cs) \<Rightarrow>
             seq (submit_entry C (JObj entry)) (\<lambda>(stored, src, errs, duplicate).
               if \<not> stored \<and> \<not> duplicate then ret (False, join_errors C errs)
               else seq (community_state_of C) (\<lambda>st.
                 case st of
                   None \<Rightarrow> ret (False, ''replay_returned_none'')
                 | Some state \<Rightarrow>
                     if c # cs \<in> set (members state) then ret (True, [])
                     else ret (False, ''rejected_by_community_rules''))) A
         | _ \<Rightarrow> (Inr (False, ''missing_reporter_id''), A))))"

text \<open>A message from the network reaches the bootstrap community, whose join callback is the agent.\<close>

definition agent_receive :: "agent_conf \<Rightarrow> bytes \<Rightarrow> wire_message \<Rightarrow> (unit, agent) step" where
  "agent_receive C peer m A = (case ag_seedbox A of
     None \<Rightarrow> (Inl not_started, A)
   | Some n \<Rightarrow>
       (let (r, n', A') = receive (ac_wire C) (Some (handle_community_join C)) peer m (n, A)
        in (r, A'\<lparr>ag_seedbox := Some n'\<rparr>)))"

end
