(* ===== verification/Community_Tools.thy ===== *)
theory Community_Tools
  imports Community_Agent
begin

text \<open>
  The wallet, community and manifest tools of agent/tools.py and their dispatch.  A tool
  returns a JSON value; a refusal is an object with an \<open>error\<close> key.
\<close>

section \<open>Replies\<close>

definition tool_error :: "string \<Rightarrow> json" where
  "tool_error text = JObj [(''error'', JStr text)]"

definition str_or_null :: "json option \<Rightarrow> json" where
  "str_or_null v = (case v of None \<Rightarrow> JNull | Some w \<Rightarrow> w)"

text \<open>\<open>isinstance(v, int)\<close> holds for booleans too.\<close>

definition positive_int :: "json \<Rightarrow> int option" where
  "positive_int v = (case int_of v of Some n \<Rightarrow> if n < 1 then None else Some n | None \<Rightarrow> None)"

section \<open>Looking at the community\<close>

definition community_summary :: "agent_conf \<Rightarrow> (dict, agent) step" where
  "community_summary C = seq (community_state_of C) (\<lambda>st A.
     case (st, ag_manifest A) of
       (Some c, Some m) \<Rightarrow>
         (Inr [(''balance_sats'', JInt (balance_sats c)), (''member_count'', JInt (member_count c)),
               (''seedbox_count'', JInt (seedbox_count c)), (''pending_purchases'', JInt (pending_purchases c)),
               (''threshold_active'', JBool (threshold_active m c)),
               (''my_membership_status'',
                  JStr (if reporter_id C \<in> set (members c) then ''admitted'' else ''outsider''))], A)
     | _ \<Rightarrow> (Inr [], A))"

definition community_treasury_balance :: "agent_conf \<Rightarrow> (json, agent) step" where
  "community_treasury_balance C = seq (community_summary C) (\<lambda>s.
     ret (if s = [] then tool_error ''no_manifest_loaded'' else JObj s))"

definition community_member_count :: "agent_conf \<Rightarrow> (json, agent) step" where
  "community_member_count C = seq (community_summary C) (\<lambda>s.
     ret (if s = [] then tool_error ''no_manifest_loaded''
          else JObj (map (\<lambda>k. (k, jget s k)) [''member_count'', ''my_membership_status'', ''threshold_active''])))"

text \<open>
  The hashes of the accepted entries form a set, so a hash that cannot be hashed raises;
  membership compares by equality.
\<close>

definition accepted_hashes :: "community_state \<Rightarrow> json list" where
  "accepted_hashes c = map di_entry_hash (donations c) @ map pi_entry_hash (purchases c) @
     map pe_entry_hash (provisioned c)"

definition in_hashes :: "json \<Rightarrow> json list \<Rightarrow> bool res" where
  "in_hashes h hs = (if hashable h then Inr (list_ex (py_eq h) hs) else Inl TypeError)"

definition recent_row :: "json list \<Rightarrow> dict \<Rightarrow> json res" where
  "recent_row hs entry =
     bindr (details_of entry) (\<lambda>details.
     bindr (in_hashes (jget entry ''entry_hash'') hs) (\<lambda>accepted.
     Inr (JObj [(''action'', jget entry ''action''), (''reporter_id'', jget entry ''reporter_id''),
       (''timestamp'', jget entry ''timestamp''), (''entry_hash'', jget entry ''entry_hash''),
       (''amount_sats'', jget details ''amount_sats''), (''cost_sats'', jget details ''cost_sats''),
       (''purchase_intent_hash'', jget details ''purchase_intent_hash''),
       (''seedbox_url'', jget details ''seedbox_url''), (''accepted'', JBool accepted)])))"

text \<open>\<open>xs[-n:]\<close> for \<open>n\<close> not negative: the last \<open>n\<close> elements, but all of them for \<open>n = 0\<close>.\<close>

definition last_slice :: "nat \<Rightarrow> 'a list \<Rightarrow> 'a list" where
  "last_slice n xs = (if n = 0 then xs else drop (length xs - n) xs)"

definition recent_entries :: "agent_conf \<Rightarrow> network_manifest \<Rightarrow> json \<Rightarrow> dict list \<Rightarrow> json res" where
  "recent_entries C m limit entries =
     bindr (filterr (\<lambda>e. in_actions (jget e ''action'')) entries) (\<lambda>relevant.
     bindr (sort_entries (ac_fless C) relevant) (\<lambda>ordered.
     bindr (replay_community (ac_fless C) m ordered) (\<lambda>state.
     bindr (if list_all hashable (accepted_hashes state) then Inr () else Inl TypeError) (\<lambda>_.
     bindr (to_int (ac_ftrunc C) limit) (\<lambda>n.
     bindr (mapr (recent_row (accepted_hashes state)) (last_slice (nat (max 0 n)) ordered)) (\<lambda>rows.
     Inr (JList rows)))))))"

definition community_log_list_recent :: "agent_conf \<Rightarrow> json \<Rightarrow> (json, agent) step" where
  "community_log_list_recent C limit A = (case ag_manifest A of
     None \<Rightarrow> (Inr (JList []), A)
   | Some m \<Rightarrow> seq (all_community_entries C) (\<lambda>es. raising (recent_entries C m limit es)) A)"

section \<open>Joining\<close>

text \<open>The running cap of a donation, as the local check computes it.\<close>

definition donation_cap :: "network_manifest \<Rightarrow> community_state option \<Rightarrow> int" where
  "donation_cap m st = (case st of
     None \<Rightarrow> effective_bootstrap_cap_sats (admission m)
   | Some c \<Rightarrow>
       if donations c = [] then effective_bootstrap_cap_sats (admission m)
       else max (min_sats (admission m))
              (sum_list (map di_amount_sats (donations c)) div int (length (donations c))))"

definition intent_details :: "network_manifest \<Rightarrow> json \<Rightarrow> dict" where
  "intent_details m amount = [(''network_id_hex'', JStr (network_id_hex m)), (''amount_sats'', amount)]"

text \<open>The debit; only a \<open>ValueError\<close> of the wallet becomes a refusal.\<close>

definition debit :: "agent_conf \<Rightarrow> string \<Rightarrow> json \<Rightarrow> (string option, agent) step" where
  "debit C to_addr amount A =
     (case wallet_send (ac_env C) (ag_send_nonce A) (JStr to_addr) amount (ag_wallet A) of
        Inr (txid, w) \<Rightarrow> (Inr None, A\<lparr>ag_wallet := w, ag_send_nonce := Suc (ag_send_nonce A)\<rparr>)
      | Inl (ValueError t) \<Rightarrow> (Inr (Some t), A)
      | Inl x \<Rightarrow> (Inl x, A))"

definition donate_checked :: "agent_conf \<Rightarrow> network_manifest \<Rightarrow> json \<Rightarrow> (json, agent) step" where
  "donate_checked C m amount = seq (debit C (gatekeeper_address (admission m)) amount) (\<lambda>failed.
     case failed of
       Some t \<Rightarrow> ret (tool_error (''wallet_send_failed: '' @ t))
     | None \<Rightarrow> seq (sign_event C ''donation_intent'' (intent_details m amount)) (\<lambda>entry.
         ret (JObj [(''entry_hash'', jget entry ''entry_hash''), (''amount_sats'', amount),
                    (''network_id_hex'', JStr (network_id_hex m))])))"

definition donation_refusal :: "agent_conf \<Rightarrow> network_manifest \<Rightarrow> community_state option \<Rightarrow> int \<Rightarrow> string option" where
  "donation_refusal C m st n =
     (if (case st of Some c \<Rightarrow> reporter_id C \<in> set (members c) | None \<Rightarrow> False) then Some ''already_admitted''
      else if n < min_sats (admission m) then Some (''amount below min_sats '' @ int_str (min_sats (admission m)))
      else if n > donation_cap m st then Some (''amount above cap '' @ int_str (donation_cap m st))
      else None)"

definition community_donate_and_join :: "agent_conf \<Rightarrow> json \<Rightarrow> (json, agent) step" where
  "community_donate_and_join C amount A = (case ag_manifest A of
     None \<Rightarrow> (Inr (tool_error ''no_manifest_loaded''), A)
   | Some m \<Rightarrow>
       (case positive_int amount of
          None \<Rightarrow> (Inr (tool_error (''amount_sats must be a positive int; got '' @ py_repr amount)), A)
        | Some n \<Rightarrow>
            seq (community_state_of C) (\<lambda>st.
              case donation_refusal C m st n of
                Some t \<Rightarrow> ret (tool_error t)
              | None \<Rightarrow> donate_checked C m amount) A))"

text \<open>
  The peer with a given prefix of its member id; an odd number of digits is completed with a
  zero digit.
\<close>

definition resolve_peer :: "json \<Rightarrow> (bytes, agent) step" where
  "resolve_peer mid_prefix = (case mid_prefix of
     JStr p \<Rightarrow>
       (case bytes_fromhex (if even (length p) then lower p else lower p @ ''0'') of
          None \<Rightarrow> raise (ValueError [])
        | Some needle \<Rightarrow> seq known_peers (\<lambda>peers.
            case find (\<lambda>mid. take (length needle) mid = needle) peers of
              Some mid \<Rightarrow> ret mid
            | None \<Rightarrow> raise (KeyError (''no peer with mid prefix '' @ py_repr (JStr p)))))
   | JList vs \<Rightarrow> raise AttributeError
   | JObj d \<Rightarrow> raise AttributeError
   | _ \<Rightarrow> raise TypeError)"

text \<open>
  Joining through a peer writes and ships the entry, then waits: the first part ends with a
  reply or with the future the tool waits for, and the second part reads that future.
  Messages arrive between the two.  A wait that times out cancels the future.
\<close>

datatype join_progress = JoinDone json | JoinWaiting nat json

text \<open>A peer that is not known is the one \<open>KeyError\<close> that becomes a refusal.\<close>

definition ship_entry :: "json \<Rightarrow> dict \<Rightarrow> (join_progress, agent) step" where
  "ship_entry gatekeeper entry A = (case resolve_peer gatekeeper A of
     (Inl (KeyError k), A1) \<Rightarrow> (Inr (JoinDone (tool_error (''peer_not_found:'' @ repr_str k))), A1)
   | (Inl x, A1) \<Rightarrow> (Inl x, A1)
   | (Inr mid, A1) \<Rightarrow> seq (with_seedbox (request_community_join mid entry)) (\<lambda>i.
       ret (JoinWaiting i (jget entry ''entry_hash''))) A1)"

definition community_join_begin :: "agent_conf \<Rightarrow> json \<Rightarrow> json \<Rightarrow> (join_progress, agent) step" where
  "community_join_begin C gatekeeper amount = seq (community_donate_and_join C amount) (\<lambda>result.
     case result of
       JObj d \<Rightarrow>
         if has_key d ''error'' then ret (JoinDone result)
         else (\<lambda>A. seq (raising (read_entries (ac_env C) (ag_file A))) (\<lambda>es.
           case find (\<lambda>e. py_eq (jget e ''entry_hash'') (jget d ''entry_hash'')) (rev es) of
             None \<Rightarrow> ret (JoinDone (tool_error ''signed_entry_not_found_in_local_log''))
           | Some entry \<Rightarrow> ship_entry gatekeeper entry) A)
     | _ \<Rightarrow> ret (JoinDone result))"

text \<open>The text of the note, its long dash written as a hyphen.\<close>

definition timeout_note :: "string \<Rightarrow> string" where
  "timeout_note timeout_s =
     ''Local donation_intent written + debited. The '' @
     ''gatekeeper'' @ [sq] @ ''s wire ack did not arrive within '' @ timeout_s @
     ''s, but membership is decided by signed-log '' @
     ''replay, not this ack. Your entry is replicating to '' @
     ''all peers now. Treat this turn as DONE - do NOT '' @
     ''call community_join_via_peer or community_donate_and_join '' @
     ''again (that re-debits your wallet and writes a '' @
     ''duplicate intent that replay rejects). Check '' @
     ''state.community.my_membership_status on a later tick.''"

definition community_join_finish :: "nat \<Rightarrow> json \<Rightarrow> json \<Rightarrow> string \<Rightarrow> (json, agent) step" where
  "community_join_finish i h amount timeout_s = with_seedbox (\<lambda>n.
     case snd (nd_futures n ! i) of
       Some (CommunityDecision accepted reason) \<Rightarrow>
         (JObj [(''entry_hash'', h), (''amount_sats'', amount), (''accepted'', JBool accepted),
                (''reason'', JStr reason)], n)
     | _ \<Rightarrow>
         (JObj [(''entry_hash'', h), (''amount_sats'', amount), (''accepted'', JNull),
                (''reason'', JStr ''wire_reply_timeout_admission_via_replication_pending''),
                (''note'', JStr (timeout_note timeout_s))], cancel i n))"

section \<open>Buying a seedbox\<close>

definition purchase_refusal :: "agent_conf \<Rightarrow> network_manifest \<Rightarrow> community_state \<Rightarrow> json \<Rightarrow> string option" where
  "purchase_refusal C m c cost =
     (if reporter_id C \<notin> set (members c) then Some ''not_admitted''
      else (case positive_int cost of
        None \<Rightarrow> Some (''cost_sats must be a positive int; got '' @ py_repr cost)
      | Some n \<Rightarrow>
          if n \<noteq> seedbox_cost_sats (admission m)
          then Some (''cost '' @ py_str cost @ '' != manifest.seedbox_cost_sats '' @
                 int_str (seedbox_cost_sats (admission m)))
          else if balance_sats c < n
          then Some (''insufficient treasury: balance='' @ int_str (balance_sats c) @ '', cost='' @ py_str cost)
          else if \<not> threshold_active m c then Some ''threshold_not_active''
          else if pending_purchases c \<noteq> 0 then Some ''pending_purchase_already_in_flight''
          else None))"

definition seedbox_purchase_propose :: "agent_conf \<Rightarrow> json \<Rightarrow> (json, agent) step" where
  "seedbox_purchase_propose C cost_sats A = (case ag_manifest A of
     None \<Rightarrow> (Inr (tool_error ''no_manifest_loaded''), A)
   | Some m \<Rightarrow>
       if \<not> seedbox_growth_enabled (admission m) then (Inr (tool_error ''growth_disabled_in_manifest''), A)
       else seq (community_state_of C) (\<lambda>st. case st of
         None \<Rightarrow> ret (tool_error ''no_manifest_loaded'')
       | Some c \<Rightarrow>
           (let cost = (if cost_sats = JNull then JInt (seedbox_cost_sats (admission m)) else cost_sats)
            in case purchase_refusal C m c cost of
                 Some t \<Rightarrow> ret (tool_error t)
               | None \<Rightarrow> seq (sign_event C ''seedbox_purchase_intent''
                     [(''network_id_hex'', JStr (network_id_hex m)), (''cost_sats'', cost)]) (\<lambda>entry.
                   ret (JObj [(''entry_hash'', jget entry ''entry_hash''), (''cost_sats'', cost),
                              (''network_id_hex'', JStr (network_id_hex m))])))) A)"

definition nonempty_str :: "json \<Rightarrow> bool" where
  "nonempty_str v = (case v of JStr s \<Rightarrow> s \<noteq> [] | _ \<Rightarrow> False)"

definition provision_refusal ::
  "agent_conf \<Rightarrow> community_state \<Rightarrow> json \<Rightarrow> json \<Rightarrow> json \<Rightarrow> string option" where
  "provision_refusal C c h url pk =
     (if reporter_id C \<notin> set (members c) then Some ''not_admitted''
      else if \<not> nonempty_str h then Some ''purchase_intent_hash required''
      else if \<not> nonempty_str url then Some ''seedbox_url required''
      else if \<not> nonempty_str pk then Some ''seedbox_pubkey_hex required''
      else if \<not> list_ex (\<lambda>p. py_eq (pi_entry_hash p) h) (purchases c)
      then Some (''no_matching_purchase_intent:'' @ take 16 (py_str h))
      else if list_ex (\<lambda>v. JStr (pe_intent_hash v) = h) (provisioned c) then Some ''purchase_intent_already_closed''
      else None)"

definition seedbox_provisioned :: "agent_conf \<Rightarrow> json \<Rightarrow> json \<Rightarrow> json \<Rightarrow> (json, agent) step" where
  "seedbox_provisioned C h url pk A = (case ag_manifest A of
     None \<Rightarrow> (Inr (tool_error ''no_manifest_loaded''), A)
   | Some m \<Rightarrow>
       seq (community_state_of C) (\<lambda>st. case st of
         None \<Rightarrow> ret (tool_error ''no_manifest_loaded'')
       | Some c \<Rightarrow>
           (case provision_refusal C c h url pk of
              Some t \<Rightarrow> ret (tool_error t)
            | None \<Rightarrow> seq (sign_event C ''seedbox_provisioned''
                  [(''network_id_hex'', JStr (network_id_hex m)), (''purchase_intent_hash'', h),
                   (''seedbox_url'', url), (''seedbox_pubkey_hex'', pk)]) (\<lambda>entry.
                ret (JObj [(''entry_hash'', jget entry ''entry_hash''), (''purchase_intent_hash'', h),
                  (''seedbox_url'', url), (''seedbox_pubkey_hex'', pk),
                  (''network_id_hex'', JStr (network_id_hex m))])))) A)"


section \<open>The other tools\<close>

definition wallet_send_tool :: "agent_conf \<Rightarrow> json \<Rightarrow> json \<Rightarrow> (json, agent) step" where
  "wallet_send_tool C to_addr sats A =
     (case wallet_send (ac_env C) (ag_send_nonce A) to_addr sats (ag_wallet A) of
        Inl x \<Rightarrow> (Inl x, A)
      | Inr (txid, w) \<Rightarrow> (Inr (JStr txid), A\<lparr>ag_wallet := w, ag_send_nonce := Suc (ag_send_nonce A)\<rparr>))"

text \<open>Only \<open>ValueError\<close> and \<open>TypeError\<close> of a bad key become a refusal.\<close>

definition peer_add :: "agent_conf \<Rightarrow> json \<Rightarrow> json \<Rightarrow> json \<Rightarrow> (json, agent) step" where
  "peer_add C host port pubkey_hex A = (case pubkey_hex of
     JStr pk \<Rightarrow>
       (case add_peer C pk A of
          (Inr mid, A1) \<Rightarrow>
            (Inr (JObj [(''mid_hex'', JStr (bytes_hex mid)), (''address'', JList [host, port])]), A1)
        | (Inl (ValueError t), A1) \<Rightarrow> (Inr (tool_error (''invalid_pubkey_hex: '' @ t)), A1)
        | (Inl TypeError, A1) \<Rightarrow> (Inr (tool_error (''invalid_pubkey_hex: '' @ ac_exn_text C TypeError)), A1)
        | (Inl x, A1) \<Rightarrow> (Inl x, A1))
   | _ \<Rightarrow> (Inr (tool_error (''invalid_pubkey_hex: '' @ ac_exn_text C TypeError)), A))"

definition identity_name :: "network_manifest \<Rightarrow> json" where
  "identity_name m = JStr (case map_of (nm_identity m) ''name'' of Some s \<Rightarrow> s | None \<Rightarrow> [])"

definition manifest_summary :: "network_manifest \<Rightarrow> dict" where
  "manifest_summary m =
     [(''network_id_hex'', JStr (network_id_hex m)), (''name'', identity_name m),
      (''genesis_peers'', JInt (int (length (genesis_peers m)))),
      (''default_overlays'', JList (map JStr (default_overlays m)))]"

definition already_loaded_note :: string where
  "already_loaded_note =
     ''Manifest is already loaded - its contents are in '' @
     ''state.network. You do NOT need to inject it again. '' @
     ''If you'' @ [sq] @ ''re trying to JOIN this network, call '' @
     ''community_join_via_peer or community_donate_and_join '' @
     ''with the policy from state.network.admission.''"

definition agent_inject_manifest :: "agent_conf \<Rightarrow> string \<Rightarrow> (json, agent) step" where
  "agent_inject_manifest C md_text A = (case ag_manifest A of
     Some m \<Rightarrow> (Inr (JObj ((''already_loaded'', JBool True) # manifest_summary m @
       [(''note'', JStr already_loaded_note)])), A)
   | None \<Rightarrow>
       (case load_manifest C md_text A of
          (Inl x, A1) \<Rightarrow> (Inr (tool_error (''manifest_parse_failed: '' @ ac_parse_error_text C x)), A1)
        | (Inr m, A1) \<Rightarrow> (Inr (JObj (manifest_summary m)), A1)))"

section \<open>Dispatch\<close>

text \<open>
  The registry looks a tool up by name and calls it with the arguments by name: a missing or
  an unknown argument raises.  Every exception becomes a refusal with its text.  Of the
  arguments of \<open>agent_inject_manifest\<close> only a text is modelled.
\<close>

record tool =
  tl_required :: "string list"
  tl_optional :: "(string \<times> json) list"
  tl_fn :: "agent_conf \<Rightarrow> dict \<Rightarrow> (json, agent) step"

definition bind_args :: "tool \<Rightarrow> dict \<Rightarrow> dict res" where
  "bind_args t args =
     (if list_all (\<lambda>k. has_key args k) (tl_required t) \<and>
         list_all (\<lambda>(k, v). k \<in> set (tl_required t) \<union> fst ` set (tl_optional t)) args
      then Inr (merge_dict (tl_optional t) args)
      else Inl TypeError)"

definition community_tools :: "(string \<times> tool) list" where
  "community_tools =
     [(''peer_add'', \<lparr>tl_required = [''host'', ''port'', ''pubkey_hex''], tl_optional = [],
        tl_fn = (\<lambda>C d. peer_add C (jget d ''host'') (jget d ''port'') (jget d ''pubkey_hex''))\<rparr>),
      (''wallet_address'', \<lparr>tl_required = [], tl_optional = [],
        tl_fn = (\<lambda>C d A. (Inr (JStr (wallet_address (ac_env C) (ag_wallet A))), A))\<rparr>),
      (''wallet_balance'', \<lparr>tl_required = [], tl_optional = [],
        tl_fn = (\<lambda>C d A. (Inr (JInt (wallet_balance (ag_wallet A))), A))\<rparr>),
      (''wallet_send'', \<lparr>tl_required = [''to_address'', ''sats''], tl_optional = [],
        tl_fn = (\<lambda>C d. wallet_send_tool C (jget d ''to_address'') (jget d ''sats''))\<rparr>),
      (''community_log_list_recent'', \<lparr>tl_required = [], tl_optional = [(''limit'', JInt 50)],
        tl_fn = (\<lambda>C d. community_log_list_recent C (jget d ''limit''))\<rparr>),
      (''community_treasury_balance'', \<lparr>tl_required = [], tl_optional = [],
        tl_fn = (\<lambda>C d. community_treasury_balance C)\<rparr>),
      (''community_member_count'', \<lparr>tl_required = [], tl_optional = [],
        tl_fn = (\<lambda>C d. community_member_count C)\<rparr>),
      (''community_donate_and_join'', \<lparr>tl_required = [''amount_sats''], tl_optional = [],
        tl_fn = (\<lambda>C d. community_donate_and_join C (jget d ''amount_sats''))\<rparr>),
      (''seedbox_purchase_propose'', \<lparr>tl_required = [], tl_optional = [(''cost_sats'', JNull)],
        tl_fn = (\<lambda>C d. seedbox_purchase_propose C (jget d ''cost_sats''))\<rparr>),
      (''seedbox_provisioned'',
        \<lparr>tl_required = [''purchase_intent_hash'', ''seedbox_url'', ''seedbox_pubkey_hex''], tl_optional = [],
         tl_fn = (\<lambda>C d. seedbox_provisioned C (jget d ''purchase_intent_hash'') (jget d ''seedbox_url'')
            (jget d ''seedbox_pubkey_hex''))\<rparr>),
      (''agent_inject_manifest'', \<lparr>tl_required = [''md_text''], tl_optional = [],
        tl_fn = (\<lambda>C d. case jget d ''md_text'' of JStr t \<Rightarrow> agent_inject_manifest C t | _ \<Rightarrow> raise AttributeError)\<rparr>)]"

definition dispatch :: "agent_conf \<Rightarrow> string \<Rightarrow> dict \<Rightarrow> agent \<Rightarrow> json \<times> agent" where
  "dispatch C name args A = (case map_of community_tools name of
     None \<Rightarrow> (tool_error (''unknown_tool:'' @ name), A)
   | Some t \<Rightarrow>
       (case seq (raising (bind_args t args)) (tl_fn t C) A of
          (Inl x, A1) \<Rightarrow> (tool_error (ac_exn_text C x), A1)
        | (Inr v, A1) \<Rightarrow> (v, A1)))"

end
