(* ===== verification/Community_Agent_Proofs.thy ===== *)
theory Community_Agent_Proofs
  imports Community_Tools Peer_Log_Spec Community_State_Spec
begin

text \<open>
  The invariant of an agent and the elementary steps of the community layer: both logs are
  in order, and the memo belongs to an earlier state of the same logs under the manifest.
\<close>

section \<open>Heads\<close>

definition heads_of :: "dict list \<Rightarrow> (string \<Rightarrow> dict list) \<Rightarrow> string list \<Rightarrow> heads" where
  "heads_of es M srcs = (chain_head es, map (\<lambda>s. (s, tail_of (M s))) (sort srcs))"

lemma insort_map_pair: "insort_key fst (x, g x) (map (\<lambda>s. (s, g s)) xs) = map (\<lambda>s. (s, g s)) (insort x xs)"
  by (induction xs) auto

lemma sort_map_pair: "sort_key fst (map (\<lambda>s. (s, g s)) xs) = map (\<lambda>s. (s, g s)) (sort xs)"
  by (induction xs) (simp_all add: insort_map_pair)

text \<open>Entries that differ in nothing but reporter signatures have the same payload.\<close>

definition no_collision :: "env \<Rightarrow> dict list \<Rightarrow> bool" where
  "no_collision E es = inj_on (sha256 E) (entry_payload ` set es)"

lemma tail_of_prefix:
  assumes "prefix xs ys" and "distinct (map hash_of ys)" and "tail_of xs = tail_of ys"
  shows "xs = ys"
proof (cases xs rule: rev_cases)
  case Nil
  with assms(3) show ?thesis by (simp add: tail_of_def split: if_splits)
next
  case (snoc zs x)
  obtain us where ys: "ys = xs @ us" using assms(1) by (auto simp: prefix_def)
  show ?thesis
  proof (cases us rule: rev_cases)
    case (snoc vs u)
    then have "hash_of x = hash_of u" using assms(3) \<open>xs = zs @ [x]\<close> ys by (simp add: tail_of_def)
    with assms(2) snoc \<open>xs = zs @ [x]\<close> ys show ?thesis by auto
  qed (simp add: ys)
qed

lemma chain_head_prefix:
  assumes "digest_ok E" and "file_holds E f ys" and "verify_entries E network 0 genesis ys = []"
    and "no_collision E ys" and "prefix xs ys" and "chain_head xs = chain_head ys"
  shows "xs = ys"
proof -
  obtain us where ys: "ys = xs @ us" using assms(5) by (auto simp: prefix_def)
  have vx: "verify_entries E network 0 genesis xs = []"
    using assms(3) by (simp add: ys verify_entries_append)
  have ends: "chain_end (entry_hash E) (JStr ''GENESIS'') xs = chain_end (entry_hash E) (JStr ''GENESIS'') ys"
    using assms(6) verified_chain_end [OF vx] verified_chain_end [OF assms(3)] by (simp add: genesis_def)
  have ok: "list_all (\<lambda>e. digest_ok E \<and> wf_dict (float_repr E) e) ys"
    using assms(1,2) by (simp add: file_holds_def list_all_iff)
  then have okx: "list_all (\<lambda>e. digest_ok E \<and> wf_dict (float_repr E) e) xs" by (simp add: ys)
  note ch = vx [unfolded genesis_def, THEN verified_chained] assms(3) [unfolded genesis_def, THEN verified_chained]
  have "inj_on (sha256 E) (entry_payload ` (set xs \<union> set ys))"
    using assms(4) by (simp add: no_collision_def ys Un_absorb1 Un_assoc [symmetric])
  from signed_chain.same_end_same_payloads [OF ch okx ok ends this]
  have "length xs = length ys" by (rule map_eq_imp_length_eq)
  with ys show ?thesis by simp
qed

section \<open>The invariant\<close>

definition agent_conf_ok :: "agent_conf \<Rightarrow> bool" where
  "agent_conf_ok C = (identity_ok (ac_env C) (ac_identity C) \<and> digest_ok (ac_env C))"

definition memo_ok :: "agent_conf \<Rightarrow> agent \<Rightarrow> dict list \<Rightarrow> (string \<Rightarrow> dict list) \<Rightarrow> bool" where
  "memo_ok C A es M = (case ag_state_cache A of
     None \<Rightarrow> True
   | Some (key, st) \<Rightarrow> \<exists>m es0 M0 srcs0.
       ag_manifest A = Some m \<and> prefix es0 es \<and> prefix srcs0 (list_sources (ag_peer_log A)) \<and>
       (\<forall>s. prefix (M0 s) (M s)) \<and> key = heads_of es0 M0 srcs0 \<and>
       replay_community (ac_fless C) m (es0 @ concat (map M0 srcs0)) = Inr st)"

definition agent_state :: "agent_conf \<Rightarrow> agent \<Rightarrow> dict list \<Rightarrow> (string \<Rightarrow> dict list) \<Rightarrow> bool" where
  "agent_state C A es M =
     (log_state_ok (ac_env C) (id_network (ac_identity C)) (ag_file A) (ag_inst A) es \<and>
      peer_rep (ac_env C) (ag_peer_log A) M \<and>
      peer_network (ag_peer_log A) = id_network (ac_identity C) \<and>
      own_id (ag_peer_log A) = Some (reporter_id C) \<and> wallet_ok (ag_wallet A) \<and> memo_ok C A es M)"

definition agent_inv :: "agent_conf \<Rightarrow> agent \<Rightarrow> bool" where
  "agent_inv C A = (\<exists>es M. agent_state C A es M)"

text \<open>A step that only refreshes caches of the two logs.\<close>

definition refreshed :: "agent \<Rightarrow> agent \<Rightarrow> bool" where
  "refreshed A A' =
     (ag_wallet A' = ag_wallet A \<and> ag_send_nonce A' = ag_send_nonce A \<and> ag_manifest A' = ag_manifest A \<and>
      ag_manifest_md A' = ag_manifest_md A \<and> ag_file A' = ag_file A \<and> ag_state_cache A' = ag_state_cache A \<and>
      ag_seedbox A' = ag_seedbox A \<and> ag_tick A' = ag_tick A \<and>
      peer_files (ag_peer_log A') = peer_files (ag_peer_log A))"

lemma refreshed_refl: "refreshed A A"
  by (simp add: refreshed_def)

lemma refreshed_trans: "refreshed A A1 \<Longrightarrow> refreshed A1 A2 \<Longrightarrow> refreshed A A2"
  by (simp add: refreshed_def)

lemma refreshed_fields:
  assumes "refreshed A A'"
  shows "ag_wallet A' = ag_wallet A" "ag_send_nonce A' = ag_send_nonce A" "ag_manifest A' = ag_manifest A"
    "ag_manifest_md A' = ag_manifest_md A" "ag_file A' = ag_file A" "ag_state_cache A' = ag_state_cache A"
    "ag_seedbox A' = ag_seedbox A" "ag_tick A' = ag_tick A"
    "list_sources (ag_peer_log A') = list_sources (ag_peer_log A)"
  using assms by (simp_all add: refreshed_def list_sources_def)

lemma memo_refreshed: "refreshed A A' \<Longrightarrow> memo_ok C A' es M = memo_ok C A es M"
  unfolding memo_ok_def by (simp only: refreshed_fields)

lemma agent_entries:
  assumes "agent_state C A es M"
  shows "read_entries (ac_env C) (ag_file A) = Inr es"
    "foreign_entries C A = concat (map M (list_sources (ag_peer_log A)))"
    "fst (all_community_entries C A) = Inr (es @ concat (map M (list_sources (ag_peer_log A))))"
    "snd (all_community_entries C A) = A"
proof -
  have h: "file_holds (ac_env C) (ag_file A) es"
    "verify_entries (ac_env C) (id_network (ac_identity C)) 0 genesis es = []"
    using assms verified_iff by (auto simp: agent_state_def log_state_ok_def)
  show r: "read_entries (ac_env C) (ag_file A) = Inr es"
    using read_entries_holds [OF h(1)] verified_version2 [OF h(2)] by (simp add: filter_id_conv)
  show f: "foreign_entries C A = concat (map M (list_sources (ag_peer_log A)))"
    using assms peer_read by (auto simp: agent_state_def foreign_entries_def cong: map_cong)
  show "fst (all_community_entries C A) = Inr (es @ concat (map M (list_sources (ag_peer_log A))))"
    "snd (all_community_entries C A) = A"
    by (simp_all add: all_community_entries_def r f)
qed

section \<open>Reading the heads\<close>

lemma own_head_spec:
  assumes "agent_state C A es M"
  obtains A' where "own_head C A = (Inr (chain_head es), A')" "refreshed A A'" "agent_state C A' es M"
proof -
  let ?E = "ac_env C" and ?net = "id_network (ac_identity C)"
  have st: "log_state_ok ?E ?net (ag_file A) (ag_inst A) es" using assms by (simp add: agent_state_def)
  obtain p inst where h: "latest_hash ?E (ag_file A) (ag_inst A) = Inr (JStr p, inst)" "chain_head es = JStr p"
    using log_state_head [OF st] .
  have "cache_ok ?E (ag_file A) inst" using latest_hash_cache_ok [OF _ h(1)] st by (simp add: log_state_ok_def)
  then have st': "log_state_ok ?E ?net (ag_file A) inst es" using st by (simp add: log_state_ok_def)
  have r: "refreshed A (A\<lparr>ag_inst := inst\<rparr>)"
    by (simp add: refreshed_def)
  show thesis
    by (rule that [OF _ r])
      (use assms h st' memo_refreshed [OF r] in \<open>simp_all add: own_head_def agent_state_def\<close>)
qed

lemma peer_head_spec:
  assumes "agent_state C A es M"
  obtains A' where "peer_head C sid A = (Inr (tail_of (M sid)), A')" "refreshed A A'" "agent_state C A' es M"
proof -
  let ?E = "ac_env C" and ?p = "ag_peer_log A"
  have rep: "peer_rep ?E ?p M" using assms by (simp add: agent_state_def)
  have "\<exists>p'. latest_hash_for ?E ?p sid = Inr (tail_of (M sid), p') \<and> peer_rep ?E p' M \<and>
      peer_files p' = peer_files ?p \<and> peer_network p' = peer_network ?p \<and> own_id p' = own_id ?p"
  proof (cases "tail_hash ?p sid")
    case (Some t)
    with peer_repD(6) [OF rep Some] rep show ?thesis by (simp add: latest_hash_for_def)
  next
    case None
    obtain p' where "has_entry_hash ?E ?p sid [] = Inr ([] \<in> hash_of ` set (M sid), p')"
      "peer_rep ?E p' M" "peer_files p' = peer_files ?p" "peer_network p' = peer_network ?p"
      "own_id p' = own_id ?p" "tail_hash p' sid = Some (tail_of (M sid))"
      using peer_has_hash [OF rep, of sid "[]"] by metis
    with None show ?thesis by (simp add: latest_hash_for_def)
  qed
  then obtain p' where h: "latest_hash_for ?E ?p sid = Inr (tail_of (M sid), p')" "peer_rep ?E p' M"
    "peer_files p' = peer_files ?p" "peer_network p' = peer_network ?p" "own_id p' = own_id ?p" by blast
  have r: "refreshed A (A\<lparr>ag_peer_log := p'\<rparr>)"
    by (simp add: refreshed_def h(3))
  show thesis
    by (rule that [OF _ r]) (use assms h memo_refreshed [OF r] in \<open>simp_all add: peer_head_def agent_state_def\<close>)
qed

lemma peer_heads_spec:
  assumes "agent_state C A es M"
  shows "\<exists>A'. peer_heads C sids A = (Inr (map (\<lambda>s. (s, tail_of (M s))) sids), A') \<and> refreshed A A' \<and> agent_state C A' es M"
  using assms
proof (induction sids arbitrary: A)
  case Nil
  then show ?case by (simp add: refreshed_refl)
next
  case (Cons s sids)
  obtain A1 where 1: "peer_head C s A = (Inr (tail_of (M s)), A1)" "refreshed A A1" "agent_state C A1 es M"
    using peer_head_spec [OF Cons.prems] .
  with Cons.IH [OF 1(3)] refreshed_trans [OF 1(2)] show ?case by (auto simp: seq_def)
qed

lemma current_heads_spec:
  assumes "agent_state C A es M"
  obtains A' where "current_heads C A = (Inr (heads_of es M (list_sources (ag_peer_log A))), A')"
    "refreshed A A'" "agent_state C A' es M"
proof -
  obtain A1 where 1: "own_head C A = (Inr (chain_head es), A1)" "refreshed A A1" "agent_state C A1 es M"
    using own_head_spec [OF assms] .
  obtain A2 where 2: "peer_heads C (list_sources (ag_peer_log A1)) A1 =
      (Inr (map (\<lambda>s. (s, tail_of (M s))) (list_sources (ag_peer_log A1))), A2)" "refreshed A1 A2" "agent_state C A2 es M"
    using peer_heads_spec [OF 1(3)] by blast
  have "list_sources (ag_peer_log A1) = list_sources (ag_peer_log A)" by (rule refreshed_fields [OF 1(2)])
  with 1 2 have "current_heads C A = (Inr (heads_of es M (list_sources (ag_peer_log A))), A2)"
    by (simp add: current_heads_def seq_def heads_of_def sort_map_pair)
  then show thesis by (rule that [OF _ refreshed_trans [OF 1(2) 2(2)] 2(3)])
qed

section \<open>The community state\<close>

text \<open>What a replay of the agent's present view gives.\<close>

definition replay_view :: "agent_conf \<Rightarrow> agent \<Rightarrow> community_state option res" where
  "replay_view C A = (case ag_manifest A of
     None \<Rightarrow> Inr None
   | Some m \<Rightarrow> bindr (fst (all_community_entries C A)) (\<lambda>es.
       bindr (replay_community (ac_fless C) m es) (\<lambda>st. Inr (Some st))))"

lemma prefix_heads_eq:
  assumes "agent_state C A es M" and "digest_ok (ac_env C)" and "no_collision (ac_env C) es"
    and "prefix es0 es" and "prefix srcs0 (list_sources (ag_peer_log A))" and "\<forall>s. prefix (M0 s) (M s)"
    and "heads_of es0 M0 srcs0 = heads_of es M (list_sources (ag_peer_log A))"
  shows "es0 @ concat (map M0 srcs0) = es @ concat (map M (list_sources (ag_peer_log A)))"
proof -
  let ?E = "ac_env C" and ?srcs = "list_sources (ag_peer_log A)"
  have rep: "peer_rep ?E (ag_peer_log A) M" using assms(1) by (simp add: agent_state_def)
  have h: "file_holds ?E (ag_file A) es" "verify_entries ?E (id_network (ac_identity C)) 0 genesis es = []"
    using assms(1) verified_iff by (auto simp: agent_state_def log_state_ok_def)
  have es: "es0 = es"
    by (rule chain_head_prefix [OF assms(2) h assms(3,4)]) (use assms(7) in \<open>simp add: heads_of_def\<close>)
  have heads: "map (\<lambda>s. (s, tail_of (M0 s))) (sort srcs0) = map (\<lambda>s. (s, tail_of (M s))) (sort ?srcs)"
    using assms(7) by (simp add: heads_of_def)
  then have "length (sort srcs0) = length (sort ?srcs)" by (rule map_eq_imp_length_eq)
  then have srcs: "srcs0 = ?srcs" using assms(5) by (auto simp: prefix_def)
  have "M0 s = M s" if "s \<in> set ?srcs" for s
  proof (rule tail_of_prefix)
    show "prefix (M0 s) (M s)" using assms(6) by blast
    show "distinct (map hash_of (M s))" by (rule peer_repD(4) [OF rep])
    from heads srcs have "map (\<lambda>s. (s, tail_of (M0 s))) (sort ?srcs) = map (\<lambda>s. (s, tail_of (M s))) (sort ?srcs)"
      by simp
    then have "\<forall>s \<in> set (sort ?srcs). (s, tail_of (M0 s)) = (s, tail_of (M s))" by (simp only: map_eq_conv)
    with that show "tail_of (M0 s) = tail_of (M s)" by simp
  qed
  then have eq: "map M0 ?srcs = map M ?srcs" by simp
  show ?thesis unfolding es srcs eq ..
qed

text \<open>The state, as the memo or a replay gives it: exact unless an own entry collides.\<close>

lemma community_state_spec:
  assumes "agent_state C A es M"
  shows "\<exists>r A'. community_state_of C A = (r, A') \<and> agent_state C A' es M \<and>
    refreshed (A\<lparr>ag_state_cache := ag_state_cache A'\<rparr>) A' \<and>
    (digest_ok (ac_env C) \<and> no_collision (ac_env C) es \<longrightarrow> r = replay_view C A) \<and>
    (\<forall>st. r = Inr (Some st) \<longrightarrow> ag_state_cache A' = Some (heads_of es M (list_sources (ag_peer_log A)), st))"
proof (cases "ag_manifest A")
  case None
  with assms show ?thesis by (simp add: community_state_of_def replay_view_def refreshed_refl)
next
  case (Some m)
  let ?srcs = "list_sources (ag_peer_log A)"
  let ?key = "heads_of es M ?srcs" and ?all = "es @ concat (map M ?srcs)"
  obtain A1 where 1: "current_heads C A = (Inr ?key, A1)" "refreshed A A1" "agent_state C A1 es M"
    using current_heads_spec [OF assms] .
  note f = refreshed_fields [OF 1(2)]
  note ents = agent_entries [OF assms] and ents1 = agent_entries [OF 1(3)]
  have view: "replay_view C A = bindr (replay_community (ac_fless C) m ?all) (\<lambda>st. Inr (Some st))"
    by (simp add: replay_view_def Some ents(3))
  have fresh: ?thesis if "community_state_of C A = replay_and_cache C m ?key A1"
  proof (cases "replay_community (ac_fless C) m ?all")
    case (Inl x)
    have "community_state_of C A = (Inl x, A1)"
      using ents1(3,4) by (simp add: that replay_and_cache_def seq_def prod.case_eq_if f Inl)
    moreover have "refreshed (A\<lparr>ag_state_cache := ag_state_cache A1\<rparr>) A1" using 1(2) by (simp add: refreshed_def)
    ultimately show ?thesis using 1(3) view Inl by simp
  next
    case (Inr st)
    let ?A2 = "A1\<lparr>ag_state_cache := Some (?key, st)\<rparr>"
    have "community_state_of C A = (Inr (Some st), ?A2)"
      using ents1(3,4) by (simp add: that replay_and_cache_def seq_def prod.case_eq_if f Inr modify_def)
    moreover have "memo_ok C ?A2 es M"
      unfolding memo_ok_def using Inr Some f(3,9)
      by (simp, intro exI [of _ es] conjI exI [of _ M] exI [of _ ?srcs]) auto
    then have "agent_state C ?A2 es M" using 1(3) by (simp add: agent_state_def)
    moreover have "refreshed (A\<lparr>ag_state_cache := ag_state_cache ?A2\<rparr>) ?A2" using 1(2) by (simp add: refreshed_def)
    ultimately show ?thesis using view Inr by auto
  qed
  show ?thesis
  proof (cases "ag_state_cache A")
    case None
    then show ?thesis by (intro fresh) (simp add: community_state_of_def Some seq_def 1(1) f)
  next
    case (Some c)
    obtain k st where c: "c = (k, st)" by (cases c)
    show ?thesis
    proof (cases "k = ?key")
      case False
      then show ?thesis
        by (intro fresh) (simp add: community_state_of_def \<open>ag_manifest A = Some m\<close> seq_def 1(1) f Some c)
    next
      case True
      have hit: "community_state_of C A = (Inr (Some st), A1)"
        by (simp add: community_state_of_def \<open>ag_manifest A = Some m\<close> seq_def 1(1) f Some c True)
      have "r = replay_view C A" if "digest_ok (ac_env C)" "no_collision (ac_env C) es" "r = Inr (Some st)" for r
      proof -
        have "memo_ok C A es M" using assms by (simp add: agent_state_def)
        then obtain es0 M0 srcs0 where o: "prefix es0 es" "prefix srcs0 ?srcs" "\<forall>s. prefix (M0 s) (M s)"
          "k = heads_of es0 M0 srcs0" "replay_community (ac_fless C) m (es0 @ concat (map M0 srcs0)) = Inr st"
          unfolding memo_ok_def Some c using \<open>ag_manifest A = Some m\<close> by auto
        have "es0 @ concat (map M0 srcs0) = ?all"
          by (rule prefix_heads_eq [OF assms that(1,2) o(1-3)]) (use o(4) True in simp)
        with o(5) view that(3) show ?thesis by simp
      qed
      moreover have "refreshed (A\<lparr>ag_state_cache := ag_state_cache A1\<rparr>) A1" using 1(2) by (simp add: refreshed_def)
      ultimately show ?thesis using hit 1(3) f Some c True by auto
    qed
  qed
qed

section \<open>Signing and submitting\<close>

lemma memo_grows:
  assumes "memo_ok C A es M" and "ag_state_cache A' = ag_state_cache A" and "ag_manifest A' = ag_manifest A"
    and "prefix es es'" and "\<forall>s. prefix (M s) (M' s)"
    and "prefix (list_sources (ag_peer_log A)) (list_sources (ag_peer_log A'))"
  shows "memo_ok C A' es' M'"
proof (cases "ag_state_cache A")
  case None
  then show ?thesis by (simp add: memo_ok_def assms(2))
next
  case (Some c)
  obtain k st where c: "c = (k, st)" by (cases c)
  obtain m es0 M0 srcs0 where o: "ag_manifest A = Some m" "prefix es0 es"
    "prefix srcs0 (list_sources (ag_peer_log A))" "\<forall>s. prefix (M0 s) (M s)" "k = heads_of es0 M0 srcs0"
    "replay_community (ac_fless C) m (es0 @ concat (map M0 srcs0)) = Inr st"
    using assms(1) unfolding memo_ok_def Some c by auto
  have "prefix es0 es'" "prefix srcs0 (list_sources (ag_peer_log A'))" "\<forall>s. prefix (M0 s) (M' s)"
    using o(2-4) assms(4-6) prefix_order.trans by blast+
  with o Some c assms(2,3) show ?thesis unfolding memo_ok_def by auto
qed

lemma sign_event_spec:
  assumes "agent_conf_ok C" and "agent_state C A es M" and "wf_dict (float_repr (ac_env C)) details"
  obtains p e f inst where "chain_head es = JStr p"
    and "e = build_entry (ac_env C) (ac_identity C) (snd (ac_clock C (ag_tick A))) (JStr p)
      (reporter_id C) (reporter_id C) action details 0 None"
    and "sign_event C action details A = (Inr e, A\<lparr>ag_file := f, ag_inst := inst, ag_tick := Suc (ag_tick A)\<rparr>)"
    and "agent_state C (A\<lparr>ag_file := f, ag_inst := inst, ag_tick := Suc (ag_tick A)\<rparr>) (es @ [e]) M"
proof -
  let ?E = "ac_env C" and ?I = "ac_identity C"
  have st: "log_state_ok ?E (id_network ?I) (ag_file A) (ag_inst A) es" using assms(2) by (simp add: agent_state_def)
  have i: "identity_ok ?E ?I" using assms(1) by (simp add: agent_conf_ok_def)
  have ev: "evidence_wf ?E None" by (simp add: evidence_wf_def)
  obtain now ts where clk: "ac_clock C (ag_tick A) = (now, ts)" by (cases "ac_clock C (ag_tick A)")
  obtain p e f inst where a: "append_event ?E ?I (ag_file A) (ag_inst A) now ts (id_hash ?I) (reporter_id C)
      action details 0 None = Inr (e, f, inst)"
    "e = build_entry ?E ?I ts (JStr p) (id_hash ?I) (reporter_id C) action details 0 None"
    "chain_head es = JStr p" "log_state_ok ?E (id_network ?I) f inst (es @ [e])"
    using append_event_ok [OF st i assms(3) ev] by metis
  have s: "sign_event C action details A = (Inr e, A\<lparr>ag_file := f, ag_inst := inst, ag_tick := Suc (ag_tick A)\<rparr>)"
    using a(1) by (simp add: sign_event_def clk reporter_id_def)
  have "memo_ok C (A\<lparr>ag_file := f, ag_inst := inst, ag_tick := Suc (ag_tick A)\<rparr>) (es @ [e]) M"
    by (rule memo_grows [of C A es M]) (use assms(2) in \<open>simp_all add: agent_state_def\<close>)
  then have "agent_state C (A\<lparr>ag_file := f, ag_inst := inst, ag_tick := Suc (ag_tick A)\<rparr>) (es @ [e]) M"
    using assms(2) a(4) by (simp add: agent_state_def)
  with that a(2,3) s clk show thesis by (simp add: reporter_id_def)
qed

lemma has_entry_files: "has_entry_hash E p s h = Inr (b, p') \<Longrightarrow> peer_files p' = peer_files p"
  by (auto simp: has_entry_hash_def bindr_Inr_iff split: option.splits)

lemma accept_sources:
  assumes "accept_entry E p v = Inr (r, p')"
  shows "prefix (list_sources p) (list_sources p')"
  using assms has_entry_files
  by (fastforce simp: accept_entry_def Let_def bindr_Inr_iff list_sources_def write_entry_def update_keys
      split: if_splits prod.splits json.splits)

lemma submit_entry_spec:
  assumes "agent_state C A es M" and "wf_json (float_repr (ac_env C)) v"
  obtains stored src errs dup p M' where
    "submit_entry C v A = (Inr (stored, src, errs, dup), A\<lparr>ag_peer_log := p\<rparr>)"
    and "agent_state C (A\<lparr>ag_peer_log := p\<rparr>) es M'" and "\<forall>s. prefix (M s) (M' s)"
    and "accept_spec (ac_env C) (id_network (ac_identity C)) (Some (reporter_id C)) M v = ((stored, src, errs, dup), M')"
proof -
  let ?E = "ac_env C" and ?p = "ag_peer_log A"
  have st: "peer_rep ?E ?p M" "peer_network ?p = id_network (ac_identity C)" "own_id ?p = Some (reporter_id C)"
    using assms(1) by (simp_all add: agent_state_def)
  obtain stored src errs dup M' where
    spec: "accept_spec ?E (id_network (ac_identity C)) (Some (reporter_id C)) M v = ((stored, src, errs, dup), M')"
    by (metis prod_cases4 prod.collapse)
  obtain p where p: "accept_entry ?E ?p v = Inr ((stored, src, errs, dup), p)" "peer_rep ?E p M'"
    "peer_network p = peer_network ?p" "own_id p = own_id ?p"
    using accept_entry_spec [OF st(1) assms(2), of "(stored, src, errs, dup)" M'] spec st(2,3) by auto
  have grow: "\<forall>s. prefix (M s) (M' s)" using accept_spec_cases [OF spec] by auto
  have "memo_ok C (A\<lparr>ag_peer_log := p\<rparr>) es M'"
    by (rule memo_grows [of C A es M]) (use assms(1) grow accept_sources [OF p(1)] in \<open>simp_all add: agent_state_def\<close>)
  then have "agent_state C (A\<lparr>ag_peer_log := p\<rparr>) es M'" using assms(1) p by (simp add: agent_state_def)
  moreover have "submit_entry C v A = (Inr (stored, src, errs, dup), A\<lparr>ag_peer_log := p\<rparr>)"
    by (simp add: submit_entry_def p(1))
  ultimately show thesis using that grow spec by blast
qed

section \<open>Every step keeps the invariant\<close>

lemma state_step: "agent_state C A es M \<Longrightarrow> agent_inv C A"
  unfolding agent_inv_def by blast

text \<open>Steps that branch on the state or on their arguments.\<close>

named_theorems case_rules

lemma keeps_manifest [case_rules]:
  "(\<And>m. keeps P (k m) Q) \<Longrightarrow> (\<And>x. Q x) \<Longrightarrow>
     keeps P (\<lambda>A. case ag_manifest A of None \<Rightarrow> (r, A) | Some m \<Rightarrow> k m A) Q"
  by (simp add: keeps_def split: option.split)

lemma keeps_if [case_rules]:
  "keeps P (\<lambda>A. f A) Q \<Longrightarrow> keeps P (\<lambda>A. g A) Q \<Longrightarrow> keeps P (\<lambda>A. if b then f A else g A) Q"
  by (cases b) simp_all

lemma keeps_option [case_rules]:
  "keeps P (\<lambda>A. f A) Q \<Longrightarrow> (\<And>x. keeps P (\<lambda>A. g x A) Q) \<Longrightarrow>
     keeps P (\<lambda>A. case v of None \<Rightarrow> f A | Some x \<Rightarrow> g x A) Q"
  by (cases v) simp_all

lemma keeps_if_step [case_rules]: "keeps P f Q \<Longrightarrow> keeps P g Q \<Longrightarrow> keeps P (if b then f else g) Q"
  by simp

lemma keeps_option_step [case_rules]:
  "keeps P f Q \<Longrightarrow> (\<And>x. keeps P (g x) Q) \<Longrightarrow> keeps P (case v of None \<Rightarrow> f | Some x \<Rightarrow> g x) Q"
  by (cases v) simp_all

lemma keeps_read [case_rules]:
  "(\<And>x. keeps P (k x) (\<lambda>_. True)) \<Longrightarrow> keeps P (\<lambda>A. seq (raising (f A)) k A) (\<lambda>_. True)"
  by (simp add: keeps_def seq_def split: sum.split)

lemma keeps_community_state: "keeps (agent_inv C) (community_state_of C) (\<lambda>_. True)"
  unfolding keeps_def agent_inv_def using community_state_spec by (metis snd_conv)

lemma keeps_sign:
  assumes "agent_conf_ok C" and "wf_dict (float_repr (ac_env C)) details"
  shows "keeps (agent_inv C) (sign_event C action details) (\<lambda>_. True)"
  unfolding keeps_def
proof (intro allI impI conjI TrueI)
  fix A assume "agent_inv C A"
  then obtain es M where "agent_state C A es M" by (auto simp: agent_inv_def)
  from sign_event_spec [OF assms(1) this assms(2), of action] state_step
  show "agent_inv C (snd (sign_event C action details A))" by (metis snd_conv)
qed

lemma keeps_submit:
  assumes "wf_json (float_repr (ac_env C)) v"
  shows "keeps (agent_inv C) (submit_entry C v) (\<lambda>_. True)"
  unfolding keeps_def
proof (intro allI impI conjI TrueI)
  fix A assume "agent_inv C A"
  then obtain es M where "agent_state C A es M" by (auto simp: agent_inv_def)
  from submit_entry_spec [OF this assms] state_step
  show "agent_inv C (snd (submit_entry C v A))" by (metis snd_conv)
qed

text \<open>Changes of the bootstrap community, of the counter and of the wallet within its rule.\<close>

lemma inv_cong:
  assumes "agent_inv C A" and "ag_file A' = ag_file A" "ag_inst A' = ag_inst A" "ag_peer_log A' = ag_peer_log A"
    "ag_state_cache A' = ag_state_cache A" "wallet_ok (ag_wallet A')"
    and "ag_manifest A' = ag_manifest A \<or> ag_state_cache A = None"
  shows "agent_inv C A'"
proof -
  obtain es M where st: "agent_state C A es M" using assms(1) by (auto simp: agent_inv_def)
  have "memo_ok C A' es M"
  proof (cases "ag_state_cache A")
    case None
    then show ?thesis by (simp add: memo_ok_def assms(5))
  next
    case (Some c)
    with assms(7) have "ag_manifest A' = ag_manifest A" by simp
    with st show ?thesis unfolding agent_state_def memo_ok_def by (simp only: assms(4,5))
  qed
  with st assms(2-6) show ?thesis by (auto simp: agent_inv_def agent_state_def)
qed

lemma inv_wallet: "agent_inv C A \<Longrightarrow> wallet_ok (ag_wallet A)"
  by (auto simp: agent_inv_def agent_state_def)

lemma keeps_result: "keeps P m Q \<Longrightarrow> m s = (r, s') \<Longrightarrow> P s \<Longrightarrow> P s'"
  by (metis keeps_def snd_conv)

lemma keeps_True: "keeps P m Q \<Longrightarrow> keeps P m (\<lambda>_. True)"
  by (simp add: keeps_def)

lemma keeps_seq_True [keep_rules]:
  "keeps P m (\<lambda>_. True) \<Longrightarrow> (\<And>x. keeps P (k x) (\<lambda>_. True)) \<Longrightarrow> keeps P (seq m k) (\<lambda>_. True)"
  by (rule keeps_seq)

lemma keeps_raising_True [keep_rules]: "keeps P (raising r) (\<lambda>_. True)"
  by (simp add: keeps_def)

lemma keeps_ret_pair [keep_rules]: "keeps P (\<lambda>A. (r A, A)) (\<lambda>_. True)"
  by (simp add: keeps_def)

lemma keeps_all_entries [keep_rules]: "keeps P (all_community_entries C) (\<lambda>_. True)"
  by (simp add: keeps_def all_community_entries_def)

lemma donate_details_wf: "wf_json fr amount \<Longrightarrow> wf_dict fr (intent_details m amount)"
  by (simp add: intent_details_def)

text \<open>The entries of a message hold texts of floats only as Python writes them.\<close>

definition wf_message :: "agent_conf \<Rightarrow> wire_message \<Rightarrow> bool" where
  "wf_message C m = (case m of
     CommunityJoinRequest b \<Rightarrow> (\<forall>t e. we_decode (ac_wire C) b = Some t \<longrightarrow>
       loads (we_float_repr (ac_wire C)) t = Some (JObj e) \<longrightarrow> wf_dict (float_repr (ac_env C)) e)
   | _ \<Rightarrow> True)"

section \<open>Every other step, by the laws of an order\<close>

text \<open>
  What a notion of an agent in order has to promise so that every tool, message and manifest
  keeps it: the three steps that touch the logs keep it, and it does not depend on the rest
  of the agent but for the memo and the wallet's rule.
\<close>

locale agent_order =
  fixes ok :: "agent_conf \<Rightarrow> agent \<Rightarrow> bool"
  assumes state_kept: "keeps (ok C) (community_state_of C) (\<lambda>_. True)"
    and sign_kept: "agent_conf_ok C \<Longrightarrow> wf_dict (float_repr (ac_env C)) details \<Longrightarrow>
      keeps (ok C) (sign_event C action details) (\<lambda>_. True)"
    and submit_kept: "wf_json (float_repr (ac_env C)) v \<Longrightarrow> keeps (ok C) (submit_entry C v) (\<lambda>_. True)"
    and frame: "ok C A \<Longrightarrow> ag_file A' = ag_file A \<Longrightarrow> ag_inst A' = ag_inst A \<Longrightarrow>
      ag_peer_log A' = ag_peer_log A \<Longrightarrow> ag_state_cache A' = ag_state_cache A \<Longrightarrow> wallet_ok (ag_wallet A') \<Longrightarrow>
      ag_manifest A' = ag_manifest A \<or> ag_state_cache A = None \<Longrightarrow> ok C A'"
    and wallet_law: "ok C A \<Longrightarrow> wallet_ok (ag_wallet A)"
    and no_memo: "ok C A \<Longrightarrow> ag_manifest A = None \<Longrightarrow> ag_state_cache A = None"
begin

declare state_kept [keep_rules] sign_kept [keep_rules] submit_kept [keep_rules]

lemma inv_seedbox [simp]: "ok C A \<Longrightarrow> ok C (A\<lparr>ag_seedbox := n\<rparr>)"
  by (rule frame [of C A], assumption) (simp_all add: wallet_law)

lemma inv_spend:
  "ok C A \<Longrightarrow> wallet_send E k to_addr v (ag_wallet A) = Inr (txid, w) \<Longrightarrow>
     ok C (A\<lparr>ag_wallet := w, ag_send_nonce := k'\<rparr>)"
  by (rule frame [of C A], assumption) (auto dest: wallet_law wallet_send_ok(1))

lemma keeps_seedbox [keep_rules]: "keeps (ok C) (with_seedbox f) (\<lambda>_. True)"
  unfolding keeps_def with_seedbox_def
  by (auto split: option.split prod.split)

lemma keeps_known_peers [keep_rules]: "keeps (ok C) known_peers (\<lambda>_. True)"
  unfolding known_peers_def by (rule keeps_seedbox)

lemma keeps_add_peer [keep_rules]: "keeps (ok C) (add_peer C pk) (\<lambda>_. True)"
  using keeps_seedbox [of C "\<lambda>n. (mid, add_verified_peer mid n)" for mid]
  by (auto simp: keeps_def add_peer_def split: sum.split)

lemma keeps_debit [keep_rules]: "keeps (ok C) (debit C to_addr amount) (\<lambda>_. True)"
  unfolding keeps_def debit_def
  by (auto split: sum.split prod.split pyexn.split intro: inv_spend)

lemma keeps_wallet_send [keep_rules]: "keeps (ok C) (wallet_send_tool C to_addr sats) (\<lambda>_. True)"
  unfolding keeps_def wallet_send_tool_def
  by (auto split: sum.split prod.split intro: inv_spend)

section \<open>The tools keep the invariant\<close>

lemma keeps_summary [keep_rules]: "keeps (ok C) (community_summary C) (\<lambda>_. True)"
  unfolding community_summary_def
  by (rule keeps_seq_True [OF state_kept]) (auto simp: keeps_def split: option.split prod.split)

lemma keeps_recent: "keeps (ok C) (community_log_list_recent C limit) (\<lambda>_. True)"
  unfolding community_log_list_recent_def by (intro case_rules keep_rules TrueI)

lemma keeps_balance: "keeps (ok C) (community_treasury_balance C) (\<lambda>_. True)"
  unfolding community_treasury_balance_def by (intro keep_rules) simp

lemma keeps_count: "keeps (ok C) (community_member_count C) (\<lambda>_. True)"
  unfolding community_member_count_def by (intro keep_rules) simp

lemma keeps_donate_checked:
  assumes "agent_conf_ok C" and "wf_json (float_repr (ac_env C)) amount"
  shows "keeps (ok C) (donate_checked C m amount) (\<lambda>_. True)"
  unfolding donate_checked_def by (intro case_rules keep_rules assms donate_details_wf TrueI)

lemma keeps_donate:
  assumes "agent_conf_ok C" and "wf_json (float_repr (ac_env C)) amount"
  shows "keeps (ok C) (community_donate_and_join C amount) (\<lambda>_. True)"
  unfolding community_donate_and_join_def
  by (intro case_rules keep_rules keeps_donate_checked assms TrueI)

lemma keeps_resolve: "keeps (ok C) (resolve_peer v) (\<lambda>_. True)"
  unfolding resolve_peer_def by (auto split: json.split option.split intro!: keep_rules)

lemma keeps_ship: "keeps (ok C) (ship_entry gatekeeper entry) (\<lambda>_. True)"
proof -
  have "keeps (ok C) (seq (with_seedbox (request_community_join mid entry)) (\<lambda>i.
      ret (JoinWaiting i (jget entry ''entry_hash'')))) (\<lambda>_. True)" for mid
    by (intro keep_rules) simp
  from keeps_result [OF this] keeps_result [OF keeps_resolve] show ?thesis
    unfolding keeps_def ship_entry_def by (auto split: sum.split prod.split pyexn.split) (metis prod.collapse)+
qed

lemma keeps_join_begin:
  assumes "agent_conf_ok C" and "wf_json (float_repr (ac_env C)) amount"
  shows "keeps (ok C) (community_join_begin C gatekeeper amount) (\<lambda>_. True)"
  unfolding community_join_begin_def
proof (rule keeps_seq_True [OF keeps_donate [OF assms]])
  fix result
  show "keeps (ok C) (case result of
      JObj d \<Rightarrow>
        if has_key d ''error'' then ret (JoinDone result)
        else (\<lambda>A. seq (raising (read_entries (ac_env C) (ag_file A))) (\<lambda>es.
          case find (\<lambda>e. py_eq (jget e ''entry_hash'') (jget d ''entry_hash'')) (rev es) of
            None \<Rightarrow> ret (JoinDone (tool_error ''signed_entry_not_found_in_local_log''))
          | Some entry \<Rightarrow> ship_entry gatekeeper entry) A)
    | _ \<Rightarrow> ret (JoinDone result)) (\<lambda>_. True)"
  proof (cases result)
    case (JObj d)
    show ?thesis unfolding JObj json.case by (intro case_rules keep_rules keeps_ship TrueI)
  qed (simp_all add: keeps_ret)
qed

lemma keeps_join_finish: "keeps (ok C) (community_join_finish i h amount t) (\<lambda>_. True)"
  unfolding community_join_finish_def by (rule keeps_seedbox)

lemma keeps_purchase:
  assumes "agent_conf_ok C" and "wf_json (float_repr (ac_env C)) cost"
  shows "keeps (ok C) (seedbox_purchase_propose C cost) (\<lambda>_. True)"
proof -
  have "wf_json (float_repr (ac_env C)) (if cost = JNull then JInt n else cost)" for n using assms(2) by simp
  then have "wf_dict (float_repr (ac_env C)) [(''network_id_hex'', JStr i),
      (''cost_sats'', if cost = JNull then JInt n else cost)]" for i n by simp
  then show ?thesis
    unfolding seedbox_purchase_propose_def Let_def by (intro case_rules keep_rules assms(1) TrueI)
qed

lemma keeps_provisioned:
  assumes "agent_conf_ok C" and "wf_json (float_repr (ac_env C)) h" "wf_json (float_repr (ac_env C)) url"
    "wf_json (float_repr (ac_env C)) pk"
  shows "keeps (ok C) (seedbox_provisioned C h url pk) (\<lambda>_. True)"
proof -
  have "wf_dict (float_repr (ac_env C)) [(''network_id_hex'', JStr i), (''purchase_intent_hash'', h),
      (''seedbox_url'', url), (''seedbox_pubkey_hex'', pk)]" for i using assms(2-4) by simp
  then show ?thesis unfolding seedbox_provisioned_def by (intro case_rules keep_rules assms(1) TrueI)
qed

lemma keeps_peer_add: "keeps (ok C) (peer_add C host port pk) (\<lambda>_. True)"
  unfolding keeps_def peer_add_def
  by (auto split: json.split sum.split prod.split pyexn.split intro: keeps_result [OF keeps_add_peer])

lemma add_genesis_state:
  assumes "ok C A"
  shows "ok C (add_genesis_peers C gs A)" "ag_state_cache (add_genesis_peers C gs A) = ag_state_cache A"
proof -
  have add: "ok C (snd (add_peer C pk B)) \<and> ag_state_cache (snd (add_peer C pk B)) = ag_state_cache B"
    if "ok C B" for pk B
    using that keeps_add_peer [of C pk]
    by (auto simp: keeps_def add_peer_def with_seedbox_def split: sum.split option.split)
  have "ok C (add_genesis_peers C gs A) \<and> ag_state_cache (add_genesis_peers C gs A) = ag_state_cache A"
    using assms by (induction gs arbitrary: A) (simp_all add: add)
  then show "ok C (add_genesis_peers C gs A)"
    "ag_state_cache (add_genesis_peers C gs A) = ag_state_cache A" by simp_all
qed

section \<open>Manifest, messages and dispatch\<close>

lemma keeps_inject: "keeps (ok C) (agent_inject_manifest C t) (\<lambda>_. True)"
  unfolding keeps_def
proof (intro allI impI conjI TrueI)
  fix A assume inv: "ok C A"
  show "ok C (snd (agent_inject_manifest C t A))"
  proof (cases "ag_manifest A")
    case (Some m)
    with inv show ?thesis by (simp add: agent_inject_manifest_def)
  next
    case None
    then have cache: "ag_state_cache A = None"
      by (rule no_memo [OF inv])
    have "ok C (adopt_manifest C t m A)" for m
    proof -
      let ?A1 = "(add_genesis_peers C (genesis_peers m) A)\<lparr>ag_manifest := Some m, ag_manifest_md := Some t\<rparr>"
      have "ok C ?A1"
        by (rule frame [OF add_genesis_state(1) [OF inv, of "genesis_peers m"]])
          (simp_all add: wallet_law [OF add_genesis_state(1) [OF inv]] add_genesis_state [OF inv] cache)
      with keeps_seedbox [of C "publish_manifest (ac_wire C) t"] show ?thesis
        by (simp add: adopt_manifest_def keeps_def Let_def)
    qed
    with inv None show ?thesis
      by (auto simp: agent_inject_manifest_def load_manifest_def split: sum.split)
  qed
qed

lemma keeps_handle_join:
  assumes "wf_dict (float_repr (ac_env C)) entry"
  shows "keeps (ok C) (handle_community_join C p entry) (\<lambda>_. True)"
proof -
  have tail: "keeps (ok C) (seq (submit_entry C (JObj entry)) (\<lambda>(stored, src, errs, duplicate).
      if \<not> stored \<and> \<not> duplicate then ret (False, join_errors C errs)
      else seq (community_state_of C) (\<lambda>st. case st of
          None \<Rightarrow> ret (False, ''replay_returned_none'')
        | Some state \<Rightarrow> if who \<in> set (members state) then ret (True, [])
            else ret (False, ''rejected_by_community_rules'')))) (\<lambda>_. True)" for who
    unfolding split_def by (intro case_rules keep_rules assms TrueI)
  show ?thesis
    unfolding keeps_def
  proof (intro allI impI conjI TrueI)
    fix A assume "ok C A"
    with tail show "ok C (snd (handle_community_join C p entry A))"
      by (auto simp: handle_community_join_def Let_def keeps_def split: json.split list.split)
  qed
qed

lemma receive_keeps:
  assumes "wf_message C m"
  shows "keeps (\<lambda>(n, A). ok C A) (receive (ac_wire C) (Some (handle_community_join C)) p m) (\<lambda>_. True)"
proof (cases "\<exists>b. m = CommunityJoinRequest b")
  case False
  then show ?thesis by (cases m) (simp_all add: keeps_def on_node_def split_def)
next
  case True
  then obtain b where m: "m = CommunityJoinRequest b" by blast
  have wf: "wf_dict (float_repr (ac_env C)) e"
    if "we_decode (ac_wire C) b = Some t" "loads (we_float_repr (ac_wire C)) t = Some (JObj e)" for t e
    using assms that by (simp add: wf_message_def m del: wf_json.simps)
  show ?thesis
    unfolding keeps_def m
    by (auto simp: on_community_join_request_def on_node_def split: option.split json.split prod.split sum.split
        intro: keeps_result [OF keeps_handle_join [OF wf]])
qed

lemma keeps_agent_receive:
  assumes "wf_message C m"
  shows "keeps (ok C) (agent_receive C p m) (\<lambda>_. True)"
  unfolding keeps_def
proof (intro allI impI conjI TrueI)
  fix A assume inv: "ok C A"
  show "ok C (snd (agent_receive C p m A))"
  proof (cases "ag_seedbox A")
    case None
    with inv show ?thesis by (simp add: agent_receive_def)
  next
    case (Some n)
    obtain r n' A' where rec: "receive (ac_wire C) (Some (handle_community_join C)) p m (n, A) = (r, n', A')"
      by (metis prod_cases3)
    from keeps_result [OF receive_keeps [OF assms] rec] inv have "ok C A'" by simp
    with Some rec show ?thesis by (simp add: agent_receive_def)
  qed
qed

lemma tools_keep:
  assumes "agent_conf_ok C" and "(name, t) \<in> set community_tools" and "wf_dict (float_repr (ac_env C)) d"
  shows "keeps (ok C) (tl_fn t C d) (\<lambda>_. True)"
proof -
  note wf = wf_get [OF assms(3)]
  have manifest: "keeps (ok C) (case v of JStr t \<Rightarrow> agent_inject_manifest C t | _ \<Rightarrow> raise AttributeError) (\<lambda>_. True)"
    for v by (cases v) (simp_all add: keeps_inject keeps_raise)
  from assms(2) show ?thesis
    unfolding community_tools_def list.set insert_iff empty_iff prod.inject
    by (elim disjE conjE)
      (simp_all add: keeps_peer_add keeps_ret_pair keeps_wallet_send keeps_recent keeps_balance keeps_count
        keeps_donate keeps_purchase keeps_provisioned manifest assms(1) wf)
qed


lemma keeps_dispatch:
  assumes "agent_conf_ok C" and "ok C A" and "wf_dict (float_repr (ac_env C)) args"
  shows "ok C (snd (dispatch C name args A))"
proof (cases "map_of community_tools name")
  case None
  with assms(2) show ?thesis by (simp add: dispatch_def)
next
  case (Some t)
  show ?thesis
  proof (cases "bind_args t args")
    case (Inl x)
    with assms(2) Some show ?thesis by (simp add: dispatch_def seq_def)
  next
    case (Inr d)
    have opt: "\<forall>(name, t) \<in> set community_tools. wf_dict fr (tl_optional t)" for fr
      unfolding community_tools_def by simp
    have "wf_dict (float_repr (ac_env C)) (tl_optional t)" using bspec [OF opt map_of_SomeD [OF Some]] by simp
    from wf_merge [OF this assms(3)] have wf: "wf_dict (float_repr (ac_env C)) d"
      using Inr by (simp add: bind_args_def del: wf_json.simps split: if_splits)
    obtain r A' where r: "tl_fn t C d A = (r, A')" by (cases "tl_fn t C d A")
    have "ok C A'" by (rule keeps_result [OF tools_keep [OF assms(1) map_of_SomeD [OF Some] wf] r assms(2)])
    with Some Inr r show ?thesis by (simp add: dispatch_def seq_def split: sum.split)
  qed
qed

end

interpretation kept: agent_order agent_inv
proof
  show "ag_state_cache A = None" if "agent_inv C A" "ag_manifest A = None" for C A
    using that by (cases "ag_state_cache A") (auto simp: agent_inv_def agent_state_def memo_ok_def)
qed (simp_all add: keeps_community_state keeps_sign keeps_submit inv_wallet, rule inv_cong)

end
