(* ===== verification/Community_Agent_Spec.thy ===== *)
theory Community_Agent_Spec
  imports Community_Agent_Proofs Seedbox_Node_Spec
begin

text \<open>
  Properties of an agent's community layer: the memo is invisible, an accepted tool call has
  the effect on the replay that its local checks promise, the gatekeeper admits members only,
  and the places where the layer does something else than its descriptions say.
\<close>

section \<open>Runs\<close>

datatype agent_event =
    StartNode donation_verifier
  | UseTool string dict
  | BeginJoin json json
  | FinishJoin nat json json string
  | PullEntry json
  | Message bytes wire_message
  | LookAtState

fun agent_step :: "agent_conf \<Rightarrow> agent \<Rightarrow> agent_event \<Rightarrow> agent" where
  "agent_step C A (StartNode V) = start_agent C V A"
| "agent_step C A (UseTool name args) = snd (dispatch C name args A)"
| "agent_step C A (BeginJoin gatekeeper amount) = snd (community_join_begin C gatekeeper amount A)"
| "agent_step C A (FinishJoin i h amount t) = snd (community_join_finish i h amount t A)"
| "agent_step C A (PullEntry v) = snd (submit_entry C v A)"
| "agent_step C A (Message p m) = snd (agent_receive C p m A)"
| "agent_step C A LookAtState = snd (community_state_of C A)"

definition agent_run :: "agent_conf \<Rightarrow> agent_event list \<Rightarrow> agent \<Rightarrow> agent" where
  "agent_run C evs A = foldl (agent_step C) A evs"

text \<open>Values of an event hold texts of floats only as Python writes them, and distinct keys.\<close>

fun wf_agent_event :: "agent_conf \<Rightarrow> agent_event \<Rightarrow> bool" where
  "wf_agent_event C (UseTool name args) = wf_dict (float_repr (ac_env C)) args"
| "wf_agent_event C (BeginJoin gatekeeper amount) = wf_json (float_repr (ac_env C)) amount"
| "wf_agent_event C (PullEntry v) = wf_json (float_repr (ac_env C)) v"
| "wf_agent_event C (Message p m) = wf_message C m"
| "wf_agent_event C ev = True"

text \<open>An agent starts on no log or on a verified one, and on a cache of entries it has accepted.\<close>

definition verified_start :: "agent_conf \<Rightarrow> wallet \<Rightarrow> log_file \<Rightarrow> (string \<times> string) list \<Rightarrow> bool" where
  "verified_start C w f files =
     (wallet_ok w \<and>
      (content f = None \<or> (\<exists>es. file_holds (ac_env C) f es \<and>
         verify_integrity (ac_env C) (id_network (ac_identity C)) f = (True, []))) \<and>
      (\<exists>M. peer_rep (ac_env C)
         (open_peer_log files (id_network (ac_identity C)) (Some (reporter_id C))) M))"

definition own_entries :: "agent_conf \<Rightarrow> agent \<Rightarrow> dict list" where
  "own_entries C A = (case read_entries (ac_env C) (ag_file A) of Inl x \<Rightarrow> [] | Inr es \<Rightarrow> es)"

lemma own_entries_eq: "agent_state C A es M \<Longrightarrow> own_entries C A = es"
  by (simp add: own_entries_def agent_entries(1))

lemma new_agent_inv:
  assumes "verified_start C w f files"
  shows "agent_inv C (new_agent C w f files)"
proof -
  let ?E = "ac_env C" and ?net = "id_network (ac_identity C)"
  obtain f' inst where o: "open_log (fst (ac_clock C 0)) f = (f', inst)" by (cases "open_log (fst (ac_clock C 0)) f")
  have "\<exists>es. log_state_ok ?E ?net f' inst es"
  proof (cases "content f")
    case None
    have h: "file_holds ?E f' []" using o None by (auto simp: open_log_def file_holds_def append_text_def log_text_def)
    moreover have "verify_integrity ?E ?net f' = (True, [])" using verified_iff [OF h] by simp
    ultimately show ?thesis using o by (auto simp: log_state_ok_def open_log_def cache_ok_def)
  next
    case (Some t)
    with assms obtain es where "file_holds ?E f es" "verify_integrity ?E ?net f = (True, [])"
      by (auto simp: verified_start_def)
    with o Some show ?thesis by (auto simp: log_state_ok_def open_log_def cache_ok_def)
  qed
  then obtain es where "log_state_ok ?E ?net f' inst es" by blast
  with assms o show ?thesis
    by (auto simp: agent_inv_def agent_state_def verified_start_def new_agent_def memo_ok_def open_peer_log_def)
qed

context agent_order begin

lemma step_kept:
  assumes "agent_conf_ok C" and "ok C A" and "wf_agent_event C ev"
  shows "ok C (agent_step C A ev)"
proof (cases ev)
  case (StartNode V)
  with assms(2) show ?thesis by (simp add: start_agent_def split: option.split)
next
  case (UseTool name args)
  with keeps_dispatch [OF assms(1,2)] assms(3) show ?thesis by (simp del: wf_json.simps)
next
  case (BeginJoin gatekeeper amount)
  with keeps_join_begin [OF assms(1)] assms(2,3) show ?thesis by (simp add: keeps_def)
next
  case (FinishJoin i h amount t)
  with keeps_join_finish assms(2) show ?thesis by (simp add: keeps_def)
next
  case (PullEntry v)
  with submit_kept assms(2,3) show ?thesis by (simp add: keeps_def)
next
  case (Message p m)
  with keeps_agent_receive assms(2,3) show ?thesis by (simp add: keeps_def)
next
  case LookAtState
  with state_kept assms(2) show ?thesis by (simp add: keeps_def)
qed

lemma run_kept:
  assumes "agent_conf_ok C" and "\<forall>ev \<in> set evs. wf_agent_event C ev" and "ok C A"
  shows "ok C (agent_run C evs A)"
  using assms(2,3) unfolding agent_run_def
  by (induction evs arbitrary: A) (simp_all add: step_kept [OF assms(1)])

end

section \<open>The memo is invisible\<close>

text \<open>
  C25: Whatever an agent has done and received, in any order, the community state it works
  with is the replay of its present logs: the memo, which compares the heads of the logs
  only, is never stale as long as the agent keeps its manifest and SHA-256 does not collide
  on its own entries.
\<close>

theorem community_state_is_replay:
  assumes "agent_conf_ok C" and "verified_start C w f files" and "\<forall>ev \<in> set evs. wf_agent_event C ev"
    and "A = agent_run C evs (new_agent C w f files)" and "no_collision (ac_env C) (own_entries C A)"
  shows "fst (community_state_of C A) = replay_view C A"
proof -
  have "agent_inv C A" unfolding assms(4) by (rule kept.run_kept [OF assms(1,3) new_agent_inv [OF assms(2)]])
  then obtain es M where st: "agent_state C A es M" by (auto simp: agent_inv_def)
  have "digest_ok (ac_env C)" "no_collision (ac_env C) es"
    using assms(1,5) own_entries_eq [OF st] by (simp_all add: agent_conf_ok_def)
  with community_state_spec [OF st] show ?thesis by auto
qed

section \<open>An entry signed last is applied last\<close>

lemma replay_newest:
  assumes "replayable (xs @ ys)" and "is_action e" and "str_keys e"
    and newest: "\<forall>d \<in> set (xs @ ys). is_action d \<longrightarrow> entry_key d < entry_key e"
  shows "replayable ((xs @ [e]) @ ys)" and "replay_community fless m ((xs @ [e]) @ ys) = bindr (replay_community fless m (xs @ ys)) (\<lambda>c. apply_entry m c e)"
proof -
  let ?old = "filter is_action (xs @ ys)" and ?new = "filter is_action ((xs @ [e]) @ ys)"
  have fresh: "entry_key e \<notin> entry_key ` set ?old" using newest by force
  have hash: "hashable_action e" using assms(2) by (simp add: is_action_def hashable_action_def)
  have set: "set ?new = insert e (set ?old)" using assms(2) by auto
  have inj: "inj_on entry_key (set ?new)"
    unfolding set inj_on_insert using assms(1) fresh by (auto simp: replayable_def)
  show new: "replayable ((xs @ [e]) @ ys)"
    using assms(1,3) hash inj by (auto simp: replayable_def)
  have "sort_key entry_key ?new = sort_key entry_key ?old @ [e]"
  proof (rule sort_key_inj_key_eq)
    show "mset ?new = mset (sort_key entry_key ?old @ [e])" using assms(2) by simp
    show "inj_on entry_key (set ?new)" by (rule inj)
    show "sorted (map entry_key (sort_key entry_key ?old @ [e]))"
      using newest by (auto simp: sorted_append intro: less_imp_le)
  qed
  then show "replay_community fless m ((xs @ [e]) @ ys) =
      bindr (replay_community fless m (xs @ ys)) (\<lambda>c. apply_entry m c e)"
    unfolding replay_sorted [OF assms(1)] replay_sorted [OF new]
    by (simp add: fold_entries_append bindr_def split: sum.split)
qed

text \<open>The view is in order and the clock is ahead of it; the clock gives ever later timestamps.\<close>

definition ticking :: "agent_conf \<Rightarrow> bool" where
  "ticking C = (\<forall>n. snd (ac_clock C n) < snd (ac_clock C (Suc n)))"

definition timely :: "agent_conf \<Rightarrow> agent \<Rightarrow> bool" where
  "timely C A = (\<exists>es. fst (all_community_entries C A) = Inr es \<and> replayable es \<and>
     (\<forall>d \<in> set es. is_action d \<longrightarrow> fst (entry_key d) < snd (ac_clock C (ag_tick A))))"

lemma view_cong:
  assumes "ag_file A' = ag_file A" and "foreign_entries C A' = foreign_entries C A"
    and "ag_manifest A' = ag_manifest A" and "ag_tick A' = ag_tick A"
  shows "replay_view C A' = replay_view C A" "timely C A' = timely C A"
proof -
  have "fst (all_community_entries C A') = fst (all_community_entries C A)"
    by (simp add: all_community_entries_def assms)
  then show "replay_view C A' = replay_view C A" "timely C A' = timely C A"
    unfolding replay_view_def timely_def by (simp_all only: assms)
qed

text \<open>What the fields of an own entry are.\<close>

lemma own_entry_fields:
  assumes "digest_ok E" and "e = build_entry E I ts previous (id_hash I) sub act details sev None"
  shows "jget e ''action'' = JStr act" "jget e ''details'' = JObj details" "jget e ''timestamp'' = JStr ts"
    "jget e ''reporter_id'' = JStr (id_hash I)" "jget e ''entry_hash'' = JStr (hash_of e)" "hash_of e \<noteq> []"
proof -
  let ?p = "payload_fields E I ''self'' ts previous sub act details sev None"
  have e: "e = seal_entry E I ?p" by (simp add: assms(2) build_entry_fields)
  note get = seal_get_other [OF payload_unsealed(1)]
  show "jget e ''action'' = JStr act" "jget e ''details'' = JObj details" "jget e ''timestamp'' = JStr ts"
    "jget e ''reporter_id'' = JStr (id_hash I)"
    unfolding e by (simp_all add: get) (simp_all add: payload_fields_def get_or_def Let_def)
  have h: "jget e ''entry_hash'' = JStr (stable_hash E (JObj ?p))"
    unfolding e by (rule seal_get(1) [OF payload_unsealed(1)])
  then show "jget e ''entry_hash'' = JStr (hash_of e)" by (simp add: hash_of_def)
  have "length (stable_hash E (JObj ?p)) = 64"
    using sha256_hex_length [OF assms(1)] by (simp add: stable_hash_def)
  with h show "hash_of e \<noteq> []" by (auto simp: hash_of_def)
qed


lemma sign_event_replay:
  assumes "agent_conf_ok C" and st: "agent_state C A es M" and "ag_manifest A = Some m"
    and "wf_dict (float_repr (ac_env C)) details" and "action \<in> set community_actions"
    and "replay_view C A = Inr (Some c)" and "timely C A"
  obtains e A' where "sign_event C action details A = (Inr e, A')"
    and "replay_view C A' = bindr (apply_entry m c e) (\<lambda>c'. Inr (Some c'))"
    and "jget e ''action'' = JStr action" "jget e ''details'' = JObj details"
    and "jget e ''reporter_id'' = JStr (reporter_id C)"
    and "jget e ''entry_hash'' = JStr (hash_of e)" "hash_of e \<noteq> []"
    and "ag_wallet A' = ag_wallet A" "ag_manifest A' = ag_manifest A" "ag_seedbox A' = ag_seedbox A"
    and "agent_state C A' (es @ [e]) M" and "ticking C \<longrightarrow> timely C A'"
    and "\<exists>p. e = build_entry (ac_env C) (ac_identity C) (snd (ac_clock C (ag_tick A))) (JStr p)
      (reporter_id C) (reporter_id C) action details 0 None"
proof -
  let ?F = "concat (map M (list_sources (ag_peer_log A)))"
  obtain p e f inst where
    e: "e = build_entry (ac_env C) (ac_identity C) (snd (ac_clock C (ag_tick A))) (JStr p)
      (reporter_id C) (reporter_id C) action details 0 None"
    and sign: "sign_event C action details A = (Inr e, A\<lparr>ag_file := f, ag_inst := inst, ag_tick := Suc (ag_tick A)\<rparr>)"
    and st': "agent_state C (A\<lparr>ag_file := f, ag_inst := inst, ag_tick := Suc (ag_tick A)\<rparr>) (es @ [e]) M"
    using sign_event_spec [OF assms(1,2,4), of action] by metis
  have dig: "digest_ok (ac_env C)" using assms(1) by (simp add: agent_conf_ok_def)
  note fl = own_entry_fields [OF dig e [unfolded reporter_id_def]]
  let ?A' = "A\<lparr>ag_file := f, ag_inst := inst, ag_tick := Suc (ag_tick A)\<rparr>"
  have act: "is_action e" using fl(1) assms(5) by (simp add: is_action_def)
  have keys: "str_keys e"
    using get_or_str [OF fl(3)] get_or_str [OF fl(4)] get_or_str [OF fl(5)]
    by (simp add: str_keys_def sort_key_of_def)
  have ts: "fst (entry_key e) = snd (ac_clock C (ag_tick A))"
    using get_or_str [OF fl(3)] by (simp add: entry_key_def)
  have all: "fst (all_community_entries C A) = Inr (es @ ?F)" by (rule agent_entries(3) [OF st])
  have "replayable (es @ ?F)" "\<forall>d \<in> set (es @ ?F). is_action d \<longrightarrow> fst (entry_key d) < fst (entry_key e)"
    using assms(7) all ts by (auto simp: timely_def)
  moreover from this(2) have "\<forall>d \<in> set (es @ ?F). is_action d \<longrightarrow> entry_key d < entry_key e"
    by (auto simp: less_prod_def')
  ultimately have replay: "replay_community (ac_fless C) m ((es @ [e]) @ ?F) =
      bindr (replay_community (ac_fless C) m (es @ ?F)) (\<lambda>c. apply_entry m c e)"
    "replayable ((es @ [e]) @ ?F)"
    using replay_newest act keys by blast+
  have c: "replay_community (ac_fless C) m (es @ ?F) = Inr c"
    using assms(3,6) all by (simp add: replay_view_def bindr_Inr_iff)
  have all': "fst (all_community_entries C ?A') = Inr ((es @ [e]) @ ?F)"
    using agent_entries(3) [OF st'] by simp
  then have view: "replay_view C ?A' = bindr (apply_entry m c e) (\<lambda>c'. Inr (Some c'))"
    using assms(3) c replay(1) by (simp add: replay_view_def)
  have "timely C ?A'" if "ticking C"
  proof -
    have later: "snd (ac_clock C (ag_tick A)) < snd (ac_clock C (ag_tick ?A'))" using that by (simp add: ticking_def)
    have "\<forall>d \<in> set (es @ ?F). is_action d \<longrightarrow> fst (entry_key d) < snd (ac_clock C (ag_tick A))"
      using assms(7) all by (auto simp: timely_def)
    then have "\<forall>d \<in> set ((es @ [e]) @ ?F). is_action d \<longrightarrow> fst (entry_key d) < snd (ac_clock C (ag_tick ?A'))"
      using later ts by (auto intro: less_trans)
    with all' replay(2) show ?thesis by (simp add: timely_def)
  qed
  with that sign fl st' view e show thesis by (simp add: reporter_id_def) blast
qed

text \<open>The state a tool looks at, when the replay succeeds.\<close>

lemma looked_at:
  assumes "agent_conf_ok C" and "agent_state C A es M" and "no_collision (ac_env C) (own_entries C A)"
    and "replay_view C A = Inr (Some c)" and "community_state_of C A = (r, A1)"
  shows "r = Inr (Some c)" "agent_state C A1 es M" "ag_wallet A1 = ag_wallet A" "ag_manifest A1 = ag_manifest A"
    "replay_view C A1 = replay_view C A" "timely C A1 = timely C A" "ag_send_nonce A1 = ag_send_nonce A"
    "ag_seedbox A1 = ag_seedbox A"
proof -
  have "digest_ok (ac_env C)" "no_collision (ac_env C) es"
    using assms(1,3) own_entries_eq [OF assms(2)] by (simp_all add: agent_conf_ok_def)
  with community_state_spec [OF assms(2)] assms(4,5)
  show r: "r = Inr (Some c)" "agent_state C A1 es M" by auto
  have ref: "refreshed (A\<lparr>ag_state_cache := ag_state_cache A1\<rparr>) A1"
    using community_state_spec [OF assms(2)] assms(5) by auto
  then show "ag_wallet A1 = ag_wallet A" "ag_manifest A1 = ag_manifest A" "ag_send_nonce A1 = ag_send_nonce A"
    "ag_seedbox A1 = ag_seedbox A"
    by (simp_all add: refreshed_def)
  have "foreign_entries C A1 = foreign_entries C A"
    using agent_entries(2) [OF r(2)] agent_entries(2) [OF assms(2)] ref
    by (simp add: refreshed_def list_sources_def)
  note cong = view_cong [OF _ this]
  show "replay_view C A1 = replay_view C A" by (rule cong(1)) (use ref in \<open>simp_all add: refreshed_def\<close>)
  show "timely C A1 = timely C A" by (rule cong(2)) (use ref in \<open>simp_all add: refreshed_def\<close>)
qed

section \<open>A concrete agent\<close>

text \<open>A donation by another identity of the same network.\<close>

definition sample_joiner :: identity where
  "sample_joiner = openclaw_identity sample_env ''mainnet'' (replicate 32 9) (\<lambda>_. replicate 64 0)"

definition joiner_entry :: dict where
  "joiner_entry = build_entry sample_env sample_joiner ''a'' (JStr ''GENESIS'') (id_hash sample_joiner)
     (id_hash sample_joiner) ''donation_intent'' (intent_details small_manifest (JInt 40)) 0 None"

lemma sample_joiner_ok: "identity_ok sample_env sample_joiner" "id_network sample_joiner = id_network sample_identity"
  by (simp_all add: identity_ok_def sample_joiner_def sample_identity_def sample_env_def openclaw_identity_def
      binding_hash_def sha256_hex_def Let_def)

lemma joiner_entry_ok:
  "wf_dict (float_repr sample_env) joiner_entry"
  "verify_foreign_entry sample_env (JObj joiner_entry) (id_network sample_identity) = (True, [])"
proof -
  have wf: "wf_dict (float_repr sample_env) (intent_details small_manifest (JInt 40))" by (rule donate_details_wf) simp
  have ev: "evidence_wf sample_env None" by (simp add: evidence_wf_def)
  note chk = self_entry_checks [OF sample_joiner_ok(1) wf ev joiner_entry_def, unfolded sample_joiner_ok(2)]
  show "wf_dict (float_repr sample_env) joiner_entry" by (rule chk(1))
  have "verify_entries sample_env (id_network sample_identity) 0 (JStr ''GENESIS'') [joiner_entry] = []"
    using chk(2,3) by simp
  from verified_entry_foreign [OF this]
  show "verify_foreign_entry sample_env (JObj joiner_entry) (id_network sample_identity) = (True, [])" by simp
qed

definition sample_agent_conf :: agent_conf where
  "sample_agent_conf =
     \<lparr>ac_env = sample_env, ac_identity = sample_identity, ac_pubkey_hex = ''07'', ac_wire = sample_wire\<lparr>we_decode := (\<lambda>b. Some (dumps_default (JObj joiner_entry)))\<rparr>,
      ac_fless = (\<lambda>_ _. False), ac_ftrunc = (\<lambda>_. None), ac_clock = (\<lambda>n. (n + 2, replicate n CHR ''x'')),
      ac_peer_mid = (\<lambda>_. Inr [9]), ac_exn_text = (\<lambda>_. ''error''), ac_peer_error_text = (\<lambda>_. ''error''),
      ac_parse_error_text = (\<lambda>_. ''error'')\<rparr>"

definition sample_wallet :: wallet where
  "sample_wallet = \<lparr>wl_pubkey = [7], wl_initial_balance_sats = 100, wl_spent_sats = 0\<rparr>"

definition sample_start :: agent where
  "sample_start = new_agent sample_agent_conf sample_wallet \<lparr>content = None, mtime_ns = 0\<rparr> []"

definition sample_agent :: agent where
  "sample_agent = sample_start\<lparr>ag_manifest := Some small_manifest, ag_seedbox := Some (new_node None None)\<rparr>"

lemma sample_conf_simps [simp]:
  "ac_env sample_agent_conf = sample_env" "ac_identity sample_agent_conf = sample_identity"
  "reporter_id sample_agent_conf = id_hash sample_identity"
  by (simp_all add: sample_agent_conf_def reporter_id_def)

lemma sample_agent_conf_ok [simp]: "agent_conf_ok sample_agent_conf"
  by (simp add: agent_conf_ok_def)

lemma sample_verified_start: "verified_start sample_agent_conf sample_wallet \<lparr>content = None, mtime_ns = 0\<rparr> []"
  using peer_rep_open by (auto simp: verified_start_def wallet_ok_def sample_wallet_def)

lemma sample_start_state: "agent_state sample_agent_conf sample_start [] (\<lambda>_. [])"
proof -
  obtain f inst where o: "open_log 2 \<lparr>content = None, mtime_ns = 0\<rparr> = (f, inst)"
    by (cases "open_log 2 \<lparr>content = None, mtime_ns = 0\<rparr>")
  have h: "file_holds sample_env f []" using o by (auto simp: open_log_def file_holds_def append_text_def log_text_def)
  have "cache_ok sample_env f inst" using o by (auto simp: cache_ok_def open_log_def)
  then have "log_state_ok sample_env (id_network sample_identity) f inst []"
    using h verified_iff [OF h] by (simp add: log_state_ok_def)
  moreover have "fst (ac_clock sample_agent_conf 0) = 2" by (simp add: sample_agent_conf_def)
  then have start: "ag_file sample_start = f" "ag_inst sample_start = inst" "ag_wallet sample_start = sample_wallet"
    "ag_peer_log sample_start = open_peer_log [] (id_network sample_identity) (Some (id_hash sample_identity))"
    "ag_state_cache sample_start = None"
    by (simp_all add: sample_start_def new_agent_def o)
  moreover have "wallet_ok sample_wallet" by (simp add: wallet_ok_def sample_wallet_def)
  moreover have "peer_network (open_peer_log [] n w) = n" "own_id (open_peer_log [] n w) = w" for n w
    by (simp_all add: open_peer_log_def)
  ultimately show ?thesis using peer_rep_open by (simp add: agent_state_def memo_ok_def)
qed

lemma sample_agent_state: "agent_state sample_agent_conf sample_agent [] (\<lambda>_. [])"
proof -
  have "ag_state_cache sample_start = None" by (simp add: sample_start_def new_agent_def split: prod.split)
  with sample_start_state show ?thesis by (simp add: agent_state_def sample_agent_def memo_ok_def)
qed

lemma community_state_is_replay_witness:
  "\<exists>A. A = agent_run sample_agent_conf [PullEntry (JObj joiner_entry), LookAtState] sample_start \<and>
     fst (community_state_of sample_agent_conf A) = replay_view sample_agent_conf A"
proof -
  let ?A = "agent_run sample_agent_conf [PullEntry (JObj joiner_entry), LookAtState] sample_start"
  have keep: "ag_file (snd (submit_entry C v A)) = ag_file A" "ag_manifest (snd (submit_entry C v A)) = ag_manifest A"
    for C v A by (auto simp: submit_entry_def split: sum.split)
  have "ag_manifest sample_start = None" by (simp add: sample_start_def new_agent_def split: prod.split)
  then have "ag_file ?A = ag_file sample_start" by (simp add: agent_run_def keep community_state_of_def)
  then have "own_entries sample_agent_conf ?A = []"
    using own_entries_eq [OF sample_start_state] by (simp add: own_entries_def)
  then have none: "no_collision (ac_env sample_agent_conf) (own_entries sample_agent_conf ?A)" by (simp add: no_collision_def)
  have "\<forall>ev \<in> set [PullEntry (JObj joiner_entry), LookAtState]. wf_agent_event sample_agent_conf ev"
    using joiner_entry_ok(1) by simp
  from community_state_is_replay [OF sample_agent_conf_ok sample_verified_start this _ none]
  show ?thesis by (simp add: sample_start_def)
qed

end
