(* ===== verification/Community_Tools_Spec.thy ===== *)
theory Community_Tools_Spec
  imports Community_Agent_Spec
begin

text \<open>
  Properties of the community tools and of the gatekeeper: a tool call that passes its checks
  has the promised effect on the replay, the gatekeeper admits members only but asks nobody's
  name, and the corners where the tools do something else than their descriptions say.
\<close>

section \<open>What an accepted tool call does to the community\<close>

lemma tool_error_key: "tool_error t = JObj d \<Longrightarrow> has_key d ''error''"
  by (auto simp: tool_error_def has_key_def)

lemma reporter_id_nonempty: "agent_conf_ok C \<Longrightarrow> reporter_id C \<noteq> []"
  using sha256_hex_length [of "ac_env C"]
  by (auto simp: agent_conf_ok_def identity_ok_def reporter_id_def binding_hash_def dest: arg_cong [of _ "[]" length])

text \<open>The facts on which the lemmas of this section rest: an agent in order with a view that replays.\<close>

definition ready :: "agent_conf \<Rightarrow> agent \<Rightarrow> network_manifest \<Rightarrow> community_state \<Rightarrow> bool" where
  "ready C A m c = (agent_conf_ok C \<and> agent_inv C A \<and> no_collision (ac_env C) (own_entries C A) \<and>
     ag_manifest A = Some m \<and> replay_view C A = Inr (Some c) \<and> timely C A)"

text \<open>The same without the clock, for statements that give the hypothesis on timestamps in full.\<close>

definition standing :: "agent_conf \<Rightarrow> agent \<Rightarrow> network_manifest \<Rightarrow> community_state \<Rightarrow> bool" where
  "standing C A m c = (agent_conf_ok C \<and> agent_inv C A \<and> no_collision (ac_env C) (own_entries C A) \<and>
     ag_manifest A = Some m \<and> replay_view C A = Inr (Some c))"

lemma standing_ready:
  assumes "standing C A m c" and "fst (all_community_entries C A) = Inr es" and "replayable es"
    and "\<forall>d \<in> set es. is_action d \<longrightarrow> fst (entry_key d) < snd (ac_clock C (ag_tick A))"
  shows "ready C A m c"
  using assms by (simp add: standing_def ready_def timely_def)

text \<open>A tool that looks at the state, checks it, and signs one entry.\<close>

lemma ready_signs:
  assumes "ready C A m c" and "community_state_of C A = (r, A1)"
    and "ag_manifest A2 = ag_manifest A1" "ag_file A2 = ag_file A1" "ag_inst A2 = ag_inst A1"
    "ag_peer_log A2 = ag_peer_log A1" "ag_state_cache A2 = ag_state_cache A1" "ag_tick A2 = ag_tick A1"
    "wallet_ok (ag_wallet A2)"
    and "wf_dict (float_repr (ac_env C)) details" and "action \<in> set community_actions"
  obtains e A' where "sign_event C action details A2 = (Inr e, A')"
    and "replay_view C A' = bindr (apply_entry m c e) (\<lambda>c'. Inr (Some c'))"
    and "jget e ''action'' = JStr action" "jget e ''details'' = JObj details"
    and "jget e ''reporter_id'' = JStr (reporter_id C)"
    and "jget e ''entry_hash'' = JStr (hash_of e)" "hash_of e \<noteq> []"
    and "ag_wallet A' = ag_wallet A2" "ag_manifest A' = Some m" "ag_seedbox A' = ag_seedbox A2"
    and "own_entries C A' = own_entries C A @ [e]"
    and "\<forall>c'. ticking C \<and> no_collision (ac_env C) (own_entries C A') \<and> replay_view C A' = Inr (Some c') \<longrightarrow> ready C A' m c'"
    and "\<exists>ts p. e = build_entry (ac_env C) (ac_identity C) ts (JStr p) (reporter_id C) (reporter_id C) action details 0 None"
proof -
  obtain es M where st: "agent_state C A es M" using assms(1) by (auto simp: ready_def agent_inv_def)
  note rd = assms(1) [unfolded ready_def]
  note at = looked_at [OF _ st _ _ assms(2), of c]
  have 1: "agent_state C A1 es M" "ag_manifest A1 = Some m" "replay_view C A1 = Inr (Some c)" "timely C A1"
    using at rd by simp_all
  have st2: "agent_state C A2 es M"
  proof -
    have "memo_ok C A2 es M = memo_ok C A1 es M" unfolding memo_ok_def by (simp only: assms(3,6,7))
    with 1(1) assms(4-6,9) show ?thesis by (simp add: agent_state_def)
  qed
  have "foreign_entries C A2 = foreign_entries C A1" by (simp add: foreign_entries_def assms(6))
  note cong = view_cong [OF assms(4) this assms(3,8)]
  have conf: "agent_conf_ok C" and man: "ag_manifest A2 = Some m" and view: "replay_view C A2 = Inr (Some c)" and time: "timely C A2"
    using rd 1 cong assms(3) by simp_all
  obtain e A' where e: "sign_event C action details A2 = (Inr e, A')"
    "replay_view C A' = bindr (apply_entry m c e) (\<lambda>c'. Inr (Some c'))"
    "jget e ''action'' = JStr action" "jget e ''details'' = JObj details"
    "jget e ''reporter_id'' = JStr (reporter_id C)" "jget e ''entry_hash'' = JStr (hash_of e)" "hash_of e \<noteq> []"
    "ag_wallet A' = ag_wallet A2" "ag_manifest A' = ag_manifest A2" "ag_seedbox A' = ag_seedbox A2"
    "agent_state C A' (es @ [e]) M" "ticking C \<longrightarrow> timely C A'"
    "\<exists>p. e = build_entry (ac_env C) (ac_identity C) (snd (ac_clock C (ag_tick A2))) (JStr p)
      (reporter_id C) (reporter_id C) action details 0 None"
    by (rule sign_event_replay [OF conf st2 man assms(10,11) view time])
  have own: "own_entries C A' = own_entries C A @ [e]"
    using own_entries_eq [OF e(11)] own_entries_eq [OF st] by simp
  have "ready C A' m c'" if "ticking C" "no_collision (ac_env C) (own_entries C A')" "replay_view C A' = Inr (Some c')" for c'
    using that conf e(9,11,12) man by (auto simp: ready_def agent_inv_def)
  moreover have "\<exists>ts p. e = build_entry (ac_env C) (ac_identity C) ts (JStr p) (reporter_id C) (reporter_id C) action details 0 None"
    using e(13) by blast
  ultimately show thesis using that e(1-10) own man by metis
qed

lemma ready_looks:
  assumes "ready C A m c" and "community_state_of C A = (r, A1)"
  shows "r = Inr (Some c)" "ag_wallet A1 = ag_wallet A" "ag_manifest A1 = Some m" "wallet_ok (ag_wallet A1)"
    "ag_send_nonce A1 = ag_send_nonce A" "replay_view C A1 = Inr (Some c)" "ag_seedbox A1 = ag_seedbox A"
proof -
  obtain es M where st: "agent_state C A es M" using assms(1) by (auto simp: ready_def agent_inv_def)
  note at = looked_at [OF _ st _ _ assms(2), of c]
  show "r = Inr (Some c)" "ag_wallet A1 = ag_wallet A" "ag_manifest A1 = Some m" "wallet_ok (ag_wallet A1)"
    "ag_send_nonce A1 = ag_send_nonce A" "replay_view C A1 = Inr (Some c)" "ag_seedbox A1 = ag_seedbox A"
    using at assms(1) st by (simp_all add: ready_def agent_state_def)
qed

lemma donation_runs:
  assumes "ready C A m c" and "wf_json (float_repr (ac_env C)) amount"
    and "community_donate_and_join C amount A = (Inr (JObj d), A')" and "\<not> has_key d ''error''"
  obtains n e where "positive_int amount = Some n" "donation_refusal C m (Some c) n = None"
    and "replay_view C A' = bindr (apply_entry m c e) (\<lambda>c'. Inr (Some c'))"
    and "jget e ''action'' = JStr ''donation_intent''" "jget e ''details'' = JObj (intent_details m amount)"
    and "jget e ''reporter_id'' = JStr (reporter_id C)"
    and "jget e ''entry_hash'' = JStr (hash_of e)" "hash_of e \<noteq> []"
    and "jget d ''entry_hash'' = jget e ''entry_hash''"
    and "wl_spent_sats (ag_wallet A') = wl_spent_sats (ag_wallet A) + n"
    and "ag_seedbox A' = ag_seedbox A" "own_entries C A' = own_entries C A @ [e]"
    and "\<forall>c'. ticking C \<and> no_collision (ac_env C) (own_entries C A') \<and> replay_view C A' = Inr (Some c') \<longrightarrow> ready C A' m c'"
    and "\<exists>ts p. e = build_entry (ac_env C) (ac_identity C) ts (JStr p) (reporter_id C) (reporter_id C)
      ''donation_intent'' (intent_details m amount) 0 None"
proof -
  obtain r A1 where look: "community_state_of C A = (r, A1)" by (cases "community_state_of C A")
  note at = ready_looks [OF assms(1) look]
  have man: "ag_manifest A = Some m" using assms(1) by (simp add: ready_def)
  obtain n where n: "positive_int amount = Some n" "donation_refusal C m (Some c) n = None"
    "donate_checked C m amount A1 = (Inr (JObj d), A')"
    using assms(3,4) man look at(1) tool_error_key
    by (auto simp: community_donate_and_join_def seq_def tool_error_def has_key_def split: option.splits)
  obtain txid w where send: "wallet_send (ac_env C) (ag_send_nonce A1) (JStr (gatekeeper_address (admission m))) amount
      (ag_wallet A1) = Inr (txid, w)"
    using n(3) assms(4)
    by (auto simp: donate_checked_def seq_def debit_def tool_error_def has_key_def split: sum.splits pyexn.splits)
  let ?A2 = "A1\<lparr>ag_wallet := w, ag_send_nonce := Suc (ag_send_nonce A1)\<rparr>"
  obtain k where k: "int_of amount = Some k" "w = ag_wallet A1\<lparr>wl_spent_sats := wl_spent_sats (ag_wallet A1) + k\<rparr>"
    using wallet_send_Inr [OF send] by metis
  have "k = n" using k(1) n(1) by (simp add: positive_int_def split: if_splits)
  have ok: "wallet_ok w" by (rule wallet_send_ok [OF send at(4)])
  have act: "''donation_intent'' \<in> set community_actions" by (simp add: community_actions_def)
  obtain e A3 where e: "sign_event C ''donation_intent'' (intent_details m amount) ?A2 = (Inr e, A3)"
    "replay_view C A3 = bindr (apply_entry m c e) (\<lambda>c'. Inr (Some c'))"
    "jget e ''action'' = JStr ''donation_intent''" "jget e ''details'' = JObj (intent_details m amount)"
    "jget e ''reporter_id'' = JStr (reporter_id C)" "jget e ''entry_hash'' = JStr (hash_of e)" "hash_of e \<noteq> []"
    "ag_wallet A3 = w" "ag_seedbox A3 = ag_seedbox A1" "own_entries C A3 = own_entries C A @ [e]"
    "\<forall>c'. ticking C \<and> no_collision (ac_env C) (own_entries C A3) \<and> replay_view C A3 = Inr (Some c') \<longrightarrow> ready C A3 m c'"
    "\<exists>ts p. e = build_entry (ac_env C) (ac_identity C) ts (JStr p) (reporter_id C) (reporter_id C)
      ''donation_intent'' (intent_details m amount) 0 None"
    by (rule ready_signs [OF assms(1) look, of ?A2, OF _ _ _ _ _ _ _ donate_details_wf [OF assms(2)] act])
      (simp_all add: ok)
  have "A' = A3" "jget d ''entry_hash'' = jget e ''entry_hash''"
    using n(3) e(1) send by (auto simp: donate_checked_def seq_def debit_def get_or_def)
  with n e k \<open>k = n\<close> at(2,7) show thesis by (intro that [of n e]) simp_all
qed

lemma donation_succeeds:
  assumes "ready C A m c" and "wf_json (float_repr (ac_env C)) amount"
    and "positive_int amount = Some n" and "donation_refusal C m (Some c) n = None"
    and "gatekeeper_address (admission m) \<noteq> []"
    and "wl_initial_balance_sats (ag_wallet A) = 0 \<or> n \<le> wallet_balance (ag_wallet A)"
  obtains d A' where "community_donate_and_join C amount A = (Inr (JObj d), A')" "\<not> has_key d ''error''"
proof -
  obtain r A1 where look: "community_state_of C A = (r, A1)" by (cases "community_state_of C A")
  note at = ready_looks [OF assms(1) look]
  have man: "ag_manifest A = Some m" using assms(1) by (simp add: ready_def)
  have n: "int_of amount = Some n" "1 \<le> n"
    using assms(3) by (auto simp: positive_int_def split: option.splits if_splits)
  have covered: "\<not> (0 < wl_initial_balance_sats (ag_wallet A1) \<and>
      wl_initial_balance_sats (ag_wallet A1) - wl_spent_sats (ag_wallet A1) < n)"
    using assms(6) n(2) at(2) by (auto simp: wallet_balance_def)
  obtain txid w where send: "wallet_send (ac_env C) (ag_send_nonce A1) (JStr (gatekeeper_address (admission m))) amount
      (ag_wallet A1) = Inr (txid, w)"
    using assms(5) n covered by (cases "gatekeeper_address (admission m)") (simp_all add: wallet_send_def Let_def)
  let ?A2 = "A1\<lparr>ag_wallet := w, ag_send_nonce := Suc (ag_send_nonce A1)\<rparr>"
  have ok: "wallet_ok w" by (rule wallet_send_ok [OF send at(4)])
  have act: "''donation_intent'' \<in> set community_actions" by (simp add: community_actions_def)
  obtain e A3 where e: "sign_event C ''donation_intent'' (intent_details m amount) ?A2 = (Inr e, A3)"
    by (rule ready_signs [OF assms(1) look, of ?A2, OF _ _ _ _ _ _ _ donate_details_wf [OF assms(2)] act])
      (simp_all add: ok)
  have "community_donate_and_join C amount A = (Inr (JObj [(''entry_hash'', jget e ''entry_hash''),
      (''amount_sats'', amount), (''network_id_hex'', JStr (network_id_hex m))]), A3)"
    by (simp add: community_donate_and_join_def man assms(3,4) seq_def look at(1) donate_checked_def debit_def send e)
  then show thesis by (rule that) (simp add: has_key_def)
qed

lemma intent_amount: "jget [(''network_id_hex'', v), (''amount_sats'', w)] ''amount_sats'' = w"
  by (simp add: get_or_def)

text \<open>What the replay does with an entry of this network.\<close>

lemma apply_of_network:
  assumes "jget e ''details'' = JObj ((''network_id_hex'', JStr (network_id_hex m)) # ds)"
  defines "d \<equiv> (''network_id_hex'', JStr (network_id_hex m)) # ds"
  shows "jget e ''action'' = JStr ''donation_intent'' \<Longrightarrow> apply_entry m c e =
      (case validate_donation_intent e d m (members c) (donations c) of
         None \<Rightarrow> Inr c
       | Some i \<Rightarrow> Inr (c\<lparr>members := members c @ [di_reporter_id i], donations := donations c @ [i],
                         balance_sats := balance_sats c + di_amount_sats i\<rparr>))"
    and "jget e ''action'' = JStr ''seedbox_purchase_intent'' \<Longrightarrow> apply_entry m c e =
      (case validate_purchase_intent e d m (members c) (balance_sats c) (seedbox_count c) (pending_purchases c) of
         None \<Rightarrow> Inr c
       | Some p \<Rightarrow> Inr (c\<lparr>purchases := purchases c @ [p], balance_sats := balance_sats c - pi_cost_sats p\<rparr>))"
    and "jget e ''action'' = JStr ''seedbox_provisioned'' \<Longrightarrow> apply_entry m c e =
      (case validate_provisioned e d (members c) (purchases c) (provisioned c) of
         None \<Rightarrow> Inr c
       | Some v \<Rightarrow> Inr (c\<lparr>provisioned := provisioned c @ [v], seedbox_count := seedbox_count c + 1\<rparr>))"
proof -
  have d: "details_of e = Inr d" by (simp add: details_of_def assms)
  have i: "jget d ''network_id_hex'' = JStr (network_id_hex m)" by (simp add: d_def get_or_def)
  show "jget e ''action'' = JStr ''donation_intent'' \<Longrightarrow> apply_entry m c e =
      (case validate_donation_intent e d m (members c) (donations c) of
         None \<Rightarrow> Inr c
       | Some i \<Rightarrow> Inr (c\<lparr>members := members c @ [di_reporter_id i], donations := donations c @ [i],
                         balance_sats := balance_sats c + di_amount_sats i\<rparr>))"
    and "jget e ''action'' = JStr ''seedbox_purchase_intent'' \<Longrightarrow> apply_entry m c e =
      (case validate_purchase_intent e d m (members c) (balance_sats c) (seedbox_count c) (pending_purchases c) of
         None \<Rightarrow> Inr c
       | Some p \<Rightarrow> Inr (c\<lparr>purchases := purchases c @ [p], balance_sats := balance_sats c - pi_cost_sats p\<rparr>))"
    and "jget e ''action'' = JStr ''seedbox_provisioned'' \<Longrightarrow> apply_entry m c e =
      (case validate_provisioned e d (members c) (purchases c) (provisioned c) of
         None \<Rightarrow> Inr c
       | Some v \<Rightarrow> Inr (c\<lparr>provisioned := provisioned c @ [v], seedbox_count := seedbox_count c + 1\<rparr>))"
    by (simp_all add: apply_entry_def d i pending_purchases_def)
qed

lemma donation_admitted:
  assumes "ready C A m c" and "1 \<le> n" and "donation_refusal C m (Some c) n = None"
    and "gatekeeper_address (admission m) \<noteq> []"
    and "wl_initial_balance_sats (ag_wallet A) = 0 \<or> n \<le> wallet_balance (ag_wallet A)"
  obtains d A' c' e where "community_donate_and_join C (JInt n) A = (Inr (JObj d), A')" "\<not> has_key d ''error''"
    and "wl_spent_sats (ag_wallet A') = wl_spent_sats (ag_wallet A) + n" "replay_view C A' = Inr (Some c')"
    and "reporter_id C \<notin> set (members c)" "members c' = members c @ [reporter_id C]"
    and "balance_sats c' = balance_sats c + n" "purchases c' = purchases c" "provisioned c' = provisioned c"
    and "seedbox_count c' = seedbox_count c"
    and "ag_seedbox A' = ag_seedbox A" "own_entries C A' = own_entries C A @ [e]"
    and "ticking C \<and> no_collision (ac_env C) (own_entries C A') \<longrightarrow> ready C A' m c'"
    and "\<exists>ts p. e = build_entry (ac_env C) (ac_identity C) ts (JStr p) (reporter_id C) (reporter_id C)
      ''donation_intent'' (intent_details m (JInt n)) 0 None"
    and "jget d ''entry_hash'' = jget e ''entry_hash''" "jget e ''entry_hash'' = JStr (hash_of e)"
proof -
  have wf: "wf_json (float_repr (ac_env C)) (JInt n)" by simp
  have pos: "positive_int (JInt n) = Some n" using assms(2) by (simp add: positive_int_def)
  obtain d A' where run: "community_donate_and_join C (JInt n) A = (Inr (JObj d), A')" "\<not> has_key d ''error''"
    using donation_succeeds [OF assms(1) wf pos assms(3-5)] .
  obtain k e where e: "positive_int (JInt n) = Some k" "replay_view C A' = bindr (apply_entry m c e) (\<lambda>c'. Inr (Some c'))"
    "jget e ''action'' = JStr ''donation_intent''" "jget e ''details'' = JObj (intent_details m (JInt n))"
    "jget e ''reporter_id'' = JStr (reporter_id C)"
    "wl_spent_sats (ag_wallet A') = wl_spent_sats (ag_wallet A) + k"
    "ag_seedbox A' = ag_seedbox A" "own_entries C A' = own_entries C A @ [e]"
    "\<forall>c'. ticking C \<and> no_collision (ac_env C) (own_entries C A') \<and> replay_view C A' = Inr (Some c') \<longrightarrow> ready C A' m c'"
    "\<exists>ts p. e = build_entry (ac_env C) (ac_identity C) ts (JStr p) (reporter_id C) (reporter_id C)
      ''donation_intent'' (intent_details m (JInt n)) 0 None"
    "jget d ''entry_hash'' = jget e ''entry_hash''" "jget e ''entry_hash'' = JStr (hash_of e)"
    by (rule donation_runs [OF assms(1) wf run])
  have k: "k = n" using e(1) pos by simp
  note ap = apply_of_network(1) [OF e(4) [unfolded intent_details_def] e(3)]
  have chk: "reporter_id C \<notin> set (members c)" "reporter_id C \<noteq> []"
    "\<not> n < min_sats (admission m)" "\<not> n > donation_cap m (Some c)"
    using assms(1,3) reporter_id_nonempty by (auto simp: donation_refusal_def ready_def split: if_splits)
  let ?i = "\<lparr>di_reporter_id = reporter_id C, di_amount_sats = n,
    di_timestamp = get_or_blank e ''timestamp'', di_entry_hash = get_or_blank e ''entry_hash''\<rparr>"
  let ?c' = "c\<lparr>members := members c @ [reporter_id C], donations := donations c @ [?i],
    balance_sats := balance_sats c + n\<rparr>"
  have "apply_entry m c e = Inr ?c'"
    using chk unfolding ap
    by (simp add: e(5) validate_donation_intent_def donation_cap_def Let_def intent_amount split: if_splits)
  then show thesis by (intro that [of d A' ?c' e] run) (use e(2,6-12) k chk(1) in simp_all)
qed

text \<open>
  C26: A donation that the agent's own checks let through (at least the minimum, at most the
  running cap, covered by the wallet, not yet a member) succeeds, debits exactly that amount,
  and the replay of the agent's logs admits the agent as its newest member and adds the amount
  to the treasury: the local checks promise no less than the replay grants, as long as the
  agent's clock is ahead of its logs, that is, every community entry it holds, its own and its
  peers', carries an earlier timestamp than the one its clock gives next.  The agent is in
  order, has its manifest, its logs replay, their entries have texts for keys and no two the
  same, and SHA-256 does not collide on its own entries.
\<close>

theorem donation_admits:
  assumes "standing C A m c"
    and "fst (all_community_entries C A) = Inr es" and "replayable es"
    and "\<forall>d \<in> set es. is_action d \<longrightarrow> fst (entry_key d) < snd (ac_clock C (ag_tick A))"
    and "1 \<le> n" and "donation_refusal C m (Some c) n = None"
    and "gatekeeper_address (admission m) \<noteq> []"
    and "wl_initial_balance_sats (ag_wallet A) = 0 \<or> n \<le> wallet_balance (ag_wallet A)"
  shows "\<exists>d A' c'. community_donate_and_join C (JInt n) A = (Inr (JObj d), A') \<and> \<not> has_key d ''error'' \<and>
    wl_spent_sats (ag_wallet A') = wl_spent_sats (ag_wallet A) + n \<and> replay_view C A' = Inr (Some c') \<and>
    reporter_id C \<notin> set (members c) \<and> members c' = members c @ [reporter_id C] \<and>
    balance_sats c' = balance_sats c + n \<and> purchases c' = purchases c \<and> provisioned c' = provisioned c \<and>
    seedbox_count c' = seedbox_count c"
  by (rule donation_admitted [OF standing_ready [OF assms(1-4)] assms(5-8)]) blast

text \<open>
  Without the clock the promise fails.  A peer whose clock is ahead has donated 40 and is the
  only member; a donation of 20 passes the agent's checks, but its earlier timestamp makes it
  the first in the replay, where it lowers the cap to 20: the agent becomes the only member,
  and the peer is no longer one.
\<close>

lemma late_clock_expels_member:
  "(case replay_community (\<lambda>_ _. False) small_manifest [sample_donation (JStr ''2'') ''p'' 40] of
      Inl x \<Rightarrow> False
    | Inr c \<Rightarrow> members c = [''p''] \<and> min_sats (admission small_manifest) \<le> 20 \<and> 20 \<le> donation_cap small_manifest (Some c)) \<and>
   (case replay_community (\<lambda>_ _. False) small_manifest
        [sample_donation (JStr ''1'') ''q'' 20, sample_donation (JStr ''2'') ''p'' 40] of
      Inl x \<Rightarrow> False
    | Inr c \<Rightarrow> members c = [''q''] \<and> balance_sats c = 20)"
  by code_simp

text \<open>An amount given as \<open>true\<close> is debited as one satoshi, but the replay does not count it.\<close>

lemma boolean_donation_lost:
  assumes "ready C A m c"
    and "community_donate_and_join C (JBool b) A = (Inr (JObj d), A')" and "\<not> has_key d ''error''"
  shows "wl_spent_sats (ag_wallet A') = wl_spent_sats (ag_wallet A) + 1 \<and> replay_view C A' = Inr (Some c)"
proof -
  obtain n e where e: "positive_int (JBool b) = Some n" "donation_refusal C m (Some c) n = None"
    "replay_view C A' = bindr (apply_entry m c e) (\<lambda>c'. Inr (Some c'))"
    "jget e ''action'' = JStr ''donation_intent''" "jget e ''details'' = JObj (intent_details m (JBool b))"
    "wl_spent_sats (ag_wallet A') = wl_spent_sats (ag_wallet A) + n"
    by (rule donation_runs [OF assms(1) _ assms(2,3)]) simp
  have "n = 1" using e(1) by (auto simp: positive_int_def split: if_splits)
  moreover have "apply_entry m c e = Inr c"
    unfolding apply_of_network(1) [OF e(5) [unfolded intent_details_def] e(4)]
    by (simp add: validate_donation_intent_def intent_amount split: json.split)
  ultimately show ?thesis using e by simp
qed

section \<open>The gatekeeper\<close>

lemma join_accepted:
  assumes "handle_community_join C p entry A = (Inr (True, t), A')"
  obtains c cs stored src errs dup A1 st where "t = []" "jget entry ''action'' = JStr ''donation_intent''"
    and "jget entry ''reporter_id'' = JStr (c # cs)" "ag_manifest A \<noteq> None"
    and "submit_entry C (JObj entry) A = (Inr (stored, src, errs, dup), A1)" "stored \<or> dup"
    and "community_state_of C A1 = (Inr (Some st), A')" "c # cs \<in> set (members st)"
proof -
  have "jget entry ''action'' = JStr ''donation_intent''" "ag_manifest A \<noteq> None"
    using assms by (auto simp: handle_community_join_def Let_def split: if_splits)
  moreover from this obtain c cs where "jget entry ''reporter_id'' = JStr (c # cs)"
    "seq (submit_entry C (JObj entry)) (\<lambda>(stored, src, errs, duplicate).
       if \<not> stored \<and> \<not> duplicate then ret (False, join_errors C errs)
       else seq (community_state_of C) (\<lambda>st. case st of None \<Rightarrow> ret (False, ''replay_returned_none'')
         | Some state \<Rightarrow> if c # cs \<in> set (members state) then ret (True, [])
             else ret (False, ''rejected_by_community_rules''))) A = (Inr (True, t), A')"
    using assms by (auto simp: handle_community_join_def split: json.splits list.splits)
  moreover from this(2) obtain stored src errs dup A1 where
    "submit_entry C (JObj entry) A = (Inr (stored, src, errs, dup), A1)" "stored \<or> dup"
    "seq (community_state_of C) (\<lambda>st. case st of None \<Rightarrow> ret (False, ''replay_returned_none'')
       | Some state \<Rightarrow> if c # cs \<in> set (members state) then ret (True, [])
           else ret (False, ''rejected_by_community_rules'')) A1 = (Inr (True, t), A')"
    by (auto simp: seq_Inr split: if_splits)
  moreover from this(3) obtain st where "community_state_of C A1 = (Inr (Some st), A')" "c # cs \<in> set (members st)" "t = []"
    by (auto simp: seq_Inr split: if_splits option.splits)
  ultimately show thesis by (intro that)
qed

lemma accept_spec_verified:
  assumes "accept_spec E network own M (JObj e) = ((stored, src, errs, dup), M')" and "stored \<or> dup"
  shows "fst (verify_foreign_entry E (JObj e) network)" "hash_of e \<in> hash_of ` set (M' (source_of e))"
  using assms by (auto simp: accept_spec_def Let_def split: if_splits)

text \<open>A verified entry that is already there is a duplicate and changes nothing.\<close>

lemma accept_spec_again:
  assumes "fst (verify_foreign_entry E (JObj e) network)" and "hash_of e \<in> hash_of ` set (M (source_of e))"
    and "jget e ''reporter_id'' \<noteq> JStr me"
  shows "accept_spec E network (Some me) M (JObj e) = ((False, JStr (source_of e), [], True), M)"
  using assms by (simp add: accept_spec_def Let_def)

lemma accept_spec_foreign:
  assumes "accept_spec E network (Some me) M (JObj e) = ((stored, src, errs, dup), M')" and "stored \<or> dup"
  shows "jget e ''reporter_id'' \<noteq> JStr me"
  using assms by (auto simp: accept_spec_def Let_def split: if_splits)

lemma duplicate_sources:
  assumes "submit_entry C v A = (Inr (False, src, errs, True), A\<lparr>ag_peer_log := pl\<rparr>)"
  shows "list_sources pl = list_sources (ag_peer_log A)"
proof -
  have "accept_entry (ac_env C) (ag_peer_log A) v = Inr ((False, src, errs, True), pl)"
    using assms by (auto simp: submit_entry_def split: sum.splits dest: arg_cong [of _ _ ag_peer_log])
  then show ?thesis
    by (auto simp: accept_entry_def Let_def bindr_Inr_iff list_sources_def dest!: has_entry_files
        split: if_splits prod.splits json.splits)
qed

lemma join_details:
  assumes "agent_conf_ok C" and "agent_inv C A" and "wf_dict (float_repr (ac_env C)) entry"
    and "handle_community_join C p entry A = (Inr (True, t), A')" and "no_collision (ac_env C) (own_entries C A')"
  obtains c cs st es M where "t = []" "jget entry ''action'' = JStr ''donation_intent''"
    and "jget entry ''reporter_id'' = JStr (c # cs)" "c # cs \<in> set (members st)"
    and "fst (verify_foreign_entry (ac_env C) (JObj entry) (id_network (ac_identity C)))"
    and "agent_state C A' es M" "hash_of entry \<in> hash_of ` set (M (source_of entry))"
    and "jget entry ''reporter_id'' \<noteq> JStr (reporter_id C)"
    and "replay_view C A' = Inr (Some st)" "ag_manifest A' \<noteq> None"
proof -
  obtain c cs stored src errs dup A1 st where
    j: "t = []" "jget entry ''action'' = JStr ''donation_intent''" "jget entry ''reporter_id'' = JStr (c # cs)"
    "ag_manifest A \<noteq> None" "submit_entry C (JObj entry) A = (Inr (stored, src, errs, dup), A1)" "stored \<or> dup"
    "community_state_of C A1 = (Inr (Some st), A')" "c # cs \<in> set (members st)"
    using join_accepted [OF assms(4)] .
  obtain es M where s: "agent_state C A es M" using assms(2) by (auto simp: agent_inv_def)
  have wf: "wf_json (float_repr (ac_env C)) (JObj entry)" using assms(3) by simp
  obtain pl M' where sub: "A1 = A\<lparr>ag_peer_log := pl\<rparr>" "agent_state C A1 es M'"
    "accept_spec (ac_env C) (id_network (ac_identity C)) (Some (reporter_id C)) M (JObj entry) = ((stored, src, errs, dup), M')"
    by (rule submit_entry_spec [OF s wf]) (use j(5) that in auto)
  have st: "agent_state C A' es M'" "refreshed (A1\<lparr>ag_state_cache := ag_state_cache A'\<rparr>) A'"
    using community_state_spec [OF sub(2)] j(7) by auto
  have nc: "no_collision (ac_env C) es" using assms(5) own_entries_eq [OF st(1)] by simp
  have view1: "replay_view C A1 = Inr (Some st)"
    using community_state_spec [OF sub(2)] j(7) nc assms(1) by (auto simp: agent_conf_ok_def)
  have "foreign_entries C A' = foreign_entries C A1"
    using agent_entries(2) [OF st(1)] agent_entries(2) [OF sub(2)] st(2)
    by (simp add: refreshed_def list_sources_def)
  then have "replay_view C A' = replay_view C A1"
    by (rule view_cong(1) [rotated]) (use st(2) in \<open>simp_all add: refreshed_def\<close>)
  moreover have "ag_manifest A' \<noteq> None" using st(2) j(4) sub(1) by (simp add: refreshed_def)
  ultimately show thesis
    using view1 by (intro that [OF j(1-3,8) accept_spec_verified(1) [OF sub(3) j(6)] st(1)
        accept_spec_verified(2) [OF sub(3) j(6)] accept_spec_foreign [OF sub(3) j(6)]]) simp_all
qed

text \<open>
  C27: The gatekeeper answers yes only to a donation intent that carries a valid signature of
  its reporter, and only when the replay of all logs, with the entry among them, has that
  reporter as a member.
\<close>

theorem gatekeeper_admits_members:
  assumes "agent_conf_ok C" and "agent_inv C A" and "wf_dict (float_repr (ac_env C)) entry"
    and "handle_community_join C p entry A = (Inr (True, t), A')" and "no_collision (ac_env C) (own_entries C A')"
  shows "t = [] \<and> jget entry ''action'' = JStr ''donation_intent'' \<and>
    fst (verify_foreign_entry (ac_env C) (JObj entry) (id_network (ac_identity C))) \<and>
    (\<exists>who c. jget entry ''reporter_id'' = JStr who \<and> replay_view C A' = Inr (Some c) \<and> who \<in> set (members c))"
  by (rule join_details [OF assms]) simp

text \<open>
  The gatekeeper never asks who ships an entry: once it has accepted one, any other peer
  that sends the same entry is accepted as well, and becomes a verified peer.
\<close>

lemma accepted_entry_admits_any_peer:
  assumes "agent_conf_ok C" and "agent_inv C A" and "wf_dict (float_repr (ac_env C)) entry"
    and "handle_community_join C p entry A = (Inr (True, t), A')" and "no_collision (ac_env C) (own_entries C A')"
    and "ag_seedbox A' = Some n" and "we_decode (ac_wire C) shipped = Some text"
    and "loads (we_float_repr (ac_wire C)) text = Some (JObj entry)"
  shows "\<exists>A2 n2. agent_receive C q (CommunityJoinRequest shipped) A' = (Inr (), A2) \<and>
    ag_seedbox A2 = Some n2 \<and> q \<in> set (nd_verified n2)"
proof -
  obtain c cs st es M where
    j: "jget entry ''action'' = JStr ''donation_intent''" "jget entry ''reporter_id'' = JStr (c # cs)"
    "c # cs \<in> set (members st)"
    "fst (verify_foreign_entry (ac_env C) (JObj entry) (id_network (ac_identity C)))"
    "agent_state C A' es M" "hash_of entry \<in> hash_of ` set (M (source_of entry))"
    "jget entry ''reporter_id'' \<noteq> JStr (reporter_id C)"
    "replay_view C A' = Inr (Some st)" "ag_manifest A' \<noteq> None"
    by (rule join_details [OF assms(1-5)]) (rule that; assumption)
  have wf: "wf_json (float_repr (ac_env C)) (JObj entry)" using assms(3) by simp
  obtain pl where sub: "submit_entry C (JObj entry) A' = (Inr (False, JStr (source_of entry), [], True), A'\<lparr>ag_peer_log := pl\<rparr>)"
    "agent_state C (A'\<lparr>ag_peer_log := pl\<rparr>) es M"
    by (rule submit_entry_spec [OF j(5) wf]) (use accept_spec_again [where M = M, OF j(4,6,7)] that in auto)
  let ?A1 = "A'\<lparr>ag_peer_log := pl\<rparr>"
  obtain r A2 where look: "community_state_of C ?A1 = (r, A2)" by (cases "community_state_of C ?A1")
  have nc: "digest_ok (ac_env C)" "no_collision (ac_env C) es"
    using assms(1,5) own_entries_eq [OF j(5)] by (simp_all add: agent_conf_ok_def)
  have view: "replay_view C ?A1 = replay_view C A'"
  proof -
    have "fst (all_community_entries C ?A1) = fst (all_community_entries C A')"
      using agent_entries(3) [OF sub(2)] agent_entries(3) [OF j(5)] duplicate_sources [OF sub(1)] by simp
    then show ?thesis by (simp add: replay_view_def split: option.split)
  qed
  have "r = Inr (Some st)" using community_state_spec [OF sub(2)] look nc view j(8) by auto
  then have "handle_community_join C q entry A' = (Inr (True, []), A2)"
    using j(1-3,9) sub(1) look by (simp add: handle_community_join_def Let_def seq_def)
  then show ?thesis
    using assms(6-8)
    by (simp add: agent_receive_def on_community_join_request_def join_reply_def Let_def)
qed

section \<open>Buying a seedbox\<close>

lemma ready_signs_looked:
  assumes "ready C A m c" and "community_state_of C A = (r, A1)"
    and "wf_dict (float_repr (ac_env C)) details" and "action \<in> set community_actions"
  obtains e A' where "sign_event C action details A1 = (Inr e, A')"
    and "replay_view C A' = bindr (apply_entry m c e) (\<lambda>c'. Inr (Some c'))"
    and "jget e ''action'' = JStr action" "jget e ''details'' = JObj details"
    and "jget e ''reporter_id'' = JStr (reporter_id C)"
    and "jget e ''entry_hash'' = JStr (hash_of e)" "hash_of e \<noteq> []"
    and "own_entries C A' = own_entries C A @ [e]"
    and "\<forall>c'. ticking C \<and> no_collision (ac_env C) (own_entries C A') \<and> replay_view C A' = Inr (Some c') \<longrightarrow> ready C A' m c'"
    and "\<exists>ts p. e = build_entry (ac_env C) (ac_identity C) ts (JStr p) (reporter_id C) (reporter_id C) action details 0 None"
  by (rule ready_signs [OF assms(1,2) refl refl refl refl refl refl ready_looks(4) [OF assms(1,2)] assms(3,4)])
    (rule that; assumption)

text \<open>The hash that a record takes from an entry of the agent's own.\<close>

lemma own_hash_field: "jget e ''entry_hash'' = JStr h \<Longrightarrow> h \<noteq> [] \<Longrightarrow> get_or_blank e ''entry_hash'' = JStr h"
  using get_or_str [of e "''entry_hash''" h "JStr []"] by (simp add: get_or_blank_def Let_def)

lemma purchase_runs:
  assumes "ready C A m c" and "cost = JInt (seedbox_cost_sats (admission m))" and "v = JNull \<or> v = cost"
    and "seedbox_growth_enabled (admission m)" and "purchase_refusal C m c cost = None"
  obtains d A' c' p e where "seedbox_purchase_propose C v A = (Inr (JObj d), A')" "\<not> has_key d ''error''"
    and "replay_view C A' = Inr (Some c')" "purchases c' = purchases c @ [p]"
    and "jget d ''entry_hash'' = pi_entry_hash p" "pi_reporter_id p = reporter_id C"
    and "balance_sats c' = balance_sats c - seedbox_cost_sats (admission m)" "0 \<le> balance_sats c'"
    and "pending_purchases c' = 1" "members c' = members c" "seedbox_count c' = seedbox_count c"
    and "provisioned c' = provisioned c" "pi_entry_hash p = JStr (hash_of e)" "hash_of e \<noteq> []"
    and "own_entries C A' = own_entries C A @ [e]"
    and "ticking C \<and> no_collision (ac_env C) (own_entries C A') \<longrightarrow> ready C A' m c'"
    and "\<exists>ts p. e = build_entry (ac_env C) (ac_identity C) ts (JStr p) (reporter_id C) (reporter_id C)
      ''seedbox_purchase_intent'' [(''network_id_hex'', JStr (network_id_hex m)), (''cost_sats'', cost)] 0 None"
proof -
  let ?n = "seedbox_cost_sats (admission m)"
  let ?d = "[(''network_id_hex'', JStr (network_id_hex m)), (''cost_sats'', cost)]"
  have chk: "reporter_id C \<in> set (members c)" "?n \<le> balance_sats c" "threshold_active m c" "pending_purchases c = 0"
    using assms(2,5) by (auto simp: purchase_refusal_def positive_int_def split: if_splits option.splits)
  have wf: "wf_dict (float_repr (ac_env C)) ?d" by (simp add: assms(2))
  have act: "''seedbox_purchase_intent'' \<in> set community_actions" by (simp add: community_actions_def)
  have man: "ag_manifest A = Some m" using assms(1) by (simp add: ready_def)
  obtain r A1 where look: "community_state_of C A = (r, A1)" by (cases "community_state_of C A")
  obtain e A' where e: "sign_event C ''seedbox_purchase_intent'' ?d A1 = (Inr e, A')"
    "replay_view C A' = bindr (apply_entry m c e) (\<lambda>c'. Inr (Some c'))"
    "jget e ''action'' = JStr ''seedbox_purchase_intent''" "jget e ''details'' = JObj ?d"
    "jget e ''reporter_id'' = JStr (reporter_id C)" "jget e ''entry_hash'' = JStr (hash_of e)" "hash_of e \<noteq> []"
    "own_entries C A' = own_entries C A @ [e]"
    "\<forall>c'. ticking C \<and> no_collision (ac_env C) (own_entries C A') \<and> replay_view C A' = Inr (Some c') \<longrightarrow> ready C A' m c'"
    "\<exists>ts p. e = build_entry (ac_env C) (ac_identity C) ts (JStr p) (reporter_id C) (reporter_id C)
      ''seedbox_purchase_intent'' ?d 0 None"
    by (rule ready_signs_looked [OF assms(1) look wf act])
  define p where "p = \<lparr>pi_reporter_id = reporter_id C, pi_cost_sats = ?n,
    pi_timestamp = get_or_blank e ''timestamp'', pi_entry_hash = get_or_blank e ''entry_hash''\<rparr>"
  have cost: "jget [(''network_id_hex'', x), (''cost_sats'', y)] ''cost_sats'' = y" for x y by (simp add: get_or_def)
  have "apply_entry m c e = Inr (c\<lparr>purchases := purchases c @ [p], balance_sats := balance_sats c - ?n\<rparr>)"
    using chk assms(2,4) unfolding apply_of_network(2) [OF e(4,3)]
    by (simp add: validate_purchase_intent_def e(5) cost p_def threshold_active_def member_count_def)
  moreover have "(if v = JNull then JInt ?n else v) = cost" using assms(2,3) by auto
  then have "seedbox_purchase_propose C v A = (Inr (JObj [(''entry_hash'', jget e ''entry_hash''), (''cost_sats'', cost),
      (''network_id_hex'', JStr (network_id_hex m))]), A')"
    by (simp add: seedbox_purchase_propose_def man assms(4,5) seq_def look ready_looks(1) [OF assms(1) look] e(1)
        Let_def del: if_split)
  moreover have "jget [(''entry_hash'', x), (''cost_sats'', cost), (''network_id_hex'', y)] ''entry_hash'' = x" for x y
    by (simp add: get_or_def)
  ultimately show thesis
    using chk e(2,6-10) own_hash_field [OF e(6,7)]
    by (intro that [of "[(''entry_hash'', jget e ''entry_hash''), (''cost_sats'', cost), (''network_id_hex'', JStr (network_id_hex m))]"
            A' "c\<lparr>purchases := purchases c @ [p], balance_sats := balance_sats c - ?n\<rparr>" p e])
      (simp_all add: has_key_def p_def pending_purchases_def)
qed

text \<open>
  A purchase that passes the checks of the tool is accepted by the replay: the cost leaves
  the treasury, which stays non-negative, and exactly this purchase is pending.
\<close>

lemma purchase_accepted:
  assumes "ready C A m c" and "cost = JInt (seedbox_cost_sats (admission m))" and "v = JNull \<or> v = cost"
    and "seedbox_growth_enabled (admission m)" and "purchase_refusal C m c cost = None"
  shows "\<exists>d A' c' p. seedbox_purchase_propose C v A = (Inr (JObj d), A') \<and> \<not> has_key d ''error'' \<and>
    replay_view C A' = Inr (Some c') \<and> purchases c' = purchases c @ [p] \<and>
    jget d ''entry_hash'' = pi_entry_hash p \<and> pi_reporter_id p = reporter_id C \<and>
    balance_sats c' = balance_sats c - seedbox_cost_sats (admission m) \<and> 0 \<le> balance_sats c' \<and>
    pending_purchases c' = 1 \<and> members c' = members c \<and> seedbox_count c' = seedbox_count c"
  by (rule purchase_runs [OF assms]) blast

text \<open>
  Provisioning that passes the checks of the tool is accepted by the replay: one more
  seedbox counts and the purchase it names is no longer pending.
\<close>

lemma provisioning_accepted:
  assumes "ready C A m c" and "provision_refusal C c (JStr h) (JStr url) (JStr pk) = None"
  shows "\<exists>d A' c' v. seedbox_provisioned C (JStr h) (JStr url) (JStr pk) A = (Inr (JObj d), A') \<and>
    \<not> has_key d ''error'' \<and> replay_view C A' = Inr (Some c') \<and>
    provisioned c' = provisioned c @ [v] \<and> pe_intent_hash v = h \<and> pe_seedbox_url v = url \<and>
    pe_pubkey_hex v = pk \<and> pe_reporter_id v = reporter_id C \<and>
    seedbox_count c' = seedbox_count c + 1 \<and> pending_purchases c' = pending_purchases c - 1 \<and>
    balance_sats c' = balance_sats c \<and> members c' = members c"
proof -
  let ?d = "[(''network_id_hex'', JStr (network_id_hex m)), (''purchase_intent_hash'', JStr h),
    (''seedbox_url'', JStr url), (''seedbox_pubkey_hex'', JStr pk)]"
  have eq: "py_eq w (JStr h) \<longleftrightarrow> w = JStr h" for w by (cases w) auto
  have chk: "reporter_id C \<in> set (members c)" "h \<noteq> []" "url \<noteq> []" "pk \<noteq> []"
    "list_ex (\<lambda>p. pi_entry_hash p = JStr h) (purchases c)"
    "\<not> list_ex (\<lambda>v. pe_intent_hash v = h) (provisioned c)"
    using assms(2) by (auto simp: provision_refusal_def nonempty_str_def eq split: if_splits)
  have wf: "wf_dict (float_repr (ac_env C)) ?d" by simp
  have act: "''seedbox_provisioned'' \<in> set community_actions" by (simp add: community_actions_def)
  have man: "ag_manifest A = Some m" using assms(1) by (simp add: ready_def)
  obtain r A1 where look: "community_state_of C A = (r, A1)" by (cases "community_state_of C A")
  obtain e A' where e: "sign_event C ''seedbox_provisioned'' ?d A1 = (Inr e, A')"
    "replay_view C A' = bindr (apply_entry m c e) (\<lambda>c'. Inr (Some c'))"
    "jget e ''action'' = JStr ''seedbox_provisioned''" "jget e ''details'' = JObj ?d"
    "jget e ''reporter_id'' = JStr (reporter_id C)" "jget e ''entry_hash'' = JStr (hash_of e)" "hash_of e \<noteq> []"
    by (rule ready_signs_looked [OF assms(1) look wf act])
  define v where "v = \<lparr>pe_reporter_id = reporter_id C, pe_intent_hash = h, pe_seedbox_url = url, pe_pubkey_hex = pk,
    pe_timestamp = get_or_blank e ''timestamp'', pe_entry_hash = get_or_blank e ''entry_hash''\<rparr>"
  have d: "jget ?d ''purchase_intent_hash'' = JStr h" "get_or ?d ''seedbox_url'' w = JStr url"
    "get_or ?d ''seedbox_pubkey_hex'' w = JStr pk" for w by (simp_all add: get_or_def)
  have "apply_entry m c e = Inr (c\<lparr>provisioned := provisioned c @ [v], seedbox_count := seedbox_count c + 1\<rparr>)"
    using chk unfolding apply_of_network(3) [OF e(4,3)]
    by (simp add: validate_provisioned_def e(5) d v_def)
  moreover have "seedbox_provisioned C (JStr h) (JStr url) (JStr pk) A =
      (Inr (JObj [(''entry_hash'', jget e ''entry_hash''), (''purchase_intent_hash'', JStr h),
        (''seedbox_url'', JStr url), (''seedbox_pubkey_hex'', JStr pk), (''network_id_hex'', JStr (network_id_hex m))]), A')"
    by (simp add: seedbox_provisioned_def man assms(2) seq_def look ready_looks(1) [OF assms(1) look] e(1))
  ultimately show ?thesis
    using e(2)
    by (intro exI [of _ A'] exI [of _ v] exI [of _ "c\<lparr>provisioned := provisioned c @ [v], seedbox_count := seedbox_count c + 1\<rparr>"]
          exI [of _ "[(''entry_hash'', jget e ''entry_hash''), (''purchase_intent_hash'', JStr h),
            (''seedbox_url'', JStr url), (''seedbox_pubkey_hex'', JStr pk), (''network_id_hex'', JStr (network_id_hex m))]"] conjI)
      (simp_all add: has_key_def v_def pending_purchases_def)
qed

section \<open>Joining through a peer\<close>

text \<open>
  C28: Joining through a peer debits, signs and admits exactly as a donation does, whatever
  becomes of the message: a known gatekeeper is sent the new entry itself and the tool waits;
  when no verified peer has the given prefix the tool reports an error, but the wallet has
  already paid and the agent is a member in its own replay.  As for a donation, the agent's
  clock is ahead of every community entry in its logs, its own and its peers'.
\<close>

theorem join_via_peer_effect:
  assumes "standing C A m c"
    and "fst (all_community_entries C A) = Inr es" and "replayable es"
    and "\<forall>d \<in> set es. is_action d \<longrightarrow> fst (entry_key d) < snd (ac_clock C (ag_tick A))"
    and "1 \<le> n" and "donation_refusal C m (Some c) n = None"
    and "gatekeeper_address (admission m) \<noteq> []"
    and "wl_initial_balance_sats (ag_wallet A) = 0 \<or> n \<le> wallet_balance (ag_wallet A)"
    and "ag_seedbox A = Some b" and "bytes_fromhex (if even (length q) then lower q else lower q @ ''0'') = Some needle"
  shows "\<exists>c' e A'. snd (community_join_begin C (JStr q) (JInt n) A) = A' \<and>
    wl_spent_sats (ag_wallet A') = wl_spent_sats (ag_wallet A) + n \<and>
    replay_view C A' = Inr (Some c') \<and> members c' = members c @ [reporter_id C] \<and>
    own_entries C A' \<noteq> [] \<and> last (own_entries C A') = e \<and>
    (case find (\<lambda>mid. take (length needle) mid = needle) (nd_verified b) of
       None \<Rightarrow> fst (community_join_begin C (JStr q) (JInt n) A) =
         Inr (JoinDone (tool_error (''peer_not_found:'' @ repr_str (''no peer with mid prefix '' @ py_repr (JStr q)))))
     | Some mid \<Rightarrow> \<exists>b'. fst (community_join_begin C (JStr q) (JInt n) A) =
           Inr (JoinWaiting (length (nd_futures b)) (jget e ''entry_hash'')) \<and> ag_seedbox A' = Some b' \<and>
         nd_sent b' = nd_sent b @ [(mid, CommunityJoinRequest (utf8_encode (dumps_default (JObj e))))])"
proof -
  obtain d A1 c' e where
    don: "community_donate_and_join C (JInt n) A = (Inr (JObj d), A1)" "\<not> has_key d ''error''"
    "wl_spent_sats (ag_wallet A1) = wl_spent_sats (ag_wallet A) + n" "replay_view C A1 = Inr (Some c')"
    "members c' = members c @ [reporter_id C]" "ag_seedbox A1 = ag_seedbox A"
    and log: "own_entries C A1 = own_entries C A @ [e]"
    and hash: "jget d ''entry_hash'' = jget e ''entry_hash''" "jget e ''entry_hash'' = JStr (hash_of e)"
    by (rule donation_admitted [OF standing_ready [OF assms(1-4)] assms(5-8)]) (rule that; assumption)
  obtain us where read: "read_entries (ac_env C) (ag_file A1) = Inr (us @ [e])"
    using log unfolding own_entries_def [of C A1] by (cases "read_entries (ac_env C) (ag_file A1)") auto
  have start: "community_join_begin C (JStr q) (JInt n) A = ship_entry (JStr q) e A1"
    using don(1,2) read hash by (simp add: community_join_begin_def seq_def)
  have known: "known_peers A1 = (Inr (nd_verified b), A1)"
    using don(6) assms(9) by (simp add: known_peers_def with_seedbox_def)
  have view: "replay_view C (A1\<lparr>ag_seedbox := x\<rparr>) = replay_view C A1" "own_entries C (A1\<lparr>ag_seedbox := x\<rparr>) = us @ [e]" for x
    by (simp_all add: replay_view_def all_community_entries_def foreign_entries_def own_entries_def read split: option.split)
  have own: "own_entries C A1 = us @ [e]" by (simp add: own_entries_def read)
  show ?thesis
  proof (cases "find (\<lambda>mid. take (length needle) mid = needle) (nd_verified b)")
    case None
    then have "ship_entry (JStr q) e A1 =
        (Inr (JoinDone (tool_error (''peer_not_found:'' @ repr_str (''no peer with mid prefix '' @ py_repr (JStr q))))), A1)"
      using assms(10) known by (simp add: ship_entry_def resolve_peer_def seq_def)
    with None don own show ?thesis by (simp add: start)
  next
    case (Some mid)
    obtain i b' where req: "request_community_join mid e b = (i, b')" by (cases "request_community_join mid e b")
    have sent: "i = length (nd_futures b)"
      "nd_sent b' = nd_sent b @ [(mid, CommunityJoinRequest (utf8_encode (dumps_default (JObj e))))]"
      using req by (auto simp: request_community_join_def create_future_def send_def)
    have "ship_entry (JStr q) e A1 = (Inr (JoinWaiting i (jget e ''entry_hash'')), A1\<lparr>ag_seedbox := Some b'\<rparr>)"
      using Some assms(9,10) known don(6) req by (simp add: ship_entry_def resolve_peer_def seq_def with_seedbox_def)
    with Some don view sent show ?thesis by (simp add: start)
  qed
qed

section \<open>Corners of the tools\<close>

text \<open>
  The list of recent entries: a limit of zero or less does not give an empty list, since the
  slice is then \<open>ordered[-0:]\<close>, the whole list.
\<close>

lemma mapr_length: "mapr f xs = Inr ys \<Longrightarrow> length ys = length xs"
  by (induction xs arbitrary: ys) (auto simp: bindr_Inr_iff)

lemma insert_entry_length: "insert_entry fless e ds = Inr r \<Longrightarrow> length r = Suc (length ds)"
  by (induction ds arbitrary: r) (auto simp: bindr_Inr_iff split: if_splits)

lemma sort_entries_length: "sort_entries fless es = Inr r \<Longrightarrow> length r = length es"
  by (induction es arbitrary: r) (auto simp: bindr_Inr_iff dest: insert_entry_length)

lemma recent_entries_length:
  assumes "recent_entries C m (JInt n) es = Inr (JList rows)"
    and "filterr (\<lambda>e. in_actions (jget e ''action'')) es = Inr relevant"
  shows "length rows = (if n \<le> 0 then length relevant else min (nat n) (length relevant))"
proof -
  obtain ordered state where "sort_entries (ac_fless C) relevant = Inr ordered"
    "mapr (recent_row (accepted_hashes state)) (last_slice (nat (max 0 n)) ordered) = Inr rows"
    using assms by (auto simp: recent_entries_def bindr_Inr_iff to_int_def split: if_splits)
  then have "length rows = length (last_slice (nat (max 0 n)) ordered)" "length ordered = length relevant"
    by (simp_all add: mapr_length sort_entries_length)
  then show ?thesis by (auto simp: last_slice_def max_def)
qed

text \<open>Reading the heads has nothing to do with the manifest.\<close>

lemma own_head_manifest:
  "own_head C (A\<lparr>ag_manifest := x, ag_manifest_md := y, ag_seedbox := z\<rparr>) =
    apsnd (\<lambda>B. B\<lparr>ag_manifest := x, ag_manifest_md := y, ag_seedbox := z\<rparr>) (own_head C A)"
  by (auto simp: own_head_def split: sum.split)

lemma peer_head_manifest:
  "peer_head C s (A\<lparr>ag_manifest := x, ag_manifest_md := y, ag_seedbox := z\<rparr>) =
    apsnd (\<lambda>B. B\<lparr>ag_manifest := x, ag_manifest_md := y, ag_seedbox := z\<rparr>) (peer_head C s A)"
  by (auto simp: peer_head_def split: sum.split)

lemma peer_heads_manifest:
  "peer_heads C ss (A\<lparr>ag_manifest := x, ag_manifest_md := y, ag_seedbox := z\<rparr>) =
    apsnd (\<lambda>B. B\<lparr>ag_manifest := x, ag_manifest_md := y, ag_seedbox := z\<rparr>) (peer_heads C ss A)"
  by (induction ss arbitrary: A)
    (auto simp: seq_def peer_head_manifest split: sum.split prod.split)

lemma current_heads_manifest:
  "current_heads C (A\<lparr>ag_manifest := x, ag_manifest_md := y, ag_seedbox := z\<rparr>) =
    apsnd (\<lambda>B. B\<lparr>ag_manifest := x, ag_manifest_md := y, ag_seedbox := z\<rparr>) (current_heads C A)"
  by (auto simp: current_heads_def seq_def own_head_manifest peer_heads_manifest split: sum.split prod.split)

lemma adopt_manifest_fields:
  "\<exists>x y z. adopt_manifest C md m A = A\<lparr>ag_manifest := x, ag_manifest_md := y, ag_seedbox := z\<rparr> \<and> x = Some m"
proof -
  have box: "\<exists>z. snd (with_seedbox f B) = B\<lparr>ag_seedbox := z\<rparr>" for f and B :: agent
    by (auto simp: with_seedbox_def split: option.split prod.split) (metis agent.surjective agent.update_convs(9))+
  have add: "\<exists>z. snd (add_peer C pk B) = B\<lparr>ag_seedbox := z\<rparr>" for pk B
    using box [of _ B] by (auto simp: add_peer_def split: sum.split) (metis agent.surjective agent.update_convs(9))
  have "\<exists>z. add_genesis_peers C gs B = B\<lparr>ag_seedbox := z\<rparr>" for gs B
  proof (induction gs arbitrary: B)
    case Nil
    show ?case by (auto intro: exI [of _ "ag_seedbox B"])
  next
    case (Cons g gs)
    obtain z where "snd (add_peer C (gp_pubkey_hex g) B) = B\<lparr>ag_seedbox := z\<rparr>" using add by blast
    with Cons [of B] Cons [of "B\<lparr>ag_seedbox := z\<rparr>"] show ?case by auto
  qed
  then obtain z where z: "add_genesis_peers C (genesis_peers m) A = A\<lparr>ag_seedbox := z\<rparr>" by blast
  obtain z' where "snd (with_seedbox (publish_manifest (ac_wire C) md)
      (A\<lparr>ag_seedbox := z, ag_manifest := Some m, ag_manifest_md := Some md\<rparr>)) =
      A\<lparr>ag_seedbox := z, ag_manifest := Some m, ag_manifest_md := Some md\<rparr>\<lparr>ag_seedbox := z'\<rparr>" using box by blast
  with z show ?thesis
    by (intro exI [of _ "Some m"] exI [of _ "Some md"] exI [of _ "if is_genesis C m then z' else z"])
      (simp add: adopt_manifest_def Let_def)
qed

text \<open>
  The memo is keyed by the heads alone: after another network's manifest is loaded, the state
  of the old network is returned as long as no entry arrives.
\<close>

lemma memo_survives_manifest:
  assumes "agent_state C A es M" and "community_state_of C A = (Inr (Some st), A1)"
    and "load_manifest C md A1 = (Inr m', A2)" and "ag_manifest A1 = Some m" and "network_id m \<noteq> network_id m'"
  shows "fst (community_state_of C A2) = Inr (Some st) \<and> ag_manifest A2 = Some m'"
proof -
  have "A2 = adopt_manifest C md m' A1"
    using assms(3-5) by (auto simp: load_manifest_def split: sum.splits if_splits)
  with adopt_manifest_fields obtain y z where A2: "A2 = A1\<lparr>ag_manifest := Some m', ag_manifest_md := y, ag_seedbox := z\<rparr>"
    by blast
  have st1: "agent_state C A1 es M" and cache: "ag_state_cache A1 = Some (heads_of es M (list_sources (ag_peer_log A)), st)"
    and src: "list_sources (ag_peer_log A1) = list_sources (ag_peer_log A)"
    using community_state_spec [OF assms(1)] assms(2) by (auto simp: refreshed_def list_sources_def)
  obtain A3 where heads: "current_heads C A1 = (Inr (heads_of es M (list_sources (ag_peer_log A1))), A3)" "refreshed A1 A3"
    using current_heads_spec [OF st1] by metis
  have "current_heads C A2 = (Inr (heads_of es M (list_sources (ag_peer_log A))),
      A3\<lparr>ag_manifest := Some m', ag_manifest_md := y, ag_seedbox := z\<rparr>)"
    unfolding A2 current_heads_manifest using heads(1) src by simp
  then show ?thesis
    using cache heads(2) by (simp add: community_state_of_def A2 seq_def refreshed_fields)
qed

section \<open>Instances\<close>

lemma sample_ready: "ready sample_agent_conf sample_agent small_manifest empty_community"
proof -
  note st = sample_agent_state
  have all: "fst (all_community_entries sample_agent_conf sample_agent) = Inr []"
    using agent_entries(3) [OF st] by simp
  have "replay_community f small_manifest [] = Inr empty_community" for f
    by (simp add: replay_community_def)
  moreover have "ag_manifest sample_agent = Some small_manifest" by (simp add: sample_agent_def)
  moreover have "agent_inv sample_agent_conf sample_agent" using st by (auto simp: agent_inv_def)
  ultimately show ?thesis
    using all own_entries_eq [OF st]
    by (simp add: ready_def no_collision_def replay_view_def timely_def replayable_def)
qed

lemma sample_standing:
  "standing sample_agent_conf sample_agent small_manifest empty_community"
  "fst (all_community_entries sample_agent_conf sample_agent) = Inr []" "replayable []"
  "\<forall>d \<in> set []. is_action d \<longrightarrow> fst (entry_key d) < snd (ac_clock sample_agent_conf (ag_tick sample_agent))"
  using sample_ready agent_entries(3) [OF sample_agent_state]
  by (simp_all add: standing_def ready_def replayable_def)

lemma sample_ticking: "ticking sample_agent_conf"
proof -
  have "replicate n CHR ''x'' < replicate (Suc n) CHR ''x''" for n by (induction n) simp_all
  then show ?thesis by (simp add: ticking_def sample_agent_conf_def)
qed

lemma sample_agent_parts:
  "ag_wallet sample_agent = sample_wallet" "ag_seedbox sample_agent = Some (new_node None None)"
  by (simp_all add: sample_agent_def sample_start_def new_agent_def split: prod.split)

lemma donation_admits_witness:
  "\<exists>d A' c'. community_donate_and_join sample_agent_conf (JInt 20) sample_agent = (Inr (JObj d), A') \<and>
     replay_view sample_agent_conf A' = Inr (Some c') \<and> members c' = [id_hash sample_identity] \<and> balance_sats c' = 20"
proof -
  have "donation_refusal sample_agent_conf small_manifest (Some empty_community) 20 = None"
    by (simp add: donation_refusal_def empty_community_def donation_cap_def small_manifest_def effective_bootstrap_cap_sats_def)
  from donation_admits [OF sample_standing _ this] show ?thesis
    by (auto simp: sample_agent_parts sample_wallet_def wallet_balance_def small_manifest_def empty_community_def)
qed

lemma stored_source:
  assumes "submit_entry C v A = (Inr (True, src, errs, dup), A\<lparr>ag_peer_log := p\<rparr>)" and "peer_files (ag_peer_log A) = []"
  shows "\<exists>s. src = JStr s \<and> list_sources p = [s]"
proof -
  have "accept_entry (ac_env C) (ag_peer_log A) v = Inr ((True, src, errs, dup), p)"
    using assms(1) by (auto simp: submit_entry_def split: sum.splits dest: arg_cong [of _ _ ag_peer_log])
  with assms(2) show ?thesis
    by (auto simp: accept_entry_def Let_def bindr_Inr_iff list_sources_def write_entry_def dest!: has_entry_files
        split: if_splits prod.splits json.splits)
qed

definition joiner_community :: community_state where
  "joiner_community =
     \<lparr>members = [id_hash sample_joiner],
      donations = [\<lparr>di_reporter_id = id_hash sample_joiner, di_amount_sats = 40, di_timestamp = JStr ''a'',
        di_entry_hash = JStr (hash_of joiner_entry)\<rparr>],
      purchases = [], provisioned = [], balance_sats = 40, seedbox_count = 1\<rparr>"

lemma joiner_entry_fields:
  "jget joiner_entry ''action'' = JStr ''donation_intent''"
  "jget joiner_entry ''details'' = JObj (intent_details small_manifest (JInt 40))"
  "jget joiner_entry ''timestamp'' = JStr ''a''" "jget joiner_entry ''reporter_id'' = JStr (id_hash sample_joiner)"
  "jget joiner_entry ''entry_hash'' = JStr (hash_of joiner_entry)" "hash_of joiner_entry \<noteq> []"
  by (rule own_entry_fields [OF sample_digest_ok joiner_entry_def])+

lemma joiner_id: "id_hash sample_joiner \<noteq> id_hash sample_identity" "id_hash sample_joiner \<noteq> []"
  by code_simp+

lemma joiner_replay:
  "replay_community f small_manifest [joiner_entry] = Inr joiner_community" "replayable [joiner_entry]"
proof -
  note fl = joiner_entry_fields and get = joiner_entry_fields(1,3-5) [THEN get_or_str]
  have act: "is_action joiner_entry" by (simp add: is_action_def fl(1) community_actions_def)
  have keys: "str_keys joiner_entry" using get by (simp add: str_keys_def sort_key_of_def)
  show r: "replayable [joiner_entry]"
    using act keys by (simp add: replayable_def is_action_def hashable_action_def)
  have "get_or_blank joiner_entry ''timestamp'' = JStr ''a''" by (simp add: get_or_blank_def Let_def get(2))
  then have "apply_entry small_manifest empty_community joiner_entry = Inr joiner_community"
    using own_hash_field [OF fl(5,6)] joiner_id(2)
    unfolding apply_of_network(1) [OF fl(2) [unfolded intent_details_def] fl(1)]
    by (simp add: validate_donation_intent_def fl(4) intent_amount empty_community_def small_manifest_def
        effective_bootstrap_cap_sats_def joiner_community_def)
  with act show "replay_community f small_manifest [joiner_entry] = Inr joiner_community"
    by (simp add: replay_sorted [OF r])
qed

text \<open>The joiner's entry is accepted by the sample agent, which is then still in order.\<close>

lemma sample_gate:
  obtains A where "handle_community_join sample_agent_conf [9] joiner_entry sample_agent = (Inr (True, []), A)"
    and "ready sample_agent_conf A small_manifest joiner_community" and "ag_wallet A = sample_wallet"
    and "ag_seedbox A = Some (new_node None None)" and "own_entries sample_agent_conf A = []"
proof -
  let ?C = sample_agent_conf and ?A = sample_agent
  note st = sample_agent_state
  note fl = joiner_entry_fields
  have wf: "wf_json (float_repr (ac_env ?C)) (JObj joiner_entry)" using joiner_entry_ok(1) by simp
  define M where "M = (\<lambda>_. [])(source_of joiner_entry := [joiner_entry])"
  have spec: "accept_spec sample_env (id_network sample_identity) (Some (id_hash sample_identity)) (\<lambda>_. []) (JObj joiner_entry) =
      ((True, JStr (source_of joiner_entry), [], False), M)"
    using joiner_entry_ok(2) fl(4) joiner_id(1) by (simp add: accept_spec_def M_def Let_def)
  obtain p where sub: "submit_entry ?C (JObj joiner_entry) ?A =
      (Inr (True, JStr (source_of joiner_entry), [], False), ?A\<lparr>ag_peer_log := p\<rparr>)"
    and st1: "agent_state ?C (?A\<lparr>ag_peer_log := p\<rparr>) [] M"
    by (rule submit_entry_spec [OF st wf]) (use spec that in auto)
  have "peer_files (ag_peer_log ?A) = []"
    by (simp add: sample_agent_def sample_start_def new_agent_def open_peer_log_def split: prod.split)
  then have src: "list_sources p = [source_of joiner_entry]" using stored_source [OF sub] by auto
  let ?A1 = "?A\<lparr>ag_peer_log := p\<rparr>"
  have all: "fst (all_community_entries ?C ?A1) = Inr [joiner_entry]"
    using agent_entries(3) [OF st1] src by (simp add: M_def)
  have man: "ag_manifest ?A = Some small_manifest" by (simp add: sample_agent_def)
  have view: "replay_view ?C ?A1 = Inr (Some joiner_community)"
    using all man by (simp add: replay_view_def joiner_replay)
  have "is_action joiner_entry" "fst (entry_key joiner_entry) = ''a''"
    using fl(1) get_or_str [OF fl(3)] by (simp_all add: is_action_def entry_key_def community_actions_def)
  moreover have "ag_tick ?A1 = 1" by (simp add: sample_agent_def sample_start_def new_agent_def split: prod.split)
  ultimately have time: "timely ?C ?A1"
    using all joiner_replay(2) by (simp add: timely_def sample_agent_conf_def less_char_def)
  have own: "own_entries ?C ?A1 = []" by (rule own_entries_eq [OF st1])
  have rd: "ready ?C ?A1 small_manifest joiner_community"
    using st1 own man view time by (auto simp: ready_def no_collision_def agent_inv_def)
  obtain r A2 where look: "community_state_of ?C ?A1 = (r, A2)" by (cases "community_state_of ?C ?A1")
  note at = ready_looks [OF rd look]
  have conf: "digest_ok (ac_env ?C)" by simp
  have nc: "no_collision (ac_env ?C) (own_entries ?C ?A1)" using own by (simp add: no_collision_def)
  note seen = looked_at [OF sample_agent_conf_ok st1 nc view look]
  have own2: "own_entries ?C A2 = []" by (rule own_entries_eq [OF seen(2)])
  have rd2: "ready ?C A2 small_manifest joiner_community"
    using seen time at(3,6) own2 by (auto simp: ready_def no_collision_def agent_inv_def)
  obtain x xs where id: "id_hash sample_joiner = x # xs" using joiner_id(2) by (cases "id_hash sample_joiner") auto
  have "handle_community_join ?C [9] joiner_entry ?A = (Inr (True, []), A2)"
    using at(1) look id
    by (simp add: handle_community_join_def man fl(1,4) seq_def sub Let_def joiner_community_def)
  then show thesis
    using rd2 at(2) seen(8) own2 by (intro that) (simp_all add: sample_agent_parts)
qed

definition joiner_message :: bytes where
  "joiner_message = utf8_encode (dumps_default (JObj joiner_entry))"

lemma gatekeeper_admits_members_witness:
  "fst (verify_foreign_entry sample_env (JObj joiner_entry) (id_network sample_identity)) \<and>
   (\<exists>A c. replay_view sample_agent_conf A = Inr (Some c) \<and> id_hash sample_joiner \<in> set (members c))"
proof -
  obtain A where g: "handle_community_join sample_agent_conf [9] joiner_entry sample_agent = (Inr (True, []), A)"
    and own: "own_entries sample_agent_conf A = []" by (rule sample_gate)
  have "wf_dict (float_repr (ac_env sample_agent_conf)) joiner_entry" using joiner_entry_ok(1) by simp
  moreover have "agent_inv sample_agent_conf sample_agent" using sample_agent_state by (auto simp: agent_inv_def)
  moreover have "no_collision (ac_env sample_agent_conf) (own_entries sample_agent_conf A)"
    by (simp add: own no_collision_def)
  ultimately show ?thesis
    using gatekeeper_admits_members [OF sample_agent_conf_ok _ _ g] joiner_entry_fields(4) by auto
qed

lemma accepted_entry_admits_any_peer_witness:
  "\<exists>A A2 n2. agent_receive sample_agent_conf [5] (CommunityJoinRequest joiner_message) A = (Inr (), A2) \<and>
     ag_seedbox A2 = Some n2 \<and> [5] \<in> set (nd_verified n2)"
proof -
  obtain A where g: "handle_community_join sample_agent_conf [9] joiner_entry sample_agent = (Inr (True, []), A)"
    and own: "own_entries sample_agent_conf A = []" and box: "ag_seedbox A = Some (new_node None None)"
    by (rule sample_gate)
  have wf: "wf_dict (float_repr (ac_env sample_agent_conf)) joiner_entry" using joiner_entry_ok(1) by simp
  have inv: "agent_inv sample_agent_conf sample_agent" using sample_agent_state by (auto simp: agent_inv_def)
  have nc: "no_collision (ac_env sample_agent_conf) (own_entries sample_agent_conf A)"
    by (simp add: own no_collision_def)
  have dec: "we_decode (ac_wire sample_agent_conf) joiner_message = Some (dumps_default (JObj joiner_entry))"
    by (simp add: sample_agent_conf_def)
  have "loads (we_float_repr (ac_wire sample_agent_conf)) (dumps_default (JObj joiner_entry)) = Some (JObj joiner_entry)"
    using joiner_entry_ok(1) by (intro loads_dumps_default) (simp add: sample_agent_conf_def sample_wire_def sample_env_def)
  from accepted_entry_admits_any_peer [OF sample_agent_conf_ok inv wf g nc box dec this, of "[5]"] show ?thesis by metis
qed

text \<open>The sample hash is the beginning of the payload, so it tells the actions apart.\<close>

lemma payload_text:
  "\<exists>r. dumps_canonical (JObj (payload_fields E I k ts (JStr p) who act d sev None)) =
     (CHR ''{'' # quote_str ''action'' @ '':'' @ quote_str act) @ r"
  by (simp add: payload_fields_def dumps_canonical_def Let_def)

lemma sample_payload_start:
  assumes "e = build_entry sample_env I ts (JStr p) (id_hash I) who act x 0 None"
    and "20 \<le> length (utf8_encode (CHR ''{'' # quote_str ''action'' @ '':'' @ quote_str act))"
  shows "take 20 (sha256 sample_env (entry_payload e)) =
    take 20 (utf8_encode (CHR ''{'' # quote_str ''action'' @ '':'' @ quote_str act))"
proof -
  have e: "e = seal_entry sample_env I (payload_fields sample_env I ''self'' ts (JStr p) who act x 0 None)"
    by (simp add: assms(1) build_entry_fields)
  obtain r where r: "dumps_canonical (JObj (payload_fields sample_env I ''self'' ts (JStr p) who act x 0 None)) =
     (CHR ''{'' # quote_str ''action'' @ '':'' @ quote_str act) @ r" using payload_text by blast
  have "entry_payload e = utf8_encode (CHR ''{'' # quote_str ''action'' @ '':'' @ quote_str act) @ utf8_encode r"
    unfolding e seal_payload(1) [OF payload_unsealed(1)] canonical_bytes_def r by (simp add: utf8_encode_def)
  with assms(2) show ?thesis by (simp add: sample_env_def min_def)
qed

lemma sample_payloads_differ:
  assumes "d = build_entry sample_env I ts (JStr p) (id_hash I) who ''donation_intent'' x 0 None"
    and "e = build_entry sample_env I ts' (JStr p') (id_hash I) who' ''seedbox_purchase_intent'' y 0 None"
  shows "sha256 sample_env (entry_payload d) \<noteq> sha256 sample_env (entry_payload e)"
proof -
  have "20 \<le> length (utf8_encode (CHR ''{'' # quote_str ''action'' @ '':'' @ quote_str ''donation_intent''))"
    "20 \<le> length (utf8_encode (CHR ''{'' # quote_str ''action'' @ '':'' @ quote_str ''seedbox_purchase_intent''))"
    "take 20 (utf8_encode (CHR ''{'' # quote_str ''action'' @ '':'' @ quote_str ''donation_intent'')) \<noteq>
     take 20 (utf8_encode (CHR ''{'' # quote_str ''action'' @ '':'' @ quote_str ''seedbox_purchase_intent''))"
    by code_simp+
  with sample_payload_start [OF assms(1)] sample_payload_start [OF assms(2)] show ?thesis by metis
qed

text \<open>Two members, then a purchase.\<close>

lemma sample_members:
  obtains A c e where "ready sample_agent_conf A small_manifest c" and "own_entries sample_agent_conf A = [e]"
    and "members c = [id_hash sample_joiner, id_hash sample_identity]" "balance_sats c = 60"
    and "purchases c = []" "provisioned c = []" "seedbox_count c = 1"
    and "\<exists>ts p. e = build_entry sample_env sample_identity ts (JStr p) (id_hash sample_identity) (id_hash sample_identity)
      ''donation_intent'' (intent_details small_manifest (JInt 20)) 0 None"
proof -
  let ?C = sample_agent_conf
  obtain A where rd: "ready ?C A small_manifest joiner_community" and w: "ag_wallet A = sample_wallet"
    and own: "own_entries ?C A = []" by (rule sample_gate)
  have chk: "donation_refusal ?C small_manifest (Some joiner_community) 20 = None"
    using joiner_id(1) [symmetric]
    by (simp add: donation_refusal_def joiner_community_def donation_cap_def small_manifest_def)
  have pay: "wl_initial_balance_sats (ag_wallet A) = 0 \<or> 20 \<le> wallet_balance (ag_wallet A)"
    by (simp add: w sample_wallet_def wallet_balance_def)
  have addr: "gatekeeper_address (admission small_manifest) \<noteq> []" by (simp add: small_manifest_def)
  obtain d A' c' e where "replay_view ?C A' = Inr (Some c')" "members c' = members joiner_community @ [reporter_id ?C]"
    "balance_sats c' = balance_sats joiner_community + 20" "purchases c' = purchases joiner_community"
    "provisioned c' = provisioned joiner_community" "seedbox_count c' = seedbox_count joiner_community"
    "own_entries ?C A' = own_entries ?C A @ [e]" "ticking ?C \<and> no_collision (ac_env ?C) (own_entries ?C A') \<longrightarrow> ready ?C A' small_manifest c'"
    "\<exists>ts p. e = build_entry (ac_env ?C) (ac_identity ?C) ts (JStr p) (reporter_id ?C) (reporter_id ?C)
      ''donation_intent'' (intent_details small_manifest (JInt 20)) 0 None"
    by (rule donation_admitted [OF rd _ chk addr pay]) simp_all
  then show thesis
    using sample_ticking own by (intro that [of A' c' e]) (simp_all add: joiner_community_def no_collision_def)
qed

text \<open>The checks of a purchase and of the provisioning that follows it.\<close>

lemma sample_purchase_ok:
  assumes "members c = [id_hash sample_joiner, id_hash sample_identity]" "balance_sats c = 60"
    "purchases c = []" "provisioned c = []" "seedbox_count c = 1"
  shows "purchase_refusal sample_agent_conf small_manifest c (JInt (seedbox_cost_sats (admission small_manifest))) = None"
  using assms joiner_id(1)
  by (simp add: purchase_refusal_def positive_int_def small_manifest_def threshold_active_def member_count_def
      seedbox_growth_enabled_def pending_purchases_def)

lemma small_manifest_costs:
  "seedbox_cost_sats (admission small_manifest) = 30" "seedbox_growth_enabled (admission small_manifest)"
  by (simp_all add: small_manifest_def seedbox_growth_enabled_def)

lemma purchase_accepted_witness:
  "\<exists>A d A' c'. seedbox_purchase_propose sample_agent_conf JNull A = (Inr (JObj d), A') \<and>
     replay_view sample_agent_conf A' = Inr (Some c') \<and> balance_sats c' = 30 \<and> pending_purchases c' = 1"
proof -
  let ?C = sample_agent_conf
  obtain A c where rd: "ready ?C A small_manifest c" and c: "members c = [id_hash sample_joiner, id_hash sample_identity]"
    "balance_sats c = 60" "purchases c = []" "provisioned c = []" "seedbox_count c = 1" by (rule sample_members)
  from purchase_accepted [OF rd refl _ small_manifest_costs(2) sample_purchase_ok [OF c], of JNull] c small_manifest_costs(1)
  show ?thesis by auto
qed

lemma provisioning_accepted_witness:
  "\<exists>A h d A' c'. seedbox_provisioned sample_agent_conf (JStr h) (JStr ''u'') (JStr ''k'') A = (Inr (JObj d), A') \<and>
     replay_view sample_agent_conf A' = Inr (Some c') \<and> seedbox_count c' = 2 \<and> pending_purchases c' = 0"
proof -
  let ?C = sample_agent_conf
  obtain A c e1 ts1 p1 where rd: "ready ?C A small_manifest c"
    and c: "members c = [id_hash sample_joiner, id_hash sample_identity]"
      "balance_sats c = 60" "purchases c = []" "provisioned c = []" "seedbox_count c = 1"
    and own: "own_entries ?C A = [e1]"
    and e1: "e1 = build_entry sample_env sample_identity ts1 (JStr p1) (id_hash sample_identity) (id_hash sample_identity)
      ''donation_intent'' (intent_details small_manifest (JInt 20)) 0 None" by (rule sample_members) blast
  obtain A' c' p e2 where
    c': "purchases c' = purchases c @ [p]" "pending_purchases c' = 1" "members c' = members c" "seedbox_count c' = seedbox_count c"
      "provisioned c' = provisioned c" "pi_entry_hash p = JStr (hash_of e2)" "hash_of e2 \<noteq> []"
    and own': "own_entries ?C A' = own_entries ?C A @ [e2]"
    and rd': "ticking ?C \<and> no_collision (ac_env ?C) (own_entries ?C A') \<longrightarrow> ready ?C A' small_manifest c'"
    and e2: "\<exists>ts p. e2 = build_entry (ac_env ?C) (ac_identity ?C) ts (JStr p) (reporter_id ?C) (reporter_id ?C)
      ''seedbox_purchase_intent'' [(''network_id_hex'', JStr (network_id_hex small_manifest)),
        (''cost_sats'', JInt (seedbox_cost_sats (admission small_manifest)))] 0 None"
    by (rule purchase_runs [OF rd refl _ small_manifest_costs(2) sample_purchase_ok [OF c], of JNull]) auto
  obtain ts2 p2 where e2': "e2 = build_entry sample_env sample_identity ts2 (JStr p2) (id_hash sample_identity)
      (id_hash sample_identity) ''seedbox_purchase_intent'' [(''network_id_hex'', JStr (network_id_hex small_manifest)),
        (''cost_sats'', JInt (seedbox_cost_sats (admission small_manifest)))] 0 None"
    using e2 by auto
  have "no_collision (ac_env ?C) (own_entries ?C A')"
    using sample_payloads_differ [OF e1 e2'] by (auto simp: own own' no_collision_def)
  then have ready: "ready ?C A' small_manifest c'" using rd' sample_ticking by simp
  have "provision_refusal ?C c' (JStr (hash_of e2)) (JStr ''u'') (JStr ''k'') = None"
    using c c' by (simp add: provision_refusal_def nonempty_str_def)
  from provisioning_accepted [OF ready this] c c' obtain d B b where
    "seedbox_provisioned ?C (JStr (hash_of e2)) (JStr ''u'') (JStr ''k'') A' = (Inr (JObj d), B)"
    "replay_view ?C B = Inr (Some b)" "seedbox_count b = 2" "pending_purchases b = 0" by auto
  then show ?thesis by (intro exI conjI)
qed

lemma join_via_peer_effect_witness:
  "\<exists>A' c'. snd (community_join_begin sample_agent_conf (JStr ''09'') (JInt 20) sample_agent) = A' \<and>
     fst (community_join_begin sample_agent_conf (JStr ''09'') (JInt 20) sample_agent) =
       Inr (JoinDone (tool_error (''peer_not_found:'' @ repr_str (''no peer with mid prefix '' @ py_repr (JStr ''09''))))) \<and>
     wl_spent_sats (ag_wallet A') = 20 \<and> replay_view sample_agent_conf A' = Inr (Some c') \<and>
     members c' = [id_hash sample_identity]"
proof -
  have chk: "donation_refusal sample_agent_conf small_manifest (Some empty_community) 20 = None"
    by (simp add: donation_refusal_def empty_community_def donation_cap_def small_manifest_def effective_bootstrap_cap_sats_def)
  have addr: "gatekeeper_address (admission small_manifest) \<noteq> []" by (simp add: small_manifest_def)
  have pay: "wl_initial_balance_sats (ag_wallet sample_agent) = 0 \<or> 20 \<le> wallet_balance (ag_wallet sample_agent)"
    by (simp add: sample_agent_parts sample_wallet_def wallet_balance_def)
  have hex: "bytes_fromhex (if even (length ''09'') then lower ''09'' else lower ''09'' @ ''0'') = Some [9]" by code_simp
  have "nd_verified (new_node None None) = []" by (simp add: new_node_def)
  with join_via_peer_effect [OF sample_standing _ chk addr pay sample_agent_parts(2) hex] show ?thesis
    by (auto simp: sample_agent_parts sample_wallet_def empty_community_def)
qed

end
