(* ===== verification/Tool_Specs.thy ===== *)
theory Tool_Specs
  imports Community_Tools
begin

text \<open>
  What an agent tells the language model about its tools (agent/tools.py): for every tool the
  name, the description and the JSON schema of its parameters, next to the parameters of the
  function behind it with their defaults.  The schema and the signature are written down
  separately in the code; the properties compare them.
\<close>

section \<open>Schemas\<close>

record tool_spec =
  ts_name :: string
  ts_description :: string
  ts_parameters :: json
  ts_signature :: "(string \<times> json option) list"

definition param_schema :: "string \<Rightarrow> dict \<Rightarrow> json" where
  "param_schema ty rest = JObj ((''type'', JStr ty) # rest)"

definition object_schema :: "(string \<times> json) list \<Rightarrow> string list option \<Rightarrow> json" where
  "object_schema props required =
     JObj ([(''type'', JStr ''object''), (''properties'', JObj props)] @
       (case required of None \<Rightarrow> [] | Some ks \<Rightarrow> [(''required'', JList (map JStr ks))]) @
       [(''additionalProperties'', JBool False)])"

definition no_parameters :: json where
  "no_parameters = JObj [(''type'', JStr ''object''), (''properties'', JObj []), (''additionalProperties'', JBool False)]"

text \<open>\<open>Tool.spec\<close>, in the shape the chat interface expects, and the three views of the registry.\<close>

definition tool_spec_json :: "tool_spec \<Rightarrow> json" where
  "tool_spec_json t =
     JObj [(''type'', JStr ''function''),
       (''function'', JObj [(''name'', JStr (ts_name t)), (''description'', JStr (ts_description t)),
          (''parameters'', ts_parameters t)])]"

definition registry_specs :: "tool_spec list \<Rightarrow> json list" where
  "registry_specs ts = map tool_spec_json ts"

definition registry_names :: "tool_spec list \<Rightarrow> string list" where
  "registry_names ts = map ts_name ts"

section \<open>The tools\<close>

definition spec_peers_list :: tool_spec where
  "spec_peers_list =
     \<lparr>ts_name = ''peers_list'',
      ts_description = ''List peers verified on any overlay this agent runs.'',
      ts_parameters = no_parameters,
      ts_signature = []\<rparr>"

definition spec_peer_add :: tool_spec where
  "spec_peer_add =
     \<lparr>ts_name = ''peer_add'',
      ts_description = (''Introduce a peer to this agent'' @ [sq] @ ''s IPv8 network at runtime.''),
      ts_parameters = object_schema
        [(''host'', param_schema ''string'' [(''description'', JStr (''remote peer'' @ [sq] @ ''s IPv8 UDP host''))]),
         (''port'', param_schema ''integer'' [(''minimum'', JInt 1), (''maximum'', JInt 65535)]),
         (''pubkey_hex'', param_schema ''string'' [(''description'', JStr (''remote peer'' @ [sq] @ ''s serialised IPv8 public key (74 hex chars)''))])]
        (Some [''host'', ''port'', ''pubkey_hex'']),
      ts_signature = [(''host'', None), (''port'', None), (''pubkey_hex'', None)]\<rparr>"

definition spec_wallet_address :: tool_spec where
  "spec_wallet_address =
     \<lparr>ts_name = ''wallet_address'',
      ts_description = (''Return this agent'' @ [sq] @ ''s testnet receiving address.''),
      ts_parameters = no_parameters,
      ts_signature = []\<rparr>"

definition spec_wallet_balance :: tool_spec where
  "spec_wallet_balance =
     \<lparr>ts_name = ''wallet_balance'',
      ts_description = (''Return this agent'' @ [sq] @ ''s wallet balance in satoshis (refreshes from network).''),
      ts_parameters = no_parameters,
      ts_signature = []\<rparr>"

definition spec_wallet_send :: tool_spec where
  "spec_wallet_send =
     \<lparr>ts_name = ''wallet_send'',
      ts_description = ''Send satoshis to a Bitcoin address. Returns the broadcast txid (hex).'',
      ts_parameters = object_schema
        [(''to_address'', param_schema ''string'' []),
         (''sats'', param_schema ''integer'' [(''minimum'', JInt 1)])]
        (Some [''to_address'', ''sats'']),
      ts_signature = [(''to_address'', None), (''sats'', None)]\<rparr>"

definition spec_community_log_list_recent :: tool_spec where
  "spec_community_log_list_recent =
     \<lparr>ts_name = ''community_log_list_recent'',
      ts_description = (''Return the most-recent merged community-log entries (donation_intent, '' @
      ''seedbox_purchase_intent, seedbox_provisioned) across this agent'' @ [sq] @ ''s chain and every known peer'' @ [sq] @ ''s chain, with an ``accepted`` flag per entry.''),
      ts_parameters = object_schema
        [(''limit'', param_schema ''integer'' [(''minimum'', JInt 1), (''maximum'', JInt 500), (''default'', JInt 50)])] None,
      ts_signature = [(''limit'', Some (JInt 50))]\<rparr>"

definition spec_community_treasury_balance :: tool_spec where
  "spec_community_treasury_balance =
     \<lparr>ts_name = ''community_treasury_balance'',
      ts_description = (''Snapshot of the community'' @ [sq] @ ''s no-treasurer treasury: balance_sats (sum of accepted donations minus accepted '' @
      ''purchases), member_count, seedbox_count, threshold_active, pending_purchases, and '' @
      ''our own membership status.''),
      ts_parameters = no_parameters,
      ts_signature = []\<rparr>"

definition spec_community_member_count :: tool_spec where
  "spec_community_member_count =
     \<lparr>ts_name = ''community_member_count'',
      ts_description = (''Number of admitted members + our own membership status + whether the seedbox-growth '' @
      ''threshold is tripped.''),
      ts_parameters = no_parameters,
      ts_signature = []\<rparr>"

definition spec_community_donate_and_join :: tool_spec where
  "spec_community_donate_and_join =
     \<lparr>ts_name = ''community_donate_and_join'',
      ts_description = (''Compose a signed donation_intent entry for ``amount_sats`` and append it to our '' @
      ''community log. Replay-validation rules (min_sats, bootstrap_cap, running-average '' @
      ''cap, no double-join) are pre-checked locally; on success the entry propagates to '' @
      ''peers and admits us when they replay.''),
      ts_parameters = object_schema
        [(''amount_sats'', param_schema ''integer'' [(''minimum'', JInt 1), (''description'', JStr ''satoshis to donate; must be in [min_sats, running_avg_cap]'')])]
        (Some [''amount_sats'']),
      ts_signature = [(''amount_sats'', None)]\<rparr>"

definition spec_seedbox_purchase_propose :: tool_spec where
  "spec_seedbox_purchase_propose =
     \<lparr>ts_name = ''seedbox_purchase_propose'',
      ts_description = (''Sign + append a seedbox_purchase_intent entry. First-comer wins on race; replay '' @
      ''rejects intents when threshold is not tripped or treasury can'' @ [sq] @ ''t cover the cost. ``cost_sats`` defaults to the manifest'' @ [sq] @ ''s declared price.''),
      ts_parameters = object_schema
        [(''cost_sats'', param_schema ''integer'' [(''minimum'', JInt 1), (''description'', JStr ''satoshis to spend; must match manifest.seedbox_cost_sats exactly'')])] None,
      ts_signature = [(''cost_sats'', Some (JNull))]\<rparr>"

definition spec_seedbox_provisioned :: tool_spec where
  "spec_seedbox_provisioned =
     \<lparr>ts_name = ''seedbox_provisioned'',
      ts_description = (''Close a pending seedbox_purchase_intent by signing + appending a '' @
      ''seedbox_provisioned entry. Phase-8 mock provisioning: writing this entry is the '' @
      ''community-visible act of spawning a new seedbox. Replay bumps seedbox_count by 1 on '' @
      ''accept. Use after the cloud-spawn / mock-spawn succeeds.''),
      ts_parameters = object_schema
        [(''purchase_intent_hash'', param_schema ''string'' [(''description'', JStr ''entry_hash of the seedbox_purchase_intent this provision event closes'')]),
         (''seedbox_url'', param_schema ''string'' [(''description'', JStr (''reachable address of the new seedbox (e.g. '' @ [sq] @ ''mock-seedbox-2.delftclaw.test:18769'' @ [sq] @ '')''))]),
         (''seedbox_pubkey_hex'', param_schema ''string'' [(''description'', JStr (''the new seedbox'' @ [sq] @ ''s IPv8 pubkey hex (for future SEARCH-response identity binding)''))])]
        (Some [''purchase_intent_hash'', ''seedbox_url'', ''seedbox_pubkey_hex'']),
      ts_signature = [(''purchase_intent_hash'', None), (''seedbox_url'', None), (''seedbox_pubkey_hex'', None)]\<rparr>"

definition spec_community_join_via_peer :: tool_spec where
  "spec_community_join_via_peer =
     \<lparr>ts_name = ''community_join_via_peer'',
      ts_description = (''Phase-5 end-to-end admission: write a signed donation_intent to our local community '' @
      ''log, ship it to the gatekeeper peer over COMMUNITY_JOIN_REQUEST, and await the '' @
      ''accept/reject response. Use this once an admitted peer is reachable (via peer_add '' @
      ''or the network manifest'' @ [sq] @ ''s genesis peers).''),
      ts_parameters = object_schema
        [(''gatekeeper_mid'', param_schema ''string'' [(''description'', JStr (''hex prefix of the gatekeeper'' @ [sq] @ ''s IPv8 mid''))]),
         (''amount_sats'', param_schema ''integer'' [(''minimum'', JInt 1)]),
         (''timeout_s'', param_schema ''number'' [(''default'', JFloat ''30.0'')])]
        (Some [''gatekeeper_mid'', ''amount_sats'']),
      ts_signature = [(''gatekeeper_mid'', None), (''amount_sats'', None), (''timeout_s'', Some (JFloat ''8.0''))]\<rparr>"

definition spec_overlays_list :: tool_spec where
  "spec_overlays_list =
     \<lparr>ts_name = ''overlays_list'',
      ts_description = (''List compiled overlays loaded locally with full per-message field schemas + handler '' @
      ''text. Read this before calling overlay_invoke.''),
      ts_parameters = no_parameters,
      ts_signature = []\<rparr>"

definition spec_overlay_describe :: tool_spec where
  "spec_overlay_describe =
     \<lparr>ts_name = ''overlay_describe'',
      ts_description = (''Return the canonical markdown spec of a loaded overlay. Use when the structured '' @
      ''handler_text in overlays_list is ambiguous.''),
      ts_parameters = object_schema
        [(''community_id_hex'', param_schema ''string'' [])]
        (Some [''community_id_hex'']),
      ts_signature = [(''community_id_hex'', None)]\<rparr>"

definition spec_overlay_fetch_and_load :: tool_spec where
  "spec_overlay_fetch_and_load =
     \<lparr>ts_name = ''overlay_fetch_and_load'',
      ts_description = ''Ask a peer for an overlay descriptor by md_hash, then compile + register it locally.'',
      ts_parameters = object_schema
        [(''peer_mid'', param_schema ''string'' []),
         (''md_hash_hex'', param_schema ''string'' [(''description'', JStr ''20-byte hash, hex-encoded'')])]
        (Some [''peer_mid'', ''md_hash_hex'']),
      ts_signature = [(''peer_mid'', None), (''md_hash_hex'', None)]\<rparr>"

definition spec_overlay_publish :: tool_spec where
  "spec_overlay_publish =
     \<lparr>ts_name = ''overlay_publish'',
      ts_description = (''Publish (serve + locally load) a markdown overlay descriptor. Returns its md_hash '' @
      ''hex.''),
      ts_parameters = object_schema
        [(''md_text'', param_schema ''string'' [])]
        (Some [''md_text'']),
      ts_signature = [(''md_text'', None)]\<rparr>"

definition spec_agent_inject_manifest :: tool_spec where
  "spec_agent_inject_manifest =
     \<lparr>ts_name = ''agent_inject_manifest'',
      ts_description = (''Parse + cache a network manifest markdown into this agent. Pre-introduces every '' @
      ''genesis peer. Returns network_id and summary; idempotent on network_id.''),
      ts_parameters = object_schema
        [(''md_text'', param_schema ''string'' [])]
        (Some [''md_text'']),
      ts_signature = [(''md_text'', None)]\<rparr>"

definition spec_overlay_invoke :: tool_spec where
  "spec_overlay_invoke =
     \<lparr>ts_name = ''overlay_invoke'',
      ts_description = ''Send a message defined by a compiled overlay to a peer.'',
      ts_parameters = object_schema
        [(''community_id_hex'', param_schema ''string'' []),
         (''message_name'', param_schema ''string'' []),
         (''peer_mid'', param_schema ''string'' []),
         (''fields'', param_schema ''object'' [(''description'', JStr ''field_name -> value (str, int, list, dict)'')])]
        (Some [''community_id_hex'', ''message_name'', ''peer_mid'', ''fields'']),
      ts_signature = [(''community_id_hex'', None), (''message_name'', None), (''peer_mid'', None), (''fields'', None)]\<rparr>"

definition spec_torrent_seed :: tool_spec where
  "spec_torrent_seed =
     \<lparr>ts_name = ''torrent_seed'',
      ts_description = ''Begin seeding a local file. Returns the resulting magnet URI.'',
      ts_parameters = object_schema
        [(''path'', param_schema ''string'' [])]
        (Some [''path'']),
      ts_signature = [(''path'', None)]\<rparr>"

definition spec_torrent_fetch :: tool_spec where
  "spec_torrent_fetch =
     \<lparr>ts_name = ''torrent_fetch'',
      ts_description = ''Download a magnet URI to local disk; returns the saved path.'',
      ts_parameters = object_schema
        [(''magnet_uri'', param_schema ''string'' []),
         (''timeout_s'', param_schema ''number'' [(''default'', JFloat ''600.0'')])]
        (Some [''magnet_uri'']),
      ts_signature = [(''magnet_uri'', None), (''timeout_s'', Some (JFloat ''600.0''))]\<rparr>"

definition spec_content_search_and_fetch :: tool_spec where
  "spec_content_search_and_fetch =
     \<lparr>ts_name = ''content_search_and_fetch'',
      ts_description = (''Paper-demo helper: send SEARCH_REQUEST on content_community if needed, read '' @
      ''response_cache, and fetch the first returned magnet. Use this instead of repeating '' @
      ''SEARCH_REQUEST when response_cache already has a result.''),
      ts_parameters = object_schema
        [(''query'', param_schema ''string'' [(''default'', JStr ''Creative Commons Audio'')]),
         (''timeout_s'', param_schema ''number'' [(''default'', JFloat ''10.0'')])] None,
      ts_signature = [(''query'', Some (JStr ''Creative Commons Audio'')), (''timeout_s'', Some (JFloat ''10.0''))]\<rparr>"

definition spec_torrent_stats :: tool_spec where
  "spec_torrent_stats =
     \<lparr>ts_name = ''torrent_stats'',
      ts_description = ''Snapshot of all currently-known torrents (downloads + seeds).'',
      ts_parameters = no_parameters,
      ts_signature = []\<rparr>"

definition agent_tool_specs :: "tool_spec list" where
  "agent_tool_specs =
     [spec_peers_list, spec_peer_add, spec_wallet_address, spec_wallet_balance, spec_wallet_send, spec_community_log_list_recent, spec_community_treasury_balance, spec_community_member_count, spec_community_donate_and_join, spec_seedbox_purchase_propose, spec_seedbox_provisioned, spec_community_join_via_peer, spec_overlays_list, spec_overlay_describe, spec_overlay_fetch_and_load, spec_overlay_publish, spec_agent_inject_manifest, spec_overlay_invoke, spec_torrent_seed, spec_torrent_fetch, spec_content_search_and_fetch, spec_torrent_stats]"

section \<open>Schema against signature\<close>

definition as_obj :: "json \<Rightarrow> dict" where
  "as_obj v = (case v of JObj d \<Rightarrow> d | _ \<Rightarrow> [])"

definition as_list :: "json \<Rightarrow> json list" where
  "as_list v = (case v of JList vs \<Rightarrow> vs | _ \<Rightarrow> [])"

definition schema_props :: "json \<Rightarrow> dict" where
  "schema_props s = as_obj (jget (as_obj s) ''properties'')"

definition schema_required :: "json \<Rightarrow> json list" where
  "schema_required s = as_list (jget (as_obj s) ''required'')"

definition sig_required :: "(string \<times> json option) list \<Rightarrow> string list" where
  "sig_required ps = map fst (filter (\<lambda>p. snd p = None) ps)"

definition sig_optional :: "(string \<times> json option) list \<Rightarrow> (string \<times> json) list" where
  "sig_optional ps = List.map_filter (\<lambda>(k, d). map_option (\<lambda>v. (k, v)) d) ps"

text \<open>The schema is a closed object with the parameters of the function, and requires those without a default.\<close>

definition schema_fits :: "tool_spec \<Rightarrow> bool" where
  "schema_fits t =
     (jget (as_obj (ts_parameters t)) ''type'' = JStr ''object'' \<and>
      jget (as_obj (ts_parameters t)) ''additionalProperties'' = JBool False \<and>
      map fst (schema_props (ts_parameters t)) = map fst (ts_signature t) \<and>
      schema_required (ts_parameters t) = map JStr (sig_required (ts_signature t)))"

text \<open>The defaults that a schema announces and the function does not have.\<close>

definition default_mismatches :: "tool_spec \<Rightarrow> (string \<times> string \<times> json \<times> json option) list" where
  "default_mismatches t = List.map_filter (\<lambda>(k, d).
     case map_of (as_obj (jget (schema_props (ts_parameters t)) k)) ''default'' of
       None \<Rightarrow> None
     | Some v \<Rightarrow> if d = Some v then None else Some (ts_name t, k, v, d)) (ts_signature t)"

text \<open>
  The schemas the model is shown against the functions behind the tools: they name the same
  parameters, and a call is bound exactly when its arguments have the keys of the schema.
\<close>

lemma specs_fit: "list_all schema_fits agent_tool_specs"
  by code_simp

lemma names_distinct: "distinct (registry_names agent_tool_specs)"
  by code_simp

lemma mismatched_defaults:
  "concat (map default_mismatches agent_tool_specs) =
     [(''community_join_via_peer'', ''timeout_s'', JFloat ''30.0'', Some (JFloat ''8.0''))]"
  by code_simp

text \<open>
  Every tool of an agent has a name of its own and a closed schema that names exactly the
  parameters of its function, in their order, and requires exactly those without a default.
  Of the defaults a schema announces, one is not the function's: the time a join waits.
\<close>

lemma tool_schemas_match:
  "distinct (registry_names agent_tool_specs) \<and> list_all schema_fits agent_tool_specs \<and>
   concat (map default_mismatches agent_tool_specs) =
     [(''community_join_via_peer'', ''timeout_s'', JFloat ''30.0'', Some (JFloat ''8.0''))]"
  using names_distinct specs_fit mismatched_defaults by blast

section \<open>Binding arguments\<close>

text \<open>The modelled tools have the signatures of the list.\<close>

lemma tools_have_signatures:
  "list_all (\<lambda>(name, t). case find (\<lambda>s. ts_name s = name) agent_tool_specs of
       None \<Rightarrow> False
     | Some s \<Rightarrow> tl_required t = sig_required (ts_signature s) \<and> tl_optional t = sig_optional (ts_signature s))
     community_tools"
  by code_simp

definition args_fit :: "tool_spec \<Rightarrow> dict \<Rightarrow> bool" where
  "args_fit s args =
     (set (schema_required (ts_parameters s)) \<subseteq> JStr ` fst ` set args \<and>
      fst ` set args \<subseteq> fst ` set (schema_props (ts_parameters s)))"

lemma signature_names:
  "set (sig_required ps) \<union> fst ` set (sig_optional ps) = fst ` set ps"
  by (induction ps) (auto simp: sig_required_def sig_optional_def List.map_filter_def split: option.splits)

lemma bound_iff_fits:
  assumes "(name, t) \<in> set community_tools" and "find (\<lambda>s. ts_name s = name) agent_tool_specs = Some s"
  shows "(\<exists>d. bind_args t args = Inr d) \<longleftrightarrow> args_fit s args" and "\<not> args_fit s args \<Longrightarrow> bind_args t args = Inl TypeError"
proof -
  have sig: "tl_required t = sig_required (ts_signature s)" "tl_optional t = sig_optional (ts_signature s)"
    using tools_have_signatures assms by (auto simp: list_all_iff)
  have "s \<in> set agent_tool_specs" using assms(2) by (auto simp: find_Some_iff)
  then have "schema_fits s" using specs_fit by (simp add: list_all_iff)
  then have keys: "fst ` set (schema_props (ts_parameters s)) = fst ` set (ts_signature s)"
    "set (schema_required (ts_parameters s)) = JStr ` set (sig_required (ts_signature s))"
    by (auto simp: schema_fits_def simp flip: set_map)
  have "args_fit s args \<longleftrightarrow> list_all (\<lambda>k. has_key args k) (tl_required t) \<and>
      list_all (\<lambda>(k, v). k \<in> set (tl_required t) \<union> fst ` set (tl_optional t)) args"
    unfolding args_fit_def keys sig signature_names
    by (force simp: list_all_iff has_key_def map_of_eq_None_iff)
  then show "(\<exists>d. bind_args t args = Inr d) \<longleftrightarrow> args_fit s args"
    and "\<not> args_fit s args \<Longrightarrow> bind_args t args = Inl TypeError" by (auto simp: bind_args_def)
qed

text \<open>
  A tool call reaches the function behind the tool exactly when its arguments fit the schema:
  all required keys and no unknown one.  Otherwise the call is answered with an error and the
  agent is as it was.
\<close>

lemma dispatch_checks_arguments:
  assumes "(name, t) \<in> set community_tools" and "find (\<lambda>s. ts_name s = name) agent_tool_specs = Some s"
  shows "(args_fit s args \<longrightarrow> dispatch C name args A =
      (case tl_fn t C (merge_dict (tl_optional t) args) A of
         (Inl x, A') \<Rightarrow> (tool_error (ac_exn_text C x), A') | (Inr v, A') \<Rightarrow> (v, A'))) \<and>
    (\<not> args_fit s args \<longrightarrow> dispatch C name args A = (tool_error (ac_exn_text C TypeError), A))"
proof -
  have "distinct (map fst community_tools)" by code_simp
  with assms(1) have t: "map_of community_tools name = Some t" by simp
  have "args_fit s args \<Longrightarrow> bind_args t args = Inr (merge_dict (tl_optional t) args)"
    using bound_iff_fits(1) [OF assms, of args] by (auto simp: bind_args_def split: if_splits)
  then show ?thesis using bound_iff_fits(2) [OF assms, of args] by (auto simp: dispatch_def t seq_def)
qed

lemma dispatch_checks_arguments_witness:
  "dispatch C ''wallet_send'' [(''to_address'', JStr ''x'')] A = (tool_error (ac_exn_text C TypeError), A)"
proof -
  obtain t where t: "(''wallet_send'', t) \<in> set community_tools" "tl_required t = [''to_address'', ''sats'']"
    by (simp add: community_tools_def)
  have s: "find (\<lambda>s. ts_name s = ''wallet_send'') agent_tool_specs = Some spec_wallet_send" by code_simp
  have "schema_required (ts_parameters spec_wallet_send) = [JStr ''to_address'', JStr ''sats'']" by code_simp
  then have "\<not> args_fit spec_wallet_send [(''to_address'', JStr ''x'')]" by (simp add: args_fit_def)
  with dispatch_checks_arguments [OF t(1) s] show ?thesis by blast
qed

end
