(* ===== verification/Overlay_Tools.thy ===== *)
theory Overlay_Tools
  imports Overlay_Registry Community_Tools
begin

text \<open>
  The overlay tools of agent/tools.py: listing and describing loaded overlays, publishing a
  descriptor, fetching one from a peer and loading it, and sending a message of a compiled
  overlay.  They act on the bootstrap community of the agent and on its overlay registry.

  Parameters: the surroundings of the registry, the text of a failed \<open>fromhex\<close>, the
  \<open>response_cache\<close> of a live overlay (\<open>JNull\<close> when there is none), and what building and
  sending a payload raises.  The tools get arguments of the types their schemas announce.
\<close>

record 'o overlay_env =
  oe_surroundings :: "'o surroundings"
  oe_wire :: wire_env
  oe_member :: "'o \<Rightarrow> 'o payload_member"
  oe_hex_error :: "string \<Rightarrow> string"
  oe_responses :: "'o instance_obj \<Rightarrow> json"
  oe_send_fails :: "'o \<Rightarrow> wire list \<Rightarrow> pyexn option"

text \<open>The messages that have left through an overlay: its instance, the peer, the payload class and the values.\<close>

record 'o overlay_state =
  os_node :: node
  os_registry :: "'o registry"
  os_sent :: "('o instance_obj \<times> bytes \<times> 'o \<times> wire list) list"

definition resolve_in :: "string \<Rightarrow> bytes list \<Rightarrow> bytes res" where
  "resolve_in p peers =
     (case bytes_fromhex (if even (length p) then lower p else lower p @ ''0'') of
        None \<Rightarrow> Inl (ValueError [])
      | Some needle \<Rightarrow>
          (case find (\<lambda>mid. take (length needle) mid = needle) peers of
             Some mid \<Rightarrow> Inr mid
           | None \<Rightarrow> Inl (KeyError (''no peer with mid prefix '' @ py_repr (JStr p)))))"

section \<open>Looking at overlays\<close>

definition with_received :: "json \<Rightarrow> json \<Rightarrow> json" where
  "with_received entry received = (case (entry, received) of
     (JObj d, JList (r # rs)) \<Rightarrow> JObj (d @ [(''received'', JList (last_slice 20 (r # rs)))])
   | _ \<Rightarrow> entry)"

definition overlay_row :: "'o overlay_env \<Rightarrow> 'o registry \<Rightarrow> bytes \<Rightarrow> json res" where
  "overlay_row V R cid = (case map_of (rg_compiled R) cid of
     None \<Rightarrow> Inl (KeyError (bytes_hex cid))
   | Some compiled \<Rightarrow>
       (let entry = overlay_to_dict (oe_surroundings V) (oe_member V) compiled
        in Inr (case get_overlay R cid of
             None \<Rightarrow> entry
           | Some inst \<Rightarrow> with_received entry (oe_responses V inst))))"

definition overlays_list :: "'o overlay_env \<Rightarrow> 'o registry \<Rightarrow> json res" where
  "overlays_list V R = bindr (mapr (overlay_row V R) (list_loaded R)) (\<lambda>rows. Inr (JList rows))"

definition describe_max_bytes :: nat where
  "describe_max_bytes = 32 * 1024"

definition overlay_describe :: "'o overlay_env \<Rightarrow> string \<Rightarrow> 'o registry \<Rightarrow> json" where
  "overlay_describe V community_id_hex R = (case bytes_fromhex community_id_hex of
     None \<Rightarrow> tool_error (''bad_hex:'' @ oe_hex_error V community_id_hex)
   | Some cid \<Rightarrow>
       (case map_of (rg_compiled R) cid of
          None \<Rightarrow> tool_error (''overlay_not_loaded:'' @ community_id_hex)
        | Some compiled \<Rightarrow>
            if co_origin compiled = ''python_class'' then tool_error ''no_canonical_md:python_class''
            else
              (let md = co_canonical_md compiled in
               JObj [(''community_id_hex'', JStr community_id_hex),
                     (''md_text'', JStr (we_decode_replace (oe_wire V) (take describe_max_bytes md))),
                     (''truncated'', JBool (length md > describe_max_bytes)),
                     (''size_bytes'', JInt (int (length md)))])))"

section \<open>Publishing\<close>

text \<open>The descriptor is served before it is compiled; a failed load leaves it published.\<close>

definition overlay_publish_begin ::
  "'o overlay_env \<Rightarrow> string \<Rightarrow> 'o overlay_state \<Rightarrow>
     (bytes \<times> ('o instance_obj + (bytes \<times> 'o compiled_overlay comp))) \<times> 'o overlay_state" where
  "overlay_publish_begin V md_text Z =
     (let (h, n) = publish_overlay (oe_wire V) md_text (os_node Z);
          (pending, R) = aload_begin (oe_surroundings V) md_text (os_registry Z)
      in ((h, pending), Z\<lparr>os_node := n, os_registry := R\<rparr>))"

definition overlay_publish_finish ::
  "'o overlay_env \<Rightarrow> bytes \<times> ('o instance_obj + (bytes \<times> 'o compiled_overlay comp)) \<Rightarrow> 'o overlay_state \<Rightarrow>
     json comp \<times> 'o overlay_state" where
  "overlay_publish_finish V hp Z =
     (let (r, R) = aload_resume (oe_surroundings V) (snd hp) (os_registry Z)
      in (bindr r (\<lambda>_. Inr (JStr (bytes_hex (fst hp)))), Z\<lparr>os_registry := R\<rparr>))"

section \<open>Fetching\<close>

text \<open>
  The request goes out; when its future is resolved within ten seconds the text is decoded
  and loaded, otherwise the wait is cancelled.  The reply names the id of the instance.
\<close>

definition overlay_fetch_begin :: "string \<Rightarrow> string \<Rightarrow> 'o overlay_state \<Rightarrow> nat res \<times> 'o overlay_state" where
  "overlay_fetch_begin peer_mid md_hash_hex Z =
     (case resolve_in peer_mid (nd_verified (os_node Z)) of
        Inl x \<Rightarrow> (Inl x, Z)
      | Inr peer \<Rightarrow>
          (case bytes_fromhex md_hash_hex of
             None \<Rightarrow> (Inl (ValueError []), Z)
           | Some h \<Rightarrow>
               (case fetch_overlay peer h (os_node Z) of
                  Inl x \<Rightarrow> (Inl x, Z)
                | Inr (i, n) \<Rightarrow> (Inr i, Z\<lparr>os_node := n\<rparr>))))"

definition overlay_fetch_resume ::
  "'o overlay_env \<Rightarrow> nat \<Rightarrow> 'o overlay_state \<Rightarrow>
     ('o instance_obj + (bytes \<times> 'o compiled_overlay comp)) res \<times> 'o overlay_state" where
  "overlay_fetch_resume V i Z = (case snd (nd_futures (os_node Z) ! i) of
     Some (Fetched body) \<Rightarrow>
       (case we_decode (oe_wire V) body of
          None \<Rightarrow> (Inl (ValueError []), Z)
        | Some md_text \<Rightarrow>
            (let (pending, R) = aload_begin (oe_surroundings V) md_text (os_registry Z)
             in (Inr pending, Z\<lparr>os_registry := R\<rparr>)))
   | _ \<Rightarrow> (Inl OSError, Z\<lparr>os_node := cancel i (os_node Z)\<rparr>))"

text \<open>The id is the attribute of the instance's class.\<close>

definition instance_id_hex :: "'o overlay_env \<Rightarrow> 'o instance_obj \<Rightarrow> string res" where
  "instance_id_hex V inst = (case attr_of (tools (oe_surroundings V)) (io_class inst) ''community_id'' of
     Some (AttrBytes cid) \<Rightarrow> Inr (bytes_hex cid)
   | _ \<Rightarrow> Inl AttributeError)"

definition overlay_fetch_finish ::
  "'o overlay_env \<Rightarrow> 'o instance_obj + (bytes \<times> 'o compiled_overlay comp) \<Rightarrow> 'o overlay_state \<Rightarrow>
     json comp \<times> 'o overlay_state" where
  "overlay_fetch_finish V pending Z =
     (let (r, R) = aload_resume (oe_surroundings V) pending (os_registry Z)
      in (bindr r (\<lambda>inst. case instance_id_hex V inst of
             Inl x \<Rightarrow> Inl (Raised x)
           | Inr h \<Rightarrow> Inr (JObj [(''community_id_hex'', JStr h), (''loaded'', JBool True)])),
          Z\<lparr>os_registry := R\<rparr>))"

section \<open>Sending\<close>

definition is_content_overlay :: "'o compiled_overlay \<Rightarrow> bool" where
  "is_content_overlay compiled = (case co_parsed compiled of
     None \<Rightarrow> False
   | Some parsed \<Rightarrow> map_of (po_identity parsed) ''name'' = Some ''content_community'')"

definition search_response_error :: string where
  "search_response_error =
     ''do_not_send_SEARCH_RESPONSE_manually: content seekers must send '' @
     ''SEARCH_REQUEST; the seedbox handler sends SEARCH_RESPONSE automatically''"

text \<open>The values of the fields go to the payload class by position, in the order of the object.\<close>

definition overlay_invoke ::
  "'o overlay_env \<Rightarrow> string \<Rightarrow> string \<Rightarrow> string \<Rightarrow> dict \<Rightarrow> 'o overlay_state \<Rightarrow> json comp \<times> 'o overlay_state" where
  "overlay_invoke V community_id_hex message_name peer_mid arguments Z =
     (case bytes_fromhex community_id_hex of
        None \<Rightarrow> (Inl (Raised (ValueError [])), Z)
      | Some cid \<Rightarrow>
          (case get_overlay (os_registry Z) cid of
             None \<Rightarrow> (Inr (tool_error (''overlay_not_loaded:'' @ community_id_hex)), Z)
           | Some inst \<Rightarrow>
               (case map_of (rg_compiled (os_registry Z)) cid of
                  None \<Rightarrow> (Inl (Raised (KeyError (bytes_hex cid))), Z)
                | Some compiled \<Rightarrow>
                    (case map_of (co_payload_classes compiled) message_name of
                       None \<Rightarrow> (Inr (tool_error (''unknown_message:'' @ message_name)), Z)
                     | Some cls \<Rightarrow>
                         if is_content_overlay compiled \<and> message_name = ''SEARCH_RESPONSE''
                         then (Inr (tool_error search_response_error), Z)
                         else
                           (let coerced = map (coerce_field_value (msgpack (tools (oe_surroundings V))) \<circ> snd) arguments in
                            case resolve_in peer_mid (nd_verified (os_node Z)) of
                              Inl x \<Rightarrow> (Inl (Raised x), Z)
                            | Inr mid \<Rightarrow>
                                (case oe_send_fails V cls coerced of
                                   Some x \<Rightarrow> (Inl (Raised x), Z)
                                 | None \<Rightarrow> (Inr (JObj [(''sent'', JBool True)]),
                                     Z\<lparr>os_sent := os_sent Z @ [(inst, mid, cls, coerced)]\<rparr>)))))))"

end
