(* ===== verification/Overlay_Tools_Spec.thy ===== *)
theory Overlay_Tools_Spec
  imports Overlay_Tools Overlay_Registry_Spec Seedbox_Node_Spec
begin

text \<open>
  Properties of the overlay tools: what is fetched by an id is loaded under that id, the tools
  agree with the registry, and two places where they do less than their descriptions say.
\<close>

lemma resolve_peer_in:
  "ag_seedbox A = Some n \<Longrightarrow> resolve_peer (JStr p) A = (resolve_in p (nd_verified n), A)"
  by (auto simp: resolve_peer_def resolve_in_def known_peers_def with_seedbox_def seq_def split: option.split)

section \<open>Loading\<close>

lemma finish_load_entries:
  assumes "finish_load S cid result R = (Inr inst, R')"
  obtains compiled where "result = Inr compiled" "co_community_id compiled = cid" "io_class inst = co_class compiled"
    and "map_of (rg_compiled R') cid = Some compiled" "map_of (rg_instances R') cid = Some inst"
  using assms by (auto simp: finish_load_def activate_def Let_def update_conv'
      split: sum.splits if_splits list.splits option.splits)

text \<open>An asynchronous load ends with an instance under the id of the text, whatever ran in between.\<close>

lemma aload_entries:
  assumes "aload_begin S md R = (pending, R1)" and "\<And>i. pending = Inl i \<Longrightarrow> map_of (rg_instances R2) (load_id S md) = Some i"
    and "aload_resume S pending R2 = (Inr inst, R3)"
  shows "map_of (rg_instances R3) (load_id S md) = Some inst"
  using assms
  by (auto simp: aload_begin_def Let_def aload_resume_def split: option.splits prod.splits elim: finish_load_entries)

section \<open>Fetching what was asked for\<close>

text \<open>
  A descriptor fetched by its hash is loaded under exactly that hash: whatever the network
  delivers, when \<open>overlay_fetch_and_load\<close> ends with an instance, this instance is the one the
  registry holds under the id that was asked for, and its class was compiled from a descriptor
  with that id.
\<close>

lemma fetched_overlay_is_the_requested:
  assumes "decoders_agree (oe_wire V)" and "we_sha1 (oe_wire V) = sha1 (tools (oe_surroundings V))"
    and "futures_ok (oe_wire V) (os_node Z)" and "registry_inv R0 (os_registry Z)"
    and "nd_futures (os_node Z) ! i = (OverlayOf h, r)" and "i < length (nd_futures (os_node Z))"
    and "overlay_fetch_resume V i Z = (Inr pending, Z1)"
    and "aload_resume (oe_surroundings V) pending (os_registry Z1) = (Inr inst, R)"
  shows "map_of (rg_instances R) h = Some inst \<and>
    (\<exists>compiled. map_of (rg_compiled R) h = Some compiled \<and> co_community_id compiled = h \<and> co_class compiled = io_class inst)"
proof -
  let ?S = "oe_surroundings V" and ?W = "oe_wire V"
  obtain body md R1 where f: "r = Some (Fetched body)" "we_decode ?W body = Some md"
    "aload_begin ?S md (os_registry Z) = (pending, R1)" "Z1 = Z\<lparr>os_registry := R1\<rparr>"
    using assms(5,7) by (auto simp: overlay_fetch_resume_def split: option.splits outcome.splits prod.splits)
  have "(OverlayOf h, Some (Fetched body)) \<in> set (nd_futures (os_node Z))"
    using assms(5,6) f(1) by (metis nth_mem)
  then have "outcome_ok ?W (OverlayOf h) (Fetched body)" using assms(3) by (auto simp: futures_ok_def)
  then have id: "load_id ?S md = h"
    using assms(1,2) f(2) by (simp add: decoders_agree_def overlay_id_def load_id_def community_id_from_md_def)
  show ?thesis
  proof (cases "map_of (rg_instances (os_registry Z)) h")
    case (Some j)
    then have "pending = Inl j" "R1 = os_registry Z" using f(3) id by (auto simp: aload_begin_def)
    then have R: "inst = j" "R = os_registry Z" using assms(8) f(4) by (auto simp: aload_resume_def)
    have "(h, io_class j) \<in> set (map (\<lambda>(k, i). (k, io_class i)) (rg_instances (os_registry Z)))"
      using map_of_SomeD [OF Some] by force
    then have "(h, io_class j) \<in> set (map (\<lambda>(k, co). (k, co_class co)) (rg_compiled (os_registry Z)))"
      using assms(4) by (simp add: registry_inv_def)
    then obtain co where co: "(h, co) \<in> set (rg_compiled (os_registry Z))" "co_class co = io_class j" by auto
    have "distinct (map fst (rg_compiled (os_registry Z)))"
      using keys_of_compiled [OF assms(4)] assms(4) by (simp add: registry_inv_def)
    then have "map_of (rg_compiled (os_registry Z)) h = Some co" using co(1) by simp
    moreover have "co_community_id co = h" using assms(4) co(1) by (auto simp: registry_inv_def)
    ultimately show ?thesis using Some R co(2) by simp
  next
    case None
    then obtain result where "pending = Inr (h, result)"
      using f(3) id by (auto simp: aload_begin_def Let_def split: prod.splits)
    then show ?thesis using assms(8) f(4) by (auto simp: aload_resume_def elim: finish_load_entries)
  qed
qed

definition sample_overlay_env :: "nat overlay_env" where
  "sample_overlay_env =
     \<lparr>oe_surroundings = sample_surroundings,
      oe_wire = sample_wire\<lparr>we_sha1 := sha1 sample_toolchain, we_decode := (\<lambda>b. Some (sample_descriptor [])),
        we_decode_replace := (\<lambda>b. sample_descriptor [])\<rparr>,
      oe_member = (\<lambda>c. \<lparr>pm_attr_name = [], pm_is_payload = True, pm_same_module = True, pm_msg_id = None,
        pm_format_list = None, pm_names = None, pm_message_name = None, pm_class = c\<rparr>),
      oe_hex_error = (\<lambda>s. []), oe_responses = (\<lambda>i. JNull), oe_send_fails = (\<lambda>c vs. None)\<rparr>"

definition sample_fetched :: "nat overlay_state" where
  "sample_fetched =
     \<lparr>os_node = (new_node None None)\<lparr>nd_futures := [(OverlayOf (load_id sample_surroundings (sample_descriptor [])), Some (Fetched [1]))]\<rparr>,
      os_registry = sample_registry, os_sent = []\<rparr>"

lemma fetched_overlay_is_the_requested_witness:
  "\<exists>Z1 pending inst R h. overlay_fetch_resume sample_overlay_env 0 sample_fetched = (Inr pending, Z1) \<and>
     aload_resume sample_surroundings pending (os_registry Z1) = (Inr inst, R) \<and>
     h = load_id sample_surroundings (sample_descriptor []) \<and> map_of (rg_instances R) h = Some inst"
proof -
  let ?V = sample_overlay_env and ?Z = sample_fetched
  let ?h = "load_id sample_surroundings (sample_descriptor [])"
  have parts: "oe_surroundings ?V = sample_surroundings" "we_sha1 (oe_wire ?V) = sha1 sample_toolchain"
    "we_decode (oe_wire ?V) b = Some (sample_descriptor [])" "we_decode_replace (oe_wire ?V) b = sample_descriptor []" for b
    by (simp_all add: sample_overlay_env_def)
  have agree: "decoders_agree (oe_wire ?V)" by (simp add: decoders_agree_def parts)
  have fut: "nd_futures (os_node ?Z) ! 0 = (OverlayOf ?h, Some (Fetched [1]))" "0 < length (nd_futures (os_node ?Z))"
    by (simp_all add: sample_fetched_def)
  have "overlay_id (oe_wire ?V) (we_decode_replace (oe_wire ?V) [1]) = ?h"
    by (simp add: overlay_id_def parts load_id_def community_id_from_md_def)
  then have ok: "futures_ok (oe_wire ?V) (os_node ?Z)"
    by (simp add: futures_ok_def waiters_ok_def sample_fetched_def new_node_def max_overlay_bytes_def)
  have inv: "registry_inv sample_registry (os_registry ?Z)"
    by (simp add: sample_fetched_def fresh_registry_inv fresh_registry_def)
  obtain inst R where load: "load sample_surroundings (sample_descriptor []) sample_registry = (Inr inst, R)"
    using sample_load by blast
  obtain pending R1 where begins: "aload_begin sample_surroundings (sample_descriptor []) sample_registry = (pending, R1)"
    by (cases "aload_begin sample_surroundings (sample_descriptor []) sample_registry")
  have fetch: "overlay_fetch_resume ?V 0 ?Z = (Inr pending, ?Z\<lparr>os_registry := R1\<rparr>)"
    using begins fut(1) by (simp add: overlay_fetch_resume_def parts sample_fetched_def)
  have resume: "aload_resume sample_surroundings pending (os_registry (?Z\<lparr>os_registry := R1\<rparr>)) = (Inr inst, R)"
    using load begins by (auto simp: load_def aload_begin_def Let_def aload_resume_def split: option.splits prod.splits)
  have same: "we_sha1 (oe_wire ?V) = sha1 (tools (oe_surroundings ?V))" by (simp add: parts)
  from fetched_overlay_is_the_requested [OF agree same ok inv fut fetch, unfolded parts, OF resume] fetch resume
  show ?thesis by blast
qed

section \<open>Field names\<close>

text \<open>
  \<open>overlay_invoke\<close> does not look at the names of the fields it is given: two calls whose
  field values come in the same order are the same call, whatever the values are called, so
  a model that lists the fields in another order than the descriptor sends them swapped.
\<close>

lemma invoke_ignores_field_names:
  "map snd d = map snd e \<Longrightarrow> overlay_invoke V cid m p d Z = overlay_invoke V cid m p e Z"
proof -
  assume "map snd d = map snd e"
  then have "map (f \<circ> snd) d = map (f \<circ> snd) e" for f :: "json \<Rightarrow> wire" by (simp flip: map_map)
  then show ?thesis by (simp only: overlay_invoke_def)
qed

text \<open>A descriptor that cannot be loaded stays published.\<close>

lemma failed_publish_stays:
  assumes "overlay_publish_begin V md Z = (hp, Z1)" and "overlay_publish_finish V hp Z1 = (r, Z2)"
  shows "map_of (nd_published (os_node Z2)) (overlay_id (oe_wire V) md) = Some md"
  using assms
  by (auto simp: overlay_publish_begin_def overlay_publish_finish_def publish_overlay_def Let_def update_conv'
      split: prod.splits)

end
