(* ===== verification/Agent_Loop.thy ===== *)
theory Agent_Loop
  imports Json
begin

text \<open>
  The tool-call loop of an agent (agent/loop.py): the model is asked with the conversation so
  far, every tool call of its answer is dispatched and answered by a message, and the loop ends
  with the first answer without tool calls or after the allowed number of rounds.

  The model is a parameter: its reply to the \<open>k\<close>-th request may be any value or exception.
  The two clients of the code are given over an HTTP exchange and over a script.  The tools
  act on a state \<open>'s\<close>; the text of a decode error and of a call with arguments that are no
  object are the interpreter's.
\<close>

section \<open>Clients\<close>

type_synonym llm = "nat \<Rightarrow> json list \<Rightarrow> json res"

text \<open>\<open>v[k]\<close> for a text \<open>k\<close>, and \<open>v[0]\<close>.\<close>

definition item :: "json \<Rightarrow> string \<Rightarrow> json res" where
  "item v k = (case v of
     JObj d \<Rightarrow> (case map_of d k of None \<Rightarrow> Inl (KeyError k) | Some w \<Rightarrow> Inr w)
   | _ \<Rightarrow> Inl TypeError)"

definition first_item :: "json \<Rightarrow> json res" where
  "first_item v = (case v of
     JList [] \<Rightarrow> Inl IndexError
   | JList (w # ws) \<Rightarrow> Inr w
   | JStr [] \<Rightarrow> Inl IndexError
   | JStr (c # cs) \<Rightarrow> Inr (JStr [c])
   | JObj d \<Rightarrow> Inl (KeyError ''0'')
   | _ \<Rightarrow> Inl TypeError)"

record chat_client =
  cc_base_url :: string
  cc_model_id :: string
  cc_api_key :: string
  cc_temperature :: string
  cc_extra_body :: dict

definition chat_payload :: "chat_client \<Rightarrow> json list \<Rightarrow> json list \<Rightarrow> int \<Rightarrow> dict" where
  "chat_payload L messages specs max_tokens =
     merge_dict
       [(''model'', JStr (cc_model_id L)), (''messages'', JList messages), (''tools'', JList specs),
        (''temperature'', JFloat (cc_temperature L)), (''max_tokens'', JInt max_tokens)]
       (cc_extra_body L)"

definition chat_url :: "chat_client \<Rightarrow> string" where
  "chat_url L = rev (dropWhile (\<lambda>c. c = CHR ''/'') (rev (cc_base_url L))) @ ''/chat/completions''"

definition chat_headers :: "chat_client \<Rightarrow> (string \<times> string) list" where
  "chat_headers L =
     [(''Content-Type'', ''application/json''), (''Accept'', ''application/json''),
      (''User-Agent'', ''DelftClaw/1.0 (+https://github.com/delftclaw)'')] @
     (if cc_api_key L = [] then [] else [(''Authorization'', ''Bearer '' @ cc_api_key L)])"

text \<open>An exchange answers with a text, or with a status and a body when the server refuses.\<close>

type_synonym exchange = "string \<Rightarrow> (string \<times> string) list \<Rightarrow> string \<Rightarrow> pyexn + (int \<times> string + string)"

definition http_complete ::
  "exchange \<Rightarrow> (string \<Rightarrow> string) \<Rightarrow> chat_client \<Rightarrow> json list \<Rightarrow> json list \<Rightarrow> int \<Rightarrow> json res" where
  "http_complete http fr L messages specs max_tokens =
     bindr (http (chat_url L) (chat_headers L) (dumps_default (JObj (chat_payload L messages specs max_tokens)))) (\<lambda>reply.
     case reply of
       Inl (code, body) \<Rightarrow>
         Inl (RuntimeError (''HTTP '' @ int_str code @ '' from '' @ chat_url L @ '': '' @ take 1000 body))
     | Inr text \<Rightarrow>
         (case loads fr text of
            None \<Rightarrow> Inl JSONDecodeError
          | Some v \<Rightarrow>
              bindr (item v ''choices'') (\<lambda>cs.
              bindr (first_item cs) (\<lambda>c.
              bindr (item c ''message'') (\<lambda>m. Inr (JObj [(''message'', m)]))))))"

text \<open>The scripted client answers its \<open>k\<close>-th call with the \<open>k\<close>-th response.\<close>

definition stub_complete :: "json list \<Rightarrow> llm" where
  "stub_complete responses k messages =
     (if k < length responses then Inr (JObj [(''message'', responses ! k)])
      else Inl (RuntimeError ''StubToolLoopLLM: ran out of scripted responses''))"

section \<open>Tools\<close>

text \<open>The registry as the loop sees it: \<open>specs()\<close>, and \<open>dispatch\<close> with a name that is a text.\<close>

record 's tool_api =
  ta_specs :: "json list"
  ta_names :: "string list"
  ta_dispatch :: "string \<Rightarrow> dict \<Rightarrow> 's \<Rightarrow> json \<times> 's"
  ta_bad_args :: string
  ta_decode_error :: "string \<Rightarrow> string"
  ta_float_repr :: "string \<Rightarrow> string"

definition error_reply :: "string \<Rightarrow> json" where
  "error_reply text = JObj [(''error'', JStr text)]"

text \<open>A name that cannot be hashed raises; arguments that are no object cannot be unpacked.\<close>

definition dispatch_call :: "'s tool_api \<Rightarrow> json \<Rightarrow> json \<Rightarrow> (json, 's) step" where
  "dispatch_call api name args s = (case name of
     JStr n \<Rightarrow>
       (case args of
          JObj d \<Rightarrow> (let (v, s') = ta_dispatch api n d s in (Inr v, s'))
        | _ \<Rightarrow>
            (Inr (error_reply (if n \<in> set (ta_names api) then ta_bad_args api else ''unknown_tool:'' @ n)), s))
   | JList vs \<Rightarrow> (Inl TypeError, s)
   | JObj d \<Rightarrow> (Inl TypeError, s)
   | _ \<Rightarrow> (Inr (error_reply (''unknown_tool:'' @ py_str name)), s))"

section \<open>The loop\<close>

definition system_prompt :: string where
  "system_prompt =
     ''You are an autonomous OpenClaw agent operating on the DelftClaw P2P'' @ [nl] @
     ''network. Your tools let you list peers, pay donations from your Bitcoin'' @ [nl] @
     ''wallet, fetch + compile overlay descriptors over the wire, invoke'' @ [nl] @
     ''protocol messages on those overlays, and download / seed torrents.'' @ [nl, nl] @
     ''When a peer offers an overlay you don'' @ [sq] @ ''t yet understand, fetch its'' @ [nl] @
     ''markdown descriptor with ``overlay_fetch_and_load`` first, then use'' @ [nl] @
     ''``overlay_invoke`` to send messages on the new overlay. The compiler'' @ [nl] @
     ''validates the descriptor against embedded test vectors before'' @ [nl] @
     ''activating it; if compilation fails, fall back to natural-language'' @ [nl] @
     ''messaging.'' @ [nl, nl] @
     ''Be terse. When the user'' @ [sq] @ ''s question is answered, stop and produce a'' @ [nl] @
     ''single short reply.'' @ [nl]"

definition chat_message :: "string \<Rightarrow> string \<Rightarrow> json" where
  "chat_message role text = JObj [(''role'', JStr role), (''content'', JStr text)]"

text \<open>\<open>msg.get("tool_calls") or []\<close>, as the values a \<open>for\<close> loop runs over.\<close>

definition tool_calls :: "dict \<Rightarrow> json list res" where
  "tool_calls msg =
     (let v = jget msg ''tool_calls'' in
      if \<not> truthy v then Inr []
      else (case v of
          JList vs \<Rightarrow> Inr vs
        | JObj d \<Rightarrow> Inr (map (JStr \<circ> fst) d)
        | JStr s \<Rightarrow> Inr (map (\<lambda>c. JStr [c]) s)
        | _ \<Rightarrow> Inl TypeError))"

definition call_arguments :: "'s tool_api \<Rightarrow> dict \<Rightarrow> json" where
  "call_arguments api fn = (case get_or fn ''arguments'' (JStr ''{}'') of
     JStr t \<Rightarrow>
       (case loads (ta_float_repr api) t of
          Some v \<Rightarrow> v
        | None \<Rightarrow> JObj [(''_args_decode_error'', JStr (ta_decode_error api t))])
   | v \<Rightarrow> v)"

definition tool_message :: "json \<Rightarrow> json \<Rightarrow> json \<Rightarrow> json" where
  "tool_message call_id name result =
     JObj [(''role'', JStr ''tool''), (''tool_call_id'', call_id), (''name'', name),
           (''content'', JStr (dumps_default result))]"

text \<open>One call: the id is read after the tool has run.\<close>

definition answer_call :: "'s tool_api \<Rightarrow> json \<Rightarrow> (json, 's) step" where
  "answer_call api call =
     seq (raising (item call ''function'')) (\<lambda>fn.
     seq (raising (item fn ''name'')) (\<lambda>name.
     seq (dispatch_call api name (call_arguments api (as_dict fn))) (\<lambda>result.
     seq (raising (item call ''id'')) (\<lambda>i.
     ret (tool_message i name result)))))"

fun answer_calls :: "'s tool_api \<Rightarrow> json list \<Rightarrow> (json list, 's) step" where
  "answer_calls api [] = ret []"
| "answer_calls api (c # cs) = seq (answer_call api c) (\<lambda>m. seq (answer_calls api cs) (\<lambda>ms. ret (m # ms)))"

definition give_up :: json where
  "give_up = JStr ''(tool loop hit max_iterations without final text)''"

definition final_text :: "dict \<Rightarrow> json" where
  "final_text msg = (let v = jget msg ''content'' in if truthy v then v else JStr [])"

text \<open>\<open>k\<close> requests have been made and \<open>n\<close> may follow.\<close>

fun loop_rounds :: "'s tool_api \<Rightarrow> llm \<Rightarrow> nat \<Rightarrow> nat \<Rightarrow> json list \<Rightarrow> (json, 's) step" where
  "loop_rounds api llm k 0 messages = ret give_up"
| "loop_rounds api llm k (Suc n) messages =
     seq (raising (bindr (llm k messages) (\<lambda>r. item r ''message''))) (\<lambda>msg.
       case msg of
         JObj d \<Rightarrow>
           seq (raising (tool_calls d)) (\<lambda>calls.
             if calls = [] then ret (final_text d)
             else seq (answer_calls api calls) (\<lambda>answers.
               loop_rounds api llm (Suc k) n (messages @ msg # answers)))
       | _ \<Rightarrow> raise AttributeError)"

definition run_tool_loop :: "'s tool_api \<Rightarrow> llm \<Rightarrow> string \<Rightarrow> string \<Rightarrow> int \<Rightarrow> (json, 's) step" where
  "run_tool_loop api llm user_query prompt max_iterations =
     loop_rounds api llm 0 (nat max_iterations) [chat_message ''system'' prompt, chat_message ''user'' user_query]"

end
