(* ===== verification/Agent_Loop_Spec.thy ===== *)
theory Agent_Loop_Spec
  imports Agent_Loop Community_Agent_Spec Tool_Specs
begin

text \<open>
  Properties of the tool-call loop: it asks the model a bounded number of times and only with
  conversations that follow the protocol, and it keeps every invariant that each tool keeps,
  the one of the community agent in particular, whatever the model answers.
\<close>

section \<open>What parsing yields\<close>

text \<open>The text of a float that Python prints reads back as this float.\<close>

definition repr_normal :: "(string \<Rightarrow> string) \<Rightarrow> bool" where
  "repr_normal fr = (\<forall>t. float_text fr (fr t))"

lemma dict_of_pairs_wf:
  assumes "\<forall>p \<in> set ps. wf_json fr (snd p)"
  shows "wf_json fr (JObj (dict_of_pairs ps))"
proof -
  have "dict_ok (foldl (\<lambda>d p. AList.update (fst p) (snd p) d) d ps) \<and>
      wf_members fr (foldl (\<lambda>d p. AList.update (fst p) (snd p) d) d ps)" if "dict_ok d" "wf_members fr d" for d
    using assms that
  proof (induction ps arbitrary: d)
    case (Cons p ps)
    have "wf_members fr (AList.update (fst p) (snd p) d)"
      using Cons.prems by (auto simp: wf_members_iff dest!: set_update_cases)
    with Cons show ?case by (simp add: distinct_update)
  qed simp
  then show ?thesis by (simp add: dict_of_pairs_def)
qed

lemma scan_literal_wf:
  assumes "repr_normal fr" and "scan_literal fr s = Some (v, r)"
  shows "wf_json fr v"
proof -
  have "float_text fr ''NaN''" "float_text fr ''Infinity''" "float_text fr ''-Infinity''"
    by (simp_all add: float_text_def scan_literal_def scan_number_def scan_int_def is_digit_def is_print_def)
  then show ?thesis
    using assms by (auto simp: scan_literal_def scan_number_def Let_def repr_normal_def split: option.splits prod.splits if_splits)
qed

lemma parse_wf:
  assumes "repr_normal fr"
  shows "parse_value fr n s = Some (v, r) \<Longrightarrow> wf_json fr v"
    and "parse_elems fr n s = Some (vs, r) \<Longrightarrow> wf_list fr vs"
    and "parse_members fr n s = Some (d, r) \<Longrightarrow> wf_members fr d"
proof (induction n arbitrary: s v vs d r)
  case (Suc n)
  {
    case 1
    have obj: "wf_json fr (JObj (dict_of_pairs d))" if "parse_members fr n s = Some (d, r)" for s d r
      by (rule dict_of_pairs_wf) (use Suc.IH(3) [OF that] in \<open>simp add: wf_members_iff\<close>)
    with 1 Suc.IH(2) scan_literal_wf [OF assms] show ?case
      by (auto split: list.splits if_splits simp del: wf_json.simps(3)) simp
  next
    case 2
    with Suc show ?case by (auto split: option.splits prod.splits list.splits if_splits)
  next
    case 3
    with Suc show ?case by (auto split: option.splits prod.splits list.splits if_splits)
  }
qed simp_all

lemma loads_wf: "repr_normal fr \<Longrightarrow> loads fr t = Some v \<Longrightarrow> wf_json fr v"
  using parse_wf(1) by (auto simp: loads_def split: option.splits prod.splits if_splits)

section \<open>The conversation\<close>

text \<open>A tool message answers a call: it carries the id of the call and the name of its function.\<close>

definition answers :: "json \<Rightarrow> json \<Rightarrow> bool" where
  "answers call m = (\<exists>f i name v. item call ''function'' = Inr f \<and> item f ''name'' = Inr name \<and>
     item call ''id'' = Inr i \<and> m = tool_message i name v)"

text \<open>A conversation: the two opening messages, then rounds of a message with calls and one answer per call.\<close>

inductive conversation :: "json list \<Rightarrow> bool" where
  opened: "conversation [chat_message ''system'' p, chat_message ''user'' q]"
| round: "conversation ms \<Longrightarrow> tool_calls d = Inr calls \<Longrightarrow> calls \<noteq> [] \<Longrightarrow> list_all2 answers calls as \<Longrightarrow>
    conversation (ms @ JObj d # as)"

lemma answer_call_answers:
  "answer_call api c s = (Inr m, s') \<Longrightarrow> answers c m"
  by (auto simp: answer_call_def seq_Inr answers_def)

lemma answer_calls_answer:
  "answer_calls api cs s = (Inr ms, s') \<Longrightarrow> list_all2 answers cs ms"
  by (induction cs arbitrary: s ms) (auto simp: seq_Inr dest: answer_call_answers)

lemma seq_cong:
  assumes "\<And>x s1. m s = (Inr x, s1) \<Longrightarrow> f x s1 = g x s1"
  shows "seq m f s = seq m g s"
  using assms by (auto simp: seq_def split: prod.split sum.split)

lemma rounds_depend:
  assumes "conversation ms" and "\<forall>k' ms. k \<le> k' \<and> k' < k + n \<and> conversation ms \<longrightarrow> llm k' ms = llm' k' ms"
  shows "loop_rounds api llm k n ms s = loop_rounds api llm' k n ms s"
  using assms
proof (induction n arbitrary: k ms s)
  case (Suc n)
  have "llm k ms = llm' k ms" using Suc.prems by simp
  moreover have "loop_rounds api llm (Suc k) n (ms @ JObj d # as) s1 = loop_rounds api llm' (Suc k) n (ms @ JObj d # as) s1"
    if "tool_calls d = Inr calls" "calls \<noteq> []" "answer_calls api calls s0 = (Inr as, s1)" for d calls as s0 s1
  proof (rule Suc.IH)
    show "conversation (ms @ JObj d # as)"
      by (rule conversation.round [OF Suc.prems(1) that(1,2) answer_calls_answer [OF that(3)]])
    show "\<forall>k' ms. Suc k \<le> k' \<and> k' < Suc k + n \<and> conversation ms \<longrightarrow> llm k' ms = llm' k' ms"
      using Suc.prems(2) by auto
  qed
  ultimately show ?case
    by (auto intro!: seq_cong split: json.split)
qed simp

text \<open>
  C29: A run of the loop depends on the model only through its answers to the first
  \<open>max_iterations\<close> requests, and of these only to conversations that follow the protocol: the
  loop asks at most that often, every message with tool calls is followed by exactly one
  answer per call, in the order of the calls and under their ids, and nothing else is sent.
\<close>

theorem tool_loop_asks:
  assumes "\<forall>k ms. int k < max_iterations \<and> conversation ms \<longrightarrow> llm k ms = llm' k ms"
  shows "run_tool_loop api llm query prompt max_iterations s = run_tool_loop api llm' query prompt max_iterations s"
  unfolding run_tool_loop_def
  by (rule rounds_depend [OF conversation.opened]) (use assms in \<open>auto simp: zless_nat_eq_int_zless\<close>)

section \<open>Invariants of the tools\<close>

text \<open>
  What the loop needs of a set of tools to keep an invariant of their state: every tool keeps
  it, whatever well-formed arguments it gets.
\<close>

locale tool_surface =
  fixes api :: "'s tool_api" and inv :: "'s \<Rightarrow> bool" and usable :: bool
  assumes tool_keeps: "usable \<Longrightarrow> inv s \<Longrightarrow> wf_dict (ta_float_repr api) d \<Longrightarrow> inv (snd (ta_dispatch api name d s))"
begin

lemma dispatch_keeps:
  assumes "usable" and "repr_normal (ta_float_repr api)" and "wf_json (ta_float_repr api) args"
  shows "keeps inv (dispatch_call api name args) (\<lambda>_. True)"
proof -
  have "inv (snd (dispatch_call api name args s))" if "inv s" for s
    using tool_keeps [OF assms(1) that] that assms(3)
    by (auto simp: dispatch_call_def split: json.split prod.split) (metis snd_conv)
  then show ?thesis by (simp add: keeps_def)
qed

lemma arguments_wf:
  assumes "usable" and "repr_normal (ta_float_repr api)" and "wf_json (ta_float_repr api) (JObj f)"
  shows "wf_json (ta_float_repr api) (call_arguments api f)"
proof -
  have "wf_json (ta_float_repr api) (get_or f k (JStr x))" for k x
    using assms(3) by (auto simp: get_or_def wf_members_iff split: option.split dest!: map_of_SomeD)
  from this [of "''arguments''" "''{}''"] show ?thesis
    using loads_wf [OF assms(2)] by (auto simp: call_arguments_def split: json.split option.split)
qed

lemma item_wf: "wf_json (ta_float_repr api) v \<Longrightarrow> item v k = Inr w \<Longrightarrow> wf_json (ta_float_repr api) w"
  by (auto simp: item_def wf_members_iff split: json.splits option.splits dest!: map_of_SomeD)

lemma item_dict: "item f k = Inr w \<Longrightarrow> f = JObj (as_dict f)"
  by (auto simp: item_def split: json.splits)

lemma answer_keeps:
  assumes "usable" and "repr_normal (ta_float_repr api)" and "wf_json (ta_float_repr api) c"
  shows "keeps inv (answer_call api c) (\<lambda>_. True)"
proof -
  have args: "wf_json (ta_float_repr api) (call_arguments api (as_dict f))"
    if "item c ''function'' = Inr f" "item f ''name'' = Inr n" for f n
    by (rule arguments_wf [OF assms(1,2)]) (use item_wf [OF assms(3) that(1)] item_dict [OF that(2)] in simp)
  show ?thesis
    unfolding keeps_def
  proof (intro allI impI conjI TrueI)
    fix s assume "inv s"
    show "inv (snd (answer_call api c s))"
    proof (cases "item c ''function''")
      case (Inr f)
      note f = this
      show ?thesis
      proof (cases "item f ''name''")
        case (Inr n)
        obtain r s1 where d: "dispatch_call api n (call_arguments api (as_dict f)) s = (r, s1)"
          by (cases "dispatch_call api n (call_arguments api (as_dict f)) s")
        have "inv s1" using dispatch_keeps [OF assms(1,2) args [OF f Inr], of n] \<open>inv s\<close> d by (auto simp: keeps_def dest: spec [of _ s])
        then show ?thesis
          by (simp add: answer_call_def seq_def f Inr d split: sum.split)
      qed (simp add: answer_call_def seq_def f \<open>inv s\<close>)
    qed (simp add: answer_call_def seq_def \<open>inv s\<close>)
  qed
qed

lemma answers_keep:
  "usable \<Longrightarrow> repr_normal (ta_float_repr api) \<Longrightarrow> wf_list (ta_float_repr api) cs \<Longrightarrow> keeps inv (answer_calls api cs) (\<lambda>_. True)"
proof (induction cs)
  case (Cons c cs)
  then have "keeps inv (answer_calls api cs) (\<lambda>_. True)" by simp
  then have "keeps inv (seq (answer_calls api cs) (\<lambda>ms. ret (m # ms))) (\<lambda>_. True)" for m
    by (rule keeps_seq) (simp add: keeps_ret)
  with Cons.prems show ?case by (simp add: keeps_seq [OF answer_keeps])
qed (simp add: keeps_ret)

lemma calls_wf:
  "wf_json (ta_float_repr api) (JObj d) \<Longrightarrow> tool_calls d = Inr cs \<Longrightarrow> wf_list (ta_float_repr api) cs"
  by (auto simp: tool_calls_def Let_def get_or_def wf_list_iff wf_members_iff
      split: json.splits option.splits if_splits dest!: map_of_SomeD)

lemma rounds_keep:
  assumes "usable" and "repr_normal (ta_float_repr api)" and "\<forall>k ms r. llm k ms = Inr r \<longrightarrow> wf_json (ta_float_repr api) r"
  shows "keeps inv (loop_rounds api llm k n ms) (\<lambda>_. True)"
proof (induction n arbitrary: k ms)
  case (Suc n)
  have body: "keeps inv (seq (raising (tool_calls d)) (\<lambda>calls.
      if calls = [] then ret (final_text d)
      else seq (answer_calls api calls) (\<lambda>as. loop_rounds api llm (Suc k) n (ms @ JObj d # as)))) (\<lambda>_. True)"
    if "wf_json (ta_float_repr api) (JObj d)" for d
    by (rule keeps_seq [OF keeps_raising, where Q = "wf_list (ta_float_repr api)"], rule calls_wf [OF that], assumption)
      (simp add: keeps_ret keeps_seq [OF answers_keep [OF assms(1,2)] Suc.IH])
  show ?case
    unfolding loop_rounds.simps
  proof (rule keeps_seq [OF keeps_raising, where Q = "wf_json (ta_float_repr api)"])
    fix m assume "bindr (llm k ms) (\<lambda>r. item r ''message'') = Inr m"
    then obtain x where "llm k ms = Inr x" "item x ''message'' = Inr m" by (auto simp: bindr_Inr_iff)
    with assms(3) show "wf_json (ta_float_repr api) m" by (blast intro: item_wf)
  next
    fix m assume "wf_json (ta_float_repr api) m"
    then show "keeps inv (case m of JObj d \<Rightarrow>
        seq (raising (tool_calls d)) (\<lambda>calls.
          if calls = [] then ret (final_text d)
          else seq (answer_calls api calls) (\<lambda>as. loop_rounds api llm (Suc k) n (ms @ m # as)))
      | _ \<Rightarrow> raise AttributeError) (\<lambda>_. True)"
    proof (cases m)
      case (JObj d)
      from body \<open>wf_json (ta_float_repr api) m\<close> show ?thesis unfolding JObj json.case by blast
    qed (simp_all add: keeps_raise)
  qed
qed (simp add: keeps_ret)

lemma loop_keeps:
  assumes "usable" and "repr_normal (ta_float_repr api)" and "\<forall>k ms r. llm k ms = Inr r \<longrightarrow> wf_json (ta_float_repr api) r"
  shows "keeps inv (run_tool_loop api llm query prompt n) (\<lambda>_. True)"
  unfolding run_tool_loop_def by (rule rounds_keep [OF assms])

end

text \<open>The tools of the community agent are such a surface.\<close>

definition agent_api :: "agent_conf \<Rightarrow> (string \<Rightarrow> string) \<Rightarrow> agent tool_api" where
  "agent_api C decode_error =
     \<lparr>ta_specs = registry_specs agent_tool_specs, ta_names = map fst community_tools, ta_dispatch = dispatch C,
      ta_bad_args = ac_exn_text C TypeError, ta_decode_error = decode_error, ta_float_repr = float_repr (ac_env C)\<rparr>"

interpretation agent_tools: tool_surface "agent_api C de" "agent_inv C" "agent_conf_ok C" for C de
  by unfold_locales (simp add: agent_api_def kept.keeps_dispatch del: wf_json.simps)

text \<open>
  Whatever a model answers, for as many rounds as it is given, the agent it drives stays in
  order: after every run of the tool loop, finished or broken off by an exception, the signed
  log verifies, the cache of foreign logs is coherent and the memoised state belongs to the logs.
\<close>

lemma tool_loop_keeps_agent:
  assumes "agent_conf_ok C" and "repr_normal (float_repr (ac_env C))"
    and "\<forall>k ms r. llm k ms = Inr r \<longrightarrow> wf_json (float_repr (ac_env C)) r" and "agent_inv C A"
  shows "agent_inv C (snd (run_tool_loop (agent_api C de) llm query prompt n A))"
proof -
  have fr: "ta_float_repr (agent_api C de) = float_repr (ac_env C)" by (simp add: agent_api_def)
  from agent_tools.loop_keeps [OF assms(1), of de, unfolded fr, OF assms(2,3)] assms(4) show ?thesis
    by (simp add: keeps_def)
qed

text \<open>Two scripts that differ from the second answer on are the same to a loop of one round.\<close>

lemma tool_loop_asks_witness:
  "run_tool_loop (agent_api sample_agent_conf id) (stub_complete [JObj []]) ''q'' system_prompt 1 sample_agent =
   run_tool_loop (agent_api sample_agent_conf id) (stub_complete [JObj [], JNull]) ''q'' system_prompt 1 sample_agent"
  by (rule tool_loop_asks) (simp add: stub_complete_def)

text \<open>An agent on which every float prints as the same text, driven by a model that keeps calling one tool.\<close>

definition insisting_model :: llm where
  "insisting_model k messages = Inr (JObj [(''message'', JObj [(''tool_calls'', JList
     [JObj [(''id'', JInt 1), (''function'', JObj [(''name'', JStr ''community_member_count'')])]])])])"

definition nan_conf :: agent_conf where
  "nan_conf = sample_agent_conf\<lparr>ac_env := sample_env\<lparr>float_repr := \<lambda>_. ''NaN''\<rparr>\<rparr>"

definition nan_agent :: agent where
  "nan_agent = new_agent nan_conf sample_wallet \<lparr>content = None, mtime_ns = 0\<rparr> []"

lemma nan_conf_ok: "agent_conf_ok nan_conf" "repr_normal (float_repr (ac_env nan_conf))" "agent_inv nan_conf nan_agent"
proof -
  have C: "ac_env nan_conf = sample_env\<lparr>float_repr := \<lambda>_. ''NaN''\<rparr>" "ac_identity nan_conf = sample_identity"
    by (simp_all add: nan_conf_def)
  show "agent_conf_ok nan_conf"
    by (auto simp: agent_conf_ok_def C identity_ok_def digest_ok_def sample_env_def sample_identity_def openclaw_identity_def
        binding_hash_def sha256_hex_def Let_def)
  show "repr_normal (float_repr (ac_env nan_conf))"
    by (simp add: C repr_normal_def float_text_def scan_literal_def scan_number_def scan_int_def is_digit_def is_print_def)
  have "verified_start nan_conf sample_wallet \<lparr>content = None, mtime_ns = 0\<rparr> []"
    using peer_rep_open by (auto simp: verified_start_def wallet_ok_def sample_wallet_def)
  then show "agent_inv nan_conf nan_agent" unfolding nan_agent_def by (rule new_agent_inv)
qed

lemma insisting_model_wf: "\<forall>k ms r. insisting_model k ms = Inr r \<longrightarrow> wf_json fr r"
  by (simp add: insisting_model_def)

lemma tool_loop_keeps_agent_witness:
  "agent_inv nan_conf (snd (run_tool_loop (agent_api nan_conf id) insisting_model ''q'' system_prompt 2 nan_agent))"
  by (rule tool_loop_keeps_agent [OF nan_conf_ok(1,2) insisting_model_wf nan_conf_ok(3)])

end
