(* ===== verification/Stop_Predicates.thy ===== *)
theory Stop_Predicates
  imports Json Manifest
begin

text \<open>
  The named predicates that end a scenario (deploy/stop_predicates.py): their evaluation on a
  state snapshot and the resolver that reads \<open>name(key=value, ...)\<close>.

  A float is its text; comparing one with an integer, and the text of a float read from a
  specification, are parameters.
\<close>

section \<open>Predicates\<close>

datatype stop_predicate =
    Never
  | TorrentDone
  | PeerCount json
  | WalletReceived json
  | SeedboxCount json
  | MemberCount json
  | SecurityLayer json
  | SecurityAll
  | IntegratedSecurity

record stop_env =
  se_int_ge_float :: "int \<Rightarrow> string \<Rightarrow> bool"
  se_float_ge_one :: "string \<Rightarrow> bool"
  se_read_float :: "string \<Rightarrow> string option"

text \<open>The wallet balances recorded by \<open>set_baseline\<close>, by agent.\<close>

type_synonym baselines = "(json \<times> int) list"

section \<open>Reading snapshots\<close>

text \<open>\<open>v.get(k)\<close> on a value that may be no dictionary, and \<open>v or {}\<close>.\<close>

definition field_of :: "json \<Rightarrow> string \<Rightarrow> json res" where
  "field_of v k = (case v of JObj d \<Rightarrow> Inr (jget d k) | _ \<Rightarrow> Inl AttributeError)"

definition or_empty :: "json \<Rightarrow> json" where
  "or_empty v = (if truthy v then v else JObj [])"

text \<open>What a \<open>for\<close> loop runs over, and \<open>len(v)\<close>.\<close>

definition elements_of :: "json \<Rightarrow> json list res" where
  "elements_of v = (case v of
     JList vs \<Rightarrow> Inr vs
   | JObj d \<Rightarrow> Inr (map (JStr \<circ> fst) d)
   | JStr s \<Rightarrow> Inr (map (\<lambda>c. JStr [c]) s)
   | _ \<Rightarrow> Inl TypeError)"

definition len_of :: "json \<Rightarrow> int res" where
  "len_of v = bindr (elements_of v) (\<lambda>vs. Inr (int (length vs)))"

text \<open>\<open>n >= v\<close> for an integer on the left.\<close>

definition int_ge :: "stop_env \<Rightarrow> int \<Rightarrow> json \<Rightarrow> bool res" where
  "int_ge V n v = (case v of
     JInt k \<Rightarrow> Inr (k \<le> n)
   | JBool b \<Rightarrow> Inr ((if b then 1 else 0) \<le> n)
   | JFloat t \<Rightarrow> Inr (se_int_ge_float V n t)
   | _ \<Rightarrow> Inl TypeError)"

section \<open>Baselines\<close>

definition set_baseline :: "json \<Rightarrow> dict \<Rightarrow> baselines \<Rightarrow> baselines res" where
  "set_baseline agent_id snapshot B =
     bindr (field_of (get_or snapshot ''wallet'' (JObj [])) ''balance_sats'') (\<lambda>sats.
     case int_of sats of
       None \<Rightarrow> Inr B
     | Some n \<Rightarrow> if hashable agent_id then Inr (kset B agent_id n) else Inl TypeError)"

definition baseline_of :: "baselines \<Rightarrow> json \<Rightarrow> int \<Rightarrow> int res" where
  "baseline_of B agent_id default_sats =
     (if \<not> hashable agent_id then Inl TypeError
      else Inr (case kget B agent_id of Some n \<Rightarrow> n | None \<Rightarrow> default_sats))"

section \<open>Evaluation\<close>

definition progress_done :: "stop_env \<Rightarrow> json \<Rightarrow> bool" where
  "progress_done V v = (case v of
     JInt n \<Rightarrow> 1 \<le> n | JBool b \<Rightarrow> b | JFloat t \<Rightarrow> se_float_ge_one V t | _ \<Rightarrow> False)"

fun any_done :: "stop_env \<Rightarrow> json list \<Rightarrow> bool res" where
  "any_done V [] = Inr False"
| "any_done V (t # ts) =
     bindr (field_of t ''progress'') (\<lambda>p. if progress_done V p then Inr True else any_done V ts)"

text \<open>A count of the community snapshot; one that is no integer never suffices.\<close>

definition community_count_ge :: "stop_env \<Rightarrow> string \<Rightarrow> json \<Rightarrow> dict \<Rightarrow> bool res" where
  "community_count_ge V key n snapshot =
     bindr (field_of (or_empty (jget snapshot ''community'')) key) (\<lambda>c.
     case int_of c of None \<Rightarrow> Inr False | Some k \<Rightarrow> int_ge V k n)"

definition wallet_received :: "stop_env \<Rightarrow> baselines \<Rightarrow> json \<Rightarrow> dict \<Rightarrow> bool res" where
  "wallet_received V B least snapshot =
     bindr (field_of (get_or snapshot ''agent'' (JObj [])) ''agent_id'') (\<lambda>agent_id.
     bindr (field_of (get_or snapshot ''wallet'' (JObj [])) ''balance_sats'') (\<lambda>sats.
     case int_of sats of
       None \<Rightarrow> Inr False
     | Some n \<Rightarrow>
         if agent_id = JNull then Inr False
         else bindr (baseline_of B agent_id n) (\<lambda>b. int_ge V (n - b) least)))"

definition layer_key :: "json \<Rightarrow> string" where
  "layer_key layer = (let t = py_str layer in
     case map_of [(''1'', ''layer1''), (''2'', ''layer2''), (''3'', ''layer3''), (''preventative'', ''layer1''),
                  (''accountability'', ''layer2''), (''impact'', ''layer3'')] t of
       Some k \<Rightarrow> k | None \<Rightarrow> t)"

definition checklist_item :: "string \<Rightarrow> dict \<Rightarrow> bool res" where
  "checklist_item key snapshot =
     bindr (field_of (or_empty (jget snapshot ''security'')) ''checklist'') (\<lambda>checklist.
     bindr (field_of (or_empty checklist) key) (\<lambda>v. Inr (truthy v)))"

fun holds_at :: "stop_env \<Rightarrow> baselines \<Rightarrow> stop_predicate \<Rightarrow> dict \<Rightarrow> bool res" where
  "holds_at V B Never snapshot = Inr False"
| "holds_at V B TorrentDone snapshot =
     bindr (elements_of (get_or snapshot ''torrents'' (JList []))) (any_done V)"
| "holds_at V B (PeerCount n) snapshot =
     bindr (len_of (get_or snapshot ''peers'' (JList []))) (\<lambda>k. int_ge V k n)"
| "holds_at V B (WalletReceived n) snapshot = wallet_received V B n snapshot"
| "holds_at V B (SeedboxCount n) snapshot = community_count_ge V ''seedbox_count'' n snapshot"
| "holds_at V B (MemberCount n) snapshot = community_count_ge V ''member_count'' n snapshot"
| "holds_at V B (SecurityLayer l) snapshot = checklist_item (layer_key l) snapshot"
| "holds_at V B SecurityAll snapshot =
     bindr (field_of (or_empty (jget snapshot ''security'')) ''ok'') (\<lambda>v. Inr (truthy v))"
| "holds_at V B IntegratedSecurity snapshot = checklist_item ''integrated'' snapshot"

section \<open>The registry\<close>

text \<open>An entry is a predicate or a factory with one keyword parameter and its default.\<close>

datatype predicate_entry = Leaf stop_predicate | Factory string json "json \<Rightarrow> stop_predicate"

definition predicate_registry :: "(string \<times> predicate_entry) list" where
  "predicate_registry =
     [(''never'', Leaf Never),
      (''torrent_progress_gte_1'', Leaf TorrentDone),
      (''peer_count_gte_N'', Factory ''n'' (JInt 1) PeerCount),
      (''wallet_received_sats'', Factory ''min_sats'' (JInt 1) WalletReceived),
      (''community_seedbox_count_gte_N'', Factory ''n'' (JInt 1) SeedboxCount),
      (''community_member_count_gte_N'', Factory ''n'' (JInt 1) MemberCount),
      (''security_layer_done'', Factory ''layer'' (JStr []) SecurityLayer),
      (''security_all_done'', Leaf SecurityAll),
      (''integrated_security_done'', Leaf IntegratedSecurity)]"

definition known_predicate_names :: "string list" where
  "known_predicate_names = sort (map fst predicate_registry)"

section \<open>Parsing\<close>

text \<open>
  The name and the text between the parentheses, trimmed; no text when there are no
  parentheses.  A dot of the expression matches no line break.
\<close>

definition match_call :: "string \<Rightarrow> (string \<times> string) option" where
  "match_call spec =
     (let name = takeWhile is_ident spec; r = strip (dropWhile is_ident spec) in
      if name = [] \<or> \<not> is_ident_start (hd name) then None
      else if r = [] then Some (name, [])
      else if length r < 2 \<or> hd r \<noteq> CHR ''('' \<or> last r \<noteq> CHR '')'' then None
      else (let inner = strip (butlast (tl r)) in if nl \<in> set inner then None else Some (name, inner)))"

text \<open>One \<open>key=value\<close> at the start of a text, with what follows its comma.\<close>

definition match_pair :: "string \<Rightarrow> ((string \<times> string) \<times> string) option" where
  "match_pair s =
     (let s1 = lstrip s; key = takeWhile is_ident s1; s2 = lstrip (dropWhile is_ident s1) in
      if key = [] \<or> \<not> is_ident_start (hd key) \<or> s2 = [] \<or> hd s2 \<noteq> CHR ''='' then None
      else
        (let raw = takeWhile (\<lambda>c. c \<noteq> CHR '','') (tl s2); after = dropWhile (\<lambda>c. c \<noteq> CHR '','') (tl s2) in
         Option.bind (kv_value raw) (\<lambda>v. Some ((key, v), tl after))))"

lemma match_pair_shorter:
  assumes "match_pair s = Some (p, rest)"
  shows "length rest < length s"
proof -
  define s1 where "s1 = lstrip s"
  define s2 where "s2 = lstrip (dropWhile is_ident s1)"
  have "rest = tl (dropWhile (\<lambda>c. c \<noteq> CHR '','') (tl s2))" "s2 \<noteq> []"
    using assms by (auto simp: match_pair_def Let_def s1_def s2_def split: if_splits bind_splits)
  moreover have "length (dropWhile P xs) \<le> length xs" for P and xs :: string by (rule length_dropWhile_le)
  then have "length s2 \<le> length s" "length (dropWhile (\<lambda>c. c \<noteq> CHR '','') (tl s2)) \<le> length (tl s2)"
    unfolding s1_def s2_def lstrip_def by (meson order_trans)+
  ultimately show ?thesis by (cases s2) auto
qed

text \<open>Every match of the expression, searched from left to right.\<close>

function scan_pairs :: "string \<Rightarrow> (string \<times> string) list" where
  "scan_pairs s =
     (case match_pair s of
        Some (p, rest) \<Rightarrow> p # scan_pairs rest
      | None \<Rightarrow> (case s of [] \<Rightarrow> [] | c # cs \<Rightarrow> scan_pairs cs))"
  by pat_completeness auto
termination by (relation "measure length") (auto dest: match_pair_shorter)

declare scan_pairs.simps [simp del]

text \<open>A value is an integer, a float, a truth value or a text without its quotes.\<close>

definition is_quote :: "char \<Rightarrow> bool" where
  "is_quote c = (c = dq \<or> c = sq)"

definition strip_quotes :: "string \<Rightarrow> string" where
  "strip_quotes s = rev (dropWhile is_quote (rev (dropWhile is_quote s)))"

definition read_value :: "stop_env \<Rightarrow> string \<Rightarrow> json" where
  "read_value V raw = (case py_int raw of
     Some n \<Rightarrow> JInt n
   | None \<Rightarrow>
       (case se_read_float V raw of
          Some t \<Rightarrow> JFloat t
        | None \<Rightarrow>
            if lower raw = ''true'' then JBool True
            else if lower raw = ''false'' then JBool False
            else JStr (strip_quotes raw)))"

definition parse_arguments :: "stop_env \<Rightarrow> string \<Rightarrow> dict" where
  "parse_arguments V text = dict_of_pairs (map (\<lambda>(k, raw). (k, read_value V raw)) (scan_pairs (text @ '','')))"

text \<open>An unknown keyword makes the call of the factory raise.\<close>

datatype resolve_error = UnknownPredicate string | BadArguments

definition resolve_predicate :: "stop_env \<Rightarrow> string \<Rightarrow> resolve_error + stop_predicate" where
  "resolve_predicate V spec = (case match_call spec of
     None \<Rightarrow> Inl (UnknownPredicate (''malformed predicate spec: '' @ repr_str spec))
   | Some (name, text) \<Rightarrow>
       (case map_of predicate_registry name of
          None \<Rightarrow>
            Inl (UnknownPredicate (''unknown predicate '' @ repr_str name @ '' (available: '' @
              py_repr (JList (map JStr known_predicate_names)) @ '')''))
        | Some (Leaf p) \<Rightarrow>
            if text = [] then Inr p
            else Inl (UnknownPredicate (''predicate '' @ repr_str name @ '' does not accept arguments; got '' @
              py_repr (JObj (parse_arguments V text))))
        | Some (Factory k v f) \<Rightarrow>
            if text = [] then Inr (f v)
            else
              (let arguments = parse_arguments V text in
               if list_all (\<lambda>p. fst p = k) arguments then Inr (f (get_or arguments k v)) else Inl BadArguments)))"

end
