(* ===== verification/Stop_Predicates_Spec.thy ===== *)
theory Stop_Predicates_Spec
  imports Stop_Predicates
begin

text \<open>
  Properties of the stop predicates: a predicate written in the notation of the scenarios is
  read back, and what the reader makes of arguments it does not understand.
\<close>

section \<open>Characters\<close>

lemma is_digit_not:
  "is_digit c \<Longrightarrow> \<not> is_space c \<and> c \<noteq> CHR '','' \<and> c \<noteq> CHR ''_'' \<and> c \<noteq> CHR ''-'' \<and> c \<noteq> CHR ''+'' \<and> c \<noteq> nl"
  by (auto simp: is_digit_def is_space_def nl_def Let_def)

lemma is_ident_not: "is_ident c \<Longrightarrow> \<not> is_space c \<and> c \<noteq> CHR '','' \<and> c \<noteq> CHR ''='' \<and> c \<noteq> CHR ''('' \<and> c \<noteq> nl \<and> \<not> is_quote c"
  by (auto simp: is_ident_def is_ident_start_def is_digit_def is_lower_def is_upper_def is_space_def nl_def
      is_quote_def dq_def sq_def Let_def)

lemma strip_id: "s \<noteq> [] \<Longrightarrow> \<not> is_space (hd s) \<Longrightarrow> \<not> is_space (last s) \<Longrightarrow> strip s = s"
  using dropWhile_eq_self_iff [of is_space s] dropWhile_eq_self_iff [of is_space "rev s"]
  by (simp add: strip_def lstrip_def rstrip_def hd_rev)

lemma plain_strip: "s \<noteq> [] \<Longrightarrow> list_all (\<lambda>c. \<not> is_space c) s \<Longrightarrow> strip s = s"
  by (rule strip_id) (auto simp: list_all_iff)

section \<open>Reading one pair\<close>

lemma takeWhile_ident:
  assumes "list_all is_ident k" and "\<not> is_ident c"
  shows "takeWhile is_ident (k @ c # s) = k" "dropWhile is_ident (k @ c # s) = c # s"
  using assms by (simp_all add: takeWhile_append dropWhile_append list_all_iff)

lemma scan_one_pair:
  assumes key: "k \<noteq> []" "is_ident_start (hd k)" "list_all is_ident k"
    and v: "v \<noteq> []" "list_all (\<lambda>c. \<not> is_space c \<and> c \<noteq> CHR '','') v"
  shows "scan_pairs (k @ ''='' @ v @ '','') = [(k, v)]"
proof -
  have eq: "\<not> is_ident (CHR ''='')" "\<not> is_space (CHR ''='')"
    using is_ident_not [of "CHR ''=''"] by (auto simp: is_space_def)
  have k: "lstrip (k @ ''='' @ v @ '','') = k @ ''='' @ v @ '',''"
    using key is_ident_not [of "hd k"] by (cases k) (auto simp: lstrip_def)
  have raw: "takeWhile (\<lambda>c. c \<noteq> CHR '','') (v @ '','') = v" "dropWhile (\<lambda>c. c \<noteq> CHR '','') (v @ '','') = '',''"
    using v(2) by (simp_all add: takeWhile_append dropWhile_append list_all_iff)
  have "kv_value v = Some v" using v plain_strip [of v] by (simp add: kv_value_def list_all_iff)
  then have "match_pair (k @ ''='' @ v @ '','') = Some ((k, v), [])"
    unfolding match_pair_def k using takeWhile_ident [OF key(3) eq(1)] key(1,2) eq(2) raw
    by (simp add: Let_def lstrip_def)
  moreover have "scan_pairs [] = []" by (subst scan_pairs.simps) (simp add: match_pair_def lstrip_def)
  ultimately show ?thesis by (subst scan_pairs.simps) simp
qed

lemma match_call_pair:
  assumes name: "name \<noteq> []" "is_ident_start (hd name)" "list_all is_ident name"
    and inner: "inner \<noteq> []" "list_all (\<lambda>c. \<not> is_space c \<and> c \<noteq> nl) inner"
  shows "match_call (name @ ''('' @ inner @ '')'') = Some (name, inner)"
proof -
  have p: "\<not> is_ident (CHR ''('')" "\<not> is_space (CHR ''('')" "\<not> is_space (CHR '')'')"
    using is_ident_not [of "CHR ''(''"] by (auto simp: is_space_def)
  have "strip (''('' @ inner @ '')'') = ''('' @ inner @ '')''" by (rule strip_id) (simp_all add: p)
  moreover have "strip inner = inner" "nl \<notin> set inner" using inner plain_strip [of inner] by (auto simp: list_all_iff)
  ultimately show ?thesis
    using takeWhile_ident [OF name(3) p(1)] name(1,2) by (simp add: match_call_def Let_def butlast_append)
qed

section \<open>Values\<close>

definition short_int :: "int \<Rightarrow> bool" where
  "short_int k = (length (nat_str (nat \<bar>k\<bar>)) \<le> 4300)"

lemma int_str_chars: "list_all (\<lambda>c. is_digit c \<or> c = CHR ''-'') (int_str k)" "int_str k \<noteq> []"
  using nat_str_digits by (auto simp: int_str_def list_all_iff)

lemma int_str_plain: "list_all (\<lambda>c. \<not> is_space c \<and> c \<noteq> CHR '','' \<and> c \<noteq> nl) (int_str k)"
proof -
  have "\<not> is_space (CHR ''-'')" by (simp add: is_space_def)
  then show ?thesis using int_str_chars(1) [of k] is_digit_not by (auto simp: list_all_iff nl_def)
qed

lemma py_int_str:
  assumes "short_int k"
  shows "py_int (int_str k) = Some k"
proof -
  have digits: "list_all is_digit (nat_str n)" "CHR ''_'' \<notin> set (nat_str n)" "hd (nat_str n) \<noteq> CHR ''-''"
    "hd (nat_str n) \<noteq> CHR ''+''" for n
    using nat_str_digits [of n] is_digit_not hd_in_set [OF nat_str_nonempty [of n]] by (auto simp: list_all_iff)
  have "strip (int_str k) = int_str k" using int_str_chars(2) int_str_plain by (intro plain_strip) (auto simp: list_all_iff)
  then show ?thesis
    using assms digits by (auto simp: py_int_def Let_def int_str_def split_on_free short_int_def)
qed

text \<open>A word: an identifier that reads neither as a number nor as a truth value.\<close>

definition plain_word :: "stop_env \<Rightarrow> string \<Rightarrow> bool" where
  "plain_word V s = (s \<noteq> [] \<and> is_ident_start (hd s) \<and> list_all is_ident s \<and> se_read_float V s = None \<and>
     lower s \<noteq> ''true'' \<and> lower s \<noteq> ''false'')"

lemma word_not_int:
  assumes "s \<noteq> []" "is_ident_start (hd s)" "list_all is_ident s"
  shows "py_int s = None"
proof -
  have "\<not> is_digit (hd s)" "hd s \<noteq> CHR ''-''" "hd s \<noteq> CHR ''+''"
    using assms(2) by (auto simp: is_ident_start_def is_digit_def is_lower_def is_upper_def Let_def)
  moreover have "strip s = s" using assms is_ident_not by (intro plain_strip) (auto simp: list_all_iff)
  moreover obtain c cs where "s = c # cs" using assms(1) by (cases s) auto
  moreover have "\<exists>g gs. split_on (CHR ''_'') (c # cs) = g # gs \<and> (g = [] \<or> \<not> is_digit (hd g))" if "\<not> is_digit c"
    using that by (auto split: list.split)
  ultimately show ?thesis by (auto simp: py_int_def Let_def list_all_iff split: list.splits)
qed

lemma read_word:
  assumes "plain_word V s"
  shows "read_value V s = JStr s"
proof -
  have q: "list_all (\<lambda>c. \<not> is_quote c) s" using assms is_ident_not by (auto simp: plain_word_def list_all_iff)
  then have "dropWhile is_quote s = s" "dropWhile is_quote (rev s) = rev s"
    using assms by (simp_all add: dropWhile_eq_self_iff hd_rev list_all_iff plain_word_def)
  then show ?thesis
    using assms word_not_int by (simp add: read_value_def plain_word_def strip_quotes_def)
qed

section \<open>Specifications\<close>

definition call_text :: "string \<Rightarrow> string \<Rightarrow> json \<Rightarrow> string" where
  "call_text name key v = name @ ''('' @ key @ ''='' @ py_str v @ '')''"

fun predicate_text :: "stop_predicate \<Rightarrow> string" where
  "predicate_text Never = ''never''"
| "predicate_text TorrentDone = ''torrent_progress_gte_1''"
| "predicate_text (PeerCount v) = call_text ''peer_count_gte_N'' ''n'' v"
| "predicate_text (WalletReceived v) = call_text ''wallet_received_sats'' ''min_sats'' v"
| "predicate_text (SeedboxCount v) = call_text ''community_seedbox_count_gte_N'' ''n'' v"
| "predicate_text (MemberCount v) = call_text ''community_member_count_gte_N'' ''n'' v"
| "predicate_text (SecurityLayer v) = call_text ''security_layer_done'' ''layer'' v"
| "predicate_text SecurityAll = ''security_all_done''"
| "predicate_text IntegratedSecurity = ''integrated_security_done''"

definition writable_value :: "stop_env \<Rightarrow> json \<Rightarrow> bool" where
  "writable_value V v = (case v of JInt k \<Rightarrow> short_int k | JStr s \<Rightarrow> plain_word V s | _ \<Rightarrow> False)"

fun argument_of :: "stop_predicate \<Rightarrow> json option" where
  "argument_of (PeerCount v) = Some v"
| "argument_of (WalletReceived v) = Some v"
| "argument_of (SeedboxCount v) = Some v"
| "argument_of (MemberCount v) = Some v"
| "argument_of (SecurityLayer v) = Some v"
| "argument_of p = None"

lemma writable_text:
  assumes "writable_value V v"
  shows "py_str v \<noteq> []" "list_all (\<lambda>c. \<not> is_space c \<and> c \<noteq> CHR '','' \<and> c \<noteq> nl) (py_str v)" "read_value V (py_str v) = v"
proof -
  have "py_str v \<noteq> [] \<and> list_all (\<lambda>c. \<not> is_space c \<and> c \<noteq> CHR '','' \<and> c \<noteq> nl) (py_str v) \<and> read_value V (py_str v) = v"
  proof (cases v)
    case (JInt k)
    with assms show ?thesis
      using int_str_chars(2) int_str_plain py_int_str by (simp add: py_str_def writable_value_def read_value_def)
  next
    case (JStr s)
    with assms show ?thesis
      using is_ident_not read_word by (auto simp: py_str_def writable_value_def plain_word_def list_all_iff)
  qed (use assms in \<open>simp_all add: writable_value_def\<close>)
  then show "py_str v \<noteq> []" "list_all (\<lambda>c. \<not> is_space c \<and> c \<noteq> CHR '','' \<and> c \<noteq> nl) (py_str v)" "read_value V (py_str v) = v"
    by blast+
qed

definition ident :: "string \<Rightarrow> bool" where
  "ident s = (s \<noteq> [] \<and> is_ident_start (hd s) \<and> list_all is_ident s)"

lemma registry_idents:
  "list_all (\<lambda>(name, e). case e of Factory key v f \<Rightarrow> ident name \<and> ident key | Leaf p \<Rightarrow> True) predicate_registry"
  by code_simp

lemma resolve_call:
  assumes "writable_value V v" and "map_of predicate_registry name = Some (Factory key v0 f)"
  shows "resolve_predicate V (call_text name key v) = Inr (f v)"
proof -
  have "ident name \<and> ident key" using registry_idents map_of_SomeD [OF assms(2)] by (auto simp: list_all_iff)
  then have id: "name \<noteq> []" "is_ident_start (hd name)" "list_all is_ident name"
    "key \<noteq> []" "is_ident_start (hd key)" "list_all is_ident key" by (simp_all add: ident_def)
  note t = writable_text [OF assms(1)]
  have "list_all (\<lambda>c. \<not> is_space c \<and> c \<noteq> nl) (key @ ''='' @ py_str v)"
    using t(2) id(6) is_ident_not by (auto simp: list_all_iff is_space_def nl_def)
  then have "match_call (call_text name key v) = Some (name, key @ ''='' @ py_str v)"
    using match_call_pair [OF id(1-3), of "key @ ''='' @ py_str v"] id(4) by (simp add: call_text_def)
  moreover have "scan_pairs (key @ ''='' @ py_str v @ '','') = [(key, py_str v)]"
    using t id(4-6) by (intro scan_one_pair) (auto simp: list_all_iff)
  then have "parse_arguments V (key @ ''='' @ py_str v) = [(key, v)]"
    using t(3) by (simp add: parse_arguments_def dict_of_pairs_def)
  ultimately show ?thesis using assms(2) id(4) by (simp add: resolve_predicate_def Let_def get_or_def)
qed

text \<open>
  C36: Every predicate of the registry can be written and is read back: an integer argument of
  any sign, or a word such as the name of a security layer, reaches the predicate unchanged.
\<close>

theorem resolve_written:
  assumes "\<forall>v. argument_of p = Some v \<longrightarrow> writable_value V v"
  shows "resolve_predicate V (predicate_text p) = Inr p"
proof -
  have leaves: "resolve_predicate V ''never'' = Inr Never" "resolve_predicate V ''torrent_progress_gte_1'' = Inr TorrentDone"
    "resolve_predicate V ''security_all_done'' = Inr SecurityAll"
    "resolve_predicate V ''integrated_security_done'' = Inr IntegratedSecurity"
    by code_simp+
  have factories:
    "map_of predicate_registry ''peer_count_gte_N'' = Some (Factory ''n'' (JInt 1) PeerCount)"
    "map_of predicate_registry ''wallet_received_sats'' = Some (Factory ''min_sats'' (JInt 1) WalletReceived)"
    "map_of predicate_registry ''community_seedbox_count_gte_N'' = Some (Factory ''n'' (JInt 1) SeedboxCount)"
    "map_of predicate_registry ''community_member_count_gte_N'' = Some (Factory ''n'' (JInt 1) MemberCount)"
    "map_of predicate_registry ''security_layer_done'' = Some (Factory ''layer'' (JStr []) SecurityLayer)"
    by (simp_all add: predicate_registry_def)
  show ?thesis
    using assms leaves by (cases p) (simp_all add: factories [THEN resolve_call [rotated]])
qed

lemma resolve_written_witness:
  "resolve_predicate \<lparr>se_int_ge_float = (\<lambda>_ _. False), se_float_ge_one = (\<lambda>_. False), se_read_float = (\<lambda>_. None)\<rparr>
     (predicate_text (SecurityLayer (JStr ''impact''))) = Inr (SecurityLayer (JStr ''impact''))"
  by (rule resolve_written)
    (simp add: writable_value_def plain_word_def is_ident_def is_ident_start_def is_lower_def lower_def lower_char_def)

section \<open>Arguments that are not understood\<close>

text \<open>An argument without a name is dropped without a word, and the default is used.\<close>

lemma unnamed_argument_ignored: "resolve_predicate V ''peer_count_gte_N(3)'' = Inr (PeerCount (JInt 1))"
  by code_simp

text \<open>An unknown keyword is not reported as an unknown predicate: the call of the factory raises.\<close>

lemma unknown_keyword_raises: "resolve_predicate V ''peer_count_gte_N(k=3)'' = Inl BadArguments"
  by code_simp

text \<open>A threshold that is no number is accepted and raises when it is first compared.\<close>

lemma text_threshold_raises:
  "resolve_predicate V ''peer_count_gte_N(n=x)'' = Inr (PeerCount (JStr ''x'')) \<or> se_read_float V ''x'' \<noteq> None"
  "holds_at V B (PeerCount (JStr ''x'')) [] = Inl TypeError"
proof -
  have "read_value V ''x'' = JStr ''x''" if "se_read_float V ''x'' = None"
    using that by (simp add: read_value_def py_int_def strip_quotes_def is_quote_def dq_def sq_def lower_def lower_char_def
        strip_def lstrip_def rstrip_def is_space_def is_digit_def)
  moreover have "match_call ''peer_count_gte_N(n=x)'' = Some (''peer_count_gte_N'', ''n=x'')" by code_simp
  moreover have "scan_pairs ''n=x,'' = [(''n'', ''x'')]" by code_simp
  ultimately show "resolve_predicate V ''peer_count_gte_N(n=x)'' = Inr (PeerCount (JStr ''x'')) \<or> se_read_float V ''x'' \<noteq> None"
    by (auto simp: resolve_predicate_def parse_arguments_def dict_of_pairs_def predicate_registry_def get_or_def)
  show "holds_at V B (PeerCount (JStr ''x'')) [] = Inl TypeError"
    by (simp add: get_or_def len_of_def elements_of_def int_ge_def)
qed

end
