(* ===== verification/Turn_Builder.thy ===== *)
theory Turn_Builder
  imports Complex_Main Json
begin

text \<open>
  The prompt of a watchdog turn (deploy/turn_builder.py): the ring buffer of past turns and
  the text assembled from the mission, the state snapshot and the last turns.  The long dashes
  of the fixed text are written as hyphens.
\<close>

section \<open>Past turns\<close>

text \<open>A response is a text, or whatever the model returned as its content.\<close>

record turn_record =
  tr_turn :: int
  tr_prompt :: string
  tr_response :: json
  tr_stop_value :: bool

definition turn_summary :: "turn_record \<Rightarrow> string res" where
  "turn_summary r = (case tr_response r of
     JStr t \<Rightarrow>
       (let body = strip t;
            shown = (if length body > 600 then take 600 body @ ''...'' else body)
        in Inr (''[turn '' @ int_str (tr_turn r) @ ''] '' @ shown))
   | _ \<Rightarrow> Inl AttributeError)"

definition append_turn :: "nat \<Rightarrow> turn_record \<Rightarrow> turn_record list \<Rightarrow> turn_record list" where
  "append_turn max_tail r rs = (let rs' = rs @ [r] in
     if length rs' > max_tail then drop (length rs' - max_tail) rs' else rs')"

section \<open>Indented JSON\<close>

text \<open>\<open>json.dumps(v, indent=2)\<close> at a nesting depth.\<close>

definition new_line :: "nat \<Rightarrow> string" where
  "new_line depth = nl # replicate (2 * depth) (CHR 0x20)"

fun dumps_indent :: "nat \<Rightarrow> json \<Rightarrow> string"
  and dumps_indent_elems :: "nat \<Rightarrow> json list \<Rightarrow> string"
  and dumps_indent_members :: "nat \<Rightarrow> dict \<Rightarrow> string" where
  "dumps_indent k (JList vs) =
     (if vs = [] then ''[]'' else ''['' @ new_line (Suc k) @ dumps_indent_elems (Suc k) vs @ new_line k @ '']'')"
| "dumps_indent k (JObj d) =
     (if d = [] then ''{}'' else ''{'' @ new_line (Suc k) @ dumps_indent_members (Suc k) d @ new_line k @ ''}'')"
| "dumps_indent k v = dumps_default v"
| "dumps_indent_elems k [] = []"
| "dumps_indent_elems k (v # vs) =
     dumps_indent k v @ (if vs = [] then [] else '','' @ new_line k @ dumps_indent_elems k vs)"
| "dumps_indent_members k [] = []"
| "dumps_indent_members k ((x, v) # d) =
     quote_str x @ '': '' @ dumps_indent k v @ (if d = [] then [] else '','' @ new_line k @ dumps_indent_members k d)"

section \<open>The prompt\<close>

definition framing :: "string list" where
  "framing =
     [''HARD CONSTRAINT - READ THIS FIRST:'',
      ''EXACTLY ONE tool call this turn. Then STOP.'',
      ''  * The MCP server enforces this. Further tool calls in this'',
      ''    turn can be rejected and will not move the scenario.'',
      ''  * After your one tool call returns, emit an empty assistant'',
      ''    message and end the turn immediately.'',
      ''  * The watchdog wakes you again with a fresh state snapshot'',
      ''    on the next tick - pick the next action then, not now.'',
      [],
      ''ROLE:'',
      ''You are an autonomous agent operating without human supervision.'',
      ''No user is reading these messages. Do not greet, introduce'',
      ''yourself, ask clarifying questions, or describe what you would do.'',
      [],
      ''PROGRESS DISCIPLINE:'',
      ''The CURRENT STATE block below already contains the state you can'',
      ''observe this turn: wallet, network/admission policy, community'',
      ''summary, peers, loaded protocol overlays, torrents, and security'',
      ''evidence when present. It was collected for you.'',
      [],
      ''Your turn must MOVE THE MISSION FORWARD. If your stop predicate'',
      ''is not yet satisfied, your one tool call must CHANGE STATE - not'',
      ''observe it. Compare CURRENT STATE to your mission'' @ [sq] @ ''s end goal,'',
      ''find the single biggest gap, and take the one action that closes'',
      ''it. Re-reading state you already have is NOT progress.'',
      [],
      ''If - and only if - CURRENT STATE already satisfies your mission'' @ [sq] @ ''s'',
      ''stop condition, do nothing: emit an empty assistant message with'',
      ''NO tool call and end. Do not call a read tool as a stand-in for'',
      ''doing nothing.'',
      [],
      ''MISSION:'']"

definition turn_contract :: "string list" where
  "turn_contract =
     [''TURN CONTRACT:'',
      ''- Make at most one purposeful DelftClaw MCP tool call for this turn, then stop and summarize the result.'',
      ''- Do not try to finish the whole mission in one subprocess run; the watchdog will call you again with fresh state.'',
      ''- If no safe tool call is possible from the current state, return a short explanation instead of waiting.'']"

definition last_instruction :: string where
  "last_instruction =
     ''Now perform one bounded action for this turn. It should change state unless the current state already satisfies your mission.''"

definition recent_turns :: "turn_record list \<Rightarrow> string list res" where
  "recent_turns history =
     (if history = [] then Inr [''RECENT TURNS: (none yet - this is the first turn)'']
      else bindr (mapr turn_summary history) (\<lambda>ts. Inr (''RECENT TURNS:'' # ts)))"

definition build_turn_prompt :: "string \<Rightarrow> dict \<Rightarrow> turn_record list \<Rightarrow> string res" where
  "build_turn_prompt mission_text snapshot history =
     bindr (recent_turns history) (\<lambda>recent.
     Inr (join_with [nl]
       (framing @ [rstrip mission_text, []] @ turn_contract @
        [[], ''CURRENT STATE:'', ''```json'', dumps_indent 0 (sort_keys (JObj snapshot)), ''```'', []] @
        recent @ [[], last_instruction])))"

section \<open>Limits\<close>

definition turn_cap_reached :: "int \<Rightarrow> int \<Rightarrow> bool" where
  "turn_cap_reached turn_n max_total_turns = (turn_n \<ge> max_total_turns)"

definition wall_clock_exceeded :: "rat \<Rightarrow> int \<Rightarrow> bool" where
  "wall_clock_exceeded elapsed_s max_wall_clock_s = (elapsed_s \<ge> of_int max_wall_clock_s)"

end
