(* ===== verification/Watchdog.thy ===== *)
theory Watchdog
  imports Stop_Predicates Turn_Builder Agent_Loop
begin

text \<open>
  The watchdog of an agent (deploy/watchdog.py): it takes a snapshot, evaluates the stop
  predicate, checks the caps, drives the model through one turn, writes a record of it, and
  sleeps until the next tick.

  The world the watchdog acts on is the type \<open>'w\<close>: taking a snapshot, the two ways of driving
  a model, the clock, the environment variable and sleeping are its operations.  A duration is
  the rational number its float stands for; the rounding of float subtraction and failures of
  writing the record file are not modelled.
\<close>

section \<open>What the model is shown\<close>

text \<open>\<open>v[:n]\<close> and \<open>v[-n:]\<close> for a positive \<open>n\<close>.\<close>

definition first_of :: "nat \<Rightarrow> json \<Rightarrow> json res" where
  "first_of n v = (case v of
     JList vs \<Rightarrow> Inr (JList (take n vs)) | JStr s \<Rightarrow> Inr (JStr (take n s)) | _ \<Rightarrow> Inl TypeError)"

definition last_of :: "nat \<Rightarrow> json \<Rightarrow> json res" where
  "last_of n v = (case v of
     JList vs \<Rightarrow> Inr (JList (drop (length vs - n) vs))
   | JStr s \<Rightarrow> Inr (JStr (drop (length s - n) s))
   | _ \<Rightarrow> Inl TypeError)"

definition or_nothing :: "json \<Rightarrow> json" where
  "or_nothing v = (if truthy v then v else JList [])"

text \<open>The elements of \<open>v or []\<close>.\<close>

definition elements_or :: "json \<Rightarrow> json list res" where
  "elements_or v = elements_of (or_nothing v)"

definition compact_message :: "json \<Rightarrow> json option res" where
  "compact_message message =
     bindr (field_of message ''name'') (\<lambda>name.
     if \<not> hashable name then Inl TypeError
     else if name \<noteq> JStr ''SEARCH_REQUEST'' \<and> name \<noteq> JStr ''SEARCH_RESPONSE'' then Inr None
     else
       bindr (field_of message ''fields'') (\<lambda>fields.
       bindr (elements_or fields) (\<lambda>fs.
       bindr (mapr (\<lambda>f. field_of f ''name'') fs) (\<lambda>names.
       Inr (Some (JObj [(''name'', name), (''fields'', JList (filter truthy names))]))))))"

definition usage_hint :: string where
  "usage_hint =
     ''For content_community, a seeker sends SEARCH_REQUEST to a seedbox peer. '' @
     ''SEARCH_RESPONSE is sent automatically by the seedbox handler; do not send '' @
     ''SEARCH_RESPONSE manually as a seeker. After a response arrives, read '' @
     ''response_cache and call torrent_fetch on the returned magnet.''"

definition compact_overlay :: "json \<Rightarrow> json res" where
  "compact_overlay overlay =
     bindr (field_of overlay ''messages'') (\<lambda>v.
     bindr (elements_or v) (\<lambda>ms.
     bindr (mapr compact_message ms) (\<lambda>messages.
     bindr (first_of 5 (or_nothing (jget (as_dict overlay) ''local_index''))) (\<lambda>index.
     bindr (last_of 5 (or_nothing (jget (as_dict overlay) ''response_cache''))) (\<lambda>cache.
     Inr (JObj
       [(''community_id_hex'', jget (as_dict overlay) ''community_id_hex''),
        (''name'', jget (as_dict overlay) ''name''),
        (''messages'', JList (concat (map (\<lambda>m. case m of None \<Rightarrow> [] | Some w \<Rightarrow> [w]) messages))),
        (''usage_hint'', if jget (as_dict overlay) ''name'' = JStr ''content_community'' then JStr usage_hint else JNull),
        (''local_index'', index),
        (''response_cache'', cache)]))))))"

definition compact_snapshot :: "dict \<Rightarrow> dict res" where
  "compact_snapshot snapshot =
     (let agent = or_empty (jget snapshot ''agent'') in
      bindr (elements_or (jget snapshot ''overlays'')) (\<lambda>vs.
      bindr (mapr compact_overlay vs) (\<lambda>overlays.
      bindr (field_of agent ''agent_id'') (\<lambda>agent_id.
      bindr (field_of agent ''wallet_address'') (\<lambda>wallet_address.
      Inr [(''ts'', jget snapshot ''ts''),
           (''agent'', JObj [(''agent_id'', agent_id), (''wallet_address'', wallet_address)]),
           (''network'', jget snapshot ''network''), (''wallet'', jget snapshot ''wallet''),
           (''community'', jget snapshot ''community''), (''peers'', jget snapshot ''peers''),
           (''torrents'', jget snapshot ''torrents''), (''overlays_loaded'', JList overlays),
           (''security'', jget snapshot ''security'')])))))"

section \<open>Which tools a model is given\<close>

definition community_demo_tools :: "string list" where
  "community_demo_tools =
     [''peers_list'', ''wallet_address'', ''wallet_balance'', ''community_log_list_recent'',
      ''community_treasury_balance'', ''community_member_count'', ''community_donate_and_join'',
      ''community_join_via_peer'', ''content_search_and_fetch'', ''network_join'', ''overlay_invoke'',
      ''overlays_list'', ''seedbox_purchase_propose'', ''seedbox_provisioned'', ''torrent_fetch'',
      ''torrent_stats'', ''run_integrated_security_episode'']"

definition denied_tools :: "string list" where
  "denied_tools =
     [''broadcast_payment'', ''create_fake_seedbox'', ''delete_audit_log'', ''exfiltrate_private_key'',
      ''exfiltrate_secret'', ''modify_iptables'', ''run_shell'']"

definition spec_name :: "json \<Rightarrow> json" where
  "spec_name v = jget (as_dict (jget (as_dict v) ''function'')) ''name''"

text \<open>The registry without the tools whose names are not allowed.\<close>

definition restrict_tools :: "(string \<Rightarrow> bool) \<Rightarrow> 's tool_api \<Rightarrow> 's tool_api" where
  "restrict_tools allowed api = api
     \<lparr>ta_specs := filter (\<lambda>v. case spec_name v of JStr n \<Rightarrow> allowed n | _ \<Rightarrow> False) (ta_specs api),
      ta_names := filter allowed (ta_names api),
      ta_dispatch := (\<lambda>name d s. if allowed name then ta_dispatch api name d s
                                 else (error_reply (''unknown_tool:'' @ name), s))\<rparr>"

text \<open>
  The surface of a mode: the security tools alone, the agent's tools cut to the list of the
  demo, with or without the added security tool, or all of the agent's tools.
\<close>

definition surface_of ::
  "string \<Rightarrow> 's tool_api \<Rightarrow> ('s tool_api \<Rightarrow> 's tool_api) \<Rightarrow> 's tool_api \<Rightarrow> 's tool_api" where
  "surface_of mode security_tools add_security agent_tools =
     (if mode = ''security_layers'' then security_tools
      else if mode = ''secure_community_demo''
      then restrict_tools (\<lambda>n. n \<in> set community_demo_tools \<and> n \<notin> set denied_tools) (add_security agent_tools)
      else if mode = ''community_demo''
      then restrict_tools (\<lambda>n. n \<in> set community_demo_tools) agent_tools
      else agent_tools)"

text \<open>
  One turn by the tool loop, within its time: an exception is the failure of the turn, and its
  text what the turn reports.
\<close>

definition direct_turn ::
  "'s tool_api \<Rightarrow> llm \<Rightarrow> (pyexn \<Rightarrow> string) \<Rightarrow> string \<Rightarrow> int \<Rightarrow> (bool \<times> json \<times> string, 's) step" where
  "direct_turn api llm exn_text prompt max_iterations s =
     (case run_tool_loop api llm prompt system_prompt max_iterations s of
        (Inl x, s') \<Rightarrow> (Inr (False, JStr [], exn_text x), s')
      | (Inr v, s') \<Rightarrow> (Inr (True, v, []), s'))"

section \<open>Driving a model\<close>

text \<open>\<open>os.environ.get(k, default)\<close>, and \<open>os.environ.get(k) or other\<close>.\<close>

type_synonym environ = "string \<Rightarrow> string option"

definition environ_get :: "environ \<Rightarrow> string \<Rightarrow> string \<Rightarrow> string" where
  "environ_get vars k d = (case vars k of Some v \<Rightarrow> v | None \<Rightarrow> d)"

definition environ_or :: "environ \<Rightarrow> string \<Rightarrow> string \<Rightarrow> string" where
  "environ_or vars k other = (case vars k of Some v \<Rightarrow> if v = [] then other else v | None \<Rightarrow> other)"

text \<open>The client of the direct driver, from the environment.\<close>

definition direct_client :: "environ \<Rightarrow> chat_client" where
  "direct_client vars =
     \<lparr>cc_base_url = environ_or vars ''OPENCLAW_BASE_URL'' (environ_get vars ''QWEN_BASE_URL'' ''http://127.0.0.1:11434/v1''),
      cc_model_id = environ_or vars ''OPENCLAW_MODEL'' (environ_get vars ''QWEN_MODEL'' ''qwen2.5-coder:7b''),
      cc_api_key = environ_get vars (environ_get vars ''OPENCLAW_API_KEY_ENV'' ''GEMINI_API_KEY'') [],
      cc_temperature = ''0.0'',
      cc_extra_body =
        (if lower (strip (environ_get vars ''OPENCLAW_PROVIDER'' [])) = ''openrouter''
         then [(''reasoning'', JObj [(''enabled'', JBool False)])] else [])\<rparr>"

definition allowlist_mode :: "environ \<Rightarrow> string" where
  "allowlist_mode vars = lower (strip (environ_get vars ''DIRECT_TOOL_ALLOWLIST'' ''community_demo''))"

text \<open>The command of the other driver and what its process ends with.\<close>

definition openclaw_command :: "string \<Rightarrow> string \<Rightarrow> int \<Rightarrow> string list" where
  "openclaw_command instance_id prompt timeout_s =
     [''openclaw'', ''agent'', ''--local'', ''--agent'', instance_id, ''--message'', prompt, ''--json'',
      ''--timeout'', int_str timeout_s, ''--thinking'', ''off'']"

datatype process_end = Exited int string string | TimedOut string

definition openclaw_reply :: "int \<Rightarrow> process_end \<Rightarrow> bool \<times> json \<times> string" where
  "openclaw_reply timeout_s e = (case e of
     Exited code out err \<Rightarrow> (code = 0, JStr out, err)
   | TimedOut t \<Rightarrow> (False, JStr [], ''openclaw timed out after '' @ int_str (timeout_s + 30) @ ''s: '' @ t))"

text \<open>An instance names its scenario and, after the first hyphen, its agent.\<close>

definition split_instance :: "string \<Rightarrow> (string \<times> string) option" where
  "split_instance instance_id =
     (if CHR ''-'' \<notin> set instance_id then None
      else Some (takeWhile (\<lambda>c. c \<noteq> CHR ''-'') instance_id, tl (dropWhile (\<lambda>c. c \<noteq> CHR ''-'') instance_id)))"

section \<open>The state of a watchdog\<close>

record 'w watch_env =
  wv_stop :: stop_env
  wv_collect :: "(dict, 'w) step"
  wv_elapsed :: "'w \<Rightarrow> rat \<times> 'w"
  wv_time :: "'w \<Rightarrow> json \<times> 'w"
  wv_driver :: "'w \<Rightarrow> string"
  wv_direct :: "string \<Rightarrow> int \<Rightarrow> int \<Rightarrow> (bool \<times> json \<times> string, 'w) step"
  wv_openclaw :: "string \<Rightarrow> int \<Rightarrow> (bool \<times> json \<times> string, 'w) step"
  wv_sleep :: "rat \<Rightarrow> 'w \<Rightarrow> 'w"
  wv_float :: "rat \<Rightarrow> json"

record watch_conf =
  wc_instance :: string
  wc_agent_id :: string
  wc_stop_spec :: string
  wc_mission :: string
  wc_interval_s :: int
  wc_max_iterations :: int
  wc_max_turns :: int
  wc_max_clock_s :: int

record 'w watch_state =
  wa_world :: 'w
  wa_records :: "dict list"
  wa_history :: "turn_record list"
  wa_errors :: nat
  wa_turn :: int

definition exit_ok :: int where "exit_ok = 0"
definition exit_turns_exhausted :: int where "exit_turns_exhausted = 1"
definition exit_wall_clock :: int where "exit_wall_clock = 2"
definition exit_llm_errors :: int where "exit_llm_errors = 3"

definition max_consecutive_llm_errors :: nat where
  "max_consecutive_llm_errors = 5"

definition in_world :: "('a, 'w) step \<Rightarrow> ('a, 'w watch_state) step" where
  "in_world m S = (let (r, w) = m (wa_world S) in (r, S\<lparr>wa_world := w\<rparr>))"

definition asking :: "('w \<Rightarrow> 'a \<times> 'w) \<Rightarrow> ('a, 'w watch_state) step" where
  "asking f = in_world (\<lambda>w. let (a, w') = f w in (Inr a, w'))"

definition emit :: "dict \<Rightarrow> (unit, 'w watch_state) step" where
  "emit r = modify (wa_records_update (\<lambda>rs. rs @ [r]))"

section \<open>A tick\<close>

text \<open>The head that every stop record has, and the ending of a run with its code.\<close>

definition stop_with :: "string \<Rightarrow> int \<Rightarrow> json \<Rightarrow> dict \<Rightarrow> int \<Rightarrow> (int option, 'w watch_state) step" where
  "stop_with reason turn_n elapsed more_fields code =
     seq (emit ([(''event'', JStr ''stop''), (''reason'', JStr reason), (''turn_n'', JInt turn_n),
                 (''elapsed_s'', elapsed)] @ more_fields)) (\<lambda>_. ret (Some code))"

definition failure_text :: "string \<Rightarrow> string" where
  "failure_text stderr =
     ''OpenClaw subprocess failed before completing a bounded '' @ ''turn. stderr: '' @ take 600 stderr"

definition remember :: "int \<Rightarrow> string \<Rightarrow> json \<Rightarrow> bool \<Rightarrow> (unit, 'w watch_state) step" where
  "remember turn_n prompt response stop_value =
     modify (wa_history_update (append_turn 3
       \<lparr>tr_turn = turn_n, tr_prompt = prompt, tr_response = response, tr_stop_value = stop_value\<rparr>))"

definition sleep_rest :: "'w watch_env \<Rightarrow> watch_conf \<Rightarrow> rat \<Rightarrow> (int option, 'w watch_state) step" where
  "sleep_rest V C elapsed = seq (asking (wv_elapsed V)) (\<lambda>now.
     let remaining = of_int (wc_interval_s C) - (now - elapsed) in
     seq (if remaining > 0 then in_world (modify (wv_sleep V remaining)) else ret ()) (\<lambda>_. ret None))"

definition turn_json :: "int \<Rightarrow> json \<Rightarrow> json \<Rightarrow> dict \<Rightarrow> bool \<Rightarrow> string \<Rightarrow> bool \<times> json \<times> string \<Rightarrow> dict" where
  "turn_json turn_n ts elapsed snapshot stop_value prompt reply =
     [(''event'', JStr ''turn''), (''turn_n'', JInt turn_n), (''ts'', ts), (''elapsed_s'', elapsed),
      (''snapshot'', JObj snapshot), (''stop_predicate_value'', JBool stop_value), (''prompt'', JStr prompt),
      (''openclaw_ok'', JBool (fst reply)), (''openclaw_stdout'', fst (snd reply)),
      (''openclaw_stderr'', JStr (snd (snd reply)))]"

text \<open>What the model is asked, and how: given the snapshot, the driver and the past turns.\<close>

definition ask_model ::
  "'w watch_env \<Rightarrow> watch_conf \<Rightarrow> dict \<Rightarrow> bool \<Rightarrow> turn_record list \<Rightarrow>
     (string \<times> bool \<times> json \<times> string, 'w watch_state) step" where
  "ask_model V C snapshot direct history =
     seq (raising (if direct then compact_snapshot snapshot else Inr snapshot)) (\<lambda>shown.
     seq (raising (build_turn_prompt (wc_mission C) shown history)) (\<lambda>prompt.
     seq (in_world (if direct then wv_direct V prompt (wc_interval_s C + 30) (wc_max_iterations C)
                    else wv_openclaw V prompt (wc_interval_s C))) (\<lambda>reply.
     ret (prompt, reply))))"

definition drive_model ::
  "'w watch_env \<Rightarrow> watch_conf \<Rightarrow> dict \<Rightarrow> (string \<times> bool \<times> json \<times> string, 'w watch_state) step" where
  "drive_model V C snapshot S =
     ask_model V C snapshot (lower (strip (wv_driver V (wa_world S))) = ''direct'') (wa_history S) S"

definition count_failure :: "'w watch_env \<Rightarrow> watch_conf \<Rightarrow> int \<Rightarrow> rat \<Rightarrow> (int option, 'w watch_state) step" where
  "count_failure V C turn_n elapsed S =
     (if max_consecutive_llm_errors \<le> wa_errors S
      then stop_with ''llm_errors'' turn_n (wv_float V elapsed)
             [(''consecutive_llm_errors'', JInt (int (wa_errors S)))] exit_llm_errors S
      else sleep_rest V C elapsed S)"

definition perform_turn ::
  "'w watch_env \<Rightarrow> watch_conf \<Rightarrow> int \<Rightarrow> rat \<Rightarrow> dict \<Rightarrow> (int option, 'w watch_state) step" where
  "perform_turn V C turn_n elapsed snapshot =
     seq (drive_model V C snapshot) (\<lambda>(prompt, ok, stdout, stderr).
     seq (asking (wv_time V)) (\<lambda>ts.
     seq (emit (turn_json turn_n ts (wv_float V elapsed) snapshot False prompt (ok, stdout, stderr))) (\<lambda>_.
     if ok
     then seq (modify (wa_errors_update (\<lambda>_. 0))) (\<lambda>_.
          seq (remember turn_n prompt stdout False) (\<lambda>_.
          sleep_rest V C elapsed))
     else seq (modify (wa_errors_update Suc)) (\<lambda>_.
          seq (remember turn_n prompt (JStr (failure_text stderr)) False) (\<lambda>_.
          count_failure V C turn_n elapsed)))))"

definition decide ::
  "'w watch_env \<Rightarrow> watch_conf \<Rightarrow> int \<Rightarrow> rat \<Rightarrow> dict \<Rightarrow> bool \<Rightarrow> (int option, 'w watch_state) step" where
  "decide V C turn_n elapsed snapshot stop_value =
     (if stop_value
      then stop_with ''stop_predicate_satisfied'' turn_n (wv_float V elapsed)
             [(''stop_predicate'', JStr (wc_stop_spec C)), (''snapshot'', JObj snapshot)] exit_ok
      else if turn_cap_reached turn_n (wc_max_turns C)
      then stop_with ''max_total_turns'' turn_n (wv_float V elapsed) [(''snapshot'', JObj snapshot)] exit_turns_exhausted
      else if wall_clock_exceeded elapsed (wc_max_clock_s C)
      then stop_with ''max_wall_clock_s'' turn_n (wv_float V elapsed) [(''snapshot'', JObj snapshot)] exit_wall_clock
      else perform_turn V C turn_n elapsed snapshot)"

definition next_turn :: "(int, 'w watch_state) step" where
  "next_turn S = (Inr (wa_turn S + 1), S\<lparr>wa_turn := wa_turn S + 1\<rparr>)"

definition tick :: "'w watch_env \<Rightarrow> watch_conf \<Rightarrow> stop_predicate \<Rightarrow> baselines \<Rightarrow> (int option, 'w watch_state) step" where
  "tick V C P B =
     seq next_turn (\<lambda>turn_n.
     seq (asking (wv_elapsed V)) (\<lambda>elapsed.
     seq (in_world (wv_collect V)) (\<lambda>snapshot.
     seq (raising (holds_at (wv_stop V) B P snapshot)) (\<lambda>stop_value.
     decide V C turn_n elapsed snapshot stop_value))))"

section \<open>The loop\<close>

text \<open>The loop has no bound of its own: a run that never ends is \<open>None\<close>.\<close>

partial_function (option) watch_loop ::
  "'w watch_env \<Rightarrow> watch_conf \<Rightarrow> stop_predicate \<Rightarrow> baselines \<Rightarrow> 'w watch_state \<Rightarrow> (int res \<times> 'w watch_state) option" where
  "watch_loop V C P B S = (case tick V C P B S of
     (Inl x, S') \<Rightarrow> Some (Inl x, S')
   | (Inr (Some code), S') \<Rightarrow> Some (Inr code, S')
   | (Inr None, S') \<Rightarrow> watch_loop V C P B S')"

definition resolve_stop :: "'w watch_env \<Rightarrow> string \<Rightarrow> stop_predicate res" where
  "resolve_stop V spec = (case resolve_predicate (wv_stop V) spec of
     Inr P \<Rightarrow> Inr P | Inl (UnknownPredicate t) \<Rightarrow> Inl (KeyError t) | Inl BadArguments \<Rightarrow> Inl TypeError)"

definition start_watch ::
  "'w watch_env \<Rightarrow> watch_conf \<Rightarrow> baselines \<Rightarrow> (stop_predicate \<times> baselines, 'w watch_state) step" where
  "start_watch V C B =
     seq (raising (resolve_stop V (wc_stop_spec C))) (\<lambda>P.
     seq (in_world (wv_collect V)) (\<lambda>snapshot.
     seq (raising (set_baseline (JStr (wc_agent_id C)) snapshot B)) (\<lambda>B'.
     seq (asking (wv_time V)) (\<lambda>ts.
     seq (emit [(''event'', JStr ''scenario_boot''), (''instance'', JStr (wc_instance C)),
                (''agent_id'', JStr (wc_agent_id C)), (''stop_predicate'', JStr (wc_stop_spec C)),
                (''ts'', ts)]) (\<lambda>_.
     ret (P, B'))))))"

definition drive ::
  "'w watch_env \<Rightarrow> watch_conf \<Rightarrow> baselines \<Rightarrow> 'w \<Rightarrow> (int res \<times> 'w watch_state) option" where
  "drive V C B w =
     (case start_watch V C B \<lparr>wa_world = w, wa_records = [], wa_history = [], wa_errors = 0, wa_turn = 0\<rparr> of
        (Inl x, S) \<Rightarrow> Some (Inl x, S)
      | (Inr (P, B'), S) \<Rightarrow> watch_loop V C P B' S)"

end
