(* ===== verification/Watchdog_Spec.thy ===== *)
theory Watchdog_Spec
  imports Watchdog
begin

text \<open>
  Properties of the watchdog: it ends whatever the model and the world do, within a number of
  turns that the scenario fixes, and its exit code tells the truth about its records.
\<close>

section \<open>Records\<close>

definition is_turn :: "dict \<Rightarrow> bool" where
  "is_turn d = (map_of d ''event'' = Some (JStr ''turn''))"

definition failed :: "dict \<Rightarrow> bool" where
  "failed d = (map_of d ''openclaw_ok'' = Some (JBool False))"

definition turns :: "'w watch_state \<Rightarrow> dict list" where
  "turns S = filter is_turn (wa_records S)"

lemma turn_json_simps [simp]:
  "is_turn (turn_json n ts e snap b p reply)"
  "failed (turn_json n ts e snap b p reply) = (\<not> fst reply)"
  by (simp_all add: turn_json_def is_turn_def failed_def)

text \<open>A stop record carries its reason, the turn and the time, and what the reason adds.\<close>

definition stop_json :: "string \<Rightarrow> int \<Rightarrow> json \<Rightarrow> dict \<Rightarrow> dict" where
  "stop_json reason n e more_fields =
     [(''event'', JStr ''stop''), (''reason'', JStr reason), (''turn_n'', JInt n), (''elapsed_s'', e)] @ more_fields"

lemma stop_with_eq [simp]:
  "stop_with reason n e fs code S = (Inr (Some code), S\<lparr>wa_records := wa_records S @ [stop_json reason n e fs]\<rparr>)"
  by (simp add: stop_with_def emit_def modify_def seq_def stop_json_def)

lemma stop_json_simps [simp]: "\<not> is_turn (stop_json reason n e fs)"
  by (simp add: stop_json_def is_turn_def)

section \<open>One tick\<close>

text \<open>The part of the state that only the watchdog itself changes.\<close>

definition same_watch :: "'w watch_state \<Rightarrow> 'w watch_state \<Rightarrow> bool" where
  "same_watch S S' = (wa_records S' = wa_records S \<and> wa_history S' = wa_history S \<and> wa_errors S' = wa_errors S \<and>
     wa_turn S' = wa_turn S)"

lemma in_world_same: "in_world m S = (r, S') \<Longrightarrow> same_watch S S'"
  by (auto simp: in_world_def same_watch_def split: prod.splits)

lemma asking_same: "asking f S = (r, S') \<Longrightarrow> same_watch S S'"
  unfolding asking_def by (rule in_world_same)

lemma asking_Inr: obtains a S' where "asking f S = (Inr a, S')" "same_watch S S'"
proof -
  obtain a w where "f (wa_world S) = (a, w)" by (cases "f (wa_world S)")
  then have "asking f S = (Inr a, S\<lparr>wa_world := w\<rparr>)" by (simp add: asking_def in_world_def)
  then show thesis by (rule that) (simp add: same_watch_def)
qed

lemma same_watch_trans: "same_watch S1 S2 \<Longrightarrow> same_watch S2 S3 \<Longrightarrow> same_watch S1 S3"
  by (simp add: same_watch_def)

lemma same_watch_refl: "same_watch S S"
  by (simp add: same_watch_def)

lemma sleep_rest_same: "\<exists>S'. sleep_rest V C e S = (Inr None, S') \<and> same_watch S S'"
proof -
  obtain now S1 where a: "asking (wv_elapsed V) S = (Inr now, S1)" "same_watch S S1" by (rule asking_Inr)
  then show ?thesis
    by (auto simp: sleep_rest_def seq_def a in_world_def modify_def Let_def same_watch_def)
qed

lemma drive_model_same: "drive_model V C snap S = (r, S') \<Longrightarrow> same_watch S S'"
  by (auto simp: drive_model_def ask_model_def seq_def same_watch_refl split: prod.splits sum.splits if_splits
      dest!: in_world_same)

text \<open>
  How a tick may end: with an exception and no record; with a stop record of one of the first
  three reasons; after a turn, with the fifth failure in a row; or ready for the next tick.
\<close>

inductive tick_ends ::
  "'w watch_env \<Rightarrow> watch_conf \<Rightarrow> stop_predicate \<Rightarrow> baselines \<Rightarrow> 'w watch_state \<Rightarrow> int option res \<Rightarrow> 'w watch_state \<Rightarrow> bool"
  for V C P B S where
  raised: "wa_records S' = wa_records S \<Longrightarrow> tick_ends V C P B S (Inl x) S'"
| satisfied: "holds_at (wv_stop V) B P snap = Inr True \<Longrightarrow>
    wa_records S' = wa_records S @ [stop_json ''stop_predicate_satisfied'' (wa_turn S + 1) e
      [(''stop_predicate'', JStr (wc_stop_spec C)), (''snapshot'', JObj snap)]] \<Longrightarrow>
    tick_ends V C P B S (Inr (Some exit_ok)) S'"
| turns_exhausted: "holds_at (wv_stop V) B P snap = Inr False \<Longrightarrow> wc_max_turns C \<le> wa_turn S + 1 \<Longrightarrow>
    wa_records S' = wa_records S @ [stop_json ''max_total_turns'' (wa_turn S + 1) e [(''snapshot'', JObj snap)]] \<Longrightarrow>
    tick_ends V C P B S (Inr (Some exit_turns_exhausted)) S'"
| clock_exceeded: "holds_at (wv_stop V) B P snap = Inr False \<Longrightarrow> of_int (wc_max_clock_s C) \<le> t \<Longrightarrow>
    wa_records S' = wa_records S @ [stop_json ''max_wall_clock_s'' (wa_turn S + 1) (wv_float V t) [(''snapshot'', JObj snap)]] \<Longrightarrow>
    tick_ends V C P B S (Inr (Some exit_wall_clock)) S'"
| too_many_failures: "wa_turn S + 1 < wc_max_turns C \<Longrightarrow> is_turn d \<Longrightarrow> failed d \<Longrightarrow> max_consecutive_llm_errors \<le> Suc (wa_errors S) \<Longrightarrow>
    wa_records S' = wa_records S @ [d, stop_json ''llm_errors'' (wa_turn S + 1) e
      [(''consecutive_llm_errors'', JInt (int (Suc (wa_errors S))))]] \<Longrightarrow>
    tick_ends V C P B S (Inr (Some exit_llm_errors)) S'"
| performed: "wa_turn S + 1 < wc_max_turns C \<Longrightarrow> is_turn d \<Longrightarrow> wa_records S' = wa_records S @ [d] \<Longrightarrow>
    wa_errors S' = (if failed d then Suc (wa_errors S) else 0) \<Longrightarrow> wa_errors S' < max_consecutive_llm_errors \<Longrightarrow>
    wa_turn S' = wa_turn S + 1 \<Longrightarrow> length (wa_history S') \<le> 3 \<Longrightarrow>
    tick_ends V C P B S (Inr None) S'"

lemma append_turn_length: "length (append_turn k r rs) \<le> k \<or> append_turn k r rs = []"
  by (auto simp: append_turn_def Let_def)

lemma remember_eq:
  "remember n p r b S = (Inr (), S\<lparr>wa_history := append_turn 3 \<lparr>tr_turn = n, tr_prompt = p, tr_response = r, tr_stop_value = b\<rparr> (wa_history S)\<rparr>)"
  by (simp add: remember_def modify_def)

lemma append_turn_3: "length (append_turn 3 r rs) \<le> 3"
  by (auto simp: append_turn_def Let_def)

text \<open>A turn, seen from the state before its tick.\<close>

lemma perform_turn_ends:
  assumes "wa_records S = wa_records S0" "wa_errors S = wa_errors S0" "wa_turn S = wa_turn S0 + 1"
    and "wa_turn S0 + 1 < wc_max_turns C" and "perform_turn V C (wa_turn S0 + 1) t snap S = (r, S')"
  shows "tick_ends V C P B S0 r S'"
proof (cases "drive_model V C snap S")
  case (Pair m S1)
  with drive_model_same have s1: "same_watch S S1" by blast
  show ?thesis
  proof (cases m)
    case (Inl x)
    with Pair assms(5) have "r = Inl x" "S' = S1" by (simp_all add: perform_turn_def seq_def)
    with s1 assms(1) show ?thesis by (auto intro: tick_ends.raised simp: same_watch_def)
  next
    case (Inr reply)
    obtain prompt ok out err where reply: "reply = (prompt, ok, out, err)" by (cases reply)
    obtain ts S2 where s2: "asking (wv_time V) S1 = (Inr ts, S2)" "same_watch S1 S2" by (rule asking_Inr)
    define d where "d = turn_json (wa_turn S0 + 1) ts (wv_float V t) snap False prompt (ok, out, err)"
    define S3 where "S3 = S2\<lparr>wa_records := wa_records S2 @ [d], wa_errors := (if ok then 0 else Suc (wa_errors S2)),
      wa_history := append_turn 3 \<lparr>tr_turn = wa_turn S0 + 1, tr_prompt = prompt,
        tr_response = (if ok then out else JStr (failure_text err)), tr_stop_value = False\<rparr> (wa_history S2)\<rparr>"
    have s3: "wa_records S3 = wa_records S0 @ [d]" "wa_turn S3 = wa_turn S0 + 1" "length (wa_history S3) \<le> 3"
      "wa_errors S3 = (if ok then 0 else Suc (wa_errors S0))"
      using s1 s2(2) assms(1-3) append_turn_3 by (simp_all add: S3_def same_watch_def)
    obtain S4 where s4: "sleep_rest V C t S3 = (Inr None, S4)" "same_watch S3 S4" using sleep_rest_same by blast
    have "perform_turn V C (wa_turn S0 + 1) t snap S =
        (if ok then sleep_rest V C t S3 else count_failure V C (wa_turn S0 + 1) t S3)"
      by (cases S2) (simp add: perform_turn_def seq_def Pair Inr reply s2(1) emit_def modify_def remember_def S3_def d_def)
    with assms(5) have r: "(r, S') = (if ok then sleep_rest V C t S3 else count_failure V C (wa_turn S0 + 1) t S3)" by simp
    have d: "is_turn d" "failed d = (\<not> ok)" by (simp_all add: d_def)
    show ?thesis
    proof (cases "\<not> ok \<and> max_consecutive_llm_errors \<le> wa_errors S3")
      case True
      then show ?thesis
        using r s3 d by (auto simp: count_failure_def intro!: tick_ends.too_many_failures [OF assms(4)])
    next
      case False
      then have "r = Inr None" "S' = S4" using r s4(1) by (auto simp: count_failure_def split: if_splits)
      moreover have "wa_errors S3 < max_consecutive_llm_errors"
        using False s3(4) by (auto simp: max_consecutive_llm_errors_def)
      ultimately show ?thesis
        using s3 s4(2) d by (auto simp: same_watch_def intro!: tick_ends.performed [OF assms(4) d(1)])
    qed
  qed
qed

lemma tick_cases:
  assumes "tick V C P B S = (r, S')"
  shows "tick_ends V C P B S r S'"
proof -
  define S1 where "S1 = S\<lparr>wa_turn := wa_turn S + 1\<rparr>"
  obtain t S2 where s2: "asking (wv_elapsed V) S1 = (Inr t, S2)" "same_watch S1 S2" by (rule asking_Inr)
  obtain c S3 where s3: "in_world (wv_collect V) S2 = (c, S3)" by (cases "in_world (wv_collect V) S2")
  have same: "wa_records S3 = wa_records S" "wa_errors S3 = wa_errors S" "wa_turn S3 = wa_turn S + 1"
    using s2(2) in_world_same [OF s3] by (simp_all add: S1_def same_watch_def)
  have run: "tick V C P B S = (case c of Inl x \<Rightarrow> (Inl x, S3) | Inr snap \<Rightarrow>
      (case holds_at (wv_stop V) B P snap of Inl x \<Rightarrow> (Inl x, S3) | Inr b \<Rightarrow> decide V C (wa_turn S + 1) t snap b S3))"
    by (simp add: tick_def next_turn_def seq_def s2(1) s3 flip: S1_def split: sum.split)
  show ?thesis
  proof (cases "\<exists>snap b. c = Inr snap \<and> holds_at (wv_stop V) B P snap = Inr b")
    case False
    then have "\<exists>x. (r, S') = (Inl x, S3)" using run assms by (auto split: sum.splits)
    with same show ?thesis by (auto intro: tick_ends.raised)
  next
    case True
    then obtain snap b where h: "c = Inr snap" "holds_at (wv_stop V) B P snap = Inr b" by blast
    with run assms have d: "decide V C (wa_turn S + 1) t snap b S3 = (r, S')" by simp
    show ?thesis
    proof (cases "b \<or> turn_cap_reached (wa_turn S + 1) (wc_max_turns C) \<or> wall_clock_exceeded t (wc_max_clock_s C)")
      case True
      with d h same show ?thesis
        by (auto simp: decide_def turn_cap_reached_def wall_clock_exceeded_def split: if_splits
            intro!: tick_ends.satisfied tick_ends.turns_exhausted tick_ends.clock_exceeded)
    next
      case False
      then show ?thesis
        using d same by (auto simp: decide_def turn_cap_reached_def intro: perform_turn_ends)
    qed
  qed
qed

section \<open>The loop ends\<close>

text \<open>
  The turn counter only grows and a tick that asks for another has not reached the cap, so the
  loop ends, with a tick taken in a state that has every property the ticks before it keep.
\<close>

lemma performed_turn:
  assumes "tick V C P B S = (Inr None, S')"
  shows "wa_turn S < wa_turn S'" "wa_turn S' < wc_max_turns C"
  using tick_cases [OF assms] by (auto elim: tick_ends.cases)

definition last_tick ::
  "'w watch_env \<Rightarrow> watch_conf \<Rightarrow> stop_predicate \<Rightarrow> baselines \<Rightarrow> 'w watch_state \<Rightarrow> int res \<Rightarrow> 'w watch_state \<Rightarrow> bool" where
  "last_tick V C P B S r S' = (case r of
     Inl x \<Rightarrow> tick V C P B S = (Inl x, S') | Inr c \<Rightarrow> tick V C P B S = (Inr (Some c), S'))"

lemma watch_loop_ends:
  assumes "I S" and step: "\<And>S S'. I S \<Longrightarrow> tick V C P B S = (Inr None, S') \<Longrightarrow> I S'"
  shows "\<exists>r S' S0. watch_loop V C P B S = Some (r, S') \<and> I S0 \<and> last_tick V C P B S0 r S'"
  using assms(1)
proof (induction "nat (wc_max_turns C - wa_turn S)" arbitrary: S rule: less_induct)
  case less
  obtain t S1 where t: "tick V C P B S = (t, S1)" by (cases "tick V C P B S")
  note loop = watch_loop.simps [of V C P B S, unfolded t]
  show ?case
  proof (cases t)
    case (Inl x)
    with loop t less.prems show ?thesis by (auto simp: last_tick_def)
  next
    case (Inr oc)
    show ?thesis
    proof (cases oc)
      case None
      with Inr t have go: "tick V C P B S = (Inr None, S1)" by simp
      have "nat (wc_max_turns C - wa_turn S1) < nat (wc_max_turns C - wa_turn S)"
        using performed_turn [OF go] by linarith
      from less.hyps [OF this step [OF less.prems go]] show ?thesis using loop None Inr by simp
    next
      case (Some c)
      with loop t Inr less.prems show ?thesis by (auto simp: last_tick_def)
    qed
  qed
qed

text \<open>What the ticks keep: the counters agree with the records, and the model sees three turns at most.\<close>

definition watch_inv :: "watch_conf \<Rightarrow> 'w watch_state \<Rightarrow> bool" where
  "watch_inv C S \<longleftrightarrow>
     int (length (turns S)) = wa_turn S \<and> wa_turn S \<le> max 0 (wc_max_turns C - 1) \<and>
     wa_errors S < max_consecutive_llm_errors \<and> length (wa_history S) \<le> 3 \<and>
     (\<exists>ts fs. turns S = ts @ fs \<and> length fs = wa_errors S \<and> list_all failed fs)"

lemma tick_keeps_inv:
  assumes "watch_inv C S" and "tick V C P B S = (Inr None, S')"
  shows "watch_inv C S'"
  using tick_cases [OF assms(2)]
proof cases
  case (performed d)
  obtain ts fs where fs: "turns S = ts @ fs" "length fs = wa_errors S" "list_all failed fs"
    using assms(1) by (auto simp: watch_inv_def)
  have t: "turns S' = ts @ fs @ [d]" using performed(2,3) fs(1) by (simp add: turns_def)
  have "\<exists>ts' fs'. turns S' = ts' @ fs' \<and> length fs' = wa_errors S' \<and> list_all failed fs'"
  proof (cases "failed d")
    case True
    with t fs performed(4) show ?thesis by (intro exI [of _ ts] exI [of _ "fs @ [d]"]) simp
  next
    case False
    with t performed(4) show ?thesis by (intro exI [of _ "ts @ fs @ [d]"] exI [of _ "[]"]) simp
  qed
  with assms(1) performed t fs(1) show ?thesis by (auto simp: watch_inv_def)
qed

text \<open>The start leaves a state without turns.\<close>

lemma start_watch_state:
  assumes "start_watch V C B \<lparr>wa_world = w, wa_records = [], wa_history = [], wa_errors = 0, wa_turn = 0\<rparr> = (r, S)"
  shows "watch_inv C S" "turns S = []" "r = Inr (P, B') \<Longrightarrow> resolve_stop V (wc_stop_spec C) = Inr P"
proof -
  let ?S = "\<lparr>wa_world = w, wa_records = [], wa_history = [], wa_errors = 0, wa_turn = 0\<rparr>"
  have "turns S = [] \<and> wa_turn S = 0 \<and> wa_errors S = 0 \<and> wa_history S = [] \<and>
      (\<forall>P B'. r = Inr (P, B') \<longrightarrow> resolve_stop V (wc_stop_spec C) = Inr P)"
    using assms
    by (auto simp: start_watch_def seq_def emit_def modify_def in_world_def asking_def turns_def is_turn_def Let_def
        split: sum.splits prod.splits)
  then show "watch_inv C S" "turns S = []" "r = Inr (P, B') \<Longrightarrow> resolve_stop V (wc_stop_spec C) = Inr P"
    by (auto simp: watch_inv_def max_consecutive_llm_errors_def)
qed

text \<open>How a run ends: while it starts, or with a last tick.\<close>

lemma drive_ends:
  obtains (not_started) x S where "drive V C B w = Some (Inl x, S)" "turns S = []"
  | (ended) r S S0 P B' where "drive V C B w = Some (r, S)" "resolve_stop V (wc_stop_spec C) = Inr P"
      "watch_inv C S0" "last_tick V C P B' S0 r S"
proof -
  obtain t S1 where t: "start_watch V C B \<lparr>wa_world = w, wa_records = [], wa_history = [], wa_errors = 0, wa_turn = 0\<rparr> = (t, S1)"
    by (cases "start_watch V C B \<lparr>wa_world = w, wa_records = [], wa_history = [], wa_errors = 0, wa_turn = 0\<rparr>")
  show thesis
  proof (cases t)
    case (Inl x)
    then show thesis using t start_watch_state(2) [OF t] by (intro not_started) (simp_all add: drive_def)
  next
    case (Inr PB)
    obtain P B' where PB: "PB = (P, B')" by (cases PB)
    obtain r S S0 where "watch_loop V C P B' S1 = Some (r, S)" "watch_inv C S0" "last_tick V C P B' S0 r S"
      using watch_loop_ends [of "watch_inv C" S1 V C P B', OF start_watch_state(1) [OF t]] tick_keeps_inv by blast
    then show thesis using t start_watch_state(3) [OF t, of P B'] by (intro ended) (simp_all add: drive_def Inr PB)
  qed
qed

lemma drive_returns: "\<exists>r S. drive V C B w = Some (r, S)"
  by (cases rule: drive_ends [of V C B w]) auto

text \<open>
  C32: A watchdog always ends, whatever the model, the tools and the clock do: with an exit
  code or with an exception, after at most one turn less than the scenario's cap and, when the
  cap is below two, without any turn.
\<close>

theorem watchdog_returns:
  "\<exists>r S. drive V C B w = Some (r, S) \<and> int (length (turns S)) \<le> max 0 (wc_max_turns C - 1)"
proof (cases rule: drive_ends [of V C B w])
  case (not_started x S)
  then show ?thesis by simp
next
  case (ended r S S0 P B')
  have "int (length (turns S)) \<le> max 0 (wc_max_turns C - 1)"
  proof (cases r)
    case (Inl x)
    with ended(4) have "tick V C P B' S0 = (Inl x, S)" by (simp add: last_tick_def)
    from tick_cases [OF this] ended(3) show ?thesis by cases (auto simp: watch_inv_def turns_def)
  next
    case (Inr c)
    with ended(4) have "tick V C P B' S0 = (Inr (Some c), S)" by (simp add: last_tick_def)
    from tick_cases [OF this] ended(3) show ?thesis by cases (auto simp: watch_inv_def turns_def)
  qed
  with ended(1) show ?thesis by blast
qed

section \<open>Exit codes\<close>

text \<open>What a list of records must show for the exit code of a run.\<close>

inductive explained ::
  "'w watch_env \<Rightarrow> watch_conf \<Rightarrow> stop_predicate \<Rightarrow> baselines \<Rightarrow> dict list \<Rightarrow> int \<Rightarrow> bool" for V C P B where
  satisfied: "holds_at (wv_stop V) B P snap = Inr True \<Longrightarrow>
    explained V C P B (rs @ [stop_json ''stop_predicate_satisfied'' n e
      [(''stop_predicate'', JStr (wc_stop_spec C)), (''snapshot'', JObj snap)]]) exit_ok"
| exhausted: "holds_at (wv_stop V) B P snap = Inr False \<Longrightarrow> n = max 1 (wc_max_turns C) \<Longrightarrow>
    length (filter is_turn rs) = nat (n - 1) \<Longrightarrow>
    explained V C P B (rs @ [stop_json ''max_total_turns'' n e [(''snapshot'', JObj snap)]]) exit_turns_exhausted"
| late: "holds_at (wv_stop V) B P snap = Inr False \<Longrightarrow> of_int (wc_max_clock_s C) \<le> t \<Longrightarrow>
    explained V C P B (rs @ [stop_json ''max_wall_clock_s'' n (wv_float V t) [(''snapshot'', JObj snap)]]) exit_wall_clock"
| failures: "filter is_turn rs = ts @ fs \<Longrightarrow> length fs = max_consecutive_llm_errors \<Longrightarrow> list_all failed fs \<Longrightarrow>
    explained V C P B (rs @ [stop_json ''llm_errors'' n e
      [(''consecutive_llm_errors'', JInt (int max_consecutive_llm_errors))]]) exit_llm_errors"

lemma last_tick_explained:
  assumes "watch_inv C S0" and "tick V C P B S0 = (Inr (Some c), S)"
  shows "explained V C P B (wa_records S) c"
  using tick_cases [OF assms(2)]
proof cases
  case (satisfied snap e)
  then show ?thesis by (simp add: explained.satisfied)
next
  case (turns_exhausted snap e)
  with assms(1) show ?thesis by (auto simp: watch_inv_def turns_def intro!: explained.exhausted)
next
  case (clock_exceeded snap t)
  then show ?thesis by (simp add: explained.late)
next
  case (too_many_failures d e)
  obtain ts fs where fs: "turns S0 = ts @ fs" "length fs = wa_errors S0" "list_all failed fs"
    and five: "Suc (wa_errors S0) = max_consecutive_llm_errors"
    using assms(1) too_many_failures(5) by (auto simp: watch_inv_def)
  have "explained V C P B ((wa_records S0 @ [d]) @ [stop_json ''llm_errors'' (wa_turn S0 + 1) e
      [(''consecutive_llm_errors'', JInt (int max_consecutive_llm_errors))]]) exit_llm_errors"
    by (rule explained.failures [of _ ts "fs @ [d]"])
      (use fs five too_many_failures(3,4) in \<open>simp_all add: turns_def\<close>)
  then show ?thesis using too_many_failures(1,6) five by simp
qed

text \<open>
  C33: The exit code of a watchdog tells the truth: 0 only with a snapshot on record that
  satisfies the scenario's predicate, 1 only at the turn cap, with all its turns on record, 2
  only with a time on record at or past the limit, and 3 only after five failed turns in a row.
\<close>

theorem exit_code_explained:
  assumes "drive V C B w = Some (Inr code, S)"
  shows "\<exists>P B'. resolve_stop V (wc_stop_spec C) = Inr P \<and> explained V C P B' (wa_records S) code"
proof (cases rule: drive_ends [of V C B w])
  case (not_started x S1)
  with assms show ?thesis by simp
next
  case (ended r S1 S0 P B')
  with assms have "tick V C P B' S0 = (Inr (Some code), S)" by (simp add: last_tick_def)
  from last_tick_explained [OF ended(3) this] ended(2) show ?thesis by blast
qed

text \<open>A watchdog whose world stands still; its model always fails.\<close>

definition still_world :: "unit watch_env" where
  "still_world =
     \<lparr>wv_stop = \<lparr>se_int_ge_float = (\<lambda>_ _. False), se_float_ge_one = (\<lambda>_. False), se_read_float = (\<lambda>_. None)\<rparr>,
      wv_collect = ret [(''peers'', JList [JNull, JNull])], wv_elapsed = (\<lambda>w. (0, w)), wv_time = (\<lambda>w. (JInt 0, w)),
      wv_driver = (\<lambda>_. ''openclaw''), wv_direct = (\<lambda>_ _ _. ret (False, JNull, ''down'')),
      wv_openclaw = (\<lambda>_ _. ret (False, JStr [], ''down'')), wv_sleep = (\<lambda>_ w. w), wv_float = (\<lambda>_. JInt 0)\<rparr>"

definition sample_watch :: "string \<Rightarrow> watch_conf" where
  "sample_watch spec =
     \<lparr>wc_instance = ''demo-bob'', wc_agent_id = ''bob'', wc_stop_spec = spec, wc_mission = ''wait'', wc_interval_s = 10,
      wc_max_iterations = 2, wc_max_turns = 9, wc_max_clock_s = 100\<rparr>"

lemma still_world_fields:
  "wv_collect still_world = ret [(''peers'', JList [JNull, JNull])]" "wv_elapsed still_world = (\<lambda>w. (0, w))"
  "wv_time still_world = (\<lambda>w. (JInt 0, w))"
  by (simp_all add: still_world_def)

lemma sample_resolves:
  "resolve_predicate (wv_stop still_world) ''peer_count_gte_N(n=2)'' = Inr (PeerCount (JInt 2))"
  by code_simp

lemma exit_code_explained_witness:
  "\<exists>S. drive still_world (sample_watch ''peer_count_gte_N(n=2)'') [] () = Some (Inr exit_ok, S) \<and>
     explained still_world (sample_watch ''peer_count_gte_N(n=2)'') (PeerCount (JInt 2)) [] (wa_records S) exit_ok"
proof -
  let ?C = "sample_watch ''peer_count_gte_N(n=2)''"
  have res: "resolve_stop still_world (wc_stop_spec ?C) = Inr (PeerCount (JInt 2))"
    by (simp add: resolve_stop_def sample_resolves sample_watch_def)
  have "\<exists>S. drive still_world ?C [] () = Some (Inr exit_ok, S)"
    by (simp add: drive_def start_watch_def res seq_def in_world_def asking_def emit_def modify_def set_baseline_def
        field_of_def get_or_def watch_loop.simps tick_def next_turn_def len_of_def elements_of_def int_ge_def decide_def
        still_world_fields)
  then obtain S where S: "drive still_world ?C [] () = Some (Inr exit_ok, S)" by blast
  from exit_code_explained [OF S] res obtain B' where "explained still_world ?C (PeerCount (JInt 2)) B' (wa_records S) exit_ok"
    by auto
  then have "explained still_world ?C (PeerCount (JInt 2)) [] (wa_records S) exit_ok"
    by cases (simp_all add: explained.intros)
  with S show ?thesis by blast
qed

end
