(* ===== verification/State_Snapshot.thy ===== *)
theory State_Snapshot
  imports Overlay_Tools
begin

text \<open>
  The state snapshot of an agent (deploy/state_snapshot.py): a JSON value of the network, the
  wallet, the replayed community, the peers, the loaded overlays, the torrents and the security
  evidence, taken for the prompt and for the stop predicates.

  Parameters: the clock, the agent id and endpoint, the addresses of peers, what a live overlay
  has indexed and received, the torrent service's statistics, and the evidence file.
\<close>

section \<open>Network and wallet\<close>

definition identity_text :: "network_manifest \<Rightarrow> string \<Rightarrow> json" where
  "identity_text m k = JStr (case map_of (nm_identity m) k of Some s \<Rightarrow> s | None \<Rightarrow> [])"

definition admission_json :: "admission_policy \<Rightarrow> json" where
  "admission_json a = JObj
     [(''gatekeeper_address'', JStr (gatekeeper_address a)),
      (''min_sats'', JInt (min_sats a)),
      (''min_confirmations'', JInt (min_confirmations a)),
      (''bootstrap_cap_sats'', JInt (effective_bootstrap_cap_sats a)),
      (''max_agents_per_seedbox'', JInt (max_agents_per_seedbox a)),
      (''seedbox_cost_sats'', JInt (seedbox_cost_sats a)),
      (''seedbox_growth_enabled'', JBool (seedbox_growth_enabled a))]"

definition network_snapshot :: "network_manifest option \<Rightarrow> json" where
  "network_snapshot manifest = (case manifest of
     None \<Rightarrow> JNull
   | Some m \<Rightarrow> JObj
       [(''network_id_hex'', JStr (network_id_hex m)),
        (''name'', identity_text m ''name''),
        (''version'', identity_text m ''version''),
        (''description'', identity_text m ''description''),
        (''admission'', admission_json (admission m)),
        (''genesis_peers'', JList (map (\<lambda>g. JObj [(''host'', JStr (gp_host g)), (''port'', JInt (gp_port g)),
           (''pubkey_hex'', JStr (gp_pubkey_hex g))]) (genesis_peers m))),
        (''default_overlays'', JList (map JStr (default_overlays m)))])"

definition wallet_snapshot :: "agent_conf \<Rightarrow> wallet \<Rightarrow> json" where
  "wallet_snapshot C w =
     JObj [(''address'', JStr (wallet_address (ac_env C) w)), (''balance_sats'', JInt (wallet_balance w))]"

section \<open>Community\<close>

definition log_row :: "dict \<Rightarrow> json res" where
  "log_row entry = bindr (details_of entry) (\<lambda>details.
     Inr (JObj
       [(''action'', jget entry ''action''), (''reporter_id'', jget entry ''reporter_id''),
        (''entry_hash'', jget entry ''entry_hash''), (''amount_sats'', jget details ''amount_sats''),
        (''cost_sats'', jget details ''cost_sats''),
        (''purchase_intent_hash'', jget details ''purchase_intent_hash''),
        (''seedbox_url'', jget details ''seedbox_url'')]))"

text \<open>The rows of the last ten entries in the order of the replay.\<close>

definition recent_rows :: "agent_conf \<Rightarrow> dict list \<Rightarrow> json list res" where
  "recent_rows C entries =
     bindr (sort_entries (ac_fless C) entries) (\<lambda>ordered. mapr log_row (drop (length ordered - 10) ordered))"

definition ledger_view :: "agent_conf \<Rightarrow> network_manifest \<Rightarrow> community_state \<Rightarrow> json list \<Rightarrow> json" where
  "ledger_view C m c rows = JObj
     [(''balance_sats'', JInt (balance_sats c)), (''member_count'', JInt (member_count c)),
      (''seedbox_count'', JInt (seedbox_count c)), (''pending_purchases'', JInt (pending_purchases c)),
      (''threshold_active'', JBool (threshold_active m c)),
      (''my_membership_status'', JStr (if reporter_id C \<in> set (members c) then ''admitted'' else ''outsider'')),
      (''members'', JList (map JStr (sort (members c)))),
      (''recent_log_entries'', JList rows)]"

definition community_snapshot :: "agent_conf \<Rightarrow> (json, agent) step" where
  "community_snapshot C A = (case ag_manifest A of
     None \<Rightarrow> (Inr JNull, A)
   | Some m \<Rightarrow>
       seq (community_state_of C) (\<lambda>st. case st of
         None \<Rightarrow> ret JNull
       | Some c \<Rightarrow>
           seq (all_community_entries C) (\<lambda>entries.
           seq (raising (recent_rows C entries)) (\<lambda>rows.
           ret (ledger_view C m c rows)))) A)"

section \<open>Peers\<close>

definition peer_row :: "(bytes \<Rightarrow> json) \<Rightarrow> node \<Rightarrow> bytes \<Rightarrow> json" where
  "peer_row address n mid =
     (let meta = map_of (nd_peer_meta n) mid in JObj
       [(''mid_hex'', JStr (bytes_hex mid)), (''address'', address mid),
        (''wallet_address'', case meta of Some p \<Rightarrow> JStr (pm_wallet_address p) | None \<Rightarrow> JNull),
        (''known_overlays'', JList (case meta of Some p \<Rightarrow> map (JStr \<circ> bytes_hex) (pm_known_overlays p) | None \<Rightarrow> []))])"

definition peers_snapshot :: "(bytes \<Rightarrow> json) \<Rightarrow> (json, agent) step" where
  "peers_snapshot address = with_seedbox (\<lambda>n. (JList (map (peer_row address n) (nd_verified n)), n))"

section \<open>Overlays\<close>

definition truncate_text :: "string \<Rightarrow> nat \<Rightarrow> string" where
  "truncate_text text n = (if length text \<le> n then text else take (n - 3) text @ ''...'')"

definition handler_summary_max_chars :: nat where
  "handler_summary_max_chars = 240"

definition named_field :: "string \<Rightarrow> string \<Rightarrow> json" where
  "named_field name encoding = JObj [(''name'', JStr name), (''encoding'', JStr encoding)]"

definition summary_json :: "string \<Rightarrow> json \<Rightarrow> json list \<Rightarrow> string \<Rightarrow> json" where
  "summary_json name mid fs summary = JObj
     [(''name'', JStr name), (''msg_id'', mid), (''fields'', JList fs), (''handler_summary'', JStr summary)]"

definition message_summary :: "message_def \<Rightarrow> json" where
  "message_summary m = summary_json (md_name m) (JInt (msg_id m))
     (map (\<lambda>f. named_field (mf_name f) (mf_encoding f)) (md_fields m))
     (truncate_text (handler_text m) handler_summary_max_chars)"

definition payload_summary :: "string \<times> 'o payload_member \<Rightarrow> json" where
  "payload_summary p = summary_json (fst p) (case pm_msg_id (snd p) of Some n \<Rightarrow> JInt n | None \<Rightarrow> JNull)
     (map (\<lambda>(n, fmt). named_field n fmt)
       (zip (case pm_names (snd p) of Some ns \<Rightarrow> ns | None \<Rightarrow> [])
            (case pm_format_list (snd p) of Some fs \<Rightarrow> fs | None \<Rightarrow> []))) []"

text \<open>The index and the cache of the live instance, each a list.\<close>

record 'o overlay_view =
  ov_env :: "'o overlay_env"
  ov_index :: "'o instance_obj \<Rightarrow> json list"
  ov_cache :: "'o instance_obj \<Rightarrow> json list"

definition overlay_snapshot :: "'o overlay_view \<Rightarrow> 'o registry \<Rightarrow> bytes \<Rightarrow> json res" where
  "overlay_snapshot W R cid = (case map_of (rg_compiled R) cid of
     None \<Rightarrow> Inl (KeyError (bytes_hex cid))
   | Some compiled \<Rightarrow>
       (let described = (case co_parsed compiled of
              Some parsed \<Rightarrow>
                (section_body (po_identity parsed) ''name'', section_body (po_identity parsed) ''version'',
                 map message_summary (po_messages parsed))
            | None \<Rightarrow>
                (class_name (oe_surroundings (ov_env W)) (co_class compiled), [],
                 map (\<lambda>(n, c). payload_summary (n, oe_member (ov_env W) c)) (co_payload_classes compiled)));
            inst = get_overlay R cid;
            index = (case inst of Some i \<Rightarrow> ov_index W i | None \<Rightarrow> []);
            cache = (case inst of Some i \<Rightarrow> ov_cache W i | None \<Rightarrow> [])
        in Inr (JObj
          [(''community_id_hex'', JStr (bytes_hex cid)), (''origin'', JStr (co_origin compiled)),
           (''name'', JStr (fst described)), (''version'', JStr (fst (snd described))),
           (''messages'', JList (snd (snd described))),
           (''local_index'', JList (take 10 index)),
           (''response_cache'', JList (drop (length cache - 10) cache))])))"

definition overlays_snapshot :: "'o overlay_view \<Rightarrow> 'o registry \<Rightarrow> json res" where
  "overlays_snapshot W R = bindr (mapr (overlay_snapshot W R) (list_loaded R)) (\<lambda>rows. Inr (JList rows))"

section \<open>Torrents\<close>

record torrent_stats =
  ts_magnet :: string
  ts_name :: string
  ts_progress :: string
  ts_seeding :: bool
  ts_save_path :: "string option"
  ts_peers :: int

definition torrents_snapshot :: "torrent_stats list \<Rightarrow> json" where
  "torrents_snapshot stats = JList (map (\<lambda>t. JObj
     [(''magnet'', JStr (ts_magnet t)), (''name'', JStr (ts_name t)), (''progress'', JFloat (ts_progress t)),
      (''seeding'', JBool (ts_seeding t)),
      (''save_path'', case ts_save_path t of Some p \<Rightarrow> JStr p | None \<Rightarrow> JNull),
      (''peers'', JInt (ts_peers t))]) stats)"

section \<open>Security evidence\<close>

text \<open>The evidence file: absent, unreadable with the text of the exception, or its text.\<close>

datatype evidence_file = NoFile | Unreadable string | EvidenceText string

definition type_name :: "json \<Rightarrow> string" where
  "type_name v = (case v of
     JNull \<Rightarrow> ''NoneType'' | JBool b \<Rightarrow> ''bool'' | JInt n \<Rightarrow> ''int'' | JFloat t \<Rightarrow> ''float''
   | JStr s \<Rightarrow> ''str'' | JList vs \<Rightarrow> ''list'' | JObj d \<Rightarrow> ''dict'')"

definition no_evidence :: "string \<Rightarrow> dict \<Rightarrow> json" where
  "no_evidence path more_fields =
     JObj ([(''ok'', JBool False), (''layers'', JObj []), (''checklist'', JObj []), (''path'', JStr path)] @ more_fields)"

definition security_snapshot ::
  "(string \<Rightarrow> string) \<Rightarrow> (string \<Rightarrow> string) \<Rightarrow> (string \<Rightarrow> evidence_file) \<Rightarrow> string \<Rightarrow> json" where
  "security_snapshot fr decode_error files path =
     (if path = [] then JNull
      else (case files path of
        NoFile \<Rightarrow> no_evidence path []
      | Unreadable t \<Rightarrow> no_evidence path [(''error'', JStr t)]
      | EvidenceText text \<Rightarrow>
          (case loads fr text of
             None \<Rightarrow> no_evidence path [(''error'', JStr (decode_error text))]
           | Some (JObj d) \<Rightarrow> JObj (AList.update ''path'' (JStr path) d)
           | Some v \<Rightarrow> no_evidence path [(''error'', JStr (''expected object, got '' @ type_name v))])))"

section \<open>The snapshot\<close>

record 'o snapshot_env =
  sn_ts :: json
  sn_agent_id :: string
  sn_address :: "json list"
  sn_peer_address :: "bytes \<Rightarrow> json"
  sn_overlays :: "'o overlay_view"
  sn_registry :: "'o registry"
  sn_torrents :: "torrent_stats list"
  sn_decode_error :: "string \<Rightarrow> string"
  sn_files :: "string \<Rightarrow> evidence_file"
  sn_evidence_path :: string

definition snapshot_json :: "agent_conf \<Rightarrow> 'o snapshot_env \<Rightarrow> json \<Rightarrow> json \<Rightarrow> json \<Rightarrow> agent \<Rightarrow> dict" where
  "snapshot_json C V community peers overlays A =
     [(''ts'', sn_ts V),
      (''agent'', JObj [(''agent_id'', JStr (sn_agent_id V)), (''pubkey_hex'', JStr (ac_pubkey_hex C)),
         (''ipv8_address'', JList (sn_address V)),
         (''wallet_address'', JStr (wallet_address (ac_env C) (ag_wallet A)))]),
      (''network'', network_snapshot (ag_manifest A)),
      (''wallet'', wallet_snapshot C (ag_wallet A)),
      (''community'', community),
      (''peers'', peers),
      (''overlays'', overlays),
      (''torrents'', torrents_snapshot (sn_torrents V)),
      (''security'', security_snapshot (float_repr (ac_env C)) (sn_decode_error V) (sn_files V)
         (sn_evidence_path V))]"

text \<open>
  Without the bootstrap community there is no endpoint, so a snapshot raises.  Taking the
  snapshot changes neither the wallet nor the manifest, so these are read at its end.
\<close>

definition collect_state :: "agent_conf \<Rightarrow> 'o snapshot_env \<Rightarrow> (dict, agent) step" where
  "collect_state C V =
     seq (with_seedbox (\<lambda>n. ((), n))) (\<lambda>_.
     seq (community_snapshot C) (\<lambda>community.
     seq (peers_snapshot (sn_peer_address V)) (\<lambda>peers.
     seq (raising (overlays_snapshot (sn_overlays V) (sn_registry V))) (\<lambda>overlays A.
     (Inr (snapshot_json C V community peers overlays A), A)))))"

end
