(* ===== verification/Shared_Logs.thy ===== *)
theory Shared_Logs
  imports Community_Agent_Spec
begin

text \<open>
  Several processes of one identity on one data directory, as deploy/scenario_boot.py sets
  them up: the service and the watchdog each run an agent of their own with the same
  community log file and the same directory of foreign logs.  A site is those agents; what
  one of them writes, the others find in the files, while their caches stay what they were.
  Operations of different agents do not overlap here.
\<close>

section \<open>An agent among others\<close>

text \<open>
  What stays true of an agent when others write to its files: the log verifies and no head
  cache on it, its own or another's, is wrong without noticing; the foreign files hold
  accepted entries; and both still begin with what they held at the start.  The caches of
  foreign logs, and the memo that is keyed by them, may be stale.
\<close>

type_synonym contents = "dict list \<times> (string \<Rightarrow> dict list)"

definition shared_ok :: "contents \<Rightarrow> nat \<Rightarrow> (nat \<Rightarrow> log_inst) \<Rightarrow> agent_conf \<Rightarrow> agent \<Rightarrow> bool" where
  "shared_ok start k insts C A =
     ((\<exists>es. prefix (fst start) es \<and>
        run_ok (ac_env C) (id_network (ac_identity C)) (ag_file A) (insts(k := ag_inst A)) es) \<and>
      peer_files_ok (ac_env C) (ag_peer_log A) \<and>
      (\<forall>s. prefix (snd start s) (read_entries_for (ac_env C) (ag_peer_log A) s)) \<and>
      peer_network (ag_peer_log A) = id_network (ac_identity C) \<and>
      own_id (ag_peer_log A) = Some (reporter_id C) \<and> wallet_ok (ag_wallet A) \<and>
      (ag_manifest A = None \<longrightarrow> ag_state_cache A = None))"

lemma peer_files_ok_cong:
  assumes "peer_files_ok E p" and "peer_files p' = peer_files p" and "peer_network p' = peer_network p"
  shows "peer_files_ok E p'"
proof -
  have "peer_files_rep E p' (read_entries_for E p)"
    using assms by (simp add: peer_files_ok_def peer_files_rep_def)
  then show ?thesis by (rule peer_files_rep_read)
qed

lemma read_entries_cong: "peer_files p' = peer_files p \<Longrightarrow> read_entries_for E p' s = read_entries_for E p s"
  by (simp add: read_entries_for_def)

lemma has_entry_same:
  "has_entry_hash E p s h = Inr (b, p') \<Longrightarrow> peer_files p' = peer_files p \<and> peer_network p' = peer_network p \<and> own_id p' = own_id p"
  by (auto simp: has_entry_hash_def bindr_Inr_iff split: option.splits)

lemma latest_hash_for_same:
  "latest_hash_for E p s = Inr (t, p') \<Longrightarrow> peer_files p' = peer_files p \<and> peer_network p' = peer_network p \<and> own_id p' = own_id p"
  by (auto simp: latest_hash_for_def bindr_Inr_iff dest: has_entry_same split: option.splits)

lemma shared_caches:
  assumes "shared_ok start k insts C A" and "peer_files p = peer_files (ag_peer_log A)"
    and "peer_network p = peer_network (ag_peer_log A)" and "own_id p = own_id (ag_peer_log A)"
  shows "shared_ok start k insts C (A\<lparr>ag_peer_log := p\<rparr>)"
proof -
  have "read_entries_for (ac_env C) p s = read_entries_for (ac_env C) (ag_peer_log A) s" for s
    by (rule read_entries_cong [OF assms(2)])
  moreover have "peer_files_ok (ac_env C) p"
    by (rule peer_files_ok_cong [OF _ assms(2,3)]) (use assms(1) in \<open>simp add: shared_ok_def\<close>)
  ultimately show ?thesis using assms by (simp add: shared_ok_def)
qed

lemma shared_peer_head: "keeps (shared_ok start k insts C) (peer_head C s) (\<lambda>_. True)"
  by (auto simp: keeps_def peer_head_def dest!: latest_hash_for_same intro: shared_caches split: sum.split)

lemma shared_peer_heads: "keeps (shared_ok start k insts C) (peer_heads C ss) (\<lambda>_. True)"
proof (induction ss)
  case (Cons s ss)
  then show ?case unfolding peer_heads.simps by (intro keeps_seq_True shared_peer_head) (simp_all add: keeps_ret)
qed (simp add: keeps_ret [unfolded ret_def] ret_def)

lemma shared_own_head: "keeps (shared_ok start k insts C) (own_head C) (\<lambda>_. True)"
proof -
  have "\<exists>es. prefix es0 es \<and> run_ok E net f (insts(k := inst')) es"
    if "prefix es0 es" "run_ok E net f (insts(k := i)) es" "latest_hash E f i = Inr (h, inst')" for E net f i es0 es h inst'
    using run_ok_lookup [OF that(2), of k h inst'] that(1,3) by auto
  then show ?thesis
    by (auto simp: keeps_def own_head_def shared_ok_def split: sum.split)
qed

lemma shared_heads: "keeps (shared_ok start k insts C) (current_heads C) (\<lambda>_. True)"
  unfolding current_heads_def
proof (rule keeps_seq_True [OF shared_own_head])
  fix h
  have "keeps (shared_ok start k insts C) (seq (peer_heads C ss) (\<lambda>ts. ret (h, sort_key fst ts))) (\<lambda>_. True)" for ss
    by (intro keeps_seq_True shared_peer_heads) (simp add: keeps_ret)
  then show "keeps (shared_ok start k insts C) (\<lambda>A. seq (peer_heads C (list_sources (ag_peer_log A)))
      (\<lambda>ts. ret (h, sort_key fst ts)) A) (\<lambda>_. True)"
    by (simp add: keeps_def)
qed

lemma heads_manifest: "current_heads C A = (r, A') \<Longrightarrow> ag_manifest A' = ag_manifest A"
proof -
  have p: "peer_heads C ss B = (q, B') \<Longrightarrow> ag_manifest B' = ag_manifest B" for ss B q B'
  proof (induction ss arbitrary: B q)
    case (Cons s ss)
    have "ag_manifest (snd (peer_head C s B)) = ag_manifest B" by (simp add: peer_head_def split: sum.split)
    with Cons show ?case by (cases "peer_head C s B") (auto simp: seq_def ret_def split: sum.splits prod.splits)
  qed (simp add: ret_def)
  have o1: "ag_manifest (snd (own_head C A)) = ag_manifest A" by (simp add: own_head_def split: sum.split)
  assume "current_heads C A = (r, A')"
  with o1 show ?thesis
    by (cases "own_head C A") (auto simp: current_heads_def seq_def ret_def dest: p split: sum.splits prod.splits)
qed

lemma shared_state: "keeps (shared_ok start k insts C) (community_state_of C) (\<lambda>_. True)"
  unfolding keeps_def
proof (intro allI impI conjI TrueI)
  fix A assume ok: "shared_ok start k insts C A"
  show "shared_ok start k insts C (snd (community_state_of C A))"
  proof (cases "ag_manifest A")
    case None
    with ok show ?thesis by (simp add: community_state_of_def)
  next
    case (Some m)
    obtain r A1 where h: "current_heads C A = (r, A1)" by (cases "current_heads C A")
    have ok1: "shared_ok start k insts C A1" using keeps_result [OF shared_heads h ok] .
    have m1: "ag_manifest A1 = Some m" using heads_manifest [OF h] Some by simp
    have "shared_ok start k insts C (snd (replay_and_cache C m key A1))" for key
      using ok1 m1 by (auto simp: replay_and_cache_def seq_def raising_def modify_def ret_def all_community_entries_def
          shared_ok_def split: sum.split)
    with Some h ok1 show ?thesis
      by (auto simp: community_state_of_def seq_def split: sum.split option.split)
  qed
qed

lemma shared_sign:
  assumes "agent_conf_ok C" and "wf_dict (float_repr (ac_env C)) details"
  shows "keeps (shared_ok start k insts C) (sign_event C action details) (\<lambda>_. True)"
  unfolding keeps_def
proof (intro allI impI conjI TrueI)
  fix A assume ok: "shared_ok start k insts C A"
  then obtain es where run: "prefix (fst start) es"
    "run_ok (ac_env C) (id_network (ac_identity C)) (ag_file A) (insts(k := ag_inst A)) es"
    by (auto simp: shared_ok_def)
  obtain now ts where clk: "ac_clock C (ag_tick A) = (now, ts)" by (cases "ac_clock C (ag_tick A)")
  let ?app = "append_event (ac_env C) (ac_identity C) (ag_file A) (ag_inst A) now ts (reporter_id C) (reporter_id C) action details 0 None"
  show "shared_ok start k insts C (snd (sign_event C action details A))"
  proof (cases ?app)
    case (Inl x)
    with ok clk show ?thesis by (simp add: sign_event_def)
  next
    case (Inr r)
    obtain e f inst where r: "r = (e, f, inst)" by (cases r)
    have ev: "evidence_wf (ac_env C) None" by (simp add: evidence_wf_def)
    have "run_ok (ac_env C) (id_network (ac_identity C)) f ((insts(k := ag_inst A))(k := inst)) (es @ [e])"
      by (rule run_ok_append [OF _ run(2) assms(2) ev])
        (use assms(1) Inr r in \<open>simp_all add: agent_conf_ok_def reporter_id_def\<close>)
    moreover have "prefix (fst start) (es @ [e])" using run(1) by simp
    ultimately have "\<exists>es. prefix (fst start) es \<and>
        run_ok (ac_env C) (id_network (ac_identity C)) f (insts(k := inst)) es"
      by (intro exI [of _ "es @ [e]"]) simp
    with ok clk Inr r show ?thesis by (simp add: sign_event_def shared_ok_def)
  qed
qed

lemma shared_submit:
  assumes "wf_json (float_repr (ac_env C)) v"
  shows "keeps (shared_ok start k insts C) (submit_entry C v) (\<lambda>_. True)"
  unfolding keeps_def
proof (intro allI impI conjI TrueI)
  fix A assume ok: "shared_ok start k insts C A"
  then have rep: "peer_files_rep (ac_env C) (ag_peer_log A) (read_entries_for (ac_env C) (ag_peer_log A))"
    by (simp add: shared_ok_def peer_files_ok_def)
  obtain r M' where acc: "accept_by (ac_env C) (peer_network (ag_peer_log A)) (own_id (ag_peer_log A))
      (known_hashes (ac_env C) (ag_peer_log A)) (read_entries_for (ac_env C) (ag_peer_log A)) v = (r, M')"
    by (metis surj_pair)
  from accept_entry_files [OF rep assms acc] obtain p where
    "accept_entry (ac_env C) (ag_peer_log A) v = Inr (r, p)" "peer_files_rep (ac_env C) p M'"
    "peer_network p = peer_network (ag_peer_log A)" "own_id p = own_id (ag_peer_log A)" .
  moreover from this(2) have "peer_files_ok (ac_env C) p" "read_entries_for (ac_env C) p = M'"
    by (rule peer_files_rep_read(2), rule peer_files_rep_read(1))
  moreover have "prefix (snd start s) (M' s)" for s
    using accept_by_grows [OF acc, of s] ok by (auto simp: shared_ok_def intro: prefix_order.trans)
  ultimately show "shared_ok start k insts C (snd (submit_entry C v A))"
    using ok by (simp add: submit_entry_def shared_ok_def)
qed

interpretation shared: agent_order "shared_ok start k insts" for start k insts
proof
  show "shared_ok start k insts C A'" if "shared_ok start k insts C A" "ag_file A' = ag_file A" "ag_inst A' = ag_inst A"
    "ag_peer_log A' = ag_peer_log A" "ag_state_cache A' = ag_state_cache A" "wallet_ok (ag_wallet A')"
    "ag_manifest A' = ag_manifest A \<or> ag_state_cache A = None" for C A A'
    using that by (auto simp: shared_ok_def)
qed (auto simp: shared_state shared_sign shared_submit, simp_all add: shared_ok_def)

section \<open>Sites\<close>

type_synonym site = "nat \<Rightarrow> agent"

text \<open>What an agent finds on the disk after another has worked.\<close>

definition see_files :: "agent \<Rightarrow> agent \<Rightarrow> agent" where
  "see_files A B = B\<lparr>ag_file := ag_file A,
     ag_peer_log := (ag_peer_log B)\<lparr>peer_files := peer_files (ag_peer_log A)\<rparr>\<rparr>"

definition settle :: "nat \<Rightarrow> agent \<Rightarrow> site \<Rightarrow> site" where
  "settle k A S = (\<lambda>j. if j = k then A else see_files A (S j))"

definition site_step :: "agent_conf \<Rightarrow> site \<Rightarrow> nat \<times> agent_event \<Rightarrow> site" where
  "site_step C S = (\<lambda>(k, ev). settle k (agent_step C (S k) ev) S)"

definition site_run :: "agent_conf \<Rightarrow> (nat \<times> agent_event) list \<Rightarrow> site \<Rightarrow> site" where
  "site_run C evs S = foldl (site_step C) S evs"

text \<open>Every agent of a site is in order among the others, and they all look at the same files.\<close>

definition site_ok :: "contents \<Rightarrow> agent_conf \<Rightarrow> site \<Rightarrow> bool" where
  "site_ok start C S = (\<forall>k. shared_ok start k (\<lambda>j. ag_inst (S j)) C (S k) \<and> ag_file (S k) = ag_file (S 0) \<and>
     peer_files (ag_peer_log (S k)) = peer_files (ag_peer_log (S 0)))"

lemma settle_ok:
  assumes S: "site_ok start C S" and A: "shared_ok start k (\<lambda>j. ag_inst (S j)) C A"
  shows "site_ok start C (settle k A S)"
proof -
  let ?S = "settle k A S" and ?net = "id_network (ac_identity C)"
  obtain es where run: "prefix (fst start) es"
    "run_ok (ac_env C) ?net (ag_file A) ((\<lambda>j. ag_inst (S j))(k := ag_inst A)) es"
    using A by (auto simp: shared_ok_def)
  have insts: "(\<lambda>j. ag_inst (?S j)) = (\<lambda>j. ag_inst (S j))(k := ag_inst A)"
    by (auto simp: settle_def see_files_def)
  have files: "ag_file (?S j) = ag_file A" "peer_files (ag_peer_log (?S j)) = peer_files (ag_peer_log A)" for j
    by (simp_all add: settle_def see_files_def)
  have rest: "peer_network (ag_peer_log (?S j)) = ?net" "own_id (ag_peer_log (?S j)) = Some (reporter_id C)"
    "wallet_ok (ag_wallet (?S j))" "ag_manifest (?S j) = None \<longrightarrow> ag_state_cache (?S j) = None" for j
    using S A by (auto simp: site_ok_def shared_ok_def settle_def see_files_def)
  have "peer_files_ok (ac_env C) (ag_peer_log A)" "peer_network (ag_peer_log A) = ?net"
    using A by (simp_all add: shared_ok_def)
  then have "peer_files_ok (ac_env C) (ag_peer_log (?S j))" for j
    using peer_files_ok_cong files(2) rest(1) by metis
  moreover have "\<exists>es. prefix (fst start) es \<and>
      run_ok (ac_env C) ?net (ag_file (?S j)) ((\<lambda>j. ag_inst (?S j))(j := ag_inst (?S j))) es" for j
    using run files(1) insts by (metis fun_upd_triv)
  moreover have "prefix (snd start s) (read_entries_for (ac_env C) (ag_peer_log (?S j)) s)" for j s
    using A read_entries_cong [OF files(2)] by (simp add: shared_ok_def)
  ultimately have "shared_ok start j (\<lambda>j. ag_inst (?S j)) C (?S j)" for j
    using rest unfolding shared_ok_def by blast
  then show ?thesis using files by (simp add: site_ok_def)
qed

lemma site_agent: "site_ok start C S \<Longrightarrow> shared_ok start k (\<lambda>j. ag_inst (S j)) C (S k)"
  by (simp add: site_ok_def)

lemma site_run_ok:
  assumes "agent_conf_ok C" and "\<forall>(k, ev) \<in> set evs. wf_agent_event C ev" and "site_ok start C S"
  shows "site_ok start C (site_run C evs S)"
  using assms(2,3) unfolding site_run_def
proof (induction evs arbitrary: S)
  case (Cons x evs)
  obtain k ev where x: "x = (k, ev)" by (cases x)
  have "site_ok start C (settle k (agent_step C (S k) ev) S)"
    by (rule settle_ok [OF Cons.prems(2) shared.step_kept [OF assms(1) site_agent [OF Cons.prems(2)]]])
      (use Cons.prems(1) x in simp)
  with Cons x show ?case by (simp add: site_step_def)
qed simp

text \<open>An agent whose caches are fresh, looked at by every process.\<close>

lemma single_site_ok:
  assumes "agent_inv C A" and "ag_inst A = \<lparr>latest_hash_cache = JNull, latest_sig = None\<rparr>"
    and "ag_manifest A = None \<longrightarrow> ag_state_cache A = None"
  shows "site_ok (own_entries C A, read_entries_for (ac_env C) (ag_peer_log A)) C (\<lambda>_. A)"
proof -
  obtain es M where st: "agent_state C A es M" using assms(1) by (auto simp: agent_inv_def)
  have "run_ok (ac_env C) (id_network (ac_identity C)) (ag_file A) (\<lambda>_. ag_inst A) es"
    using st assms(2) by (simp add: run_ok_def agent_state_def log_state_ok_def sig_seen_def)
  moreover have "own_entries C A = es" by (rule own_entries_eq [OF st])
  moreover have "peer_files_ok (ac_env C) (ag_peer_log A)"
    by (rule peer_inv_files) (use st peer_inv_rep in \<open>auto simp: agent_state_def\<close>)
  ultimately have "shared_ok (own_entries C A, read_entries_for (ac_env C) (ag_peer_log A)) k (\<lambda>_. ag_inst A) C A" for k
    using st assms(3) by (auto simp: shared_ok_def agent_state_def fun_upd_idem)
  then show ?thesis by (simp add: site_ok_def)
qed

text \<open>What a site in order means for its files.\<close>

lemma site_log:
  assumes "site_ok start C S"
  obtains es where "verify_integrity (ac_env C) (id_network (ac_identity C)) (ag_file (S 0)) = (True, [])"
    and "read_entries (ac_env C) (ag_file (S 0)) = Inr es" and "prefix (fst start) es"
    and "\<And>k. latest_hash (ac_env C) (ag_file (S 0)) (ag_inst (S k)) =
      Inr (chain_head es, \<lparr>latest_hash_cache = chain_head es, latest_sig = stat_sig (ag_file (S 0))\<rparr>)"
proof -
  obtain es where run: "prefix (fst start) es"
    "run_ok (ac_env C) (id_network (ac_identity C)) (ag_file (S 0)) (\<lambda>j. ag_inst (S j)) es"
    using site_agent [OF assms, of 0] fun_upd_triv [of "\<lambda>j. ag_inst (S j)" 0] by (auto simp: shared_ok_def)
  then have v: "file_holds (ac_env C) (ag_file (S 0)) es"
    "verify_entries (ac_env C) (id_network (ac_identity C)) 0 genesis es = []"
    using verified_iff by (auto simp: run_ok_def)
  have "filter version2 es = es" using verified_version2 [OF v(2)] by (simp add: filter_id_conv)
  then have "read_entries (ac_env C) (ag_file (S 0)) = Inr es" using read_entries_holds [OF v(1)] by simp
  with that run head_lookup_exact [OF run(2)] show thesis by (simp add: run_ok_def)
qed

lemma site_peers:
  assumes "site_ok start C S"
  shows "prefix (snd start s) (read_entries_for (ac_env C) (ag_peer_log (S k)) s)"
    "list_all (stored_ok (ac_env C) (id_network (ac_identity C)) s) (read_entries_for (ac_env C) (ag_peer_log (S k)) s)"
  using site_agent [OF assms, of k] by (auto simp: shared_ok_def peer_files_ok_def peer_files_rep_def list_all_iff)

end
