(* ===== verification/Agent_Watchdog.thy ===== *)
theory Agent_Watchdog
  imports Watchdog_Spec State_Snapshot Agent_Loop_Spec Overlay_Tools_Spec Shared_Logs
begin

text \<open>
  The watchdog of deploy/watchdog.py at the site it is run for: it takes snapshots of its own
  agent, drives a model over a tool surface of that agent or of the security demo, or leaves
  the turn to OpenClaw, and all the while the other processes on the same data directory, the
  service above all, sign events and store entries.  Whatever happens, the shared files stay
  in order.
\<close>

section \<open>Worlds that keep an invariant\<close>

text \<open>A step that looks at the state before it chooses what to do.\<close>

lemma keeps_at: "(\<And>s. keeps P (m s) Q) \<Longrightarrow> (\<And>s. f s = m s s) \<Longrightarrow> keeps P f Q"
  by (simp add: keeps_def)

text \<open>
  What a watchdog needs of a world to keep an invariant of it: each of its operations keeps
  the invariant, whatever the prompt and the durations are.
\<close>

locale watched_world =
  fixes V :: "'w watch_env" and I :: "'w \<Rightarrow> bool" and usable :: bool
  assumes collect_keeps: "usable \<Longrightarrow> keeps I (wv_collect V) (\<lambda>_. True)"
    and elapsed_keeps: "usable \<Longrightarrow> I w \<Longrightarrow> I (snd (wv_elapsed V w))"
    and time_keeps: "usable \<Longrightarrow> I w \<Longrightarrow> I (snd (wv_time V w))"
    and direct_keeps: "usable \<Longrightarrow> keeps I (wv_direct V prompt s k) (\<lambda>_. True)"
    and openclaw_keeps: "usable \<Longrightarrow> keeps I (wv_openclaw V prompt s) (\<lambda>_. True)"
    and sleep_keeps: "usable \<Longrightarrow> I w \<Longrightarrow> I (wv_sleep V d w)"
begin

definition world_ok :: "'w watch_state \<Rightarrow> bool" where
  "world_ok S = I (wa_world S)"

lemma in_world_keeps: "keeps I m (\<lambda>_. True) \<Longrightarrow> keeps world_ok (in_world m) (\<lambda>_. True)"
  by (auto simp: keeps_def world_ok_def in_world_def split: prod.split)

lemma asking_keeps: "(\<And>w. I w \<Longrightarrow> I (snd (f w))) \<Longrightarrow> keeps world_ok (asking f) (\<lambda>_. True)"
  unfolding asking_def by (rule in_world_keeps) (simp add: keeps_def prod.case_eq_if)

lemma watch_keeps:
  "keeps world_ok (emit r) (\<lambda>_. True)" "keeps world_ok (remember n p x b) (\<lambda>_. True)"
  "keeps world_ok next_turn (\<lambda>_. True)" "keeps world_ok (modify (wa_errors_update f)) (\<lambda>_. True)"
  "keeps world_ok (stop_with reason n e fs code) (\<lambda>_. True)"
  by (auto simp: keeps_def world_ok_def emit_def remember_def modify_def next_turn_def)

lemma sleep_rest_keeps: "usable \<Longrightarrow> keeps world_ok (sleep_rest V C e) (\<lambda>_. True)"
  unfolding sleep_rest_def Let_def
  by (intro keep_rules case_rules asking_keeps in_world_keeps TrueI elapsed_keeps)
    (auto simp: keeps_def modify_def sleep_keeps)

lemma drive_model_keeps:
  assumes "usable"
  shows "keeps world_ok (drive_model V C snap) (\<lambda>_. True)"
proof (rule keeps_at)
  show "keeps world_ok (ask_model V C snap (lower (strip (wv_driver V (wa_world S))) = ''direct'') (wa_history S)) (\<lambda>_. True)" for S
    unfolding ask_model_def
    by (intro keep_rules TrueI in_world_keeps case_rules direct_keeps openclaw_keeps assms)
qed (simp add: drive_model_def)

lemma tick_keeps: "usable \<Longrightarrow> keeps world_ok (tick V C P B) (\<lambda>_. True)"
proof -
  assume u: "usable"
  have failure: "keeps world_ok (count_failure V C n e) (\<lambda>_. True)" for n e
    by (rule keeps_at [where m = "\<lambda>S. if max_consecutive_llm_errors \<le> wa_errors S
          then stop_with ''llm_errors'' n (wv_float V e) [(''consecutive_llm_errors'', JInt (int (wa_errors S)))] exit_llm_errors
          else sleep_rest V C e"])
      (auto intro!: case_rules watch_keeps sleep_rest_keeps [OF u] simp: count_failure_def)
  have "keeps world_ok (perform_turn V C n e snap) (\<lambda>_. True)" for n e snap
    unfolding perform_turn_def
    by (auto intro!: keep_rules case_rules watch_keeps asking_keeps drive_model_keeps [OF u] sleep_rest_keeps [OF u]
        failure time_keeps [OF u] split: prod.split)
  then show ?thesis
    unfolding tick_def decide_def
    by (intro keep_rules case_rules watch_keeps asking_keeps in_world_keeps collect_keeps [OF u] elapsed_keeps [OF u])
qed

lemma start_keeps: "usable \<Longrightarrow> keeps world_ok (start_watch V C B) (\<lambda>_. True)"
  unfolding start_watch_def
  by (intro keep_rules TrueI watch_keeps asking_keeps in_world_keeps collect_keeps time_keeps)

lemma drive_keeps:
  assumes u: "usable" and "I w" and "drive V C B w = Some (r, S)"
  shows "I (wa_world S)"
proof -
  let ?S = "\<lparr>wa_world = w, wa_records = [], wa_history = [], wa_errors = 0, wa_turn = 0\<rparr>"
  obtain t S1 where t: "start_watch V C B ?S = (t, S1)" by (cases "start_watch V C B ?S")
  have ok: "world_ok S1" using start_keeps [OF u, of C B] assms(2) t by (auto simp: keeps_def world_ok_def dest: spec [of _ ?S])
  have step: "world_ok S'" if "world_ok S" "tick V C P B' S = (x, S')" for P B' S x S'
    using tick_keeps [OF u, of C P B'] that by (auto simp: keeps_def dest: spec [of _ S])
  show ?thesis
  proof (cases t)
    case (Inl x)
    with t assms(3) ok show ?thesis by (simp add: drive_def world_ok_def)
  next
    case (Inr PB)
    obtain P B' where PB: "PB = (P, B')" by (cases PB)
    obtain r' S' S0 where "watch_loop V C P B' S1 = Some (r', S')" "world_ok S0" "last_tick V C P B' S0 r' S'"
      using watch_loop_ends [of world_ok S1 V C P B', OF ok] step by blast
    moreover have "drive V C B w = watch_loop V C P B' S1" using t by (simp add: drive_def Inr PB)
    ultimately show ?thesis using assms(3) step by (auto simp: last_tick_def world_ok_def split: sum.splits)
  qed
qed

end

section \<open>The tools a turn is given\<close>

text \<open>The tools of deploy/security_agent_tools.py: one per agent of the security scenario.\<close>

definition security_tool :: "string \<Rightarrow> tool_spec" where
  "security_tool agent_name =
     (if agent_name = ''security_operator'' then
        \<lparr>ts_name = ''run_preventative_layer'',
         ts_description = ''Run layer 1: compare baseline private-key exfiltration with defended gateway blocking.'',
         ts_parameters = no_parameters, ts_signature = []\<rparr>
      else if agent_name = ''auditor'' then
        \<lparr>ts_name = ''run_accountability_layer'',
         ts_description = ''Run layer 2: fake seedbox/self-donation evidence, audit, reputation update, and expulsion.'',
         ts_parameters = no_parameters, ts_signature = []\<rparr>
      else if agent_name = ''impact_tester'' then
        \<lparr>ts_name = ''run_impact_layer'',
         ts_description = ''Run layer 3: compare no-isolation tampering with proxy-only containment and signed-log detection.'',
         ts_parameters = no_parameters, ts_signature = []\<rparr>
      else
        \<lparr>ts_name = ''security_status'',
         ts_description = ''Read the shared secure-community evidence file and report layer completion.'',
         ts_parameters = no_parameters, ts_signature = []\<rparr>)"

definition build_security_tools :: "string \<Rightarrow> tool_spec list" where
  "build_security_tools agent_name = [security_tool agent_name]"

definition episode_tool :: tool_spec where
  "episode_tool =
     \<lparr>ts_name = ''run_integrated_security_episode'',
      ts_description = ''After the community-demo file retrieval succeeds, run the integrated '' @
        ''security episode: good member history, blocked private-key probe, '' @
        ''reputation drop, expulsion on further abuse, and containment evidence.'',
      ts_parameters = no_parameters, ts_signature = []\<rparr>"

text \<open>A dictionary of tools by name: assigning to a name replaces the tool in its place.\<close>

definition put_tool :: "tool_spec \<Rightarrow> tool_spec list \<Rightarrow> tool_spec list" where
  "put_tool t ts =
     (if ts_name t \<in> set (registry_names ts) then map (\<lambda>u. if ts_name u = ts_name t then t else u) ts
      else ts @ [t])"

definition add_integrated_security_tools :: "string \<Rightarrow> tool_spec list \<Rightarrow> tool_spec list" where
  "add_integrated_security_tools agent_name ts =
     (if agent_name \<noteq> ''agent_2'' then ts else put_tool episode_tool ts)"

text \<open>A registry over functions that are called with the arguments of the model.\<close>

definition registry_api ::
  "tool_spec list \<Rightarrow> (string \<Rightarrow> dict \<Rightarrow> 's \<Rightarrow> json \<times> 's) \<Rightarrow> string \<Rightarrow> (string \<Rightarrow> string) \<Rightarrow> (string \<Rightarrow> string) \<Rightarrow>
     's tool_api" where
  "registry_api ts call bad_args decode_error repr =
     \<lparr>ta_specs = registry_specs ts, ta_names = registry_names ts,
      ta_dispatch = (\<lambda>name d s. if name \<in> set (registry_names ts) then call name d s
        else (tool_error (''unknown_tool:'' @ name), s)),
      ta_bad_args = bad_args, ta_decode_error = decode_error, ta_float_repr = repr\<rparr>"

section \<open>The site as a world\<close>

text \<open>
  Everything around the logs: what the snapshot is taken with, the clocks, the environment,
  the model of the next turn, the OpenClaw process, the tools that work on other state (the
  overlays, the torrents, the security demo with its own directory and gateways), and what
  the agents of the site do next, each named by its number.  The watchdog's own agent is
  number 0; the service and any other process on the directory have other numbers.
\<close>

record ('x, 'o) outside =
  ou_stop :: stop_env
  ou_snapshot :: "'x \<Rightarrow> 'o snapshot_env"
  ou_elapsed :: "'x \<Rightarrow> rat \<times> 'x"
  ou_time :: "'x \<Rightarrow> json \<times> 'x"
  ou_environ :: environ
  ou_agent_name :: string
  ou_model :: "'x \<Rightarrow> llm"
  ou_openclaw :: "string \<Rightarrow> int \<Rightarrow> (bool \<times> json \<times> string, 'x) step"
  ou_tool :: "string \<Rightarrow> dict \<Rightarrow> 'x \<Rightarrow> json \<times> 'x"
  ou_events :: "'x \<Rightarrow> (nat \<times> agent_event) list"
  ou_next :: "'x \<Rightarrow> 'x"
  ou_sleep :: "rat \<Rightarrow> 'x \<Rightarrow> 'x"
  ou_float :: "rat \<Rightarrow> json"

type_synonym 'x world = "site \<times> 'x"

text \<open>What the agents of the site do before the watchdog's next step.\<close>

definition others_act :: "agent_conf \<Rightarrow> ('x, 'o) outside \<Rightarrow> 'x world \<Rightarrow> 'x world" where
  "others_act C U w = (site_run C (ou_events U (snd w)) (fst w), ou_next U (snd w))"

definition on_own :: "('a, agent) step \<Rightarrow> ('a, 'x world) step" where
  "on_own m w = (let (r, A) = m (fst w 0) in (r, (settle 0 A (fst w), snd w)))"

definition beside :: "('x \<Rightarrow> 'a \<times> 'x) \<Rightarrow> 'x world \<Rightarrow> 'a \<times> 'x world" where
  "beside f w = (let (a, x) = f (snd w) in (a, (fst w, x)))"

text \<open>
  \<open>community_join_via_peer\<close>: the entry is signed and shipped, the agents act while the answer
  is awaited, for a number of seconds, and the call ends with the answer or without.
\<close>

definition join_bound :: "dict \<Rightarrow> bool" where
  "join_bound d =
     (has_key d ''gatekeeper_mid'' \<and> has_key d ''amount_sats'' \<and>
      list_all (\<lambda>(k, v). k \<in> set [''gatekeeper_mid'', ''amount_sats'', ''timeout_s'']) d)"

definition join_call :: "agent_conf \<Rightarrow> ('x, 'o) outside \<Rightarrow> dict \<Rightarrow> (json, 'x world) step" where
  "join_call C U d =
     (if \<not> join_bound d then raise TypeError
      else seq (on_own (community_join_begin C (jget d ''gatekeeper_mid'') (jget d ''amount_sats''))) (\<lambda>progress.
        case progress of
          JoinDone v \<Rightarrow> ret v
        | JoinWaiting i h \<Rightarrow> seq (modify (others_act C U)) (\<lambda>_.
            on_own (community_join_finish i h (jget d ''amount_sats'')
              (py_str (get_or d ''timeout_s'' (JFloat ''8.0'')))))))"

text \<open>A call of a tool: those of the community work on the watchdog's agent.\<close>

definition watched_call ::
  "agent_conf \<Rightarrow> ('x, 'o) outside \<Rightarrow> string \<Rightarrow> dict \<Rightarrow> 'x world \<Rightarrow> json \<times> 'x world" where
  "watched_call C U name d w0 =
     (let w = others_act C U w0 in
      if name \<in> set (map fst community_tools)
      then (let (v, A) = dispatch C name d (fst w 0) in (v, (settle 0 A (fst w), snd w)))
      else if name = ''community_join_via_peer''
      then (case join_call C U d w of
          (Inl x, w1) \<Rightarrow> (tool_error (ac_exn_text C x), w1)
        | (Inr v, w1) \<Rightarrow> (v, w1))
      else beside (ou_tool U name d) w)"

definition watched_registry :: "agent_conf \<Rightarrow> (string \<Rightarrow> string) \<Rightarrow> ('x, 'o) outside \<Rightarrow> tool_spec list \<Rightarrow> 'x world tool_api" where
  "watched_registry C de U ts =
     registry_api ts (watched_call C U) (ac_exn_text C TypeError) de (float_repr (ac_env C))"

definition watched_api :: "agent_conf \<Rightarrow> (string \<Rightarrow> string) \<Rightarrow> ('x, 'o) outside \<Rightarrow> 'x world tool_api" where
  "watched_api C de U =
     surface_of (allowlist_mode (ou_environ U))
       (watched_registry C de U (build_security_tools (ou_agent_name U)))
       (\<lambda>_. watched_registry C de U (add_integrated_security_tools (ou_agent_name U) agent_tool_specs))
       (watched_registry C de U agent_tool_specs)"

text \<open>
  The agents act before every snapshot, after every OpenClaw turn and every sleep, and
  before every tool call of a direct turn, and while a join awaits its answer.
\<close>

definition agent_watch :: "agent_conf \<Rightarrow> (string \<Rightarrow> string) \<Rightarrow> ('x, 'o) outside \<Rightarrow> 'x world watch_env" where
  "agent_watch C de U =
     \<lparr>wv_stop = ou_stop U,
      wv_collect = (\<lambda>w. let w' = others_act C U w in on_own (collect_state C (ou_snapshot U (snd w'))) w'),
      wv_elapsed = beside (ou_elapsed U), wv_time = beside (ou_time U),
      wv_driver = (\<lambda>w. environ_get (ou_environ U) ''WATCHDOG_DRIVER'' ''openclaw''),
      wv_direct = (\<lambda>prompt s k w.
        direct_turn (watched_api C de U) (ou_model U (snd w)) (ac_exn_text C) prompt k w),
      wv_openclaw = (\<lambda>prompt s w. let (r, w') = beside (ou_openclaw U prompt s) w in (r, others_act C U w')),
      wv_sleep = (\<lambda>d w. others_act C U (fst w, ou_sleep U d (snd w))),
      wv_float = ou_float U\<rparr>"

text \<open>Models answer with JSON values, and what arrives holds floats as Python prints them.\<close>

definition outside_ok :: "agent_conf \<Rightarrow> ('x, 'o) outside \<Rightarrow> bool" where
  "outside_ok C U \<longleftrightarrow>
     (\<forall>x k ms r. ou_model U x k ms = Inr r \<longrightarrow> wf_json (float_repr (ac_env C)) r) \<and>
     (\<forall>x. \<forall>(k, ev) \<in> set (ou_events U x). wf_agent_event C ev)"

definition watch_usable :: "agent_conf \<Rightarrow> ('x, 'o) outside \<Rightarrow> bool" where
  "watch_usable C U = (agent_conf_ok C \<and> repr_normal (float_repr (ac_env C)) \<and> outside_ok C U)"

abbreviation world_in_order :: "contents \<Rightarrow> agent_conf \<Rightarrow> 'x world \<Rightarrow> bool" where
  "world_in_order start C w \<equiv> site_ok start C (fst w)"

lemma others_keep: "watch_usable C U \<Longrightarrow> world_in_order start C w \<Longrightarrow> world_in_order start C (others_act C U w)"
  by (simp add: others_act_def watch_usable_def outside_ok_def site_run_ok)

lemma keeps_snapshot: "keeps (shared_ok start k insts C) (collect_state C V) (\<lambda>_. True)"
proof -
  have community: "keeps (shared_ok start k insts C) (community_snapshot C) (\<lambda>_. True)"
    unfolding community_snapshot_def by (intro case_rules keep_rules TrueI)
  have peers: "keeps (shared_ok start k insts C) (peers_snapshot address) (\<lambda>_. True)" for address
    unfolding peers_snapshot_def by (rule shared.keeps_seedbox)
  show ?thesis
    unfolding collect_state_def by (intro keep_rules community peers)
qed

lemma on_own_keeps:
  assumes "\<And>insts. keeps (shared_ok start 0 insts C) m (\<lambda>_. True)" and "world_in_order start C w"
  shows "world_in_order start C (snd (on_own m w))"
proof -
  obtain r A where r: "m (fst w 0) = (r, A)" by (cases "m (fst w 0)")
  from settle_ok [OF assms(2) keeps_result [OF assms(1) r site_agent [OF assms(2)]]] r show ?thesis
    by (simp add: on_own_def)
qed

lemma beside_keeps: "world_in_order start C w \<Longrightarrow> world_in_order start C (snd (beside f w))"
  by (simp add: beside_def split: prod.split)

lemma join_call_keeps:
  assumes u: "watch_usable C U" and d: "wf_dict (float_repr (ac_env C)) d"
  shows "keeps (world_in_order start C) (join_call C U d) (\<lambda>_. True)"
proof -
  have conf: "agent_conf_ok C" using u by (simp add: watch_usable_def)
  have first: "keeps (world_in_order start C) (on_own (community_join_begin C g (jget d ''amount_sats''))) (\<lambda>_. True)" for g
    by (simp add: keeps_def on_own_keeps [OF shared.keeps_join_begin [OF conf wf_get [OF d]]])
  have finish: "keeps (world_in_order start C) (on_own (community_join_finish i h v t)) (\<lambda>_. True)" for i h v t
    by (simp add: keeps_def on_own_keeps [OF shared.keeps_join_finish])
  have act: "keeps (world_in_order start C) (modify (others_act C U)) (\<lambda>_. True)"
    by (simp add: keeps_def modify_def others_keep [OF u])
  have rest: "keeps (world_in_order start C) (case p of JoinDone v \<Rightarrow> ret v
      | JoinWaiting i h \<Rightarrow> seq (modify (others_act C U)) (\<lambda>_. on_own (community_join_finish i h w t))) (\<lambda>_. True)" for p w t
    by (cases p) (simp_all add: keeps_ret keeps_seq_True [OF act finish])
  show ?thesis
    unfolding join_call_def by (intro keeps_if_step keeps_raise keeps_seq_True first rest)
qed

lemma watched_call_keeps:
  assumes u: "watch_usable C U" and w: "world_in_order start C w" and d: "wf_dict (float_repr (ac_env C)) d"
  shows "world_in_order start C (snd (watched_call C U name d w))"
proof -
  let ?w = "others_act C U w"
  have w': "world_in_order start C ?w" by (rule others_keep [OF u w])
  have conf: "agent_conf_ok C" using u by (simp add: watch_usable_def)
  have "world_in_order start C (settle 0 (snd (dispatch C name d (fst ?w 0))) (fst ?w), snd ?w)"
    using settle_ok [OF w' shared.keeps_dispatch [OF conf site_agent [OF w'] d]] by simp
  moreover have "world_in_order start C (snd (beside (ou_tool U name d) ?w))" by (rule beside_keeps [OF w'])
  moreover have "world_in_order start C (snd (join_call C U d ?w))"
    using join_call_keeps [OF u d, of start] w' unfolding keeps_def by blast
  ultimately show ?thesis
    by (cases "join_call C U d ?w") (simp add: watched_call_def Let_def prod.case_eq_if split: sum.split)
qed

interpretation watched_tools: tool_surface "watched_registry C de U ts" "world_in_order start C" "watch_usable C U"
  for C de U ts start
  by unfold_locales (auto simp: watched_registry_def registry_api_def watched_call_keeps simp del: wf_json.simps)

interpretation restricted_tools: tool_surface "restrict_tools allowed (watched_registry C de U ts)"
    "world_in_order start C" "watch_usable C U"
  for allowed C de U ts start
  by unfold_locales (simp add: restrict_tools_def watched_registry_def registry_api_def watched_call_keeps del: wf_json.simps)

lemma keeps_direct_turn:
  assumes "\<And>A. I A \<Longrightarrow> I (snd (run_tool_loop api llm prompt system_prompt k A))"
  shows "keeps I (direct_turn api llm exn_text prompt k) (\<lambda>_. True)"
  using assms by (auto simp: keeps_def direct_turn_def split: prod.split sum.split) (metis snd_conv)+

lemma watched_loop_keeps:
  assumes u: "watch_usable C U" and w: "world_in_order start C w"
  shows "world_in_order start C (snd (run_tool_loop (watched_api C de U) (ou_model U x) prompt system_prompt k w))"
proof -
  have fr: "ta_float_repr (restrict_tools allowed (watched_registry C de U ts)) = float_repr (ac_env C)"
    "ta_float_repr (watched_registry C de U ts) = float_repr (ac_env C)" for allowed ts
    by (simp_all add: restrict_tools_def watched_registry_def registry_api_def)
  have m: "\<forall>k ms r. ou_model U x k ms = Inr r \<longrightarrow> wf_json (float_repr (ac_env C)) r"
    and n: "repr_normal (float_repr (ac_env C))"
    using u by (simp_all add: watch_usable_def outside_ok_def)
  have keep: "world_in_order start C (snd (run_tool_loop (watched_registry C de U ts) (ou_model U x) prompt system_prompt k w))"
    "world_in_order start C (snd (run_tool_loop (restrict_tools allowed (watched_registry C de U ts)) (ou_model U x)
       prompt system_prompt k w))" for allowed ts
    using watched_tools.loop_keeps [OF u, where de = de and ts = ts, unfolded fr, OF n m]
      restricted_tools.loop_keeps [OF u, where de = de and ts = ts, unfolded fr, OF n m] w
    unfolding keeps_def by blast+
  then show ?thesis by (simp add: watched_api_def surface_of_def)
qed

interpretation watched_site: watched_world "agent_watch C de U" "world_in_order start C" "watch_usable C U" for C de U start
proof
  assume u: "watch_usable C U"
  show "keeps (world_in_order start C) (wv_collect (agent_watch C de U)) (\<lambda>_. True)"
    by (simp add: keeps_def agent_watch_def Let_def on_own_keeps [OF keeps_snapshot] others_keep [OF u])
  show "keeps (world_in_order start C) (wv_direct (agent_watch C de U) prompt s k) (\<lambda>_. True)" for prompt s k
    by (rule keeps_at [where m = "\<lambda>w. direct_turn (watched_api C de U) (ou_model U (snd w)) (ac_exn_text C) prompt k"],
        rule keeps_direct_turn, rule watched_loop_keeps [OF u], assumption, simp add: agent_watch_def)
  show "keeps (world_in_order start C) (wv_openclaw (agent_watch C de U) prompt s) (\<lambda>_. True)" for prompt s
    by (simp add: keeps_def agent_watch_def beside_keeps others_keep [OF u] prod.case_eq_if)
  show "world_in_order start C (wv_sleep (agent_watch C de U) d w)" if "world_in_order start C w" for d w
    using that others_keep [OF u] by (simp add: agent_watch_def)
qed (simp_all add: agent_watch_def beside_keeps)

text \<open>
  C34: However a watchdog's run ends, the files that its agent shares with the service and
  every other process of the site are in order: whatever tool surface the environment chooses,
  whatever the model answers, whatever happens in an OpenClaw turn, and whatever events the
  agents of the site sign, receive and store before, between and after the watchdog's steps.
  The community log verifies and begins with the entries it began with, every agent's head
  lookup on it is exact, every file of foreign entries holds accepted entries of its source
  and begins with those it began with, and no wallet is overdrawn.  Operations of different
  processes do not overlap; the caches of foreign logs and the memoised state are not claimed.
\<close>

theorem watchdog_keeps_agent:
  assumes "agent_conf_ok C" and "repr_normal (float_repr (ac_env C))" and "outside_ok C U"
    and "site_ok start C T" and "drive (agent_watch C de U) W B (T, x) = Some (r, S)"
    and "T' = fst (wa_world S)"
  shows "(\<exists>es. verify_integrity (ac_env C) (id_network (ac_identity C)) (ag_file (T' 0)) = (True, []) \<and>
      read_entries (ac_env C) (ag_file (T' 0)) = Inr es \<and> prefix (fst start) es \<and>
      (\<forall>k. ag_file (T' k) = ag_file (T' 0) \<and>
        latest_hash (ac_env C) (ag_file (T' k)) (ag_inst (T' k)) =
          Inr (chain_head es, \<lparr>latest_hash_cache = chain_head es, latest_sig = stat_sig (ag_file (T' k))\<rparr>))) \<and>
    (\<forall>k s. prefix (snd start s) (read_entries_for (ac_env C) (ag_peer_log (T' k)) s) \<and>
      list_all (stored_ok (ac_env C) (id_network (ac_identity C)) s)
        (read_entries_for (ac_env C) (ag_peer_log (T' k)) s)) \<and>
    (\<forall>k. wallet_ok (ag_wallet (T' k))) \<and> site_ok start C T'"
proof -
  have "watch_usable C U" using assms(1-3) by (simp add: watch_usable_def)
  then have ok: "site_ok start C T'"
    unfolding assms(6) using watched_site.drive_keeps [OF _ _ assms(5)] assms(4) by simp
  obtain es where es: "verify_integrity (ac_env C) (id_network (ac_identity C)) (ag_file (T' 0)) = (True, [])"
    "read_entries (ac_env C) (ag_file (T' 0)) = Inr es" "prefix (fst start) es"
    "\<forall>k. latest_hash (ac_env C) (ag_file (T' 0)) (ag_inst (T' k)) =
      Inr (chain_head es, \<lparr>latest_hash_cache = chain_head es, latest_sig = stat_sig (ag_file (T' 0))\<rparr>)"
    by (rule site_log [OF ok]) blast
  have same: "ag_file (T' k) = ag_file (T' 0)" and wallet: "wallet_ok (ag_wallet (T' k))" for k
    using ok by (simp_all add: site_ok_def shared_ok_def)
  have "latest_hash (ac_env C) (ag_file (T' k)) (ag_inst (T' k)) =
      Inr (chain_head es, \<lparr>latest_hash_cache = chain_head es, latest_sig = stat_sig (ag_file (T' k))\<rparr>)" for k
    using es(4) by (simp add: same [of k])
  with es(1-3) same wallet site_peers [OF ok] ok show ?thesis by blast
qed

text \<open>
  A site of started agents on the configuration whose floats all print alike.  The model keeps
  calling one tool of the first agent; before each call the service looks at its state.
\<close>

definition quiet_world :: "(unit, nat) outside" where
  "quiet_world =
     \<lparr>ou_stop = wv_stop still_world,
      ou_snapshot = (\<lambda>_. \<lparr>sn_ts = JInt 0, sn_agent_id = ''bob'', sn_address = [], sn_peer_address = (\<lambda>_. JNull),
        sn_overlays = \<lparr>ov_env = sample_overlay_env, ov_index = (\<lambda>_. []), ov_cache = (\<lambda>_. [])\<rparr>,
        sn_registry = sample_registry, sn_torrents = [], sn_decode_error = id,
        sn_files = (\<lambda>_. NoFile), sn_evidence_path = []\<rparr>),
      ou_elapsed = (\<lambda>x. (0, x)), ou_time = (\<lambda>x. (JInt 0, x)), ou_environ = [''WATCHDOG_DRIVER'' \<mapsto> ''direct''],
      ou_agent_name = ''bob'', ou_model = (\<lambda>_. insisting_model),
      ou_openclaw = (\<lambda>_ _. ret (False, JStr [], ''down'')), ou_tool = (\<lambda>_ _ x. (JNull, x)),
      ou_events = (\<lambda>_. [(1, LookAtState)]), ou_next = id, ou_sleep = (\<lambda>_ x. x),
      ou_float = (\<lambda>_. JInt 0)\<rparr>"

definition quiet_site :: site where
  "quiet_site = (\<lambda>_. nan_agent\<lparr>ag_seedbox := Some (new_node None None)\<rparr>)"

lemma quiet_site_ok: "\<exists>start. site_ok start nan_conf quiet_site"
proof -
  let ?A = "nan_agent\<lparr>ag_seedbox := Some (new_node None None)\<rparr>"
  have "ag_inst nan_agent = \<lparr>latest_hash_cache = JNull, latest_sig = None\<rparr>" "ag_state_cache nan_agent = None"
    by (simp_all add: nan_agent_def new_agent_def open_log_def)
  moreover have "agent_inv nan_conf ?A" using nan_conf_ok(3) by simp
  ultimately show ?thesis unfolding quiet_site_def using single_site_ok [of nan_conf ?A] by auto
qed

lemma watchdog_keeps_agent_witness:
  "\<exists>r S T'. drive (agent_watch nan_conf id quiet_world) (sample_watch ''never'') [] (quiet_site, ()) = Some (r, S) \<and>
     T' = fst (wa_world S) \<and>
     verify_integrity (ac_env nan_conf) (id_network (ac_identity nan_conf)) (ag_file (T' 0)) = (True, []) \<and>
     wallet_ok (ag_wallet (T' 1))"
proof -
  obtain r S where d: "drive (agent_watch nan_conf id quiet_world) (sample_watch ''never'') [] (quiet_site, ()) = Some (r, S)"
    by (metis drive_returns)
  have out: "outside_ok nan_conf quiet_world" using insisting_model_wf by (simp add: outside_ok_def quiet_world_def)
  obtain start where "site_ok start nan_conf quiet_site" using quiet_site_ok by blast
  from watchdog_keeps_agent [OF nan_conf_ok(1,2) out this d refl] d show ?thesis by blast
qed

end
