(* ===== verification/Mission.thy ===== *)
theory Mission
  imports Stop_Predicates
begin

text \<open>
  The mission descriptor of an agent (deploy/mission.py): four required sections in order, an
  identity, an intent that describes no recipe, a budget, and a stop predicate that resolves.

  A refusal is a value; an exception that is no \<open>MissionParseError\<close> is \<open>MissionRaises\<close>.
\<close>

section \<open>Descriptors\<close>

record budget =
  max_sats_outbound :: int
  max_total_turns :: int

record mission =
  ms_name :: string
  ms_role :: string
  ms_intent_text :: string
  ms_budget :: budget
  ms_stop_predicate :: string
  ms_raw_md :: string

datatype mission_error =
    NoSections "string list"
  | SectionsOutOfOrder "string list"
  | IdentityKeyMissing string
  | MissionNameNotSnakeCase string
  | RoleNotAllowed string
  | EmptyIntent
  | IntentNamesTool string
  | IntentIsRecipe nat
  | BudgetKeyMissing string
  | BudgetNotInteger
  | NegativeSats int
  | TooFewTurns int
  | NoPredicate
  | PredicateRefused string string
  | MissionRaises pyexn

definition mission_sections :: "string list" where
  "mission_sections = [''Identity'', ''Intent'', ''Budget'', ''Stop'']"

definition allowed_roles :: "string list" where
  "allowed_roles = [''seedbox'', ''seeker'', ''general'']"

definition recipe_tool_names :: "string list" where
  "recipe_tool_names =
     [''peers_list'', ''peer_add'', ''wallet_address'', ''wallet_balance'', ''wallet_send'',
      ''community_donate_and_join'', ''community_treasury_balance'', ''community_member_count'',
      ''community_log_list_recent'', ''community_join_via_peer'', ''seedbox_purchase_propose'',
      ''seedbox_provisioned'', ''overlays_list'', ''overlay_describe'', ''overlay_fetch_and_load'',
      ''overlay_publish'', ''overlay_invoke'', ''agent_inject_manifest'', ''torrent_seed'',
      ''torrent_fetch'', ''torrent_stats'']"

definition max_intent_list_entries :: nat where
  "max_intent_list_entries = 2"

section \<open>Sections\<close>

definition close_section :: "string option \<Rightarrow> string list \<Rightarrow> (string \<times> string) list \<Rightarrow> (string \<times> string) list" where
  "close_section current body sections =
     (case current of None \<Rightarrow> sections | Some n \<Rightarrow> AList.update n (join_with [nl] body) sections)"

fun scan_mission ::
  "(string \<times> string) list \<Rightarrow> string list \<Rightarrow> string option \<Rightarrow> string list \<Rightarrow> string list \<Rightarrow>
     (string \<times> string) list \<times> string list" where
  "scan_mission sections order current body [] = (close_section current body sections, order)"
| "scan_mission sections order current body (l # ls) =
     (if startswith l ''# '' \<and> \<not> startswith l ''## ''
      then scan_mission (close_section current body sections) (order @ [strip (drop 2 l)]) (Some (strip (drop 2 l))) [] ls
      else scan_mission sections order current (body @ [l]) ls)"

definition split_mission :: "string \<Rightarrow> (string \<times> string) list \<times> string list" where
  "split_mission text = scan_mission [] [] None [] (split_on nl text)"

definition check_mission_sections :: "string list \<Rightarrow> (string \<times> string) list \<Rightarrow> mission_error + unit" where
  "check_mission_sections order sections =
     (let relevant = filter (\<lambda>s. s \<in> set mission_sections) order in
      if relevant = mission_sections then Inr ()
      else (let missing = filter (\<lambda>s. map_of sections s = None) mission_sections in
            if missing \<noteq> [] then Inl (NoSections missing) else Inl (SectionsOutOfOrder relevant)))"

section \<open>Identity\<close>

definition parse_mission_identity :: "string \<Rightarrow> mission_error + (string \<times> string)" where
  "parse_mission_identity body =
     (let kv = parse_kv_list body in
      case map_of kv ''name'' of
        None \<Rightarrow> Inl (IdentityKeyMissing ''name'')
      | Some name \<Rightarrow>
          (case map_of kv ''role'' of
             None \<Rightarrow> Inl (IdentityKeyMissing ''role'')
           | Some role \<Rightarrow>
               if \<not> match_name name then Inl (MissionNameNotSnakeCase name)
               else if role \<notin> set allowed_roles then Inl (RoleNotAllowed role)
               else Inr (name, role)))"

section \<open>Intent\<close>

text \<open>The texts between backticks, found from left to right.\<close>

definition backtick :: char where "backtick = CHR 0x60"

function scan_ticks :: "string \<Rightarrow> string list" where
  "scan_ticks [] = []"
| "scan_ticks (c # s) =
     (let w = takeWhile (\<lambda>d. d \<noteq> backtick) s; r = dropWhile (\<lambda>d. d \<noteq> backtick) s in
      if c = backtick \<and> w \<noteq> [] \<and> r \<noteq> [] then w # scan_ticks (tl r) else scan_ticks s)"
  by pat_completeness auto
termination
proof (relation "measure length")
  fix c s w r
  assume "r = dropWhile (\<lambda>d. d \<noteq> backtick) s"
  then have "length (tl r) \<le> length s" using length_dropWhile_le [of "\<lambda>d. d \<noteq> backtick" s] by simp
  then show "(tl r, c # s) \<in> measure length" by simp
qed auto

declare scan_ticks.simps(2) [simp del]

text \<open>A step: a number with a point, or a bullet, then white space and something else.\<close>

definition spaced_text :: "string \<Rightarrow> bool" where
  "spaced_text s = (s \<noteq> [] \<and> is_space (hd s) \<and> lstrip s \<noteq> [])"

definition is_numbered_step :: "string \<Rightarrow> bool" where
  "is_numbered_step line =
     (let s = lstrip line; r = dropWhile is_digit s in
      s \<noteq> [] \<and> is_digit (hd s) \<and> r \<noteq> [] \<and> hd r = CHR ''.'' \<and> spaced_text (tl r))"

definition is_bulleted_step :: "string \<Rightarrow> bool" where
  "is_bulleted_step line =
     (let s = lstrip line in s \<noteq> [] \<and> (hd s = CHR ''-'' \<or> hd s = CHR ''*'') \<and> spaced_text (tl s))"

definition named_tools :: "string \<Rightarrow> string list" where
  "named_tools body = filter (\<lambda>t. t \<in> set recipe_tool_names) (map strip (scan_ticks body))"

definition step_lines :: "string \<Rightarrow> string list" where
  "step_lines body = filter (\<lambda>l. is_numbered_step l \<or> is_bulleted_step l) (split_on nl body)"

definition check_intent :: "string \<Rightarrow> mission_error + unit" where
  "check_intent body =
     (case named_tools body of
        t # ts \<Rightarrow> Inl (IntentNamesTool t)
      | [] \<Rightarrow>
          (let n = length (step_lines body) in
           if n > max_intent_list_entries then Inl (IntentIsRecipe n) else Inr ()))"

section \<open>Budget and stop\<close>

definition parse_budget :: "string \<Rightarrow> mission_error + budget" where
  "parse_budget body =
     (let kv = parse_kv_list body in
      case map_of kv ''max_sats_outbound'' of
        None \<Rightarrow> Inl (BudgetKeyMissing ''max_sats_outbound'')
      | Some s \<Rightarrow>
          (case map_of kv ''max_total_turns'' of
             None \<Rightarrow> Inl (BudgetKeyMissing ''max_total_turns'')
           | Some t \<Rightarrow>
               (case (py_int s, py_int t) of
                  (Some sats, Some turns) \<Rightarrow>
                    if sats < 0 then Inl (NegativeSats sats)
                    else if turns < 1 then Inl (TooFewTurns turns)
                    else Inr \<lparr>max_sats_outbound = sats, max_total_turns = turns\<rparr>
                | _ \<Rightarrow> Inl BudgetNotInteger)))"

text \<open>Only an unknown predicate becomes a refusal.\<close>

definition parse_stop :: "stop_env \<Rightarrow> string \<Rightarrow> mission_error + string" where
  "parse_stop V body =
     (case map_of (parse_kv_list body) ''predicate'' of
        None \<Rightarrow> Inl NoPredicate
      | Some spec \<Rightarrow>
          (case resolve_predicate V spec of
             Inr p \<Rightarrow> Inr spec
           | Inl (UnknownPredicate t) \<Rightarrow> Inl (PredicateRefused spec t)
           | Inl BadArguments \<Rightarrow> Inl (MissionRaises TypeError)))"

section \<open>The descriptor\<close>

definition section_text :: "(string \<times> string) list \<Rightarrow> string \<Rightarrow> string" where
  "section_text sections name = (case map_of sections name of Some s \<Rightarrow> s | None \<Rightarrow> [])"

definition parse_mission :: "stop_env \<Rightarrow> string \<Rightarrow> mission_error + mission" where
  "parse_mission V text =
     (let (sections, order) = split_mission text in
      bindr (check_mission_sections order sections) (\<lambda>_.
      bindr (parse_mission_identity (section_text sections ''Identity'')) (\<lambda>(name, role).
      let intent = strip (section_text sections ''Intent'') in
      if intent = [] then Inl EmptyIntent
      else
        bindr (check_intent intent) (\<lambda>_.
        bindr (parse_budget (section_text sections ''Budget'')) (\<lambda>b.
        bindr (parse_stop V (section_text sections ''Stop'')) (\<lambda>spec.
        Inr \<lparr>ms_name = name, ms_role = role, ms_intent_text = intent, ms_budget = b, ms_stop_predicate = spec,
             ms_raw_md = text\<rparr>))))))"

text \<open>Every section that is checked to be there is in the table.\<close>

lemma scan_mission_keys:
  assumes "set order \<subseteq> fst ` set sections \<union> set_option current"
  shows "set (snd (scan_mission sections order current body ls)) \<subseteq>
    fst ` set (fst (scan_mission sections order current body ls))"
  using assms
proof (induction sections order current body ls rule: scan_mission.induct)
  case (1 sections order current body)
  then show ?case by (cases current) (auto simp: close_section_def dom_update)
next
  case (2 sections order current body l ls)
  show ?case
  proof (cases "startswith l ''# '' \<and> \<not> startswith l ''## ''")
    case True
    have "set (order @ [strip (drop 2 l)]) \<subseteq> fst ` set (close_section current body sections) \<union> set_option (Some (strip (drop 2 l)))"
      using "2.prems" by (cases current) (auto simp: close_section_def dom_update)
    from "2.IH"(1) [OF True this] True show ?thesis by simp
  next
    case False
    have "scan_mission sections order current body (l # ls) = scan_mission sections order current (body @ [l]) ls"
      by (simp only: scan_mission.simps False if_False)
    with "2.IH"(2) [OF False "2.prems"] show ?thesis by simp
  qed
qed

lemma checked_sections_present:
  assumes "split_mission text = (sections, order)" and "check_mission_sections order sections = Inr ()"
    and "s \<in> set mission_sections"
  shows "map_of sections s \<noteq> None"
proof -
  have "set order \<subseteq> fst ` set sections"
    using scan_mission_keys [of "[]" "[]" None "[]" "split_on nl text"] assms(1) by (simp add: split_mission_def)
  moreover have "s \<in> set order"
  proof -
    have "filter (\<lambda>s. s \<in> set mission_sections) order = mission_sections"
      using assms(2) by (auto simp: check_mission_sections_def Let_def split: if_splits)
    then have "s \<in> set (filter (\<lambda>s. s \<in> set mission_sections) order)" using assms(3) by simp
    then show ?thesis by simp
  qed
  ultimately show ?thesis by (auto simp: map_of_eq_None_iff)
qed

end
