(* ===== verification/Scenario.thy ===== *)
theory Scenario
  imports Mission
begin

text \<open>
  The scenario manifest (deploy/scenario.py): the watchdog's policy and the agents with their
  ports, missions, stop predicates, peers and seed content, validated before anything runs.

  The manifest is the value its YAML text loads to, as far as JSON has such values.  Parameters:
  the integer of a float, path resolution, and which files there are with their texts.  An
  exception that is no \<open>ScenarioError\<close> is \<open>ScenarioRaises\<close>.
\<close>

section \<open>Model\<close>

record watchdog_policy =
  wp_interval_s :: int
  wp_max_iterations_per_turn :: int
  wp_max_total_turns :: int
  wp_max_wall_clock_s :: int

record seed_content =
  sd_magnet :: string
  sd_name :: string
  sd_size :: int
  sd_mime :: string
  sd_tags :: "string list"

record agent_spec =
  as_name :: string
  as_ipv8_port :: int
  as_mcp_port :: int
  as_publish_overlays :: "string list"
  as_mission_file :: string
  as_stop_predicate :: string
  as_peers :: "string list"
  as_seed_content :: "seed_content list"
  as_initial_balance_sats :: int
  as_redteam_port :: int

record scenario =
  sc_name :: string
  sc_description :: string
  sc_watchdog :: watchdog_policy
  sc_agents :: "(string \<times> agent_spec) list"
  sc_log_dir :: string

definition instance_id :: "scenario \<Rightarrow> string \<Rightarrow> string" where
  "instance_id S agent_name = sc_name S @ ''-'' @ agent_name"

datatype scenario_error =
    TopLevelNotMapping
  | TopLevelKeyMissing string
  | ScenarioNameNotAlnum string
  | PolicyKeysMissing "string list"
  | AgentsNotMapping
  | AgentNotMapping string
  | LegacyKey string string
  | AgentKeyMissing string string
  | PortNotInt string json
  | PortOutOfRange string int
  | OverlaysNotList string
  | OverlayFileMissing string json
  | MissionFileMissing string json
  | MissionInvalid string mission_error
  | StopPredicateUnknown string string string
  | PeersNotList string
  | SeedsNotList string
  | SeedKeyMissing string
  | BalanceNotInt string json
  | BalanceNegative string int
  | Ipv8PortClash int string string
  | McpPortClash int string string
  | SamePorts string
  | RedteamPortClash int string string
  | RedteamPortReused string
  | UnknownPeer string string
  | SelfPeer string
  | ScenarioRaises pyexn

type_synonym 'a checked = "scenario_error + 'a"

record scenario_env =
  sv_stop :: stop_env
  sv_trunc :: "string \<Rightarrow> int res"
  sv_repo_path :: "string \<Rightarrow> string"
  sv_local_path :: "string \<Rightarrow> string"
  sv_is_file :: "string \<Rightarrow> bool"
  sv_read_text :: "string \<Rightarrow> string res"

definition lifted :: "'a res \<Rightarrow> 'a checked" where
  "lifted r = (case r of Inl x \<Rightarrow> Inl (ScenarioRaises x) | Inr v \<Rightarrow> Inr v)"

section \<open>Values\<close>

definition int_value :: "scenario_env \<Rightarrow> json \<Rightarrow> int res" where
  "int_value V v = (case v of
     JInt n \<Rightarrow> Inr n
   | JBool b \<Rightarrow> Inr (if b then 1 else 0)
   | JFloat t \<Rightarrow> sv_trunc V t
   | JStr s \<Rightarrow> (case py_int s of None \<Rightarrow> Inl (ValueError []) | Some n \<Rightarrow> Inr n)
   | _ \<Rightarrow> Inl TypeError)"

fun occurs_in :: "string \<Rightarrow> string \<Rightarrow> bool" where
  "occurs_in p [] = (p = [])"
| "occurs_in p (c # s) = (startswith (c # s) p \<or> occurs_in p s)"

text \<open>\<open>k in v\<close> and \<open>v[k]\<close> for a text \<open>k\<close>.\<close>

definition contains_key :: "json \<Rightarrow> string \<Rightarrow> bool res" where
  "contains_key v k = (case v of
     JObj d \<Rightarrow> Inr (has_key d k)
   | JList vs \<Rightarrow> Inr (JStr k \<in> set vs)
   | JStr s \<Rightarrow> Inr (occurs_in k s)
   | _ \<Rightarrow> Inl TypeError)"

definition value_at :: "json \<Rightarrow> string \<Rightarrow> json res" where
  "value_at v k = (case v of
     JObj d \<Rightarrow> (case map_of d k of Some w \<Rightarrow> Inr w | None \<Rightarrow> Inl (KeyError k))
   | _ \<Rightarrow> Inl TypeError)"

definition int_at :: "scenario_env \<Rightarrow> json \<Rightarrow> string \<Rightarrow> int res" where
  "int_at V v k = bindr (value_at v k) (int_value V)"

section \<open>Policy and seed content\<close>

definition parse_policy :: "scenario_env \<Rightarrow> json \<Rightarrow> watchdog_policy checked" where
  "parse_policy V v =
     bindr (lifted (filterr (\<lambda>k. bindr (contains_key v k) (\<lambda>b. Inr (\<not> b)))
       [''interval_s'', ''max_iterations_per_turn'', ''max_total_turns'', ''max_wall_clock_s''])) (\<lambda>missing.
     if missing \<noteq> [] then Inl (PolicyKeysMissing missing)
     else lifted
       (bindr (int_at V v ''interval_s'') (\<lambda>a.
        bindr (int_at V v ''max_iterations_per_turn'') (\<lambda>b.
        bindr (int_at V v ''max_total_turns'') (\<lambda>c.
        bindr (int_at V v ''max_wall_clock_s'') (\<lambda>d.
        Inr \<lparr>wp_interval_s = a, wp_max_iterations_per_turn = b, wp_max_total_turns = c, wp_max_wall_clock_s = d\<rparr>))))))"

fun require_keys :: "json \<Rightarrow> string list \<Rightarrow> unit checked" where
  "require_keys v [] = Inr ()"
| "require_keys v (k # ks) =
     bindr (lifted (contains_key v k)) (\<lambda>b. if b then require_keys v ks else Inl (SeedKeyMissing k))"

definition seed_tags :: "json \<Rightarrow> string list res" where
  "seed_tags v = (case v of
     JObj d \<Rightarrow> bindr (elements_of (get_or d ''tags'' (JList []))) (\<lambda>ts. Inr (map py_str ts))
   | _ \<Rightarrow> Inl AttributeError)"

definition parse_seed :: "scenario_env \<Rightarrow> json \<Rightarrow> seed_content checked" where
  "parse_seed V v =
     bindr (require_keys v [''magnet'', ''name'', ''size'', ''mime'']) (\<lambda>_.
     lifted
       (bindr (value_at v ''magnet'') (\<lambda>magnet.
        bindr (value_at v ''name'') (\<lambda>name.
        bindr (int_at V v ''size'') (\<lambda>size.
        bindr (value_at v ''mime'') (\<lambda>mime.
        bindr (seed_tags v) (\<lambda>tags.
        Inr \<lparr>sd_magnet = py_str magnet, sd_name = py_str name, sd_size = size, sd_mime = py_str mime,
             sd_tags = tags\<rparr>)))))))"

section \<open>An agent\<close>

text \<open>\<open>int(v)\<close> with \<open>TypeError\<close> and \<open>ValueError\<close> caught.\<close>

definition int_checked :: "scenario_env \<Rightarrow> json \<Rightarrow> scenario_error \<Rightarrow> int checked" where
  "int_checked V v refusal = (case int_value V v of
     Inr n \<Rightarrow> Inr n
   | Inl TypeError \<Rightarrow> Inl refusal
   | Inl (ValueError t) \<Rightarrow> Inl refusal
   | Inl x \<Rightarrow> Inl (ScenarioRaises x))"

definition parse_port :: "scenario_env \<Rightarrow> string \<Rightarrow> json \<Rightarrow> int checked" where
  "parse_port V ctx v =
     bindr (int_checked V v (PortNotInt ctx v)) (\<lambda>port.
     if 1024 \<le> port \<and> port \<le> 65535 then Inr port else Inl (PortOutOfRange ctx port))"

text \<open>\<open>d.get(k) or []\<close>, which must be a list.\<close>

definition list_at :: "dict \<Rightarrow> string \<Rightarrow> scenario_error \<Rightarrow> json list checked" where
  "list_at d k refusal = (let v = jget d k in
     if \<not> truthy v then Inr [] else (case v of JList vs \<Rightarrow> Inr vs | _ \<Rightarrow> Inl refusal))"

definition overlay_path :: "scenario_env \<Rightarrow> string \<Rightarrow> json \<Rightarrow> string checked" where
  "overlay_path V name entry =
     (let p = sv_repo_path V (py_str entry) in
      if sv_is_file V p then Inr p else Inl (OverlayFileMissing name entry))"

definition mission_refusal :: "string \<Rightarrow> mission_error \<Rightarrow> scenario_error" where
  "mission_refusal name e = (case e of MissionRaises x \<Rightarrow> ScenarioRaises x | _ \<Rightarrow> MissionInvalid name e)"

definition check_mission :: "scenario_env \<Rightarrow> string \<Rightarrow> string \<Rightarrow> unit checked" where
  "check_mission V name path =
     bindr (lifted (sv_read_text V path)) (\<lambda>text.
     case parse_mission (sv_stop V) text of
       Inr m \<Rightarrow> Inr ()
     | Inl e \<Rightarrow> Inl (mission_refusal name e))"

definition check_stop :: "scenario_env \<Rightarrow> string \<Rightarrow> string \<Rightarrow> unit checked" where
  "check_stop V name spec = (case resolve_predicate (sv_stop V) spec of
     Inr p \<Rightarrow> Inr ()
   | Inl (UnknownPredicate t) \<Rightarrow> Inl (StopPredicateUnknown name spec t)
   | Inl BadArguments \<Rightarrow> Inl (ScenarioRaises TypeError))"

definition check_agent_keys :: "string \<Rightarrow> dict \<Rightarrow> unit checked" where
  "check_agent_keys name d =
     (case find (has_key d) [''persona_file'', ''goal_file''] of
        Some k \<Rightarrow> Inl (LegacyKey name k)
      | None \<Rightarrow>
          (case find (\<lambda>k. \<not> has_key d k) [''ipv8_port'', ''mcp_port'', ''mission_file'', ''stop_predicate''] of
             Some k \<Rightarrow> Inl (AgentKeyMissing name k)
           | None \<Rightarrow> Inr ()))"

definition mission_path :: "scenario_env \<Rightarrow> string \<Rightarrow> json \<Rightarrow> string checked" where
  "mission_path V name v =
     (let p = sv_local_path V (py_str v) in
      if sv_is_file V p then Inr p else Inl (MissionFileMissing name v))"

definition parse_balance :: "scenario_env \<Rightarrow> string \<Rightarrow> json \<Rightarrow> int checked" where
  "parse_balance V name v =
     bindr (int_checked V v (BalanceNotInt name v)) (\<lambda>n. if n < 0 then Inl (BalanceNegative name n) else Inr n)"

definition parse_redteam_port :: "scenario_env \<Rightarrow> string \<Rightarrow> json \<Rightarrow> int checked" where
  "parse_redteam_port V name v =
     (if py_eq v (JInt 0) then Inr 0 else parse_port V (''agent '' @ name @ ''.redteam_port'') v)"

definition parse_agent :: "scenario_env \<Rightarrow> string \<Rightarrow> dict \<Rightarrow> agent_spec checked" where
  "parse_agent V name d =
     bindr (check_agent_keys name d) (\<lambda>_.
     bindr (parse_port V (''agent '' @ name @ ''.ipv8_port'') (jget d ''ipv8_port'')) (\<lambda>ipv8_port.
     bindr (parse_port V (''agent '' @ name @ ''.mcp_port'') (jget d ''mcp_port'')) (\<lambda>mcp_port.
     bindr (list_at d ''publish_overlays'' (OverlaysNotList name)) (\<lambda>entries.
     bindr (mapr (overlay_path V name) entries) (\<lambda>overlays.
     bindr (mission_path V name (jget d ''mission_file'')) (\<lambda>mission_file.
     bindr (check_mission V name mission_file) (\<lambda>_.
     bindr (check_stop V name (py_str (jget d ''stop_predicate''))) (\<lambda>_.
     bindr (list_at d ''peers'' (PeersNotList name)) (\<lambda>peers.
     bindr (list_at d ''seed_content'' (SeedsNotList name)) (\<lambda>seeds.
     bindr (mapr (parse_seed V) seeds) (\<lambda>seed_content.
     bindr (parse_balance V name (get_or d ''initial_balance_sats'' (JInt 0))) (\<lambda>balance.
     bindr (parse_redteam_port V name (get_or d ''redteam_port'' (JInt 0))) (\<lambda>redteam_port.
     Inr \<lparr>as_name = name, as_ipv8_port = ipv8_port, as_mcp_port = mcp_port, as_publish_overlays = overlays,
          as_mission_file = mission_file, as_stop_predicate = py_str (jget d ''stop_predicate''),
          as_peers = map py_str peers, as_seed_content = seed_content, as_initial_balance_sats = balance,
          as_redteam_port = redteam_port\<rparr>)))))))))))))"

section \<open>The agents together\<close>

text \<open>The ports seen so far with the agents that use them.\<close>

record seen_ports =
  sp_ipv8 :: "(int \<times> string) list"
  sp_mcp :: "(int \<times> string) list"
  sp_redteam :: "(int \<times> string) list"

definition check_redteam_port :: "agent_spec \<Rightarrow> (int \<times> string) list \<Rightarrow> (int \<times> string) list checked" where
  "check_redteam_port a seen =
     (if as_redteam_port a = 0 then Inr seen
      else (case map_of seen (as_redteam_port a) of
        Some other \<Rightarrow> Inl (RedteamPortClash (as_redteam_port a) other (as_name a))
      | None \<Rightarrow>
          if as_redteam_port a = as_ipv8_port a \<or> as_redteam_port a = as_mcp_port a
          then Inl (RedteamPortReused (as_name a))
          else Inr ((as_redteam_port a, as_name a) # seen)))"

definition check_ports :: "agent_spec \<Rightarrow> seen_ports \<Rightarrow> seen_ports checked" where
  "check_ports a seen =
     (case map_of (sp_ipv8 seen) (as_ipv8_port a) of
        Some other \<Rightarrow> Inl (Ipv8PortClash (as_ipv8_port a) other (as_name a))
      | None \<Rightarrow>
          (case map_of (sp_mcp seen) (as_mcp_port a) of
             Some other \<Rightarrow> Inl (McpPortClash (as_mcp_port a) other (as_name a))
           | None \<Rightarrow>
               if as_ipv8_port a = as_mcp_port a then Inl (SamePorts (as_name a))
               else
                 bindr (check_redteam_port a (sp_redteam seen)) (\<lambda>redteam.
                 Inr \<lparr>sp_ipv8 = (as_ipv8_port a, as_name a) # sp_ipv8 seen,
                      sp_mcp = (as_mcp_port a, as_name a) # sp_mcp seen, sp_redteam = redteam\<rparr>)))"

fun parse_agents ::
  "scenario_env \<Rightarrow> (string \<times> json) list \<Rightarrow> seen_ports \<Rightarrow> (string \<times> agent_spec) list checked" where
  "parse_agents V [] seen = Inr []"
| "parse_agents V ((name, v) # rest) seen =
     (case v of
        JObj d \<Rightarrow>
          bindr (parse_agent V name d) (\<lambda>a.
          bindr (check_ports a seen) (\<lambda>seen'.
          bindr (parse_agents V rest seen') (\<lambda>as.
          Inr ((name, a) # as))))
      | _ \<Rightarrow> Inl (AgentNotMapping name))"

fun check_peers :: "string list \<Rightarrow> string \<Rightarrow> string list \<Rightarrow> unit checked" where
  "check_peers names me [] = Inr ()"
| "check_peers names me (p # ps) =
     (if p \<notin> set names then Inl (UnknownPeer me p)
      else if p = me then Inl (SelfPeer me)
      else check_peers names me ps)"

fun check_all_peers :: "string list \<Rightarrow> agent_spec list \<Rightarrow> unit checked" where
  "check_all_peers names [] = Inr ()"
| "check_all_peers names (a # as) =
     bindr (check_peers names (as_name a) (as_peers a)) (\<lambda>_. check_all_peers names as)"

section \<open>The manifest\<close>

text \<open>\<open>s.isalnum()\<close> below code point 256.\<close>

definition is_alnum :: "string \<Rightarrow> bool" where
  "is_alnum s = (s \<noteq> [] \<and> list_all (\<lambda>c. is_word_char c \<and> c \<noteq> CHR ''_'') s)"

definition scenario_name_ok :: "string \<Rightarrow> bool" where
  "scenario_name_ok name = is_alnum (filter (\<lambda>c. c \<noteq> CHR ''_'' \<and> c \<noteq> CHR ''-'') name)"

definition parse_log_dir :: "string \<Rightarrow> dict \<Rightarrow> string checked" where
  "parse_log_dir name d =
     lifted (bindr (field_of (or_empty (jget d ''observability'')) ''log_dir'') (\<lambda>v.
       if \<not> truthy v then Inr (''/var/log/delftclaw/scenarios/'' @ name)
       else (case v of JStr s \<Rightarrow> Inr s | _ \<Rightarrow> Inl TypeError)))"

definition parse_agent_table :: "scenario_env \<Rightarrow> json \<Rightarrow> (string \<times> agent_spec) list checked" where
  "parse_agent_table V v = (case v of
     JObj (p # ps) \<Rightarrow> parse_agents V (p # ps) \<lparr>sp_ipv8 = [], sp_mcp = [], sp_redteam = []\<rparr>
   | _ \<Rightarrow> Inl AgentsNotMapping)"

definition parse_scenario :: "scenario_env \<Rightarrow> json \<Rightarrow> scenario checked" where
  "parse_scenario V raw = (case raw of
     JObj d \<Rightarrow>
       (case find (\<lambda>k. \<not> has_key d k) [''name'', ''watchdog'', ''agents''] of
          Some k \<Rightarrow> Inl (TopLevelKeyMissing k)
        | None \<Rightarrow>
            (let name = py_str (jget d ''name'') in
             if \<not> scenario_name_ok name then Inl (ScenarioNameNotAlnum name)
             else
               bindr (parse_policy V (jget d ''watchdog'')) (\<lambda>policy.
               bindr (parse_agent_table V (jget d ''agents'')) (\<lambda>agents.
               bindr (check_all_peers (map fst agents) (map snd agents)) (\<lambda>_.
               bindr (parse_log_dir name d) (\<lambda>log_dir.
               Inr \<lparr>sc_name = name, sc_description = py_str (get_or d ''description'' (JStr [])),
                    sc_watchdog = policy, sc_agents = agents, sc_log_dir = log_dir\<rparr>))))))
   | _ \<Rightarrow> Inl TopLevelNotMapping)"

end
