(* ===== verification/Scenario_Spec.thy ===== *)
theory Scenario_Spec
  imports Scenario Stop_Predicates_Spec
begin

text \<open>
  What an accepted mission and an accepted scenario guarantee, and the port clashes that the
  checks between the agents let through.
\<close>

section \<open>Missions\<close>

definition mission_ok :: "stop_env \<Rightarrow> mission \<Rightarrow> bool" where
  "mission_ok V m \<longleftrightarrow>
     match_name (ms_name m) \<and> ms_role m \<in> set allowed_roles \<and>
     ms_intent_text m \<noteq> [] \<and> named_tools (ms_intent_text m) = [] \<and>
     length (step_lines (ms_intent_text m)) \<le> max_intent_list_entries \<and>
     0 \<le> max_sats_outbound (ms_budget m) \<and> 1 \<le> max_total_turns (ms_budget m) \<and>
     (\<exists>P. resolve_predicate V (ms_stop_predicate m) = Inr P)"

lemma identity_valid:
  "parse_mission_identity body = Inr (name, role) \<Longrightarrow> match_name name \<and> role \<in> set allowed_roles"
  by (auto simp: parse_mission_identity_def Let_def split: option.splits if_splits)

lemma intent_valid:
  "check_intent body = Inr u \<Longrightarrow> named_tools body = [] \<and> length (step_lines body) \<le> max_intent_list_entries"
  by (auto simp: check_intent_def Let_def split: list.splits if_splits)

lemma budget_valid: "parse_budget body = Inr b \<Longrightarrow> 0 \<le> max_sats_outbound b \<and> 1 \<le> max_total_turns b"
  by (auto simp: parse_budget_def Let_def split: option.splits if_splits)

lemma stop_valid: "parse_stop V body = Inr spec \<Longrightarrow> \<exists>P. resolve_predicate V spec = Inr P"
  by (auto simp: parse_stop_def split: option.splits sum.splits resolve_error.splits)

lemma mission_valid:
  assumes "parse_mission V text = Inr m"
  shows "mission_ok V m" and "ms_raw_md m = text" and "\<forall>s \<in> set mission_sections. map_of (fst (split_mission text)) s \<noteq> None"
proof -
  obtain sections order where s: "split_mission text = (sections, order)" by (cases "split_mission text")
  from assms obtain name role b spec where p: "check_mission_sections order sections = Inr ()"
    "parse_mission_identity (section_text sections ''Identity'') = Inr (name, role)"
    "strip (section_text sections ''Intent'') \<noteq> []" "check_intent (strip (section_text sections ''Intent'')) = Inr ()"
    "parse_budget (section_text sections ''Budget'') = Inr b" "parse_stop V (section_text sections ''Stop'') = Inr spec"
    and m: "m = \<lparr>ms_name = name, ms_role = role, ms_intent_text = strip (section_text sections ''Intent''), ms_budget = b,
      ms_stop_predicate = spec, ms_raw_md = text\<rparr>"
    by (auto simp: parse_mission_def s bindr_Inr_iff Let_def split: if_splits)
  show "mission_ok V m"
    using identity_valid [OF p(2)] intent_valid [OF p(4)] budget_valid [OF p(5)] stop_valid [OF p(6)] p(3)
    by (simp add: mission_ok_def m)
  show "ms_raw_md m = text" by (simp add: m)
  show "\<forall>s \<in> set mission_sections. map_of (fst (split_mission text)) s \<noteq> None"
    using checked_sections_present [OF s p(1)] s by simp
qed

section \<open>Agents\<close>

definition port_ok :: "int \<Rightarrow> bool" where
  "port_ok p = (1024 \<le> p \<and> p \<le> 65535)"

text \<open>What is checked of an agent by itself.\<close>

definition agent_ok :: "scenario_env \<Rightarrow> agent_spec \<Rightarrow> bool" where
  "agent_ok V a \<longleftrightarrow>
     port_ok (as_ipv8_port a) \<and> port_ok (as_mcp_port a) \<and> (as_redteam_port a = 0 \<or> port_ok (as_redteam_port a)) \<and>
     0 \<le> as_initial_balance_sats a \<and> list_all (sv_is_file V) (as_publish_overlays a) \<and>
     (\<exists>P. resolve_predicate (sv_stop V) (as_stop_predicate a) = Inr P) \<and>
     (\<exists>text m. sv_read_text V (as_mission_file a) = Inr text \<and> parse_mission (sv_stop V) text = Inr m)"

lemma lifted_Inr [simp]: "lifted r = Inr v \<longleftrightarrow> r = Inr v"
  by (auto simp: lifted_def split: sum.split)

lemma port_valid: "parse_port V ctx v = Inr p \<Longrightarrow> port_ok p"
  by (auto simp: parse_port_def bindr_Inr_iff port_ok_def split: if_splits)

lemma overlays_valid: "mapr (overlay_path V name) vs = Inr ps \<Longrightarrow> list_all (sv_is_file V) ps"
  by (induction vs arbitrary: ps) (auto simp: bindr_Inr_iff overlay_path_def Let_def split: if_splits)

lemma agent_mission_valid:
  assumes "check_mission V name path = Inr u"
  shows "\<exists>text m. sv_read_text V path = Inr text \<and> parse_mission (sv_stop V) text = Inr m"
proof -
  from assms obtain md where t: "sv_read_text V path = Inr md" by (auto simp: check_mission_def bindr_Inr_iff)
  with assms show ?thesis by (cases "parse_mission (sv_stop V) md") (auto simp: check_mission_def bindr_Inr_iff)
qed

lemma check_stop_valid: "check_stop V name spec = Inr u \<Longrightarrow> \<exists>P. resolve_predicate (sv_stop V) spec = Inr P"
  by (auto simp: check_stop_def split: sum.splits resolve_error.splits)

lemma balance_valid: "parse_balance V name v = Inr n \<Longrightarrow> 0 \<le> n"
  by (auto simp: parse_balance_def bindr_Inr_iff split: if_splits)

lemma redteam_valid: "parse_redteam_port V name v = Inr p \<Longrightarrow> p = 0 \<or> port_ok p"
  by (auto simp: parse_redteam_port_def dest: port_valid split: if_splits)

lemma agent_valid:
  assumes "parse_agent V name d = Inr a"
  shows "agent_ok V a \<and> as_name a = name"
proof -
  from assms obtain i m es os f u1 u2 ps seeds b r where
    p: "parse_port V (''agent '' @ name @ ''.ipv8_port'') (jget d ''ipv8_port'') = Inr i"
      "parse_port V (''agent '' @ name @ ''.mcp_port'') (jget d ''mcp_port'') = Inr m"
      "mapr (overlay_path V name) es = Inr os" "check_mission V name f = Inr u1"
      "check_stop V name (py_str (jget d ''stop_predicate'')) = Inr u2"
      "parse_balance V name (get_or d ''initial_balance_sats'' (JInt 0)) = Inr b"
      "parse_redteam_port V name (get_or d ''redteam_port'' (JInt 0)) = Inr r"
    and "Inr \<lparr>as_name = name, as_ipv8_port = i, as_mcp_port = m, as_publish_overlays = os, as_mission_file = f,
      as_stop_predicate = py_str (jget d ''stop_predicate''), as_peers = map py_str ps, as_seed_content = seeds,
      as_initial_balance_sats = b, as_redteam_port = r\<rparr> = (Inr a :: agent_spec checked)"
    unfolding parse_agent_def bindr_Inr_iff by (elim exE conjE) (rule that; assumption)
  then have a: "a = \<lparr>as_name = name, as_ipv8_port = i, as_mcp_port = m, as_publish_overlays = os, as_mission_file = f,
      as_stop_predicate = py_str (jget d ''stop_predicate''), as_peers = map py_str ps, as_seed_content = seeds,
      as_initial_balance_sats = b, as_redteam_port = r\<rparr>" by simp
  show ?thesis
    using port_valid [OF p(1)] port_valid [OF p(2)] overlays_valid [OF p(3)] agent_mission_valid [OF p(4)]
      check_stop_valid [OF p(5)] balance_valid [OF p(6)] redteam_valid [OF p(7)]
    by (simp add: agent_ok_def a)
qed

section \<open>Agents together\<close>

definition keys_of :: "seen_ports \<Rightarrow> int set \<times> int set \<times> int set" where
  "keys_of seen = (fst ` set (sp_ipv8 seen), fst ` set (sp_mcp seen), fst ` set (sp_redteam seen))"

text \<open>The ports of agents are new and, each kind by itself, pairwise different.\<close>

definition fresh_ports :: "int set \<Rightarrow> int list \<Rightarrow> bool" where
  "fresh_ports K ps = (distinct ps \<and> set ps \<inter> K = {})"

definition redteam_ports :: "agent_spec list \<Rightarrow> int list" where
  "redteam_ports as = filter (\<lambda>p. p \<noteq> 0) (map as_redteam_port as)"

definition own_ports_differ :: "agent_spec \<Rightarrow> bool" where
  "own_ports_differ a = (as_ipv8_port a \<noteq> as_mcp_port a \<and>
     (as_redteam_port a = 0 \<or> as_redteam_port a \<notin> {as_ipv8_port a, as_mcp_port a}))"

lemma ports_valid:
  assumes "check_ports a seen = Inr seen'"
  shows "own_ports_differ a" "as_ipv8_port a \<notin> fst ` set (sp_ipv8 seen)" "as_mcp_port a \<notin> fst ` set (sp_mcp seen)"
    "as_redteam_port a \<noteq> 0 \<Longrightarrow> as_redteam_port a \<notin> fst ` set (sp_redteam seen)"
    "keys_of seen' = (insert (as_ipv8_port a) (fst ` set (sp_ipv8 seen)), insert (as_mcp_port a) (fst ` set (sp_mcp seen)),
       (if as_redteam_port a = 0 then id else insert (as_redteam_port a)) (fst ` set (sp_redteam seen)))"
  using assms
  by (auto simp: check_ports_def check_redteam_port_def bindr_Inr_iff own_ports_differ_def keys_of_def map_of_eq_None_iff
      split: option.splits if_splits)

lemma fresh_ports_Cons: "fresh_ports K (p # ps) \<longleftrightarrow> p \<notin> K \<and> fresh_ports (insert p K) ps"
  by (auto simp: fresh_ports_def)

lemma agents_valid:
  assumes "parse_agents V ps seen = Inr as"
  shows "map fst as = map fst ps \<and> (\<forall>(n, a) \<in> set as. agent_ok V a \<and> as_name a = n \<and> own_ports_differ a) \<and>
    fresh_ports (fst (keys_of seen)) (map (as_ipv8_port \<circ> snd) as) \<and>
    fresh_ports (fst (snd (keys_of seen))) (map (as_mcp_port \<circ> snd) as) \<and>
    fresh_ports (snd (snd (keys_of seen))) (redteam_ports (map snd as))"
  using assms
proof (induction V ps seen arbitrary: as rule: parse_agents.induct)
  case (1 V seen)
  then show ?case by (simp add: fresh_ports_def redteam_ports_def)
next
  case (2 V name v rest seen)
  from "2.prems" obtain d a seen' as' where v: "v = JObj d" and a: "parse_agent V name d = Inr a"
    and p: "check_ports a seen = Inr seen'" and r: "parse_agents V rest seen' = Inr as'" and as: "as = (name, a) # as'"
    by (auto simp: bindr_Inr_iff split: json.splits)
  note IH = "2.IH" [OF v r]
  note pv = ports_valid [OF p]
  show ?case
    using IH pv agent_valid [OF a]
    by (auto simp: as fresh_ports_Cons keys_of_def redteam_ports_def split: if_splits)
qed

lemma peers_valid: "check_peers names me ps = Inr u \<Longrightarrow> set ps \<subseteq> set names - {me}"
  by (induction names me ps rule: check_peers.induct) (auto split: if_splits)

lemma all_peers_valid:
  "check_all_peers names as = Inr u \<Longrightarrow> \<forall>a \<in> set as. set (as_peers a) \<subseteq> set names - {as_name a}"
  by (induction names as rule: check_all_peers.induct) (auto simp: bindr_Inr_iff dest: peers_valid)

definition scenario_ok :: "scenario_env \<Rightarrow> scenario \<Rightarrow> bool" where
  "scenario_ok V S \<longleftrightarrow>
     scenario_name_ok (sc_name S) \<and> sc_agents S \<noteq> [] \<and>
     (\<forall>(n, a) \<in> set (sc_agents S). as_name a = n \<and> agent_ok V a \<and> own_ports_differ a \<and>
        set (as_peers a) \<subseteq> fst ` set (sc_agents S) - {n}) \<and>
     distinct (map (as_ipv8_port \<circ> snd) (sc_agents S)) \<and> distinct (map (as_mcp_port \<circ> snd) (sc_agents S)) \<and>
     distinct (redteam_ports (map snd (sc_agents S)))"

text \<open>
  C35: An accepted scenario can be run: it has agents, each with ports in range and different
  from its own other ports, a mission that parses, a stop predicate that resolves, overlay
  files that exist and peers among the other agents, and no two agents share an IPv8 port, an
  MCP port or a log server port.
\<close>

theorem parse_scenario_valid:
  assumes "parse_scenario V raw = Inr S"
  shows "scenario_ok V S"
proof -
  from assms obtain d agents where name: "scenario_name_ok (sc_name S)"
    and t: "parse_agent_table V (jget d ''agents'') = Inr agents"
    and peers: "check_all_peers (map fst agents) (map snd agents) = Inr ()"
    and S: "sc_agents S = agents"
    by (auto simp: parse_scenario_def bindr_Inr_iff Let_def split: json.splits option.splits if_splits)
  from t obtain p ps where a: "parse_agents V (p # ps) \<lparr>sp_ipv8 = [], sp_mcp = [], sp_redteam = []\<rparr> = Inr agents"
    by (auto simp: parse_agent_table_def simp del: parse_agents.simps split: json.splits list.splits)
  note v = agents_valid [OF a]
  have "agents \<noteq> []" using v by auto
  moreover have "\<forall>(n, x) \<in> set agents. as_name x = n \<and> agent_ok V x \<and> own_ports_differ x \<and> set (as_peers x) \<subseteq> fst ` set agents - {n}"
  proof (intro ballI, clarify)
    fix n x assume m: "(n, x) \<in> set agents"
    then have own: "agent_ok V x" "as_name x = n" "own_ports_differ x" using v by auto
    moreover have "x \<in> set (map snd agents)" using m by force
    then have "set (as_peers x) \<subseteq> set (map fst agents) - {as_name x}" using all_peers_valid [OF peers] by blast
    ultimately show "as_name x = n \<and> agent_ok V x \<and> own_ports_differ x \<and> set (as_peers x) \<subseteq> fst ` set agents - {n}" by simp
  qed
  ultimately show ?thesis
    using v name by (simp add: scenario_ok_def fresh_ports_def S)
qed

section \<open>A scenario with crossed ports\<close>

definition sample_mission :: string where
  "sample_mission = join_with [nl]
     [''# Identity'', ''- name: bob'', ''- role: seeker'', ''# Intent'', ''Find music.'', ''# Budget'',
      ''- max_sats_outbound: 50'', ''- max_total_turns: 9'', ''# Stop'', ''- predicate: peer_count_gte_N(n=2)'']"

definition sample_scenario_env :: scenario_env where
  "sample_scenario_env =
     \<lparr>sv_stop = \<lparr>se_int_ge_float = (\<lambda>_ _. False), se_float_ge_one = (\<lambda>_. False), se_read_float = (\<lambda>_. None)\<rparr>,
      sv_trunc = (\<lambda>_. Inl (ValueError [])), sv_repo_path = (\<lambda>p. p), sv_local_path = (\<lambda>p. p), sv_is_file = (\<lambda>_. True),
      sv_read_text = (\<lambda>_. Inr sample_mission)\<rparr>"

definition crossed_manifest :: json where
  "crossed_manifest = JObj
     [(''name'', JStr ''demo''),
      (''watchdog'', JObj [(''interval_s'', JInt 30), (''max_iterations_per_turn'', JInt 4),
         (''max_total_turns'', JInt 9), (''max_wall_clock_s'', JInt 600)]),
      (''agents'', JObj
         [(''alice'', JObj [(''ipv8_port'', JInt 2000), (''mcp_port'', JInt 3000), (''mission_file'', JStr ''a''),
            (''stop_predicate'', JStr ''never''), (''peers'', JList [JStr ''bob''])]),
          (''bob'', JObj [(''ipv8_port'', JInt 3000), (''mcp_port'', JInt 2000), (''mission_file'', JStr ''b''),
            (''stop_predicate'', JStr ''never''), (''redteam_port'', JInt 4000)])])]"

definition crossed_agents :: "(string \<times> agent_spec) list" where
  "crossed_agents =
     [(''alice'', \<lparr>as_name = ''alice'', as_ipv8_port = 2000, as_mcp_port = 3000, as_publish_overlays = [],
        as_mission_file = ''a'', as_stop_predicate = ''never'', as_peers = [''bob''], as_seed_content = [],
        as_initial_balance_sats = 0, as_redteam_port = 0\<rparr>),
      (''bob'', \<lparr>as_name = ''bob'', as_ipv8_port = 3000, as_mcp_port = 2000, as_publish_overlays = [],
        as_mission_file = ''b'', as_stop_predicate = ''never'', as_peers = [], as_seed_content = [],
        as_initial_balance_sats = 0, as_redteam_port = 4000\<rparr>)]"

lemma sample_mission_parses: "\<exists>m. parse_mission (sv_stop sample_scenario_env) sample_mission = Inr m"
  by (rule exI [of _ "\<lparr>ms_name = ''bob'', ms_role = ''seeker'', ms_intent_text = ''Find music.'',
      ms_budget = \<lparr>max_sats_outbound = 50, max_total_turns = 9\<rparr>, ms_stop_predicate = ''peer_count_gte_N(n=2)'',
      ms_raw_md = sample_mission\<rparr>"]) code_simp

text \<open>
  Ports are compared within their kind only: a scenario in which the MCP port of one agent is
  the IPv8 port of another is accepted.
\<close>

lemma crossed_ports_accepted:
  "\<exists>S. parse_scenario sample_scenario_env crossed_manifest = Inr S \<and> sc_agents S = crossed_agents"
  by (rule exI [of _ "\<lparr>sc_name = ''demo'', sc_description = [], sc_watchdog = \<lparr>wp_interval_s = 30,
      wp_max_iterations_per_turn = 4, wp_max_total_turns = 9, wp_max_wall_clock_s = 600\<rparr>, sc_agents = crossed_agents,
      sc_log_dir = ''/var/log/delftclaw/scenarios/demo''\<rparr>"]) code_simp

lemma parse_scenario_valid_witness:
  "\<exists>S. parse_scenario sample_scenario_env crossed_manifest = Inr S \<and> scenario_ok sample_scenario_env S"
proof -
  obtain S where "parse_scenario sample_scenario_env crossed_manifest = Inr S" using crossed_ports_accepted by blast
  with parse_scenario_valid [OF this] show ?thesis by blast
qed

end
