(* ===== verification/Boot_Config.thy ===== *)
theory Boot_Config
  imports Scenario Manifest Watchdog
begin

text \<open>
  What a scenario is booted with (deploy/scenario_boot.py): the settings of the language models
  from the environment and the host file, the environment file of an agent's services, and the
  network manifest written for the agent that the others know.

  Parameters: the environment, the text of the host file if there is one, the root of the
  repository and the joining of paths.  The long dashes of fixed texts are written as hyphens.
\<close>

section \<open>Texts\<close>

text \<open>\<open>line.partition("=")\<close>: whether there is a sign, the text before it and after it.\<close>

definition partition_eq :: "string \<Rightarrow> bool \<times> string \<times> string" where
  "partition_eq line =
     (CHR ''='' \<in> set line, takeWhile (\<lambda>c. c \<noteq> CHR ''='') line, tl (dropWhile (\<lambda>c. c \<noteq> CHR ''='') line))"

definition remove_suffix :: "string \<Rightarrow> string \<Rightarrow> string" where
  "remove_suffix p s = (if p \<noteq> [] \<and> suffix p s then take (length s - length p) s else s)"

section \<open>Settings\<close>

definition host_line :: "string \<Rightarrow> (string \<times> string) option" where
  "host_line raw =
     (let line = strip raw in
      if line = [] \<or> startswith line ''#'' then None
      else
        (case partition_eq line of (present, k, v) \<Rightarrow>
          if \<not> present \<or> strip k = [] \<or> strip v = [] then None else Some (strip k, strip v)))"

definition load_host_env :: "string option \<Rightarrow> (string \<times> string) list" where
  "load_host_env file = (case file of
     None \<Rightarrow> []
   | Some text \<Rightarrow>
       foldl (\<lambda>out raw. case host_line raw of None \<Rightarrow> out | Some (k, v) \<Rightarrow> AList.update k v out) [] (splitlines text))"

definition host_get :: "(string \<times> string) list \<Rightarrow> string \<Rightarrow> string \<Rightarrow> string" where
  "host_get host k d = (case map_of host k of Some v \<Rightarrow> v | None \<Rightarrow> d)"

definition default_base_url :: string where "default_base_url = ''http://100.73.168.12:11434/v1''"
definition default_model :: string where "default_model = ''qwen3.6:27b''"
definition default_api_key :: string where "default_api_key = ''ollama''"

definition resolve_llm :: "environ \<Rightarrow> string option \<Rightarrow> string \<times> string \<times> string" where
  "resolve_llm vars file =
     (let host = load_host_env file in
      (environ_get vars ''LLM_BASE_URL'' (host_get host ''LLM_BASE_URL'' default_base_url),
       environ_get vars ''LLM_MODEL'' (host_get host ''LLM_MODEL'' default_model),
       environ_get vars ''LLM_API_KEY'' (host_get host ''LLM_API_KEY'' default_api_key)))"

definition old_or_new :: "environ \<Rightarrow> (string \<times> string) list \<Rightarrow> string \<Rightarrow> string \<Rightarrow> string \<Rightarrow> string" where
  "old_or_new vars host old_key new_key d =
     environ_get vars old_key (environ_get vars new_key (host_get host old_key (host_get host new_key d)))"

definition resolve_qwen :: "environ \<Rightarrow> string option \<Rightarrow> string \<times> string \<times> string" where
  "resolve_qwen vars file =
     (let host = load_host_env file in
      (old_or_new vars host ''QWEN_BASE_URL'' ''LLM_BASE_URL'' default_base_url,
       old_or_new vars host ''QWEN_MODEL'' ''LLM_MODEL'' default_model,
       old_or_new vars host ''OLLAMA_API_KEY'' ''LLM_API_KEY'' default_api_key))"

record provider_conf =
  pc_provider :: string
  pc_api :: string
  pc_base_url :: string
  pc_model :: string
  pc_api_key_env :: string
  pc_api_key_value :: string
  pc_api_keys :: string
  pc_watchdog_driver :: string

definition resolve_openclaw_provider :: "environ \<Rightarrow> string option \<Rightarrow> provider_conf" where
  "resolve_openclaw_provider vars file =
     (let host = load_host_env file;
          provider = lower (strip (environ_get vars ''OPENCLAW_PROVIDER'' (host_get host ''OPENCLAW_PROVIDER'' ''ollama'')));
          base_url = strip (environ_get vars ''OPENCLAW_BASE_URL'' (host_get host ''OPENCLAW_BASE_URL''
            (host_get host ''QWEN_BASE_URL'' (host_get host ''LLM_BASE_URL'' default_base_url))));
          model = strip (environ_get vars ''OPENCLAW_MODEL'' (host_get host ''OPENCLAW_MODEL''
            (host_get host ''QWEN_MODEL'' (host_get host ''LLM_MODEL'' default_model))));
          api = lower (strip (environ_get vars ''OPENCLAW_API'' (host_get host ''OPENCLAW_API'' [])));
          key_env = strip (environ_get vars ''OPENCLAW_API_KEY_ENV'' (host_get host ''OPENCLAW_API_KEY_ENV''
            (if provider = ''ollama'' then ''OLLAMA_API_KEY'' else ''GEMINI_API_KEY'')));
          key_value = strip (environ_get vars key_env (host_get host key_env []));
          raw_keys = environ_get vars ''OPENCLAW_API_KEYS'' (host_get host ''OPENCLAW_API_KEYS'' (host_get host ''GEMINI_API_KEYS'' []));
          keys = filter (\<lambda>k. k \<noteq> []) (map strip (split_on (CHR '','') raw_keys));
          driver = lower (strip (environ_get vars ''WATCHDOG_DRIVER''
            (host_get host ''WATCHDOG_DRIVER'' (if provider = ''gemini'' then ''direct'' else ''openclaw''))))
      in \<lparr>pc_provider = provider,
          pc_api = (if api \<noteq> [] then api else if provider = ''ollama'' then ''ollama'' else ''openai-completions''),
          pc_base_url = base_url, pc_model = model, pc_api_key_env = key_env, pc_api_key_value = key_value,
          pc_api_keys = join_with [nl] (if keys = [] \<and> key_value \<noteq> [] then [key_value] else keys),
          pc_watchdog_driver = driver\<rparr>)"

definition ollama_base_from :: "string \<Rightarrow> string" where
  "ollama_base_from base_url = remove_suffix ''/v1'' (rstrip_slash base_url)"

definition normalise_openclaw_base_url :: "string \<Rightarrow> string \<Rightarrow> string" where
  "normalise_openclaw_base_url provider base_url =
     (if provider = ''ollama'' then ollama_base_from base_url else rstrip_slash base_url @ ''/'')"

text \<open>The position of an agent in the order of the scenario, zero for a name that is not there.\<close>

fun position :: "string \<Rightarrow> string list \<Rightarrow> nat" where
  "position x [] = 0"
| "position x (y # ys) = (if x = y then 0 else if x \<in> set ys then Suc (position x ys) else 0)"

definition openclaw_api_key_for_agent :: "provider_conf \<Rightarrow> scenario \<Rightarrow> agent_spec \<Rightarrow> string" where
  "openclaw_api_key_for_agent P S a =
     (let keys = filter (\<lambda>k. k \<noteq> []) (splitlines (pc_api_keys P)) in
      if keys = [] then pc_api_key_value P
      else keys ! (position (as_name a) (map fst (sc_agents S)) mod length keys))"

section \<open>Paths\<close>

record boot_conf =
  bc_environ :: environ
  bc_host_file :: "string option"
  bc_repo_root :: string
  bc_join :: "string \<Rightarrow> string \<Rightarrow> string"

definition under :: "boot_conf \<Rightarrow> string \<Rightarrow> string list \<Rightarrow> string" where
  "under B base parts = foldl (bc_join B) base parts"

definition etc_instances :: string where "etc_instances = ''/etc/delftclaw/instances''"
definition etc_scenarios :: string where "etc_scenarios = ''/etc/delftclaw/scenarios''"
definition state_root :: string where "state_root = ''/var/lib/delftclaw''"
definition service_user :: string where "service_user = ''delftclaw''"

definition state_dir :: "boot_conf \<Rightarrow> string \<Rightarrow> string \<Rightarrow> string" where
  "state_dir B scenario_name agent_name = under B state_root [scenario_name, agent_name]"

definition security_root :: "boot_conf \<Rightarrow> scenario \<Rightarrow> string" where
  "security_root B S = under B state_root [sc_name S, ''security'']"

definition instance_env_path :: "boot_conf \<Rightarrow> scenario \<Rightarrow> agent_spec \<Rightarrow> string" where
  "instance_env_path B S a = bc_join B etc_instances (instance_id S (as_name a) @ ''.env'')"

definition scenario_dir_on_vps :: "boot_conf \<Rightarrow> scenario \<Rightarrow> agent_spec \<Rightarrow> string" where
  "scenario_dir_on_vps B S a = bc_join B etc_scenarios (instance_id S (as_name a))"

definition manifest_file_path :: "boot_conf \<Rightarrow> scenario \<Rightarrow> agent_spec \<Rightarrow> string" where
  "manifest_file_path B S a = bc_join B (scenario_dir_on_vps B S a) ''network_manifest.md''"

definition seed_content_file_path :: "boot_conf \<Rightarrow> scenario \<Rightarrow> agent_spec \<Rightarrow> string" where
  "seed_content_file_path B S a = bc_join B (scenario_dir_on_vps B S a) ''seed_content.json''"

section \<open>The environment of an agent\<close>

definition secured :: "scenario \<Rightarrow> bool" where
  "secured S = (sc_name S \<in> {''security_layers'', ''secure_community_demo''})"

definition provider_of :: "boot_conf \<Rightarrow> provider_conf" where
  "provider_of B = resolve_openclaw_provider (bc_environ B) (bc_host_file B)"

definition log_server_url :: "agent_spec \<Rightarrow> string" where
  "log_server_url a = ''http://127.0.0.1:'' @ int_str (as_redteam_port a)"

definition peer_log_urls :: "scenario \<Rightarrow> agent_spec \<Rightarrow> string list" where
  "peer_log_urls S a =
     map log_server_url (filter (\<lambda>b. as_name b \<noteq> as_name a \<and> as_redteam_port b \<noteq> 0) (map snd (sc_agents S)))"

definition instance_env_lines :: "boot_conf \<Rightarrow> scenario \<Rightarrow> agent_spec \<Rightarrow> string list" where
  "instance_env_lines B S a =
     (let state = state_dir B (sc_name S) (as_name a); P = provider_of B; key = openclaw_api_key_for_agent P S a in
      case resolve_qwen (bc_environ B) (bc_host_file B) of (qwen_url, qwen_model, api_key) \<Rightarrow>
      [''# generated by deploy.scenario_boot - do not hand-edit'',
       ''PYTHONPATH='' @ bc_repo_root B,
       ''HOME='' @ state,
       ''SEED_FILE='' @ bc_join B state ''seed.txt'',
       ''NETWORK=TESTNET'',
       ''BTC_NETWORK=mock'',
       ''INITIAL_BALANCE_SATS='' @ int_str (as_initial_balance_sats a),
       ''IPV8_HOST=0.0.0.0'',
       ''IPV8_PORT='' @ int_str (as_ipv8_port a),
       ''MCP_HOST=0.0.0.0'',
       ''MCP_PORT='' @ int_str (as_mcp_port a),
       ''REDTEAM_HOST=0.0.0.0'',
       ''REDTEAM_PORT='' @ int_str (as_redteam_port a),
       ''PEER_LOG_URLS='' @ join_with '' '' (peer_log_urls S a),
       ''COMMUNITY_LOG_PATH='' @ bc_join B state ''community.log'',
       ''PEER_LOG_DIR='' @ bc_join B state ''peer_logs'',
       ''PUBLISH_OVERLAY='' @ (case as_publish_overlays a of
           p # ps \<Rightarrow> p | [] \<Rightarrow> under B (bc_repo_root B) [''protocol'', ''examples'', ''content_community.md'']),
       ''SEED_CONTENT_FILE='' @ seed_content_file_path B S a,
       ''MANIFEST_FILE='' @ manifest_file_path B S a,
       ''QWEN_BASE_URL='' @ qwen_url,
       ''QWEN_MODEL='' @ qwen_model,
       ''OPENCLAW_PROVIDER='' @ pc_provider P,
       ''OPENCLAW_API='' @ pc_api P,
       ''OPENCLAW_BASE_URL='' @ pc_base_url P,
       ''OPENCLAW_MODEL='' @ pc_model P,
       ''OPENCLAW_API_KEY_ENV='' @ pc_api_key_env P,
       ''WATCHDOG_DRIVER='' @ (if secured S then ''direct'' else pc_watchdog_driver P)] @
      (if secured S
       then [''DIRECT_TOOL_ALLOWLIST='' @
               (if sc_name S = ''security_layers'' then ''security_layers'' else ''secure_community_demo''),
             ''SECURITY_DEMO_ROOT='' @ security_root B S,
             ''SECURITY_EVIDENCE_PATH='' @ bc_join B (security_root B S) ''security_evidence.json'',
             ''INTEGRATED_ATTACKER_ID=agent_2'']
       else []) @
      [''OLLAMA_API_KEY='' @ api_key] @
      (if key \<noteq> [] then [pc_api_key_env P @ ''='' @ key] else []) @
      [''LOG_DIR='' @ sc_log_dir S])"

definition instance_env_contents :: "boot_conf \<Rightarrow> scenario \<Rightarrow> agent_spec \<Rightarrow> string" where
  "instance_env_contents B S a = join_with [nl] (instance_env_lines B S a) @ [nl]"

definition secret_keys :: "provider_conf \<Rightarrow> string list" where
  "secret_keys P = [''GEMINI_API_KEY'', ''OPENAI_API_KEY'', ''ANTHROPIC_API_KEY'', pc_api_key_env P]"

definition redact_line :: "provider_conf \<Rightarrow> string \<Rightarrow> string" where
  "redact_line P line = (case partition_eq line of (present, key, value) \<Rightarrow>
     if present \<and> key \<in> set (secret_keys P) \<and> value \<noteq> [] then key @ ''=<redacted>'' else line)"

definition redact_env_for_log :: "provider_conf \<Rightarrow> string \<Rightarrow> string" where
  "redact_env_for_log P body =
     join_with [nl] (map (redact_line P) (splitlines body)) @ (if suffix [nl] body then [nl] else [])"

section \<open>Seed content\<close>

text \<open>\<open>c.isalnum() or c in "._-"\<close> below code point 256.\<close>

definition safe_file_name :: "string \<Rightarrow> string" where
  "safe_file_name name = map (\<lambda>c. if is_alnum [c] \<or> c \<in> {CHR ''.'', CHR ''_'', CHR ''-''} then c else CHR ''_'') name"

definition seed_payload :: "seed_content \<Rightarrow> string" where
  "seed_payload sd =
     ''DelftClaw community demo seed content'' @ [nl] @ ''name='' @ sd_name sd @ [nl] @
     ''magnet='' @ sd_magnet sd @ [nl]"

definition seed_row :: "string \<Rightarrow> seed_content \<Rightarrow> json" where
  "seed_row content_path sd = JObj
     [(''magnet'', JStr (sd_magnet sd)), (''name'', JStr (sd_name sd)), (''size'', JInt (sd_size sd)),
      (''mime'', JStr (sd_mime sd)), (''tags'', JList (map JStr (sd_tags sd))), (''path'', JStr content_path)]"

section \<open>The network manifest\<close>

definition count_refs :: "scenario \<Rightarrow> (string \<times> nat) list" where
  "count_refs S =
     foldl (\<lambda>refs p. AList.update p (Suc (case map_of refs p of Some n \<Rightarrow> n | None \<Rightarrow> 0)) refs)
       (map (\<lambda>p. (fst p, 0)) (sc_agents S)) (concat (map (as_peers \<circ> snd) (sc_agents S)))"

text \<open>\<open>max(d.items(), key=...)\<close>: the first entry with the greatest value.\<close>

fun first_max :: "(string \<times> nat) \<Rightarrow> (string \<times> nat) list \<Rightarrow> string \<times> nat" where
  "first_max best [] = best"
| "first_max best (p # ps) = first_max (if snd best < snd p then p else best) ps"

definition pick_genesis :: "scenario \<Rightarrow> string option" where
  "pick_genesis S = (case count_refs S of
     [] \<Rightarrow> None
   | p # ps \<Rightarrow>
       (case first_max p ps of (name, count) \<Rightarrow>
          if count = 0 then Some (fst (hd (sc_agents S))) else Some name))"

record agent_coords =
  co_host :: string
  co_port :: int
  co_pubkey_hex :: string
  co_wallet_address :: string

definition overlays_section :: "string list \<Rightarrow> string list" where
  "overlays_section hashes =
     (if hashes = [] then [''(none - joiners discover overlays via OVERLAY_OFFER)'']
      else map (\<lambda>h. ''- sha1: '' @ h @ ''  (default overlay)'') hashes)"

definition manifest_lines :: "string \<Rightarrow> agent_coords \<Rightarrow> string list \<Rightarrow> string list" where
  "manifest_lines name g hashes =
     [''# Identity'',
      ''- name: '' @ name,
      ''- version: 1.0.0'',
      ''- description: Auto-generated manifest for scenario '' @ name @ ''.'',
      [],
      ''# Admission'',
      ''- gatekeeper_address: '' @ co_wallet_address g,
      ''- min_sats: 10000'',
      ''- min_confirmations: 0'',
      ''- bootstrap_cap_sats: 100000'',
      ''- max_agents_per_seedbox: 3'',
      ''- seedbox_cost_sats: 20000'',
      [],
      ''# Genesis Peers'',
      ''| host | port | pubkey_hex |'',
      ''|------|------|------------|'',
      ''| '' @ co_host g @ '' | '' @ int_str (co_port g) @ '' | '' @ co_pubkey_hex g @ '' |'',
      [],
      ''# Default Overlays''] @
     overlays_section hashes @ [[]]"

definition build_manifest_md :: "scenario \<Rightarrow> agent_coords \<Rightarrow> string list \<Rightarrow> string" where
  "build_manifest_md S g hashes = join_with [nl] (manifest_lines (sc_name S) g hashes)"

end
