(* ===== verification/Scenario_Boot.thy ===== *)
theory Scenario_Boot
  imports Boot_Config Community_Agent
begin

text \<open>
  Bringing a scenario up and taking it down (deploy/scenario_boot.py): directories and files
  through \<open>sudo\<close>, the services of every agent, the registration with OpenClaw, the
  introduction of peers, the manifest for every agent, and the watchdogs at the end.

  The machine is the type \<open>'w\<close>: what a command answers, what an agent's MCP server answers,
  whether a file is there, the wait for a server and the isolation probe are parameters.  Every
  command and every call of a tool is recorded in a trace, in order.  Printing is left out.
\<close>

section \<open>The machine\<close>

datatype boot_act =
    Command "string list" "string option"
  | ToolCall string string dict
  | AwaitUp string
  | IsolationProbe string

text \<open>The first content block of a tool's answer, or its structured content.\<close>

datatype tool_answer = Content string | Structured json

record 'w machine =
  mc_conf :: boot_conf
  mc_is_root :: bool
  mc_scenario_source :: string
  mc_exists :: "string \<Rightarrow> 'w \<Rightarrow> bool"
  mc_nonempty :: "string \<Rightarrow> 'w \<Rightarrow> bool"
  mc_command :: "string list \<Rightarrow> string option \<Rightarrow> (int \<times> string, 'w) step"
  mc_tool :: "string \<Rightarrow> string \<Rightarrow> dict \<Rightarrow> (tool_answer, 'w) step"
  mc_await :: "string \<Rightarrow> (unit, 'w) step"
  mc_probe :: "string \<Rightarrow> (json, 'w) step"
  mc_overlay_text :: "string \<Rightarrow> string res"
  mc_sha1 :: "bytes \<Rightarrow> bytes"
  mc_float_repr :: "string \<Rightarrow> string"

record 'w boot_state =
  bs_world :: 'w
  bs_trace :: "boot_act list"

definition act :: "boot_act \<Rightarrow> ('a, 'w) step \<Rightarrow> ('a, 'w boot_state) step" where
  "act a m S = (case m (bs_world S) of (r, w) \<Rightarrow> (r, \<lparr>bs_world = w, bs_trace = bs_trace S @ [a]\<rparr>))"

definition observe :: "('w \<Rightarrow> 'a) \<Rightarrow> ('a, 'w boot_state) step" where
  "observe f S = (Inr (f (bs_world S)), S)"

fun each :: "('a \<Rightarrow> (unit, 's) step) \<Rightarrow> 'a list \<Rightarrow> (unit, 's) step" where
  "each f [] = ret ()"
| "each f (x # xs) = seq (f x) (\<lambda>_. each f xs)"

fun gather :: "('a \<Rightarrow> ('b, 's) step) \<Rightarrow> 'a list \<Rightarrow> ('b list, 's) step" where
  "gather f [] = ret []"
| "gather f (x # xs) = seq (f x) (\<lambda>y. seq (gather f xs) (\<lambda>ys. ret (y # ys)))"

text \<open>\<open>try: ... except Exception\<close> around a step: its outcome as a value.\<close>

definition caught :: "('a, 's) step \<Rightarrow> ('a res, 's) step" where
  "caught m s = (case m s of (r, s') \<Rightarrow> (Inr r, s'))"

section \<open>Commands\<close>

definition run_any :: "'w machine \<Rightarrow> string list \<Rightarrow> string option \<Rightarrow> (int \<times> string, 'w boot_state) step" where
  "run_any M cmd input = act (Command cmd input) (mc_command M cmd input)"

definition run_checked :: "'w machine \<Rightarrow> string list \<Rightarrow> string option \<Rightarrow> (string, 'w boot_state) step" where
  "run_checked M cmd input = seq (run_any M cmd input) (\<lambda>(code, out).
     if code \<noteq> 0 then raise (CalledProcessError code) else ret out)"

definition sudo_command :: "'w machine \<Rightarrow> string list \<Rightarrow> string list" where
  "sudo_command M cmd = (if mc_is_root M then cmd else ''sudo'' # cmd)"

definition sudo :: "'w machine \<Rightarrow> string list \<Rightarrow> (unit, 'w boot_state) step" where
  "sudo M cmd = seq (run_checked M (sudo_command M cmd) None) (\<lambda>_. ret ())"

definition sudo_lenient :: "'w machine \<Rightarrow> string list \<Rightarrow> (unit, 'w boot_state) step" where
  "sudo_lenient M cmd = seq (run_any M (sudo_command M cmd) None) (\<lambda>_. ret ())"

definition sudo_tee :: "'w machine \<Rightarrow> string \<Rightarrow> string \<Rightarrow> (unit, 'w boot_state) step" where
  "sudo_tee M path body = seq (run_checked M [''sudo'', ''tee'', path] (Some body)) (\<lambda>_. ret ())"

definition install_dir :: "string \<Rightarrow> string \<Rightarrow> string list" where
  "install_dir owner path =
     [''install'', ''-d'', ''-o'', owner, ''-g'', service_user, ''-m'', ''0750'', path]"

section \<open>Files of an agent\<close>

definition prepare_shared_state :: "'w machine \<Rightarrow> scenario \<Rightarrow> (unit, 'w boot_state) step" where
  "prepare_shared_state M S =
     (if \<not> secured S then ret ()
      else
        (let base = security_root (mc_conf M) S; report = bc_join (mc_conf M) base ''real_guardrails.json'' in
         seq (sudo M (install_dir service_user base)) (\<lambda>_.
         if sc_name S \<noteq> ''secure_community_demo'' then ret ()
         else
           seq (caught
                  (seq (act (IsolationProbe base) (mc_probe M base)) (\<lambda>v.
                   seq (sudo_lenient M [''chown'', service_user @ '':'' @ service_user, report]) (\<lambda>_.
                   seq (raising (field_of v ''ok'')) (\<lambda>_. ret ())))))
             (\<lambda>_. ret ()))))"

definition seed_for_agent :: "'w machine \<Rightarrow> scenario \<Rightarrow> agent_spec \<Rightarrow> (unit, 'w boot_state) step" where
  "seed_for_agent M S a =
     (let B = mc_conf M; state = state_dir B (sc_name S) (as_name a); seed_file = bc_join B state ''seed.txt'' in
      seq (observe (\<lambda>w. mc_exists M seed_file w \<and> mc_nonempty M seed_file w)) (\<lambda>present.
      if present then ret ()
      else
        seq (sudo M (install_dir service_user state)) (\<lambda>_.
        sudo M [''sudo'', ''-u'', service_user, ''env'', ''PYTHONPATH='' @ bc_repo_root B, ''HOME='' @ state,
                bc_repo_root B @ ''/venv/bin/python'', ''-m'', ''identity.wallet'',
                ''--seed-file'', seed_file, ''address''])))"

definition write_env_file :: "'w machine \<Rightarrow> scenario \<Rightarrow> agent_spec \<Rightarrow> (unit, 'w boot_state) step" where
  "write_env_file M S a =
     (let B = mc_conf M; path = instance_env_path B S a in
      seq (sudo M (install_dir ''root'' etc_instances)) (\<lambda>_.
      seq (sudo_tee M path (instance_env_contents B S a)) (\<lambda>_.
      seq (sudo M [''chmod'', ''0640'', path]) (\<lambda>_.
      sudo M [''chown'', ''root:'' @ service_user, path]))))"

definition write_seed_item :: "'w machine \<Rightarrow> string \<Rightarrow> seed_content \<Rightarrow> (json, 'w boot_state) step" where
  "write_seed_item M content_dir sd =
     (let path = bc_join (mc_conf M) content_dir (safe_file_name (sd_name sd)) in
      seq (sudo_tee M path (seed_payload sd)) (\<lambda>_.
      seq (sudo M [''chmod'', ''0640'', path]) (\<lambda>_.
      seq (sudo M [''chown'', service_user @ '':'' @ service_user, path]) (\<lambda>_.
      ret (seed_row path sd)))))"

definition write_seed_content_file :: "'w machine \<Rightarrow> scenario \<Rightarrow> agent_spec \<Rightarrow> (unit, 'w boot_state) step" where
  "write_seed_content_file M S a =
     (let B = mc_conf M; target = seed_content_file_path B S a;
          content_dir = bc_join B (state_dir B (sc_name S) (as_name a)) ''seed_content'' in
      seq (if as_seed_content a = [] then ret () else sudo M (install_dir service_user content_dir)) (\<lambda>_.
      seq (gather (write_seed_item M content_dir) (as_seed_content a)) (\<lambda>rows.
      seq (sudo_tee M target (dumps_indent 0 (sort_keys (JList rows)) @ [nl])) (\<lambda>_.
      seq (sudo M [''chmod'', ''0640'', target]) (\<lambda>_.
      sudo M [''chown'', ''root:'' @ service_user, target])))))"

definition stage_scenario_dir :: "'w machine \<Rightarrow> scenario \<Rightarrow> agent_spec \<Rightarrow> (unit, 'w boot_state) step" where
  "stage_scenario_dir M S a =
     (let dst = scenario_dir_on_vps (mc_conf M) S a in
      seq (sudo_lenient M [''rm'', ''-rf'', dst]) (\<lambda>_.
      seq (sudo M (install_dir ''root'' dst)) (\<lambda>_.
      seq (sudo M [''cp'', ''-aT'', mc_scenario_source M, dst]) (\<lambda>_.
      seq (sudo M [''chown'', ''-R'', ''root:'' @ service_user, dst]) (\<lambda>_.
      seq (write_seed_content_file M S a) (\<lambda>_.
      sudo M [''chmod'', ''-R'', ''g+rX,o-rwx'', dst]))))))"

section \<open>Services\<close>

definition enable_unit :: "'w machine \<Rightarrow> string \<Rightarrow> (unit, 'w boot_state) step" where
  "enable_unit M unit_name =
     seq (sudo M [''systemctl'', ''daemon-reload'']) (\<lambda>_.
     seq (sudo_lenient M [''systemctl'', ''reset-failed'', unit_name]) (\<lambda>_.
     seq (sudo M [''systemctl'', ''enable'', unit_name]) (\<lambda>_.
     sudo M [''systemctl'', ''restart'', unit_name])))"

definition stop_unit :: "'w machine \<Rightarrow> string \<Rightarrow> (unit, 'w boot_state) step" where
  "stop_unit M unit_name =
     seq (sudo_lenient M [''systemctl'', ''stop'', unit_name]) (\<lambda>_.
     sudo_lenient M [''systemctl'', ''disable'', unit_name])"

definition mcp_unit :: "scenario \<Rightarrow> agent_spec \<Rightarrow> string" where
  "mcp_unit S a = ''delftclaw-mcp@'' @ instance_id S (as_name a) @ ''.service''"

definition watchdog_unit :: "scenario \<Rightarrow> agent_spec \<Rightarrow> string" where
  "watchdog_unit S a = ''delftclaw-watchdog@'' @ instance_id S (as_name a) @ ''.service''"

definition mcp_url :: "agent_spec \<Rightarrow> string" where
  "mcp_url a = ''http://127.0.0.1:'' @ int_str (as_mcp_port a) @ ''/mcp''"

section \<open>Calls of tools\<close>

definition read_answer :: "'w machine \<Rightarrow> tool_answer \<Rightarrow> json" where
  "read_answer M ans = (case ans of
     Content t \<Rightarrow> (case loads (mc_float_repr M) t of Some v \<Rightarrow> v | None \<Rightarrow> JStr t)
   | Structured v \<Rightarrow> if truthy v then v else JObj [])"

definition call_mcp :: "'w machine \<Rightarrow> string \<Rightarrow> string \<Rightarrow> dict \<Rightarrow> (json, 'w boot_state) step" where
  "call_mcp M url tool args =
     seq (act (ToolCall url tool args) (mc_tool M url tool args)) (\<lambda>ans. ret (read_answer M ans))"

definition agent_self_info :: "'w machine \<Rightarrow> string \<Rightarrow> (string, 'w boot_state) step" where
  "agent_self_info M url = seq (call_mcp M url ''wallet_address'' []) (\<lambda>v. ret (py_str v))"

section \<open>OpenClaw\<close>

definition openclaw_user :: "string \<Rightarrow> string list" where
  "openclaw_user state = [''sudo'', ''-u'', service_user, ''env'', ''HOME='' @ state, ''PATH=/usr/local/bin:/usr/bin:/bin'']"

definition openclaw_env :: "provider_conf \<Rightarrow> string \<Rightarrow> string \<Rightarrow> string list" where
  "openclaw_env P state key =
     openclaw_user state @ [''OLLAMA_API_KEY=ollama'', ''OPENCLAW_DISABLE_TELEMETRY=1''] @
     (if key \<noteq> [] then [pc_api_key_env P @ ''='' @ key] else [])"

definition openclaw_run :: "'w machine \<Rightarrow> string list \<Rightarrow> string list \<Rightarrow> (unit, 'w boot_state) step" where
  "openclaw_run M env args = seq (run_checked M (env @ ''openclaw'' # args) None) (\<lambda>_. ret ())"

definition openclaw_config_set :: "'w machine \<Rightarrow> string list \<Rightarrow> string \<Rightarrow> json \<Rightarrow> (unit, 'w boot_state) step" where
  "openclaw_config_set M env path v =
     openclaw_run M env [''config'', ''set'', path, dumps_default v, ''--json'']"

definition provider_json :: "provider_conf \<Rightarrow> json" where
  "provider_json P = JObj
     [(''baseUrl'', JStr (normalise_openclaw_base_url (pc_provider P) (pc_base_url P))),
      (''api'', JStr (pc_api P)), (''apiKey'', JStr (pc_api_key_env P)),
      (''models'', JList [JObj
        [(''id'', JStr (pc_model P)), (''name'', JStr (pc_model P)), (''reasoning'', JBool False),
         (''input'', JList [JStr ''text'']),
         (''cost'', JObj [(''input'', JInt 0), (''output'', JInt 0), (''cacheRead'', JInt 0), (''cacheWrite'', JInt 0)]),
         (''contextWindow'', JInt 32768), (''maxTokens'', JInt 4096)]])]"

definition inner_timeout :: "scenario \<Rightarrow> int" where
  "inner_timeout S = max 60 (min 210 (wp_interval_s (sc_watchdog S) - 15))"

definition names_in :: "json list \<Rightarrow> json list" where
  "names_in vs = map (\<lambda>v. jget (as_dict v) ''name'') (filter is_dict vs)"

text \<open>The agents OpenClaw has registered; a list that cannot be read is taken as empty.\<close>

definition registered_agents :: "'w machine \<Rightarrow> int \<Rightarrow> string \<Rightarrow> json list res" where
  "registered_agents M code out =
     (if code \<noteq> 0 then Inr []
      else (case loads (mc_float_repr M) (if out = [] then ''[]'' else out) of
        Some (JList vs) \<Rightarrow> Inr (names_in vs)
      | Some (JObj d) \<Rightarrow>
          (case map_of d ''agents'' of
             None \<Rightarrow> Inr []
           | Some (JList vs) \<Rightarrow> Inr (names_in vs)
           | Some (JObj _) \<Rightarrow> Inr []
           | Some (JStr _) \<Rightarrow> Inr []
           | Some _ \<Rightarrow> Inl TypeError)
      | _ \<Rightarrow> Inr []))"

definition provision_openclaw_workspace :: "'w machine \<Rightarrow> scenario \<Rightarrow> agent_spec \<Rightarrow> (unit, 'w boot_state) step" where
  "provision_openclaw_workspace M S a =
     (let B = mc_conf M; P = provider_of B; i = instance_id S (as_name a);
          state = state_dir B (sc_name S) (as_name a);
          workspace = under B state [''openclaw'', ''workspace'']; agent_dir = under B state [''openclaw'', ''agent''];
          env = openclaw_env P state (openclaw_api_key_for_agent P S a) in
      seq (sudo M (install_dir service_user workspace)) (\<lambda>_.
      seq (sudo M (install_dir service_user agent_dir)) (\<lambda>_.
      seq (openclaw_config_set M env ''agents.defaults.timeoutSeconds'' (JInt (inner_timeout S))) (\<lambda>_.
      seq (openclaw_config_set M env ''models.mode'' (JStr ''merge'')) (\<lambda>_.
      seq (openclaw_config_set M env (''models.providers.'' @ pc_provider P) (provider_json P)) (\<lambda>_.
      seq (openclaw_run M env [''mcp'', ''set'', i,
             dumps_default (JObj [(''url'', JStr (mcp_url a)), (''transport'', JStr ''streamable-http'')])]) (\<lambda>_.
      seq (run_any M (env @ [''openclaw'', ''agents'', ''list'', ''--json'']) None) (\<lambda>(code, out).
      seq (raising (registered_agents M code out)) (\<lambda>names.
      if JStr i \<in> set names then ret ()
      else openclaw_run M env [''agents'', ''add'', i, ''--non-interactive'', ''--workspace'', workspace,
             ''--agent-dir'', agent_dir, ''--model'', pc_provider P @ ''/'' @ pc_model P])))))))))"

section \<open>Bringing a scenario up\<close>

definition agents_of :: "scenario \<Rightarrow> agent_spec list" where
  "agents_of S = map snd (sc_agents S)"

definition pubkey_for_agent :: "'w machine \<Rightarrow> scenario \<Rightarrow> agent_spec \<Rightarrow> (string, 'w boot_state) step" where
  "pubkey_for_agent M S a =
     (let B = mc_conf M; seed_file = bc_join B (state_dir B (sc_name S) (as_name a)) ''seed.txt'' in
      seq (run_checked M
             [''sudo'', ''-u'', service_user, ''env'', ''PYTHONPATH='' @ bc_repo_root B,
              bc_repo_root B @ ''/venv/bin/python'', ''-c'',
              ''from identity.seed import KeyfileSeedSource;'' @
              ''from identity.agent_identity import AgentIdentity;'' @
              ''seed = KeyfileSeedSource('' @ [sq] @ seed_file @ [sq] @ '').load();'' @
              ''ident = AgentIdentity.from_seed(seed, network='' @ [sq] @ ''TESTNET'' @ [sq] @ '');'' @
              ''print(ident.ipv8.pubkey.hex())''] None) (\<lambda>out. ret (strip out)))"

definition coords_of :: "'w machine \<Rightarrow> scenario \<Rightarrow> agent_spec \<Rightarrow> (string \<times> agent_coords, 'w boot_state) step" where
  "coords_of M S a =
     seq (agent_self_info M (mcp_url a)) (\<lambda>address.
     seq (pubkey_for_agent M S a) (\<lambda>pubkey.
     ret (as_name a, \<lparr>co_host = ''127.0.0.1'', co_port = as_ipv8_port a, co_pubkey_hex = pubkey,
                      co_wallet_address = address\<rparr>)))"

text \<open>Steps that may give up answer whether to go on; the caller returns 1 when they do not.\<close>

fun while_ok :: "('a \<Rightarrow> (bool, 's) step) \<Rightarrow> 'a list \<Rightarrow> (bool, 's) step" where
  "while_ok f [] = ret True"
| "while_ok f (x # xs) = seq (f x) (\<lambda>ok. if ok then while_ok f xs else ret False)"

definition intro_args :: "agent_coords \<Rightarrow> dict" where
  "intro_args c = [(''host'', JStr (co_host c)), (''port'', JInt (co_port c)), (''pubkey_hex'', JStr (co_pubkey_hex c))]"

definition introduce :: "'w machine \<Rightarrow> (string \<times> agent_coords) list \<Rightarrow> agent_spec \<Rightarrow> string \<Rightarrow> (bool, 'w boot_state) step" where
  "introduce M coords a peer_name = (case map_of coords peer_name of
     None \<Rightarrow> raise (KeyError peer_name)
   | Some target \<Rightarrow>
       seq (caught (call_mcp M (mcp_url a) ''peer_add'' (intro_args target))) (\<lambda>r.
       ret (case r of Inl _ \<Rightarrow> False | Inr _ \<Rightarrow> True)))"

definition introduce_all :: "'w machine \<Rightarrow> scenario \<Rightarrow> (string \<times> agent_coords) list \<Rightarrow> (bool, 'w boot_state) step" where
  "introduce_all M S coords = while_ok (\<lambda>a. while_ok (introduce M coords a) (as_peers a)) (agents_of S)"

definition default_overlay_hashes :: "'w machine \<Rightarrow> agent_spec \<Rightarrow> string list res" where
  "default_overlay_hashes M g =
     mapr (\<lambda>p. bindr (mc_overlay_text M p) (\<lambda>text. Inr (bytes_hex (community_id_from_md (mc_sha1 M) text))))
       (as_publish_overlays g)"

definition injection :: "string \<Rightarrow> dict" where
  "injection md = [(''md_text'', JStr md)]"

definition inject :: "'w machine \<Rightarrow> scenario \<Rightarrow> string \<Rightarrow> agent_spec \<Rightarrow> (bool, 'w boot_state) step" where
  "inject M S md a =
     (let path = manifest_file_path (mc_conf M) S a in
      seq (sudo_tee M path md) (\<lambda>_.
      seq (sudo M [''chmod'', ''0640'', path]) (\<lambda>_.
      seq (sudo M [''chown'', ''root:'' @ service_user, path]) (\<lambda>_.
      seq (caught (call_mcp M (mcp_url a) ''agent_inject_manifest'' (injection md))) (\<lambda>r.
      ret (case r of Inl _ \<Rightarrow> False | Inr v \<Rightarrow> \<not> (is_dict v \<and> has_key (as_dict v) ''error'')))))))"

definition inject_all :: "'w machine \<Rightarrow> scenario \<Rightarrow> (string \<times> agent_coords) list \<Rightarrow> (bool, 'w boot_state) step" where
  "inject_all M S coords = (case pick_genesis S of
     None \<Rightarrow> ret True
   | Some g \<Rightarrow>
       (case (map_of (sc_agents S) g, map_of coords g) of
          (Some a, Some c) \<Rightarrow>
            seq (raising (default_overlay_hashes M a)) (\<lambda>hashes.
            while_ok (inject M S (build_manifest_md S c hashes)) (agents_of S))
        | _ \<Rightarrow> raise (KeyError g)))"

definition stage_agent :: "'w machine \<Rightarrow> scenario \<Rightarrow> agent_spec \<Rightarrow> (unit, 'w boot_state) step" where
  "stage_agent M S a =
     seq (seed_for_agent M S a) (\<lambda>_. seq (stage_scenario_dir M S a) (\<lambda>_. write_env_file M S a))"

definition await_up :: "'w machine \<Rightarrow> agent_spec \<Rightarrow> (unit, 'w boot_state) step" where
  "await_up M a = act (AwaitUp (mcp_url a)) (mc_await M (mcp_url a))"

text \<open>Files, services and coordinates of all agents.\<close>

definition boot_services :: "'w machine \<Rightarrow> scenario \<Rightarrow> ((string \<times> agent_coords) list, 'w boot_state) step" where
  "boot_services M S =
     seq (prepare_shared_state M S) (\<lambda>_.
     seq (each (stage_agent M S) (agents_of S)) (\<lambda>_.
     seq (each (\<lambda>a. enable_unit M (mcp_unit S a)) (agents_of S)) (\<lambda>_.
     seq (each (await_up M) (agents_of S)) (\<lambda>_.
     seq (each (provision_openclaw_workspace M S) (agents_of S)) (\<lambda>_.
     gather (coords_of M S) (agents_of S))))))"

text \<open>A dry run only prints.\<close>

definition bring_up :: "'w machine \<Rightarrow> scenario \<Rightarrow> bool \<Rightarrow> (int, 'w boot_state) step" where
  "bring_up M S dry_run =
     (if dry_run then ret 0
      else
        seq (boot_services M S) (\<lambda>coords.
        seq (introduce_all M S coords) (\<lambda>ok.
        if \<not> ok then ret 1
        else
          seq (inject_all M S coords) (\<lambda>ok.
          if \<not> ok then ret 1
          else
            seq (each (\<lambda>a. enable_unit M (watchdog_unit S a)) (agents_of S)) (\<lambda>_. ret 0)))))"

definition teardown_agent :: "'w machine \<Rightarrow> scenario \<Rightarrow> agent_spec \<Rightarrow> (unit, 'w boot_state) step" where
  "teardown_agent M S a =
     (let B = mc_conf M; env_path = instance_env_path B S a in
      seq (stop_unit M (watchdog_unit S a)) (\<lambda>_.
      seq (stop_unit M (mcp_unit S a)) (\<lambda>_.
      seq (run_any M (openclaw_user (state_dir B (sc_name S) (as_name a)) @
             [''OPENCLAW_DISABLE_TELEMETRY=1'', ''openclaw'', ''agents'', ''delete'',
              instance_id S (as_name a), ''--force'']) None) (\<lambda>_.
      seq (observe (mc_exists M env_path)) (\<lambda>present.
      if present then sudo M [''rm'', ''-f'', env_path] else ret ())))))"

definition teardown :: "'w machine \<Rightarrow> scenario \<Rightarrow> bool \<Rightarrow> (int, 'w boot_state) step" where
  "teardown M S dry_run =
     (if dry_run then ret 0 else seq (each (teardown_agent M S) (agents_of S)) (\<lambda>_. ret 0))"

end
