(* ===== verification/Boot_Config_Spec.thy ===== *)
theory Boot_Config_Spec
  imports Boot_Config Manifest_Spec Scenario_Spec
begin

text \<open>
  What a scenario is booted with is what its parts read: the manifest written at boot is parsed
  to the intended policy, the chosen gatekeeper is a most referenced agent, and the name of a
  service leads back to its scenario and agent as long as the scenario's name has no hyphen.
\<close>

section \<open>Lines of a manifest\<close>

lemma match_kv_line:
  assumes key: "key \<noteq> []" "is_ident_start (hd key)" "list_all is_ident key" and v: "v \<noteq> []" "strip v = v"
  shows "match_kv (''- '' @ key @ '': '' @ v) = Some (key, v)"
proof -
  have c: "\<not> is_ident (CHR '':'')" "\<not> is_space (CHR ''-'')" "\<not> is_space (CHR '':'')" "is_space (CHR '' '')"
    by (simp_all add: is_ident_def is_ident_start_def is_digit_def is_lower_def is_upper_def is_space_def Let_def)
  have k: "\<not> is_space (hd key)" using key(2) is_ident_not [of "hd key"] by (simp add: is_ident_def)
  have s: "strip ('' '' @ v) = v" using v(2) c(4) by (simp add: strip_def lstrip_def)
  have "lstrip (key @ t) = key @ t" for t using key(1) k by (cases key) (simp_all add: lstrip_def)
  then have "after_bullet (''- '' @ key @ '': '' @ v) = Some (key @ CHR '':'' # '' '' @ v)"
    using c by (simp add: after_bullet_def) (simp add: lstrip_def)
  moreover have "after_colon (CHR '':'' # '' '' @ v) = Some ('' '' @ v)" using c by (simp add: after_colon_def lstrip_def)
  moreover have "kv_value ('' '' @ v) = Some v" using s v by (simp add: kv_value_def)
  ultimately show ?thesis using key takeWhile_ident [OF key(3) c(1)] by (simp add: match_kv_def Let_def)
qed

lemma match_kv_empty: "match_kv [] = None"
  by (simp add: match_kv_def after_bullet_def lstrip_def)

definition heading :: "string \<Rightarrow> bool" where
  "heading l = (startswith l ''# '' \<and> \<not> startswith l ''## '')"

lemma split_sections_body:
  "list_all (\<lambda>l. \<not> heading l) ls \<Longrightarrow>
     split_sections secs order name lines (ls @ rest) = split_sections secs order name (lines @ ls) rest"
  by (induction ls arbitrary: lines) (auto simp: heading_def)

lemma split_sections_heading:
  "strip t = t \<Longrightarrow> split_sections secs order name lines ((''# '' @ t) # rest) =
     split_sections (case name of None \<Rightarrow> secs | Some n \<Rightarrow> AList.update n (join_with [nl] lines) secs)
       (order @ [t]) (Some t) [] rest"
  by (simp add: startswith_def Let_def split: option.splits)

text \<open>The four sections of a document of this shape.\<close>

lemma split_four_sections:
  assumes "list_all (list_all (\<lambda>l. \<not> heading l)) [b1, b2, b3, b4]"
    and "list_all (list_all (\<lambda>l. nl \<notin> set l)) [b1, b2, b3, b4]"
    and "text = join_with [nl] ((''# Identity'' # b1) @ (''# Admission'' # b2) @ (''# Genesis Peers'' # b3) @
      (''# Default Overlays'' # b4))"
  shows "split_top_sections text =
     [(''Identity'', join_with [nl] b1), (''Admission'', join_with [nl] b2), (''Genesis Peers'', join_with [nl] b3),
      (''Default Overlays'', join_with [nl] b4), (order_key, join_with [nl] required_sections)]"
proof -
  define ls where "ls = (''# Identity'' # b1) @ (''# Admission'' # b2) @ (''# Genesis Peers'' # b3) @ (''# Default Overlays'' # b4)"
  have t: "strip ''Identity'' = ''Identity''" "strip ''Admission'' = ''Admission''"
    "strip ''Genesis Peers'' = ''Genesis Peers''" "strip ''Default Overlays'' = ''Default Overlays''"
    by code_simp+
  have "\<forall>l \<in> set ls. nl \<notin> set l" using assms(2) by (auto simp: ls_def list_all_iff nl_def)
  then have "split_on nl text = ls" unfolding assms(3) ls_def [symmetric] by (intro split_join) (simp_all add: ls_def)
  moreover have "split_sections [] [] None [] ls =
      split_sections [] [''Identity''] (Some ''Identity'') [] (b1 @ ''# Admission'' # b2 @ ''# Genesis Peers'' # b3 @ ''# Default Overlays'' # b4)"
    using split_sections_heading [OF t(1)] by (simp add: ls_def)
  ultimately show ?thesis
    using assms(1) split_sections_heading [OF t(2)] split_sections_heading [OF t(3)] split_sections_heading [OF t(4)]
      split_sections_body [of b4 _ _ _ _ "[]"]
    by (simp add: split_top_sections_def split_sections_body required_sections_def order_key_def)
qed

lemma parse_kv_lines:
  assumes "list_all (\<lambda>(k, v). k \<noteq> [] \<and> is_ident_start (hd k) \<and> list_all is_ident k \<and> v \<noteq> [] \<and> strip v = v \<and> nl \<notin> set v) kvs"
    and "distinct (map fst kvs)"
  shows "parse_kv_list (join_with [nl] (map (\<lambda>(k, v). ''- '' @ k @ '': '' @ v) kvs @ [[]])) = kvs"
proof -
  let ?out = "foldl (\<lambda>out line. case match_kv line of None \<Rightarrow> out | Some (k, v) \<Rightarrow> AList.update k v out)"
  have free: "nl \<notin> set k" if "list_all is_ident k" for k using that is_ident_not by (auto simp: list_all_iff)
  have "split_on nl (join_with [nl] (map (\<lambda>(k, v). ''- '' @ k @ '': '' @ v) kvs @ [[]])) =
      map (\<lambda>(k, v). ''- '' @ k @ '': '' @ v) kvs @ [[]]"
    using assms(1) free by (intro split_join) (auto simp: list_all_iff nl_def)
  moreover have "?out d (map (\<lambda>(k, v). ''- '' @ k @ '': '' @ v) kvs) = d @ kvs" if "distinct (map fst (d @ kvs))" for d
    using that assms(1)
  proof (induction kvs arbitrary: d)
    case (Cons p kvs)
    obtain k v where p: "p = (k, v)" by (cases p)
    have "match_kv (''- '' @ k @ '': '' @ v) = Some (k, v)" using Cons.prems(2) p by (intro match_kv_line) auto
    moreover have "AList.update k v d = d @ [(k, v)]" using Cons.prems(1) p by (intro update_new_key) auto
    moreover have "?out (d @ [(k, v)]) (map (\<lambda>(k, v). ''- '' @ k @ '': '' @ v) kvs) = (d @ [(k, v)]) @ kvs"
      by (rule Cons.IH) (use Cons.prems p in auto)
    ultimately show ?case by (simp add: p)
  qed simp
  ultimately show ?thesis using assms(2) by (simp add: parse_kv_list_def match_kv_empty)
qed

section \<open>The manifest of a boot\<close>

definition boot_policy :: "string \<Rightarrow> admission_policy" where
  "boot_policy address =
     \<lparr>gatekeeper_address = address, min_sats = 10000, min_confirmations = 0, bootstrap_cap_sats = 100000,
      max_agents_per_seedbox = 3, seedbox_cost_sats = 20000\<rparr>"

definition boot_identity :: "string \<Rightarrow> (string \<times> string) list" where
  "boot_identity name =
     [(''name'', name), (''version'', ''1.0.0''),
      (''description'', ''Auto-generated manifest for scenario '' @ name @ ''.'')]"

definition policy_pairs :: "string \<Rightarrow> (string \<times> string) list" where
  "policy_pairs address =
     [(''gatekeeper_address'', address), (''min_sats'', ''10000''), (''min_confirmations'', ''0''),
      (''bootstrap_cap_sats'', ''100000''), (''max_agents_per_seedbox'', ''3''), (''seedbox_cost_sats'', ''20000'')]"

lemma ident_keys:
  "list_all (\<lambda>k. k \<noteq> [] \<and> is_ident_start (hd k) \<and> list_all is_ident k)
     [''name'', ''version'', ''description'', ''gatekeeper_address'', ''min_sats'', ''min_confirmations'',
      ''bootstrap_cap_sats'', ''max_agents_per_seedbox'', ''seedbox_cost_sats'']"
  by code_simp

lemma fixed_values:
  "list_all (\<lambda>v. v \<noteq> [] \<and> strip v = v \<and> nl \<notin> set v) [''1.0.0'', ''10000'', ''0'', ''100000'', ''3'', ''20000'']"
  by code_simp

lemma boot_identity_read:
  assumes "list_all (\<lambda>c. \<not> is_space c) name" "name \<noteq> []"
  shows "parse_kv_list (join_with [nl] (map (\<lambda>(k, v). ''- '' @ k @ '': '' @ v) (boot_identity name) @ [[]])) = boot_identity name"
proof (rule parse_kv_lines)
  have d: "strip (''Auto-generated manifest for scenario '' @ name @ ''.'') = ''Auto-generated manifest for scenario '' @ name @ ''.''"
    by (rule strip_id) (simp_all add: is_space_def)
  have "nl \<notin> set name" using assms(1) by (auto simp: list_all_iff nl_def is_space_def)
  then show "list_all (\<lambda>(k, v). k \<noteq> [] \<and> is_ident_start (hd k) \<and> list_all is_ident k \<and> v \<noteq> [] \<and> strip v = v \<and> nl \<notin> set v)
      (boot_identity name)"
    using ident_keys fixed_values plain_strip [OF assms(2,1)] d assms(2) by (auto simp: boot_identity_def nl_def)
qed (simp add: boot_identity_def)

lemma boot_policy_read:
  assumes "list_all (\<lambda>c. \<not> is_space c) address" "address \<noteq> []"
  shows "parse_kv_list (join_with [nl] (map (\<lambda>(k, v). ''- '' @ k @ '': '' @ v) (policy_pairs address) @ [[]])) = policy_pairs address"
proof (rule parse_kv_lines)
  have "nl \<notin> set address" using assms(1) by (auto simp: list_all_iff nl_def is_space_def)
  then show "list_all (\<lambda>(k, v). k \<noteq> [] \<and> is_ident_start (hd k) \<and> list_all is_ident k \<and> v \<noteq> [] \<and> strip v = v \<and> nl \<notin> set v)
      (policy_pairs address)"
    using ident_keys fixed_values plain_strip [OF assms(2,1)] assms(2) by (auto simp: policy_pairs_def nl_def)
qed (simp add: policy_pairs_def)

lemma match_name_chars: "match_name s \<Longrightarrow> s \<noteq> [] \<and> list_all (\<lambda>c. \<not> is_space c) s"
  using is_ident_not
  by (auto simp: match_name_def list_all_iff is_ident_def is_ident_start_def split: list.splits)

lemma match_hex_chars: "list_all is_hex_char s \<Longrightarrow> list_all (\<lambda>c. \<not> is_space c \<and> c \<noteq> nl \<and> c \<noteq> CHR ''|'' \<and> c \<noteq> CHR ''-'') s"
  by (auto simp: list_all_iff is_hex_char_def is_digit_def is_space_def nl_def Let_def)

lemma bech32_char_plain: "is_bech32_char c \<or> is_hex_char c \<Longrightarrow> \<not> is_space c"
  by (auto simp: is_bech32_char_def is_hex_char_def is_digit_def is_lower_def is_space_def Let_def)

lemma plain_after_start:
  assumes "startswith s p" "p \<noteq> []" "list_all (\<lambda>c. \<not> is_space c) p" "length p = n"
    and "list_all (\<lambda>c. \<not> is_space c) (drop n s)"
  shows "s \<noteq> [] \<and> list_all (\<lambda>c. \<not> is_space c) s"
proof -
  have "s = p @ drop n s" using assms(1,4) append_take_drop_id [of n s] by (simp add: startswith_def)
  moreover have "list_all (\<lambda>c. \<not> is_space c) (p @ drop n s)" using assms(3,5) by simp
  ultimately show ?thesis using assms(2) by (metis append_is_Nil_conv)
qed

lemma match_bech32_chars:
  assumes "match_bech32 s"
  shows "s \<noteq> [] \<and> list_all (\<lambda>c. \<not> is_space c) s"
proof -
  have pre: "list_all (\<lambda>c. \<not> is_space c) ''tb1''" "list_all (\<lambda>c. \<not> is_space c) ''bc1''" "list_all (\<lambda>c. \<not> is_space c) ''dclaw1''"
    by code_simp+
  have mono: "list_all is_bech32_char t \<or> list_all is_hex_char t \<Longrightarrow> list_all (\<lambda>c. \<not> is_space c) t" for t
    using bech32_char_plain by (auto simp: list_all_iff)
  from assms consider "startswith s ''tb1''" "list_all is_bech32_char (drop 3 s)" | "startswith s ''bc1''" "list_all is_bech32_char (drop 3 s)"
    | "startswith s ''dclaw1''" "list_all is_hex_char (drop 6 s)"
    unfolding match_bech32_def by blast
  then show ?thesis
  proof cases
    case 1
    then show ?thesis using mono by (intro plain_after_start [OF 1(1) _ pre(1), of 3]) simp_all
  next
    case 2
    then show ?thesis using mono by (intro plain_after_start [OF 2(1) _ pre(2), of 3]) simp_all
  next
    case 3
    then show ?thesis using mono by (intro plain_after_start [OF 3(1) _ pre(3), of 6]) simp_all
  qed
qed

lemma identity_values:
  "map_of (boot_identity n) ''name'' = Some n" "map_of (boot_identity n) ''version'' = Some ''1.0.0''"
  "map_of (boot_identity n) ''description'' = Some (''Auto-generated manifest for scenario '' @ n @ ''.'')"
  by (simp_all add: boot_identity_def)

lemma parse_boot_identity:
  assumes "list_all (\<lambda>c. \<not> is_space c) name" "name \<noteq> []"
  shows "parse_identity (join_with [nl] (map (\<lambda>(k, v). ''- '' @ k @ '': '' @ v) (boot_identity name) @ [[]])) =
    (if match_name name then Inr (boot_identity name) else Inl (NameNotSnakeCase name))"
proof -
  note r = boot_identity_read [OF assms]
  have "match_semver ''1.0.0''" by code_simp
  moreover have "strip (''Auto-generated manifest for scenario '' @ name @ ''.'') \<noteq> []"
    by (subst strip_id) (simp_all add: is_space_def)
  ultimately show ?thesis
    unfolding parse_identity_def r Let_def by (simp only: identity_values option.sel option.distinct filter.simps simp_thms if_True if_False if_not_P) simp
qed

lemma policy_values:
  "map_of (policy_pairs a) ''gatekeeper_address'' = Some a" "map_of (policy_pairs a) ''min_sats'' = Some ''10000''"
  "map_of (policy_pairs a) ''min_confirmations'' = Some ''0''" "map_of (policy_pairs a) ''bootstrap_cap_sats'' = Some ''100000''"
  "map_of (policy_pairs a) ''max_agents_per_seedbox'' = Some ''3''" "map_of (policy_pairs a) ''seedbox_cost_sats'' = Some ''20000''"
  by (simp_all add: policy_pairs_def)

lemma nat_str_length: "n < 10 ^ Suc k \<Longrightarrow> length (nat_str n) \<le> Suc k"
proof (induction k arbitrary: n)
  case 0
  then show ?case by (simp add: nat_str.simps)
next
  case (Suc k)
  then have "n div 10 < 10 ^ Suc k" by (simp add: less_mult_imp_div_less)
  then have "length (nat_str (n div 10)) \<le> Suc k" by (rule Suc.IH)
  then show ?case by (subst nat_str.simps) simp
qed

lemma small_int: "0 \<le> n \<Longrightarrow> n < 1000000 \<Longrightarrow> py_int (int_str n) = Some n"
  using nat_str_length [of "nat n" 5] by (intro py_int_str) (auto simp: short_int_def nat_less_iff)

lemma policy_ints:
  "parse_int_field k ''10000'' = Inr 10000" "parse_int_field k ''0'' = Inr 0" "parse_int_field k ''100000'' = Inr 100000"
  "parse_int_field k ''3'' = Inr 3" "parse_int_field k ''20000'' = Inr 20000"
proof -
  have t: "int_str 10000 = ''10000''" "int_str 0 = ''0''" "int_str 100000 = ''100000''" "int_str 3 = ''3''" "int_str 20000 = ''20000''"
    by (simp_all add: int_str_def nat_str.simps digit_char_def)
  show "parse_int_field k ''10000'' = Inr 10000" "parse_int_field k ''0'' = Inr 0" "parse_int_field k ''100000'' = Inr 100000"
    "parse_int_field k ''3'' = Inr 3" "parse_int_field k ''20000'' = Inr 20000"
    using small_int [of 10000] small_int [of 0] small_int [of 100000] small_int [of 3] small_int [of 20000]
    unfolding t by (simp_all add: parse_int_field_def)
qed

lemma parse_boot_policy:
  assumes "match_bech32 address"
  shows "parse_admission (join_with [nl] (map (\<lambda>(k, v). ''- '' @ k @ '': '' @ v) (policy_pairs address) @ [[]])) = Inr (boot_policy address)"
proof -
  have r: "parse_kv_list (join_with [nl] (map (\<lambda>(k, v). ''- '' @ k @ '': '' @ v) (policy_pairs address) @ [[]])) = policy_pairs address"
    using match_bech32_chars [OF assms] by (intro boot_policy_read) auto
  show ?thesis
    unfolding parse_admission_def r Let_def
    by (simp add: assms policy_values policy_ints parse_optional_uint_def boot_policy_def)
qed

section \<open>The table of genesis peers\<close>

definition plain_cell :: "string \<Rightarrow> bool" where
  "plain_cell s = (s \<noteq> [] \<and> list_all (\<lambda>c. \<not> is_space c \<and> c \<noteq> CHR ''|'') s)"

definition row_text :: "string \<Rightarrow> string \<Rightarrow> string \<Rightarrow> string" where
  "row_text a b c = ''| '' @ a @ '' | '' @ b @ '' | '' @ c @ '' |''"

lemma strip_padded: "plain_cell s \<Longrightarrow> strip ('' '' @ s @ '' '') = s"
  using plain_strip [of s] dropWhile_eq_self_iff [of is_space "s @ '' ''"] dropWhile_eq_self_iff [of is_space "rev s"]
  by (simp add: plain_cell_def strip_def lstrip_def rstrip_def is_space_def hd_rev list_all_iff)

lemma strip_bars: "strip_char (CHR ''|'') (''| '' @ m @ '' |'') = '' '' @ m @ '' ''"
  by (simp add: strip_char_def)

lemma row_cells:
  assumes "plain_cell a" "plain_cell b" "plain_cell c"
  shows "table_cells (row_text a b c) = [a, b, c]"
proof -
  have free: "CHR ''|'' \<notin> set ('' '' @ x @ '' '')" if "plain_cell x" for x using that by (auto simp: plain_cell_def list_all_iff)
  have "strip_char (CHR ''|'') (row_text a b c) = ('' '' @ a @ '' '') @ CHR ''|'' # ('' '' @ b @ '' '') @ CHR ''|'' # ('' '' @ c @ '' '')"
    using strip_bars [of "a @ '' | '' @ b @ '' | '' @ c"] by (simp add: row_text_def)
  then show ?thesis
    unfolding table_cells_def
    by (simp only: split_on_append [OF free [OF assms(1)]] split_on_append [OF free [OF assms(2)]]
        split_on_free [OF free [OF assms(3)]] list.map strip_padded [OF assms(1)] strip_padded [OF assms(2)] strip_padded [OF assms(3)])
qed

lemma row_line: "strip (row_text a b c) = row_text a b c" "startswith (row_text a b c) ''|''"
  by (rule strip_id) (simp_all add: row_text_def is_space_def startswith_def)

lemma read_boot_table:
  assumes "plain_cell a" "plain_cell b" "plain_cell c" "\<not> set a \<subseteq> {CHR ''-'', CHR 0x20}"
    and "nl \<notin> set a" "nl \<notin> set b" "nl \<notin> set c"
  shows "read_table (join_with [nl] [''| host | port | pubkey_hex |'', ''|------|------|------------|'', row_text a b c, []]) =
    [[''host'', ''port'', ''pubkey_hex''], [a, b, c]]"
proof -
  let ?ls = "[''| host | port | pubkey_hex |'', ''|------|------|------------|'', row_text a b c, []]"
  have "split_on nl (join_with [nl] ?ls) = ?ls"
    using assms(5-7) by (intro split_join) (auto simp: nl_def row_text_def)
  moreover have "strip ''| host | port | pubkey_hex |'' = ''| host | port | pubkey_hex |''"
    "strip ''|------|------|------------|'' = ''|------|------|------------|''" "strip [] = []"
    "table_cells ''| host | port | pubkey_hex |'' = [''host'', ''port'', ''pubkey_hex'']"
    "table_cells ''|------|------|------------|'' = [''------'', ''------'', ''------------'']"
    by code_simp+
  ultimately show ?thesis
    using row_cells [OF assms(1-3)] row_line [of a b c] assms(4) by (simp add: read_table_def startswith_def)
qed

lemma hex_cell: "match_hex s \<Longrightarrow> plain_cell s \<and> nl \<notin> set s"
  by (auto simp: match_hex_def plain_cell_def list_all_iff is_hex_char_def is_digit_def is_space_def nl_def Let_def)

lemma digit_plain: "is_digit c \<Longrightarrow> \<not> is_space c \<and> c \<noteq> CHR ''|'' \<and> c \<noteq> nl"
  by (auto simp: is_digit_def is_space_def nl_def Let_def)

lemma int_cell:
  assumes "0 \<le> n"
  shows "plain_cell (int_str n) \<and> nl \<notin> set (int_str n)"
proof -
  have "int_str n = nat_str (nat n)" using assms by (simp add: int_str_def)
  then show ?thesis using nat_str_digits [of "nat n"] digit_plain by (auto simp: plain_cell_def list_all_iff)
qed

lemma lower_hex: "list_all is_hex_char s \<Longrightarrow> lower s = s"
  by (induction s) (simp_all add: lower_def hex_lower)

lemma parse_boot_peers:
  assumes "plain_cell host" "nl \<notin> set host" "\<not> set host \<subseteq> {CHR ''-'', CHR 0x20}"
    and "1024 \<le> port" "port \<le> 65535" and "match_hex pubkey" "even (length pubkey)"
  shows "parse_genesis_peers (join_with [nl] [''| host | port | pubkey_hex |'', ''|------|------|------------|'',
      row_text host (int_str port) pubkey, []]) = Inr [\<lparr>gp_host = host, gp_port = port, gp_pubkey_hex = pubkey\<rparr>]"
proof -
  have "read_table (join_with [nl] [''| host | port | pubkey_hex |'', ''|------|------|------------|'', row_text host (int_str port) pubkey, []]) =
      [[''host'', ''port'', ''pubkey_hex''], [host, int_str port, pubkey]]"
    using assms int_cell [of port] hex_cell [of pubkey] by (intro read_boot_table) simp_all
  moreover have "map lower [''host'', ''port'', ''pubkey_hex''] = [''host'', ''port'', ''pubkey_hex'']" by code_simp
  moreover have "host \<noteq> []" "pubkey \<noteq> []" "lower pubkey = pubkey" using assms(1,6) lower_hex by (auto simp: plain_cell_def match_hex_def)
  ultimately show ?thesis using assms small_int [of port] by (simp add: parse_genesis_peers_def)
qed

section \<open>The list of overlays\<close>

lemma match_sha1_at:
  assumes "after_bullet line = Some (''sha1'' @ t)" "after_colon t = Some r" "lstrip r = h @ rest"
    and "length h = 40" "list_all is_hex_char h" "rest = [] \<or> \<not> is_word_char (hd rest)"
  shows "match_sha1_line line = Some h"
  using assms by (simp add: match_sha1_line_def Let_def startswith_def)

lemma match_sha1_written:
  assumes "length h = 40" "list_all is_hex_char h"
  shows "match_sha1_line (''- sha1: '' @ h @ ''  (default overlay)'') = Some h"
proof (rule match_sha1_at)
  have c: "\<not> is_space (CHR ''-'')" "\<not> is_space (CHR '':'')" "\<not> is_space (CHR ''s'')" "is_space (CHR '' '')"
    by (simp_all add: is_space_def Let_def)
  have "\<not> is_word_char (CHR '' '')"
    by (simp add: is_word_char_def is_ident_def is_ident_start_def is_digit_def is_lower_def is_upper_def Let_def)
  then show "''  (default overlay)'' = [] \<or> \<not> is_word_char (hd ''  (default overlay)'')" by simp
  have "h \<noteq> []" using assms(1) by auto
  moreover from this have "\<not> is_space (hd h)" using match_hex_chars [OF assms(2)] by (simp add: list_all_iff)
  ultimately have "lstrip (h @ t) = h @ t" for t by (cases h) (simp_all add: lstrip_def)
  then show "lstrip ('' '' @ h @ ''  (default overlay)'') = h @ ''  (default overlay)''" using c(4) by (simp add: lstrip_def)
  show "after_bullet (''- sha1: '' @ h @ ''  (default overlay)'') = Some (''sha1'' @ '': '' @ h @ ''  (default overlay)'')"
    using c by (simp add: after_bullet_def) (simp add: lstrip_def)
  show "after_colon ('': '' @ h @ ''  (default overlay)'') = Some ('' '' @ h @ ''  (default overlay)'')"
    using c by (simp add: after_colon_def lstrip_def)
qed (use assms in simp_all)

lemma parse_overlay_lines_written:
  assumes "list_all (\<lambda>h. length h = 40 \<and> list_all is_hex_char h) hs" "distinct (seen @ hs)"
  shows "parse_overlay_lines seen (map (\<lambda>h. ''- sha1: '' @ h @ ''  (default overlay)'') hs @ [[]]) = Inr (seen @ hs)"
  using assms
proof (induction hs arbitrary: seen)
  case Nil
  then show ?case by (simp add: match_sha1_line_def after_bullet_def lstrip_def)
next
  case (Cons h hs)
  have "match_sha1_line (''- sha1: '' @ h @ ''  (default overlay)'') = Some h" using Cons.prems by (intro match_sha1_written) simp_all
  moreover have "lower h = h" using Cons.prems by (intro lower_hex) simp
  moreover have "parse_overlay_lines (seen @ [h]) (map (\<lambda>h. ''- sha1: '' @ h @ ''  (default overlay)'') hs @ [[]]) = Inr ((seen @ [h]) @ hs)"
    by (rule Cons.IH) (use Cons.prems in auto)
  ultimately show ?case using Cons.prems(2) by simp
qed

lemma parse_boot_overlays:
  assumes "list_all (\<lambda>h. length h = 40 \<and> list_all is_hex_char h) hs" "distinct hs"
  shows "parse_default_overlays (join_with [nl] (overlays_section hs @ [[]])) = Inr hs"
proof (cases "hs = []")
  case True
  have "parse_default_overlays (join_with [nl] [''(none - joiners discover overlays via OVERLAY_OFFER)'', []]) = Inr []" by code_simp
  with True show ?thesis by (simp add: overlays_section_def)
next
  case False
  have "nl \<notin> set h" if "h \<in> set hs" for h using assms(1) that match_hex_chars [of h] by (auto simp: list_all_iff)
  then have "split_on nl (join_with [nl] (overlays_section hs @ [[]])) = overlays_section hs @ [[]]"
    by (intro split_join) (auto simp: overlays_section_def nl_def)
  then show ?thesis
    using False assms parse_overlay_lines_written [of hs "[]"] by (simp add: parse_default_overlays_def overlays_section_def)
qed

section \<open>The manifest is parsed\<close>

text \<open>What the running agents must report for their manifest to be accepted.\<close>

definition coords_ok :: "agent_coords \<Rightarrow> bool" where
  "coords_ok g = (co_host g = ''127.0.0.1'' \<and> port_ok (co_port g) \<and> match_hex (co_pubkey_hex g) \<and>
     even (length (co_pubkey_hex g)) \<and> match_bech32 (co_wallet_address g))"

definition overlay_hashes_ok :: "string list \<Rightarrow> bool" where
  "overlay_hashes_ok hs = (list_all (\<lambda>h. length h = 40 \<and> list_all is_hex_char h) hs \<and> distinct hs)"

lemma manifest_lines_sections:
  "manifest_lines name g hashes =
     (''# Identity'' # map (\<lambda>(k, v). ''- '' @ k @ '': '' @ v) (boot_identity name) @ [[]]) @
     (''# Admission'' # map (\<lambda>(k, v). ''- '' @ k @ '': '' @ v) (policy_pairs (co_wallet_address g)) @ [[]]) @
     (''# Genesis Peers'' # [''| host | port | pubkey_hex |'', ''|------|------|------------|'',
       row_text (co_host g) (int_str (co_port g)) (co_pubkey_hex g), []]) @
     (''# Default Overlays'' # overlays_section hashes @ [[]])"
  by (simp add: manifest_lines_def boot_identity_def policy_pairs_def row_text_def)

lemma built_sections:
  assumes "list_all (\<lambda>c. \<not> is_space c) (sc_name S)" "coords_ok g" "overlay_hashes_ok hs"
  shows "split_top_sections (build_manifest_md S g hs) =
     [(''Identity'', join_with [nl] (map (\<lambda>(k, v). ''- '' @ k @ '': '' @ v) (boot_identity (sc_name S)) @ [[]])),
      (''Admission'', join_with [nl] (map (\<lambda>(k, v). ''- '' @ k @ '': '' @ v) (policy_pairs (co_wallet_address g)) @ [[]])),
      (''Genesis Peers'', join_with [nl] [''| host | port | pubkey_hex |'', ''|------|------|------------|'',
        row_text (co_host g) (int_str (co_port g)) (co_pubkey_hex g), []]),
      (''Default Overlays'', join_with [nl] (overlays_section hs @ [[]])),
      (order_key, join_with [nl] required_sections)]"
proof (rule split_four_sections)
  have free: "nl \<notin> set t" if "list_all (\<lambda>c. \<not> is_space c) t" for t using that by (auto simp: list_all_iff nl_def is_space_def)
  have a: "nl \<notin> set (co_wallet_address g)" "nl \<notin> set (sc_name S)" "nl \<notin> set (int_str (co_port g))" "nl \<notin> set (co_pubkey_hex g)"
    using assms(1,2) free match_bech32_chars int_cell [of "co_port g"] hex_cell
    by (auto simp: coords_ok_def port_ok_def)
  have h: "nl \<notin> set x" if "x \<in> set hs" for x
    using assms(3) that match_hex_chars [of x] by (auto simp: overlay_hashes_ok_def list_all_iff)
  show "list_all (list_all (\<lambda>l. nl \<notin> set l))
     [map (\<lambda>(k, v). ''- '' @ k @ '': '' @ v) (boot_identity (sc_name S)) @ [[]],
      map (\<lambda>(k, v). ''- '' @ k @ '': '' @ v) (policy_pairs (co_wallet_address g)) @ [[]],
      [''| host | port | pubkey_hex |'', ''|------|------|------------|'', row_text (co_host g) (int_str (co_port g)) (co_pubkey_hex g), []],
      overlays_section hs @ [[]]]"
    using a h assms(2) by (auto simp: boot_identity_def policy_pairs_def row_text_def overlays_section_def list_all_iff nl_def coords_ok_def)
  show "list_all (list_all (\<lambda>l. \<not> heading l))
     [map (\<lambda>(k, v). ''- '' @ k @ '': '' @ v) (boot_identity (sc_name S)) @ [[]],
      map (\<lambda>(k, v). ''- '' @ k @ '': '' @ v) (policy_pairs (co_wallet_address g)) @ [[]],
      [''| host | port | pubkey_hex |'', ''|------|------|------------|'', row_text (co_host g) (int_str (co_port g)) (co_pubkey_hex g), []],
      overlays_section hs @ [[]]]"
    by (simp add: boot_identity_def policy_pairs_def row_text_def overlays_section_def heading_def startswith_def list_all_iff)
qed (simp add: build_manifest_md_def manifest_lines_sections)

definition boot_manifest :: "(bytes \<Rightarrow> bytes) \<Rightarrow> scenario \<Rightarrow> agent_coords \<Rightarrow> string list \<Rightarrow> network_manifest" where
  "boot_manifest sha1 S g hs =
     (let text = build_manifest_md S g hs in
      \<lparr>nm_identity = boot_identity (sc_name S), admission = boot_policy (co_wallet_address g),
       genesis_peers = [\<lparr>gp_host = co_host g, gp_port = co_port g, gp_pubkey_hex = co_pubkey_hex g\<rparr>],
       default_overlays = hs, canonical_md_bytes = canonicalize_md text, network_id = network_id_from_manifest sha1 text\<rparr>)"

lemma section_values:
  "section_of [(''Identity'', a), (''Admission'', b), (''Genesis Peers'', c), (''Default Overlays'', d), (order_key, e)] ''Identity'' = a"
  "section_of [(''Identity'', a), (''Admission'', b), (''Genesis Peers'', c), (''Default Overlays'', d), (order_key, e)] ''Admission'' = b"
  "section_of [(''Identity'', a), (''Admission'', b), (''Genesis Peers'', c), (''Default Overlays'', d), (order_key, e)] ''Genesis Peers'' = c"
  "section_of [(''Identity'', a), (''Admission'', b), (''Genesis Peers'', c), (''Default Overlays'', d), (order_key, e)] ''Default Overlays'' = d"
  by (simp_all add: section_of_def)

lemma required_sections_found:
  "check_required_sections [(''Identity'', a), (''Admission'', b), (''Genesis Peers'', c), (''Default Overlays'', d),
     (order_key, join_with [nl] required_sections)] = Inr ()"
proof -
  have "split_on nl (join_with [nl] required_sections) = required_sections"
    by (rule split_join) (auto simp: required_sections_def nl_def)
  moreover have "filter (\<lambda>n. n \<in> set required_sections) required_sections = required_sections" by (simp add: filter_id_conv)
  ultimately show ?thesis by (simp add: check_required_sections_def order_key_def)
qed

lemma parse_built_manifest:
  assumes "list_all (\<lambda>c. \<not> is_space c) (sc_name S)" "sc_name S \<noteq> []" "coords_ok g" "overlay_hashes_ok hs"
  shows "parse_manifest sha1 (build_manifest_md S g hs) =
    (if match_name (sc_name S) then Inr (boot_manifest sha1 S g hs) else Inl (NameNotSnakeCase (sc_name S)))"
proof -
  have p: "plain_cell ''127.0.0.1''" "nl \<notin> set ''127.0.0.1''" "\<not> set ''127.0.0.1'' \<subseteq> {CHR ''-'', CHR 0x20}"
    by (simp_all add: plain_cell_def is_space_def nl_def)
  have peers: "parse_genesis_peers (join_with [nl] [''| host | port | pubkey_hex |'', ''|------|------|------------|'',
      row_text (co_host g) (int_str (co_port g)) (co_pubkey_hex g), []]) =
      Inr [\<lparr>gp_host = co_host g, gp_port = co_port g, gp_pubkey_hex = co_pubkey_hex g\<rparr>]"
    using assms(3) p by (intro parse_boot_peers) (simp_all add: coords_ok_def port_ok_def)
  have overlays: "parse_default_overlays (join_with [nl] (overlays_section hs @ [[]])) = Inr hs"
    using assms(4) by (intro parse_boot_overlays) (simp_all add: overlay_hashes_ok_def)
  have policy: "parse_admission (join_with [nl] (map (\<lambda>(k, v). ''- '' @ k @ '': '' @ v) (policy_pairs (co_wallet_address g)) @ [[]])) =
      Inr (boot_policy (co_wallet_address g))"
    using assms(3) by (intro parse_boot_policy) (simp add: coords_ok_def)
  show ?thesis
    unfolding parse_manifest_def built_sections [OF assms(1,3,4)] Let_def required_sections_found section_values
      parse_boot_identity [OF assms(1,2)] policy peers overlays
    by (simp add: boot_manifest_def network_id_from_manifest_def Let_def)
qed

text \<open>
  C40: The network manifest written at boot is one that every agent accepts: when the scenario's
  name is a name of a network and the genesis agent reports a usable address, port and public
  key, the text is parsed to exactly the intended policy, with the genesis agent as the only
  genesis peer and the published overlays as the default overlays, in order.
\<close>

theorem built_manifest_parses:
  assumes "match_name (sc_name S)" and "coords_ok g" and "overlay_hashes_ok hs"
  shows "parse_manifest sha1 (build_manifest_md S g hs) = Inr (boot_manifest sha1 S g hs)"
  using parse_built_manifest [of S g hs sha1] match_name_chars [OF assms(1)] assms by simp

definition sample_boot_scenario :: scenario where
  "sample_boot_scenario =
     \<lparr>sc_name = ''demo'', sc_description = [],
      sc_watchdog = \<lparr>wp_interval_s = 30, wp_max_iterations_per_turn = 4, wp_max_total_turns = 9, wp_max_wall_clock_s = 600\<rparr>,
      sc_agents = crossed_agents, sc_log_dir = ''/var/log/demo''\<rparr>"

definition sample_coords :: agent_coords where
  "sample_coords = \<lparr>co_host = ''127.0.0.1'', co_port = 3000, co_pubkey_hex = ''4c69'', co_wallet_address = ''dclaw1ab''\<rparr>"

lemma built_manifest_parses_witness:
  "parse_manifest (\<lambda>b. b) (build_manifest_md sample_boot_scenario sample_coords [''0123456789abcdef0123456789abcdef01234567'']) =
     Inr (boot_manifest (\<lambda>b. b) sample_boot_scenario sample_coords [''0123456789abcdef0123456789abcdef01234567''])"
proof (rule built_manifest_parses)
  show "match_name (sc_name sample_boot_scenario)" by code_simp
  show "coords_ok sample_coords" by code_simp
  show "overlay_hashes_ok [''0123456789abcdef0123456789abcdef01234567'']" by code_simp
qed

text \<open>
  A scenario may have a name that its own manifest may not: with a hyphen, a capital or a
  digit in front the services are started, and then every agent refuses the manifest.
\<close>

lemma hyphenated_manifest_refused:
  assumes "sc_name S = ''seek-cc''" "coords_ok g" "overlay_hashes_ok hs"
  shows "scenario_name_ok (sc_name S)" "parse_manifest sha1 (build_manifest_md S g hs) = Inl (NameNotSnakeCase ''seek-cc'')"
proof -
  have "scenario_name_ok ''seek-cc''" "\<not> match_name ''seek-cc''" "list_all (\<lambda>c. \<not> is_space c) ''seek-cc''" by code_simp+
  then show "scenario_name_ok (sc_name S)" "parse_manifest sha1 (build_manifest_md S g hs) = Inl (NameNotSnakeCase ''seek-cc'')"
    using parse_built_manifest [of S g hs sha1] assms by simp_all
qed

section \<open>Names of services\<close>

lemma instance_splits: "CHR ''-'' \<notin> set (sc_name S) \<Longrightarrow> split_instance (instance_id S n) = Some (sc_name S, n)"
  by (simp add: split_instance_def instance_id_def takeWhile_append dropWhile_append)

lemma hyphenated_instance_splits_wrong:
  assumes "sc_name S = ''seek-cc''"
  shows "split_instance (instance_id S ''bob'') = Some (''seek'', ''cc-bob'')"
  by (simp add: split_instance_def instance_id_def assms)

section \<open>The gatekeeper\<close>

definition references :: "scenario \<Rightarrow> string \<Rightarrow> nat" where
  "references S n = length (filter ((=) n) (concat (map (as_peers \<circ> snd) (sc_agents S))))"

lemma counting:
  fixes d :: "(string \<times> nat) list"
  shows "map_of (foldl (\<lambda>refs p. AList.update p (Suc (case map_of refs p of Some n \<Rightarrow> n | None \<Rightarrow> 0)) refs) d ps) n =
     (if length (filter ((=) n) ps) = 0 then map_of d n
      else Some ((case map_of d n of Some k \<Rightarrow> k | None \<Rightarrow> 0) + length (filter ((=) n) ps)))"
  by (induction ps arbitrary: d) (auto simp: update_conv' split: option.splits)

lemma counting_keys:
  fixes d :: "(string \<times> nat) list"
  assumes "set ps \<subseteq> fst ` set d"
  shows "map fst (foldl (\<lambda>refs p. AList.update p (Suc (case map_of refs p of Some n \<Rightarrow> n | None \<Rightarrow> 0)) refs) d ps) = map fst d"
  using assms
proof (induction ps arbitrary: d)
  case (Cons p ps)
  have "map fst (AList.update p v d) = map fst d" if "p \<in> fst ` set d" for v
    using that by (simp add: update_keys)
  then show ?case using Cons.prems Cons.IH [of "AList.update p (Suc (case map_of d p of Some n \<Rightarrow> n | None \<Rightarrow> 0)) d"]
    by (metis (no_types, lifting) foldl_Cons insert_subset list.set(2) list.set_map)
qed simp

lemma first_max_greatest: "first_max best ps \<in> set (best # ps) \<and> (\<forall>q \<in> set (best # ps). snd q \<le> snd (first_max best ps))"
proof (induction ps arbitrary: best)
  case (Cons a ps)
  define b where "b = (if snd best < snd a then a else best)"
  have "first_max b ps \<in> set (b # ps)" "\<forall>q \<in> set (b # ps). snd q \<le> snd (first_max b ps)" using Cons.IH [of b] by auto
  moreover have "b \<in> {a, best}" "snd a \<le> snd b" "snd best \<le> snd b" by (auto simp: b_def)
  moreover have "first_max best (a # ps) = first_max b ps" by (simp add: b_def)
  ultimately show ?case by (auto intro: order_trans)
qed simp

lemma count_refs_of:
  assumes "distinct (map fst (sc_agents S))" and "\<forall>a \<in> set (sc_agents S). set (as_peers (snd a)) \<subseteq> fst ` set (sc_agents S)"
  shows "map fst (count_refs S) = map fst (sc_agents S)"
    and "n \<in> fst ` set (sc_agents S) \<Longrightarrow> map_of (count_refs S) n = Some (references S n)"
proof -
  let ?ps = "concat (map (as_peers \<circ> snd) (sc_agents S))" and ?d = "map (\<lambda>p. (fst p, 0 :: nat)) (sc_agents S)"
  have k: "set ?ps \<subseteq> fst ` set ?d" using assms(2) by force
  show "map fst (count_refs S) = map fst (sc_agents S)"
    using counting_keys [OF k] by (simp add: count_refs_def o_def)
  assume "n \<in> fst ` set (sc_agents S)"
  then have "map_of ?d n = Some 0" by (induction "sc_agents S") (auto simp: map_of_eq_Some_iff assms(1) o_def)
  then show "map_of (count_refs S) n = Some (references S n)"
    using counting [of ?d ?ps n] by (simp add: count_refs_def references_def)
qed

text \<open>The gatekeeper of a boot is an agent that no other is referenced more often than.\<close>

lemma pick_genesis_most_referenced:
  assumes "distinct (map fst (sc_agents S))" and "\<forall>a \<in> set (sc_agents S). set (as_peers (snd a)) \<subseteq> fst ` set (sc_agents S)"
    and "sc_agents S \<noteq> []"
  shows "\<exists>g \<in> fst ` set (sc_agents S). pick_genesis S = Some g \<and> (\<forall>n \<in> fst ` set (sc_agents S). references S n \<le> references S g)"
proof -
  note keys = count_refs_of(1) [OF assms(1,2)] and vals = count_refs_of(2) [OF assms(1,2)]
  have d: "distinct (map fst (count_refs S))" using keys assms(1) by simp
  have names: "fst ` set (count_refs S) = fst ` set (sc_agents S)" using keys by (metis list.set_map)
  obtain p ps where c: "count_refs S = p # ps" using keys assms(3) by (cases "count_refs S") auto
  obtain g k where m: "first_max p ps = (g, k)" by (cases "first_max p ps")
  have best: "(g, k) \<in> set (count_refs S)" "\<forall>q \<in> set (count_refs S). snd q \<le> k"
    using first_max_greatest [of p ps] m c by auto
  have ref: "references S n \<le> k" if "n \<in> fst ` set (sc_agents S)" for n
    using vals [OF that] best(2) map_of_SomeD by fastforce
  have in_refs: "g \<in> fst ` set (count_refs S)" "map_of (count_refs S) g = Some k"
    using best(1) d by (force, simp add: map_of_eq_Some_iff)
  have g: "g \<in> fst ` set (sc_agents S)" "references S g = k"
    using in_refs names vals [of g] by auto
  have pick: "pick_genesis S = (if k = 0 then Some (fst (hd (sc_agents S))) else Some g)"
    by (simp add: pick_genesis_def c m)
  show ?thesis
  proof (cases "k = 0")
    case True
    then show ?thesis using pick ref assms(3) by (intro bexI [of _ "fst (hd (sc_agents S))"]) auto
  next
    case False
    then show ?thesis using pick ref g by (intro bexI [of _ g]) auto
  qed
qed

end
