(* ===== verification/Scenario_Boot_Spec.thy ===== *)
theory Scenario_Boot_Spec
  imports Scenario_Boot Boot_Config_Spec
begin

text \<open>
  What has happened when a boot reports success: every agent's service has been started and
  waited for, its peers introduced and the manifest handed over, before any watchdog runs.
\<close>

section \<open>Steps and their traces\<close>

text \<open>\<open>quietly m\<close>: whatever the outcome, no act of \<open>m\<close> restarts a watchdog.\<close>

definition restarts_watchdog :: "string list \<Rightarrow> bool" where
  "restarts_watchdog cmd =
     (take 2 cmd = [''systemctl'', ''restart''] \<and> 2 < length cmd \<and> startswith (cmd ! 2) ''delftclaw-watchdog@'')"

definition starts_watchdog :: "boot_act \<Rightarrow> bool" where
  "starts_watchdog a = (case a of
     Command cmd input \<Rightarrow> restarts_watchdog (if cmd \<noteq> [] \<and> hd cmd = ''sudo'' then tl cmd else cmd)
   | _ \<Rightarrow> False)"

definition quietly :: "('a, 'w boot_state) step \<Rightarrow> bool" where
  "quietly m = (\<forall>B. \<exists>ts. bs_trace (snd (m B)) = bs_trace B @ ts \<and> (\<forall>a \<in> set ts. \<not> starts_watchdog a))"

named_theorems quiet_rules

lemma quietly_id [quiet_rules]: "quietly (ret v)" "quietly (raise x)" "quietly (raising r)" "quietly (observe f)"
  by (simp_all add: quietly_def observe_def)

lemma quietly_act [quiet_rules]: "\<not> starts_watchdog a \<Longrightarrow> quietly (act a m)"
  by (simp add: quietly_def act_def split: prod.splits)

lemma quietly_seq [quiet_rules]:
  assumes "quietly m" "\<And>x. quietly (k x)"
  shows "quietly (seq m k)"
  unfolding quietly_def
proof
  fix B
  obtain ts where ts: "bs_trace (snd (m B)) = bs_trace B @ ts" "\<forall>a \<in> set ts. \<not> starts_watchdog a"
    using assms(1) by (auto simp: quietly_def)
  show "\<exists>ts. bs_trace (snd (seq m k B)) = bs_trace B @ ts \<and> (\<forall>a \<in> set ts. \<not> starts_watchdog a)"
  proof (cases "m B")
    case (Pair r B1)
    then show ?thesis
    proof (cases r)
      case (Inr x)
      obtain us where "bs_trace (snd (k x B1)) = bs_trace B1 @ us" "\<forall>a \<in> set us. \<not> starts_watchdog a"
        using assms(2) [of x] unfolding quietly_def by blast
      with Pair Inr ts show ?thesis by (intro exI [of _ "ts @ us"]) (auto simp: seq_def)
    qed (use ts in \<open>auto simp: seq_def\<close>)
  qed
qed

lemma quietly_caught [quiet_rules]: "quietly m \<Longrightarrow> quietly (caught m)"
  by (auto simp: quietly_def caught_def split: prod.splits) (metis snd_conv)

lemma quietly_each [quiet_rules]: "(\<And>x. quietly (f x)) \<Longrightarrow> quietly (each f xs)"
  by (induction xs) (auto intro: quiet_rules)

lemma quietly_gather [quiet_rules]: "(\<And>x. quietly (f x)) \<Longrightarrow> quietly (gather f xs)"
  by (induction xs) (auto intro: quiet_rules)

lemma quietly_while_ok [quiet_rules]: "(\<And>x. quietly (f x)) \<Longrightarrow> quietly (while_ok f xs)"
  by (induction xs) (auto intro!: quiet_rules)

section \<open>Acts that happen\<close>

text \<open>\<open>does m A\<close>: when \<open>m\<close> succeeds with \<open>r\<close>, its acts include \<open>A r\<close>.\<close>

definition does :: "('a, 'w boot_state) step \<Rightarrow> ('a \<Rightarrow> boot_act set) \<Rightarrow> bool" where
  "does m A = (\<forall>B r B'. m B = (Inr r, B') \<longrightarrow> (\<exists>ts. bs_trace B' = bs_trace B @ ts \<and> A r \<subseteq> set ts))"

lemma does_act: "does (act a m) (\<lambda>_. {a})"
  by (auto simp: does_def act_def split: prod.splits)

lemma does_seq:
  assumes "does m A" "\<And>x. does (k x) (C x)" "\<And>x y. R y \<subseteq> A x \<union> C x y"
  shows "does (seq m k) R"
  unfolding does_def
proof (intro allI impI)
  fix B y B' assume "seq m k B = (Inr y, B')"
  then obtain x B1 where r: "m B = (Inr x, B1)" "k x B1 = (Inr y, B')" by (auto simp: seq_Inr)
  from r(1) obtain ts where ts: "bs_trace B1 = bs_trace B @ ts" "A x \<subseteq> set ts" using assms(1) unfolding does_def by blast
  from r(2) obtain us where us: "bs_trace B' = bs_trace B1 @ us" "C x y \<subseteq> set us" using assms(2) [of x] unfolding does_def by blast
  have "R y \<subseteq> A x \<union> C x y" by (rule assms(3))
  then show "\<exists>ts. bs_trace B' = bs_trace B @ ts \<and> R y \<subseteq> set ts" using ts us by (intro exI [of _ "ts @ us"]) auto
qed

lemma does_quiet: "quietly m \<Longrightarrow> does m (\<lambda>_. {})"
  unfolding quietly_def does_def by (metis empty_subsetI snd_conv)

lemma does_each: "(\<And>x. does (f x) (\<lambda>_. A x)) \<Longrightarrow> does (each f xs) (\<lambda>_. \<Union> (A ` set xs))"
proof (induction xs)
  case Nil
  then show ?case by (simp add: does_def)
next
  case (Cons x xs)
  have "does (seq (f x) (\<lambda>_. each f xs)) (\<lambda>_. \<Union> (A ` set (x # xs)))"
    by (rule does_seq [OF Cons.prems Cons.IH]) (auto intro: Cons.prems)
  then show ?case by simp
qed

lemma does_while_ok:
  assumes "\<And>x. does (f x) (\<lambda>ok. if ok then A x else {})"
  shows "does (while_ok f xs) (\<lambda>ok. if ok then \<Union> (A ` set xs) else {})"
proof (induction xs)
  case Nil
  then show ?case by (simp add: does_def)
next
  case (Cons x xs)
  show ?case
    unfolding does_def
  proof (intro allI impI)
    fix B y B' assume "while_ok f (x # xs) B = (Inr y, B')"
    then obtain ok B1 where r: "f x B = (Inr ok, B1)" "(if ok then while_ok f xs else ret False) B1 = (Inr y, B')"
      by (auto simp: seq_Inr)
    obtain ts where ts: "bs_trace B1 = bs_trace B @ ts" "(if ok then A x else {}) \<subseteq> set ts"
      using assms r(1) unfolding does_def by blast
    show "\<exists>ts. bs_trace B' = bs_trace B @ ts \<and> (if y then \<Union> (A ` set (x # xs)) else {}) \<subseteq> set ts"
    proof (cases ok)
      case True
      then have "while_ok f xs B1 = (Inr y, B')" using r(2) by simp
      then obtain us where "bs_trace B' = bs_trace B1 @ us" "(if y then \<Union> (A ` set xs) else {}) \<subseteq> set us"
        using Cons.IH unfolding does_def by blast
      then show ?thesis using ts True by (intro exI [of _ "ts @ us"]) (cases y; simp; blast)
    next
      case False
      then show ?thesis using r(2) ts by auto
    qed
  qed
qed

section \<open>The parts of a boot\<close>

lemma quietly_run [quiet_rules]: "\<not> starts_watchdog (Command cmd input) \<Longrightarrow> quietly (run_any M cmd input)"
  by (simp add: run_any_def quietly_act)

lemma quietly_run_checked [quiet_rules]: "\<not> starts_watchdog (Command cmd input) \<Longrightarrow> quietly (run_checked M cmd input)"
  by (auto simp: run_checked_def intro!: quiet_rules split: prod.splits)

lemma starts_sudo_command:
  "starts_watchdog (Command (sudo_command M cmd) input) \<longleftrightarrow>
     (if mc_is_root M then starts_watchdog (Command cmd input) else restarts_watchdog cmd)"
  by (simp add: sudo_command_def starts_watchdog_def)

lemma other_program: "p \<noteq> ''systemctl'' \<Longrightarrow> \<not> restarts_watchdog (p # rest)"
  by (simp add: restarts_watchdog_def numeral_2_eq_2)

lemma no_watchdog:
  "p \<noteq> ''systemctl'' \<Longrightarrow> p \<noteq> ''sudo'' \<Longrightarrow> \<not> starts_watchdog (Command (sudo_command M (p # rest)) input)"
  "p \<noteq> ''systemctl'' \<Longrightarrow> \<not> starts_watchdog (Command (''sudo'' # p # rest) input)"
  "p \<noteq> ''systemctl'' \<Longrightarrow> \<not> starts_watchdog (Command (sudo_command M (''sudo'' # p # rest)) input)"
  "\<not> starts_watchdog (ToolCall url tool args)" "\<not> starts_watchdog (AwaitUp url)" "\<not> starts_watchdog (IsolationProbe dir)"
  unfolding starts_sudo_command by (simp_all add: starts_watchdog_def other_program)

lemma quietly_sudo [quiet_rules]:
  "\<not> starts_watchdog (Command (sudo_command M cmd) None) \<Longrightarrow> quietly (sudo M cmd)"
  "\<not> starts_watchdog (Command (sudo_command M cmd) None) \<Longrightarrow> quietly (sudo_lenient M cmd)"
  unfolding sudo_def sudo_lenient_def by (auto intro!: quiet_rules split: prod.splits)

lemma quietly_install [quiet_rules]: "quietly (sudo M (install_dir owner path))"
  unfolding install_dir_def by (rule quietly_sudo, rule no_watchdog; simp)

lemma quietly_tee [quiet_rules]: "quietly (sudo_tee M path body)"
  unfolding sudo_tee_def by (intro quiet_rules no_watchdog) simp

lemma quietly_files [quiet_rules]:
  "quietly (sudo M (''chmod'' # args))" "quietly (sudo M (''chown'' # args))" "quietly (sudo_lenient M (''chown'' # args))"
  "quietly (sudo M (''cp'' # args))" "quietly (sudo_lenient M (''rm'' # args))"
  by (rule quietly_sudo, rule no_watchdog; simp)+

lemma quietly_mcp_unit [quiet_rules]: "quietly (enable_unit M (mcp_unit S a))"
  unfolding enable_unit_def
  by (intro quietly_seq quietly_sudo; unfold starts_sudo_command)
    (simp_all add: starts_watchdog_def restarts_watchdog_def startswith_def mcp_unit_def)

lemma quietly_shared [quiet_rules]: "quietly (prepare_shared_state M S)"
  unfolding prepare_shared_state_def Let_def
  by (auto intro!: quiet_rules no_watchdog)

lemma quietly_seeded [quiet_rules]: "quietly (seed_for_agent M S a)"
  unfolding seed_for_agent_def Let_def by (auto intro!: quietly_seq quietly_id quietly_install quietly_sudo(1) no_watchdog(3))

lemma quietly_staged [quiet_rules]: "quietly (stage_scenario_dir M S a)"
proof -
  have "quietly (write_seed_item M dir sd)" for dir sd
    unfolding write_seed_item_def Let_def by (intro quiet_rules)
  then have "quietly (write_seed_content_file M S a)"
    unfolding write_seed_content_file_def Let_def by (auto intro!: quiet_rules)
  then show ?thesis unfolding stage_scenario_dir_def Let_def by (intro quiet_rules)
qed

lemma quietly_stage [quiet_rules]: "quietly (stage_agent M S a)"
  unfolding stage_agent_def write_env_file_def Let_def by (intro quiet_rules)

lemma quietly_openclaw [quiet_rules]:
  "quietly (openclaw_run M (openclaw_env P state key) args)" "quietly (openclaw_config_set M (openclaw_env P state key) path v)"
  "quietly (run_any M (openclaw_env P state key @ args) None)"
  unfolding openclaw_config_set_def openclaw_run_def openclaw_env_def openclaw_user_def append_Cons
  by (intro quiet_rules no_watchdog; simp)+

lemma quietly_provision [quiet_rules]: "quietly (provision_openclaw_workspace M S a)"
  unfolding provision_openclaw_workspace_def Let_def by (auto intro!: quiet_rules split: prod.splits)

lemma quietly_call [quiet_rules]: "quietly (call_mcp M url tool args)"
  unfolding call_mcp_def by (intro quiet_rules no_watchdog)

lemma quietly_await [quiet_rules]: "quietly (await_up M a)"
  unfolding await_up_def by (intro quiet_rules no_watchdog)

lemma quietly_coords [quiet_rules]: "quietly (coords_of M S a)"
  unfolding coords_of_def agent_self_info_def pubkey_for_agent_def Let_def by (intro quiet_rules no_watchdog) simp

lemma quietly_introduce [quiet_rules]: "quietly (introduce_all M S coords)"
proof -
  have "quietly (introduce M coords a p)" for a p
    unfolding introduce_def by (auto intro!: quiet_rules split: option.splits)
  then show ?thesis unfolding introduce_all_def by (intro quiet_rules)
qed

lemma quietly_inject_one [quiet_rules]: "quietly (inject M S md a)"
  unfolding inject_def Let_def by (intro quiet_rules)

section \<open>What the parts do\<close>

lemma does_weaken: "does m A \<Longrightarrow> (\<And>r. C r \<subseteq> A r) \<Longrightarrow> does m C"
  unfolding does_def by (meson order_trans)

lemma does_run_checked: "does (run_checked M cmd input) (\<lambda>_. {Command cmd input})"
  unfolding run_checked_def run_any_def
  by (rule does_seq [OF does_act]) (auto simp: does_def split: prod.splits)

lemma does_then_ret: "does m (\<lambda>_. A) \<Longrightarrow> does (seq m (\<lambda>_. ret v)) (\<lambda>_. A)"
  by (rule does_seq [where C = "\<lambda>_ _. {}"]) (auto simp: does_def)

lemma does_sudo: "does (sudo M cmd) (\<lambda>_. {Command (sudo_command M cmd) None})"
  unfolding sudo_def by (rule does_then_ret [OF does_run_checked])

lemma does_sudo_lenient: "does (sudo_lenient M cmd) (\<lambda>_. {Command (sudo_command M cmd) None})"
  unfolding sudo_lenient_def run_any_def by (rule does_then_ret [OF does_act])

lemma does_tee: "does (sudo_tee M path body) (\<lambda>_. {Command [''sudo'', ''tee'', path] (Some body)})"
  unfolding sudo_tee_def by (rule does_then_ret [OF does_run_checked])

text \<open>In a sequence whose results do not matter, the acts of either part count.\<close>

lemma does_first: "does m (\<lambda>_. A) \<Longrightarrow> (\<And>x. does (k x) (\<lambda>_. {})) \<Longrightarrow> does (seq m k) (\<lambda>_. A)"
  by (rule does_seq [where C = "\<lambda>_ _. {}"]) auto

lemma does_later: "does m (\<lambda>_. C) \<Longrightarrow> (\<And>x. does (k x) A) \<Longrightarrow> does (seq m k) A"
  by (rule does_seq [where C = "\<lambda>_. A"]) auto

lemma does_both: "does m (\<lambda>_. A) \<Longrightarrow> (\<And>x. does (k x) (\<lambda>_. C)) \<Longrightarrow> does (seq m k) (\<lambda>_. A \<union> C)"
  by (rule does_seq [where C = "\<lambda>_ _. C"]) auto

lemma does_nothing: "does m (\<lambda>_. A) \<Longrightarrow> does m (\<lambda>_. {})"
  by (rule does_weaken) auto

definition restart_act :: "'w machine \<Rightarrow> string \<Rightarrow> boot_act" where
  "restart_act M u = Command (sudo_command M [''systemctl'', ''restart'', u]) None"

lemma does_enable: "does (enable_unit M u) (\<lambda>_. {restart_act M u})"
  unfolding enable_unit_def restart_act_def
  by (intro does_later [OF does_sudo] does_later [OF does_sudo_lenient] does_sudo)

lemma does_write_env: "does (write_env_file M S a)
    (\<lambda>_. {Command [''sudo'', ''tee'', instance_env_path (mc_conf M) S a] (Some (instance_env_contents (mc_conf M) S a))})"
  unfolding write_env_file_def Let_def
  by (intro does_later [OF does_sudo] does_first [OF does_tee] does_nothing [OF does_sudo])

lemma does_stage: "does (stage_agent M S a)
    (\<lambda>_. {Command [''sudo'', ''tee'', instance_env_path (mc_conf M) S a] (Some (instance_env_contents (mc_conf M) S a))})"
  unfolding stage_agent_def
  by (intro does_later [OF does_quiet [OF quietly_seeded]] does_later [OF does_quiet [OF quietly_staged]] does_write_env)

lemma does_await: "does (await_up M a) (\<lambda>_. {AwaitUp (mcp_url a)})"
  unfolding await_up_def by (rule does_act)

lemma does_caught_call: "does (caught (call_mcp M url tool args)) (\<lambda>_. {ToolCall url tool args})"
  by (auto simp: does_def caught_def call_mcp_def act_def seq_def split: prod.splits sum.splits)

definition intro_act :: "(string \<times> agent_coords) list \<Rightarrow> agent_spec \<Rightarrow> string \<Rightarrow> boot_act" where
  "intro_act coords a p = ToolCall (mcp_url a) ''peer_add'' (intro_args (the (map_of coords p)))"

lemma does_introduce: "does (introduce M coords a p) (\<lambda>ok. if ok then {intro_act coords a p} else {})"
proof (cases "map_of coords p")
  case (Some c)
  have "does (seq (caught (call_mcp M (mcp_url a) ''peer_add'' (intro_args c)))
      (\<lambda>r. ret (case r of Inl _ \<Rightarrow> False | Inr _ \<Rightarrow> True))) (\<lambda>_. {ToolCall (mcp_url a) ''peer_add'' (intro_args c)})"
    by (rule does_first [OF does_caught_call]) (simp add: does_def)
  then show ?thesis unfolding introduce_def Some intro_act_def option.sel option.case by (rule does_weaken) simp
qed (simp add: introduce_def does_def)

lemma does_introduce_all:
  "does (introduce_all M S coords) (\<lambda>ok. if ok then \<Union>a \<in> set (agents_of S). intro_act coords a ` set (as_peers a) else {})"
proof -
  have "does (while_ok (introduce M coords a) (as_peers a)) (\<lambda>ok. if ok then intro_act coords a ` set (as_peers a) else {})" for a
  proof -
    have "(\<Union>p \<in> set ps. {intro_act coords a p}) = intro_act coords a ` set ps" for ps by auto
    then show ?thesis
      using does_while_ok [of "introduce M coords a" "\<lambda>p. {intro_act coords a p}" "as_peers a", OF does_introduce]
      by (simp only:)
  qed
  then show ?thesis unfolding introduce_all_def by (rule does_while_ok)
qed

definition inject_acts :: "'w machine \<Rightarrow> scenario \<Rightarrow> string \<Rightarrow> agent_spec \<Rightarrow> boot_act set" where
  "inject_acts M S md a =
     {Command [''sudo'', ''tee'', manifest_file_path (mc_conf M) S a] (Some md),
      ToolCall (mcp_url a) ''agent_inject_manifest'' (injection md)}"

lemma does_inject: "does (inject M S md a) (\<lambda>_. inject_acts M S md a)"
  unfolding inject_def Let_def inject_acts_def
  by (rule does_seq [OF does_tee, where C = "\<lambda>_ _. {ToolCall (mcp_url a) ''agent_inject_manifest'' (injection md)}"],
      intro does_later [OF does_sudo] does_first [OF does_caught_call]) (auto simp: does_def)

lemma does_inject_all: "does (while_ok (inject M S md) as) (\<lambda>ok. if ok then \<Union> (inject_acts M S md ` set as) else {})"
  by (rule does_while_ok, rule does_weaken [OF does_inject]) simp

lemma gather_results: "gather f xs B = (Inr ys, B') \<Longrightarrow> list_all2 (\<lambda>x y. \<exists>B1 B2. f x B1 = (Inr y, B2)) xs ys"
  by (induction xs arbitrary: B ys) (auto simp: seq_Inr)

text \<open>What is known of the coordinates collected for the agents.\<close>

definition located :: "scenario \<Rightarrow> (string \<times> agent_coords) list \<Rightarrow> bool" where
  "located S coords = list_all2 (\<lambda>a (n, k). n = as_name a \<and> co_host k = ''127.0.0.1'' \<and> co_port k = as_ipv8_port a)
     (agents_of S) coords"

lemma gather_located: "gather (coords_of M S) (agents_of S) B = (Inr coords, B') \<Longrightarrow> located S coords"
  unfolding located_def
  by (drule gather_results, erule list_all2_mono) (auto simp: coords_of_def seq_Inr)

section \<open>A successful boot\<close>

text \<open>The acts of a step that succeeds, none of which restarts a watchdog.\<close>

lemma quiet_does:
  assumes "m B = (Inr r, B')" "quietly m" "does m A"
  obtains ts where "bs_trace B' = bs_trace B @ ts" "\<forall>t \<in> set ts. \<not> starts_watchdog t" "A r \<subseteq> set ts"
proof -
  obtain ts where "bs_trace B' = bs_trace B @ ts" "\<forall>t \<in> set ts. \<not> starts_watchdog t"
    using assms(1,2) unfolding quietly_def by (metis snd_conv)
  moreover obtain us where "bs_trace B' = bs_trace B @ us" "A r \<subseteq> set us" using assms(1,3) unfolding does_def by blast
  ultimately show ?thesis using that by simp
qed

text \<open>What has been done for an agent when the services are up.\<close>

definition service_acts :: "'w machine \<Rightarrow> scenario \<Rightarrow> agent_spec \<Rightarrow> boot_act set" where
  "service_acts M S a =
     {Command [''sudo'', ''tee'', instance_env_path (mc_conf M) S a] (Some (instance_env_contents (mc_conf M) S a)),
      restart_act M (mcp_unit S a), AwaitUp (mcp_url a)}"

lemma quietly_services: "quietly (boot_services M S)"
  unfolding boot_services_def by (intro quiet_rules)

lemma does_services: "does (boot_services M S) (\<lambda>_. \<Union> (service_acts M S ` set (agents_of S)))"
proof -
  have "does (boot_services M S) (\<lambda>_. (\<Union>a \<in> set (agents_of S).
        {Command [''sudo'', ''tee'', instance_env_path (mc_conf M) S a] (Some (instance_env_contents (mc_conf M) S a))}) \<union>
      ((\<Union>a \<in> set (agents_of S). {restart_act M (mcp_unit S a)}) \<union> ((\<Union>a \<in> set (agents_of S). {AwaitUp (mcp_url a)}) \<union> {})))"
    unfolding boot_services_def
    by (intro does_later [OF does_quiet [OF quietly_shared]] does_both does_each does_stage does_enable does_await does_quiet quiet_rules)
  then show ?thesis by (rule does_weaken) (auto simp: service_acts_def)
qed

lemma services_located: "boot_services M S B = (Inr coords, B') \<Longrightarrow> located S coords"
  unfolding boot_services_def by (auto simp: seq_Inr gather_located)

definition prepared :: "'w machine \<Rightarrow> scenario \<Rightarrow> (string \<times> agent_coords) list \<Rightarrow> string \<Rightarrow> agent_spec \<Rightarrow> boot_act set" where
  "prepared M S coords md a = service_acts M S a \<union> intro_act coords a ` set (as_peers a) \<union> inject_acts M S md a"

text \<open>A boot that returns 0 has gone through its phases, each of which has succeeded.\<close>

lemma boot_phases:
  assumes "bring_up M S False B = (Inr 0, B')"
  obtains coords B1 B2 B3 where
    "boot_services M S B = (Inr coords, B1)"
    "introduce_all M S coords B1 = (Inr True, B2)"
    "inject_all M S coords B2 = (Inr True, B3)"
    "each (\<lambda>a. enable_unit M (watchdog_unit S a)) (agents_of S) B3 = (Inr (), B')"
  using assms unfolding bring_up_def by (auto simp: seq_Inr split: if_splits)

lemma inject_all_True:
  assumes "inject_all M S coords B = (Inr True, B')" and "sc_agents S \<noteq> []" and "pick_genesis S \<noteq> None"
  obtains g c hs where "pick_genesis S = Some g" "map_of coords g = Some c"
    "while_ok (inject M S (build_manifest_md S c hs)) (agents_of S) B = (Inr True, B')"
  using assms unfolding inject_all_def by (auto simp: seq_Inr split: option.splits)

lemma pick_genesis_Some: "sc_agents S \<noteq> [] \<Longrightarrow> pick_genesis S \<noteq> None"
proof -
  have "foldl (\<lambda>refs p. AList.update p (f refs p) refs) d ps \<noteq> []" if "d \<noteq> []" for f and d :: "(string \<times> nat) list" and ps
    using that by (induction ps arbitrary: d) (auto simp: update_nonempty)
  then have "count_refs S \<noteq> []" if "sc_agents S \<noteq> []" using that by (simp add: count_refs_def)
  then show "pick_genesis S \<noteq> None" if "sc_agents S \<noteq> []"
    using that by (auto simp: pick_genesis_def split: list.splits prod.splits)
qed

text \<open>
  C39: When the boot of a scenario succeeds, its agents are ready before any watchdog runs: the
  environment of every agent has been written, its service restarted and waited for, every peer
  introduced with the port the scenario gives it, and the same manifest, naming the genesis
  agent, written for and handed to every agent; the watchdogs are restarted after all of that.
\<close>

theorem boot_in_order:
  assumes "bring_up M S False B = (Inr 0, B')" and "sc_agents S \<noteq> []"
  shows "\<exists>coords g c hs pre post. located S coords \<and> pick_genesis S = Some g \<and> map_of coords g = Some c \<and>
    bs_trace B' = bs_trace B @ pre @ post \<and> (\<forall>t \<in> set pre. \<not> starts_watchdog t) \<and>
    (\<forall>a \<in> set (agents_of S). prepared M S coords (build_manifest_md S c hs) a \<subseteq> set pre \<and>
       restart_act M (watchdog_unit S a) \<in> set post)"
proof -
  from assms(1) obtain coords B1 B2 B3 where
    run: "boot_services M S B = (Inr coords, B1)" "introduce_all M S coords B1 = (Inr True, B2)"
    "inject_all M S coords B2 = (Inr True, B3)"
    "each (\<lambda>a. enable_unit M (watchdog_unit S a)) (agents_of S) B3 = (Inr (), B')"
    by (rule boot_phases)
  from run(3) assms(2) pick_genesis_Some obtain g c hs where g: "pick_genesis S = Some g" "map_of coords g = Some c"
    and inj: "while_ok (inject M S (build_manifest_md S c hs)) (agents_of S) B2 = (Inr True, B3)"
    by (metis inject_all_True)
  obtain t1 where t1: "bs_trace B1 = bs_trace B @ t1" "\<forall>t \<in> set t1. \<not> starts_watchdog t"
    "\<Union> (service_acts M S ` set (agents_of S)) \<subseteq> set t1"
    by (rule quiet_does [OF run(1) quietly_services does_services])
  obtain t2 where t2: "bs_trace B2 = bs_trace B1 @ t2" "\<forall>t \<in> set t2. \<not> starts_watchdog t"
    "(if True then \<Union>a \<in> set (agents_of S). intro_act coords a ` set (as_peers a) else {}) \<subseteq> set t2"
    by (rule quiet_does [OF run(2) quietly_introduce does_introduce_all])
  obtain t3 where t3: "bs_trace B3 = bs_trace B2 @ t3" "\<forall>t \<in> set t3. \<not> starts_watchdog t"
    "(if True then \<Union> (inject_acts M S (build_manifest_md S c hs) ` set (agents_of S)) else {}) \<subseteq> set t3"
    by (rule quiet_does [OF inj quietly_while_ok [OF quietly_inject_one] does_inject_all])
  have "does (each (\<lambda>a. enable_unit M (watchdog_unit S a)) (agents_of S)) (\<lambda>_. \<Union>a \<in> set (agents_of S). {restart_act M (watchdog_unit S a)})"
    by (rule does_each [OF does_enable])
  then obtain t4 where t4: "bs_trace B' = bs_trace B3 @ t4" "(\<Union>a \<in> set (agents_of S). {restart_act M (watchdog_unit S a)}) \<subseteq> set t4"
    using run(4) unfolding does_def by blast
  have "bs_trace B' = bs_trace B @ (t1 @ t2 @ t3) @ t4" using t1(1) t2(1) t3(1) t4(1) by simp
  moreover have "\<forall>t \<in> set (t1 @ t2 @ t3). \<not> starts_watchdog t" using t1(2) t2(2) t3(2) by (simp only: set_append) blast
  moreover have "prepared M S coords (build_manifest_md S c hs) a \<subseteq> set (t1 @ t2 @ t3)" if "a \<in> set (agents_of S)" for a
  proof -
    have "service_acts M S a \<subseteq> set t1" "intro_act coords a ` set (as_peers a) \<subseteq> set t2" "inject_acts M S (build_manifest_md S c hs) a \<subseteq> set t3"
      using that t1(3) t2(3) t3(3) unfolding if_True by (simp_all only: UN_subset_iff)
    then show ?thesis unfolding prepared_def set_append by blast
  qed
  moreover have "\<forall>a \<in> set (agents_of S). restart_act M (watchdog_unit S a) \<in> set t4" using t4(2) by auto
  ultimately show ?thesis using services_located [OF run(1)] g by blast
qed

text \<open>The boot of two agents on a machine where everything succeeds.\<close>

definition sample_machine :: "unit machine" where
  "sample_machine =
     \<lparr>mc_conf = \<lparr>bc_environ = (\<lambda>_. None), bc_host_file = None, bc_repo_root = ''/repo'', bc_join = (\<lambda>a b. a @ ''/'' @ b)\<rparr>,
      mc_is_root = True, mc_scenario_source = ''/repo/demo'', mc_exists = (\<lambda>_ _. True), mc_nonempty = (\<lambda>_ _. True),
      mc_command = (\<lambda>_ _. ret (0, [])), mc_tool = (\<lambda>_ _ _. ret (Structured (JStr ''dclaw1ab''))), mc_await = (\<lambda>_. ret ()),
      mc_probe = (\<lambda>_. ret (JObj [])), mc_overlay_text = (\<lambda>_. Inr []), mc_sha1 = id, mc_float_repr = id\<rparr>"

text \<open>\<open>settles m Q\<close>: \<open>m\<close> succeeds from every state, with a result that satisfies \<open>Q\<close>.\<close>

definition settles :: "('a, 's) step \<Rightarrow> ('a \<Rightarrow> bool) \<Rightarrow> bool" where
  "settles m Q = (\<forall>B. \<exists>r B'. m B = (Inr r, B') \<and> Q r)"

named_theorems settle_rules

lemma settles_ret [settle_rules]: "Q v \<Longrightarrow> settles (ret v) Q"
  by (simp add: settles_def)

lemma settles_observe [settle_rules]: "settles (observe f) (\<lambda>_. True)"
  by (simp add: settles_def observe_def)

lemma settles_seq: "settles m Q \<Longrightarrow> (\<And>x. Q x \<Longrightarrow> settles (k x) R) \<Longrightarrow> settles (seq m k) R"
  unfolding settles_def seq_def by (metis (no_types, lifting) old.sum.simps(6) case_prod_conv)

lemma settles_caught:
  assumes "settles m Q"
  shows "settles (caught m) (\<lambda>r. \<exists>v. r = Inr v \<and> Q v)"
  unfolding settles_def
proof
  fix B
  obtain r B' where "m B = (Inr r, B')" "Q r" using assms unfolding settles_def by blast
  then show "\<exists>r B'. caught m B = (Inr r, B') \<and> (\<exists>v. r = Inr v \<and> Q v)" by (simp add: caught_def)
qed

lemma settles_each [settle_rules]: "(\<And>x. settles (f x) (\<lambda>_. True)) \<Longrightarrow> settles (each f xs) (\<lambda>_. True)"
  by (induction xs) (auto intro: settle_rules settles_seq)

lemma settles_while_ok: "(\<And>x. x \<in> set xs \<Longrightarrow> settles (f x) (\<lambda>ok. ok)) \<Longrightarrow> settles (while_ok f xs) (\<lambda>ok. ok)"
  by (induction xs) (auto intro!: settle_rules settles_seq [where Q = "\<lambda>ok. ok"])

lemma settles_gather: "(\<And>x. settles (f x) (\<lambda>y. g y = h x)) \<Longrightarrow> settles (gather f xs) (\<lambda>ys. map g ys = map h xs)"
proof (induction xs)
  case Nil
  then show ?case by (simp add: settles_def)
next
  case (Cons x xs)
  then show ?case
    by (auto intro!: settle_rules settles_seq [where Q = "\<lambda>y. g y = h x"] settles_seq [where Q = "\<lambda>ys. map g ys = map h xs"])
qed

lemma sample_boot_run: "settles (run_any sample_machine cmd input) (\<lambda>r. r = (0, []))"
  by (simp add: settles_def run_any_def act_def sample_machine_def)

lemma sample_call: "settles (call_mcp sample_machine url tool args) (\<lambda>v. v = JStr ''dclaw1ab'')"
  by (simp add: settles_def call_mcp_def act_def seq_def sample_machine_def read_answer_def)

lemma sample_checked [settle_rules]: "settles (run_checked sample_machine cmd input) (\<lambda>_. True)"
  unfolding run_checked_def by (rule settles_seq [OF sample_boot_run]) (simp add: settles_ret)

lemma sample_commands [settle_rules]:
  "settles (sudo sample_machine cmd) (\<lambda>_. True)" "settles (sudo_lenient sample_machine cmd) (\<lambda>_. True)"
  "settles (sudo_tee sample_machine path body) (\<lambda>_. True)" "settles (openclaw_run sample_machine env args) (\<lambda>_. True)"
  unfolding sudo_def sudo_lenient_def sudo_tee_def openclaw_run_def
  by (rule settles_seq [OF sample_checked] settles_seq [OF sample_boot_run]; simp add: settles_ret)+

lemma sample_unit [settle_rules]: "settles (enable_unit sample_machine u) (\<lambda>_. True)"
  unfolding enable_unit_def by (intro settles_seq [where Q = "\<lambda>_. True"] settle_rules)

lemma sample_stage [settle_rules]:
  assumes "as_seed_content a = []"
  shows "settles (stage_agent sample_machine S a) (\<lambda>_. True)"
proof -
  have "settles (write_seed_content_file sample_machine S a) (\<lambda>_. True)"
    using assms unfolding write_seed_content_file_def Let_def
    by (auto intro!: settles_seq [where Q = "\<lambda>_. True"] settle_rules)
  then have "settles (stage_scenario_dir sample_machine S a) (\<lambda>_. True)"
    unfolding stage_scenario_dir_def Let_def by (intro settles_seq [where Q = "\<lambda>_. True"] settle_rules)
  moreover have "settles (seed_for_agent sample_machine S a) (\<lambda>_. True)"
    unfolding seed_for_agent_def Let_def by (auto intro!: settles_seq [where Q = "\<lambda>_. True"] settle_rules)
  moreover have "settles (write_env_file sample_machine S a) (\<lambda>_. True)"
    unfolding write_env_file_def Let_def by (intro settles_seq [where Q = "\<lambda>_. True"] settle_rules)
  ultimately show ?thesis unfolding stage_agent_def by (intro settles_seq [where Q = "\<lambda>_. True"])
qed

lemma sample_provision [settle_rules]: "settles (provision_openclaw_workspace sample_machine S a) (\<lambda>_. True)"
proof -
  have "registered_agents sample_machine 0 [] = Inr []" by code_simp
  moreover have "settles (seq (raising (Inr [])) (\<lambda>names. if i \<in> set names then ret () else openclaw_run sample_machine env args)) (\<lambda>_. True)" for i env args
    by (rule settles_seq [where Q = "\<lambda>v. v = []"]) (auto intro: settle_rules simp: settles_def [of "raising _"])
  ultimately have listing: "settles (seq (run_any sample_machine cmd None) (\<lambda>(code, out).
      seq (raising (registered_agents sample_machine code out)) (\<lambda>names. if i \<in> set names then ret () else
        openclaw_run sample_machine env args))) (\<lambda>_. True)" for cmd i env args
    by (intro settles_seq [OF sample_boot_run]) simp
  show ?thesis
    unfolding provision_openclaw_workspace_def openclaw_config_set_def Let_def
    by ((rule settles_seq [OF sample_commands(1)])+, (rule settles_seq [OF sample_commands(4)])+, rule listing)
qed

lemma sample_await [settle_rules]: "settles (await_up sample_machine a) (\<lambda>_. True)"
  by (simp add: settles_def await_up_def act_def sample_machine_def)

lemma sample_coords_of: "settles (coords_of sample_machine S a) (\<lambda>p. fst p = as_name a)"
  unfolding coords_of_def agent_self_info_def pubkey_for_agent_def Let_def
  by (auto intro!: settles_seq [where Q = "\<lambda>_. True"] settle_rules settles_seq [OF sample_call])

lemma sample_services:
  assumes "\<And>a. a \<in> set (agents_of S) \<Longrightarrow> as_seed_content a = []" and "\<not> secured S"
  shows "settles (boot_services sample_machine S) (\<lambda>coords. map fst coords = map as_name (agents_of S))"
proof -
  have stage: "settles (each (stage_agent sample_machine S) as) (\<lambda>_. True)" if "set as \<subseteq> set (agents_of S)" for as
    using that assms(1) by (induction as) (auto intro!: settles_seq [where Q = "\<lambda>_. True"] settle_rules sample_stage)
  have shared: "settles (prepare_shared_state sample_machine S) (\<lambda>_. True)"
    by (simp add: prepare_shared_state_def assms(2) settles_def)
  show ?thesis
    unfolding boot_services_def
    by (intro settles_seq [OF shared] settles_seq [OF stage [OF order_refl]] settles_seq [where Q = "\<lambda>_. True"] sample_unit
        sample_await sample_provision settles_each settles_gather [OF sample_coords_of])
qed

lemma sample_introduce: "p \<in> fst ` set coords \<Longrightarrow> settles (introduce sample_machine coords a p) (\<lambda>ok. ok)"
proof -
  assume "p \<in> fst ` set coords"
  then obtain c where "map_of coords p = Some c" by (metis map_of_eq_None_iff not_None_eq)
  then show ?thesis
    unfolding introduce_def by (auto intro!: settles_seq [OF settles_caught [OF sample_call]] settle_rules)
qed

lemma sample_inject: "settles (inject sample_machine S md a) (\<lambda>ok. ok)"
  unfolding inject_def Let_def
  by (intro settles_seq [where Q = "\<lambda>_. True"] settle_rules settles_seq [OF settles_caught [OF sample_call]])
    (auto intro: settle_rules)

lemma sample_agents:
  "map fst (sc_agents sample_boot_scenario) = [''alice'', ''bob'']"
  "map as_name (agents_of sample_boot_scenario) = [''alice'', ''bob'']"
  "\<not> secured sample_boot_scenario"
  by (simp_all add: sample_boot_scenario_def crossed_agents_def agents_of_def secured_def)

lemma sample_agent:
  assumes "a \<in> set (agents_of sample_boot_scenario)"
  shows "as_seed_content a = []" and "as_publish_overlays a = []" and "set (as_peers a) \<subseteq> {''alice'', ''bob''}"
  using assms by (auto simp: sample_boot_scenario_def crossed_agents_def agents_of_def)

lemma sample_genesis:
  obtains g a where "pick_genesis sample_boot_scenario = Some g" "map_of (sc_agents sample_boot_scenario) g = Some a"
    "g \<in> {''alice'', ''bob''}" "as_publish_overlays a = []"
proof -
  have "count_refs sample_boot_scenario = [(''alice'', 0), (''bob'', 1)]"
    by (simp add: count_refs_def sample_boot_scenario_def crossed_agents_def)
  then have "pick_genesis sample_boot_scenario = Some ''bob''" by (simp add: pick_genesis_def)
  then show ?thesis using that by (simp add: sample_boot_scenario_def crossed_agents_def)
qed

lemma sample_introduce_all:
  assumes "map fst coords = [''alice'', ''bob'']"
  shows "settles (introduce_all sample_machine sample_boot_scenario coords) (\<lambda>ok. ok)"
proof -
  have "fst ` set coords = {''alice'', ''bob''}" by (simp only: list.set_map [symmetric] assms list.set)
  then have "p \<in> fst ` set coords" if "a \<in> set (agents_of sample_boot_scenario)" "p \<in> set (as_peers a)" for a p
    using sample_agent(3) [OF that(1)] that(2) by (simp only: subset_iff)
  then show ?thesis
    unfolding introduce_all_def by (rule settles_while_ok [OF settles_while_ok [OF sample_introduce]])
qed

lemma sample_inject_all:
  assumes "map fst coords = [''alice'', ''bob'']"
  shows "settles (inject_all sample_machine sample_boot_scenario coords) (\<lambda>ok. ok)"
proof -
  obtain g a where ga: "pick_genesis sample_boot_scenario = Some g" "map_of (sc_agents sample_boot_scenario) g = Some a"
    "g \<in> {''alice'', ''bob''}" "as_publish_overlays a = []"
    by (rule sample_genesis)
  have "g \<in> fst ` set coords" unfolding list.set_map [symmetric] assms list.set by (rule ga(3))
  then obtain k where "map_of coords g = Some k" by (metis map_of_eq_None_iff not_None_eq)
  moreover have "settles (raising (default_overlay_hashes sample_machine a)) (\<lambda>_. True)"
    by (simp add: settles_def default_overlay_hashes_def ga(4))
  ultimately show ?thesis
    unfolding inject_all_def ga(1,2) option.case prod.case
    by (simp only: option.case) (rule settles_seq [where Q = "\<lambda>_. True"], assumption, rule settles_while_ok [OF sample_inject])
qed

lemma sample_boot_succeeds:
  "\<exists>B'. bring_up sample_machine sample_boot_scenario False \<lparr>bs_world = (), bs_trace = []\<rparr> = (Inr 0, B')"
proof -
  let ?S = sample_boot_scenario
  have units: "settles (each (\<lambda>a. enable_unit sample_machine (watchdog_unit ?S a)) (agents_of ?S)) (\<lambda>_. True)"
    by (intro settle_rules)
  have rest: "settles (seq (introduce_all sample_machine ?S coords) (\<lambda>ok. if \<not> ok then ret 1 else
      seq (inject_all sample_machine ?S coords) (\<lambda>ok. if \<not> ok then ret 1 else
      seq (each (\<lambda>a. enable_unit sample_machine (watchdog_unit ?S a)) (agents_of ?S)) (\<lambda>_. ret 0)))) (\<lambda>r. r = 0)"
    if c: "map fst coords = [''alice'', ''bob'']" for coords
    by (rule settles_seq [OF sample_introduce_all [OF c]], simp only: not_True_eq_False if_False,
        rule settles_seq [OF sample_inject_all [OF c]], simp only: not_True_eq_False if_False,
        rule settles_seq [OF units], rule settles_ret, rule refl)
  have services: "settles (boot_services sample_machine ?S) (\<lambda>coords. map fst coords = [''alice'', ''bob''])"
    using sample_services [of ?S] sample_agent(1) sample_agents by simp
  have "settles (bring_up sample_machine ?S False) (\<lambda>r. r = 0)"
    unfolding bring_up_def if_False by (rule settles_seq [OF services rest])
  then show ?thesis unfolding settles_def by blast
qed

lemma boot_in_order_witness:
  "\<exists>B' coords g c hs pre post. bring_up sample_machine sample_boot_scenario False \<lparr>bs_world = (), bs_trace = []\<rparr> = (Inr 0, B') \<and>
    located sample_boot_scenario coords \<and> pick_genesis sample_boot_scenario = Some g \<and> map_of coords g = Some c \<and>
    bs_trace B' = pre @ post \<and> (\<forall>t \<in> set pre. \<not> starts_watchdog t) \<and>
    (\<forall>a \<in> set (agents_of sample_boot_scenario).
       prepared sample_machine sample_boot_scenario coords (build_manifest_md sample_boot_scenario c hs) a \<subseteq> set pre \<and>
       restart_act sample_machine (watchdog_unit sample_boot_scenario a) \<in> set post)"
proof -
  let ?B = "\<lparr>bs_world = (), bs_trace = []\<rparr>"
  obtain B' where run: "bring_up sample_machine sample_boot_scenario False ?B = (Inr 0, B')"
    using sample_boot_succeeds by blast
  have "sc_agents sample_boot_scenario \<noteq> []" by (simp add: sample_boot_scenario_def crossed_agents_def)
  from boot_in_order [OF run this] show ?thesis using run by simp
qed

section \<open>The manifest that is handed over\<close>

lemma wallet_address_bech32:
  assumes "length (sha256_hex E (wl_pubkey w)) = 64" "list_all is_hex_char (sha256_hex E (wl_pubkey w))"
  shows "match_bech32 (wallet_address E w)"
  using assms by (auto simp: match_bech32_def wallet_address_def startswith_def list_all_iff dest: in_set_takeD)

lemma hex_of_bytes: "list_all is_hex_char (bytes_hex bs)"
proof -
  have "is_hex_char (hex_char n)" if "n < 16" for n
    using less_sixteen_cases [OF that] by (auto simp: hex_char_def is_hex_char_def is_digit_def)
  then have "list_all is_hex_char (hex_byte b)" for b
    using unat_byte_div [of b] by (simp add: hex_byte_def)
  then show ?thesis by (induction bs) (simp_all add: bytes_hex_def)
qed

lemma default_overlay_hashes_ok:
  assumes "default_overlay_hashes M a = Inr hs" and "\<And>b. 20 \<le> length (mc_sha1 M b)" and "distinct hs"
  shows "overlay_hashes_ok hs"
proof -
  have "list_all (\<lambda>h. length h = 40 \<and> list_all is_hex_char h) hs"
    if "mapr (\<lambda>p. bindr (mc_overlay_text M p) (\<lambda>text. Inr (bytes_hex (community_id_from_md (mc_sha1 M) text)))) ps = Inr hs" for ps
    using that assms(2)
    by (induction ps arbitrary: hs) (auto simp: bindr_Inr_iff hex_of_bytes community_id_from_md_def)
  then show ?thesis using assms(1,3) by (simp add: default_overlay_hashes_def overlay_hashes_ok_def)
qed

text \<open>
  The key of the compiler's model is printed by a dry run unless it happens to be the key that
  the driver is configured with.
\<close>

lemma compiler_key_printed:
  assumes "pc_api_key_env P \<noteq> ''OLLAMA_API_KEY''" and "CHR ''='' \<notin> set key"
  shows "redact_line P (''OLLAMA_API_KEY='' @ key) = ''OLLAMA_API_KEY='' @ key"
  using assms by (auto simp: redact_line_def partition_eq_def secret_keys_def)

end
