(* ===== verification/Gateway_Client.thy ===== *)
theory Gateway_Client
  imports Gateway_Requests
begin

text \<open>
  The HTTP client of the gateway (security/integration/client.py): the requests it makes for
  every tool, and what it makes of an answer.

  The exchange is a parameter: it answers a request with a text, with a status and the text of
  a refusal, or with the text of an operating-system error, and may change the world \<open>'w\<close>.  What
  else the library raises is an exception of the exchange.  The bodies are decoded text.
\<close>

section \<open>Requests and answers\<close>

record http_request =
  hr_method :: string
  hr_url :: string
  hr_body :: "string option"

datatype http_answer =
    Answered string
  | Refused int string
  | Unreachable string

type_synonym 'w http_exchange = "http_request \<Rightarrow> (http_answer, 'w) step"

record 'w client =
  cl_base_url :: string
  cl_agent_id :: string
  cl_exchange :: "'w http_exchange"
  cl_float_repr :: "string \<Rightarrow> string"

text \<open>The first text that is there and not empty: a chain of \<open>or\<close>.\<close>

fun first_text :: "string option list \<Rightarrow> string \<Rightarrow> string" where
  "first_text [] d = d"
| "first_text (x # xs) d =
     (case x of Some s \<Rightarrow> if s \<noteq> [] then s else first_text xs d | None \<Rightarrow> first_text xs d)"

definition new_client ::
  "'w http_exchange \<Rightarrow> (string \<Rightarrow> string) \<Rightarrow> (string \<Rightarrow> string option) \<Rightarrow> string option \<Rightarrow> string option \<Rightarrow> 'w client" where
  "new_client http fr vars base_url agent_id =
     \<lparr>cl_base_url = rstrip_slash (first_text [base_url, vars ''DELFTCLAW_GATEWAY_URL''] ''http://127.0.0.1:8765''),
      cl_agent_id = first_text [agent_id, vars ''DELFTCLAW_AGENT_ID''] ''local-openclaw-agent'',
      cl_exchange = http, cl_float_repr = fr\<rparr>"

text \<open>A refusal that is JSON but no object has no \<open>setdefault\<close>.\<close>

definition read_http_answer :: "(string \<Rightarrow> string) \<Rightarrow> http_answer \<Rightarrow> json res" where
  "read_http_answer fr ans = (case ans of
     Answered text \<Rightarrow> (case loads fr text of None \<Rightarrow> Inl JSONDecodeError | Some v \<Rightarrow> Inr v)
   | Refused code text \<Rightarrow>
       (case loads fr text of
          None \<Rightarrow> Inr (JObj [(''error'', JStr text), (''status'', JInt code)])
        | Some (JObj d) \<Rightarrow> Inr (JObj (set_default ''status'' (JInt code) d))
        | Some _ \<Rightarrow> Inl AttributeError)
   | Unreachable text \<Rightarrow> Inr (JObj [(''ok'', JBool False), (''error'', JStr text)]))"

definition open_request :: "'w client \<Rightarrow> http_request \<Rightarrow> (json, 'w) step" where
  "open_request c r = seq (cl_exchange c r) (\<lambda>ans. raising (read_http_answer (cl_float_repr c) ans))"

definition http_post :: "'w client \<Rightarrow> string \<Rightarrow> dict \<Rightarrow> (json, 'w) step" where
  "http_post c path payload =
     open_request c \<lparr>hr_method = ''POST'', hr_url = cl_base_url c @ path, hr_body = Some (dumps_default (JObj payload))\<rparr>"

definition http_get :: "'w client \<Rightarrow> string \<Rightarrow> (json, 'w) step" where
  "http_get c path = open_request c \<lparr>hr_method = ''GET'', hr_url = cl_base_url c @ path, hr_body = None\<rparr>"

section \<open>Tool calls\<close>

text \<open>The arguments are values of any type: the client checks none of them.\<close>

definition tool_request :: "'w client \<Rightarrow> string \<Rightarrow> dict \<Rightarrow> json \<Rightarrow> string \<Rightarrow> dict" where
  "tool_request c tool_name tool_kwargs payload_id source =
     [(''agent_id'', JStr (cl_agent_id c)), (''tool_name'', JStr tool_name), (''tool_kwargs'', JObj tool_kwargs),
      (''payload_id'', payload_id), (''source'', JStr source)]"

definition client_tool_call :: "'w client \<Rightarrow> string \<Rightarrow> dict \<Rightarrow> json \<Rightarrow> string \<Rightarrow> (json, 'w) step" where
  "client_tool_call c tool_name tool_kwargs payload_id source =
     http_post c ''/tool-call'' (tool_request c tool_name tool_kwargs payload_id source)"

definition openclaw_call :: "'w client \<Rightarrow> string \<Rightarrow> dict \<Rightarrow> json \<Rightarrow> (json, 'w) step" where
  "openclaw_call c tool_name tool_kwargs payload_id = client_tool_call c tool_name tool_kwargs payload_id ''openclaw''"

definition client_send_message :: "'w client \<Rightarrow> json \<Rightarrow> json \<Rightarrow> json \<Rightarrow> (json, 'w) step" where
  "client_send_message c recipient message payload_id =
     openclaw_call c ''send_message'' [(''recipient'', recipient), (''message'', message)] payload_id"

definition client_register_seedbox :: "'w client \<Rightarrow> json \<Rightarrow> json \<Rightarrow> json \<Rightarrow> json \<Rightarrow> json \<Rightarrow> (json, 'w) step" where
  "client_register_seedbox c seedbox_id donation_address capacity fake payload_id =
     openclaw_call c ''register_seedbox''
       [(''seedbox_id'', seedbox_id), (''donation_address'', donation_address),
        (''advertised_capacity_gb'', capacity), (''fake'', fake)] payload_id"

definition client_broadcast_seedbox_donation ::
  "'w client \<Rightarrow> json \<Rightarrow> json \<Rightarrow> json \<Rightarrow> json \<Rightarrow> json \<Rightarrow> json \<Rightarrow> json \<Rightarrow> (json, 'w) step" where
  "client_broadcast_seedbox_donation c seedbox_id amount txid stolen confirmations output_index payload_id =
     openclaw_call c ''broadcast_seedbox_donation''
       ([(''seedbox_id'', seedbox_id), (''amount_sats'', amount), (''stolen_from_honest_agent'', stolen),
         (''confirmations'', confirmations)] @
        (if truthy txid then [(''txid'', txid)] else []) @
        (if output_index \<noteq> JNull then [(''output_index'', output_index)] else [])) payload_id"

definition client_submit_seedbox_proof :: "'w client \<Rightarrow> json \<Rightarrow> json \<Rightarrow> json \<Rightarrow> json \<Rightarrow> json \<Rightarrow> (json, 'w) step" where
  "client_submit_seedbox_proof c seedbox_id storage_url nonce proof_id payload_id =
     openclaw_call c ''submit_seedbox_proof''
       ([(''seedbox_id'', seedbox_id), (''storage_url'', storage_url), (''nonce'', nonce)] @
        (if truthy proof_id then [(''proof_id'', proof_id)] else [])) payload_id"

definition client_submit_atomic_microtask ::
  "'w client \<Rightarrow> json \<Rightarrow> json \<Rightarrow> json \<Rightarrow> json \<Rightarrow> json \<Rightarrow> json \<Rightarrow> (json, 'w) step" where
  "client_submit_atomic_microtask c task_id seedbox_id file_hash result_hash task_type payload_id =
     openclaw_call c ''submit_atomic_microtask''
       [(''task_id'', task_id), (''seedbox_id'', seedbox_id), (''file_hash'', file_hash),
        (''result_hash'', result_hash), (''task_type'', task_type)] payload_id"

definition client_verify_atomic_microtask :: "'w client \<Rightarrow> json \<Rightarrow> json \<Rightarrow> json \<Rightarrow> (json, 'w) step" where
  "client_verify_atomic_microtask c task_id expected payload_id =
     openclaw_call c ''verify_atomic_microtask''
       [(''task_id'', task_id), (''expected_result_hash'', expected)] payload_id"

definition client_index_seedbox_file ::
  "'w client \<Rightarrow> json \<Rightarrow> json \<Rightarrow> json \<Rightarrow> json \<Rightarrow> json \<Rightarrow> json \<Rightarrow> json \<Rightarrow> json \<Rightarrow> json \<Rightarrow> (json, 'w) step" where
  "client_index_seedbox_file c file_id seedbox_id name content_url digest size_bytes media_type tags payload_id =
     openclaw_call c ''index_seedbox_file''
       [(''file_id'', file_id), (''seedbox_id'', seedbox_id), (''name'', name), (''content_url'', content_url),
        (''sha256'', digest), (''size_bytes'', size_bytes), (''media_type'', media_type),
        (''tags'', if truthy tags then tags else JList [])] payload_id"

definition client_list_seedbox_files :: "'w client \<Rightarrow> json \<Rightarrow> (json, 'w) step" where
  "client_list_seedbox_files c payload_id = openclaw_call c ''list_seedbox_files'' [] payload_id"

definition client_search_seedbox_files :: "'w client \<Rightarrow> json \<Rightarrow> json \<Rightarrow> (json, 'w) step" where
  "client_search_seedbox_files c query payload_id = openclaw_call c ''search_seedbox_files'' [(''query'', query)] payload_id"

definition client_pick_random_seedbox_file :: "'w client \<Rightarrow> json \<Rightarrow> json \<Rightarrow> (json, 'w) step" where
  "client_pick_random_seedbox_file c query payload_id =
     openclaw_call c ''pick_random_seedbox_file'' [(''query'', query)] payload_id"

section \<open>Other requests\<close>

definition client_report_security_event :: "'w client \<Rightarrow> json \<Rightarrow> json \<Rightarrow> json \<Rightarrow> json \<Rightarrow> (json, 'w) step" where
  "client_report_security_event c subject_id action details severity =
     http_post c ''/security-report''
       [(''agent_id'', JStr (cl_agent_id c)), (''subject_id'', subject_id), (''action'', action),
        (''details'', if truthy details then details else JObj []), (''severity'', severity)]"

definition client_audit_seedboxes :: "'w client \<Rightarrow> (json, 'w) step" where
  "client_audit_seedboxes c = http_post c ''/audit/seedboxes'' [(''agent_id'', JStr (cl_agent_id c))]"

definition client_metrics :: "'w client \<Rightarrow> (json, 'w) step" where
  "client_metrics c = http_get c ''/metrics''"

definition client_reputation :: "'w client \<Rightarrow> json \<Rightarrow> (json, 'w) step" where
  "client_reputation c agent_id =
     http_get c (''/reputation/'' @ (if truthy agent_id then py_str agent_id else cl_agent_id c))"

definition client_openclaw_status :: "'w client \<Rightarrow> (json, 'w) step" where
  "client_openclaw_status c = http_get c ''/openclaw/status''"

end
