(* ===== verification/Openclaw_Tools.thy ===== *)
theory Openclaw_Tools
  imports Gateway_Client Community_Store Tool_Specs
begin

text \<open>
  The tools OpenClaw is given (security/integration/openclaw_tools.py) with their signatures,
  the manifest that describes them, the tool server (mcp_server.py) and the command-line adapter
  (openclaw_tool_entrypoint.py).

  A tool is its parameters with their defaults and a body over the bound arguments, which are
  values of any type.  The tools of the claw community call methods of \<open>ClawCommunityService\<close>
  over the signed audit log; such a method is a parameter here, as is the plan of a SporeStack
  purchase.
\<close>

section \<open>Calling a function with keywords\<close>

type_synonym parameters = "(string \<times> json option) list"

record 'w tool_fn =
  tf_params :: parameters
  tf_run :: "dict \<Rightarrow> (json, 'w) step"

definition bind_call :: "parameters \<Rightarrow> dict \<Rightarrow> dict res" where
  "bind_call ps args =
     (if list_all (\<lambda>k. has_key args k) (sig_required ps) \<and> list_all (\<lambda>(k, v). k \<in> set (map fst ps)) args
      then Inr (map (\<lambda>(k, d). (k, case map_of args k of Some v \<Rightarrow> v | None \<Rightarrow> (case d of Some v \<Rightarrow> v | None \<Rightarrow> JNull))) ps)
      else Inl TypeError)"

definition call_fn :: "'w tool_fn \<Rightarrow> dict \<Rightarrow> (json, 'w) step" where
  "call_fn t args = seq (raising (bind_call (tf_params t) args)) (tf_run t)"

record 'w surroundings =
  oc_client :: "'w client"
  oc_service :: "string \<Rightarrow> dict \<Rightarrow> (json, 'w) step"
  oc_plan :: "dict \<Rightarrow> (json, 'w) step"
  oc_ftrunc :: "string \<Rightarrow> int option"
  oc_exn_text :: "pyexn \<Rightarrow> string"

section \<open>Tools of the gateway\<close>

definition delftclaw_send_message :: "'w surroundings \<Rightarrow> 'w tool_fn" where
  "delftclaw_send_message W = \<lparr>
     tf_params = [(''recipient'', None), (''message'', None), (''payload_id'', Some JNull)],
     tf_run = (\<lambda>d. client_send_message (oc_client W) (jget d ''recipient'') (jget d ''message'')
       (jget d ''payload_id''))\<rparr>"

definition delftclaw_register_seedbox :: "'w surroundings \<Rightarrow> 'w tool_fn" where
  "delftclaw_register_seedbox W = \<lparr>
     tf_params = [(''seedbox_id'', None), (''donation_address'', None), (''advertised_capacity_gb'', None),
                  (''fake'', Some (JBool False)), (''payload_id'', Some JNull)],
     tf_run = (\<lambda>d. client_register_seedbox (oc_client W) (jget d ''seedbox_id'')
       (jget d ''donation_address'') (jget d ''advertised_capacity_gb'') (jget d ''fake'')
       (jget d ''payload_id''))\<rparr>"

definition delftclaw_broadcast_seedbox_donation :: "'w surroundings \<Rightarrow> 'w tool_fn" where
  "delftclaw_broadcast_seedbox_donation W = \<lparr>
     tf_params = [(''seedbox_id'', None), (''amount_sats'', None), (''txid'', Some JNull),
                  (''stolen_from_honest_agent'', Some (JBool False)), (''confirmations'', Some (JInt 0)),
                  (''output_index'', Some JNull), (''payload_id'', Some JNull)],
     tf_run = (\<lambda>d. client_broadcast_seedbox_donation (oc_client W) (jget d ''seedbox_id'')
       (jget d ''amount_sats'') (jget d ''txid'') (jget d ''stolen_from_honest_agent'')
       (jget d ''confirmations'') (jget d ''output_index'') (jget d ''payload_id''))\<rparr>"

definition delftclaw_submit_seedbox_proof :: "'w surroundings \<Rightarrow> 'w tool_fn" where
  "delftclaw_submit_seedbox_proof W = \<lparr>
     tf_params = [(''seedbox_id'', None), (''storage_url'', None), (''nonce'', None),
                  (''proof_id'', Some JNull), (''payload_id'', Some JNull)],
     tf_run = (\<lambda>d. client_submit_seedbox_proof (oc_client W) (jget d ''seedbox_id'')
       (jget d ''storage_url'') (jget d ''nonce'') (jget d ''proof_id'') (jget d ''payload_id''))\<rparr>"

definition delftclaw_submit_atomic_microtask :: "'w surroundings \<Rightarrow> 'w tool_fn" where
  "delftclaw_submit_atomic_microtask W = \<lparr>
     tf_params = [(''task_id'', None), (''seedbox_id'', None), (''file_hash'', None), (''result_hash'', None),
                  (''task_type'', Some (JStr ''storage_check'')), (''payload_id'', Some JNull)],
     tf_run = (\<lambda>d. client_submit_atomic_microtask (oc_client W) (jget d ''task_id'')
       (jget d ''seedbox_id'') (jget d ''file_hash'') (jget d ''result_hash'') (jget d ''task_type'')
       (jget d ''payload_id''))\<rparr>"

definition delftclaw_verify_atomic_microtask :: "'w surroundings \<Rightarrow> 'w tool_fn" where
  "delftclaw_verify_atomic_microtask W = \<lparr>
     tf_params = [(''task_id'', None), (''expected_result_hash'', None), (''payload_id'', Some JNull)],
     tf_run = (\<lambda>d. client_verify_atomic_microtask (oc_client W) (jget d ''task_id'')
       (jget d ''expected_result_hash'') (jget d ''payload_id''))\<rparr>"

definition delftclaw_report_security_event :: "'w surroundings \<Rightarrow> 'w tool_fn" where
  "delftclaw_report_security_event W = \<lparr>
     tf_params = [(''subject_id'', None), (''action'', None), (''details'', Some JNull),
                  (''severity'', Some (JInt 10))],
     tf_run = (\<lambda>d. client_report_security_event (oc_client W) (jget d ''subject_id'') (jget d ''action'')
       (jget d ''details'') (jget d ''severity''))\<rparr>"

definition delftclaw_index_seedbox_file :: "'w surroundings \<Rightarrow> 'w tool_fn" where
  "delftclaw_index_seedbox_file W = \<lparr>
     tf_params = [(''file_id'', None), (''seedbox_id'', None), (''name'', None), (''content_url'', None),
                  (''sha256'', Some (JStr [])), (''size_bytes'', Some (JInt 0)),
                  (''media_type'', Some (JStr [])), (''tags'', Some JNull), (''payload_id'', Some JNull)],
     tf_run = (\<lambda>d. client_index_seedbox_file (oc_client W) (jget d ''file_id'') (jget d ''seedbox_id'')
       (jget d ''name'') (jget d ''content_url'') (jget d ''sha256'') (jget d ''size_bytes'')
       (jget d ''media_type'') (jget d ''tags'') (jget d ''payload_id''))\<rparr>"

definition delftclaw_list_files :: "'w surroundings \<Rightarrow> 'w tool_fn" where
  "delftclaw_list_files W = \<lparr>
     tf_params = [(''payload_id'', Some JNull)],
     tf_run = (\<lambda>d. client_list_seedbox_files (oc_client W) (jget d ''payload_id''))\<rparr>"

definition delftclaw_search_files :: "'w surroundings \<Rightarrow> 'w tool_fn" where
  "delftclaw_search_files W = \<lparr>
     tf_params = [(''query'', None), (''payload_id'', Some JNull)],
     tf_run = (\<lambda>d. client_search_seedbox_files (oc_client W) (jget d ''query'') (jget d ''payload_id''))\<rparr>"

definition delftclaw_pick_random_file :: "'w surroundings \<Rightarrow> 'w tool_fn" where
  "delftclaw_pick_random_file W = \<lparr>
     tf_params = [(''query'', Some (JStr [])), (''payload_id'', Some JNull)],
     tf_run = (\<lambda>d. client_pick_random_seedbox_file (oc_client W) (jget d ''query'')
       (jget d ''payload_id''))\<rparr>"

definition delftclaw_audit_seedboxes :: "'w surroundings \<Rightarrow> 'w tool_fn" where
  "delftclaw_audit_seedboxes W = \<lparr>
     tf_params = [],
     tf_run = (\<lambda>d. client_audit_seedboxes (oc_client W))\<rparr>"

definition delftclaw_get_metrics :: "'w surroundings \<Rightarrow> 'w tool_fn" where
  "delftclaw_get_metrics W = \<lparr>
     tf_params = [],
     tf_run = (\<lambda>d. client_metrics (oc_client W))\<rparr>"

definition delftclaw_get_reputation :: "'w surroundings \<Rightarrow> 'w tool_fn" where
  "delftclaw_get_reputation W = \<lparr>
     tf_params = [(''agent_id'', Some JNull)],
     tf_run = (\<lambda>d. client_reputation (oc_client W) (jget d ''agent_id''))\<rparr>"

definition delftclaw_get_openclaw_status :: "'w surroundings \<Rightarrow> 'w tool_fn" where
  "delftclaw_get_openclaw_status W = \<lparr>
     tf_params = [],
     tf_run = (\<lambda>d. client_openclaw_status (oc_client W))\<rparr>"

text \<open>The probe asks for a tool the gateway must not run.\<close>

definition delftclaw_run_blocking_probe :: "'w surroundings \<Rightarrow> 'w tool_fn" where
  "delftclaw_run_blocking_probe W = \<lparr>
     tf_params = [(''payload'', Some (JStr ''attempt to exfiltrate private key'')),
                  (''payload_id'', Some (JStr ''openclaw-blocking-probe''))],
     tf_run = (\<lambda>d. client_tool_call (oc_client W) ''exfiltrate_private_key'' [(''payload'', jget d ''payload'')]
       (jget d ''payload_id'') ''openclaw-blocking-probe'')\<rparr>"

section \<open>Tools of the claw community\<close>

definition delftclaw_create_community :: "'w surroundings \<Rightarrow> 'w tool_fn" where
  "delftclaw_create_community W = \<lparr>
     tf_params = [(''community_id'', None), (''founder_agent_id'', None), (''founder_wallet_address'', None),
                  (''initial_funding_sats'', None), (''join_fee_sats'', None),
                  (''seedbox_capacity_agents'', Some (JInt 3)),
                  (''seedbox_purchase_threshold_sats'', Some (JInt 3000))],
     tf_run = oc_service W ''create_community''\<rparr>"

definition delftclaw_fund_community_treasury :: "'w surroundings \<Rightarrow> 'w tool_fn" where
  "delftclaw_fund_community_treasury W = \<lparr>
     tf_params = [(''community_id'', None), (''agent_id'', None), (''wallet_address'', None),
                  (''amount_sats'', None), (''txid'', Some JNull)],
     tf_run = oc_service W ''fund_treasury''\<rparr>"

definition delftclaw_join_community :: "'w surroundings \<Rightarrow> 'w tool_fn" where
  "delftclaw_join_community W = \<lparr>
     tf_params = [(''community_id'', None), (''agent_id'', None), (''wallet_address'', None),
                  (''amount_sats'', None), (''txid'', Some JNull)],
     tf_run = oc_service W ''join_community''\<rparr>"

definition delftclaw_find_community_file :: "'w surroundings \<Rightarrow> 'w tool_fn" where
  "delftclaw_find_community_file W = \<lparr>
     tf_params = [(''community_id'', None), (''requester_agent_id'', None), (''query'', None)],
     tf_run = oc_service W ''find_file''\<rparr>"

definition delftclaw_retrieve_community_file :: "'w surroundings \<Rightarrow> 'w tool_fn" where
  "delftclaw_retrieve_community_file W = \<lparr>
     tf_params = [(''community_id'', None), (''requester_agent_id'', None), (''file_id'', None)],
     tf_run = oc_service W ''retrieve_file''\<rparr>"

definition delftclaw_get_community_status :: "'w surroundings \<Rightarrow> 'w tool_fn" where
  "delftclaw_get_community_status W = \<lparr>
     tf_params = [(''community_id'', None)],
     tf_run = oc_service W ''get_status''\<rparr>"

definition delftclaw_plan_sporestack_seedbox_purchase :: "'w surroundings \<Rightarrow> 'w tool_fn" where
  "delftclaw_plan_sporestack_seedbox_purchase W = \<lparr>
     tf_params = [(''flavor'', Some (JStr ''vps-1vcpu-1gb'')), (''provider'', Some (JStr ''digitalocean'')),
                  (''days'', Some (JInt 30)), (''dollars'', Some (JInt 10)), (''token'', Some JNull)],
     tf_run = oc_plan W\<rparr>"

text \<open>A purchase is announced to the gateway; its replies are handed on whatever they say.\<close>

definition announce_seedbox :: "'w surroundings \<Rightarrow> json \<Rightarrow> json \<Rightarrow> (json, 'w) step" where
  "announce_seedbox W capacity v =
     seq (raising (item_of v ''seedbox'')) (\<lambda>box.
     seq (raising (item_of v ''community'')) (\<lambda>community.
     seq (raising (item_of box ''seedbox_id'')) (\<lambda>seedbox_id.
     seq (raising (bindr (item_of community ''treasury'') (\<lambda>t. item_of t ''wallet_address''))) (\<lambda>address.
     seq (call_fn (delftclaw_register_seedbox W)
            [(''seedbox_id'', seedbox_id), (''donation_address'', address), (''advertised_capacity_gb'', capacity)]) (\<lambda>registration.
     seq (raising (item_of box ''content_dir'')) (\<lambda>content_dir.
     seq (raising (item_of box ''machine_id'')) (\<lambda>machine_id.
     seq (call_fn (delftclaw_submit_seedbox_proof W)
            [(''seedbox_id'', seedbox_id), (''storage_url'', content_dir),
             (''nonce'', JStr (''proof-'' @ py_str machine_id))]) (\<lambda>proof.
     ret (JObj (merge_dict (as_dict v) [(''gateway_registration'', registration), (''gateway_proof'', proof)]))))))))))"

definition delftclaw_buy_community_seedbox :: "'w surroundings \<Rightarrow> 'w tool_fn" where
  "delftclaw_buy_community_seedbox W = \<lparr>
     tf_params = [(''community_id'', None), (''actor_id'', None), (''provider'', Some (JStr ''local'')),
                  (''hostname'', Some JNull), (''capacity_gb'', Some (JInt 100)), (''cost_sats'', Some JNull)],
     tf_run = (\<lambda>d. seq (oc_service W ''buy_seedbox'' d) (announce_seedbox W (jget d ''capacity_gb'')))\<rparr>"

text \<open>\<open>list(v)\<close>; the indexing of one file of an imported catalog.\<close>

definition list_value :: "json \<Rightarrow> json list res" where
  "list_value v = (case v of
     JList vs \<Rightarrow> Inr vs
   | JStr s \<Rightarrow> Inr (map (\<lambda>c. JStr [c]) s)
   | JObj d \<Rightarrow> Inr (map (\<lambda>(k, _). JStr k) d)
   | _ \<Rightarrow> Inl TypeError)"

definition index_catalog_file :: "'w surroundings \<Rightarrow> json \<Rightarrow> (json, 'w) step" where
  "index_catalog_file W v =
     seq (raising (item_of v ''file_id'')) (\<lambda>file_id.
     seq (raising (item_of v ''seedbox_id'')) (\<lambda>seedbox_id.
     seq (raising (item_of v ''name'')) (\<lambda>name.
     seq (raising (item_of v ''content_url'')) (\<lambda>content_url.
     seq (raising (to_int (oc_ftrunc W) (get_or (as_dict v) ''size_bytes'' (JInt 0)))) (\<lambda>size.
     seq (raising (list_value (get_or (as_dict v) ''tags'' (JList [])))) (\<lambda>tags.
     call_fn (delftclaw_index_seedbox_file W)
       [(''file_id'', file_id), (''seedbox_id'', seedbox_id), (''name'', name), (''content_url'', content_url),
        (''sha256'', get_or (as_dict v) ''sha256'' (JStr [])), (''size_bytes'', JInt size), (''tags'', JList tags)]))))))"

fun index_catalog :: "'w surroundings \<Rightarrow> dict \<Rightarrow> (json list, 'w) step" where
  "index_catalog W [] = ret []"
| "index_catalog W (f # fs) =
     seq (index_catalog_file W (snd f)) (\<lambda>r. seq (index_catalog W fs) (\<lambda>rs. ret (r # rs)))"

definition mirror_catalog :: "'w surroundings \<Rightarrow> json \<Rightarrow> (json, 'w) step" where
  "mirror_catalog W v =
     seq (raising (bindr (item_of v ''community'') (\<lambda>c. item_of c ''files''))) (\<lambda>files.
     case files of
       JObj fs \<Rightarrow> seq (index_catalog W fs) (\<lambda>rs.
         ret (JObj (merge_dict (as_dict v) [(''gateway_index_results'', JList rs)])))
     | _ \<Rightarrow> raise AttributeError)"

definition delftclaw_import_community_file_catalog :: "'w surroundings \<Rightarrow> 'w tool_fn" where
  "delftclaw_import_community_file_catalog W = \<lparr>
     tf_params = [(''community_id'', None), (''csv_path'', None)],
     tf_run = (\<lambda>d. seq (oc_service W ''import_file_catalog'' d) (mirror_catalog W))\<rparr>"

section \<open>The registry\<close>

definition tool_registry :: "'w surroundings \<Rightarrow> (string \<times> 'w tool_fn) list" where
  "tool_registry W =
     [(''delftclaw_send_message'', delftclaw_send_message W),
      (''delftclaw_register_seedbox'', delftclaw_register_seedbox W),
      (''delftclaw_broadcast_seedbox_donation'', delftclaw_broadcast_seedbox_donation W),
      (''delftclaw_submit_seedbox_proof'', delftclaw_submit_seedbox_proof W),
      (''delftclaw_submit_atomic_microtask'', delftclaw_submit_atomic_microtask W),
      (''delftclaw_verify_atomic_microtask'', delftclaw_verify_atomic_microtask W),
      (''delftclaw_report_security_event'', delftclaw_report_security_event W),
      (''delftclaw_index_seedbox_file'', delftclaw_index_seedbox_file W),
      (''delftclaw_list_files'', delftclaw_list_files W),
      (''delftclaw_search_files'', delftclaw_search_files W),
      (''delftclaw_pick_random_file'', delftclaw_pick_random_file W),
      (''delftclaw_audit_seedboxes'', delftclaw_audit_seedboxes W),
      (''delftclaw_get_metrics'', delftclaw_get_metrics W),
      (''delftclaw_get_reputation'', delftclaw_get_reputation W),
      (''delftclaw_get_openclaw_status'', delftclaw_get_openclaw_status W),
      (''delftclaw_plan_sporestack_seedbox_purchase'', delftclaw_plan_sporestack_seedbox_purchase W),
      (''delftclaw_create_community'', delftclaw_create_community W),
      (''delftclaw_fund_community_treasury'', delftclaw_fund_community_treasury W),
      (''delftclaw_buy_community_seedbox'', delftclaw_buy_community_seedbox W),
      (''delftclaw_join_community'', delftclaw_join_community W),
      (''delftclaw_import_community_file_catalog'', delftclaw_import_community_file_catalog W),
      (''delftclaw_find_community_file'', delftclaw_find_community_file W),
      (''delftclaw_retrieve_community_file'', delftclaw_retrieve_community_file W),
      (''delftclaw_get_community_status'', delftclaw_get_community_status W)]"

definition experiment_registry :: "'w surroundings \<Rightarrow> (string \<times> 'w tool_fn) list" where
  "experiment_registry W = [(''delftclaw_run_blocking_probe'', delftclaw_run_blocking_probe W)]"

definition offered_tools :: "'w surroundings \<Rightarrow> bool \<Rightarrow> (string \<times> 'w tool_fn) list" where
  "offered_tools W experiments = tool_registry W @ (if experiments then experiment_registry W else [])"

section \<open>The tool server and the adapter\<close>

definition server_error :: "string \<Rightarrow> json" where
  "server_error text = JObj [(''ok'', JBool False), (''error'', JStr text)]"

definition server_reply :: "'w surroundings \<Rightarrow> string \<Rightarrow> json res \<times> 'w \<Rightarrow> json \<times> 'w" where
  "server_reply W name out = (case out of
     (Inr v, w) \<Rightarrow> (v, w)
   | (Inl TypeError, w) \<Rightarrow> (server_error (''invalid arguments for '' @ name @ '': '' @ oc_exn_text W TypeError), w)
   | (Inl x, w) \<Rightarrow> (server_error (oc_exn_text W x), w))"

definition server_call_tool :: "'w surroundings \<Rightarrow> bool \<Rightarrow> string \<Rightarrow> dict \<Rightarrow> 'w \<Rightarrow> json \<times> 'w" where
  "server_call_tool W experiments name args w = (case map_of (offered_tools W experiments) name of
     None \<Rightarrow> (server_error (''unknown tool: '' @ name), w)
   | Some t \<Rightarrow> server_reply W name (call_fn t args w))"

text \<open>The adapter catches a wrong call only; other exceptions leave it.\<close>

definition entry_call_tool :: "'w surroundings \<Rightarrow> bool \<Rightarrow> string \<Rightarrow> dict \<Rightarrow> (json, 'w) step" where
  "entry_call_tool W experiments name args w = (case map_of (offered_tools W experiments) name of
     None \<Rightarrow>
       (Inr (JObj [(''ok'', JBool False), (''error'', JStr (''unknown DelftClaw tool: '' @ name)),
                   (''available_tools'', JList (map JStr (sort (map fst (offered_tools W experiments)))))]), w)
   | Some t \<Rightarrow>
       (case call_fn t args w of
          (Inr v, w') \<Rightarrow> (Inr v, w')
        | (Inl TypeError, w') \<Rightarrow>
            (Inr (JObj [(''ok'', JBool False),
               (''error'', JStr (''invalid arguments for '' @ name @ '': '' @ oc_exn_text W TypeError)),
               (''tool'', JStr name)]), w')
        | (Inl x, w') \<Rightarrow> (Inl x, w')))"

section \<open>The manifest\<close>

text \<open>
  The tool manifest (\<open>tool_manifest\<close> in security/integration/openclaw_tools.py): for every tool its
  description and the schema of its parameters, written down apart from the functions.
\<close>

record openclaw_tool_spec =
  om_name :: string
  om_description :: string
  om_parameters :: json
  om_category :: string

definition manifest_send_message :: openclaw_tool_spec where
  "manifest_send_message =
     \<lparr>om_name = ''delftclaw_send_message'',
      om_description = ''Send a permitted message through the DelftClaw gateway.'',
      om_parameters = JObj [(''type'', JStr ''object''), (''required'', JList [JStr ''recipient'', JStr ''message'']),
        (''properties'', JObj [(''recipient'', JObj [(''type'', JStr ''string'')]),
        (''message'', JObj [(''type'', JStr ''string'')]),
        (''payload_id'', JObj [(''type'', JStr ''string'')])])],
      om_category = ''delftclaw''\<rparr>"

definition manifest_register_seedbox :: openclaw_tool_spec where
  "manifest_register_seedbox =
     \<lparr>om_name = ''delftclaw_register_seedbox'',
      om_description = ''Register a seedbox candidate for accountability experiments.'',
      om_parameters = JObj [(''type'', JStr ''object''),
        (''required'', JList [JStr ''seedbox_id'', JStr ''donation_address'', JStr ''advertised_capacity_gb'']),
        (''properties'', JObj [(''seedbox_id'', JObj [(''type'', JStr ''string'')]),
        (''donation_address'', JObj [(''type'', JStr ''string'')]),
        (''advertised_capacity_gb'', JObj [(''type'', JStr ''integer''), (''minimum'', JInt 1)]),
        (''fake'', JObj [(''type'', JStr ''boolean''), (''default'', JBool False)]),
        (''payload_id'', JObj [(''type'', JStr ''string'')])])],
      om_category = ''delftclaw''\<rparr>"

definition manifest_broadcast_seedbox_donation :: openclaw_tool_spec where
  "manifest_broadcast_seedbox_donation =
     \<lparr>om_name = ''delftclaw_broadcast_seedbox_donation'',
      om_description = ''Record a seedbox donation broadcast and reputation evidence.'',
      om_parameters = JObj [(''type'', JStr ''object''), (''required'', JList [JStr ''seedbox_id'', JStr ''amount_sats'']),
        (''properties'', JObj [(''seedbox_id'', JObj [(''type'', JStr ''string'')]),
        (''amount_sats'', JObj [(''type'', JStr ''integer''), (''minimum'', JInt 1)]),
        (''txid'', JObj [(''type'', JStr ''string'')]), (''confirmations'', JObj [(''type'', JStr ''integer''),
        (''minimum'', JInt 0), (''default'', JInt 0)]), (''output_index'', JObj [(''type'', JStr ''integer''),
        (''minimum'', JInt 0)]), (''stolen_from_honest_agent'', JObj [(''type'', JStr ''boolean''),
        (''default'', JBool False)]), (''payload_id'', JObj [(''type'', JStr ''string'')])])],
      om_category = ''delftclaw''\<rparr>"

definition manifest_submit_seedbox_proof :: openclaw_tool_spec where
  "manifest_submit_seedbox_proof =
     \<lparr>om_name = ''delftclaw_submit_seedbox_proof'',
      om_description = ''Submit proof that a seedbox provides service after receiving donations.'',
      om_parameters = JObj [(''type'', JStr ''object''),
        (''required'', JList [JStr ''seedbox_id'', JStr ''storage_url'', JStr ''nonce'']),
        (''properties'', JObj [(''seedbox_id'', JObj [(''type'', JStr ''string'')]),
        (''storage_url'', JObj [(''type'', JStr ''string'')]), (''nonce'', JObj [(''type'', JStr ''string'')]),
        (''proof_id'', JObj [(''type'', JStr ''string'')]),
        (''payload_id'', JObj [(''type'', JStr ''string'')])])],
      om_category = ''delftclaw''\<rparr>"

definition manifest_submit_atomic_microtask :: openclaw_tool_spec where
  "manifest_submit_atomic_microtask =
     \<lparr>om_name = ''delftclaw_submit_atomic_microtask'',
      om_description = ''Submit one atomic seedbox task result for trustworthy-estimation evidence.'',
      om_parameters = JObj [(''type'', JStr ''object''),
        (''required'', JList [JStr ''task_id'', JStr ''seedbox_id'', JStr ''file_hash'', JStr ''result_hash'']),
        (''properties'', JObj [(''task_id'', JObj [(''type'', JStr ''string'')]),
        (''seedbox_id'', JObj [(''type'', JStr ''string'')]),
        (''file_hash'', JObj [(''type'', JStr ''string'')]),
        (''result_hash'', JObj [(''type'', JStr ''string'')]),
        (''task_type'', JObj [(''type'', JStr ''string''), (''default'', JStr ''storage_check'')]),
        (''payload_id'', JObj [(''type'', JStr ''string'')])])],
      om_category = ''delftclaw''\<rparr>"

definition manifest_verify_atomic_microtask :: openclaw_tool_spec where
  "manifest_verify_atomic_microtask =
     \<lparr>om_name = ''delftclaw_verify_atomic_microtask'',
      om_description = ''Verify an atomic seedbox task result against an expected hash.'',
      om_parameters = JObj [(''type'', JStr ''object''),
        (''required'', JList [JStr ''task_id'', JStr ''expected_result_hash'']),
        (''properties'', JObj [(''task_id'', JObj [(''type'', JStr ''string'')]),
        (''expected_result_hash'', JObj [(''type'', JStr ''string'')]),
        (''payload_id'', JObj [(''type'', JStr ''string'')])])],
      om_category = ''delftclaw''\<rparr>"

definition manifest_report_security_event :: openclaw_tool_spec where
  "manifest_report_security_event =
     \<lparr>om_name = ''delftclaw_report_security_event'',
      om_description = ''Submit manual security evidence for a subject agent.'',
      om_parameters = JObj [(''type'', JStr ''object''), (''required'', JList [JStr ''subject_id'', JStr ''action'']),
        (''properties'', JObj [(''subject_id'', JObj [(''type'', JStr ''string'')]),
        (''action'', JObj [(''type'', JStr ''string'')]), (''details'', JObj [(''type'', JStr ''object'')]),
        (''severity'', JObj [(''type'', JStr ''integer''), (''default'', JInt 10)])])],
      om_category = ''delftclaw''\<rparr>"

definition manifest_index_seedbox_file :: openclaw_tool_spec where
  "manifest_index_seedbox_file =
     \<lparr>om_name = ''delftclaw_index_seedbox_file'',
      om_description = ''Add a seedbox-hosted file to the Claw Network searchable content index.'',
      om_parameters = JObj [(''type'', JStr ''object''),
        (''required'', JList [JStr ''file_id'', JStr ''seedbox_id'', JStr ''name'', JStr ''content_url'']),
        (''properties'', JObj [(''file_id'', JObj [(''type'', JStr ''string'')]),
        (''seedbox_id'', JObj [(''type'', JStr ''string'')]), (''name'', JObj [(''type'', JStr ''string'')]),
        (''content_url'', JObj [(''type'', JStr ''string'')]),
        (''sha256'', JObj [(''type'', JStr ''string'')]), (''size_bytes'', JObj [(''type'', JStr ''integer''),
        (''minimum'', JInt 0)]), (''media_type'', JObj [(''type'', JStr ''string'')]),
        (''tags'', JObj [(''type'', JStr ''array''), (''items'', JObj [(''type'', JStr ''string'')])]),
        (''payload_id'', JObj [(''type'', JStr ''string'')])])],
      om_category = ''delftclaw''\<rparr>"

definition manifest_list_files :: openclaw_tool_spec where
  "manifest_list_files =
     \<lparr>om_name = ''delftclaw_list_files'',
      om_description = ''Answer: what files are stored on our Claw Network?'',
      om_parameters = JObj [(''type'', JStr ''object''),
        (''properties'', JObj [(''payload_id'', JObj [(''type'', JStr ''string'')])])],
      om_category = ''delftclaw''\<rparr>"

definition manifest_search_files :: openclaw_tool_spec where
  "manifest_search_files =
     \<lparr>om_name = ''delftclaw_search_files'',
      om_description = ''Answer: what Claw Network files contain a given search term?'',
      om_parameters = JObj [(''type'', JStr ''object''), (''required'', JList [JStr ''query'']),
        (''properties'', JObj [(''query'', JObj [(''type'', JStr ''string'')]),
        (''payload_id'', JObj [(''type'', JStr ''string'')])])],
      om_category = ''delftclaw''\<rparr>"

definition manifest_pick_random_file :: openclaw_tool_spec where
  "manifest_pick_random_file =
     \<lparr>om_name = ''delftclaw_pick_random_file'',
      om_description = ''Find a random matching Claw Network file and return a playback intent.'',
      om_parameters = JObj [(''type'', JStr ''object''),
        (''properties'', JObj [(''query'', JObj [(''type'', JStr ''string'')]),
        (''payload_id'', JObj [(''type'', JStr ''string'')])])],
      om_category = ''delftclaw''\<rparr>"

definition manifest_audit_seedboxes :: openclaw_tool_spec where
  "manifest_audit_seedboxes =
     \<lparr>om_name = ''delftclaw_audit_seedboxes'',
      om_description = ''Audit seedboxes for donations without proof of service.'',
      om_parameters = JObj [(''type'', JStr ''object''), (''properties'', JObj [])],
      om_category = ''delftclaw''\<rparr>"

definition manifest_get_metrics :: openclaw_tool_spec where
  "manifest_get_metrics =
     \<lparr>om_name = ''delftclaw_get_metrics'',
      om_description = ''Read DelftClaw gateway metrics, scores, and log-integrity status.'',
      om_parameters = JObj [(''type'', JStr ''object''), (''properties'', JObj [])],
      om_category = ''delftclaw''\<rparr>"

definition manifest_get_reputation :: openclaw_tool_spec where
  "manifest_get_reputation =
     \<lparr>om_name = ''delftclaw_get_reputation'',
      om_description = ''Read the reputation score and ban state for an agent.'',
      om_parameters = JObj [(''type'', JStr ''object''),
        (''properties'', JObj [(''agent_id'', JObj [(''type'', JStr ''string'')])])],
      om_category = ''delftclaw''\<rparr>"

definition manifest_get_openclaw_status :: openclaw_tool_spec where
  "manifest_get_openclaw_status =
     \<lparr>om_name = ''delftclaw_get_openclaw_status'',
      om_description = ''Read the optional DelftClaw/OpenClaw bridge identity and P2P status.'',
      om_parameters = JObj [(''type'', JStr ''object''), (''properties'', JObj [])],
      om_category = ''delftclaw''\<rparr>"

definition manifest_plan_sporestack_seedbox_purchase :: openclaw_tool_spec where
  "manifest_plan_sporestack_seedbox_purchase =
     \<lparr>om_name = ''delftclaw_plan_sporestack_seedbox_purchase'',
      om_description = ''Plan real SporeStack quote, invoice, and launch API calls in dry-run mode.'',
      om_parameters = JObj [(''type'', JStr ''object''),
        (''properties'', JObj [(''flavor'', JObj [(''type'', JStr ''string''),
        (''default'', JStr ''vps-1vcpu-1gb'')]), (''provider'', JObj [(''type'', JStr ''string''),
        (''default'', JStr ''digitalocean'')]), (''days'', JObj [(''type'', JStr ''integer''),
        (''default'', JInt 30), (''minimum'', JInt 1)]), (''dollars'', JObj [(''type'', JStr ''integer''),
        (''default'', JInt 10), (''minimum'', JInt 1)]), (''token'', JObj [(''type'', JStr ''string'')])])],
      om_category = ''delftclaw''\<rparr>"

definition manifest_create_community :: openclaw_tool_spec where
  "manifest_create_community =
     \<lparr>om_name = ''delftclaw_create_community'',
      om_description = ''Create a Claw community with a mocked treasury and signed audit event.'',
      om_parameters = JObj [(''type'', JStr ''object''),
        (''required'', JList [JStr ''community_id'', JStr ''founder_agent_id'', JStr ''founder_wallet_address'', JStr ''initial_funding_sats'', JStr ''join_fee_sats'']),
        (''properties'', JObj [(''community_id'', JObj [(''type'', JStr ''string'')]),
        (''founder_agent_id'', JObj [(''type'', JStr ''string'')]),
        (''founder_wallet_address'', JObj [(''type'', JStr ''string'')]),
        (''initial_funding_sats'', JObj [(''type'', JStr ''integer''), (''minimum'', JInt 0)]),
        (''join_fee_sats'', JObj [(''type'', JStr ''integer''), (''minimum'', JInt 1)]),
        (''seedbox_capacity_agents'', JObj [(''type'', JStr ''integer''), (''default'', JInt 3),
        (''minimum'', JInt 1)]), (''seedbox_purchase_threshold_sats'', JObj [(''type'', JStr ''integer''),
        (''default'', JInt 3000), (''minimum'', JInt 1)])])],
      om_category = ''delftclaw''\<rparr>"

definition manifest_fund_community_treasury :: openclaw_tool_spec where
  "manifest_fund_community_treasury =
     \<lparr>om_name = ''delftclaw_fund_community_treasury'',
      om_description = ''Record a mocked community treasury donation.'',
      om_parameters = JObj [(''type'', JStr ''object''),
        (''required'', JList [JStr ''community_id'', JStr ''agent_id'', JStr ''wallet_address'', JStr ''amount_sats'']),
        (''properties'', JObj [(''community_id'', JObj [(''type'', JStr ''string'')]),
        (''agent_id'', JObj [(''type'', JStr ''string'')]),
        (''wallet_address'', JObj [(''type'', JStr ''string'')]),
        (''amount_sats'', JObj [(''type'', JStr ''integer''), (''minimum'', JInt 1)]),
        (''txid'', JObj [(''type'', JStr ''string'')])])],
      om_category = ''delftclaw''\<rparr>"

definition manifest_buy_community_seedbox :: openclaw_tool_spec where
  "manifest_buy_community_seedbox =
     \<lparr>om_name = ''delftclaw_buy_community_seedbox'',
      om_description = ''Buy/register a mock or local seedbox for a Claw community.'',
      om_parameters = JObj [(''type'', JStr ''object''), (''required'', JList [JStr ''community_id'', JStr ''actor_id'']),
        (''properties'', JObj [(''community_id'', JObj [(''type'', JStr ''string'')]),
        (''actor_id'', JObj [(''type'', JStr ''string'')]), (''provider'', JObj [(''type'', JStr ''string''),
        (''default'', JStr ''local'')]), (''hostname'', JObj [(''type'', JStr ''string'')]),
        (''capacity_gb'', JObj [(''type'', JStr ''integer''), (''default'', JInt 100), (''minimum'', JInt 1)]),
        (''cost_sats'', JObj [(''type'', JStr ''integer''), (''minimum'', JInt 0)])])],
      om_category = ''delftclaw''\<rparr>"

definition manifest_join_community :: openclaw_tool_spec where
  "manifest_join_community =
     \<lparr>om_name = ''delftclaw_join_community'',
      om_description = ''Join a Claw community by recording a verification donation.'',
      om_parameters = JObj [(''type'', JStr ''object''),
        (''required'', JList [JStr ''community_id'', JStr ''agent_id'', JStr ''wallet_address'', JStr ''amount_sats'']),
        (''properties'', JObj [(''community_id'', JObj [(''type'', JStr ''string'')]),
        (''agent_id'', JObj [(''type'', JStr ''string'')]),
        (''wallet_address'', JObj [(''type'', JStr ''string'')]),
        (''amount_sats'', JObj [(''type'', JStr ''integer''), (''minimum'', JInt 1)]),
        (''txid'', JObj [(''type'', JStr ''string'')])])],
      om_category = ''delftclaw''\<rparr>"

definition manifest_import_community_file_catalog :: openclaw_tool_spec where
  "manifest_import_community_file_catalog =
     \<lparr>om_name = ''delftclaw_import_community_file_catalog'',
      om_description = ''Import a CSV-backed Claw community file catalog.'',
      om_parameters = JObj [(''type'', JStr ''object''), (''required'', JList [JStr ''community_id'', JStr ''csv_path'']),
        (''properties'', JObj [(''community_id'', JObj [(''type'', JStr ''string'')]),
        (''csv_path'', JObj [(''type'', JStr ''string'')])])],
      om_category = ''delftclaw''\<rparr>"

definition manifest_find_community_file :: openclaw_tool_spec where
  "manifest_find_community_file =
     \<lparr>om_name = ''delftclaw_find_community_file'',
      om_description = ''Find a file in a Claw community catalog and communication placeholder.'',
      om_parameters = JObj [(''type'', JStr ''object''),
        (''required'', JList [JStr ''community_id'', JStr ''requester_agent_id'', JStr ''query'']),
        (''properties'', JObj [(''community_id'', JObj [(''type'', JStr ''string'')]),
        (''requester_agent_id'', JObj [(''type'', JStr ''string'')]),
        (''query'', JObj [(''type'', JStr ''string'')])])],
      om_category = ''delftclaw''\<rparr>"

definition manifest_retrieve_community_file :: openclaw_tool_spec where
  "manifest_retrieve_community_file =
     \<lparr>om_name = ''delftclaw_retrieve_community_file'',
      om_description = ''Retrieve/verify a file from Claw community metadata.'',
      om_parameters = JObj [(''type'', JStr ''object''),
        (''required'', JList [JStr ''community_id'', JStr ''requester_agent_id'', JStr ''file_id'']),
        (''properties'', JObj [(''community_id'', JObj [(''type'', JStr ''string'')]),
        (''requester_agent_id'', JObj [(''type'', JStr ''string'')]),
        (''file_id'', JObj [(''type'', JStr ''string'')])])],
      om_category = ''delftclaw''\<rparr>"

definition manifest_get_community_status :: openclaw_tool_spec where
  "manifest_get_community_status =
     \<lparr>om_name = ''delftclaw_get_community_status'',
      om_description = ''Read Claw community state for the demo.'',
      om_parameters = JObj [(''type'', JStr ''object''), (''required'', JList [JStr ''community_id'']),
        (''properties'', JObj [(''community_id'', JObj [(''type'', JStr ''string'')])])],
      om_category = ''delftclaw''\<rparr>"

definition manifest_run_blocking_probe :: openclaw_tool_spec where
  "manifest_run_blocking_probe =
     \<lparr>om_name = ''delftclaw_run_blocking_probe'',
      om_description = ''Experiment-only probe that should be blocked by DelftClaw Hands.'',
      om_parameters = JObj [(''type'', JStr ''object''),
        (''properties'', JObj [(''payload'', JObj [(''type'', JStr ''string''),
        (''default'', JStr ''attempt to exfiltrate private key'')]),
        (''payload_id'', JObj [(''type'', JStr ''string''), (''default'', JStr ''openclaw-blocking-probe'')])])],
      om_category = ''delftclaw_experiment_only''\<rparr>"

definition openclaw_specs :: "bool \<Rightarrow> openclaw_tool_spec list" where
  "openclaw_specs experiments =
     [manifest_send_message, manifest_register_seedbox, manifest_broadcast_seedbox_donation,
      manifest_submit_seedbox_proof, manifest_submit_atomic_microtask,
      manifest_verify_atomic_microtask, manifest_report_security_event, manifest_index_seedbox_file,
      manifest_list_files, manifest_search_files, manifest_pick_random_file, manifest_audit_seedboxes,
      manifest_get_metrics, manifest_get_reputation, manifest_get_openclaw_status,
      manifest_plan_sporestack_seedbox_purchase, manifest_create_community,
      manifest_fund_community_treasury, manifest_buy_community_seedbox, manifest_join_community,
      manifest_import_community_file_catalog, manifest_find_community_file,
      manifest_retrieve_community_file, manifest_get_community_status] @
     (if experiments then [manifest_run_blocking_probe] else [])"

definition spec_dict :: "openclaw_tool_spec \<Rightarrow> json" where
  "spec_dict s = JObj
     [(''name'', JStr (om_name s)), (''description'', JStr (om_description s)),
      (''parameters'', om_parameters s), (''category'', JStr (om_category s))]"

definition tool_manifest :: "bool \<Rightarrow> json list" where
  "tool_manifest experiments = map spec_dict (openclaw_specs experiments)"

definition server_manifest :: "bool \<Rightarrow> json" where
  "server_manifest experiments = JObj
     [(''server'', JStr ''delftclaw-security''),
      (''tools'', JList (map (\<lambda>s. jget (as_dict s) ''name'') (tool_manifest experiments)))]"

end
