(* ===== verification/Openclaw_Tools_Spec.thy ===== *)
theory Openclaw_Tools_Spec
  imports Openclaw_Tools Gateway_Spec Hash_Chain
begin

text \<open>
  The tools of OpenClaw over the gateway: the client is transparent, its tools take exactly the
  arguments the manifest describes, and a tool the gateway does not list never runs.
\<close>

section \<open>A service that answers JSON\<close>

definition post_request :: "string \<Rightarrow> string \<Rightarrow> dict \<Rightarrow> http_request" where
  "post_request base route payload =
     \<lparr>hr_method = ''POST'', hr_url = base @ route, hr_body = Some (dumps_default (JObj payload))\<rparr>"

definition uses :: "'w http_exchange \<Rightarrow> string \<Rightarrow> (string \<Rightarrow> string) \<Rightarrow> 'w client \<Rightarrow> bool" where
  "uses http base rp c = (cl_exchange c = http \<and> cl_base_url c = base \<and> cl_float_repr c = rp)"

text \<open>
  What the client relies on: on the routes of the service, a reply of the handler arrives with
  its keys sorted, and the connection of a handler that raises is dropped.
\<close>

locale json_service =
  fixes http :: "'w http_exchange" and base :: string and rp :: "string \<Rightarrow> string"
    and handler :: "string \<Rightarrow> dict \<Rightarrow> (json, 'w) step" and routes :: "string set"
  assumes answered: "route \<in> routes \<Longrightarrow> wf_dict rp p \<Longrightarrow> handler route p w = (Inr v, w') \<Longrightarrow> wf_json rp v \<Longrightarrow>
      \<exists>text. http (post_request base route p) w = (Inr (Answered text), w') \<and> loads rp text = Some (sort_keys v)"
    and dropped: "route \<in> routes \<Longrightarrow> wf_dict rp p \<Longrightarrow> handler route p w = (Inl x, w') \<Longrightarrow>
      \<exists>text. http (post_request base route p) w = (Inr (Unreachable text), w')"
begin

lemma post_open: "uses http base rp c \<Longrightarrow> http_post c route p w = (case http (post_request base route p) w of
    (Inl x, w') \<Rightarrow> (Inl x, w') | (Inr ans, w') \<Rightarrow> (read_http_answer rp ans, w'))"
  by (simp add: uses_def http_post_def open_request_def post_request_def seq_def split: prod.splits sum.splits)

lemma post_answered:
  assumes "uses http base rp c" "route \<in> routes" "wf_dict rp p" "handler route p w = (Inr v, w')" "wf_json rp v"
  shows "http_post c route p w = (Inr (sort_keys v), w')"
  using answered [OF assms(2-5)] assms(1) by (auto simp: post_open read_http_answer_def)

lemma post_dropped:
  assumes "uses http base rp c" "route \<in> routes" "wf_dict rp p" "handler route p w = (Inl x, w')"
  shows "\<exists>text. http_post c route p w = (Inr (server_error text), w')"
  using dropped [OF assms(2-4)] assms(1) by (auto simp: post_open read_http_answer_def server_error_def)

lemma post_effect:
  assumes "uses http base rp c" "route \<in> routes" "wf_dict rp p"
    and "\<And>v. fst (handler route p w) = Inr v \<Longrightarrow> wf_json rp v"
  shows "snd (http_post c route p w) = snd (handler route p w)"
proof (cases "handler route p w")
  case (Pair r w')
  then show ?thesis
    using post_answered [OF assms(1-3)] post_dropped [OF assms(1-3)] assms(4)
    by (cases r) (metis fst_conv snd_conv)+
qed

end

section \<open>The gateway behind its POST routes\<close>

text \<open>
  The gateway as an exchange: POST requests under its base address go to its routes; others
  are answered by \<open>rest\<close>.  A reply without success is a refusal, a missing one drops the
  connection, which the client sees as an error with the text \<open>msg\<close>.
\<close>

definition gateway_exchange :: "gw_conf \<Rightarrow> string \<Rightarrow> string \<Rightarrow> gateway http_exchange \<Rightarrow> gateway http_exchange" where
  "gateway_exchange C base msg rest r G =
     (if hr_method r = ''POST'' \<and> prefix base (hr_url r) then
        (case gateway_post C (drop (length base) (hr_url r)) (case hr_body r of None \<Rightarrow> [] | Some b \<Rightarrow> b) G of
           (Inr (Some (code, v)), G') \<Rightarrow>
             (Inr (if code < 400 then Answered (dumps_default (sort_keys v))
                   else Refused (int code) (dumps_default (sort_keys v))), G')
         | (_, G') \<Rightarrow> (Inr (Unreachable msg), G'))
      else rest r G)"

definition gateway_handler :: "gw_conf \<Rightarrow> string \<Rightarrow> dict \<Rightarrow> (json, gateway) step" where
  "gateway_handler C route =
     (if route = ''/tool-call'' then handle_tool_call C
      else if route = ''/security-report'' then handle_security_report C
      else (\<lambda>_. audit_seedboxes C))"

definition gateway_routes :: "string set" where
  "gateway_routes = {''/tool-call'', ''/security-report'', ''/audit/seedboxes''}"

lemma dumps_default_not_empty: "dumps_default (JObj d) \<noteq> []"
  by (simp add: dumps_default_def)

lemma gateway_post_handler:
  assumes "route \<in> gateway_routes" and "wf_dict (float_repr (gc_env C)) p"
  shows "gateway_post C route (dumps_default (JObj p)) G =
    (case gateway_handler C route p G of (Inl x, G') \<Rightarrow> (Inl x, G') | (Inr v, G') \<Rightarrow> (Inr (Some (200, v)), G'))"
  using assms(1) loads_dumps_default [OF assms(2)]
  by (auto simp: gateway_post_def gateway_handler_def gateway_routes_def dumps_default_not_empty seq_def
      split: prod.splits sum.splits)

interpretation gateway_service: json_service "gateway_exchange C base msg rest" base "float_repr (gc_env C)"
  "gateway_handler C" gateway_routes for C base msg rest
proof
  fix route p and w :: gateway and v w'
  assume r: "route \<in> gateway_routes" "wf_dict (float_repr (gc_env C)) p"
  { assume "gateway_handler C route p w = (Inr v, w')" "wf_json (float_repr (gc_env C)) v"
    then show "\<exists>t. gateway_exchange C base msg rest (post_request base route p) w = (Inr (Answered t), w') \<and>
        loads (float_repr (gc_env C)) t = Some (sort_keys v)"
      using loads_dumps_default [OF wf_sort_keys(1)]
      by (auto simp: gateway_exchange_def post_request_def gateway_post_handler [OF r]) }
  { fix x assume "gateway_handler C route p w = (Inl x, w')"
    then show "\<exists>t. gateway_exchange C base msg rest (post_request base route p) w = (Inr (Unreachable t), w')"
      by (auto simp: gateway_exchange_def post_request_def gateway_post_handler [OF r]) }
qed

definition connected :: "gw_conf \<Rightarrow> gateway client \<Rightarrow> bool" where
  "connected C c = (\<exists>msg rest. uses (gateway_exchange C (cl_base_url c) msg rest) (cl_base_url c) (float_repr (gc_env C)) c)"

lemma tool_call_route: "''/tool-call'' \<in> gateway_routes" "gateway_handler C ''/tool-call'' = handle_tool_call C"
  by (simp_all add: gateway_routes_def gateway_handler_def)

lemma tool_request_wf: "wf_dict rp kwargs \<Longrightarrow> wf_json rp payload_id \<Longrightarrow> wf_dict rp (tool_request c name kwargs payload_id source)"
  by (simp add: tool_request_def)

text \<open>
  C37: A tool call through the client has the effect and the answer it has inside the gateway:
  what the handler answers arrives with its keys sorted, and when the handler raises, the
  client answers with an error that is no success and the gateway is as the handler left it.
\<close>

theorem client_call_transparent:
  assumes "connected C c" and "wf_dict (float_repr (gc_env C)) kwargs" and "wf_json (float_repr (gc_env C)) payload_id"
  shows "case handle_tool_call C (tool_request c name kwargs payload_id source) G of
      (Inr v, G') \<Rightarrow> wf_json (float_repr (gc_env C)) v \<longrightarrow>
        client_tool_call c name kwargs payload_id source G = (Inr (sort_keys v), G')
    | (Inl x, G') \<Rightarrow> \<exists>text. client_tool_call c name kwargs payload_id source G = (Inr (server_error text), G')"
proof -
  let ?p = "tool_request c name kwargs payload_id source"
  obtain msg rest where u: "uses (gateway_exchange C (cl_base_url c) msg rest) (cl_base_url c) (float_repr (gc_env C)) c"
    using assms(1) unfolding connected_def by blast
  have p: "wf_dict (float_repr (gc_env C)) ?p" by (rule tool_request_wf [OF assms(2,3)])
  note route = tool_call_route(1) and handler = tool_call_route(2) [of C]
  show ?thesis
    using gateway_service.post_answered [OF u route p, unfolded handler]
      gateway_service.post_dropped [OF u route p, unfolded handler]
    by (auto simp: client_tool_call_def split: prod.splits sum.splits)
qed

definition sample_client :: "gateway client" where
  "sample_client =
     \<lparr>cl_base_url = ''http://g'', cl_agent_id = ''a1'',
      cl_exchange = gateway_exchange sample_conf ''http://g'' [] (\<lambda>_ G. (Inr (Unreachable []), G)),
      cl_float_repr = float_repr (gc_env sample_conf)\<rparr>"

lemma sample_connected: "connected sample_conf sample_client"
  unfolding connected_def uses_def sample_client_def by auto

text \<open>The gateway after a registration, a restart, a donation, an audit and a report.\<close>

definition sample_gateway :: gateway where
  "sample_gateway = gateway_run sample_conf 30 sample_events"

lemma client_call_transparent_witness:
  "case handle_tool_call sample_conf (tool_request sample_client ''search_seedbox_files'' [(''query'', JStr ''x'')] JNull ''openclaw'') sample_gateway of
      (Inr v, G') \<Rightarrow> wf_json (float_repr (gc_env sample_conf)) v \<longrightarrow>
        client_tool_call sample_client ''search_seedbox_files'' [(''query'', JStr ''x'')] JNull ''openclaw'' sample_gateway = (Inr (sort_keys v), G')
    | (Inl x, G') \<Rightarrow> \<exists>text. client_tool_call sample_client ''search_seedbox_files'' [(''query'', JStr ''x'')] JNull ''openclaw'' sample_gateway =
        (Inr (server_error text), G')"
  by (rule client_call_transparent [OF sample_connected]) simp_all

section \<open>A tool the gateway does not list\<close>

text \<open>The records of the gateway, and the number of tools it has executed, are those of \<open>G0\<close>.\<close>

definition untouched :: "gateway \<Rightarrow> gateway \<Rightarrow> bool" where
  "untouched G0 G =
     (gw_registry G = gw_registry G0 \<and> gw_donations G = gw_donations G0 \<and> gw_proofs G = gw_proofs G0 \<and>
      gw_microtasks G = gw_microtasks G0 \<and> gw_files G = gw_files G0 \<and> gw_executed G = gw_executed G0 \<and>
      gw_audits G = gw_audits G0)"

lemma untouched_refl [simp]: "untouched G G"
  by (simp add: untouched_def)

lemma untouched_trans: "untouched A B \<Longrightarrow> untouched B D \<Longrightarrow> untouched A D"
  by (simp add: untouched_def)

lemma keeps_untouched_scan: "keeps (untouched G0) (gw_scan C) (\<lambda>_. True)"
  by (simp add: keeps_def gw_scan_def untouched_def Let_def split: prod.splits)

lemma keeps_untouched_record: "keeps (untouched G0) (gw_record f) (\<lambda>_. True)"
  by (simp add: keeps_def gw_record_def untouched_def split: sum.splits)

lemma keeps_untouched_start: "keeps (untouched G0) (modify start_call) (\<lambda>_. True)"
  by (simp add: keeps_def modify_def start_call_def untouched_def)

lemma keeps_after: "keeps P m Q \<Longrightarrow> (\<And>s. P s \<Longrightarrow> P (f s)) \<Longrightarrow> (\<And>s. n s = m (f s)) \<Longrightarrow> keeps P n Q"
  unfolding keeps_def by metis

definition refusal :: "(string \<Rightarrow> string) \<Rightarrow> json \<Rightarrow> bool" where
  "refusal rp v = (\<exists>d. v = JObj d \<and> wf_dict rp d \<and> jget d ''ok'' = JBool False \<and> jget d ''blocked'' = JBool True)"

lemma refuse_banned_refusal:
  "untouched G (snd (refuse_banned subject_id name G)) \<and>
   (\<forall>v. fst (refuse_banned subject_id name G) = Inr v \<longrightarrow> refusal rp v)"
  by (simp add: refuse_banned_def untouched_def refusal_def reputation_dict_def get_or_def Let_def)

lemma execute_unlisted:
  assumes "map_of (gateway_tools C) (td_tool_name d) = None"
  shows "execute_defended C d G =
    (result_for d False False False ''blocked: tool is not in actor allowlist'' None, G\<lparr>gw_blocked := Suc (gw_blocked G)\<rparr>)"
  using assms
  by (simp add: execute_defended_def hands_execute_def gateway_hands_def log_block_def via_proxy_def result_for_def)

lemma run_unlisted_refusal:
  assumes "gc_mode C = Defended" and "map_of (gateway_tools C) (td_tool_name d) = None"
    and "wf_json rp (td_payload_id d)" and "wf_json rp (td_sender_id d)"
  shows "keeps (untouched G0) (run_decision C subject_id d) (refusal rp)"
proof -
  let ?r = "result_for d False False False ''blocked: tool is not in actor allowlist'' None"
  let ?reply = "\<lambda>G2. JObj [(''ok'', JBool False), (''blocked'', JBool True), (''mode'', JStr (mode_name (gc_mode C))),
      (''agent_id'', JStr subject_id), (''result'', result_dict ?r), (''reputation'', reputation_dict G2 subject_id)]"
  have reply: "refusal rp (?reply G2)" for G2
    using assms(3,4) by (simp add: refusal_def get_or_def result_dict_def result_for_def reputation_dict_def Let_def)
  have recorded: "keeps (untouched G0) (record_result C subject_id d ?r) (\<lambda>_. True)"
    unfolding record_result_def Let_def
    by (rule keeps_seq [where Q = "\<lambda>_. True"])
      (simp_all add: keeps_def [of _ "modify _"] modify_def result_for_def keeps_untouched_record)
  have "keeps (untouched G0) (seq (record_result C subject_id d ?r) (\<lambda>_. seq (gw_scan C) (\<lambda>_ G2. (Inr (?reply G2), G2)))) (refusal rp)"
    by (rule keeps_seq [OF recorded], rule keeps_seq [OF keeps_untouched_scan]) (simp add: keeps_def reply)
  moreover have "untouched G0 G \<Longrightarrow> untouched G0 (G\<lparr>gw_blocked := Suc (gw_blocked G)\<rparr>)" for G
    by (simp add: untouched_def)
  moreover have "run_decision C subject_id d G =
      seq (record_result C subject_id d ?r) (\<lambda>_. seq (gw_scan C) (\<lambda>_ G2. (Inr (?reply G2), G2)))
        (G\<lparr>gw_blocked := Suc (gw_blocked G)\<rparr>)" for G
    by (simp add: run_decision_def assms(1) execute_unlisted [OF assms(2)] result_for_def)
  ultimately show ?thesis by (rule keeps_after)
qed

lemma handle_unlisted_refusal:
  assumes "gc_mode C = Defended" and "map_of (gateway_tools C) (text_or (jget p ''tool_name'') []) = None" and "wf_dict rp p"
  shows "keeps (untouched G0) (handle_tool_call C p) (refusal rp)"
proof -
  let ?name = "text_or (jget p ''tool_name'') []"
  have decided: "keeps (untouched G0) (run_decision C s (tool_decision_for C n p s ?name kwargs)) (refusal rp)" for s n kwargs
    by (rule run_unlisted_refusal [OF assms(1)]) (simp_all add: tool_decision_for_def assms(2) wf_get [OF assms(3)])
  have "keeps (untouched G0) (\<lambda>G. if is_banned (m_reputation (gw_monitor G)) s then refuse_banned s ?name G
      else run_decision C s (tool_decision_for C (gw_tool_calls G) p s ?name kwargs) G) (refusal rp)" for s kwargs
    unfolding keeps_def
  proof (intro allI impI)
    fix G assume G: "untouched G0 G"
    show "untouched G0 (snd (if is_banned (m_reputation (gw_monitor G)) s then refuse_banned s ?name G
          else run_decision C s (tool_decision_for C (gw_tool_calls G) p s ?name kwargs) G)) \<and>
        (\<forall>v. fst (if is_banned (m_reputation (gw_monitor G)) s then refuse_banned s ?name G
          else run_decision C s (tool_decision_for C (gw_tool_calls G) p s ?name kwargs) G) = Inr v \<longrightarrow> refusal rp v)"
    proof (cases "is_banned (m_reputation (gw_monitor G)) s")
      case True
      then show ?thesis using refuse_banned_refusal [of G s ?name rp] untouched_trans [OF G] by simp
    next
      case False
      then show ?thesis using decided [of s "gw_tool_calls G" kwargs] G unfolding keeps_def by simp
    qed
  qed
  then show ?thesis
    unfolding handle_tool_call_def Let_def
    by (intro keeps_seq [OF keeps_untouched_start] keeps_seq [where Q = "\<lambda>_. True"] keeps_raising keeps_untouched_scan) simp_all
qed

lemma sorted_refusal: "refusal rp v \<Longrightarrow> \<exists>d. sort_keys v = JObj d \<and> jget d ''ok'' = JBool False"
proof -
  assume "refusal rp v"
  then obtain d where d: "v = JObj d" "wf_dict rp d" "jget d ''ok'' = JBool False" by (auto simp: refusal_def)
  then have "map_of d ''ok'' = Some (JBool False)" by (simp add: get_or_def split: option.splits)
  moreover have "dict_ok (sort_keys_dict d)" using d(2) by (simp add: dict_ok_sort_keys_dict)
  ultimately show ?thesis using d(1) by (simp add: get_or_def map_of_sort_key map_of_sort_keys_dict)
qed

lemma unlisted_call_refused:
  assumes "gc_mode C = Defended" and "connected C c" and "map_of (gateway_tools C) name = None" and "name \<noteq> []"
    and "wf_dict (float_repr (gc_env C)) kwargs" and "wf_json (float_repr (gc_env C)) payload_id"
  obtains d G' where "client_tool_call c name kwargs payload_id source G = (Inr (JObj d), G')"
    and "jget d ''ok'' = JBool False" and "untouched G G'"
proof -
  let ?rp = "float_repr (gc_env C)" and ?p = "tool_request c name kwargs payload_id source"
  obtain msg rest where u: "uses (gateway_exchange C (cl_base_url c) msg rest) (cl_base_url c) ?rp c"
    using assms(2) unfolding connected_def by blast
  have p: "wf_dict ?rp ?p" by (rule tool_request_wf [OF assms(5,6)])
  have "text_or (jget ?p ''tool_name'') [] = name" using assms(4) by (simp add: tool_request_def text_or_def get_or_def py_str_def)
  then have k: "keeps (untouched G) (handle_tool_call C ?p) (refusal ?rp)"
    using handle_unlisted_refusal [OF assms(1) _ p] assms(3) by simp
  obtain r G' where h: "handle_tool_call C ?p G = (r, G')" by (cases "handle_tool_call C ?p G")
  have same: "untouched G G'" using k h by (auto simp: keeps_def dest: spec [of _ G])
  show ?thesis
  proof (cases r)
    case (Inl x)
    then show ?thesis
      using gateway_service.post_dropped [OF u tool_call_route(1) p, unfolded tool_call_route(2), of G x G'] h same that
      by (auto simp: client_tool_call_def server_error_def get_or_def)
  next
    case (Inr v)
    then have v: "refusal ?rp v" using k h by (auto simp: keeps_def dest: spec [of _ G])
    then have "wf_json ?rp v" by (auto simp: refusal_def)
    then have "client_tool_call c name kwargs payload_id source G = (Inr (sort_keys v), G')"
      using gateway_service.post_answered [OF u tool_call_route(1) p, unfolded tool_call_route(2)] h Inr
      by (simp add: client_tool_call_def)
    then show ?thesis using sorted_refusal [OF v] same that by auto
  qed
qed

lemma offered_probe: "map_of (offered_tools W True) ''delftclaw_run_blocking_probe'' = Some (delftclaw_run_blocking_probe W)"
  by (simp add: offered_tools_def tool_registry_def experiment_registry_def)

lemma probe_unlisted: "map_of (gateway_tools C) ''exfiltrate_private_key'' = None"
  by (simp add: gateway_tools_def default_tools_def)

text \<open>
  C38: The blocking probe measures what it says: whatever arguments it is called with, a
  defended gateway answers a call that is no success, executes no tool, and keeps its registry,
  donations, proofs, microtasks, files and audits, banned caller or not, log intact or not.
\<close>

theorem probe_never_runs:
  assumes "gc_mode C = Defended" and "connected C (oc_client W)" and "wf_dict (float_repr (gc_env C)) args"
  shows "\<exists>d G'. server_call_tool W True ''delftclaw_run_blocking_probe'' args G = (JObj d, G') \<and>
    jget d ''ok'' = JBool False \<and> untouched G G'"
proof (cases "bind_call (tf_params (delftclaw_run_blocking_probe W)) args")
  case (Inl x)
  then have "x = TypeError" by (auto simp: bind_call_def split: if_splits)
  then show ?thesis using Inl
    by (simp add: server_call_tool_def offered_probe call_fn_def seq_def server_reply_def server_error_def get_or_def)
next
  case (Inr b)
  have b: "jget b k = get_or args k (JStr s)" if "(k, Some (JStr s)) \<in> set (tf_params (delftclaw_run_blocking_probe W))" for k s
    using Inr that
    by (auto simp: bind_call_def delftclaw_run_blocking_probe_def get_or_def split: if_splits option.splits)
  have wf: "wf_json (float_repr (gc_env C)) (jget b k)" if "k \<in> {''payload'', ''payload_id''}" for k
    using that b wf_get_str [OF assms(3)] by (auto simp: delftclaw_run_blocking_probe_def)
  obtain d G' where call: "client_tool_call (oc_client W) ''exfiltrate_private_key'' [(''payload'', jget b ''payload'')]
      (jget b ''payload_id'') ''openclaw-blocking-probe'' G = (Inr (JObj d), G')"
    and reply: "jget d ''ok'' = JBool False" "untouched G G'"
    by (rule unlisted_call_refused [OF assms(1,2) probe_unlisted, of "[(''payload'', jget b ''payload'')]" "jget b ''payload_id''" "''openclaw-blocking-probe''" G])
      (use wf in simp_all)
  have "tf_run (delftclaw_run_blocking_probe W) b G = (Inr (JObj d), G')"
    using call by (simp add: delftclaw_run_blocking_probe_def)
  then have "call_fn (delftclaw_run_blocking_probe W) args G = (Inr (JObj d), G')"
    using Inr by (simp add: call_fn_def seq_def)
  then show ?thesis using reply by (simp add: server_call_tool_def server_reply_def offered_probe)
qed

definition sample_tool_surroundings :: "gateway surroundings" where
  "sample_tool_surroundings =
     \<lparr>oc_client = sample_client, oc_service = (\<lambda>_ _. raise (KeyError [])), oc_plan = (\<lambda>_. raise OSError),
      oc_ftrunc = (\<lambda>_. None), oc_exn_text = (\<lambda>_. [])\<rparr>"

lemma probe_never_runs_witness:
  "\<exists>d G'. server_call_tool sample_tool_surroundings True ''delftclaw_run_blocking_probe'' [] sample_gateway = (JObj d, G') \<and>
    jget d ''ok'' = JBool False \<and> untouched sample_gateway G'"
  by (rule probe_never_runs [of sample_conf]) (simp_all add: sample_conf_def sample_tool_surroundings_def sample_connected [unfolded sample_conf_def])

section \<open>The manifest\<close>

text \<open>A schema names the parameters of the function, requires those without a default, and announces its defaults.\<close>

definition default_right :: "openclaw_tool_spec \<Rightarrow> string \<times> json option \<Rightarrow> bool" where
  "default_right s p =
     (case map_of (as_obj (jget (schema_props (om_parameters s)) (fst p))) ''default'' of
        None \<Rightarrow> True | Some v \<Rightarrow> snd p = Some v)"

definition describes :: "openclaw_tool_spec \<Rightarrow> string \<times> 'w tool_fn \<Rightarrow> bool" where
  "describes s t =
     (om_name s = fst t \<and>
      set (map fst (schema_props (om_parameters s))) = set (map fst (tf_params (snd t))) \<and>
      schema_required (om_parameters s) = map JStr (sig_required (tf_params (snd t))) \<and>
      list_all (default_right s) (tf_params (snd t)))"

lemma registry_described: "list_all2 describes (openclaw_specs False) (tool_registry W)"
  by code_simp

lemma probe_described: "describes manifest_run_blocking_probe (''delftclaw_run_blocking_probe'', delftclaw_run_blocking_probe W)"
  by code_simp

lemma specs_split: "openclaw_specs e = openclaw_specs False @ (if e then [manifest_run_blocking_probe] else [])"
  by (simp add: openclaw_specs_def)

lemma names_in_order: "map fst (tool_registry W) = map om_name (openclaw_specs False)"
  by code_simp

lemma names_offered: "map fst (offered_tools W e) = map om_name (openclaw_specs e)"
  and spec_names_distinct: "distinct (map om_name (openclaw_specs e))"
proof -
  have "om_name manifest_run_blocking_probe = ''delftclaw_run_blocking_probe''" by code_simp
  then show "map fst (offered_tools W e) = map om_name (openclaw_specs e)"
    by (subst specs_split) (simp add: offered_tools_def experiment_registry_def names_in_order)
  have "distinct (map om_name (openclaw_specs True))" by code_simp
  then show "distinct (map om_name (openclaw_specs e))" by (cases e) (simp_all add: openclaw_specs_def)
qed

lemma manifest_describes: "list_all2 describes (openclaw_specs e) (offered_tools W e)"
  unfolding offered_tools_def experiment_registry_def
  by (subst specs_split, rule list_all2_appendI [OF registry_described]) (simp add: probe_described)

text \<open>
  The manifest and the tools agree, with and without the experiments: the same names in the
  same order, none twice, and every schema names exactly the parameters of its function,
  requires exactly those without a default, and announces no default but the function's.
\<close>

lemma manifest_describes_tools:
  "list_all2 describes (openclaw_specs e) (offered_tools W e) \<and> distinct (map fst (offered_tools W e)) \<and>
   server_manifest e = JObj [(''server'', JStr ''delftclaw-security''), (''tools'', JList (map (JStr \<circ> fst) (offered_tools W e)))]"
proof -
  have "distinct (map fst (offered_tools W e))" using names_offered [of W e] spec_names_distinct [of e] by simp
  moreover have "map (\<lambda>s. jget (as_dict s) ''name'') (tool_manifest e) = map (JStr \<circ> om_name) (openclaw_specs e)"
    by (simp add: tool_manifest_def spec_dict_def get_or_def)
  ultimately show ?thesis using names_offered [of W e] manifest_describes by (simp add: server_manifest_def flip: map_map)
qed

section \<open>Arguments\<close>

definition arguments_fit :: "openclaw_tool_spec \<Rightarrow> dict \<Rightarrow> bool" where
  "arguments_fit s args =
     (set (schema_required (om_parameters s)) \<subseteq> JStr ` fst ` set args \<and>
      fst ` set args \<subseteq> set (map fst (schema_props (om_parameters s))))"

lemma described_binding:
  assumes "describes s (name, t)"
  shows "arguments_fit s args \<longleftrightarrow> (\<exists>b. bind_call (tf_params t) args = Inr b)"
    and "\<not> arguments_fit s args \<Longrightarrow> bind_call (tf_params t) args = Inl TypeError"
proof -
  have keys: "set (map fst (schema_props (om_parameters s))) = set (map fst (tf_params t))"
    "set (schema_required (om_parameters s)) = JStr ` set (sig_required (tf_params t))"
    using assms by (auto simp: describes_def)
  have "arguments_fit s args \<longleftrightarrow> list_all (\<lambda>k. has_key args k) (sig_required (tf_params t)) \<and>
      list_all (\<lambda>(k, v). k \<in> set (map fst (tf_params t))) args"
    unfolding arguments_fit_def keys by (force simp: list_all_iff has_key_def map_of_eq_None_iff)
  then show "arguments_fit s args \<longleftrightarrow> (\<exists>b. bind_call (tf_params t) args = Inr b)"
    and "\<not> arguments_fit s args \<Longrightarrow> bind_call (tf_params t) args = Inl TypeError"
    by (auto simp: bind_call_def)
qed

text \<open>
  The tool server lets a call through exactly when its arguments fit the manifest: all the
  required keys and no unknown one.  Any other call, and a call of a tool that is not offered,
  is answered with an error and nothing is done.
\<close>

lemma server_checks_arguments:
  assumes "s \<in> set (openclaw_specs e)"
  shows "(\<not> arguments_fit s args \<longrightarrow> server_call_tool W e (om_name s) args w =
      (server_error (''invalid arguments for '' @ om_name s @ '': '' @ oc_exn_text W TypeError), w)) \<and>
    (arguments_fit s args \<longrightarrow> (\<exists>t b. (om_name s, t) \<in> set (offered_tools W e) \<and> bind_call (tf_params t) args = Inr b \<and>
      server_call_tool W e (om_name s) args w = server_reply W (om_name s) (tf_run t b w))) \<and>
    (name \<notin> om_name ` set (openclaw_specs e) \<longrightarrow>
      server_call_tool W e name args w = (server_error (''unknown tool: '' @ name), w))"
proof -
  obtain p where p: "p \<in> set (offered_tools W e)" "describes s p"
    using manifest_describes [of e W] assms by (metis list_all2_conv_all_nth in_set_conv_nth nth_mem)
  have "om_name s = fst p" using p(2) by (simp add: describes_def)
  with p obtain t where t: "(om_name s, t) \<in> set (offered_tools W e)" "describes s (om_name s, t)"
    by (metis prod.collapse)
  have "map_of (offered_tools W e) (om_name s) = Some t"
    using t(1) names_offered [of W e] spec_names_distinct [of e] by simp
  then have call: "server_call_tool W e (om_name s) args w = server_reply W (om_name s) (call_fn t args w)"
    by (simp add: server_call_tool_def)
  have "server_call_tool W e (om_name s) args w =
      (server_error (''invalid arguments for '' @ om_name s @ '': '' @ oc_exn_text W TypeError), w)" if "\<not> arguments_fit s args"
    unfolding call using described_binding(2) [OF t(2) that] by (simp add: call_fn_def seq_def server_reply_def)
  moreover have "\<exists>t b. (om_name s, t) \<in> set (offered_tools W e) \<and> bind_call (tf_params t) args = Inr b \<and>
      server_call_tool W e (om_name s) args w = server_reply W (om_name s) (tf_run t b w)" if fit: "arguments_fit s args"
  proof -
    obtain b where "bind_call (tf_params t) args = Inr b" using described_binding(1) [OF t(2)] fit by blast
    then show ?thesis unfolding call using t(1) by (intro exI [of _ t] exI [of _ b]) (simp add: call_fn_def seq_def)
  qed
  moreover have "server_call_tool W e name args w = (server_error (''unknown tool: '' @ name), w)"
    if "name \<notin> om_name ` set (openclaw_specs e)"
  proof -
    have "map_of (offered_tools W e) name = None"
      using that unfolding map_of_eq_None_iff list.set_map [symmetric] names_offered .
    then show ?thesis by (simp add: server_call_tool_def)
  qed
  ultimately show ?thesis by blast
qed

lemma server_checks_arguments_witness:
  "server_call_tool sample_tool_surroundings False ''delftclaw_send_message'' [(''recipient'', JStr ''b'')] G =
     (server_error ''invalid arguments for delftclaw_send_message: '', G)"
proof -
  have s: "manifest_send_message \<in> set (openclaw_specs False)" by (simp add: openclaw_specs_def)
  have n: "om_name manifest_send_message = ''delftclaw_send_message''" by code_simp
  have "schema_required (om_parameters manifest_send_message) = [JStr ''recipient'', JStr ''message'']" by code_simp
  then have "\<not> arguments_fit manifest_send_message [(''recipient'', JStr ''b'')]" by (simp add: arguments_fit_def)
  then have "server_call_tool sample_tool_surroundings False (om_name manifest_send_message) [(''recipient'', JStr ''b'')] G =
      (server_error (''invalid arguments for '' @ om_name manifest_send_message @ '': '' @ oc_exn_text sample_tool_surroundings TypeError), G)"
    by (rule mp [OF conjunct1 [OF server_checks_arguments [OF s]]])
  then show ?thesis unfolding n by (simp add: sample_tool_surroundings_def)
qed

end
