(* ===== verification/Spec2Isabelle.thy ===== *)
theory Spec2Isabelle
  imports Pull_Loop_Spec Community_State_Spec Manifest_Spec Append_Log Accountability_Spec Claw_Service_Spec
    Overlay_Registry_Spec Gateway_Spec Seedbox_Node_Spec Community_Tools_Spec Tool_Specs Overlay_Tools_Spec Agent_Loop_Spec
    Stop_Predicates_Spec Agent_Watchdog Scenario_Spec Scenario_Boot_Spec Openclaw_Tools_Spec
begin

text \<open>
  A verification library for DelftClaw: agents that run a community of seedboxes without a
  custodian, keep signed logs of what they do, replicate each other's logs, load network
  protocols written as documents, and are driven by language models under a watchdog.  All
  paths below are under src/.  A theory \<open>X\<close> holds definitions translated from the source,
  \<open>X_Spec\<close> (and \<open>X_Proofs\<close>, \<open>X_Steps\<close>, \<open>X_Replay\<close>, \<open>X_Appends\<close>) what is proved about them.

  \<^bold>\<open>The parts and how they interact.\<close>

  \<^item> The signed log (redteam/primitives) is a file of JSON lines chained by hashes and signed by
    the reporter.  Every other part writes its decisions into it or computes its state from it.
  \<^item> The server serves a log over HTTP, the pull loop copies logs of peers into the peer cache.
  \<^item> The community view of an agent (agent/community_state.py) is a fold over the entries of the
    agent's own log and of the cached logs of others: members, treasury, purchases, seedboxes.
  \<^item> The tools of an agent (agent/tools.py) are what a language model may call: they check a
    request against the community view, write an entry, and send messages through the bootstrap
    community (communication/community.py), which also admits peers and exchanges documents.
  \<^item> Documents are network manifests and overlay descriptors; a descriptor is parsed, compiled by
    a language model, checked by a sandbox and a structural contract, and kept in a registry.
  \<^item> The tool loop (agent/loop.py) drives a model over the tools; the watchdog (deploy) drives the
    loop turn by turn, looks at a snapshot of the agent, and stops at a predicate or a limit.
    What it runs with comes from a scenario manifest and a mission descriptor.
  \<^item> The security experiments (security/) have their own log, ledger of seedboxes, reputation
    scan, accountability monitor, privilege separation and a gateway that joins them; the claw
    community (claw_community/) is a separate service with a JSON store.

  \<^bold>\<open>Foundations.\<close>  \<open>Prelude\<close> has Python's exceptions as the datatype \<open>pyexn\<close>, results as
  \<open>pyexn + 'a\<close> with their sequencing, ordered dictionaries as association lists, and operations on a
  state that may raise and keep the changes made before the exception.
  \<open>PyText\<close> is the part of \<open>str\<close>, \<open>bytes\<close> and \<open>re\<close> that is used.  \<open>Json\<close> is the value type with
  \<open>json.dumps\<close> and a parser with fuel: \<open>2 * length text + 2\<close> steps, enough because every step
  that does not consume a character is followed by one that does; \<open>Json_Roundtrip\<close> proves that
  what is dumped is read back.  \<open>Text_File\<close> has files with universal newlines.  \<open>Crypto_Env\<close>
  has the record \<open>env\<close> of what lies outside the sources, and identities.

  \<^bold>\<open>Logs and replication.\<close>  \<open>Hash_Chain\<close> states the contract of a hash-chained log as a locale
  and proves once that the last hash fixes the contents; \<open>Append_Log\<close> (append_log.py) and
  \<open>Signed_Log_Spec\<close> interpret it.  \<open>Signed_Log\<close> models signed_log.py: the builders, the checks,
  the appends with the cached head and its stat signature, the verifiers; \<open>Signed_Log_Spec\<close> shows
  that appends keep a log verified, that refused ones write nothing, that every head lookup is
  exact and leaves a coherent cache when several instances append to one file and look up its
  head one after another (the inductive \<open>log_run\<close>), and that the verifiers of \<open>Verify_Cli\<close>
  (verify.py) agree.  The lock is one per instance, so operations of two processes may overlap;
  \<open>overlapping_appends_break\<close> and \<open>late_write_masked\<close> show what that does.  \<open>Peer_Log\<close>
  (peer_log.py) refines the locale \<open>entry_store\<close> while its caches agree with its files; for any
  other contents of the caches it is the store whose duplicate test is the cached hashes.
  \<open>Server\<close> (server.py, peer_transport.py) and \<open>Pull_Loop\<close> (pull_loop.py, locales \<open>peer_chain\<close> and
  \<open>replication\<close>) are interpreted on each other in \<open>Pull_Loop_Spec\<close>: pulling from a server with a
  verified log copies it and ends at its head.

  \<^bold>\<open>Documents.\<close>  \<open>Manifest\<close> (protocol/manifest.py), \<open>Overlay_Parser\<close> and \<open>Overlay_Compiler\<close>
  (compiler.py), \<open>Sandbox\<close> (sandbox.py), \<open>Overlay_Registry\<close> (registry.py): accepted documents
  satisfy the ranges and formats the parsers check (what the schema documents ask beyond that is
  shown to be accepted: \<open>min_sats_unbounded\<close>, \<open>lax_peers_parse\<close>, \<open>lax_headings_accepted\<close>), the
  sandbox accepts exactly the sources without a forbidden node, over lists written out apart from
  those of the code (\<open>beyond_schema_accepted\<close> has what they let through), a compiled overlay is safe and passes its test vectors, and the registry holds
  one instance per id in every state of the inductive \<open>registry_reach\<close>.

  \<^bold>\<open>The agent.\<close>  \<open>Community_State\<close> (community_state.py): the treasury and membership laws of
  every replay, and its independence of order and repetition.  \<open>Seedbox_Node\<close> (community.py) with
  \<open>Donation_Verifier\<close>: what a resolved future holds and who is admitted, whatever peers send.
  \<open>Wallet\<close>, \<open>Community_Agent\<close> (runtime.py), \<open>Community_Tools\<close>, \<open>Overlay_Tools\<close> and
  \<open>Tool_Specs\<close> (tools.py): for an agent that alone writes its files the memoised community
  state is invisible; donations and purchases that pass the local checks have the promised
  effect on the replay when the agent's clock is ahead of every entry in its logs
  (\<open>late_clock_expels_member\<close> shows that it takes that), and gatekeepers admit members only.
  The locale \<open>agent_order\<close> has what an agent keeps in order, and lifts it to its tools and its
  runs; it is interpreted for an agent alone (\<open>kept\<close>) and, in \<open>Shared_Logs\<close>, for an agent among
  the others of a site, processes of one identity on the same log files (\<open>shared\<close>).  \<open>Agent_Loop\<close> (loop.py): a run asks the model a bounded number of times;
  the locale \<open>tool_surface\<close> lifts any invariant of the tools to the loop.

  \<^bold>\<open>The watchdog.\<close>  \<open>Stop_Predicates\<close>, \<open>Turn_Builder\<close>, \<open>Mission\<close>, \<open>Scenario\<close>,
  \<open>State_Snapshot\<close> and \<open>Watchdog\<close> model the files of deploy/ of these names.  The loop of the
  watchdog has no bound in its text and is a \<open>partial_function (option)\<close>, where \<open>None\<close> is a run
  that does not end; it is proved to end for every model, world and clock.  Its exit code is
  explained by its records, and \<open>Agent_Watchdog\<close> interprets the locale \<open>watched_world\<close> on the site
  of the watchdog's agent: the service and other processes act on the shared files between its
  steps, in OpenClaw turns and while a tool waits, and the tools are those the environment
  chooses, the security demo's (security_agent_tools.py) included.  However a run ends, the
  files are in order; nothing is claimed there of the caches of foreign logs and of the memo,
  which go stale when another process writes.  \<open>Boot_Config\<close> and
  \<open>Scenario_Boot\<close> (scenario_boot.py) have the settings, the files and the manifest a scenario is
  booted with, and the boot itself as a trace of commands and tool calls: the manifest is one that
  \<open>Manifest\<close> accepts, and every agent is ready before any watchdog is started.

  \<^bold>\<open>Security and the claw community.\<close>  \<open>Reputation\<close>, \<open>Accountability\<close>, \<open>Seedbox\<close>,
  \<open>Privilege\<close> (security/subq1_preventative and subq2_accountability) and the gateway in
  \<open>Gateway\<close> and \<open>Gateway_Requests\<close> (security/integration/gateway.py): the scan charges and expels
  as documented, the trap experiment stays within the prediction, the actor runs permitted tools
  only, and a gateway keeps its invariant and restores its state from its log.  \<open>Gateway_Client\<close>
  (client.py) and \<open>Openclaw_Tools\<close> (openclaw_tools.py, mcp_server.py,
  openclaw_tool_entrypoint.py) are the way to it from OpenClaw: the locale \<open>json_service\<close>, which
  the gateway's POST routes interpret, shows that a call through the client is a call of the
  handler, the manifest describes the tools, and the blocking probe never runs anything.
  \<open>Community_Store\<close> and \<open>Claw_Service\<close> (claw_community/): the accounting of every reachable
  store, rebalancing within capacity, and the round trip of the store.

  \<^bold>\<open>Parameters.\<close>  Code that is not in the repository is an argument: SHA-256, SHA-1 and
  Ed25519; the text, order and truncation of floats; clocks, as streams of values; path joining,
  files, the environment and CSV; Python's parser and interpreter; the language model and the
  HTTP exchange; the IPv8 serializer, msgpack and UTF-8 decoders; texts of exceptions; random
  choice; the transaction service; the value a YAML text loads to.  What a theorem relies on is
  a hypothesis of its own: digests that differ on the contents at hand, a signature that the
  verifier accepts, a float text that is read back.  Each has a witness on concrete functions.

  \<^bold>\<open>Bounds of the model.\<close>  Strings are lists of characters below code point 256, so the long
  dashes of a few fixed texts are written as hyphens.  Dictionaries have text keys.  Integers
  are unbounded as in Python; reading one from a text has Python's limit of 4300 digits, writing one
  does not; amounts given as
  floats and the rounding of durations are outside the model.  An operation is one step: locks,
  fsync and the scheduling of tasks are left out, and where a coroutine awaits, the code before
  and after the await are two operations, with any others in between.

  \<^bold>\<open>Not modelled.\<close>  The framework routing of FastAPI and Pydantic, command-line parsing, log
  lines and printing; the BitTorrent service and the tools that only call it; the addresses
  shown by \<open>peers_list\<close>; key derivation and the bitcoinlib wallet, by third-party libraries;
  callbacks of offers and introductions that no part of the program sets; decisions of the
  planner given as dictionaries; the time limit of a turn and the wiping of session directories;
  the demo and trace scripts, MCP servers and provisioning code, which consist of processes,
  sockets and files; and the statistics of security/subq3_integrity, which compute
  with floating-point numbers.
\<close>

end
